(* ===== verification/DSP_Prelude.thy ===== *)
theory DSP_Prelude
  imports Main "HOL-Library.Word"
begin

text \<open>
  Prelude of the development: the machine integer types of \<open>Common/CommonTypes.h\<close>, arrays, the
  16-bit lanes of the C unions of \<open>DSPCore.h\<close>, fields of an instruction word, and the generic
  lemmas on words that the component theories share.  C's \<open>u64\<close> and \<open>s64\<close> are both a
  \<open>64 word\<close>; a signed comparison or a signed shift is written with \<open>sint\<close> or
  \<open>signed_drop_bit\<close>, a sign extending cast with \<open>scast\<close>, a truncating or zero extending cast
  with \<open>ucast\<close>.  A C array is a function from its index; every index the code computes is a
  masked field of the instruction (\<open>fld_less\<close> bounds it) or a register number of a
  \<open>switch\<close>.
\<close>

unbundle bit_operations_syntax

type_synonym u8 = "8 word"
type_synonym u16 = "16 word"
type_synonym u32 = "32 word"
type_synonym u64 = "64 word"
type_synonym s8 = "8 word"
type_synonym s16 = "16 word"
type_synonym s32 = "32 word"
type_synonym s64 = "64 word"
type_synonym 'a array = "nat \<Rightarrow> 'a"

named_theorems frame_simps
  \<open>what an operation leaves unchanged\<close>
named_theorems dsp_defs
  \<open>definitions of the interpreter functions\<close>
named_theorems acc_simps
  \<open>values read back from accumulators and products\<close>

section \<open>Instruction fields and lanes\<close>

text \<open>\<open>(opc >> k) & m\<close>, used as an index.\<close>

definition fld :: "u16 \<Rightarrow> nat \<Rightarrow> u16 \<Rightarrow> nat" where
  "fld opc k m = unat (drop_bit k opc AND m)"

lemma fld_le: "fld opc k m \<le> unat m"
  unfolding fld_def by (rule word_le_nat_alt [THEN iffD1]) (rule word_and_le1)

lemma fld_less: "unat m < n \<Longrightarrow> fld opc k m < n"
  using fld_le [of opc k m] by simp

lemma fld_1 [simp]: "fld opc k 1 < 2"
  by (rule fld_less) simp

lemma fld_3 [simp]: "fld opc k 3 < 4"
  by (rule fld_less) simp

lemma fld_7 [simp]: "fld opc k 7 < 8"
  by (rule fld_less) simp

lemma fld_31 [simp]: "fld opc k 0x1F < 32"
  by (rule fld_less) simp

lemma fld_1_cases: "fld opc k 1 = 0 \<or> fld opc k 1 = 1"
  using fld_1 [of opc k] by linarith

text \<open>The \<open>k\<close>-th 16-bit member of a little endian union.\<close>

definition lane :: "nat \<Rightarrow> 'a::len word \<Rightarrow> u16" where
  "lane k w = ucast (drop_bit (16 * k) w)"

definition set_lane :: "nat \<Rightarrow> u16 \<Rightarrow> 'a::len word \<Rightarrow> 'a word" where
  "set_lane k v w = (w AND NOT (push_bit (16 * k) (mask 16))) OR push_bit (16 * k) (ucast v)"

lemma bit_lane: "bit (lane k (w :: 'a::len word)) n \<longleftrightarrow> n < 16 \<and> bit w (16 * k + n)"
  by (auto simp: lane_def bit_simps dest: bit_imp_le_length)

lemma bit_set_lane:
  "bit (set_lane k v (w :: 'a::len word)) n \<longleftrightarrow>
     n < LENGTH('a) \<and> (if 16 * k \<le> n \<and> n < 16 * k + 16 then bit v (n - 16 * k) else bit w n)"
  by (auto simp: set_lane_def bit_simps dest: bit_imp_le_length)

lemma lane_set_lane_same [simp]:
  "16 * k + 16 \<le> LENGTH('a) \<Longrightarrow> lane k (set_lane k v (w :: 'a::len word)) = v"
  by (rule bit_word_eqI) (auto simp: bit_lane bit_set_lane)

lemma lane_set_lane_other [simp]:
  "j \<noteq> k \<Longrightarrow> lane j (set_lane k v (w :: 'a::len word)) = lane j w"
  by (rule bit_word_eqI) (auto simp: bit_lane bit_set_lane dest: bit_imp_le_length)

lemma unat_and_mask: "unat ((x :: 'a::len word) AND mask n) = unat x mod 2 ^ n"
  by (metis take_bit_eq_mask take_bit_eq_mod unsigned_take_bit_eq)

lemma and_mask_self: "unat (x :: 'a::len word) < 2 ^ n \<Longrightarrow> x AND mask n = x"
  by (metis unat_and_mask mod_less word_unat_eq_iff)

lemma bit_less_of_unat: "unat (x :: 'a::len word) < 2 ^ n \<Longrightarrow> bit x i \<Longrightarrow> i < n"
  by (metis and_mask_self bit_and_iff bit_mask_iff)

text \<open>Bits of the literal masks the code uses.\<close>

lemma bit_mask_word: "bit (mask m :: 'a::len word) n \<longleftrightarrow> n < m \<and> n < LENGTH('a)"
  by (simp add: bit_mask_iff) auto

lemma bit_ones_numerals:
  "bit (0x7 :: 'a::len word) n \<longleftrightarrow> n < 3 \<and> n < LENGTH('a)"
  "bit (0xF :: 'a::len word) n \<longleftrightarrow> n < 4 \<and> n < LENGTH('a)"
  "bit (0x1F :: 'a::len word) n \<longleftrightarrow> n < 5 \<and> n < LENGTH('a)"
  "bit (0x3F :: 'a::len word) n \<longleftrightarrow> n < 6 \<and> n < LENGTH('a)"
  "bit (0xFF :: 'a::len word) n \<longleftrightarrow> n < 8 \<and> n < LENGTH('a)"
  "bit (0xFFFF :: 'a::len word) n \<longleftrightarrow> n < 16 \<and> n < LENGTH('a)"
  "bit (0xFFFFFFFFFF :: 'a::len word) n \<longleftrightarrow> n < 40 \<and> n < LENGTH('a)"
  using bit_mask_word [of 3 n, where 'a = 'a] bit_mask_word [of 4 n, where 'a = 'a]
    bit_mask_word [of 5 n, where 'a = 'a] bit_mask_word [of 6 n, where 'a = 'a]
    bit_mask_word [of 8 n, where 'a = 'a] bit_mask_word [of 16 n, where 'a = 'a]
    bit_mask_word [of 40 n, where 'a = 'a]
  by (simp_all add: mask_eq_exp_minus_1)

lemma bit_ones_int:
  "bit (0x7 :: int) n \<longleftrightarrow> n < 3"
  "bit (0xF :: int) n \<longleftrightarrow> n < 4"
  "bit (0x1F :: int) n \<longleftrightarrow> n < 5"
  "bit (0x3F :: int) n \<longleftrightarrow> n < 6"
  "bit (0xFF :: int) n \<longleftrightarrow> n < 8"
  "bit (0xFFFF :: int) n \<longleftrightarrow> n < 16"
  "bit (0xFFFFFFFFFF :: int) n \<longleftrightarrow> n < 40"
  using bit_mask_iff [of 3 n, where 'a = int] bit_mask_iff [of 4 n, where 'a = int]
    bit_mask_iff [of 5 n, where 'a = int] bit_mask_iff [of 6 n, where 'a = int]
    bit_mask_iff [of 8 n, where 'a = int] bit_mask_iff [of 16 n, where 'a = int]
    bit_mask_iff [of 40 n, where 'a = int]
  by (simp_all add: mask_eq_exp_minus_1)

lemmas bit_ones = bit_ones_numerals bit_ones_int

text \<open>A 16-bit value split into its bytes.\<close>

lemma byte_pair:
  "push_bit 8 (ucast (ucast (drop_bit 8 v) :: u8)) OR ucast (ucast (v AND 0xFF) :: u8) = (v :: u16)"
  by (rule bit_word_eqI) (auto simp: bit_simps bit_ones)

section \<open>Shared definitions of the program\<close>

text \<open>\<open>Common/Swap.h\<close> and the address masks of \<open>HW/Memmap.h\<close>.\<close>

definition swap16 :: "u16 \<Rightarrow> u16" where
  "swap16 v = drop_bit 8 v OR push_bit 8 v"

definition swap32 :: "u32 \<Rightarrow> u32" where
  "swap32 v = push_bit 16 (ucast (swap16 (ucast v))) OR ucast (swap16 (ucast (drop_bit 16 v)))"

definition EXRAM_MASK :: u32 where "EXRAM_MASK = 0x03FFFFFF"
definition RAM_MASK :: u32 where "RAM_MASK = 0x01FFFFFF"

section \<open>Signed and unsigned readings of a word\<close>

lemma mod_signed:
  assumes "- M \<le> k" and "k < (M :: int)"
  shows "k mod M = (if k < 0 then k + M else k)"
proof (cases "k < 0")
  case True
  have "k mod M = (k + M) mod M"
    by simp
  also have "\<dots> = k + M"
    using True assms by (intro mod_pos_pos_trivial) simp_all
  finally show ?thesis
    using True by simp
qed (use assms in simp)

lemma uint_sint_eq:
  "uint (x :: 'a::len word) = (if sint x < 0 then sint x + 2 ^ LENGTH('a) else sint x)"
proof -
  have "uint x = take_bit LENGTH('a) (sint x)"
    using uint_sint [of x] by simp
  also have "\<dots> = sint x mod 2 ^ LENGTH('a)"
    by (rule take_bit_eq_mod)
  also have "\<dots> = (if sint x < 0 then sint x + 2 ^ LENGTH('a) else sint x)"
  proof (rule mod_signed)
    have "(2 :: int) ^ (LENGTH('a) - Suc 0) \<le> 2 ^ LENGTH('a)"
      by (rule power_increasing) simp_all
    then show "- (2 ^ LENGTH('a)) \<le> sint x" "sint x < 2 ^ LENGTH('a)"
      using sint_range_size [of x] unfolding word_size by linarith+
  qed
  finally show ?thesis .
qed

lemma sint_scast_up: "LENGTH('a) \<le> LENGTH('b) \<Longrightarrow> sint (scast (w :: 'a::len word) :: 'b::len word) = sint w"
  by transfer (simp add: signed_take_bit_signed_take_bit min_def)

lemma sint_ucast_up: "LENGTH('a) < LENGTH('b) \<Longrightarrow> sint (ucast (w :: 'a::len word) :: 'b::len word) = uint w"
  by transfer (simp add: signed_take_bit_take_bit)

lemma sint_neg_bit: "sint (w :: 'a::len word) < 0 \<longleftrightarrow> bit w (LENGTH('a) - 1)"
  using bit_last_iff [of w] by simp

end
