(* ===== verification/DSP_Tables.thy ===== *)
theory DSP_Tables
  imports DSP_Prelude
begin

text \<open>
  The instruction tables of \<open>Core/DSP/DSPTables.h\<close> and \<open>DSPTables.cpp\<close>: the template of an
  opcode, the 214 rows of \<open>s_opcodes\<close>, the 25 rows of \<open>s_opcodes_ext\<close>, the search for the first
  matching row, and the loops of \<open>InitInstructionTable\<close> that tabulate it.  The
  \<open>intFunc\<close> pointer of a row is a constructor named after the interpreter function, grouped by
  the source file of the function (the functions of \<open>DSPIntArithmetic.cpp\<close> in three groups); the
  theory \<open>DSP_Interpreter\<close> gives each constructor its function.  The JIT pointer of a row is left
  out.
\<close>

section \<open>Templates\<close>

datatype logic_fn =
    F_clr | F_clrl | F_andcf | F_andf | F_tst | F_tstaxh | F_cmp | F_cmpar | F_cmpi | F_cmpis | F_xorr | F_andr | F_orr | F_andc | F_orc | F_xorc | F_notc | F_xori | F_andi | F_ori

datatype arith_fn =
    F_addr | F_addax | F_add | F_addp | F_addaxl | F_addi | F_addis | F_incm | F_inc | F_subr | F_subax | F_sub | F_subp | F_decm | F_dec | F_neg | F_abs | F_movr | F_movax | F_mov

datatype shift_fn =
    F_lsl16 | F_lsr16 | F_asr16 | F_lsl | F_lsr | F_asl | F_asr | F_lsrn | F_asrn | F_lsrnrx | F_asrnrx | F_lsrnr | F_asrnr

datatype mult_fn =
    F_clrp | F_tstprod | F_movp | F_movnp | F_movpz | F_addpaxz | F_mulaxh | F_mul | F_mulac | F_mulmv | F_mulmvz | F_mulx | F_mulxac | F_mulxmv | F_mulxmvz | F_mulc | F_mulcac | F_mulcmv | F_mulcmvz | F_maddx | F_msubx | F_maddc | F_msubc | F_madd | F_msub

datatype branch_fn =
    F_call | F_callr | F_ifcc | F_jcc | F_jmprcc | F_ret | F_rti | F_halt | F_loop | F_loopi | F_bloop | F_bloopi

datatype ldst_fn =
    F_srs | F_lrs | F_lr | F_sr | F_si | F_lrr | F_lrrd | F_lrri | F_lrrn | F_srr | F_srrd | F_srri | F_srrn | F_ilrr | F_ilrrd | F_ilrri | F_ilrrn

datatype misc_fn =
    F_mrr | F_lri | F_lris | F_nx | F_dar | F_iar | F_subarn | F_addarn | F_sbclr | F_sbset | F_srbith | F_nop

datatype ext_fn =
    X_dr | X_ir | X_nr | X_mv | X_s | X_sn | X_l | X_ln | X_ls | X_sl | X_lsn | X_sln | X_lsm | X_slm | X_lsnm | X_slnm | X_ldax | X_ldaxn | X_ldaxm | X_ldaxnm | X_ld | X_ldn | X_ldm | X_ldnm | X_nop
datatype interp_fn =
    Logic logic_fn | Arith arith_fn | Shift shift_fn | Mult mult_fn
  | Branch branch_fn | LdSt ldst_fn | Misc misc_fn | ExtOp ext_fn

text \<open>The parameter kinds; the base register of a register parameter is its value shifted by 8.\<close>

definition P_NONE :: u16 where "P_NONE = 0x0000"
definition P_VAL :: u16 where "P_VAL = 0x0001"
definition P_IMM :: u16 where "P_IMM = 0x0002"
definition P_MEM :: u16 where "P_MEM = 0x0003"
definition P_STR :: u16 where "P_STR = 0x0004"
definition P_ADDR_I :: u16 where "P_ADDR_I = 0x0005"
definition P_ADDR_D :: u16 where "P_ADDR_D = 0x0006"
definition P_REG :: u16 where "P_REG = 0x8000"
definition P_REG04 :: u16 where "P_REG04 = P_REG OR 0x0400"
definition P_REG08 :: u16 where "P_REG08 = P_REG OR 0x0800"
definition P_REG18 :: u16 where "P_REG18 = P_REG OR 0x1800"
definition P_REGM18 :: u16 where "P_REGM18 = P_REG OR 0x1810"
definition P_REG19 :: u16 where "P_REG19 = P_REG OR 0x1900"
definition P_REGM19 :: u16 where "P_REGM19 = P_REG OR 0x1910"
definition P_REG1A :: u16 where "P_REG1A = P_REG OR 0x1a80"
definition P_ACCL :: u16 where "P_ACCL = P_REG OR 0x1c00"
definition P_REG1C :: u16 where "P_REG1C = P_REG OR 0x1c10"
definition P_ACCM :: u16 where "P_ACCM = P_REG OR 0x1e00"
definition P_ACCM_D :: u16 where "P_ACCM_D = P_REG OR 0x1e80"
definition P_ACC :: u16 where "P_ACC = P_REG OR 0x2000"
definition P_ACC_D :: u16 where "P_ACC_D = P_REG OR 0x2080"
definition P_AX :: u16 where "P_AX = P_REG OR 0x2200"
definition P_REF :: u16 where "P_REF = P_REG OR 0x4000"
definition P_PRG :: u16 where "P_PRG = P_REF OR P_REG"

datatype param2_t =
  Param (prm_type: u16) (prm_size: nat) (prm_loc: nat) (prm_lshift: int) (prm_mask: u16)

datatype DSPOPCTemplate =
  DSPOPCTemplate (op_name: string) (op_opcode: u16) (op_mask: u16) (op_intFunc: interp_fn)
    (op_size: nat) (op_param_count: nat) (op_params: "param2_t list")
    (op_extended: bool) (op_branch: bool) (op_uncond_branch: bool) (op_reads_pc: bool)
    (op_updates_sr: bool)

section \<open>The rows\<close>

text \<open>\<open>s_opcodes\<close>, in the source's order, in three parts.\<close>

definition s_opcodes_flow :: "DSPOPCTemplate list" where
  "s_opcodes_flow = [
    DSPOPCTemplate ''NOP'' 0x0000 0xfffc (Misc F_nop) 1 0 [] False False False False False,
    DSPOPCTemplate ''DAR'' 0x0004 0xfffc (Misc F_dar) 1 1 [Param P_REG 1 0 0 0x0003] False False False False False,
    DSPOPCTemplate ''IAR'' 0x0008 0xfffc (Misc F_iar) 1 1 [Param P_REG 1 0 0 0x0003] False False False False False,
    DSPOPCTemplate ''SUBARN'' 0x000c 0xfffc (Misc F_subarn) 1 1 [Param P_REG 1 0 0 0x0003] False False False False False,
    DSPOPCTemplate ''ADDARN'' 0x0010 0xfff0 (Misc F_addarn) 1 2 [Param P_REG 1 0 0 0x0003, Param P_REG04 1 0 2 0x000c] False False False False False,
    DSPOPCTemplate ''HALT'' 0x0021 0xffff (Branch F_halt) 1 0 [] False True True False False,
    DSPOPCTemplate ''RETGE'' 0x02d0 0xffff (Branch F_ret) 1 0 [] False True False True False,
    DSPOPCTemplate ''RETL'' 0x02d1 0xffff (Branch F_ret) 1 0 [] False True False True False,
    DSPOPCTemplate ''RETG'' 0x02d2 0xffff (Branch F_ret) 1 0 [] False True False True False,
    DSPOPCTemplate ''RETLE'' 0x02d3 0xffff (Branch F_ret) 1 0 [] False True False True False,
    DSPOPCTemplate ''RETNZ'' 0x02d4 0xffff (Branch F_ret) 1 0 [] False True False True False,
    DSPOPCTemplate ''RETZ'' 0x02d5 0xffff (Branch F_ret) 1 0 [] False True False True False,
    DSPOPCTemplate ''RETNC'' 0x02d6 0xffff (Branch F_ret) 1 0 [] False True False True False,
    DSPOPCTemplate ''RETC'' 0x02d7 0xffff (Branch F_ret) 1 0 [] False True False True False,
    DSPOPCTemplate ''RETx8'' 0x02d8 0xffff (Branch F_ret) 1 0 [] False True False True False,
    DSPOPCTemplate ''RETx9'' 0x02d9 0xffff (Branch F_ret) 1 0 [] False True False True False,
    DSPOPCTemplate ''RETxA'' 0x02da 0xffff (Branch F_ret) 1 0 [] False True False True False,
    DSPOPCTemplate ''RETxB'' 0x02db 0xffff (Branch F_ret) 1 0 [] False True False True False,
    DSPOPCTemplate ''RETLNZ'' 0x02dc 0xffff (Branch F_ret) 1 0 [] False True False True False,
    DSPOPCTemplate ''RETLZ'' 0x02dd 0xffff (Branch F_ret) 1 0 [] False True False True False,
    DSPOPCTemplate ''RETO'' 0x02de 0xffff (Branch F_ret) 1 0 [] False True False True False,
    DSPOPCTemplate ''RET'' 0x02df 0xffff (Branch F_ret) 1 0 [] False True True False False,
    DSPOPCTemplate ''RTI'' 0x02ff 0xffff (Branch F_rti) 1 0 [] False True True False False,
    DSPOPCTemplate ''CALLGE'' 0x02b0 0xffff (Branch F_call) 2 1 [Param P_ADDR_I 2 1 0 0xffff] False True False True False,
    DSPOPCTemplate ''CALLL'' 0x02b1 0xffff (Branch F_call) 2 1 [Param P_ADDR_I 2 1 0 0xffff] False True False True False,
    DSPOPCTemplate ''CALLG'' 0x02b2 0xffff (Branch F_call) 2 1 [Param P_ADDR_I 2 1 0 0xffff] False True False True False,
    DSPOPCTemplate ''CALLLE'' 0x02b3 0xffff (Branch F_call) 2 1 [Param P_ADDR_I 2 1 0 0xffff] False True False True False,
    DSPOPCTemplate ''CALLNZ'' 0x02b4 0xffff (Branch F_call) 2 1 [Param P_ADDR_I 2 1 0 0xffff] False True False True False,
    DSPOPCTemplate ''CALLZ'' 0x02b5 0xffff (Branch F_call) 2 1 [Param P_ADDR_I 2 1 0 0xffff] False True False True False,
    DSPOPCTemplate ''CALLNC'' 0x02b6 0xffff (Branch F_call) 2 1 [Param P_ADDR_I 2 1 0 0xffff] False True False True False,
    DSPOPCTemplate ''CALLC'' 0x02b7 0xffff (Branch F_call) 2 1 [Param P_ADDR_I 2 1 0 0xffff] False True False True False,
    DSPOPCTemplate ''CALLx8'' 0x02b8 0xffff (Branch F_call) 2 1 [Param P_ADDR_I 2 1 0 0xffff] False True False True False,
    DSPOPCTemplate ''CALLx9'' 0x02b9 0xffff (Branch F_call) 2 1 [Param P_ADDR_I 2 1 0 0xffff] False True False True False,
    DSPOPCTemplate ''CALLxA'' 0x02ba 0xffff (Branch F_call) 2 1 [Param P_ADDR_I 2 1 0 0xffff] False True False True False,
    DSPOPCTemplate ''CALLxB'' 0x02bb 0xffff (Branch F_call) 2 1 [Param P_ADDR_I 2 1 0 0xffff] False True False True False,
    DSPOPCTemplate ''CALLLNZ'' 0x02bc 0xffff (Branch F_call) 2 1 [Param P_ADDR_I 2 1 0 0xffff] False True False True False,
    DSPOPCTemplate ''CALLLZ'' 0x02bd 0xffff (Branch F_call) 2 1 [Param P_ADDR_I 2 1 0 0xffff] False True False True False,
    DSPOPCTemplate ''CALLO'' 0x02be 0xffff (Branch F_call) 2 1 [Param P_ADDR_I 2 1 0 0xffff] False True False True False,
    DSPOPCTemplate ''CALL'' 0x02bf 0xffff (Branch F_call) 2 1 [Param P_ADDR_I 2 1 0 0xffff] False True True True False,
    DSPOPCTemplate ''IFGE'' 0x0270 0xffff (Branch F_ifcc) 1 0 [] False True False True False,
    DSPOPCTemplate ''IFL'' 0x0271 0xffff (Branch F_ifcc) 1 0 [] False True False True False,
    DSPOPCTemplate ''IFG'' 0x0272 0xffff (Branch F_ifcc) 1 0 [] False True False True False,
    DSPOPCTemplate ''IFLE'' 0x0273 0xffff (Branch F_ifcc) 1 0 [] False True False True False,
    DSPOPCTemplate ''IFNZ'' 0x0274 0xffff (Branch F_ifcc) 1 0 [] False True False True False,
    DSPOPCTemplate ''IFZ'' 0x0275 0xffff (Branch F_ifcc) 1 0 [] False True False True False,
    DSPOPCTemplate ''IFNC'' 0x0276 0xffff (Branch F_ifcc) 1 0 [] False True False True False,
    DSPOPCTemplate ''IFC'' 0x0277 0xffff (Branch F_ifcc) 1 0 [] False True False True False,
    DSPOPCTemplate ''IFx8'' 0x0278 0xffff (Branch F_ifcc) 1 0 [] False True False True False,
    DSPOPCTemplate ''IFx9'' 0x0279 0xffff (Branch F_ifcc) 1 0 [] False True False True False,
    DSPOPCTemplate ''IFxA'' 0x027a 0xffff (Branch F_ifcc) 1 0 [] False True False True False,
    DSPOPCTemplate ''IFxB'' 0x027b 0xffff (Branch F_ifcc) 1 0 [] False True False True False,
    DSPOPCTemplate ''IFLNZ'' 0x027c 0xffff (Branch F_ifcc) 1 0 [] False True False True False,
    DSPOPCTemplate ''IFLZ'' 0x027d 0xffff (Branch F_ifcc) 1 0 [] False True False True False,
    DSPOPCTemplate ''IFO'' 0x027e 0xffff (Branch F_ifcc) 1 0 [] False True False True False,
    DSPOPCTemplate ''IF'' 0x027f 0xffff (Branch F_ifcc) 1 0 [] False True True True False,
    DSPOPCTemplate ''JGE'' 0x0290 0xffff (Branch F_jcc) 2 1 [Param P_ADDR_I 2 1 0 0xffff] False True False True False,
    DSPOPCTemplate ''JL'' 0x0291 0xffff (Branch F_jcc) 2 1 [Param P_ADDR_I 2 1 0 0xffff] False True False True False,
    DSPOPCTemplate ''JG'' 0x0292 0xffff (Branch F_jcc) 2 1 [Param P_ADDR_I 2 1 0 0xffff] False True False True False,
    DSPOPCTemplate ''JLE'' 0x0293 0xffff (Branch F_jcc) 2 1 [Param P_ADDR_I 2 1 0 0xffff] False True False True False,
    DSPOPCTemplate ''JNZ'' 0x0294 0xffff (Branch F_jcc) 2 1 [Param P_ADDR_I 2 1 0 0xffff] False True False True False,
    DSPOPCTemplate ''JZ'' 0x0295 0xffff (Branch F_jcc) 2 1 [Param P_ADDR_I 2 1 0 0xffff] False True False True False,
    DSPOPCTemplate ''JNC'' 0x0296 0xffff (Branch F_jcc) 2 1 [Param P_ADDR_I 2 1 0 0xffff] False True False True False,
    DSPOPCTemplate ''JC'' 0x0297 0xffff (Branch F_jcc) 2 1 [Param P_ADDR_I 2 1 0 0xffff] False True False True False,
    DSPOPCTemplate ''JMPx8'' 0x0298 0xffff (Branch F_jcc) 2 1 [Param P_ADDR_I 2 1 0 0xffff] False True False True False,
    DSPOPCTemplate ''JMPx9'' 0x0299 0xffff (Branch F_jcc) 2 1 [Param P_ADDR_I 2 1 0 0xffff] False True False True False,
    DSPOPCTemplate ''JMPxA'' 0x029a 0xffff (Branch F_jcc) 2 1 [Param P_ADDR_I 2 1 0 0xffff] False True False True False,
    DSPOPCTemplate ''JMPxB'' 0x029b 0xffff (Branch F_jcc) 2 1 [Param P_ADDR_I 2 1 0 0xffff] False True False True False,
    DSPOPCTemplate ''JLNZ'' 0x029c 0xffff (Branch F_jcc) 2 1 [Param P_ADDR_I 2 1 0 0xffff] False True False True False,
    DSPOPCTemplate ''JLZ'' 0x029d 0xffff (Branch F_jcc) 2 1 [Param P_ADDR_I 2 1 0 0xffff] False True False True False,
    DSPOPCTemplate ''JO'' 0x029e 0xffff (Branch F_jcc) 2 1 [Param P_ADDR_I 2 1 0 0xffff] False True False True False,
    DSPOPCTemplate ''JMP'' 0x029f 0xffff (Branch F_jcc) 2 1 [Param P_ADDR_I 2 1 0 0xffff] False True True True False,
    DSPOPCTemplate ''JRGE'' 0x1700 0xff1f (Branch F_jmprcc) 1 1 [Param P_REG 1 0 5 0x00e0] False True False False False,
    DSPOPCTemplate ''JRL'' 0x1701 0xff1f (Branch F_jmprcc) 1 1 [Param P_REG 1 0 5 0x00e0] False True False False False,
    DSPOPCTemplate ''JRG'' 0x1702 0xff1f (Branch F_jmprcc) 1 1 [Param P_REG 1 0 5 0x00e0] False True False False False,
    DSPOPCTemplate ''JRLE'' 0x1703 0xff1f (Branch F_jmprcc) 1 1 [Param P_REG 1 0 5 0x00e0] False True False False False,
    DSPOPCTemplate ''JRNZ'' 0x1704 0xff1f (Branch F_jmprcc) 1 1 [Param P_REG 1 0 5 0x00e0] False True False False False,
    DSPOPCTemplate ''JRZ'' 0x1705 0xff1f (Branch F_jmprcc) 1 1 [Param P_REG 1 0 5 0x00e0] False True False False False,
    DSPOPCTemplate ''JRNC'' 0x1706 0xff1f (Branch F_jmprcc) 1 1 [Param P_REG 1 0 5 0x00e0] False True False False False,
    DSPOPCTemplate ''JRC'' 0x1707 0xff1f (Branch F_jmprcc) 1 1 [Param P_REG 1 0 5 0x00e0] False True False False False,
    DSPOPCTemplate ''JMPRx8'' 0x1708 0xff1f (Branch F_jmprcc) 1 1 [Param P_REG 1 0 5 0x00e0] False True False False False,
    DSPOPCTemplate ''JMPRx9'' 0x1709 0xff1f (Branch F_jmprcc) 1 1 [Param P_REG 1 0 5 0x00e0] False True False False False,
    DSPOPCTemplate ''JMPRxA'' 0x170a 0xff1f (Branch F_jmprcc) 1 1 [Param P_REG 1 0 5 0x00e0] False True False False False,
    DSPOPCTemplate ''JMPRxB'' 0x170b 0xff1f (Branch F_jmprcc) 1 1 [Param P_REG 1 0 5 0x00e0] False True False False False,
    DSPOPCTemplate ''JRLNZ'' 0x170c 0xff1f (Branch F_jmprcc) 1 1 [Param P_REG 1 0 5 0x00e0] False True False False False,
    DSPOPCTemplate ''JRLZ'' 0x170d 0xff1f (Branch F_jmprcc) 1 1 [Param P_REG 1 0 5 0x00e0] False True False False False,
    DSPOPCTemplate ''JRO'' 0x170e 0xff1f (Branch F_jmprcc) 1 1 [Param P_REG 1 0 5 0x00e0] False True False False False,
    DSPOPCTemplate ''JMPR'' 0x170f 0xff1f (Branch F_jmprcc) 1 1 [Param P_REG 1 0 5 0x00e0] False True True False False,
    DSPOPCTemplate ''CALLRGE'' 0x1710 0xff1f (Branch F_callr) 1 1 [Param P_REG 1 0 5 0x00e0] False True False True False,
    DSPOPCTemplate ''CALLRL'' 0x1711 0xff1f (Branch F_callr) 1 1 [Param P_REG 1 0 5 0x00e0] False True False True False,
    DSPOPCTemplate ''CALLRG'' 0x1712 0xff1f (Branch F_callr) 1 1 [Param P_REG 1 0 5 0x00e0] False True False True False,
    DSPOPCTemplate ''CALLRLE'' 0x1713 0xff1f (Branch F_callr) 1 1 [Param P_REG 1 0 5 0x00e0] False True False True False,
    DSPOPCTemplate ''CALLRNZ'' 0x1714 0xff1f (Branch F_callr) 1 1 [Param P_REG 1 0 5 0x00e0] False True False True False,
    DSPOPCTemplate ''CALLRZ'' 0x1715 0xff1f (Branch F_callr) 1 1 [Param P_REG 1 0 5 0x00e0] False True False True False,
    DSPOPCTemplate ''CALLRNC'' 0x1716 0xff1f (Branch F_callr) 1 1 [Param P_REG 1 0 5 0x00e0] False True False True False,
    DSPOPCTemplate ''CALLRC'' 0x1717 0xff1f (Branch F_callr) 1 1 [Param P_REG 1 0 5 0x00e0] False True False True False,
    DSPOPCTemplate ''CALLRx8'' 0x1718 0xff1f (Branch F_callr) 1 1 [Param P_REG 1 0 5 0x00e0] False True False True False,
    DSPOPCTemplate ''CALLRx9'' 0x1719 0xff1f (Branch F_callr) 1 1 [Param P_REG 1 0 5 0x00e0] False True False True False,
    DSPOPCTemplate ''CALLRxA'' 0x171a 0xff1f (Branch F_callr) 1 1 [Param P_REG 1 0 5 0x00e0] False True False True False,
    DSPOPCTemplate ''CALLRxB'' 0x171b 0xff1f (Branch F_callr) 1 1 [Param P_REG 1 0 5 0x00e0] False True False True False,
    DSPOPCTemplate ''CALLRLNZ'' 0x171c 0xff1f (Branch F_callr) 1 1 [Param P_REG 1 0 5 0x00e0] False True False True False,
    DSPOPCTemplate ''CALLRLZ'' 0x171d 0xff1f (Branch F_callr) 1 1 [Param P_REG 1 0 5 0x00e0] False True False True False,
    DSPOPCTemplate ''CALLRO'' 0x171e 0xff1f (Branch F_callr) 1 1 [Param P_REG 1 0 5 0x00e0] False True False True False,
    DSPOPCTemplate ''CALLR'' 0x171f 0xff1f (Branch F_callr) 1 1 [Param P_REG 1 0 5 0x00e0] False True True True False]"

definition s_opcodes_move :: "DSPOPCTemplate list" where
  "s_opcodes_move = [
    DSPOPCTemplate ''SBCLR'' 0x1200 0xff00 (Misc F_sbclr) 1 1 [Param P_IMM 1 0 0 0x0007] False False False False False,
    DSPOPCTemplate ''SBSET'' 0x1300 0xff00 (Misc F_sbset) 1 1 [Param P_IMM 1 0 0 0x0007] False False False False False,
    DSPOPCTemplate ''LSL'' 0x1400 0xfec0 (Shift F_lsl) 1 2 [Param P_ACC 1 0 8 0x0100, Param P_IMM 1 0 0 0x003f] False False False False True,
    DSPOPCTemplate ''LSR'' 0x1440 0xfec0 (Shift F_lsr) 1 2 [Param P_ACC 1 0 8 0x0100, Param P_IMM 1 0 0 0x003f] False False False False True,
    DSPOPCTemplate ''ASL'' 0x1480 0xfec0 (Shift F_asl) 1 2 [Param P_ACC 1 0 8 0x0100, Param P_IMM 1 0 0 0x003f] False False False False True,
    DSPOPCTemplate ''ASR'' 0x14c0 0xfec0 (Shift F_asr) 1 2 [Param P_ACC 1 0 8 0x0100, Param P_IMM 1 0 0 0x003f] False False False False True,
    DSPOPCTemplate ''LSRN'' 0x02ca 0xffff (Shift F_lsrn) 1 0 [] False False False False True,
    DSPOPCTemplate ''ASRN'' 0x02cb 0xffff (Shift F_asrn) 1 0 [] False False False False True,
    DSPOPCTemplate ''LRI'' 0x0080 0xffe0 (Misc F_lri) 2 2 [Param P_REG 1 0 0 0x001f, Param P_IMM 2 1 0 0xffff] False False False True False,
    DSPOPCTemplate ''LR'' 0x00c0 0xffe0 (LdSt F_lr) 2 2 [Param P_REG 1 0 0 0x001f, Param P_MEM 2 1 0 0xffff] False False False True False,
    DSPOPCTemplate ''SR'' 0x00e0 0xffe0 (LdSt F_sr) 2 2 [Param P_MEM 2 1 0 0xffff, Param P_REG 1 0 0 0x001f] False False False True False,
    DSPOPCTemplate ''MRR'' 0x1c00 0xfc00 (Misc F_mrr) 1 2 [Param P_REG 1 0 5 0x03e0, Param P_REG 1 0 0 0x001f] False False False False False,
    DSPOPCTemplate ''SI'' 0x1600 0xff00 (LdSt F_si) 2 2 [Param P_MEM 1 0 0 0x00ff, Param P_IMM 2 1 0 0xffff] False False False True False,
    DSPOPCTemplate ''ADDIS'' 0x0400 0xfe00 (Arith F_addis) 1 2 [Param P_ACCM 1 0 8 0x0100, Param P_IMM 1 0 0 0x00ff] False False False False True,
    DSPOPCTemplate ''CMPIS'' 0x0600 0xfe00 (Logic F_cmpis) 1 2 [Param P_ACCM 1 0 8 0x0100, Param P_IMM 1 0 0 0x00ff] False False False False True,
    DSPOPCTemplate ''LRIS'' 0x0800 0xf800 (Misc F_lris) 1 2 [Param P_REG18 1 0 8 0x0700, Param P_IMM 1 0 0 0x00ff] False False False False True,
    DSPOPCTemplate ''ADDI'' 0x0200 0xfeff (Arith F_addi) 2 2 [Param P_ACCM 1 0 8 0x0100, Param P_IMM 2 1 0 0xffff] False False False True True,
    DSPOPCTemplate ''XORI'' 0x0220 0xfeff (Logic F_xori) 2 2 [Param P_ACCM 1 0 8 0x0100, Param P_IMM 2 1 0 0xffff] False False False True True,
    DSPOPCTemplate ''ANDI'' 0x0240 0xfeff (Logic F_andi) 2 2 [Param P_ACCM 1 0 8 0x0100, Param P_IMM 2 1 0 0xffff] False False False True True,
    DSPOPCTemplate ''ORI'' 0x0260 0xfeff (Logic F_ori) 2 2 [Param P_ACCM 1 0 8 0x0100, Param P_IMM 2 1 0 0xffff] False False False True True,
    DSPOPCTemplate ''CMPI'' 0x0280 0xfeff (Logic F_cmpi) 2 2 [Param P_ACCM 1 0 8 0x0100, Param P_IMM 2 1 0 0xffff] False False False True True,
    DSPOPCTemplate ''ANDF'' 0x02a0 0xfeff (Logic F_andf) 2 2 [Param P_ACCM 1 0 8 0x0100, Param P_IMM 2 1 0 0xffff] False False False True True,
    DSPOPCTemplate ''ANDCF'' 0x02c0 0xfeff (Logic F_andcf) 2 2 [Param P_ACCM 1 0 8 0x0100, Param P_IMM 2 1 0 0xffff] False False False True True,
    DSPOPCTemplate ''ILRR'' 0x0210 0xfefc (LdSt F_ilrr) 1 2 [Param P_ACCM 1 0 8 0x0100, Param P_PRG 1 0 0 0x0003] False False False False False,
    DSPOPCTemplate ''ILRRD'' 0x0214 0xfefc (LdSt F_ilrrd) 1 2 [Param P_ACCM 1 0 8 0x0100, Param P_PRG 1 0 0 0x0003] False False False False False,
    DSPOPCTemplate ''ILRRI'' 0x0218 0xfefc (LdSt F_ilrri) 1 2 [Param P_ACCM 1 0 8 0x0100, Param P_PRG 1 0 0 0x0003] False False False False False,
    DSPOPCTemplate ''ILRRN'' 0x021c 0xfefc (LdSt F_ilrrn) 1 2 [Param P_ACCM 1 0 8 0x0100, Param P_PRG 1 0 0 0x0003] False False False False False,
    DSPOPCTemplate ''LOOP'' 0x0040 0xffe0 (Branch F_loop) 1 1 [Param P_REG 1 0 0 0x001f] False True True True False,
    DSPOPCTemplate ''BLOOP'' 0x0060 0xffe0 (Branch F_bloop) 2 2 [Param P_REG 1 0 0 0x001f, Param P_ADDR_I 2 1 0 0xffff] False True True True False,
    DSPOPCTemplate ''LOOPI'' 0x1000 0xff00 (Branch F_loopi) 1 1 [Param P_IMM 1 0 0 0x00ff] False True True True False,
    DSPOPCTemplate ''BLOOPI'' 0x1100 0xff00 (Branch F_bloopi) 2 2 [Param P_IMM 1 0 0 0x00ff, Param P_ADDR_I 2 1 0 0xffff] False True True True False,
    DSPOPCTemplate ''LRR'' 0x1800 0xff80 (LdSt F_lrr) 1 2 [Param P_REG 1 0 0 0x001f, Param P_PRG 1 0 5 0x0060] False False False False False,
    DSPOPCTemplate ''LRRD'' 0x1880 0xff80 (LdSt F_lrrd) 1 2 [Param P_REG 1 0 0 0x001f, Param P_PRG 1 0 5 0x0060] False False False False False,
    DSPOPCTemplate ''LRRI'' 0x1900 0xff80 (LdSt F_lrri) 1 2 [Param P_REG 1 0 0 0x001f, Param P_PRG 1 0 5 0x0060] False False False False False,
    DSPOPCTemplate ''LRRN'' 0x1980 0xff80 (LdSt F_lrrn) 1 2 [Param P_REG 1 0 0 0x001f, Param P_PRG 1 0 5 0x0060] False False False False False,
    DSPOPCTemplate ''SRR'' 0x1a00 0xff80 (LdSt F_srr) 1 2 [Param P_PRG 1 0 5 0x0060, Param P_REG 1 0 0 0x001f] False False False False False,
    DSPOPCTemplate ''SRRD'' 0x1a80 0xff80 (LdSt F_srrd) 1 2 [Param P_PRG 1 0 5 0x0060, Param P_REG 1 0 0 0x001f] False False False False False,
    DSPOPCTemplate ''SRRI'' 0x1b00 0xff80 (LdSt F_srri) 1 2 [Param P_PRG 1 0 5 0x0060, Param P_REG 1 0 0 0x001f] False False False False False,
    DSPOPCTemplate ''SRRN'' 0x1b80 0xff80 (LdSt F_srrn) 1 2 [Param P_PRG 1 0 5 0x0060, Param P_REG 1 0 0 0x001f] False False False False False,
    DSPOPCTemplate ''LRS'' 0x2000 0xf800 (LdSt F_lrs) 1 2 [Param P_REG18 1 0 8 0x0700, Param P_MEM 1 0 0 0x00ff] False False False False False,
    DSPOPCTemplate ''SRS'' 0x2800 0xf800 (LdSt F_srs) 1 2 [Param P_MEM 1 0 0 0x00ff, Param P_REG18 1 0 8 0x0700] False False False False False,
    DSPOPCTemplate ''XORR'' 0x3000 0xfc80 (Logic F_xorr) 1 2 [Param P_ACCM 1 0 8 0x0100, Param P_REG1A 1 0 9 0x0200] True False False False True,
    DSPOPCTemplate ''ANDR'' 0x3400 0xfc80 (Logic F_andr) 1 2 [Param P_ACCM 1 0 8 0x0100, Param P_REG1A 1 0 9 0x0200] True False False False True,
    DSPOPCTemplate ''ORR'' 0x3800 0xfc80 (Logic F_orr) 1 2 [Param P_ACCM 1 0 8 0x0100, Param P_REG1A 1 0 9 0x0200] True False False False True,
    DSPOPCTemplate ''ANDC'' 0x3c00 0xfe80 (Logic F_andc) 1 2 [Param P_ACCM 1 0 8 0x0100, Param P_ACCM_D 1 0 8 0x0100] True False False False True,
    DSPOPCTemplate ''ORC'' 0x3e00 0xfe80 (Logic F_orc) 1 2 [Param P_ACCM 1 0 8 0x0100, Param P_ACCM_D 1 0 8 0x0100] True False False False True,
    DSPOPCTemplate ''XORC'' 0x3080 0xfe80 (Logic F_xorc) 1 2 [Param P_ACCM 1 0 8 0x0100, Param P_ACCM_D 1 0 8 0x0100] True False False False True,
    DSPOPCTemplate ''NOT'' 0x3280 0xfe80 (Logic F_notc) 1 1 [Param P_ACCM 1 0 8 0x0100] True False False False True,
    DSPOPCTemplate ''LSRNRX'' 0x3480 0xfc80 (Shift F_lsrnrx) 1 2 [Param P_ACC 1 0 8 0x0100, Param P_REG1A 1 0 9 0x0200] True False False False True,
    DSPOPCTemplate ''ASRNRX'' 0x3880 0xfc80 (Shift F_asrnrx) 1 2 [Param P_ACC 1 0 8 0x0100, Param P_REG1A 1 0 9 0x0200] True False False False True,
    DSPOPCTemplate ''LSRNR'' 0x3c80 0xfe80 (Shift F_lsrnr) 1 2 [Param P_ACC 1 0 8 0x0100, Param P_ACCM_D 1 0 8 0x0100] True False False False True,
    DSPOPCTemplate ''ASRNR'' 0x3e80 0xfe80 (Shift F_asrnr) 1 2 [Param P_ACC 1 0 8 0x0100, Param P_ACCM_D 1 0 8 0x0100] True False False False True]"

definition s_opcodes_acc :: "DSPOPCTemplate list" where
  "s_opcodes_acc = [
    DSPOPCTemplate ''ADDR'' 0x4000 0xf800 (Arith F_addr) 1 2 [Param P_ACC 1 0 8 0x0100, Param P_REG18 1 0 9 0x0600] True False False False True,
    DSPOPCTemplate ''ADDAX'' 0x4800 0xfc00 (Arith F_addax) 1 2 [Param P_ACC 1 0 8 0x0100, Param P_AX 1 0 9 0x0200] True False False False True,
    DSPOPCTemplate ''ADD'' 0x4c00 0xfe00 (Arith F_add) 1 2 [Param P_ACC 1 0 8 0x0100, Param P_ACC_D 1 0 8 0x0100] True False False False True,
    DSPOPCTemplate ''ADDP'' 0x4e00 0xfe00 (Arith F_addp) 1 1 [Param P_ACC 1 0 8 0x0100] True False False False True,
    DSPOPCTemplate ''SUBR'' 0x5000 0xf800 (Arith F_subr) 1 2 [Param P_ACC 1 0 8 0x0100, Param P_REG18 1 0 9 0x0600] True False False False True,
    DSPOPCTemplate ''SUBAX'' 0x5800 0xfc00 (Arith F_subax) 1 2 [Param P_ACC 1 0 8 0x0100, Param P_AX 1 0 9 0x0200] True False False False True,
    DSPOPCTemplate ''SUB'' 0x5c00 0xfe00 (Arith F_sub) 1 2 [Param P_ACC 1 0 8 0x0100, Param P_ACC_D 1 0 8 0x0100] True False False False True,
    DSPOPCTemplate ''SUBP'' 0x5e00 0xfe00 (Arith F_subp) 1 1 [Param P_ACC 1 0 8 0x0100] True False False False True,
    DSPOPCTemplate ''MOVR'' 0x6000 0xf800 (Arith F_movr) 1 2 [Param P_ACC 1 0 8 0x0100, Param P_REG18 1 0 9 0x0600] True False False False True,
    DSPOPCTemplate ''MOVAX'' 0x6800 0xfc00 (Arith F_movax) 1 2 [Param P_ACC 1 0 8 0x0100, Param P_AX 1 0 9 0x0200] True False False False True,
    DSPOPCTemplate ''MOV'' 0x6c00 0xfe00 (Arith F_mov) 1 2 [Param P_ACC 1 0 8 0x0100, Param P_ACC_D 1 0 8 0x0100] True False False False True,
    DSPOPCTemplate ''MOVP'' 0x6e00 0xfe00 (Mult F_movp) 1 1 [Param P_ACC 1 0 8 0x0100] True False False False True,
    DSPOPCTemplate ''ADDAXL'' 0x7000 0xfc00 (Arith F_addaxl) 1 2 [Param P_ACC 1 0 8 0x0100, Param P_REG18 1 0 9 0x0200] True False False False True,
    DSPOPCTemplate ''INCM'' 0x7400 0xfe00 (Arith F_incm) 1 1 [Param P_ACCM 1 0 8 0x0100] True False False False True,
    DSPOPCTemplate ''INC'' 0x7600 0xfe00 (Arith F_inc) 1 1 [Param P_ACC 1 0 8 0x0100] True False False False True,
    DSPOPCTemplate ''DECM'' 0x7800 0xfe00 (Arith F_decm) 1 1 [Param P_ACCM 1 0 8 0x0100] True False False False True,
    DSPOPCTemplate ''DEC'' 0x7a00 0xfe00 (Arith F_dec) 1 1 [Param P_ACC 1 0 8 0x0100] True False False False True,
    DSPOPCTemplate ''NEG'' 0x7c00 0xfe00 (Arith F_neg) 1 1 [Param P_ACC 1 0 8 0x0100] True False False False True,
    DSPOPCTemplate ''MOVNP'' 0x7e00 0xfe00 (Mult F_movnp) 1 1 [Param P_ACC 1 0 8 0x0100] True False False False True,
    DSPOPCTemplate ''NX'' 0x8000 0xf700 (Misc F_nx) 1 0 [] True False False False False,
    DSPOPCTemplate ''CLR'' 0x8100 0xf700 (Logic F_clr) 1 1 [Param P_ACC 1 0 11 0x0800] True False False False True,
    DSPOPCTemplate ''CMP'' 0x8200 0xff00 (Logic F_cmp) 1 0 [] True False False False True,
    DSPOPCTemplate ''MULAXH'' 0x8300 0xff00 (Mult F_mulaxh) 1 0 [] True False False False True,
    DSPOPCTemplate ''CLRP'' 0x8400 0xff00 (Mult F_clrp) 1 0 [] True False False False True,
    DSPOPCTemplate ''TSTPROD'' 0x8500 0xff00 (Mult F_tstprod) 1 0 [] True False False False True,
    DSPOPCTemplate ''TSTAXH'' 0x8600 0xfe00 (Logic F_tstaxh) 1 1 [Param P_REG1A 1 0 8 0x0100] True False False False True,
    DSPOPCTemplate ''M2'' 0x8a00 0xff00 (Misc F_srbith) 1 0 [] True False False False False,
    DSPOPCTemplate ''M0'' 0x8b00 0xff00 (Misc F_srbith) 1 0 [] True False False False False,
    DSPOPCTemplate ''CLR15'' 0x8c00 0xff00 (Misc F_srbith) 1 0 [] True False False False False,
    DSPOPCTemplate ''SET15'' 0x8d00 0xff00 (Misc F_srbith) 1 0 [] True False False False False,
    DSPOPCTemplate ''SET16'' 0x8e00 0xff00 (Misc F_srbith) 1 0 [] True False False False False,
    DSPOPCTemplate ''SET40'' 0x8f00 0xff00 (Misc F_srbith) 1 0 [] True False False False False,
    DSPOPCTemplate ''MUL'' 0x9000 0xf700 (Mult F_mul) 1 2 [Param P_REG18 1 0 11 0x0800, Param P_REG1A 1 0 11 0x0800] True False False False True,
    DSPOPCTemplate ''ASR16'' 0x9100 0xf700 (Shift F_asr16) 1 1 [Param P_ACC 1 0 11 0x0800] True False False False True,
    DSPOPCTemplate ''MULMVZ'' 0x9200 0xf600 (Mult F_mulmvz) 1 3 [Param P_REG18 1 0 11 0x0800, Param P_REG1A 1 0 11 0x0800, Param P_ACC 1 0 8 0x0100] True False False False True,
    DSPOPCTemplate ''MULAC'' 0x9400 0xf600 (Mult F_mulac) 1 3 [Param P_REG18 1 0 11 0x0800, Param P_REG1A 1 0 11 0x0800, Param P_ACC 1 0 8 0x0100] True False False False True,
    DSPOPCTemplate ''MULMV'' 0x9600 0xf600 (Mult F_mulmv) 1 3 [Param P_REG18 1 0 11 0x0800, Param P_REG1A 1 0 11 0x0800, Param P_ACC 1 0 8 0x0100] True False False False True,
    DSPOPCTemplate ''MULX'' 0xa000 0xe700 (Mult F_mulx) 1 2 [Param P_REGM18 1 0 11 0x1000, Param P_REGM19 1 0 10 0x0800] True False False False True,
    DSPOPCTemplate ''ABS'' 0xa100 0xf700 (Arith F_abs) 1 1 [Param P_ACC 1 0 11 0x0800] True False False False True,
    DSPOPCTemplate ''MULXMVZ'' 0xa200 0xe600 (Mult F_mulxmvz) 1 3 [Param P_REGM18 1 0 11 0x1000, Param P_REGM19 1 0 10 0x0800, Param P_ACC 1 0 8 0x0100] True False False False True,
    DSPOPCTemplate ''MULXAC'' 0xa400 0xe600 (Mult F_mulxac) 1 3 [Param P_REGM18 1 0 11 0x1000, Param P_REGM19 1 0 10 0x0800, Param P_ACC 1 0 8 0x0100] True False False False True,
    DSPOPCTemplate ''MULXMV'' 0xa600 0xe600 (Mult F_mulxmv) 1 3 [Param P_REGM18 1 0 11 0x1000, Param P_REGM19 1 0 10 0x0800, Param P_ACC 1 0 8 0x0100] True False False False True,
    DSPOPCTemplate ''TST'' 0xb100 0xf700 (Logic F_tst) 1 1 [Param P_ACC 1 0 11 0x0800] True False False False True,
    DSPOPCTemplate ''MULC'' 0xc000 0xe700 (Mult F_mulc) 1 2 [Param P_ACCM 1 0 12 0x1000, Param P_REG1A 1 0 11 0x0800] True False False False True,
    DSPOPCTemplate ''CMPAR'' 0xc100 0xe700 (Logic F_cmpar) 1 2 [Param P_ACC 1 0 11 0x0800, Param P_REG1A 1 0 12 0x1000] True False False False True,
    DSPOPCTemplate ''MULCMVZ'' 0xc200 0xe600 (Mult F_mulcmvz) 1 3 [Param P_ACCM 1 0 12 0x1000, Param P_REG1A 1 0 11 0x0800, Param P_ACC 1 0 8 0x0100] True False False False True,
    DSPOPCTemplate ''MULCAC'' 0xc400 0xe600 (Mult F_mulcac) 1 3 [Param P_ACCM 1 0 12 0x1000, Param P_REG1A 1 0 11 0x0800, Param P_ACC 1 0 8 0x0100] True False False False True,
    DSPOPCTemplate ''MULCMV'' 0xc600 0xe600 (Mult F_mulcmv) 1 3 [Param P_ACCM 1 0 12 0x1000, Param P_REG1A 1 0 11 0x0800, Param P_ACC 1 0 8 0x0100] True False False False True,
    DSPOPCTemplate ''MADDX'' 0xe000 0xfc00 (Mult F_maddx) 1 2 [Param P_REGM18 1 0 8 0x0200, Param P_REGM19 1 0 7 0x0100] True False False False True,
    DSPOPCTemplate ''MSUBX'' 0xe400 0xfc00 (Mult F_msubx) 1 2 [Param P_REGM18 1 0 8 0x0200, Param P_REGM19 1 0 7 0x0100] True False False False True,
    DSPOPCTemplate ''MADDC'' 0xe800 0xfc00 (Mult F_maddc) 1 2 [Param P_ACCM 1 0 9 0x0200, Param P_REG19 1 0 7 0x0100] True False False False True,
    DSPOPCTemplate ''MSUBC'' 0xec00 0xfc00 (Mult F_msubc) 1 2 [Param P_ACCM 1 0 9 0x0200, Param P_REG19 1 0 7 0x0100] True False False False True,
    DSPOPCTemplate ''LSL16'' 0xf000 0xfe00 (Shift F_lsl16) 1 1 [Param P_ACC 1 0 8 0x0100] True False False False True,
    DSPOPCTemplate ''MADD'' 0xf200 0xfe00 (Mult F_madd) 1 2 [Param P_REG18 1 0 8 0x0100, Param P_REG1A 1 0 8 0x0100] True False False False True,
    DSPOPCTemplate ''LSR16'' 0xf400 0xfe00 (Shift F_lsr16) 1 1 [Param P_ACC 1 0 8 0x0100] True False False False True,
    DSPOPCTemplate ''MSUB'' 0xf600 0xfe00 (Mult F_msub) 1 2 [Param P_REG18 1 0 8 0x0100, Param P_REG1A 1 0 8 0x0100] True False False False True,
    DSPOPCTemplate ''ADDPAXZ'' 0xf800 0xfc00 (Mult F_addpaxz) 1 2 [Param P_ACC 1 0 9 0x0200, Param P_AX 1 0 8 0x0100] True False False False True,
    DSPOPCTemplate ''CLRL'' 0xfc00 0xfe00 (Logic F_clrl) 1 1 [Param P_ACCL 1 0 11 0x0800] True False False False True,
    DSPOPCTemplate ''MOVPZ'' 0xfe00 0xfe00 (Mult F_movpz) 1 1 [Param P_ACC 1 0 8 0x0100] True False False False True]"

definition cw :: DSPOPCTemplate where
  "cw = DSPOPCTemplate ''CW'' 0x0000 0x0000 (Misc F_nop) 1 1 [Param P_VAL 2 0 0 0xffff] False False False False False"

definition s_opcodes_ext :: "DSPOPCTemplate list" where
  "s_opcodes_ext = [
    DSPOPCTemplate ''XXX'' 0x0000 0x00fc (ExtOp X_nop) 1 1 [Param P_VAL 1 0 0 0x00ff] False False False False False,
    DSPOPCTemplate ''DR'' 0x0004 0x00fc (ExtOp X_dr) 1 1 [Param P_REG 1 0 0 0x0003] False False False False False,
    DSPOPCTemplate ''IR'' 0x0008 0x00fc (ExtOp X_ir) 1 1 [Param P_REG 1 0 0 0x0003] False False False False False,
    DSPOPCTemplate ''NR'' 0x000c 0x00fc (ExtOp X_nr) 1 1 [Param P_REG 1 0 0 0x0003] False False False False False,
    DSPOPCTemplate ''MV'' 0x0010 0x00f0 (ExtOp X_mv) 1 2 [Param P_REG18 1 0 2 0x000c, Param P_REG1C 1 0 0 0x0003] False False False False False,
    DSPOPCTemplate ''S'' 0x0020 0x00e4 (ExtOp X_s) 1 2 [Param P_PRG 1 0 0 0x0003, Param P_REG1C 1 0 3 0x0018] False False False False False,
    DSPOPCTemplate ''SN'' 0x0024 0x00e4 (ExtOp X_sn) 1 2 [Param P_PRG 1 0 0 0x0003, Param P_REG1C 1 0 3 0x0018] False False False False False,
    DSPOPCTemplate ''L'' 0x0040 0x00c4 (ExtOp X_l) 1 2 [Param P_REG18 1 0 3 0x0038, Param P_PRG 1 0 0 0x0003] False False False False False,
    DSPOPCTemplate ''LN'' 0x0044 0x00c4 (ExtOp X_ln) 1 2 [Param P_REG18 1 0 3 0x0038, Param P_PRG 1 0 0 0x0003] False False False False False,
    DSPOPCTemplate ''LS'' 0x0080 0x00ce (ExtOp X_ls) 1 2 [Param P_REG18 1 0 4 0x0030, Param P_ACCM 1 0 0 0x0001] False False False False False,
    DSPOPCTemplate ''SL'' 0x0082 0x00ce (ExtOp X_sl) 1 2 [Param P_ACCM 1 0 0 0x0001, Param P_REG18 1 0 4 0x0030] False False False False False,
    DSPOPCTemplate ''LSN'' 0x0084 0x00ce (ExtOp X_lsn) 1 2 [Param P_REG18 1 0 4 0x0030, Param P_ACCM 1 0 0 0x0001] False False False False False,
    DSPOPCTemplate ''SLN'' 0x0086 0x00ce (ExtOp X_sln) 1 2 [Param P_ACCM 1 0 0 0x0001, Param P_REG18 1 0 4 0x0030] False False False False False,
    DSPOPCTemplate ''LSM'' 0x0088 0x00ce (ExtOp X_lsm) 1 2 [Param P_REG18 1 0 4 0x0030, Param P_ACCM 1 0 0 0x0001] False False False False False,
    DSPOPCTemplate ''SLM'' 0x008a 0x00ce (ExtOp X_slm) 1 2 [Param P_ACCM 1 0 0 0x0001, Param P_REG18 1 0 4 0x0030] False False False False False,
    DSPOPCTemplate ''LSNM'' 0x008c 0x00ce (ExtOp X_lsnm) 1 2 [Param P_REG18 1 0 4 0x0030, Param P_ACCM 1 0 0 0x0001] False False False False False,
    DSPOPCTemplate ''SLNM'' 0x008e 0x00ce (ExtOp X_slnm) 1 2 [Param P_ACCM 1 0 0 0x0001, Param P_REG18 1 0 4 0x0030] False False False False False,
    DSPOPCTemplate ''LDAX'' 0x00c3 0x00cf (ExtOp X_ldax) 1 2 [Param P_AX 1 0 4 0x0010, Param P_PRG 1 0 5 0x0020] False False False False False,
    DSPOPCTemplate ''LDAXN'' 0x00c7 0x00cf (ExtOp X_ldaxn) 1 2 [Param P_AX 1 0 4 0x0010, Param P_PRG 1 0 5 0x0020] False False False False False,
    DSPOPCTemplate ''LDAXM'' 0x00cb 0x00cf (ExtOp X_ldaxm) 1 2 [Param P_AX 1 0 4 0x0010, Param P_PRG 1 0 5 0x0020] False False False False False,
    DSPOPCTemplate ''LDAXNM'' 0x00cf 0x00cf (ExtOp X_ldaxnm) 1 2 [Param P_AX 1 0 4 0x0010, Param P_PRG 1 0 5 0x0020] False False False False False,
    DSPOPCTemplate ''LD'' 0x00c0 0x00cc (ExtOp X_ld) 1 3 [Param P_REGM18 1 0 4 0x0020, Param P_REGM19 1 0 3 0x0010, Param P_PRG 1 0 0 0x0003] False False False False False,
    DSPOPCTemplate ''LDN'' 0x00c4 0x00cc (ExtOp X_ldn) 1 3 [Param P_REGM18 1 0 4 0x0020, Param P_REGM19 1 0 3 0x0010, Param P_PRG 1 0 0 0x0003] False False False False False,
    DSPOPCTemplate ''LDM'' 0x00c8 0x00cc (ExtOp X_ldm) 1 3 [Param P_REGM18 1 0 4 0x0020, Param P_REGM19 1 0 3 0x0010, Param P_PRG 1 0 0 0x0003] False False False False False,
    DSPOPCTemplate ''LDNM'' 0x00cc 0x00cc (ExtOp X_ldnm) 1 3 [Param P_REGM18 1 0 4 0x0020, Param P_REGM19 1 0 3 0x0010, Param P_PRG 1 0 0 0x0003] False False False False False]"

definition s_opcodes :: "DSPOPCTemplate list" where
  "s_opcodes = s_opcodes_flow @ s_opcodes_move @ s_opcodes_acc"

section \<open>Search and tabulation\<close>

definition FindByOpcode :: "u16 \<Rightarrow> DSPOPCTemplate list \<Rightarrow> DSPOPCTemplate option" where
  "FindByOpcode opc data = find (\<lambda>info. opc AND op_mask info = op_opcode info) data"

definition FindByName :: "string \<Rightarrow> DSPOPCTemplate list \<Rightarrow> DSPOPCTemplate option" where
  "FindByName nm data = find (\<lambda>info. nm = op_name info) data"

definition FindOpInfoByOpcode :: "u16 \<Rightarrow> DSPOPCTemplate option" where
  "FindOpInfoByOpcode opc = FindByOpcode opc s_opcodes"

definition FindOpInfoByName :: "string \<Rightarrow> DSPOPCTemplate option" where
  "FindOpInfoByName nm = FindByName nm s_opcodes"

definition FindExtOpInfoByOpcode :: "u16 \<Rightarrow> DSPOPCTemplate option" where
  "FindExtOpInfoByOpcode opc = FindByOpcode opc s_opcodes_ext"

definition FindExtOpInfoByName :: "string \<Rightarrow> DSPOPCTemplate option" where
  "FindExtOpInfoByName nm = FindByName nm s_opcodes_ext"

text \<open>
  The arrays of template pointers.  \<open>None\<close> is the null pointer the arrays hold before
  \<open>InitInstructionTable\<close> runs; pointer equality with \<open>&cw\<close> is equality with the row \<open>cw\<close>,
  whose name no other row has.  An \<open>ERROR_LOG\<close> of the loops is an entry of the list of indices.
\<close>

type_synonym op_table = "nat \<Rightarrow> DSPOPCTemplate option"

fun init_ext_op_table :: "nat \<Rightarrow> op_table \<Rightarrow> op_table \<times> nat list" where
  "init_ext_op_table 0 tbl = (tbl, [])"
| "init_ext_op_table (Suc i) tbl0 =
     (let (tbl, errs) = init_ext_op_table i tbl0;
          tbl = tbl(i := Some cw)
      in case FindByOpcode (of_nat i) s_opcodes_ext of
           None \<Rightarrow> (tbl, errs)
         | Some t \<Rightarrow>
             if tbl i = Some cw then (tbl(i := Some t), errs)
             else (case tbl i of
                     None \<Rightarrow> (tbl, errs)
                   | Some u \<Rightarrow> if op_mask u OR op_mask t \<noteq> op_mask u then (tbl, errs @ [i])
                              else (tbl, errs)))"

fun init_op_table :: "nat \<Rightarrow> op_table \<Rightarrow> op_table \<times> nat list" where
  "init_op_table 0 tbl = (tbl, [])"
| "init_op_table (Suc i) tbl0 =
     (let (tbl, errs) = init_op_table i tbl0
      in case FindByOpcode (of_nat i) s_opcodes of
           None \<Rightarrow> (tbl, errs)
         | Some t \<Rightarrow> if tbl i = Some cw then (tbl(i := Some t), errs) else (tbl, errs @ [i]))"

definition OPTABLE_SIZE :: nat where "OPTABLE_SIZE = 0xffff + 1"
definition EXT_OPTABLE_SIZE :: nat where "EXT_OPTABLE_SIZE = 0xff + 1"

text \<open>The entry the tables hold for an instruction word.\<close>

definition op_entry :: "u16 \<Rightarrow> DSPOPCTemplate" where
  "op_entry opc = (case FindByOpcode opc s_opcodes of None \<Rightarrow> cw | Some t \<Rightarrow> t)"

definition ext_op_entry :: "u16 \<Rightarrow> DSPOPCTemplate" where
  "ext_op_entry opc = (case FindByOpcode opc s_opcodes_ext of None \<Rightarrow> cw | Some t \<Rightarrow> t)"

lemma init_ext_op_table_eq:
  "init_ext_op_table n tbl = (\<lambda>i. if i < n then Some (ext_op_entry (of_nat i)) else tbl i, [])"
proof (induction n)
  case 0
  show ?case by simp
next
  case (Suc n)
  then show ?case
    by (auto simp: ext_op_entry_def Let_def fun_eq_iff less_Suc_eq split: option.splits)
qed

lemma init_op_table_eq:
  assumes "\<And>i. i < n \<Longrightarrow> tbl i = Some cw"
  shows "init_op_table n tbl = (\<lambda>i. if i < n then Some (op_entry (of_nat i)) else tbl i, [])"
  using assms
proof (induction n)
  case 0
  show ?case by simp
next
  case (Suc n)
  have "init_op_table n tbl = (\<lambda>i. if i < n then Some (op_entry (of_nat i)) else tbl i, [])"
    by (rule Suc.IH) (simp add: Suc.prems)
  moreover have "tbl n = Some cw"
    by (rule Suc.prems) simp
  ultimately show ?case
    by (auto simp: op_entry_def fun_eq_iff less_Suc_eq split: option.splits)
qed

lemma FindByOpcode_matches:
  "FindByOpcode opc data = Some t \<Longrightarrow> t \<in> set data \<and> opc AND op_mask t = op_opcode t"
  by (auto simp: FindByOpcode_def find_Some_iff)

lemma op_entry_in: "op_entry opc \<in> insert cw (set s_opcodes)"
  by (auto simp: op_entry_def dest!: FindByOpcode_matches split: option.splits)

lemma ext_op_entry_in: "ext_op_entry opc \<in> insert cw (set s_opcodes_ext)"
  by (auto simp: ext_op_entry_def dest!: FindByOpcode_matches split: option.splits)

end
