(* ===== verification/DSP_State.thy ===== *)
theory DSP_State
  imports DSP_Tables
begin

text \<open>
  The state of \<open>Core/DSP/DSPCore.h\<close>: the register file \<open>DSP_Regs\<close> with its unions, \<open>SDSP\<close>, the
  accelerator object, and, as an extension of \<open>SDSP\<close>, the file level variables the interpreter
  shares (\<open>g_init_hax\<close>, the write-back log, the analyzer's \<open>code_flags\<close>, the opcode tables) and
  what the host side owns (ARAM, the interrupts raised on the CPU).  A setter below writes one
  member of one struct.  Left out: \<open>reset_dspjit_codespace\<close> and the JIT, the capture logger, the
  debugger's profile fields.
\<close>

section \<open>Constants\<close>

definition DSP_IRAM_SIZE :: nat where "DSP_IRAM_SIZE = 0x1000"
definition DSP_IRAM_BYTE_SIZE :: nat where "DSP_IRAM_BYTE_SIZE = 0x2000"
definition DSP_IRAM_MASK :: u16 where "DSP_IRAM_MASK = 0x0fff"
definition DSP_IROM_MASK :: u16 where "DSP_IROM_MASK = 0x0fff"
definition DSP_DRAM_SIZE :: nat where "DSP_DRAM_SIZE = 0x1000"
definition DSP_DRAM_BYTE_SIZE :: nat where "DSP_DRAM_BYTE_SIZE = 0x2000"
definition DSP_DRAM_MASK :: u16 where "DSP_DRAM_MASK = 0x0fff"
definition DSP_COEF_MASK :: u16 where "DSP_COEF_MASK = 0x7ff"
definition DSP_RESET_VECTOR :: u16 where "DSP_RESET_VECTOR = 0x8000"
definition DSP_STACK_DEPTH :: nat where "DSP_STACK_DEPTH = 0x20"
definition DSP_STACK_MASK :: u8 where "DSP_STACK_MASK = 0x1f"

lemmas dsp_size_defs [simp] =
  DSP_IRAM_SIZE_def DSP_IRAM_BYTE_SIZE_def DSP_IRAM_MASK_def DSP_IROM_MASK_def DSP_DRAM_SIZE_def
  DSP_DRAM_BYTE_SIZE_def DSP_DRAM_MASK_def DSP_COEF_MASK_def DSP_RESET_VECTOR_def
  DSP_STACK_DEPTH_def DSP_STACK_MASK_def

text \<open>Bits of the status register.\<close>

definition SR_CARRY :: u16 where "SR_CARRY = 0x0001"
definition SR_OVERFLOW :: u16 where "SR_OVERFLOW = 0x0002"
definition SR_ARITH_ZERO :: u16 where "SR_ARITH_ZERO = 0x0004"
definition SR_SIGN :: u16 where "SR_SIGN = 0x0008"
definition SR_OVER_S32 :: u16 where "SR_OVER_S32 = 0x0010"
definition SR_TOP2BITS :: u16 where "SR_TOP2BITS = 0x0020"
definition SR_LOGIC_ZERO :: u16 where "SR_LOGIC_ZERO = 0x0040"
definition SR_OVERFLOW_STICKY :: u16 where "SR_OVERFLOW_STICKY = 0x0080"
definition SR_INT_ENABLE :: u16 where "SR_INT_ENABLE = 0x0200"
definition SR_EXT_INT_ENABLE :: u16 where "SR_EXT_INT_ENABLE = 0x0800"
definition SR_MUL_MODIFY :: u16 where "SR_MUL_MODIFY = 0x2000"
definition SR_40_MODE_BIT :: u16 where "SR_40_MODE_BIT = 0x4000"
definition SR_MUL_UNSIGNED :: u16 where "SR_MUL_UNSIGNED = 0x8000"
definition SR_CMP_MASK :: u16 where "SR_CMP_MASK = 0x3f"

text \<open>Bits of the control register the CPU shares, and exception numbers.\<close>

definition CR_EXTERNAL_INT :: u16 where "CR_EXTERNAL_INT = 0x0002"
definition CR_HALT :: u16 where "CR_HALT = 0x0004"
definition CR_INIT :: u16 where "CR_INIT = 0x0400"
definition EXP_STOVF :: nat where "EXP_STOVF = 1"
definition EXP_ACCOV :: nat where "EXP_ACCOV = 5"
definition EXP_INT :: nat where "EXP_INT = 7"

lemmas cr_exp_defs [simp] =
  CR_EXTERNAL_INT_def CR_HALT_def CR_INIT_def EXP_STOVF_def EXP_ACCOV_def EXP_INT_def

section \<open>Records\<close>

record DSP_Regs =
  reg_ar :: "u16 array"
  reg_ix :: "u16 array"
  reg_wr :: "u16 array"
  reg_st :: "u16 array"
  reg_cr :: u16
  reg_sr :: u16
  reg_prod :: u64
  reg_ax :: "u32 array"
  reg_ac :: "u64 array"

record Accelerator =
  m_start_address :: u32
  m_end_address :: u32
  m_current_address :: u32
  m_sample_format :: u16
  m_yn1 :: s16
  m_yn2 :: s16
  m_pred_scale :: u16
  m_reads_stopped :: bool

datatype State = Stopped | Running | Stepping

record SDSP =
  g_r :: DSP_Regs
  g_pc :: u16
  g_cr :: u16
  reg_stack_ptr :: "u8 array"
  g_exceptions :: u8
  external_interrupt_waiting :: bool
  reg_stack :: "u16 array array"
  iram_crc :: u32
  step_counter :: u64
  g_mbox :: "u32 array"
  ifx_regs :: "u16 array"
  g_accelerator :: Accelerator
  g_iram :: "u16 array"
  g_dram :: "u16 array"
  g_irom :: "u16 array"
  g_coef :: "u16 array"
  cpu_ram :: "u8 array"

record dsp = SDSP +
  g_init_hax :: bool
  core_state :: State
  writeBackLog :: "u16 list"
  writeBackLogIdx :: "int list"
  code_flags :: "u8 array"
  s_op_table :: op_table
  s_ext_op_table :: op_table
  wii_mode :: bool
  mmu_mode :: bool
  cpu_bSSSE3 :: bool
  aram :: "u8 array"
  host_interrupts :: nat

text \<open>
  What ends a run of the interpreter: \<open>exit(0)\<close> on an overlong DMA, a DMA from or to an address
  of main memory where the host maps nothing, a DMA that leaves the 8 KB of IRAM or DRAM, or a
  write-back log with no \<open>-1\<close> in its five entries.  All but the first are undefined behaviour of the
  C++ code.
\<close>

datatype dsp_fault = DmaLengthExit | HostUnmapped | IramOverrun | DramOverrun | BackLogOverrun | NullTemplate

type_synonym dsp_res = "dsp_fault + dsp"

definition ok_fn :: "('a \<Rightarrow> dsp \<Rightarrow> dsp) \<Rightarrow> 'a \<Rightarrow> dsp \<Rightarrow> dsp_res" where
  "ok_fn f x g = Inr (f x g)"

definition bind_res :: "dsp_res \<Rightarrow> (dsp \<Rightarrow> dsp_res) \<Rightarrow> dsp_res" where
  "bind_res r f = (case r of Inl e \<Rightarrow> Inl e | Inr g \<Rightarrow> f g)"

lemma bind_res_simps [simp]:
  "bind_res (Inl e) f = Inl e"
  "bind_res (Inr g) f = f g"
  by (simp_all add: bind_res_def)

lemma bind_res_Inr:
  "bind_res r f = Inr g' \<longleftrightarrow> (\<exists>g. r = Inr g \<and> f g = Inr g')"
  by (cases r) auto

lemma ok_fn_Inr [simp]: "ok_fn f x g = Inr g' \<longleftrightarrow> g' = f x g"
  by (auto simp: ok_fn_def)

section \<open>Members\<close>

abbreviation dsp_ar :: "dsp \<Rightarrow> u16 array" where "dsp_ar g \<equiv> reg_ar (g_r g)"
abbreviation dsp_ix :: "dsp \<Rightarrow> u16 array" where "dsp_ix g \<equiv> reg_ix (g_r g)"
abbreviation dsp_wr :: "dsp \<Rightarrow> u16 array" where "dsp_wr g \<equiv> reg_wr (g_r g)"
abbreviation dsp_st :: "dsp \<Rightarrow> u16 array" where "dsp_st g \<equiv> reg_st (g_r g)"
abbreviation dsp_sr :: "dsp \<Rightarrow> u16" where "dsp_sr g \<equiv> reg_sr (g_r g)"
abbreviation dsp_prod :: "dsp \<Rightarrow> u64" where "dsp_prod g \<equiv> reg_prod (g_r g)"
abbreviation dsp_ax :: "dsp \<Rightarrow> u32 array" where "dsp_ax g \<equiv> reg_ax (g_r g)"
abbreviation dsp_ac :: "dsp \<Rightarrow> u64 array" where "dsp_ac g \<equiv> reg_ac (g_r g)"

text \<open>The union members \<open>l\<close>, \<open>m\<close>, \<open>h\<close>, \<open>m2\<close>.\<close>

abbreviation ax_l :: "dsp \<Rightarrow> nat \<Rightarrow> u16" where "ax_l g i \<equiv> lane 0 (dsp_ax g i)"
abbreviation ax_h :: "dsp \<Rightarrow> nat \<Rightarrow> u16" where "ax_h g i \<equiv> lane 1 (dsp_ax g i)"
abbreviation ac_l :: "dsp \<Rightarrow> nat \<Rightarrow> u16" where "ac_l g i \<equiv> lane 0 (dsp_ac g i)"
abbreviation ac_m :: "dsp \<Rightarrow> nat \<Rightarrow> u16" where "ac_m g i \<equiv> lane 1 (dsp_ac g i)"
abbreviation ac_h :: "dsp \<Rightarrow> nat \<Rightarrow> u16" where "ac_h g i \<equiv> lane 2 (dsp_ac g i)"
abbreviation prod_l :: "dsp \<Rightarrow> u16" where "prod_l g \<equiv> lane 0 (dsp_prod g)"
abbreviation prod_m :: "dsp \<Rightarrow> u16" where "prod_m g \<equiv> lane 1 (dsp_prod g)"
abbreviation prod_h :: "dsp \<Rightarrow> u16" where "prod_h g \<equiv> lane 2 (dsp_prod g)"
abbreviation prod_m2 :: "dsp \<Rightarrow> u16" where "prod_m2 g \<equiv> lane 3 (dsp_prod g)"

abbreviation upd_r :: "(DSP_Regs \<Rightarrow> DSP_Regs) \<Rightarrow> dsp \<Rightarrow> dsp" where
  "upd_r f g \<equiv> g\<lparr>g_r := f (g_r g)\<rparr>"

abbreviation set_ar :: "nat \<Rightarrow> u16 \<Rightarrow> dsp \<Rightarrow> dsp" where
  "set_ar i v g \<equiv> g\<lparr>g_r := (g_r g)\<lparr>reg_ar := (dsp_ar g)(i := v)\<rparr>\<rparr>"
abbreviation set_ix :: "nat \<Rightarrow> u16 \<Rightarrow> dsp \<Rightarrow> dsp" where
  "set_ix i v g \<equiv> g\<lparr>g_r := (g_r g)\<lparr>reg_ix := (dsp_ix g)(i := v)\<rparr>\<rparr>"
abbreviation set_wr :: "nat \<Rightarrow> u16 \<Rightarrow> dsp \<Rightarrow> dsp" where
  "set_wr i v g \<equiv> g\<lparr>g_r := (g_r g)\<lparr>reg_wr := (dsp_wr g)(i := v)\<rparr>\<rparr>"
abbreviation set_st :: "nat \<Rightarrow> u16 \<Rightarrow> dsp \<Rightarrow> dsp" where
  "set_st i v g \<equiv> g\<lparr>g_r := (g_r g)\<lparr>reg_st := (dsp_st g)(i := v)\<rparr>\<rparr>"
abbreviation set_sr :: "u16 \<Rightarrow> dsp \<Rightarrow> dsp" where
  "set_sr v g \<equiv> g\<lparr>g_r := (g_r g)\<lparr>reg_sr := v\<rparr>\<rparr>"
abbreviation set_rcr :: "u16 \<Rightarrow> dsp \<Rightarrow> dsp" where
  "set_rcr v g \<equiv> g\<lparr>g_r := (g_r g)\<lparr>reg_cr := v\<rparr>\<rparr>"
abbreviation set_prod :: "u64 \<Rightarrow> dsp \<Rightarrow> dsp" where
  "set_prod v g \<equiv> g\<lparr>g_r := (g_r g)\<lparr>reg_prod := v\<rparr>\<rparr>"
abbreviation set_ax :: "nat \<Rightarrow> u32 \<Rightarrow> dsp \<Rightarrow> dsp" where
  "set_ax i v g \<equiv> g\<lparr>g_r := (g_r g)\<lparr>reg_ax := (dsp_ax g)(i := v)\<rparr>\<rparr>"
abbreviation set_ac :: "nat \<Rightarrow> u64 \<Rightarrow> dsp \<Rightarrow> dsp" where
  "set_ac i v g \<equiv> g\<lparr>g_r := (g_r g)\<lparr>reg_ac := (dsp_ac g)(i := v)\<rparr>\<rparr>"

abbreviation set_ac_lane :: "nat \<Rightarrow> nat \<Rightarrow> u16 \<Rightarrow> dsp \<Rightarrow> dsp" where
  "set_ac_lane k i v g \<equiv> set_ac i (set_lane k v (dsp_ac g i)) g"
abbreviation set_ax_lane :: "nat \<Rightarrow> nat \<Rightarrow> u16 \<Rightarrow> dsp \<Rightarrow> dsp" where
  "set_ax_lane k i v g \<equiv> set_ax i (set_lane k v (dsp_ax g i)) g"
abbreviation set_prod_lane :: "nat \<Rightarrow> u16 \<Rightarrow> dsp \<Rightarrow> dsp" where
  "set_prod_lane k v g \<equiv> set_prod (set_lane k v (dsp_prod g)) g"

section \<open>A state with nothing in it\<close>

text \<open>
  All memory and registers zero, except the wrapping registers.  The closed instances of the
  theorems start from it.
\<close>

definition dsp_zero :: dsp where
  "dsp_zero =
     \<lparr>g_r = \<lparr>reg_ar = \<lambda>_. 0, reg_ix = \<lambda>_. 0, reg_wr = \<lambda>_. 0xffff, reg_st = \<lambda>_. 0, reg_cr = 0,
        reg_sr = 0, reg_prod = 0, reg_ax = \<lambda>_. 0, reg_ac = \<lambda>_. 0\<rparr>,
      g_pc = 0, g_cr = 0, reg_stack_ptr = \<lambda>_. 0, g_exceptions = 0,
      external_interrupt_waiting = False, reg_stack = \<lambda>_ _. 0, iram_crc = 0, step_counter = 0,
      g_mbox = \<lambda>_. 0, ifx_regs = \<lambda>_. 0,
      g_accelerator = \<lparr>m_start_address = 0, m_end_address = 0, m_current_address = 0,
        m_sample_format = 0, m_yn1 = 0, m_yn2 = 0, m_pred_scale = 0, m_reads_stopped = False\<rparr>,
      g_iram = \<lambda>_. 0, g_dram = \<lambda>_. 0, g_irom = \<lambda>_. 0, g_coef = \<lambda>_. 0, cpu_ram = \<lambda>_. 0,
      g_init_hax = False, core_state = Running, writeBackLog = replicate 5 0,
      writeBackLogIdx = replicate 5 (- 1), code_flags = \<lambda>_. 0, s_op_table = \<lambda>_. None,
      s_ext_op_table = \<lambda>_. None, wii_mode = False, mmu_mode = False, cpu_bSSSE3 = False, aram = \<lambda>_. 0,
      host_interrupts = 0\<rparr>"

end
