(* ===== verification/DSP_Stacks.thy ===== *)
theory DSP_Stacks
  imports DSP_State
begin

text \<open>
  The hardware stacks of \<open>Core/DSP/DSPStacks.cpp\<close>: the top of stack \<open>k\<close> lives in the register
  \<open>st[k]\<close>, the entries below it in a ring of \<open>DSP_STACK_DEPTH\<close> words.  The locale
  \<open>bounded_stack\<close> is the contract of a stack that forgets its oldest entry when it is full; its
  laws are discharged for the ring, and its lemma on nested pushes gives the nesting depth the
  four DSP stacks support.
\<close>

section \<open>The contract of a bounded stack\<close>

fun push_all :: "('v \<Rightarrow> 's \<Rightarrow> 's) \<Rightarrow> 'v list \<Rightarrow> 's \<Rightarrow> 's" where
  "push_all push [] s = s"
| "push_all push (v # vs) s = push_all push vs (push v s)"

fun pop_many :: "('s \<Rightarrow> 'v \<times> 's) \<Rightarrow> nat \<Rightarrow> 's \<Rightarrow> 'v list \<times> 's" where
  "pop_many pop 0 s = ([], s)"
| "pop_many pop (Suc n) s =
     (let (v, s1) = pop s; (vs, s2) = pop_many pop n s1 in (v # vs, s2))"

locale bounded_stack =
  fixes view :: "'s \<Rightarrow> 'v list"
    and invar :: "'s \<Rightarrow> bool"
    and push :: "'v \<Rightarrow> 's \<Rightarrow> 's"
    and pop :: "'s \<Rightarrow> 'v \<times> 's"
    and depth :: nat
  assumes view_length: "length (view s) = Suc depth"
    and invar_push: "invar s \<Longrightarrow> invar (push v s)"
    and invar_pop: "invar s \<Longrightarrow> invar (snd (pop s))"
    and view_push: "invar s \<Longrightarrow> view (push v s) = v # butlast (view s)"
    and pop_value: "invar s \<Longrightarrow> fst (pop s) = hd (view s)"
    and view_pop: "invar s \<Longrightarrow> butlast (view (snd (pop s))) = tl (view s)"
begin

lemma pop_push:
  assumes "invar s"
  shows "fst (pop (push v s)) = v" and "butlast (view (snd (pop (push v s)))) = butlast (view s)"
  using assms by (simp_all add: pop_value view_pop view_push invar_push)

lemma invar_push_all: "invar s \<Longrightarrow> invar (push_all push vs s)"
  by (induction vs arbitrary: s) (simp_all add: invar_push)

lemma view_push_all:
  "invar s \<Longrightarrow> view (push_all push vs s) = take (Suc depth) (rev vs @ view s)"
proof (induction vs arbitrary: s)
  case Nil
  then show ?case by (simp add: view_length)
next
  case (Cons v vs)
  have "take (Suc depth) (rev vs @ v # butlast (view s)) = take (Suc depth) (rev vs @ v # view s)"
    by (simp add: butlast_conv_take view_length take_Cons' min_def)
  with Cons show ?case by (simp add: invar_push view_push)
qed

lemma pop_many_values:
  "invar s \<Longrightarrow> n \<le> Suc depth \<Longrightarrow> fst (pop_many pop n s) = take n (view s)"
proof (induction n arbitrary: s)
  case 0
  then show ?case by simp
next
  case (Suc n)
  have ne: "view s \<noteq> []"
    using view_length [of s] by auto
  let ?s1 = "snd (pop s)"
  have "take n (view ?s1) = take n (butlast (view ?s1))"
    using Suc.prems by (simp add: butlast_conv_take view_length)
  also have "\<dots> = take n (tl (view s))"
    using Suc.prems by (simp add: view_pop)
  finally have "fst (pop_many pop n ?s1) = take n (tl (view s))"
    using Suc.IH [of ?s1] Suc.prems by (simp add: invar_pop)
  with Suc.prems ne show ?case
    by (simp add: case_prod_beta pop_value take_Suc)
qed

text \<open>Whatever was pushed in a nest of at most \<open>depth + 1\<close> pushes comes back in reverse.\<close>

lemma nested_lifo:
  assumes "invar s" and "length vs \<le> Suc depth"
  shows "fst (pop_many pop (length vs) (push_all push vs s)) = rev vs"
  using assms by (simp add: pop_many_values invar_push_all view_push_all)

end

section \<open>The code\<close>

definition dsp_reg_stack_push :: "nat \<Rightarrow> dsp \<Rightarrow> dsp" where
  "dsp_reg_stack_push stack_reg g =
     (let g = g\<lparr>reg_stack_ptr := (reg_stack_ptr g)(stack_reg := reg_stack_ptr g stack_reg + 1)\<rparr>;
          g = g\<lparr>reg_stack_ptr :=
                  (reg_stack_ptr g)(stack_reg := reg_stack_ptr g stack_reg AND DSP_STACK_MASK)\<rparr>
      in g\<lparr>reg_stack := (reg_stack g)(stack_reg :=
              (reg_stack g stack_reg)(unat (reg_stack_ptr g stack_reg) := dsp_st g stack_reg))\<rparr>)"

definition dsp_reg_stack_pop :: "nat \<Rightarrow> dsp \<Rightarrow> dsp" where
  "dsp_reg_stack_pop stack_reg g =
     (let g = set_st stack_reg (reg_stack g stack_reg (unat (reg_stack_ptr g stack_reg))) g;
          g = g\<lparr>reg_stack_ptr := (reg_stack_ptr g)(stack_reg := reg_stack_ptr g stack_reg - 1)\<rparr>
      in g\<lparr>reg_stack_ptr :=
             (reg_stack_ptr g)(stack_reg := reg_stack_ptr g stack_reg AND DSP_STACK_MASK)\<rparr>)"

text \<open>The stack registers, by their numbers.\<close>

definition StackRegister_Call :: nat where "StackRegister_Call = 0"
definition StackRegister_Data :: nat where "StackRegister_Data = 1"
definition StackRegister_LoopAddress :: nat where "StackRegister_LoopAddress = 2"
definition StackRegister_LoopCounter :: nat where "StackRegister_LoopCounter = 3"

lemmas stack_register_defs [simp] =
  StackRegister_Call_def StackRegister_Data_def StackRegister_LoopAddress_def
  StackRegister_LoopCounter_def

definition dsp_reg_store_stack :: "nat \<Rightarrow> u16 \<Rightarrow> dsp \<Rightarrow> dsp" where
  "dsp_reg_store_stack stack_reg val g = set_st stack_reg val (dsp_reg_stack_push stack_reg g)"

definition dsp_reg_load_stack :: "nat \<Rightarrow> dsp \<Rightarrow> u16 \<times> dsp" where
  "dsp_reg_load_stack stack_reg g = (dsp_st g stack_reg, dsp_reg_stack_pop stack_reg g)"

section \<open>Correctness\<close>

text \<open>What stack \<open>k\<close> holds, top first, and the bound on its pointer.\<close>

definition stack_view :: "nat \<Rightarrow> dsp \<Rightarrow> u16 list" where
  "stack_view k g = dsp_st g k #
     map (\<lambda>i. reg_stack g k ((unat (reg_stack_ptr g k) + 32 - i) mod 32)) [0..<DSP_STACK_DEPTH]"

definition stack_ptr_ok :: "nat \<Rightarrow> dsp \<Rightarrow> bool" where
  "stack_ptr_ok k g \<longleftrightarrow> unat (reg_stack_ptr g k) < DSP_STACK_DEPTH"

lemma unat_and_31: "unat ((x :: u8) AND 31) = unat x mod 32"
  using unat_and_mask [of x 5] by (simp add: mask_eq_exp_minus_1)

lemma stack_ptr_inc: "unat ((x :: u8) + 1 AND 31) = (unat x + 1) mod 32"
proof -
  have "unat (x + 1) = (unat x + 1) mod 256"
    by (simp add: unat_word_ariths)
  then show ?thesis
    by (simp add: unat_and_31 mod_mod_cancel)
qed

lemma stack_ptr_dec: "unat ((x :: u8) - 1 AND 31) = (unat x + 31) mod 32"
proof -
  have "x - 1 = x + 255"
    by simp
  then have "unat (x - 1) = (unat x + 255) mod 256"
    by (simp only: unat_word_ariths) simp
  then have "unat (x - 1 AND 31) = (unat x + 255) mod 32"
    by (simp add: unat_and_31 mod_mod_cancel)
  also have "\<dots> = (unat x + 31 + 7 * 32) mod 32"
    by (simp add: add.commute)
  also have "\<dots> = (unat x + 31) mod 32"
    by (rule mod_mult_self1)
  finally show ?thesis .
qed

lemma stack_ptr_ok_push [simp]: "stack_ptr_ok k (dsp_reg_store_stack j v g)" if "stack_ptr_ok k g"
  using that by (simp add: stack_ptr_ok_def dsp_reg_store_stack_def dsp_reg_stack_push_def Let_def
      stack_ptr_inc)

lemma stack_ptr_ok_pop [simp]: "stack_ptr_ok k (snd (dsp_reg_load_stack j g))" if "stack_ptr_ok k g"
  using that by (simp add: stack_ptr_ok_def dsp_reg_load_stack_def dsp_reg_stack_pop_def Let_def
      stack_ptr_dec)

lemma length_stack_view: "length (stack_view k g) = Suc DSP_STACK_DEPTH"
  by (simp add: stack_view_def)

lemma stack_view_nth:
  "i \<le> DSP_STACK_DEPTH \<Longrightarrow> stack_view k g ! i =
     (case i of 0 \<Rightarrow> dsp_st g k
      | Suc j \<Rightarrow> reg_stack g k ((unat (reg_stack_ptr g k) + 32 - j) mod 32))"
  by (auto simp: stack_view_def nth_Cons simp del: upt_Suc split: nat.splits)

lemma stack_view_push:
  assumes "stack_ptr_ok k g"
  shows "stack_view k (dsp_reg_store_stack k v g) = v # butlast (stack_view k g)"
proof (rule nth_equalityI)
  show "length (stack_view k (dsp_reg_store_stack k v g)) = length (v # butlast (stack_view k g))"
    by (simp add: length_stack_view)
next
  fix i assume "i < length (stack_view k (dsp_reg_store_stack k v g))"
  then have i: "i \<le> 32"
    by (simp add: length_stack_view)
  let ?p = "unat (reg_stack_ptr g k)"
  have p: "?p < 32"
    using assms by (simp add: stack_ptr_ok_def)
  have arith: "((?p + 1) mod 32 + 32 - Suc j) mod 32 = (?p + 32 - j) mod 32" if "j < 32" for j
    using p that by (cases "?p = 31") (auto simp: mod_if)
  have neq: "(?p + 32 - j) mod 32 \<noteq> (?p + 1) mod 32" if "j < 31" for j
    using p that by (auto simp: mod_if)
  show "stack_view k (dsp_reg_store_stack k v g) ! i = (v # butlast (stack_view k g)) ! i"
    using i p arith neq
    by (auto simp: stack_view_nth nth_Cons nth_butlast length_stack_view dsp_reg_store_stack_def
        dsp_reg_stack_push_def Let_def stack_ptr_inc split: nat.splits)
qed

lemma stack_view_pop:
  assumes "stack_ptr_ok k g"
  shows "butlast (stack_view k (snd (dsp_reg_load_stack k g))) = tl (stack_view k g)"
proof (rule nth_equalityI)
  show "length (butlast (stack_view k (snd (dsp_reg_load_stack k g)))) = length (tl (stack_view k g))"
    by (simp add: length_stack_view)
next
  fix i assume "i < length (butlast (stack_view k (snd (dsp_reg_load_stack k g))))"
  then have i: "i < 32"
    by (simp add: length_stack_view)
  let ?p = "unat (reg_stack_ptr g k)"
  have p: "?p < 32"
    using assms by (simp add: stack_ptr_ok_def)
  have arith: "((?p + 31) mod 32 + 32 - j) mod 32 = (?p + 32 - Suc j) mod 32" if "j < 31" for j
    using p that by (cases "?p = 0") (auto simp: mod_if)
  show "butlast (stack_view k (snd (dsp_reg_load_stack k g))) ! i = tl (stack_view k g) ! i"
    using i p arith
    by (auto simp: stack_view_nth nth_tl nth_butlast length_stack_view dsp_reg_load_stack_def
        dsp_reg_stack_pop_def Let_def stack_ptr_dec split: nat.splits)
qed

interpretation dsp_stack: bounded_stack "stack_view k" "stack_ptr_ok k" "dsp_reg_store_stack k"
    "dsp_reg_load_stack k" DSP_STACK_DEPTH for k
proof unfold_locales
  fix s v
  show "length (stack_view k s) = Suc DSP_STACK_DEPTH"
    by (rule length_stack_view)
  assume ok: "stack_ptr_ok k s"
  show "stack_ptr_ok k (dsp_reg_store_stack k v s)" and "stack_ptr_ok k (snd (dsp_reg_load_stack k s))"
    using ok by simp_all
  show "stack_view k (dsp_reg_store_stack k v s) = v # butlast (stack_view k s)"
    using ok by (rule stack_view_push)
  show "fst (dsp_reg_load_stack k s) = hd (stack_view k s)"
    by (simp add: dsp_reg_load_stack_def stack_view_def)
  show "butlast (stack_view k (snd (dsp_reg_load_stack k s))) = tl (stack_view k s)"
    using ok by (rule stack_view_pop)
qed

text \<open>Up to 33 nested values come back from a stack in reverse order.\<close>

theorem stack_nesting:
  assumes "stack_ptr_ok k g" and "length vs \<le> Suc DSP_STACK_DEPTH"
  shows "fst (pop_many (dsp_reg_load_stack k) (length vs) (push_all (dsp_reg_store_stack k) vs g)) = rev vs"
  using assms by (rule dsp_stack.nested_lifo)

theorem stack_nesting_witness:
  "stack_ptr_ok 0 dsp_zero \<and>
   fst (pop_many (dsp_reg_load_stack 0) (length [1, 2, 3 :: u16])
     (push_all (dsp_reg_store_stack 0) [1, 2, 3] dsp_zero)) = rev [1, 2, 3]"
proof -
  have "stack_ptr_ok 0 dsp_zero"
    by (simp add: stack_ptr_ok_def dsp_zero_def)
  moreover have "length [1, 2, 3 :: u16] \<le> Suc DSP_STACK_DEPTH"
    by simp
  ultimately show ?thesis
    using stack_nesting by blast
qed

end
