(* ===== verification/DSP_Accelerator.thy ===== *)
theory DSP_Accelerator
  imports DSP_State
begin

text \<open>
  The sample accelerator of \<open>Core/DSP/DSPAccelerator.cpp\<close> and its host memory.  The class
  \<open>Accelerator\<close> leaves \<open>ReadMemory\<close>, \<open>WriteMemory\<close> and \<open>OnEndException\<close> to its subclass:
  here its operations take the memory functions as arguments and report the end exception as a
  boolean.  The locale \<open>accelerator_memory\<close> is the contract of the two memory functions; the
  ARAM of \<open>Core/HW/DSP.cpp\<close>, which \<open>LLEAccelerator\<close> reaches through \<open>DSPHost.cpp\<close>, meets it.
  The signed 32-bit sums of the ADPCM predictor wrap.
\<close>

section \<open>The code\<close>

definition Clamp_s32 :: "s32 \<Rightarrow> s32 \<Rightarrow> s32 \<Rightarrow> s32" where
  "Clamp_s32 val mn mx =
     (let m = (if sint val < sint mx then val else mx)
      in if sint mn < sint m then m else mn)"

definition START_END_ADDRESS_MASK :: u32 where "START_END_ADDRESS_MASK = 0x3fffffff"
definition CURRENT_ADDRESS_MASK :: u32 where "CURRENT_ADDRESS_MASK = 0xbfffffff"

definition SetStartAddress :: "u32 \<Rightarrow> Accelerator \<Rightarrow> Accelerator" where
  "SetStartAddress address a = a\<lparr>m_start_address := address AND START_END_ADDRESS_MASK\<rparr>"

definition SetEndAddress :: "u32 \<Rightarrow> Accelerator \<Rightarrow> Accelerator" where
  "SetEndAddress address a = a\<lparr>m_end_address := address AND START_END_ADDRESS_MASK\<rparr>"

definition SetCurrentAddress :: "u32 \<Rightarrow> Accelerator \<Rightarrow> Accelerator" where
  "SetCurrentAddress address a = a\<lparr>m_current_address := address AND CURRENT_ADDRESS_MASK\<rparr>"

definition SetSampleFormat :: "u16 \<Rightarrow> Accelerator \<Rightarrow> Accelerator" where
  "SetSampleFormat format a = a\<lparr>m_sample_format := format\<rparr>"

definition SetYn1 :: "s16 \<Rightarrow> Accelerator \<Rightarrow> Accelerator" where
  "SetYn1 yn1 a = a\<lparr>m_yn1 := yn1\<rparr>"

definition SetYn2 :: "s16 \<Rightarrow> Accelerator \<Rightarrow> Accelerator" where
  "SetYn2 yn2 a = a\<lparr>m_yn2 := yn2, m_reads_stopped := False\<rparr>"

definition SetPredScale :: "u16 \<Rightarrow> Accelerator \<Rightarrow> Accelerator" where
  "SetPredScale pred_scale a = a\<lparr>m_pred_scale := pred_scale AND 0x7f\<rparr>"

text \<open>\<open>(ReadMemory(a * 2) << 8) | ReadMemory(a * 2 + 1)\<close> as a \<open>u16\<close>.\<close>

definition read_u16 :: "(u32 \<Rightarrow> u8) \<Rightarrow> u32 \<Rightarrow> u16" where
  "read_u16 mem address = push_bit 8 (ucast (mem (address * 2))) OR ucast (mem (address * 2 + 1))"

definition ReadD3 :: "(u32 \<Rightarrow> u8) \<Rightarrow> Accelerator \<Rightarrow> u16 \<times> Accelerator" where
  "ReadD3 mem a =
     (let (val, a) =
        (if m_sample_format a = 0x5 then
           (ucast (mem (m_current_address a)), a\<lparr>m_current_address := m_current_address a + 1\<rparr>)
         else if m_sample_format a = 0x6 then
           (read_u16 mem (m_current_address a), a\<lparr>m_current_address := m_current_address a + 1\<rparr>)
         else (0, a));
        a = (if m_end_address a \<le> m_current_address a
             then a\<lparr>m_current_address := m_start_address a\<rparr> else a)
      in (val, a))"

definition WriteD3 ::
  "(u32 \<Rightarrow> u8 \<Rightarrow> 'h \<Rightarrow> 'h) \<Rightarrow> u16 \<Rightarrow> Accelerator \<Rightarrow> 'h \<Rightarrow> Accelerator \<times> 'h" where
  "WriteD3 write value a h =
     (if m_sample_format a = 0xA then
        (let h = write (m_current_address a * 2) (ucast (drop_bit 8 value)) h;
             h = write (m_current_address a * 2 + 1) (ucast (value AND 0xFF)) h
         in (a\<lparr>m_current_address := m_current_address a + 1\<rparr>, h))
      else (a, h))"

text \<open>The ADPCM case of \<open>Read\<close>: the sample, the accelerator and \<open>step_size_bytes\<close>.\<close>

definition adpcm_nibble :: "(u32 \<Rightarrow> u8) \<Rightarrow> u32 \<Rightarrow> s32" where
  "adpcm_nibble mem address =
     (let b = mem (drop_bit 1 address);
          temp = (if address AND 1 \<noteq> 0 then ucast (b AND 0xF) else ucast (drop_bit 4 b) :: s32)
      in if sint temp \<ge> 8 then temp - 16 else temp)"

definition adpcm_sample :: "(u32 \<Rightarrow> u8) \<Rightarrow> (nat \<Rightarrow> u16) \<Rightarrow> Accelerator \<Rightarrow> u16" where
  "adpcm_sample mem coefs a =
     (let scale = push_bit (unat (m_pred_scale a AND 0xF)) (1 :: s32);
          coef_idx = unat (drop_bit 4 (m_pred_scale a) AND 0x7);
          coef1 = scast (coefs (coef_idx * 2 + 0)) :: s32;
          coef2 = scast (coefs (coef_idx * 2 + 1)) :: s32;
          temp = adpcm_nibble mem (m_current_address a);
          val32 = scale * temp +
                  signed_drop_bit 11 (0x400 + coef1 * scast (m_yn1 a) + coef2 * scast (m_yn2 a))
      in ucast (Clamp_s32 val32 (- 0x7FFF) 0x7FFF))"

definition Read_adpcm ::
  "(u32 \<Rightarrow> u8) \<Rightarrow> (nat \<Rightarrow> u16) \<Rightarrow> Accelerator \<Rightarrow> u16 \<times> Accelerator \<times> u32" where
  "Read_adpcm mem coefs a =
     (let val = adpcm_sample mem coefs a;
          a = a\<lparr>m_yn2 := m_yn1 a, m_yn1 := val, m_current_address := m_current_address a + 1\<rparr>
      in if m_end_address a AND 0xf = 0x0 \<and> m_current_address a = m_end_address a then
           (val, a\<lparr>m_current_address := m_start_address a + 1\<rparr>, 2)
         else if m_end_address a AND 0xf = 0x1 \<and> m_current_address a = m_end_address a - 1 then
           (val, a\<lparr>m_current_address := m_start_address a\<rparr>, 2)
         else if m_current_address a AND 15 = 0 then
           (val, a\<lparr>m_pred_scale := ucast (mem (drop_bit 1 (m_current_address a AND NOT 15))),
                   m_current_address := m_current_address a + 2\<rparr>, 4)
         else (val, a, 2))"

definition Accelerator_Read ::
  "(u32 \<Rightarrow> u8) \<Rightarrow> (nat \<Rightarrow> u16) \<Rightarrow> Accelerator \<Rightarrow> u16 \<times> Accelerator \<times> bool" where
  "Accelerator_Read mem coefs a =
     (if m_reads_stopped a then (0, a, False)
      else
        (let (val, a, step_size_bytes) =
           (if m_sample_format a = 0x00 then Read_adpcm mem coefs a
            else if m_sample_format a = 0x0A then
              (let val = read_u16 mem (m_current_address a)
               in (val, a\<lparr>m_yn2 := m_yn1 a, m_yn1 := val,
                         m_current_address := m_current_address a + 1\<rparr>, 2))
            else if m_sample_format a = 0x19 then
              (let val = push_bit 8 (ucast (mem (m_current_address a)))
               in (val, a\<lparr>m_yn2 := m_yn1 a, m_yn1 := val,
                         m_current_address := m_current_address a + 1\<rparr>, 2))
            else (0, a\<lparr>m_current_address := m_current_address a + 1\<rparr>, 2));
           at_end = (m_current_address a = m_end_address a + step_size_bytes - 1);
           a = (if at_end
                then a\<lparr>m_current_address := m_start_address a, m_reads_stopped := True\<rparr>
                else a)
         in (val, SetCurrentAddress (m_current_address a) a, at_end)))"

section \<open>Host memory\<close>

text \<open>
  \<open>ReadARAM\<close> and \<open>WriteARAM\<close> of \<open>Core/HW/DSP.cpp\<close>.  On the Wii \<open>s_ARAM.ptr\<close> is the EXRAM, which
  the physical memory map of \<open>Memmap.cpp\<close> also shows at \<open>0x10000000\<close>; on the GameCube it is a
  buffer of its own.
\<close>

definition ARAM_MASK :: u32 where "ARAM_MASK = 0x00FFFFFF"

definition ReadARAM :: "dsp \<Rightarrow> u32 \<Rightarrow> u8" where
  "ReadARAM g address =
     (if wii_mode g then
        (if address AND 0x10000000 \<noteq> 0 then cpu_ram g (0x10000000 + unat (address AND EXRAM_MASK))
         else cpu_ram g (unat (address AND RAM_MASK)))
      else aram g (unat (address AND ARAM_MASK)))"

definition WriteARAM :: "u32 \<Rightarrow> u8 \<Rightarrow> dsp \<Rightarrow> dsp" where
  "WriteARAM address value g =
     (if wii_mode g then
        g\<lparr>cpu_ram := (cpu_ram g)(0x10000000 + unat (address AND EXRAM_MASK) := value)\<rparr>
      else g\<lparr>aram := (aram g)(unat (address AND ARAM_MASK) := value)\<rparr>)"

section \<open>The contract of the memory functions\<close>

locale accelerator_memory =
  fixes usable :: "'h \<Rightarrow> bool"
    and readable :: "u32 \<Rightarrow> bool"
    and cell :: "u32 \<Rightarrow> 'c"
    and ReadMemory :: "'h \<Rightarrow> u32 \<Rightarrow> u8"
    and WriteMemory :: "u32 \<Rightarrow> u8 \<Rightarrow> 'h \<Rightarrow> 'h"
  assumes usable_write: "usable h \<Longrightarrow> usable (WriteMemory x v h)"
    and read_write: "usable h \<Longrightarrow> readable y \<Longrightarrow>
      ReadMemory (WriteMemory x v h) y = (if cell x = cell y then v else ReadMemory h y)"
    and even_odd_cells: "cell (2 * x) \<noteq> cell (2 * x + 1)"
begin

text \<open>A word stored through \<open>WriteD3\<close> is the 16-bit sample at that address.\<close>

lemma read_u16_WriteD3:
  assumes "usable h" and "m_sample_format a = 0xA"
    and "readable (m_current_address a * 2)" and "readable (m_current_address a * 2 + 1)"
  shows "read_u16 (ReadMemory (snd (WriteD3 WriteMemory v a h))) (m_current_address a) = v"
proof -
  let ?x = "m_current_address a * 2"
  let ?h1 = "WriteMemory ?x (ucast (drop_bit 8 v)) h"
  have "cell ?x \<noteq> cell (?x + 1)"
    using even_odd_cells [of "m_current_address a"] by (simp add: mult.commute)
  with assms show ?thesis
    by (simp add: read_u16_def WriteD3_def Let_def read_write usable_write byte_pair)
qed

end

lemma even_odd_mask:
  assumes "bit m 0"
  shows "(2 * x) AND m \<noteq> (2 * x + 1) AND (m :: u32)"
proof
  assume "(2 * x) AND m = (2 * x + 1) AND m"
  then have "bit ((2 * x) AND m) 0 \<longleftrightarrow> bit ((2 * x + 1) AND m) 0"
    by simp
  then show False
    using assms by (simp add: bit_0 even_and_iff)
qed

interpretation gc_aram: accelerator_memory "\<lambda>g. \<not> wii_mode g" "\<lambda>_. True" "\<lambda>x. unat (x AND ARAM_MASK)"
    ReadARAM WriteARAM
proof unfold_locales
  fix x :: u32
  show "unat (2 * x AND ARAM_MASK) \<noteq> unat (2 * x + 1 AND ARAM_MASK)"
    using even_odd_mask [of ARAM_MASK x] by (simp add: ARAM_MASK_def bit_0 word_unat_eq_iff)
qed (auto simp: ReadARAM_def WriteARAM_def)

interpretation wii_exram: accelerator_memory wii_mode "\<lambda>x. x AND 0x10000000 \<noteq> 0"
    "\<lambda>x. unat (x AND EXRAM_MASK)" ReadARAM WriteARAM
proof unfold_locales
  fix x :: u32
  show "unat (2 * x AND EXRAM_MASK) \<noteq> unat (2 * x + 1 AND EXRAM_MASK)"
    using even_odd_mask [of EXRAM_MASK x] by (simp add: EXRAM_MASK_def bit_0 word_unat_eq_iff)
qed (auto simp: ReadARAM_def WriteARAM_def)

section \<open>Playback\<close>

text \<open>\<open>n\<close> reads of the accelerator: the samples, the end exceptions, the object after them.\<close>

fun accel_reads ::
  "(u32 \<Rightarrow> u8) \<Rightarrow> (nat \<Rightarrow> u16) \<Rightarrow> nat \<Rightarrow> Accelerator \<Rightarrow> u16 list \<times> bool list \<times> Accelerator" where
  "accel_reads mem coefs 0 a = ([], [], a)"
| "accel_reads mem coefs (Suc n) a =
     (let (v, a1, e) = Accelerator_Read mem coefs a;
          (vs, es, a2) = accel_reads mem coefs n a1
      in (v # vs, e # es, a2))"

definition accel_addrs_ok :: "Accelerator \<Rightarrow> bool" where
  "accel_addrs_ok a \<longleftrightarrow> unat (m_start_address a) < 2 ^ 30 \<and> unat (m_end_address a) < 2 ^ 30"

lemma and_current_mask: "unat x < 2 ^ 30 \<Longrightarrow> x AND CURRENT_ADDRESS_MASK = x"
proof -
  assume "unat x < 2 ^ 30"
  then have x: "x AND mask 30 = x"
    by (rule and_mask_self)
  have "mask 30 AND CURRENT_ADDRESS_MASK = (mask 30 :: u32)"
    by (simp add: CURRENT_ADDRESS_MASK_def mask_eq_exp_minus_1)
  with x show ?thesis
    by (metis and.assoc)
qed

lemma pcm16_read_inside:
  assumes "m_sample_format a = 0xA" and "\<not> m_reads_stopped a" and "accel_addrs_ok a"
    and "unat (m_current_address a) < unat (m_end_address a)"
  shows "Accelerator_Read mem coefs a =
     (read_u16 mem (m_current_address a),
      a\<lparr>m_yn2 := m_yn1 a, m_yn1 := read_u16 mem (m_current_address a),
        m_current_address := m_current_address a + 1\<rparr>, False)"
proof -
  have inc: "unat (m_current_address a + 1) = unat (m_current_address a) + 1"
    using assms by (simp add: accel_addrs_ok_def unat_word_ariths)
  then have "(m_current_address a + 1) AND CURRENT_ADDRESS_MASK = m_current_address a + 1"
    using assms by (intro and_current_mask) (simp add: accel_addrs_ok_def)
  moreover have "m_current_address a \<noteq> m_end_address a"
    using assms(4) by auto
  ultimately show ?thesis
    using assms by (simp add: Accelerator_Read_def Let_def SetCurrentAddress_def)
qed

lemma pcm16_read_last:
  assumes "m_sample_format a = 0xA" and "\<not> m_reads_stopped a" and "accel_addrs_ok a"
    and "m_current_address a = m_end_address a"
  shows "Accelerator_Read mem coefs a =
     (read_u16 mem (m_current_address a),
      a\<lparr>m_yn2 := m_yn1 a, m_yn1 := read_u16 mem (m_current_address a),
        m_current_address := m_start_address a, m_reads_stopped := True\<rparr>, True)"
  using assms by (simp add: Accelerator_Read_def Let_def SetCurrentAddress_def and_current_mask
      accel_addrs_ok_def)

lemma pcm16_playback:
  assumes "m_sample_format a = 0xA" and "\<not> m_reads_stopped a" and "accel_addrs_ok a"
    and "unat (m_end_address a) = unat (m_current_address a) + n"
  shows "\<exists>a'. accel_reads mem coefs (Suc n) a =
       (map (\<lambda>i. read_u16 mem (m_current_address a + of_nat i)) [0..<Suc n],
        replicate n False @ [True], a')
     \<and> m_reads_stopped a' \<and> m_current_address a' = m_start_address a
     \<and> m_start_address a' = m_start_address a \<and> m_end_address a' = m_end_address a"
  using assms
proof (induction n arbitrary: a)
  case 0
  then have "m_current_address a = m_end_address a"
    by (simp add: word_unat_eq_iff)
  with 0 show ?case
    by (simp add: pcm16_read_last)
next
  case (Suc n)
  let ?a1 = "a\<lparr>m_yn2 := m_yn1 a, m_yn1 := read_u16 mem (m_current_address a),
        m_current_address := m_current_address a + 1\<rparr>"
  have inc: "unat (m_current_address a + 1) = unat (m_current_address a) + 1"
    using Suc.prems by (simp add: accel_addrs_ok_def unat_word_ariths)
  obtain a' where a': "accel_reads mem coefs (Suc n) ?a1 =
       (map (\<lambda>i. read_u16 mem (m_current_address a + 1 + of_nat i)) [0..<Suc n],
        replicate n False @ [True], a')"
    and props: "m_reads_stopped a'" "m_current_address a' = m_start_address a"
      "m_start_address a' = m_start_address a" "m_end_address a' = m_end_address a"
    using Suc.IH [of ?a1] Suc.prems inc by (auto simp: accel_addrs_ok_def)
  have "map (\<lambda>i. read_u16 mem (m_current_address a + of_nat i)) [0..<Suc (Suc n)] =
      read_u16 mem (m_current_address a) #
      map (\<lambda>i. read_u16 mem (m_current_address a + 1 + of_nat i)) [0..<Suc n]"
    by (simp add: upt_conv_Cons map_Suc_upt [symmetric] add.assoc del: upt_Suc)
  moreover have "Accelerator_Read mem coefs a = (read_u16 mem (m_current_address a), ?a1, False)"
    using Suc.prems by (intro pcm16_read_inside) auto
  ultimately show ?case
    using a' props by (simp del: upt_Suc accel_reads.simps(2) add: accel_reads.simps(2) [of _ _ "Suc n"])
qed

text \<open>A 16-bit sample written through the D3 port is read back, on both consoles.\<close>

theorem d3_write_read:
  assumes "m_sample_format a = 0xA"
    and "wii_mode g \<Longrightarrow> m_current_address a * 2 AND 0x10000000 \<noteq> 0
      \<and> (m_current_address a * 2 + 1) AND 0x10000000 \<noteq> 0"
  shows "read_u16 (ReadARAM (snd (WriteD3 WriteARAM v a g))) (m_current_address a) = v
     \<and> m_current_address (fst (WriteD3 WriteARAM v a g)) = m_current_address a + 1"
proof
  show "read_u16 (ReadARAM (snd (WriteD3 WriteARAM v a g))) (m_current_address a) = v"
    using assms gc_aram.read_u16_WriteD3 [of g a v] wii_exram.read_u16_WriteD3 [of g a v] by blast
  show "m_current_address (fst (WriteD3 WriteARAM v a g)) = m_current_address a + 1"
    using assms by (simp add: WriteD3_def)
qed

theorem d3_write_read_witness:
  "read_u16 (ReadARAM (snd (WriteD3 WriteARAM 0x1234
     ((g_accelerator dsp_zero)\<lparr>m_sample_format := 0xA, m_current_address := 0x8000000\<rparr>)
     (dsp_zero\<lparr>wii_mode := True\<rparr>)))) 0x8000000 = 0x1234"
  using d3_write_read [of "(g_accelerator dsp_zero)\<lparr>m_sample_format := 0xA, m_current_address := 0x8000000\<rparr>"
      "dsp_zero\<lparr>wii_mode := True\<rparr>" "0x1234"] by simp

text \<open>C35: PCM16 playback returns the block from the current to the end address, then stops and loops.\<close>

theorem pcm16_block:
  assumes "m_sample_format a = 0xA" and "\<not> m_reads_stopped a" and "accel_addrs_ok a"
    and "unat (m_end_address a) = unat (m_current_address a) + n"
  shows "\<exists>a'. accel_reads mem coefs (Suc n) a =
       (map (\<lambda>i. read_u16 mem (m_current_address a + of_nat i)) [0..<Suc n],
        replicate n False @ [True], a')
     \<and> m_reads_stopped a' \<and> m_current_address a' = m_start_address a
     \<and> m_start_address a' = m_start_address a \<and> m_end_address a' = m_end_address a"
  using assms by (rule pcm16_playback)

theorem pcm16_block_witness:
  "fst (snd (accel_reads (\<lambda>_. 0) (\<lambda>_. 0) (Suc 1)
     ((g_accelerator dsp_zero)\<lparr>m_sample_format := 0xA, m_end_address := 1\<rparr>))) = [False, True]"
proof -
  let ?a = "(g_accelerator dsp_zero)\<lparr>m_sample_format := 0xA, m_end_address := 1\<rparr>"
  have "m_sample_format ?a = 0xA" "\<not> m_reads_stopped ?a" "accel_addrs_ok ?a"
    "unat (m_end_address ?a) = unat (m_current_address ?a) + 1"
    by (simp_all add: dsp_zero_def accel_addrs_ok_def)
  from pcm16_block [OF this, of "\<lambda>_. 0" "\<lambda>_. 0"]
  have "fst (snd (accel_reads (\<lambda>_. 0) (\<lambda>_. 0) (Suc 1) ?a)) = replicate 1 False @ [True]"
    by (metis fst_conv snd_conv)
  then show ?thesis
    by simp
qed

end
