(* ===== verification/DSP_Analyzer.thy ===== *)
theory DSP_Analyzer
  imports DSP_Stacks DSP_Accelerator
begin

text \<open>
  The code analyzer of \<open>Core/DSP/DSPAnalyzer.cpp\<close>, with the instruction fetch
  \<open>dsp_imem_read\<close> of \<open>DSPMemoryMap.cpp\<close> and \<open>GetOpTemplate\<close> of \<open>DSPTables.cpp\<close> it reads, and the
  reset of \<open>DSPCore.cpp\<close> that runs it.  The loop over the instructions runs at most
  \<open>end_addr - start_addr\<close> times, because every instruction has one or two words;
  \<open>analyze_insts_exit\<close> shows that it leaves through its guard.
\<close>

section \<open>The code\<close>

definition CODE_START_OF_INST :: u8 where "CODE_START_OF_INST = 1"
definition CODE_IDLE_SKIP :: u8 where "CODE_IDLE_SKIP = 2"
definition CODE_LOOP_START :: u8 where "CODE_LOOP_START = 4"
definition CODE_LOOP_END :: u8 where "CODE_LOOP_END = 8"
definition CODE_UPDATE_SR :: u8 where "CODE_UPDATE_SR = 16"
definition CODE_CHECK_INT :: u8 where "CODE_CHECK_INT = 32"

text \<open>\<open>0xFFFF\<close> stands for any word; the first \<open>0\<close> ends a signature.\<close>

definition idle_skip_sigs :: "u16 list list" where
  "idle_skip_sigs = [
    [0x26fc, 0x02c0, 0x8000, 0x029d, 0xFFFF, 0, 0],
    [0x27fc, 0x03c0, 0x8000, 0x029d, 0xFFFF, 0, 0],
    [0x26fe, 0x02c0, 0x8000, 0x029c, 0xFFFF, 0, 0],
    [0x27fe, 0x03c0, 0x8000, 0x029c, 0xFFFF, 0, 0],
    [0x26fc, 0x02a0, 0x8000, 0x029c, 0xFFFF, 0, 0],
    [0x27fc, 0x03a0, 0x8000, 0x029c, 0xFFFF, 0, 0],
    [0x00de, 0xFFFE, 0x02c0, 0x8000, 0x029c, 0xFFFF, 0],
    [0x00da, 0x0352, 0x8600, 0x0295, 0xFFFF, 0, 0]]"

definition dsp_imem_read :: "u16 \<Rightarrow> dsp \<Rightarrow> u16" where
  "dsp_imem_read addr g =
     (if drop_bit 12 addr = 0 then g_iram g (unat (addr AND DSP_IRAM_MASK))
      else if drop_bit 12 addr = 8 then g_irom g (unat (addr AND DSP_IROM_MASK))
      else 0)"

definition GetOpTemplate :: "u16 \<Rightarrow> dsp \<Rightarrow> DSPOPCTemplate option" where
  "GetOpTemplate inst g = s_op_table g (unat inst)"

definition GetExtOpTemplate :: "u16 \<Rightarrow> dsp \<Rightarrow> DSPOPCTemplate option" where
  "GetExtOpTemplate inst g =
     (if drop_bit 12 inst = 0x3 then s_ext_op_table g (unat (inst AND 0x7F))
      else s_ext_op_table g (unat (inst AND 0xFF)))"

text \<open>\<open>code_flags[addr] |= f\<close>.\<close>

definition or_flag :: "u16 \<Rightarrow> u8 \<Rightarrow> u8 array \<Rightarrow> u8 array" where
  "or_flag addr f flags = flags(unat addr := flags (unat addr) OR f)"

definition is_block_loop :: "u16 \<Rightarrow> bool" where
  "is_block_loop inst \<longleftrightarrow> inst AND 0xffe0 = 0x0060 \<or> inst AND 0xff00 = 0x1100"

definition is_single_loop :: "u16 \<Rightarrow> bool" where
  "is_single_loop inst \<longleftrightarrow> inst AND 0xffe0 = 0x0040 \<or> inst AND 0xff00 = 0x1000"

definition may_raise :: "DSPOPCTemplate \<Rightarrow> bool" where
  "may_raise opcode \<longleftrightarrow>
     op_opcode opcode = 0x00c0 \<or> op_opcode opcode = 0x1800 \<or> op_opcode opcode = 0x1880 \<or>
     op_opcode opcode = 0x1900 \<or> op_opcode opcode = 0x1980 \<or> op_opcode opcode = 0x2000 \<or>
     op_extended opcode"

text \<open>One round of the instruction loop, on \<open>addr\<close>, \<open>last_arithmetic\<close> and \<open>code_flags\<close>.\<close>

definition analyze_inst :: "dsp \<Rightarrow> u16 \<times> u16 \<times> u8 array \<Rightarrow> u16 \<times> u16 \<times> u8 array" where
  "analyze_inst g = (\<lambda>(addr, last_arithmetic, flags).
     let inst = dsp_imem_read addr g
     in case GetOpTemplate inst g of
          None \<Rightarrow> (addr + 1, last_arithmetic, flags)
        | Some opcode \<Rightarrow>
            (let flags = or_flag addr CODE_START_OF_INST flags;
                 flags =
                   (if is_block_loop inst then
                      or_flag (dsp_imem_read (addr + 1) g) CODE_LOOP_END
                        (or_flag addr CODE_LOOP_START flags)
                    else if is_single_loop inst then
                      or_flag (addr + 1) CODE_LOOP_END (or_flag addr CODE_LOOP_START flags)
                    else flags);
                 last_arithmetic = (if op_updates_sr opcode then addr else last_arithmetic);
                 flags =
                   (if op_branch opcode \<and> \<not> op_uncond_branch opcode
                    then or_flag last_arithmetic CODE_UPDATE_SR flags else flags);
                 flags =
                   (if may_raise opcode
                    then or_flag (addr + of_nat (op_size opcode)) CODE_CHECK_INT flags
                    else flags)
             in (addr + of_nat (op_size opcode), last_arithmetic, flags)))"

fun analyze_insts :: "dsp \<Rightarrow> u16 \<Rightarrow> nat \<Rightarrow> u16 \<times> u16 \<times> u8 array \<Rightarrow> u16 \<times> u16 \<times> u8 array" where
  "analyze_insts g end_addr 0 s = s"
| "analyze_insts g end_addr (Suc n) s =
     (if fst s < end_addr then analyze_insts g end_addr n (analyze_inst g s) else s)"

text \<open>The loop over the words of a signature, and the scan of a range for it.\<close>

fun idle_sig_found :: "dsp \<Rightarrow> u16 \<Rightarrow> u16 list \<Rightarrow> bool \<Rightarrow> bool" where
  "idle_sig_found g addr [] found = found"
| "idle_sig_found g addr (w # ws) found =
     (let found = (if w = 0 then True else found)
      in if w = 0xFFFF then idle_sig_found g (addr + 1) ws found
         else if w \<noteq> dsp_imem_read addr g then found
         else idle_sig_found g (addr + 1) ws found)"

fun idle_scan :: "dsp \<Rightarrow> u16 list \<Rightarrow> u16 list \<Rightarrow> u8 array \<Rightarrow> u8 array" where
  "idle_scan g sig [] flags = flags"
| "idle_scan g sig (addr # addrs) flags =
     idle_scan g sig addrs
       (if idle_sig_found g addr sig False then or_flag addr CODE_IDLE_SKIP flags else flags)"

fun idle_scans :: "dsp \<Rightarrow> u16 list list \<Rightarrow> u16 list \<Rightarrow> u8 array \<Rightarrow> u8 array" where
  "idle_scans g [] addrs flags = flags"
| "idle_scans g (sig # sigs) addrs flags = idle_scans g sigs addrs (idle_scan g sig addrs flags)"

definition addr_range :: "u16 \<Rightarrow> u16 \<Rightarrow> u16 list" where
  "addr_range start_addr end_addr = map of_nat [unat start_addr..<unat end_addr]"

definition Analyzer_Reset :: "dsp \<Rightarrow> dsp" where
  "Analyzer_Reset g = g\<lparr>code_flags := (\<lambda>_. 0)\<rparr>"

definition AnalyzeRange :: "u16 \<Rightarrow> u16 \<Rightarrow> dsp \<Rightarrow> dsp" where
  "AnalyzeRange start_addr end_addr g =
     (let (_, _, flags) = analyze_insts g end_addr (unat end_addr - unat start_addr)
                            (start_addr, 0, code_flags g)
      in g\<lparr>code_flags := idle_scans g idle_skip_sigs (addr_range start_addr end_addr) flags\<rparr>)"

definition Analyze :: "dsp \<Rightarrow> dsp" where
  "Analyze g = AnalyzeRange 0x8000 0x9000 (AnalyzeRange 0x0000 0x1000 (Analyzer_Reset g))"

definition GetCodeFlags :: "u16 \<Rightarrow> dsp \<Rightarrow> u8" where
  "GetCodeFlags address g = code_flags g (unat address)"

definition DSPCore_Reset :: "dsp \<Rightarrow> dsp" where
  "DSPCore_Reset g =
     (let g = g\<lparr>g_pc := DSP_RESET_VECTOR\<rparr>;
          g = g\<lparr>g_r := (g_r g)\<lparr>reg_wr := (\<lambda>_. 0xffff)\<rparr>\<rparr>
      in Analyze g)"

definition InitInstructionTable :: "dsp \<Rightarrow> dsp" where
  "InitInstructionTable g =
     (let (ext, _) = init_ext_op_table EXT_OPTABLE_SIZE (s_ext_op_table g);
          (ops, _) = init_op_table OPTABLE_SIZE (\<lambda>i. if i < OPTABLE_SIZE then Some cw else s_op_table g i)
      in g\<lparr>s_ext_op_table := ext, s_op_table := ops,
           writeBackLogIdx := replicate 5 (- 1)\<rparr>)"

section \<open>The tables after initialization\<close>

definition tables_ready :: "dsp \<Rightarrow> bool" where
  "tables_ready g \<longleftrightarrow>
     (\<forall>i < OPTABLE_SIZE. s_op_table g i = Some (op_entry (of_nat i))) \<and>
     (\<forall>i < EXT_OPTABLE_SIZE. s_ext_op_table g i = Some (ext_op_entry (of_nat i)))"

lemma tables_ready_Init: "tables_ready (InitInstructionTable g)"
  by (simp add: tables_ready_def InitInstructionTable_def init_ext_op_table_eq init_op_table_eq)

lemma GetOpTemplate_ready:
  assumes "tables_ready g"
  shows "GetOpTemplate inst g = Some (op_entry inst)"
proof -
  have "unat inst < OPTABLE_SIZE"
    using unsigned_less [of inst] by (simp add: OPTABLE_SIZE_def)
  with assms show ?thesis
    by (simp add: tables_ready_def GetOpTemplate_def)
qed

lemma op_entry_all: "list_all P (cw # s_opcodes) \<Longrightarrow> P (op_entry opc)"
  using op_entry_in [of opc] by (auto simp: list_all_iff)

lemma ext_op_entry_all: "list_all P (cw # s_opcodes_ext) \<Longrightarrow> P (ext_op_entry opc)"
  using ext_op_entry_in [of opc] by (auto simp: list_all_iff)

lemma op_size_rows: "list_all (\<lambda>t. op_size t = 1 \<or> op_size t = 2) (cw # s_opcodes)"
  unfolding s_opcodes_def s_opcodes_flow_def s_opcodes_move_def s_opcodes_acc_def cw_def
    append_Cons append_Nil list.pred_inject DSPOPCTemplate.sel
  by simp

lemma op_size_cases: "op_size (op_entry opc) = 1 \<or> op_size (op_entry opc) = 2"
  by (rule op_entry_all) (rule op_size_rows)

section \<open>The flags\<close>

lemma code_flags_exp:
  "CODE_START_OF_INST = 2 ^ 0" "CODE_IDLE_SKIP = 2 ^ 1" "CODE_LOOP_START = 2 ^ 2"
  "CODE_LOOP_END = 2 ^ 3" "CODE_UPDATE_SR = 2 ^ 4" "CODE_CHECK_INT = 2 ^ 5"
  by (simp_all add: CODE_START_OF_INST_def CODE_IDLE_SKIP_def CODE_LOOP_START_def
      CODE_LOOP_END_def CODE_UPDATE_SR_def CODE_CHECK_INT_def)

lemma bit_code_flags [simp]:
  "bit CODE_START_OF_INST n \<longleftrightarrow> n = 0"
  "bit CODE_IDLE_SKIP n \<longleftrightarrow> n = 1"
  "bit CODE_LOOP_START n \<longleftrightarrow> n = 2"
  "bit CODE_LOOP_END n \<longleftrightarrow> n = 3"
  "bit CODE_UPDATE_SR n \<longleftrightarrow> n = 4"
  "bit CODE_CHECK_INT n \<longleftrightarrow> n = 5"
  unfolding code_flags_exp bit_exp_iff by auto

lemma bit_or_flag [simp]:
  "bit (or_flag a f flags b) n \<longleftrightarrow> bit (flags b) n \<or> b = unat a \<and> bit f n"
  by (auto simp: or_flag_def bit_or_iff)

text \<open>The addresses at which the linear scan from \<open>addr\<close> finds an instruction.\<close>

definition inst_size :: "u16 \<Rightarrow> dsp \<Rightarrow> u16" where
  "inst_size addr g = of_nat (op_size (op_entry (dsp_imem_read addr g)))"

inductive decoded :: "dsp \<Rightarrow> u16 \<Rightarrow> u16 \<Rightarrow> u16 \<Rightarrow> bool" for g end_addr where
  decoded_here: "addr < end_addr \<Longrightarrow> decoded g end_addr addr addr"
| decoded_next: "addr < end_addr \<Longrightarrow> decoded g end_addr (addr + inst_size addr g) a \<Longrightarrow>
    decoded g end_addr addr a"

inductive_cases decodedE: "decoded g end_addr addr a"

lemma decoded_unfold:
  "decoded g e addr a \<longleftrightarrow> addr < e \<and> (a = addr \<or> decoded g e (addr + inst_size addr g) a)"
  by (auto elim: decodedE intro: decoded.intros)

lemma unat_inst_step:
  assumes "addr < end_addr" and "unat end_addr < 0xFFFF"
  shows "unat addr < unat (addr + inst_size addr g)"
proof -
  have "unat addr < unat end_addr"
    using assms(1) by (simp add: word_less_nat_alt)
  with assms(2) op_size_cases [of "dsp_imem_read addr g"] show ?thesis
    by (auto simp: inst_size_def unat_word_ariths)
qed

lemma fst_analyze_inst:
  assumes "tables_ready g"
  shows "fst (analyze_inst g s) = fst s + inst_size (fst s) g"
  using assms by (auto simp: analyze_inst_def GetOpTemplate_ready inst_size_def Let_def split: prod.splits)

lemma analyze_insts_exit:
  assumes "tables_ready g" and "unat end_addr < 0xFFFF"
    and "unat end_addr - unat (fst s) \<le> n"
  shows "\<not> fst (analyze_insts g end_addr n s) < end_addr"
  using assms(3)
proof (induction n arbitrary: s)
  case 0
  then show ?case
    by (simp add: word_less_nat_alt)
next
  case (Suc n)
  show ?case
  proof (cases "fst s < end_addr")
    case True
    then have "unat end_addr - unat (fst (analyze_inst g s)) \<le> n"
      using unat_inst_step [OF True assms(2), of g] Suc.prems
      by (simp add: fst_analyze_inst [OF assms(1)])
    with True show ?thesis
      by (simp add: Suc.IH)
  qed simp
qed

lemma decoded_exit:
  "\<not> addr < end_addr \<Longrightarrow> \<not> decoded g end_addr addr a"
  by (auto elim: decodedE)

text \<open>What one round sets: the start flag of its address, the loop end flag of its loop's end.\<close>

definition loop_end_of :: "u16 \<Rightarrow> dsp \<Rightarrow> u16 option" where
  "loop_end_of addr g =
     (let inst = dsp_imem_read addr g
      in if is_block_loop inst then Some (dsp_imem_read (addr + 1) g)
         else if is_single_loop inst then Some (addr + 1) else None)"

lemma analyze_inst_start:
  assumes "tables_ready g"
  shows "bit (snd (snd (analyze_inst g s)) b) 0 \<longleftrightarrow> bit (snd (snd s) b) 0 \<or> b = unat (fst s)"
  using assms
  by (auto simp: analyze_inst_def GetOpTemplate_ready Let_def split: prod.splits)

lemma analyze_inst_loop_end:
  assumes "tables_ready g"
  shows "bit (snd (snd (analyze_inst g s)) b) 3 \<longleftrightarrow>
     bit (snd (snd s) b) 3 \<or> (\<exists>e. loop_end_of (fst s) g = Some e \<and> b = unat e)"
  using assms
  by (auto simp: analyze_inst_def GetOpTemplate_ready loop_end_of_def Let_def split: prod.splits)

lemma analyze_insts_flags:
  assumes "tables_ready g" and "unat end_addr < 0xFFFF"
    and "unat end_addr - unat (fst s) \<le> n"
  shows "bit (snd (snd (analyze_insts g end_addr n s)) b) 0 \<longleftrightarrow>
       bit (snd (snd s) b) 0 \<or> (\<exists>a. decoded g end_addr (fst s) a \<and> b = unat a)" (is ?start)
    and "bit (snd (snd (analyze_insts g end_addr n s)) b) 3 \<longleftrightarrow>
       bit (snd (snd s) b) 3 \<or>
       (\<exists>a e. decoded g end_addr (fst s) a \<and> loop_end_of a g = Some e \<and> b = unat e)" (is ?loop)
proof -
  have "?start \<and> ?loop"
    using assms(3)
  proof (induction n arbitrary: s)
    case 0
    then have "\<not> fst s < end_addr"
      by (simp add: word_less_nat_alt)
    then show ?case
      by (simp add: decoded_exit)
  next
    case (Suc n)
    show ?case
    proof (cases "fst s < end_addr")
      case True
      then have "unat end_addr - unat (fst (analyze_inst g s)) \<le> n"
        using unat_inst_step [OF True assms(2), of g] Suc.prems
        by (simp add: fst_analyze_inst [OF assms(1)])
      from Suc.IH [OF this] True show ?thesis
        by (auto simp: decoded_unfold [of g end_addr "fst s"] fst_analyze_inst [OF assms(1)]
            analyze_inst_start [OF assms(1)] analyze_inst_loop_end [OF assms(1)])
    next
      case False
      then show ?thesis
        by (simp add: decoded_exit)
    qed
  qed
  then show ?start and ?loop by blast+
qed

lemma idle_scan_other:
  "n \<noteq> Suc 0 \<Longrightarrow> bit (idle_scan g sig addrs flags b) n \<longleftrightarrow> bit (flags b) n"
  by (induction addrs arbitrary: flags) simp_all

lemma idle_scans_other:
  "n \<noteq> Suc 0 \<Longrightarrow> bit (idle_scans g sigs addrs flags b) n \<longleftrightarrow> bit (flags b) n"
  by (induction sigs arbitrary: flags) (simp_all add: idle_scan_other)

lemma idle_scan_idle:
  "bit (idle_scan g sig addrs flags b) (Suc 0) \<longleftrightarrow>
     bit (flags b) (Suc 0) \<or> (\<exists>a \<in> set addrs. b = unat a \<and> idle_sig_found g a sig False)"
  by (induction addrs arbitrary: flags) auto

lemma idle_scans_idle:
  "bit (idle_scans g sigs addrs flags b) (Suc 0) \<longleftrightarrow>
     bit (flags b) (Suc 0) \<or>
     (\<exists>sig \<in> set sigs. \<exists>a \<in> set addrs. b = unat a \<and> idle_sig_found g a sig False)"
  by (induction sigs arbitrary: flags) (auto simp: idle_scan_idle)

lemma idle_sig_found_True: "idle_sig_found g a ws True"
  by (induction ws arbitrary: a) (simp_all add: Let_def)

text \<open>The words before the first zero of a signature are the code at \<open>a\<close>, up to wildcards.\<close>

fun sig_matches :: "dsp \<Rightarrow> u16 \<Rightarrow> u16 list \<Rightarrow> bool" where
  "sig_matches g a [] \<longleftrightarrow> False"
| "sig_matches g a (w # ws) \<longleftrightarrow>
     w = 0 \<or> (w = 0xFFFF \<or> w = dsp_imem_read a g) \<and> sig_matches g (a + 1) ws"

lemma idle_sig_found_iff: "idle_sig_found g a sig False \<longleftrightarrow> sig_matches g a sig"
  by (induction sig arbitrary: a) (simp_all add: Let_def idle_sig_found_True)

lemma analyze_inst_idle:
  assumes "tables_ready g"
  shows "bit (snd (snd (analyze_inst g s)) b) (Suc 0) \<longleftrightarrow> bit (snd (snd s) b) (Suc 0)"
  using assms
  by (auto simp: analyze_inst_def GetOpTemplate_ready Let_def split: prod.splits)

lemma analyze_insts_idle:
  assumes "tables_ready g"
  shows "bit (snd (snd (analyze_insts g end_addr n s)) b) (Suc 0) \<longleftrightarrow> bit (snd (snd s) b) (Suc 0)"
  by (induction n arbitrary: s) (simp_all add: analyze_inst_idle [OF assms])

section \<open>The analysis of both memories\<close>

lemma imem_code_flags [simp]: "dsp_imem_read a (g\<lparr>code_flags := f\<rparr>) = dsp_imem_read a g"
  by (simp add: dsp_imem_read_def)

lemma inst_size_code_flags [simp]: "inst_size a (g\<lparr>code_flags := f\<rparr>) = inst_size a g"
  by (simp add: inst_size_def)

lemma loop_end_of_code_flags [simp]: "loop_end_of a (g\<lparr>code_flags := f\<rparr>) = loop_end_of a g"
  by (simp add: loop_end_of_def Let_def)

lemma sig_matches_code_flags [simp]: "sig_matches (g\<lparr>code_flags := f\<rparr>) a sig = sig_matches g a sig"
  by (induction sig arbitrary: a) simp_all

lemma tables_ready_code_flags [simp]: "tables_ready (g\<lparr>code_flags := f\<rparr>) = tables_ready g"
  by (simp add: tables_ready_def)

lemma decoded_code_flags [simp]: "decoded (g\<lparr>code_flags := f\<rparr>) e b a = decoded g e b a"
proof
  show "decoded (g\<lparr>code_flags := f\<rparr>) e b a \<Longrightarrow> decoded g e b a"
    by (induction rule: decoded.induct) (auto intro: decoded.intros)
  show "decoded g e b a \<Longrightarrow> decoded (g\<lparr>code_flags := f\<rparr>) e b a"
    by (induction rule: decoded.induct) (auto intro: decoded.intros)
qed

lemma AnalyzeRange_flags:
  assumes "tables_ready g" and "unat e < 0xFFFF"
  shows "bit (code_flags (AnalyzeRange b e g) i) 0 \<longleftrightarrow>
       bit (code_flags g i) 0 \<or> (\<exists>a. decoded g e b a \<and> i = unat a)"
    and "bit (code_flags (AnalyzeRange b e g) i) 3 \<longleftrightarrow>
       bit (code_flags g i) 3 \<or>
       (\<exists>a l. decoded g e b a \<and> loop_end_of a g = Some l \<and> i = unat l)"
    and "bit (code_flags (AnalyzeRange b e g) i) (Suc 0) \<longleftrightarrow>
       bit (code_flags g i) (Suc 0) \<or>
       (\<exists>sig \<in> set idle_skip_sigs. \<exists>a \<in> set (addr_range b e). i = unat a \<and> sig_matches g a sig)"
  using analyze_insts_flags [OF assms, of "(b, 0, code_flags g)" "unat e - unat b" i]
    analyze_insts_idle [OF assms(1), of e "unat e - unat b" "(b, 0, code_flags g)" i]
  by (simp_all add: AnalyzeRange_def case_prod_beta idle_scans_other idle_scans_idle
      idle_sig_found_iff)

lemma AnalyzeRange_eq: "\<exists>f. AnalyzeRange b e g = g\<lparr>code_flags := f\<rparr>"
  by (auto simp: AnalyzeRange_def case_prod_beta)

lemma Analyze_eq: "\<exists>f. Analyze g = g\<lparr>code_flags := f\<rparr>"
  using AnalyzeRange_eq [of 0 "0x1000" "Analyzer_Reset g"]
    AnalyzeRange_eq [of "0x8000" "0x9000" "AnalyzeRange 0 0x1000 (Analyzer_Reset g)"]
  by (auto simp: Analyze_def Analyzer_Reset_def)

text \<open>Every instruction the linear scan of IRAM and IROM finds.\<close>

definition scanned :: "dsp \<Rightarrow> u16 \<Rightarrow> bool" where
  "scanned g a \<longleftrightarrow> decoded g 0x1000 0 a \<or> decoded g 0x9000 0x8000 a"

lemma Analyze_flags:
  assumes "tables_ready g"
  shows "bit (code_flags (Analyze g) (unat a)) 0 \<longleftrightarrow> scanned g a"
    and "bit (code_flags (Analyze g) (unat a)) 3 \<longleftrightarrow>
       (\<exists>b. scanned g b \<and> loop_end_of b g = Some a)"
    and "bit (code_flags (Analyze g) (unat a)) (Suc 0) \<longleftrightarrow>
       (\<exists>sig \<in> set idle_skip_sigs. sig_matches g a sig) \<and>
       (a \<in> set (addr_range 0 0x1000) \<or> a \<in> set (addr_range 0x8000 0x9000))"
proof -
  let ?g0 = "Analyzer_Reset g"
  obtain f where f: "AnalyzeRange 0 0x1000 ?g0 = g\<lparr>code_flags := f\<rparr>"
    using AnalyzeRange_eq [of 0 "0x1000" ?g0] by (auto simp: Analyzer_Reset_def)
  have t0: "tables_ready ?g0" and t1: "tables_ready (g\<lparr>code_flags := f\<rparr>)"
    using assms by (simp_all add: Analyzer_Reset_def)
  have An: "Analyze g = AnalyzeRange 0x8000 0x9000 (g\<lparr>code_flags := f\<rparr>)"
    by (simp add: Analyze_def f)
  note r0 = AnalyzeRange_flags [OF t0, of "0x1000" 0 "unat a", unfolded f, simplified]
  note r1 = AnalyzeRange_flags [OF t1, of "0x9000" "0x8000" "unat a", simplified]
  show "bit (code_flags (Analyze g) (unat a)) 0 \<longleftrightarrow> scanned g a"
    using r0(1) r1(1)
    by (auto simp: An scanned_def Analyzer_Reset_def word_unat_eq_iff [symmetric])
  show "bit (code_flags (Analyze g) (unat a)) 3 \<longleftrightarrow>
       (\<exists>b. scanned g b \<and> loop_end_of b g = Some a)"
    using r0(2) r1(2)
    by (auto simp: An scanned_def Analyzer_Reset_def word_unat_eq_iff [symmetric])
  show "bit (code_flags (Analyze g) (unat a)) (Suc 0) \<longleftrightarrow>
       (\<exists>sig \<in> set idle_skip_sigs. sig_matches g a sig) \<and>
       (a \<in> set (addr_range 0 0x1000) \<or> a \<in> set (addr_range 0x8000 0x9000))"
    using r0(3) r1(3)
    by (auto simp: An scanned_def Analyzer_Reset_def word_unat_eq_iff [symmetric])
qed

text \<open>C36: the analysis marks the words a linear scan finds as instructions, the last words of their
  hardware loops, and the places where an idle signature stands.\<close>

theorem analysis_marks:
  assumes "tables_ready g"
  shows "bit (code_flags (Analyze g) (unat a)) 0 = scanned g a
    \<and> bit (code_flags (Analyze g) (unat a)) 3 = (\<exists>b. scanned g b \<and> loop_end_of b g = Some a)
    \<and> bit (code_flags (Analyze g) (unat a)) 1 =
       ((\<exists>sig. sig \<in> set idle_skip_sigs \<and> sig_matches g a sig) \<and>
        (a \<in> set (addr_range 0 0x1000) \<or> a \<in> set (addr_range 0x8000 0x9000)))"
  using Analyze_flags [OF assms, of a] by (simp add: Bex_def)

theorem analysis_marks_witness:
  "tables_ready (InitInstructionTable dsp_zero)
   \<and> bit (code_flags (Analyze (InitInstructionTable dsp_zero)) (unat (0x8000 :: u16))) 0"
  using analysis_marks [OF tables_ready_Init, of dsp_zero "0x8000"] tables_ready_Init
  by (simp add: scanned_def decoded_unfold [of _ "0x9000" "0x8000"])

end
