(* ===== verification/DSP_HWInterface.thy ===== *)
theory DSP_HWInterface
  imports DSP_Analyzer
begin

text \<open>
  The hardware registers of \<open>Core/DSP/DSPHWInterface.cpp\<close>: the two mailboxes, the accelerator
  registers, and the DMA engine between main memory and IRAM or DRAM, with the parts of
  \<open>DSPCore.cpp\<close>, \<open>DSPLLE/DSPHost.cpp\<close> and \<open>Common/Hash.cpp\<close> they call.  Left out: logging, the
  capture logger, the debugger's symbols, the JIT's code cache and the page protection of IRAM.
  \<open>cpu_info.bSSSE3\<close> is a member of the state, so that both transfer loops are modelled.
\<close>

section \<open>Callees\<close>

definition DSPCore_SetException :: "nat \<Rightarrow> dsp \<Rightarrow> dsp" where
  "DSPCore_SetException level g = g\<lparr>g_exceptions := g_exceptions g OR push_bit level 1\<rparr>"

definition InterruptRequest :: "dsp \<Rightarrow> dsp" where
  "InterruptRequest g = g\<lparr>host_interrupts := host_interrupts g + 1\<rparr>"

definition CodeLoaded :: "dsp \<Rightarrow> dsp" where
  "CodeLoaded g = Analyze g"

fun hash_ector_loop :: "u8 list \<Rightarrow> u32 \<Rightarrow> u32" where
  "hash_ector_loop [] crc = crc"
| "hash_ector_loop (p # ps) crc =
     (let crc = crc XOR ucast p
      in hash_ector_loop ps (push_bit 3 crc OR drop_bit 29 crc))"

definition HashEctor :: "u8 list \<Rightarrow> u32" where
  "HashEctor ptr = hash_ector_loop ptr 0"


text \<open>Little endian access to a byte array through a \<open>u16*\<close>.\<close>

definition read_le16 :: "u8 array \<Rightarrow> nat \<Rightarrow> u16" where
  "read_le16 m x = ucast (m x) OR push_bit 8 (ucast (m (x + 1)))"

definition write_le16 :: "nat \<Rightarrow> u16 \<Rightarrow> u8 array \<Rightarrow> u8 array" where
  "write_le16 x v m = m(x := ucast v, x + 1 := ucast (drop_bit 8 v))"

section \<open>Mailboxes\<close>

definition MAILBOX_CPU :: nat where "MAILBOX_CPU = 0"
definition MAILBOX_DSP :: nat where "MAILBOX_DSP = 1"

definition gdsp_ifx_init :: "dsp \<Rightarrow> dsp" where
  "gdsp_ifx_init g =
     (let g = g\<lparr>ifx_regs := (\<lambda>_. 0)\<rparr>
      in g\<lparr>g_mbox := (g_mbox g)(MAILBOX_CPU := 0, MAILBOX_DSP := 0)\<rparr>)"

definition gdsp_mbox_peek :: "nat \<Rightarrow> dsp \<Rightarrow> u32" where
  "gdsp_mbox_peek mbx g = g_mbox g mbx"

definition gdsp_mbox_write_h :: "nat \<Rightarrow> u16 \<Rightarrow> dsp \<Rightarrow> dsp" where
  "gdsp_mbox_write_h mbx val g =
     (let old_value = g_mbox g mbx;
          new_value = (old_value AND 0xffff) OR push_bit 16 (ucast val)
      in g\<lparr>g_mbox := (g_mbox g)(mbx := new_value AND NOT 0x80000000)\<rparr>)"

definition gdsp_mbox_write_l :: "nat \<Rightarrow> u16 \<Rightarrow> dsp \<Rightarrow> dsp" where
  "gdsp_mbox_write_l mbx val g =
     (let old_value = g_mbox g mbx;
          new_value = (old_value AND NOT 0xffff) OR ucast val
      in g\<lparr>g_mbox := (g_mbox g)(mbx := new_value OR 0x80000000)\<rparr>)"

definition gdsp_mbox_read_h :: "nat \<Rightarrow> dsp \<Rightarrow> u16" where
  "gdsp_mbox_read_h mbx g =
     (if g_init_hax g \<and> mbx = MAILBOX_DSP then 0x8054 else ucast (drop_bit 16 (g_mbox g mbx)))"

definition gdsp_mbox_read_l :: "nat \<Rightarrow> dsp \<Rightarrow> u16 \<times> dsp" where
  "gdsp_mbox_read_l mbx g =
     (let value = g_mbox g mbx;
          g = g\<lparr>g_mbox := (g_mbox g)(mbx := value AND NOT 0x80000000)\<rparr>
      in if g_init_hax g \<and> mbx = MAILBOX_DSP
         then (0x4348, DSPCore_Reset (g\<lparr>g_init_hax := False\<rparr>))
         else (ucast value, g))"

section \<open>DMA\<close>

definition DSP_CR_IMEM :: u16 where "DSP_CR_IMEM = 2"
definition DSP_CR_DMEM :: u16 where "DSP_CR_DMEM = 0"
definition DSP_CR_TO_CPU :: u16 where "DSP_CR_TO_CPU = 1"
definition DSP_CR_FROM_CPU :: u16 where "DSP_CR_FROM_CPU = 0"

text \<open>
  \<open>cpu_ram\<close> points to the 4 GB reserved for physical memory, of which \<open>Memory::Init\<close> maps the
  \<open>physical_regions\<close>: RAM, the locked L1 cache, EXRAM on a Wii, and fake VMEM on a GameCube without
  MMU.  An access to any other byte ends the host program.
\<close>

definition host_mapped :: "dsp \<Rightarrow> nat \<Rightarrow> bool" where
  "host_mapped g x \<longleftrightarrow> x < 0x02000000 \<or> 0xE0000000 \<le> x \<and> x < 0xE0040000
     \<or> \<not> wii_mode g \<and> \<not> mmu_mode g \<and> 0x7E000000 \<le> x \<and> x < 0x80000000
     \<or> wii_mode g \<and> 0x10000000 \<le> x \<and> x < 0x14000000"

text \<open>
  \<open>memcpy(dst, code, size)\<close> and the loop that swaps the words; an odd \<open>size\<close> leaves its last byte
  in the low half of a word.
\<close>

definition iram_memcpy :: "nat \<Rightarrow> nat \<Rightarrow> nat \<Rightarrow> u8 array \<Rightarrow> u16 array \<Rightarrow> u16 array" where
  "iram_memcpy d code sz ram iram =
     (\<lambda>w. if d \<le> w \<and> 2 * (w - d) + 1 < sz then read_le16 ram (code + 2 * (w - d))
          else if d \<le> w \<and> 2 * (w - d) < sz
          then (iram w AND 0xFF00) OR ucast (ram (code + 2 * (w - d)))
          else iram w)"

fun swap_words :: "nat \<Rightarrow> nat \<Rightarrow> u16 array \<Rightarrow> u16 array" where
  "swap_words d 0 m = m"
| "swap_words d (Suc n) m = (let m = swap_words d n m in m(d + n := swap16 (m (d + n))))"

definition gdsp_idma_in :: "u16 \<Rightarrow> u32 \<Rightarrow> nat \<Rightarrow> dsp \<Rightarrow> dsp_res" where
  "gdsp_idma_in dsp_addr addr sz g =
     (if \<not> list_all (\<lambda>i. host_mapped g (unat (addr AND 0x0fffffff) + i)) [0..<sz] then Inl HostUnmapped
      else if DSP_IRAM_BYTE_SIZE < unat dsp_addr + sz then Inl IramOverrun
      else
        (let d = unat dsp_addr div 2;
             code = unat (addr AND 0x0fffffff);
             g = g\<lparr>iram_crc := HashEctor (map (\<lambda>i. cpu_ram g (code + i)) [0..<sz])\<rparr>;
             g = g\<lparr>g_iram := iram_memcpy d code sz (cpu_ram g) (g_iram g)\<rparr>;
             g = g\<lparr>g_iram := swap_words d (sz div 2) (g_iram g)\<rparr>
         in Inr (CodeLoaded g)))"

definition gdsp_idma_out :: "u16 \<Rightarrow> u32 \<Rightarrow> nat \<Rightarrow> dsp \<Rightarrow> dsp_res" where
  "gdsp_idma_out dsp_addr addr sz g = Inr g"

text \<open>The loops over \<open>i\<close>, by \<open>2\<close> and by \<open>16\<close> bytes.\<close>

definition dma_offsets :: "nat \<Rightarrow> nat \<Rightarrow> nat list" where
  "dma_offsets step sz = map (\<lambda>k. step * k) [0..<(sz + step - 1) div step]"

definition ram_index :: "u32 \<Rightarrow> nat \<Rightarrow> nat" where
  "ram_index addr i = unat ((addr + of_nat i) AND 0x7FFFFFFF)"

text \<open>Whether the accesses of a loop to main memory, of \<open>step\<close> bytes each, find it mapped.\<close>

definition dma_mapped :: "nat \<Rightarrow> u32 \<Rightarrow> nat \<Rightarrow> dsp \<Rightarrow> bool" where
  "dma_mapped step addr sz g \<longleftrightarrow>
     list_all (\<lambda>i. list_all (\<lambda>j. host_mapped g (ram_index addr i + j)) [0..<step]) (dma_offsets step sz)"

fun ddma_in_words :: "nat \<Rightarrow> u32 \<Rightarrow> nat list \<Rightarrow> u8 array \<Rightarrow> u16 array \<Rightarrow> u16 array" where
  "ddma_in_words d addr [] ram dram = dram"
| "ddma_in_words d addr (i # is) ram dram =
     ddma_in_words d addr is ram
       (dram((d + i) div 2 := swap16 (read_le16 ram (ram_index addr i))))"

fun ddma_out_words :: "nat \<Rightarrow> u32 \<Rightarrow> nat list \<Rightarrow> u16 array \<Rightarrow> u8 array \<Rightarrow> u8 array" where
  "ddma_out_words d addr [] dram ram = ram"
| "ddma_out_words d addr (i # is) dram ram =
     ddma_out_words d addr is dram
       (write_le16 (ram_index addr i) (swap16 (dram ((d + i) div 2))) ram)"

text \<open>\<open>s_mask\<close>, byte 0 first, and \<open>_mm_shuffle_epi8\<close> for a mask with no byte above 15.\<close>

definition s_mask :: "nat list" where
  "s_mask = [0x01, 0x00, 0x03, 0x02, 0x05, 0x04, 0x07, 0x06,
             0x09, 0x08, 0x0B, 0x0A, 0x0D, 0x0C, 0x0F, 0x0E]"

definition mm_shuffle_epi8 :: "u8 list \<Rightarrow> nat list \<Rightarrow> u8 list" where
  "mm_shuffle_epi8 a b = map (\<lambda>j. a ! j) b"

text \<open>Unaligned 16 byte loads and stores on the two memories.\<close>

definition load_ram :: "u8 array \<Rightarrow> nat \<Rightarrow> u8 list" where
  "load_ram ram x = map (\<lambda>j. ram (x + j)) [0..<16]"

definition store_ram :: "nat \<Rightarrow> u8 list \<Rightarrow> u8 array \<Rightarrow> u8 array" where
  "store_ram x bs ram = (\<lambda>y. if x \<le> y \<and> y < x + 16 then bs ! (y - x) else ram y)"

definition load_dram :: "u16 array \<Rightarrow> nat \<Rightarrow> u8 list" where
  "load_dram dram x =
     map (\<lambda>j. if even (x + j) then ucast (dram ((x + j) div 2))
              else ucast (drop_bit 8 (dram ((x + j) div 2)))) [0..<16]"

definition store_dram :: "nat \<Rightarrow> u8 list \<Rightarrow> u16 array \<Rightarrow> u16 array" where
  "store_dram x bs dram =
     (\<lambda>w. if x div 2 \<le> w \<and> w < x div 2 + 8
          then ucast (bs ! (2 * (w - x div 2))) OR push_bit 8 (ucast (bs ! (2 * (w - x div 2) + 1)))
          else dram w)"

fun gdsp_ddma_in_SSSE3 :: "nat \<Rightarrow> u32 \<Rightarrow> nat list \<Rightarrow> u8 array \<Rightarrow> u16 array \<Rightarrow> u16 array" where
  "gdsp_ddma_in_SSSE3 d addr [] ram dram = dram"
| "gdsp_ddma_in_SSSE3 d addr (i # is) ram dram =
     gdsp_ddma_in_SSSE3 d addr is ram
       (store_dram (d + i) (mm_shuffle_epi8 (load_ram ram (ram_index addr i)) s_mask) dram)"

fun gdsp_ddma_out_SSSE3 :: "nat \<Rightarrow> u32 \<Rightarrow> nat list \<Rightarrow> u16 array \<Rightarrow> u8 array \<Rightarrow> u8 array" where
  "gdsp_ddma_out_SSSE3 d addr [] dram ram = ram"
| "gdsp_ddma_out_SSSE3 d addr (i # is) dram ram =
     gdsp_ddma_out_SSSE3 d addr is dram
       (store_ram (ram_index addr i) (mm_shuffle_epi8 (load_dram dram (d + i)) s_mask) ram)"

definition gdsp_ddma_in :: "u16 \<Rightarrow> u32 \<Rightarrow> nat \<Rightarrow> dsp \<Rightarrow> dsp_res" where
  "gdsp_ddma_in dsp_addr addr sz g =
     (if \<not> dma_mapped (if cpu_bSSSE3 g \<and> sz mod 16 = 0 then 16 else 2) addr sz g then Inl HostUnmapped
      else if DSP_DRAM_BYTE_SIZE < unat dsp_addr + 2 * ((sz + 1) div 2) then Inl DramOverrun
      else if cpu_bSSSE3 g \<and> sz mod 16 = 0
      then Inr (g\<lparr>g_dram := gdsp_ddma_in_SSSE3 (unat dsp_addr) addr (dma_offsets 16 sz)
                              (cpu_ram g) (g_dram g)\<rparr>)
      else Inr (g\<lparr>g_dram := ddma_in_words (unat dsp_addr) addr (dma_offsets 2 sz)
                              (cpu_ram g) (g_dram g)\<rparr>))"

definition gdsp_ddma_out :: "u16 \<Rightarrow> u32 \<Rightarrow> nat \<Rightarrow> dsp \<Rightarrow> dsp_res" where
  "gdsp_ddma_out dsp_addr addr sz g =
     (if \<not> dma_mapped (if cpu_bSSSE3 g \<and> sz mod 16 = 0 then 16 else 2) addr sz g then Inl HostUnmapped
      else if DSP_DRAM_BYTE_SIZE < unat dsp_addr + 2 * ((sz + 1) div 2) then Inl DramOverrun
      else if cpu_bSSSE3 g \<and> sz mod 16 = 0
      then Inr (g\<lparr>cpu_ram := gdsp_ddma_out_SSSE3 (unat dsp_addr) addr (dma_offsets 16 sz)
                               (g_dram g) (cpu_ram g)\<rparr>)
      else Inr (g\<lparr>cpu_ram := ddma_out_words (unat dsp_addr) addr (dma_offsets 2 sz)
                               (g_dram g) (cpu_ram g)\<rparr>))"

definition DSP_COEF_A1_0 :: nat where "DSP_COEF_A1_0 = 0xa0"
definition DSP_DSCR :: nat where "DSP_DSCR = 0xc9"
definition DSP_DSPA :: nat where "DSP_DSPA = 0xcd"
definition DSP_DSBL :: nat where "DSP_DSBL = 0xcb"
definition DSP_DSMAH :: nat where "DSP_DSMAH = 0xce"
definition DSP_DSMAL :: nat where "DSP_DSMAL = 0xcf"
definition DSP_FORMAT :: nat where "DSP_FORMAT = 0xd1"
definition DSP_ACDATA1 :: nat where "DSP_ACDATA1 = 0xd3"
definition DSP_ACSAH :: nat where "DSP_ACSAH = 0xd4"
definition DSP_ACSAL :: nat where "DSP_ACSAL = 0xd5"
definition DSP_ACEAH :: nat where "DSP_ACEAH = 0xd6"
definition DSP_ACEAL :: nat where "DSP_ACEAL = 0xd7"
definition DSP_ACCAH :: nat where "DSP_ACCAH = 0xd8"
definition DSP_ACCAL :: nat where "DSP_ACCAL = 0xd9"
definition DSP_PRED_SCALE :: nat where "DSP_PRED_SCALE = 0xda"
definition DSP_YN1 :: nat where "DSP_YN1 = 0xdb"
definition DSP_YN2 :: nat where "DSP_YN2 = 0xdc"
definition DSP_ACCELERATOR :: nat where "DSP_ACCELERATOR = 0xdd"
definition DSP_GAIN :: nat where "DSP_GAIN = 0xde"
definition DSP_AMDM :: nat where "DSP_AMDM = 0xef"
definition DSP_DIRQ :: nat where "DSP_DIRQ = 0xfb"
definition DSP_DMBH :: nat where "DSP_DMBH = 0xfc"
definition DSP_DMBL :: nat where "DSP_DMBL = 0xfd"
definition DSP_CMBH :: nat where "DSP_CMBH = 0xfe"
definition DSP_CMBL :: nat where "DSP_CMBL = 0xff"

lemmas ifx_address_defs =
  DSP_COEF_A1_0_def DSP_DSCR_def DSP_DSPA_def DSP_DSBL_def DSP_DSMAH_def DSP_DSMAL_def
  DSP_FORMAT_def DSP_ACDATA1_def DSP_ACSAH_def DSP_ACSAL_def DSP_ACEAH_def DSP_ACEAL_def
  DSP_ACCAH_def DSP_ACCAL_def DSP_PRED_SCALE_def DSP_YN1_def DSP_YN2_def DSP_ACCELERATOR_def
  DSP_GAIN_def DSP_AMDM_def DSP_DIRQ_def DSP_DMBH_def DSP_DMBL_def DSP_CMBH_def DSP_CMBL_def

definition gdsp_do_dma :: "dsp \<Rightarrow> dsp_res" where
  "gdsp_do_dma g =
     (let addr = push_bit 16 (ucast (ifx_regs g DSP_DSMAH)) OR ucast (ifx_regs g DSP_DSMAL);
          ctl = ifx_regs g DSP_DSCR;
          dsp_addr = ifx_regs g DSP_DSPA * 2;
          len = unat (ifx_regs g DSP_DSBL)
      in if 0x4000 < len then Inl DmaLengthExit
         else if ctl AND 0x3 = DSP_CR_DMEM OR DSP_CR_TO_CPU then gdsp_ddma_out dsp_addr addr len g
         else if ctl AND 0x3 = DSP_CR_DMEM OR DSP_CR_FROM_CPU then gdsp_ddma_in dsp_addr addr len g
         else if ctl AND 0x3 = DSP_CR_IMEM OR DSP_CR_TO_CPU then gdsp_idma_out dsp_addr addr len g
         else gdsp_idma_in dsp_addr addr len g)"

section \<open>Register access\<close>

abbreviation set_ifx :: "nat \<Rightarrow> u16 \<Rightarrow> dsp \<Rightarrow> dsp" where
  "set_ifx r v g \<equiv> g\<lparr>ifx_regs := (ifx_regs g)(r := v)\<rparr>"

abbreviation upd_accel :: "(Accelerator \<Rightarrow> Accelerator) \<Rightarrow> dsp \<Rightarrow> dsp" where
  "upd_accel f g \<equiv> g\<lparr>g_accelerator := f (g_accelerator g)\<rparr>"

text \<open>\<open>val << 16 | low half\<close> and \<open>high half << 16 | val\<close>.\<close>

definition with_high :: "u16 \<Rightarrow> u32 \<Rightarrow> u32" where
  "with_high val old = push_bit 16 (ucast val) OR ucast (lane 0 old)"

definition with_low :: "u16 \<Rightarrow> u32 \<Rightarrow> u32" where
  "with_low val old = push_bit 16 (ucast (lane 1 old)) OR ucast val"

text \<open>The start of a DMA: a write to \<open>DSP_DSBL\<close>.\<close>

definition write_DSBL :: "u16 \<Rightarrow> dsp \<Rightarrow> dsp_res" where
  "write_DSBL val g =
     (let g = set_ifx DSP_DSBL val g;
          g = set_ifx DSP_DSCR (ifx_regs g DSP_DSCR OR 4) g
      in bind_res (if ifx_regs g DSP_AMDM = 0 then gdsp_do_dma g else Inr g)
           (\<lambda>g. let g = set_ifx DSP_DSCR (ifx_regs g DSP_DSCR AND NOT 4) g
                in Inr (set_ifx DSP_DSBL 0 g)))"

definition write_ACDATA1 :: "u16 \<Rightarrow> dsp \<Rightarrow> dsp" where
  "write_ACDATA1 val g =
     (let (a, g) = WriteD3 WriteARAM val (g_accelerator g) g in g\<lparr>g_accelerator := a\<rparr>)"

definition gdsp_ifx_write :: "u32 \<Rightarrow> u16 \<Rightarrow> dsp \<Rightarrow> dsp_res" where
  "gdsp_ifx_write addr val g =
     (let r = unat (addr AND 0xff)
      in if r = DSP_DIRQ then Inr (if val AND 0x1 \<noteq> 0 then InterruptRequest g else g)
         else if r = DSP_DMBH then Inr (gdsp_mbox_write_h MAILBOX_DSP val g)
         else if r = DSP_DMBL then Inr (gdsp_mbox_write_l MAILBOX_DSP val g)
         else if r = DSP_CMBH then Inr (gdsp_mbox_write_h MAILBOX_CPU val g)
         else if r = DSP_CMBL then Inr (gdsp_mbox_write_l MAILBOX_CPU val g)
         else if r = DSP_DSBL then write_DSBL val g
         else if r = DSP_ACSAH then
           Inr (upd_accel (\<lambda>a. SetStartAddress (with_high val (m_start_address a)) a) g)
         else if r = DSP_ACSAL then
           Inr (upd_accel (\<lambda>a. SetStartAddress (with_low val (m_start_address a)) a) g)
         else if r = DSP_ACEAH then
           Inr (upd_accel (\<lambda>a. SetEndAddress (with_high val (m_end_address a)) a) g)
         else if r = DSP_ACEAL then
           Inr (upd_accel (\<lambda>a. SetEndAddress (with_low val (m_end_address a)) a) g)
         else if r = DSP_ACCAH then
           Inr (upd_accel (\<lambda>a. SetCurrentAddress (with_high val (m_current_address a)) a) g)
         else if r = DSP_ACCAL then
           Inr (upd_accel (\<lambda>a. SetCurrentAddress (with_low val (m_current_address a)) a) g)
         else if r = DSP_FORMAT then Inr (upd_accel (SetSampleFormat val) g)
         else if r = DSP_YN1 then Inr (upd_accel (SetYn1 val) g)
         else if r = DSP_YN2 then Inr (upd_accel (SetYn2 val) g)
         else if r = DSP_PRED_SCALE then Inr (upd_accel (SetPredScale val) g)
         else if r = DSP_ACDATA1 then Inr (write_ACDATA1 val g)
         else Inr (set_ifx r val g))"

definition read_ACCELERATOR :: "dsp \<Rightarrow> u16 \<times> dsp" where
  "read_ACCELERATOR g =
     (let (val, a, ended) =
        Accelerator_Read (ReadARAM g) (\<lambda>i. ifx_regs g (DSP_COEF_A1_0 + i)) (g_accelerator g);
        g = g\<lparr>g_accelerator := a\<rparr>
      in (val, if ended then DSPCore_SetException EXP_ACCOV g else g))"

definition read_ACDATA1 :: "dsp \<Rightarrow> u16 \<times> dsp" where
  "read_ACDATA1 g =
     (let (val, a) = ReadD3 (ReadARAM g) (g_accelerator g) in (val, g\<lparr>g_accelerator := a\<rparr>))"

definition gdsp_ifx_read :: "u16 \<Rightarrow> dsp \<Rightarrow> u16 \<times> dsp" where
  "gdsp_ifx_read addr g =
     (let r = unat (addr AND 0xff)
      in if r = DSP_DMBH then (gdsp_mbox_read_h MAILBOX_DSP g, g)
         else if r = DSP_DMBL then gdsp_mbox_read_l MAILBOX_DSP g
         else if r = DSP_CMBH then (gdsp_mbox_read_h MAILBOX_CPU g, g)
         else if r = DSP_CMBL then gdsp_mbox_read_l MAILBOX_CPU g
         else if r = DSP_ACSAH then (lane 1 (m_start_address (g_accelerator g)), g)
         else if r = DSP_ACSAL then (lane 0 (m_start_address (g_accelerator g)), g)
         else if r = DSP_ACEAH then (lane 1 (m_end_address (g_accelerator g)), g)
         else if r = DSP_ACEAL then (lane 0 (m_end_address (g_accelerator g)), g)
         else if r = DSP_ACCAH then (lane 1 (m_current_address (g_accelerator g)), g)
         else if r = DSP_ACCAL then (lane 0 (m_current_address (g_accelerator g)), g)
         else if r = DSP_FORMAT then (m_sample_format (g_accelerator g), g)
         else if r = DSP_YN1 then (m_yn1 (g_accelerator g), g)
         else if r = DSP_YN2 then (m_yn2 (g_accelerator g), g)
         else if r = DSP_PRED_SCALE then (m_pred_scale (g_accelerator g), g)
         else if r = DSP_ACCELERATOR then read_ACCELERATOR g
         else if r = DSP_ACDATA1 then read_ACDATA1 g
         else (ifx_regs g r, g))"

section \<open>Correctness of the transfers\<close>

text \<open>The contract of a data DMA: main memory holds the words of DRAM in big endian order.\<close>

definition be16 :: "u8 array \<Rightarrow> nat \<Rightarrow> u16" where
  "be16 ram x = push_bit 8 (ucast (ram x)) OR ucast (ram (x + 1))"

definition be_byte :: "u16 array \<Rightarrow> nat \<Rightarrow> nat \<Rightarrow> u8" where
  "be_byte dram d k = (if even k then ucast (drop_bit 8 (dram (d + k div 2))) else ucast (dram (d + k div 2)))"

definition dma_in_spec :: "nat \<Rightarrow> nat \<Rightarrow> nat \<Rightarrow> u8 array \<Rightarrow> u16 array \<Rightarrow> u16 array" where
  "dma_in_spec d base n ram dram = (\<lambda>w. if d \<le> w \<and> w < d + n then be16 ram (base + 2 * (w - d)) else dram w)"

definition dma_out_spec :: "nat \<Rightarrow> nat \<Rightarrow> nat \<Rightarrow> u16 array \<Rightarrow> u8 array \<Rightarrow> u8 array" where
  "dma_out_spec d base n dram ram =
     (\<lambda>y. if base \<le> y \<and> y < base + 2 * n then be_byte dram d (y - base) else ram y)"

lemma swap16_read_le16: "swap16 (read_le16 ram x) = be16 ram x"
  by (rule bit_word_eqI) (auto simp: swap16_def read_le16_def be16_def bit_simps dest: bit_imp_le_length)

lemma be16_dma_out_spec:
  assumes "k < n"
  shows "be16 (dma_out_spec d base n dram ram) (base + 2 * k) = dram (d + k)"
  using assms
  by (intro bit_word_eqI)
    (auto simp: be16_def dma_out_spec_def be_byte_def bit_simps dest: bit_imp_le_length)

text \<open>What was written out is read back.\<close>

lemma dma_in_out_spec: "dma_in_spec d base n (dma_out_spec d base n dram ram) dram = dram"
proof
  fix w
  show "dma_in_spec d base n (dma_out_spec d base n dram ram) dram w = dram w"
    using be16_dma_out_spec [of "w - d" n d base dram ram] by (auto simp: dma_in_spec_def)
qed

lemma dma_in_spec_Suc:
  "dma_in_spec d base (Suc n) ram dram = (dma_in_spec d base n ram dram)(d + n := be16 ram (base + 2 * n))"
  by (auto simp: dma_in_spec_def fun_eq_iff less_Suc_eq)

lemma ram_index_eq:
  assumes "unat (addr AND 0x7FFFFFFF) + i < 2 ^ 31"
  shows "ram_index addr i = unat (addr AND 0x7FFFFFFF) + i"
proof -
  have m: "(0x7FFFFFFF :: u32) = mask 31"
    by (simp add: mask_eq_exp_minus_1)
  have base: "unat (addr AND 0x7FFFFFFF) = unat addr mod 2 ^ 31"
    by (simp only: m unat_and_mask)
  have "ram_index addr i = unat (addr + of_nat i) mod 2 ^ 31"
    by (simp only: ram_index_def m unat_and_mask)
  also have "\<dots> = (unat addr + i) mod 2 ^ 31"
    by (simp add: unat_word_ariths unat_of_nat mod_mod_cancel mod_add_right_eq
        mod_mod_cancel [of "2147483648" "4294967296"])
  also have "\<dots> = (unat addr mod 2 ^ 31 + i) mod 2 ^ 31"
    by (simp add: mod_add_left_eq)
  also have "\<dots> = unat addr mod 2 ^ 31 + i"
    using assms unfolding base by (rule mod_less)
  finally show ?thesis
    by (simp only: base)
qed

lemma ddma_in_words_append:
  "ddma_in_words d addr (xs @ ys) ram dram =
     ddma_in_words d addr ys ram (ddma_in_words d addr xs ram dram)"
  by (induction xs arbitrary: dram) simp_all

lemma ddma_out_words_append:
  "ddma_out_words d addr (xs @ ys) dram ram =
     ddma_out_words d addr ys dram (ddma_out_words d addr xs dram ram)"
  by (induction xs arbitrary: ram) simp_all

lemma SSSE3_in_append:
  "gdsp_ddma_in_SSSE3 d addr (xs @ ys) ram dram =
     gdsp_ddma_in_SSSE3 d addr ys ram (gdsp_ddma_in_SSSE3 d addr xs ram dram)"
  by (induction xs arbitrary: dram) simp_all

lemma SSSE3_out_append:
  "gdsp_ddma_out_SSSE3 d addr (xs @ ys) dram ram =
     gdsp_ddma_out_SSSE3 d addr ys dram (gdsp_ddma_out_SSSE3 d addr xs dram ram)"
  by (induction xs arbitrary: ram) simp_all

lemma ddma_in_words_spec:
  assumes "unat (addr AND 0x7FFFFFFF) + 2 * n \<le> 2 ^ 31"
  shows "ddma_in_words (2 * d) addr (map ((*) 2) [0..<n]) ram dram =
     dma_in_spec d (unat (addr AND 0x7FFFFFFF)) n ram dram"
  using assms
proof (induction n)
  case 0
  show ?case by (auto simp: dma_in_spec_def fun_eq_iff)
next
  case (Suc n)
  then show ?case
    by (simp add: ddma_in_words_append swap16_read_le16 ram_index_eq dma_in_spec_Suc)
qed

lemma write_le16_swap16:
  "write_le16 x (swap16 v) m = m(x := ucast (drop_bit 8 v), x + 1 := ucast v)"
proof -
  have "ucast (swap16 v) = (ucast (drop_bit 8 v) :: u8)"
    and "ucast (drop_bit 8 (swap16 v)) = (ucast v :: u8)"
    by (rule bit_word_eqI, auto simp: swap16_def bit_simps dest: bit_imp_le_length)+
  then show ?thesis
    by (simp add: write_le16_def)
qed

lemma dma_out_spec_Suc:
  "dma_out_spec d base (Suc n) dram ram =
     (dma_out_spec d base n dram ram)
       (base + 2 * n := ucast (drop_bit 8 (dram (d + n))), base + 2 * n + 1 := ucast (dram (d + n)))"
proof
  fix y
  consider "y < base + 2 * n" | "y = base + 2 * n" | "y = base + 2 * n + 1" | "base + 2 * n + 1 < y"
    by linarith
  then show "dma_out_spec d base (Suc n) dram ram y =
     ((dma_out_spec d base n dram ram)
       (base + 2 * n := ucast (drop_bit 8 (dram (d + n))), base + 2 * n + 1 := ucast (dram (d + n)))) y"
    by cases (simp_all add: dma_out_spec_def be_byte_def)
qed

lemma ddma_out_words_spec:
  assumes "unat (addr AND 0x7FFFFFFF) + 2 * n \<le> 2 ^ 31"
  shows "ddma_out_words (2 * d) addr (map ((*) 2) [0..<n]) dram ram =
     dma_out_spec d (unat (addr AND 0x7FFFFFFF)) n dram ram"
  using assms
proof (induction n)
  case 0
  show ?case by (auto simp: dma_out_spec_def fun_eq_iff)
next
  case (Suc n)
  then show ?case
    by (simp add: ddma_out_words_append write_le16_swap16 ram_index_eq dma_out_spec_Suc)
qed

text \<open>One SSSE3 round moves eight words as the scalar loop does.\<close>

lemma s_mask_nth: "j < 16 \<Longrightarrow> s_mask ! j = (if even j then j + 1 else j - 1)"
proof -
  have "list_all (\<lambda>j. s_mask ! j = (if even j then j + 1 else j - 1)) [0..<16]"
    by code_simp
  then show "j < 16 \<Longrightarrow> s_mask ! j = (if even j then j + 1 else j - 1)"
    by (simp add: list_all_iff)
qed

lemma length_s_mask: "length s_mask = 16"
  by (simp add: s_mask_def)

lemma shuffle_nth:
  assumes "j < 16"
  shows "mm_shuffle_epi8 a s_mask ! j = a ! (if even j then j + 1 else j - 1)"
  using assms by (simp add: mm_shuffle_epi8_def length_s_mask s_mask_nth)

lemma store_dram_chunk:
  "store_dram (2 * d + 16 * k) (mm_shuffle_epi8 (load_ram ram (base + 16 * k)) s_mask)
     (dma_in_spec d base (8 * k) ram dram) = dma_in_spec d base (8 * Suc k) ram dram"
proof
  fix w
  show "store_dram (2 * d + 16 * k) (mm_shuffle_epi8 (load_ram ram (base + 16 * k)) s_mask)
     (dma_in_spec d base (8 * k) ram dram) w = dma_in_spec d base (8 * Suc k) ram dram w"
  proof (cases "d + 8 * k \<le> w \<and> w < d + 8 * k + 8")
    case True
    define j where "j = w - (d + 8 * k)"
    have j: "j < 8" and w: "w = d + 8 * k + j"
      using True by (auto simp: j_def)
    have "2 * j + 1 < 16"
      using j by simp
    then show ?thesis
      using j by (simp add: w store_dram_def dma_in_spec_def shuffle_nth load_ram_def be16_def
          or.commute add.assoc)
  qed (auto simp: store_dram_def dma_in_spec_def)
qed

lemma gdsp_ddma_in_SSSE3_spec:
  assumes "unat (addr AND 0x7FFFFFFF) + 16 * k \<le> 2 ^ 31"
  shows "gdsp_ddma_in_SSSE3 (2 * d) addr (map ((*) 16) [0..<k]) ram dram =
     dma_in_spec d (unat (addr AND 0x7FFFFFFF)) (8 * k) ram dram"
  using assms
proof (induction k)
  case 0
  show ?case by (auto simp: dma_in_spec_def fun_eq_iff)
next
  case (Suc k)
  then have "unat (addr AND 0x7FFFFFFF) + 16 * k < 2 ^ 31"
    by simp
  with Suc show ?case
    by (simp add: SSSE3_in_append ram_index_eq store_dram_chunk del: mult_Suc_right)
qed

lemma load_dram_be:
  "j < 16 \<Longrightarrow> load_dram dram (2 * d + 16 * k) ! (if even j then j + 1 else j - 1) =
     be_byte dram d (16 * k + j)"
proof -
  assume "j < 16"
  then have i: "j div 2 < 8" "j = 2 * (j div 2) \<or> j = 2 * (j div 2) + 1"
    by auto
  then obtain i where "i < 8" "j = 2 * i \<or> j = 2 * i + 1"
    by blast
  then show ?thesis
    by (auto simp: load_dram_def be_byte_def add.assoc)
qed

lemma store_ram_chunk:
  "store_ram (base + 16 * k) (mm_shuffle_epi8 (load_dram dram (2 * d + 16 * k)) s_mask)
     (dma_out_spec d base (8 * k) dram ram) = dma_out_spec d base (8 * Suc k) dram ram"
proof
  fix y
  show "store_ram (base + 16 * k) (mm_shuffle_epi8 (load_dram dram (2 * d + 16 * k)) s_mask)
     (dma_out_spec d base (8 * k) dram ram) y = dma_out_spec d base (8 * Suc k) dram ram y"
  proof (cases "base + 16 * k \<le> y \<and> y < base + 16 * k + 16")
    case True
    define j where "j = y - (base + 16 * k)"
    have j: "j < 16" and y: "y = base + 16 * k + j"
      using True by (auto simp: j_def)
    have "mm_shuffle_epi8 (load_dram dram (2 * d + 16 * k)) s_mask ! j = be_byte dram d (16 * k + j)"
      using j by (simp only: shuffle_nth load_dram_be)
    then show ?thesis
      using j by (simp add: y store_ram_def dma_out_spec_def add.assoc)
  qed (auto simp: store_ram_def dma_out_spec_def)
qed

lemma gdsp_ddma_out_SSSE3_spec:
  assumes "unat (addr AND 0x7FFFFFFF) + 16 * k \<le> 2 ^ 31"
  shows "gdsp_ddma_out_SSSE3 (2 * d) addr (map ((*) 16) [0..<k]) dram ram =
     dma_out_spec d (unat (addr AND 0x7FFFFFFF)) (8 * k) dram ram"
  using assms
proof (induction k)
  case 0
  show ?case by (auto simp: dma_out_spec_def fun_eq_iff)
next
  case (Suc k)
  then have "unat (addr AND 0x7FFFFFFF) + 16 * k < 2 ^ 31"
    by simp
  with Suc show ?case
    by (simp add: SSSE3_out_append ram_index_eq store_ram_chunk del: mult_Suc_right)
qed

lemma dma_offsets_eq:
  "dma_offsets 2 sz = map ((*) 2) [0..<(sz + 1) div 2]"
  "sz mod 16 = 0 \<Longrightarrow> dma_offsets 16 sz = map ((*) 16) [0..<sz div 16]"
  by (auto simp: dma_offsets_def elim!: dvdE simp flip: dvd_eq_mod_eq_0)

text \<open>The bytes a transfer touches when its addresses do not wrap.\<close>

definition block_mapped :: "dsp \<Rightarrow> nat \<Rightarrow> nat \<Rightarrow> bool" where
  "block_mapped g base n \<longleftrightarrow> (\<forall>i<n. host_mapped g (base + i))"

lemma mapped_block_fits: "block_mapped g base n \<Longrightarrow> base < 2 ^ 31 \<Longrightarrow> n < 2 ^ 30 \<Longrightarrow> base + n \<le> 2 ^ 31"
  by (cases "base + n \<le> 2 ^ 31")
    (auto simp: block_mapped_def host_mapped_def dest!: spec [of _ "2 ^ 31 - base"])

lemma dma_mapped_block:
  assumes "unat (addr AND 0x7FFFFFFF) + 2 * ((sz + 1) div 2) \<le> 2 ^ 31"
    and "block_mapped g (unat (addr AND 0x7FFFFFFF)) (2 * ((sz + 1) div 2))"
  shows "dma_mapped 2 addr sz g" "sz mod 16 = 0 \<Longrightarrow> dma_mapped 16 addr sz g"
proof -
  let ?b = "unat (addr AND 0x7FFFFFFF)"
  have at: "ram_index addr i = ?b + i" if "i < 2 * ((sz + 1) div 2)" for i
    using assms(1) that by (intro ram_index_eq) linarith
  show "dma_mapped 2 addr sz g"
    using assms(2) unfolding dma_mapped_def dma_offsets_eq
    by (auto simp: list_all_iff at block_mapped_def add.assoc)
  assume sz: "sz mod 16 = 0"
  then obtain k where "sz = 16 * k" by (auto simp flip: dvd_eq_mod_eq_0)
  then show "dma_mapped 16 addr sz g"
    using assms(2) at unfolding dma_mapped_def dma_offsets_eq(2) [OF sz]
    by (auto simp: list_all_iff block_mapped_def add.assoc)
qed

lemma gdsp_ddma_spec:
  assumes "even (unat dsp_addr)"
    and "unat (addr AND 0x7FFFFFFF) + 2 * ((sz + 1) div 2) \<le> 2 ^ 31"
    and "unat dsp_addr + 2 * ((sz + 1) div 2) \<le> DSP_DRAM_BYTE_SIZE"
    and "block_mapped g (unat (addr AND 0x7FFFFFFF)) (2 * ((sz + 1) div 2))"
  shows "gdsp_ddma_in dsp_addr addr sz g =
       Inr (g\<lparr>g_dram := dma_in_spec (unat dsp_addr div 2) (unat (addr AND 0x7FFFFFFF))
                          ((sz + 1) div 2) (cpu_ram g) (g_dram g)\<rparr>)"
    and "gdsp_ddma_out dsp_addr addr sz g =
       Inr (g\<lparr>cpu_ram := dma_out_spec (unat dsp_addr div 2) (unat (addr AND 0x7FFFFFFF))
                          ((sz + 1) div 2) (g_dram g) (cpu_ram g)\<rparr>)"
proof -
  obtain d where d: "unat dsp_addr = 2 * d"
    using assms(1) by (elim evenE)
  have words: "ddma_in_words (2 * d) addr (dma_offsets 2 sz) (cpu_ram g) (g_dram g) =
      dma_in_spec d (unat (addr AND 0x7FFFFFFF)) ((sz + 1) div 2) (cpu_ram g) (g_dram g)"
    "ddma_out_words (2 * d) addr (dma_offsets 2 sz) (g_dram g) (cpu_ram g) =
      dma_out_spec d (unat (addr AND 0x7FFFFFFF)) ((sz + 1) div 2) (g_dram g) (cpu_ram g)"
    using assms(2) by (simp_all only: dma_offsets_eq ddma_in_words_spec ddma_out_words_spec)
  have chunks: "gdsp_ddma_in_SSSE3 (2 * d) addr (dma_offsets 16 sz) (cpu_ram g) (g_dram g) =
      dma_in_spec d (unat (addr AND 0x7FFFFFFF)) ((sz + 1) div 2) (cpu_ram g) (g_dram g)
    \<and> gdsp_ddma_out_SSSE3 (2 * d) addr (dma_offsets 16 sz) (g_dram g) (cpu_ram g) =
      dma_out_spec d (unat (addr AND 0x7FFFFFFF)) ((sz + 1) div 2) (g_dram g) (cpu_ram g)"
    if sz: "sz mod 16 = 0"
  proof -
    from sz obtain k where k: "sz = 16 * k"
      by (auto simp flip: dvd_eq_mod_eq_0)
    then have half: "(sz + 1) div 2 = 8 * k"
      by simp
    show ?thesis
      using assms(2) unfolding dma_offsets_eq(2) [OF sz] half
      by (simp add: k gdsp_ddma_in_SSSE3_spec gdsp_ddma_out_SSSE3_spec)
  qed
  show "gdsp_ddma_in dsp_addr addr sz g =
       Inr (g\<lparr>g_dram := dma_in_spec (unat dsp_addr div 2) (unat (addr AND 0x7FFFFFFF))
                          ((sz + 1) div 2) (cpu_ram g) (g_dram g)\<rparr>)"
    using assms(3) chunks dma_mapped_block [OF assms(2,4)] by (simp add: gdsp_ddma_in_def words d)
  show "gdsp_ddma_out dsp_addr addr sz g =
       Inr (g\<lparr>cpu_ram := dma_out_spec (unat dsp_addr div 2) (unat (addr AND 0x7FFFFFFF))
                          ((sz + 1) div 2) (g_dram g) (cpu_ram g)\<rparr>)"
    using assms(3) chunks dma_mapped_block [OF assms(2,4)] by (simp add: gdsp_ddma_out_def words d)
qed

text \<open>The request in the DMA registers.\<close>

definition dma_addr :: "dsp \<Rightarrow> u32" where
  "dma_addr g = push_bit 16 (ucast (ifx_regs g DSP_DSMAH)) OR ucast (ifx_regs g DSP_DSMAL)"

definition dma_base :: "dsp \<Rightarrow> nat" where
  "dma_base g = unat (dma_addr g AND 0x7FFFFFFF)"

definition dma_words :: "dsp \<Rightarrow> nat" where
  "dma_words g = (unat (ifx_regs g DSP_DSBL) + 1) div 2"

text \<open>A data transfer that stays inside DRAM, and in main memory where the host maps it.\<close>

definition data_dma_ok :: "dsp \<Rightarrow> bool" where
  "data_dma_ok g \<longleftrightarrow>
     unat (ifx_regs g DSP_DSPA) + dma_words g \<le> DSP_DRAM_SIZE \<and> block_mapped g (dma_base g) (2 * dma_words g)"

lemma data_dma_fits: "data_dma_ok g \<Longrightarrow> dma_base g + 2 * dma_words g \<le> 2 ^ 31"
proof -
  have "dma_base g = unat (dma_addr g) mod 2 ^ 31"
    unfolding dma_base_def using unat_and_mask [of "dma_addr g" 31] by (simp add: mask_eq_exp_minus_1)
  then have "dma_base g < 2 ^ 31" by simp
  then show "data_dma_ok g \<Longrightarrow> ?thesis"
    by (intro mapped_block_fits [of g]) (auto simp: data_dma_ok_def)
qed

lemma data_dma_addr:
  assumes "data_dma_ok g"
  shows "unat (ifx_regs g DSP_DSPA * 2) = 2 * unat (ifx_regs g DSP_DSPA)"
  using assms by (simp add: data_dma_ok_def unat_word_ariths)

lemma gdsp_do_dma_data:
  assumes "data_dma_ok g"
  shows "ifx_regs g DSP_DSCR AND 0x3 = 0 \<Longrightarrow> gdsp_do_dma g =
       Inr (g\<lparr>g_dram := dma_in_spec (unat (ifx_regs g DSP_DSPA)) (dma_base g) (dma_words g)
                          (cpu_ram g) (g_dram g)\<rparr>)"
    and "ifx_regs g DSP_DSCR AND 0x3 = 1 \<Longrightarrow> gdsp_do_dma g =
       Inr (g\<lparr>cpu_ram := dma_out_spec (unat (ifx_regs g DSP_DSPA)) (dma_base g) (dma_words g)
                          (g_dram g) (cpu_ram g)\<rparr>)"
proof -
  have len: "\<not> 0x4000 < unat (ifx_regs g DSP_DSBL)"
    using assms unfolding data_dma_ok_def dma_words_def DSP_DRAM_SIZE_def by linarith
  note spec = gdsp_ddma_spec [of "ifx_regs g DSP_DSPA * 2" "dma_addr g" "unat (ifx_regs g DSP_DSBL)" g]
  have pre: "even (unat (ifx_regs g DSP_DSPA * 2))"
    "unat (dma_addr g AND 0x7FFFFFFF) + 2 * ((unat (ifx_regs g DSP_DSBL) + 1) div 2) \<le> 2 ^ 31"
    "unat (ifx_regs g DSP_DSPA * 2) + 2 * ((unat (ifx_regs g DSP_DSBL) + 1) div 2) \<le> DSP_DRAM_BYTE_SIZE"
    "block_mapped g (unat (dma_addr g AND 0x7FFFFFFF)) (2 * ((unat (ifx_regs g DSP_DSBL) + 1) div 2))"
    using assms data_dma_fits [OF assms] unfolding data_dma_addr [OF assms]
    by (simp_all add: data_dma_ok_def dma_base_def dma_words_def)
  have half: "unat (ifx_regs g DSP_DSPA * 2) div 2 = unat (ifx_regs g DSP_DSPA)"
    by (simp add: data_dma_addr [OF assms])
  show "ifx_regs g DSP_DSCR AND 0x3 = 0 \<Longrightarrow> gdsp_do_dma g =
       Inr (g\<lparr>g_dram := dma_in_spec (unat (ifx_regs g DSP_DSPA)) (dma_base g) (dma_words g)
                          (cpu_ram g) (g_dram g)\<rparr>)"
    and "ifx_regs g DSP_DSCR AND 0x3 = 1 \<Longrightarrow> gdsp_do_dma g =
       Inr (g\<lparr>cpu_ram := dma_out_spec (unat (ifx_regs g DSP_DSPA)) (dma_base g) (dma_words g)
                          (g_dram g) (cpu_ram g)\<rparr>)"
    using len spec [OF pre] half
    by (simp_all add: gdsp_do_dma_def Let_def DSP_CR_DMEM_def DSP_CR_IMEM_def DSP_CR_TO_CPU_def
        DSP_CR_FROM_CPU_def dma_addr_def [symmetric] dma_base_def dma_words_def)
qed

section \<open>The contract of a mailbox\<close>

text \<open>
  A mailbox is a cell of 31 bits with a flag: the writer stores the high half, which empties the
  mailbox, then the low half, which marks it full; the reader polls the high half and empties the
  mailbox by reading the low half.
\<close>

definition mail_send :: "(u16 \<Rightarrow> 's \<Rightarrow> 's) \<Rightarrow> (u16 \<Rightarrow> 's \<Rightarrow> 's) \<Rightarrow> u32 \<Rightarrow> 's \<Rightarrow> 's" where
  "mail_send write_h write_l mail s = write_l (lane 0 mail) (write_h (lane 1 mail) s)"

definition mail_receive :: "('s \<Rightarrow> u16) \<Rightarrow> ('s \<Rightarrow> u16 \<times> 's) \<Rightarrow> 's \<Rightarrow> u32 option \<times> 's" where
  "mail_receive read_h read_l s =
     (if bit (read_h s) 15
      then (Some (push_bit 16 (ucast (read_h s AND 0x7FFF)) OR ucast (fst (read_l s))), snd (read_l s))
      else (None, s))"

lemma mail_masks:
  "(0x7FFF :: u16) = mask 15" "(0xFFFF :: u32) = mask 16"
  "x OR 0x80000000 = set_bit 31 (x :: u32)" "x AND NOT 0x80000000 = unset_bit 31 (x :: u32)"
  by (simp_all add: mask_eq_exp_minus_1 set_bit_eq_or unset_bit_eq_and_not)

locale mailbox_channel =
  fixes usable :: "'s \<Rightarrow> bool"
    and peek :: "'s \<Rightarrow> u32"
    and write_h :: "u16 \<Rightarrow> 's \<Rightarrow> 's"
    and write_l :: "u16 \<Rightarrow> 's \<Rightarrow> 's"
    and read_h :: "'s \<Rightarrow> u16"
    and read_l :: "'s \<Rightarrow> u16 \<times> 's"
  assumes usable_write_h: "usable s \<Longrightarrow> usable (write_h v s)"
    and usable_write_l: "usable s \<Longrightarrow> usable (write_l v s)"
    and usable_read_l: "usable s \<Longrightarrow> usable (snd (read_l s))"
    and peek_write_h: "peek (write_h v s) = set_lane 1 (v AND 0x7FFF) (peek s)"
    and peek_write_l: "peek (write_l v s) = set_lane 0 v (peek s) OR 0x80000000"
    and read_h_peek: "usable s \<Longrightarrow> read_h s = lane 1 (peek s)"
    and read_l_peek: "usable s \<Longrightarrow> fst (read_l s) = lane 0 (peek s)"
    and peek_read_l: "usable s \<Longrightarrow> peek (snd (read_l s)) = peek s AND NOT 0x80000000"
begin

lemma peek_send: "peek (mail_send write_h write_l mail s) = set_bit 31 (mail AND mask 31)"
proof (rule bit_word_eqI)
  fix n assume "n < LENGTH(32)"
  then show "bit (peek (mail_send write_h write_l mail s)) n = bit (set_bit 31 (mail AND mask 31)) n"
    unfolding mail_send_def peek_write_l peek_write_h mail_masks
    by (auto simp: bit_set_lane bit_lane bit_set_bit_iff bit_and_iff bit_mask_word)
qed

lemma receive_send:
  assumes "usable s"
  shows "fst (mail_receive read_h read_l (mail_send write_h write_l mail s)) = Some (mail AND mask 31)"
    and "usable (snd (mail_receive read_h read_l (mail_send write_h write_l mail s)))"
    and "fst (mail_receive read_h read_l
           (snd (mail_receive read_h read_l (mail_send write_h write_l mail s)))) = None"
proof -
  let ?s1 = "mail_send write_h write_l mail s"
  have u1: "usable ?s1" and u2: "usable (snd (read_l ?s1))"
    using assms by (simp_all add: mail_send_def usable_write_h usable_write_l usable_read_l)
  have top: "bit (read_h ?s1) 15"
    by (simp add: read_h_peek [OF u1] peek_send bit_lane bit_set_bit_iff)
  have emptied: "\<not> bit (read_h (snd (read_l ?s1))) 15"
    unfolding read_h_peek [OF u2] peek_read_l [OF u1] mail_masks
    by (simp add: bit_lane bit_unset_bit_iff)
  have "push_bit 16 (ucast (lane 1 (peek ?s1) AND mask 15)) OR ucast (lane 0 (peek ?s1)) = mail AND mask 31"
    unfolding peek_send
    by (rule bit_word_eqI)
      (auto simp: bit_lane bit_or_iff bit_and_iff bit_set_bit_iff bit_mask_word bit_push_bit_iff
        bit_unsigned_iff)
  then show "fst (mail_receive read_h read_l ?s1) = Some (mail AND mask 31)"
    using top by (simp add: mail_receive_def mail_masks read_h_peek [OF u1] read_l_peek [OF u1])
  show "usable (snd (mail_receive read_h read_l ?s1))"
    using top u2 by (simp add: mail_receive_def)
  show "fst (mail_receive read_h read_l (snd (mail_receive read_h read_l ?s1))) = None"
    using top emptied by (simp add: mail_receive_def)
qed

end

interpretation mailbox: mailbox_channel "\<lambda>g. \<not> (g_init_hax g \<and> k = MAILBOX_DSP)" "gdsp_mbox_peek k"
    "gdsp_mbox_write_h k" "gdsp_mbox_write_l k" "gdsp_mbox_read_h k" "gdsp_mbox_read_l k" for k
proof unfold_locales
  fix s :: dsp and v :: u16
  show "gdsp_mbox_peek k (gdsp_mbox_write_h k v s) = set_lane 1 (v AND 0x7FFF) (gdsp_mbox_peek k s)"
    unfolding gdsp_mbox_peek_def gdsp_mbox_write_h_def Let_def mail_masks
    by (rule bit_word_eqI)
      (auto simp: bit_set_lane bit_or_iff bit_and_iff bit_not_iff bit_mask_word bit_push_bit_iff
        bit_set_bit_iff bit_unset_bit_iff bit_unsigned_iff dest: bit_imp_le_length)
  show "gdsp_mbox_peek k (gdsp_mbox_write_l k v s) = set_lane 0 v (gdsp_mbox_peek k s) OR 0x80000000"
    unfolding gdsp_mbox_peek_def gdsp_mbox_write_l_def Let_def mail_masks
    by (rule bit_word_eqI)
      (auto simp: bit_set_lane bit_or_iff bit_and_iff bit_not_iff bit_mask_word bit_push_bit_iff
        bit_set_bit_iff bit_unset_bit_iff bit_unsigned_iff dest: bit_imp_le_length)
qed (auto simp: gdsp_mbox_peek_def gdsp_mbox_write_h_def gdsp_mbox_write_l_def gdsp_mbox_read_h_def
    gdsp_mbox_read_l_def lane_def Let_def)

section \<open>What the registers do\<close>

text \<open>The state in which the write of the block length starts the transfer.\<close>

definition dma_started :: "u16 \<Rightarrow> dsp \<Rightarrow> dsp" where
  "dma_started len g = set_ifx DSP_DSCR (ifx_regs g DSP_DSCR OR 4) (set_ifx DSP_DSBL len g)"

lemma dscr_bits:
  "(x OR 4) AND 3 = (x AND 3 :: u16)" "(x OR 4) AND NOT 4 = (x AND NOT 4 :: u16)"
  by (simp_all add: bit.conj_disj_distrib2)

lemma dma_started_simps:
  "ifx_regs (dma_started len g) DSP_DSCR = ifx_regs g DSP_DSCR OR 4"
  "ifx_regs (dma_started len g) DSP_DSPA = ifx_regs g DSP_DSPA"
  "ifx_regs (dma_started len g) DSP_AMDM = ifx_regs g DSP_AMDM"
  "dma_base (dma_started len g) = dma_base g"
  "dma_words (dma_started len g) = (unat len + 1) div 2"
  "g_dram (dma_started len g) = g_dram g" "cpu_ram (dma_started len g) = cpu_ram g"
  "data_dma_ok (dma_started len g) = data_dma_ok (set_ifx DSP_DSBL len g)"
  by (simp_all add: dma_started_def ifx_address_defs dma_base_def dma_addr_def dma_words_def data_dma_ok_def
      block_mapped_def host_mapped_def)

text \<open>C30: writing the block length register copies the block between main memory and DRAM, byte-swapped,
  whichever copy routine runs, and leaves the DMA registers idle.  The transfer is a data transfer that
  is not masked by \<open>DSP_AMDM\<close>, lies inside DRAM, and in main memory in what the host maps; a length
  is rounded up to whole words, so that an odd one copies a byte more.\<close>

theorem dma_transfer:
  assumes "data_dma_ok (set_ifx DSP_DSBL len g)" and "ifx_regs g DSP_AMDM = 0"
    and "ifx_regs g DSP_DSCR AND 0x3 = 0 \<or> ifx_regs g DSP_DSCR AND 0x3 = 1"
  shows "gdsp_ifx_write (of_nat DSP_DSBL) len g = Inr
    (let pa = unat (ifx_regs g DSP_DSPA); n = (unat len + 1) div 2;
         g' = g\<lparr>ifx_regs := (ifx_regs g)(DSP_DSCR := ifx_regs g DSP_DSCR AND NOT 4, DSP_DSBL := 0)\<rparr>
     in if ifx_regs g DSP_DSCR AND 0x3 = 0
        then g'\<lparr>g_dram := dma_in_spec pa (dma_base g) n (cpu_ram g) (g_dram g)\<rparr>
        else g'\<lparr>cpu_ram := dma_out_spec pa (dma_base g) n (g_dram g) (cpu_ram g)\<rparr>)"
proof -
  let ?s = "dma_started len g"
  have ok: "data_dma_ok ?s"
    using assms(1) by (simp only: dma_started_simps)
  have dscr: "ifx_regs ?s DSP_DSCR AND 0x3 = ifx_regs g DSP_DSCR AND 0x3"
    by (simp only: dma_started_simps dscr_bits)
  have wr: "gdsp_ifx_write (of_nat DSP_DSBL) len g =
      bind_res (gdsp_do_dma ?s) (\<lambda>g. Inr (set_ifx DSP_DSBL 0
        (set_ifx DSP_DSCR (ifx_regs g DSP_DSCR AND NOT 4) g)))"
    using assms(2) by (simp add: gdsp_ifx_write_def write_DSBL_def dma_started_def ifx_address_defs Let_def)
  have regs: "(ifx_regs ?s)(DSP_DSCR := ifx_regs ?s DSP_DSCR AND NOT 4, DSP_DSBL := 0) =
      (ifx_regs g)(DSP_DSCR := ifx_regs g DSP_DSCR AND NOT 4, DSP_DSBL := 0)"
    unfolding dma_started_simps dscr_bits by (auto simp: dma_started_def fun_eq_iff)
  have rest: "?s\<lparr>ifx_regs := r\<rparr> = g\<lparr>ifx_regs := r\<rparr>" for r
    by (simp add: dma_started_def)
  from assms(3) show ?thesis
  proof
    assume c: "ifx_regs g DSP_DSCR AND 0x3 = 0"
    have "gdsp_do_dma ?s = Inr (?s\<lparr>g_dram := dma_in_spec (unat (ifx_regs g DSP_DSPA)) (dma_base g)
        ((unat len + 1) div 2) (cpu_ram g) (g_dram g)\<rparr>)"
      using gdsp_do_dma_data(1) [OF ok] c dscr by (simp only: dma_started_simps)
    then show ?thesis
      unfolding wr Let_def using regs c by (simp add: rest [symmetric])
  next
    assume c: "ifx_regs g DSP_DSCR AND 0x3 = 1"
    have "gdsp_do_dma ?s = Inr (?s\<lparr>cpu_ram := dma_out_spec (unat (ifx_regs g DSP_DSPA)) (dma_base g)
        ((unat len + 1) div 2) (g_dram g) (cpu_ram g)\<rparr>)"
      using gdsp_do_dma_data(2) [OF ok] c dscr by (simp only: dma_started_simps)
    then show ?thesis
      unfolding wr Let_def using regs c by (simp add: rest [symmetric])
  qed
qed

theorem dma_transfer_witness:
  "\<exists>g'. gdsp_ifx_write (of_nat DSP_DSBL) 16 (set_ifx DSP_DSPA 0x10 dsp_zero) = Inr g'
     \<and> ifx_regs g' DSP_DSBL = 0"
proof -
  have "data_dma_ok (set_ifx DSP_DSBL 16 (set_ifx DSP_DSPA 0x10 dsp_zero))"
    "ifx_regs (set_ifx DSP_DSPA 0x10 dsp_zero) DSP_AMDM = 0"
    "ifx_regs (set_ifx DSP_DSPA 0x10 dsp_zero) DSP_DSCR AND 0x3 = 0
      \<or> ifx_regs (set_ifx DSP_DSPA 0x10 dsp_zero) DSP_DSCR AND 0x3 = 1"
    by (simp_all add: data_dma_ok_def dma_words_def dma_base_def dma_addr_def dsp_zero_def ifx_address_defs
        block_mapped_def host_mapped_def)
  from dma_transfer [OF this] show ?thesis
    by (auto simp: Let_def)
qed

text \<open>A block copied out of DRAM and back in restores DRAM, with and without SSSE3.\<close>

theorem dma_round_trip:
  assumes "even (unat dsp_addr)"
    and "unat (addr AND 0x7FFFFFFF) + 2 * ((sz + 1) div 2) \<le> 2 ^ 31"
    and "unat dsp_addr + 2 * ((sz + 1) div 2) \<le> DSP_DRAM_BYTE_SIZE"
    and "block_mapped g (unat (addr AND 0x7FFFFFFF)) (2 * ((sz + 1) div 2))"
  shows "\<exists>g' g''. gdsp_ddma_out dsp_addr addr sz g = Inr g'
     \<and> gdsp_ddma_in dsp_addr addr sz (g'\<lparr>cpu_bSSSE3 := b\<rparr>) = Inr g'' \<and> g_dram g'' = g_dram g"
proof -
  have "block_mapped (h\<lparr>cpu_ram := m, cpu_bSSSE3 := b\<rparr>) = block_mapped h" for h m
    by (simp add: block_mapped_def host_mapped_def fun_eq_iff)
  then show ?thesis
    using gdsp_ddma_spec [OF assms] gdsp_ddma_spec [OF assms(1,2,3)] assms(4) by (simp add: dma_in_out_spec)
qed

theorem dma_round_trip_witness:
  "\<exists>g' g''. gdsp_ddma_out 0x20 0x1000 16 (dsp_zero\<lparr>g_dram := \<lambda>i. of_nat i\<rparr>) = Inr g'
     \<and> gdsp_ddma_in 0x20 0x1000 16 (g'\<lparr>cpu_bSSSE3 := True\<rparr>) = Inr g''
     \<and> g_dram g'' = g_dram (dsp_zero\<lparr>g_dram := \<lambda>i. of_nat i\<rparr>)"
  by (rule dma_round_trip) (simp_all add: block_mapped_def host_mapped_def)

text \<open>Mail sent through a mailbox is received once, without its top bit.\<close>

theorem mail_round_trip:
  assumes "\<not> (g_init_hax g \<and> k = MAILBOX_DSP)"
  defines "receive \<equiv> mail_receive (gdsp_mbox_read_h k) (gdsp_mbox_read_l k)"
  shows "fst (receive (mail_send (gdsp_mbox_write_h k) (gdsp_mbox_write_l k) mail g)) = Some (mail AND mask 31)
     \<and> fst (receive (snd (receive
           (mail_send (gdsp_mbox_write_h k) (gdsp_mbox_write_l k) mail g)))) = None"
  using mailbox.receive_send [OF assms(1), of mail] by (simp add: receive_def)

theorem mail_round_trip_witness:
  "fst (mail_receive (gdsp_mbox_read_h 0) (gdsp_mbox_read_l 0)
     (mail_send (gdsp_mbox_write_h 0) (gdsp_mbox_write_l 0) 0x80F3A001 dsp_zero)) = Some (0x80F3A001 AND mask 31)"
  using mail_round_trip [of dsp_zero 0 "0x80F3A001"] by (simp add: dsp_zero_def)

end
