(* ===== verification/DSP_MemoryMap.thy ===== *)
theory DSP_MemoryMap
  imports DSP_HWInterface
begin

text \<open>
  The memory map of \<open>Core/DSP/DSPMemoryMap.cpp\<close>: data memory and the instruction fetch.  Reads
  and writes of unmapped memory are logged by the code and are otherwise without effect.
\<close>

definition dsp_dmem_read :: "u16 \<Rightarrow> dsp \<Rightarrow> u16 \<times> dsp" where
  "dsp_dmem_read addr g =
     (if drop_bit 12 addr = 0x0 then (g_dram g (unat (addr AND DSP_DRAM_MASK)), g)
      else if drop_bit 12 addr = 0x1 then (g_coef g (unat (addr AND DSP_COEF_MASK)), g)
      else if drop_bit 12 addr = 0xf then gdsp_ifx_read addr g
      else (0, g))"

definition dsp_dmem_write :: "u16 \<Rightarrow> u16 \<Rightarrow> dsp \<Rightarrow> dsp_res" where
  "dsp_dmem_write addr val g =
     (if drop_bit 12 addr = 0x0
      then Inr (g\<lparr>g_dram := (g_dram g)(unat (addr AND DSP_DRAM_MASK) := val)\<rparr>)
      else if drop_bit 12 addr = 0xf then gdsp_ifx_write (ucast addr) val g
      else Inr g)"

definition dsp_fetch_code :: "dsp \<Rightarrow> u16 \<times> dsp" where
  "dsp_fetch_code g = (let opc = dsp_imem_read (g_pc g) g in (opc, g\<lparr>g_pc := g_pc g + 1\<rparr>))"

definition dsp_peek_code :: "dsp \<Rightarrow> u16" where
  "dsp_peek_code g = dsp_imem_read (g_pc g) g"

definition dsp_skip_inst :: "dsp \<Rightarrow> dsp_res" where
  "dsp_skip_inst g =
     (case GetOpTemplate (dsp_peek_code g) g of
        None \<Rightarrow> Inl NullTemplate
      | Some t \<Rightarrow> Inr (g\<lparr>g_pc := g_pc g + of_nat (op_size t)\<rparr>))"

lemma dsp_skip_inst_ready:
  "tables_ready g \<Longrightarrow> dsp_skip_inst g = Inr (g\<lparr>g_pc := g_pc g + inst_size (g_pc g) g\<rparr>)"
  by (simp add: dsp_skip_inst_def GetOpTemplate_ready dsp_peek_code_def inst_size_def)

text \<open>A word of data memory that a write reaches is read back, and no other word changes.\<close>

lemma dmem_read_write_dram:
  assumes "drop_bit 12 addr = 0"
  shows "\<exists>g'. dsp_dmem_write addr v g = Inr g' \<and>
     (\<forall>a. drop_bit 12 a = 0 \<longrightarrow>
        dsp_dmem_read a g' = (if a = addr then v else fst (dsp_dmem_read a g), g'))"
proof -
  have inj: "a AND 0xFFF = addr AND 0xFFF \<longleftrightarrow> a = addr" if "drop_bit 12 a = (0 :: u16)" for a
  proof -
    have low: "x AND 0xFFF = x" if "drop_bit 12 x = (0 :: u16)" for x
    proof -
      have "x AND mask 12 = x"
        using that by (metis take_bit_eq_mask take_bit_eq_self_iff_drop_bit_eq_0)
      then show ?thesis
        by (simp add: mask_eq_exp_minus_1)
    qed
    show ?thesis
      using low [OF that] low [OF assms] by metis
  qed
  show ?thesis
    using assms inj
    by (auto simp: dsp_dmem_write_def dsp_dmem_read_def simp flip: word_unat_eq_iff)
qed

end
