(* ===== verification/DSP_CCUtil.thy ===== *)
theory DSP_CCUtil
  imports DSP_IntUtil
begin

text \<open>
  The condition flags of \<open>Core/DSP/Interpreter/DSPIntCCUtil.cpp\<close> and \<open>DSPIntCCUtil.h\<close>: how a result
  sets them, and what the sixteen conditions test.  The lemmas give each flag as a statement about
  the signed value of the result.
\<close>

section \<open>The code\<close>

definition isCarry :: "u64 \<Rightarrow> u64 \<Rightarrow> bool" where "isCarry val result \<longleftrightarrow> val > result"
definition isCarry2 :: "u64 \<Rightarrow> u64 \<Rightarrow> bool" where "isCarry2 val result \<longleftrightarrow> val \<ge> result"

definition isOverflow :: "s64 \<Rightarrow> s64 \<Rightarrow> s64 \<Rightarrow> bool" where
  "isOverflow val1 val2 res \<longleftrightarrow> sint ((val1 XOR res) AND (val2 XOR res)) < 0"

definition isOverS32 :: "s64 \<Rightarrow> bool" where "isOverS32 acc \<longleftrightarrow> acc \<noteq> scast (ucast acc :: s32)"

text \<open>\<open>if (c) g_dsp.r.sr |= flag\<close>.\<close>

definition or_sr_if :: "bool \<Rightarrow> u16 \<Rightarrow> dsp \<Rightarrow> dsp" where
  "or_sr_if c flag g = (if c then set_sr (dsp_sr g OR flag) g else g)"

definition Update_SR_Register64 :: "s64 \<Rightarrow> bool \<Rightarrow> bool \<Rightarrow> dsp \<Rightarrow> dsp" where
  "Update_SR_Register64 Value carry overflow g =
     (let g = set_sr (dsp_sr g AND NOT SR_CMP_MASK) g;
          g = or_sr_if carry SR_CARRY g;
          g = or_sr_if overflow SR_OVERFLOW g;
          g = or_sr_if overflow SR_OVERFLOW_STICKY g;
          g = or_sr_if (Value = 0) SR_ARITH_ZERO g;
          g = or_sr_if (sint Value < 0) SR_SIGN g;
          g = or_sr_if (Value \<noteq> scast (ucast Value :: s32)) SR_OVER_S32 g
      in or_sr_if (Value AND 0xc0000000 = 0 \<or> Value AND 0xc0000000 = 0xc0000000) SR_TOP2BITS g)"

definition Update_SR_Register16 :: "s16 \<Rightarrow> bool \<Rightarrow> bool \<Rightarrow> bool \<Rightarrow> dsp \<Rightarrow> dsp" where
  "Update_SR_Register16 Value carry overflow overS32 g =
     (let g = set_sr (dsp_sr g AND NOT SR_CMP_MASK) g;
          g = or_sr_if carry SR_CARRY g;
          g = or_sr_if overflow SR_OVERFLOW g;
          g = or_sr_if overflow SR_OVERFLOW_STICKY g;
          g = or_sr_if (Value = 0) SR_ARITH_ZERO g;
          g = or_sr_if (sint Value < 0) SR_SIGN g;
          g = or_sr_if overS32 SR_OVER_S32 g
      in or_sr_if (drop_bit 14 Value = 0 \<or> drop_bit 14 Value = 3) SR_TOP2BITS g)"

definition Update_SR_LZ :: "bool \<Rightarrow> dsp \<Rightarrow> dsp" where
  "Update_SR_LZ value g =
     (if value then set_sr (dsp_sr g OR SR_LOGIC_ZERO) g
      else set_sr (dsp_sr g AND NOT SR_LOGIC_ZERO) g)"

definition IsCarry :: "dsp \<Rightarrow> bool" where "IsCarry g \<longleftrightarrow> dsp_sr g AND SR_CARRY \<noteq> 0"
definition IsOverflow :: "dsp \<Rightarrow> bool" where "IsOverflow g \<longleftrightarrow> dsp_sr g AND SR_OVERFLOW \<noteq> 0"
definition IsOverS32 :: "dsp \<Rightarrow> bool" where "IsOverS32 g \<longleftrightarrow> dsp_sr g AND SR_OVER_S32 \<noteq> 0"
definition IsLess :: "dsp \<Rightarrow> bool" where
  "IsLess g \<longleftrightarrow> (dsp_sr g AND SR_OVERFLOW = 0) \<noteq> (dsp_sr g AND SR_SIGN = 0)"
definition IsZero :: "dsp \<Rightarrow> bool" where "IsZero g \<longleftrightarrow> dsp_sr g AND SR_ARITH_ZERO \<noteq> 0"
definition IsLogicZero :: "dsp \<Rightarrow> bool" where "IsLogicZero g \<longleftrightarrow> dsp_sr g AND SR_LOGIC_ZERO \<noteq> 0"
definition IsConditionA :: "dsp \<Rightarrow> bool" where
  "IsConditionA g \<longleftrightarrow>
     (dsp_sr g AND SR_OVER_S32 \<noteq> 0 \<or> dsp_sr g AND SR_TOP2BITS \<noteq> 0) \<and> dsp_sr g AND SR_ARITH_ZERO = 0"

definition CheckCondition :: "u16 \<Rightarrow> dsp \<Rightarrow> bool" where
  "CheckCondition cond g =
     (let c = cond AND 0xf
      in if c = 0xf then True
         else if c = 0x0 then \<not> IsLess g
         else if c = 0x1 then IsLess g
         else if c = 0x2 then \<not> IsLess g \<and> \<not> IsZero g
         else if c = 0x3 then IsLess g \<or> IsZero g
         else if c = 0x4 then \<not> IsZero g
         else if c = 0x5 then IsZero g
         else if c = 0x6 then \<not> IsCarry g
         else if c = 0x7 then IsCarry g
         else if c = 0x8 then \<not> IsOverS32 g
         else if c = 0x9 then IsOverS32 g
         else if c = 0xa then IsConditionA g
         else if c = 0xb then \<not> IsConditionA g
         else if c = 0xc then \<not> IsLogicZero g
         else if c = 0xd then IsLogicZero g
         else if c = 0xe then IsOverflow g
         else True)"

section \<open>Bits of the status register\<close>

lemma sr_masks:
  "SR_CARRY = 2 ^ 0" "SR_OVERFLOW = 2 ^ 1" "SR_ARITH_ZERO = 2 ^ 2" "SR_SIGN = 2 ^ 3"
  "SR_OVER_S32 = 2 ^ 4" "SR_TOP2BITS = 2 ^ 5" "SR_LOGIC_ZERO = 2 ^ 6" "SR_OVERFLOW_STICKY = 2 ^ 7"
  "SR_INT_ENABLE = 2 ^ 9" "SR_EXT_INT_ENABLE = 2 ^ 11" "SR_MUL_MODIFY = 2 ^ 13"
  "SR_40_MODE_BIT = 2 ^ 14" "SR_MUL_UNSIGNED = 2 ^ 15"
  by (simp_all add: SR_CARRY_def SR_OVERFLOW_def SR_ARITH_ZERO_def SR_SIGN_def SR_OVER_S32_def
      SR_TOP2BITS_def SR_LOGIC_ZERO_def SR_OVERFLOW_STICKY_def SR_INT_ENABLE_def
      SR_EXT_INT_ENABLE_def SR_MUL_MODIFY_def SR_40_MODE_BIT_def SR_MUL_UNSIGNED_def)

lemma bit_sr_masks [simp]:
  "bit SR_CARRY n \<longleftrightarrow> n = 0" "bit SR_OVERFLOW n \<longleftrightarrow> n = 1" "bit SR_ARITH_ZERO n \<longleftrightarrow> n = 2"
  "bit SR_SIGN n \<longleftrightarrow> n = 3" "bit SR_OVER_S32 n \<longleftrightarrow> n = 4" "bit SR_TOP2BITS n \<longleftrightarrow> n = 5"
  "bit SR_LOGIC_ZERO n \<longleftrightarrow> n = 6" "bit SR_OVERFLOW_STICKY n \<longleftrightarrow> n = 7"
  "bit SR_INT_ENABLE n \<longleftrightarrow> n = 9" "bit SR_EXT_INT_ENABLE n \<longleftrightarrow> n = 11"
  "bit SR_MUL_MODIFY n \<longleftrightarrow> n = 13" "bit SR_40_MODE_BIT n \<longleftrightarrow> n = 14"
  "bit SR_MUL_UNSIGNED n \<longleftrightarrow> n = 15" "bit SR_CMP_MASK n \<longleftrightarrow> n < 6"
proof -
  have m: "SR_CMP_MASK = mask 6"
    by (simp add: SR_CMP_MASK_def mask_eq_exp_minus_1)
  show "bit SR_CMP_MASK n \<longleftrightarrow> n < 6"
    unfolding m bit_mask_word by auto
qed (unfold sr_masks bit_exp_iff, auto)

lemma and_exp_zero: "(w :: 'a::len word) AND 2 ^ n = 0 \<longleftrightarrow> \<not> bit w n"
proof -
  have "w AND 2 ^ n = (if bit w n then 2 ^ n else 0)"
    by (rule bit_word_eqI) (auto simp: bit_and_iff bit_exp_iff)
  moreover have "(2 :: 'a word) ^ n \<noteq> 0" if "bit w n"
    using that by (auto dest: bit_imp_le_length)
  ultimately show ?thesis
    by auto
qed

lemma sr_and_masks [simp]:
  "w AND SR_CARRY = 0 \<longleftrightarrow> \<not> bit w 0" "w AND SR_OVERFLOW = 0 \<longleftrightarrow> \<not> bit w (Suc 0)"
  "w AND SR_ARITH_ZERO = 0 \<longleftrightarrow> \<not> bit w 2" "w AND SR_SIGN = 0 \<longleftrightarrow> \<not> bit w 3"
  "w AND SR_OVER_S32 = 0 \<longleftrightarrow> \<not> bit w 4" "w AND SR_TOP2BITS = 0 \<longleftrightarrow> \<not> bit w 5"
  "w AND SR_LOGIC_ZERO = 0 \<longleftrightarrow> \<not> bit w 6" "w AND SR_OVERFLOW_STICKY = 0 \<longleftrightarrow> \<not> bit w 7"
  "w AND SR_INT_ENABLE = 0 \<longleftrightarrow> \<not> bit w 9" "w AND SR_EXT_INT_ENABLE = 0 \<longleftrightarrow> \<not> bit w 11"
  "w AND SR_MUL_MODIFY = 0 \<longleftrightarrow> \<not> bit w 13" "w AND SR_40_MODE_BIT = 0 \<longleftrightarrow> \<not> bit w 14"
  "w AND SR_MUL_UNSIGNED = 0 \<longleftrightarrow> \<not> bit w 15"
  unfolding sr_masks and_exp_zero by simp_all

lemma or_sr_if_eq: "or_sr_if c m g = set_sr (dsp_sr g OR (if c then m else 0)) g"
  by (simp add: or_sr_if_def)

lemma bit_if_zero: "bit (if c then m else 0 :: 'a::len word) n \<longleftrightarrow> c \<and> bit m n"
  by simp

section \<open>The flags as statements about the result\<close>

lemma fits_s32: "(v :: s64) = scast (ucast v :: s32) \<longleftrightarrow> - (2 ^ 31) \<le> sint v \<and> sint v < 2 ^ 31"
proof -
  have "v = scast (ucast v :: s32) \<longleftrightarrow> sint v = sint (scast (ucast v :: s32) :: s64)"
    by (metis signed_word_eqI)
  also have "sint (scast (ucast v :: s32) :: s64) = signed_take_bit 31 (sint v)"
    by transfer (simp add: signed_take_bit_take_bit min_def)
  also have "sint v = signed_take_bit 31 (sint v) \<longleftrightarrow> signed_take_bit 31 (sint v) = sint v"
    by (rule eq_commute)
  finally show ?thesis
    by (simp only: signed_take_bit_int_eq_self_iff)
qed

lemma top2_word: "v AND 0xc0000000 = 0 \<or> v AND 0xc0000000 = 0xc0000000 \<longleftrightarrow> bit v 30 = bit (v :: s64) 31"
proof -
  have m: "v AND 0xc0000000 = (v AND 2 ^ 30) OR (v AND 2 ^ 31)"
    by (simp add: and.commute bit.conj_disj_distrib [symmetric])
  have e: "v AND 2 ^ n = (if bit v n then 2 ^ n else 0)" for n
    by (rule bit_word_eqI) (auto simp: bit_and_iff bit_exp_iff)
  show ?thesis
    unfolding m e by (cases "bit v 30"; cases "bit v 31") simp_all
qed

definition sr_bits64 :: "s64 \<Rightarrow> bool \<Rightarrow> bool \<Rightarrow> u16 \<Rightarrow> nat \<Rightarrow> bool" where
  "sr_bits64 v carry overflow old n =
     (if n = 0 then carry
      else if n = 1 then overflow
      else if n = 2 then v = 0
      else if n = 3 then sint v < 0
      else if n = 4 then \<not> (- (2 ^ 31) \<le> sint v \<and> sint v < 2 ^ 31)
      else if n = 5 then bit v 30 = bit v 31
      else if n = 7 then bit old 7 \<or> overflow
      else bit old n)"

lemma Update_SR_Register64_frame:
  "Update_SR_Register64 v c ov g = set_sr (dsp_sr (Update_SR_Register64 v c ov g)) g"
  by (simp add: Update_SR_Register64_def Let_def or_sr_if_eq)

lemma Update_SR_Register64_bits:
  "n < 16 \<Longrightarrow> bit (dsp_sr (Update_SR_Register64 v c ov g)) n = sr_bits64 v c ov (dsp_sr g) n"
  unfolding Update_SR_Register64_def Let_def top2_word fits_s32 sr_bits64_def or_sr_if_eq
  by (simp add: bit_or_iff bit_and_iff bit_not_iff bit_if_zero)

lemma Update_SR_Register16_frame:
  "Update_SR_Register16 v c ov o32 g = set_sr (dsp_sr (Update_SR_Register16 v c ov o32 g)) g"
  by (simp add: Update_SR_Register16_def Let_def or_sr_if_eq)

lemma Update_SR_LZ_frame: "Update_SR_LZ b g = set_sr (dsp_sr (Update_SR_LZ b g)) g"
  by (simp add: Update_SR_LZ_def)

lemma Update_SR_LZ_bits:
  "n < 16 \<Longrightarrow> bit (dsp_sr (Update_SR_LZ b g)) n = (if n = 6 then b else bit (dsp_sr g) n)"
  by (auto simp: Update_SR_LZ_def bit_or_iff bit_and_iff bit_not_iff)

end
