(* ===== verification/DSP_Branch.thy ===== *)
theory DSP_Branch
  imports DSP_CCUtil
begin

text \<open>
  The functions of \<open>Core/DSP/Interpreter/DSPIntBranch.cpp\<close>: conditional control flow and the loop
  hardware, which keeps the start, the end and the count of a loop on three of the stacks.  A
  skipped instruction needs its template, so the functions that skip return a fault when the
  tables have not been filled.
\<close>

section \<open>The code\<close>

definition Interpreter_call :: "u16 \<Rightarrow> dsp \<Rightarrow> dsp" where
  "Interpreter_call opc g =
     (let (dest, g) = dsp_fetch_code g
      in if CheckCondition (opc AND 0xf) g
         then (dsp_reg_store_stack StackRegister_Call (g_pc g) g)\<lparr>g_pc := dest\<rparr>
         else g)"

definition Interpreter_callr :: "u16 \<Rightarrow> dsp \<Rightarrow> dsp" where
  "Interpreter_callr opc g =
     (if CheckCondition (opc AND 0xf) g
      then (let reg = fld opc 5 0x7;
                (address, g) = dsp_op_read_reg reg g
            in (dsp_reg_store_stack StackRegister_Call (g_pc g) g)\<lparr>g_pc := address\<rparr>)
      else g)"

definition Interpreter_ifcc :: "u16 \<Rightarrow> dsp \<Rightarrow> dsp_res" where
  "Interpreter_ifcc opc g =
     (if \<not> CheckCondition (opc AND 0xf) g then dsp_skip_inst g else Inr g)"

definition Interpreter_jcc :: "u16 \<Rightarrow> dsp \<Rightarrow> dsp" where
  "Interpreter_jcc opc g =
     (let (dest, g) = dsp_fetch_code g
      in if CheckCondition (opc AND 0xf) g then g\<lparr>g_pc := dest\<rparr> else g)"

definition Interpreter_jmprcc :: "u16 \<Rightarrow> dsp \<Rightarrow> dsp" where
  "Interpreter_jmprcc opc g =
     (if CheckCondition (opc AND 0xf) g
      then (let reg = fld opc 5 0x7;
                (address, g) = dsp_op_read_reg reg g
            in g\<lparr>g_pc := address\<rparr>)
      else g)"

definition Interpreter_ret :: "u16 \<Rightarrow> dsp \<Rightarrow> dsp" where
  "Interpreter_ret opc g =
     (if CheckCondition (opc AND 0xf) g
      then (let (address, g) = dsp_reg_load_stack StackRegister_Call g in g\<lparr>g_pc := address\<rparr>)
      else g)"

definition Interpreter_rti :: "u16 \<Rightarrow> dsp \<Rightarrow> dsp" where
  "Interpreter_rti opc g =
     (let (sr, g) = dsp_reg_load_stack StackRegister_Data g;
          g = set_sr sr g;
          (address, g) = dsp_reg_load_stack StackRegister_Call g
      in g\<lparr>g_pc := address\<rparr>)"

definition Interpreter_halt :: "u16 \<Rightarrow> dsp \<Rightarrow> dsp" where
  "Interpreter_halt opc g =
     (let g = g\<lparr>g_cr := g_cr g OR 0x4\<rparr> in g\<lparr>g_pc := g_pc g - 1\<rparr>)"

text \<open>\<open>g_dsp.pc - 1 == rLoopAddress\<close> compares two \<open>int\<close>s.\<close>

definition HandleLoop :: "dsp \<Rightarrow> dsp" where
  "HandleLoop g =
     (let rCallAddress = dsp_st g 0;
          rLoopAddress = dsp_st g 2
      in if rLoopAddress > 0 \<and> dsp_st g 3 > 0 then
           (if uint (g_pc g) - 1 = uint rLoopAddress then
              (let g = set_st 3 (dsp_st g 3 - 1) g
               in if dsp_st g 3 > 0 then g\<lparr>g_pc := rCallAddress\<rparr>
                  else (let (_, g) = dsp_reg_load_stack StackRegister_Call g;
                            (_, g) = dsp_reg_load_stack StackRegister_LoopAddress g;
                            (_, g) = dsp_reg_load_stack StackRegister_LoopCounter g
                        in g))
            else g)
         else g)"

text \<open>The three pushes all loop instructions make.\<close>

definition push_loop :: "u16 \<Rightarrow> u16 \<Rightarrow> dsp \<Rightarrow> dsp" where
  "push_loop loop_pc cnt g =
     (let g = dsp_reg_store_stack StackRegister_Call (g_pc g) g;
          g = dsp_reg_store_stack StackRegister_LoopAddress loop_pc g
      in dsp_reg_store_stack StackRegister_LoopCounter cnt g)"

definition Interpreter_loop :: "u16 \<Rightarrow> dsp \<Rightarrow> dsp_res" where
  "Interpreter_loop opc g =
     (let reg = fld opc 0 0x1f;
          (cnt, g) = dsp_op_read_reg reg g;
          loop_pc = g_pc g
      in if cnt \<noteq> 0 then Inr (push_loop loop_pc cnt g) else dsp_skip_inst g)"

definition Interpreter_loopi :: "u16 \<Rightarrow> dsp \<Rightarrow> dsp_res" where
  "Interpreter_loopi opc g =
     (let cnt = opc AND 0xff;
          loop_pc = g_pc g
      in if cnt \<noteq> 0 then Inr (push_loop loop_pc cnt g) else dsp_skip_inst g)"

definition Interpreter_bloop :: "u16 \<Rightarrow> dsp \<Rightarrow> dsp_res" where
  "Interpreter_bloop opc g =
     (let reg = fld opc 0 0x1f;
          (cnt, g) = dsp_op_read_reg reg g;
          (loop_pc, g) = dsp_fetch_code g
      in if cnt \<noteq> 0 then Inr (push_loop loop_pc cnt g)
         else dsp_skip_inst (g\<lparr>g_pc := loop_pc\<rparr>))"

definition Interpreter_bloopi :: "u16 \<Rightarrow> dsp \<Rightarrow> dsp_res" where
  "Interpreter_bloopi opc g =
     (let cnt = opc AND 0xff;
          (loop_pc, g) = dsp_fetch_code g
      in if cnt \<noteq> 0 then Inr (push_loop loop_pc cnt g)
         else dsp_skip_inst (g\<lparr>g_pc := loop_pc\<rparr>))"

end
