(* ===== verification/DSP_Arithmetic.thy ===== *)
theory DSP_Arithmetic
  imports DSP_CCUtil
begin

text \<open>
  The functions of \<open>Core/DSP/Interpreter/DSPIntArithmetic.cpp\<close>: tests and comparisons, the logic
  operations, 40-bit addition and subtraction, moves and shifts.  \<open>zeroWriteBackLog\<close> and
  \<open>zeroWriteBackLogPreserveAcc\<close> of \<open>DSPTables.cpp\<close> have an empty body unless
  \<open>PRECISE_BACKLOG\<close> is defined, which no build file does.
\<close>

section \<open>Tests, comparisons and logic\<close>

definition zeroWriteBackLog :: "dsp \<Rightarrow> dsp" where "zeroWriteBackLog g = g"
definition zeroWriteBackLogPreserveAcc :: "nat \<Rightarrow> dsp \<Rightarrow> dsp" where
  "zeroWriteBackLogPreserveAcc acc g = g"

lemma zeroWriteBackLog_simps [simp]:
  "zeroWriteBackLog g = g" "zeroWriteBackLogPreserveAcc acc g = g"
  by (simp_all add: zeroWriteBackLog_def zeroWriteBackLogPreserveAcc_def)

definition Interpreter_clr :: "u16 \<Rightarrow> dsp \<Rightarrow> dsp" where
  "Interpreter_clr opc g =
     (let reg = fld opc 11 0x1;
          g = dsp_set_long_acc reg 0 g;
          g = Update_SR_Register64 0 False False g
      in zeroWriteBackLog g)"

definition Interpreter_clrl :: "u16 \<Rightarrow> dsp \<Rightarrow> dsp" where
  "Interpreter_clrl opc g =
     (let reg = fld opc 8 0x1;
          acc = dsp_round_long_acc (dsp_get_long_acc reg g);
          g = zeroWriteBackLog g;
          g = dsp_set_long_acc reg acc g
      in Update_SR_Register64 acc False False g)"

definition Interpreter_andcf :: "u16 \<Rightarrow> dsp \<Rightarrow> dsp" where
  "Interpreter_andcf opc g =
     (let reg = fld opc 8 0x1;
          (imm, g) = dsp_fetch_code g;
          val = dsp_get_acc_m reg g
      in Update_SR_LZ (val AND imm = imm) g)"

definition Interpreter_andf :: "u16 \<Rightarrow> dsp \<Rightarrow> dsp" where
  "Interpreter_andf opc g =
     (let reg = fld opc 8 0x1;
          (imm, g) = dsp_fetch_code g;
          val = dsp_get_acc_m reg g
      in Update_SR_LZ (val AND imm = 0) g)"

definition Interpreter_tst :: "u16 \<Rightarrow> dsp \<Rightarrow> dsp" where
  "Interpreter_tst opc g =
     (let reg = fld opc 11 0x1;
          acc = dsp_get_long_acc reg g;
          g = Update_SR_Register64 acc False False g
      in zeroWriteBackLog g)"

definition Interpreter_tstaxh :: "u16 \<Rightarrow> dsp \<Rightarrow> dsp" where
  "Interpreter_tstaxh opc g =
     (let reg = fld opc 8 0x1;
          val = dsp_get_ax_h reg g;
          g = Update_SR_Register16 val False False False g
      in zeroWriteBackLog g)"

definition Interpreter_cmp :: "u16 \<Rightarrow> dsp \<Rightarrow> dsp" where
  "Interpreter_cmp opc g =
     (let acc0 = dsp_get_long_acc 0 g;
          acc1 = dsp_get_long_acc 1 g;
          res = dsp_convert_long_acc (acc0 - acc1);
          g = Update_SR_Register64 res (isCarry2 acc0 res) (isOverflow acc0 (- acc1) res) g
      in zeroWriteBackLog g)"

definition Interpreter_cmpar :: "u16 \<Rightarrow> dsp \<Rightarrow> dsp" where
  "Interpreter_cmpar opc g =
     (let rreg = fld opc 12 0x1;
          sreg = fld opc 11 0x1;
          sr = dsp_get_long_acc sreg g;
          rr = scast (ax_h g rreg) :: s64;
          rr = push_bit 16 rr;
          res = dsp_convert_long_acc (sr - rr);
          g = Update_SR_Register64 res (isCarry2 sr res) (isOverflow sr (- rr) res) g
      in zeroWriteBackLog g)"

definition Interpreter_cmpi :: "u16 \<Rightarrow> dsp \<Rightarrow> dsp" where
  "Interpreter_cmpi opc g =
     (let reg = fld opc 8 0x1;
          val = dsp_get_long_acc reg g;
          (code, g) = dsp_fetch_code g;
          imm = push_bit 16 (scast code :: s64);
          res = dsp_convert_long_acc (val - imm)
      in Update_SR_Register64 res (isCarry2 val res) (isOverflow val (- imm) res) g)"

definition Interpreter_cmpis :: "u16 \<Rightarrow> dsp \<Rightarrow> dsp" where
  "Interpreter_cmpis opc g =
     (let areg = fld opc 8 0x1;
          acc = dsp_get_long_acc areg g;
          val = scast (ucast opc :: s8) :: s64;
          val = push_bit 16 val;
          res = dsp_convert_long_acc (acc - val)
      in Update_SR_Register64 res (isCarry2 acc res) (isOverflow acc (- val) res) g)"

definition Interpreter_xorr :: "u16 \<Rightarrow> dsp \<Rightarrow> dsp" where
  "Interpreter_xorr opc g =
     (let dreg = fld opc 8 0x1;
          sreg = fld opc 9 0x1;
          accm = ac_m g dreg XOR ax_h g sreg;
          g = zeroWriteBackLogPreserveAcc dreg g;
          g = set_ac_lane 1 dreg accm g
      in Update_SR_Register16 accm False False (isOverS32 (dsp_get_long_acc dreg g)) g)"

definition Interpreter_andr :: "u16 \<Rightarrow> dsp \<Rightarrow> dsp" where
  "Interpreter_andr opc g =
     (let dreg = fld opc 8 0x1;
          sreg = fld opc 9 0x1;
          accm = ac_m g dreg AND ax_h g sreg;
          g = zeroWriteBackLogPreserveAcc dreg g;
          g = set_ac_lane 1 dreg accm g
      in Update_SR_Register16 accm False False (isOverS32 (dsp_get_long_acc dreg g)) g)"

definition Interpreter_orr :: "u16 \<Rightarrow> dsp \<Rightarrow> dsp" where
  "Interpreter_orr opc g =
     (let dreg = fld opc 8 0x1;
          sreg = fld opc 9 0x1;
          accm = ac_m g dreg OR ax_h g sreg;
          g = zeroWriteBackLogPreserveAcc dreg g;
          g = set_ac_lane 1 dreg accm g
      in Update_SR_Register16 accm False False (isOverS32 (dsp_get_long_acc dreg g)) g)"

definition Interpreter_andc :: "u16 \<Rightarrow> dsp \<Rightarrow> dsp" where
  "Interpreter_andc opc g =
     (let dreg = fld opc 8 0x1;
          accm = ac_m g dreg AND ac_m g (1 - dreg);
          g = zeroWriteBackLogPreserveAcc dreg g;
          g = set_ac_lane 1 dreg accm g
      in Update_SR_Register16 accm False False (isOverS32 (dsp_get_long_acc dreg g)) g)"

definition Interpreter_orc :: "u16 \<Rightarrow> dsp \<Rightarrow> dsp" where
  "Interpreter_orc opc g =
     (let dreg = fld opc 8 0x1;
          accm = ac_m g dreg OR ac_m g (1 - dreg);
          g = zeroWriteBackLogPreserveAcc dreg g;
          g = set_ac_lane 1 dreg accm g
      in Update_SR_Register16 accm False False (isOverS32 (dsp_get_long_acc dreg g)) g)"

definition Interpreter_xorc :: "u16 \<Rightarrow> dsp \<Rightarrow> dsp" where
  "Interpreter_xorc opc g =
     (let dreg = fld opc 8 0x1;
          accm = ac_m g dreg XOR ac_m g (1 - dreg);
          g = zeroWriteBackLogPreserveAcc dreg g;
          g = set_ac_lane 1 dreg accm g
      in Update_SR_Register16 accm False False (isOverS32 (dsp_get_long_acc dreg g)) g)"

definition Interpreter_notc :: "u16 \<Rightarrow> dsp \<Rightarrow> dsp" where
  "Interpreter_notc opc g =
     (let dreg = fld opc 8 0x1;
          accm = ac_m g dreg XOR 0xffff;
          g = zeroWriteBackLogPreserveAcc dreg g;
          g = set_ac_lane 1 dreg accm g
      in Update_SR_Register16 accm False False (isOverS32 (dsp_get_long_acc dreg g)) g)"

definition Interpreter_xori :: "u16 \<Rightarrow> dsp \<Rightarrow> dsp" where
  "Interpreter_xori opc g =
     (let reg = fld opc 8 0x1;
          (imm, g) = dsp_fetch_code g;
          g = set_ac_lane 1 reg (ac_m g reg XOR imm) g
      in Update_SR_Register16 (ac_m g reg) False False (isOverS32 (dsp_get_long_acc reg g)) g)"

definition Interpreter_andi :: "u16 \<Rightarrow> dsp \<Rightarrow> dsp" where
  "Interpreter_andi opc g =
     (let reg = fld opc 8 0x1;
          (imm, g) = dsp_fetch_code g;
          g = set_ac_lane 1 reg (ac_m g reg AND imm) g
      in Update_SR_Register16 (ac_m g reg) False False (isOverS32 (dsp_get_long_acc reg g)) g)"

definition Interpreter_ori :: "u16 \<Rightarrow> dsp \<Rightarrow> dsp" where
  "Interpreter_ori opc g =
     (let reg = fld opc 8 0x1;
          (imm, g) = dsp_fetch_code g;
          g = set_ac_lane 1 reg (ac_m g reg OR imm) g
      in Update_SR_Register16 (ac_m g reg) False False (isOverS32 (dsp_get_long_acc reg g)) g)"

section \<open>Addition and subtraction\<close>

text \<open>
  The \<open>switch\<close> on \<open>sreg\<close> that \<open>addr\<close>, \<open>subr\<close> and \<open>movr\<close> share, for \<open>sreg - DSP_REG_AXL0\<close> below 4.
\<close>

definition ax_part :: "nat \<Rightarrow> dsp \<Rightarrow> s64" where
  "ax_part sreg g =
     (if sreg < 2 then scast (ax_l g sreg)
      else if sreg < 4 then scast (ax_h g (sreg - 2)) else 0)"

definition Interpreter_addr :: "u16 \<Rightarrow> dsp \<Rightarrow> dsp" where
  "Interpreter_addr opc g =
     (let dreg = fld opc 8 0x1;
          sreg = fld opc 9 0x3;
          acc = dsp_get_long_acc dreg g;
          ax = ax_part sreg g;
          ax = push_bit 16 ax;
          res = acc + ax;
          g = zeroWriteBackLog g;
          g = dsp_set_long_acc dreg res g;
          res = dsp_get_long_acc dreg g
      in Update_SR_Register64 res (isCarry acc res) (isOverflow acc ax res) g)"

definition Interpreter_addax :: "u16 \<Rightarrow> dsp \<Rightarrow> dsp" where
  "Interpreter_addax opc g =
     (let dreg = fld opc 8 0x1;
          sreg = fld opc 9 0x1;
          acc = dsp_get_long_acc dreg g;
          ax = scast (dsp_get_long_acx sreg g) :: s64;
          res = acc + ax;
          g = zeroWriteBackLog g;
          g = dsp_set_long_acc dreg res g;
          res = dsp_get_long_acc dreg g
      in Update_SR_Register64 res (isCarry acc res) (isOverflow acc ax res) g)"

definition Interpreter_add :: "u16 \<Rightarrow> dsp \<Rightarrow> dsp" where
  "Interpreter_add opc g =
     (let dreg = fld opc 8 0x1;
          acc0 = dsp_get_long_acc dreg g;
          acc1 = dsp_get_long_acc (1 - dreg) g;
          res = acc0 + acc1;
          g = zeroWriteBackLog g;
          g = dsp_set_long_acc dreg res g;
          res = dsp_get_long_acc dreg g
      in Update_SR_Register64 res (isCarry acc0 res) (isOverflow acc0 acc1 res) g)"

definition Interpreter_addp :: "u16 \<Rightarrow> dsp \<Rightarrow> dsp" where
  "Interpreter_addp opc g =
     (let dreg = fld opc 8 0x1;
          acc = dsp_get_long_acc dreg g;
          prod = dsp_get_long_prod g;
          res = acc + prod;
          g = zeroWriteBackLog g;
          g = dsp_set_long_acc dreg res g;
          res = dsp_get_long_acc dreg g
      in Update_SR_Register64 res (isCarry acc res) (isOverflow acc prod res) g)"

definition Interpreter_addaxl :: "u16 \<Rightarrow> dsp \<Rightarrow> dsp" where
  "Interpreter_addaxl opc g =
     (let sreg = fld opc 9 0x1;
          dreg = fld opc 8 0x1;
          acc = dsp_get_long_acc dreg g;
          acx = ucast (dsp_get_ax_l sreg g) :: u64;
          res = acc + acx;
          g = zeroWriteBackLog g;
          g = dsp_set_long_acc dreg res g;
          res = dsp_get_long_acc dreg g
      in Update_SR_Register64 res (isCarry acc res) (isOverflow acc acx res) g)"

definition Interpreter_addi :: "u16 \<Rightarrow> dsp \<Rightarrow> dsp" where
  "Interpreter_addi opc g =
     (let dreg = fld opc 8 0x1;
          acc = dsp_get_long_acc dreg g;
          (code, g) = dsp_fetch_code g;
          imm = scast code :: s64;
          imm = push_bit 16 imm;
          res = acc + imm;
          g = dsp_set_long_acc dreg res g;
          res = dsp_get_long_acc dreg g
      in Update_SR_Register64 res (isCarry acc res) (isOverflow acc imm res) g)"

definition Interpreter_addis :: "u16 \<Rightarrow> dsp \<Rightarrow> dsp" where
  "Interpreter_addis opc g =
     (let dreg = fld opc 8 0x1;
          acc = dsp_get_long_acc dreg g;
          imm = scast (ucast opc :: s8) :: s64;
          imm = push_bit 16 imm;
          res = acc + imm;
          g = dsp_set_long_acc dreg res g;
          res = dsp_get_long_acc dreg g
      in Update_SR_Register64 res (isCarry acc res) (isOverflow acc imm res) g)"

definition Interpreter_incm :: "u16 \<Rightarrow> dsp \<Rightarrow> dsp" where
  "Interpreter_incm opc g =
     (let dreg = fld opc 8 0x1;
          sub = 0x10000 :: s64;
          acc = dsp_get_long_acc dreg g;
          res = acc + sub;
          g = zeroWriteBackLog g;
          g = dsp_set_long_acc dreg res g;
          res = dsp_get_long_acc dreg g
      in Update_SR_Register64 res (isCarry acc res) (isOverflow acc sub res) g)"

definition Interpreter_inc :: "u16 \<Rightarrow> dsp \<Rightarrow> dsp" where
  "Interpreter_inc opc g =
     (let dreg = fld opc 8 0x1;
          acc = dsp_get_long_acc dreg g;
          res = acc + 1;
          g = zeroWriteBackLog g;
          g = dsp_set_long_acc dreg res g;
          res = dsp_get_long_acc dreg g
      in Update_SR_Register64 res (isCarry acc res) (isOverflow acc 1 res) g)"

definition Interpreter_subr :: "u16 \<Rightarrow> dsp \<Rightarrow> dsp" where
  "Interpreter_subr opc g =
     (let dreg = fld opc 8 0x1;
          sreg = fld opc 9 0x3;
          acc = dsp_get_long_acc dreg g;
          ax = ax_part sreg g;
          ax = push_bit 16 ax;
          res = acc - ax;
          g = zeroWriteBackLog g;
          g = dsp_set_long_acc dreg res g;
          res = dsp_get_long_acc dreg g
      in Update_SR_Register64 res (isCarry2 acc res) (isOverflow acc (- ax) res) g)"

definition Interpreter_subax :: "u16 \<Rightarrow> dsp \<Rightarrow> dsp" where
  "Interpreter_subax opc g =
     (let dreg = fld opc 8 0x1;
          sreg = fld opc 9 0x1;
          acc = dsp_get_long_acc dreg g;
          acx = scast (dsp_get_long_acx sreg g) :: s64;
          res = acc - acx;
          g = zeroWriteBackLog g;
          g = dsp_set_long_acc dreg res g;
          res = dsp_get_long_acc dreg g
      in Update_SR_Register64 res (isCarry2 acc res) (isOverflow acc (- acx) res) g)"

definition Interpreter_sub :: "u16 \<Rightarrow> dsp \<Rightarrow> dsp" where
  "Interpreter_sub opc g =
     (let dreg = fld opc 8 0x1;
          acc1 = dsp_get_long_acc dreg g;
          acc2 = dsp_get_long_acc (1 - dreg) g;
          res = acc1 - acc2;
          g = zeroWriteBackLog g;
          g = dsp_set_long_acc dreg res g;
          res = dsp_get_long_acc dreg g
      in Update_SR_Register64 res (isCarry2 acc1 res) (isOverflow acc1 (- acc2) res) g)"

definition Interpreter_subp :: "u16 \<Rightarrow> dsp \<Rightarrow> dsp" where
  "Interpreter_subp opc g =
     (let dreg = fld opc 8 0x1;
          acc = dsp_get_long_acc dreg g;
          prod = dsp_get_long_prod g;
          res = acc - prod;
          g = zeroWriteBackLog g;
          g = dsp_set_long_acc dreg res g;
          res = dsp_get_long_acc dreg g
      in Update_SR_Register64 res (isCarry2 acc res) (isOverflow acc (- prod) res) g)"

definition Interpreter_decm :: "u16 \<Rightarrow> dsp \<Rightarrow> dsp" where
  "Interpreter_decm opc g =
     (let dreg = fld opc 8 0x1;
          sub = 0x10000 :: s64;
          acc = dsp_get_long_acc dreg g;
          res = acc - sub;
          g = zeroWriteBackLog g;
          g = dsp_set_long_acc dreg res g;
          res = dsp_get_long_acc dreg g
      in Update_SR_Register64 res (isCarry2 acc res) (isOverflow acc (- sub) res) g)"

definition Interpreter_dec :: "u16 \<Rightarrow> dsp \<Rightarrow> dsp" where
  "Interpreter_dec opc g =
     (let dreg = fld opc 8 0x1;
          acc = dsp_get_long_acc dreg g;
          res = acc - 1;
          g = zeroWriteBackLog g;
          g = dsp_set_long_acc dreg res g;
          res = dsp_get_long_acc dreg g
      in Update_SR_Register64 res (isCarry2 acc res) (isOverflow acc (- 1) res) g)"

definition Interpreter_neg :: "u16 \<Rightarrow> dsp \<Rightarrow> dsp" where
  "Interpreter_neg opc g =
     (let dreg = fld opc 8 0x1;
          acc = dsp_get_long_acc dreg g;
          acc = 0 - acc;
          g = zeroWriteBackLog g;
          g = dsp_set_long_acc dreg acc g
      in Update_SR_Register64 (dsp_get_long_acc dreg g) False False g)"

definition Interpreter_abs :: "u16 \<Rightarrow> dsp \<Rightarrow> dsp" where
  "Interpreter_abs opc g =
     (let dreg = fld opc 11 0x1;
          acc = dsp_get_long_acc dreg g;
          acc = (if sint acc < 0 then 0 - acc else acc);
          g = zeroWriteBackLog g;
          g = dsp_set_long_acc dreg acc g
      in Update_SR_Register64 (dsp_get_long_acc dreg g) False False g)"

definition Interpreter_movr :: "u16 \<Rightarrow> dsp \<Rightarrow> dsp" where
  "Interpreter_movr opc g =
     (let areg = fld opc 8 0x1;
          sreg = fld opc 9 0x3;
          ax = ax_part sreg g;
          ax = push_bit 16 ax;
          ax = ax AND NOT 0xffff;
          g = zeroWriteBackLog g;
          g = dsp_set_long_acc areg ax g
      in Update_SR_Register64 ax False False g)"

definition Interpreter_movax :: "u16 \<Rightarrow> dsp \<Rightarrow> dsp" where
  "Interpreter_movax opc g =
     (let dreg = fld opc 8 0x1;
          sreg = fld opc 9 0x1;
          acx = scast (dsp_get_long_acx sreg g) :: s64;
          g = zeroWriteBackLog g;
          g = dsp_set_long_acc dreg acx g
      in Update_SR_Register64 acx False False g)"

definition Interpreter_mov :: "u16 \<Rightarrow> dsp \<Rightarrow> dsp" where
  "Interpreter_mov opc g =
     (let dreg = fld opc 8 0x1;
          acc = dsp_get_long_acc (1 - dreg) g;
          g = zeroWriteBackLog g;
          g = dsp_set_long_acc dreg acc g
      in Update_SR_Register64 acc False False g)"

section \<open>Shifts\<close>

definition Interpreter_lsl16 :: "u16 \<Rightarrow> dsp \<Rightarrow> dsp" where
  "Interpreter_lsl16 opc g =
     (let areg = fld opc 8 0x1;
          acc = dsp_get_long_acc areg g;
          acc = push_bit 16 acc;
          g = zeroWriteBackLog g;
          g = dsp_set_long_acc areg acc g
      in Update_SR_Register64 (dsp_get_long_acc areg g) False False g)"

definition Interpreter_lsr16 :: "u16 \<Rightarrow> dsp \<Rightarrow> dsp" where
  "Interpreter_lsr16 opc g =
     (let areg = fld opc 8 0x1;
          acc = dsp_get_long_acc areg g;
          acc = acc AND 0x000000FFFFFFFFFF;
          acc = drop_bit 16 acc;
          g = zeroWriteBackLog g;
          g = dsp_set_long_acc areg acc g
      in Update_SR_Register64 (dsp_get_long_acc areg g) False False g)"

definition Interpreter_asr16 :: "u16 \<Rightarrow> dsp \<Rightarrow> dsp" where
  "Interpreter_asr16 opc g =
     (let areg = fld opc 11 0x1;
          acc = dsp_get_long_acc areg g;
          acc = signed_drop_bit 16 acc;
          g = zeroWriteBackLog g;
          g = dsp_set_long_acc areg acc g
      in Update_SR_Register64 (dsp_get_long_acc areg g) False False g)"

definition Interpreter_lsl :: "u16 \<Rightarrow> dsp \<Rightarrow> dsp" where
  "Interpreter_lsl opc g =
     (let rreg = fld opc 8 0x1;
          acc = dsp_get_long_acc rreg g;
          shift = fld opc 0 0x3f;
          acc = push_bit shift acc;
          g = dsp_set_long_acc rreg acc g
      in Update_SR_Register64 (dsp_get_long_acc rreg g) False False g)"

definition Interpreter_lsr :: "u16 \<Rightarrow> dsp \<Rightarrow> dsp" where
  "Interpreter_lsr opc g =
     (let rreg = fld opc 8 0x1;
          acc = dsp_get_long_acc rreg g;
          acc = acc AND 0x000000FFFFFFFFFF;
          shift = (if opc AND 0x3f = 0 then 0 else 0x40 - fld opc 0 0x3f);
          acc = drop_bit shift acc;
          g = dsp_set_long_acc rreg acc g
      in Update_SR_Register64 (dsp_get_long_acc rreg g) False False g)"

definition Interpreter_asl :: "u16 \<Rightarrow> dsp \<Rightarrow> dsp" where
  "Interpreter_asl opc g =
     (let rreg = fld opc 8 0x1;
          acc = dsp_get_long_acc rreg g;
          shift = fld opc 0 0x3f;
          acc = push_bit shift acc;
          g = dsp_set_long_acc rreg acc g
      in Update_SR_Register64 (dsp_get_long_acc rreg g) False False g)"

definition Interpreter_asr :: "u16 \<Rightarrow> dsp \<Rightarrow> dsp" where
  "Interpreter_asr opc g =
     (let dreg = fld opc 8 0x1;
          acc = dsp_get_long_acc dreg g;
          shift = (if opc AND 0x3f = 0 then 0 else 0x40 - fld opc 0 0x3f);
          acc = signed_drop_bit shift acc;
          g = dsp_set_long_acc dreg acc g
      in Update_SR_Register64 (dsp_get_long_acc dreg g) False False g)"

text \<open>
  The shift amount the four pairs below share: \<open>0\<close> when the low six bits are zero, otherwise the
  low seven bits as a signed number.  A positive amount is a right shift for \<open>lsrn\<close> and
  \<open>asrn\<close>, a left shift for the others.
\<close>

definition shift_amount :: "u16 \<Rightarrow> int" where
  "shift_amount w =
     (if w AND 0x3f = 0 then 0
      else if w AND 0x40 \<noteq> 0 then - 0x40 + uint (w AND 0x3f)
      else uint (w AND 0x3f))"

definition Interpreter_lsrn :: "u16 \<Rightarrow> dsp \<Rightarrow> dsp" where
  "Interpreter_lsrn opc g =
     (let w = dsp_get_acc_m 1 g;
          acc = dsp_get_long_acc 0 g;
          acc = acc AND 0x000000FFFFFFFFFF;
          shift = shift_amount w;
          acc = (if shift > 0 then drop_bit (nat shift) acc
                 else if shift < 0 then push_bit (nat (- shift)) acc else acc);
          g = dsp_set_long_acc 0 acc g
      in Update_SR_Register64 (dsp_get_long_acc 0 g) False False g)"

definition Interpreter_asrn :: "u16 \<Rightarrow> dsp \<Rightarrow> dsp" where
  "Interpreter_asrn opc g =
     (let w = dsp_get_acc_m 1 g;
          acc = dsp_get_long_acc 0 g;
          shift = shift_amount w;
          acc = (if shift > 0 then signed_drop_bit (nat shift) acc
                 else if shift < 0 then push_bit (nat (- shift)) acc else acc);
          g = dsp_set_long_acc 0 acc g
      in Update_SR_Register64 (dsp_get_long_acc 0 g) False False g)"

definition Interpreter_lsrnrx :: "u16 \<Rightarrow> dsp \<Rightarrow> dsp" where
  "Interpreter_lsrnrx opc g =
     (let dreg = fld opc 8 0x1;
          sreg = fld opc 9 0x1;
          w = ax_h g sreg;
          acc = dsp_get_long_acc dreg g;
          acc = acc AND 0x000000FFFFFFFFFF;
          shift = shift_amount w;
          acc = (if shift > 0 then push_bit (nat shift) acc
                 else if shift < 0 then drop_bit (nat (- shift)) acc else acc);
          g = zeroWriteBackLog g;
          g = dsp_set_long_acc dreg acc g
      in Update_SR_Register64 (dsp_get_long_acc dreg g) False False g)"

definition Interpreter_asrnrx :: "u16 \<Rightarrow> dsp \<Rightarrow> dsp" where
  "Interpreter_asrnrx opc g =
     (let dreg = fld opc 8 0x1;
          sreg = fld opc 9 0x1;
          w = ax_h g sreg;
          acc = dsp_get_long_acc dreg g;
          shift = shift_amount w;
          acc = (if shift > 0 then push_bit (nat shift) acc
                 else if shift < 0 then signed_drop_bit (nat (- shift)) acc else acc);
          g = zeroWriteBackLog g;
          g = dsp_set_long_acc dreg acc g
      in Update_SR_Register64 (dsp_get_long_acc dreg g) False False g)"

definition Interpreter_lsrnr :: "u16 \<Rightarrow> dsp \<Rightarrow> dsp" where
  "Interpreter_lsrnr opc g =
     (let dreg = fld opc 8 0x1;
          w = dsp_get_acc_m (1 - dreg) g;
          acc = dsp_get_long_acc dreg g;
          acc = acc AND 0x000000FFFFFFFFFF;
          shift = shift_amount w;
          acc = (if shift > 0 then push_bit (nat shift) acc
                 else if shift < 0 then drop_bit (nat (- shift)) acc else acc);
          g = zeroWriteBackLog g;
          g = dsp_set_long_acc dreg acc g
      in Update_SR_Register64 (dsp_get_long_acc dreg g) False False g)"

definition Interpreter_asrnr :: "u16 \<Rightarrow> dsp \<Rightarrow> dsp" where
  "Interpreter_asrnr opc g =
     (let dreg = fld opc 8 0x1;
          w = dsp_get_acc_m (1 - dreg) g;
          acc = dsp_get_long_acc dreg g;
          shift = shift_amount w;
          acc = (if shift > 0 then push_bit (nat shift) acc
                 else if shift < 0 then signed_drop_bit (nat (- shift)) acc else acc);
          g = zeroWriteBackLog g;
          g = dsp_set_long_acc dreg acc g
      in Update_SR_Register64 (dsp_get_long_acc dreg g) False False g)"

end
