(* ===== verification/DSP_Multiplier.thy ===== *)
theory DSP_Multiplier
  imports DSP_Arithmetic
begin

text \<open>
  The functions of \<open>Core/DSP/Interpreter/DSPIntMultiplier.cpp\<close>.  The product of two unsigned
  16-bit operands is computed in \<open>int\<close> and cast to \<open>u32\<close>; the model wraps where that product
  leaves the range of \<open>int\<close>.
\<close>

section \<open>The code\<close>

definition dsp_get_multiply_prod :: "u16 \<Rightarrow> u16 \<Rightarrow> nat \<Rightarrow> dsp \<Rightarrow> s64" where
  "dsp_get_multiply_prod a b sign g =
     (let prod =
        (if sign = 1 \<and> dsp_sr g AND SR_MUL_UNSIGNED \<noteq> 0
         then ucast ((ucast a :: u32) * ucast b)
         else if sign = 2 \<and> dsp_sr g AND SR_MUL_UNSIGNED \<noteq> 0
         then scast ((ucast a :: s32) * scast b)
         else scast ((scast a :: s32) * scast b))
      in if dsp_sr g AND SR_MUL_MODIFY = 0 then push_bit 1 prod else prod)"

definition dsp_multiply :: "u16 \<Rightarrow> u16 \<Rightarrow> nat \<Rightarrow> dsp \<Rightarrow> s64" where
  "dsp_multiply a b sign g = dsp_get_multiply_prod a b sign g"

definition dsp_multiply_add :: "u16 \<Rightarrow> u16 \<Rightarrow> nat \<Rightarrow> dsp \<Rightarrow> s64" where
  "dsp_multiply_add a b sign g = dsp_get_long_prod g + dsp_get_multiply_prod a b sign g"

definition dsp_multiply_sub :: "u16 \<Rightarrow> u16 \<Rightarrow> nat \<Rightarrow> dsp \<Rightarrow> s64" where
  "dsp_multiply_sub a b sign g = dsp_get_long_prod g - dsp_get_multiply_prod a b sign g"

definition dsp_multiply_mulx :: "nat \<Rightarrow> nat \<Rightarrow> u16 \<Rightarrow> u16 \<Rightarrow> dsp \<Rightarrow> s64" where
  "dsp_multiply_mulx axh0 axh1 val1 val2 g =
     (if axh0 = 0 \<and> axh1 = 0 then dsp_multiply val1 val2 1 g
      else if axh0 = 0 \<and> axh1 = 1 then dsp_multiply val1 val2 2 g
      else if axh0 = 1 \<and> axh1 = 0 then dsp_multiply val2 val1 2 g
      else dsp_multiply val1 val2 0 g)"

definition Interpreter_clrp :: "u16 \<Rightarrow> dsp \<Rightarrow> dsp" where
  "Interpreter_clrp opc g =
     (let g = zeroWriteBackLog g;
          g = set_prod_lane 0 0x0000 g;
          g = set_prod_lane 1 0xfff0 g;
          g = set_prod_lane 2 0x00ff g
      in set_prod_lane 3 0x0010 g)"

definition Interpreter_tstprod :: "u16 \<Rightarrow> dsp \<Rightarrow> dsp" where
  "Interpreter_tstprod opc g =
     (let prod = dsp_get_long_prod g;
          g = Update_SR_Register64 prod False False g
      in zeroWriteBackLog g)"

definition Interpreter_movp :: "u16 \<Rightarrow> dsp \<Rightarrow> dsp" where
  "Interpreter_movp opc g =
     (let dreg = fld opc 8 0x1;
          acc = dsp_get_long_prod g;
          g = zeroWriteBackLog g;
          g = dsp_set_long_acc dreg acc g
      in Update_SR_Register64 acc False False g)"

definition Interpreter_movnp :: "u16 \<Rightarrow> dsp \<Rightarrow> dsp" where
  "Interpreter_movnp opc g =
     (let dreg = fld opc 8 0x1;
          acc = - dsp_get_long_prod g;
          g = zeroWriteBackLog g;
          g = dsp_set_long_acc dreg acc g
      in Update_SR_Register64 acc False False g)"

definition Interpreter_movpz :: "u16 \<Rightarrow> dsp \<Rightarrow> dsp" where
  "Interpreter_movpz opc g =
     (let dreg = fld opc 8 0x1;
          acc = dsp_get_long_prod_round_prodl g;
          g = zeroWriteBackLog g;
          g = dsp_set_long_acc dreg acc g
      in Update_SR_Register64 acc False False g)"

definition Interpreter_addpaxz :: "u16 \<Rightarrow> dsp \<Rightarrow> dsp" where
  "Interpreter_addpaxz opc g =
     (let dreg = fld opc 8 0x1;
          sreg = fld opc 9 0x1;
          oldprod = dsp_get_long_prod g;
          prod = dsp_get_long_prod_round_prodl g;
          ax = scast (dsp_get_long_acx sreg g) :: s64;
          res = prod + (ax AND NOT 0xffff);
          g = zeroWriteBackLog g;
          g = dsp_set_long_acc dreg res g;
          res = dsp_get_long_acc dreg g
      in Update_SR_Register64 res (isCarry oldprod res) False g)"

definition Interpreter_mulaxh :: "u16 \<Rightarrow> dsp \<Rightarrow> dsp" where
  "Interpreter_mulaxh opc g =
     (let prod = dsp_multiply (dsp_get_ax_h 0 g) (dsp_get_ax_h 0 g) 0 g;
          g = zeroWriteBackLog g
      in dsp_set_long_prod prod g)"

definition Interpreter_mul :: "u16 \<Rightarrow> dsp \<Rightarrow> dsp" where
  "Interpreter_mul opc g =
     (let sreg = fld opc 11 0x1;
          axl = dsp_get_ax_l sreg g;
          axh = dsp_get_ax_h sreg g;
          prod = dsp_multiply axh axl 0 g;
          g = zeroWriteBackLog g
      in dsp_set_long_prod prod g)"

definition Interpreter_mulac :: "u16 \<Rightarrow> dsp \<Rightarrow> dsp" where
  "Interpreter_mulac opc g =
     (let rreg = fld opc 8 0x1;
          sreg = fld opc 11 0x1;
          acc = dsp_get_long_acc rreg g + dsp_get_long_prod g;
          axl = dsp_get_ax_l sreg g;
          axh = dsp_get_ax_h sreg g;
          prod = dsp_multiply axl axh 0 g;
          g = zeroWriteBackLog g;
          g = dsp_set_long_prod prod g;
          g = dsp_set_long_acc rreg acc g
      in Update_SR_Register64 (dsp_get_long_acc rreg g) False False g)"

definition Interpreter_mulmv :: "u16 \<Rightarrow> dsp \<Rightarrow> dsp" where
  "Interpreter_mulmv opc g =
     (let rreg = fld opc 8 0x1;
          sreg = fld opc 11 0x1;
          acc = dsp_get_long_prod g;
          axl = dsp_get_ax_l sreg g;
          axh = dsp_get_ax_h sreg g;
          prod = dsp_multiply axl axh 0 g;
          g = zeroWriteBackLog g;
          g = dsp_set_long_prod prod g;
          g = dsp_set_long_acc rreg acc g
      in Update_SR_Register64 (dsp_get_long_acc rreg g) False False g)"

definition Interpreter_mulmvz :: "u16 \<Rightarrow> dsp \<Rightarrow> dsp" where
  "Interpreter_mulmvz opc g =
     (let rreg = fld opc 8 0x1;
          sreg = fld opc 11 0x1;
          acc = dsp_get_long_prod_round_prodl g;
          axl = dsp_get_ax_l sreg g;
          axh = dsp_get_ax_h sreg g;
          prod = dsp_multiply axl axh 0 g;
          g = zeroWriteBackLog g;
          g = dsp_set_long_prod prod g;
          g = dsp_set_long_acc rreg acc g
      in Update_SR_Register64 (dsp_get_long_acc rreg g) False False g)"

definition Interpreter_mulx :: "u16 \<Rightarrow> dsp \<Rightarrow> dsp" where
  "Interpreter_mulx opc g =
     (let treg = fld opc 11 0x1;
          sreg = fld opc 12 0x1;
          val1 = (if sreg = 0 then dsp_get_ax_l 0 g else dsp_get_ax_h 0 g);
          val2 = (if treg = 0 then dsp_get_ax_l 1 g else dsp_get_ax_h 1 g);
          prod = dsp_multiply_mulx sreg treg val1 val2 g;
          g = zeroWriteBackLog g
      in dsp_set_long_prod prod g)"

definition Interpreter_mulxac :: "u16 \<Rightarrow> dsp \<Rightarrow> dsp" where
  "Interpreter_mulxac opc g =
     (let rreg = fld opc 8 0x1;
          treg = fld opc 11 0x1;
          sreg = fld opc 12 0x1;
          acc = dsp_get_long_acc rreg g + dsp_get_long_prod g;
          val1 = (if sreg = 0 then dsp_get_ax_l 0 g else dsp_get_ax_h 0 g);
          val2 = (if treg = 0 then dsp_get_ax_l 1 g else dsp_get_ax_h 1 g);
          prod = dsp_multiply_mulx sreg treg val1 val2 g;
          g = zeroWriteBackLog g;
          g = dsp_set_long_prod prod g;
          g = dsp_set_long_acc rreg acc g
      in Update_SR_Register64 (dsp_get_long_acc rreg g) False False g)"

definition Interpreter_mulxmv :: "u16 \<Rightarrow> dsp \<Rightarrow> dsp" where
  "Interpreter_mulxmv opc g =
     (let rreg = fld opc 8 0x1;
          treg = fld opc 11 0x1;
          sreg = fld opc 12 0x1;
          acc = dsp_get_long_prod g;
          val1 = (if sreg = 0 then dsp_get_ax_l 0 g else dsp_get_ax_h 0 g);
          val2 = (if treg = 0 then dsp_get_ax_l 1 g else dsp_get_ax_h 1 g);
          prod = dsp_multiply_mulx sreg treg val1 val2 g;
          g = zeroWriteBackLog g;
          g = dsp_set_long_prod prod g;
          g = dsp_set_long_acc rreg acc g
      in Update_SR_Register64 (dsp_get_long_acc rreg g) False False g)"

definition Interpreter_mulxmvz :: "u16 \<Rightarrow> dsp \<Rightarrow> dsp" where
  "Interpreter_mulxmvz opc g =
     (let rreg = fld opc 8 0x1;
          treg = fld opc 11 0x1;
          sreg = fld opc 12 0x1;
          acc = dsp_get_long_prod_round_prodl g;
          val1 = (if sreg = 0 then dsp_get_ax_l 0 g else dsp_get_ax_h 0 g);
          val2 = (if treg = 0 then dsp_get_ax_l 1 g else dsp_get_ax_h 1 g);
          prod = dsp_multiply_mulx sreg treg val1 val2 g;
          g = zeroWriteBackLog g;
          g = dsp_set_long_prod prod g;
          g = dsp_set_long_acc rreg acc g
      in Update_SR_Register64 (dsp_get_long_acc rreg g) False False g)"

definition Interpreter_mulc :: "u16 \<Rightarrow> dsp \<Rightarrow> dsp" where
  "Interpreter_mulc opc g =
     (let treg = fld opc 11 0x1;
          sreg = fld opc 12 0x1;
          accm = dsp_get_acc_m sreg g;
          axh = dsp_get_ax_h treg g;
          prod = dsp_multiply accm axh 0 g;
          g = zeroWriteBackLog g
      in dsp_set_long_prod prod g)"

definition Interpreter_mulcac :: "u16 \<Rightarrow> dsp \<Rightarrow> dsp" where
  "Interpreter_mulcac opc g =
     (let rreg = fld opc 8 0x1;
          treg = fld opc 11 0x1;
          sreg = fld opc 12 0x1;
          acc = dsp_get_long_acc rreg g + dsp_get_long_prod g;
          accm = dsp_get_acc_m sreg g;
          axh = dsp_get_ax_h treg g;
          prod = dsp_multiply accm axh 0 g;
          g = zeroWriteBackLog g;
          g = dsp_set_long_prod prod g;
          g = dsp_set_long_acc rreg acc g
      in Update_SR_Register64 (dsp_get_long_acc rreg g) False False g)"

definition Interpreter_mulcmv :: "u16 \<Rightarrow> dsp \<Rightarrow> dsp" where
  "Interpreter_mulcmv opc g =
     (let rreg = fld opc 8 0x1;
          treg = fld opc 11 0x1;
          sreg = fld opc 12 0x1;
          acc = dsp_get_long_prod g;
          accm = dsp_get_acc_m sreg g;
          axh = dsp_get_ax_h treg g;
          prod = dsp_multiply accm axh 0 g;
          g = zeroWriteBackLog g;
          g = dsp_set_long_prod prod g;
          g = dsp_set_long_acc rreg acc g
      in Update_SR_Register64 (dsp_get_long_acc rreg g) False False g)"

definition Interpreter_mulcmvz :: "u16 \<Rightarrow> dsp \<Rightarrow> dsp" where
  "Interpreter_mulcmvz opc g =
     (let rreg = fld opc 8 0x1;
          treg = fld opc 11 0x1;
          sreg = fld opc 12 0x1;
          acc = dsp_get_long_prod_round_prodl g;
          accm = dsp_get_acc_m sreg g;
          axh = dsp_get_ax_h treg g;
          prod = dsp_multiply accm axh 0 g;
          g = zeroWriteBackLog g;
          g = dsp_set_long_prod prod g;
          g = dsp_set_long_acc rreg acc g
      in Update_SR_Register64 (dsp_get_long_acc rreg g) False False g)"

definition Interpreter_maddx :: "u16 \<Rightarrow> dsp \<Rightarrow> dsp" where
  "Interpreter_maddx opc g =
     (let treg = fld opc 8 0x1;
          sreg = fld opc 9 0x1;
          val1 = (if sreg = 0 then dsp_get_ax_l 0 g else dsp_get_ax_h 0 g);
          val2 = (if treg = 0 then dsp_get_ax_l 1 g else dsp_get_ax_h 1 g);
          prod = dsp_multiply_add val1 val2 0 g;
          g = zeroWriteBackLog g
      in dsp_set_long_prod prod g)"

definition Interpreter_msubx :: "u16 \<Rightarrow> dsp \<Rightarrow> dsp" where
  "Interpreter_msubx opc g =
     (let treg = fld opc 8 0x1;
          sreg = fld opc 9 0x1;
          val1 = (if sreg = 0 then dsp_get_ax_l 0 g else dsp_get_ax_h 0 g);
          val2 = (if treg = 0 then dsp_get_ax_l 1 g else dsp_get_ax_h 1 g);
          prod = dsp_multiply_sub val1 val2 0 g;
          g = zeroWriteBackLog g
      in dsp_set_long_prod prod g)"

definition Interpreter_maddc :: "u16 \<Rightarrow> dsp \<Rightarrow> dsp" where
  "Interpreter_maddc opc g =
     (let treg = fld opc 8 0x1;
          sreg = fld opc 9 0x1;
          accm = dsp_get_acc_m sreg g;
          axh = dsp_get_ax_h treg g;
          prod = dsp_multiply_add accm axh 0 g;
          g = zeroWriteBackLog g
      in dsp_set_long_prod prod g)"

definition Interpreter_msubc :: "u16 \<Rightarrow> dsp \<Rightarrow> dsp" where
  "Interpreter_msubc opc g =
     (let treg = fld opc 8 0x1;
          sreg = fld opc 9 0x1;
          accm = dsp_get_acc_m sreg g;
          axh = dsp_get_ax_h treg g;
          prod = dsp_multiply_sub accm axh 0 g;
          g = zeroWriteBackLog g
      in dsp_set_long_prod prod g)"

definition Interpreter_madd :: "u16 \<Rightarrow> dsp \<Rightarrow> dsp" where
  "Interpreter_madd opc g =
     (let sreg = fld opc 8 0x1;
          axl = dsp_get_ax_l sreg g;
          axh = dsp_get_ax_h sreg g;
          prod = dsp_multiply_add axl axh 0 g;
          g = zeroWriteBackLog g
      in dsp_set_long_prod prod g)"

definition Interpreter_msub :: "u16 \<Rightarrow> dsp \<Rightarrow> dsp" where
  "Interpreter_msub opc g =
     (let sreg = fld opc 8 0x1;
          axl = dsp_get_ax_l sreg g;
          axh = dsp_get_ax_h sreg g;
          prod = dsp_multiply_sub axl axh 0 g;
          g = zeroWriteBackLog g
      in dsp_set_long_prod prod g)"

end
