(* ===== verification/DSP_LoadStore.thy ===== *)
theory DSP_LoadStore
  imports DSP_Arithmetic
begin

text \<open>
  The functions of \<open>Core/DSP/Interpreter/DSPIntLoadStore.cpp\<close> and \<open>DSPIntMisc.cpp\<close>: loads, stores
  and moves, address register arithmetic, and the bits of the status register.  A store may
  start a DMA, so it returns a result that can be a fault.
\<close>

section \<open>Loads and stores\<close>

text \<open>
  The value a store takes from register \<open>reg\<close>: the two mid accumulators are read with
  saturation.
\<close>

definition dsp_read_store_operand :: "nat \<Rightarrow> dsp \<Rightarrow> u16 \<times> dsp" where
  "dsp_read_store_operand reg g =
     (if DSP_REG_ACM0 \<le> reg then (dsp_op_read_reg_and_saturate (reg - DSP_REG_ACM0) g, g)
      else dsp_op_read_reg reg g)"

definition Interpreter_srs :: "u16 \<Rightarrow> dsp \<Rightarrow> dsp_res" where
  "Interpreter_srs opc g =
     (let reg = fld opc 8 0x7 + 0x18;
          addr = push_bit 8 (reg_cr (g_r g)) OR (opc AND 0xFF);
          (val, g) = dsp_read_store_operand reg g
      in dsp_dmem_write addr val g)"

definition Interpreter_lrs :: "u16 \<Rightarrow> dsp \<Rightarrow> dsp" where
  "Interpreter_lrs opc g =
     (let reg = fld opc 8 0x7 + 0x18;
          addr = push_bit 8 (reg_cr (g_r g)) OR (opc AND 0xFF);
          (val, g) = dsp_dmem_read addr g;
          g = dsp_op_write_reg reg val g
      in dsp_conditional_extend_accum reg g)"

definition Interpreter_lr :: "u16 \<Rightarrow> dsp \<Rightarrow> dsp" where
  "Interpreter_lr opc g =
     (let reg = fld opc 0 0x1F;
          (addr, g) = dsp_fetch_code g;
          (val, g) = dsp_dmem_read addr g;
          g = dsp_op_write_reg reg val g
      in dsp_conditional_extend_accum reg g)"

definition Interpreter_sr :: "u16 \<Rightarrow> dsp \<Rightarrow> dsp_res" where
  "Interpreter_sr opc g =
     (let reg = fld opc 0 0x1F;
          (addr, g) = dsp_fetch_code g;
          (val, g) = dsp_read_store_operand reg g
      in dsp_dmem_write addr val g)"

definition Interpreter_si :: "u16 \<Rightarrow> dsp \<Rightarrow> dsp_res" where
  "Interpreter_si opc g =
     (let addr = scast (ucast opc :: s8) :: u16;
          (imm, g) = dsp_fetch_code g
      in dsp_dmem_write addr imm g)"

definition Interpreter_lrr :: "u16 \<Rightarrow> dsp \<Rightarrow> dsp" where
  "Interpreter_lrr opc g =
     (let sreg = fld opc 5 0x3;
          dreg = fld opc 0 0x1f;
          (addr, g) = dsp_op_read_reg sreg g;
          (val, g) = dsp_dmem_read addr g;
          g = dsp_op_write_reg dreg val g
      in dsp_conditional_extend_accum dreg g)"

definition Interpreter_lrrd :: "u16 \<Rightarrow> dsp \<Rightarrow> dsp" where
  "Interpreter_lrrd opc g =
     (let sreg = fld opc 5 0x3;
          dreg = fld opc 0 0x1f;
          (addr, g) = dsp_op_read_reg sreg g;
          (val, g) = dsp_dmem_read addr g;
          g = dsp_op_write_reg dreg val g;
          g = dsp_conditional_extend_accum dreg g
      in set_ar sreg (dsp_decrement_addr_reg sreg g) g)"

definition Interpreter_lrri :: "u16 \<Rightarrow> dsp \<Rightarrow> dsp" where
  "Interpreter_lrri opc g =
     (let sreg = fld opc 5 0x3;
          dreg = fld opc 0 0x1f;
          (addr, g) = dsp_op_read_reg sreg g;
          (val, g) = dsp_dmem_read addr g;
          g = dsp_op_write_reg dreg val g;
          g = dsp_conditional_extend_accum dreg g
      in set_ar sreg (dsp_increment_addr_reg sreg g) g)"

definition Interpreter_lrrn :: "u16 \<Rightarrow> dsp \<Rightarrow> dsp" where
  "Interpreter_lrrn opc g =
     (let sreg = fld opc 5 0x3;
          dreg = fld opc 0 0x1f;
          (addr, g) = dsp_op_read_reg sreg g;
          (val, g) = dsp_dmem_read addr g;
          g = dsp_op_write_reg dreg val g;
          g = dsp_conditional_extend_accum dreg g
      in set_ar sreg (dsp_increase_addr_reg sreg (dsp_ix g sreg) g) g)"

definition Interpreter_srr :: "u16 \<Rightarrow> dsp \<Rightarrow> dsp_res" where
  "Interpreter_srr opc g =
     (let dreg = fld opc 5 0x3;
          sreg = fld opc 0 0x1f;
          addr = dsp_ar g dreg;
          (val, g) = dsp_read_store_operand sreg g
      in dsp_dmem_write addr val g)"

definition Interpreter_srrd :: "u16 \<Rightarrow> dsp \<Rightarrow> dsp_res" where
  "Interpreter_srrd opc g =
     (let dreg = fld opc 5 0x3;
          sreg = fld opc 0 0x1f;
          addr = dsp_ar g dreg;
          (val, g) = dsp_read_store_operand sreg g
      in bind_res (dsp_dmem_write addr val g)
           (\<lambda>g. Inr (set_ar dreg (dsp_decrement_addr_reg dreg g) g)))"

definition Interpreter_srri :: "u16 \<Rightarrow> dsp \<Rightarrow> dsp_res" where
  "Interpreter_srri opc g =
     (let dreg = fld opc 5 0x3;
          sreg = fld opc 0 0x1f;
          addr = dsp_ar g dreg;
          (val, g) = dsp_read_store_operand sreg g
      in bind_res (dsp_dmem_write addr val g)
           (\<lambda>g. Inr (set_ar dreg (dsp_increment_addr_reg dreg g) g)))"

definition Interpreter_srrn :: "u16 \<Rightarrow> dsp \<Rightarrow> dsp_res" where
  "Interpreter_srrn opc g =
     (let dreg = fld opc 5 0x3;
          sreg = fld opc 0 0x1f;
          addr = dsp_ar g dreg;
          (val, g) = dsp_read_store_operand sreg g
      in bind_res (dsp_dmem_write addr val g)
           (\<lambda>g. Inr (set_ar dreg (dsp_increase_addr_reg dreg (dsp_ix g dreg) g) g)))"

definition Interpreter_ilrr :: "u16 \<Rightarrow> dsp \<Rightarrow> dsp" where
  "Interpreter_ilrr opc g =
     (let reg = fld opc 0 0x3;
          dreg = DSP_REG_ACM0 + fld opc 8 1;
          g = set_ac_lane 1 (dreg - DSP_REG_ACM0) (dsp_imem_read (dsp_ar g reg) g) g
      in dsp_conditional_extend_accum dreg g)"

definition Interpreter_ilrrd :: "u16 \<Rightarrow> dsp \<Rightarrow> dsp" where
  "Interpreter_ilrrd opc g =
     (let reg = fld opc 0 0x3;
          dreg = DSP_REG_ACM0 + fld opc 8 1;
          g = set_ac_lane 1 (dreg - DSP_REG_ACM0) (dsp_imem_read (dsp_ar g reg) g) g;
          g = dsp_conditional_extend_accum dreg g
      in set_ar reg (dsp_decrement_addr_reg reg g) g)"

definition Interpreter_ilrri :: "u16 \<Rightarrow> dsp \<Rightarrow> dsp" where
  "Interpreter_ilrri opc g =
     (let reg = fld opc 0 0x3;
          dreg = DSP_REG_ACM0 + fld opc 8 1;
          g = set_ac_lane 1 (dreg - DSP_REG_ACM0) (dsp_imem_read (dsp_ar g reg) g) g;
          g = dsp_conditional_extend_accum dreg g
      in set_ar reg (dsp_increment_addr_reg reg g) g)"

definition Interpreter_ilrrn :: "u16 \<Rightarrow> dsp \<Rightarrow> dsp" where
  "Interpreter_ilrrn opc g =
     (let reg = fld opc 0 0x3;
          dreg = DSP_REG_ACM0 + fld opc 8 1;
          g = set_ac_lane 1 (dreg - DSP_REG_ACM0) (dsp_imem_read (dsp_ar g reg) g) g;
          g = dsp_conditional_extend_accum dreg g
      in set_ar reg (dsp_increase_addr_reg reg (dsp_ix g reg) g) g)"

section \<open>Moves and status bits\<close>

definition Interpreter_mrr :: "u16 \<Rightarrow> dsp \<Rightarrow> dsp" where
  "Interpreter_mrr opc g =
     (let sreg = fld opc 0 0x1f;
          dreg = fld opc 5 0x1f;
          (val, g) = dsp_read_store_operand sreg g;
          g = dsp_op_write_reg dreg val g
      in dsp_conditional_extend_accum dreg g)"

definition Interpreter_lri :: "u16 \<Rightarrow> dsp \<Rightarrow> dsp" where
  "Interpreter_lri opc g =
     (let reg = fld opc 0 0x1F;
          (imm, g) = dsp_fetch_code g;
          g = dsp_op_write_reg reg imm g
      in dsp_conditional_extend_accum reg g)"

definition Interpreter_lris :: "u16 \<Rightarrow> dsp \<Rightarrow> dsp" where
  "Interpreter_lris opc g =
     (let reg = fld opc 8 0x7 + DSP_REG_AXL0;
          imm = scast (ucast opc :: s8) :: u16;
          g = dsp_op_write_reg reg imm g
      in dsp_conditional_extend_accum reg g)"

definition Interpreter_nx :: "u16 \<Rightarrow> dsp \<Rightarrow> dsp" where
  "Interpreter_nx opc g = zeroWriteBackLog g"

definition Interpreter_dar :: "u16 \<Rightarrow> dsp \<Rightarrow> dsp" where
  "Interpreter_dar opc g =
     (let reg = fld opc 0 0x3
      in set_ar reg (dsp_decrement_addr_reg reg g) g)"

definition Interpreter_iar :: "u16 \<Rightarrow> dsp \<Rightarrow> dsp" where
  "Interpreter_iar opc g =
     (let reg = fld opc 0 0x3
      in set_ar reg (dsp_increment_addr_reg reg g) g)"

definition Interpreter_subarn :: "u16 \<Rightarrow> dsp \<Rightarrow> dsp" where
  "Interpreter_subarn opc g =
     (let dreg = fld opc 0 0x3
      in set_ar dreg (dsp_decrease_addr_reg dreg (dsp_ix g dreg) g) g)"

definition Interpreter_addarn :: "u16 \<Rightarrow> dsp \<Rightarrow> dsp" where
  "Interpreter_addarn opc g =
     (let dreg = fld opc 0 0x3;
          sreg = fld opc 2 0x3
      in set_ar dreg (dsp_increase_addr_reg dreg (dsp_ix g sreg) g) g)"

definition Interpreter_sbclr :: "u16 \<Rightarrow> dsp \<Rightarrow> dsp" where
  "Interpreter_sbclr opc g =
     (let b = fld opc 0 0x7 + 6
      in set_sr (dsp_sr g AND NOT (push_bit b 1)) g)"

definition Interpreter_sbset :: "u16 \<Rightarrow> dsp \<Rightarrow> dsp" where
  "Interpreter_sbset opc g =
     (let b = fld opc 0 0x7 + 6
      in set_sr (dsp_sr g OR push_bit b 1) g)"

definition Interpreter_srbith :: "u16 \<Rightarrow> dsp \<Rightarrow> dsp" where
  "Interpreter_srbith opc g =
     (let g = zeroWriteBackLog g;
          c = fld opc 8 0xf
      in if c = 0xa then set_sr (dsp_sr g AND NOT SR_MUL_MODIFY) g
         else if c = 0xb then set_sr (dsp_sr g OR SR_MUL_MODIFY) g
         else if c = 0xc then set_sr (dsp_sr g AND NOT SR_MUL_UNSIGNED) g
         else if c = 0xd then set_sr (dsp_sr g OR SR_MUL_UNSIGNED) g
         else if c = 0xe then set_sr (dsp_sr g AND NOT SR_40_MODE_BIT) g
         else if c = 0xf then set_sr (dsp_sr g OR SR_40_MODE_BIT) g
         else g)"

text \<open>The function of the template \<open>cw\<close> and of the opcode 0; other opcodes are logged.\<close>

definition Interpreter_nop :: "u16 \<Rightarrow> dsp \<Rightarrow> dsp" where
  "Interpreter_nop opc g = g"

end
