(* ===== verification/DSP_ExtOps.thy ===== *)
theory DSP_ExtOps
  imports DSP_LoadStore
begin

text \<open>
  The extended opcodes of \<open>Core/DSP/Interpreter/DSPIntExtOps.cpp\<close>.  An extension runs before the
  main operation of its instruction and leaves its results in the write-back log, a list of five
  registers ended by \<open>-1\<close>; \<open>applyWriteBackLog\<close> moves them to the registers after the main
  operation.  A log without an end would be read past its fifth entry.
\<close>

section \<open>The code\<close>

definition writeToBackLog :: "nat \<Rightarrow> nat \<Rightarrow> u16 \<Rightarrow> dsp \<Rightarrow> dsp" where
  "writeToBackLog i idx value g =
     (let g = g\<lparr>writeBackLog := (writeBackLog g)[i := value]\<rparr>
      in g\<lparr>writeBackLogIdx := (writeBackLogIdx g)[i := int idx]\<rparr>)"

definition IsSameMemArea :: "u16 \<Rightarrow> u16 \<Rightarrow> bool" where
  "IsSameMemArea a b \<longleftrightarrow> drop_bit 10 a = drop_bit 10 b"

definition Ext_dr :: "u16 \<Rightarrow> dsp \<Rightarrow> dsp" where
  "Ext_dr opc g =
     (let reg = fld opc 0 0x3
      in writeToBackLog 0 reg (dsp_decrement_addr_reg reg g) g)"

definition Ext_ir :: "u16 \<Rightarrow> dsp \<Rightarrow> dsp" where
  "Ext_ir opc g =
     (let reg = fld opc 0 0x3
      in writeToBackLog 0 reg (dsp_increment_addr_reg reg g) g)"

definition Ext_nr :: "u16 \<Rightarrow> dsp \<Rightarrow> dsp" where
  "Ext_nr opc g =
     (let reg = fld opc 0 0x3
      in writeToBackLog 0 reg (dsp_increase_addr_reg reg (dsp_ix g reg) g) g)"

text \<open>The \<open>switch\<close> of \<open>mv\<close>, \<open>s\<close> and \<open>sn\<close> on \<open>sreg - DSP_REG_ACL0\<close>.\<close>

definition ext_acc_operand :: "nat \<Rightarrow> dsp \<Rightarrow> u16" where
  "ext_acc_operand sreg g =
     (if sreg < 2 then ac_l g sreg else dsp_op_read_reg_and_saturate (sreg - 2) g)"

definition Ext_mv :: "u16 \<Rightarrow> dsp \<Rightarrow> dsp" where
  "Ext_mv opc g =
     (let sreg = fld opc 0 0x3;
          dreg = fld opc 2 0x3
      in writeToBackLog 0 (dreg + DSP_REG_AXL0) (ext_acc_operand sreg g) g)"

definition Ext_s :: "u16 \<Rightarrow> dsp \<Rightarrow> dsp_res" where
  "Ext_s opc g =
     (let dreg = fld opc 0 0x3;
          sreg = fld opc 3 0x3
      in bind_res (dsp_dmem_write (dsp_ar g dreg) (ext_acc_operand sreg g) g)
           (\<lambda>g. Inr (writeToBackLog 0 dreg (dsp_increment_addr_reg dreg g) g)))"

definition Ext_sn :: "u16 \<Rightarrow> dsp \<Rightarrow> dsp_res" where
  "Ext_sn opc g =
     (let dreg = fld opc 0 0x3;
          sreg = fld opc 3 0x3
      in bind_res (dsp_dmem_write (dsp_ar g dreg) (ext_acc_operand sreg g) g)
           (\<lambda>g. Inr (writeToBackLog 0 dreg (dsp_increase_addr_reg dreg (dsp_ix g dreg) g) g)))"

definition Ext_l :: "u16 \<Rightarrow> dsp \<Rightarrow> dsp" where
  "Ext_l opc g =
     (let sreg = fld opc 0 0x3;
          dreg = fld opc 3 0x7 + DSP_REG_AXL0
      in if DSP_REG_ACM0 \<le> dreg \<and> dsp_sr g AND SR_40_MODE_BIT \<noteq> 0 then
           (let (val, g) = dsp_dmem_read (dsp_ar g sreg) g;
                g = writeToBackLog 0 (dreg - DSP_REG_ACM0 + DSP_REG_ACH0)
                      (if val AND 0x8000 \<noteq> 0 then 0xFFFF else 0x0000) g;
                g = writeToBackLog 1 dreg val g;
                g = writeToBackLog 2 (dreg - DSP_REG_ACM0 + DSP_REG_ACL0) 0 g
            in writeToBackLog 3 sreg (dsp_increment_addr_reg sreg g) g)
         else
           (let (val, g) = dsp_dmem_read (dsp_ar g sreg) g;
                g = writeToBackLog 0 dreg val g
            in writeToBackLog 1 sreg (dsp_increment_addr_reg sreg g) g))"

definition Ext_ln :: "u16 \<Rightarrow> dsp \<Rightarrow> dsp" where
  "Ext_ln opc g =
     (let sreg = fld opc 0 0x3;
          dreg = fld opc 3 0x7 + DSP_REG_AXL0
      in if DSP_REG_ACM0 \<le> dreg \<and> dsp_sr g AND SR_40_MODE_BIT \<noteq> 0 then
           (let (val, g) = dsp_dmem_read (dsp_ar g sreg) g;
                g = writeToBackLog 0 (dreg - DSP_REG_ACM0 + DSP_REG_ACH0)
                      (if val AND 0x8000 \<noteq> 0 then 0xFFFF else 0x0000) g;
                g = writeToBackLog 1 dreg val g;
                g = writeToBackLog 2 (dreg - DSP_REG_ACM0 + DSP_REG_ACL0) 0 g
            in writeToBackLog 3 sreg (dsp_increase_addr_reg sreg (dsp_ix g sreg) g) g)
         else
           (let (val, g) = dsp_dmem_read (dsp_ar g sreg) g;
                g = writeToBackLog 0 dreg val g
            in writeToBackLog 1 sreg (dsp_increase_addr_reg sreg (dsp_ix g sreg) g) g))"

definition Ext_ls :: "u16 \<Rightarrow> dsp \<Rightarrow> dsp_res" where
  "Ext_ls opc g =
     (let sreg = fld opc 0 0x1;
          dreg = fld opc 4 0x3 + DSP_REG_AXL0
      in bind_res (dsp_dmem_write (dsp_ar g 3) (dsp_op_read_reg_and_saturate sreg g) g)
           (\<lambda>g. let (val, g) = dsp_dmem_read (dsp_ar g 0) g;
                    g = writeToBackLog 0 dreg val g;
                    g = writeToBackLog 1 DSP_REG_AR3 (dsp_increment_addr_reg DSP_REG_AR3 g) g
                in Inr (writeToBackLog 2 DSP_REG_AR0 (dsp_increment_addr_reg DSP_REG_AR0 g) g)))"

definition Ext_lsn :: "u16 \<Rightarrow> dsp \<Rightarrow> dsp_res" where
  "Ext_lsn opc g =
     (let sreg = fld opc 0 0x1;
          dreg = fld opc 4 0x3 + DSP_REG_AXL0
      in bind_res (dsp_dmem_write (dsp_ar g 3) (dsp_op_read_reg_and_saturate sreg g) g)
           (\<lambda>g. let (val, g) = dsp_dmem_read (dsp_ar g 0) g;
                    g = writeToBackLog 0 dreg val g;
                    g = writeToBackLog 1 DSP_REG_AR3 (dsp_increment_addr_reg DSP_REG_AR3 g) g
                in Inr (writeToBackLog 2 DSP_REG_AR0 (dsp_increase_addr_reg DSP_REG_AR0 (dsp_ix g 0) g) g)))"

definition Ext_lsm :: "u16 \<Rightarrow> dsp \<Rightarrow> dsp_res" where
  "Ext_lsm opc g =
     (let sreg = fld opc 0 0x1;
          dreg = fld opc 4 0x3 + DSP_REG_AXL0
      in bind_res (dsp_dmem_write (dsp_ar g 3) (dsp_op_read_reg_and_saturate sreg g) g)
           (\<lambda>g. let (val, g) = dsp_dmem_read (dsp_ar g 0) g;
                    g = writeToBackLog 0 dreg val g;
                    g = writeToBackLog 1 DSP_REG_AR3 (dsp_increase_addr_reg DSP_REG_AR3 (dsp_ix g 3) g) g
                in Inr (writeToBackLog 2 DSP_REG_AR0 (dsp_increment_addr_reg DSP_REG_AR0 g) g)))"

definition Ext_lsnm :: "u16 \<Rightarrow> dsp \<Rightarrow> dsp_res" where
  "Ext_lsnm opc g =
     (let sreg = fld opc 0 0x1;
          dreg = fld opc 4 0x3 + DSP_REG_AXL0
      in bind_res (dsp_dmem_write (dsp_ar g 3) (dsp_op_read_reg_and_saturate sreg g) g)
           (\<lambda>g. let (val, g) = dsp_dmem_read (dsp_ar g 0) g;
                    g = writeToBackLog 0 dreg val g;
                    g = writeToBackLog 1 DSP_REG_AR3 (dsp_increase_addr_reg DSP_REG_AR3 (dsp_ix g 3) g) g
                in Inr (writeToBackLog 2 DSP_REG_AR0 (dsp_increase_addr_reg DSP_REG_AR0 (dsp_ix g 0) g) g)))"

definition Ext_sl :: "u16 \<Rightarrow> dsp \<Rightarrow> dsp_res" where
  "Ext_sl opc g =
     (let sreg = fld opc 0 0x1;
          dreg = fld opc 4 0x3 + DSP_REG_AXL0
      in bind_res (dsp_dmem_write (dsp_ar g 0) (dsp_op_read_reg_and_saturate sreg g) g)
           (\<lambda>g. let (val, g) = dsp_dmem_read (dsp_ar g 3) g;
                    g = writeToBackLog 0 dreg val g;
                    g = writeToBackLog 1 DSP_REG_AR3 (dsp_increment_addr_reg DSP_REG_AR3 g) g
                in Inr (writeToBackLog 2 DSP_REG_AR0 (dsp_increment_addr_reg DSP_REG_AR0 g) g)))"

definition Ext_sln :: "u16 \<Rightarrow> dsp \<Rightarrow> dsp_res" where
  "Ext_sln opc g =
     (let sreg = fld opc 0 0x1;
          dreg = fld opc 4 0x3 + DSP_REG_AXL0
      in bind_res (dsp_dmem_write (dsp_ar g 0) (dsp_op_read_reg_and_saturate sreg g) g)
           (\<lambda>g. let (val, g) = dsp_dmem_read (dsp_ar g 3) g;
                    g = writeToBackLog 0 dreg val g;
                    g = writeToBackLog 1 DSP_REG_AR3 (dsp_increment_addr_reg DSP_REG_AR3 g) g
                in Inr (writeToBackLog 2 DSP_REG_AR0 (dsp_increase_addr_reg DSP_REG_AR0 (dsp_ix g 0) g) g)))"

definition Ext_slm :: "u16 \<Rightarrow> dsp \<Rightarrow> dsp_res" where
  "Ext_slm opc g =
     (let sreg = fld opc 0 0x1;
          dreg = fld opc 4 0x3 + DSP_REG_AXL0
      in bind_res (dsp_dmem_write (dsp_ar g 0) (dsp_op_read_reg_and_saturate sreg g) g)
           (\<lambda>g. let (val, g) = dsp_dmem_read (dsp_ar g 3) g;
                    g = writeToBackLog 0 dreg val g;
                    g = writeToBackLog 1 DSP_REG_AR3 (dsp_increase_addr_reg DSP_REG_AR3 (dsp_ix g 3) g) g
                in Inr (writeToBackLog 2 DSP_REG_AR0 (dsp_increment_addr_reg DSP_REG_AR0 g) g)))"

definition Ext_slnm :: "u16 \<Rightarrow> dsp \<Rightarrow> dsp_res" where
  "Ext_slnm opc g =
     (let sreg = fld opc 0 0x1;
          dreg = fld opc 4 0x3 + DSP_REG_AXL0
      in bind_res (dsp_dmem_write (dsp_ar g 0) (dsp_op_read_reg_and_saturate sreg g) g)
           (\<lambda>g. let (val, g) = dsp_dmem_read (dsp_ar g 3) g;
                    g = writeToBackLog 0 dreg val g;
                    g = writeToBackLog 1 DSP_REG_AR3 (dsp_increase_addr_reg DSP_REG_AR3 (dsp_ix g 3) g) g
                in Inr (writeToBackLog 2 DSP_REG_AR0 (dsp_increase_addr_reg DSP_REG_AR0 (dsp_ix g 0) g) g)))"

definition Ext_ld :: "u16 \<Rightarrow> dsp \<Rightarrow> dsp" where
  "Ext_ld opc g =
     (let dreg = fld opc 5 0x1;
          rreg = fld opc 4 0x1;
          sreg = fld opc 0 0x3;
          (val, g) = dsp_dmem_read (dsp_ar g sreg) g;
          g = writeToBackLog 0 (2 * dreg + DSP_REG_AXL0) val g;
          (val, g) = (if IsSameMemArea (dsp_ar g sreg) (dsp_ar g 3) then dsp_dmem_read (dsp_ar g sreg) g
                      else dsp_dmem_read (dsp_ar g 3) g);
          g = writeToBackLog 1 (2 * rreg + DSP_REG_AXL1) val g;
          g = writeToBackLog 2 sreg (dsp_increment_addr_reg sreg g) g
      in writeToBackLog 3 DSP_REG_AR3 (dsp_increment_addr_reg DSP_REG_AR3 g) g)"

definition Ext_ldax :: "u16 \<Rightarrow> dsp \<Rightarrow> dsp" where
  "Ext_ldax opc g =
     (let sreg = fld opc 5 0x1;
          rreg = fld opc 4 0x1;
          (val, g) = dsp_dmem_read (dsp_ar g sreg) g;
          g = writeToBackLog 0 (rreg + DSP_REG_AXH0) val g;
          (val, g) = (if IsSameMemArea (dsp_ar g sreg) (dsp_ar g 3) then dsp_dmem_read (dsp_ar g sreg) g
                      else dsp_dmem_read (dsp_ar g 3) g);
          g = writeToBackLog 1 (rreg + DSP_REG_AXL0) val g;
          g = writeToBackLog 2 sreg (dsp_increment_addr_reg sreg g) g
      in writeToBackLog 3 DSP_REG_AR3 (dsp_increment_addr_reg DSP_REG_AR3 g) g)"

definition Ext_ldn :: "u16 \<Rightarrow> dsp \<Rightarrow> dsp" where
  "Ext_ldn opc g =
     (let dreg = fld opc 5 0x1;
          rreg = fld opc 4 0x1;
          sreg = fld opc 0 0x3;
          (val, g) = dsp_dmem_read (dsp_ar g sreg) g;
          g = writeToBackLog 0 (2 * dreg + DSP_REG_AXL0) val g;
          (val, g) = (if IsSameMemArea (dsp_ar g sreg) (dsp_ar g 3) then dsp_dmem_read (dsp_ar g sreg) g
                      else dsp_dmem_read (dsp_ar g 3) g);
          g = writeToBackLog 1 (2 * rreg + DSP_REG_AXL1) val g;
          g = writeToBackLog 2 sreg (dsp_increase_addr_reg sreg (dsp_ix g sreg) g) g
      in writeToBackLog 3 DSP_REG_AR3 (dsp_increment_addr_reg DSP_REG_AR3 g) g)"

definition Ext_ldaxn :: "u16 \<Rightarrow> dsp \<Rightarrow> dsp" where
  "Ext_ldaxn opc g =
     (let sreg = fld opc 5 0x1;
          rreg = fld opc 4 0x1;
          (val, g) = dsp_dmem_read (dsp_ar g sreg) g;
          g = writeToBackLog 0 (rreg + DSP_REG_AXH0) val g;
          (val, g) = (if IsSameMemArea (dsp_ar g sreg) (dsp_ar g 3) then dsp_dmem_read (dsp_ar g sreg) g
                      else dsp_dmem_read (dsp_ar g 3) g);
          g = writeToBackLog 1 (rreg + DSP_REG_AXL0) val g;
          g = writeToBackLog 2 sreg (dsp_increase_addr_reg sreg (dsp_ix g sreg) g) g
      in writeToBackLog 3 DSP_REG_AR3 (dsp_increment_addr_reg DSP_REG_AR3 g) g)"

definition Ext_ldm :: "u16 \<Rightarrow> dsp \<Rightarrow> dsp" where
  "Ext_ldm opc g =
     (let dreg = fld opc 5 0x1;
          rreg = fld opc 4 0x1;
          sreg = fld opc 0 0x3;
          (val, g) = dsp_dmem_read (dsp_ar g sreg) g;
          g = writeToBackLog 0 (2 * dreg + DSP_REG_AXL0) val g;
          (val, g) = (if IsSameMemArea (dsp_ar g sreg) (dsp_ar g 3) then dsp_dmem_read (dsp_ar g sreg) g
                      else dsp_dmem_read (dsp_ar g 3) g);
          g = writeToBackLog 1 (2 * rreg + DSP_REG_AXL1) val g;
          g = writeToBackLog 2 sreg (dsp_increment_addr_reg sreg g) g
      in writeToBackLog 3 DSP_REG_AR3 (dsp_increase_addr_reg DSP_REG_AR3 (dsp_ix g 3) g) g)"

definition Ext_ldaxm :: "u16 \<Rightarrow> dsp \<Rightarrow> dsp" where
  "Ext_ldaxm opc g =
     (let sreg = fld opc 5 0x1;
          rreg = fld opc 4 0x1;
          (val, g) = dsp_dmem_read (dsp_ar g sreg) g;
          g = writeToBackLog 0 (rreg + DSP_REG_AXH0) val g;
          (val, g) = (if IsSameMemArea (dsp_ar g sreg) (dsp_ar g 3) then dsp_dmem_read (dsp_ar g sreg) g
                      else dsp_dmem_read (dsp_ar g 3) g);
          g = writeToBackLog 1 (rreg + DSP_REG_AXL0) val g;
          g = writeToBackLog 2 sreg (dsp_increment_addr_reg sreg g) g
      in writeToBackLog 3 DSP_REG_AR3 (dsp_increase_addr_reg DSP_REG_AR3 (dsp_ix g 3) g) g)"

definition Ext_ldnm :: "u16 \<Rightarrow> dsp \<Rightarrow> dsp" where
  "Ext_ldnm opc g =
     (let dreg = fld opc 5 0x1;
          rreg = fld opc 4 0x1;
          sreg = fld opc 0 0x3;
          (val, g) = dsp_dmem_read (dsp_ar g sreg) g;
          g = writeToBackLog 0 (2 * dreg + DSP_REG_AXL0) val g;
          (val, g) = (if IsSameMemArea (dsp_ar g sreg) (dsp_ar g 3) then dsp_dmem_read (dsp_ar g sreg) g
                      else dsp_dmem_read (dsp_ar g 3) g);
          g = writeToBackLog 1 (2 * rreg + DSP_REG_AXL1) val g;
          g = writeToBackLog 2 sreg (dsp_increase_addr_reg sreg (dsp_ix g sreg) g) g
      in writeToBackLog 3 DSP_REG_AR3 (dsp_increase_addr_reg DSP_REG_AR3 (dsp_ix g 3) g) g)"

definition Ext_ldaxnm :: "u16 \<Rightarrow> dsp \<Rightarrow> dsp" where
  "Ext_ldaxnm opc g =
     (let sreg = fld opc 5 0x1;
          rreg = fld opc 4 0x1;
          (val, g) = dsp_dmem_read (dsp_ar g sreg) g;
          g = writeToBackLog 0 (rreg + DSP_REG_AXH0) val g;
          (val, g) = (if IsSameMemArea (dsp_ar g sreg) (dsp_ar g 3) then dsp_dmem_read (dsp_ar g sreg) g
                      else dsp_dmem_read (dsp_ar g 3) g);
          g = writeToBackLog 1 (rreg + DSP_REG_AXL0) val g;
          g = writeToBackLog 2 sreg (dsp_increase_addr_reg sreg (dsp_ix g sreg) g) g
      in writeToBackLog 3 DSP_REG_AR3 (dsp_increase_addr_reg DSP_REG_AR3 (dsp_ix g 3) g) g)"

definition Ext_nop :: "u16 \<Rightarrow> dsp \<Rightarrow> dsp" where "Ext_nop opc g = g"

text \<open>The loop of \<open>applyWriteBackLog\<close> from entry \<open>i\<close> of the five on.\<close>

fun apply_back_log_from :: "nat \<Rightarrow> nat \<Rightarrow> dsp \<Rightarrow> dsp_res" where
  "apply_back_log_from 0 i g = Inl BackLogOverrun"
| "apply_back_log_from (Suc n) i g =
     (if writeBackLogIdx g ! i \<noteq> - 1 then
        (let value = writeBackLog g ! i;
             g = dsp_op_write_reg (nat (writeBackLogIdx g ! i)) value g;
             g = g\<lparr>writeBackLogIdx := (writeBackLogIdx g)[i := - 1]\<rparr>
         in apply_back_log_from n (i + 1) g)
      else Inr g)"

definition WRITEBACK_LOG_SIZE :: nat where "WRITEBACK_LOG_SIZE = 5"

definition applyWriteBackLog :: "dsp \<Rightarrow> dsp_res" where
  "applyWriteBackLog g = apply_back_log_from WRITEBACK_LOG_SIZE 0 g"

end
