(* ===== verification/Common_Hash.thy ===== *)
theory Common_Hash
  imports DSP_Prelude
begin

text \<open>
  \<open>HashAdler32\<close> of \<open>Common/Hash.cpp\<close>, which \<open>VerifyRoms\<close> of \<open>DSPCore.cpp\<close> applies to the DSP
  ROMs, and its equality with the textbook Adler-32 checksum.  The code reduces its 32-bit sums
  only after blocks of 5550 bytes, by \<open>65536 = 15\<close> modulo \<open>65521\<close>; the lemmas bound the sums
  inside a block, so that no addition wraps, and the two sums after the loop, so that one
  conditional subtraction reduces each.
\<close>

section \<open>The code\<close>

definition MOD_ADLER :: u32 where "MOD_ADLER = 65521"

text \<open>The \<open>do\<close> loop over one block.\<close>

fun adler_block :: "u8 list \<Rightarrow> u32 \<Rightarrow> u32 \<Rightarrow> u32 \<times> u32" where
  "adler_block [] a b = (a, b)"
| "adler_block (p # ps) a b = (let a = a + ucast p; b = b + a in adler_block ps a b)"

definition adler_reduce :: "u32 \<Rightarrow> u32" where
  "adler_reduce x = (x AND 0xffff) + drop_bit 16 x * (65536 - MOD_ADLER)"

text \<open>The \<open>while\<close> loop.\<close>

function adler_blocks :: "u8 list \<Rightarrow> u32 \<Rightarrow> u32 \<Rightarrow> u32 \<times> u32" where
  "adler_blocks data a b =
     (if data = [] then (a, b)
      else (let (a, b) = adler_block (take 5550 data) a b
            in adler_blocks (drop 5550 data) (adler_reduce a) (adler_reduce b)))"
  by auto
termination
  by (relation "measure (\<lambda>(data, _, _). length data)") auto

declare adler_blocks.simps [simp del]

definition HashAdler32 :: "u8 list \<Rightarrow> u32" where
  "HashAdler32 data =
     (let (a, b) = adler_blocks data 1 0;
          a = (if a \<ge> MOD_ADLER then a - MOD_ADLER else a);
          b = adler_reduce b;
          b = (if b \<ge> MOD_ADLER then b - MOD_ADLER else b)
      in push_bit 16 b OR a)"

section \<open>The textbook checksum\<close>

fun adler_sums :: "u8 list \<Rightarrow> nat \<Rightarrow> nat \<Rightarrow> nat \<times> nat" where
  "adler_sums [] a b = (a mod 65521, b mod 65521)"
| "adler_sums (p # ps) a b = (let a = (a + unat p) mod 65521 in adler_sums ps a ((b + a) mod 65521))"

definition adler32 :: "u8 list \<Rightarrow> nat" where
  "adler32 data = (let (a, b) = adler_sums data 1 0 in b * 65536 + a)"

section \<open>Equality\<close>

lemma adler_sums_mod:
  "a mod 65521 = a' mod 65521 \<Longrightarrow> b mod 65521 = b' mod 65521 \<Longrightarrow>
     adler_sums ps a b = adler_sums ps a' b'"
proof (induction ps arbitrary: a b a' b')
  case (Cons p ps)
  have "(a + unat p) mod 65521 = (a' + unat p) mod 65521"
    using Cons.prems(1) by (metis mod_add_left_eq)
  moreover have "(b + x) mod 65521 = (b' + x) mod 65521" for x
    using Cons.prems(2) by (metis mod_add_left_eq)
  ultimately show ?case
    by (simp add: Let_def)
qed simp

lemma adler_sums_append:
  "adler_sums (xs @ ys) a b = (let (a, b) = adler_sums xs a b in adler_sums ys a b)"
proof (induction xs arbitrary: a b)
  case Nil
  show ?case
    by (simp add: adler_sums_mod [of a "a mod 65521" b "b mod 65521"])
qed (simp add: Let_def)

lemma unat_byte: "unat (ucast (p :: u8) :: u32) = unat p" "unat (p :: u8) \<le> 255"
proof -
  have "unat p < 2 ^ LENGTH(8)"
    by (rule unsigned_less)
  then show le: "unat (p :: u8) \<le> 255"
    by simp
  show "unat (ucast p :: u32) = unat p"
    using le by (simp add: unsigned_ucast_eq take_bit_nat_eq_self)
qed

lemma adler_block_sums:
  assumes "unat a + 255 * length ps < 2 ^ 32"
    and "2 * unat b + 2 * length ps * unat a + 255 * length ps * (length ps + 1) < 2 ^ 33"
  shows "unat (fst (adler_block ps a b)) \<le> unat a + 255 * length ps
     \<and> (unat (fst (adler_block ps a b)) mod 65521, unat (snd (adler_block ps a b)) mod 65521) =
         adler_sums ps (unat a) (unat b)"
  using assms
proof (induction ps arbitrary: a b)
  case (Cons p ps)
  let ?a = "a + ucast p" and ?n = "length ps"
  have ua: "unat ?a = unat a + unat p"
    using Cons.prems(1) unat_byte [of p] by (simp add: unat_word_ariths)
  have pn: "?n * unat p \<le> ?n * 255"
    using unat_byte(2) [of p] by (rule mult_le_mono2)
  have exp: "2 * unat b + 2 * Suc ?n * unat a + 255 * Suc ?n * (Suc ?n + 1) =
      2 * unat b + 2 * unat a + 2 * (?n * unat a) + 255 * (?n * ?n) + 765 * ?n + 510"
    by (simp add: algebra_simps)
  have big: "2 * unat b + 2 * unat a + 2 * (?n * unat a) + 255 * (?n * ?n) + 765 * ?n + 510 < 2 ^ 33"
    using Cons.prems(2) exp by simp
  have ub: "unat (b + ?a) = unat b + unat ?a"
    using big unat_byte(2) [of p] by (subst unat_word_ariths(1)) (simp add: ua)
  have "2 * unat (b + ?a) + 2 * ?n * unat ?a + 255 * ?n * (?n + 1) =
      2 * unat b + 2 * unat a + 2 * unat p + 2 * (?n * unat a) + 2 * (?n * unat p) + 255 * (?n * ?n) + 255 * ?n"
    unfolding ub ua by (simp add: algebra_simps)
  also have "\<dots> < 2 ^ 33"
    using big pn unat_byte(2) [of p] by linarith
  finally have b2: "2 * unat (b + ?a) + 2 * ?n * unat ?a + 255 * ?n * (?n + 1) < 2 ^ 33" .
  have a2: "unat ?a + 255 * ?n < 2 ^ 32"
    using Cons.prems(1) unat_byte(2) [of p] by (simp add: ua)
  have sums: "adler_sums ps ((unat a + unat p) mod 65521)
        ((unat b + (unat a + unat p) mod 65521) mod 65521) =
      adler_sums ps (unat ?a) (unat (b + ?a))"
    unfolding ub ua by (rule adler_sums_mod) (simp_all add: mod_add_right_eq)
  from Cons.IH [OF a2 b2] show ?case
    using unat_byte(2) [of p] by (simp add: Let_def sums ua)
qed simp

lemma adler_reduce_unat:
  "unat (adler_reduce x) = unat x mod 65536 + 15 * (unat x div 65536)"
proof -
  have low: "unat (x AND 0xffff) = unat x mod 65536"
    using unat_and_mask [of x 16] by (simp add: mask_eq_exp_minus_1)
  have "unat (drop_bit 16 x) = drop_bit 16 (unat x)"
    by (rule unat_drop_bit_eq)
  then have high: "unat (drop_bit 16 x) = unat x div 65536"
    by (simp only: drop_bit_eq_div) simp
  have "unat x < 2 ^ LENGTH(32)"
    by (rule unsigned_less)
  then have "unat x div 65536 < 65536"
    by (simp add: less_mult_imp_div_less)
  moreover have "unat x mod 65536 < 65536"
    by simp
  ultimately show ?thesis
    using low high unfolding adler_reduce_def MOD_ADLER_def
    by (subst unat_word_ariths(1), subst unat_word_ariths(2)) simp
qed

lemma adler_reduce_mod: "unat (adler_reduce x) mod 65521 = unat x mod 65521"
proof -
  have "unat x = unat x mod 65536 + 65536 * (unat x div 65536)"
    by simp
  then have "unat x = unat (adler_reduce x) + 65521 * (unat x div 65536)"
    unfolding adler_reduce_unat by linarith
  then show ?thesis
    by (metis mod_mult_self2)
qed

lemma adler_reduce_bounds:
  "unat (adler_reduce x) \<le> 1048560"
  "unat x \<le> 1481100 \<Longrightarrow> unat (adler_reduce x) \<le> 0x1013a"
  "unat x \<le> 1048560 \<Longrightarrow> unat (adler_reduce x) < 2 * 65521"
proof -
  define q r where "q = unat x div 65536" and "r = unat x mod 65536"
  have x: "unat x = 65536 * q + r" and r: "r < 65536"
    by (simp_all add: q_def r_def)
  have "unat x < 2 ^ LENGTH(32)"
    by (rule unsigned_less)
  then have q: "q < 65536"
    using x by simp
  have e: "unat (adler_reduce x) = r + 15 * q"
    by (simp add: adler_reduce_unat q_def r_def)
  show "unat (adler_reduce x) \<le> 1048560"
    using q r unfolding e by linarith
  show "unat x \<le> 1481100 \<Longrightarrow> unat (adler_reduce x) \<le> 0x1013a"
    using x r unfolding e by (cases "q \<le> 21") linarith+
  show "unat x \<le> 1048560 \<Longrightarrow> unat (adler_reduce x) < 2 * 65521"
    using x r unfolding e by linarith
qed

lemma adler_blocks_sums:
  assumes "unat a \<le> 0x1013a" and "unat b \<le> 1048560"
  shows "unat (fst (adler_blocks data a b)) \<le> 0x1013a \<and> unat (snd (adler_blocks data a b)) \<le> 1048560
     \<and> (unat (fst (adler_blocks data a b)) mod 65521, unat (snd (adler_blocks data a b)) mod 65521) =
         adler_sums data (unat a) (unat b)"
  using assms
proof (induction data a b rule: adler_blocks.induct)
  case (1 data a b)
  show ?case
  proof (cases "data = []")
    case True
    with 1 show ?thesis
      by (simp add: adler_blocks.simps [of "[]"])
  next
    case False
    let ?ps = "take 5550 data"
    obtain a1 b1 where blk: "adler_block ?ps a b = (a1, b1)"
      by fastforce
    have n: "length ?ps \<le> 5550"
      by simp
    have "length ?ps * unat a \<le> 5550 * 0x1013a"
      using n 1(2) by (rule mult_le_mono)
    moreover have "length ?ps * (length ?ps + 1) \<le> 5550 * 5551"
      using n by (intro mult_le_mono) simp_all
    ultimately have sum: "2 * unat b + 2 * length ?ps * unat a + 255 * length ?ps * (length ?ps + 1) < 2 ^ 33"
      using 1(3) unfolding mult.assoc by (simp del: length_take)
    have sum_a: "unat a + 255 * length ?ps < 2 ^ 32"
      using n 1(2) by simp
    from adler_block_sums [OF sum_a sum] have "unat a1 \<le> unat a + 255 * length ?ps"
      and s1: "(unat a1 mod 65521, unat b1 mod 65521) = adler_sums ?ps (unat a) (unat b)"
      by (simp_all only: blk fst_conv snd_conv)
    then have a1: "unat a1 \<le> 1481100"
      using n 1(2) by linarith
    have split: "adler_sums data (unat a) (unat b) =
        adler_sums (drop 5550 data) (unat (adler_reduce a1)) (unat (adler_reduce b1))"
    proof -
      have "adler_sums data (unat a) (unat b) =
          adler_sums (drop 5550 data) (unat a1 mod 65521) (unat b1 mod 65521)"
        using adler_sums_append [of ?ps "drop 5550 data" "unat a" "unat b"] s1 [symmetric] by simp
      also have "\<dots> = adler_sums (drop 5550 data) (unat (adler_reduce a1)) (unat (adler_reduce b1))"
        by (rule adler_sums_mod) (simp_all add: adler_reduce_mod)
      finally show ?thesis .
    qed
    have ih: "unat (fst (adler_blocks (drop 5550 data) (adler_reduce a1) (adler_reduce b1))) \<le> 0x1013a
       \<and> unat (snd (adler_blocks (drop 5550 data) (adler_reduce a1) (adler_reduce b1))) \<le> 1048560
       \<and> (unat (fst (adler_blocks (drop 5550 data) (adler_reduce a1) (adler_reduce b1))) mod 65521,
          unat (snd (adler_blocks (drop 5550 data) (adler_reduce a1) (adler_reduce b1))) mod 65521) =
         adler_sums (drop 5550 data) (unat (adler_reduce a1)) (unat (adler_reduce b1))"
      using 1(1) [OF False blk [symmetric] refl] adler_reduce_bounds(1) [of b1]
        adler_reduce_bounds(2) [OF a1] by blast
    show ?thesis
      using ih False by (simp add: adler_blocks.simps [of data] blk split)
  qed
qed

lemma cond_sub_mod:
  assumes "unat x < 2 * 65521"
  shows "unat (if x \<ge> MOD_ADLER then x - MOD_ADLER else x) = unat x mod 65521"
  using assms
  by (auto simp: MOD_ADLER_def word_le_nat_alt unat_sub not_le mod_if)

lemma unat_concat16:
  assumes "unat a < 65536" and "unat b < 65536"
  shows "unat (push_bit 16 b OR (a :: u32)) = unat b * 65536 + unat a"
proof -
  have high: "\<not> bit a n" if "16 \<le> n" for n
    using that bit_less_of_unat [of a 16 n] assms(1) by auto
  have "push_bit 16 b AND a = 0"
    using high by (intro bit_word_eqI) (auto simp: bit_and_iff bit_push_bit_iff)
  then have "push_bit 16 b OR a = push_bit 16 b + a"
    by (rule disjunctive_add_eq_or [symmetric])
  moreover have "push_bit 16 b = b * 65536"
    by (simp add: push_bit_eq_mult)
  moreover have "unat (b * 65536) = unat b * 65536"
    using assms(2) by (subst unat_word_ariths(2)) simp
  moreover have "unat (b * 65536 + a) = unat b * 65536 + unat a"
    using assms calculation(3) by (subst unat_word_ariths(1)) simp
  ultimately show ?thesis
    by simp
qed

text \<open>C31: \<open>HashAdler32\<close> computes the Adler-32 checksum of every byte string.\<close>

theorem HashAdler32_adler32: "unat (HashAdler32 data) = adler32 data"
proof -
  obtain a b where ab: "adler_blocks data 1 0 = (a, b)"
    by fastforce
  from adler_blocks_sums [of 1 0 data] have a: "unat a \<le> 0x1013a" and b: "unat b \<le> 1048560"
    and s: "adler_sums data 1 0 = (unat a mod 65521, unat b mod 65521)"
    by (simp_all add: ab)
  let ?a = "if a \<ge> MOD_ADLER then a - MOD_ADLER else a"
  let ?b = "if adler_reduce b \<ge> MOD_ADLER then adler_reduce b - MOD_ADLER else adler_reduce b"
  have "unat ?a = unat a mod 65521"
    using a by (intro cond_sub_mod) simp
  moreover have "unat ?b = unat b mod 65521"
    using cond_sub_mod [OF adler_reduce_bounds(3) [OF b]] by (simp only: adler_reduce_mod)
  moreover have "unat (push_bit 16 ?b OR ?a) = unat ?b * 65536 + unat ?a"
    using calculation by (intro unat_concat16) (simp_all add: less_trans [of _ 65521])
  ultimately show ?thesis
    by (simp only: HashAdler32_def ab Let_def prod.case adler32_def s)
qed

end
