(* ===== verification/DSP_Interpreter.thy ===== *)
theory DSP_Interpreter
  imports DSP_Branch DSP_Multiplier DSP_ExtOps Common_Hash
begin

text \<open>
  The dispatch of \<open>Core/DSP/Interpreter/DSPInterpreter.cpp\<close>: what the \<open>intFunc\<close> pointer of a
  template calls, the execution of one instruction with its extension, the control register the
  CPU sees, and the loops that run the DSP for a number of cycles; with the exceptions of
  \<open>DSPCore.cpp\<close> that a step checks first.  The profiler is left out.
\<close>

section \<open>Function pointers\<close>

text \<open>
  Functions that cannot fail are lifted with \<open>ok_fn\<close>.
\<close>

fun logic_op :: "logic_fn \<Rightarrow> u16 \<Rightarrow> dsp \<Rightarrow> dsp" where
  "logic_op F_clr = Interpreter_clr"
| "logic_op F_clrl = Interpreter_clrl"
| "logic_op F_andcf = Interpreter_andcf"
| "logic_op F_andf = Interpreter_andf"
| "logic_op F_tst = Interpreter_tst"
| "logic_op F_tstaxh = Interpreter_tstaxh"
| "logic_op F_cmp = Interpreter_cmp"
| "logic_op F_cmpar = Interpreter_cmpar"
| "logic_op F_cmpi = Interpreter_cmpi"
| "logic_op F_cmpis = Interpreter_cmpis"
| "logic_op F_xorr = Interpreter_xorr"
| "logic_op F_andr = Interpreter_andr"
| "logic_op F_orr = Interpreter_orr"
| "logic_op F_andc = Interpreter_andc"
| "logic_op F_orc = Interpreter_orc"
| "logic_op F_xorc = Interpreter_xorc"
| "logic_op F_notc = Interpreter_notc"
| "logic_op F_xori = Interpreter_xori"
| "logic_op F_andi = Interpreter_andi"
| "logic_op F_ori = Interpreter_ori"

fun arith_op :: "arith_fn \<Rightarrow> u16 \<Rightarrow> dsp \<Rightarrow> dsp" where
  "arith_op F_addr = Interpreter_addr"
| "arith_op F_addax = Interpreter_addax"
| "arith_op F_add = Interpreter_add"
| "arith_op F_addp = Interpreter_addp"
| "arith_op F_addaxl = Interpreter_addaxl"
| "arith_op F_addi = Interpreter_addi"
| "arith_op F_addis = Interpreter_addis"
| "arith_op F_incm = Interpreter_incm"
| "arith_op F_inc = Interpreter_inc"
| "arith_op F_subr = Interpreter_subr"
| "arith_op F_subax = Interpreter_subax"
| "arith_op F_sub = Interpreter_sub"
| "arith_op F_subp = Interpreter_subp"
| "arith_op F_decm = Interpreter_decm"
| "arith_op F_dec = Interpreter_dec"
| "arith_op F_neg = Interpreter_neg"
| "arith_op F_abs = Interpreter_abs"
| "arith_op F_movr = Interpreter_movr"
| "arith_op F_movax = Interpreter_movax"
| "arith_op F_mov = Interpreter_mov"

fun shift_op :: "shift_fn \<Rightarrow> u16 \<Rightarrow> dsp \<Rightarrow> dsp" where
  "shift_op F_lsl16 = Interpreter_lsl16"
| "shift_op F_lsr16 = Interpreter_lsr16"
| "shift_op F_asr16 = Interpreter_asr16"
| "shift_op F_lsl = Interpreter_lsl"
| "shift_op F_lsr = Interpreter_lsr"
| "shift_op F_asl = Interpreter_asl"
| "shift_op F_asr = Interpreter_asr"
| "shift_op F_lsrn = Interpreter_lsrn"
| "shift_op F_asrn = Interpreter_asrn"
| "shift_op F_lsrnrx = Interpreter_lsrnrx"
| "shift_op F_asrnrx = Interpreter_asrnrx"
| "shift_op F_lsrnr = Interpreter_lsrnr"
| "shift_op F_asrnr = Interpreter_asrnr"

fun mult_op :: "mult_fn \<Rightarrow> u16 \<Rightarrow> dsp \<Rightarrow> dsp" where
  "mult_op F_clrp = Interpreter_clrp"
| "mult_op F_tstprod = Interpreter_tstprod"
| "mult_op F_movp = Interpreter_movp"
| "mult_op F_movnp = Interpreter_movnp"
| "mult_op F_movpz = Interpreter_movpz"
| "mult_op F_addpaxz = Interpreter_addpaxz"
| "mult_op F_mulaxh = Interpreter_mulaxh"
| "mult_op F_mul = Interpreter_mul"
| "mult_op F_mulac = Interpreter_mulac"
| "mult_op F_mulmv = Interpreter_mulmv"
| "mult_op F_mulmvz = Interpreter_mulmvz"
| "mult_op F_mulx = Interpreter_mulx"
| "mult_op F_mulxac = Interpreter_mulxac"
| "mult_op F_mulxmv = Interpreter_mulxmv"
| "mult_op F_mulxmvz = Interpreter_mulxmvz"
| "mult_op F_mulc = Interpreter_mulc"
| "mult_op F_mulcac = Interpreter_mulcac"
| "mult_op F_mulcmv = Interpreter_mulcmv"
| "mult_op F_mulcmvz = Interpreter_mulcmvz"
| "mult_op F_maddx = Interpreter_maddx"
| "mult_op F_msubx = Interpreter_msubx"
| "mult_op F_maddc = Interpreter_maddc"
| "mult_op F_msubc = Interpreter_msubc"
| "mult_op F_madd = Interpreter_madd"
| "mult_op F_msub = Interpreter_msub"

fun branch_op :: "branch_fn \<Rightarrow> u16 \<Rightarrow> dsp \<Rightarrow> dsp_res" where
  "branch_op F_call = ok_fn Interpreter_call"
| "branch_op F_callr = ok_fn Interpreter_callr"
| "branch_op F_ifcc = Interpreter_ifcc"
| "branch_op F_jcc = ok_fn Interpreter_jcc"
| "branch_op F_jmprcc = ok_fn Interpreter_jmprcc"
| "branch_op F_ret = ok_fn Interpreter_ret"
| "branch_op F_rti = ok_fn Interpreter_rti"
| "branch_op F_halt = ok_fn Interpreter_halt"
| "branch_op F_loop = Interpreter_loop"
| "branch_op F_loopi = Interpreter_loopi"
| "branch_op F_bloop = Interpreter_bloop"
| "branch_op F_bloopi = Interpreter_bloopi"

fun ldst_op :: "ldst_fn \<Rightarrow> u16 \<Rightarrow> dsp \<Rightarrow> dsp_res" where
  "ldst_op F_srs = Interpreter_srs"
| "ldst_op F_lrs = ok_fn Interpreter_lrs"
| "ldst_op F_lr = ok_fn Interpreter_lr"
| "ldst_op F_sr = Interpreter_sr"
| "ldst_op F_si = Interpreter_si"
| "ldst_op F_lrr = ok_fn Interpreter_lrr"
| "ldst_op F_lrrd = ok_fn Interpreter_lrrd"
| "ldst_op F_lrri = ok_fn Interpreter_lrri"
| "ldst_op F_lrrn = ok_fn Interpreter_lrrn"
| "ldst_op F_srr = Interpreter_srr"
| "ldst_op F_srrd = Interpreter_srrd"
| "ldst_op F_srri = Interpreter_srri"
| "ldst_op F_srrn = Interpreter_srrn"
| "ldst_op F_ilrr = ok_fn Interpreter_ilrr"
| "ldst_op F_ilrrd = ok_fn Interpreter_ilrrd"
| "ldst_op F_ilrri = ok_fn Interpreter_ilrri"
| "ldst_op F_ilrrn = ok_fn Interpreter_ilrrn"

fun misc_op :: "misc_fn \<Rightarrow> u16 \<Rightarrow> dsp \<Rightarrow> dsp" where
  "misc_op F_mrr = Interpreter_mrr"
| "misc_op F_lri = Interpreter_lri"
| "misc_op F_lris = Interpreter_lris"
| "misc_op F_nx = Interpreter_nx"
| "misc_op F_dar = Interpreter_dar"
| "misc_op F_iar = Interpreter_iar"
| "misc_op F_subarn = Interpreter_subarn"
| "misc_op F_addarn = Interpreter_addarn"
| "misc_op F_sbclr = Interpreter_sbclr"
| "misc_op F_sbset = Interpreter_sbset"
| "misc_op F_srbith = Interpreter_srbith"
| "misc_op F_nop = Interpreter_nop"

fun ext_op :: "ext_fn \<Rightarrow> u16 \<Rightarrow> dsp \<Rightarrow> dsp_res" where
  "ext_op X_dr = ok_fn Ext_dr"
| "ext_op X_ir = ok_fn Ext_ir"
| "ext_op X_nr = ok_fn Ext_nr"
| "ext_op X_mv = ok_fn Ext_mv"
| "ext_op X_s = Ext_s"
| "ext_op X_sn = Ext_sn"
| "ext_op X_l = ok_fn Ext_l"
| "ext_op X_ln = ok_fn Ext_ln"
| "ext_op X_ls = Ext_ls"
| "ext_op X_sl = Ext_sl"
| "ext_op X_lsn = Ext_lsn"
| "ext_op X_sln = Ext_sln"
| "ext_op X_lsm = Ext_lsm"
| "ext_op X_slm = Ext_slm"
| "ext_op X_lsnm = Ext_lsnm"
| "ext_op X_slnm = Ext_slnm"
| "ext_op X_ldax = ok_fn Ext_ldax"
| "ext_op X_ldaxn = ok_fn Ext_ldaxn"
| "ext_op X_ldaxm = ok_fn Ext_ldaxm"
| "ext_op X_ldaxnm = ok_fn Ext_ldaxnm"
| "ext_op X_ld = ok_fn Ext_ld"
| "ext_op X_ldn = ok_fn Ext_ldn"
| "ext_op X_ldm = ok_fn Ext_ldm"
| "ext_op X_ldnm = ok_fn Ext_ldnm"
| "ext_op X_nop = ok_fn Ext_nop"

fun intFunc :: "interp_fn \<Rightarrow> u16 \<Rightarrow> dsp \<Rightarrow> dsp_res" where
  "intFunc (Logic f) = ok_fn (logic_op f)"
| "intFunc (Arith f) = ok_fn (arith_op f)"
| "intFunc (Shift f) = ok_fn (shift_op f)"
| "intFunc (Mult f) = ok_fn (mult_op f)"
| "intFunc (Branch f) = branch_op f"
| "intFunc (LdSt f) = ldst_op f"
| "intFunc (Misc f) = ok_fn (misc_op f)"
| "intFunc (ExtOp f) = ext_op f"

section \<open>Exceptions\<close>

definition DSPCore_SetExternalInterrupt :: "bool \<Rightarrow> dsp \<Rightarrow> dsp" where
  "DSPCore_SetExternalInterrupt val g = g\<lparr>external_interrupt_waiting := val\<rparr>"

definition DSPCore_CheckExternalInterrupt :: "dsp \<Rightarrow> dsp" where
  "DSPCore_CheckExternalInterrupt g =
     (if \<not> dsp_SR_is_flag_set SR_EXT_INT_ENABLE g then g
      else (let g = DSPCore_SetException EXP_INT g
            in g\<lparr>g_cr := g_cr g AND NOT CR_EXTERNAL_INT\<rparr>))"

text \<open>What the loop does for the exception \<open>i\<close> it fires; \<open>break\<close> ends the loop.\<close>

definition fire_exception :: "nat \<Rightarrow> dsp \<Rightarrow> dsp" where
  "fire_exception i g =
     (let g = dsp_reg_store_stack StackRegister_Call (g_pc g) g;
          g = dsp_reg_store_stack StackRegister_Data (dsp_sr g) g;
          g = g\<lparr>g_pc := of_nat (i * 2)\<rparr>;
          g = g\<lparr>g_exceptions := g_exceptions g AND NOT (push_bit i 1)\<rparr>
      in if i = 7 then set_sr (dsp_sr g AND NOT SR_EXT_INT_ENABLE) g
         else set_sr (dsp_sr g AND NOT SR_INT_ENABLE) g)"

fun check_exceptions_from :: "nat \<Rightarrow> dsp \<Rightarrow> dsp" where
  "check_exceptions_from 0 g = g"
| "check_exceptions_from (Suc i) g =
     (if g_exceptions g AND push_bit (Suc i) 1 \<noteq> 0
         \<and> (dsp_SR_is_flag_set SR_INT_ENABLE g \<or> Suc i = EXP_INT)
      then fire_exception (Suc i) g
      else check_exceptions_from i g)"

definition DSPCore_CheckExceptions :: "dsp \<Rightarrow> dsp" where
  "DSPCore_CheckExceptions g = (if g_exceptions g = 0 then g else check_exceptions_from 7 g)"

section \<open>Instructions\<close>

definition ExecuteInstruction :: "u16 \<Rightarrow> dsp \<Rightarrow> dsp_res" where
  "ExecuteInstruction inst g =
     (case GetOpTemplate inst g of
        None \<Rightarrow> Inl NullTemplate
      | Some opcode_template \<Rightarrow>
          bind_res
            (if op_extended opcode_template then
               (case GetExtOpTemplate inst g of
                  None \<Rightarrow> Inl NullTemplate
                | Some ext \<Rightarrow> intFunc (op_intFunc ext) inst g)
             else Inr g)
            (\<lambda>g. bind_res (intFunc (op_intFunc opcode_template) inst g)
               (\<lambda>g. if op_extended opcode_template then applyWriteBackLog g else Inr g)))"

definition WriteCR :: "u16 \<Rightarrow> dsp \<Rightarrow> dsp" where
  "WriteCR val g =
     (let (val, g) =
        (if val AND 1 \<noteq> 0 then (val AND NOT 1, DSPCore_Reset g)
         else if val = 4 then (val OR 0x800, g\<lparr>g_init_hax := True\<rparr>)
         else (val, g))
      in g\<lparr>g_cr := val\<rparr>)"

definition ReadCR :: "dsp \<Rightarrow> u16 \<times> dsp" where
  "ReadCR g =
     (let g = (if g_pc g AND 0x8000 \<noteq> 0 then g\<lparr>g_cr := g_cr g OR 0x800\<rparr>
               else g\<lparr>g_cr := g_cr g AND NOT 0x800\<rparr>)
      in (g_cr g, g))"

definition Interpreter_Step :: "dsp \<Rightarrow> dsp_res" where
  "Interpreter_Step g =
     (let g = DSPCore_CheckExceptions g;
          g = g\<lparr>step_counter := step_counter g + 1\<rparr>;
          (opc, g) = dsp_fetch_code g
      in bind_res (ExecuteInstruction opc g)
           (\<lambda>g. Inr (if GetCodeFlags (g_pc g - 1) g AND CODE_LOOP_END \<noteq> 0 then HandleLoop g else g)))"

section \<open>Running\<close>

text \<open>
  The result of a run is the \<open>int\<close> the loop returns and the state.  The nested \<open>for\<close> loops are the
  phases \<open>Startup\<close>, \<open>Idle\<close> and \<open>Busy\<close> with their counter; every round takes one cycle.
\<close>

datatype phase = Startup nat | Idle nat | Busy nat

fun next_phase :: "phase \<Rightarrow> phase" where
  "next_phase (Startup i) = (if i + 1 < 8 then Startup (i + 1) else Idle 0)"
| "next_phase (Idle i) = (if i + 1 < 8 then Idle (i + 1) else Busy 0)"
| "next_phase (Busy i) = (if i + 1 < 200 then Busy (i + 1) else Idle 0)"

definition halted :: "dsp \<Rightarrow> bool" where "halted g \<longleftrightarrow> g_cr g AND CR_HALT \<noteq> 0"
definition idle_here :: "dsp \<Rightarrow> bool" where
  "idle_here g \<longleftrightarrow> GetCodeFlags (g_pc g) g AND CODE_IDLE_SKIP \<noteq> 0"

fun phase_stops :: "phase \<Rightarrow> dsp \<Rightarrow> bool" where
  "phase_stops (Startup i) g = halted g"
| "phase_stops (Idle i) g = (halted g \<or> idle_here g)"
| "phase_stops (Busy i) g = False"

function run_cycles_from :: "phase \<Rightarrow> int \<Rightarrow> dsp \<Rightarrow> dsp_fault + int \<times> dsp" where
  "run_cycles_from ph cycles g =
     (if phase_stops ph g then Inr (0, g)
      else (case Interpreter_Step g of
              Inl e \<Rightarrow> Inl e
            | Inr g \<Rightarrow> if cycles - 1 < 0 then Inr (0, g)
                      else run_cycles_from (next_phase ph) (cycles - 1) g))"
  by auto
termination
  by (relation "measure (\<lambda>(_, cycles, _). nat cycles)") auto

definition Interpreter_RunCycles :: "int \<Rightarrow> dsp \<Rightarrow> dsp_fault + int \<times> dsp" where
  "Interpreter_RunCycles cycles g = run_cycles_from (Startup 0) cycles g"

text \<open>
  The debugging variant; \<open>bp\<close> is \<open>g_dsp_breakpoints.IsAddressBreakPoint\<close>.  The checks come in the
  order halt, breakpoint, idle skip.
\<close>

definition DSPCore_SetState :: "State \<Rightarrow> dsp \<Rightarrow> dsp" where
  "DSPCore_SetState new_state g = g\<lparr>core_state := new_state\<rparr>"

fun phase_checks_halt :: "phase \<Rightarrow> bool" where
  "phase_checks_halt (Busy i) = False"
| "phase_checks_halt _ = True"

fun phase_checks_idle :: "phase \<Rightarrow> bool" where
  "phase_checks_idle (Idle i) = True"
| "phase_checks_idle _ = False"

function run_cycles_debug_from ::
  "(u16 \<Rightarrow> bool) \<Rightarrow> phase \<Rightarrow> int \<Rightarrow> dsp \<Rightarrow> dsp_fault + int \<times> dsp" where
  "run_cycles_debug_from bp ph cycles g =
     (if phase_checks_halt ph \<and> halted g then Inr (0, g)
      else if bp (g_pc g) then Inr (cycles, DSPCore_SetState Stepping g)
      else if phase_checks_idle ph \<and> idle_here g then Inr (0, g)
      else (case Interpreter_Step g of
              Inl e \<Rightarrow> Inl e
            | Inr g \<Rightarrow> if cycles - 1 < 0 then Inr (0, g)
                      else run_cycles_debug_from bp (next_phase ph) (cycles - 1) g))"
  by auto
termination
  by (relation "measure (\<lambda>(_, _, cycles, _). nat cycles)") auto

definition RunCyclesDebug :: "(u16 \<Rightarrow> bool) \<Rightarrow> int \<Rightarrow> dsp \<Rightarrow> dsp_fault + int \<times> dsp" where
  "RunCyclesDebug bp cycles g = run_cycles_debug_from bp (Startup 0) cycles g"

function RunCyclesThread :: "int \<Rightarrow> dsp \<Rightarrow> dsp_fault + int \<times> dsp" where
  "RunCyclesThread cycles g =
     (if halted g then Inr (0, g)
      else
        (let g = (if external_interrupt_waiting g
                  then DSPCore_SetExternalInterrupt False (DSPCore_CheckExternalInterrupt g) else g)
         in case Interpreter_Step g of
              Inl e \<Rightarrow> Inl e
            | Inr g \<Rightarrow> if cycles - 1 < 0 then Inr (0, g) else RunCyclesThread (cycles - 1) g))"
  by auto
termination
  by (relation "measure (\<lambda>(cycles, _). nat cycles)") auto

declare run_cycles_from.simps [simp del] run_cycles_debug_from.simps [simp del]
  RunCyclesThread.simps [simp del]

end
