(* ===== verification/DSP_CoreOps.thy ===== *)
theory DSP_CoreOps
  imports DSP_Interpreter
begin

text \<open>
  The engine as its callers see it: \<open>Core/DSP/DSPCore.cpp\<close> (initialization, ROM check, running,
  access to the registers) and the class \<open>DSPLLE\<close> of \<open>Core/HW/DSPLLE/DSPLLE.cpp\<close>.  The answer of
  the message box, the contents of the ROM files and the states that another thread sets while
  the DSP waits for \<open>step_event\<close> are arguments.  The JIT core is not modelled, so
  \<open>g_dsp_jit\<close> is null and \<open>DSPLLE::Initialize\<close> never starts the DSP thread.
\<close>

section \<open>Initialization\<close>

text \<open>The bytes of an array of words, as \<open>(u8*)rom\<close> reads them.\<close>

definition word_bytes :: "u16 array \<Rightarrow> nat \<Rightarrow> u8 list" where
  "word_bytes m n = concat (map (\<lambda>i. [ucast (m i), ucast (drop_bit 8 (m i))]) [0..<n])"

definition DSP_IROM_SIZE :: nat where "DSP_IROM_SIZE = 0x1000"
definition DSP_COEF_SIZE :: nat where "DSP_COEF_SIZE = 0x800"

definition known_roms :: "(u32 \<times> u32) list" where
  "known_roms = [
     (0x66f334fe, 0xf3b93527), (0x9c8f593c, 0x10000001), (0xd9907f71, 0xb019c2fb),
     (0xd9907f71, 0xdb6880c1), (0x3aa4a793, 0xa4a575f5), (0x128ea7a2, 0xa4a575f5)]"

text \<open>The loop over \<open>known_roms\<close>: the last index that matches, or \<open>-1\<close>.\<close>

fun find_rom :: "u32 \<Rightarrow> u32 \<Rightarrow> int \<Rightarrow> (u32 \<times> u32) list \<Rightarrow> int \<Rightarrow> int" where
  "find_rom hash_irom hash_drom i [] rom_idx = rom_idx"
| "find_rom hash_irom hash_drom i ((h1, h2) # roms) rom_idx =
     find_rom hash_irom hash_drom (i + 1) roms
       (if hash_irom = h1 \<and> hash_drom = h2 then i else rom_idx)"

definition VerifyRoms :: "bool \<Rightarrow> dsp \<Rightarrow> bool" where
  "VerifyRoms stop_now g =
     (let hash_irom = HashAdler32 (word_bytes (g_irom g) DSP_IROM_SIZE);
          hash_drom = HashAdler32 (word_bytes (g_coef g) DSP_COEF_SIZE);
          rom_idx = find_rom hash_irom hash_drom 0 known_roms (- 1)
      in \<not> (rom_idx < 0 \<and> stop_now))"

definition zero_regs :: DSP_Regs where
  "zero_regs = \<lparr>reg_ar = (\<lambda>_. 0), reg_ix = (\<lambda>_. 0), reg_wr = (\<lambda>_. 0), reg_st = (\<lambda>_. 0),
     reg_cr = 0, reg_sr = 0, reg_prod = 0, reg_ax = (\<lambda>_. 0), reg_ac = (\<lambda>_. 0)\<rparr>"

definition new_accelerator :: Accelerator where
  "new_accelerator = \<lparr>m_start_address = 0, m_end_address = 0, m_current_address = 0,
     m_sample_format = 0, m_yn1 = 0, m_yn2 = 0, m_pred_scale = 0, m_reads_stopped = False\<rparr>"

definition DSPCore_Init :: "u16 array \<Rightarrow> u16 array \<Rightarrow> bool \<Rightarrow> dsp \<Rightarrow> bool \<times> dsp" where
  "DSPCore_Init irom_contents coef_contents stop_now g =
     (let g = g\<lparr>step_counter := 0, g_init_hax := False, g_accelerator := new_accelerator\<rparr>;
          g = g\<lparr>g_irom := irom_contents, g_coef := coef_contents\<rparr>
      in if \<not> VerifyRoms stop_now g then (False, g)
         else
           (let g = g\<lparr>g_r := zero_regs\<rparr>;
                g = g\<lparr>reg_stack_ptr := (\<lambda>_. 0)\<rparr>;
                g = g\<lparr>reg_stack := (\<lambda>_ _. 0)\<rparr>;
                g = g\<lparr>g_iram := (\<lambda>_. 0x0021)\<rparr>;
                g = g\<lparr>g_dram := (\<lambda>_. 0)\<rparr>;
                g = g\<lparr>g_r := (g_r g)\<lparr>reg_wr := (\<lambda>_. 0xffff)\<rparr>\<rparr>;
                g = set_sr (dsp_sr g OR SR_INT_ENABLE) g;
                g = set_sr (dsp_sr g OR SR_EXT_INT_ENABLE) g;
                g = g\<lparr>g_cr := 0x804\<rparr>;
                g = gdsp_ifx_init g
            in (True, g\<lparr>core_state := Running\<rparr>)))"

definition DSPCore_Shutdown :: "dsp \<Rightarrow> dsp" where
  "DSPCore_Shutdown g = (if core_state g = Stopped then g else g\<lparr>core_state := Stopped\<rparr>)"

section \<open>Running\<close>

text \<open>
  \<open>waits\<close> lists the states found after each return of \<open>step_event.Wait()\<close>; a wait that never
  returns, and the loop of a stopped core, are \<open>None\<close>.
\<close>

partial_function (option) DSPCore_RunCycles ::
  "State list \<Rightarrow> int \<Rightarrow> dsp \<Rightarrow> (dsp_fault + int \<times> dsp) option" where
  "DSPCore_RunCycles waits cycles g =
     (if cycles > 0 then
        (case core_state g of
           Running \<Rightarrow>
             (case Interpreter_RunCycles cycles g of
                Inl e \<Rightarrow> Some (Inl e)
              | Inr (c, g) \<Rightarrow> DSPCore_RunCycles waits c g)
         | Stepping \<Rightarrow>
             (case waits of
                [] \<Rightarrow> None
              | s # waits \<Rightarrow>
                  (let g = g\<lparr>core_state := s\<rparr>
                   in if s \<noteq> Stepping then DSPCore_RunCycles waits cycles g
                      else (case Interpreter_Step g of
                              Inl e \<Rightarrow> Some (Inl e)
                            | Inr g \<Rightarrow> DSPCore_RunCycles waits (cycles - 1) g)))
         | Stopped \<Rightarrow> DSPCore_RunCycles waits cycles g)
      else Some (Inr (cycles, g)))"

section \<open>Registers from outside\<close>

definition DSPCore_ReadRegister :: "nat \<Rightarrow> dsp \<Rightarrow> u16" where
  "DSPCore_ReadRegister reg g =
     (if reg < DSP_REG_IX0 then dsp_ar g (reg - DSP_REG_AR0)
      else if reg < DSP_REG_WR0 then dsp_ix g (reg - DSP_REG_IX0)
      else if reg < DSP_REG_ST0 then dsp_wr g (reg - DSP_REG_WR0)
      else if reg < DSP_REG_ACH0 then dsp_st g (reg - DSP_REG_ST0)
      else if reg < DSP_REG_CR then ac_h g (reg - DSP_REG_ACH0)
      else if reg = DSP_REG_CR then reg_cr (g_r g)
      else if reg = DSP_REG_SR then dsp_sr g
      else if reg = DSP_REG_PRODL then prod_l g
      else if reg = DSP_REG_PRODM then prod_m g
      else if reg = DSP_REG_PRODH then prod_h g
      else if reg = DSP_REG_PRODM2 then prod_m2 g
      else if reg < DSP_REG_AXH0 then ax_l g (reg - DSP_REG_AXL0)
      else if reg < DSP_REG_ACL0 then ax_h g (reg - DSP_REG_AXH0)
      else if reg < DSP_REG_ACM0 then ac_l g (reg - DSP_REG_ACL0)
      else if reg < 0x20 then ac_m g (reg - DSP_REG_ACM0)
      else 0)"

definition DSPCore_WriteRegister :: "nat \<Rightarrow> u16 \<Rightarrow> dsp \<Rightarrow> dsp" where
  "DSPCore_WriteRegister reg val g =
     (if reg < DSP_REG_IX0 then set_ar (reg - DSP_REG_AR0) val g
      else if reg < DSP_REG_WR0 then set_ix (reg - DSP_REG_IX0) val g
      else if reg < DSP_REG_ST0 then set_wr (reg - DSP_REG_WR0) val g
      else if reg < DSP_REG_ACH0 then set_st (reg - DSP_REG_ST0) val g
      else if reg < DSP_REG_CR then set_ac_lane 2 (reg - DSP_REG_ACH0) val g
      else if reg = DSP_REG_CR then set_rcr val g
      else if reg = DSP_REG_SR then set_sr val g
      else if reg = DSP_REG_PRODL then set_prod_lane 0 val g
      else if reg = DSP_REG_PRODM then set_prod_lane 1 val g
      else if reg = DSP_REG_PRODH then set_prod_lane 2 val g
      else if reg = DSP_REG_PRODM2 then set_prod_lane 3 val g
      else if reg < DSP_REG_AXH0 then set_ax_lane 0 (reg - DSP_REG_AXL0) val g
      else if reg < DSP_REG_ACL0 then set_ax_lane 1 (reg - DSP_REG_AXH0) val g
      else if reg < DSP_REG_ACM0 then set_ac_lane 0 (reg - DSP_REG_ACL0) val g
      else if reg < 0x20 then set_ac_lane 1 (reg - DSP_REG_ACM0) val g
      else g)"

section \<open>The class DSPLLE\<close>

record DSPLLE =
  m_wii :: bool
  m_is_dsp_on_thread :: bool
  s_request_disable_thread :: bool

definition LoadDSPRom :: "u8 list option \<Rightarrow> nat \<Rightarrow> u16 array option" where
  "LoadDSPRom file size_in_bytes =
     (case file of
        None \<Rightarrow> None
      | Some bytes \<Rightarrow>
          if length bytes \<noteq> size_in_bytes then None
          else Some (\<lambda>i. if i < size_in_bytes div 2
                         then swap16 (read_le16 (\<lambda>k. bytes ! k) (2 * i)) else 0))"

definition FillDSPInitOptions ::
  "u8 list option \<Rightarrow> u8 list option \<Rightarrow> (u16 array \<times> u16 array) option" where
  "FillDSPInitOptions irom_file coef_file =
     (case LoadDSPRom irom_file (2 * DSP_IROM_SIZE) of
        None \<Rightarrow> None
      | Some irom \<Rightarrow>
          (case LoadDSPRom coef_file (2 * DSP_COEF_SIZE) of
             None \<Rightarrow> None
           | Some coef \<Rightarrow> Some (irom, coef)))"

definition DSPLLE_Initialize ::
  "bool \<Rightarrow> u8 list option \<Rightarrow> u8 list option \<Rightarrow> bool \<Rightarrow> u8 array \<Rightarrow> DSPLLE \<times> dsp
     \<Rightarrow> bool \<times> DSPLLE \<times> dsp" where
  "DSPLLE_Initialize wii irom_file coef_file stop_now physical_base = (\<lambda>(l, g).
     let l = l\<lparr>s_request_disable_thread := False\<rparr>
     in case FillDSPInitOptions irom_file coef_file of
          None \<Rightarrow> (False, l, g)
        | Some (irom, coef) \<Rightarrow>
            (let (ok, g) = DSPCore_Init irom coef stop_now g
             in if \<not> ok then (False, l, g)
                else
                  (let l = l\<lparr>m_wii := wii, m_is_dsp_on_thread := False\<rparr>;
                       g = g\<lparr>cpu_ram := physical_base\<rparr>;
                       g = DSPCore_Reset g;
                       g = InitInstructionTable g
                   in (True, l, g))))"

definition DSP_WriteControlRegister :: "u16 \<Rightarrow> DSPLLE \<times> dsp \<Rightarrow> u16 \<times> DSPLLE \<times> dsp" where
  "DSP_WriteControlRegister value' = (\<lambda>(l, g).
     let g = WriteCR value' g;
         (l, g) =
           (if value' AND 2 \<noteq> 0 then
              (if \<not> m_is_dsp_on_thread l
               then (l, DSPCore_CheckExceptions (DSPCore_CheckExternalInterrupt g))
               else (l\<lparr>s_request_disable_thread := True\<rparr>, DSPCore_SetExternalInterrupt True g))
            else (l, g));
         (cr, g) = ReadCR g
     in (cr, l, g))"

definition DSP_ReadControlRegister :: "dsp \<Rightarrow> u16 \<times> dsp" where
  "DSP_ReadControlRegister g = ReadCR g"

definition DSP_ReadMailBoxHigh :: "bool \<Rightarrow> dsp \<Rightarrow> u16" where
  "DSP_ReadMailBoxHigh cpu_mailbox g =
     gdsp_mbox_read_h (if cpu_mailbox then MAILBOX_CPU else MAILBOX_DSP) g"

definition DSP_ReadMailBoxLow :: "bool \<Rightarrow> dsp \<Rightarrow> u16 \<times> dsp" where
  "DSP_ReadMailBoxLow cpu_mailbox g =
     gdsp_mbox_read_l (if cpu_mailbox then MAILBOX_CPU else MAILBOX_DSP) g"

definition DSP_WriteMailBoxHigh :: "bool \<Rightarrow> u16 \<Rightarrow> dsp \<Rightarrow> dsp" where
  "DSP_WriteMailBoxHigh cpu_mailbox value' g =
     (if cpu_mailbox then gdsp_mbox_write_h MAILBOX_CPU value' g else g)"

definition DSP_WriteMailBoxLow :: "bool \<Rightarrow> u16 \<Rightarrow> dsp \<Rightarrow> dsp" where
  "DSP_WriteMailBoxLow cpu_mailbox value' g =
     (if cpu_mailbox then gdsp_mbox_write_l MAILBOX_CPU value' g else g)"

text \<open>
  \<open>DSP_Update\<close> without a DSP thread; \<open>cycles / 6\<close> rounds towards zero, and a result that is not
  positive returns at once.
\<close>

definition DSP_Update :: "State list \<Rightarrow> int \<Rightarrow> dsp \<Rightarrow> (dsp_fault + dsp) option" where
  "DSP_Update waits cycles g =
     (let dsp_cycles = (if cycles < 0 then - (- cycles div 6) else cycles div 6)
      in if dsp_cycles \<le> 0 then Some (Inr g)
         else (case DSPCore_RunCycles waits dsp_cycles g of
                 None \<Rightarrow> None
               | Some (Inl e) \<Rightarrow> Some (Inl e)
               | Some (Inr (_, g)) \<Rightarrow> Some (Inr g)))"

end
