(* ===== verification/DSP_Invariant.thy ===== *)
theory DSP_Invariant
  imports DSP_CoreOps
begin

text \<open>
  The locale \<open>instruction_invariant\<close> states what a predicate on the state has to be closed under so
  that every instruction keeps it; its lemmas go once through all the functions the opcode
  tables name.  \<open>logging_invariant\<close> and \<open>counting_invariant\<close> extend it to predicates that the
  write-back log and the step counter do not matter to.  \<open>DSP_Safety\<close> interprets them.
\<close>

section \<open>What all instructions keep\<close>

text \<open>A result is a fault of the DMA engine or a state in \<open>P\<close>.\<close>

definition dma_faults :: "dsp_fault set" where
  "dma_faults = {DmaLengthExit, HostUnmapped, IramOverrun, DramOverrun}"

definition res_in :: "(dsp \<Rightarrow> bool) \<Rightarrow> dsp_res \<Rightarrow> bool" where
  "res_in P r \<longleftrightarrow> (case r of Inl e \<Rightarrow> e \<in> dma_faults | Inr g \<Rightarrow> P g)"

lemma res_in_simps [simp]:
  "res_in P (Inr g) = P g"
  "res_in P (Inl e) = (e \<in> dma_faults)"
  "res_in P (ok_fn f x g) = P (f x g)"
  by (simp_all add: res_in_def ok_fn_def)

lemma dma_faults_simps [simp]:
  "DmaLengthExit \<in> dma_faults" "HostUnmapped \<in> dma_faults" "IramOverrun \<in> dma_faults" "DramOverrun \<in> dma_faults"
  "NullTemplate \<notin> dma_faults" "BackLogOverrun \<notin> dma_faults"
  by (simp_all add: dma_faults_def)

lemma res_in_bind:
  "res_in P r \<Longrightarrow> (\<And>g. P g \<Longrightarrow> res_in Q (f g)) \<Longrightarrow> res_in Q (bind_res r f)"
  by (cases r) simp_all

lemma res_inD: "res_in P r \<Longrightarrow> r = Inr g \<Longrightarrow> P g"
  by simp

lemma res_in_mono: "res_in P r \<Longrightarrow> (\<And>g. P g \<Longrightarrow> Q g) \<Longrightarrow> res_in Q r"
  by (cases r) simp_all

lemmas logic_fn_defs =
  Interpreter_clr_def Interpreter_clrl_def Interpreter_andcf_def Interpreter_andf_def
  Interpreter_tst_def Interpreter_tstaxh_def Interpreter_cmp_def Interpreter_cmpar_def
  Interpreter_cmpi_def Interpreter_cmpis_def Interpreter_xorr_def Interpreter_andr_def
  Interpreter_orr_def Interpreter_andc_def Interpreter_orc_def Interpreter_xorc_def
  Interpreter_notc_def Interpreter_xori_def Interpreter_andi_def Interpreter_ori_def

lemmas arith_fn_defs =
  Interpreter_addr_def Interpreter_addax_def Interpreter_add_def Interpreter_addp_def
  Interpreter_addaxl_def Interpreter_addi_def Interpreter_addis_def Interpreter_incm_def
  Interpreter_inc_def Interpreter_subr_def Interpreter_subax_def Interpreter_sub_def
  Interpreter_subp_def Interpreter_decm_def Interpreter_dec_def Interpreter_neg_def
  Interpreter_abs_def Interpreter_movr_def Interpreter_movax_def Interpreter_mov_def

lemmas shift_fn_defs =
  Interpreter_lsl16_def Interpreter_lsr16_def Interpreter_asr16_def Interpreter_lsl_def
  Interpreter_lsr_def Interpreter_asl_def Interpreter_asr_def Interpreter_lsrn_def
  Interpreter_asrn_def Interpreter_lsrnrx_def Interpreter_asrnrx_def Interpreter_lsrnr_def
  Interpreter_asrnr_def

lemmas mult_fn_defs =
  Interpreter_clrp_def Interpreter_tstprod_def Interpreter_movp_def Interpreter_movnp_def
  Interpreter_movpz_def Interpreter_addpaxz_def Interpreter_mulaxh_def Interpreter_mul_def
  Interpreter_mulac_def Interpreter_mulmv_def Interpreter_mulmvz_def Interpreter_mulx_def
  Interpreter_mulxac_def Interpreter_mulxmv_def Interpreter_mulxmvz_def Interpreter_mulc_def
  Interpreter_mulcac_def Interpreter_mulcmv_def Interpreter_mulcmvz_def Interpreter_maddx_def
  Interpreter_msubx_def Interpreter_maddc_def Interpreter_msubc_def Interpreter_madd_def
  Interpreter_msub_def

lemmas branch_fn_defs =
  Interpreter_call_def Interpreter_callr_def Interpreter_ifcc_def Interpreter_jcc_def
  Interpreter_jmprcc_def Interpreter_ret_def Interpreter_rti_def Interpreter_halt_def
  Interpreter_loop_def Interpreter_loopi_def Interpreter_bloop_def Interpreter_bloopi_def

lemmas ldst_fn_defs =
  Interpreter_srs_def Interpreter_lrs_def Interpreter_lr_def Interpreter_sr_def
  Interpreter_si_def Interpreter_lrr_def Interpreter_lrrd_def Interpreter_lrri_def
  Interpreter_lrrn_def Interpreter_srr_def Interpreter_srrd_def Interpreter_srri_def
  Interpreter_srrn_def Interpreter_ilrr_def Interpreter_ilrrd_def Interpreter_ilrri_def
  Interpreter_ilrrn_def

lemmas misc_fn_defs =
  Interpreter_mrr_def Interpreter_lri_def Interpreter_lris_def Interpreter_nx_def
  Interpreter_dar_def Interpreter_iar_def Interpreter_subarn_def Interpreter_addarn_def
  Interpreter_sbclr_def Interpreter_sbset_def Interpreter_srbith_def Interpreter_nop_def

lemmas ext_fn_defs =
  Ext_dr_def Ext_ir_def Ext_nr_def Ext_mv_def Ext_s_def Ext_sn_def Ext_l_def Ext_ln_def
  Ext_ls_def Ext_sl_def Ext_lsn_def Ext_sln_def Ext_lsm_def Ext_slm_def Ext_lsnm_def Ext_slnm_def
  Ext_ldax_def Ext_ldaxn_def Ext_ldaxm_def Ext_ldaxnm_def Ext_ld_def Ext_ldn_def Ext_ldm_def
  Ext_ldnm_def Ext_nop_def

locale instruction_invariant =
  fixes P :: "dsp \<Rightarrow> bool"
  assumes ready: "P g \<Longrightarrow> tables_ready g"
    and regs: "P g \<Longrightarrow> P (g\<lparr>g_r := r\<rparr>)"
    and pc: "P g \<Longrightarrow> P (g\<lparr>g_pc := a\<rparr>)"
    and cr: "P g \<Longrightarrow> P (g\<lparr>g_cr := c\<rparr>)"
    and exceptions: "P g \<Longrightarrow> P (g\<lparr>g_exceptions := e\<rparr>)"
    and mbox: "P g \<Longrightarrow> P (g\<lparr>g_mbox := mb\<rparr>)"
    and ifx: "P g \<Longrightarrow> P (g\<lparr>ifx_regs := ifx\<rparr>)"
    and accelerator: "P g \<Longrightarrow> P (g\<lparr>g_accelerator := acc\<rparr>)"
    and iram: "P g \<Longrightarrow> P (g\<lparr>g_iram := m\<rparr>)"
    and dram: "P g \<Longrightarrow> P (g\<lparr>g_dram := m\<rparr>)"
    and crc: "P g \<Longrightarrow> P (g\<lparr>iram_crc := h\<rparr>)"
    and ram: "P g \<Longrightarrow> P (g\<lparr>cpu_ram := ram\<rparr>)"
    and aram: "P g \<Longrightarrow> P (g\<lparr>aram := ram\<rparr>)"
    and hax: "P g \<Longrightarrow> P (g\<lparr>g_init_hax := b\<rparr>)"
    and flags: "P g \<Longrightarrow> P (g\<lparr>code_flags := fl\<rparr>)"
    and interrupts: "P g \<Longrightarrow> P (g\<lparr>host_interrupts := n\<rparr>)"
    and waiting: "P g \<Longrightarrow> P (g\<lparr>external_interrupt_waiting := b\<rparr>)"
    and push: "P g \<Longrightarrow> P (dsp_reg_store_stack k v g)"
    and pop: "P g \<Longrightarrow> P (snd (dsp_reg_load_stack k g))"
begin

lemmas fields = regs pc cr exceptions mbox ifx accelerator iram dram crc ram aram hax flags
  interrupts waiting push pop

lemma keep_bind: "res_in P r \<Longrightarrow> (\<And>g. P g \<Longrightarrow> res_in P (f g)) \<Longrightarrow> res_in P (bind_res r f)"
  by (rule res_in_bind)

lemma keep_Analyze: "P g \<Longrightarrow> P (Analyze g)"
  using Analyze_eq [of g] flags by auto

lemma keep_Reset: "P g \<Longrightarrow> P (DSPCore_Reset g)"
  by (simp add: DSPCore_Reset_def Let_def keep_Analyze fields)

lemma keep_mail:
  "P g \<Longrightarrow> P (gdsp_mbox_write_h mb v g)"
  "P g \<Longrightarrow> P (gdsp_mbox_write_l mb v g)"
  "P g \<Longrightarrow> P (snd (gdsp_mbox_read_l mb g))"
  by (simp_all add: gdsp_mbox_write_h_def gdsp_mbox_write_l_def gdsp_mbox_read_l_def Let_def
      keep_Reset fields)

lemma keep_WriteARAM: "P g \<Longrightarrow> P (WriteARAM a v g)"
  by (simp add: WriteARAM_def fields)

lemma keep_write_ACDATA1: "P g \<Longrightarrow> P (write_ACDATA1 v g)"
  by (simp add: write_ACDATA1_def WriteD3_def Let_def keep_WriteARAM fields split: prod.split)

lemma keep_ifx_read: "P g \<Longrightarrow> P (snd (gdsp_ifx_read a g))"
  by (simp add: gdsp_ifx_read_def read_ACCELERATOR_def read_ACDATA1_def DSPCore_SetException_def
      Let_def case_prod_beta keep_mail fields)

lemma keep_do_dma: "P g \<Longrightarrow> res_in P (gdsp_do_dma g)"
  by (simp add: gdsp_do_dma_def gdsp_ddma_in_def gdsp_ddma_out_def gdsp_idma_in_def gdsp_idma_out_def
      CodeLoaded_def Let_def keep_Analyze fields)

lemma keep_DSBL: "P g \<Longrightarrow> res_in P (write_DSBL v g)"
  by (simp add: write_DSBL_def Let_def keep_bind keep_do_dma fields)

lemma keep_ifx_write: "P g \<Longrightarrow> res_in P (gdsp_ifx_write a v g)"
  by (simp add: gdsp_ifx_write_def InterruptRequest_def Let_def keep_mail keep_DSBL
      keep_write_ACDATA1 fields)

lemma keep_dmem:
  "P g \<Longrightarrow> P (snd (dsp_dmem_read a g))"
  "P g \<Longrightarrow> res_in P (dsp_dmem_write a v g)"
  by (simp_all add: dsp_dmem_read_def dsp_dmem_write_def keep_ifx_read keep_ifx_write fields)

lemma keep_fetch: "P g \<Longrightarrow> P (snd (dsp_fetch_code g))"
  by (simp add: dsp_fetch_code_def Let_def fields)

lemma keep_skip: "P g \<Longrightarrow> res_in P (dsp_skip_inst g)"
  by (simp add: dsp_skip_inst_ready ready fields)

lemma keep_registers:
  "P g \<Longrightarrow> P (snd (dsp_op_read_reg r g))"
  "P g \<Longrightarrow> P (dsp_op_write_reg r v g)"
  "P g \<Longrightarrow> P (dsp_conditional_extend_accum r g)"
  "P g \<Longrightarrow> P (snd (dsp_read_store_operand r g))"
  by (simp_all add: dsp_op_read_reg_def dsp_op_write_reg_def dsp_conditional_extend_accum_def
      dsp_read_store_operand_def Let_def fields)

lemma keep_SR:
  "P g \<Longrightarrow> P (Update_SR_Register64 v c ov g)"
  "P g \<Longrightarrow> P (Update_SR_Register16 w c ov o32 g)"
  "P g \<Longrightarrow> P (Update_SR_LZ b g)"
  "P g \<Longrightarrow> P (dsp_SR_set_flag f g)"
  using regs Update_SR_Register64_frame [of v c ov g] Update_SR_Register16_frame [of w c ov o32 g]
    Update_SR_LZ_frame [of b g]
  by (auto simp: dsp_SR_set_flag_def intro: fields) metis+

lemma keep_long:
  "P g \<Longrightarrow> P (dsp_set_long_acc r v g)"
  "P g \<Longrightarrow> P (dsp_set_long_prod v g)"
  by (simp_all add: dsp_set_long_acc_def dsp_set_long_prod_def fields)

lemmas keeps = fields keep_bind keep_dmem keep_fetch keep_skip keep_registers keep_SR keep_long

lemma keep_logic: "P g \<Longrightarrow> P (logic_op f opc g)"
  by (cases f) (simp_all add: logic_fn_defs keeps Let_def case_prod_beta)

lemma keep_arith: "P g \<Longrightarrow> P (arith_op f opc g)"
  by (cases f) (simp_all add: arith_fn_defs keeps Let_def case_prod_beta)

lemma keep_shift: "P g \<Longrightarrow> P (shift_op f opc g)"
  by (cases f) (simp_all add: shift_fn_defs keeps Let_def case_prod_beta)

lemma keep_mult: "P g \<Longrightarrow> P (mult_op f opc g)"
  by (cases f) (simp_all add: mult_fn_defs keeps Let_def case_prod_beta)

lemma keep_branch: "P g \<Longrightarrow> res_in P (branch_op f opc g)"
  by (cases f) (simp_all add: branch_fn_defs push_loop_def keeps Let_def case_prod_beta)

lemma keep_ldst: "P g \<Longrightarrow> res_in P (ldst_op f opc g)"
  by (cases f) (simp_all add: ldst_fn_defs keeps Let_def case_prod_beta)

lemma keep_misc: "P g \<Longrightarrow> P (misc_op f opc g)"
  by (cases f) (simp_all add: misc_fn_defs keeps Let_def case_prod_beta)

lemma keep_exception: "P g \<Longrightarrow> P (DSPCore_SetException l g)"
  by (simp add: DSPCore_SetException_def fields)

lemma keep_check_exceptions_from: "P g \<Longrightarrow> P (check_exceptions_from n g)"
  by (induction n) (simp_all add: fire_exception_def Let_def fields)

lemma keep_CheckExceptions: "P g \<Longrightarrow> P (DSPCore_CheckExceptions g)"
  by (simp add: DSPCore_CheckExceptions_def keep_check_exceptions_from)

lemma keep_CheckExternalInterrupt: "P g \<Longrightarrow> P (DSPCore_CheckExternalInterrupt g)"
  by (simp add: DSPCore_CheckExternalInterrupt_def Let_def keep_exception fields)

lemma keep_HandleLoop: "P g \<Longrightarrow> P (HandleLoop g)"
  by (simp add: HandleLoop_def Let_def case_prod_beta fields)

text \<open>A row of the instruction table never names an extension.\<close>

lemma keep_main: "(\<forall>x. fn \<noteq> ExtOp x) \<Longrightarrow> P g \<Longrightarrow> res_in P (intFunc fn opc g)"
  by (cases fn) (simp_all add: keep_logic keep_arith keep_shift keep_mult keep_branch keep_ldst keep_misc)

end

text \<open>Predicates that do not look at the write-back log are kept by the extensions too.\<close>

locale logging_invariant = instruction_invariant +
  assumes log: "P g \<Longrightarrow> P (g\<lparr>writeBackLog := vs\<rparr>)"
    and index: "P g \<Longrightarrow> P (g\<lparr>writeBackLogIdx := is\<rparr>)"
begin

lemma keep_writeToBackLog: "P g \<Longrightarrow> P (writeToBackLog i r v g)"
  by (simp add: writeToBackLog_def Let_def log index)

lemma keep_ext: "P g \<Longrightarrow> res_in P (ext_op f opc g)"
  by (cases f) (simp_all add: ext_fn_defs keeps keep_writeToBackLog Let_def case_prod_beta)

lemma keep_intFunc: "P g \<Longrightarrow> res_in P (intFunc fn opc g)"
  by (cases fn) (simp_all add: keep_logic keep_arith keep_shift keep_mult keep_branch keep_ldst
      keep_misc keep_ext)

lemma keep_apply_from: "P g \<Longrightarrow> apply_back_log_from n i g = Inr g' \<Longrightarrow> P g'"
  by (induction n i g rule: apply_back_log_from.induct) (auto simp: Let_def index keeps split: if_splits)

lemma keep_intFunc_Inr: "intFunc fn opc g = Inr g' \<Longrightarrow> P g \<Longrightarrow> P g'"
  using keep_intFunc [of g fn opc] by simp

lemma keep_Execute: "P g \<Longrightarrow> ExecuteInstruction opc g = Inr g' \<Longrightarrow> P g'"
  by (auto simp: ExecuteInstruction_def bind_res_Inr applyWriteBackLog_def
      split: option.splits if_splits dest!: keep_intFunc_Inr intro: keep_apply_from)

lemma keep_Step_counted:
  assumes "P ((DSPCore_CheckExceptions g)\<lparr>step_counter := step_counter (DSPCore_CheckExceptions g) + 1\<rparr>)"
    and "Interpreter_Step g = Inr g'"
  shows "P g'"
  using assms
  by (auto simp: Interpreter_Step_def Let_def case_prod_beta bind_res_Inr
      intro!: keep_HandleLoop dest: keep_Execute [rotated, OF _ keep_fetch])

end

locale counting_invariant = logging_invariant +
  assumes count: "P g \<Longrightarrow> P (g\<lparr>step_counter := c\<rparr>)"
begin

lemma keep_Step: "P g \<Longrightarrow> Interpreter_Step g = Inr g' \<Longrightarrow> P g'"
  by (rule keep_Step_counted [OF count [OF keep_CheckExceptions]])

end

end
