(* ===== verification/DSP_Safety.thy ===== *)
theory DSP_Safety
  imports DSP_Invariant
begin

text \<open>
  Safety of the interpreter: the invariant locales interpreted on the shape of the state (opcode
  tables filled, stack pointers inside their rings, write-back log empty) give the theorems on
  \<open>Interpreter_Step\<close> and the run loops.  The only faults are those of a DMA that leaves IRAM or
  DRAM, touches memory the host does not map, or is too long.
\<close>

section \<open>The write-back log\<close>

text \<open>The log holds \<open>k\<close> results, one after the other, and no others.\<close>

definition logged :: "nat \<Rightarrow> dsp \<Rightarrow> bool" where
  "logged k g \<longleftrightarrow> tables_ready g \<and> length (writeBackLog g) = WRITEBACK_LOG_SIZE
     \<and> (\<exists>rs. length rs = k \<and> k < WRITEBACK_LOG_SIZE
          \<and> writeBackLogIdx g = map int rs @ replicate (WRITEBACK_LOG_SIZE - k) (- 1))"

lemma tables_ready_cong:
  "s_op_table g' = s_op_table g \<Longrightarrow> s_ext_op_table g' = s_ext_op_table g \<Longrightarrow> tables_ready g' = tables_ready g"
  by (simp add: tables_ready_def)

interpretation back_log: instruction_invariant "logged k" for k
  by unfold_locales
    (auto simp: logged_def dsp_reg_store_stack_def dsp_reg_stack_push_def dsp_reg_load_stack_def
      dsp_reg_stack_pop_def Let_def cong: tables_ready_cong)

lemma logged_write:
  assumes "logged k g" and "Suc k < WRITEBACK_LOG_SIZE"
  shows "logged (Suc k) (writeToBackLog k r v g)"
proof -
  from assms(1) obtain rs where rs: "length rs = k" "k < WRITEBACK_LOG_SIZE"
    "writeBackLogIdx g = map int rs @ replicate (WRITEBACK_LOG_SIZE - k) (- 1)"
    by (auto simp: logged_def)
  have "replicate (WRITEBACK_LOG_SIZE - k) (- 1 :: int) = - 1 # replicate (WRITEBACK_LOG_SIZE - Suc k) (- 1)"
    using rs(2) by (metis Suc_diff_Suc replicate_Suc)
  then have "writeBackLogIdx (writeToBackLog k r v g)
      = map int (rs @ [r]) @ replicate (WRITEBACK_LOG_SIZE - Suc k) (- 1)"
    using rs by (simp add: writeToBackLog_def Let_def list_update_append)
  with assms rs(1) show ?thesis
    by (auto simp: logged_def writeToBackLog_def Let_def cong: tables_ready_cong intro!: exI [of _ "rs @ [r]"])
qed

definition some_logged :: "dsp \<Rightarrow> bool" where
  "some_logged g \<longleftrightarrow> (\<exists>k. logged k g)"

lemma some_loggedI: "logged k g \<Longrightarrow> some_logged g"
  by (auto simp: some_logged_def)

lemma logged_writes:
  "logged 0 g \<Longrightarrow> logged (Suc 0) (writeToBackLog 0 r v g)"
  "logged (Suc 0) g \<Longrightarrow> logged 2 (writeToBackLog (Suc 0) r v g)"
  "logged 2 g \<Longrightarrow> logged 3 (writeToBackLog 2 r v g)"
  "logged 3 g \<Longrightarrow> logged 4 (writeToBackLog 3 r v g)"
  using logged_write [of 0 g r v] logged_write [of "Suc 0" g r v] logged_write [of 2 g r v]
    logged_write [of 3 g r v]
  by (simp_all add: WRITEBACK_LOG_SIZE_def numeral_eq_Suc)

lemma some_logged_writes:
  "logged 0 g \<Longrightarrow> some_logged (writeToBackLog 0 r v g)"
  "logged (Suc 0) g \<Longrightarrow> some_logged (writeToBackLog (Suc 0) r v g)"
  "logged 2 g \<Longrightarrow> some_logged (writeToBackLog 2 r v g)"
  "logged 3 g \<Longrightarrow> some_logged (writeToBackLog 3 r v g)"
  by (rule some_loggedI, erule logged_writes)+

lemma logged_bind:
  "res_in (logged 0) r \<Longrightarrow> (\<And>g. logged 0 g \<Longrightarrow> res_in some_logged (f g)) \<Longrightarrow>
     res_in some_logged (bind_res r f)"
  by (rule res_in_bind)

lemma ext_op_logs: "logged 0 g \<Longrightarrow> res_in some_logged (ext_op f opc g)"
  by (cases f)
    (simp_all add: ext_fn_defs Let_def case_prod_beta back_log.keep_dmem logged_bind
      some_logged_writes logged_writes some_loggedI)

interpretation log_contents: instruction_invariant
    "\<lambda>h. tables_ready h \<and> writeBackLog h = vs \<and> writeBackLogIdx h = is" for vs "is"
  by unfold_locales
    (auto simp: dsp_reg_store_stack_def dsp_reg_stack_push_def dsp_reg_load_stack_def
      dsp_reg_stack_pop_def Let_def cong: tables_ready_cong)

lemma apply_from_clears:
  assumes "length (writeBackLog g) = WRITEBACK_LOG_SIZE" and "tables_ready g"
    and "writeBackLogIdx g = replicate i (- 1) @ map int rs @ replicate m (- 1)"
    and "i + length rs + m = WRITEBACK_LOG_SIZE" and "m > 0" and "n > length rs"
  shows "\<exists>g'. apply_back_log_from n i g = Inr g' \<and> logged 0 g'"
  using assms
proof (induction rs arbitrary: n i g)
  case Nil
  then have idx: "writeBackLogIdx g = replicate WRITEBACK_LOG_SIZE (- 1)"
    by (simp flip: replicate_add)
  then have "writeBackLogIdx g ! i = - 1"
    using Nil by simp
  with Nil idx show ?case
    by (cases n) (simp_all add: logged_def WRITEBACK_LOG_SIZE_def)
next
  case (Cons r rs)
  then obtain n' where n: "n = Suc n'"
    by (cases n) auto
  let ?g = "dsp_op_write_reg r (writeBackLog g ! i) g"
  let ?h = "?g\<lparr>writeBackLogIdx := (writeBackLogIdx ?g)[i := - 1]\<rparr>"
  have r: "writeBackLogIdx g ! i = int r"
    using Cons.prems by (simp add: nth_append)
  have same: "tables_ready ?g \<and> writeBackLog ?g = writeBackLog g \<and> writeBackLogIdx ?g = writeBackLogIdx g"
    using Cons.prems(2) by (simp add: log_contents.keep_registers(2))
  have "writeBackLogIdx ?h = replicate (Suc i) (- 1) @ map int rs @ replicate m (- 1)"
    using Cons.prems(3) same by (simp add: list_update_append replicate_append_same [symmetric])
  then have "\<exists>g'. apply_back_log_from n' (Suc i) ?h = Inr g' \<and> logged 0 g'"
    using Cons.prems same n by (intro Cons.IH) (simp_all cong: tables_ready_cong)
  with n r same show ?case
    by (simp add: Let_def)
qed

lemma apply_clears: "some_logged g \<Longrightarrow> \<exists>g'. applyWriteBackLog g = Inr g' \<and> logged 0 g'"
  unfolding applyWriteBackLog_def some_logged_def logged_def [of _ g]
  by (elim exE conjE, rule apply_from_clears [where i = 0]) (auto simp: WRITEBACK_LOG_SIZE_def)

section \<open>Stacks and constants\<close>

definition stacks_ok :: "dsp \<Rightarrow> bool" where
  "stacks_ok g \<longleftrightarrow> tables_ready g \<and> (\<forall>k. stack_ptr_ok k g)"

lemma stack_ptr_cong: "reg_stack_ptr g' = reg_stack_ptr g \<Longrightarrow> stack_ptr_ok k g' = stack_ptr_ok k g"
  by (simp add: stack_ptr_ok_def)

lemma tables_ready_stacks [simp]:
  "tables_ready (dsp_reg_store_stack k v g) = tables_ready g"
  "tables_ready (snd (dsp_reg_load_stack k g)) = tables_ready g"
  by (simp_all add: dsp_reg_store_stack_def dsp_reg_stack_push_def dsp_reg_load_stack_def
      dsp_reg_stack_pop_def Let_def cong: tables_ready_cong)

interpretation stacks: counting_invariant stacks_ok
  by unfold_locales (auto simp: stacks_ok_def cong: tables_ready_cong stack_ptr_cong)

text \<open>The ROMs and the settings of the host.\<close>

definition host_settings :: "dsp \<Rightarrow> u16 array \<times> u16 array \<times> bool \<times> bool \<times> bool \<times> State" where
  "host_settings g = (g_irom g, g_coef g, wii_mode g, mmu_mode g, cpu_bSSSE3 g, core_state g)"

interpretation settings: counting_invariant "\<lambda>h. tables_ready h \<and> host_settings h = c" for c
  by unfold_locales
    (auto simp: host_settings_def dsp_reg_store_stack_def dsp_reg_stack_push_def
      dsp_reg_load_stack_def dsp_reg_stack_pop_def Let_def cong: tables_ready_cong)

interpretation counter: logging_invariant "\<lambda>h. tables_ready h \<and> step_counter h = n" for n
  by unfold_locales
    (auto simp: dsp_reg_store_stack_def dsp_reg_stack_push_def dsp_reg_load_stack_def
      dsp_reg_stack_pop_def Let_def cong: tables_ready_cong)

section \<open>Steps\<close>

definition is_ext_fn :: "interp_fn \<Rightarrow> bool" where
  "is_ext_fn f = (case f of ExtOp _ \<Rightarrow> True | _ \<Rightarrow> False)"

lemma main_rows: "list_all (\<lambda>t. \<not> is_ext_fn (op_intFunc t)) (cw # s_opcodes)"
  unfolding s_opcodes_def s_opcodes_flow_def s_opcodes_move_def s_opcodes_acc_def cw_def
    append_Cons append_Nil list.pred_inject DSPOPCTemplate.sel
  by (simp add: is_ext_fn_def)

lemma ext_rows: "list_all (\<lambda>t. is_ext_fn (op_intFunc t) \<or> op_intFunc t = Misc F_nop) (cw # s_opcodes_ext)"
  unfolding s_opcodes_ext_def cw_def list.pred_inject DSPOPCTemplate.sel
  by (simp add: is_ext_fn_def)

lemma main_entry: "\<forall>x. op_intFunc (op_entry opc) \<noteq> ExtOp x"
  using op_entry_all [OF main_rows, of opc] by (auto simp: is_ext_fn_def)

lemma ext_entry: "(\<exists>x. op_intFunc (ext_op_entry opc) = ExtOp x) \<or> op_intFunc (ext_op_entry opc) = Misc F_nop"
  using ext_op_entry_all [OF ext_rows, of opc] by (auto simp: is_ext_fn_def split: interp_fn.splits)

lemma ext_entry_logs: "logged 0 g \<Longrightarrow> res_in some_logged (intFunc (op_intFunc (ext_op_entry e)) opc g)"
  using ext_entry [of e] by (auto simp: ext_op_logs Interpreter_nop_def some_loggedI)

lemma GetExtOpTemplate_ready: "tables_ready g \<Longrightarrow> \<exists>e. GetExtOpTemplate inst g = Some (ext_op_entry e)"
proof -
  assume g: "tables_ready g"
  have "unat (inst AND 0x7F) < EXT_OPTABLE_SIZE" "unat (inst AND 0xFF) < EXT_OPTABLE_SIZE"
    using unat_and_mask [of inst 7] unat_and_mask [of inst 8]
    by (simp_all add: mask_eq_exp_minus_1 EXT_OPTABLE_SIZE_def less_Suc_eq_le
        order.trans [OF less_imp_le [OF mod_less_divisor]])
  with g show ?thesis
    by (auto simp: GetExtOpTemplate_def tables_ready_def)
qed

lemma logged_some: "logged k g \<Longrightarrow> res_in some_logged (intFunc (op_intFunc (op_entry opc)) opc' g)"
  by (rule res_in_mono [OF back_log.keep_main [OF main_entry]]) (auto intro: some_loggedI)

lemma main_some_logged:
  "some_logged g \<Longrightarrow> res_in some_logged (intFunc (op_intFunc (op_entry opc)) opc' g)"
  by (auto simp: some_logged_def [of g] dest: logged_some)

lemma ExecuteInstruction_logged:
  assumes "logged 0 g"
  shows "res_in (logged 0) (ExecuteInstruction opc g)"
proof -
  have ready: "tables_ready g"
    using assms by (simp add: logged_def)
  obtain e where e: "GetExtOpTemplate opc g = Some (ext_op_entry e)"
    using GetExtOpTemplate_ready [OF ready] by blast
  have last: "res_in (logged 0) (applyWriteBackLog h)" if "some_logged h" for h
    using apply_clears [OF that] by auto
  show ?thesis
  proof (cases "op_extended (op_entry opc)")
    case True
    have "res_in (logged 0) (bind_res (intFunc (op_intFunc (ext_op_entry e)) opc g)
        (\<lambda>g. bind_res (intFunc (op_intFunc (op_entry opc)) opc g) applyWriteBackLog))"
      by (intro res_in_bind [where P = some_logged] ext_entry_logs main_some_logged last assms)
    with True e ready show ?thesis
      by (simp add: ExecuteInstruction_def GetOpTemplate_ready)
  next
    case False
    with ready back_log.keep_main [OF main_entry assms, of opc opc] show ?thesis
      by (simp add: ExecuteInstruction_def GetOpTemplate_ready res_in_bind)
  qed
qed

lemma logged_count: "logged k g \<Longrightarrow> logged k (g\<lparr>step_counter := c\<rparr>)"
  by (auto simp: logged_def cong: tables_ready_cong)

lemma Step_logged: "logged 0 g \<Longrightarrow> res_in (logged 0) (Interpreter_Step g)"
  unfolding Interpreter_Step_def Let_def case_prod_beta
  by (rule res_in_bind [where P = "logged 0"])
    (simp_all add: ExecuteInstruction_logged back_log.keep_fetch logged_count back_log.keep_HandleLoop
      back_log.keep_CheckExceptions)

section \<open>Runs\<close>

text \<open>A state between two instructions.\<close>

definition sound :: "dsp \<Rightarrow> bool" where
  "sound g \<longleftrightarrow> logged 0 g \<and> stacks_ok g"

lemma sound_ready: "sound g \<Longrightarrow> tables_ready g"
  by (simp add: sound_def stacks_ok_def)

lemma Step_sound:
  assumes "sound g"
  shows "res_in (\<lambda>g'. sound g' \<and> host_settings g' = host_settings g
      \<and> step_counter g' = step_counter g + 1) (Interpreter_Step g)"
proof (cases "Interpreter_Step g")
  case (Inl e)
  with Step_logged [of g] assms show ?thesis
    by (simp add: sound_def)
next
  case (Inr g')
  have ready: "tables_ready g"
    using assms by (rule sound_ready)
  have "tables_ready (DSPCore_CheckExceptions g) \<and> step_counter (DSPCore_CheckExceptions g) = step_counter g"
    using counter.keep_CheckExceptions [of g "step_counter g"] ready by simp
  then have "step_counter g' = step_counter g + 1"
    using counter.keep_Step_counted [OF _ Inr, of "step_counter g + 1"] by (simp cong: tables_ready_cong)
  moreover have "host_settings g' = host_settings g"
    using settings.keep_Step [OF _ Inr, of "host_settings g"] ready by simp
  moreover have "logged 0 g'"
    using Step_logged [of g] assms Inr by (simp add: sound_def)
  moreover have "stacks_ok g'"
    using stacks.keep_Step [OF _ Inr] assms by (simp add: sound_def)
  ultimately show ?thesis
    using Inr by (simp add: sound_def)
qed

fun step_n :: "nat \<Rightarrow> dsp \<Rightarrow> dsp_res" where
  "step_n 0 g = Inr g"
| "step_n (Suc n) g = bind_res (Interpreter_Step g) (step_n n)"

lemma step_n_sound:
  "sound g \<Longrightarrow> res_in (\<lambda>g'. sound g' \<and> host_settings g' = host_settings g
      \<and> step_counter g' = step_counter g + of_nat n) (step_n n g)"
proof (induction n arbitrary: g)
  case (Suc n)
  show ?case
    unfolding step_n.simps
    by (rule res_in_bind [OF Step_sound [OF Suc.prems]], rule res_in_mono, rule Suc.IH)
      (simp_all add: add.assoc)
qed simp

definition run_result :: "dsp_res \<Rightarrow> dsp_fault + int \<times> dsp" where
  "run_result r = (case r of Inl e \<Rightarrow> Inl e | Inr g \<Rightarrow> Inr (0, g))"

lemma run_result_simps [simp]:
  "run_result (Inl e) = Inl e" "run_result (Inr g) = Inr (0, g)"
  by (simp_all add: run_result_def)

definition stops_early :: "nat \<Rightarrow> dsp \<Rightarrow> bool" where
  "stops_early n g \<longleftrightarrow> (\<exists>g'. step_n n g = Inr g' \<and> (halted g' \<or> idle_here g'))"

lemma run_cycles_from_steps:
  "\<exists>n \<le> Suc (nat cycles). run_cycles_from ph cycles g = run_result (step_n n g)
     \<and> (n \<le> nat cycles \<longrightarrow> stops_early n g)"
proof (induction ph cycles g rule: run_cycles_from.induct)
  case (1 ph cycles g)
  show ?case
  proof (cases "phase_stops ph g")
    case True
    then have "halted g \<or> idle_here g"
      by (cases ph) auto
    with True show ?thesis
      by (intro exI [of _ 0]) (simp add: run_cycles_from.simps [of ph] stops_early_def)
  next
    case go: False
    show ?thesis
    proof (cases "Interpreter_Step g")
      case (Inl e)
      with go show ?thesis
        by (intro exI [of _ "Suc (nat cycles)"]) (simp add: run_cycles_from.simps [of ph])
    next
      case (Inr h)
      show ?thesis
      proof (cases "cycles - 1 < 0")
        case True
        with go Inr show ?thesis
          by (intro exI [of _ 1]) (simp add: run_cycles_from.simps [of ph])
      next
        case False
        from 1 [OF go Inr False] obtain n where "n \<le> Suc (nat (cycles - 1))"
          "run_cycles_from (next_phase ph) (cycles - 1) h = run_result (step_n n h)"
          "n \<le> nat (cycles - 1) \<longrightarrow> stops_early n h"
          by blast
        with False go Inr show ?thesis
          by (intro exI [of _ "Suc n"])
            (auto simp: run_cycles_from.simps [of ph] stops_early_def nat_diff_distrib)
      qed
    qed
  qed
qed

text \<open>The points of a run at which the loops look for a halted core, and for an idle loop.\<close>

definition halt_checked :: "nat \<Rightarrow> bool" where
  "halt_checked k \<longleftrightarrow> k < 8 \<or> (k - 8) mod 208 < 8"

definition idle_checked :: "nat \<Rightarrow> bool" where
  "idle_checked k \<longleftrightarrow> 8 \<le> k \<and> (k - 8) mod 208 < 8"

text \<open>Whether a run with \<open>cycles\<close> left at point \<open>k\<close> ends \<open>j\<close> instructions later.\<close>

definition run_ends :: "int \<Rightarrow> nat \<Rightarrow> nat \<Rightarrow> dsp \<Rightarrow> bool" where
  "run_ends cycles k j g \<longleftrightarrow>
     halt_checked (k + j) \<and> halted g \<or> idle_checked (k + j) \<and> idle_here g \<or> nat cycles < j"

definition phase_at :: "nat \<Rightarrow> phase" where
  "phase_at k = (if k < 8 then Startup k
     else if (k - 8) mod 208 < 8 then Idle ((k - 8) mod 208) else Busy ((k - 8) mod 208 - 8))"

lemma phase_at_Suc: "next_phase (phase_at k) = phase_at (Suc k)"
proof (cases "k < 8")
  case True
  then show ?thesis by (auto simp: phase_at_def less_Suc_eq_le)
next
  case False
  then obtain m where m: "k = m + 8" by (metis add.commute le_Suc_ex not_less)
  then have "phase_at (Suc k) = (if Suc m mod 208 < 8 then Idle (Suc m mod 208) else Busy (Suc m mod 208 - 8))"
    "phase_at k = (if m mod 208 < 8 then Idle (m mod 208) else Busy (m mod 208 - 8))"
    by (simp_all add: phase_at_def)
  moreover have "m mod 208 < 208" by simp
  ultimately show ?thesis by (auto simp: mod_Suc)
qed

lemma phase_at_stops: "phase_stops (phase_at k) g \<longleftrightarrow> halt_checked k \<and> halted g \<or> idle_checked k \<and> idle_here g"
  by (auto simp: phase_at_def halt_checked_def idle_checked_def)

lemma run_ends_Suc: "1 \<le> cycles \<Longrightarrow> run_ends cycles k (Suc j) h \<longleftrightarrow> run_ends (cycles - 1) (Suc k) j h"
  by (auto simp: run_ends_def)

lemma run_cycles_from_rule:
  "\<exists>n. run_cycles_from (phase_at k) cycles g = run_result (step_n n g)
     \<and> (\<forall>j<n. \<exists>h. step_n j g = Inr h \<and> \<not> run_ends cycles k j h)
     \<and> (\<forall>h. step_n n g = Inr h \<longrightarrow> run_ends cycles k n h)"
proof (induction "phase_at k" cycles g arbitrary: k rule: run_cycles_from.induct)
  case (1 cycles g)
  show ?case
  proof (cases "phase_stops (phase_at k) g")
    case True
    then show ?thesis
      by (intro exI [of _ 0]) (simp add: run_cycles_from.simps [of "phase_at k"] phase_at_stops run_ends_def)
  next
    case go: False
    then have first: "\<not> run_ends cycles k 0 g"
      by (simp add: phase_at_stops run_ends_def)
    show ?thesis
    proof (cases "Interpreter_Step g")
      case (Inl e)
      with go first show ?thesis
        by (intro exI [of _ 1]) (simp add: run_cycles_from.simps [of "phase_at k"])
    next
      case (Inr h)
      show ?thesis
      proof (cases "cycles - 1 < 0")
        case True
        with go first Inr show ?thesis
          by (intro exI [of _ 1]) (simp add: run_cycles_from.simps [of "phase_at k"] run_ends_def)
      next
        case False
        from 1 [OF go Inr False phase_at_Suc] obtain n where n:
          "run_cycles_from (phase_at (Suc k)) (cycles - 1) h = run_result (step_n n h)"
          "\<forall>j<n. \<exists>h'. step_n j h = Inr h' \<and> \<not> run_ends (cycles - 1) (Suc k) j h'"
          "\<forall>h'. step_n n h = Inr h' \<longrightarrow> run_ends (cycles - 1) (Suc k) n h'"
          by blast
        have "\<exists>h'. step_n j g = Inr h' \<and> \<not> run_ends cycles k j h'" if "j < Suc n" for j
          using that n(2) first Inr False by (cases j) (auto simp: run_ends_Suc)
        moreover have "run_ends cycles k (Suc n) h'" if "step_n (Suc n) g = Inr h'" for h'
          using that n(3) Inr False by (simp add: run_ends_Suc)
        ultimately show ?thesis
          using go Inr False n(1) phase_at_Suc [of k]
          by (intro exI [of _ "Suc n"]) (simp add: run_cycles_from.simps [of "phase_at k"])
      qed
    qed
  qed
qed

lemma debug_from_no_breakpoint:
  "run_cycles_debug_from (\<lambda>_. False) ph cycles g = run_cycles_from ph cycles g"
proof (induction ph cycles g rule: run_cycles_from.induct)
  case (1 ph cycles g)
  have "phase_stops ph g \<longleftrightarrow> phase_checks_halt ph \<and> halted g \<or> phase_checks_idle ph \<and> idle_here g"
    by (cases ph) auto
  with 1 show ?case
    by (auto simp: run_cycles_debug_from.simps [of _ ph] run_cycles_from.simps [of ph] split: sum.split)
qed

lemma debug_from_breakpoint:
  "run_cycles_debug_from bp ph cycles g = Inr (c, g') \<Longrightarrow> c \<noteq> 0 \<Longrightarrow>
     bp (g_pc g') \<and> core_state g' = Stepping"
proof (induction bp ph cycles g rule: run_cycles_debug_from.induct)
  case (1 bp ph cycles g)
  then show ?case
    by (auto simp: run_cycles_debug_from.simps [of bp ph cycles g] DSPCore_SetState_def
        split: if_splits sum.splits)
qed

section \<open>Reachable states\<close>

text \<open>
  The engine and what its callers may do to it between two instructions: the emulated CPU writes
  main memory, mailboxes and the control register, and the debugger writes registers.
\<close>

inductive engine_step :: "dsp \<Rightarrow> dsp \<Rightarrow> bool" where
  es_instruction: "Interpreter_Step g = Inr g' \<Longrightarrow> engine_step g g'"
| es_control: "DSP_WriteControlRegister v (l, g) = (cr, l', g') \<Longrightarrow> engine_step g g'"
| es_control_read: "DSP_ReadControlRegister g = (cr, g') \<Longrightarrow> engine_step g g'"
| es_mail_high: "engine_step g (DSP_WriteMailBoxHigh b v g)"
| es_mail_low: "engine_step g (DSP_WriteMailBoxLow b v g)"
| es_mail_read: "DSP_ReadMailBoxLow b g = (v, g') \<Longrightarrow> engine_step g g'"
| es_memory: "engine_step g (g\<lparr>cpu_ram := m\<rparr>)"
| es_debugger: "engine_step g (DSPCore_WriteRegister r v g)"

inductive_cases engine_stepE: "engine_step g g'"

text \<open>The log is a static array of five words.\<close>

inductive engine_reachable :: "dsp \<Rightarrow> bool" where
  er_init: "DSPLLE_Initialize wii irom coef stop_now ram (l, g) = (True, l', g') \<Longrightarrow>
     length (writeBackLog g) = WRITEBACK_LOG_SIZE \<Longrightarrow> engine_reachable g'"
| er_step: "engine_reachable g \<Longrightarrow> engine_step g g' \<Longrightarrow> engine_reachable g'"

context instruction_invariant
begin

lemma keep_WriteCR: "P g \<Longrightarrow> P (WriteCR v g)"
  by (simp add: WriteCR_def Let_def keep_Reset fields)

lemma keep_ReadCR: "P g \<Longrightarrow> P (snd (ReadCR g))"
  by (simp add: ReadCR_def Let_def fields)

lemma keep_WriteControlRegister:
  "P g \<Longrightarrow> DSP_WriteControlRegister v (l, g) = (cr, l', g') \<Longrightarrow> P g'"
  using keep_ReadCR
  by (auto simp: DSP_WriteControlRegister_def DSPCore_SetExternalInterrupt_def Let_def case_prod_beta
      keep_WriteCR keep_CheckExceptions keep_CheckExternalInterrupt fields)

end

definition log_and_stacks :: "dsp \<Rightarrow> u16 list \<times> u8 array" where
  "log_and_stacks g = (writeBackLog g, reg_stack_ptr g)"

lemma logged_0:
  "logged 0 g \<longleftrightarrow> tables_ready g \<and> length (writeBackLog g) = WRITEBACK_LOG_SIZE
     \<and> writeBackLogIdx g = replicate WRITEBACK_LOG_SIZE (- 1)"
proof -
  have "0 < WRITEBACK_LOG_SIZE"
    by (simp add: WRITEBACK_LOG_SIZE_def)
  then show ?thesis
    by (auto simp: logged_def)
qed

lemma sound_iff:
  "sound g \<longleftrightarrow> tables_ready g
     \<and> writeBackLogIdx g = replicate WRITEBACK_LOG_SIZE (- 1)
     \<and> length (writeBackLog g) = WRITEBACK_LOG_SIZE
     \<and> (\<forall>k. stack_ptr_ok k g)"
  by (auto simp: sound_def logged_0 stacks_ok_def)

lemma Analyze_log_and_stacks [simp]: "log_and_stacks (Analyze g) = log_and_stacks g"
  using Analyze_eq [of g] by (auto simp: log_and_stacks_def)

lemma log_and_stacks_simps [simp]:
  "log_and_stacks (DSPCore_Reset g) = log_and_stacks g"
  "log_and_stacks (InitInstructionTable g) = log_and_stacks g"
  by (simp_all add: DSPCore_Reset_def InitInstructionTable_def Let_def split: prod.split)
    (simp_all add: log_and_stacks_def)

lemma Init_clears_log: "writeBackLogIdx (InitInstructionTable g) = replicate WRITEBACK_LOG_SIZE (- 1)"
  by (simp add: InitInstructionTable_def WRITEBACK_LOG_SIZE_def Let_def split: prod.split)

lemma DSPCore_Init_log:
  "DSPCore_Init irom coef stop_now g = (True, g') \<Longrightarrow>
     log_and_stacks g' = (writeBackLog g, \<lambda>_. 0)"
  by (auto simp: DSPCore_Init_def gdsp_ifx_init_def log_and_stacks_def Let_def split: if_splits)

lemma sound_init:
  assumes "DSPLLE_Initialize wii irom coef stop_now ram (l, g) = (True, l', g')"
    and "length (writeBackLog g) = WRITEBACK_LOG_SIZE"
  shows "sound g'"
proof -
  obtain i c h where init: "DSPCore_Init i c stop_now g = (True, h)"
    and g': "g' = InitInstructionTable (DSPCore_Reset (h\<lparr>cpu_ram := ram\<rparr>))"
    using assms(1) by (auto simp: DSPLLE_Initialize_def Let_def split: option.splits prod.splits if_splits)
  have "log_and_stacks g' = log_and_stacks h"
    unfolding g' by simp (simp add: log_and_stacks_def)
  moreover have "tables_ready g'"
    unfolding g' by (rule tables_ready_Init)
  moreover have "writeBackLogIdx g' = replicate WRITEBACK_LOG_SIZE (- 1)"
    unfolding g' by (rule Init_clears_log)
  ultimately show ?thesis
    using DSPCore_Init_log [OF init] assms(2) by (simp add: sound_iff log_and_stacks_def stack_ptr_ok_def)
qed

text \<open>Every way a caller can touch the engine keeps an invariant of the instructions.\<close>

context instruction_invariant
begin

lemma keep_caller:
  "P g \<Longrightarrow> P (DSP_WriteMailBoxHigh b v g)"
  "P g \<Longrightarrow> P (DSP_WriteMailBoxLow b v g)"
  "P g \<Longrightarrow> P (snd (DSP_ReadMailBoxLow b g))"
  "P g \<Longrightarrow> P (snd (DSP_ReadControlRegister g))"
  "P g \<Longrightarrow> P (DSPCore_WriteRegister r v g)"
  by (simp_all add: DSP_WriteMailBoxHigh_def DSP_WriteMailBoxLow_def DSP_ReadMailBoxLow_def
      DSP_ReadControlRegister_def DSPCore_WriteRegister_def keep_mail keep_ReadCR fields)

lemma keep_engine_step:
  "engine_step g g' \<Longrightarrow> P g \<Longrightarrow> Interpreter_Step g = Inr g' \<or> P g'"
  by (auto elim!: engine_stepE simp: keep_caller ram dest: keep_WriteControlRegister)
    (metis keep_caller(3,4) snd_conv)+

end

lemma sound_step: "engine_step g g' \<Longrightarrow> sound g \<Longrightarrow> sound g'"
  using back_log.keep_engine_step [of g g' 0] stacks.keep_engine_step [of g g'] Step_sound [of g]
  by (auto simp: sound_def)

lemma reachable_sound: "engine_reachable g \<Longrightarrow> sound g"
  by (induction rule: engine_reachable.induct) (blast intro: sound_init sound_step)+

lemma reachable_step_n:
  "engine_reachable g \<Longrightarrow> step_n n g = Inr g' \<Longrightarrow> engine_reachable g'"
  by (induction n arbitrary: g) (auto simp: bind_res_Inr intro: er_step es_instruction)

text \<open>An engine with empty ROMs, whose owner ignores the warning about them.\<close>

definition dsp_booted :: dsp where
  "dsp_booted = snd (snd (DSPLLE_Initialize False (Some (replicate 0x2000 0)) (Some (replicate 0x1000 0))
     False (\<lambda>_. 0) (\<lparr>m_wii = False, m_is_dsp_on_thread = False, s_request_disable_thread = False\<rparr>,
       dsp_zero)))"

lemma booted_reachable: "engine_reachable dsp_booted"
proof -
  have "fst (DSPLLE_Initialize False (Some (replicate 0x2000 0)) (Some (replicate 0x1000 0)) False
      (\<lambda>_. 0) (l, g))" for l g
    by (simp add: DSPLLE_Initialize_def FillDSPInitOptions_def LoadDSPRom_def DSP_IROM_SIZE_def
        DSP_COEF_SIZE_def DSPCore_Init_def VerifyRoms_def Let_def)
  then show ?thesis
    unfolding dsp_booted_def
    by (intro er_init [where g = dsp_zero])
      (auto simp: prod_eq_iff dsp_zero_def WRITEBACK_LOG_SIZE_def)
qed



text \<open>C2: the state between two instructions is well-formed.\<close>

theorem engine_invariant:
  assumes "engine_reachable g"
  shows "writeBackLogIdx g = replicate WRITEBACK_LOG_SIZE (- 1)
    \<and> length (writeBackLog g) = WRITEBACK_LOG_SIZE
    \<and> unat (reg_stack_ptr g k) < DSP_STACK_DEPTH
    \<and> GetOpTemplate opc g = Some (op_entry opc)
    \<and> GetExtOpTemplate opc g \<noteq> None"
  using reachable_sound [OF assms] GetExtOpTemplate_ready [of g opc]
  by (auto simp: sound_def stacks_ok_def logged_def stack_ptr_ok_def GetOpTemplate_ready)

theorem engine_invariant_witness:
  "engine_reachable dsp_booted \<and> unat (reg_stack_ptr dsp_booted 0) < 0x20
   \<and> GetOpTemplate 0x8100 dsp_booted = Some (op_entry 0x8100)"
  using booted_reachable engine_invariant [OF booted_reachable, of 0 "0x8100"] by simp

text \<open>C28: the nested loops of a run are one rule of stopping.  A run is the number of instructions after which
  the rule first holds, or less when one of them faults: the cycles are used up; or the core is halted
  before one of the first 8 instructions, or of the first 8 of every round of 208 behind them; or, in the
  rounds, it stands at such a point in an idle loop.\<close>

theorem run_refines_steps:
  "\<exists>n. Interpreter_RunCycles cycles g = run_result (step_n n g)
     \<and> (\<forall>k<n. \<exists>h. step_n k g = Inr h \<and> \<not> run_ends cycles 0 k h)
     \<and> (\<forall>h. step_n n g = Inr h \<longrightarrow> run_ends cycles 0 n h)"
  using run_cycles_from_rule [of 0 cycles g] by (simp add: Interpreter_RunCycles_def phase_at_def)

theorem run_refines_steps_witness:
  "Interpreter_RunCycles 3 (dsp_zero\<lparr>g_cr := CR_HALT\<rparr>) = Inr (0, dsp_zero\<lparr>g_cr := CR_HALT\<rparr>)"
proof -
  have "run_ends 3 0 0 (dsp_zero\<lparr>g_cr := CR_HALT\<rparr>)"
    by (simp add: run_ends_def halt_checked_def halted_def)
  then have n: "\<not> 0 < n" if "\<forall>k<n. \<exists>h. step_n k (dsp_zero\<lparr>g_cr := CR_HALT\<rparr>) = Inr h \<and> \<not> run_ends 3 0 k h" for n
    using that by auto
  obtain n where "Interpreter_RunCycles 3 (dsp_zero\<lparr>g_cr := CR_HALT\<rparr>) = run_result (step_n n (dsp_zero\<lparr>g_cr := CR_HALT\<rparr>))"
    "\<not> 0 < n"
    using run_refines_steps [of 3 "dsp_zero\<lparr>g_cr := CR_HALT\<rparr>"] n by blast
  then show ?thesis by simp
qed

text \<open>A run that is not stopped by one of the four faults of the DMA engine returns no cycles, keeps
  the engine reachable, so well-formed, and executes at most one
  instruction more than it was given cycles.\<close>

theorem run_bounded:
  assumes "engine_reachable g"
  shows "case Interpreter_RunCycles cycles g of
      Inl e \<Rightarrow> e \<in> {DmaLengthExit, HostUnmapped, IramOverrun, DramOverrun}
    | Inr (c, g') \<Rightarrow> c = 0 \<and> engine_reachable g'
        \<and> (\<exists>n \<le> Suc (nat cycles). step_counter g' = step_counter g + of_nat n)"
proof -
  obtain n where n: "n \<le> Suc (nat cycles)" "Interpreter_RunCycles cycles g = run_result (step_n n g)"
    using run_cycles_from_steps [of cycles "Startup 0" g] by (auto simp: Interpreter_RunCycles_def)
  show ?thesis
    using step_n_sound [OF reachable_sound [OF assms], of n] reachable_step_n [OF assms, of n] n(1)
    unfolding n(2) by (cases "step_n n g") (auto simp: dma_faults_def)
qed

theorem run_bounded_witness:
  "engine_reachable dsp_booted
   \<and> (case Interpreter_RunCycles 100 dsp_booted of
        Inl e \<Rightarrow> e \<in> {DmaLengthExit, HostUnmapped, IramOverrun, DramOverrun}
      | Inr (c, g') \<Rightarrow> c = 0 \<and> engine_reachable g'
          \<and> (\<exists>n \<le> Suc (nat 100). step_counter g' = step_counter dsp_booted + of_nat n))"
  using booted_reachable run_bounded [OF booted_reachable, of 100] by (rule conjI)

text \<open>Without breakpoints the debugging run is the plain one; with them it stops on one.\<close>

theorem debug_run:
  "RunCyclesDebug (\<lambda>_. False) cycles g = Interpreter_RunCycles cycles g
   \<and> (RunCyclesDebug bp cycles g = Inr (c, g') \<and> c \<noteq> 0 \<longrightarrow> bp (g_pc g') \<and> core_state g' = Stepping)"
  unfolding RunCyclesDebug_def Interpreter_RunCycles_def
  using debug_from_no_breakpoint debug_from_breakpoint by blast

theorem debug_run_witness:
  "RunCyclesDebug (\<lambda>a. a = 0) 5 dsp_zero = Inr (5, DSPCore_SetState Stepping dsp_zero)
   \<and> (\<lambda>a. a = 0) (g_pc (DSPCore_SetState Stepping dsp_zero))"
proof -
  have stop: "RunCyclesDebug (\<lambda>a. a = 0) 5 dsp_zero = Inr (5, DSPCore_SetState Stepping dsp_zero)"
    by (simp add: RunCyclesDebug_def run_cycles_debug_from.simps halted_def dsp_zero_def)
  then show ?thesis
    using debug_run [of 5 dsp_zero "\<lambda>a. a = 0" 5 "DSPCore_SetState Stepping dsp_zero"] by simp
qed

end
