(* ===== verification/DSP_Control.thy ===== *)
theory DSP_Control
  imports DSP_Interpreter
begin

text \<open>
  Control flow: a call and its return, an exception and its return, and the hardware loop, which
  is stated for any body that reaches the end of the loop with the loop stacks as it found them.
\<close>

section \<open>The stacks seen one by one\<close>

lemma stack_view_other [simp]:
  "j \<noteq> k \<Longrightarrow> stack_view j (dsp_reg_store_stack k v g) = stack_view j g"
  "j \<noteq> k \<Longrightarrow> stack_view j (snd (dsp_reg_load_stack k g)) = stack_view j g"
  by (simp_all add: stack_view_def dsp_reg_store_stack_def dsp_reg_load_stack_def
      dsp_reg_stack_push_def dsp_reg_stack_pop_def Let_def)

lemma stack_view_fields [simp]:
  "stack_view j (g\<lparr>g_pc := a\<rparr>) = stack_view j g"
  "stack_view j (g\<lparr>g_exceptions := e\<rparr>) = stack_view j g"
  "reg_st r = dsp_st g \<Longrightarrow> stack_view j (g\<lparr>g_r := r\<rparr>) = stack_view j g"
  by (simp_all add: stack_view_def)

lemma stack_view_pop_other [simp]:
  "reg_st r = dsp_st g \<Longrightarrow> stack_view k (snd (dsp_reg_load_stack k (g\<lparr>g_r := r\<rparr>)))
     = stack_view k (snd (dsp_reg_load_stack k g))"
  "j \<noteq> k \<Longrightarrow> stack_view k (snd (dsp_reg_load_stack k (snd (dsp_reg_load_stack j g))))
     = stack_view k (snd (dsp_reg_load_stack k g))"
  by (simp_all add: stack_view_def dsp_reg_load_stack_def dsp_reg_stack_pop_def Let_def)

lemma stack_ptr_ok_fields [simp]:
  "stack_ptr_ok j (g\<lparr>g_pc := a\<rparr>) = stack_ptr_ok j g"
  "stack_ptr_ok j (g\<lparr>g_exceptions := e\<rparr>) = stack_ptr_ok j g"
  "stack_ptr_ok j (g\<lparr>g_r := r\<rparr>) = stack_ptr_ok j g"
  by (simp_all add: stack_ptr_ok_def)

lemma stack_fields [simp]:
  "g_pc (dsp_reg_store_stack k v g) = g_pc g"
  "g_pc (snd (dsp_reg_load_stack k g)) = g_pc g"
  "dsp_sr (dsp_reg_store_stack k v g) = dsp_sr g"
  "dsp_sr (snd (dsp_reg_load_stack k g)) = dsp_sr g"
  "g_exceptions (dsp_reg_store_stack k v g) = g_exceptions g"
  "g_exceptions (snd (dsp_reg_load_stack k g)) = g_exceptions g"
  by (simp_all add: dsp_reg_store_stack_def dsp_reg_load_stack_def dsp_reg_stack_push_def
      dsp_reg_stack_pop_def Let_def)

lemma dsp_st_stack:
  "dsp_st (dsp_reg_store_stack k v g) j = (if j = k then v else dsp_st g j)"
  "j \<noteq> k \<Longrightarrow> dsp_st (snd (dsp_reg_load_stack k g)) j = dsp_st g j"
  "fst (dsp_reg_load_stack k g) = dsp_st g k"
  by (simp_all add: dsp_reg_store_stack_def dsp_reg_load_stack_def dsp_reg_stack_push_def
      dsp_reg_stack_pop_def Let_def)

text \<open>A pop after a push gives the old top back.\<close>

lemma top_after_pop_push:
  assumes "stack_ptr_ok k g"
  shows "dsp_st (snd (dsp_reg_load_stack k (dsp_reg_store_stack k v g))) k = dsp_st g k"
proof -
  have "butlast (stack_view k (snd (dsp_reg_load_stack k (dsp_reg_store_stack k v g))))
      = butlast (stack_view k g)"
    using assms by (rule dsp_stack.pop_push(2))
  then have "hd (butlast (stack_view k (snd (dsp_reg_load_stack k (dsp_reg_store_stack k v g)))))
      = hd (butlast (stack_view k g))"
    by simp
  then show ?thesis
    by (simp add: stack_view_def)
qed

section \<open>Calls\<close>


lemma CheckCondition_sr: "dsp_sr h = dsp_sr g \<Longrightarrow> CheckCondition c h = CheckCondition c g"
  by (simp add: CheckCondition_def IsLess_def IsZero_def IsCarry_def IsOverS32_def IsConditionA_def
      IsLogicZero_def IsOverflow_def)

text \<open>The stacks \<open>k\<close> of two states agree on their upper \<open>n\<close> entries.\<close>

definition same_top :: "nat \<Rightarrow> nat \<Rightarrow> dsp \<Rightarrow> dsp \<Rightarrow> bool" where
  "same_top n k h g \<longleftrightarrow> take n (stack_view k h) = take n (stack_view k g)"

lemma same_top_refl [simp]: "same_top n k g g"
  by (simp add: same_top_def)

lemma same_top_trans: "same_top n k h i \<Longrightarrow> same_top n k i g \<Longrightarrow> same_top n k h g"
  by (simp add: same_top_def)

lemma take_view_push:
  assumes "stack_ptr_ok k g" and "n \<le> 32"
  shows "take (Suc n) (stack_view k (dsp_reg_store_stack k v g)) = v # take n (stack_view k g)"
  using assms by (simp add: stack_view_push butlast_conv_take length_stack_view)

lemma take_view_pop:
  assumes "stack_ptr_ok k g" and "n \<le> 32"
  shows "take n (stack_view k (snd (dsp_reg_load_stack k g))) = take n (tl (stack_view k g))"
proof -
  have "take n (stack_view k (snd (dsp_reg_load_stack k g)))
      = take n (butlast (stack_view k (snd (dsp_reg_load_stack k g))))"
    using assms(2) by (simp add: butlast_conv_take length_stack_view)
  then show ?thesis
    using assms(1) by (simp add: stack_view_pop)
qed

lemma hd_stack_view: "hd (stack_view k g) = dsp_st g k"
  by (simp add: stack_view_def)

text \<open>What the stack gives back to code that kept its upper entries.\<close>

lemma pop_after:
  assumes "stack_ptr_ok k g" and "stack_ptr_ok k h" and "n \<le> 32"
    and "same_top (Suc n) k h (dsp_reg_store_stack k v g)"
  shows "dsp_st h k = v" and "same_top n k (snd (dsp_reg_load_stack k h)) g"
proof -
  have eq: "take (Suc n) (stack_view k h) = v # take n (stack_view k g)"
    using assms by (simp add: same_top_def take_view_push)
  then show "dsp_st h k = v"
    by (simp add: stack_view_def)
  have "take n (tl (stack_view k h)) = take n (stack_view k g)"
    using arg_cong [OF eq, of tl] by (simp add: tl_take)
  then show "same_top n k (snd (dsp_reg_load_stack k h)) g"
    using assms(2,3) by (simp add: same_top_def take_view_pop)
qed

lemma same_top_fields [simp]:
  "same_top n k (h\<lparr>g_pc := a\<rparr>) g = same_top n k h g"
  "same_top n k h (g\<lparr>g_pc := a\<rparr>) = same_top n k h g"
  "same_top n k h (g\<lparr>g_exceptions := e\<rparr>) = same_top n k h g"
  "reg_st r = dsp_st g \<Longrightarrow> same_top n k h (g\<lparr>g_r := r\<rparr>) = same_top n k h g"
  "reg_st r = dsp_st h \<Longrightarrow> same_top n k (h\<lparr>g_r := r\<rparr>) g = same_top n k h g"
  by (simp_all add: same_top_def)

lemma same_top_other [simp]:
  "j \<noteq> k \<Longrightarrow> same_top n j (snd (dsp_reg_load_stack k h)) g = same_top n j h g"
  "j \<noteq> k \<Longrightarrow> same_top n j h (dsp_reg_store_stack k v g) = same_top n j h g"
  by (simp_all add: same_top_def)

text \<open>A call jumps to its operand, and a return after it continues behind the call.\<close>

theorem call_return:
  assumes "stack_ptr_ok 0 g" and "CheckCondition (call_op AND 0xf) g"
    and "stack_ptr_ok 0 h" and "CheckCondition (ret_op AND 0xf) h"
    and "n \<le> 32" and "same_top (Suc n) 0 h (Interpreter_call call_op g)"
  shows "g_pc (Interpreter_call call_op g) = dsp_imem_read (g_pc g) g
    \<and> g_pc (Interpreter_ret ret_op h) = g_pc g + 1
    \<and> same_top n 0 (Interpreter_ret ret_op h) g"
proof -
  let ?g = "g\<lparr>g_pc := g_pc g + 1\<rparr>"
  have call: "Interpreter_call call_op g =
      (dsp_reg_store_stack 0 (g_pc g + 1) ?g)\<lparr>g_pc := dsp_imem_read (g_pc g) g\<rparr>"
    using assms(2) CheckCondition_sr [of ?g g]
    by (simp add: Interpreter_call_def dsp_fetch_code_def Let_def)
  have top: "same_top (Suc n) 0 h (dsp_reg_store_stack 0 (g_pc g + 1) ?g)"
    using assms(6) by (simp add: call)
  have ret: "Interpreter_ret ret_op h = (snd (dsp_reg_load_stack 0 h))\<lparr>g_pc := dsp_st h 0\<rparr>"
    using assms(4) by (simp add: Interpreter_ret_def dsp_st_stack case_prod_beta)
  show ?thesis
    using pop_after [of 0 ?g h n "g_pc g + 1", OF _ assms(3,5) top] assms(1) by (simp add: call ret)
qed

theorem call_return_witness:
  "g_pc (Interpreter_ret 0xf (Interpreter_call 0xf dsp_zero)) = 1"
proof -
  let ?h = "Interpreter_call 0xf dsp_zero"
  have "stack_ptr_ok 0 dsp_zero"
    by (simp add: stack_ptr_ok_def dsp_zero_def)
  then have "stack_ptr_ok 0 ?h"
    by (simp add: Interpreter_call_def CheckCondition_def dsp_fetch_code_def Let_def)
  then show ?thesis
    using call_return [of dsp_zero "0xf" ?h "0xf" 32] \<open>stack_ptr_ok 0 dsp_zero\<close>
    by (simp add: CheckCondition_def dsp_zero_def)
qed

section \<open>Exceptions\<close>

text \<open>The exceptions the core accepts: all of them, or only the external interrupt.\<close>

definition acceptable :: "dsp \<Rightarrow> nat \<Rightarrow> bool" where
  "acceptable g i \<longleftrightarrow> bit (g_exceptions g) i \<and> 0 < i \<and> (bit (dsp_sr g) 9 \<or> i = 7)"

lemma exception_bit: "g_exceptions g AND push_bit i 1 \<noteq> 0 \<longleftrightarrow> bit (g_exceptions g) i"
  using and_exp_zero [of "g_exceptions g" i] by (simp add: push_bit_eq_mult)

lemma check_exceptions_from_Suc:
  "check_exceptions_from (Suc i) g =
     (if acceptable g (Suc i) then fire_exception (Suc i) g else check_exceptions_from i g)"
  unfolding check_exceptions_from.simps exception_bit by (simp add: acceptable_def dsp_SR_is_flag_set_def)

lemma check_exceptions_from_fires:
  "i \<le> n \<Longrightarrow> acceptable g i \<Longrightarrow> (\<forall>j. i < j \<and> j \<le> n \<longrightarrow> \<not> acceptable g j) \<Longrightarrow>
     check_exceptions_from n g = fire_exception i g"
proof (induction n)
  case 0
  then show ?case by (simp add: acceptable_def)
next
  case (Suc n)
  then show ?case
    by (cases "i = Suc n") (simp_all add: check_exceptions_from_Suc del: check_exceptions_from.simps)
qed

lemma check_exceptions_from_none:
  "(\<forall>j. j \<le> n \<longrightarrow> \<not> acceptable g j) \<Longrightarrow> check_exceptions_from n g = g"
  by (induction n) (simp_all add: check_exceptions_from_Suc del: check_exceptions_from.simps(2))

text \<open>C32: of the pending exceptions the highest acceptable one is taken, at twice its number, with its
  enable bit cleared; returning from it restores the program counter and the status register.\<close>

theorem exception_return:
  assumes "acceptable g i" and "i \<le> 7" and "\<forall>j. i < j \<and> j \<le> 7 \<longrightarrow> \<not> acceptable g j"
    and "\<forall>k. stack_ptr_ok k g" and "\<forall>k. stack_ptr_ok k h" and "n \<le> 32"
    and "\<forall>k. same_top (Suc n) k h (DSPCore_CheckExceptions g)"
  shows "g_pc (DSPCore_CheckExceptions g) = of_nat (2 * i)
    \<and> \<not> bit (g_exceptions (DSPCore_CheckExceptions g)) i
    \<and> dsp_sr (DSPCore_CheckExceptions g) =
        dsp_sr g AND NOT (if i = 7 then SR_EXT_INT_ENABLE else SR_INT_ENABLE)
    \<and> g_pc (Interpreter_rti op h) = g_pc g \<and> dsp_sr (Interpreter_rti op h) = dsp_sr g
    \<and> (\<forall>k < 2. same_top n k (Interpreter_rti op h) g)"
proof -
  have "g_exceptions g \<noteq> 0"
    using assms(1) by (auto simp: acceptable_def)
  then have fire: "DSPCore_CheckExceptions g = fire_exception i g"
    using check_exceptions_from_fires [OF assms(2,1,3)] by (simp add: DSPCore_CheckExceptions_def)
  let ?g1 = "dsp_reg_store_stack 0 (g_pc g) g"
  have "same_top (Suc n) 0 h (fire_exception i g)" and "same_top (Suc n) 1 h (fire_exception i g)"
    using assms(7) fire by simp_all
  then have t0: "same_top (Suc n) 0 h ?g1" and t1: "same_top (Suc n) 1 h (dsp_reg_store_stack 1 (dsp_sr g) ?g1)"
    by (simp_all add: fire_exception_def Let_def split: if_splits)
  have p0: "dsp_st h 0 = g_pc g" "same_top n 0 (snd (dsp_reg_load_stack 0 h)) g"
    using pop_after [OF _ _ assms(6) t0] assms(4,5) by auto
  have p1: "dsp_st h 1 = dsp_sr g" "same_top n 1 (snd (dsp_reg_load_stack 1 h)) g"
    using pop_after [OF _ _ assms(6) t1] assms(4,5) by (auto simp: same_top_def)
  have k: "k = 0 \<or> k = 1" if "k < 2" for k :: nat
    using that by auto
  show ?thesis
    using p0 p1 unfolding fire
    by (auto simp: fire_exception_def Interpreter_rti_def Let_def case_prod_beta dsp_st_stack
        bit_simps mult.commute same_top_def dest!: k)
qed

theorem exception_return_witness:
  "g_pc (DSPCore_CheckExceptions (dsp_zero\<lparr>g_exceptions := 0x80\<rparr>)) = 14
   \<and> g_pc (Interpreter_rti 0 (DSPCore_CheckExceptions (dsp_zero\<lparr>g_exceptions := 0x80\<rparr>))) = 0"
proof -
  let ?g = "dsp_zero\<lparr>g_exceptions := 0x80\<rparr>"
  have bits: "bit (0x80 :: u8) 7"
    using bit_exp_iff [of 7 7, where 'a = u8] by simp
  have "acceptable ?g 7"
    using bits by (simp add: acceptable_def)
  moreover have "\<forall>j. 7 < j \<and> j \<le> 7 \<longrightarrow> \<not> acceptable ?g j"
    by auto
  moreover have ok: "\<forall>k. stack_ptr_ok k ?g"
    by (simp add: stack_ptr_ok_def dsp_zero_def)
  moreover have "\<forall>k. stack_ptr_ok k (DSPCore_CheckExceptions ?g)"
    using ok by (simp add: DSPCore_CheckExceptions_def check_exceptions_from_fires [of 7 7 ?g]
        calculation fire_exception_def Let_def)
  ultimately show ?thesis
    using exception_return [of ?g 7 "DSPCore_CheckExceptions ?g" 32 0] by (simp add: dsp_zero_def)
qed

section \<open>Hardware loops\<close>

text \<open>
  One pass of a hardware loop: its body up to and including the last instruction, then
  \<open>HandleLoop\<close>, as \<open>Interpreter_Step\<close> calls it at a loop end.
\<close>

definition loop_pass :: "(dsp \<Rightarrow> dsp) \<Rightarrow> dsp \<Rightarrow> dsp" where
  "loop_pass body g = HandleLoop (body g)"

text \<open>A body that runs from \<open>start\<close> to behind \<open>fin\<close> and leaves the loop stacks as they were.\<close>

definition loop_body :: "u16 \<Rightarrow> u16 \<Rightarrow> (dsp \<Rightarrow> dsp) \<Rightarrow> bool" where
  "loop_body start fin body \<longleftrightarrow>
     (\<forall>g. g_pc g = start \<longrightarrow> g_pc (body g) = fin + 1 \<and>
        (\<forall>k \<in> {0, 2, 3}. stack_view k (body g) = stack_view k g
           \<and> (stack_ptr_ok k g \<longrightarrow> stack_ptr_ok k (body g))))"

text \<open>The stacks of a loop that has \<open>c\<close> passes to go; \<open>g\<close> is the state before it.\<close>

definition in_loop :: "u16 \<Rightarrow> u16 \<Rightarrow> u16 \<Rightarrow> dsp \<Rightarrow> dsp \<Rightarrow> bool" where
  "in_loop start fin c g h \<longleftrightarrow>
     stack_ptr_ok 0 h \<and> stack_ptr_ok 2 h \<and> stack_ptr_ok 3 h
     \<and> stack_view 0 h = start # butlast (stack_view 0 g)
     \<and> stack_view 2 h = fin # butlast (stack_view 2 g)
     \<and> stack_view 3 h = c # butlast (stack_view 3 g)"

lemma in_loop_tops:
  "in_loop start fin c g h \<Longrightarrow> dsp_st h 0 = start \<and> dsp_st h 2 = fin \<and> dsp_st h 3 = c"
  by (simp add: in_loop_def stack_view_def)

lemma in_loop_pop:
  assumes "stack_ptr_ok k h" and "stack_view k h = v # butlast (stack_view k g)"
  shows "same_top 32 k (snd (dsp_reg_load_stack k h)) g"
  using assms by (simp add: same_top_def take_view_pop butlast_conv_take length_stack_view)

lemma stack_view_set_st:
  "stack_view k (set_st j v g) = (if k = j then v # tl (stack_view k g) else stack_view k g)"
  by (simp add: stack_view_def)

lemma uint_pred_succ: "(a :: u16) \<noteq> 0xFFFF \<Longrightarrow> uint (a + 1) - 1 = uint a"
proof -
  assume "a \<noteq> 0xFFFF"
  then have "uint a \<noteq> 65535"
    using word_uint_eq_iff [of a "0xFFFF"] by simp
  with uint_lt2p [of a] have "uint a + 1 < 65536"
    by simp
  then show ?thesis
    using uint_nonnegative [of a] by (simp add: uint_word_ariths)
qed

lemma HandleLoop_again:
  assumes "in_loop start fin c g h" and "g_pc h = fin + 1" and "fin \<noteq> 0" and "fin \<noteq> 0xFFFF"
    and "1 < c"
  shows "g_pc (HandleLoop h) = start \<and> in_loop start fin (c - 1) g (HandleLoop h)"
proof -
  have "fin > 0" "c > 0" "c - 1 > 0"
    using assms(3,5) by (auto simp: word_gt_0)
  then have "HandleLoop h = (set_st 3 (c - 1) h)\<lparr>g_pc := start\<rparr>"
    using in_loop_tops [OF assms(1)] assms(2) uint_pred_succ [OF assms(4)]
    by (simp add: HandleLoop_def)
  with assms(1) show ?thesis
    by (simp add: in_loop_def stack_view_set_st)
qed

lemma HandleLoop_done:
  assumes "in_loop start fin 1 g h" and "g_pc h = fin + 1" and "fin \<noteq> 0" and "fin \<noteq> 0xFFFF"
  shows "g_pc (HandleLoop h) = fin + 1 \<and> (\<forall>k \<in> {0, 2, 3}. same_top 32 k (HandleLoop h) g)"
proof -
  let ?h0 = "set_st 3 0 h"
  let ?h1 = "snd (dsp_reg_load_stack 0 ?h0)"
  let ?h2 = "snd (dsp_reg_load_stack 2 ?h1)"
  have "fin > 0"
    using assms(3) by (simp add: word_gt_0)
  then have eq: "HandleLoop h = snd (dsp_reg_load_stack 3 ?h2)"
    using in_loop_tops [OF assms(1)] assms(2) uint_pred_succ [OF assms(4)]
    by (simp add: HandleLoop_def Let_def case_prod_beta)
  have ok: "stack_ptr_ok 0 h" "stack_ptr_ok 2 h" "stack_ptr_ok 3 h"
    using assms(1) by (auto simp: in_loop_def)
  have "same_top 32 0 ?h1 g"
    using assms(1) ok by (intro in_loop_pop) (auto simp: in_loop_def stack_view_set_st)
  moreover have "same_top 32 2 ?h2 g"
    using assms(1) ok by (intro in_loop_pop) (auto simp: in_loop_def stack_view_set_st)
  moreover have "same_top 32 3 (snd (dsp_reg_load_stack 3 ?h2)) g"
    using assms(1) ok by (intro in_loop_pop) (auto simp: in_loop_def stack_view_set_st)
  ultimately show ?thesis
    using assms(2) unfolding eq by simp
qed

lemma in_loop_start:
  assumes "\<forall>k. stack_ptr_ok k g"
  shows "in_loop (g_pc g) fin c g (push_loop fin c g)"
  using assms by (simp add: in_loop_def push_loop_def Let_def stack_view_push)

lemma in_loop_body:
  assumes "loop_body start fin body" and "g_pc h = start" and "in_loop start fin c g h"
  shows "g_pc (body h) = fin + 1 \<and> in_loop start fin c g (body h)"
  using assms by (auto simp: loop_body_def in_loop_def)

lemma unat_minus_of_nat:
  assumes "k \<le> unat (c :: 'a::len word)"
  shows "unat (c - of_nat k) = unat c - k"
proof -
  have k: "unat (of_nat k :: 'a word) = k"
    using le_less_trans [OF assms unsigned_less] by (simp add: unat_of_nat)
  with assms have "(of_nat k :: 'a word) \<le> c"
    by (simp add: word_le_nat_alt)
  then show ?thesis
    by (simp add: unat_sub k)
qed

lemma passes_left:
  assumes "loop_body (g_pc g) fin body" and "\<forall>k. stack_ptr_ok k g" and "fin \<noteq> 0" and "fin \<noteq> 0xFFFF"
    and "k < unat c"
  shows "g_pc ((loop_pass body ^^ k) (push_loop fin c g)) = g_pc g
    \<and> in_loop (g_pc g) fin (c - of_nat k) g ((loop_pass body ^^ k) (push_loop fin c g))"
  using assms(5)
proof (induction k)
  case 0
  then show ?case
    using in_loop_start [OF assms(2)] by (simp add: push_loop_def Let_def)
next
  case (Suc k)
  let ?h = "(loop_pass body ^^ k) (push_loop fin c g)"
  have "unat (c - of_nat k) = unat c - k"
    using Suc.prems by (simp add: unat_minus_of_nat)
  then have "1 < c - of_nat k"
    using Suc.prems by (simp add: word_less_nat_alt)
  moreover have "g_pc (body ?h) = fin + 1 \<and> in_loop (g_pc g) fin (c - of_nat k) g (body ?h)"
    using Suc by (intro in_loop_body [OF assms(1)]) simp_all
  moreover have "c - of_nat (Suc k) = c - of_nat k - 1"
    by (simp add: algebra_simps)
  moreover have "(loop_pass body ^^ Suc k) (push_loop fin c g) = HandleLoop (body ?h)"
    by (simp add: loop_pass_def [of body ?h])
  ultimately show ?case
    using HandleLoop_again [OF _ _ assms(3,4), of "g_pc g" "c - of_nat k" g "body ?h"]
    by (simp only: simp_thms)
qed

text \<open>C25: a loop with count c runs its body c times, from its start each time, and leaves the
  loop stacks as it found them.\<close>

theorem hardware_loop:
  assumes "loop_body (g_pc g) fin body" and "\<forall>k. stack_ptr_ok k g" and "fin \<noteq> 0" and "fin \<noteq> 0xFFFF"
    and "c \<noteq> 0"
  shows "(\<forall>k < unat c. g_pc ((loop_pass body ^^ k) (push_loop fin c g)) = g_pc g)
    \<and> g_pc ((loop_pass body ^^ unat c) (push_loop fin c g)) = fin + 1
    \<and> (\<forall>k \<in> {0, 2, 3}. same_top 32 k ((loop_pass body ^^ unat c) (push_loop fin c g)) g)"
proof -
  obtain m where m: "unat c = Suc m"
    using assms(5) by (metis not0_implies_Suc unat_eq_zero)
  let ?h = "(loop_pass body ^^ m) (push_loop fin c g)"
  have left: "g_pc ((loop_pass body ^^ k) (push_loop fin c g)) = g_pc g" if "k < unat c" for k
    using passes_left [OF assms(1-4) that] by simp
  have "c - of_nat m = 1"
    using m by (simp add: word_unat_eq_iff unat_minus_of_nat)
  then have "g_pc (body ?h) = fin + 1 \<and> in_loop (g_pc g) fin 1 g (body ?h)"
    using passes_left [OF assms(1-4), of m c] m by (intro in_loop_body [OF assms(1)]) simp_all
  with HandleLoop_done [OF _ _ assms(3,4), of "g_pc g" g "body ?h"] left show ?thesis
    by (simp add: m loop_pass_def [of body ?h])
qed

theorem hardware_loop_witness:
  "g_pc ((loop_pass (\<lambda>g. g\<lparr>g_pc := 0x21\<rparr>) ^^ 3) (push_loop 0x20 3 (dsp_zero\<lparr>g_pc := 0x10\<rparr>))) = 0x21
   \<and> g_pc ((loop_pass (\<lambda>g. g\<lparr>g_pc := 0x21\<rparr>) ^^ 2) (push_loop 0x20 3 (dsp_zero\<lparr>g_pc := 0x10\<rparr>))) = 0x10"
proof -
  let ?g = "dsp_zero\<lparr>g_pc := 0x10\<rparr>"
  have "loop_body (g_pc ?g) 0x20 (\<lambda>g. g\<lparr>g_pc := 0x21\<rparr>)"
    by (simp add: loop_body_def)
  moreover have "\<forall>k. stack_ptr_ok k ?g"
    by (simp add: stack_ptr_ok_def dsp_zero_def)
  ultimately show ?thesis
    using hardware_loop [of ?g "0x20" "\<lambda>g. g\<lparr>g_pc := 0x21\<rparr>" 3] by simp
qed

text \<open>The loop instructions start the loop they name, and skip its body when the count is 0.\<close>

theorem loop_instructions:
  assumes "tables_ready g"
  shows "Interpreter_loopi op g =
      (if op AND 0xff = 0 then Inr (g\<lparr>g_pc := g_pc g + inst_size (g_pc g) g\<rparr>)
       else Inr (push_loop (g_pc g) (op AND 0xff) g))
    \<and> Interpreter_bloopi op g =
      (let last = dsp_imem_read (g_pc g) g
       in if op AND 0xff = 0 then Inr (g\<lparr>g_pc := last + inst_size last g\<rparr>)
          else Inr (push_loop last (op AND 0xff) (g\<lparr>g_pc := g_pc g + 1\<rparr>)))"
proof -
  have "tables_ready (g\<lparr>g_pc := a\<rparr>)" "inst_size b (g\<lparr>g_pc := a\<rparr>) = inst_size b g" for a b
    using assms by (simp_all add: tables_ready_def inst_size_def dsp_imem_read_def)
  with assms show ?thesis
    by (simp add: Interpreter_loopi_def Interpreter_bloopi_def dsp_fetch_code_def Let_def
        dsp_skip_inst_ready)
qed

theorem loop_instructions_witness:
  "Interpreter_loopi 0x1003 (InitInstructionTable dsp_zero)
     = Inr (push_loop (g_pc (InitInstructionTable dsp_zero)) 3 (InitInstructionTable dsp_zero))"
  using loop_instructions [OF tables_ready_Init, of "0x1003" dsp_zero] by simp

end
