(* ===== verification/DSP_ALU.thy ===== *)
theory DSP_ALU
  imports DSP_Interpreter
begin

text \<open>
  What the arithmetic of the accumulators computes: two's complement arithmetic on 40 bits, with
  the flags of a 40-bit adder.  The interpreter keeps an accumulator in 64 bits and tests carry
  and overflow there; the lemmas show that both tests agree with the 40-bit ones.
\<close>

section \<open>40-bit values\<close>

definition s40 :: "int \<Rightarrow> int" where "s40 k = (k + 2 ^ 39) mod 2 ^ 40 - 2 ^ 39"

definition in_s40 :: "int \<Rightarrow> bool" where "in_s40 k \<longleftrightarrow> - (2 ^ 39) \<le> k \<and> k < 2 ^ 39"

lemma s40_range: "in_s40 (s40 k)"
proof -
  have "0 \<le> (k + 2 ^ 39) mod 2 ^ 40" "(k + 2 ^ 39) mod 2 ^ 40 < 2 ^ 40"
    by simp_all
  then show ?thesis
    by (simp add: in_s40_def s40_def)
qed

lemma s40_self: "in_s40 k \<Longrightarrow> s40 k = k"
  by (simp add: in_s40_def s40_def)

lemma s40_id_iff: "s40 k = k \<longleftrightarrow> in_s40 k"
  using s40_range s40_self by metis

lemma s40_mod: "s40 k mod 2 ^ 40 = k mod 2 ^ 40"
  unfolding s40_def by (simp add: mod_diff_left_eq)

lemma s40_cong: "k mod 2 ^ 40 = l mod 2 ^ 40 \<Longrightarrow> s40 k = s40 l"
  unfolding s40_def by (metis mod_add_left_eq)

lemma signed_take_bit_39: "signed_take_bit 39 k = s40 k"
  by (simp add: signed_take_bit_eq_take_bit_shift take_bit_eq_mod s40_def)

lemma sint_convert: "sint (dsp_convert_long_acc v) = s40 (sint v)"
  unfolding signed_take_bit_39 [symmetric]
proof (rule bit_eqI)
  fix n :: nat
  consider "n < 39" | "n = 39" | "40 \<le> n"
    by linarith
  then show "bit (sint (dsp_convert_long_acc v)) n = bit (signed_take_bit 39 (sint v)) n"
    by cases (auto simp: dsp_convert_long_acc_def bit_sint_iff bit_signed_take_bit_iff
        bit_signed_drop_bit_iff bit_push_bit_iff min_def)
qed

text \<open>Reading an accumulator, and reading it back after a write.\<close>

definition acc40 :: "nat \<Rightarrow> dsp \<Rightarrow> int" where "acc40 r g = sint (dsp_get_long_acc r g)"

lemma get_long_acc_convert: "dsp_get_long_acc r g = dsp_convert_long_acc (dsp_ac g r)"
  by (simp add: dsp_get_long_acc_def dsp_convert_long_acc_def)

lemma acc40_eq: "acc40 r g = s40 (sint (dsp_ac g r))"
  by (simp add: acc40_def get_long_acc_convert sint_convert)

lemma acc40_range: "in_s40 (acc40 r g)"
  by (simp add: acc40_eq s40_range)

lemma s40_signed_64: "s40 (signed_take_bit 63 k) = s40 k"
proof -
  have "signed_take_bit 39 (signed_take_bit 63 k) = signed_take_bit 39 k"
    by (simp add: signed_take_bit_signed_take_bit)
  then show ?thesis
    by (simp only: signed_take_bit_39)
qed

lemma s40_sint_ops:
  "s40 (sint (v + w)) = s40 (sint v + sint (w :: s64))"
  "s40 (sint (v - w)) = s40 (sint v - sint (w :: s64))"
  "s40 (sint (- w)) = s40 (- sint (w :: s64))"
proof -
  have "sint (v + w) = signed_take_bit 63 (sint v + sint w)"
    and "sint (v - w) = signed_take_bit 63 (sint v - sint w)"
    and "sint (- w) = signed_take_bit 63 (- sint w)"
    by (simp_all add: sint_word_ariths)
  then show "s40 (sint (v + w)) = s40 (sint v + sint w)"
    and "s40 (sint (v - w)) = s40 (sint v - sint w)"
    and "s40 (sint (- w)) = s40 (- sint w)"
    by (simp_all only: s40_signed_64)
qed

lemma acc40_set_acc:
  "acc40 r (set_ac r v g) = s40 (sint v)"
  "r \<noteq> r' \<Longrightarrow> acc40 r (set_ac r' v g) = acc40 r g"
  "acc40 r (set_sr w g) = acc40 r g"
  by (simp_all add: acc40_eq)

section \<open>The flags of a 40-bit adder\<close>

text \<open>A sign extended accumulator as an unsigned 64-bit number orders as the 40-bit number does.\<close>

lemma mod40: "in_s40 k \<Longrightarrow> k mod 2 ^ 40 = (if k < 0 then k + 2 ^ 40 else k)"
  by (rule mod_signed) (simp_all add: in_s40_def)

lemma uint_sint_64: "uint (x :: s64) = (if sint x < 0 then sint x + 2 ^ 64 else sint x)"
  using uint_sint_eq [of x] by simp

lemma uint_of_s40:
  assumes "in_s40 (sint (v :: s64))" and "in_s40 (sint (w :: s64))"
  shows "uint v < uint w \<longleftrightarrow> sint v mod 2 ^ 40 < sint w mod 2 ^ 40"
  unfolding mod40 [OF assms(1)] mod40 [OF assms(2)] uint_sint_64
  using assms by (auto simp: in_s40_def)

lemma carry_add:
  assumes "in_s40 (sint (a :: s64))" and "sint r = s40 (sint a + x)"
  shows "isCarry a r \<longleftrightarrow> 2 ^ 40 \<le> sint a mod 2 ^ 40 + x mod 2 ^ 40"
proof -
  have r: "in_s40 (sint r)"
    by (simp add: assms(2) s40_range)
  let ?A = "sint a mod 2 ^ 40" and ?X = "x mod 2 ^ 40"
  have "sint r mod 2 ^ 40 = (?A + ?X) mod 2 ^ 40"
    by (simp only: assms(2) s40_mod mod_add_eq)
  moreover have "?A < 2 ^ 40" "?X < 2 ^ 40" "0 \<le> ?A" "0 \<le> ?X"
    by simp_all
  ultimately have "sint r mod 2 ^ 40 = (if 2 ^ 40 \<le> ?A + ?X then ?A + ?X - 2 ^ 40 else ?A + ?X)"
    by (simp only: mod_add_if_z split: if_split) auto
  with \<open>?X < 2 ^ 40\<close> \<open>0 \<le> ?X\<close> show ?thesis
    unfolding isCarry_def word_less_def uint_of_s40 [OF r assms(1)] by auto
qed

lemma carry_sub:
  assumes "in_s40 (sint (a :: s64))" and "sint r = s40 (sint a - x)"
  shows "isCarry2 a r \<longleftrightarrow> x mod 2 ^ 40 \<le> sint a mod 2 ^ 40"
proof -
  have r: "in_s40 (sint r)"
    by (simp add: assms(2) s40_range)
  let ?A = "sint a mod 2 ^ 40" and ?X = "x mod 2 ^ 40"
  have "sint r mod 2 ^ 40 = (?A - ?X) mod 2 ^ 40"
    by (simp only: assms(2) s40_mod mod_diff_eq)
  moreover have "?A < 2 ^ 40" "?X < 2 ^ 40" "0 \<le> ?A" "0 \<le> ?X"
    by simp_all
  ultimately have "sint r mod 2 ^ 40 = (if ?X \<le> ?A then ?A - ?X else ?A - ?X + 2 ^ 40)"
    using mod_signed [of "2 ^ 40" "?A - ?X"] by auto
  with \<open>?X < 2 ^ 40\<close> \<open>0 \<le> ?X\<close> show ?thesis
    unfolding isCarry2_def word_le_def not_less [symmetric] uint_of_s40 [OF assms(1) r] by auto
qed

lemma sint_neg_iff_xor: "sint ((a :: s64) XOR b) < 0 \<longleftrightarrow> (sint a < 0) \<noteq> (sint b < 0)"
  and sint_neg_iff_and: "sint (a AND b) < 0 \<longleftrightarrow> sint a < 0 \<and> sint b < 0"
proof -
  have n: "sint w < 0 \<longleftrightarrow> bit w 63" for w :: s64
    using bit_last_iff [of w] by simp
  show "sint (a XOR b) < 0 \<longleftrightarrow> (sint a < 0) \<noteq> (sint b < 0)" "sint (a AND b) < 0 \<longleftrightarrow> sint a < 0 \<and> sint b < 0"
    by (simp_all add: n bit_xor_iff bit_and_iff)
qed

lemma overflow_flag:
  assumes a: "in_s40 (sint (a :: s64))" and x: "- (2 ^ 39) \<le> sint x" "sint x \<le> 2 ^ 39"
    and r: "sint r = s40 (sint a + sint x)"
  shows "isOverflow a x r \<longleftrightarrow> \<not> in_s40 (sint a + sint x)"
proof -
  have o: "isOverflow a x r \<longleftrightarrow> (sint a < 0) \<noteq> (sint r < 0) \<and> (sint x < 0) \<noteq> (sint r < 0)"
    by (simp add: isOverflow_def sint_neg_iff_and sint_neg_iff_xor)
  show ?thesis
  proof (cases "in_s40 (sint a + sint x)")
    case True
    then show ?thesis
      by (auto simp: o r s40_self)
  next
    case False
    then consider "2 ^ 39 \<le> sint a + sint x" | "sint a + sint x < - (2 ^ 39)"
      by (auto simp: in_s40_def)
    then show ?thesis
    proof cases
      case 1
      have "s40 (sint a + sint x) = s40 (sint a + sint x - 2 ^ 40)"
        by (rule s40_cong) simp
      also have "\<dots> = sint a + sint x - 2 ^ 40"
        using 1 a x by (intro s40_self) (auto simp: in_s40_def)
      finally show ?thesis
        using 1 a x False by (auto simp: o r in_s40_def)
    next
      case 2
      have "s40 (sint a + sint x) = s40 (sint a + sint x + 2 ^ 40)"
        by (rule s40_cong) simp
      also have "\<dots> = sint a + sint x + 2 ^ 40"
        using 2 a x by (intro s40_self) (auto simp: in_s40_def)
      finally show ?thesis
        using 2 a x False by (auto simp: o r in_s40_def)
    qed
  qed
qed

section \<open>Operands\<close>

lemma sint_push16:
  assumes "- (2 ^ 47) \<le> sint (w :: s64)" "sint w < 2 ^ 47"
  shows "sint (push_bit 16 w) = 65536 * sint w"
proof -
  have "push_bit 16 w = w * 65536"
    by (simp add: push_bit_eq_mult)
  also have "sint (w * 65536) = signed_take_bit 63 (sint w * 65536)"
    by (simp add: sint_word_ariths)
  also have "\<dots> = sint w * 65536"
    using assms by (intro signed_take_bit_int_eq_self) simp_all
  finally show ?thesis
    by simp
qed

lemma sint_16_range: "- 32768 \<le> sint (w :: u16)" "sint w < 32768"
  using sint_range_size [of w] by (simp_all add: word_size)

lemma unat_u16: "unat (ucast (v :: u16) :: u32) = unat v" "unat v < 65536"
proof -
  have "unat v < 2 ^ LENGTH(16)"
    by (rule unsigned_less)
  then show le: "unat v < 65536"
    by simp
  show "unat (ucast v :: u32) = unat v"
    using le by (simp add: unsigned_ucast_eq take_bit_nat_eq_self)
qed

lemma uint_sint_16: "uint (x :: u16) = (if sint x < 0 then sint x + 65536 else sint x)"
  using uint_sint_eq [of x] by simp

lemma sint_acx: "sint (dsp_get_long_acx r g) = 65536 * sint (ax_h g r) + uint (ax_l g r)"
proof -
  define h where "h = ax_h g r"
  define l where "l = ax_l g r"
  have "unat (dsp_get_long_acx r g) = unat h * 65536 + unat l"
    using unat_concat16 [of "ucast l" "ucast h"] unat_u16 [of l] unat_u16 [of h]
    by (simp add: dsp_get_long_acx_def h_def l_def)
  then have u: "uint (dsp_get_long_acx r g) = uint h * 65536 + uint l"
    by (metis of_nat_add of_nat_mult of_nat_numeral uint_nat)
  have "sint (dsp_get_long_acx r g) = signed_take_bit 31 (uint h * 65536 + uint l)"
    using sint_uint [of "dsp_get_long_acx r g"] u by simp
  also have "\<dots> = (uint h * 65536 + uint l + 2 ^ 31) mod 2 ^ 32 - 2 ^ 31"
    by (simp add: signed_take_bit_eq_take_bit_shift take_bit_eq_mod)
  also have "\<dots> = (sint h * 65536 + uint l + 2 ^ 31) mod 2 ^ 32 - 2 ^ 31"
  proof -
    have "uint h * 65536 + uint l + 2 ^ 31 = sint h * 65536 + uint l + 2 ^ 31 + (if sint h < 0 then 1 else 0) * 2 ^ 32"
      by (simp add: uint_sint_16 [of h])
    then show ?thesis
      by (metis mod_mult_self1)
  qed
  also have "\<dots> = sint h * 65536 + uint l"
  proof -
    have "uint l < 65536" "0 \<le> uint l"
      using unat_u16(2) [of l] by (simp_all only: uint_nat)
    then have "(sint h * 65536 + uint l + 2 ^ 31) mod 2 ^ 32 = sint h * 65536 + uint l + 2 ^ 31"
      using sint_16_range [of h] by (intro mod_pos_pos_trivial; simp (no_asm); linarith)
    then show ?thesis
      by simp
  qed
  finally show ?thesis
    by (simp add: h_def l_def mult.commute)
qed
section \<open>The contract of the adder\<close>

text \<open>
  \<open>alu_post d g g' k carry\<close>: \<open>g'\<close> is \<open>g\<close> with \<open>k\<close> in accumulator \<open>d\<close>, taken modulo
  \<open>2 ^ 40\<close> as a signed number, and the flags in the status register; nothing else has changed.
\<close>

definition sr_flags :: "u16 \<Rightarrow> u16 \<Rightarrow> int \<Rightarrow> bool \<Rightarrow> bool \<Rightarrow> bool" where
  "sr_flags sr sr' r carry overflow \<longleftrightarrow>
     bit sr' 0 = carry \<and> bit sr' 1 = overflow \<and> bit sr' 2 = (r = 0) \<and> bit sr' 3 = (r < 0) \<and>
     bit sr' 4 = (r < - (2 ^ 31) \<or> 2 ^ 31 \<le> r) \<and> bit sr' 5 = (bit r 30 = bit r 31) \<and>
     bit sr' 7 = (bit sr 7 \<or> overflow) \<and> (\<forall>n. n = 6 \<or> 8 \<le> n \<longrightarrow> bit sr' n = bit sr n)"

definition alu_post :: "nat \<Rightarrow> dsp \<Rightarrow> dsp \<Rightarrow> int \<Rightarrow> bool \<Rightarrow> bool" where
  "alu_post d g g' k carry \<longleftrightarrow>
     (\<exists>w v. g' = set_sr w (set_ac d v g) \<and> sr_flags (dsp_sr g) w (s40 k) carry (\<not> in_s40 k)) \<and>
     acc40 d g' = s40 k"

lemma Update_SR_Register64_flags:
  "\<exists>w. Update_SR_Register64 v c ov g = set_sr w g \<and> sr_flags (dsp_sr g) w (sint v) c ov"
proof -
  let ?w = "dsp_sr (Update_SR_Register64 v c ov g)"
  note b = Update_SR_Register64_bits [of _ v c ov g]
  have z: "v = 0 \<longleftrightarrow> sint v = 0"
    by (metis signed_0 signed_word_eqI)
  have "sr_flags (dsp_sr g) ?w (sint v) c ov"
    unfolding sr_flags_def
  proof (intro conjI allI impI)
    fix n :: nat assume "n = 6 \<or> 8 \<le> n"
    then show "bit ?w n = bit (dsp_sr g) n"
      by (cases "n < 16") (auto simp: b sr_bits64_def dest: bit_imp_le_length)
  qed (auto simp: b sr_bits64_def z bit_sint_iff)
  then show ?thesis
    using Update_SR_Register64_frame [of v c ov g] by blast
qed

lemma alu_post_add:
  fixes x :: s64
  assumes x: "- (2 ^ 39) \<le> sint x" "sint x < 2 ^ 39"
    and c: "carry \<longleftrightarrow> 2 ^ 40 \<le> acc40 d g mod 2 ^ 40 + sint x mod 2 ^ 40"
    and a: "a = dsp_get_long_acc d g" and g1: "g1 = set_ac d (a + x) g"
    and r: "r = dsp_get_long_acc d g1"
  shows "alu_post d g (Update_SR_Register64 r (isCarry a r) (isOverflow a x r) g1)
           (acc40 d g + sint x) carry"
proof -
  have sa: "sint a = acc40 d g" and ra: "in_s40 (sint a)"
    by (simp_all add: a acc40_def acc40_range [unfolded acc40_def])
  have sr: "sint r = s40 (sint a + sint x)"
    by (simp add: r g1 get_long_acc_convert sint_convert s40_sint_ops)
  have "isCarry a r = carry"
    using carry_add [OF ra sr] c sa by simp
  moreover have "isOverflow a x r = (\<not> in_s40 (sint a + sint x))"
    using x by (intro overflow_flag ra sr) simp_all
  moreover obtain w where "Update_SR_Register64 r (isCarry a r) (isOverflow a x r) g1 = set_sr w g1"
    and "sr_flags (dsp_sr g1) w (sint r) (isCarry a r) (isOverflow a x r)"
    using Update_SR_Register64_flags by blast
  moreover have "acc40 d (set_sr w g1) = sint r"
    by (simp add: acc40_eq sr g1 s40_sint_ops)
  ultimately show ?thesis
    unfolding alu_post_def using sr sa by (auto simp: g1)
qed

lemma alu_post_sub:
  fixes x :: s64
  assumes x: "- (2 ^ 39) \<le> sint x" "sint x < 2 ^ 39"
    and c: "carry \<longleftrightarrow> sint x mod 2 ^ 40 \<le> acc40 d g mod 2 ^ 40"
    and a: "a = dsp_get_long_acc d g" and g1: "g1 = set_ac d (a - x) g"
    and r: "r = dsp_get_long_acc d g1"
  shows "alu_post d g (Update_SR_Register64 r (isCarry2 a r) (isOverflow a (- x) r) g1)
           (acc40 d g - sint x) carry"
proof -
  have sa: "sint a = acc40 d g" and ra: "in_s40 (sint a)"
    by (simp_all add: a acc40_def acc40_range [unfolded acc40_def])
  have sr: "sint r = s40 (sint a - sint x)"
    by (simp add: r g1 get_long_acc_convert sint_convert s40_sint_ops)
  have nx: "sint (- x) = - sint x"
    using x by (simp add: sint_word_ariths signed_take_bit_int_eq_self)
  have "isCarry2 a r = carry"
    using carry_sub [OF ra sr] c sa by simp
  moreover have "isOverflow a (- x) r = (\<not> in_s40 (sint a - sint x))"
    using x overflow_flag [OF ra, of "- x" r] by (simp add: nx sr)
  moreover obtain w where "Update_SR_Register64 r (isCarry2 a r) (isOverflow a (- x) r) g1 = set_sr w g1"
    and "sr_flags (dsp_sr g1) w (sint r) (isCarry2 a r) (isOverflow a (- x) r)"
    using Update_SR_Register64_flags by blast
  moreover have "acc40 d (set_sr w g1) = sint r"
    by (simp add: acc40_eq sr g1 s40_sint_ops)
  ultimately show ?thesis
    unfolding alu_post_def using sr sa by (auto simp: g1)
qed

section \<open>The instructions\<close>

definition add40 :: "nat \<Rightarrow> s64 \<Rightarrow> dsp \<Rightarrow> dsp" where
  "add40 d x g =
     (let a = dsp_get_long_acc d g; g = set_ac d (a + x) g; r = dsp_get_long_acc d g
      in Update_SR_Register64 r (isCarry a r) (isOverflow a x r) g)"

definition sub40 :: "nat \<Rightarrow> s64 \<Rightarrow> dsp \<Rightarrow> dsp" where
  "sub40 d x g =
     (let a = dsp_get_long_acc d g; g = set_ac d (a - x) g; r = dsp_get_long_acc d g
      in Update_SR_Register64 r (isCarry2 a r) (isOverflow a (- x) r) g)"

text \<open>The operand of an instruction, as the word the code adds and as the number it stands for.\<close>

fun alu_word :: "arith_fn \<Rightarrow> u16 \<Rightarrow> dsp \<Rightarrow> s64" where
  "alu_word F_addr opc g = push_bit 16 (ax_part (fld opc 9 3) g)"
| "alu_word F_subr opc g = push_bit 16 (ax_part (fld opc 9 3) g)"
| "alu_word F_addax opc g = scast (dsp_get_long_acx (fld opc 9 1) g)"
| "alu_word F_subax opc g = scast (dsp_get_long_acx (fld opc 9 1) g)"
| "alu_word F_add opc g = dsp_get_long_acc (1 - fld opc 8 1) g"
| "alu_word F_sub opc g = dsp_get_long_acc (1 - fld opc 8 1) g"
| "alu_word F_addp opc g = dsp_get_long_prod g"
| "alu_word F_subp opc g = dsp_get_long_prod g"
| "alu_word F_addaxl opc g = ucast (ax_l g (fld opc 9 1))"
| "alu_word F_addi opc g = push_bit 16 (scast (dsp_imem_read (g_pc g) g))"
| "alu_word F_addis opc g = push_bit 16 (scast (ucast opc :: s8))"
| "alu_word F_incm opc g = 0x10000"
| "alu_word F_decm opc g = 0x10000"
| "alu_word F_inc opc g = 1"
| "alu_word F_dec opc g = 1"
| "alu_word _ opc g = 0"

fun alu_operand :: "arith_fn \<Rightarrow> u16 \<Rightarrow> dsp \<Rightarrow> int" where
  "alu_operand F_addr opc g =
     65536 * sint (if fld opc 9 3 < 2 then ax_l g (fld opc 9 3) else ax_h g (fld opc 9 3 - 2))"
| "alu_operand F_subr opc g =
     65536 * sint (if fld opc 9 3 < 2 then ax_l g (fld opc 9 3) else ax_h g (fld opc 9 3 - 2))"
| "alu_operand F_addax opc g = 65536 * sint (ax_h g (fld opc 9 1)) + uint (ax_l g (fld opc 9 1))"
| "alu_operand F_subax opc g = 65536 * sint (ax_h g (fld opc 9 1)) + uint (ax_l g (fld opc 9 1))"
| "alu_operand F_add opc g = acc40 (1 - fld opc 8 1) g"
| "alu_operand F_sub opc g = acc40 (1 - fld opc 8 1) g"
| "alu_operand F_addp opc g = sint (dsp_get_long_prod g)"
| "alu_operand F_subp opc g = sint (dsp_get_long_prod g)"
| "alu_operand F_addaxl opc g = uint (ax_l g (fld opc 9 1))"
| "alu_operand F_addi opc g = 65536 * sint (dsp_imem_read (g_pc g) g)"
| "alu_operand F_addis opc g = 65536 * sint (ucast opc :: s8)"
| "alu_operand F_incm opc g = 65536"
| "alu_operand F_decm opc g = 65536"
| "alu_operand F_inc opc g = 1"
| "alu_operand F_dec opc g = 1"
| "alu_operand _ opc g = 0"

definition alu_adds :: "arith_fn set" where
  "alu_adds = {F_addr, F_addax, F_add, F_addp, F_addaxl, F_addi, F_addis, F_incm, F_inc}"

definition alu_subs :: "arith_fn set" where
  "alu_subs = {F_subr, F_subax, F_sub, F_subp, F_decm, F_dec}"

text \<open>\<open>ADDI\<close> fetches its operand.\<close>

definition alu_fetch :: "arith_fn \<Rightarrow> dsp \<Rightarrow> dsp" where
  "alu_fetch f g = (if f = F_addi then g\<lparr>g_pc := g_pc g + 1\<rparr> else g)"

lemmas arith_defs =
  Interpreter_addr_def Interpreter_addax_def Interpreter_add_def Interpreter_addp_def
  Interpreter_addaxl_def Interpreter_addi_def Interpreter_addis_def Interpreter_incm_def
  Interpreter_inc_def Interpreter_subr_def Interpreter_subax_def Interpreter_sub_def
  Interpreter_subp_def Interpreter_decm_def Interpreter_dec_def

lemma arith_add_shape:
  "f \<in> alu_adds \<Longrightarrow> arith_op f opc g = add40 (fld opc 8 1) (alu_word f opc g) (alu_fetch f g)"
  by (auto simp: alu_adds_def add40_def arith_defs dsp_set_long_acc_def alu_fetch_def
      dsp_fetch_code_def dsp_get_ax_l_def dsp_get_long_acc_def Let_def)

lemma arith_sub_shape:
  "f \<in> alu_subs \<Longrightarrow> arith_op f opc g = sub40 (fld opc 8 1) (alu_word f opc g) (alu_fetch f g)"
  by (auto simp: alu_subs_def sub40_def arith_defs dsp_set_long_acc_def alu_fetch_def
      dsp_get_long_acc_def Let_def)

lemma uint_16_range: "0 \<le> uint (v :: u16)" "uint v < 65536"
  using unat_u16(2) [of v] by (simp_all only: uint_nat)

lemma sint_8_range: "- 128 \<le> sint (w :: u8)" "sint w < 128"
  using sint_range_size [of w] by (simp_all add: word_size)

lemma sint_ax_part:
  "s < 4 \<Longrightarrow> sint (push_bit 16 (ax_part s g)) = 65536 * sint (if s < 2 then ax_l g s else ax_h g (s - 2))"
  using sint_16_range [of "ax_l g s"] sint_16_range [of "ax_h g (s - 2)"]
  by (subst sint_push16) (auto simp: ax_part_def sint_scast_up)

lemma sint_alu_word:
  assumes "f \<in> alu_adds \<union> alu_subs"
  shows "sint (alu_word f opc g) = alu_operand f opc g"
  using assms sint_16_range [of "dsp_imem_read (g_pc g) g"] sint_8_range [of "ucast opc"]
  by (auto simp: alu_adds_def alu_subs_def sint_ax_part sint_scast_up sint_acx sint_ucast_up
      sint_push16 acc40_def)

lemma in_s40_operands:
  "in_s40 (65536 * sint (h :: u16))" "in_s40 (65536 * sint (h :: u16) + uint (l :: u16))"
  "in_s40 (uint (l :: u16))" "in_s40 (65536 * sint (b :: u8))"
  using sint_16_range [of h] uint_16_range [of l] sint_8_range [of b]
  unfolding in_s40_def by (simp (no_asm), linarith)+

lemma in_s40_constants: "in_s40 65536" "in_s40 1" "in_s40 0"
  by (simp_all add: in_s40_def)

lemma alu_operand_range:
  assumes "f \<in> alu_adds \<union> alu_subs"
    and "f = F_addp \<or> f = F_subp \<Longrightarrow> in_s40 (sint (dsp_get_long_prod g))"
  shows "in_s40 (alu_operand f opc g)"
  using assms by (auto simp: alu_adds_def alu_subs_def in_s40_operands in_s40_constants acc40_range)

lemma acc40_alu_fetch: "acc40 d (alu_fetch f g) = acc40 d g"
  by (simp add: alu_fetch_def acc40_def dsp_get_long_acc_def)

lemma add_correct:
  assumes "f \<in> alu_adds" and "f = F_addp \<Longrightarrow> in_s40 (sint (dsp_get_long_prod g))"
  shows "alu_post (fld opc 8 1) (alu_fetch f g) (arith_op f opc g)
           (acc40 (fld opc 8 1) g + alu_operand f opc g)
           (2 ^ 40 \<le> acc40 (fld opc 8 1) g mod 2 ^ 40 + alu_operand f opc g mod 2 ^ 40)"
proof -
  have x: "sint (alu_word f opc g) = alu_operand f opc g"
    using assms(1) by (intro sint_alu_word) simp
  have "in_s40 (alu_operand f opc g)"
    using assms by (intro alu_operand_range) (auto simp: alu_adds_def)
  then show ?thesis
    using alu_post_add [of "alu_word f opc g" _ "fld opc 8 1" "alu_fetch f g", OF _ _ refl refl refl refl]
    unfolding arith_add_shape [OF assms(1)] add40_def Let_def x acc40_alu_fetch in_s40_def by blast
qed

lemma sub_correct:
  assumes "f \<in> alu_subs" and "f = F_subp \<Longrightarrow> in_s40 (sint (dsp_get_long_prod g))"
  shows "alu_post (fld opc 8 1) g (arith_op f opc g)
           (acc40 (fld opc 8 1) g - alu_operand f opc g)
           (alu_operand f opc g mod 2 ^ 40 \<le> acc40 (fld opc 8 1) g mod 2 ^ 40)"
proof -
  have x: "sint (alu_word f opc g) = alu_operand f opc g"
    using assms(1) by (intro sint_alu_word) simp
  have fg: "alu_fetch f g = g"
    using assms(1) by (auto simp: alu_fetch_def alu_subs_def)
  have "in_s40 (alu_operand f opc g)"
    using assms by (intro alu_operand_range) (auto simp: alu_subs_def)
  then show ?thesis
    using alu_post_sub [of "alu_word f opc g" _ "fld opc 8 1" g, OF _ _ refl refl refl refl]
    unfolding arith_sub_shape [OF assms(1)] sub40_def Let_def x fg in_s40_def by blast
qed

text \<open>C3: every addition is a 40-bit addition of its operand and every subtraction a 40-bit subtraction, with
  the carry and the overflow of one, and changes nothing else.  \<open>ADDP\<close> and \<open>SUBP\<close> assume that the four parts
  of the product register add up to a signed 40-bit number, as the products of the multiplier do; a program
  that moves other values into the parts can break it.\<close>

theorem alu_addition:
  assumes "f \<in> alu_adds \<union> alu_subs"
    and "f = F_addp \<or> f = F_subp \<Longrightarrow> in_s40 (sint (dsp_get_long_prod g))"
  shows "(f \<in> alu_adds \<longrightarrow>
        alu_post (fld opc 8 1) (alu_fetch f g) (arith_op f opc g)
          (acc40 (fld opc 8 1) g + alu_operand f opc g)
          (2 ^ 40 \<le> acc40 (fld opc 8 1) g mod 2 ^ 40 + alu_operand f opc g mod 2 ^ 40))
    \<and> (f \<in> alu_subs \<longrightarrow>
        alu_post (fld opc 8 1) g (arith_op f opc g)
          (acc40 (fld opc 8 1) g - alu_operand f opc g)
          (alu_operand f opc g mod 2 ^ 40 \<le> acc40 (fld opc 8 1) g mod 2 ^ 40))"
  using assms(2) add_correct [of f g opc] sub_correct [of f g opc] by blast

theorem alu_addition_witness:
  "acc40 1 (arith_op F_addi 0x0300 (set_ac 1 0xFFFFFF dsp_zero)) = 0xFFFFFF
    \<and> acc40 0 (arith_op F_dec 0x7a00 dsp_zero) = - 1"
proof
  have "F_addi \<in> alu_adds"
    by (simp add: alu_adds_def)
  then have "alu_post (fld 0x0300 8 1) (alu_fetch F_addi (set_ac 1 0xFFFFFF dsp_zero))
      (arith_op F_addi 0x0300 (set_ac 1 0xFFFFFF dsp_zero))
      (acc40 (fld 0x0300 8 1) (set_ac 1 0xFFFFFF dsp_zero)
        + alu_operand F_addi 0x0300 (set_ac 1 0xFFFFFF dsp_zero))
      (2 ^ 40 \<le> acc40 (fld 0x0300 8 1) (set_ac 1 0xFFFFFF dsp_zero) mod 2 ^ 40
        + alu_operand F_addi 0x0300 (set_ac 1 0xFFFFFF dsp_zero) mod 2 ^ 40)"
    using alu_addition [of F_addi "set_ac 1 0xFFFFFF dsp_zero" "0x0300"] by blast
  moreover have "fld 0x0300 8 1 = 1"
    by (simp add: fld_def)
  moreover have "alu_operand F_addi 0x0300 (set_ac 1 0xFFFFFF dsp_zero) = 0"
    by (simp add: dsp_imem_read_def dsp_zero_def)
  ultimately show "acc40 1 (arith_op F_addi 0x0300 (set_ac 1 0xFFFFFF dsp_zero)) = 0xFFFFFF"
    by (simp add: alu_post_def acc40_eq s40_def alu_adds_def)
  have "F_dec \<in> alu_subs"
    by (simp add: alu_subs_def)
  then have "alu_post (fld 0x7a00 8 1) dsp_zero (arith_op F_dec 0x7a00 dsp_zero)
      (acc40 (fld 0x7a00 8 1) dsp_zero - alu_operand F_dec 0x7a00 dsp_zero)
      (alu_operand F_dec 0x7a00 dsp_zero mod 2 ^ 40 \<le> acc40 (fld 0x7a00 8 1) dsp_zero mod 2 ^ 40)"
    using alu_addition [of F_dec dsp_zero "0x7a00"] by blast
  moreover have "fld 0x7a00 8 1 = 0"
    by (simp add: fld_def)
  moreover have "acc40 0 dsp_zero = 0"
    by (simp add: acc40_eq dsp_zero_def s40_def)
  ultimately show "acc40 0 (arith_op F_dec 0x7a00 dsp_zero) = - 1"
    by (simp add: alu_post_def s40_def alu_subs_def)
qed

section \<open>Comparisons and conditions\<close>

definition cmp_ops :: "logic_fn set" where "cmp_ops = {F_cmp, F_cmpar, F_cmpi, F_cmpis}"

text \<open>The two numbers a comparison compares.\<close>

fun cmp_left :: "logic_fn \<Rightarrow> u16 \<Rightarrow> dsp \<Rightarrow> int" where
  "cmp_left F_cmp opc g = acc40 0 g"
| "cmp_left F_cmpar opc g = acc40 (fld opc 11 1) g"
| "cmp_left _ opc g = acc40 (fld opc 8 1) g"

fun cmp_word :: "logic_fn \<Rightarrow> u16 \<Rightarrow> dsp \<Rightarrow> s64" where
  "cmp_word F_cmp opc g = dsp_get_long_acc 1 g"
| "cmp_word F_cmpar opc g = push_bit 16 (scast (ax_h g (fld opc 12 1)))"
| "cmp_word F_cmpi opc g = push_bit 16 (scast (dsp_imem_read (g_pc g) g))"
| "cmp_word F_cmpis opc g = push_bit 16 (scast (ucast opc :: s8))"
| "cmp_word _ opc g = 0"

fun cmp_right :: "logic_fn \<Rightarrow> u16 \<Rightarrow> dsp \<Rightarrow> int" where
  "cmp_right F_cmp opc g = acc40 1 g"
| "cmp_right F_cmpar opc g = 65536 * sint (ax_h g (fld opc 12 1))"
| "cmp_right F_cmpi opc g = 65536 * sint (dsp_imem_read (g_pc g) g)"
| "cmp_right F_cmpis opc g = 65536 * sint (ucast opc :: s8)"
| "cmp_right _ opc g = 0"

fun cmp_reg :: "logic_fn \<Rightarrow> u16 \<Rightarrow> nat" where
  "cmp_reg F_cmp opc = 0"
| "cmp_reg F_cmpar opc = fld opc 11 1"
| "cmp_reg _ opc = fld opc 8 1"

definition cmp_fetch :: "logic_fn \<Rightarrow> dsp \<Rightarrow> dsp" where
  "cmp_fetch f g = (if f = F_cmpi then g\<lparr>g_pc := g_pc g + 1\<rparr> else g)"

definition cmp40 :: "s64 \<Rightarrow> s64 \<Rightarrow> dsp \<Rightarrow> dsp" where
  "cmp40 a x g =
     (let r = dsp_convert_long_acc (a - x)
      in Update_SR_Register64 r (isCarry2 a r) (isOverflow a (- x) r) g)"

lemma cmp_shape:
  "f \<in> cmp_ops \<Longrightarrow>
     logic_op f opc g = cmp40 (dsp_get_long_acc (cmp_reg f opc) g) (cmp_word f opc g) (cmp_fetch f g)"
  by (auto simp: cmp_ops_def cmp40_def Let_def cmp_fetch_def dsp_fetch_code_def
      Interpreter_cmp_def Interpreter_cmpar_def Interpreter_cmpi_def Interpreter_cmpis_def)

lemma sint_cmp_word:
  "f \<in> cmp_ops \<Longrightarrow> sint (cmp_word f opc g) = cmp_right f opc g"
  using sint_16_range [of "dsp_imem_read (g_pc g) g"] sint_8_range [of "ucast opc"]
    sint_16_range [of "ax_h g (fld opc 12 1)"]
  by (auto simp: cmp_ops_def sint_scast_up sint_push16 acc40_def)

lemma cmp_left_acc40: "f \<in> cmp_ops \<Longrightarrow> cmp_left f opc g = acc40 (cmp_reg f opc) g"
  by (auto simp: cmp_ops_def)

lemma cmp_right_range: "f \<in> cmp_ops \<Longrightarrow> in_s40 (cmp_right f opc g)"
  by (auto simp: cmp_ops_def in_s40_operands acc40_range)

lemma cmp40_flags:
  assumes a: "in_s40 (sint a)" and x: "in_s40 (sint x)"
  shows "\<exists>w. cmp40 a x g = set_sr w g \<and>
     sr_flags (dsp_sr g) w (s40 (sint a - sint x)) (sint x mod 2 ^ 40 \<le> sint a mod 2 ^ 40)
       (\<not> in_s40 (sint a - sint x))"
proof -
  let ?r = "dsp_convert_long_acc (a - x)"
  have sr: "sint ?r = s40 (sint a - sint x)"
    by (simp add: sint_convert s40_sint_ops)
  have nx: "sint (- x) = - sint x"
    using x by (simp add: in_s40_def sint_word_ariths signed_take_bit_int_eq_self)
  have "isCarry2 a ?r = (sint x mod 2 ^ 40 \<le> sint a mod 2 ^ 40)"
    by (rule carry_sub [OF a sr])
  moreover have "isOverflow a (- x) ?r = (\<not> in_s40 (sint a - sint x))"
    using x overflow_flag [OF a, of "- x" ?r] by (simp add: nx sr in_s40_def)
  ultimately show ?thesis
    using Update_SR_Register64_flags [of ?r "isCarry2 a ?r" "isOverflow a (- x) ?r" g]
    by (simp add: cmp40_def Let_def sr)
qed

lemma s40_diff_less:
  assumes "in_s40 a" and "in_s40 x"
  shows "(\<not> in_s40 (a - x)) \<noteq> (s40 (a - x) < 0) \<longleftrightarrow> a < x"
proof (cases "in_s40 (a - x)")
  case True
  then show ?thesis
    by (simp add: s40_self)
next
  case False
  then consider "2 ^ 39 \<le> a - x" | "a - x < - (2 ^ 39)"
    by (auto simp: in_s40_def)
  then show ?thesis
  proof cases
    case 1
    have "s40 (a - x) = s40 (a - x - 2 ^ 40)"
      by (rule s40_cong) simp
    also have "\<dots> = a - x - 2 ^ 40"
      using 1 assms by (intro s40_self) (auto simp: in_s40_def)
    finally show ?thesis
      using 1 assms False by (auto simp: in_s40_def)
  next
    case 2
    have "s40 (a - x) = s40 (a - x + 2 ^ 40)"
      by (rule s40_cong) simp
    also have "\<dots> = a - x + 2 ^ 40"
      using 2 assms by (intro s40_self) (auto simp: in_s40_def)
    finally show ?thesis
      using 2 assms False by (auto simp: in_s40_def)
  qed
qed

lemma s40_diff_zero:
  assumes "in_s40 a" and "in_s40 x"
  shows "s40 (a - x) = 0 \<longleftrightarrow> a = x"
proof
  assume "s40 (a - x) = 0"
  then have "(a - x) mod 2 ^ 40 = 0"
    using s40_mod [of "a - x"] by simp
  then have "2 ^ 40 dvd a - x"
    by (rule dvd_eq_mod_eq_0 [THEN iffD2])
  then obtain k where k: "a - x = 2 ^ 40 * k"
    by (elim dvdE)
  with assms have "- 1 < k" "k < 1"
    by (auto simp: in_s40_def)
  with k show "a = x"
    by simp
qed (simp add: s40_def)

definition signed_conditions :: "int \<Rightarrow> int \<Rightarrow> dsp \<Rightarrow> bool" where
  "signed_conditions a x g \<longleftrightarrow>
     CheckCondition 0x0 g = (x \<le> a) \<and> CheckCondition 0x1 g = (a < x) \<and>
     CheckCondition 0x2 g = (x < a) \<and> CheckCondition 0x3 g = (a \<le> x) \<and>
     CheckCondition 0x4 g = (a \<noteq> x) \<and> CheckCondition 0x5 g = (a = x) \<and>
     CheckCondition 0x6 g = (a mod 2 ^ 40 < x mod 2 ^ 40) \<and>
     CheckCondition 0x7 g = (x mod 2 ^ 40 \<le> a mod 2 ^ 40)"

lemma sr_flags_conditions:
  assumes "in_s40 a" and "in_s40 x"
    and "sr_flags sr (dsp_sr g) (s40 (a - x)) (x mod 2 ^ 40 \<le> a mod 2 ^ 40) (\<not> in_s40 (a - x))"
  shows "signed_conditions a x g"
proof -
  have less: "IsLess g \<longleftrightarrow> a < x"
    using assms(3) s40_diff_less [OF assms(1,2)] by (auto simp: IsLess_def sr_flags_def)
  have zero: "IsZero g \<longleftrightarrow> a = x"
    using assms(3) s40_diff_zero [OF assms(1,2)] by (simp add: IsZero_def sr_flags_def)
  have carry: "IsCarry g \<longleftrightarrow> x mod 2 ^ 40 \<le> a mod 2 ^ 40"
    using assms(3) by (simp add: IsCarry_def sr_flags_def)
  show ?thesis
    unfolding signed_conditions_def CheckCondition_def Let_def less zero carry by auto
qed

text \<open>C27: after a comparison the conditions test the signed order of the two numbers.\<close>

theorem comparison_conditions:
  assumes "f \<in> cmp_ops"
  shows "signed_conditions (cmp_left f opc g) (cmp_right f opc g) (logic_op f opc g)
     \<and> (\<exists>w. logic_op f opc g = set_sr w (cmp_fetch f g))"
proof -
  let ?a = "dsp_get_long_acc (cmp_reg f opc) g"
  have a: "sint ?a = cmp_left f opc g" "in_s40 (cmp_left f opc g)"
    using cmp_left_acc40 [OF assms] acc40_range by (simp_all add: acc40_def)
  note x = sint_cmp_word [OF assms, of opc g] cmp_right_range [OF assms, of opc g]
  obtain w where "logic_op f opc g = set_sr w (cmp_fetch f g)"
    and "sr_flags (dsp_sr (cmp_fetch f g)) w (s40 (cmp_left f opc g - cmp_right f opc g))
      (cmp_right f opc g mod 2 ^ 40 \<le> cmp_left f opc g mod 2 ^ 40)
      (\<not> in_s40 (cmp_left f opc g - cmp_right f opc g))"
    using cmp40_flags [of ?a "cmp_word f opc g" "cmp_fetch f g"] a x cmp_shape [OF assms, of opc g]
    by auto
  then show ?thesis
    using sr_flags_conditions [OF a(2) x(2), of "dsp_sr (cmp_fetch f g)" "logic_op f opc g"] by auto
qed

theorem comparison_conditions_witness:
  "F_cmpis \<in> cmp_ops \<and> CheckCondition 0x1 (logic_op F_cmpis 0x0601 dsp_zero)"
proof -
  have "F_cmpis \<in> cmp_ops"
    by (simp add: cmp_ops_def)
  then have "signed_conditions (cmp_left F_cmpis 0x0601 dsp_zero) (cmp_right F_cmpis 0x0601 dsp_zero)
      (logic_op F_cmpis 0x0601 dsp_zero)"
    by (rule comparison_conditions [THEN conjunct1])
  moreover have "cmp_left F_cmpis 0x0601 dsp_zero = 0" "cmp_right F_cmpis 0x0601 dsp_zero = 65536"
    by (simp_all add: acc40_eq dsp_zero_def s40_def)
  ultimately show ?thesis
    by (simp add: signed_conditions_def cmp_ops_def)
qed

end
