(* ===== verification/DSP_Registers.thy ===== *)
theory DSP_Registers
  imports DSP_ALU DSP_CoreOps
begin

text \<open>
  The register file by number: what a write leaves to be read, by the instructions and by the
  debugger, the saturating read of an accumulator, and the sign extension of the 40-bit mode.
\<close>

section \<open>Reading after writing\<close>

text \<open>What register \<open>r\<close> holds after \<open>v\<close> is written to it: the high parts are 8 bits wide.\<close>

definition stored :: "nat \<Rightarrow> u16 \<Rightarrow> u16" where
  "stored r v = (if 0x10 \<le> r \<and> r < 0x12 then scast (ucast v :: u8) else v)"

definition stack_reg :: "nat \<Rightarrow> bool" where
  "stack_reg r \<longleftrightarrow> 0xc \<le> r \<and> r < 0x10"

lemma reg_groups:
  assumes "s < (0x20 :: nat)"
  obtains "s < 4"
    | "4 \<le> s" "s < 8"
    | "8 \<le> s" "s < 0xc"
    | "0xc \<le> s" "s < 0x10"
    | "0x10 \<le> s" "s < 0x12"
    | "s = 0x12"
    | "s = 0x13"
    | "s = 0x14"
    | "s = 0x15"
    | "s = 0x16"
    | "s = 0x17"
    | "0x18 \<le> s" "s < 0x1a"
    | "0x1a \<le> s" "s < 0x1c"
    | "0x1c \<le> s" "s < 0x1e"
    | "0x1e \<le> s" "s < 0x20"
proof -
  have "s \<in> set [0..<0x20]"
    using assms by simp
  also have "[0..<0x20] = [0, 1, 2, 3, 4, 5, 6, 7, 8, 9, 10, 11, 12, 13, 14, 15, 16, 17, 18, 19, 20, 21,
      22, 23, 24, 25, 26, 27, 28, 29, 30, 31]"
    by (simp add: upt_conv_Cons)
  finally have "s \<in> {0, 1, 2, 3, 4, 5, 6, 7, 8, 9, 10, 11, 12, 13, 14, 15, 16, 17, 18, 19, 20, 21,
      22, 23, 24, 25, 26, 27, 28, 29, 30, 31}"
    by simp
  then show thesis
    by (elim insertE emptyE) (use that in simp_all)
qed

lemma read_groups:
  "s < 4 \<Longrightarrow> DSPCore_ReadRegister s g = dsp_ar g s"
  "4 \<le> s \<Longrightarrow> s < 8 \<Longrightarrow> DSPCore_ReadRegister s g = dsp_ix g (s - 4)"
  "8 \<le> s \<Longrightarrow> s < 0xc \<Longrightarrow> DSPCore_ReadRegister s g = dsp_wr g (s - 8)"
  "0xc \<le> s \<Longrightarrow> s < 0x10 \<Longrightarrow> DSPCore_ReadRegister s g = dsp_st g (s - 0xc)"
  "0x10 \<le> s \<Longrightarrow> s < 0x12 \<Longrightarrow> DSPCore_ReadRegister s g = ac_h g (s - 0x10)"
  "DSPCore_ReadRegister 0x12 g = reg_cr (g_r g)"
  "DSPCore_ReadRegister 0x13 g = dsp_sr g"
  "DSPCore_ReadRegister 0x14 g = prod_l g"
  "DSPCore_ReadRegister 0x15 g = prod_m g"
  "DSPCore_ReadRegister 0x16 g = prod_h g"
  "DSPCore_ReadRegister 0x17 g = prod_m2 g"
  "0x18 \<le> s \<Longrightarrow> s < 0x1a \<Longrightarrow> DSPCore_ReadRegister s g = ax_l g (s - 0x18)"
  "0x1a \<le> s \<Longrightarrow> s < 0x1c \<Longrightarrow> DSPCore_ReadRegister s g = ax_h g (s - 0x1a)"
  "0x1c \<le> s \<Longrightarrow> s < 0x1e \<Longrightarrow> DSPCore_ReadRegister s g = ac_l g (s - 0x1c)"
  "0x1e \<le> s \<Longrightarrow> s < 0x20 \<Longrightarrow> DSPCore_ReadRegister s g = ac_m g (s - 0x1e)"
  by (simp_all add: DSPCore_ReadRegister_def)

lemma write_groups:
  "s < 4 \<Longrightarrow> DSPCore_WriteRegister s v g = set_ar s v g"
  "4 \<le> s \<Longrightarrow> s < 8 \<Longrightarrow> DSPCore_WriteRegister s v g = set_ix (s - 4) v g"
  "8 \<le> s \<Longrightarrow> s < 0xc \<Longrightarrow> DSPCore_WriteRegister s v g = set_wr (s - 8) v g"
  "0xc \<le> s \<Longrightarrow> s < 0x10 \<Longrightarrow> DSPCore_WriteRegister s v g = set_st (s - 0xc) v g"
  "0x10 \<le> s \<Longrightarrow> s < 0x12 \<Longrightarrow> DSPCore_WriteRegister s v g = set_ac_lane 2 (s - 0x10) v g"
  "DSPCore_WriteRegister 0x12 v g = set_rcr v g"
  "DSPCore_WriteRegister 0x13 v g = set_sr v g"
  "DSPCore_WriteRegister 0x14 v g = set_prod_lane 0 v g"
  "DSPCore_WriteRegister 0x15 v g = set_prod_lane 1 v g"
  "DSPCore_WriteRegister 0x16 v g = set_prod_lane 2 v g"
  "DSPCore_WriteRegister 0x17 v g = set_prod_lane 3 v g"
  "0x18 \<le> s \<Longrightarrow> s < 0x1a \<Longrightarrow> DSPCore_WriteRegister s v g = set_ax_lane 0 (s - 0x18) v g"
  "0x1a \<le> s \<Longrightarrow> s < 0x1c \<Longrightarrow> DSPCore_WriteRegister s v g = set_ax_lane 1 (s - 0x1a) v g"
  "0x1c \<le> s \<Longrightarrow> s < 0x1e \<Longrightarrow> DSPCore_WriteRegister s v g = set_ac_lane 0 (s - 0x1c) v g"
  "0x1e \<le> s \<Longrightarrow> s < 0x20 \<Longrightarrow> DSPCore_WriteRegister s v g = set_ac_lane 1 (s - 0x1e) v g"
  by (simp_all add: DSPCore_WriteRegister_def)

lemma debugger_read_write:
  assumes "r < 0x20" and "s < 0x20"
  shows "DSPCore_ReadRegister s (DSPCore_WriteRegister r v g) =
     (if s = r then v else DSPCore_ReadRegister s g)"
  by (rule reg_groups [OF assms(1)]; rule reg_groups [OF assms(2)])
    (simp_all add: read_groups write_groups eq_diff_iff)

lemma read_is_debugger:
  assumes "s < 0x20" and "\<not> stack_reg s"
  shows "dsp_op_read_reg s g = (DSPCore_ReadRegister s g, g)"
  using assms(2) by (cases rule: reg_groups [OF assms(1)])
    (simp_all add: dsp_op_read_reg_def read_groups stack_reg_def)

lemma write_is_debugger:
  assumes "r < 0x20" and "\<not> stack_reg r"
  shows "dsp_op_write_reg r v g = DSPCore_WriteRegister r (stored r v) g"
  using assms(2) by (cases rule: reg_groups [OF assms(1)])
    (simp_all add: dsp_op_write_reg_def write_groups stack_reg_def stored_def)

text \<open>A written register is read back, in the high parts of the accumulators sign-extended
  from 8 bits, and no other register changes; the debugger reads and writes the same registers.\<close>

theorem register_file:
  assumes "r < 0x20" and "s < 0x20" and "\<not> stack_reg r" and "\<not> stack_reg s"
  shows "dsp_op_read_reg s (dsp_op_write_reg r v g) =
      ((if s = r then stored r v else fst (dsp_op_read_reg s g)), dsp_op_write_reg r v g)
    \<and> fst (dsp_op_read_reg s g) = DSPCore_ReadRegister s g
    \<and> DSPCore_ReadRegister s (DSPCore_WriteRegister r v g) =
        (if s = r then v else DSPCore_ReadRegister s g)"
  using assms by (simp add: read_is_debugger write_is_debugger debugger_read_write)

theorem register_file_witness:
  "fst (dsp_op_read_reg 0x10 (dsp_op_write_reg 0x10 0x0180 dsp_zero)) = 0xFF80
   \<and> fst (dsp_op_read_reg 0x1e (dsp_op_write_reg 0x10 0x0180 dsp_zero)) = fst (dsp_op_read_reg 0x1e dsp_zero)"
  using register_file [of "0x10" "0x10" "0x0180" dsp_zero]
    register_file [of "0x10" "0x1e" "0x0180" dsp_zero]
  by (simp add: stack_reg_def stored_def)

text \<open>The four stack registers: a write pushes, a read pops.\<close>

lemma stack_register_access:
  assumes "stack_reg r"
  shows "dsp_op_write_reg r v g = dsp_reg_store_stack (r - 0xc) v g"
    and "dsp_op_read_reg r g = dsp_reg_load_stack (r - 0xc) g"
  using assms by (simp_all add: stack_reg_def dsp_op_write_reg_def dsp_op_read_reg_def)

section \<open>The 40-bit mode\<close>

definition clamp16 :: "int \<Rightarrow> int" where
  "clamp16 k = max (- 32768) (min 32767 k)"

lemma take_32_acc40: "take_bit 32 (acc40 r g) = take_bit 32 (uint (dsp_ac g r))"
proof -
  have "take_bit 32 (acc40 r g) = take_bit 32 (sint (dsp_ac g r))"
    unfolding acc40_eq signed_take_bit_39 [symmetric] by (simp add: take_bit_signed_take_bit)
  also have "\<dots> = take_bit 32 (uint (dsp_ac g r))"
    by (simp add: sint_uint take_bit_signed_take_bit)
  finally show ?thesis .
qed

lemma sint_ac_m: "sint (ac_m g r) = signed_take_bit 15 (acc40 r g div 65536)"
proof -
  have "take_bit 16 (drop_bit 16 (uint (dsp_ac g r))) = take_bit 16 (drop_bit 16 (acc40 r g))"
    using take_32_acc40 [of r g] by (simp add: take_bit_drop_bit)
  then have "signed_take_bit 15 (drop_bit 16 (uint (dsp_ac g r))) = signed_take_bit 15 (drop_bit 16 (acc40 r g))"
    by (simp add: signed_take_bit_eq_iff_take_bit_eq)
  moreover have "take_bit 64 (uint (dsp_ac g r)) = uint (dsp_ac g r)"
    using unsigned_take_bit_eq [of 64 "dsp_ac g r", where 'a = int] by (simp add: take_bit_word_eq_self)
  then have "sint (ac_m g r) = signed_take_bit 15 (drop_bit 16 (uint (dsp_ac g r)))"
    by (simp add: lane_def sint_uint unsigned_ucast_eq unsigned_drop_bit_eq signed_take_bit_take_bit)
  ultimately show ?thesis
    by (simp add: drop_bit_eq_div)
qed

text \<open>In 40-bit mode a store takes the accumulator divided by 65536 and clamped to 16 bits.\<close>

theorem saturating_read:
  assumes "bit (dsp_sr g) 14"
  shows "sint (dsp_op_read_reg_and_saturate r g) = clamp16 (acc40 r g div 65536)"
proof -
  have fits: "dsp_get_long_acc r g = scast (ucast (dsp_get_long_acc r g) :: s32)
      \<longleftrightarrow> - (2 ^ 31) \<le> acc40 r g \<and> acc40 r g < 2 ^ 31"
    unfolding acc40_def by (rule fits_s32)
  consider "acc40 r g < - (2 ^ 31)" | "- (2 ^ 31) \<le> acc40 r g" "acc40 r g < 2 ^ 31" | "2 ^ 31 \<le> acc40 r g"
    by linarith
  then show ?thesis
  proof cases
    case 2
    then have "signed_take_bit 15 (acc40 r g div 65536) = acc40 r g div 65536"
      by (simp add: signed_take_bit_int_eq_self_iff) linarith
    moreover have "dsp_op_read_reg_and_saturate r g = ac_m g r"
      using fits 2 by (simp add: dsp_op_read_reg_and_saturate_def Let_def)
    ultimately show ?thesis
      using 2 sint_ac_m [of g r] by (simp add: clamp16_def)
  qed (use assms fits in \<open>auto simp: dsp_op_read_reg_and_saturate_def clamp16_def acc40_def\<close>)
qed

theorem saturating_read_witness:
  "sint (dsp_op_read_reg_and_saturate 0 (set_ac 0 0x7FFFFFFFFF (set_sr SR_40_MODE_BIT dsp_zero))) = 32767"
proof -
  have "acc40 0 (set_ac 0 0x7FFFFFFFFF (set_sr SR_40_MODE_BIT dsp_zero)) = 0x7FFFFFFFFF"
    by (simp add: acc40_def dsp_get_long_acc_def)
  then show ?thesis
    using saturating_read [of "set_ac 0 0x7FFFFFFFFF (set_sr SR_40_MODE_BIT dsp_zero)" 0]
    by (simp add: clamp16_def)
qed

text \<open>In 40-bit mode a load into the middle of an accumulator makes it the value times 65536.\<close>

theorem extending_write:
  assumes "bit (dsp_sr g) 14" and "r < 2"
  shows "acc40 r (dsp_conditional_extend_accum (0x1e + r) (dsp_op_write_reg (0x1e + r) v g)) = 65536 * sint v"
proof -
  let ?h = "dsp_conditional_extend_accum (0x1e + r) (dsp_op_write_reg (0x1e + r) v g)"
  have sign: "v AND 0x8000 \<noteq> 0 \<longleftrightarrow> bit v 15"
    using and_exp_zero [of v 15] by simp
  have ac: "dsp_ac ?h r = set_lane 0 0 (set_lane 2 (if bit v 15 then 0xFFFF else 0) (set_lane 1 v (dsp_ac g r)))"
    using assms sign by (auto simp: dsp_conditional_extend_accum_def dsp_op_write_reg_def Let_def)
  have high: "bit (if bit v 15 then 0xFFFF else 0 :: u16) n \<longleftrightarrow> bit v 15 \<and> n < 16" for n
    by (simp add: bit_ones)
  have "take_bit 40 (sint (dsp_ac ?h r)) = take_bit 40 (push_bit 16 (sint v))"
  proof (rule bit_eqI)
    fix n :: nat
    have e: "n - 16 = 15" if "15 \<le> n - 16" "n < 32"
      using that by linarith
    show "bit (take_bit 40 (sint (dsp_ac ?h r))) n = bit (take_bit 40 (push_bit 16 (sint v))) n"
      unfolding ac by (auto simp: bit_simps bit_set_lane high min_def dest: e)
  qed
  then have "signed_take_bit 39 (sint (dsp_ac ?h r)) = signed_take_bit 39 (push_bit 16 (sint v))"
    by (simp add: signed_take_bit_eq_iff_take_bit_eq)
  also have "\<dots> = push_bit 16 (sint v)"
    using sint_16_range [of v] by (simp add: signed_take_bit_int_eq_self_iff push_bit_eq_mult)
  finally show ?thesis
    by (simp add: acc40_eq signed_take_bit_39 push_bit_eq_mult)
qed

theorem extending_write_witness:
  "acc40 1 (dsp_conditional_extend_accum (0x1e + 1) (dsp_op_write_reg (0x1e + 1) 0x8000
     (set_sr SR_40_MODE_BIT dsp_zero))) = - 2147483648"
  using extending_write [of "set_sr SR_40_MODE_BIT dsp_zero" 1 "0x8000"] by simp

end
