(* ===== verification/DSP_Shift.thy ===== *)
theory DSP_Shift
  imports DSP_ALU
begin

text \<open>
  What the moves, the negations, the shifts, the rounding and the multiplications compute, on the
  numbers the registers stand for.
\<close>

section \<open>The contract of a unary operation\<close>

definition unary_post :: "nat \<Rightarrow> dsp \<Rightarrow> dsp \<Rightarrow> int \<Rightarrow> bool" where
  "unary_post d g g' r \<longleftrightarrow>
     (\<exists>w v. g' = set_sr w (set_ac d v g) \<and> sr_flags (dsp_sr g) w r False False) \<and> acc40 d g' = r"

definition put40 :: "nat \<Rightarrow> s64 \<Rightarrow> dsp \<Rightarrow> dsp" where
  "put40 d v g =
     (let g = set_ac d v g in Update_SR_Register64 (dsp_get_long_acc d g) False False g)"

lemma unary_post_put40: "unary_post d g (put40 d v g) (s40 (sint v))"
proof -
  let ?g1 = "set_ac d v g"
  have r: "sint (dsp_get_long_acc d ?g1) = s40 (sint v)"
    by (simp add: get_long_acc_convert sint_convert)
  obtain w where "put40 d v g = set_sr w ?g1"
    and "sr_flags (dsp_sr g) w (s40 (sint v)) False False"
    using Update_SR_Register64_flags [of "dsp_get_long_acc d ?g1" False False ?g1]
    by (auto simp: put40_def r)
  then show ?thesis
    unfolding unary_post_def by (auto simp: acc40_eq)
qed

lemma put40_get: "in_s40 (sint v) \<Longrightarrow>
    put40 d v g = Update_SR_Register64 v False False (set_ac d v g)"
proof -
  assume "in_s40 (sint v)"
  then have "dsp_convert_long_acc v = v"
    by (metis signed_word_eqI sint_convert s40_self)
  then show ?thesis
    by (simp add: put40_def get_long_acc_convert)
qed

section \<open>Bits and numbers\<close>

lemma s40_push_bit: "s40 (sint (push_bit k (w :: s64))) = s40 (sint w * 2 ^ k)"
proof -
  have "signed_take_bit 39 (sint (push_bit k w)) = signed_take_bit 39 (push_bit k (sint w))"
    by (rule bit_eqI) (auto simp: bit_signed_take_bit_iff bit_sint_iff bit_push_bit_iff min_def)
  then show ?thesis
    by (simp add: signed_take_bit_39 push_bit_eq_mult)
qed

lemma mask40: "(0xFFFFFFFFFF :: s64) = mask 40"
  by (simp add: mask_eq_exp_minus_1)

lemma uint_and_mask40: "uint ((w :: s64) AND 0xFFFFFFFFFF) = sint w mod 2 ^ 40"
proof -
  have "uint (w AND mask 40) = take_bit 40 (sint w)"
    by (rule bit_eqI) (auto simp: bit_uint_iff bit_and_iff bit_mask_iff bit_take_bit_iff bit_sint_iff)
  then show ?thesis
    by (simp only: mask40 take_bit_eq_mod)
qed

lemma uint_drop_bit: "uint (drop_bit k (w :: s64)) = drop_bit k (uint w)"
  by (rule bit_eqI) (auto simp: bit_uint_iff bit_drop_bit_eq dest: bit_imp_le_length)

lemma sint_drop_bit_40:
  "sint (drop_bit k ((w :: s64) AND 0xFFFFFFFFFF)) = (sint w mod 2 ^ 40) div 2 ^ k"
proof -
  have u: "uint (drop_bit k (w AND 0xFFFFFFFFFF)) = (sint w mod 2 ^ 40) div 2 ^ k"
    unfolding uint_drop_bit uint_and_mask40 by (rule drop_bit_eq_div)
  have m: "0 \<le> sint w mod 2 ^ 40" "sint w mod 2 ^ 40 < 2 ^ 40"
    by simp_all
  have "(sint w mod 2 ^ 40) div 2 ^ k \<le> (sint w mod 2 ^ 40) div 1"
    using m by (intro zdiv_mono2) simp_all
  then have "uint (drop_bit k (w AND 0xFFFFFFFFFF)) < 2 ^ 63"
    using m unfolding u by simp
  moreover have "- (2 ^ 63) \<le> sint (drop_bit k (w AND 0xFFFFFFFFFF))"
    using sint_range_size [of "drop_bit k (w AND 0xFFFFFFFFFF)"] by (simp add: word_size)
  ultimately have "\<not> sint (drop_bit k (w AND 0xFFFFFFFFFF)) < 0"
    unfolding uint_sint_64 by (auto split: if_splits)
  then show ?thesis
    unfolding u [symmetric] uint_sint_64 by simp
qed

lemma sint_signed_drop: "sint (signed_drop_bit k (w :: s64)) = sint w div 2 ^ k"
  by (simp add: sint_signed_drop_bit_eq drop_bit_eq_div)

section \<open>Shifts\<close>

text \<open>A shift by \<open>n\<close> places, to the left when \<open>n\<close> is positive, on a 40-bit number.\<close>

definition lshift40 :: "int \<Rightarrow> int \<Rightarrow> int" where
  "lshift40 n a =
     s40 (if 0 \<le> n then a * 2 ^ nat n else (a mod 2 ^ 40) div 2 ^ nat (- n))"

definition ashift40 :: "int \<Rightarrow> int \<Rightarrow> int" where
  "ashift40 n a = s40 (if 0 \<le> n then a * 2 ^ nat n else a div 2 ^ nat (- n))"

definition right_amount :: "u16 \<Rightarrow> nat" where
  "right_amount opc = (if opc AND 0x3f = 0 then 0 else 0x40 - fld opc 0 0x3f)"

fun shift_reg :: "shift_fn \<Rightarrow> u16 \<Rightarrow> nat" where
  "shift_reg F_asr16 opc = fld opc 11 1"
| "shift_reg F_lsrn opc = 0"
| "shift_reg F_asrn opc = 0"
| "shift_reg _ opc = fld opc 8 1"

fun shift_by :: "shift_fn \<Rightarrow> u16 \<Rightarrow> dsp \<Rightarrow> int" where
  "shift_by F_lsl16 opc g = 16"
| "shift_by F_lsr16 opc g = - 16"
| "shift_by F_asr16 opc g = - 16"
| "shift_by F_lsl opc g = int (fld opc 0 0x3f)"
| "shift_by F_asl opc g = int (fld opc 0 0x3f)"
| "shift_by F_lsr opc g = - int (right_amount opc)"
| "shift_by F_asr opc g = - int (right_amount opc)"
| "shift_by F_lsrn opc g = - shift_amount (ac_m g 1)"
| "shift_by F_asrn opc g = - shift_amount (ac_m g 1)"
| "shift_by F_lsrnrx opc g = shift_amount (ax_h g (fld opc 9 1))"
| "shift_by F_asrnrx opc g = shift_amount (ax_h g (fld opc 9 1))"
| "shift_by F_lsrnr opc g = shift_amount (ac_m g (1 - fld opc 8 1))"
| "shift_by F_asrnr opc g = shift_amount (ac_m g (1 - fld opc 8 1))"

definition logical_shifts :: "shift_fn set" where
  "logical_shifts = {F_lsl16, F_lsr16, F_lsl, F_lsr, F_asl, F_lsrn, F_lsrnrx, F_lsrnr}"

definition lword :: "int \<Rightarrow> s64 \<Rightarrow> s64" where
  "lword n w = (if 0 \<le> n then push_bit (nat n) (w AND 0xFFFFFFFFFF)
                else drop_bit (nat (- n)) (w AND 0xFFFFFFFFFF))"

definition aword :: "int \<Rightarrow> s64 \<Rightarrow> s64" where
  "aword n w = (if 0 \<le> n then push_bit (nat n) w else signed_drop_bit (nat (- n)) w)"

lemma s40_lword: "s40 (sint (lword n w)) = lshift40 n (sint w)"
proof (cases "0 \<le> n")
  case True
  have "s40 (sint (w AND 0xFFFFFFFFFF) * 2 ^ nat n) = s40 (sint w * 2 ^ nat n)"
  proof (rule s40_cong)
    have "sint (w AND 0xFFFFFFFFFF) = sint w mod 2 ^ 40"
      using sint_drop_bit_40 [of 0 w] by simp
    then show "sint (w AND 0xFFFFFFFFFF) * 2 ^ nat n mod 2 ^ 40 = sint w * 2 ^ nat n mod 2 ^ 40"
      by (simp only: mod_mult_left_eq)
  qed
  with True show ?thesis
    unfolding lword_def lshift40_def by (simp only: s40_push_bit if_True)
next
  case False
  then show ?thesis
    unfolding lword_def lshift40_def by (simp only: sint_drop_bit_40 if_False)
qed

lemma s40_aword: "s40 (sint (aword n w)) = ashift40 n (sint w)"
  by (simp add: aword_def ashift40_def s40_push_bit sint_signed_drop)

lemmas shift_defs =
  Interpreter_lsl16_def Interpreter_lsr16_def Interpreter_asr16_def Interpreter_lsl_def
  Interpreter_lsr_def Interpreter_asl_def Interpreter_asr_def Interpreter_lsrn_def
  Interpreter_asrn_def Interpreter_lsrnrx_def Interpreter_asrnrx_def Interpreter_lsrnr_def
  Interpreter_asrnr_def

text \<open>\<open>LSL\<close>, \<open>LSL16\<close> and \<open>ASL\<close> do not drop the extension first.\<close>

definition plain_left :: "shift_fn set" where "plain_left = {F_lsl16, F_lsl, F_asl}"

lemma shift_shape:
  "shift_op f opc g = put40 (shift_reg f opc)
     ((if f \<in> logical_shifts - plain_left then lword else aword)
        (shift_by f opc g) (dsp_get_long_acc (shift_reg f opc) g)) g"
  by (cases f)
    (simp_all add: shift_defs put40_def Let_def dsp_set_long_acc_def lword_def aword_def
      logical_shifts_def plain_left_def right_amount_def dsp_get_acc_m_def)

text \<open>C23: every shift is a shift of the 40-bit number, logical or arithmetic.\<close>

theorem shift_correct:
  "unary_post (shift_reg f opc) g (shift_op f opc g)
     ((if f \<in> logical_shifts then lshift40 else ashift40)
        (shift_by f opc g) (acc40 (shift_reg f opc) g))"
proof -
  let ?w = "(if f \<in> logical_shifts - plain_left then lword else aword)
        (shift_by f opc g) (dsp_get_long_acc (shift_reg f opc) g)"
  have "0 \<le> shift_by f opc g" if "f \<in> plain_left"
    using that by (auto simp: plain_left_def)
  then have "s40 (sint ?w) = (if f \<in> logical_shifts then lshift40 else ashift40)
        (shift_by f opc g) (acc40 (shift_reg f opc) g)"
    by (cases "f \<in> plain_left") (auto simp: s40_lword s40_aword acc40_def lshift40_def ashift40_def
        logical_shifts_def plain_left_def)
  then show ?thesis
    using unary_post_put40 [of "shift_reg f opc" g ?w] by (simp add: shift_shape)
qed

section \<open>Moves and negations\<close>

definition move_ops :: "arith_fn set" where "move_ops = {F_neg, F_abs, F_movr, F_movax, F_mov}"

fun move_reg :: "arith_fn \<Rightarrow> u16 \<Rightarrow> nat" where
  "move_reg F_abs opc = fld opc 11 1"
| "move_reg _ opc = fld opc 8 1"

fun move_word :: "arith_fn \<Rightarrow> u16 \<Rightarrow> dsp \<Rightarrow> s64" where
  "move_word F_neg opc g = 0 - dsp_get_long_acc (fld opc 8 1) g"
| "move_word F_abs opc g =
     (let a = dsp_get_long_acc (fld opc 11 1) g in if sint a < 0 then 0 - a else a)"
| "move_word F_movr opc g = push_bit 16 (ax_part (fld opc 9 3) g) AND NOT 0xffff"
| "move_word F_movax opc g = scast (dsp_get_long_acx (fld opc 9 1) g)"
| "move_word F_mov opc g = dsp_get_long_acc (1 - fld opc 8 1) g"
| "move_word _ opc g = 0"

text \<open>Only the least number has no absolute value: it is its own negation on 40 bits.\<close>

fun move_value :: "arith_fn \<Rightarrow> u16 \<Rightarrow> dsp \<Rightarrow> int" where
  "move_value F_neg opc g = s40 (- acc40 (fld opc 8 1) g)"
| "move_value F_abs opc g =
     (let a = acc40 (fld opc 11 1) g in if a = - (2 ^ 39) then a else \<bar>a\<bar>)"
| "move_value F_movr opc g =
     65536 * sint (if fld opc 9 3 < 2 then ax_l g (fld opc 9 3) else ax_h g (fld opc 9 3 - 2))"
| "move_value F_movax opc g = 65536 * sint (ax_h g (fld opc 9 1)) + uint (ax_l g (fld opc 9 1))"
| "move_value F_mov opc g = acc40 (1 - fld opc 8 1) g"
| "move_value _ opc g = 0"

lemma not_ffff: "(- 65536 :: s64) = NOT (mask 16)"
  using minus_exp_eq_not_mask [of 16, where 'a = s64] by simp

lemma push_bit_and_not_ffff: "push_bit 16 w AND - 65536 = push_bit 16 (w :: s64)"
  unfolding not_ffff
  by (intro bit_word_eqI) (auto simp: bit_and_iff bit_not_iff bit_push_bit_iff bit_mask_iff)

lemma in_s40_acc: "in_s40 (sint (dsp_get_long_acc r g))"
  using acc40_range by (simp add: acc40_def)

lemma fld_3' [simp]: "fld opc k 3 < 4"
  by (rule fld_less) simp

lemma move_shape:
  assumes "f \<in> move_ops"
  shows "arith_op f opc g = put40 (move_reg f opc) (move_word f opc g) g"
  using assms
  by (auto simp: move_ops_def Interpreter_neg_def Interpreter_abs_def Interpreter_movr_def
      Interpreter_movax_def Interpreter_mov_def put40_def Let_def dsp_set_long_acc_def
      push_bit_and_not_ffff sint_ax_part sint_scast_up sint_acx in_s40_operands in_s40_acc
      put40_get [unfolded put40_def Let_def])

lemma abs40:
  assumes "in_s40 a"
  shows "s40 (if a < 0 then - a else a) = (if a = - (2 ^ 39) then a else \<bar>a\<bar>)"
proof (cases "a = - (2 ^ 39)")
  case True
  then show ?thesis
    by (simp add: s40_def)
next
  case False
  then have "in_s40 (if a < 0 then - a else a)"
    using assms by (auto simp: in_s40_def)
  with False show ?thesis
    by (auto simp: s40_self)
qed

lemma s40_move_word:
  assumes "f \<in> move_ops"
  shows "s40 (sint (move_word f opc g)) = move_value f opc g"
proof -
  have neg: "s40 (sint (0 - dsp_get_long_acc d g)) = s40 (- acc40 d g)" for d
    using s40_sint_ops(3) [of "dsp_get_long_acc d g"] by (simp add: acc40_def)
  have "s40 (sint (move_word F_abs opc g)) = move_value F_abs opc g"
    using abs40 [OF acc40_range, of "fld opc 11 1" g] neg [of "fld opc 11 1"]
    by (simp add: acc40_def Let_def s40_self [OF in_s40_acc] split: if_splits)
  with neg [of "fld opc 8 1"] show ?thesis
    using assms
    by (auto simp: move_ops_def push_bit_and_not_ffff sint_ax_part sint_scast_up sint_acx
        in_s40_operands in_s40_acc s40_self acc40_def)
qed

text \<open>C27: moves, \<open>NEG\<close> and \<open>ABS\<close> put the value they name into the accumulator.\<close>

theorem move_correct:
  assumes "f \<in> move_ops"
  shows "unary_post (move_reg f opc) g (arith_op f opc g) (move_value f opc g)"
  using unary_post_put40 [of "move_reg f opc" g "move_word f opc g"] move_shape [OF assms]
    s40_move_word [OF assms, of opc g] by simp

theorem move_correct_witness:
  "F_neg \<in> move_ops \<and> acc40 0 (arith_op F_neg 0x7c00 (set_ac 0 5 dsp_zero)) = - 5"
proof -
  have "F_neg \<in> move_ops"
    by (simp add: move_ops_def)
  then have "unary_post (move_reg F_neg 0x7c00) (set_ac 0 5 dsp_zero)
      (arith_op F_neg 0x7c00 (set_ac 0 5 dsp_zero)) (move_value F_neg 0x7c00 (set_ac 0 5 dsp_zero))"
    by (rule move_correct)
  moreover have "fld 0x7c00 8 1 = 0"
    by (simp add: fld_def)
  ultimately show ?thesis
    by (simp add: unary_post_def acc40_eq s40_def move_ops_def)
qed

section \<open>Rounding\<close>

text \<open>Rounding to a multiple of \<open>65536\<close>, halves to the even multiple.\<close>

definition round_half_even :: "int \<Rightarrow> int" where
  "round_half_even k = (k + 0x7fff + (k div 65536) mod 2) div 65536"

lemma round_half_even_spec:
  "\<bar>65536 * round_half_even k - k\<bar> \<le> 32768"
  "\<bar>65536 * round_half_even k - k\<bar> = 32768 \<Longrightarrow> even (round_half_even k)"
proof -
  define q r where "q = k div 65536" and "r = k mod 65536"
  have k: "k = 65536 * q + r" and r: "0 \<le> r" "r < 65536"
    by (simp_all add: q_def r_def)
  have div: "round_half_even k = q + (r + 0x7fff + q mod 2) div 65536"
  proof -
    have "k + 0x7fff + q mod 2 = (r + 0x7fff + q mod 2) + 65536 * q"
      using k by simp
    then show ?thesis
      unfolding round_half_even_def q_def [symmetric] by simp
  qed
  have m: "q mod 2 = 0 \<or> q mod 2 = 1"
    by auto
  have "(r + 0x7fff + q mod 2) div 65536 = (if 65536 \<le> r + 0x7fff + q mod 2 then 1 else 0)"
    using r m by (auto simp: div_pos_geq)
  then have d: "65536 * round_half_even k - k =
      (if 65536 \<le> r + 0x7fff + q mod 2 then 65536 - r else - r)"
    unfolding div by (simp add: k)
  show "\<bar>65536 * round_half_even k - k\<bar> \<le> 32768"
    using r m unfolding d by (auto split: if_splits)
  assume tie: "\<bar>65536 * round_half_even k - k\<bar> = 32768"
  then have "r = 32768"
    using r unfolding d by (auto split: if_splits)
  from m show "even (round_half_even k)"
  proof
    assume "q mod 2 = 0"
    with \<open>r = 32768\<close> have "round_half_even k = q"
      unfolding div by simp
    with \<open>q mod 2 = 0\<close> show ?thesis
      by (simp add: even_iff_mod_2_eq_zero)
  next
    assume "q mod 2 = 1"
    with \<open>r = 32768\<close> have "round_half_even k = q + 1"
      unfolding div by simp
    with \<open>q mod 2 = 1\<close> show ?thesis
      by presburger
  qed
qed

lemma sint_and_not_ffff: "sint ((w :: s64) AND - 65536) = 65536 * (sint w div 65536)"
proof -
  have "sint (w AND NOT (mask 16)) = push_bit 16 (drop_bit 16 (sint w))"
  proof (rule bit_eqI)
    fix n
    show "bit (sint (w AND NOT (mask 16))) n = bit (push_bit 16 (drop_bit 16 (sint w))) n"
      by (cases "n < 16"; cases "n < 64")
        (auto simp: bit_sint_iff bit_and_iff bit_not_iff bit_mask_iff bit_push_bit_iff
          bit_drop_bit_eq min_def dest: bit_imp_le_length)
  qed
  then show ?thesis
    by (simp only: not_ffff push_bit_eq_mult drop_bit_eq_div) simp
qed

lemma bit_16_sint: "(v :: s64) AND 0x10000 \<noteq> 0 \<longleftrightarrow> odd (sint v div 65536)"
proof -
  have "v AND 2 ^ 16 \<noteq> 0 \<longleftrightarrow> bit (sint v) 16"
    by (simp only: and_exp_zero bit_sint_iff) simp
  then show ?thesis
    by (simp add: bit_iff_odd)
qed

lemma sint_round_long_acc:
  assumes "- (2 ^ 62) \<le> sint v" "sint v < 2 ^ 62"
  shows "sint (dsp_round_long_acc v) = 65536 * round_half_even (sint v)"
proof -
  have add: "sint (v + w) = sint v + sint w" if "0 \<le> sint w" "sint w \<le> 0x8000" for w
    using assms that by (simp add: in_s40_def sint_word_ariths signed_take_bit_int_eq_self)
  have c: "sint (0x8000 :: s64) = 0x8000" "sint (0x7fff :: s64) = 0x7fff"
    by simp_all
  show ?thesis
    unfolding dsp_round_long_acc_def bit_16_sint round_half_even_def
    by (auto simp: sint_and_not_ffff add c odd_iff_mod_2_eq_one even_iff_mod_2_eq_zero)
qed

lemma lane_0_round: "lane 0 (dsp_round_long_acc v) = 0"
proof (rule bit_word_eqI)
  fix n assume n: "n < LENGTH(16)"
  then have "\<not> bit (w AND - 65536 :: s64) n" for w
    unfolding not_ffff by (simp add: bit_and_iff bit_not_iff bit_mask_iff)
  then show "bit (lane 0 (dsp_round_long_acc v)) n = bit 0 n"
    unfolding dsp_round_long_acc_def by (simp add: bit_lane)
qed

text \<open>\<open>CLRL\<close> rounds the accumulator to its upper 24 bits, halves to even.\<close>

theorem clrl_rounds:
  "acc40 (fld opc 8 1) (logic_op F_clrl opc g) =
       s40 (65536 * round_half_even (acc40 (fld opc 8 1) g))
   \<and> ac_l (logic_op F_clrl opc g) (fld opc 8 1) = 0
   \<and> \<bar>65536 * round_half_even (acc40 (fld opc 8 1) g) - acc40 (fld opc 8 1) g\<bar> \<le> 32768
   \<and> \<not> (\<bar>65536 * round_half_even (acc40 (fld opc 8 1) g) - acc40 (fld opc 8 1) g\<bar> = 32768
        \<and> odd (round_half_even (acc40 (fld opc 8 1) g)))"
proof -
  let ?d = "fld opc 8 1" and ?v = "dsp_round_long_acc (dsp_get_long_acc (fld opc 8 1) g)"
  have g': "logic_op F_clrl opc g = Update_SR_Register64 ?v False False (set_ac ?d ?v g)"
    by (simp add: Interpreter_clrl_def dsp_set_long_acc_def Let_def)
  obtain w where w: "logic_op F_clrl opc g = set_sr w (set_ac ?d ?v g)"
    unfolding g' using Update_SR_Register64_frame by blast
  have v: "sint ?v = 65536 * round_half_even (acc40 ?d g)"
    using in_s40_acc [of ?d g] unfolding acc40_def by (intro sint_round_long_acc) (simp_all add: in_s40_def)
  have lo: "ac_l (logic_op F_clrl opc g) ?d = 0"
    unfolding w using lane_0_round by simp
  have "acc40 ?d (logic_op F_clrl opc g) = s40 (65536 * round_half_even (acc40 ?d g))"
    unfolding v [symmetric] w by (simp add: acc40_eq)
  then show ?thesis
    using lo round_half_even_spec [of "acc40 ?d g"] by blast
qed

end
