(* ===== verification/DSP_Product.thy ===== *)
theory DSP_Product
  imports DSP_Shift
begin

text \<open>
  What the multiplier computes: products of signed, unsigned and mixed 16-bit operands, doubled
  unless the status register says otherwise, added to or subtracted from the 40-bit product
  register, and the sums and moves of that register into an accumulator.
\<close>

section \<open>The product register as a number\<close>

text \<open>The register holds a product in four parts; the two middle ones are added on reading.\<close>

definition longp :: "dsp \<Rightarrow> int" where "longp g = sint (dsp_get_long_prod g)"

definition longp_parts :: "u16 \<Rightarrow> u16 \<Rightarrow> u16 \<Rightarrow> u16 \<Rightarrow> int" where
  "longp_parts h m m2 l =
     2 ^ 32 * sint (ucast h :: s8) + 65536 * (uint m + uint m2) + uint l"

lemma sint_eqI: "v = word_of_int k \<Longrightarrow> - (2 ^ 63) \<le> k \<Longrightarrow> k < 2 ^ 63 \<Longrightarrow> sint (v :: s64) = k"
  by (simp add: sint_sbintrunc' signed_take_bit_int_eq_self)

lemma parts_bounds_int:
  fixes h m m2 l :: int
  assumes "- 128 \<le> h" "h < 128" "0 \<le> m" "m < 65536" "0 \<le> m2" "m2 < 65536" "0 \<le> l" "l < 65536"
  shows "- (2 ^ 39) \<le> 2 ^ 32 * h + 65536 * (m + m2) + l"
    and "2 ^ 32 * h + 65536 * (m + m2) + l < 2 ^ 40"
  using assms by simp_all

lemma longp_parts_bounds: "- (2 ^ 39) \<le> longp_parts h m m2 l" "longp_parts h m m2 l < 2 ^ 40"
  unfolding longp_parts_def
  by (rule parts_bounds_int sint_8_range uint_16_range)+

lemma longp_eq: "longp g = longp_parts (prod_h g) (prod_m g) (prod_m2 g) (prod_l g)"
proof -
  let ?h = "prod_h g" and ?m = "prod_m g" and ?m2 = "prod_m2 g" and ?l = "prod_l g"
  have o: "push_bit 16 w OR ucast ?l = push_bit 16 w + (ucast ?l :: s64)" for w
    by (rule disjunctive_add_eq_or [symmetric], rule bit_word_eqI)
      (auto simp: bit_and_iff bit_push_bit_iff bit_ucast_iff dest: bit_imp_le_length)
  have "dsp_get_long_prod g = word_of_int (longp_parts ?h ?m ?m2 ?l)"
    unfolding dsp_get_long_prod_def longp_parts_def Let_def o
    by (simp add: push_bit_eq_mult algebra_simps)
  then show ?thesis
    unfolding longp_def
    using longp_parts_bounds [of ?h ?m ?m2 ?l] by (intro sint_eqI) simp_all
qed

lemma longp_bounds: "- (2 ^ 39) \<le> longp g" "longp g < 2 ^ 40"
  unfolding longp_eq by (rule longp_parts_bounds)+

lemma longp_set: "longp (dsp_set_long_prod v g) = s40 (sint v)"
proof -
  let ?p = "v AND 0xFFFFFFFFFF"
  have z: "lane 3 ?p = 0"
    by (rule bit_word_eqI) (auto simp: bit_lane bit_and_iff bit_ones)
  have "dsp_get_long_prod (dsp_set_long_prod v g) = dsp_convert_long_acc v"
  proof (rule bit_word_eqI)
    fix n assume "n < LENGTH(64)"
    let ?x = "push_bit 32 (scast (ucast (lane 2 ?p) :: s8) :: s64)"
      and ?y = "push_bit 16 (ucast (lane 1 ?p)) OR ucast (lane 0 ?p) :: s64"
    have "?x + ?y = ?x OR ?y"
      by (rule disjunctive_add_eq_or, rule bit_word_eqI)
        (auto simp: bit_simps bit_lane)
    then show "bit (dsp_get_long_prod (dsp_set_long_prod v g)) n = bit (dsp_convert_long_acc v) n"
      using \<open>n < LENGTH(64)\<close>
      by (auto simp: dsp_get_long_prod_def dsp_set_long_prod_def dsp_convert_long_acc_def Let_def z
          bit_simps bit_lane bit_ones)
  qed
  then show ?thesis
    by (simp add: longp_def sint_convert)
qed

section \<open>Products\<close>

definition mul_scale :: "dsp \<Rightarrow> int" where
  "mul_scale g = (if dsp_sr g AND SR_MUL_MODIFY = 0 then 2 else 1)"

text \<open>A half of a register; the low half is unsigned in unsigned mode.\<close>

definition half_value :: "nat \<Rightarrow> u32 \<Rightarrow> dsp \<Rightarrow> int" where
  "half_value s w g =
     (if s = 0 then
        (if dsp_sr g AND SR_MUL_UNSIGNED \<noteq> 0 then uint (lane 0 w) else sint (lane 0 w))
      else sint (lane 1 w))"

lemma mult_range:
  fixes x y :: int
  assumes "- 32768 \<le> x" "x < 65536" "- 32768 \<le> y" "y < 65536"
  shows "- (2 ^ 31) \<le> x * y" "x * y < 2 ^ 32"
proof -
  have "\<bar>x\<bar> * \<bar>y\<bar> \<le> 65535 * 65535"
    using assms by (intro mult_mono) auto
  then have a: "\<bar>x * y\<bar> \<le> 65535 * 65535"
    by (simp add: abs_mult)
  then show "x * y < 2 ^ 32"
    by simp
  show "- (2 ^ 31) \<le> x * y"
  proof (cases "0 \<le> x"; cases "0 \<le> y")
    assume "0 \<le> x" "\<not> 0 \<le> y"
    then have "x * - y \<le> 65536 * 32768"
      using assms by (intro mult_mono) auto
    then show ?thesis by simp
  next
    assume "\<not> 0 \<le> x" "0 \<le> y"
    then have "- x * y \<le> 32768 * 65536"
      using assms by (intro mult_mono) auto
    then show ?thesis by simp
  next
    assume "0 \<le> x" "0 \<le> y"
    then have "0 \<le> x * y" by simp
    then show ?thesis by simp
  next
    assume "\<not> 0 \<le> x" "\<not> 0 \<le> y"
    then have "0 \<le> x * y" by (simp add: mult_nonpos_nonpos)
    then show ?thesis by simp
  qed
qed

lemma sint_mult_32:
  assumes "- (2 ^ 31) \<le> sint v * sint w" "sint v * sint w < 2 ^ 31"
  shows "sint ((v :: s32) * w) = sint v * sint w"
  using assms by (simp add: sint_word_ariths signed_take_bit_int_eq_self)

lemma uint_mult_32:
  assumes "uint v * uint w < 2 ^ 32"
  shows "uint ((v :: u32) * w) = uint v * uint w"
  using assms by (simp add: uint_word_ariths)

lemma push_1: "- (2 ^ 62) \<le> sint (w :: s64) \<Longrightarrow> sint w < 2 ^ 62 \<Longrightarrow> sint (push_bit 1 w) = 2 * sint w"
proof -
  assume w: "- (2 ^ 62) \<le> sint w" "sint w < 2 ^ 62"
  have "push_bit 1 w = w * 2"
    by (simp add: push_bit_eq_mult)
  then show ?thesis
    using w by (simp add: sint_word_ariths signed_take_bit_int_eq_self)
qed

lemma sint_scale:
  assumes "- (2 ^ 31) \<le> sint (p :: s64)" "sint p < 2 ^ 32"
  shows "sint (if dsp_sr g AND SR_MUL_MODIFY = 0 then push_bit 1 p else p) = mul_scale g * sint p"
  using assms push_1 [of p] by (simp add: mul_scale_def)

lemma uint_mult_u16: "uint (ucast a * ucast b :: u32) = uint (a :: u16) * uint (b :: u16)"
proof -
  have u: "uint (ucast w :: u32) = uint (w :: u16)" for w
    using uint_16_range [of w] by (simp add: unsigned_ucast_eq take_bit_int_eq_self)
  have "uint a * uint b < 2 ^ 32"
    using uint_16_range [of a] uint_16_range [of b] by (intro mult_range) linarith+
  then show ?thesis
    using uint_mult_32 [of "ucast a" "ucast b"] by (simp only: u)
qed

lemma sint_mult_mixed: "sint (ucast a * scast b :: s32) = uint (a :: u16) * sint (b :: u16)"
proof -
  have "\<bar>uint a\<bar> * \<bar>sint b\<bar> \<le> 65535 * 32768"
    using uint_16_range [of a] sint_16_range [of b] by (intro mult_mono) auto
  then have "\<bar>uint a * sint b\<bar> < 2 ^ 31"
    by (simp add: abs_mult)
  then show ?thesis
    using sint_mult_32 [of "ucast a" "scast b"] by (simp add: sint_ucast_up sint_scast_up)
qed

lemma sint_mult_s16: "sint (scast a * scast b :: s32) = sint (a :: u16) * sint (b :: u16)"
proof -
  have "\<bar>sint a\<bar> * \<bar>sint b\<bar> \<le> 32768 * 32768"
    using sint_16_range [of a] sint_16_range [of b] by (intro mult_mono) auto
  then have "\<bar>sint a * sint b\<bar> < 2 ^ 31"
    by (simp add: abs_mult)
  then show ?thesis
    using sint_mult_32 [of "scast a" "scast b"] by (simp add: sint_scast_up)
qed

definition operand_value :: "bool \<Rightarrow> u16 \<Rightarrow> dsp \<Rightarrow> int" where
  "operand_value uns w g = (if uns \<and> dsp_sr g AND SR_MUL_UNSIGNED \<noteq> 0 then uint w else sint w)"

lemma sint_multiply:
  "sint (dsp_multiply a b sign g) =
     mul_scale g * (operand_value (sign = 1 \<or> sign = 2) a g * operand_value (sign = 1) b g)"
proof -
  let ?U = "dsp_sr g AND SR_MUL_UNSIGNED \<noteq> 0"
  define p where "p = (if sign = 1 \<and> ?U then ucast ((ucast a :: u32) * ucast b)
      else if sign = 2 \<and> ?U then scast ((ucast a :: s32) * scast b)
      else scast ((scast a :: s32) * scast b) :: s64)"
  have p: "sint p = operand_value (sign = 1 \<or> sign = 2) a g * operand_value (sign = 1) b g"
    unfolding p_def
    by (simp add: operand_value_def sint_ucast_up sint_scast_up uint_mult_u16 sint_mult_mixed sint_mult_s16)
  have "- 32768 \<le> operand_value u w g" "operand_value u w g < 65536" for u w
    using order_trans [OF _ uint_16_range(1) [of w], of "- 32768"] uint_16_range(2) [of w]
      sint_16_range [of w] by (simp_all add: operand_value_def)
  then have r: "- (2 ^ 31) \<le> sint p" "sint p < 2 ^ 32"
    unfolding p by (simp_all only: mult_range)
  have "dsp_multiply a b sign g = (if dsp_sr g AND SR_MUL_MODIFY = 0 then push_bit 1 p else p)"
    by (simp only: dsp_multiply_def dsp_get_multiply_prod_def Let_def p_def)
  then show ?thesis
    by (simp only: sint_scale [OF r] p)
qed

lemma sint_mulx:
  assumes "s = 0 \<or> s = 1" "t = 0 \<or> t = 1"
  shows "sint (dsp_multiply_mulx s t (lane s v) (lane t w) g) =
    mul_scale g * (half_value s v g * half_value t w g)"
  using assms
  by (auto simp: dsp_multiply_mulx_def sint_multiply operand_value_def half_value_def mult.commute)

text \<open>The product each multiplication leaves in the product register.\<close>

definition ax_product :: "u16 \<Rightarrow> dsp \<Rightarrow> int" where
  "ax_product opc g =
     mul_scale g * (half_value (fld opc 12 1) (dsp_ax g 0) g * half_value (fld opc 11 1) (dsp_ax g 1) g)"

definition acm_product :: "nat \<Rightarrow> nat \<Rightarrow> dsp \<Rightarrow> int" where
  "acm_product s t g = mul_scale g * (sint (ac_m g s) * sint (ax_h g t))"

fun mult_value :: "mult_fn \<Rightarrow> u16 \<Rightarrow> dsp \<Rightarrow> int" where
  "mult_value F_clrp opc g = 0"
| "mult_value F_mulaxh opc g = mul_scale g * (sint (ax_h g 0) * sint (ax_h g 0))"
| "mult_value F_mulx opc g = ax_product opc g"
| "mult_value F_mulxac opc g = ax_product opc g"
| "mult_value F_mulxmv opc g = ax_product opc g"
| "mult_value F_mulxmvz opc g = ax_product opc g"
| "mult_value F_mulc opc g = acm_product (fld opc 12 1) (fld opc 11 1) g"
| "mult_value F_mulcac opc g = acm_product (fld opc 12 1) (fld opc 11 1) g"
| "mult_value F_mulcmv opc g = acm_product (fld opc 12 1) (fld opc 11 1) g"
| "mult_value F_mulcmvz opc g = acm_product (fld opc 12 1) (fld opc 11 1) g"
| "mult_value F_maddx opc g = longp g
     + mul_scale g * (sint (lane (fld opc 9 1) (dsp_ax g 0)) * sint (lane (fld opc 8 1) (dsp_ax g 1)))"
| "mult_value F_msubx opc g = longp g
     - mul_scale g * (sint (lane (fld opc 9 1) (dsp_ax g 0)) * sint (lane (fld opc 8 1) (dsp_ax g 1)))"
| "mult_value F_maddc opc g = longp g + acm_product (fld opc 9 1) (fld opc 8 1) g"
| "mult_value F_msubc opc g = longp g - acm_product (fld opc 9 1) (fld opc 8 1) g"
| "mult_value F_madd opc g = longp g
     + mul_scale g * (sint (ax_l g (fld opc 8 1)) * sint (ax_h g (fld opc 8 1)))"
| "mult_value F_msub opc g = longp g
     - mul_scale g * (sint (ax_l g (fld opc 8 1)) * sint (ax_h g (fld opc 8 1)))"
| "mult_value _ opc g = mul_scale g * (sint (ax_l g (fld opc 11 1)) * sint (ax_h g (fld opc 11 1)))"

text \<open>These leave the product register alone.\<close>

definition prod_readers :: "mult_fn set" where
  "prod_readers = {F_tstprod, F_movp, F_movnp, F_movpz, F_addpaxz}"

lemma longp_clrp: "longp (Interpreter_clrp opc g) = 0"
proof -
  have "prod_l (Interpreter_clrp opc g) = 0" "prod_m (Interpreter_clrp opc g) = 0xfff0"
    "prod_h (Interpreter_clrp opc g) = 0xff" "prod_m2 (Interpreter_clrp opc g) = 0x10"
    by (simp_all add: Interpreter_clrp_def Let_def)
  then show ?thesis
    by (simp add: longp_eq longp_parts_def)
qed

lemma longp_frame [simp]:
  "longp (set_sr w g) = longp g" "longp (set_ac d v g) = longp g"
  "longp (Update_SR_Register64 v c ov g) = longp g"
proof -
  show a: "longp (set_sr w g) = longp g" "longp (set_ac d v g) = longp g" for w
    by (simp_all add: longp_eq)
  show "longp (Update_SR_Register64 v c ov g) = longp g"
    using Update_SR_Register64_frame [of v c ov g] a(1) by metis
qed

lemma ax_select:
  "(if fld opc k 1 = 0 then dsp_get_ax_l r g else dsp_get_ax_h r g) = lane (fld opc k 1) (dsp_ax g r)"
  using fld_1_cases [of opc k] by (auto simp: dsp_get_ax_l_def dsp_get_ax_h_def)

lemmas mult_defs =
  Interpreter_tstprod_def Interpreter_movp_def Interpreter_movnp_def Interpreter_movpz_def
  Interpreter_addpaxz_def Interpreter_mulaxh_def Interpreter_mul_def Interpreter_mulac_def
  Interpreter_mulmv_def Interpreter_mulmvz_def Interpreter_mulx_def Interpreter_mulxac_def
  Interpreter_mulxmv_def Interpreter_mulxmvz_def Interpreter_mulc_def Interpreter_mulcac_def
  Interpreter_mulcmv_def Interpreter_mulcmvz_def Interpreter_maddx_def Interpreter_msubx_def
  Interpreter_maddc_def Interpreter_msubc_def Interpreter_madd_def Interpreter_msub_def

lemma longp_multiply [simp]:
  "longp (dsp_set_long_prod (dsp_multiply a b sign g) g') =
     s40 (mul_scale g * (operand_value (sign = 1 \<or> sign = 2) a g * operand_value (sign = 1) b g))"
  "longp (dsp_set_long_prod (dsp_multiply_add a b sign g) g') =
     s40 (longp g + mul_scale g * (operand_value (sign = 1 \<or> sign = 2) a g * operand_value (sign = 1) b g))"
  "longp (dsp_set_long_prod (dsp_multiply_sub a b sign g) g') =
     s40 (longp g - mul_scale g * (operand_value (sign = 1 \<or> sign = 2) a g * operand_value (sign = 1) b g))"
  by (simp_all only: longp_set sint_multiply dsp_multiply_add_def dsp_multiply_sub_def s40_sint_ops
      dsp_multiply_def [symmetric] longp_def [symmetric])

lemma longp_mulx [simp]:
  "longp (dsp_set_long_prod (dsp_multiply_mulx (fld opc 12 1) (fld opc 11 1)
       (lane (fld opc 12 1) (dsp_ax g 0)) (lane (fld opc 11 1) (dsp_ax g 1)) g) g') = s40 (ax_product opc g)"
  by (simp only: longp_set sint_mulx [OF fld_1_cases fld_1_cases] ax_product_def)

lemma operand_value_False [simp]: "operand_value False w g = sint w"
  by (simp add: operand_value_def)

text \<open>C26: every multiplication leaves the 40-bit number it names in the product register.\<close>

theorem product_correct:
  "longp (mult_op f opc g) =
     (if f \<in> prod_readers then longp g else s40 (mult_value f opc g))"
  by (cases f)
    (simp_all add: mult_defs Let_def ax_select longp_clrp prod_readers_def dsp_set_long_acc_def
      dsp_get_ax_l_def dsp_get_ax_h_def dsp_get_acc_m_def acm_product_def mult.commute s40_self in_s40_def
      longp_mulx [unfolded One_nat_def])

section \<open>Products in an accumulator\<close>

fun acc_value :: "mult_fn \<Rightarrow> u16 \<Rightarrow> dsp \<Rightarrow> int option" where
  "acc_value F_movp opc g = Some (longp g)"
| "acc_value F_movnp opc g = Some (- longp g)"
| "acc_value F_movpz opc g = Some (65536 * round_half_even (longp g))"
| "acc_value F_addpaxz opc g =
     Some (65536 * round_half_even (longp g) + 65536 * sint (ax_h g (fld opc 9 1)))"
| "acc_value F_mulac opc g = Some (acc40 (fld opc 8 1) g + longp g)"
| "acc_value F_mulxac opc g = Some (acc40 (fld opc 8 1) g + longp g)"
| "acc_value F_mulcac opc g = Some (acc40 (fld opc 8 1) g + longp g)"
| "acc_value F_mulmv opc g = Some (longp g)"
| "acc_value F_mulxmv opc g = Some (longp g)"
| "acc_value F_mulcmv opc g = Some (longp g)"
| "acc_value F_mulmvz opc g = Some (65536 * round_half_even (longp g))"
| "acc_value F_mulxmvz opc g = Some (65536 * round_half_even (longp g))"
| "acc_value F_mulcmvz opc g = Some (65536 * round_half_even (longp g))"
| "acc_value _ opc g = None"

lemma sint_round_prod: "sint (dsp_get_long_prod_round_prodl g) = 65536 * round_half_even (longp g)"
proof -
  have "dsp_get_long_prod_round_prodl g = dsp_round_long_acc (dsp_get_long_prod g)"
    by (simp add: dsp_get_long_prod_round_prodl_def dsp_round_long_acc_def Let_def)
  then show ?thesis
    using sint_round_long_acc [of "dsp_get_long_prod g"] longp_bounds [of g]
    by (simp add: longp_def)
qed

lemma acc40_prod [simp]:
  "acc40 r (set_prod p g) = acc40 r g"
  "acc40 r (dsp_set_long_prod v g) = acc40 r g"
  by (simp_all add: acc40_eq dsp_set_long_prod_def)

lemma acc40_Update [simp]: "acc40 r (Update_SR_Register64 v c ov g) = acc40 r g"
  using Update_SR_Register64_frame [of v c ov g] by (metis acc40_set_acc(3))

lemma sint_acx_high:
  "sint (scast (dsp_get_long_acx r g) AND - 65536 :: s64) = 65536 * sint (ax_h g r)"
  using uint_16_range [of "ax_l g r"]
  by (simp add: sint_and_not_ffff sint_scast_up sint_acx)

text \<open>The accumulator an instruction of the multiplier names ends up with its sum or product.\<close>

theorem product_to_accumulator:
  "acc40 r (mult_op f opc g) =
     (case acc_value f opc g of
        Some k \<Rightarrow> if r = fld opc 8 1 then s40 k else acc40 r g
      | None \<Rightarrow> acc40 r g)"
  by (cases f)
    (simp_all add: mult_defs Interpreter_clrp_def Let_def dsp_set_long_acc_def acc40_set_acc s40_sint_ops
      sint_round_prod sint_acx_high [unfolded One_nat_def] longp_def [symmetric] acc40_def [symmetric])

text \<open>The instructions that read the accumulator back before they set the flags.\<close>

definition accumulating :: "mult_fn set" where
  "accumulating = {F_mulac, F_mulmv, F_mulmvz, F_mulxac, F_mulxmv, F_mulxmvz,
     F_mulcac, F_mulcmv, F_mulcmvz}"

lemma stored_shape:
  assumes "s40 (sint w) = k"
  shows "\<exists>p w'. Update_SR_Register64 (dsp_get_long_acc d (dsp_set_long_acc d w (dsp_set_long_prod v g)))
      False False (dsp_set_long_acc d w (dsp_set_long_prod v g)) = put40 d w' (set_prod p g)
    \<and> s40 (sint w') = k"
  using assms by (intro exI [of _ "v AND 0xFFFFFFFFFF"] exI [of _ w])
    (simp add: dsp_set_long_acc_def dsp_set_long_prod_def put40_def Let_def)

lemma accumulating_shape:
  assumes "f \<in> accumulating"
  shows "\<exists>p w. mult_op f opc g = put40 (fld opc 8 1) w (set_prod p g)
    \<and> s40 (sint w) = s40 (the (acc_value f opc g))"
  using assms unfolding accumulating_def
  by (elim insertE; simp only: mult_op.simps acc_value.simps option.sel mult_defs Let_def
      zeroWriteBackLog_simps empty_iff; intro stored_shape)
    (simp_all only: s40_sint_ops sint_round_prod longp_def [symmetric] acc40_def [symmetric])

text \<open>A multiplication that moves or adds the old product sets the flags of what it stored.\<close>

theorem accumulating_flags:
  assumes "f \<in> accumulating"
  shows "\<exists>p. unary_post (fld opc 8 1) (set_prod p g) (mult_op f opc g)
    (s40 (the (acc_value f opc g)))"
  using accumulating_shape [OF assms, of opc g] unary_post_put40 by metis

theorem accumulating_flags_witness:
  "F_mulac \<in> accumulating \<and> acc40 0 (mult_op F_mulac 0x9400 (set_ac 0 7 dsp_zero)) = 7"
proof -
  have "F_mulac \<in> accumulating"
    by (simp add: accumulating_def)
  then obtain p where "unary_post (fld 0x9400 8 1) (set_prod p (set_ac 0 7 dsp_zero))
      (mult_op F_mulac 0x9400 (set_ac 0 7 dsp_zero))
      (s40 (the (acc_value F_mulac 0x9400 (set_ac 0 7 dsp_zero))))"
    using accumulating_flags by blast
  moreover have "fld 0x9400 8 1 = 0"
    by (simp add: fld_def)
  moreover have "longp (set_ac 0 7 dsp_zero) = 0"
    by (simp add: longp_eq longp_parts_def dsp_zero_def lane_def)
  ultimately show ?thesis
    by (simp add: unary_post_def acc40_eq s40_def accumulating_def)
qed

end
