(* ===== verification/DSP_Addressing.thy ===== *)
theory DSP_Addressing
  imports DSP_ALU
begin

text \<open>
  The circular address registers.  A wrapping register \<open>wr\<close> describes a buffer of \<open>wr + 1\<close>
  words that ends where an aligned block of \<open>2 ^ k\<close> words ends, \<open>k\<close> the length of \<open>wr\<close> in bits.
  Inside the buffer, stepping an address register by \<open>i\<close> is addition modulo \<open>wr + 1\<close>.
\<close>

section \<open>The buffer\<close>

fun buf_bits :: "nat \<Rightarrow> nat" where
  "buf_bits w = (if w < 2 then 1 else Suc (buf_bits (w div 2)))"

declare buf_bits.simps [simp del]

definition buf_block :: "nat \<Rightarrow> int" where "buf_block wr = 2 ^ buf_bits wr"

definition buf_start :: "nat \<Rightarrow> nat \<Rightarrow> int" where
  "buf_start wr ar = int ar - int ar mod buf_block wr + buf_block wr - (int wr + 1)"

definition in_buffer :: "nat \<Rightarrow> nat \<Rightarrow> bool" where
  "in_buffer wr ar \<longleftrightarrow> buf_start wr ar \<le> int ar"

definition circ :: "nat \<Rightarrow> nat \<Rightarrow> int \<Rightarrow> int" where
  "circ wr ar i = buf_start wr ar + (int ar - buf_start wr ar + i) mod (int wr + 1)"

lemma buf_bits_less: "w < 2 ^ buf_bits w"
  by (induction w rule: buf_bits.induct) (subst buf_bits.simps, auto)

lemma buf_bits_ge: "2 ^ (buf_bits w - 1) \<le> max w 1"
proof (induction w rule: buf_bits.induct)
  case (1 w)
  show ?case
  proof (cases "w < 2")
    case True
    then show ?thesis
      by (subst buf_bits.simps) simp
  next
    case False
    then have IH: "2 ^ (buf_bits (w div 2) - 1) \<le> w div 2"
      using 1 by (simp add: max_def split: if_splits)
    have "0 < buf_bits (w div 2)"
      by (subst buf_bits.simps) simp
    then have "(2::nat) ^ buf_bits (w div 2) = 2 * 2 ^ (buf_bits (w div 2) - 1)"
      by (simp flip: power_Suc)
    with IH False show ?thesis
      by (subst buf_bits.simps) simp
  qed
qed

lemma buf_bits_pos: "0 < buf_bits w"
  by (subst buf_bits.simps) simp

lemma buf_bits_16: "w < 65536 \<Longrightarrow> buf_bits w \<le> 16"
proof (rule ccontr)
  assume w: "w < 65536" "\<not> buf_bits w \<le> 16"
  then have "(2::nat) ^ 16 \<le> 2 ^ (buf_bits w - 1)"
    by (intro power_increasing) simp_all
  with w buf_bits_ge [of w] show False
    by (simp add: max_def split: if_splits)
qed

section \<open>Carries\<close>

lemma div_one_nat: "(d :: nat) \<le> x \<Longrightarrow> x < 2 * d \<Longrightarrow> x div d = 1"
  by (rule div_nat_eqI) simp_all

lemma bit_add_carry:
  "bit (a + b :: nat) k \<longleftrightarrow> (bit a k \<noteq> bit b k) \<noteq> (2 ^ k \<le> a mod 2 ^ k + b mod 2 ^ k)"
proof -
  have less: "a mod 2 ^ k < 2 ^ k" "b mod 2 ^ k < 2 ^ k"
    by simp_all
  have "(a mod 2 ^ k + b mod 2 ^ k) div 2 ^ k = (if 2 ^ k \<le> a mod 2 ^ k + b mod 2 ^ k then 1 else 0)"
  proof -
    have "a mod 2 ^ k + b mod 2 ^ k < 2 * 2 ^ k"
      using less by linarith
    then show ?thesis
      by (auto simp: div_one_nat [simplified])
  qed
  then show ?thesis
    by (simp add: bit_iff_odd div_add1_eq [of a b])
qed

lemma bit_unat: "bit (unat w) n = bit (w :: 'a::len word) n"
  by (auto simp: bit_unsigned_iff dest: bit_imp_le_length)

lemma bit_add_carry_32:
  assumes "k < 32"
  shows "bit (a + b :: u32) k \<longleftrightarrow>
    (bit a k \<noteq> bit b k) \<noteq> (2 ^ k \<le> unat a mod 2 ^ k + unat b mod 2 ^ k)"
proof -
  have "bit (a + b) k = bit (take_bit 32 (unat a + unat b)) k"
    by (simp add: bit_unat [symmetric] unat_word_ariths take_bit_eq_mod)
  then show ?thesis
    using assms by (simp add: bit_take_bit_iff bit_add_carry bit_unat)
qed

lemma bit_ge: "bit (n :: nat) k \<Longrightarrow> 2 ^ k \<le> n"
  by (metis bit_iff_odd div_less even_zero not_less)

text \<open>The mask \<open>(wr | 1) << 1\<close> sees a carry into the bit above the buffer, and only that.\<close>

lemma unat_wrap_mask:
  assumes "unat (wr :: u32) < 65536"
  shows "unat (push_bit 1 (wr OR 1)) = 2 * (if even (unat wr) then unat wr + 1 else unat wr)"
proof -
  have "unat (wr OR 1) = unat wr OR 1"
    by (metis unsigned_or_eq unsigned_1)
  then have "unat (wr OR 1) = (if even (unat wr) then unat wr + 1 else unat wr)"
    by (simp only: or_one_eq of_bool_def) simp
  moreover have "unat (push_bit 1 (wr OR 1)) = take_bit 32 (push_bit 1 (unat (wr OR 1)))"
    by (simp only: unsigned_push_bit_eq) simp
  ultimately show ?thesis
    using assms by (simp add: push_bit_eq_mult take_bit_nat_eq_self)
qed

lemma wrap_mask_bounds:
  assumes "unat (wr :: u32) < 65536"
  defines "m \<equiv> unat (push_bit 1 (wr OR 1))" and "k \<equiv> buf_bits (unat wr)"
  shows "2 ^ k \<le> m" "m < 2 ^ Suc k" "m mod 2 ^ k \<le> unat wr" "bit m k"
proof -
  have p: "(2::nat) ^ k = 2 * 2 ^ (k - 1)"
    using buf_bits_pos [of "unat wr"] by (simp add: k_def flip: power_Suc)
  have less: "unat wr < 2 ^ k" and ge: "2 ^ (k - 1) \<le> max (unat wr) 1"
    using buf_bits_less buf_bits_ge by (simp_all add: k_def)
  have m: "m = 2 * (if even (unat wr) then unat wr + 1 else unat wr)"
    unfolding m_def by (rule unat_wrap_mask [OF assms(1)])
  have e: "even (unat wr) \<Longrightarrow> unat wr + 2 \<le> 2 ^ k"
    using less p by presburger
  show lo: "2 ^ k \<le> m"
    using ge by (cases "unat wr = 0") (auto simp: m p max_def split: if_splits)
  show hi: "m < 2 ^ Suc k"
    using less e by (auto simp: m)
  have "m mod 2 ^ k = m - 2 ^ k"
    using lo hi by (simp add: mod_if)
  then show "m mod 2 ^ k \<le> unat wr"
    using less e by (auto simp: m)
  have "m div 2 ^ k = 1"
    using lo hi by (intro div_nat_eqI) simp_all
  then show "bit m k"
    by (simp add: bit_iff_odd)
qed

lemma wrap_test:
  assumes "unat (wr :: u32) < 65536"
  shows "x AND push_bit 1 (wr OR 1) > wr \<longleftrightarrow> bit x (buf_bits (unat wr))"
proof -
  let ?m = "unat (push_bit 1 (wr OR 1))" and ?k = "buf_bits (unat wr)"
  note b = wrap_mask_bounds [OF assms]
  have gt: "x AND push_bit 1 (wr OR 1) > wr \<longleftrightarrow> unat wr < unat x AND ?m"
    by (simp add: word_less_nat_alt unsigned_and_eq)
  show ?thesis
  proof (cases "bit x ?k")
    case True
    then have "bit (unat x AND ?m) ?k"
      using b(4) by (simp add: bit_and_iff bit_unat)
    then have "2 ^ ?k \<le> unat x AND ?m"
      by (rule bit_ge)
    with buf_bits_less [of "unat wr"] have "unat wr < unat x AND ?m"
      by (rule order.strict_trans2)
    with True show ?thesis
      unfolding gt by blast
  next
    case False
    have "unat x AND ?m = unat x AND (?m mod 2 ^ ?k)"
    proof (rule bit_eqI)
      fix n
      have "n \<le> ?k" if "bit ?m n"
      proof -
        have "(2::nat) ^ n < 2 ^ Suc ?k"
          using bit_ge [OF that] b(2) by (rule order.strict_trans1)
        then have "n < Suc ?k"
          by (rule power_less_imp_less_exp [rotated]) simp
        then show ?thesis
          by simp
      qed
      then show "bit (unat x AND ?m) n = bit (unat x AND (?m mod 2 ^ ?k)) n"
        using False by (auto simp: bit_and_iff bit_unat take_bit_eq_mod [symmetric] bit_take_bit_iff order_le_less)
    qed
    also have "\<dots> \<le> ?m mod 2 ^ ?k"
      by (simp add: and_nat_def nat_le_iff)
    also have "\<dots> \<le> unat wr"
      by (rule b(3))
    finally show ?thesis
      using False unfolding gt not_less [symmetric] by blast
  qed
qed

section \<open>Steps\<close>

text \<open>The arithmetic of the code in integers: a step that leaves the block by more than it may wraps.\<close>

lemma take_bit_16_32:
  "take_bit 16 (take_bit 32 a + take_bit 32 b) = take_bit 16 (a + b :: int)"
  "take_bit 16 (take_bit 32 a - take_bit 32 b) = take_bit 16 (a - b :: int)"
  using take_bit_add [of 16 "take_bit 32 a" "take_bit 32 b"] take_bit_add [of 16 a b]
    take_bit_diff [of 16 "take_bit 32 a" "take_bit 32 b"] take_bit_diff [of 16 a b]
  by simp_all

lemma ucast_add_16: "ucast (a + b :: u32) = (ucast a + ucast b :: u16)"
  by transfer (simp add: take_bit_add take_bit_16_32)

lemma ucast_diff_16: "ucast (a - b :: u32) = (ucast a - ucast b :: u16)"
  by transfer (simp add: take_bit_diff take_bit_16_32)

lemma ucast_16_32: "ucast (ucast (w :: u16) :: u32) = (w :: u16)"
  by (rule bit_word_eqI) (auto simp: bit_simps)

lemma scast_16_32: "ucast (scast (w :: u16) :: u32) = (w :: u16)"
  by (rule bit_word_eqI) (auto simp: bit_simps)

text \<open>Positions in the buffer.\<close>

lemma circ_step:
  assumes "in_buffer wr ar" and "- (int wr + 1) \<le> i" "i \<le> int wr + 1"
  defines "off \<equiv> int ar mod buf_block wr"
  shows "circ wr ar i =
     (if off + i \<ge> buf_block wr then int ar + i - (int wr + 1)
      else if off + i < buf_block wr - (int wr + 1) then int ar + i + (int wr + 1)
      else int ar + i)"
proof -
  define n where "n = int wr + 1"
  define p where "p = int ar - buf_start wr ar"
  have p: "p = off - (buf_block wr - n)" and st: "buf_start wr ar = int ar - p"
    by (simp_all add: p_def buf_start_def off_def n_def)
  have off: "0 \<le> off" "off < buf_block wr"
    by (simp_all add: off_def buf_block_def)
  have r: "0 \<le> p" "p < n"
    using assms(1) off by (simp_all add: p_def[symmetric] p in_buffer_def st)
  have n: "0 < n" "- n \<le> i" "i \<le> n"
    using assms by (simp_all add: n_def)
  have m: "(p + i) mod n = (if p + i < 0 then p + i + n else if n \<le> p + i then p + i - n else p + i)"
  proof -
    consider "p + i < 0" | "0 \<le> p + i \<and> p + i < n" | "n \<le> p + i"
      by linarith
    then show ?thesis
    proof cases
      case 1
      have "(p + i) mod n = (p + i + n) mod n" by simp
      also have "\<dots> = p + i + n" using 1 r n by (intro mod_pos_pos_trivial) simp_all
      finally show ?thesis using 1 by simp
    next
      case 3
      have "(p + i) mod n = (p + i - n) mod n" by simp
      also have "\<dots> = p + i - n" using 3 r n by (intro mod_pos_pos_trivial) simp_all
      finally show ?thesis using 3 n by simp
    qed simp
  qed
  have "circ wr ar i = int ar - p + (p + i) mod n"
    by (simp add: circ_def st n_def)
  then show ?thesis
    unfolding m n_def [symmetric] using p n r by auto
qed

lemma ucast_inc_16:
  "ucast (ucast a + scast x :: u32) = (word_of_int (uint (a :: u16) + sint (x :: u16)) :: u16)"
  "ucast (ucast a - scast x :: u32) = (word_of_int (uint (a :: u16) - sint (x :: u16)) :: u16)"
  "ucast (ucast w + 1 :: u32) = (word_of_int (uint (w :: u16) + 1) :: u16)"
  by (simp_all add: ucast_add_16 ucast_diff_16 ucast_16_32 scast_16_32)

text \<open>The low bits of an address register are its place in the block.\<close>

lemma unat_ucast_32 [simp]: "unat (ucast (w :: u16) :: u32) = unat w"
  by (rule unat_u16)

lemma block_nat: "int (unat a mod 2 ^ buf_bits w) = uint (a :: u16) mod buf_block w"
  by (simp add: buf_block_def zmod_int)

lemma carry_block:
  assumes "w < 65536"
  shows "bit (a + b :: u32) (buf_bits w) \<longleftrightarrow>
    (bit a (buf_bits w) \<noteq> bit b (buf_bits w))
      \<noteq> (buf_block w \<le> uint a mod buf_block w + uint b mod buf_block w)"
proof -
  have "(2 ^ buf_bits w \<le> unat a mod 2 ^ buf_bits w + unat b mod 2 ^ buf_bits w) \<longleftrightarrow>
      (int (2 ^ buf_bits w) \<le> int (unat a mod 2 ^ buf_bits w + unat b mod 2 ^ buf_bits w))"
    by (simp only: of_nat_le_iff)
  then show ?thesis
    using buf_bits_16 [OF assms] by (simp add: bit_add_carry_32 buf_block_def zmod_int)
qed

lemma scast_block: "uint (scast (x :: u16) :: u32) mod buf_block w = sint x mod buf_block w" if "w < 65536"
proof -
  have "buf_block w dvd 2 ^ 32"
    unfolding buf_block_def using buf_bits_16 [OF that] by (intro le_imp_power_dvd) simp
  moreover have "uint (scast x :: u32) = sint x mod 2 ^ 32"
    by (simp add: uint_sint [of "scast x :: u32"] sint_scast_up take_bit_eq_mod)
  ultimately show ?thesis
    by (simp only: mod_mod_cancel)
qed

lemma circ_range:
  assumes "wr < 65536" "ar < 65536"
  shows "0 \<le> buf_start wr ar" "buf_start wr ar + int wr < 65536"
    "buf_start wr ar \<le> circ wr ar i" "circ wr ar i \<le> buf_start wr ar + int wr"
proof -
  let ?B = "buf_block wr"
  have "int wr < int (2 ^ buf_bits wr)"
    by (simp only: of_nat_less_iff buf_bits_less)
  then have B: "0 < ?B" "int wr < ?B"
    by (simp_all add: buf_block_def)
  have st: "buf_start wr ar = ?B * (int ar div ?B) + ?B - (int wr + 1)"
    by (simp add: buf_start_def minus_mod_eq_mult_div)
  have "0 \<le> ?B * (int ar div ?B)"
    using B by (simp add: pos_imp_zdiv_nonneg_iff)
  with B show "0 \<le> buf_start wr ar"
    unfolding st by linarith
  have "?B dvd 2 ^ 16"
    unfolding buf_block_def using buf_bits_16 [OF assms(1)] by (intro le_imp_power_dvd) simp
  then obtain c where c: "65536 = ?B * c"
    by (auto simp: dvd_def)
  have "?B * (int ar div ?B) \<le> int ar"
    using B by (simp add: minus_mod_eq_mult_div [symmetric])
  then have "?B * (int ar div ?B) < ?B * c"
    using assms(2) c by linarith
  then have "int ar div ?B < c"
    using B by simp
  then have "?B * (int ar div ?B + 1) \<le> ?B * c"
    using B by (intro mult_left_mono) simp_all
  then have "?B * (int ar div ?B) + ?B \<le> ?B * c"
    by (simp only: distrib_left mult_1_right)
  then show "buf_start wr ar + int wr < 65536"
    unfolding st using c by linarith
  have "0 \<le> (int ar - buf_start wr ar + i) mod (int wr + 1)"
    and "(int ar - buf_start wr ar + i) mod (int wr + 1) < int wr + 1"
    by (rule pos_mod_sign pos_mod_bound, simp)+
  then show "buf_start wr ar \<le> circ wr ar i" "circ wr ar i \<le> buf_start wr ar + int wr"
    unfolding circ_def by linarith+
qed

lemma uint_circ:
  assumes "v = word_of_int (circ (unat (wr :: u16)) (unat (ar :: u16)) i)"
  shows "uint (v :: u16) = circ (unat wr) (unat ar) i"
  using circ_range(1,2) [of "unat wr" "unat ar"] circ_range(3,4) [of "unat wr" "unat ar" i] unat_u16(2) [of wr] unat_u16(2) [of ar]
  by (simp add: assms uint_word_of_int)

text \<open>Stepping by a signed index.\<close>

lemma block_bounds:
  "uint (w :: u16) < buf_block (unat w)" "\<not> bit (ucast w :: u32) (buf_bits (unat w))"
  "unat (ucast w :: u32) < 65536"
proof -
  have less: "unat w < 2 ^ buf_bits (unat w)"
    by (rule buf_bits_less)
  then have "int (unat w) < int (2 ^ buf_bits (unat w))"
    by (simp only: of_nat_less_iff)
  then show "uint w < buf_block (unat w)"
    by (simp add: buf_block_def)
  show "\<not> bit (ucast w :: u32) (buf_bits (unat w))"
  proof
    assume "bit (ucast w :: u32) (buf_bits (unat w))"
    then have "bit (unat w) (buf_bits (unat w))"
      by (simp add: bit_ucast_iff bit_unat)
    with less show False
      using bit_ge by (metis not_less)
  qed
  show "unat (ucast w :: u32) < 65536"
    by (simp add: unat_u16)
qed

lemma signed_mod_block:
  assumes "- B < i" "i < (B :: int)"
  shows "i mod B = (if i < 0 then i + B else i)"
  using assms by (intro mod_signed) simp_all

lemma ucast_step_16:
  "ucast (ucast a + scast x - (ucast w + 1) :: u32) =
     (word_of_int (uint (a :: u16) + sint (x :: u16) - (uint (w :: u16) + 1)) :: u16)"
  "ucast (ucast a + scast x + (ucast w + 1) :: u32) =
     (word_of_int (uint a + sint x + (uint w + 1)) :: u16)"
  "ucast (ucast a + scast x + ucast w + 1 :: u32) =
     (word_of_int (uint a + sint x + (uint w + 1)) :: u16)"
  "ucast (ucast a + 1 - (ucast w + 1) :: u32) = (word_of_int (uint a + 1 - (uint w + 1)) :: u16)"
  "ucast (ucast a + ucast w - (ucast w + 1) :: u32) = (word_of_int (uint a - 1) :: u16)"
  "ucast (ucast a + ucast w :: u32) = (word_of_int (uint a - 1 + (uint w + 1)) :: u16)"
  by (simp_all add: ucast_add_16 ucast_diff_16 ucast_16_32 scast_16_32 algebra_simps)

lemma uint_ucast_32 [simp]: "uint (ucast (w :: u16) :: u32) = uint w"
  by (metis unat_ucast_32 uint_nat)

lemma carry_of_sum:
  assumes "nar = ucast a + (x :: u32)" "k = buf_bits (unat w)" "B = buf_block (unat w)"
  shows "bit (nar XOR ucast (a :: u16) XOR x) k \<longleftrightarrow>
    B \<le> uint a mod B + uint x mod buf_block (unat (w :: u16))"
  using assms unat_u16(2) [of w]
  by (auto simp only: bit_xor_iff carry_block uint_ucast_32)

lemma wrap_test_le:
  assumes "unat (wr :: u32) < 65536"
  shows "(z AND ((y :: u32) AND push_bit 1 (wr OR 1)) \<le> wr) \<longleftrightarrow>
    \<not> (bit z (buf_bits (unat wr)) \<and> bit y (buf_bits (unat wr)))"
  unfolding and.assoc [symmetric] not_less [symmetric] wrap_test [OF assms] by (simp add: bit_and_iff)

text \<open>The second test asks whether the new place is inside the buffer.\<close>

lemma buffer_test:
  fixes w :: u16 and nar :: u32
  defines "B \<equiv> buf_block (unat w)"
  shows "bit (nar + ucast w + 1 XOR nar) (buf_bits (unat w)) \<longleftrightarrow> B \<le> uint nar mod B + uint w + 1"
proof -
  let ?k = "buf_bits (unat w)"
  have w: "unat w < 65536" by (rule unat_u16)
  have "uint (ucast w + 1 :: u32) = uint w + 1"
    using uint_16_range [of w] by (simp add: uint_word_ariths)
  then have b: "bit (nar + (ucast w + 1)) ?k \<longleftrightarrow>
      (bit nar ?k \<noteq> bit (ucast w + 1 :: u32) ?k) \<noteq> (B \<le> uint nar mod B + (uint w + 1) mod B)"
    by (simp only: carry_block [OF w] B_def)
  have u: "bit (ucast w + 1 :: u32) ?k \<longleftrightarrow> bit (uint w + 1) ?k"
    unfolding \<open>uint (ucast w + 1 :: u32) = uint w + 1\<close> [symmetric]
    by (auto simp: bit_uint_iff dest: bit_imp_le_length)
  have nar: "0 \<le> uint nar mod B" "uint nar mod B < B"
    by (simp_all add: B_def buf_block_def)
  have "uint w + 1 \<le> B"
    using block_bounds(1) [of w] by (simp add: B_def)
  then consider "uint w + 1 = B" | "uint w + 1 < B"
    by linarith
  then show ?thesis
  proof cases
    case 1
    then have "bit (ucast w + 1 :: u32) ?k"
      unfolding u by (simp add: B_def buf_block_def bit_exp_iff)
    with b 1 nar show ?thesis
      by (simp add: bit_xor_iff add.assoc)
  next
    case 2
    then have "\<not> bit (uint w + 1) ?k"
      using uint_16_range [of w] by (simp add: bit_iff_odd B_def buf_block_def div_pos_pos_trivial)
    moreover have "(uint w + 1) mod B = uint w + 1"
      using 2 uint_16_range [of w] by (intro mod_pos_pos_trivial) linarith+
    ultimately show ?thesis
      using b u by (auto simp: bit_xor_iff add.assoc)
  qed
qed

lemma uint_step_block:
  "uint (ucast a + scast x :: u32) mod buf_block (unat w) = (uint (a :: u16) mod buf_block (unat w) + sint (x :: u16)) mod buf_block (unat (w :: u16))"
proof -
  let ?B = "buf_block (unat w)"
  have "?B dvd 2 ^ 32"
    unfolding buf_block_def using buf_bits_16 [OF unat_u16(2) [of w]]
    by (intro le_imp_power_dvd) simp
  moreover have "uint (ucast a + scast x :: u32) = (uint a + uint (scast x :: u32)) mod 2 ^ 32"
    by (simp only: uint_word_ariths uint_ucast_32) simp
  ultimately have "uint (ucast a + scast x :: u32) mod ?B = (uint a + uint (scast x :: u32)) mod ?B"
    by (simp only: mod_mod_cancel)
  also have "\<dots> = (uint a mod ?B + sint x mod ?B) mod ?B"
    by (simp only: scast_block [OF unat_u16(2), symmetric] mod_add_eq)
  also have "\<dots> = (uint a mod ?B + sint x) mod ?B"
    by (rule mod_add_right_eq)
  finally show ?thesis .
qed

text \<open>C24: adding an index to a circular address register is addition modulo the buffer, for an address inside
  the buffer and an index of at most its last offset \<open>wr\<close> either way.  (The code wraps once at most, so a
  greater index can leave the buffer.)\<close>

theorem increase_circular:
  assumes "in_buffer (unat (dsp_wr g reg)) (unat (dsp_ar g reg))"
    and "\<bar>sint ix\<bar> \<le> uint (dsp_wr g reg)"
  shows "uint (dsp_increase_addr_reg reg ix g) =
    circ (unat (dsp_wr g reg)) (unat (dsp_ar g reg)) (sint ix)"
proof (rule uint_circ)
  let ?ar = "dsp_ar g reg" and ?wr = "dsp_wr g reg"
  let ?k = "buf_bits (unat ?wr)" and ?B = "buf_block (unat ?wr)"
  let ?nar = "ucast ?ar + scast ix :: u32"
  let ?off = "uint ?ar mod ?B"
  have w: "unat ?wr < 65536" by (rule unat_u16)
  have off: "0 \<le> ?off" "?off < ?B" by (simp_all add: buf_block_def)
  have wB: "uint ?wr < ?B" by (rule block_bounds)
  have lo: "?B - (uint ?wr + 1) \<le> ?off"
    using assms(1) by (simp add: in_buffer_def buf_start_def)
  have ixB: "sint ix mod ?B = (if sint ix < 0 then sint ix + ?B else sint ix)"
    using assms(2) wB by (intro signed_mod_block) linarith+
  note test = wrap_test [OF block_bounds(3) [of ?wr], unfolded unat_ucast_32]
  note test_le = wrap_test_le [OF block_bounds(3) [of ?wr], unfolded unat_ucast_32]
  have d: "bit (?nar XOR ucast ?ar XOR scast ix) ?k \<longleftrightarrow> ?B \<le> ?off + sint ix mod ?B"
    by (simp only: carry_of_sum [OF refl refl refl] scast_block [OF w])
  show "dsp_increase_addr_reg reg ix g = word_of_int (circ (unat ?wr) (unat ?ar) (sint ix))"
  proof (cases "0 \<le> sint ix")
    case True
    then have "dsp_increase_addr_reg reg ix g =
        ucast (if ?B \<le> ?off + sint ix then ?nar - (ucast ?wr + 1) else ?nar)"
      unfolding dsp_increase_addr_reg_def Let_def test d ixB by (simp add: sint_scast_up)
    then show ?thesis
      using True off lo wB assms(2) by (subst circ_step [OF assms(1)]) (auto simp: ucast_step_16 ucast_inc_16)
  next
    case False
    have n: "uint ?nar mod ?B = (?off + sint ix) mod ?B"
      by (rule uint_step_block)
    have b: "bit (?nar + ucast ?wr + 1 XOR ?nar) ?k \<longleftrightarrow> ?B \<le> (?off + sint ix) mod ?B + uint ?wr + 1"
      by (simp only: buffer_test n)
    from False have "dsp_increase_addr_reg reg ix g =
        ucast (if ?B \<le> (?off + sint ix) mod ?B + uint ?wr + 1 \<and> 0 \<le> ?off + sint ix
          then ?nar else ?nar + (ucast ?wr + 1))"
      unfolding dsp_increase_addr_reg_def Let_def test_le d ixB b by (simp add: sint_scast_up)
    also have "\<dots> = ucast (if ?B - (uint ?wr + 1) \<le> ?off + sint ix
          then ?nar else ?nar + (ucast ?wr + 1))"
      using False off wB by (cases "0 \<le> ?off + sint ix") (auto simp: mod_pos_pos_trivial)
    moreover have "\<not> ?B \<le> ?off + sint ix"
      using False off by linarith
    ultimately show ?thesis
      using False lo wB assms(2) by (subst circ_step [OF assms(1)]) (auto simp: ucast_step_16 ucast_inc_16)
  qed
qed

lemmas circ_eval = circ_def buf_start_def buf_block_def buf_bits.simps in_buffer_def

theorem increase_circular_witness:
  "in_buffer 5 0x17 \<and> uint (dsp_increase_addr_reg 0 3 (set_wr 0 5 (set_ar 0 0x17 dsp_zero))) = 0x14"
  using increase_circular [of "set_wr 0 5 (set_ar 0 0x17 dsp_zero)" 0 3]
  by (simp add: circ_eval)

text \<open>Stepping by one.\<close>

lemma Suc_xor_mask: "\<exists>j. Suc a XOR a = mask (Suc j)"
proof (induction a rule: less_induct)
  case (less a)
  show ?case
  proof (cases "even a")
    case True
    then obtain b where b: "a = 2 * b"
      by (elim evenE)
    have "Suc a XOR a = mask (Suc 0)"
      unfolding b by (subst xor_rec) simp
    then show ?thesis ..
  next
    case False
    then obtain b where b: "a = 2 * b + 1"
      by (elim oddE)
    then obtain j where j: "Suc b XOR b = mask (Suc j)"
      using less by force
    have "Suc a XOR a = 2 * (Suc b XOR b) + 1"
      unfolding b by (subst xor_rec) simp
    also have "\<dots> = mask (Suc (Suc j))"
    proof -
      have "1 \<le> (2::nat) ^ j"
        by simp
      then have "Suc (2 * (2 * 2 ^ j - Suc 0)) = 4 * 2 ^ j - Suc 0"
        by linarith
      then show ?thesis
        unfolding j by (simp add: mask_eq_exp_minus_1)
    qed
    finally show ?thesis ..
  qed
qed

lemma increment_test:
  assumes "unat (wr :: u32) < 65536" "unat (a :: u32) < 65536"
  shows "a + 1 XOR a > push_bit 1 (wr OR 1) \<longleftrightarrow> bit (a + 1 XOR a) (buf_bits (unat wr))"
proof -
  let ?m = "unat (push_bit 1 (wr OR 1))" and ?k = "buf_bits (unat wr)"
  note b = wrap_mask_bounds [OF assms(1)]
  have a1: "unat (a + 1) = Suc (unat a)"
    using assms(2) by (simp add: unat_word_ariths)
  obtain j where j: "Suc (unat a) XOR unat a = mask (Suc j)"
    using Suc_xor_mask by blast
  then have x: "unat (a + 1 XOR a) = 2 ^ Suc j - 1"
    by (simp add: unsigned_xor_eq a1 mask_eq_exp_minus_1)
  have e: "even ?m"
    unfolding unat_wrap_mask [OF assms(1)] by simp
  have "bit (a + 1 XOR a) ?k \<longleftrightarrow> bit (mask (Suc j) :: nat) ?k"
    unfolding j [symmetric] a1 [symmetric] by (simp add: bit_xor_iff bit_unat)
  then have bk: "bit (a + 1 XOR a) ?k \<longleftrightarrow> ?k \<le> j"
    by (simp add: bit_mask_iff less_Suc_eq_le)
  have "?m < 2 ^ Suc j - 1 \<longleftrightarrow> ?k \<le> j"
  proof
    assume "?m < 2 ^ Suc j - 1"
    with b(1) have "(2::nat) ^ ?k < 2 ^ Suc j"
      by linarith
    then have "?k < Suc j"
      by (rule power_less_imp_less_exp [rotated]) simp
    then show "?k \<le> j"
      by simp
  next
    assume "?k \<le> j"
    then have "(2::nat) ^ Suc ?k \<le> 2 ^ Suc j"
      by (intro power_increasing) simp_all
    moreover have "?m \<noteq> 2 ^ Suc ?k - 1"
      using e by fastforce
    ultimately show "?m < 2 ^ Suc j - 1"
      using b(2) by linarith
  qed
  then show ?thesis
    unfolding word_less_nat_alt x bk .
qed

text \<open>Incrementing or decrementing a circular address register steps around the buffer.\<close>

theorem increment_decrement_circular:
  assumes "in_buffer (unat (dsp_wr g reg)) (unat (dsp_ar g reg))"
  shows "uint (dsp_increment_addr_reg reg g) = circ (unat (dsp_wr g reg)) (unat (dsp_ar g reg)) 1
       \<and> uint (dsp_decrement_addr_reg reg g) = circ (unat (dsp_wr g reg)) (unat (dsp_ar g reg)) (- 1)"
proof
  let ?ar = "dsp_ar g reg" and ?wr = "dsp_wr g reg"
  let ?k = "buf_bits (unat ?wr)" and ?B = "buf_block (unat ?wr)"
  let ?off = "uint ?ar mod ?B"
  have w: "unat ?wr < 65536" by (rule unat_u16)
  have off: "0 \<le> ?off" "?off < ?B" by (simp_all add: buf_block_def)
  have wB: "uint ?wr < ?B" by (rule block_bounds)
  have lo: "?B - (uint ?wr + 1) \<le> ?off"
    using assms by (simp add: in_buffer_def buf_start_def)
  have "?B \<ge> 2 ^ 1"
    unfolding buf_block_def using buf_bits_pos [of "unat ?wr"] by (intro power_increasing) simp_all
  then have one: "1 mod ?B = 1" "\<not> bit (1 :: u32) ?k"
    using buf_bits_pos [of "unat ?wr"] by (simp_all add: bit_1_iff)
  note test = increment_test [OF block_bounds(3) [of ?wr] block_bounds(3), unfolded unat_ucast_32]
  have "bit (ucast ?ar + 1 XOR ucast ?ar :: u32) ?k \<longleftrightarrow> ?B \<le> ?off + 1"
    using one by (auto simp: bit_xor_iff carry_block [OF w])
  then have inc: "dsp_increment_addr_reg reg g =
      ucast (if ?B \<le> ?off + 1 then ucast ?ar + 1 - (ucast ?wr + 1) else ucast ?ar + 1 :: u32)"
    unfolding dsp_increment_addr_reg_def Let_def test by simp
  have wr0: "- uint ?wr \<le> 2"
    using uint_16_range(1) [of ?wr] by linarith
  show "uint (dsp_increment_addr_reg reg g) = circ (unat ?wr) (unat ?ar) 1"
    by (rule uint_circ, subst circ_step [OF assms])
      (use lo wr0 in
        \<open>auto simp: inc ucast_step_16 ucast_inc_16 ucast_diff_16 ucast_16_32\<close>)
  note test = wrap_test [OF block_bounds(3) [of ?wr], unfolded unat_ucast_32]
  have "uint ?wr mod ?B = uint ?wr"
    using wB by (intro mod_pos_pos_trivial) simp_all
  then have "bit (ucast ?ar + ucast ?wr XOR ucast ?ar :: u32) ?k \<longleftrightarrow> ?B \<le> ?off + uint ?wr"
    using block_bounds(2) [of ?wr] by (auto simp: bit_xor_iff carry_block [OF w])
  then have dec: "dsp_decrement_addr_reg reg g =
      ucast (if ?B \<le> ?off + uint ?wr then ucast ?ar + ucast ?wr - (ucast ?wr + 1)
        else ucast ?ar + ucast ?wr :: u32)"
    unfolding dsp_decrement_addr_reg_def Let_def test by simp
  have "\<not> ?B \<le> ?off - 1"
    using off by linarith
  then show "uint (dsp_decrement_addr_reg reg g) = circ (unat ?wr) (unat ?ar) (- 1)"
    by (intro uint_circ, subst circ_step [OF assms])
      (auto simp: dec ucast_step_16 ucast_diff_16 ucast_16_32)
qed

theorem increment_decrement_circular_witness:
  "in_buffer 5 0x17 \<and> uint (dsp_increment_addr_reg 0 (set_wr 0 5 (set_ar 0 0x17 dsp_zero))) = 0x12"
  using increment_decrement_circular [of "set_wr 0 5 (set_ar 0 0x17 dsp_zero)" 0]
  by (simp add: circ_eval)

text \<open>Stepping back by an index: the code adds the complement of the index, and one.\<close>

lemma neg_index_test:
  "(scast (ix :: u16) :: u32) > 0xFFFF8000 \<longleftrightarrow> sint ix < 0 \<and> sint ix \<noteq> - 32768"
proof -
  have "uint (scast ix :: u32) = (if sint ix < 0 then sint ix + 2 ^ 32 else sint ix)"
  proof -
    have "uint (scast ix :: u32) = sint ix mod 2 ^ 32"
      by (simp add: uint_sint [of "scast ix :: u32"] sint_scast_up take_bit_eq_mod)
    also have "\<dots> = (if sint ix < 0 then sint ix + 2 ^ 32 else sint ix)"
      using sint_16_range [of ix] by (intro mod_signed) simp_all
    finally show ?thesis .
  qed
  then show ?thesis
    using sint_16_range [of ix] by (auto simp: word_less_def)
qed

lemma bit_u16: "bit (w :: u16) n \<Longrightarrow> n < 16"
  using bit_imp_le_length [of w n] by simp

lemma not_scast: "NOT (scast (ix :: u16) :: u32) = scast (NOT ix)"
proof (rule bit_word_eqI)
  fix n assume "n < LENGTH(32)"
  then show "bit (NOT (scast ix :: u32)) n = bit (scast (NOT ix) :: u32) n"
    using bit_u16 [of ix n] by (cases "n < 16") (auto simp: bit_simps min_def)
qed

lemma sint_not_16: "sint (NOT ix :: u16) = - sint ix - 1"
proof -
  have "sint (NOT ix) = NOT (sint ix)"
  proof (rule bit_eqI)
    fix n show "bit (sint (NOT ix)) n = bit (NOT (sint ix)) n"
      using bit_u16 [of ix n] by (cases "n < 16") (auto simp: bit_sint_iff bit_not_iff min_def)
  qed
  then show ?thesis
    by (simp add: not_eq_complement)
qed

lemma bit_add_carry_in:
  "bit (a + b + 1 :: nat) k \<longleftrightarrow>
     (bit a k \<noteq> bit b k) \<noteq> (2 ^ k \<le> a mod 2 ^ k + b mod 2 ^ k + 1)"
proof -
  let ?c = "a mod 2 ^ k + b mod 2 ^ k + 1"
  have "a mod 2 ^ k < 2 ^ k" "b mod 2 ^ k < 2 ^ k"
    by simp_all
  then have "?c < 2 * 2 ^ k"
    by linarith
  then have c: "?c div 2 ^ k = (if 2 ^ k \<le> ?c then 1 else 0)"
    by (auto simp: div_one_nat [simplified])
  have "a + b + 1 = ?c + 2 ^ k * (a div 2 ^ k + b div 2 ^ k)"
    by (simp add: distrib_left)
  then have "(a + b + 1) div 2 ^ k = a div 2 ^ k + b div 2 ^ k + ?c div 2 ^ k"
    by (metis add.commute div_mult_self2 power_not_zero zero_neq_numeral)
  then show ?thesis
    unfolding bit_iff_odd c by simp
qed

lemma carry_in_block:
  assumes "w < 65536"
  shows "bit (a + b + 1 :: u32) (buf_bits w) \<longleftrightarrow>
    (bit a (buf_bits w) \<noteq> bit b (buf_bits w))
      \<noteq> (buf_block w \<le> uint a mod buf_block w + uint b mod buf_block w + 1)"
proof -
  let ?k = "buf_bits w"
  have "unat (a + b + 1) = take_bit 32 (unat a + unat b + 1)"
    by (simp add: unat_word_ariths take_bit_eq_mod mod_simps)
  then have "bit (a + b + 1) ?k = bit (take_bit 32 (unat a + unat b + 1)) ?k"
    by (simp only: bit_unat [symmetric])
  then have "bit (a + b + 1) ?k = bit (unat a + unat b + 1) ?k"
    using buf_bits_16 [OF assms] by (simp add: bit_take_bit_iff)
  moreover have "(2 ^ ?k \<le> unat a mod 2 ^ ?k + unat b mod 2 ^ ?k + 1) \<longleftrightarrow>
      (int (2 ^ ?k) \<le> int (unat a mod 2 ^ ?k + unat b mod 2 ^ ?k + 1))"
    by (simp only: of_nat_le_iff)
  ultimately show ?thesis
    by (simp add: bit_add_carry_in [simplified] buf_block_def zmod_int bit_unat ac_simps)
qed

lemma back_carry:
  fixes a w ix :: u16
  defines "B \<equiv> buf_block (unat w)" and "nar \<equiv> ucast a - scast ix :: u32"
  shows "bit (nar XOR ucast a XOR NOT (scast ix)) (buf_bits (unat w)) \<longleftrightarrow>
    B \<le> uint a mod B + (- sint ix - 1) mod B + 1"
proof -
  have w: "unat w < 65536" by (rule unat_u16)
  have "nar = ucast a + scast (NOT ix) + 1"
    unfolding nar_def not_scast [symmetric] by (simp add: not_eq_complement)
  moreover have "uint (scast (NOT ix) :: u32) mod B = (- sint ix - 1) mod B"
    unfolding B_def by (simp only: scast_block [OF w] sint_not_16)
  ultimately show ?thesis
    unfolding not_scast B_def
    by (auto simp only: bit_xor_iff carry_in_block [OF w] uint_ucast_32)
qed

lemma uint_back_block:
  "uint (ucast a - scast x :: u32) mod buf_block (unat w) =
     (uint (a :: u16) mod buf_block (unat w) - sint (x :: u16)) mod buf_block (unat (w :: u16))"
proof -
  let ?B = "buf_block (unat w)"
  have "?B dvd 2 ^ 32"
    unfolding buf_block_def using buf_bits_16 [OF unat_u16(2) [of w]]
    by (intro le_imp_power_dvd) simp
  moreover have "uint (ucast a - scast x :: u32) = (uint a - uint (scast x :: u32)) mod 2 ^ 32"
    by (simp only: uint_word_ariths uint_ucast_32) simp
  ultimately have "uint (ucast a - scast x :: u32) mod ?B = (uint a - uint (scast x :: u32)) mod ?B"
    by (simp only: mod_mod_cancel)
  also have "\<dots> = (uint a mod ?B - sint x mod ?B) mod ?B"
    by (simp only: scast_block [OF unat_u16(2), symmetric] mod_diff_eq)
  also have "\<dots> = (uint a mod ?B - sint x) mod ?B"
    by (rule mod_diff_right_eq)
  finally show ?thesis .
qed

lemma ucast_back_16:
  "ucast (ucast a - scast x - (ucast w + 1) :: u32) =
     (word_of_int (uint (a :: u16) + - sint (x :: u16) - (uint (w :: u16) + 1)) :: u16)"
  "ucast (ucast a - scast x + (ucast w + 1) :: u32) =
     (word_of_int (uint a + - sint x + (uint w + 1)) :: u16)"
  "ucast (ucast a - scast x :: u32) = (word_of_int (uint a + - sint x) :: u16)"
  by (simp_all add: ucast_add_16 ucast_diff_16 ucast_16_32 scast_16_32 algebra_simps)

text \<open>Subtracting an index from a circular address register is subtraction modulo the buffer.\<close>

theorem decrease_circular:
  assumes "in_buffer (unat (dsp_wr g reg)) (unat (dsp_ar g reg))"
    and "\<bar>sint ix\<bar> \<le> uint (dsp_wr g reg)" and "sint ix \<noteq> - 32768"
  shows "uint (dsp_decrease_addr_reg reg ix g) =
    circ (unat (dsp_wr g reg)) (unat (dsp_ar g reg)) (- sint ix)"
proof (rule uint_circ)
  let ?ar = "dsp_ar g reg" and ?wr = "dsp_wr g reg"
  let ?k = "buf_bits (unat ?wr)" and ?B = "buf_block (unat ?wr)"
  let ?nar = "ucast ?ar - scast ix :: u32"
  let ?off = "uint ?ar mod ?B"
  have w: "unat ?wr < 65536" by (rule unat_u16)
  have off: "0 \<le> ?off" "?off < ?B" by (simp_all add: buf_block_def)
  have wB: "uint ?wr < ?B" by (rule block_bounds)
  have lo: "?B - (uint ?wr + 1) \<le> ?off"
    using assms(1) by (simp add: in_buffer_def buf_start_def)
  have ixB: "(- sint ix - 1) mod ?B = (if - sint ix - 1 < 0 then - sint ix - 1 + ?B else - sint ix - 1)"
    using assms(2) wB by (intro mod_signed) linarith+
  note test = wrap_test [OF block_bounds(3) [of ?wr], unfolded unat_ucast_32]
  note test_le = wrap_test_le [OF block_bounds(3) [of ?wr], unfolded unat_ucast_32]
  note d = back_carry [of ?ar ix ?wr]
  show "dsp_decrease_addr_reg reg ix g = word_of_int (circ (unat ?wr) (unat ?ar) (- sint ix))"
  proof (cases "sint ix < 0")
    case True
    then have "dsp_decrease_addr_reg reg ix g =
        ucast (if ?B \<le> ?off - sint ix then ?nar - (ucast ?wr + 1) else ?nar)"
      unfolding dsp_decrease_addr_reg_def Let_def test d ixB neg_index_test using assms(3) by simp
    moreover have "\<not> ?off - sint ix < ?B - (uint ?wr + 1)"
      using True lo by linarith
    ultimately show ?thesis
      using True wB assms(2) by (subst circ_step [OF assms(1)]) (auto simp: ucast_back_16)
  next
    case False
    have b: "bit (?nar + ucast ?wr + 1 XOR ?nar) ?k \<longleftrightarrow> ?B \<le> (?off - sint ix) mod ?B + uint ?wr + 1"
      by (simp only: buffer_test uint_back_block)
    from False have "dsp_decrease_addr_reg reg ix g =
        ucast (if ?B \<le> (?off - sint ix) mod ?B + uint ?wr + 1 \<and> 0 \<le> ?off - sint ix
          then ?nar else ?nar + (ucast ?wr + 1))"
      unfolding dsp_decrease_addr_reg_def Let_def test_le d ixB b neg_index_test by simp
    also have "\<dots> = ucast (if ?B - (uint ?wr + 1) \<le> ?off - sint ix
          then ?nar else ?nar + (ucast ?wr + 1))"
      using False off wB by (cases "0 \<le> ?off - sint ix") (auto simp: mod_pos_pos_trivial)
    moreover have "\<not> ?B \<le> ?off - sint ix"
      using False off by linarith
    ultimately show ?thesis
      using False lo wB assms(2) by (subst circ_step [OF assms(1)]) (auto simp: ucast_back_16)
  qed
qed

theorem decrease_circular_witness:
  "in_buffer 5 0x12 \<and> uint (dsp_decrease_addr_reg 0 1 (set_wr 0 5 (set_ar 0 0x12 dsp_zero))) = 0x17"
  using decrease_circular [of "set_wr 0 5 (set_ar 0 0x12 dsp_zero)" 0 1]
  by (simp add: circ_eval)

end
