(* ===== verification/DSP_Decoding.thy ===== *)
theory DSP_Decoding
  imports DSP_Tables
begin

text \<open>
  The opcode tables of \<open>Core/DSP/DSPTables.cpp\<close> decode: no instruction word matches two rows of
  \<open>s_opcodes\<close>, and where two rows of \<open>s_opcodes_ext\<close> match one word the more specific one comes
  first, which is the one the search returns.
\<close>

section \<open>No two rows match one word\<close>

text \<open>
  A row is its opcode and its mask.  The check splits the rows by the highest bit left: a row
  that masks the bit goes to the side of its opcode, the others to both.
\<close>

fun unambiguous :: "nat \<Rightarrow> (u16 \<times> u16) list \<Rightarrow> bool" where
  "unambiguous 0 rows \<longleftrightarrow> length rows \<le> 1"
| "unambiguous (Suc n) rows \<longleftrightarrow> length rows \<le> 1 \<or>
     unambiguous n (filter (\<lambda>(c, k). bit k n \<longrightarrow> \<not> bit c n) rows) \<and>
     unambiguous n (filter (\<lambda>(c, k). bit k n \<longrightarrow> bit c n) rows)"

lemma filter_matching:
  assumes "\<And>r. r \<in> set rows \<Longrightarrow> P r \<Longrightarrow> Q r"
  shows "filter P rows = filter P (filter Q rows)"
  using assms by (simp add: filter_filter cong: filter_cong) (metis (mono_tags) filter_cong)

lemma unambiguous_rows:
  "unambiguous n rows \<Longrightarrow> length (filter (\<lambda>(c, k). opc AND k = c) rows) \<le> 1"
proof (induction n rows rule: unambiguous.induct)
  case (1 rows)
  then show ?case
    by (auto intro: le_trans [OF length_filter_le])
next
  case (2 n rows)
  let ?m = "\<lambda>(c, k). opc AND k = c"
  have sides: "?m r \<Longrightarrow> bit opc n \<Longrightarrow> (case r of (c, k) \<Rightarrow> bit k n \<longrightarrow> bit c n)"
    "?m r \<Longrightarrow> \<not> bit opc n \<Longrightarrow> (case r of (c, k) \<Rightarrow> bit k n \<longrightarrow> \<not> bit c n)" for r
    by (auto simp: bit_and_iff)
  show ?case
  proof (cases "length rows \<le> 1")
    case True
    then show ?thesis
      by (auto intro: le_trans [OF length_filter_le])
  next
    case False
    show ?thesis
    proof (cases "bit opc n")
      case True
      then have "filter ?m rows = filter ?m (filter (\<lambda>(c, k). bit k n \<longrightarrow> bit c n) rows)"
        using sides by (intro filter_matching) blast
      then show ?thesis
        using 2 False by simp
    next
      case notset: False
      then have "filter ?m rows = filter ?m (filter (\<lambda>(c, k). bit k n \<longrightarrow> \<not> bit c n) rows)"
        using sides by (intro filter_matching) blast
      then show ?thesis
        using 2 False by simp
    qed
  qed
qed

definition row_masks :: "DSPOPCTemplate list \<Rightarrow> (u16 \<times> u16) list" where
  "row_masks = map (\<lambda>t. (op_opcode t, op_mask t))"

lemma row_masks_match:
  "length (filter (\<lambda>t. opc AND op_mask t = op_opcode t) data) =
     length (filter (\<lambda>(c, k). opc AND k = c) (row_masks data))"
  by (induction data) (simp_all add: row_masks_def)

text \<open>The same check on rows spelled out as pairs of a mask bit and an opcode bit.\<close>

fun row_bits :: "nat \<Rightarrow> u16 \<times> u16 \<Rightarrow> (bool \<times> bool) list" where
  "row_bits 0 r = []"
| "row_bits (Suc n) (c, k) = (bit k n, bit c n) # row_bits n (c, k)"

definition side :: "bool \<Rightarrow> (bool \<times> bool) list list \<Rightarrow> (bool \<times> bool) list list" where
  "side b rows = map tl (filter (\<lambda>r. fst (hd r) \<longrightarrow> snd (hd r) = b) rows)"

fun at_most_one :: "'a list \<Rightarrow> bool" where
  "at_most_one (_ # _ # _) \<longleftrightarrow> False"
| "at_most_one _ \<longleftrightarrow> True"

lemma at_most_one_length: "at_most_one xs \<longleftrightarrow> length xs \<le> 1"
  by (cases xs rule: at_most_one.cases) simp_all

fun unambiguous_bits :: "nat \<Rightarrow> (bool \<times> bool) list list \<Rightarrow> bool" where
  "unambiguous_bits 0 rows \<longleftrightarrow> at_most_one rows"
| "unambiguous_bits (Suc n) rows \<longleftrightarrow> at_most_one rows \<or>
     unambiguous_bits n (side False rows) \<and> unambiguous_bits n (side True rows)"

lemma side_rows:
  "side False (map (row_bits (Suc n)) rows) =
     map (row_bits n) (filter (\<lambda>(c, k). bit k n \<longrightarrow> \<not> bit c n) rows)"
  "side True (map (row_bits (Suc n)) rows) =
     map (row_bits n) (filter (\<lambda>(c, k). bit k n \<longrightarrow> bit c n) rows)"
  by (induction rows) (auto simp: side_def)

lemma unambiguous_bits_rows:
  "unambiguous_bits n (map (row_bits n) rows) \<Longrightarrow> unambiguous n rows"
  by (induction n rows rule: unambiguous.induct) (auto simp: side_rows at_most_one_length)

lemma unambiguous_opcodes: "unambiguous 16 (row_masks s_opcodes)"
  by (rule unambiguous_bits_rows) code_simp

text \<open>Two extended rows that share a word stand with the more specific one first.\<close>

definition specific_first :: "DSPOPCTemplate \<Rightarrow> DSPOPCTemplate \<Rightarrow> bool" where
  "specific_first t u \<longleftrightarrow>
     (op_opcode t XOR op_opcode u) AND op_mask t AND op_mask u \<noteq> 0 \<or>
     op_mask t AND op_mask u = op_mask u"

lemma specific_first_ext: "sorted_wrt specific_first s_opcodes_ext"
  by code_simp

lemma find_specific:
  assumes "sorted_wrt specific_first data" and "FindByOpcode opc data = Some t"
    and "u \<in> set data" and "opc AND op_mask u = op_opcode u"
  shows "op_mask t AND op_mask u = op_mask u"
proof -
  obtain i where i: "i < length data" "data ! i = t" "opc AND op_mask t = op_opcode t"
    and first: "\<And>j. j < i \<Longrightarrow> opc AND op_mask (data ! j) \<noteq> op_opcode (data ! j)"
    using assms(2) by (auto simp: FindByOpcode_def find_Some_iff)
  obtain j where j: "j < length data" "data ! j = u"
    using assms(3) by (auto simp: in_set_conv_nth)
  have "\<not> j < i"
    using first [of j] j assms(4) by auto
  then consider "j = i" | "i < j"
    by linarith
  then show ?thesis
  proof cases
    case 1
    then show ?thesis using i j by simp
  next
    case 2
    then have "specific_first t u"
      using assms(1) i j by (auto simp: sorted_wrt_iff_nth_less)
    moreover have "(op_opcode t XOR op_opcode u) AND op_mask t AND op_mask u = 0"
      unfolding i(3) [symmetric] assms(4) [symmetric]
      by (rule bit_word_eqI) (auto simp: bit_simps)
    ultimately show ?thesis
      by (simp add: specific_first_def and.assoc)
  qed
qed

text \<open>An instruction word matches at most one row, an extension word a most specific row first.\<close>

theorem decoding_unambiguous:
  "length (filter (\<lambda>t. opc AND op_mask t = op_opcode t) s_opcodes) \<le> 1
   \<and> (case FindByOpcode opc s_opcodes_ext of
        None \<Rightarrow> filter (\<lambda>u. opc AND op_mask u = op_opcode u) s_opcodes_ext = []
      | Some t \<Rightarrow> list_all (\<lambda>u. op_mask t AND op_mask u = op_mask u)
          (filter (\<lambda>u. opc AND op_mask u = op_opcode u) s_opcodes_ext))"
  using unambiguous_rows [OF unambiguous_opcodes, of opc] find_specific [OF specific_first_ext, of opc]
  by (auto simp: row_masks_match list_all_iff FindByOpcode_def find_None_iff filter_empty_conv
      split: option.split)

end
