(* ===== verification/PPC_State.thy ===== *)
theory PPC_State
  imports DSP_Prelude
begin

text \<open>
  The emulated PowerPC of \<open>Core/PowerPC\<close>: the registers of \<open>PowerPCState\<close> (\<open>PowerPC.h\<close>) with the
  translation buffers and the instruction cache, the BAT tables of \<open>MMU.cpp\<close>, the four memories of
  \<open>HW/Memmap.cpp\<close>, the statics of the interpreter and of \<open>CoreTiming.cpp\<close> it touches, the fields of an
  instruction word and the constants of \<open>Gekko.h\<close>, the condition register with its 64-bit fields and
  the split XER.  \<open>mxcsr\<close> is the control register of the host's floating-point unit, which the program
  sets; \<open>bFlushToZero\<close> says whether that unit can flush subnormals to zero (\<open>CPUDetect.h\<close>).

  Settings are fields of the state.  So are the functions that stand for what is not modelled:
  \<open>DowncountToCycles\<close> and \<open>CyclesToDowncount\<close>, multiplications by the floating-point overclocking
  factor and its inverse;
  \<open>memcheck_pause\<close> and \<open>OverlapsMemcheck\<close>, the memory breakpoints of the debugger;
  and \<open>dev_answer\<close>, which answers the accesses to devices: any function of the accesses so far.
\<close>

section \<open>State\<close>

text \<open>An entry of the translation buffer, its two ways as arrays.\<close>

record TLBEntry =
  tlb_tag :: "u32 array"
  tlb_paddr :: "u32 array"
  tlb_pte :: "u32 array"
  tlb_recent :: u8

record InstructionCache =
  ic_data :: "nat \<Rightarrow> nat \<Rightarrow> nat \<Rightarrow> u32"
  ic_tags :: "nat \<Rightarrow> nat \<Rightarrow> u32"
  ic_plru :: "u32 array"
  ic_valid :: "u32 array"
  way_from_valid :: "nat array"
  way_from_plru :: "nat array"
  lookup_table :: "u8 array"
  lookup_table_ex :: "u8 array"
  lookup_table_vmem :: "u8 array"

record PowerPCState =
  gpr :: "u32 array"
  pc :: u32
  npc :: u32
  cr_val :: "u64 array"
  msr :: u32
  Exceptions :: u32
  downcount :: s32
  xer_ca :: u8
  xer_so_ov :: u8
  xer_stringctrl :: u16
  fpscr :: u32
  ps :: "nat \<Rightarrow> nat \<Rightarrow> u64"
  sr :: "u32 array"
  spr :: "u32 array"
  tlb :: "nat \<Rightarrow> nat \<Rightarrow> TLBEntry"
  pagetable_base :: u32
  pagetable_hashmask :: u32
  iCache :: InstructionCache

text \<open>The memories \<open>m_pRAM\<close>, \<open>m_pEXRAM\<close>, \<open>m_pL1Cache\<close> and \<open>m_pFakeVMEM\<close>.\<close>

datatype bank = Ram | Exram | L1Cache | FakeVMEM

text \<open>The kinds of access to a device.\<close>

datatype EFBAccessType = PeekZ | PokeZ | PeekColor | PokeColor

datatype dev_event =
    AccessEFB EFBAccessType u32 u32 u32
  | MmioRead nat u32
  | MmioWrite nat u32 u64
  | GatherPipeWrite nat u64
  | ResetGatherPipe
  | GetFakeDecrementer
  | GetFakeTimeBase
  | TimeBaseSet
  | DecrementerSet

text \<open>A scheduled event; the pointer to its type is a number.\<close>

record Event =
  ev_time :: s64
  ev_fifo_order :: u64
  ev_userdata :: u64
  ev_type :: nat

record ppc = PowerPCState +
  ram :: "bank \<Rightarrow> u8 array"
  has_exram :: bool
  has_fakevmem :: bool
  ibat_table :: "u32 array"
  dbat_table :: "u32 array"
  m_end_block :: bool
  m_reserve :: bool
  m_reserve_address :: u32
  m_prev_inst :: u32
  last_pc :: u32
  global_timer :: s64
  slice_length :: s32
  s_event_queue :: "Event list"
  s_event_fifo_id :: u64
  s_ts_queue :: "Event list"
  s_is_global_timer_sane :: bool
  s_idled_cycles :: s64
  bFlushToZero :: bool
  mxcsr :: u32
  bWii :: bool
  bMMU :: bool
  bDCBZOFF :: bool
  bLowDCBZHack :: bool
  DowncountToCycles :: "s32 \<Rightarrow> s32"
  CyclesToDowncount :: "s32 \<Rightarrow> s32"
  memcheck_pause :: "u32 \<Rightarrow> u32 \<Rightarrow> bool \<Rightarrow> nat \<Rightarrow> bool"
  OverlapsMemcheck :: "u32 \<Rightarrow> bool"
  dev_trace :: "dev_event list"
  dev_answer :: "dev_event list \<Rightarrow> dev_event \<Rightarrow> u64"

text \<open>
  What can stop the emulator: an access outside an array of the host, a read of host memory that is
  not mapped, and a loop of the code that does not end.
\<close>

datatype ppc_fault = OutOfBounds | Unmapped | NoReturn

type_synonym 'a ppc_val = "ppc_fault + 'a \<times> ppc"
type_synonym ppc_res = "ppc_fault + ppc"

definition bind_ppc :: "ppc_fault + 'a \<Rightarrow> ('a \<Rightarrow> ppc_fault + 'b) \<Rightarrow> ppc_fault + 'b" where
  "bind_ppc r f = (case r of Inl e \<Rightarrow> Inl e | Inr x \<Rightarrow> f x)"

lemma bind_ppc_simps [simp]:
  "bind_ppc (Inl e) f = Inl e"
  "bind_ppc (Inr x) f = f x"
  by (simp_all add: bind_ppc_def)

lemma bind_ppc_Inr: "bind_ppc r f = Inr y \<longleftrightarrow> (\<exists>x. r = Inr x \<and> f x = Inr y)"
  by (cases r) auto

text \<open>An access to a device: its answer, and the state with the access recorded.\<close>

definition dev_call :: "dev_event \<Rightarrow> ppc \<Rightarrow> u64 \<times> ppc" where
  "dev_call ev s = (dev_answer s (dev_trace s) ev, s\<lparr>dev_trace := ev # dev_trace s\<rparr>)"

abbreviation set_gpr :: "nat \<Rightarrow> u32 \<Rightarrow> ppc \<Rightarrow> ppc" where
  "set_gpr r v s \<equiv> s\<lparr>gpr := (gpr s)(r := v)\<rparr>"
abbreviation set_spr :: "nat \<Rightarrow> u32 \<Rightarrow> ppc \<Rightarrow> ppc" where
  "set_spr r v s \<equiv> s\<lparr>spr := (spr s)(r := v)\<rparr>"

definition SPR_LR :: nat where "SPR_LR = 8"
definition SPR_CTR :: nat where "SPR_CTR = 9"
definition SPR_SRR0 :: nat where "SPR_SRR0 = 26"
definition SPR_SRR1 :: nat where "SPR_SRR1 = 27"

lemmas spr_defs [simp] = SPR_LR_def SPR_CTR_def SPR_SRR0_def SPR_SRR1_def

section \<open>Instruction fields\<close>

text \<open>\<open>width\<close> bits from bit \<open>lo\<close> on; the unions of \<open>UGeckoInstruction\<close> start at the low end.\<close>

definition ifield :: "u32 \<Rightarrow> nat \<Rightarrow> nat \<Rightarrow> u32" where
  "ifield inst lo width = take_bit width (drop_bit lo inst)"

definition inst_Rc :: "u32 \<Rightarrow> bool" where "inst_Rc inst \<longleftrightarrow> ifield inst 0 1 \<noteq> 0"
definition inst_OE :: "u32 \<Rightarrow> bool" where "inst_OE inst \<longleftrightarrow> ifield inst 10 1 \<noteq> 0"
definition inst_RB :: "u32 \<Rightarrow> nat" where "inst_RB inst = unat (ifield inst 11 5)"
definition inst_RA :: "u32 \<Rightarrow> nat" where "inst_RA inst = unat (ifield inst 16 5)"
definition inst_RD :: "u32 \<Rightarrow> nat" where "inst_RD inst = unat (ifield inst 21 5)"
definition inst_RS :: "u32 \<Rightarrow> nat" where "inst_RS inst = unat (ifield inst 21 5)"
definition inst_TO :: "u32 \<Rightarrow> u32" where "inst_TO inst = ifield inst 21 5"
definition inst_SIMM_16 :: "u32 \<Rightarrow> u32" where "inst_SIMM_16 inst = scast (ucast inst :: s16)"
definition inst_UIMM :: "u32 \<Rightarrow> u32" where "inst_UIMM inst = ifield inst 0 16"
definition inst_SH :: "u32 \<Rightarrow> nat" where "inst_SH inst = unat (ifield inst 11 5)"
definition inst_NB :: "u32 \<Rightarrow> nat" where "inst_NB inst = unat (ifield inst 11 5)"
definition inst_MB :: "u32 \<Rightarrow> nat" where "inst_MB inst = unat (ifield inst 6 5)"
definition inst_ME :: "u32 \<Rightarrow> nat" where "inst_ME inst = unat (ifield inst 1 5)"
definition inst_CRFD :: "u32 \<Rightarrow> nat" where "inst_CRFD inst = unat (ifield inst 23 3)"
definition inst_CRFS :: "u32 \<Rightarrow> nat" where "inst_CRFS inst = unat (ifield inst 18 3)"
definition inst_CRBB :: "u32 \<Rightarrow> nat" where "inst_CRBB inst = unat (ifield inst 11 5)"
definition inst_CRBA :: "u32 \<Rightarrow> nat" where "inst_CRBA inst = unat (ifield inst 16 5)"
definition inst_CRBD :: "u32 \<Rightarrow> nat" where "inst_CRBD inst = unat (ifield inst 21 5)"
definition inst_CRM :: "u32 \<Rightarrow> u32" where "inst_CRM inst = ifield inst 12 8"
definition inst_LK :: "u32 \<Rightarrow> bool" where "inst_LK inst \<longleftrightarrow> ifield inst 0 1 \<noteq> 0"
definition inst_AA :: "u32 \<Rightarrow> bool" where "inst_AA inst \<longleftrightarrow> ifield inst 1 1 \<noteq> 0"
definition inst_LI :: "u32 \<Rightarrow> u32" where "inst_LI inst = ifield inst 2 24"
definition inst_BD :: "u32 \<Rightarrow> u32" where "inst_BD inst = ifield inst 2 14"
definition inst_BI :: "u32 \<Rightarrow> nat" where "inst_BI inst = unat (ifield inst 16 5)"
definition inst_BO :: "u32 \<Rightarrow> u32" where "inst_BO inst = ifield inst 21 5"
definition inst_SR :: "u32 \<Rightarrow> nat" where "inst_SR inst = unat (ifield inst 16 4)"

definition SignExt16 :: "u32 \<Rightarrow> u32" where "SignExt16 x = scast (ucast x :: s16)"

definition SignExt26 :: "u32 \<Rightarrow> u32" where
  "SignExt26 x = (if x AND 0x2000000 \<noteq> 0 then x OR 0xFC000000 else x)"

section \<open>XER\<close>

definition GetXER_SO :: "ppc \<Rightarrow> u8" where "GetXER_SO s = drop_bit 1 (xer_so_ov s)"
definition GetXER_OV :: "ppc \<Rightarrow> u8" where "GetXER_OV s = xer_so_ov s AND 1"

definition SetXER_SO :: "bool \<Rightarrow> ppc \<Rightarrow> ppc" where
  "SetXER_SO value s = s\<lparr>xer_so_ov := xer_so_ov s OR push_bit 1 (of_bool value)\<rparr>"

definition SetXER_OV :: "bool \<Rightarrow> ppc \<Rightarrow> ppc" where
  "SetXER_OV value s = SetXER_SO value (s\<lparr>xer_so_ov := (xer_so_ov s AND 0xFE) OR of_bool value\<rparr>)"

definition SetCarry :: "u8 \<Rightarrow> ppc \<Rightarrow> ppc" where "SetCarry ca s = s\<lparr>xer_ca := ca\<rparr>"
definition GetCarry :: "ppc \<Rightarrow> u8" where "GetCarry s = xer_ca s"

definition GetXER :: "ppc \<Rightarrow> u32" where
  "GetXER s = ucast (xer_stringctrl s) OR push_bit 29 (ucast (xer_ca s)) OR push_bit 30 (ucast (xer_so_ov s))"

definition SetXER :: "u32 \<Rightarrow> ppc \<Rightarrow> ppc" where
  "SetXER x s = s\<lparr>xer_stringctrl := ucast (take_bit 7 x + push_bit 8 (take_bit 8 (drop_bit 8 x))),
     xer_ca := ucast (take_bit 1 (drop_bit 29 x)),
     xer_so_ov := ucast (push_bit 1 (take_bit 1 (drop_bit 31 x)) + take_bit 1 (drop_bit 30 x))\<rparr>"

section \<open>The condition register\<close>

definition PPCCRToInternal :: "u8 \<Rightarrow> u64" where
  "PPCCRToInternal value =
     0x100000000 OR push_bit 61 (of_bool (value AND 1 \<noteq> 0)) OR of_bool (value AND 2 = 0)
       OR push_bit 63 (of_bool (value AND 4 = 0)) OR push_bit 62 (of_bool (value AND 8 \<noteq> 0))"

definition m_crTable :: "u64 list" where
  "m_crTable = map (\<lambda>i. PPCCRToInternal (of_nat i)) [0..<16]"

definition SetCRField :: "nat \<Rightarrow> u32 \<Rightarrow> ppc \<Rightarrow> ppc" where
  "SetCRField cr_field value s = s\<lparr>cr_val := (cr_val s)(cr_field := m_crTable ! unat value)\<rparr>"

definition GetCRField :: "nat \<Rightarrow> ppc \<Rightarrow> u32" where
  "GetCRField cr_field s =
     (let v = cr_val s cr_field
      in of_bool (v AND push_bit 61 1 \<noteq> 0) OR push_bit 1 (of_bool (v AND 0xFFFFFFFF = 0))
         OR push_bit 2 (of_bool (sint v > 0)) OR push_bit 3 (of_bool (v AND push_bit 62 1 \<noteq> 0)))"

definition GetCRBit :: "nat \<Rightarrow> ppc \<Rightarrow> u32" where
  "GetCRBit b s = drop_bit (3 - b mod 4) (GetCRField (b div 4) s) AND 1"

definition SetCRBit :: "nat \<Rightarrow> u32 \<Rightarrow> ppc \<Rightarrow> ppc" where
  "SetCRBit b value s =
     (if value AND 1 \<noteq> 0
      then SetCRField (b div 4) (GetCRField (b div 4) s OR drop_bit (b mod 4) 0x8) s
      else SetCRField (b div 4) (GetCRField (b div 4) s AND NOT (drop_bit (b mod 4) 0x8)) s)"

text \<open>The loops over the eight fields.\<close>

fun compact_cr_from :: "nat \<Rightarrow> u32 \<Rightarrow> ppc \<Rightarrow> u32" where
  "compact_cr_from 0 new_cr s = new_cr"
| "compact_cr_from (Suc n) new_cr s =
     (let i = 8 - Suc n in compact_cr_from n (new_cr OR push_bit (28 - i * 4) (GetCRField i s)) s)"

definition CompactCR :: "ppc \<Rightarrow> u32" where "CompactCR s = compact_cr_from 8 0 s"

fun expand_cr_from :: "nat \<Rightarrow> u32 \<Rightarrow> ppc \<Rightarrow> ppc" where
  "expand_cr_from 0 cr s = s"
| "expand_cr_from (Suc n) cr s =
     (let i = 8 - Suc n in expand_cr_from n cr (SetCRField i (drop_bit (28 - i * 4) cr AND 0xF) s))"

definition ExpandCR :: "u32 \<Rightarrow> ppc \<Rightarrow> ppc" where "ExpandCR cr s = expand_cr_from 8 cr s"

definition SetCR :: "u32 \<Rightarrow> ppc \<Rightarrow> ppc" where "SetCR new_cr s = ExpandCR new_cr s"
definition GetCR :: "ppc \<Rightarrow> u32" where "GetCR s = CompactCR s"

section \<open>A state with nothing in it\<close>

definition invalid_tlb :: TLBEntry where
  "invalid_tlb = \<lparr>tlb_tag = \<lambda>_. 0xffffffff, tlb_paddr = \<lambda>_. 0, tlb_pte = \<lambda>_. 0, tlb_recent = 0\<rparr>"

definition icache_zero :: InstructionCache where
  "icache_zero = \<lparr>ic_data = \<lambda>_ _ _. 0, ic_tags = \<lambda>_ _. 0, ic_plru = \<lambda>_. 0, ic_valid = \<lambda>_. 0,
     way_from_valid = \<lambda>_. 0, way_from_plru = \<lambda>_. 0, lookup_table = \<lambda>_. 0xff,
     lookup_table_ex = \<lambda>_. 0xff, lookup_table_vmem = \<lambda>_. 0xff\<rparr>"

definition ppc_zero :: ppc where
  "ppc_zero = \<lparr>gpr = \<lambda>_. 0, pc = 0, npc = 0, cr_val = \<lambda>_. 0, msr = 0, Exceptions = 0, downcount = 0,
     xer_ca = 0, xer_so_ov = 0, xer_stringctrl = 0, fpscr = 0, ps = \<lambda>_ _. 0, sr = \<lambda>_. 0, spr = \<lambda>_. 0,
     tlb = \<lambda>_ _. invalid_tlb, pagetable_base = 0, pagetable_hashmask = 0, iCache = icache_zero,
     ram = \<lambda>_ _. 0, has_exram = False, has_fakevmem = False, ibat_table = \<lambda>_. 0, dbat_table = \<lambda>_. 0,
     m_end_block = False, m_reserve = False, m_reserve_address = 0, m_prev_inst = 0, last_pc = 0,
     global_timer = 0, slice_length = 0, s_event_queue = [], s_event_fifo_id = 0, s_ts_queue = [],
     s_is_global_timer_sane = True, s_idled_cycles = 0,
     bFlushToZero = True, mxcsr = 0x1F80, bWii = False,
     bMMU = False, bDCBZOFF = False, bLowDCBZHack = False, DowncountToCycles = \<lambda>d. d, CyclesToDowncount = \<lambda>c. c,
     memcheck_pause = \<lambda>_ _ _ _. False, OverlapsMemcheck = \<lambda>_. False, dev_trace = [],
     dev_answer = \<lambda>_ _. 0\<rparr>"

end
