(* ===== verification/PPC_Exceptions.thy ===== *)
theory PPC_Exceptions
  imports PPC_State
begin

text \<open>
  The exceptions of \<open>Core/PowerPC/PowerPC.cpp\<close>: which pending exception is taken, and what taking
  it does to the state.
\<close>

section \<open>The exception flags\<close>

definition EXCEPTION_DECREMENTER :: u32 where "EXCEPTION_DECREMENTER = 0x00000001"
definition EXCEPTION_SYSCALL :: u32 where "EXCEPTION_SYSCALL = 0x00000002"
definition EXCEPTION_EXTERNAL_INT :: u32 where "EXCEPTION_EXTERNAL_INT = 0x00000004"
definition EXCEPTION_DSI :: u32 where "EXCEPTION_DSI = 0x00000008"
definition EXCEPTION_ISI :: u32 where "EXCEPTION_ISI = 0x00000010"
definition EXCEPTION_ALIGNMENT :: u32 where "EXCEPTION_ALIGNMENT = 0x00000020"
definition EXCEPTION_FPU_UNAVAILABLE :: u32 where "EXCEPTION_FPU_UNAVAILABLE = 0x00000040"
definition EXCEPTION_PROGRAM :: u32 where "EXCEPTION_PROGRAM = 0x00000080"
definition EXCEPTION_PERFORMANCE_MONITOR :: u32 where "EXCEPTION_PERFORMANCE_MONITOR = 0x00000100"
definition EXCEPTION_FAKE_MEMCHECK_HIT :: u32 where "EXCEPTION_FAKE_MEMCHECK_HIT = 0x00000200"

lemmas exception_defs = EXCEPTION_DECREMENTER_def EXCEPTION_SYSCALL_def EXCEPTION_EXTERNAL_INT_def
  EXCEPTION_DSI_def EXCEPTION_ISI_def EXCEPTION_ALIGNMENT_def EXCEPTION_FPU_UNAVAILABLE_def
  EXCEPTION_PROGRAM_def EXCEPTION_PERFORMANCE_MONITOR_def EXCEPTION_FAKE_MEMCHECK_HIT_def

text \<open>
  The seven statements of every branch of \<open>CheckExceptions\<close>: \<open>srr0\<close> is \<open>PC\<close> or \<open>NPC\<close>, \<open>extra\<close> the
  bits added to \<open>SRR1\<close>.
\<close>

definition take_exception :: "u32 \<Rightarrow> u32 \<Rightarrow> u32 \<Rightarrow> u32 \<Rightarrow> ppc \<Rightarrow> ppc" where
  "take_exception srr0 extra vector which s =
     (let s = set_spr SPR_SRR0 srr0 s;
          s = set_spr SPR_SRR1 ((msr s AND 0x87C0FFFF) OR extra) s;
          s = s\<lparr>msr := msr s OR (drop_bit 16 (msr s) AND 1)\<rparr>;
          s = s\<lparr>msr := msr s AND NOT 0x04EF36\<rparr>;
          s = s\<lparr>pc := vector, npc := vector\<rparr>
      in s\<lparr>Exceptions := Exceptions s AND NOT which\<rparr>)"

definition CheckExternalExceptions :: "ppc \<Rightarrow> ppc" where
  "CheckExternalExceptions s =
     (let exceptions = Exceptions s
      in if exceptions \<noteq> 0 \<and> msr s AND 0x0008000 \<noteq> 0 then
           (if exceptions AND EXCEPTION_EXTERNAL_INT \<noteq> 0
            then take_exception (npc s) 0 0x00000500 EXCEPTION_EXTERNAL_INT s
            else if exceptions AND EXCEPTION_PERFORMANCE_MONITOR \<noteq> 0
            then take_exception (npc s) 0 0x00000F00 EXCEPTION_PERFORMANCE_MONITOR s
            else if exceptions AND EXCEPTION_DECREMENTER \<noteq> 0
            then take_exception (npc s) 0 0x00000900 EXCEPTION_DECREMENTER s
            else s)
         else s)"

definition CheckExceptions :: "ppc \<Rightarrow> ppc" where
  "CheckExceptions s =
     (let exceptions = Exceptions s
      in if exceptions AND EXCEPTION_ISI \<noteq> 0
         then take_exception (npc s) (push_bit 30 1) 0x00000400 EXCEPTION_ISI s
         else if exceptions AND EXCEPTION_PROGRAM \<noteq> 0
         then take_exception (pc s) 0x20000 0x00000700 EXCEPTION_PROGRAM s
         else if exceptions AND EXCEPTION_SYSCALL \<noteq> 0
         then take_exception (npc s) 0 0x00000C00 EXCEPTION_SYSCALL s
         else if exceptions AND EXCEPTION_FPU_UNAVAILABLE \<noteq> 0
         then take_exception (pc s) 0 0x00000800 EXCEPTION_FPU_UNAVAILABLE s
         else if exceptions AND EXCEPTION_FAKE_MEMCHECK_HIT \<noteq> 0
         then s\<lparr>Exceptions := Exceptions s AND NOT EXCEPTION_DSI AND NOT EXCEPTION_FAKE_MEMCHECK_HIT\<rparr>
         else if exceptions AND EXCEPTION_DSI \<noteq> 0
         then take_exception (pc s) 0 0x00000300 EXCEPTION_DSI s
         else if exceptions AND EXCEPTION_ALIGNMENT \<noteq> 0
         then take_exception (pc s) 0 0x00000600 EXCEPTION_ALIGNMENT s
         else CheckExternalExceptions s)"

end
