(* ===== verification/PPC_Integer.thy ===== *)
theory PPC_Integer
  imports PPC_Exceptions "HOL-Library.Signed_Division"
begin

text \<open>
  The integer instructions of \<open>Core/PowerPC/Interpreter/Interpreter_Integer.cpp\<close>.  A function gets the instruction word;
  \<open>int\<close> and \<open>s32\<close> values are \<open>32 word\<close>s, compared with \<open>sint\<close> where the code compares them
  signed.
\<close>

section \<open>Helpers\<close>

definition Helper_UpdateCR0 :: "u32 \<Rightarrow> ppc \<Rightarrow> ppc" where
  "Helper_UpdateCR0 value s =
     (let sign_extended = scast value :: s64;
          cr = (sign_extended AND NOT (push_bit 61 1)) OR push_bit 61 (ucast (GetXER_SO s))
      in s\<lparr>cr_val := (cr_val s)(0 := cr)\<rparr>)"

definition Helper_Carry :: "u32 \<Rightarrow> u32 \<Rightarrow> bool" where
  "Helper_Carry value1 value2 \<longleftrightarrow> value2 > NOT value1"

definition Helper_Mask :: "nat \<Rightarrow> nat \<Rightarrow> u32" where
  "Helper_Mask mb me =
     (let begin' = drop_bit mb 0xFFFFFFFF;
          end' = drop_bit me 0x7FFFFFFF;
          mask' = begin' XOR end'
      in if me < mb then NOT mask' else mask')"

definition rotl :: "u32 \<Rightarrow> nat \<Rightarrow> u32" where
  "rotl x shift' =
     (let shift = shift' mod 32
      in if shift = 0 then x else push_bit shift x OR drop_bit (32 - shift) x)"

definition HasAddOverflowed :: "u32 \<Rightarrow> u32 \<Rightarrow> u32 \<Rightarrow> bool" where
  "HasAddOverflowed x y result \<longleftrightarrow> drop_bit 31 ((x XOR result) AND (y XOR result)) \<noteq> 0"

text \<open>\<open>if (inst.Rc) Helper_UpdateCR0(v)\<close> and \<open>if (inst.OE) SetXER_OV(v)\<close>.\<close>

definition record_if :: "u32 \<Rightarrow> u32 \<Rightarrow> ppc \<Rightarrow> ppc" where
  "record_if inst v s = (if inst_Rc inst then Helper_UpdateCR0 v s else s)"

definition overflow_if :: "u32 \<Rightarrow> bool \<Rightarrow> ppc \<Rightarrow> ppc" where
  "overflow_if inst ov s = (if inst_OE inst then SetXER_OV ov s else s)"

definition set_carry :: "bool \<Rightarrow> ppc \<Rightarrow> ppc" where
  "set_carry b s = SetCarry (of_bool b) s"

section \<open>Immediate operands\<close>

definition addi :: "u32 \<Rightarrow> ppc \<Rightarrow> ppc" where
  "addi inst s =
     (if inst_RA inst \<noteq> 0 then set_gpr (inst_RD inst) (gpr s (inst_RA inst) + inst_SIMM_16 inst) s
      else set_gpr (inst_RD inst) (inst_SIMM_16 inst) s)"

definition addic :: "u32 \<Rightarrow> ppc \<Rightarrow> ppc" where
  "addic inst s =
     (let a = gpr s (inst_RA inst);
          imm = inst_SIMM_16 inst;
          s = set_gpr (inst_RD inst) (a + imm) s
      in set_carry (Helper_Carry a imm) s)"

definition addic_rc :: "u32 \<Rightarrow> ppc \<Rightarrow> ppc" where
  "addic_rc inst s = (let s = addic inst s in Helper_UpdateCR0 (gpr s (inst_RD inst)) s)"

definition addis :: "u32 \<Rightarrow> ppc \<Rightarrow> ppc" where
  "addis inst s =
     (if inst_RA inst \<noteq> 0
      then set_gpr (inst_RD inst) (gpr s (inst_RA inst) + push_bit 16 (inst_SIMM_16 inst)) s
      else set_gpr (inst_RD inst) (push_bit 16 (inst_SIMM_16 inst)) s)"

definition andi_rc :: "u32 \<Rightarrow> ppc \<Rightarrow> ppc" where
  "andi_rc inst s =
     (let s = set_gpr (inst_RA inst) (gpr s (inst_RS inst) AND inst_UIMM inst) s
      in Helper_UpdateCR0 (gpr s (inst_RA inst)) s)"

definition andis_rc :: "u32 \<Rightarrow> ppc \<Rightarrow> ppc" where
  "andis_rc inst s =
     (let s = set_gpr (inst_RA inst) (gpr s (inst_RS inst) AND push_bit 16 (inst_UIMM inst)) s
      in Helper_UpdateCR0 (gpr s (inst_RA inst)) s)"

text \<open>The value \<open>f\<close> of the four comparisons.\<close>

definition compare_flags :: "bool \<Rightarrow> bool \<Rightarrow> ppc \<Rightarrow> u32" where
  "compare_flags lt gt s =
     (let f = (if lt then 0x8 else if gt then 0x4 else 0x2)
      in if GetXER_SO s \<noteq> 0 then f OR 0x1 else f)"

definition cmpi :: "u32 \<Rightarrow> ppc \<Rightarrow> ppc" where
  "cmpi inst s =
     (let a = sint (gpr s (inst_RA inst)); b = sint (inst_SIMM_16 inst)
      in SetCRField (inst_CRFD inst) (compare_flags (a < b) (a > b) s) s)"

definition cmpli :: "u32 \<Rightarrow> ppc \<Rightarrow> ppc" where
  "cmpli inst s =
     (let a = gpr s (inst_RA inst); b = inst_UIMM inst
      in SetCRField (inst_CRFD inst) (compare_flags (a < b) (a > b) s) s)"

definition mulli :: "u32 \<Rightarrow> ppc \<Rightarrow> ppc" where
  "mulli inst s = set_gpr (inst_RD inst) (gpr s (inst_RA inst) * inst_SIMM_16 inst) s"

definition ori :: "u32 \<Rightarrow> ppc \<Rightarrow> ppc" where
  "ori inst s = set_gpr (inst_RA inst) (gpr s (inst_RS inst) OR inst_UIMM inst) s"

definition oris :: "u32 \<Rightarrow> ppc \<Rightarrow> ppc" where
  "oris inst s = set_gpr (inst_RA inst) (gpr s (inst_RS inst) OR push_bit 16 (inst_UIMM inst)) s"

text \<open>The carry is computed from \<open>rGPR[inst.RA]\<close> after \<open>rGPR[inst.RD]\<close> has been written.\<close>

definition subfic :: "u32 \<Rightarrow> ppc \<Rightarrow> ppc" where
  "subfic inst s =
     (let immediate = inst_SIMM_16 inst;
          s = set_gpr (inst_RD inst) (immediate - gpr s (inst_RA inst)) s
      in set_carry (gpr s (inst_RA inst) = 0 \<or> Helper_Carry (0 - gpr s (inst_RA inst)) immediate) s)"

text \<open>The test of the two trap instructions, and what they do when it holds.\<close>

definition trap_condition :: "u32 \<Rightarrow> u32 \<Rightarrow> u32 \<Rightarrow> bool" where
  "trap_condition a b to \<longleftrightarrow>
     sint a < sint b \<and> to AND 0x10 \<noteq> 0 \<or> sint a > sint b \<and> to AND 0x08 \<noteq> 0
     \<or> a = b \<and> to AND 0x04 \<noteq> 0 \<or> a < b \<and> to AND 0x02 \<noteq> 0 \<or> a > b \<and> to AND 0x01 \<noteq> 0"

definition trap :: "ppc \<Rightarrow> ppc" where
  "trap s = (CheckExceptions (s\<lparr>Exceptions := Exceptions s OR EXCEPTION_PROGRAM\<rparr>))\<lparr>m_end_block := True\<rparr>"

definition twi :: "u32 \<Rightarrow> ppc \<Rightarrow> ppc" where
  "twi inst s =
     (if trap_condition (gpr s (inst_RA inst)) (inst_SIMM_16 inst) (inst_TO inst) then trap s else s)"

definition xori :: "u32 \<Rightarrow> ppc \<Rightarrow> ppc" where
  "xori inst s = set_gpr (inst_RA inst) (gpr s (inst_RS inst) XOR inst_UIMM inst) s"

definition xoris :: "u32 \<Rightarrow> ppc \<Rightarrow> ppc" where
  "xoris inst s = set_gpr (inst_RA inst) (gpr s (inst_RS inst) XOR push_bit 16 (inst_UIMM inst)) s"

definition rlwimix :: "u32 \<Rightarrow> ppc \<Rightarrow> ppc" where
  "rlwimix inst s =
     (let m = Helper_Mask (inst_MB inst) (inst_ME inst);
          s = set_gpr (inst_RA inst)
                ((gpr s (inst_RA inst) AND NOT m) OR (rotl (gpr s (inst_RS inst)) (inst_SH inst) AND m)) s
      in record_if inst (gpr s (inst_RA inst)) s)"

definition rlwinmx :: "u32 \<Rightarrow> ppc \<Rightarrow> ppc" where
  "rlwinmx inst s =
     (let m = Helper_Mask (inst_MB inst) (inst_ME inst);
          s = set_gpr (inst_RA inst) (rotl (gpr s (inst_RS inst)) (inst_SH inst) AND m) s
      in record_if inst (gpr s (inst_RA inst)) s)"

definition rlwnmx :: "u32 \<Rightarrow> ppc \<Rightarrow> ppc" where
  "rlwnmx inst s =
     (let m = Helper_Mask (inst_MB inst) (inst_ME inst);
          s = set_gpr (inst_RA inst)
                (rotl (gpr s (inst_RS inst)) (unat (gpr s (inst_RB inst) AND 0x1F)) AND m) s
      in record_if inst (gpr s (inst_RA inst)) s)"

section \<open>Register operands\<close>

definition andx :: "u32 \<Rightarrow> ppc \<Rightarrow> ppc" where
  "andx inst s =
     (let s = set_gpr (inst_RA inst) (gpr s (inst_RS inst) AND gpr s (inst_RB inst)) s
      in record_if inst (gpr s (inst_RA inst)) s)"

definition andcx :: "u32 \<Rightarrow> ppc \<Rightarrow> ppc" where
  "andcx inst s =
     (let s = set_gpr (inst_RA inst) (gpr s (inst_RS inst) AND NOT (gpr s (inst_RB inst))) s
      in record_if inst (gpr s (inst_RA inst)) s)"

definition cmp :: "u32 \<Rightarrow> ppc \<Rightarrow> ppc" where
  "cmp inst s =
     (let a = sint (gpr s (inst_RA inst)); b = sint (gpr s (inst_RB inst))
      in SetCRField (inst_CRFD inst) (compare_flags (a < b) (a > b) s) s)"

definition cmpl :: "u32 \<Rightarrow> ppc \<Rightarrow> ppc" where
  "cmpl inst s =
     (let a = gpr s (inst_RA inst); b = gpr s (inst_RB inst)
      in SetCRField (inst_CRFD inst) (compare_flags (a < b) (a > b) s) s)"

text \<open>The loop of \<open>cntlzwx\<close>: \<open>n\<close> rounds left, \<open>m\<close> the mask.\<close>

fun cntlzw_loop :: "nat \<Rightarrow> nat \<Rightarrow> u32 \<Rightarrow> u32 \<Rightarrow> nat" where
  "cntlzw_loop 0 i m val = i"
| "cntlzw_loop (Suc n) i m val =
     (if val AND m \<noteq> 0 then i else cntlzw_loop n (i + 1) (drop_bit 1 m) val)"

definition cntlzwx :: "u32 \<Rightarrow> ppc \<Rightarrow> ppc" where
  "cntlzwx inst s =
     (let s = set_gpr (inst_RA inst) (of_nat (cntlzw_loop 32 0 0x80000000 (gpr s (inst_RS inst)))) s
      in record_if inst (gpr s (inst_RA inst)) s)"

definition eqvx :: "u32 \<Rightarrow> ppc \<Rightarrow> ppc" where
  "eqvx inst s =
     (let s = set_gpr (inst_RA inst) (NOT (gpr s (inst_RS inst) XOR gpr s (inst_RB inst))) s
      in record_if inst (gpr s (inst_RA inst)) s)"

definition extsbx :: "u32 \<Rightarrow> ppc \<Rightarrow> ppc" where
  "extsbx inst s =
     (let s = set_gpr (inst_RA inst) (scast (ucast (gpr s (inst_RS inst)) :: s8)) s
      in record_if inst (gpr s (inst_RA inst)) s)"

definition extshx :: "u32 \<Rightarrow> ppc \<Rightarrow> ppc" where
  "extshx inst s =
     (let s = set_gpr (inst_RA inst) (scast (ucast (gpr s (inst_RS inst)) :: s16)) s
      in record_if inst (gpr s (inst_RA inst)) s)"

definition nandx :: "u32 \<Rightarrow> ppc \<Rightarrow> ppc" where
  "nandx inst s =
     (let s = set_gpr (inst_RA inst) (NOT (gpr s (inst_RS inst) AND gpr s (inst_RB inst))) s
      in record_if inst (gpr s (inst_RA inst)) s)"

definition norx :: "u32 \<Rightarrow> ppc \<Rightarrow> ppc" where
  "norx inst s =
     (let s = set_gpr (inst_RA inst) (NOT (gpr s (inst_RS inst) OR gpr s (inst_RB inst))) s
      in record_if inst (gpr s (inst_RA inst)) s)"

definition orx :: "u32 \<Rightarrow> ppc \<Rightarrow> ppc" where
  "orx inst s =
     (let s = set_gpr (inst_RA inst) (gpr s (inst_RS inst) OR gpr s (inst_RB inst)) s
      in record_if inst (gpr s (inst_RA inst)) s)"

definition orcx :: "u32 \<Rightarrow> ppc \<Rightarrow> ppc" where
  "orcx inst s =
     (let s = set_gpr (inst_RA inst) (gpr s (inst_RS inst) OR NOT (gpr s (inst_RB inst))) s
      in record_if inst (gpr s (inst_RA inst)) s)"

definition slwx :: "u32 \<Rightarrow> ppc \<Rightarrow> ppc" where
  "slwx inst s =
     (let amount = gpr s (inst_RB inst);
          s = set_gpr (inst_RA inst)
                (if amount AND 0x20 \<noteq> 0 then 0
                 else push_bit (unat (amount AND 0x1f)) (gpr s (inst_RS inst))) s
      in record_if inst (gpr s (inst_RA inst)) s)"

text \<open>The shift by a known amount of \<open>srawx\<close> and \<open>srawix\<close>.\<close>

definition sraw_by :: "u32 \<Rightarrow> nat \<Rightarrow> ppc \<Rightarrow> ppc" where
  "sraw_by inst amount s =
     (let rrs = gpr s (inst_RS inst);
          s = set_gpr (inst_RA inst) (signed_drop_bit amount rrs) s
      in set_carry (sint rrs < 0 \<and> amount > 0 \<and> push_bit (32 - amount) rrs \<noteq> 0) s)"

definition srawx :: "u32 \<Rightarrow> ppc \<Rightarrow> ppc" where
  "srawx inst s =
     (let rb = gpr s (inst_RB inst);
          s = (if rb AND 0x20 \<noteq> 0 then
                 (if gpr s (inst_RS inst) AND 0x80000000 \<noteq> 0
                  then SetCarry 1 (set_gpr (inst_RA inst) 0xFFFFFFFF s)
                  else SetCarry 0 (set_gpr (inst_RA inst) 0x00000000 s))
               else sraw_by inst (unat (rb AND 0x1f)) s)
      in record_if inst (gpr s (inst_RA inst)) s)"

definition srawix :: "u32 \<Rightarrow> ppc \<Rightarrow> ppc" where
  "srawix inst s =
     (let s = sraw_by inst (inst_SH inst) s
      in record_if inst (gpr s (inst_RA inst)) s)"

definition srwx :: "u32 \<Rightarrow> ppc \<Rightarrow> ppc" where
  "srwx inst s =
     (let amount = gpr s (inst_RB inst);
          s = set_gpr (inst_RA inst)
                (if amount AND 0x20 \<noteq> 0 then 0
                 else drop_bit (unat (amount AND 0x1f)) (gpr s (inst_RS inst))) s
      in record_if inst (gpr s (inst_RA inst)) s)"

definition tw :: "u32 \<Rightarrow> ppc \<Rightarrow> ppc" where
  "tw inst s =
     (if trap_condition (gpr s (inst_RA inst)) (gpr s (inst_RB inst)) (inst_TO inst) then trap s else s)"

definition xorx :: "u32 \<Rightarrow> ppc \<Rightarrow> ppc" where
  "xorx inst s =
     (let s = set_gpr (inst_RA inst) (gpr s (inst_RS inst) XOR gpr s (inst_RB inst)) s
      in record_if inst (gpr s (inst_RA inst)) s)"

section \<open>Addition and subtraction\<close>

definition addx :: "u32 \<Rightarrow> ppc \<Rightarrow> ppc" where
  "addx inst s =
     (let a = gpr s (inst_RA inst);
          b = gpr s (inst_RB inst);
          result = a + b;
          s = set_gpr (inst_RD inst) result s;
          s = overflow_if inst (HasAddOverflowed a b result) s
      in record_if inst result s)"

definition addcx :: "u32 \<Rightarrow> ppc \<Rightarrow> ppc" where
  "addcx inst s =
     (let a = gpr s (inst_RA inst);
          b = gpr s (inst_RB inst);
          result = a + b;
          s = set_gpr (inst_RD inst) result s;
          s = set_carry (Helper_Carry a b) s;
          s = overflow_if inst (HasAddOverflowed a b result) s
      in record_if inst result s)"

definition addex :: "u32 \<Rightarrow> ppc \<Rightarrow> ppc" where
  "addex inst s =
     (let carry = ucast (GetCarry s) :: u32;
          a = gpr s (inst_RA inst);
          b = gpr s (inst_RB inst);
          result = a + b + carry;
          s = set_gpr (inst_RD inst) result s;
          s = set_carry (Helper_Carry a b \<or> (carry \<noteq> 0 \<and> Helper_Carry (a + b) carry)) s;
          s = overflow_if inst (HasAddOverflowed a b result) s
      in record_if inst result s)"

definition addmex :: "u32 \<Rightarrow> ppc \<Rightarrow> ppc" where
  "addmex inst s =
     (let carry = ucast (GetCarry s) :: u32;
          a = gpr s (inst_RA inst);
          b = 0xFFFFFFFF;
          result = a + b + carry;
          s = set_gpr (inst_RD inst) result s;
          s = set_carry (Helper_Carry a (carry - 1)) s;
          s = overflow_if inst (HasAddOverflowed a b result) s
      in record_if inst result s)"

definition addzex :: "u32 \<Rightarrow> ppc \<Rightarrow> ppc" where
  "addzex inst s =
     (let carry = ucast (GetCarry s) :: u32;
          a = gpr s (inst_RA inst);
          result = a + carry;
          s = set_gpr (inst_RD inst) result s;
          s = set_carry (Helper_Carry a carry) s;
          s = overflow_if inst (HasAddOverflowed a 0 result) s
      in record_if inst result s)"

definition subfx :: "u32 \<Rightarrow> ppc \<Rightarrow> ppc" where
  "subfx inst s =
     (let a = NOT (gpr s (inst_RA inst));
          b = gpr s (inst_RB inst);
          result = a + b + 1;
          s = set_gpr (inst_RD inst) result s;
          s = overflow_if inst (HasAddOverflowed a b result) s
      in record_if inst result s)"

definition subfcx :: "u32 \<Rightarrow> ppc \<Rightarrow> ppc" where
  "subfcx inst s =
     (let a = NOT (gpr s (inst_RA inst));
          b = gpr s (inst_RB inst);
          result = a + b + 1;
          s = set_gpr (inst_RD inst) result s;
          s = set_carry (a = 0xFFFFFFFF \<or> Helper_Carry b (a + 1)) s;
          s = overflow_if inst (HasAddOverflowed a b result) s
      in record_if inst result s)"

definition subfex :: "u32 \<Rightarrow> ppc \<Rightarrow> ppc" where
  "subfex inst s =
     (let a = NOT (gpr s (inst_RA inst));
          b = gpr s (inst_RB inst);
          carry = ucast (GetCarry s) :: u32;
          result = a + b + carry;
          s = set_gpr (inst_RD inst) result s;
          s = set_carry (Helper_Carry a b \<or> Helper_Carry (a + b) carry) s;
          s = overflow_if inst (HasAddOverflowed a b result) s
      in record_if inst result s)"

definition subfmex :: "u32 \<Rightarrow> ppc \<Rightarrow> ppc" where
  "subfmex inst s =
     (let a = NOT (gpr s (inst_RA inst));
          b = 0xFFFFFFFF;
          carry = ucast (GetCarry s) :: u32;
          result = a + b + carry;
          s = set_gpr (inst_RD inst) result s;
          s = set_carry (Helper_Carry a (carry - 1)) s;
          s = overflow_if inst (HasAddOverflowed a b result) s
      in record_if inst result s)"

definition subfzex :: "u32 \<Rightarrow> ppc \<Rightarrow> ppc" where
  "subfzex inst s =
     (let a = NOT (gpr s (inst_RA inst));
          carry = ucast (GetCarry s) :: u32;
          result = a + carry;
          s = set_gpr (inst_RD inst) result s;
          s = set_carry (Helper_Carry a carry) s;
          s = overflow_if inst (HasAddOverflowed a 0 result) s
      in record_if inst result s)"

section \<open>Multiplication and division\<close>

text \<open>\<open>a / b\<close> of two \<open>s32\<close> rounds towards zero.\<close>

definition divwx :: "u32 \<Rightarrow> ppc \<Rightarrow> ppc" where
  "divwx inst s =
     (let a = gpr s (inst_RA inst);
          b = gpr s (inst_RB inst);
          overflow = (b = 0 \<or> (a = 0x80000000 \<and> sint b = - 1));
          s = set_gpr (inst_RD inst)
                (if overflow then (if a AND 0x80000000 \<noteq> 0 \<and> b = 0 then 0xFFFFFFFF else 0)
                 else word_of_int (sint a sdiv sint b)) s;
          s = overflow_if inst overflow s
      in record_if inst (gpr s (inst_RD inst)) s)"

definition divwux :: "u32 \<Rightarrow> ppc \<Rightarrow> ppc" where
  "divwux inst s =
     (let a = gpr s (inst_RA inst);
          b = gpr s (inst_RB inst);
          overflow = (b = 0);
          s = set_gpr (inst_RD inst) (if overflow then 0 else a div b) s;
          s = overflow_if inst overflow s
      in record_if inst (gpr s (inst_RD inst)) s)"

definition mulhwx :: "u32 \<Rightarrow> ppc \<Rightarrow> ppc" where
  "mulhwx inst s =
     (let a = gpr s (inst_RA inst);
          b = gpr s (inst_RB inst);
          d = ucast (drop_bit 32 (scast a * scast b :: u64)) :: u32;
          s = set_gpr (inst_RD inst) d s
      in record_if inst (gpr s (inst_RD inst)) s)"

definition mulhwux :: "u32 \<Rightarrow> ppc \<Rightarrow> ppc" where
  "mulhwux inst s =
     (let a = gpr s (inst_RA inst);
          b = gpr s (inst_RB inst);
          d = ucast (drop_bit 32 (ucast a * ucast b :: u64)) :: u32;
          s = set_gpr (inst_RD inst) d s
      in record_if inst (gpr s (inst_RD inst)) s)"

definition mullwx :: "u32 \<Rightarrow> ppc \<Rightarrow> ppc" where
  "mullwx inst s =
     (let a = scast (gpr s (inst_RA inst)) :: s64;
          b = scast (gpr s (inst_RB inst)) :: s64;
          result = a * b;
          s = set_gpr (inst_RD inst) (ucast result) s;
          s = overflow_if inst (sint result < - 0x80000000 \<or> sint result > 0x7FFFFFFF) s
      in record_if inst (gpr s (inst_RD inst)) s)"

definition negx :: "u32 \<Rightarrow> ppc \<Rightarrow> ppc" where
  "negx inst s =
     (let a = gpr s (inst_RA inst);
          s = set_gpr (inst_RD inst) (NOT a + 1) s;
          s = overflow_if inst (a = 0x80000000) s
      in record_if inst (gpr s (inst_RD inst)) s)"

end
