(* ===== verification/PPC_Sums.thy ===== *)
theory PPC_Sums
  imports PPC_Integer
begin

text \<open>
  The additions and subtractions of the PowerPC as sums of integers: the result register, the
  carry and the overflow of each, and the condition register field they record.
\<close>

section \<open>Carry and overflow\<close>

lemma uint_32_range: "0 \<le> uint (a :: u32)" "uint a < 2 ^ 32"
  using uint_lt2p [of a] by simp_all

lemma sint_32_range: "- (2 ^ 31) \<le> sint (a :: u32)" "sint a < 2 ^ 31"
  using sint_range_size [of a] by (simp_all add: word_size)

lemma uint_not: "uint (NOT (a :: u32)) = 2 ^ 32 - 1 - uint a"
  using uint_32_range [of a]
  by (simp add: unsigned_not_eq take_bit_not_eq_mask_diff mask_eq_exp_minus_1 take_bit_int_eq_self)

lemma Helper_Carry_iff: "Helper_Carry a b \<longleftrightarrow> uint a + uint b \<ge> 2 ^ 32"
  unfolding Helper_Carry_def word_less_def uint_not by auto

lemma uint_add_32: "uint ((a :: u32) + b) = (if uint a + uint b < 2 ^ 32 then uint a + uint b
    else uint a + uint b - 2 ^ 32)"
  using uint_32_range [of a] uint_32_range [of b] mod_signed [of "2 ^ 32" "uint a + uint b - 2 ^ 32"]
  by (auto simp: uint_word_ariths)

lemma sint_uint_32: "sint (a :: u32) = (if uint a < 2 ^ 31 then uint a else uint a - 2 ^ 32)"
  using uint_sint_eq [of a] sint_32_range [of a] by (auto split: if_splits)

lemma wrap_32:
  assumes "- (2 ^ 31) - 2 ^ 32 \<le> t" and "t < 2 ^ 31 + 2 ^ 32"
  shows "signed_take_bit 31 t =
    (if t < - (2 ^ 31) then t + 2 ^ 32 else if t < 2 ^ 31 then t else t - 2 ^ 32 :: int)"
proof -
  have "signed_take_bit 31 t = (t + 2 ^ 31) mod 2 ^ 32 - 2 ^ 31"
    by (simp add: signed_take_bit_eq_take_bit_shift take_bit_eq_mod)
  moreover have "(t + 2 ^ 31) mod 2 ^ 32 = (t + 2 ^ 31 + 2 ^ 32) mod 2 ^ 32"
    "(t + 2 ^ 31) mod 2 ^ 32 = (t + 2 ^ 31 - 2 ^ 32) mod 2 ^ 32"
    by (simp_all only: mod_add_self2 minus_mod_self2)
  moreover have "(t + 2 ^ 31 + 2 ^ 32) mod 2 ^ 32 = t + 2 ^ 31 + 2 ^ 32" if "t < - (2 ^ 31)"
    using that assms by (intro mod_pos_pos_trivial) simp_all
  moreover have "(t + 2 ^ 31 - 2 ^ 32) mod 2 ^ 32 = t + 2 ^ 31 - 2 ^ 32" if "2 ^ 31 \<le> t"
    using that assms by (intro mod_pos_pos_trivial) simp_all
  moreover have "(t + 2 ^ 31) mod 2 ^ 32 = t + 2 ^ 31" if "- (2 ^ 31) \<le> t" "t < 2 ^ 31"
    using that by (intro mod_pos_pos_trivial) simp_all
  ultimately show ?thesis
    by auto
qed

lemma drop_bit_31: "drop_bit 31 (w :: u32) \<noteq> 0 \<longleftrightarrow> sint w < 0"
  using drop_bit_eq_zero_iff_not_bit_last [of w] sint_neg_bit [of w] by simp

lemma sint_bitwise_32:
  "sint ((a :: u32) XOR b) < 0 \<longleftrightarrow> (sint a < 0) \<noteq> (sint b < 0)"
  "sint (a AND b) < 0 \<longleftrightarrow> sint a < 0 \<and> sint b < 0"
  by (simp_all add: sint_neg_bit bit_xor_iff bit_and_iff)

lemma sint_sum_32:
  assumes "c = 0 \<or> c = 1"
  shows "sint (a + b + word_of_int c :: u32) = signed_take_bit 31 (sint a + sint b + c)"
proof -
  have "a + b + word_of_int c = word_of_int (sint a + sint b + c)"
    by simp
  then show ?thesis
    by (simp only: sint_sbintrunc')  simp
qed

text \<open>The sum of two signed numbers and a carry leaves the range when the signs say so.\<close>

lemma HasAddOverflowed_iff:
  assumes "c = 0 \<or> c = 1"
  shows "HasAddOverflowed a b (a + b + word_of_int c) \<longleftrightarrow>
     \<not> (- (2 ^ 31) \<le> sint a + sint b + c \<and> sint a + sint b + c < 2 ^ 31)"
proof -
  let ?t = "sint a + sint b + c"
  have "sint (a + b + word_of_int c) =
      (if ?t < - (2 ^ 31) then ?t + 2 ^ 32 else if ?t < 2 ^ 31 then ?t else ?t - 2 ^ 32)"
    unfolding sint_sum_32 [OF assms]
    using assms sint_32_range [of a] sint_32_range [of b] by (intro wrap_32) auto
  then show ?thesis
    using assms sint_32_range [of a] sint_32_range [of b]
    unfolding HasAddOverflowed_def drop_bit_31 sint_bitwise_32 by auto
qed

section \<open>The instructions\<close>

datatype sum_op = Addx | Addcx | Addex | Addmex | Addzex | Subfx | Subfcx | Subfex | Subfmex | Subfzex

fun sum_fn :: "sum_op \<Rightarrow> u32 \<Rightarrow> ppc \<Rightarrow> ppc" where
  "sum_fn Addx = addx" | "sum_fn Addcx = addcx" | "sum_fn Addex = addex"
| "sum_fn Addmex = addmex" | "sum_fn Addzex = addzex" | "sum_fn Subfx = subfx"
| "sum_fn Subfcx = subfcx" | "sum_fn Subfex = subfex" | "sum_fn Subfmex = subfmex"
| "sum_fn Subfzex = subfzex"

text \<open>The two words and the carry each adds up, as the architecture defines it.\<close>

fun sum_terms :: "sum_op \<Rightarrow> u32 \<Rightarrow> u32 \<Rightarrow> int \<Rightarrow> u32 \<times> u32 \<times> int" where
  "sum_terms Addx a b ca = (a, b, 0)" | "sum_terms Addcx a b ca = (a, b, 0)"
| "sum_terms Addex a b ca = (a, b, ca)" | "sum_terms Addmex a b ca = (a, 0xFFFFFFFF, ca)"
| "sum_terms Addzex a b ca = (a, 0, ca)" | "sum_terms Subfx a b ca = (NOT a, b, 1)"
| "sum_terms Subfcx a b ca = (NOT a, b, 1)" | "sum_terms Subfex a b ca = (NOT a, b, ca)"
| "sum_terms Subfmex a b ca = (NOT a, 0xFFFFFFFF, ca)" | "sum_terms Subfzex a b ca = (NOT a, 0, ca)"

definition carrying :: "sum_op \<Rightarrow> bool" where
  "carrying f \<longleftrightarrow> f \<noteq> Addx \<and> f \<noteq> Subfx"

text \<open>The state after a sum of the words \<open>x\<close> and \<open>y\<close> and the carry \<open>c\<close>.\<close>

definition sum_post :: "bool \<Rightarrow> u32 \<Rightarrow> u32 \<times> u32 \<times> int \<Rightarrow> ppc \<Rightarrow> ppc" where
  "sum_post carries inst = (\<lambda>(x, y, c) s.
     let r = word_of_int (uint x + uint y + c);
         s = set_gpr (inst_RD inst) r s;
         s = (if carries then s\<lparr>xer_ca := of_bool (uint x + uint y + c \<ge> 2 ^ 32)\<rparr> else s);
         s = overflow_if inst (sint x + sint y + c < - (2 ^ 31) \<or> 2 ^ 31 \<le> sint x + sint y + c) s
     in record_if inst r s)"

lemmas sum_defs = addx_def addcx_def addex_def addmex_def addzex_def subfx_def subfcx_def subfex_def
  subfmex_def subfzex_def

lemma carry_three:
  assumes "c = 0 \<or> c = 1"
  shows "Helper_Carry a b \<or> c \<noteq> 0 \<and> Helper_Carry (a + b) (word_of_int c) \<longleftrightarrow> 2 ^ 32 \<le> uint a + uint b + c"
  using assms uint_32_range [of a] uint_32_range [of b]
  by (auto simp: Helper_Carry_iff uint_add_32)

lemma Helper_Carry_0 [simp]: "\<not> Helper_Carry a 0"
  using uint_32_range [of a] by (simp add: Helper_Carry_iff)

lemma carry_sub_from:
  "NOT a = 0xFFFFFFFF \<or> Helper_Carry b (NOT a + 1) \<longleftrightarrow> 2 ^ 32 \<le> uint (NOT a) + uint b + 1"
  using uint_32_range [of "NOT a"] uint_32_range [of b] word_uint_eq_iff [of "NOT a" "0xFFFFFFFF"]
  by (auto simp: Helper_Carry_iff uint_add_32)

lemma sum_shape:
  assumes "c = 0 \<or> c = 1" and "r = a + b + word_of_int c"
    and "cy \<longleftrightarrow> 2 ^ 32 \<le> uint a + uint b + c"
  shows "record_if inst r (overflow_if inst (HasAddOverflowed a b r) (set_carry cy (set_gpr (inst_RD inst) r s)))
    = sum_post True inst (a, b, c) s"
  using HasAddOverflowed_iff [OF assms(1), of a b] assms(2,3)
  by (simp add: sum_post_def Let_def set_carry_def SetCarry_def not_le not_less disj_commute)

lemma sum_shape_no_carry:
  assumes "c = 0 \<or> c = 1" and "r = a + b + word_of_int c"
  shows "record_if inst r (overflow_if inst (HasAddOverflowed a b r) (set_gpr (inst_RD inst) r s))
    = sum_post False inst (a, b, c) s"
  using HasAddOverflowed_iff [OF assms(1), of a b] assms(2)
  by (simp add: sum_post_def Let_def not_le not_less disj_commute)

lemma carry_word:
  assumes "xer_ca s = 0 \<or> xer_ca s = 1"
  shows "ucast (GetCarry s) = (word_of_int (uint (xer_ca s)) :: u32)"
    and "uint (xer_ca s) = 0 \<or> uint (xer_ca s) = 1"
  using assms by (auto simp: GetCarry_def)

text \<open>The carry of each instruction that sets it.\<close>

lemma carry_in:
  assumes "c = 0 \<or> c = 1"
  shows "Helper_Carry a b \<or> Helper_Carry (a + b) (word_of_int c) \<longleftrightarrow> 2 ^ 32 \<le> uint a + uint b + c"
    and "Helper_Carry a (word_of_int c) \<longleftrightarrow> 2 ^ 32 \<le> uint a + uint (0 :: u32) + c"
  using assms carry_three [OF assms, of a b] uint_32_range [of "a + b"] by (auto simp: Helper_Carry_iff)

lemma carry_conditional:
  assumes "c = 0 \<or> c = 1"
  shows "Helper_Carry a b \<or> ((word_of_int c :: u32) \<noteq> 0 \<and> Helper_Carry (a + b) (word_of_int c))
      \<longleftrightarrow> 2 ^ 32 \<le> uint a + uint b + c"
  using carry_in(1) [OF assms, of a b] assms by auto

lemma sums_by_carry:
  assumes c: "c = 0 \<or> c = 1" and "ucast (GetCarry s) = (word_of_int c :: u32)"
    and "f = Addmex \<or> f = Subfmex \<Longrightarrow> c = 0"
  shows "sum_fn f inst s =
     sum_post (carrying f) inst (sum_terms f (gpr s (inst_RA inst)) (gpr s (inst_RB inst)) c) s"
proof -
  note shape = sum_shape [where inst = inst and s = s]
  note defs = sum_defs Let_def assms(2) carrying_def
  show ?thesis
  proof (cases f)
    case Addx
    then show ?thesis
      by (simp add: defs sum_shape_no_carry)
  next
    case Addcx
    then show ?thesis
      by (simp add: defs, intro shape) (simp_all add: Helper_Carry_iff)
  next
    case Addex
    then show ?thesis
      using carry_conditional [OF c] by (simp add: defs, intro shape [OF c]) auto
  next
    case Addmex
    with assms(3) have "c = 0"
      by simp
    with Addmex show ?thesis
      by (simp add: defs, intro shape) (simp_all add: Helper_Carry_iff unsigned_minus_1_eq_mask mask_eq_exp_minus_1)
  next
    case Addzex
    then show ?thesis
      using carry_in(2) [OF c] shape [OF c, of _ _ 0] by (simp add: defs)
  next
    case Subfx
    then show ?thesis
      by (simp add: defs sum_shape_no_carry)
  next
    case Subfcx
    then show ?thesis
      using carry_sub_from by (simp add: defs, intro shape) auto
  next
    case Subfex
    then show ?thesis
      using carry_in(1) [OF c] by (simp add: defs, intro shape [OF c]) auto
  next
    case Subfmex
    with assms(3) have "c = 0"
      by simp
    with Subfmex show ?thesis
      by (simp add: defs, intro shape) (simp_all add: Helper_Carry_iff unsigned_minus_1_eq_mask mask_eq_exp_minus_1)
  next
    case Subfzex
    then show ?thesis
      using carry_in(2) [OF c] shape [OF c, of _ _ 0] by (simp add: defs)
  qed
qed

text \<open>C16: every addition and subtraction stores the sum of its words, with the carry and the
  overflow of that sum; the two that add minus one do so when the carry coming in is clear.\<close>

theorem sums_correct:
  assumes "xer_ca s = 0 \<or> xer_ca s = 1" and "f = Addmex \<or> f = Subfmex \<Longrightarrow> xer_ca s = 0"
  shows "sum_fn f inst s =
     sum_post (carrying f) inst (sum_terms f (gpr s (inst_RA inst)) (gpr s (inst_RB inst)) (uint (xer_ca s))) s"
  using sums_by_carry [OF carry_word(2,1) [OF assms(1)]] assms by auto

theorem sums_correct_witness:
  "gpr (sum_fn Subfex 0x7C642910 (ppc_zero\<lparr>xer_ca := 1, gpr := (\<lambda>r. if r = 4 then 5 else 3)\<rparr>)) 3 = 0xFFFFFFFE
   \<and> xer_ca (sum_fn Subfex 0x7C642910 (ppc_zero\<lparr>xer_ca := 1, gpr := (\<lambda>r. if r = 4 then 5 else 3)\<rparr>)) = 0"
  using sums_correct [of "ppc_zero\<lparr>xer_ca := 1, gpr := (\<lambda>r. if r = 4 then 5 else 3)\<rparr>" Subfex "0x7C642910"]
  by (simp add: sum_post_def carrying_def overflow_if_def record_if_def inst_OE_def inst_Rc_def
      inst_RA_def inst_RB_def inst_RD_def ifield_def take_bit_eq_mask mask_eq_exp_minus_1)

text \<open>Adding minus one with a carry coming in always carries out; the code clears the carry.\<close>

theorem minus_one_carry_lost:
  "xer_ca s = 1 \<Longrightarrow> xer_ca (addmex inst s) = 0 \<and> xer_ca (subfmex inst s) = 0
     \<and> 2 ^ 32 \<le> uint (gpr s (inst_RA inst)) + uint (0xFFFFFFFF :: u32) + uint (xer_ca s)"
  by (simp add: addmex_def subfmex_def Let_def GetCarry_def set_carry_def SetCarry_def record_if_def
      overflow_if_def Helper_UpdateCR0_def SetXER_OV_def SetXER_SO_def)

lemma uint_sub_32: "uint ((a :: u32) - b) = (if uint b \<le> uint a then uint a - uint b
    else uint a - uint b + 2 ^ 32)"
proof -
  have "uint (a - b) = (uint a - uint b) mod 2 ^ 32"
    by (simp add: uint_word_ariths)
  also have "\<dots> = (if uint a - uint b < 0 then uint a - uint b + 2 ^ 32 else uint a - uint b)"
    using uint_32_range [of a] uint_32_range [of b] by (intro mod_signed) linarith+
  finally show ?thesis
    by simp
qed

lemma subtract_carry: "x = 0 \<or> Helper_Carry (- x) imm \<longleftrightarrow> uint x \<le> uint imm"
  using uint_sub_32 [of 0 x] uint_32_range [of x] uint_32_range [of imm]
  by (auto simp: Helper_Carry_iff word_uint_eq_iff)

text \<open>C36: \<open>subfic\<close> sets the carry of the immediate minus the old register, even though it computes
  it after the register may have been overwritten.\<close>

theorem subfic_correct:
  "subfic inst s = s\<lparr>gpr := (gpr s)(inst_RD inst := inst_SIMM_16 inst - gpr s (inst_RA inst)),
     xer_ca := of_bool (uint (gpr s (inst_RA inst)) \<le> uint (inst_SIMM_16 inst))\<rparr>"
proof -
  have "uint (inst_SIMM_16 inst - a) \<le> uint (inst_SIMM_16 inst) \<longleftrightarrow> uint a \<le> uint (inst_SIMM_16 inst)" for a
    using uint_32_range [of a] by (auto simp: uint_sub_32)
  then show ?thesis
    using subtract_carry [of _ "inst_SIMM_16 inst"]
    by (auto simp: subfic_def Let_def set_carry_def SetCarry_def)
qed

lemma record_frame [simp]:
  "gpr (record_if inst r s) = gpr s" "xer_ca (record_if inst r s) = xer_ca s"
  "gpr (overflow_if inst ov s) = gpr s" "xer_ca (overflow_if inst ov s) = xer_ca s"
  by (simp_all add: record_if_def overflow_if_def Helper_UpdateCR0_def SetXER_OV_def SetXER_SO_def Let_def)

lemma sum_post_frame:
  "gpr (sum_post cy inst (x, y, c) s) = (gpr s)(inst_RD inst := word_of_int (uint x + uint y + c))"
  "xer_ca (sum_post True inst (x, y, c) s) = of_bool (2 ^ 32 \<le> uint x + uint y + c)"
  by (simp_all add: sum_post_def Let_def)

lemma join_words:
  assumes "0 \<le> l" and "l < 2 ^ 32"
  shows "(h mod 2 ^ 32) * 2 ^ 32 + l = (h * 2 ^ 32 + l :: int) mod 2 ^ 64"
proof -
  have "(h * 2 ^ 32 + l) mod (2 ^ 32 * 2 ^ 32)
      = 2 ^ 32 * ((h * 2 ^ 32 + l) div 2 ^ 32 mod 2 ^ 32) + (h * 2 ^ 32 + l) mod 2 ^ 32"
    by (rule zmod_zmult2_eq) simp
  moreover have "(h * 2 ^ 32 + l) div 2 ^ 32 = h" "(h * 2 ^ 32 + l) mod 2 ^ 32 = l"
    using assms by simp_all
  ultimately show ?thesis
    by simp
qed

text \<open>C37: a 64-bit sum of two register pairs takes one \<open>addc\<close> and one \<open>adde\<close>.\<close>

theorem long_addition:
  assumes "xer_ca s = 0 \<or> xer_ca s = 1"
    and "inst_RD lo \<noteq> inst_RA hi" and "inst_RD lo \<noteq> inst_RB hi" and "inst_RD lo \<noteq> inst_RD hi"
  shows "uint (gpr (addex hi (addcx lo s)) (inst_RD hi)) * 2 ^ 32
      + uint (gpr (addex hi (addcx lo s)) (inst_RD lo)) =
     (uint (gpr s (inst_RA hi)) * 2 ^ 32 + uint (gpr s (inst_RA lo))
      + (uint (gpr s (inst_RB hi)) * 2 ^ 32 + uint (gpr s (inst_RB lo)))) mod 2 ^ 64"
proof -
  let ?t = "addcx lo s" and ?x = "uint (gpr s (inst_RA lo))" and ?y = "uint (gpr s (inst_RB lo))"
    and ?u = "uint (gpr s (inst_RA hi))" and ?v = "uint (gpr s (inst_RB hi))"
  define c :: int where "c = of_bool (2 ^ 32 \<le> ?x + ?y)"
  have t: "gpr ?t = (gpr s)(inst_RD lo := word_of_int (?x + ?y))" "xer_ca ?t = word_of_int c"
    using sums_by_carry [of "uint (xer_ca s)" s Addcx lo] carry_word [OF assms(1)]
    by (auto simp: sum_post_frame carrying_def c_def)
  have u: "gpr (addex hi ?t) = (gpr ?t)(inst_RD hi := word_of_int (?u + ?v + c))"
    using sums_by_carry [of c ?t Addex hi] t assms(2,3)
    by (auto simp: sum_post_frame carrying_def c_def GetCarry_def)
  have lo: "uint (word_of_int (?x + ?y) :: u32) = ?x + ?y - c * 2 ^ 32"
    using uint_add_32 [of "gpr s (inst_RA lo)" "gpr s (inst_RB lo)"] by (simp add: c_def)
  have hi: "uint (word_of_int (?u + ?v + c) :: u32) = (?u + ?v + c) mod 2 ^ 32"
    unfolding uint_word_of_int by simp
  have "uint (gpr (addex hi ?t) (inst_RD hi)) * 2 ^ 32 + uint (gpr (addex hi ?t) (inst_RD lo))
      = ((?u + ?v + c) mod 2 ^ 32) * 2 ^ 32 + (?x + ?y - c * 2 ^ 32)"
    unfolding u t(1) lo [symmetric] hi [symmetric] using assms(4) by simp
  also have "\<dots> = ((?u + ?v + c) * 2 ^ 32 + (?x + ?y - c * 2 ^ 32)) mod 2 ^ 64"
    unfolding lo [symmetric] by (rule join_words) (rule uint_32_range)+
  finally show ?thesis
    by (simp add: algebra_simps)
qed

theorem long_addition_witness:
  "uint (gpr (addex 0x7C621914 (addcx 0x7C842014 (ppc_zero\<lparr>gpr := \<lambda>_. 0x80000000\<rparr>))) 3) * 2 ^ 32
     + uint (gpr (addex 0x7C621914 (addcx 0x7C842014 (ppc_zero\<lparr>gpr := \<lambda>_. 0x80000000\<rparr>))) 4)
   = (0x8000000080000000 + 0x8000000080000000) mod 2 ^ 64"
proof -
  have fields: "inst_RD 0x7C621914 = 3" "inst_RA 0x7C621914 = 2" "inst_RB 0x7C621914 = 3"
    "inst_RD 0x7C842014 = 4" "inst_RA 0x7C842014 = 4" "inst_RB 0x7C842014 = 4"
    by (simp_all add: inst_RA_def inst_RB_def inst_RD_def ifield_def take_bit_eq_mask mask_eq_exp_minus_1)
  show ?thesis
    using long_addition [of "ppc_zero\<lparr>gpr := \<lambda>_. 0x80000000\<rparr>" "0x7C842014" "0x7C621914"]
    by (simp add: fields ppc_zero_def)
qed

end
