(* ===== verification/PPC_Memory.thy ===== *)
theory PPC_Memory
  imports PPC_Exceptions
begin

text \<open>
  Emulated memory as devices see it (\<open>HW/Memmap.cpp\<close>) and the instruction cache
  (\<open>PowerPC/PPCCache.cpp\<close>).  A copy of \<open>n\<close> bytes between an array and an integer followed by a byte
  swap, on a little endian host, is \<open>read_be\<close> or \<open>write_be\<close>.
\<close>

section \<open>Big endian access to a byte array\<close>

definition read_be :: "nat \<Rightarrow> u8 array \<Rightarrow> nat \<Rightarrow> u64" where
  "read_be n m off = foldl (\<lambda>v i. push_bit 8 v OR ucast (m (off + i))) 0 [0..<n]"

definition write_be :: "nat \<Rightarrow> u64 \<Rightarrow> nat \<Rightarrow> u8 array \<Rightarrow> u8 array" where
  "write_be n v off m =
     (\<lambda>i. if off \<le> i \<and> i < off + n then ucast (drop_bit (8 * (off + n - 1 - i)) v) else m i)"

section \<open>Memory\<close>

definition REALRAM_SIZE :: nat where "REALRAM_SIZE = 0x02000000"
definition RAM_SIZE :: nat where "RAM_SIZE = 0x02000000"
definition FAKEVMEM_SIZE :: nat where "FAKEVMEM_SIZE = 0x02000000"
definition L1_CACHE_SIZE :: nat where "L1_CACHE_SIZE = 0x00040000"
definition EXRAM_SIZE :: nat where "EXRAM_SIZE = 0x04000000"

lemmas size_defs = REALRAM_SIZE_def RAM_SIZE_def FAKEVMEM_SIZE_def L1_CACHE_SIZE_def EXRAM_SIZE_def

text \<open>The sizes of the rows of \<open>physical_regions\<close>.\<close>

fun bank_size :: "bank \<Rightarrow> nat" where
  "bank_size Ram = RAM_SIZE"
| "bank_size L1Cache = L1_CACHE_SIZE"
| "bank_size FakeVMEM = FAKEVMEM_SIZE"
| "bank_size Exram = EXRAM_SIZE"

definition set_ram :: "bank \<Rightarrow> u8 array \<Rightarrow> ppc \<Rightarrow> ppc" where
  "set_ram b m s = s\<lparr>ram := (ram s)(b := m)\<rparr>"

text \<open>An access through a pointer into a memory; it must stay inside.\<close>

definition load_bank :: "nat \<Rightarrow> bank \<Rightarrow> nat \<Rightarrow> ppc \<Rightarrow> ppc_fault + u64" where
  "load_bank n b off s =
     (if off + n \<le> bank_size b then Inr (read_be n (ram s b) off) else Inl OutOfBounds)"

definition store_bank :: "nat \<Rightarrow> u64 \<Rightarrow> bank \<Rightarrow> nat \<Rightarrow> ppc \<Rightarrow> ppc_res" where
  "store_bank n v b off s =
     (if off + n \<le> bank_size b then Inr (set_ram b (write_be n v off (ram s b)) s) else Inl OutOfBounds)"

definition GetPointer :: "u32 \<Rightarrow> ppc \<Rightarrow> (bank \<times> nat) option" where
  "GetPointer address' s =
     (let address = address' AND 0x3FFFFFFF
      in if unat address < REALRAM_SIZE then Some (Ram, unat address)
         else if has_exram s \<and> drop_bit 28 address = 0x1 \<and> unat (address AND 0x0fffffff) < EXRAM_SIZE
         then Some (Exram, unat (address AND EXRAM_MASK))
         else None)"

definition GetPointerForRange :: "u32 \<Rightarrow> nat \<Rightarrow> ppc \<Rightarrow> (bank \<times> nat) option" where
  "GetPointerForRange address sz s =
     (if sz \<ge> EXRAM_SIZE then None
      else if GetPointer address s = None \<or> GetPointer (address + of_nat sz - 1) s = None then None
      else GetPointer address s)"

definition Memory_Read_U32 :: "u32 \<Rightarrow> ppc \<Rightarrow> ppc_fault + u32" where
  "Memory_Read_U32 address s =
     (case GetPointer address s of
        None \<Rightarrow> Inl Unmapped
      | Some (b, off) \<Rightarrow> bind_ppc (load_bank 4 b off s) (\<lambda>v. Inr (ucast v)))"

section \<open>The instruction cache\<close>

definition s_plru_mask :: "u32 list" where "s_plru_mask = [11, 11, 19, 19, 37, 37, 69, 69]"
definition s_plru_value :: "u32 list" where "s_plru_value = [11, 3, 17, 1, 36, 4, 64, 0]"

definition ICACHE_EXRAM_BIT :: u32 where "ICACHE_EXRAM_BIT = 0x10000000"
definition ICACHE_VMEM_BIT :: u32 where "ICACHE_VMEM_BIT = 0x20000000"

definition HID0_ICFI :: u32 where "HID0_ICFI = 0x800"
definition HID0_ILOCK :: u32 where "HID0_ILOCK = 0x2000"
definition HID0_ICE :: u32 where "HID0_ICE = 0x8000"

definition SPR_HID0 :: nat where "SPR_HID0 = 1008"

text \<open>The two tables of the constructor: the first way that is not valid, and the way the tree bits name.\<close>

fun first_free_way :: "nat \<Rightarrow> nat \<Rightarrow> u32 \<Rightarrow> nat" where
  "first_free_way 0 w m = w"
| "first_free_way (Suc n) w m =
     (if m AND push_bit w 1 \<noteq> 0 then first_free_way n (w + 1) m else w)"

definition plru_way :: "u32 \<Rightarrow> nat" where
  "plru_way m =
     (let b = (\<lambda>i. m AND push_bit i 1 \<noteq> 0)
      in if b 0 then (if b 2 then (if b 6 then 7 else 6) else if b 5 then 5 else 4)
         else if b 1 then (if b 4 then 3 else 2) else if b 3 then 1 else 0)"

definition new_icache :: "InstructionCache \<Rightarrow> InstructionCache" where
  "new_icache c = c\<lparr>way_from_valid := \<lambda>m. first_free_way 8 0 (of_nat m),
     way_from_plru := \<lambda>m. plru_way (of_nat m)\<rparr>"

definition icache_Reset :: "InstructionCache \<Rightarrow> InstructionCache" where
  "icache_Reset c = c\<lparr>ic_valid := \<lambda>_. 0, ic_plru := \<lambda>_. 0, lookup_table := \<lambda>_. 0xff,
     lookup_table_ex := \<lambda>_. 0xff, lookup_table_vmem := \<lambda>_. 0xff\<rparr>"

definition icache_Init :: "InstructionCache \<Rightarrow> InstructionCache" where
  "icache_Init c = icache_Reset (c\<lparr>ic_data := \<lambda>_ _ _. 0, ic_tags := \<lambda>_ _. 0\<rparr>)"

text \<open>The entry of a line in the lookup table its tag names is written (\<open>0xff\<close> clears it).\<close>

definition set_lookup_of_tag :: "u32 \<Rightarrow> u32 \<Rightarrow> u8 \<Rightarrow> InstructionCache \<Rightarrow> InstructionCache" where
  "set_lookup_of_tag tag ix v c =
     (if tag AND drop_bit 12 ICACHE_VMEM_BIT \<noteq> 0
      then c\<lparr>lookup_table_vmem := (lookup_table_vmem c)(unat ((push_bit 7 tag OR ix) AND 0xfffff) := v)\<rparr>
      else if tag AND drop_bit 12 ICACHE_EXRAM_BIT \<noteq> 0
      then c\<lparr>lookup_table_ex := (lookup_table_ex c)(unat ((push_bit 7 tag OR ix) AND 0x1fffff) := v)\<rparr>
      else c\<lparr>lookup_table := (lookup_table c)(unat ((push_bit 7 tag OR ix) AND 0xfffff) := v)\<rparr>)"

definition set_lookup_of_addr :: "u32 \<Rightarrow> u8 \<Rightarrow> InstructionCache \<Rightarrow> InstructionCache" where
  "set_lookup_of_addr addr v c =
     (if addr AND ICACHE_VMEM_BIT \<noteq> 0
      then c\<lparr>lookup_table_vmem := (lookup_table_vmem c)(unat (drop_bit 5 addr AND 0xfffff) := v)\<rparr>
      else if addr AND ICACHE_EXRAM_BIT \<noteq> 0
      then c\<lparr>lookup_table_ex := (lookup_table_ex c)(unat (drop_bit 5 addr AND 0x1fffff) := v)\<rparr>
      else c\<lparr>lookup_table := (lookup_table c)(unat (drop_bit 5 addr AND 0xfffff) := v)\<rparr>)"

definition lookup_of_addr :: "u32 \<Rightarrow> InstructionCache \<Rightarrow> u8" where
  "lookup_of_addr addr c =
     (if addr AND ICACHE_VMEM_BIT \<noteq> 0 then lookup_table_vmem c (unat (drop_bit 5 addr AND 0xfffff))
      else if addr AND ICACHE_EXRAM_BIT \<noteq> 0 then lookup_table_ex c (unat (drop_bit 5 addr AND 0x1fffff))
      else lookup_table c (unat (drop_bit 5 addr AND 0xfffff)))"

text \<open>The loop of \<open>Invalidate\<close> over the ways of a set, \<open>n\<close> of them left.\<close>

fun invalidate_ways :: "nat \<Rightarrow> u32 \<Rightarrow> InstructionCache \<Rightarrow> InstructionCache" where
  "invalidate_ways 0 ix c = c"
| "invalidate_ways (Suc n) ix c =
     (let i = 8 - Suc n
      in invalidate_ways n ix
           (if ic_valid c (unat ix) AND push_bit i 1 \<noteq> 0
            then set_lookup_of_tag (ic_tags c (unat ix) i) ix 0xff c else c))"

definition icache_Invalidate :: "u32 \<Rightarrow> ppc \<Rightarrow> ppc" where
  "icache_Invalidate addr s =
     (if spr s SPR_HID0 AND HID0_ICE = 0 then s
      else (let ix = drop_bit 5 addr AND 0x7f;
                c = invalidate_ways 8 ix (iCache s)
            in s\<lparr>iCache := c\<lparr>ic_valid := (ic_valid c)(unat ix := 0)\<rparr>\<rparr>))"

text \<open>The copy of a block into a line: \<open>CopyFromEmu\<close> copies nothing when the range is not mapped.\<close>

definition fill_line :: "u32 \<Rightarrow> nat \<Rightarrow> nat \<Rightarrow> ppc \<Rightarrow> ppc_fault + InstructionCache" where
  "fill_line addr ix t s =
     (case GetPointerForRange (addr AND NOT 0x1f) 32 s of
        None \<Rightarrow> Inr (iCache s)
      | Some (b, off) \<Rightarrow>
          if off + 32 \<le> bank_size b
          then Inr ((iCache s)\<lparr>ic_data := (ic_data (iCache s))(ix := (ic_data (iCache s) ix)(t :=
                      \<lambda>k. swap32 (ucast (read_be 4 (ram s b) (off + 4 * k)))))\<rparr>)
          else Inl OutOfBounds)"

text \<open>The block under \<open>if (t == 0xff)\<close> for a cache that is not locked.\<close>

definition load_line :: "u32 \<Rightarrow> ppc \<Rightarrow> ppc_fault + nat \<times> InstructionCache" where
  "load_line addr s =
     (let ix = drop_bit 5 addr AND 0x7f;
          c = iCache s;
          t = (if ic_valid c (unat ix) \<noteq> 0xff then way_from_valid c (unat (ic_valid c (unat ix)))
               else way_from_plru c (unat (ic_plru c (unat ix))))
      in bind_ppc (fill_line addr (unat ix) t s)
        (\<lambda>c. let c = (if ic_valid c (unat ix) AND push_bit t 1 \<noteq> 0
                      then set_lookup_of_tag (ic_tags c (unat ix) t) ix 0xff c else c);
                 c = set_lookup_of_addr addr (of_nat t) c;
                 c = c\<lparr>ic_tags := (ic_tags c)(unat ix := (ic_tags c (unat ix))(t := drop_bit 12 addr))\<rparr>
             in Inr (t, c\<lparr>ic_valid := (ic_valid c)(unat ix := ic_valid c (unat ix) OR push_bit t 1)\<rparr>)))"

definition touch_line :: "u32 \<Rightarrow> nat \<Rightarrow> InstructionCache \<Rightarrow> ppc \<Rightarrow> u32 ppc_val" where
  "touch_line addr t c s =
     (let ix = unat (drop_bit 5 addr AND 0x7f);
          c = c\<lparr>ic_plru := (ic_plru c)(ix := (ic_plru c ix AND NOT (s_plru_mask ! t)) OR s_plru_value ! t)\<rparr>
      in Inr (swap32 (ic_data c ix t (unat (drop_bit 2 addr AND 7))), s\<lparr>iCache := c\<rparr>))"

definition ReadInstruction :: "u32 \<Rightarrow> ppc \<Rightarrow> u32 ppc_val" where
  "ReadInstruction addr s =
     (if spr s SPR_HID0 AND HID0_ICE = 0 then bind_ppc (Memory_Read_U32 addr s) (\<lambda>v. Inr (v, s))
      else (let t = lookup_of_addr addr (iCache s)
            in if t = 0xff then
                 (if spr s SPR_HID0 AND HID0_ILOCK \<noteq> 0
                  then bind_ppc (Memory_Read_U32 addr s) (\<lambda>v. Inr (v, s))
                  else bind_ppc (load_line addr s) (\<lambda>(t, c). touch_line addr t c s))
               else touch_line addr (unat t) (iCache s) s))"

end
