(* ===== verification/PPC_MMU.thy ===== *)
theory PPC_MMU
  imports PPC_Memory
begin

text \<open>
  The memory management unit of \<open>PowerPC/MMU.cpp\<close>: address translation by the BAT tables, the
  translation buffers and the page table in memory, and the reads and writes of the processor.  The
  templates over the access type are functions of its size \<open>n\<close> (1, 2, 4 or 8 bytes) with the value
  zero extended to 64 bits; \<open>size_t\<close> is a 64-bit type.
\<close>

section \<open>Kinds of access\<close>

datatype XCheckTLBFlag = NoException | Read | Write | Opcode | OpcodeNoException

definition IsOpcodeFlag :: "XCheckTLBFlag \<Rightarrow> bool" where
  "IsOpcodeFlag flag \<longleftrightarrow> flag = Opcode \<or> flag = OpcodeNoException"

definition IsNoExceptionFlag :: "XCheckTLBFlag \<Rightarrow> bool" where
  "IsNoExceptionFlag flag \<longleftrightarrow> flag = NoException \<or> flag = OpcodeNoException"

datatype translate_kind = BAT_TRANSLATED | PAGE_TABLE_TRANSLATED | DIRECT_STORE_SEGMENT | PAGE_FAULT

type_synonym TranslateAddressResult = "translate_kind \<times> u32"

definition Success :: "TranslateAddressResult \<Rightarrow> bool" where
  "Success r \<longleftrightarrow> fst r = BAT_TRANSLATED \<or> fst r = PAGE_TABLE_TRANSLATED"

definition MSR_DR :: u32 where "MSR_DR = 0x10"
definition MSR_IR :: u32 where "MSR_IR = 0x20"

definition SPR_DSISR :: nat where "SPR_DSISR = 18"
definition SPR_DAR :: nat where "SPR_DAR = 19"
definition SPR_SDR :: nat where "SPR_SDR = 25"
definition SPR_IBAT0U :: nat where "SPR_IBAT0U = 528"
definition SPR_IBAT4U :: nat where "SPR_IBAT4U = 560"
definition SPR_DBAT0U :: nat where "SPR_DBAT0U = 536"
definition SPR_DBAT4U :: nat where "SPR_DBAT4U = 568"
definition SPR_HID4 :: nat where "SPR_HID4 = 1011"

section \<open>Exceptions\<close>

definition PPC_EXC_DSISR_PAGE :: u32 where "PPC_EXC_DSISR_PAGE = push_bit 30 1"
definition PPC_EXC_DSISR_STORE :: u32 where "PPC_EXC_DSISR_STORE = push_bit 25 1"

definition GenerateDSIException :: "u32 \<Rightarrow> bool \<Rightarrow> ppc \<Rightarrow> ppc" where
  "GenerateDSIException effectiveAddress writing s =
     (if \<not> bMMU s then s
      else (let s = (if effectiveAddress \<noteq> 0
                     then set_spr SPR_DSISR (PPC_EXC_DSISR_PAGE OR PPC_EXC_DSISR_STORE) s
                     else set_spr SPR_DSISR PPC_EXC_DSISR_PAGE s);
                s = set_spr SPR_DAR effectiveAddress s
            in s\<lparr>Exceptions := Exceptions s OR EXCEPTION_DSI\<rparr>))"

definition GenerateISIException :: "u32 \<Rightarrow> ppc \<Rightarrow> ppc" where
  "GenerateISIException effectiveAddress s =
     s\<lparr>npc := effectiveAddress, Exceptions := Exceptions s OR EXCEPTION_ISI\<rparr>"

section \<open>The translation buffers\<close>

definition INVALID_TAG :: u32 where "INVALID_TAG = 0xffffffff"

definition set_tlb :: "nat \<Rightarrow> nat \<Rightarrow> TLBEntry \<Rightarrow> ppc \<Rightarrow> ppc" where
  "set_tlb k i e s = s\<lparr>tlb := (tlb s)(k := (tlb s k)(i := e))\<rparr>"

definition tlb_select :: "XCheckTLBFlag \<Rightarrow> nat" where
  "tlb_select flag = (if IsOpcodeFlag flag then 1 else 0)"

definition tlb_set :: "u32 \<Rightarrow> nat" where
  "tlb_set tag = unat (tag AND 0x3f)"

definition PTE2_C :: u32 where "PTE2_C = push_bit 7 1"
definition PTE2_R :: u32 where "PTE2_R = push_bit 8 1"
definition PTE2_RPN :: "u32 \<Rightarrow> u32" where "PTE2_RPN pte2 = drop_bit 12 pte2"

datatype TLBLookupResult = Found | NotFound | UpdateC

text \<open>The block for one way whose tag matches.\<close>

definition lookup_way :: "XCheckTLBFlag \<Rightarrow> u32 \<Rightarrow> nat \<Rightarrow> TLBEntry \<Rightarrow> (TLBLookupResult \<times> u32) \<times> TLBEntry" where
  "lookup_way flag vpa w e =
     (if flag = Write \<and> tlb_pte e w AND PTE2_C = 0
      then ((UpdateC, 0), e\<lparr>tlb_pte := (tlb_pte e)(w := tlb_pte e w OR PTE2_C)\<rparr>)
      else ((Found, tlb_paddr e w OR (vpa AND 0xfff)),
            if IsNoExceptionFlag flag then e else e\<lparr>tlb_recent := of_nat w\<rparr>))"

definition LookupTLBPageAddress :: "XCheckTLBFlag \<Rightarrow> u32 \<Rightarrow> ppc \<Rightarrow> (TLBLookupResult \<times> u32) \<times> ppc" where
  "LookupTLBPageAddress flag vpa s =
     (let tag = drop_bit 12 vpa;
          k = tlb_select flag;
          e = tlb s k (tlb_set tag)
      in if tlb_tag e 0 = tag then
           (let (r, e) = lookup_way flag vpa 0 e in (r, set_tlb k (tlb_set tag) e s))
         else if tlb_tag e 1 = tag then
           (let (r, e) = lookup_way flag vpa 1 e in (r, set_tlb k (tlb_set tag) e s))
         else ((NotFound, 0), s))"

definition UpdateTLBEntry :: "XCheckTLBFlag \<Rightarrow> u32 \<Rightarrow> u32 \<Rightarrow> ppc \<Rightarrow> ppc" where
  "UpdateTLBEntry flag pte2 address s =
     (if IsNoExceptionFlag flag then s
      else (let tag = drop_bit 12 address;
                k = tlb_select flag;
                e = tlb s k (tlb_set tag);
                index = (if tlb_recent e = 0 \<and> tlb_tag e 0 \<noteq> INVALID_TAG then 1 else 0)
            in set_tlb k (tlb_set tag)
                 (e\<lparr>tlb_recent := of_nat index,
                    tlb_paddr := (tlb_paddr e)(index := push_bit 12 (PTE2_RPN pte2)),
                    tlb_pte := (tlb_pte e)(index := pte2),
                    tlb_tag := (tlb_tag e)(index := tag)\<rparr>) s))"

definition InvalidateTLBEntry :: "u32 \<Rightarrow> ppc \<Rightarrow> ppc" where
  "InvalidateTLBEntry address s =
     (let i = unat (drop_bit 12 address AND 0x3f);
          clear = (\<lambda>e. e\<lparr>tlb_tag := (tlb_tag e)(0 := INVALID_TAG, 1 := INVALID_TAG)\<rparr>);
          s = set_tlb 0 i (clear (tlb s 0 i)) s
      in set_tlb 1 i (clear (tlb s 1 i)) s)"

section \<open>The page table\<close>

text \<open>The 4 GB at \<open>physical_base\<close>: the views of \<open>physical_regions\<close>, nothing between them.\<close>

definition phys_bank :: "u32 \<Rightarrow> ppc \<Rightarrow> (bank \<times> nat) option" where
  "phys_bank a s =
     (if unat a < RAM_SIZE then Some (Ram, unat a)
      else if 0xE0000000 \<le> a \<and> unat (a - 0xE0000000) < L1_CACHE_SIZE then Some (L1Cache, unat (a - 0xE0000000))
      else if has_fakevmem s \<and> 0x7E000000 \<le> a \<and> unat (a - 0x7E000000) < FAKEVMEM_SIZE
      then Some (FakeVMEM, unat (a - 0x7E000000))
      else if has_exram s \<and> 0x10000000 \<le> a \<and> unat (a - 0x10000000) < EXRAM_SIZE
      then Some (Exram, unat (a - 0x10000000))
      else None)"

text \<open>A \<open>u32\<close> copied from and to it, in host order.\<close>

definition load_phys :: "u32 \<Rightarrow> ppc \<Rightarrow> ppc_fault + u32" where
  "load_phys a s =
     (case phys_bank a s of
        None \<Rightarrow> Inl Unmapped
      | Some (b, off) \<Rightarrow> bind_ppc (load_bank 4 b off s) (\<lambda>v. Inr (swap32 (ucast v))))"

definition store_phys :: "u32 \<Rightarrow> u32 \<Rightarrow> ppc \<Rightarrow> ppc_res" where
  "store_phys v a s =
     (case phys_bank a s of
        None \<Rightarrow> Inl Unmapped
      | Some (b, off) \<Rightarrow> store_bank 4 (ucast (swap32 v)) b off s)"

definition IsValidLowMask :: "u32 \<Rightarrow> bool" where
  "IsValidLowMask m \<longleftrightarrow> m AND (m + 1) = 0"

definition SDRUpdated :: "ppc \<Rightarrow> ppc" where
  "SDRUpdated s =
     (let htabmask = spr s SPR_SDR AND 0x1ff;
          htaborg = drop_bit 16 (spr s SPR_SDR) AND 0xffff
      in if \<not> IsValidLowMask htabmask then s
         else if htaborg AND htabmask \<noteq> 0 then s
         else s\<lparr>pagetable_base := push_bit 16 htaborg,
                pagetable_hashmask := push_bit 10 htabmask OR 0x3ff\<rparr>)"

definition EA_SR :: "u32 \<Rightarrow> nat" where "EA_SR v = unat (drop_bit 28 v AND 0xf)"
definition EA_PageIndex :: "u32 \<Rightarrow> u32" where "EA_PageIndex v = drop_bit 12 v AND 0xffff"
definition EA_Offset :: "u32 \<Rightarrow> u32" where "EA_Offset v = v AND 0xfff"
definition EA_API :: "u32 \<Rightarrow> u32" where "EA_API v = drop_bit 22 v AND 0x3f"
definition SR_VSID :: "u32 \<Rightarrow> u32" where "SR_VSID v = v AND 0xffffff"
definition PTE1_V :: u32 where "PTE1_V = push_bit 31 1"
definition PTE1_H :: u32 where "PTE1_H = push_bit 6 1"

definition pteg_address :: "u32 \<Rightarrow> ppc \<Rightarrow> u32" where
  "pteg_address hash s = push_bit 6 (hash AND pagetable_hashmask s) OR pagetable_base s"

text \<open>The inner loop: the address of the entry that holds \<open>pte1\<close>, of \<open>n\<close> entries left.\<close>

fun search_pteg :: "nat \<Rightarrow> u32 \<Rightarrow> u32 \<Rightarrow> ppc \<Rightarrow> ppc_fault + u32 option" where
  "search_pteg 0 pteg_addr pte1 s = Inr None"
| "search_pteg (Suc n) pteg_addr pte1 s =
     bind_ppc (load_phys pteg_addr s)
       (\<lambda>pteg. if pte1 = pteg then Inr (Some pteg_addr) else search_pteg n (pteg_addr + 8) pte1 s)"

text \<open>The outer loop over the two hash functions.\<close>

definition find_pte :: "u32 \<Rightarrow> ppc \<Rightarrow> ppc_fault + u32 option" where
  "find_pte address s =
     (let VSID = SR_VSID (sr s (EA_SR address));
          hash = VSID XOR EA_PageIndex address;
          pte1 = swap32 (push_bit 7 VSID OR EA_API address OR PTE1_V)
      in bind_ppc (search_pteg 8 (pteg_address hash s) pte1 s)
           (\<lambda>r. case r of Some a \<Rightarrow> Inr (Some a)
                | None \<Rightarrow> search_pteg 8 (pteg_address (NOT hash) s) (pte1 OR push_bit 24 PTE1_H) s))"

definition access_bits :: "XCheckTLBFlag \<Rightarrow> u32 \<Rightarrow> u32" where
  "access_bits flag pte2 =
     (case flag of NoException \<Rightarrow> pte2 | OpcodeNoException \<Rightarrow> pte2 | Read \<Rightarrow> pte2 OR PTE2_R
      | Write \<Rightarrow> pte2 OR PTE2_R OR PTE2_C | Opcode \<Rightarrow> pte2 OR PTE2_R)"

text \<open>The body of the loop for the entry that matches.\<close>

definition use_pte :: "XCheckTLBFlag \<Rightarrow> TLBLookupResult \<Rightarrow> u32 \<Rightarrow> u32 \<Rightarrow> ppc \<Rightarrow> TranslateAddressResult ppc_val" where
  "use_pte flag res address pteg_addr s =
     bind_ppc (load_phys (pteg_addr + 4) s)
       (\<lambda>raw. let pte2 = access_bits flag (swap32 raw)
              in bind_ppc (if IsNoExceptionFlag flag then Inr s else store_phys (swap32 pte2) (pteg_addr + 4) s)
                   (\<lambda>s. let s = (if res \<noteq> UpdateC then UpdateTLBEntry flag pte2 address s else s)
                        in Inr ((PAGE_TABLE_TRANSLATED, push_bit 12 (PTE2_RPN pte2) OR EA_Offset address), s)))"

definition TranslatePageAddress :: "u32 \<Rightarrow> XCheckTLBFlag \<Rightarrow> ppc \<Rightarrow> TranslateAddressResult ppc_val" where
  "TranslatePageAddress address flag s =
     (let ((res, translatedAddress), s) = LookupTLBPageAddress flag address s
      in if res = Found then Inr ((PAGE_TABLE_TRANSLATED, translatedAddress), s)
         else if sr s (EA_SR address) AND 0x80000000 \<noteq> 0 then Inr ((DIRECT_STORE_SEGMENT, 0), s)
         else if IsOpcodeFlag flag \<and> sr s (EA_SR address) AND 0x10000000 \<noteq> 0 then Inr ((PAGE_FAULT, 0), s)
         else bind_ppc (find_pte address s)
           (\<lambda>r. case r of None \<Rightarrow> Inr ((PAGE_FAULT, 0), s)
                | Some pteg_addr \<Rightarrow> use_pte flag res address pteg_addr s))"

section \<open>The BAT tables\<close>

definition BAT_INDEX_SHIFT :: nat where "BAT_INDEX_SHIFT = 17"
definition BAT_PAGE_SIZE :: u32 where "BAT_PAGE_SIZE = push_bit 17 1"
definition BAT_MAPPED_BIT :: u32 where "BAT_MAPPED_BIT = 0x1"
definition BAT_PHYSICAL_BIT :: u32 where "BAT_PHYSICAL_BIT = 0x2"
definition BAT_RESULT_MASK :: u32 where "BAT_RESULT_MASK = NOT 0x3"

definition TranslateBatAddess :: "u32 array \<Rightarrow> u32 \<Rightarrow> u32 option" where
  "TranslateBatAddess bat_table address =
     (let bat_result = bat_table (unat (drop_bit BAT_INDEX_SHIFT address))
      in if bat_result AND BAT_MAPPED_BIT = 0 then None
         else Some ((bat_result AND BAT_RESULT_MASK) OR (address AND (BAT_PAGE_SIZE - 1))))"

text \<open>The fields of the two words of a BAT register.\<close>

definition BAT_VP :: "u32 \<Rightarrow> u32" where "BAT_VP u = ifield u 0 1"
definition BAT_VS :: "u32 \<Rightarrow> u32" where "BAT_VS u = ifield u 1 1"
definition BAT_BL :: "u32 \<Rightarrow> u32" where "BAT_BL u = ifield u 2 11"
definition BAT_BEPI :: "u32 \<Rightarrow> u32" where "BAT_BEPI u = ifield u 17 15"
definition BAT_BRPN :: "u32 \<Rightarrow> u32" where "BAT_BRPN l = ifield l 17 15"

text \<open>The bits the loop body of \<open>UpdateBATs\<close> adds to the address.\<close>

definition bat_valid_bits :: "u32 \<Rightarrow> u32 \<Rightarrow> ppc \<Rightarrow> u32" where
  "bat_valid_bits physical_address virtual_address s =
     (let valid_bit =
        (if has_fakevmem s \<and> physical_address AND 0xFE000000 = 0x7E000000
            \<or> unat physical_address < REALRAM_SIZE
            \<or> has_exram s \<and> drop_bit 28 physical_address = 0x1
                \<and> unat (physical_address AND 0x0FFFFFFF) < EXRAM_SIZE
            \<or> drop_bit 28 physical_address = 0xE \<and> physical_address < 0xE0000000 + of_nat L1_CACHE_SIZE
         then BAT_MAPPED_BIT OR BAT_PHYSICAL_BIT else BAT_MAPPED_BIT)
      in if OverlapsMemcheck s virtual_address then valid_bit AND NOT BAT_PHYSICAL_BIT else valid_bit)"

text \<open>The loop over \<open>j\<close>, from \<open>j\<close> on, \<open>n\<close> rounds left.\<close>

fun fill_bat :: "nat \<Rightarrow> u32 \<Rightarrow> u32 \<Rightarrow> u32 \<Rightarrow> ppc \<Rightarrow> u32 array \<Rightarrow> u32 array" where
  "fill_bat 0 j batu batl s bat_table = bat_table"
| "fill_bat (Suc n) j batu batl s bat_table =
     fill_bat n (j + 1) batu batl s
       (if j AND BAT_BL batu = j then
          (let physical_address = push_bit BAT_INDEX_SHIFT (BAT_BRPN batl OR j);
               virtual_address = push_bit BAT_INDEX_SHIFT (BAT_BEPI batu OR j)
           in bat_table(unat (drop_bit BAT_INDEX_SHIFT virtual_address) :=
                physical_address OR bat_valid_bits physical_address virtual_address s))
        else bat_table)"

text \<open>One round of the loop over the four registers, then the loop, with \<open>n\<close> rounds left.\<close>

definition update_bat :: "u32 \<Rightarrow> u32 \<Rightarrow> ppc \<Rightarrow> u32 array \<Rightarrow> u32 array" where
  "update_bat batu batl s bat_table =
     (if BAT_VS batu = 0 \<and> BAT_VP batu = 0 then bat_table
      else if BAT_BEPI batu AND BAT_BL batu \<noteq> 0 then bat_table
      else fill_bat (Suc (unat (BAT_BL batu))) 0 batu batl s bat_table)"

fun update_bats_from :: "nat \<Rightarrow> nat \<Rightarrow> ppc \<Rightarrow> u32 array \<Rightarrow> u32 array" where
  "update_bats_from 0 r s bat_table = bat_table"
| "update_bats_from (Suc n) r s bat_table =
     update_bats_from n (r + 2) s (update_bat (spr s r) (spr s (r + 1)) s bat_table)"

definition UpdateBATs :: "nat \<Rightarrow> ppc \<Rightarrow> u32 array \<Rightarrow> u32 array" where
  "UpdateBATs base_spr s bat_table = update_bats_from 4 base_spr s bat_table"

text \<open>The loop of \<open>UpdateFakeMMUBat\<close> over 2048 entries, from \<open>i\<close> on.\<close>

fun fake_mmu_bat_from :: "nat \<Rightarrow> u32 \<Rightarrow> u32 \<Rightarrow> ppc \<Rightarrow> u32 array \<Rightarrow> u32 array" where
  "fake_mmu_bat_from 0 i start_addr s bat_table = bat_table"
| "fake_mmu_bat_from (Suc n) i start_addr s bat_table =
     (let e_address = i + drop_bit BAT_INDEX_SHIFT start_addr;
          p_address = 0x7E000000 OR (push_bit BAT_INDEX_SHIFT i AND 0x01FFFFFF);
          flags = BAT_MAPPED_BIT OR BAT_PHYSICAL_BIT;
          flags = (if OverlapsMemcheck s (push_bit BAT_INDEX_SHIFT e_address)
                   then flags AND NOT BAT_PHYSICAL_BIT else flags)
      in fake_mmu_bat_from n (i + 1) start_addr s (bat_table(unat e_address := p_address OR flags)))"

definition UpdateFakeMMUBat :: "u32 \<Rightarrow> ppc \<Rightarrow> u32 array \<Rightarrow> u32 array" where
  "UpdateFakeMMUBat start_addr s bat_table = fake_mmu_bat_from 2048 0 start_addr s bat_table"

text \<open>
  \<open>DBATUpdated\<close> and \<open>IBATUpdated\<close>: the same statements on the two tables.  The remapping of host
  memory for the recompilers is left out.
\<close>

definition HID4_SBE :: u32 where "HID4_SBE = 0x2000000"

definition updated_table :: "nat \<Rightarrow> nat \<Rightarrow> ppc \<Rightarrow> u32 array" where
  "updated_table base extended_base s =
     (let bat_table = UpdateBATs base s (\<lambda>_. 0);
          bat_table = (if bWii s \<and> spr s SPR_HID4 AND HID4_SBE \<noteq> 0
                       then UpdateBATs extended_base s bat_table else bat_table)
      in if has_fakevmem s
         then UpdateFakeMMUBat 0x70000000 s (UpdateFakeMMUBat 0x40000000 s bat_table) else bat_table)"

definition DBATUpdated :: "ppc \<Rightarrow> ppc" where
  "DBATUpdated s = s\<lparr>dbat_table := updated_table SPR_DBAT0U SPR_DBAT4U s\<rparr>"

definition IBATUpdated :: "ppc \<Rightarrow> ppc" where
  "IBATUpdated s = s\<lparr>ibat_table := updated_table SPR_IBAT0U SPR_IBAT4U s\<rparr>"

section \<open>Translation\<close>

definition TranslateAddress :: "XCheckTLBFlag \<Rightarrow> u32 \<Rightarrow> ppc \<Rightarrow> TranslateAddressResult ppc_val" where
  "TranslateAddress flag address s =
     (case TranslateBatAddess (if IsOpcodeFlag flag then ibat_table s else dbat_table s) address of
        Some a \<Rightarrow> Inr ((BAT_TRANSLATED, a), s)
      | None \<Rightarrow> TranslatePageAddress address flag s)"

end
