(* ===== verification/PPC_Access.thy ===== *)
theory PPC_Access
  imports PPC_MMU
begin

text \<open>
  The reads and writes of the processor in \<open>PowerPC/MMU.cpp\<close>, down to the memories and the devices,
  and the instruction fetch.  The message boxes of \<open>PanicAlert\<close> are left out: the code goes on after
  them.
\<close>

section \<open>Devices\<close>

definition EFB_x :: "u32 \<Rightarrow> u32" where "EFB_x addr = drop_bit 2 (addr AND 0xfff)"
definition EFB_y :: "u32 \<Rightarrow> u32" where "EFB_y addr = drop_bit 12 addr AND 0x3ff"

definition EFB_Read :: "u32 \<Rightarrow> ppc \<Rightarrow> u32 \<times> ppc" where
  "EFB_Read addr s =
     (if addr AND 0x00800000 \<noteq> 0 then (0, s)
      else if addr AND 0x00400000 \<noteq> 0
      then (let (v, s) = dev_call (AccessEFB PeekZ (EFB_x addr) (EFB_y addr) 0) s in (ucast v, s))
      else (let (v, s) = dev_call (AccessEFB PeekColor (EFB_x addr) (EFB_y addr) 0) s in (ucast v, s)))"

definition EFB_Write :: "u32 \<Rightarrow> u32 \<Rightarrow> ppc \<Rightarrow> ppc" where
  "EFB_Write data addr s =
     (if addr AND 0x00800000 \<noteq> 0 then s
      else if addr AND 0x00400000 \<noteq> 0
      then snd (dev_call (AccessEFB PokeZ (EFB_x addr) (EFB_y addr) data) s)
      else snd (dev_call (AccessEFB PokeColor (EFB_x addr) (EFB_y addr) data) s))"

section \<open>Physical accesses\<close>

text \<open>The memory a physical address is in, by the tests the reads and writes share.\<close>

definition hw_bank :: "u32 \<Rightarrow> ppc \<Rightarrow> (bank \<times> nat) option" where
  "hw_bank a s =
     (if a AND 0xF8000000 = 0 then Some (Ram, unat (a AND RAM_MASK))
      else if has_exram s \<and> drop_bit 28 a = 0x1 \<and> unat (a AND 0x0FFFFFFF) < EXRAM_SIZE
      then Some (Exram, unat (a AND 0x0FFFFFFF))
      else if drop_bit 28 a = 0xE \<and> a < 0xE0000000 + of_nat L1_CACHE_SIZE
      then Some (L1Cache, unat (a AND 0x0FFFFFFF))
      else if has_fakevmem s \<and> a AND 0xFE000000 = 0x7E000000
      then Some (FakeVMEM, unat (a AND RAM_MASK))
      else None)"

definition read_physical :: "XCheckTLBFlag \<Rightarrow> nat \<Rightarrow> u32 \<Rightarrow> ppc \<Rightarrow> u64 ppc_val" where
  "read_physical flag n a s =
     (case hw_bank a s of
        Some (b, off) \<Rightarrow> bind_ppc (load_bank n b off s) (\<lambda>v. Inr (v, s))
      | None \<Rightarrow>
          if flag = Read \<and> a AND 0xF8000000 = 0x08000000 then
            (if a < 0x0c000000
             then (let (v, s) = EFB_Read a s in Inr (take_bit (8 * n) (ucast v), s))
             else (let (v, s) = dev_call (MmioRead n a) s in Inr (take_bit (8 * n) v, s)))
          else Inr (0, s))"

definition write_physical :: "XCheckTLBFlag \<Rightarrow> nat \<Rightarrow> u32 \<Rightarrow> u64 \<Rightarrow> ppc \<Rightarrow> ppc_res" where
  "write_physical flag n a data s =
     (case hw_bank a s of
        Some (b, off) \<Rightarrow> store_bank n data b off s
      | None \<Rightarrow>
          if flag = Write \<and> a AND 0xFFFFF000 = 0x0C008000 then Inr (snd (dev_call (GatherPipeWrite n data) s))
          else if flag = Write \<and> a AND 0xF8000000 = 0x08000000 then
            (if a < 0x0c000000 then Inr (EFB_Write (ucast data) a s)
             else Inr (snd (dev_call (MmioWrite n a data) s)))
          else Inr s)"

section \<open>Accesses through the translation\<close>

text \<open>The page behind the one \<open>a\<close> is in, computed in 64 bits and stored in 32.\<close>

definition next_page :: "nat \<Rightarrow> u32 \<Rightarrow> u32" where
  "next_page n a = ucast ((ucast a + of_nat n - 1 :: u64) AND NOT 0xfff)"

text \<open>
  The loop over the bytes of a read that spans two pages: \<open>addr\<close> is a \<open>u32\<close> compared with a 64-bit
  sum, so the loop does not end when the sum is above \<open>2 ^ 32\<close>.
\<close>

partial_function (option) read_bytes ::
  "XCheckTLBFlag \<Rightarrow> nat \<Rightarrow> u64 \<Rightarrow> u32 \<Rightarrow> u32 \<Rightarrow> u32 \<Rightarrow> u32 \<Rightarrow> u64 \<Rightarrow> ppc \<Rightarrow> u64 ppc_val option" where
  "read_bytes flag n limit page page_address addr addr_translated var s =
     (if ucast addr < limit then
        (case read_physical flag 1 (if addr = page then page_address else addr_translated) s of
           Inl e \<Rightarrow> Some (Inl e)
         | Inr (b, s) \<Rightarrow> read_bytes flag n limit page page_address (addr + 1)
             ((if addr = page then page_address else addr_translated) + 1)
             (take_bit (8 * n) (push_bit 8 var OR b)) s)
      else Some (Inr (var, s)))"

definition ReadFromHardware :: "XCheckTLBFlag \<Rightarrow> nat \<Rightarrow> u32 \<Rightarrow> ppc \<Rightarrow> u64 ppc_val" where
  "ReadFromHardware flag n em_address s =
     (if msr s AND MSR_DR \<noteq> 0 then
        bind_ppc (TranslateAddress flag em_address s)
          (\<lambda>(translated_addr, s).
             if \<not> Success translated_addr then
               Inr (0, if flag = Read then GenerateDSIException em_address False s else s)
             else if unat (em_address AND 0xfff) > 4096 - n then
               (let em_address_next_page = next_page n em_address
                in bind_ppc (TranslateAddress flag em_address_next_page s)
                     (\<lambda>(addr_next_page, s).
                        if \<not> Success addr_next_page then
                          Inr (0, if flag = Read then GenerateDSIException em_address_next_page False s else s)
                        else (case read_bytes flag n (ucast em_address + of_nat n) em_address_next_page
                                     (snd addr_next_page) em_address (snd translated_addr) 0 s of
                                None \<Rightarrow> Inl NoReturn
                              | Some r \<Rightarrow> r)))
             else read_physical flag n (snd translated_addr) s)
      else read_physical flag n em_address s)"

text \<open>The loop over the bytes of a write, from byte \<open>i\<close> on, \<open>k\<close> of them left.\<close>

fun write_bytes ::
  "XCheckTLBFlag \<Rightarrow> nat \<Rightarrow> u64 \<Rightarrow> u32 \<Rightarrow> u32 \<Rightarrow> u32 \<Rightarrow> nat \<Rightarrow> nat \<Rightarrow> u32 \<Rightarrow> ppc \<Rightarrow> ppc_res" where
  "write_bytes flag n data em_address page page_address 0 i addr_translated s = Inr s"
| "write_bytes flag n data em_address page page_address (Suc k) i addr_translated s =
     (let addr_translated =
        (if (ucast em_address + of_nat i :: u64) = ucast page then page_address else addr_translated)
      in bind_ppc (write_physical flag 1 addr_translated (take_bit 8 (drop_bit (8 * (n - 1 - i)) data)) s)
           (\<lambda>s. write_bytes flag n data em_address page page_address k (i + 1) (addr_translated + 1) s))"

definition WriteToHardware :: "XCheckTLBFlag \<Rightarrow> nat \<Rightarrow> u32 \<Rightarrow> u64 \<Rightarrow> ppc \<Rightarrow> ppc_res" where
  "WriteToHardware flag n em_address data s =
     (if msr s AND MSR_DR \<noteq> 0 then
        bind_ppc (TranslateAddress flag em_address s)
          (\<lambda>(translated_addr, s).
             if \<not> Success translated_addr then
               Inr (if flag = Write then GenerateDSIException em_address True s else s)
             else if ucast em_address AND (of_nat n - 1 :: u64) \<noteq> 0 \<and> unat (em_address AND 0xfff) > 4096 - n then
               (let em_address_next_page = next_page n em_address
                in bind_ppc (TranslateAddress flag em_address_next_page s)
                     (\<lambda>(addr_next_page, s).
                        if \<not> Success addr_next_page then
                          Inr (if flag = Write then GenerateDSIException em_address_next_page True s else s)
                        else write_bytes flag n data em_address em_address_next_page (snd addr_next_page)
                               n 0 (snd translated_addr) s))
             else write_physical flag n (snd translated_addr) data s)
      else write_physical flag n em_address data s)"

section \<open>The interface of the processor\<close>

definition Memcheck :: "u32 \<Rightarrow> u32 \<Rightarrow> bool \<Rightarrow> nat \<Rightarrow> ppc \<Rightarrow> ppc" where
  "Memcheck address var writing sz s =
     (if memcheck_pause s address var writing sz
      then s\<lparr>Exceptions := Exceptions s OR (EXCEPTION_DSI OR EXCEPTION_FAKE_MEMCHECK_HIT)\<rparr> else s)"

definition read_checked :: "nat \<Rightarrow> u32 \<Rightarrow> ppc \<Rightarrow> u64 ppc_val" where
  "read_checked n address s =
     bind_ppc (ReadFromHardware Read n address s)
       (\<lambda>(var, s). Inr (var, Memcheck address (ucast var) False n s))"

definition write_checked :: "nat \<Rightarrow> u64 \<Rightarrow> u32 \<Rightarrow> ppc \<Rightarrow> ppc_res" where
  "write_checked n var address s =
     WriteToHardware Write n address var (Memcheck address (ucast var) True n s)"

definition Read_U8 :: "u32 \<Rightarrow> ppc \<Rightarrow> u8 ppc_val" where
  "Read_U8 address s = bind_ppc (read_checked 1 address s) (\<lambda>(v, s). Inr (ucast v, s))"
definition Read_U16 :: "u32 \<Rightarrow> ppc \<Rightarrow> u16 ppc_val" where
  "Read_U16 address s = bind_ppc (read_checked 2 address s) (\<lambda>(v, s). Inr (ucast v, s))"
definition Read_U32 :: "u32 \<Rightarrow> ppc \<Rightarrow> u32 ppc_val" where
  "Read_U32 address s = bind_ppc (read_checked 4 address s) (\<lambda>(v, s). Inr (ucast v, s))"
definition Read_U64 :: "u32 \<Rightarrow> ppc \<Rightarrow> u64 ppc_val" where
  "Read_U64 address s = read_checked 8 address s"

definition Write_U8 :: "u8 \<Rightarrow> u32 \<Rightarrow> ppc \<Rightarrow> ppc_res" where
  "Write_U8 var address s = write_checked 1 (ucast var) address s"
definition Write_U16 :: "u16 \<Rightarrow> u32 \<Rightarrow> ppc \<Rightarrow> ppc_res" where
  "Write_U16 var address s = write_checked 2 (ucast var) address s"
definition Write_U32 :: "u32 \<Rightarrow> u32 \<Rightarrow> ppc \<Rightarrow> ppc_res" where
  "Write_U32 var address s = write_checked 4 (ucast var) address s"
definition Write_U64 :: "u64 \<Rightarrow> u32 \<Rightarrow> ppc \<Rightarrow> ppc_res" where
  "Write_U64 var address s = write_checked 8 var address s"

definition HostRead_U8 :: "u32 \<Rightarrow> ppc \<Rightarrow> u8 ppc_val" where
  "HostRead_U8 address s = bind_ppc (ReadFromHardware NoException 1 address s) (\<lambda>(v, s). Inr (ucast v, s))"
definition HostRead_U16 :: "u32 \<Rightarrow> ppc \<Rightarrow> u16 ppc_val" where
  "HostRead_U16 address s = bind_ppc (ReadFromHardware NoException 2 address s) (\<lambda>(v, s). Inr (ucast v, s))"
definition HostRead_U32 :: "u32 \<Rightarrow> ppc \<Rightarrow> u32 ppc_val" where
  "HostRead_U32 address s = bind_ppc (ReadFromHardware NoException 4 address s) (\<lambda>(v, s). Inr (ucast v, s))"
definition HostRead_U64 :: "u32 \<Rightarrow> ppc \<Rightarrow> u64 ppc_val" where
  "HostRead_U64 address s = ReadFromHardware NoException 8 address s"

definition HostWrite_U8 :: "u8 \<Rightarrow> u32 \<Rightarrow> ppc \<Rightarrow> ppc_res" where
  "HostWrite_U8 var address s = WriteToHardware NoException 1 address (ucast var) s"
definition HostWrite_U16 :: "u16 \<Rightarrow> u32 \<Rightarrow> ppc \<Rightarrow> ppc_res" where
  "HostWrite_U16 var address s = WriteToHardware NoException 2 address (ucast var) s"
definition HostWrite_U32 :: "u32 \<Rightarrow> u32 \<Rightarrow> ppc \<Rightarrow> ppc_res" where
  "HostWrite_U32 var address s = WriteToHardware NoException 4 address (ucast var) s"
definition HostWrite_U64 :: "u64 \<Rightarrow> u32 \<Rightarrow> ppc \<Rightarrow> ppc_res" where
  "HostWrite_U64 var address s = WriteToHardware NoException 8 address var s"

definition is_ram_address :: "XCheckTLBFlag \<Rightarrow> u32 \<Rightarrow> bool \<Rightarrow> ppc \<Rightarrow> bool ppc_val" where
  "is_ram_address flag address translate s =
     bind_ppc (if translate then TranslateAddress flag address s else Inr ((BAT_TRANSLATED, address), s))
       (\<lambda>(r, s). let a = snd r; segment = drop_bit 28 a
          in Inr (if \<not> Success r then False
                  else segment = 0x0 \<and> unat (a AND 0x0FFFFFFF) < REALRAM_SIZE
                     \<or> has_exram s \<and> segment = 0x1 \<and> unat (a AND 0x0FFFFFFF) < EXRAM_SIZE
                     \<or> has_fakevmem s \<and> a AND 0xFE000000 = 0x7E000000
                     \<or> segment = 0xE \<and> a < 0xE0000000 + of_nat L1_CACHE_SIZE, s))"

definition HostIsRAMAddress :: "u32 \<Rightarrow> ppc \<Rightarrow> bool ppc_val" where
  "HostIsRAMAddress address s = is_ram_address NoException address (msr s AND MSR_DR \<noteq> 0) s"

definition HostIsInstructionRAMAddress :: "u32 \<Rightarrow> ppc \<Rightarrow> bool ppc_val" where
  "HostIsInstructionRAMAddress address s =
     (if address AND 3 \<noteq> 0 then Inr (False, s)
      else is_ram_address OpcodeNoException address (msr s AND MSR_IR \<noteq> 0) s)"

section \<open>Cache lines, locked cache and instruction fetch\<close>

fun clear_line_from :: "nat \<Rightarrow> u32 \<Rightarrow> ppc \<Rightarrow> ppc_res" where
  "clear_line_from 0 a s = Inr s"
| "clear_line_from (Suc k) a s =
     bind_ppc (write_physical Write 8 a 0 s) (clear_line_from k (a + 8))"

definition ClearCacheLine :: "u32 \<Rightarrow> ppc \<Rightarrow> ppc_res" where
  "ClearCacheLine address s =
     (if msr s AND MSR_DR \<noteq> 0 then
        bind_ppc (TranslateAddress Write address s)
          (\<lambda>(r, s). if fst r = DIRECT_STORE_SEGMENT then Inr s
                    else if fst r = PAGE_FAULT then Inr (GenerateDSIException address True s)
                    else clear_line_from 4 (snd r) s)
      else clear_line_from 4 address s)"

definition TryReadInstruction :: "u32 \<Rightarrow> ppc \<Rightarrow> (u32 \<times> bool \<times> u32) option ppc_val" where
  "TryReadInstruction address s =
     bind_ppc (if msr s AND MSR_IR \<noteq> 0 then TranslateAddress Opcode address s
               else Inr ((BAT_TRANSLATED, address), s))
       (\<lambda>(r, s). if \<not> Success r then Inr (None, s)
          else (let a = snd r; from_bat = (fst r = BAT_TRANSLATED)
                in bind_ppc (if has_fakevmem s \<and> a AND 0xFE000000 = 0x7E000000
                             then bind_ppc (load_bank 4 FakeVMEM (unat (a AND 0x01FFFFFF)) s)
                                    (\<lambda>v. Inr (ucast v, s))
                             else ReadInstruction a s)
                     (\<lambda>(hex, s). Inr (Some (hex, from_bat, a), s))))"

definition Read_Opcode :: "u32 \<Rightarrow> ppc \<Rightarrow> u32 ppc_val" where
  "Read_Opcode address s =
     bind_ppc (TryReadInstruction address s)
       (\<lambda>(r, s). case r of None \<Rightarrow> Inr (0, GenerateISIException address s) | Some (hex, _) \<Rightarrow> Inr (hex, s))"

text \<open>The copies between the locked cache and memory, a word at a time to or from devices.\<close>

fun lc_words_to_device :: "nat \<Rightarrow> bool \<Rightarrow> u32 \<Rightarrow> u32 \<Rightarrow> ppc \<Rightarrow> ppc_res" where
  "lc_words_to_device 0 efb memAddr cacheAddr s = Inr s"
| "lc_words_to_device (Suc k) efb memAddr cacheAddr s =
     bind_ppc (load_bank 4 L1Cache (unat (cacheAddr AND 0x3FFFF)) s)
       (\<lambda>v. lc_words_to_device k efb (memAddr + 4) (cacheAddr + 4)
          (if efb then EFB_Write (ucast v) memAddr s else snd (dev_call (MmioWrite 4 memAddr v) s)))"

fun device_to_lc_words :: "nat \<Rightarrow> bool \<Rightarrow> u32 \<Rightarrow> u32 \<Rightarrow> ppc \<Rightarrow> ppc_res" where
  "device_to_lc_words 0 efb memAddr cacheAddr s = Inr s"
| "device_to_lc_words (Suc k) efb memAddr cacheAddr s =
     (let (v, s) = (if efb then (let (v, s) = EFB_Read memAddr s in (ucast v, s))
                    else (let (v, s) = dev_call (MmioRead 4 memAddr) s in (take_bit 32 v, s)))
      in bind_ppc (store_bank 4 v L1Cache (unat (cacheAddr AND 0x3FFFF)) s)
           (device_to_lc_words k efb (memAddr + 4) (cacheAddr + 4)))"

definition copy_banks :: "nat \<Rightarrow> bank \<Rightarrow> nat \<Rightarrow> bank \<Rightarrow> nat \<Rightarrow> ppc \<Rightarrow> ppc_res" where
  "copy_banks n dst to src from' s =
     (if to + n \<le> bank_size dst \<and> from' + n \<le> bank_size src
      then Inr (set_ram dst (\<lambda>i. if to \<le> i \<and> i < to + n then ram s src (from' + (i - to)) else ram s dst i) s)
      else Inl OutOfBounds)"

definition DMA_LCToMemory :: "u32 \<Rightarrow> u32 \<Rightarrow> u32 \<Rightarrow> ppc \<Rightarrow> ppc_res" where
  "DMA_LCToMemory memAddr cacheAddr numBlocks s =
     (if memAddr AND 0x0F000000 = 0x08000000
      then lc_words_to_device (8 * unat numBlocks) True memAddr cacheAddr s
      else if memAddr AND 0x0F000000 = 0x0C000000
      then lc_words_to_device (8 * unat numBlocks) False memAddr cacheAddr s
      else (case GetPointer memAddr s of
              None \<Rightarrow> Inr s
            | Some (b, off) \<Rightarrow>
                copy_banks (32 * unat numBlocks) b off L1Cache (unat (cacheAddr AND 0x3FFFF)) s))"

definition DMA_MemoryToLC :: "u32 \<Rightarrow> u32 \<Rightarrow> u32 \<Rightarrow> ppc \<Rightarrow> ppc_res" where
  "DMA_MemoryToLC cacheAddr memAddr numBlocks s =
     (if memAddr AND 0x0F000000 = 0x08000000
      then device_to_lc_words (8 * unat numBlocks) True memAddr cacheAddr s
      else if memAddr AND 0x0F000000 = 0x0C000000
      then device_to_lc_words (8 * unat numBlocks) False memAddr cacheAddr s
      else (case GetPointer memAddr s of
              None \<Rightarrow> Inr s
            | Some (b, off) \<Rightarrow>
                copy_banks (32 * unat numBlocks) L1Cache (unat (cacheAddr AND 0x3FFFF)) b off s))"

end
