(* ===== verification/PPC_Timing.thy ===== *)
theory PPC_Timing
  imports PPC_Exceptions "HOL-Library.Signed_Division"
begin

text \<open>
  The event scheduler of \<open>Core/CoreTiming.cpp\<close>.  The queue is the vector of pending events with its
  least element in front: a heap of the standard library promises no more, and nothing else of its
  layout is used.  \<open>push_heap\<close> inserts before the first greater event, \<open>pop_heap\<close> takes the front.
  The callbacks of the event types are an argument: any function on the state.  The lock around the
  queue of the other threads, names of event types, save states and summaries are left out.
\<close>

section \<open>The order of events\<close>

definition event_less :: "Event \<Rightarrow> Event \<Rightarrow> bool" where
  "event_less left right \<longleftrightarrow> sint (ev_time left) < sint (ev_time right)
     \<or> ev_time left = ev_time right \<and> ev_fifo_order left < ev_fifo_order right"

fun push_heap :: "Event \<Rightarrow> Event list \<Rightarrow> Event list" where
  "push_heap e [] = [e]"
| "push_heap e (x # xs) = (if event_less e x then e # x # xs else x # push_heap e xs)"

definition make_heap :: "Event list \<Rightarrow> Event list" where
  "make_heap es = foldr push_heap es []"

section \<open>Operations\<close>

definition MAX_SLICE_LENGTH :: s32 where "MAX_SLICE_LENGTH = 20000"

definition executed_cycles :: "ppc \<Rightarrow> s32" where
  "executed_cycles s = slice_length s - DowncountToCycles s (downcount s)"

definition CoreTiming_Init :: "ppc \<Rightarrow> ppc" where
  "CoreTiming_Init s = s\<lparr>downcount := CyclesToDowncount s MAX_SLICE_LENGTH,
     slice_length := MAX_SLICE_LENGTH, global_timer := 0, s_idled_cycles := 0,
     s_is_global_timer_sane := True, s_event_fifo_id := 0\<rparr>"

definition GetTicks :: "ppc \<Rightarrow> u64" where
  "GetTicks s =
     (if s_is_global_timer_sane s then global_timer s else global_timer s + scast (executed_cycles s))"

definition GetIdleTicks :: "ppc \<Rightarrow> u64" where
  "GetIdleTicks s = s_idled_cycles s"

definition ClearPendingEvents :: "ppc \<Rightarrow> ppc" where
  "ClearPendingEvents s = s\<lparr>s_event_queue := []\<rparr>"

definition ForceExceptionCheck :: "s64 \<Rightarrow> ppc \<Rightarrow> ppc" where
  "ForceExceptionCheck cycles s =
     (let cycles = (if sint cycles < 0 then 0 else cycles)
      in if sint (DowncountToCycles s (downcount s)) > sint cycles
         then s\<lparr>slice_length := slice_length s - (DowncountToCycles s (downcount s) - ucast cycles),
                downcount := CyclesToDowncount s (ucast cycles)\<rparr>
         else s)"

definition push_event :: "s64 \<Rightarrow> u64 \<Rightarrow> nat \<Rightarrow> ppc \<Rightarrow> ppc" where
  "push_event time userdata event_type s =
     s\<lparr>s_event_queue := push_heap \<lparr>ev_time = time, ev_fifo_order = s_event_fifo_id s,
          ev_userdata = userdata, ev_type = event_type\<rparr> (s_event_queue s),
       s_event_fifo_id := s_event_fifo_id s + 1\<rparr>"

definition ScheduleEvent :: "s64 \<Rightarrow> nat \<Rightarrow> u64 \<Rightarrow> bool \<Rightarrow> ppc \<Rightarrow> ppc" where
  "ScheduleEvent cycles_into_future event_type userdata from_cpu_thread s =
     (if from_cpu_thread then
        (let timeout = GetTicks s + cycles_into_future;
             s = (if \<not> s_is_global_timer_sane s then ForceExceptionCheck cycles_into_future s else s)
         in push_event timeout userdata event_type s)
      else s\<lparr>s_ts_queue := s_ts_queue s @ [\<lparr>ev_time = global_timer s + cycles_into_future,
             ev_fifo_order = 0, ev_userdata = userdata, ev_type = event_type\<rparr>]\<rparr>)"

definition RemoveEvent :: "nat \<Rightarrow> ppc \<Rightarrow> ppc" where
  "RemoveEvent event_type s =
     (let kept = filter (\<lambda>e. ev_type e \<noteq> event_type) (s_event_queue s)
      in if length kept = length (s_event_queue s) then s else s\<lparr>s_event_queue := make_heap kept\<rparr>)"

fun move_events :: "Event list \<Rightarrow> ppc \<Rightarrow> ppc" where
  "move_events [] s = s"
| "move_events (ev # evs) s = move_events evs (push_event (ev_time ev) (ev_userdata ev) (ev_type ev) s)"

definition MoveEvents :: "ppc \<Rightarrow> ppc" where
  "MoveEvents s = move_events (s_ts_queue s) (s\<lparr>s_ts_queue := []\<rparr>)"

definition RemoveAllEvents :: "nat \<Rightarrow> ppc \<Rightarrow> ppc" where
  "RemoveAllEvents event_type s = RemoveEvent event_type (MoveEvents s)"

text \<open>
  The loop that runs the events that are due.  A callback may schedule further events, so the loop
  need not end.
\<close>

type_synonym callbacks = "nat \<Rightarrow> u64 \<Rightarrow> s64 \<Rightarrow> ppc \<Rightarrow> ppc"

partial_function (option) run_events :: "callbacks \<Rightarrow> ppc \<Rightarrow> ppc option" where
  "run_events callback s =
     (case s_event_queue s of
        [] \<Rightarrow> Some s
      | evt # evts \<Rightarrow>
          if sint (ev_time evt) \<le> sint (global_timer s)
          then run_events callback
                 (callback (ev_type evt) (ev_userdata evt) (global_timer s - ev_time evt)
                    (s\<lparr>s_event_queue := evts\<rparr>))
          else Some s)"

definition ProcessFifoWaitEvents :: "callbacks \<Rightarrow> ppc \<Rightarrow> ppc option" where
  "ProcessFifoWaitEvents callback s = run_events callback (MoveEvents s)"

text \<open>\<open>Advance\<close> up to the loop over the events, and behind it.\<close>

definition begin_slice :: "ppc \<Rightarrow> ppc" where
  "begin_slice s =
     (let s = MoveEvents s;
          s = s\<lparr>global_timer := global_timer s + scast (executed_cycles s)\<rparr>
      in s\<lparr>slice_length := MAX_SLICE_LENGTH, s_is_global_timer_sane := True\<rparr>)"

definition end_slice :: "ppc \<Rightarrow> ppc" where
  "end_slice s =
     (let s = s\<lparr>s_is_global_timer_sane := False\<rparr>;
          s = (case s_event_queue s of
                 [] \<Rightarrow> s
               | evt # _ \<Rightarrow>
                   (let left = ev_time evt - global_timer s
                    in s\<lparr>slice_length := ucast (if sint left < sint (scast MAX_SLICE_LENGTH :: s64)
                                               then left else scast MAX_SLICE_LENGTH)\<rparr>));
          s = s\<lparr>downcount := CyclesToDowncount s (slice_length s)\<rparr>
      in CheckExternalExceptions s)"

definition Advance :: "callbacks \<Rightarrow> ppc \<Rightarrow> ppc option" where
  "Advance callback s = map_option end_slice (run_events callback (begin_slice s))"

text \<open>The product wraps in 64 bits; the quotient rounds to zero.\<close>

definition AdjustEventQueueTimes :: "u32 \<Rightarrow> u32 \<Rightarrow> ppc \<Rightarrow> ppc" where
  "AdjustEventQueueTimes new_ppc_clock old_ppc_clock s =
     s\<lparr>s_event_queue := map (\<lambda>ev. ev\<lparr>ev_time := global_timer s
          + word_of_int (sint ((ev_time ev - global_timer s) * ucast new_ppc_clock) sdiv uint old_ppc_clock)\<rparr>)
        (s_event_queue s)\<rparr>"

text \<open>The flush of the GPU queue under \<open>bSyncGPUOnSkipIdleHack\<close> is left out.\<close>

definition Idle :: "ppc \<Rightarrow> ppc" where
  "Idle s = s\<lparr>s_idled_cycles := s_idled_cycles s + scast (DowncountToCycles s (downcount s)), downcount := 0\<rparr>"

end
