(* ===== verification/PPC_Control.thy ===== *)
theory PPC_Control
  imports PPC_Integer PPC_Access PPC_Timing
begin

text \<open>
  The branches of \<open>Core/PowerPC/Interpreter/Interpreter_Branch.cpp\<close> and, from
  \<open>Interpreter_SystemRegisters.cpp\<close>, the instructions on the condition register, the machine
  state register and the segment registers.
\<close>

section \<open>Branches\<close>

definition bx :: "u32 \<Rightarrow> ppc \<Rightarrow> ppc" where
  "bx inst s =
     (let s = (if inst_LK inst then set_spr SPR_LR (pc s + 4) s else s);
          s = (if inst_AA inst then s\<lparr>npc := SignExt26 (push_bit 2 (inst_LI inst))\<rparr>
               else s\<lparr>npc := pc s + SignExt26 (push_bit 2 (inst_LI inst))\<rparr>);
          s = s\<lparr>m_end_block := True\<rparr>
      in if npc s = pc s then Idle s else s)"

text \<open>The counter test of \<open>bcx\<close> and \<open>bclrx\<close>, and the condition test of all three.\<close>

definition ctr_ok :: "u32 \<Rightarrow> ppc \<Rightarrow> bool" where
  "ctr_ok bo s \<longleftrightarrow> drop_bit 2 bo AND 1 \<noteq> 0
     \<or> (of_bool (spr s SPR_CTR \<noteq> 0) XOR drop_bit 1 bo) AND 1 \<noteq> (0 :: u32)"

definition cond_ok :: "u32 \<Rightarrow> nat \<Rightarrow> ppc \<Rightarrow> bool" where
  "cond_ok bo bi s \<longleftrightarrow> drop_bit 4 bo AND 1 \<noteq> 0 \<or> GetCRBit bi s = drop_bit 3 bo AND 1"

definition decrement_ctr :: "u32 \<Rightarrow> ppc \<Rightarrow> ppc" where
  "decrement_ctr bo s = (if bo AND 4 = 0 then set_spr SPR_CTR (spr s SPR_CTR - 1) s else s)"

definition bcx_idle :: "u32 \<Rightarrow> ppc \<Rightarrow> ppc_res" where
  "bcx_idle inst s =
     (if npc s = pc s - 8 \<and> inst = 0x4182fff8 then
        bind_ppc (HostRead_U32 (pc s - 8) s)
          (\<lambda>(v, s). if drop_bit 16 v = 0x800D then
             bind_ppc (HostRead_U32 (pc s - 4) s)
               (\<lambda>(last_inst, s). Inr (if last_inst = 0x28000000 \<or> (last_inst = 0x2C000000 \<and> bWii s)
                  then Idle s else s))
           else Inr s)
      else Inr s)"

definition bcx :: "u32 \<Rightarrow> ppc \<Rightarrow> ppc_res" where
  "bcx inst s =
     (let s = decrement_ctr (inst_BO inst) s;
          s = (if ctr_ok (inst_BO inst) s \<and> cond_ok (inst_BO inst) (inst_BI inst) s then
                 (let s = (if inst_LK inst then set_spr SPR_LR (pc s + 4) s else s)
                  in if inst_AA inst then s\<lparr>npc := SignExt16 (push_bit 2 (inst_BD inst))\<rparr>
                     else s\<lparr>npc := pc s + SignExt16 (push_bit 2 (inst_BD inst))\<rparr>)
               else s);
          s = s\<lparr>m_end_block := True\<rparr>
      in bcx_idle inst s)"

definition bcctrx :: "u32 \<Rightarrow> ppc \<Rightarrow> ppc" where
  "bcctrx inst s =
     (let s = (if cond_ok (inst_BO inst) (inst_BI inst) s then
                 (let s = s\<lparr>npc := spr s SPR_CTR AND NOT 3\<rparr>
                  in if inst_LK inst then set_spr SPR_LR (pc s + 4) s else s)
               else s)
      in s\<lparr>m_end_block := True\<rparr>)"

definition bclrx :: "u32 \<Rightarrow> ppc \<Rightarrow> ppc" where
  "bclrx inst s =
     (let s = decrement_ctr (inst_BO inst) s;
          s = (if ctr_ok (inst_BO inst) s \<and> cond_ok (inst_BO inst) (inst_BI inst) s then
                 (let s = s\<lparr>npc := spr s SPR_LR AND NOT 3\<rparr>
                  in if inst_LK inst then set_spr SPR_LR (pc s + 4) s else s)
               else s)
      in s\<lparr>m_end_block := True\<rparr>)"

definition rfi :: "u32 \<Rightarrow> ppc \<Rightarrow> ppc" where
  "rfi inst s =
     (let m = 0x87C0FFFF;
          s = s\<lparr>msr := (msr s AND NOT m) OR (spr s SPR_SRR1 AND m)\<rparr>;
          s = s\<lparr>msr := msr s AND 0xFFFBFFFF\<rparr>;
          s = s\<lparr>npc := spr s SPR_SRR0\<rparr>
      in s\<lparr>m_end_block := True\<rparr>)"

definition sc :: "u32 \<Rightarrow> ppc \<Rightarrow> ppc" where
  "sc inst s =
     (CheckExceptions (s\<lparr>Exceptions := Exceptions s OR EXCEPTION_SYSCALL\<rparr>))\<lparr>m_end_block := True\<rparr>"

section \<open>Condition register instructions\<close>

definition mcrxr :: "u32 \<Rightarrow> ppc \<Rightarrow> ppc" where
  "mcrxr inst s =
     (let s = SetCRField (inst_CRFD inst) (drop_bit 28 (GetXER s)) s
      in s\<lparr>xer_ca := 0, xer_so_ov := 0\<rparr>)"

definition mfcr :: "u32 \<Rightarrow> ppc \<Rightarrow> ppc" where
  "mfcr inst s = set_gpr (inst_RD inst) (GetCR s) s"

text \<open>The loop that builds the mask of \<open>mtcrf\<close>.\<close>

fun crm_mask :: "nat \<Rightarrow> u32 \<Rightarrow> u32" where
  "crm_mask 0 crm = 0"
| "crm_mask (Suc i) crm =
     (let m = crm_mask i crm
      in if crm AND push_bit i 1 \<noteq> 0 then m OR push_bit (i * 4) 0xF else m)"

definition mtcrf :: "u32 \<Rightarrow> ppc \<Rightarrow> ppc" where
  "mtcrf inst s =
     (let crm = inst_CRM inst
      in if crm = 0xFF then SetCR (gpr s (inst_RS inst)) s
         else (let m = crm_mask 8 crm
               in SetCR ((GetCR s AND NOT m) OR (gpr s (inst_RS inst) AND m)) s))"

definition crand :: "u32 \<Rightarrow> ppc \<Rightarrow> ppc" where
  "crand inst s = SetCRBit (inst_CRBD inst) (GetCRBit (inst_CRBA inst) s AND GetCRBit (inst_CRBB inst) s) s"

definition crandc :: "u32 \<Rightarrow> ppc \<Rightarrow> ppc" where
  "crandc inst s =
     SetCRBit (inst_CRBD inst) (GetCRBit (inst_CRBA inst) s AND (1 XOR GetCRBit (inst_CRBB inst) s)) s"

definition creqv :: "u32 \<Rightarrow> ppc \<Rightarrow> ppc" where
  "creqv inst s =
     SetCRBit (inst_CRBD inst) (1 XOR (GetCRBit (inst_CRBA inst) s XOR GetCRBit (inst_CRBB inst) s)) s"

definition crnand :: "u32 \<Rightarrow> ppc \<Rightarrow> ppc" where
  "crnand inst s =
     SetCRBit (inst_CRBD inst) (1 XOR (GetCRBit (inst_CRBA inst) s AND GetCRBit (inst_CRBB inst) s)) s"

definition crnor :: "u32 \<Rightarrow> ppc \<Rightarrow> ppc" where
  "crnor inst s =
     SetCRBit (inst_CRBD inst) (1 XOR (GetCRBit (inst_CRBA inst) s OR GetCRBit (inst_CRBB inst) s)) s"

definition cror :: "u32 \<Rightarrow> ppc \<Rightarrow> ppc" where
  "cror inst s = SetCRBit (inst_CRBD inst) (GetCRBit (inst_CRBA inst) s OR GetCRBit (inst_CRBB inst) s) s"

definition crorc :: "u32 \<Rightarrow> ppc \<Rightarrow> ppc" where
  "crorc inst s =
     SetCRBit (inst_CRBD inst) (GetCRBit (inst_CRBA inst) s OR (1 XOR GetCRBit (inst_CRBB inst) s)) s"

definition crxor :: "u32 \<Rightarrow> ppc \<Rightarrow> ppc" where
  "crxor inst s = SetCRBit (inst_CRBD inst) (GetCRBit (inst_CRBA inst) s XOR GetCRBit (inst_CRBB inst) s) s"

definition mcrf :: "u32 \<Rightarrow> ppc \<Rightarrow> ppc" where
  "mcrf inst s = SetCRField (inst_CRFD inst) (GetCRField (inst_CRFS inst) s) s"

definition isync :: "u32 \<Rightarrow> ppc \<Rightarrow> ppc" where "isync inst s = s"

section \<open>Machine state and segment registers\<close>

definition mfmsr :: "u32 \<Rightarrow> ppc \<Rightarrow> ppc" where
  "mfmsr inst s = set_gpr (inst_RD inst) (msr s) s"

definition mtmsr :: "u32 \<Rightarrow> ppc \<Rightarrow> ppc" where
  "mtmsr inst s = (CheckExceptions (s\<lparr>msr := gpr s (inst_RS inst)\<rparr>))\<lparr>m_end_block := True\<rparr>"

definition mfsr :: "u32 \<Rightarrow> ppc \<Rightarrow> ppc" where
  "mfsr inst s = set_gpr (inst_RD inst) (sr s (inst_SR inst)) s"

definition sr_index :: "u32 \<Rightarrow> ppc \<Rightarrow> nat" where
  "sr_index inst s = unat (drop_bit 28 (gpr s (inst_RB inst)) AND 0xF)"

definition mfsrin :: "u32 \<Rightarrow> ppc \<Rightarrow> ppc" where
  "mfsrin inst s = set_gpr (inst_RD inst) (sr s (sr_index inst s)) s"

definition SetSR :: "nat \<Rightarrow> u32 \<Rightarrow> ppc \<Rightarrow> ppc" where
  "SetSR index v s = s\<lparr>sr := (sr s)(index := v)\<rparr>"

definition mtsr :: "u32 \<Rightarrow> ppc \<Rightarrow> ppc" where
  "mtsr inst s = SetSR (inst_SR inst) (gpr s (inst_RS inst)) s"

definition mtsrin :: "u32 \<Rightarrow> ppc \<Rightarrow> ppc" where
  "mtsrin inst s = SetSR (sr_index inst s) (gpr s (inst_RS inst)) s"

end
