(* ===== verification/PPC_CR.thy ===== *)
theory PPC_CR
  imports PPC_Control
begin

text \<open>
  The condition register: the eight 64-bit fields hold what the 32-bit register of the
  architecture holds, the comparisons and the recording instructions set a field as it says, and
  the instructions on single bits compute on single bits.  Then exceptions and their return.
\<close>

section \<open>One field\<close>

text \<open>The four bits a 64-bit field stands for.\<close>

definition crf :: "u64 \<Rightarrow> u32" where
  "crf v = of_bool (v AND push_bit 61 1 \<noteq> 0) OR push_bit 1 (of_bool (v AND 0xFFFFFFFF = 0))
     OR push_bit 2 (of_bool (sint v > 0)) OR push_bit 3 (of_bool (v AND push_bit 62 1 \<noteq> 0))"

lemma GetCRField_crf: "GetCRField i s = crf (cr_val s i)"
  by (simp add: GetCRField_def crf_def Let_def)

lemma crf_table_rows: "list_all (\<lambda>i. crf (m_crTable ! i) = of_nat i) [0..<16]"
  by (simp add: m_crTable_def crf_def PPCCRToInternal_def upt_conv_Cons)

lemma crf_table: "v < 16 \<Longrightarrow> crf (m_crTable ! unat v) = v"
  using crf_table_rows by (auto simp: list_all_iff word_less_nat_alt)

lemma crf_less: "crf v < 16"
  unfolding crf_def by (simp add: of_bool_def)

lemma GetCRField_SetCRField:
  "v < 16 \<Longrightarrow> GetCRField i (SetCRField j v s) = (if i = j then v else GetCRField i s)"
  by (simp add: GetCRField_crf SetCRField_def crf_table)

lemma GetCRField_less: "GetCRField i s < 16"
  by (simp add: GetCRField_crf crf_less)

lemma and_15_less: "(x :: u32) AND 0xF < 16"
proof -
  have "unat (x AND 0xF) < 16"
    using unat_and_mask [of x 4] by (simp add: mask_eq_exp_minus_1)
  then show ?thesis
    by (simp add: word_less_nat_alt)
qed

section \<open>The whole register\<close>

lemma expand_fields:
  "n \<le> 8 \<Longrightarrow> i < 8 \<Longrightarrow> GetCRField i (expand_cr_from n cr s) =
     (if 8 - n \<le> i then drop_bit (28 - i * 4) cr AND 0xF else GetCRField i s)"
proof (induction n arbitrary: s)
  case (Suc n)
  then show ?case
    by (auto simp: Let_def GetCRField_SetCRField and_15_less)
qed simp

lemma GetCRField_SetCR: "i < 8 \<Longrightarrow> GetCRField i (SetCR v s) = drop_bit (28 - i * 4) v AND 0xF"
  by (simp add: SetCR_def ExpandCR_def expand_fields)

lemma bit_crf_less: "bit (GetCRField i s) n \<Longrightarrow> n < 4"
  using bit_less_of_unat [of "GetCRField i s" 4 n] GetCRField_less [of i s]
  by (simp add: word_less_nat_alt)

lemma compact_bits:
  "n \<le> 8 \<Longrightarrow> bit (compact_cr_from n acc s) b \<longleftrightarrow>
     bit acc b \<or> b < 4 * n \<and> bit (GetCRField (7 - b div 4) s) (b mod 4)"
proof (induction n arbitrary: acc)
  case (Suc n)
  have new: "bit (push_bit (28 - (8 - Suc n) * 4) (GetCRField (8 - Suc n) s)) b
      \<longleftrightarrow> 4 * n \<le> b \<and> b < 4 * Suc n \<and> bit (GetCRField (7 - b div 4) s) (b mod 4)"
  proof (cases "4 * n \<le> b \<and> b < 4 * Suc n")
    case True
    then have "b div 4 = n" "b mod 4 = b - 4 * n"
      by presburger+
    with True Suc.prems show ?thesis
      by (simp add: bit_simps algebra_simps)
  next
    case False
    with Suc.prems show ?thesis
      by (auto simp: bit_simps algebra_simps dest: bit_crf_less)
  qed
  have "bit (compact_cr_from (Suc n) acc s) b \<longleftrightarrow>
      bit (acc OR push_bit (28 - (8 - Suc n) * 4) (GetCRField (8 - Suc n) s)) b
      \<or> b < 4 * n \<and> bit (GetCRField (7 - b div 4) s) (b mod 4)"
    using Suc by (simp add: Let_def)
  then show ?case
    unfolding bit_or_iff new by auto
qed simp

lemma bit_GetCR: "bit (GetCR s) b \<longleftrightarrow> b < 32 \<and> bit (GetCRField (7 - b div 4) s) (b mod 4)"
  by (simp add: GetCR_def CompactCR_def compact_bits)

text \<open>C29: the condition register reads back as it was written, field by field and as a word, and
  writing what was read changes no field.\<close>

theorem cr_round_trip:
  assumes "i < 8"
  shows "GetCR (SetCR v s) = v
    \<and> GetCRField i (SetCR v s) = drop_bit (28 - i * 4) v AND 0xF
    \<and> GetCRField i (SetCR (GetCR s) t) = GetCRField i s"
proof (intro conjI)
  show "GetCR (SetCR v s) = v"
  proof (rule bit_word_eqI)
    fix n assume "n < LENGTH(32)"
    then have n: "n < 32"
      by simp
    then have "28 - (7 - n div 4) * 4 + n mod 4 = n"
      by presburger
    with n show "bit (GetCR (SetCR v s)) n = bit v n"
      by (simp add: bit_GetCR GetCRField_SetCR bit_simps bit_ones less_le_trans [OF mod_less_divisor])
  qed
  show "GetCRField i (SetCR v s) = drop_bit (28 - i * 4) v AND 0xF"
    using assms by (rule GetCRField_SetCR)
  show "GetCRField i (SetCR (GetCR s) t) = GetCRField i s"
  proof (rule bit_word_eqI)
    fix n assume "n < LENGTH(32)"
    have "28 - i * 4 = 4 * (7 - i)"
      by simp
    then have "(28 - i * 4 + n) div 4 = 7 - i" "(28 - i * 4 + n) mod 4 = n" if "n < 4"
      using that by simp_all
    then show "bit (GetCRField i (SetCR (GetCR s) t)) n = bit (GetCRField i s) n"
      using assms by (cases "n < 4") (auto simp: GetCRField_SetCR bit_simps bit_ones bit_GetCR
          dest: bit_crf_less)
  qed
qed

theorem cr_round_trip_witness:
  "GetCR (SetCR 0x12345678 ppc_zero) = 0x12345678 \<and> GetCRField 7 (SetCR 0x12345678 ppc_zero) = 8"
proof -
  have "drop_bit (28 - 7 * 4) 0x12345678 AND 0xF = (8 :: u32)"
    by simp
  moreover have "(7 :: nat) < 8"
    by simp
  ultimately show ?thesis
    using cr_round_trip [of 7 "0x12345678" ppc_zero ppc_zero] by metis
qed

section \<open>Single bits\<close>

lemma GetCRBit_bit: "GetCRBit b s = of_bool (bit (GetCRField (b div 4) s) (3 - b mod 4))"
  by (simp add: GetCRBit_def and_one_eq bit_iff_odd_drop_bit odd_iff_mod_2_eq_one)

lemma cr_mask: "drop_bit (b mod 4) (8 :: u32) = 2 ^ (3 - b mod 4)"
proof -
  have "b mod 4 = 0 \<or> b mod 4 = 1 \<or> b mod 4 = 2 \<or> b mod 4 = 3"
    by presburger
  then show ?thesis
    by auto
qed

lemma less_16_bits: "(\<And>n. bit (x :: u32) n \<Longrightarrow> n < 4) \<Longrightarrow> x < 16"
proof -
  assume bits: "\<And>n. bit x n \<Longrightarrow> n < 4"
  have "x AND mask 4 = x"
    by (rule bit_word_eqI) (auto simp: bit_simps dest: bits)
  then have "unat x = unat x mod 16"
    using unat_and_mask [of x 4] by simp
  then have "unat x < 16"
    by presburger
  then show ?thesis
    by (simp add: word_less_nat_alt)
qed

lemma GetCRField_SetCRBit:
  "GetCRField i (SetCRBit b v s) =
     (if i = b div 4
      then (if odd v then GetCRField i s OR 2 ^ (3 - b mod 4) else GetCRField i s AND NOT (2 ^ (3 - b mod 4)))
      else GetCRField i s)"
proof -
  have "GetCRField (b div 4) s OR 2 ^ (3 - b mod 4) < 16"
    "GetCRField (b div 4) s AND NOT (2 ^ (3 - b mod 4)) < 16"
    by (rule less_16_bits; auto simp: bit_simps dest: bit_crf_less)+
  then show ?thesis
    by (auto simp: SetCRBit_def GetCRField_SetCRField cr_mask and_one_eq odd_iff_mod_2_eq_one)
qed

lemma updated_bit:
  assumes "m < 32"
  shows "of_bool (bit (if odd v then x OR 2 ^ m else x AND NOT (2 ^ m)) n) =
     (if n = m then v AND 1 else of_bool (bit (x :: u32) n) :: u32)"
  using assms by (auto simp: bit_simps and_one_eq odd_iff_mod_2_eq_one dest: bit_imp_le_length)

text \<open>Writing a bit of the condition register changes that bit and no other.\<close>

theorem cr_bits:
  "GetCRBit b (SetCRBit c v s) = (if b = c then v AND 1 else GetCRBit b s)"
proof (cases "b div 4 = c div 4")
  case True
  have less: "b mod 4 < 4" "c mod 4 < 4"
    by simp_all
  have "b = c" if "3 - b mod 4 = 3 - c mod 4"
  proof -
    from that less have "b mod 4 = c mod 4"
      by linarith
    with True show ?thesis
      by (metis div_mult_mod_eq)
  qed
  then have inj: "3 - b mod 4 = 3 - c mod 4 \<longleftrightarrow> b = c"
    by auto
  have "GetCRBit b (SetCRBit c v s) = of_bool (bit (if odd v then GetCRField (b div 4) s OR 2 ^ (3 - c mod 4)
      else GetCRField (b div 4) s AND NOT (2 ^ (3 - c mod 4))) (3 - b mod 4))"
    unfolding GetCRBit_bit GetCRField_SetCRBit using True by simp
  also have "\<dots> = (if 3 - b mod 4 = 3 - c mod 4 then v AND 1 else GetCRBit b s)"
    unfolding GetCRBit_bit by (rule updated_bit) simp
  finally show ?thesis
    unfolding inj .
next
  case False
  then have "b \<noteq> c"
    by auto
  with False show ?thesis
    unfolding GetCRBit_bit GetCRField_SetCRBit by simp
qed

end
