(* ===== verification/PPC_Bits.thy ===== *)
theory PPC_Bits
  imports PPC_CR
begin

text \<open>
  What the rotate, shift and comparison instructions of the PowerPC compute, bit by bit, in terms of
  the architecture's masks and orders.
\<close>

section \<open>Rotations and masks\<close>

lemma bit_rotate:
  assumes "n < 32" "0 < q" "q < 32"
  shows "bit (push_bit q x OR drop_bit (32 - q) x) n \<longleftrightarrow> bit (x :: u32) ((n + 32 - q) mod 32)"
proof (cases "n < q")
  case True
  then have "(n + 32 - q) mod 32 = 32 - q + n" using assms by simp
  then show ?thesis using True by (simp add: bit_or_iff bit_push_bit_iff bit_drop_bit_eq)
next
  case False
  then have "(n + 32 - q) mod 32 = n - q" using assms by (simp add: mod_if)
  moreover have "\<not> bit x (32 - q + n)" using False bit_imp_le_length [of x] by force
  ultimately show ?thesis
    using False assms(1) by (simp add: bit_or_iff bit_push_bit_iff bit_drop_bit_eq)
qed

lemma bit_rotl: "n < 32 \<Longrightarrow> bit (rotl x k) n \<longleftrightarrow> bit x ((n + 32 - k mod 32) mod 32)"
  using bit_rotate [of n "k mod 32" x] by (simp add: rotl_def Let_def)

text \<open>
  The mask from bit \<open>mb\<close> to bit \<open>me\<close>, bit 0 the most significant, running round the end when
  \<open>mb\<close> is behind \<open>me\<close>.
\<close>

definition in_mask :: "nat \<Rightarrow> nat \<Rightarrow> nat \<Rightarrow> bool" where
  "in_mask mb me n \<longleftrightarrow>
     (let i = 31 - n in if mb \<le> me then mb \<le> i \<and> i \<le> me else mb \<le> i \<or> i \<le> me)"

lemma bit_Helper_Mask:
  assumes "n < 32" "mb < 32" "me < 32"
  shows "bit (Helper_Mask mb me) n \<longleftrightarrow> in_mask mb me n"
proof -
  have ones: "(0xFFFFFFFF :: u32) = mask 32" "(0x7FFFFFFF :: u32) = mask 31"
    by (simp_all add: mask_eq_exp_minus_1)
  have "bit (drop_bit mb 0xFFFFFFFF :: u32) n \<longleftrightarrow> mb + n < 32"
    "bit (drop_bit me 0x7FFFFFFF :: u32) n \<longleftrightarrow> me + n < 31"
    unfolding ones by (auto simp: bit_simps)
  then show ?thesis
    using assms by (auto simp: Helper_Mask_def Let_def in_mask_def bit_simps)
qed

text \<open>What a rotation by \<open>k\<close> leaves at bit \<open>n\<close> of a word whose old contents are \<open>old\<close>.\<close>

definition rotated :: "u32 \<Rightarrow> nat \<Rightarrow> nat \<Rightarrow> bool" where
  "rotated x k n \<longleftrightarrow> bit x ((n + 32 - k mod 32) mod 32)"

lemma gpr_Helper_UpdateCR0 [simp]: "gpr (Helper_UpdateCR0 v s) = gpr s"
  by (simp add: Helper_UpdateCR0_def Let_def)

lemma gpr_record_if [simp]: "gpr (record_if inst v s) = gpr s"
  by (simp add: record_if_def)

lemma inst_mask_less: "inst_MB inst < 32" "inst_ME inst < 32"
  using take_bit_nat_less_exp [of 5] by (simp_all add: inst_MB_def inst_ME_def ifield_def unsigned_take_bit_eq)

text \<open>C20: the rotate instructions.  Bit by bit, \<open>rlwinm\<close> and \<open>rlwnm\<close> rotate left and keep the bits from
  \<open>MB\<close> to \<open>ME\<close>, round the end of the word when \<open>MB\<close> is greater; \<open>rlwimi\<close> keeps the old bits of its
  target outside.  No other register changes.\<close>

theorem rotate_and_mask:
  "(n < 32 \<longrightarrow> bit (gpr (rlwinmx inst s) (inst_RA inst)) n =
      (in_mask (inst_MB inst) (inst_ME inst) n \<and> rotated (gpr s (inst_RS inst)) (inst_SH inst) n))
   \<and> (n < 32 \<longrightarrow> bit (gpr (rlwnmx inst s) (inst_RA inst)) n =
      (in_mask (inst_MB inst) (inst_ME inst) n
       \<and> rotated (gpr s (inst_RS inst)) (unat (gpr s (inst_RB inst))) n))
   \<and> (n < 32 \<longrightarrow> bit (gpr (rlwimix inst s) (inst_RA inst)) n =
      (if in_mask (inst_MB inst) (inst_ME inst) n then rotated (gpr s (inst_RS inst)) (inst_SH inst) n
       else bit (gpr s (inst_RA inst)) n))
   \<and> (\<forall>f \<in> {rlwinmx, rlwnmx, rlwimix}. \<forall>r. r \<noteq> inst_RA inst \<longrightarrow> gpr (f inst s) r = gpr s r)"
proof -
  have "unat (gpr s (inst_RB inst) AND 0x1F) = unat (gpr s (inst_RB inst)) mod 32"
    using unat_and_mask [of "gpr s (inst_RB inst)" 5] by (simp add: mask_eq_exp_minus_1)
  then show ?thesis
    by (auto simp: rlwinmx_def rlwnmx_def rlwimix_def Let_def bit_simps bit_rotl
        bit_Helper_Mask inst_mask_less rotated_def)
qed


theorem rotate_and_mask_witness:
  "bit (gpr (rlwinmx 0x5463403E (ppc_zero\<lparr>gpr := (\<lambda>_. 0)(3 := 1)\<rparr>)) 3) 8"
proof -
  let ?s = "ppc_zero\<lparr>gpr := (\<lambda>_. 0)(3 := 1)\<rparr>"
  have f: "inst_RA 0x5463403E = 3" "inst_RS 0x5463403E = 3" "inst_SH 0x5463403E = 8"
    "inst_MB 0x5463403E = 0" "inst_ME 0x5463403E = 31"
    by (simp_all add: inst_RA_def inst_RS_def inst_SH_def inst_MB_def inst_ME_def ifield_def)
  have "in_mask 0 31 8" "rotated 1 8 8" by (simp_all add: in_mask_def rotated_def)
  then show ?thesis using rotate_and_mask [of 8 "0x5463403E" ?s] unfolding f by simp
qed

section \<open>Shifts\<close>

lemma unat_low_bits: "unat (x AND 0x1F) = unat (x :: u32) mod 32"
  using unat_and_mask [of x 5] by (simp add: mask_eq_exp_minus_1)

lemma bit_5_test: "(x :: u32) AND 0x20 \<noteq> 0 \<longleftrightarrow> bit x 5"
proof -
  have "(0x20 :: u32) = 2 ^ 5" by simp
  then show ?thesis by (metis and_exp_eq_0_iff_not_bit)
qed

lemma shift_amount:
  "unat (x :: u32) mod 64 = (if x AND 0x20 \<noteq> 0 then 32 else 0) + unat (x AND 0x1F)"
proof -
  have "bit x 5 \<longleftrightarrow> odd (unat x div 32)"
    using bit_unsigned_iff [of x 5, where 'a = nat] by (simp add: bit_iff_odd [of "unat x"])
  moreover have "unat x mod 64 = 32 * (unat x div 32 mod 2) + unat x mod 32"
    using mod_mult2_eq [of "unat x" 32 2] by simp
  ultimately show ?thesis unfolding bit_5_test unat_low_bits by (auto simp: odd_iff_mod_2_eq_one)
qed


lemma unat_push_bit: "unat (push_bit a (x :: u32)) = unat x * 2 ^ a mod 2 ^ 32"
proof -
  have "unat (push_bit a x) = take_bit LENGTH(32) (push_bit a (unat x))" by (rule unsigned_push_bit_eq)
  then show ?thesis by (simp add: push_bit_eq_mult take_bit_eq_mod)
qed

lemma low_bits_lost:
  assumes "a < 32"
  shows "push_bit (32 - a) (x :: u32) \<noteq> 0 \<longleftrightarrow> sint x mod 2 ^ a \<noteq> 0"
proof -
  have p: "(2 :: nat) ^ 32 = 2 ^ a * 2 ^ (32 - a)" using assms by (simp only: flip: power_add) simp
  have u: "uint x mod 2 ^ a = int (unat x mod 2 ^ a)" by (simp add: zmod_int)
  have "unat (push_bit (32 - a) x) = unat x * 2 ^ (32 - a) mod (2 ^ a * 2 ^ (32 - a))"
    unfolding unat_push_bit p by (rule refl)
  also have "\<dots> = unat x mod 2 ^ a * 2 ^ (32 - a)" by (rule mod_mult_mult2)
  finally have "push_bit (32 - a) x = 0 \<longleftrightarrow> unat x mod 2 ^ a = 0"
    by (simp add: unat_eq_0 [symmetric] del: push_bit_eq_0_iff)
  also have "\<dots> \<longleftrightarrow> uint x mod 2 ^ a = 0"
    unfolding u by simp
  also have "uint x mod 2 ^ a = sint x mod 2 ^ a"
    using assms take_bit_take_bit [of a 32 "sint x"]
    by (simp add: uint_sint flip: take_bit_eq_mod)
  finally show ?thesis by simp
qed

lemma sint_signed_drop_bit: "sint (signed_drop_bit a (x :: u32)) = sint x div 2 ^ a"
  by (simp add: sint_signed_drop_bit_eq drop_bit_eq_div)


lemma sint_high_div:
  assumes "32 \<le> a"
  shows "sint (x :: u32) div 2 ^ a = (if sint x < 0 then - 1 else 0)" "sint x < 0 \<Longrightarrow> sint x mod 2 ^ a \<noteq> 0"
proof -
  have "(2 :: int) ^ 32 \<le> 2 ^ a" using assms by (rule power_increasing) simp
  then have b: "- (2 ^ a) \<le> sint x" "sint x < 2 ^ a" using sint_greater_eq [of x] sint_lt [of x] by simp_all
  have neg: "sint x div 2 ^ a = - 1" if "sint x < 0"
    using b that by (intro int_div_pos_eq [of _ _ _ "sint x + 2 ^ a"]) auto
  then show "sint x div 2 ^ a = (if sint x < 0 then - 1 else 0)" using b by simp
  show "sint x < 0 \<Longrightarrow> sint x mod 2 ^ a \<noteq> 0"
    using neg b \<open>2 ^ 32 \<le> 2 ^ a\<close> sint_greater_eq [of x] by (simp add: minus_div_mult_eq_mod [symmetric])
qed


lemma xer_ca_record_if [simp]: "xer_ca (record_if inst v s) = xer_ca s"
  by (simp add: record_if_def Helper_UpdateCR0_def Let_def)

lemma sraw_by_value:
  "sint (gpr (sraw_by inst a s) (inst_RA inst)) = sint (gpr s (inst_RS inst)) div 2 ^ a"
  by (simp add: sraw_by_def Let_def set_carry_def SetCarry_def sint_signed_drop_bit)

lemma sraw_by_carry:
  assumes "a < 32"
  shows "xer_ca (sraw_by inst a s) =
    of_bool (sint (gpr s (inst_RS inst)) < 0 \<and> sint (gpr s (inst_RS inst)) mod 2 ^ a \<noteq> 0)"
  using low_bits_lost [OF assms] by (cases "a = 0") (simp_all add: sraw_by_def Let_def set_carry_def SetCarry_def)

lemma sign_bit_test: "(x :: u32) AND 0x80000000 \<noteq> 0 \<longleftrightarrow> sint x < 0"
proof -
  have "(0x80000000 :: u32) = 2 ^ 31" by simp
  moreover have "bit x 31 \<longleftrightarrow> sint x < 0" using bit_last_iff [of x] by simp
  ultimately show ?thesis using and_exp_eq_0_iff_not_bit [of x 31] by simp
qed

lemma unat_drop_bit: "unat (drop_bit a (x :: u32)) = unat x div 2 ^ a"
  by (simp only: unat_drop_bit_eq drop_bit_eq_div [where 'a = nat])

lemma inst_SH_less: "inst_SH inst < 32"
  using take_bit_nat_less_exp [of 5] by (simp add: inst_SH_def ifield_def unsigned_take_bit_eq)

text \<open>The shifts.  \<open>slw\<close> and \<open>srw\<close> multiply and divide the unsigned word by two to the low six bits
  of \<open>rB\<close>; \<open>sraw\<close> and \<open>srawi\<close> divide the signed word, rounding down, and set the carry when the word
  is negative and the division is not exact.\<close>

theorem shifts_correct:
  "let a = unat (gpr s (inst_RB inst)) mod 64; x = gpr s (inst_RS inst); h = inst_SH inst; r = inst_RA inst
   in unat (gpr (slwx inst s) r) = unat x * 2 ^ a mod 2 ^ 32
    \<and> unat (gpr (srwx inst s) r) = unat x div 2 ^ a
    \<and> sint (gpr (srawx inst s) r) = sint x div 2 ^ a
    \<and> xer_ca (srawx inst s) = of_bool (sint x < 0 \<and> sint x mod 2 ^ a \<noteq> 0)
    \<and> sint (gpr (srawix inst s) r) = sint x div 2 ^ h
    \<and> xer_ca (srawix inst s) = of_bool (sint x < 0 \<and> sint x mod 2 ^ h \<noteq> 0)"
proof -
  define a where "a = unat (gpr s (inst_RB inst)) mod 64"
  define x where "x = gpr s (inst_RS inst)"
  let ?b = "gpr s (inst_RB inst)"
  have low: "unat (?b AND 0x1F) < 32" unfolding unat_low_bits by simp
  have fixed: "sint (gpr (srawix inst s) (inst_RA inst)) = sint x div 2 ^ inst_SH inst
    \<and> xer_ca (srawix inst s) = of_bool (sint x < 0 \<and> sint x mod 2 ^ inst_SH inst \<noteq> 0)"
    using sraw_by_carry [OF inst_SH_less] by (simp add: srawix_def Let_def sraw_by_value x_def)
  have "unat (gpr (slwx inst s) (inst_RA inst)) = unat x * 2 ^ a mod 2 ^ 32
    \<and> unat (gpr (srwx inst s) (inst_RA inst)) = unat x div 2 ^ a
    \<and> sint (gpr (srawx inst s) (inst_RA inst)) = sint x div 2 ^ a
    \<and> xer_ca (srawx inst s) = of_bool (sint x < 0 \<and> sint x mod 2 ^ a \<noteq> 0)" (is ?main)
  proof (cases "?b AND 0x20 = 0")
    case True
    then have "a = unat (?b AND 0x1F)" using shift_amount [of ?b] by (simp add: a_def)
    then show ?main
      using True low sraw_by_carry [OF low, of inst s] fixed
      by (simp add: slwx_def srwx_def srawx_def Let_def sraw_by_value x_def unat_push_bit unat_drop_bit
          del: push_bit_eq_mult)
  next
    case False
    then have a: "a = 32 + unat (?b AND 0x1F)" using shift_amount [of ?b] by (simp add: a_def)
    then have ge: "32 \<le> a" by simp
    have "(2 :: nat) ^ 32 dvd 2 ^ a" "(2 :: nat) ^ 32 \<le> 2 ^ a"
      by (rule le_imp_power_dvd [OF ge], rule power_increasing [OF ge]) simp
    then have "unat x * 2 ^ a mod 2 ^ 32 = 0" "unat x div 2 ^ a = 0"
      using unsigned_less [of x, where 'a = nat] by (auto intro: div_less order.strict_trans2)
    then show ?main
      using False fixed sint_high_div [OF ge, of x]
      by (simp add: slwx_def srwx_def srawx_def Let_def SetCarry_def sign_bit_test flip: x_def)
  qed
  then show ?thesis using fixed by (simp only: Let_def a_def x_def)
qed


section \<open>Comparisons\<close>

text \<open>The field of the architecture for two numbers: less, greater, equal, and a copy of \<open>XER[SO]\<close>.\<close>

definition ordering_field :: "int \<Rightarrow> int \<Rightarrow> ppc \<Rightarrow> u32" where
  "ordering_field x y s =
     (if x < y then 8 else if x > y then 4 else 2) + (if GetXER_SO s \<noteq> 0 then 1 else 0)"

lemma compare_flags_field: "compare_flags (x < y) (x > y) s = ordering_field x y s"
  by (simp add: compare_flags_def ordering_field_def Let_def)

lemma ordering_field_less: "ordering_field x y s < 16"
  by (simp add: ordering_field_def)

lemma compare_field: "GetCRField i (SetCRField j (compare_flags (x < y) (x > y) s) s) =
    (if i = j then ordering_field x y s else GetCRField i s)"
  unfolding compare_flags_field by (rule GetCRField_SetCRField [OF ordering_field_less])

text \<open>The 64-bit value \<open>Helper_UpdateCR0\<close> makes of a word and \<open>XER[SO]\<close>.\<close>

definition signed_cr :: "u32 \<Rightarrow> u64 \<Rightarrow> u64" where
  "signed_cr v so = ((scast v :: s64) AND NOT (push_bit 61 1)) OR push_bit 61 so"

lemma bit_signed_cr:
  assumes "so \<le> 1"
  shows "bit (signed_cr v so) n \<longleftrightarrow>
    (if n = 61 then so = 1 else n < 64 \<and> bit v (if n < 32 then n else 31))"
proof -
  have "so = 0 \<or> so = 1"
  proof -
    have "uint so \<le> 1" using assms by (simp add: word_le_def)
    moreover have "0 \<le> uint so" by simp
    ultimately have "uint so = 0 \<or> uint so = 1" by linarith
    then show ?thesis by (simp add: word_uint_eq_iff)
  qed
  then have "bit (push_bit 61 so) n \<longleftrightarrow> n = 61 \<and> so = 1"
    by (auto simp: bit_push_bit_iff bit_1_iff)
  moreover have "bit (NOT (push_bit 61 1) :: u64) n \<longleftrightarrow> n < 64 \<and> n \<noteq> 61"
    unfolding bit_not_iff bit_push_bit_iff bit_1_iff by auto
  moreover have "bit (scast v :: s64) n \<longleftrightarrow> n < 64 \<and> bit v (if n < 32 then n else 31)"
    by (cases "n = 31") (auto simp: bit_signed_iff min_def)
  ultimately show ?thesis
    unfolding signed_cr_def bit_or_iff bit_and_iff by auto
qed

lemma bit_test: "(w :: u64) AND push_bit n 1 \<noteq> 0 \<longleftrightarrow> bit w n"
  using and_exp_eq_0_iff_not_bit [of w n] by (simp add: push_bit_eq_mult)

lemma crf_signed_cr:
  assumes "so \<le> 1"
  shows "crf (signed_cr v so) =
    (if sint v < 0 then 8 else if sint v > 0 \<or> so = 1 then 4 else 0) + (if v = 0 then 2 else 0)
    + (if so = 1 then 1 else 0)"
proof -
  let ?w = "signed_cr v so"
  have sign: "bit v 31 \<longleftrightarrow> sint v < 0" using bit_last_iff [of v] by simp
  have m: "(0xFFFFFFFF :: u64) = mask 32" by (simp add: mask_eq_exp_minus_1)
  have zero: "?w AND 0xFFFFFFFF = 0 \<longleftrightarrow> v = 0"
    unfolding m bit_eq_iff [of _ 0] by (auto simp: bit_and_iff bit_mask_iff bit_signed_cr [OF assms] dest: bit_imp_le_length)
  have "sint ?w < 0 \<longleftrightarrow> sint v < 0"
    using bit_last_iff [of ?w] by (simp add: bit_signed_cr [OF assms] sign)
  moreover have "?w = 0 \<longleftrightarrow> v = 0 \<and> so \<noteq> 1"
  proof
    assume w: "?w = 0"
    then have "bit v n \<Longrightarrow> False" for n
      using bit_signed_cr [OF assms, of v n] bit_imp_le_length [of v n] by simp
    moreover have "so \<noteq> 1" using w bit_signed_cr [OF assms, of v 61] by simp
    ultimately show "v = 0 \<and> so \<noteq> 1" by (auto simp: bit_eq_iff)
  next
    assume "v = 0 \<and> so \<noteq> 1"
    then show "?w = 0" by (simp add: bit_eq_iff bit_signed_cr [OF assms])
  qed
  ultimately have pos: "sint ?w > 0 \<longleftrightarrow> \<not> sint v < 0 \<and> (v \<noteq> 0 \<or> so = 1)"
    by (metis linorder_neqE_linordered_idom order_less_asym' signed_0 signed_word_eqI)
  have "v = 0 \<longleftrightarrow> sint v = 0" by (metis signed_0 signed_word_eqI)
  then show ?thesis
    unfolding crf_def bit_test zero pos by (auto simp: bit_signed_cr [OF assms] sign)
qed

lemma GetXER_SO_bool: "xer_so_ov s < 4 \<Longrightarrow> (ucast (GetXER_SO s) :: u64) \<le> 1
    \<and> ((ucast (GetXER_SO s) :: u64) = 1 \<longleftrightarrow> GetXER_SO s \<noteq> 0)"
proof -
  assume "xer_so_ov s < 4"
  then have "unat (xer_so_ov s) < 4" by (simp add: word_less_nat_alt)
  then have "xer_so_ov s = 0 \<or> xer_so_ov s = 1 \<or> xer_so_ov s = 2 \<or> xer_so_ov s = 3"
    by (auto simp: word_unat_eq_iff)
  then show ?thesis by (auto simp: GetXER_SO_def)
qed

lemma record_field:
  assumes "xer_so_ov s < 4"
  shows "GetCRField 0 (Helper_UpdateCR0 v s) =
    ordering_field (sint v) 0 s OR (if v = 0 \<and> GetXER_SO s \<noteq> 0 then 4 else 0)"
proof -
  have "v = 0 \<longleftrightarrow> sint v = 0" by (metis signed_0 signed_word_eqI)
  then show ?thesis
    using crf_signed_cr [of "ucast (GetXER_SO s)" v] GetXER_SO_bool [OF assms]
    by (auto simp: GetCRField_crf Helper_UpdateCR0_def Let_def signed_cr_def ordering_field_def)
qed

text \<open>C21: the comparisons set their field to the order of their operands, signed or unsigned, with a copy
  of \<open>XER[SO]\<close>, and no other field.  A recorded result sets \<open>CR0\<close> to its order against 0 in the same way,
  except that a zero with \<open>XER[SO]\<close> set counts as greater too.\<close>

theorem comparisons:
  assumes "xer_so_ov s < 4"
  shows "GetCRField i (cmp inst s) = (if i = inst_CRFD inst
      then ordering_field (sint (gpr s (inst_RA inst))) (sint (gpr s (inst_RB inst))) s else GetCRField i s)
    \<and> GetCRField i (cmpi inst s) = (if i = inst_CRFD inst
      then ordering_field (sint (gpr s (inst_RA inst))) (sint (inst_SIMM_16 inst)) s else GetCRField i s)
    \<and> GetCRField i (cmpl inst s) = (if i = inst_CRFD inst
      then ordering_field (uint (gpr s (inst_RA inst))) (uint (gpr s (inst_RB inst))) s else GetCRField i s)
    \<and> GetCRField i (cmpli inst s) = (if i = inst_CRFD inst
      then ordering_field (uint (gpr s (inst_RA inst))) (uint (inst_UIMM inst)) s else GetCRField i s)
    \<and> GetCRField i (Helper_UpdateCR0 v s) = (if i = 0
      then ordering_field (sint v) 0 s OR (if v = 0 \<and> GetXER_SO s \<noteq> 0 then 4 else 0) else GetCRField i s)"
  using compare_field [of i] record_field [OF assms, of v]
  by (auto simp: cmp_def cmpi_def cmpl_def cmpli_def Let_def word_less_def GetCRField_crf Helper_UpdateCR0_def)

theorem comparisons_witness:
  "GetCRField 0 (Helper_UpdateCR0 0 (ppc_zero\<lparr>xer_so_ov := 2\<rparr>)) = 7"
  using comparisons [of "ppc_zero\<lparr>xer_so_ov := 2\<rparr>" 0 0 0] by (simp add: ordering_field_def GetXER_SO_def)

end
