(* ===== verification/PPC_Return.thy ===== *)
theory PPC_Return
  imports PPC_Control
begin

text \<open>
  The exceptions of the PowerPC as a table of priorities, the state in which a handler starts, bit by
  bit, and the return from it.
\<close>

section \<open>The table\<close>



















end
