(* ===== verification/PPC_Bytes.thy ===== *)
theory PPC_Bytes
  imports PPC_Memory
begin

text \<open>
  Laws of the byte arrays behind the emulated memory: what a big endian read returns after a write to
  the same place, and after a write to another.
\<close>

section \<open>Reads and writes of byte arrays\<close>

lemma read_be_0 [simp]: "read_be 0 m off = 0"
  by (simp add: read_be_def)

lemma read_be_Suc: "read_be (Suc n) m off = push_bit 8 (read_be n m off) OR ucast (m (off + n))"
  by (simp add: read_be_def)

lemma bit_read_be:
  "n \<le> 8 \<Longrightarrow> bit (read_be n m off) i \<longleftrightarrow> i < 8 * n \<and> bit (m (off + (n - 1 - i div 8))) (i mod 8)"
proof (induction n arbitrary: i)
  case (Suc n)
  show ?case
  proof (cases "i < 8")
    case True
    then show ?thesis using Suc.prems by (auto simp: read_be_Suc bit_simps)
  next
    case False
    then have i: "(i - 8) div 8 = i div 8 - 1" "(i - 8) mod 8 = i mod 8" "i div 8 \<ge> 1"
      by (auto simp: le_div_geq le_mod_geq)
    have b: "\<not> bit (m (off + n)) i"
      using False by (auto dest: bit_imp_le_length)
    have IH: "bit (read_be n m off) (i - 8) \<longleftrightarrow> i - 8 < 8 * n \<and> bit (m (off + (n - i div 8))) (i mod 8)"
      using Suc.IH [of "i - 8"] Suc.prems i by simp
    have "bit (read_be (Suc n) m off) i \<longleftrightarrow> i < 64 \<and> bit (read_be n m off) (i - 8)"
      using False b by (simp add: read_be_Suc bit_or_iff bit_push_bit_iff bit_ucast_iff)
    then show ?thesis
      using False Suc.prems unfolding IH by auto
  qed
qed simp

lemma read_write_be [simp]: "n \<le> 8 \<Longrightarrow> read_be n (write_be n v off m) off = take_bit (8 * n) v"
  by (rule bit_word_eqI)
     (auto simp: bit_read_be bit_take_bit_iff write_be_def bit_ucast_iff bit_drop_bit_eq less_mult_imp_div_less)

lemma read_be_cong:
  "(\<And>i. off \<le> i \<Longrightarrow> i < off + n \<Longrightarrow> m i = m' i) \<Longrightarrow> read_be n m off = read_be n m' off"
  unfolding read_be_def by (rule foldl_cong) auto

lemma read_write_be_other:
  "off + n \<le> off' \<or> off' + k \<le> off \<Longrightarrow> read_be n (write_be k v off' m) off = read_be n m off"
  by (rule read_be_cong) (auto simp: write_be_def)

lemma read_be_less: "n \<le> 8 \<Longrightarrow> take_bit (8 * n) (read_be n m off) = read_be n m off"
  by (rule bit_word_eqI) (auto simp: bit_take_bit_iff bit_read_be)

lemma read_be_byte: "read_be (Suc 0) m off = ucast (m off)"
  by (simp add: read_be_Suc)

section \<open>Reads and writes of the memories\<close>

lemma bank_size_simps: "bank_size Ram = 0x2000000" "bank_size L1Cache = 0x40000" "bank_size FakeVMEM = 0x2000000"
  "bank_size Exram = 0x4000000"
  by (simp_all add: size_defs)

lemma store_bank_Inr:
  "store_bank n v b off s = Inr s' \<longleftrightarrow>
     off + n \<le> bank_size b \<and> s' = set_ram b (write_be n v off (ram s b)) s"
  by (auto simp: store_bank_def)

lemma store_bank_frame:
  assumes "store_bank n v b off s = Inr s'"
  shows "ram s' = (ram s)(b := write_be n v off (ram s b))" "has_exram s' = has_exram s"
    "has_fakevmem s' = has_fakevmem s" "msr s' = msr s" "sr s' = sr s" "tlb s' = tlb s"
    "pagetable_base s' = pagetable_base s" "pagetable_hashmask s' = pagetable_hashmask s"
    "dbat_table s' = dbat_table s" "gpr s' = gpr s" "Exceptions s' = Exceptions s"
    "memcheck_pause s' = memcheck_pause s"
  using assms by (auto simp: store_bank_Inr set_ram_def)

lemma load_store_bank:
  assumes "store_bank n v b off s = Inr s'" "n \<le> 8"
  shows "load_bank n b off s' = Inr (take_bit (8 * n) v)"
  using assms by (auto simp: load_bank_def store_bank_Inr set_ram_def)

lemma load_store_bank_other:
  assumes "store_bank n v b off s = Inr s'" "b \<noteq> b' \<or> off' + k \<le> off \<or> off + n \<le> off'"
  shows "load_bank k b' off' s' = load_bank k b' off' s"
  using assms by (auto simp: load_bank_def store_bank_Inr set_ram_def read_write_be_other)

lemma store_load_bank: "(\<exists>s'. store_bank n v b off s = Inr s') \<longleftrightarrow> (\<exists>w. load_bank n b off s = Inr w)"
  by (simp add: load_bank_def store_bank_def)

end
