(* ===== verification/PPC_TLB.thy ===== *)
theory PPC_TLB
  imports PPC_MMU PPC_Bytes
begin

text \<open>
  Page translation: the specification walks the page table in memory for every access; the code keeps
  the results in translation buffers.  The buffers are invisible as long as they agree with the table,
  and every translation keeps them in agreement.
\<close>

section \<open>Words of the page table\<close>

lemma bit_swap16: "bit (swap16 v) n \<longleftrightarrow> n < 16 \<and> (if n < 8 then bit v (n + 8) else bit v (n - 8))"
  by (auto simp: swap16_def bit_or_iff bit_push_bit_iff bit_drop_bit_eq add.commute dest: bit_imp_le_length)

lemma bit_swap32: "bit (swap32 v) n \<longleftrightarrow> n < 32 \<and>
    (if n < 8 then bit v (n + 24) else if n < 16 then bit v (n + 8)
     else if n < 24 then bit v (n - 8) else bit v (n - 24))"
proof -
  have "bit (swap32 v) n \<longleftrightarrow> n < 32 \<and>
      (if n < 16 then bit (swap16 (ucast (drop_bit 16 v))) n else bit (swap16 (ucast v)) (n - 16))"
    by (auto simp: swap32_def bit_or_iff bit_push_bit_iff bit_ucast_iff dest: bit_imp_le_length)
  then show ?thesis
    by (auto simp: bit_swap16 bit_ucast_iff bit_drop_bit_eq add.commute diff_diff_left)
qed

lemma swap32_swap32 [simp]: "swap32 (swap32 v) = v"
  by (rule bit_word_eqI) (auto simp: bit_swap32)

lemma swap32_or: "swap32 (a OR b) = swap32 a OR swap32 b"
  by (rule bit_word_eqI) (auto simp: bit_swap32 bit_or_iff)

fun bank_base :: "bank \<Rightarrow> u32" where
  "bank_base Ram = 0"
| "bank_base L1Cache = 0xE0000000"
| "bank_base FakeVMEM = 0x7E000000"
| "bank_base Exram = 0x10000000"

lemma phys_bank_offset: "phys_bank a s = Some (b, off) \<Longrightarrow> off = unat (a - bank_base b)"
  by (auto simp: phys_bank_def split: if_splits)

lemma and_mask_eq_0_iff: "a AND mask k = 0 \<longleftrightarrow> uint a mod 2 ^ k = 0"
proof -
  have "a AND mask k = 0 \<longleftrightarrow> uint (take_bit k a) = 0" by (simp only: take_bit_eq_mask uint_0_iff)
  also have "uint (take_bit k a) = uint a mod 2 ^ k"
    by (simp only: unsigned_take_bit_eq) (simp only: take_bit_eq_mod)
  finally show ?thesis .
qed

lemma and_low_bits:
  "(a :: u32) AND 3 = 0 \<longleftrightarrow> uint a mod 4 = 0" "(a :: u32) AND 7 = 0 \<longleftrightarrow> uint a mod 8 = 0"
  using and_mask_eq_0_iff [of a 2] and_mask_eq_0_iff [of a 3] by (simp_all add: mask_eq_exp_minus_1)

lemma aligned_offset:
  assumes "a AND 3 = 0"
  shows "unat (a - bank_base b) mod 4 = 0"
proof -
  have "uint (bank_base b) mod 4 = 0" by (cases b) simp_all
  with assms have "uint (a - bank_base b) mod 4 = 0"
    unfolding and_low_bits uint_sub_if_size word_size
    by (simp add: mod_diff_eq [symmetric] mod_add_eq [symmetric])
  then show ?thesis by (metis nat_mod_as_int of_nat_numeral uint_nat nat_0 of_nat_0)
qed

lemma phys_bank_cong: "has_exram s' = has_exram s \<Longrightarrow> has_fakevmem s' = has_fakevmem s \<Longrightarrow> phys_bank a s' = phys_bank a s"
  by (simp add: phys_bank_def)

lemma load_store_phys:
  assumes "store_phys v a s = Inr s'"
  shows "load_phys a s' = Inr v"
proof -
  obtain b off where p: "phys_bank a s = Some (b, off)" and st: "store_bank 4 (ucast (swap32 v)) b off s = Inr s'"
    using assms by (auto simp: store_phys_def split: option.splits)
  have "phys_bank a s' = Some (b, off)"
    using p phys_bank_cong [OF store_bank_frame(2,3) [OF st]] by simp
  moreover have "ucast (take_bit 32 (ucast (swap32 v) :: u64)) = swap32 v"
    by (rule bit_word_eqI) (simp add: bit_ucast_iff bit_take_bit_iff)
  ultimately show ?thesis
    by (simp add: load_phys_def load_store_bank [OF st])
qed

lemma load_store_phys_other:
  assumes "store_phys v a s = Inr s'" "a AND 3 = 0" "a' AND 3 = 0" "a' \<noteq> a"
  shows "load_phys a' s' = load_phys a' s"
proof -
  obtain b off where p: "phys_bank a s = Some (b, off)" and st: "store_bank 4 (ucast (swap32 v)) b off s = Inr s'"
    using assms by (auto simp: store_phys_def split: option.splits)
  have same: "phys_bank a' s' = phys_bank a' s"
    by (rule phys_bank_cong [OF store_bank_frame(2,3) [OF st]])
  have "load_bank 4 b' off' s' = load_bank 4 b' off' s" if p': "phys_bank a' s = Some (b', off')" for b' off'
  proof (rule load_store_bank_other [OF st])
    have o: "off = unat (a - bank_base b)" "off' = unat (a' - bank_base b')"
      using p p' by (simp_all add: phys_bank_offset)
    have al: "off mod 4 = 0" "off' mod 4 = 0"
      using assms(2,3) by (simp_all add: o aligned_offset)
    show "b \<noteq> b' \<or> off' + 4 \<le> off \<or> off + 4 \<le> off'"
    proof (cases "b = b'")
      case True
      then have "off \<noteq> off'" using assms(4) by (auto simp: o word_unat_eq_iff [symmetric])
      then show ?thesis using al by presburger
    qed simp
  qed
  then show ?thesis by (simp add: load_phys_def same split: option.split)
qed

lemma store_phys_after_load:
  assumes "load_phys a s = Inr w"
  obtains s' where "store_phys v a s = Inr s'"
  using assms
  by (auto simp: load_phys_def store_phys_def load_bank_def store_bank_def split: option.splits if_splits)

lemma store_phys_frame:
  assumes "store_phys v a s = Inr s'"
  shows "has_exram s' = has_exram s" "has_fakevmem s' = has_fakevmem s" "sr s' = sr s" "tlb s' = tlb s"
    "pagetable_base s' = pagetable_base s" "pagetable_hashmask s' = pagetable_hashmask s"
  using assms by (auto simp: store_phys_def store_bank_frame split: option.splits)

section \<open>The walk\<close>

text \<open>The frame of a page, found when nothing is cached, and the address in it.\<close>

definition walk_frame :: "XCheckTLBFlag \<Rightarrow> u32 \<Rightarrow> ppc \<Rightarrow> ppc_fault + TranslateAddressResult" where
  "walk_frame flag a s =
     (if sr s (EA_SR a) AND 0x80000000 \<noteq> 0 then Inr (DIRECT_STORE_SEGMENT, 0)
      else if IsOpcodeFlag flag \<and> sr s (EA_SR a) AND 0x10000000 \<noteq> 0 then Inr (PAGE_FAULT, 0)
      else bind_ppc (find_pte a s)
        (\<lambda>r. case r of None \<Rightarrow> Inr (PAGE_FAULT, 0)
           | Some p \<Rightarrow> bind_ppc (load_phys (p + 4) s)
               (\<lambda>raw. Inr (PAGE_TABLE_TRANSLATED, push_bit 12 (PTE2_RPN (swap32 raw))))))"

definition walk_page :: "XCheckTLBFlag \<Rightarrow> u32 \<Rightarrow> ppc \<Rightarrow> ppc_fault + TranslateAddressResult" where
  "walk_page flag a s =
     bind_ppc (walk_frame flag a s)
       (\<lambda>(k, p). Inr (k, if k = PAGE_TABLE_TRANSLATED then p OR EA_Offset a else p))"

definition pagetable_aligned :: "ppc \<Rightarrow> bool" where
  "pagetable_aligned s \<longleftrightarrow> pagetable_base s AND 0xFFFF = 0"

text \<open>The state components the walk reads, but for the second words of the entries.\<close>

definition same_tables :: "ppc \<Rightarrow> ppc \<Rightarrow> bool" where
  "same_tables s s' \<longleftrightarrow> sr s' = sr s \<and> pagetable_base s' = pagetable_base s
     \<and> pagetable_hashmask s' = pagetable_hashmask s
     \<and> (\<forall>a. a AND 7 = 0 \<longrightarrow> load_phys a s' = load_phys a s)"

lemma and_7_add_8: "(a :: u32) AND 7 = 0 \<Longrightarrow> (a + 8) AND 7 = 0"
  unfolding and_low_bits uint_plus_if_size word_size by (auto; presburger)

lemma and_7_add_4: "(a :: u32) AND 7 = 0 \<Longrightarrow> (a + 4) AND 3 = 0" "(a :: u32) AND 7 = 0 \<Longrightarrow> (a + 4) AND 7 \<noteq> 0"
  unfolding and_low_bits uint_plus_if_size word_size by (auto; presburger)+

lemma and_7_and_3: "(a :: u32) AND 7 = 0 \<Longrightarrow> a AND 3 = 0"
  unfolding and_low_bits by presburger

lemma search_pteg_same:
  "same_tables s s' \<Longrightarrow> a AND 7 = 0 \<Longrightarrow> search_pteg n a pte1 s' = search_pteg n a pte1 s"
  by (induction n arbitrary: a) (auto simp: same_tables_def and_7_add_8 intro!: arg_cong [of _ _ "bind_ppc _"])

lemma search_pteg_aligned: "search_pteg n a pte1 s = Inr (Some p) \<Longrightarrow> a AND 7 = 0 \<Longrightarrow> p AND 7 = 0"
  by (induction n arbitrary: a) (auto simp: bind_ppc_Inr and_7_add_8 split: if_splits)

lemma pteg_address_aligned:
  assumes "pagetable_aligned s"
  shows "pteg_address h s AND 7 = 0"
proof -
  have b: "\<not> bit (pagetable_base s) n" if "n < 3" for n
    using arg_cong [OF assms [unfolded pagetable_aligned_def], of "\<lambda>w. bit w n"] that
    by (simp add: bit_and_iff bit_ones)
  show ?thesis
    using b by (intro bit_word_eqI) (auto simp: pteg_address_def bit_simps bit_ones)
qed

lemma find_pte_same:
  assumes "same_tables s s'" "pagetable_aligned s"
  shows "find_pte a s' = find_pte a s"
proof -
  have "pteg_address h s' = pteg_address h s" for h
    using assms(1) by (simp add: pteg_address_def same_tables_def)
  then show ?thesis
    using assms search_pteg_same [OF assms(1) pteg_address_aligned [OF assms(2)]]
    by (simp add: find_pte_def Let_def same_tables_def)
qed

lemma find_pte_aligned:
  assumes "find_pte a s = Inr (Some p)" "pagetable_aligned s"
  shows "p AND 7 = 0"
  using assms search_pteg_aligned [OF _ pteg_address_aligned [OF assms(2)]]
  by (force simp: find_pte_def Let_def bind_ppc_Inr split: option.splits)

section \<open>Agreement of the buffers\<close>

text \<open>Every valid way of the buffers holds what the walk gives for its page.\<close>

definition tlb_coherent :: "ppc \<Rightarrow> bool" where
  "tlb_coherent s \<longleftrightarrow> (\<forall>flag a. \<forall>w<2.
     tlb_tag (tlb s (tlb_select flag) (tlb_set (drop_bit 12 a))) w = drop_bit 12 a \<longrightarrow>
     walk_frame flag a s = Inr (PAGE_TABLE_TRANSLATED,
       tlb_paddr (tlb s (tlb_select flag) (tlb_set (drop_bit 12 a))) w))"

text \<open>The walk depends on the page, but for the offset it keeps.\<close>

lemma same_page:
  assumes "drop_bit 12 a = drop_bit 12 (a' :: u32)"
  shows "EA_SR a = EA_SR a'" "EA_PageIndex a = EA_PageIndex a'" "EA_API a = EA_API a'"
    "find_pte a s = find_pte a' s"
proof -
  have d: "drop_bit (k + 12) a = drop_bit (k + 12) a'" for k
    using arg_cong [OF assms, of "drop_bit k"] by (simp only: drop_bit_drop_bit)
  show "EA_SR a = EA_SR a'" "EA_PageIndex a = EA_PageIndex a'" "EA_API a = EA_API a'"
    using d [of 16] d [of 0] d [of 10] by (simp_all add: EA_SR_def EA_PageIndex_def EA_API_def)
  then show "find_pte a s = find_pte a' s"
    by (simp add: find_pte_def)
qed

lemma walk_same_page:
  assumes "drop_bit 12 a = drop_bit 12 (a' :: u32)" "IsOpcodeFlag flag = IsOpcodeFlag flag'"
  shows "walk_frame flag a s = walk_frame flag' a' s"
  using assms(2) same_page [OF assms(1)] by (simp add: walk_frame_def)

text \<open>Only the recency and the flags of a way change: a hit, or a first write to the page.\<close>

lemma set_tlb_walk [simp]:
  "load_phys a (set_tlb k i e s) = load_phys a s"
  "search_pteg n a p (set_tlb k i e s) = search_pteg n a p s"
  "find_pte a (set_tlb k i e s) = find_pte a s"
  "walk_frame flag a (set_tlb k i e s) = walk_frame flag a s"
  "pagetable_aligned (set_tlb k i e s) = pagetable_aligned s"
  "sr (set_tlb k i e s) = sr s"
proof -
  show l: "load_phys a (set_tlb k i e s) = load_phys a s" for a
    by (simp add: load_phys_def set_tlb_def phys_bank_def load_bank_def)
  show "search_pteg n a p (set_tlb k i e s) = search_pteg n a p s" for n a p
    by (induction n arbitrary: a) (simp_all add: l cong: if_cong)
  then show f: "find_pte a (set_tlb k i e s) = find_pte a s" for a
    by (simp add: find_pte_def set_tlb_def pteg_address_def)
  show sr: "sr (set_tlb k i e s) = sr s" and "pagetable_aligned (set_tlb k i e s) = pagetable_aligned s"
    by (simp_all add: pagetable_aligned_def set_tlb_def)
  show "walk_frame flag a (set_tlb k i e s) = walk_frame flag a s"
    by (simp only: walk_frame_def f l sr)
qed

lemma tlb_set_tlb: "tlb (set_tlb k i e s) k' i' = (if k' = k \<and> i' = i then e else tlb s k' i')"
  by (simp add: set_tlb_def)

lemma coherent_same_entry:
  assumes "tlb_coherent s" "tlb_tag e = tlb_tag (tlb s k i)" "tlb_paddr e = tlb_paddr (tlb s k i)"
  shows "tlb_coherent (set_tlb k i e s)"
  using assms by (auto simp: tlb_coherent_def tlb_set_tlb)

lemma lookup_way_entry:
  "lookup_way flag a w e = (r, e') \<Longrightarrow> tlb_tag e' = tlb_tag e \<and> tlb_paddr e' = tlb_paddr e"
  by (auto simp: lookup_way_def split: if_splits)

lemma lookup_cases:
  assumes "LookupTLBPageAddress flag a s = ((res, p), s')"
  obtains (miss) "res = NotFound" "s' = s"
  | (way) w e where "w < 2" "tlb_tag (tlb s (tlb_select flag) (tlb_set (drop_bit 12 a))) w = drop_bit 12 a"
      "lookup_way flag a w (tlb s (tlb_select flag) (tlb_set (drop_bit 12 a))) = ((res, p), e)"
      "s' = set_tlb (tlb_select flag) (tlb_set (drop_bit 12 a)) e s"
proof -
  let ?k = "tlb_select flag" and ?i = "tlb_set (drop_bit 12 a)"
  have hit: thesis if "w < 2" "tlb_tag (tlb s ?k ?i) w = drop_bit 12 a"
      "LookupTLBPageAddress flag a s =
         (fst (lookup_way flag a w (tlb s ?k ?i)), set_tlb ?k ?i (snd (lookup_way flag a w (tlb s ?k ?i))) s)" for w
    using that(3) assms by (intro way [OF that(1,2)]) (simp_all add: prod_eq_iff)
  consider "tlb_tag (tlb s ?k ?i) 0 = drop_bit 12 a"
    | "tlb_tag (tlb s ?k ?i) 0 \<noteq> drop_bit 12 a" "tlb_tag (tlb s ?k ?i) 1 = drop_bit 12 a"
    | "tlb_tag (tlb s ?k ?i) 0 \<noteq> drop_bit 12 a" "tlb_tag (tlb s ?k ?i) 1 \<noteq> drop_bit 12 a"
    by blast
  then show thesis
  proof cases
    case 1
    then show ?thesis by (intro hit [of 0]) (simp_all add: LookupTLBPageAddress_def Let_def split_beta)
  next
    case 2
    then show ?thesis by (intro hit [of 1]) (simp_all add: LookupTLBPageAddress_def Let_def split_beta)
  next
    case 3
    then show ?thesis using assms by (intro miss) (simp_all add: LookupTLBPageAddress_def Let_def)
  qed
qed

lemma lookup_hit:
  assumes "tlb_coherent s" "LookupTLBPageAddress flag a s = ((Found, p), s')"
  shows "walk_page flag a s = Inr (PAGE_TABLE_TRANSLATED, p)"
  using assms(2)
proof (cases rule: lookup_cases)
  case (way w e)
  then have "p = tlb_paddr (tlb s (tlb_select flag) (tlb_set (drop_bit 12 a))) w OR (a AND 0xFFF)"
    by (auto simp: lookup_way_def split: if_splits)
  then show ?thesis
    using assms(1) way(1,2) by (simp add: tlb_coherent_def walk_page_def EA_Offset_def)
qed simp

text \<open>Lookups leave alone what the walk reads.\<close>

definition same_walk :: "ppc \<Rightarrow> ppc \<Rightarrow> bool" where
  "same_walk s s' \<longleftrightarrow> (\<forall>flag a. walk_frame flag a s' = walk_frame flag a s)
     \<and> pagetable_aligned s' = pagetable_aligned s"

lemma lookup_coherent:
  assumes "tlb_coherent s" "LookupTLBPageAddress flag a s = ((res, p), s')"
  shows "tlb_coherent s' \<and> same_walk s s' \<and> sr s' = sr s \<and> find_pte b s' = find_pte b s
    \<and> load_phys c s' = load_phys c s"
  using assms(2)
proof (cases rule: lookup_cases)
  case (way w e)
  have e: "tlb_tag e = tlb_tag (tlb s (tlb_select flag) (tlb_set (drop_bit 12 a)))"
    "tlb_paddr e = tlb_paddr (tlb s (tlb_select flag) (tlb_set (drop_bit 12 a)))"
    using lookup_way_entry [OF way(3)] by simp_all
  show ?thesis
    unfolding way(4) using coherent_same_entry [OF assms(1) e] by (simp add: same_walk_def)
qed (use assms in \<open>simp add: same_walk_def\<close>)

section \<open>Reference and change bits\<close>

text \<open>Storing them back keeps the frame, and every other word the walk reads.\<close>

lemma RPN_access_bits: "PTE2_RPN (access_bits flag v) = PTE2_RPN v"
proof -
  have "drop_bit 12 (v OR push_bit k 1) = drop_bit 12 v" if "k < 12" for k :: nat and v :: u32
    using that by (intro bit_word_eqI) (auto simp: bit_simps bit_1_iff)
  then show ?thesis
    by (simp add: access_bits_def PTE2_RPN_def PTE2_R_def PTE2_C_def split: XCheckTLBFlag.split)
qed

lemma store_pte_walk:
  assumes "store_phys (swap32 (access_bits f (swap32 raw))) (p + 4) s = Inr s'"
    and "load_phys (p + 4) s = Inr raw" "p AND 7 = 0" "pagetable_aligned s"
  shows "same_walk s s'"
proof -
  have t: "same_tables s s'"
    unfolding same_tables_def
    using store_phys_frame [OF assms(1)] load_store_phys_other [OF assms(1)] and_7_add_4 [OF assms(3)] and_7_and_3
    by blast
  have al: "pagetable_aligned s' = pagetable_aligned s"
    using store_phys_frame [OF assms(1)] by (simp add: pagetable_aligned_def)
  have ld: "load_phys (q + 4) s' = (if q = p then Inr (swap32 (access_bits f (swap32 raw))) else load_phys (q + 4) s)"
    if "q AND 7 = 0" for q
    using load_store_phys [OF assms(1)] load_store_phys_other [OF assms(1)] and_7_add_4 [OF assms(3)]
      and_7_add_4 [OF that] by auto
  have "walk_frame flag a s' = walk_frame flag a s" for flag a
  proof (cases "find_pte a s")
    case (Inr r)
    then show ?thesis
      using find_pte_aligned [of a s] assms(2,4) find_pte_same [OF t assms(4), of a] t
      by (cases r) (auto simp: walk_frame_def ld RPN_access_bits same_tables_def)
  qed (use find_pte_same [OF t assms(4), of a] t in \<open>simp add: walk_frame_def same_tables_def\<close>)
  then show ?thesis by (simp add: same_walk_def al)
qed

section \<open>Filling a way\<close>

lemma tlb_select_eq: "tlb_select flag = tlb_select flag' \<longleftrightarrow> IsOpcodeFlag flag = IsOpcodeFlag flag'"
  by (simp add: tlb_select_def)

lemma fill_coherent:
  assumes "tlb_coherent s"
    and "walk_frame flag a s = Inr (PAGE_TABLE_TRANSLATED, push_bit 12 (PTE2_RPN pte2))"
  shows "tlb_coherent (UpdateTLBEntry flag pte2 a s)" "same_walk s (UpdateTLBEntry flag pte2 a s)"
proof -
  show "same_walk s (UpdateTLBEntry flag pte2 a s)"
    by (simp add: UpdateTLBEntry_def Let_def same_walk_def)
  have "walk_frame flag' a' s = Inr (PAGE_TABLE_TRANSLATED, push_bit 12 (PTE2_RPN pte2))"
    if "drop_bit 12 a = drop_bit 12 a'" "tlb_select flag' = tlb_select flag" for flag' a'
    using walk_same_page [of a a' flag flag' s] that assms(2) by (simp add: tlb_select_eq)
  then show "tlb_coherent (UpdateTLBEntry flag pte2 a s)"
    using assms(1) by (auto simp: tlb_coherent_def UpdateTLBEntry_def Let_def tlb_set_tlb)
qed

lemma coherent_same_walk:
  assumes "tlb_coherent s" "same_walk s s'" "tlb s' = tlb s"
  shows "tlb_coherent s'"
  using assms by (simp add: tlb_coherent_def same_walk_def)

lemma same_walk_trans: "same_walk s s' \<Longrightarrow> same_walk s' s'' \<Longrightarrow> same_walk s s''"
  by (simp add: same_walk_def)

lemma same_walk_refl [simp]: "same_walk s s"
  by (simp add: same_walk_def)

section \<open>Translation\<close>

lemma use_pte_walk:
  assumes "tlb_coherent s" "pagetable_aligned s" "find_pte a s = Inr (Some p)"
    and "load_phys (p + 4) s = Inr raw"
    and frame: "walk_frame flag a s = Inr (PAGE_TABLE_TRANSLATED, push_bit 12 (PTE2_RPN (swap32 raw)))"
  shows "\<exists>s'. use_pte flag res a p s =
      Inr ((PAGE_TABLE_TRANSLATED, push_bit 12 (PTE2_RPN (swap32 raw)) OR EA_Offset a), s')
    \<and> tlb_coherent s' \<and> same_walk s s'"
proof (cases "IsNoExceptionFlag flag")
  case True
  then show ?thesis
    using assms(1,4) by (simp add: use_pte_def RPN_access_bits UpdateTLBEntry_def)
next
  case False
  let ?pte = "access_bits flag (swap32 raw)"
  obtain s1 where st: "store_phys (swap32 ?pte) (p + 4) s = Inr s1"
    using store_phys_after_load [OF assms(4)] by blast
  have w: "same_walk s s1"
    by (rule store_pte_walk [OF st assms(4) find_pte_aligned [OF assms(3,2)] assms(2)])
  have c: "tlb_coherent s1"
    by (rule coherent_same_walk [OF assms(1) w store_phys_frame(4) [OF st]])
  have f: "walk_frame flag a s1 = Inr (PAGE_TABLE_TRANSLATED, push_bit 12 (PTE2_RPN ?pte))"
    using w frame by (simp add: same_walk_def RPN_access_bits)
  let ?s = "if res \<noteq> UpdateC then UpdateTLBEntry flag ?pte a s1 else s1"
  have "use_pte flag res a p s =
      Inr ((PAGE_TABLE_TRANSLATED, push_bit 12 (PTE2_RPN (swap32 raw)) OR EA_Offset a), ?s)"
    using False st assms(4) by (simp add: use_pte_def RPN_access_bits Let_def)
  moreover have "tlb_coherent ?s" "same_walk s ?s"
    using c w fill_coherent [OF c f] same_walk_trans [OF w] by simp_all
  ultimately show ?thesis by blast
qed

text \<open>C4: the translation buffers are invisible.  As long as every way of them agrees with the page table,
  the translation of a page, hit or miss, gives what a walk of the table gives, faults included; it
  keeps the agreement, and updating the reference and change bits of an entry disturbs no other walk.
\<close>

theorem tlb_transparent:
  assumes "tlb_coherent s" "pagetable_aligned s"
  shows "map_sum id fst (TranslatePageAddress a flag s) = walk_page flag a s \<and>
    (\<forall>r s'. TranslatePageAddress a flag s = Inr (r, s') \<longrightarrow> tlb_coherent s' \<and> same_walk s s')"
proof -
  obtain res t s1 where l: "LookupTLBPageAddress flag a s = ((res, t), s1)" by (metis prod.exhaust)
  note c = lookup_coherent [OF assms(1) l]
  have al: "pagetable_aligned s1" using c assms(2) by (simp add: same_walk_def)
  show ?thesis
  proof (cases "res = Found")
    case True
    then show ?thesis
      using c l lookup_hit [OF assms(1), of flag a t s1] by (auto simp: TranslatePageAddress_def)
  next
    case miss: False
    show ?thesis
    proof (cases "\<exists>p raw. find_pte a s1 = Inr (Some p) \<and> load_phys (p + 4) s1 = Inr raw
        \<and> sr s1 (EA_SR a) AND 0x80000000 = 0 \<and> (IsOpcodeFlag flag \<longrightarrow> sr s1 (EA_SR a) AND 0x10000000 = 0)")
      case True
      then obtain p raw where p: "find_pte a s1 = Inr (Some p)" "load_phys (p + 4) s1 = Inr raw"
        "sr s1 (EA_SR a) AND 0x80000000 = 0" "IsOpcodeFlag flag \<longrightarrow> sr s1 (EA_SR a) AND 0x10000000 = 0"
        by blast
      then have f: "walk_frame flag a s1 = Inr (PAGE_TABLE_TRANSLATED, push_bit 12 (PTE2_RPN (swap32 raw)))"
        by (simp add: walk_frame_def)
      then have "walk_page flag a s = Inr (PAGE_TABLE_TRANSLATED, push_bit 12 (PTE2_RPN (swap32 raw)) OR EA_Offset a)"
        using c by (simp add: walk_page_def same_walk_def)
      moreover have "TranslatePageAddress a flag s = use_pte flag res a p s1"
        using miss p by (auto simp: TranslatePageAddress_def l)
      moreover note use_pte_walk [OF _ al p(1,2) f, of res]
      ultimately show ?thesis using c same_walk_trans by fastforce
    next
      case False
      moreover have "walk_page flag a s = walk_page flag a s1"
        using c by (simp add: walk_page_def same_walk_def)
      ultimately show ?thesis
        using miss c
        by (cases "find_pte a s1"; cases "load_phys (the (projr (find_pte a s1)) + 4) s1")
           (auto simp: TranslatePageAddress_def l walk_page_def walk_frame_def use_pte_def bind_ppc_Inr
             split: option.splits)
    qed
  qed
qed

text \<open>Buffers that hold nothing agree with every table; \<open>tlbie\<close> empties a set.\<close>

lemma not_invalid_tag: "INVALID_TAG \<noteq> drop_bit 12 a"
proof
  assume "INVALID_TAG = drop_bit 12 a"
  then have "bit INVALID_TAG 31 = bit (drop_bit 12 a) 31" by simp
  then show False by (auto simp: INVALID_TAG_def bit_drop_bit_eq bit_simps dest: bit_imp_le_length)
qed

lemma invalid_tlb_coherent:
  assumes "\<And>k i w. tlb_tag (tlb s k i) w = INVALID_TAG"
  shows "tlb_coherent s"
  using assms not_invalid_tag by (simp add: tlb_coherent_def)

lemma InvalidateTLBEntry_coherent:
  assumes "tlb_coherent s"
  shows "tlb_coherent (InvalidateTLBEntry address s)"
proof -
  have n: "INVALID_TAG = drop_bit 12 a \<longleftrightarrow> False" for a :: u32
    using not_invalid_tag [of a] by simp
  show ?thesis
    using assms by (auto simp: n tlb_coherent_def InvalidateTLBEntry_def Let_def tlb_set_tlb less_2_cases_iff)
qed

theorem tlb_transparent_witness:
  "map_sum id fst (TranslatePageAddress 0x80001234 Read ppc_zero) = walk_page Read 0x80001234 ppc_zero"
proof -
  have "tlb_coherent ppc_zero" "pagetable_aligned ppc_zero"
    by (rule invalid_tlb_coherent, simp add: ppc_zero_def invalid_tlb_def INVALID_TAG_def)
       (simp add: pagetable_aligned_def ppc_zero_def)
  from tlb_transparent [OF this] show ?thesis by blast
qed

end
