(* ===== verification/PPC_ICache.thy ===== *)
theory PPC_ICache
  imports PPC_TLB PPC_Bytes
begin

text \<open>
  The instruction cache is invisible: while its lines agree with memory, a fetch through it returns
  what memory holds and keeps the agreement, and invalidating a line after its memory has changed
  restores it.  Lines are named by their number, the address divided by 32.
\<close>

section \<open>Addresses that have a line\<close>

definition cacheable :: "u32 \<Rightarrow> ppc \<Rightarrow> bool" where
  "cacheable a s \<longleftrightarrow> unat a < 0x02000000 \<or> has_exram s \<and> 0x10000000 \<le> unat a \<and> unat a < 0x14000000"

definition place_of :: "u32 \<Rightarrow> bank \<times> nat" where
  "place_of a = (if unat a < 0x02000000 then (Ram, unat a) else (Exram, unat a - 0x10000000))"

abbreviation line_of :: "u32 \<Rightarrow> nat" where "line_of a \<equiv> unat a div 32"

text \<open>The word memory holds at an address.\<close>

definition word_at :: "u32 \<Rightarrow> ppc \<Rightarrow> u32" where
  "word_at a s = (case place_of a of (b, off) \<Rightarrow> ucast (read_be 4 (ram s b) off))"

lemma unat_drop5: "unat (drop_bit 5 (a :: u32)) = line_of a"
  by (simp only: unat_drop_bit_eq drop_bit_eq_div [where 'a = nat]) simp

lemma unat_and_nat: "unat ((a :: u32) AND mask k) = unat a mod 2 ^ k"
  by (rule unat_and_mask)

lemma bit_28_29:
  assumes "cacheable a s"
  shows "a AND ICACHE_VMEM_BIT = 0" "a AND ICACHE_EXRAM_BIT \<noteq> 0 \<longleftrightarrow> 0x10000000 \<le> unat a"
proof -
  have l: "(ICACHE_VMEM_BIT :: u32) = 2 ^ 29" "(ICACHE_EXRAM_BIT :: u32) = 2 ^ 28"
    by (simp_all add: ICACHE_VMEM_BIT_def ICACHE_EXRAM_BIT_def)
  have b: "bit a n \<longleftrightarrow> odd (unat a div 2 ^ n)" for n
    using bit_unsigned_iff [of a n, where 'a = nat]
    by (simp add: bit_iff_odd [of "unat a"])
  show "a AND ICACHE_VMEM_BIT = 0"
    unfolding l and_exp_eq_0_iff_not_bit b using assms by (auto simp: cacheable_def)
  have "unat a div 2 ^ 28 = (if 0x10000000 \<le> unat a then 1 else 0)"
    using assms by (auto simp: cacheable_def intro!: div_nat_eqI)
  then show "a AND ICACHE_EXRAM_BIT \<noteq> 0 \<longleftrightarrow> 0x10000000 \<le> unat a"
    unfolding l and_exp_eq_0_iff_not_bit b by simp
qed

lemma unat_masks:
  "unat ((a :: u32) AND 0x3FFFFFFF) = unat a mod 0x40000000" "unat (a AND 0x0fffffff) = unat a mod 0x10000000"
  "unat (a AND EXRAM_MASK) = unat a mod 0x04000000" "unat (a AND 0xfffff) = unat a mod 0x100000"
  "unat (a AND 0x1fffff) = unat a mod 0x200000" "unat (a AND 0x7f) = unat a mod 128" "unat (a AND 7) = unat a mod 8"
  using unat_and_mask [of a 30] unat_and_mask [of a 28] unat_and_mask [of a 26] unat_and_mask [of a 20]
    unat_and_mask [of a 21] unat_and_mask [of a 7] unat_and_mask [of a 3]
  by (simp_all add: mask_eq_exp_minus_1 EXRAM_MASK_def)

lemma GetPointer_place: "cacheable a s \<Longrightarrow> GetPointer a s = Some (place_of a)"
proof -
  assume c: "cacheable a s"
  then have "unat (a AND 0x3FFFFFFF) = unat a" by (auto simp: cacheable_def unat_masks)
  then have same: "a AND 0x3FFFFFFF = a" by (simp add: word_unat_eq_iff)
  have "unat (drop_bit 28 a) = unat a div 2 ^ 28"
    by (simp only: unat_drop_bit_eq drop_bit_eq_div [where 'a = nat])
  moreover have "unat a div 2 ^ 28 = 1" if "0x10000000 \<le> unat a"
    using c that by (intro div_nat_eqI) (auto simp: cacheable_def)
  ultimately have d: "0x10000000 \<le> unat a \<Longrightarrow> drop_bit 28 a = 1"
    by (intro word_unat_eq_iff [THEN iffD2]) (simp only: unat_1)
  have m: "x mod 0x10000000 = x - 0x10000000 \<and> x mod 0x04000000 = x - 0x10000000"
    if "0x10000000 \<le> x" "x < 0x14000000" for x :: nat
  proof -
    have "x = (x - 0x10000000) + 0x10000000" "x = (x - 0x10000000) + 4 * 0x04000000" using that by simp_all
    then have "x mod 0x10000000 = (x - 0x10000000) mod 0x10000000" "x mod 0x04000000 = (x - 0x10000000) mod 0x04000000"
      by (metis mod_add_self2, metis mod_mult_self1)
    then show ?thesis using that by simp
  qed
  show ?thesis
  proof (cases "unat a < 0x02000000")
    case True
    then show ?thesis unfolding GetPointer_def same Let_def by (simp add: place_of_def size_defs)
  next
    case False
    then show ?thesis
      using c d m [of "unat a"] unfolding GetPointer_def same Let_def cacheable_def
      by (auto simp: place_of_def size_defs unat_masks)
  qed
qed

section \<open>The lookup tables as one function of the line\<close>

lemma lookup_other:
  assumes "cacheable a s" "cacheable b s"
  shows "lookup_of_addr a (set_lookup_of_addr b v c) = (if line_of a = line_of b then v else lookup_of_addr a c)"
proof -
  have "line_of a < 0x100000" if "unat a < 0x02000000" for a :: u32 using that by simp
  moreover have "line_of a mod 0x200000 = line_of a - 0x800000" if "0x10000000 \<le> unat a" "unat a < 0x14000000" for a :: u32
  proof -
    have "0x800000 \<le> line_of a" "line_of a < 0xA00000" using that by simp_all
    moreover have "x mod 0x200000 = x - 0x800000" if "0x800000 \<le> x" "x < 0xA00000" for x :: nat
    proof -
      have "x = (x - 0x800000) + 4 * 0x200000" using that by simp
      then have "x mod 0x200000 = (x - 0x800000) mod 0x200000" by (metis mod_mult_self1)
      then show ?thesis using that by simp
    qed
    ultimately show ?thesis by blast
  qed
  moreover have "0x800000 \<le> line_of a" if "0x10000000 \<le> unat a" for a :: u32 using that by simp
  ultimately show ?thesis
    using assms bit_28_29 [OF assms(1)] bit_28_29 [OF assms(2)]
    by (auto simp: lookup_of_addr_def set_lookup_of_addr_def unat_masks unat_drop5 cacheable_def)
qed


lemma line_bound: "0x10000000 \<le> unat a \<longleftrightarrow> 0x800000 \<le> line_of a"
  by (simp add: less_eq_div_iff_mult_less_eq)

lemma lookup_line:
  "cacheable a s \<Longrightarrow> cacheable b s \<Longrightarrow> line_of a = line_of b \<Longrightarrow> lookup_of_addr a c = lookup_of_addr b c"
proof -
  assume c: "cacheable a s" "cacheable b s" and l: "line_of a = line_of b"
  have "drop_bit 5 a = drop_bit 5 b" using l by (intro word_unat_eq_iff [THEN iffD2]) (simp only: unat_drop5)
  moreover have "0x10000000 \<le> unat a \<longleftrightarrow> 0x10000000 \<le> unat b"
    unfolding line_bound l by (rule refl)
  ultimately show ?thesis
    using bit_28_29 [OF c(1)] bit_28_29 [OF c(2)] unfolding lookup_of_addr_def by simp
qed

lemma same_line:
  "line_of a = line_of b \<longleftrightarrow> drop_bit 12 a = drop_bit 12 b \<and> line_of a mod 128 = line_of b mod 128"
proof -
  have "unat (drop_bit 12 c) = line_of c div 128" for c :: u32
    by (simp only: unat_drop_bit_eq drop_bit_eq_div [where 'a = nat] flip: div_mult2_eq) simp
  then show ?thesis by (metis div_mult_mod_eq word_unat_eq_iff)
qed

lemma tag_line:
  "set_lookup_of_tag (drop_bit 12 a) (drop_bit 5 a AND 0x7f) v c = set_lookup_of_addr a v c"
proof -
  have m: "(0x7f :: u32) = mask 7" by (simp add: mask_eq_exp_minus_1)
  have i: "push_bit 7 (drop_bit 12 a) OR (drop_bit 5 a AND 0x7f) = drop_bit 5 a"
    unfolding m by (rule bit_word_eqI) (auto simp: bit_or_iff bit_push_bit_iff bit_drop_bit_eq bit_and_iff bit_mask_iff)
  have v: "drop_bit 12 ICACHE_VMEM_BIT = 2 ^ 17" "ICACHE_VMEM_BIT = 2 ^ 29"
    and x: "drop_bit 12 ICACHE_EXRAM_BIT = 2 ^ 16" "ICACHE_EXRAM_BIT = 2 ^ 28"
    by (simp_all add: ICACHE_VMEM_BIT_def ICACHE_EXRAM_BIT_def)
  show ?thesis
    unfolding set_lookup_of_tag_def set_lookup_of_addr_def i v(1) x(1) unfolding v(2) x(2) and_exp_eq_0_iff_not_bit
    by (simp add: bit_drop_bit_eq)
qed

section \<open>Agreement with memory\<close>

definition holds_line :: "u32 \<Rightarrow> nat \<Rightarrow> ppc \<Rightarrow> bool" where
  "holds_line a t s \<longleftrightarrow> t < 8 \<and> bit (ic_valid (iCache s) (line_of a mod 128)) t
     \<and> ic_tags (iCache s) (line_of a mod 128) t = drop_bit 12 a
     \<and> (\<forall>b. line_of b = line_of a \<longrightarrow> 4 dvd unat b \<longrightarrow>
          ic_data (iCache s) (line_of a mod 128) t (unat b div 4 mod 8) = swap32 (word_at b s))"

definition icache_coherent :: "ppc \<Rightarrow> bool" where
  "icache_coherent s \<longleftrightarrow>
     (\<forall>m. (m < 0xff \<longrightarrow> way_from_valid (iCache s) m < 8) \<and> way_from_plru (iCache s) m < 8)
   \<and> (\<forall>ix n. bit (ic_valid (iCache s) ix) n \<longrightarrow> n < 8)
   \<and> (\<forall>a. cacheable a s \<longrightarrow> lookup_of_addr a (iCache s) \<noteq> 0xff \<longrightarrow>
        holds_line a (unat (lookup_of_addr a (iCache s))) s)
   \<and> (\<forall>ix t. ix < 128 \<longrightarrow> t < 8 \<longrightarrow> bit (ic_valid (iCache s) ix) t \<longrightarrow>
        (\<exists>a. cacheable a s \<and> line_of a mod 128 = ix \<and> ic_tags (iCache s) ix t = drop_bit 12 a
           \<and> lookup_of_addr a (iCache s) = of_nat t))"

lemma word_at_read:
  assumes "cacheable a s" "4 dvd unat a"
  shows "Memory_Read_U32 a s = Inr (word_at a s)"
proof -
  obtain q where "unat a = 4 * q" using assms(2) by (auto simp: dvd_def)
  then show ?thesis
    using assms(1) by (auto simp: Memory_Read_U32_def GetPointer_place load_bank_def word_at_def place_of_def
        size_defs cacheable_def)
qed

section \<open>Filling a line\<close>

lemma line_start:
  "unat (a AND NOT 0x1f) = 32 * line_of a"
proof -
  have m: "(0x1f :: u32) = mask 5" by (simp add: mask_eq_exp_minus_1)
  have "a AND NOT 0x1f = push_bit 5 (drop_bit 5 a)"
    unfolding m by (rule bit_word_eqI) (auto simp: bit_and_iff bit_not_iff bit_mask_iff bit_push_bit_iff bit_drop_bit_eq)
  then have "unat (a AND NOT 0x1f) = take_bit 32 (push_bit 5 (unat (drop_bit 5 a)))"
    using unsigned_push_bit_eq [of 5 "drop_bit 5 a", where 'a = nat] by simp
  also have "\<dots> = 32 * line_of a"
    unfolding unat_drop5 using unsigned_less [of a, where 'a = nat] by (simp add: push_bit_eq_mult take_bit_eq_mod)
  finally show ?thesis .
qed

lemma cacheable_lines:
  "cacheable a s \<longleftrightarrow> line_of a < 0x100000 \<or> has_exram s \<and> 0x800000 \<le> line_of a \<and> line_of a < 0xA00000"
  by (simp add: cacheable_def div_less_iff_less_mult less_eq_div_iff_mult_less_eq)

lemma cacheable_line: "cacheable a s \<Longrightarrow> line_of b = line_of a \<Longrightarrow> cacheable b s"
  unfolding cacheable_lines by simp


text \<open>The parts of the state the agreement depends on.\<close>

definition data_filled :: "u32 \<Rightarrow> nat \<Rightarrow> ppc \<Rightarrow> InstructionCache \<Rightarrow> bool" where
  "data_filled a t s c \<longleftrightarrow> (\<forall>b. line_of b = line_of a \<longrightarrow> 4 dvd unat b \<longrightarrow>
     ic_data c (line_of a mod 128) t (unat b div 4 mod 8) = swap32 (word_at b s))"

lemma fill_line_data:
  assumes "cacheable a s"
  shows "\<exists>f. fill_line a (line_of a mod 128) t s = Inr ((iCache s)\<lparr>ic_data := f\<rparr>)
    \<and> data_filled a t s ((iCache s)\<lparr>ic_data := f\<rparr>)
    \<and> (\<forall>ix w. (ix, w) \<noteq> (line_of a mod 128, t) \<longrightarrow> f ix w = ic_data (iCache s) ix w)"
proof -
  define l where "l = a AND NOT 0x1f"
  have less: "unat a < 2 ^ 32" using unsigned_less [of a, where 'a = nat] by simp
  have u: "unat l = 32 * line_of a" unfolding l_def by (rule line_start)
  moreover have "unat (l + of_nat 32 - 1) = 32 * line_of a + 31"
  proof -
    have e: "l + of_nat 32 - 1 = l + 31" by simp
    have "line_of a < 0x8000000" using less by (simp add: div_less_iff_less_mult)
    then have "32 * line_of a + 31 < 2 ^ 32" by simp
    then show ?thesis unfolding e by (simp add: unat_word_ariths u)
  qed
  ultimately have "line_of l = line_of a" "line_of (l + of_nat 32 - 1) = line_of a" by simp_all
  then have c: "cacheable l s" "cacheable (l + of_nat 32 - 1) s"
    using cacheable_line [OF assms] by blast+
  obtain b off where p: "place_of l = (b, off)" by fastforce
  have r: "GetPointerForRange l 32 s = Some (b, off)"
    using GetPointer_place [OF c(1)] GetPointer_place [OF c(2)] p by (simp add: GetPointerForRange_def EXRAM_SIZE_def)
  have room: "off + 32 \<le> bank_size b"
    using c(1) p u less by (auto simp: place_of_def cacheable_def size_defs split: if_splits)
  have at: "place_of d = (b, off + 4 * (unat d div 4 mod 8))" if d: "line_of d = line_of a" "4 dvd unat d" for d
  proof -
    have e: "unat d = 32 * line_of a + 4 * (unat d div 4 mod 8)"
    proof -
      obtain q where q: "unat d = 4 * q" using d(2) by (auto simp: dvd_def)
      then have l: "line_of a = q div 8" using d(1) by simp
      have "unat d div 4 = q" unfolding q by simp
      have "4 * q = 4 * (8 * (q div 8) + q mod 8)" by (simp only: mult_div_mod_eq)
      then show ?thesis unfolding q l \<open>unat d div 4 = q\<close> [unfolded q] by (simp only: distrib_left mult.assoc [symmetric])
    qed
    then show ?thesis using p u cacheable_line [OF assms d(1)] c(1) by (auto simp: place_of_def cacheable_def split: if_splits)
  qed
  show ?thesis
    unfolding fill_line_def l_def [symmetric] r using room at by (auto simp: data_filled_def word_at_def)
qed


section \<open>A fetch\<close>

lemma unat_small: "t < 8 \<Longrightarrow> unat (of_nat t :: u8) = t" "t < 8 \<Longrightarrow> (of_nat t :: u8) \<noteq> 0xff"
proof -
  show u: "unat (of_nat t :: u8) = t" if "t < 8" using that by (simp add: unat_of_nat)
  show "(of_nat t :: u8) \<noteq> 0xff" if "t < 8"
    using u [OF that] that by auto
qed

lemma coherent_way:
  assumes "icache_coherent s"
  shows "(if ic_valid (iCache s) ix \<noteq> 0xff then way_from_valid (iCache s) (unat (ic_valid (iCache s) ix))
     else way_from_plru (iCache s) (unat (ic_plru (iCache s) ix))) < 8"
proof -
  have b: "bit (ic_valid (iCache s) ix) n \<Longrightarrow> n < 8" for n
    using assms by (simp add: icache_coherent_def)
  have "ic_valid (iCache s) ix AND mask 8 = ic_valid (iCache s) ix"
    by (rule bit_word_eqI) (auto simp: bit_and_iff bit_mask_iff dest: b)
  then have "unat (ic_valid (iCache s) ix) < 256"
    using unat_and_mask [of "ic_valid (iCache s) ix" 8] mod_less_divisor [of "256" "unat (ic_valid (iCache s) ix)"] by simp
  then have "ic_valid (iCache s) ix \<noteq> 0xff \<Longrightarrow> unat (ic_valid (iCache s) ix) < 0xff"
    by (simp add: word_unat_eq_iff)
  then show ?thesis using assms by (simp add: icache_coherent_def)
qed

lemma set_lookup_fields [simp]:
  "ic_data (set_lookup_of_addr b v c) = ic_data c" "ic_tags (set_lookup_of_addr b v c) = ic_tags c"
  "ic_valid (set_lookup_of_addr b v c) = ic_valid c" "ic_plru (set_lookup_of_addr b v c) = ic_plru c"
  "way_from_valid (set_lookup_of_addr b v c) = way_from_valid c"
  "way_from_plru (set_lookup_of_addr b v c) = way_from_plru c"
  by (simp_all add: set_lookup_of_addr_def)

lemma lookup_fields [simp]:
  "lookup_of_addr a (c\<lparr>ic_data := d\<rparr>) = lookup_of_addr a c" "lookup_of_addr a (c\<lparr>ic_tags := g\<rparr>) = lookup_of_addr a c"
  "lookup_of_addr a (c\<lparr>ic_valid := v\<rparr>) = lookup_of_addr a c" "lookup_of_addr a (c\<lparr>ic_plru := p\<rparr>) = lookup_of_addr a c"
  by (simp_all add: lookup_of_addr_def)

lemma state_fields [simp]:
  "cacheable a (s\<lparr>iCache := c\<rparr>) = cacheable a s" "word_at a (s\<lparr>iCache := c\<rparr>) = word_at a s"
  by (simp_all add: cacheable_def word_at_def)

lemma bit_test_32: "(w :: u32) AND push_bit n 1 \<noteq> 0 \<longleftrightarrow> bit w n"
  using and_exp_eq_0_iff_not_bit [of w n] by (simp add: push_bit_eq_mult)

lemma bit_set_32: "t < 32 \<Longrightarrow> bit ((w :: u32) OR 2 ^ t) n \<longleftrightarrow> bit w n \<or> n = t"
  unfolding bit_or_iff bit_exp_iff by auto

text \<open>A line put into way \<open>t\<close> of its set, when the tables have been cleared of the line that was there.\<close>

definition placed_line :: "u32 \<Rightarrow> nat \<Rightarrow> InstructionCache \<Rightarrow> InstructionCache \<Rightarrow> bool" where
  "placed_line a t c c' \<longleftrightarrow>
     (let ix = line_of a mod 128
      in ic_tags c' = (ic_tags c)(ix := (ic_tags c ix)(t := drop_bit 12 a))
       \<and> ic_valid c' = (ic_valid c)(ix := ic_valid c ix OR push_bit t 1)
       \<and> way_from_valid c' = way_from_valid c \<and> way_from_plru c' = way_from_plru c
       \<and> (\<forall>i w. (i, w) \<noteq> (ix, t) \<longrightarrow> ic_data c' i w = ic_data c i w))"

lemma placed_line_coherent:
  assumes coh: "icache_coherent s" and a: "cacheable a s" "lookup_of_addr a (iCache s) = 0xff" and t: "t < 8"
    and c: "placed_line a t (iCache s) c" "data_filled a t s c"
    and look: "\<And>b. cacheable b s \<Longrightarrow> lookup_of_addr b c =
      (if line_of b = line_of a then of_nat t
       else if line_of b mod 128 = line_of a mod 128 \<and> lookup_of_addr b (iCache s) = of_nat t then 0xff
       else lookup_of_addr b (iCache s))"
  shows "icache_coherent (s\<lparr>iCache := c\<rparr>)"
proof -
  let ?c = "iCache s" and ?ix = "line_of a mod 128"
  note p = c(1) [unfolded placed_line_def Let_def]
  have valid: "bit (ic_valid c i) n \<longleftrightarrow> bit (ic_valid ?c i) n \<or> i = ?ix \<and> n = t" for i n
    using p t by (auto simp: bit_set_32)
  have holds: "holds_line b (unat (lookup_of_addr b c)) (s\<lparr>iCache := c\<rparr>)"
    if b: "cacheable b s" "lookup_of_addr b c \<noteq> 0xff" for b
  proof (cases "line_of b = line_of a")
    case True
    then show ?thesis
      using look [OF b(1)] t p c(2) unat_small [OF t] same_line [of b a]
      by (simp add: holds_line_def data_filled_def bit_set_32)
  next
    case False
    then have l: "lookup_of_addr b c = lookup_of_addr b ?c" "lookup_of_addr b ?c \<noteq> 0xff"
      and n: "line_of b mod 128 = ?ix \<longrightarrow> lookup_of_addr b ?c \<noteq> of_nat t"
      using look [OF b(1)] b(2) by (auto split: if_splits)
    have h: "holds_line b (unat (lookup_of_addr b ?c)) s"
      using coh b(1) l(2) by (simp add: icache_coherent_def)
    have "(line_of b mod 128, unat (lookup_of_addr b ?c)) \<noteq> (?ix, t)"
      using n by auto
    then show ?thesis
      using h p valid unfolding holds_line_def l(1) by auto
  qed
  have found: "\<exists>b. cacheable b s \<and> line_of b mod 128 = i \<and> ic_tags c i w = drop_bit 12 b \<and> lookup_of_addr b c = of_nat w"
    if v: "i < 128" "w < 8" "bit (ic_valid c i) w" for i w
  proof (cases "(i, w) = (?ix, t)")
    case True
    then show ?thesis using p look [OF a(1)] a(1) by (intro exI [of _ a]) auto
  next
    case False
    then have "bit (ic_valid ?c i) w" using v(3) unfolding valid by auto
    then obtain b where b: "cacheable b s" "line_of b mod 128 = i" "ic_tags ?c i w = drop_bit 12 b"
      "lookup_of_addr b ?c = of_nat w"
      using coh v(1,2) unfolding icache_coherent_def by blast
    have "line_of b \<noteq> line_of a"
      using lookup_line [OF b(1) a(1)] a(2) b(4) unat_small(2) [OF v(2)] by auto
    moreover have "of_nat w \<noteq> (of_nat t :: u8)" if "i = ?ix"
      using False that unat_small(1) [OF v(2)] unat_small(1) [OF t] by metis
    ultimately have "lookup_of_addr b c = of_nat w" using look [OF b(1)] b(2,4) by auto
    then show ?thesis using b p False by (intro exI [of _ b]) auto
  qed
  show ?thesis
    using coh holds found p valid t unfolding icache_coherent_def by auto
qed


lemma set_of_addr: "unat (drop_bit 5 a AND 0x7f :: u32) = line_of a mod 128"
  by (simp only: unat_masks unat_drop5)

lemma coherent_hit:
  assumes "icache_coherent s" "cacheable b s" "lookup_of_addr b (iCache s) = of_nat t" "t < 8"
  shows "holds_line b t s"
proof -
  have "lookup_of_addr b (iCache s) \<noteq> 0xff" using assms(3,4) unat_small(2) by simp
  then have "holds_line b (unat (lookup_of_addr b (iCache s))) s"
    using assms(1,2) by (simp add: icache_coherent_def)
  then show ?thesis using assms(3,4) unat_small(1) by simp
qed

lemma coherent_line:
  assumes "icache_coherent s" "ix < 128" "t < 8" "bit (ic_valid (iCache s) ix) t"
  shows "\<exists>a. cacheable a s \<and> line_of a mod 128 = ix \<and> ic_tags (iCache s) ix t = drop_bit 12 a
    \<and> lookup_of_addr a (iCache s) = of_nat t"
  using assms by (simp add: icache_coherent_def)

lemma miss_coherent:
  assumes coh: "icache_coherent s" and a: "cacheable a s" "lookup_of_addr a (iCache s) = 0xff"
  shows "\<exists>t c. load_line a s = Inr (t, c) \<and> icache_coherent (s\<lparr>iCache := c\<rparr>) \<and> lookup_of_addr a c = of_nat t \<and> t < 8"
proof -
  let ?c = "iCache s" and ?ix = "line_of a mod 128" and ?i = "drop_bit 5 a AND 0x7f"
  define t where "t = (if ic_valid ?c ?ix \<noteq> 0xff then way_from_valid ?c (unat (ic_valid ?c ?ix))
               else way_from_plru ?c (unat (ic_plru ?c ?ix)))"
  have t: "t < 8" unfolding t_def by (rule coherent_way [OF coh])
  obtain f where f: "fill_line a ?ix t s = Inr (?c\<lparr>ic_data := f\<rparr>)" "data_filled a t s (?c\<lparr>ic_data := f\<rparr>)"
    "\<forall>ix w. (ix, w) \<noteq> (?ix, t) \<longrightarrow> f ix w = ic_data ?c ix w"
    using fill_line_data [OF a(1)] by blast
  define c2 where "c2 = (if bit (ic_valid ?c ?ix) t
    then set_lookup_of_tag (ic_tags ?c ?ix t) ?i 0xff (?c\<lparr>ic_data := f\<rparr>) else ?c\<lparr>ic_data := f\<rparr>)"
  define c3 where "c3 = set_lookup_of_addr a (of_nat t) c2"
  define c4 where "c4 = c3\<lparr>ic_tags := (ic_tags c3)(?ix := (ic_tags c3 ?ix)(t := drop_bit 12 a)),
      ic_valid := (ic_valid c3)(?ix := ic_valid c3 ?ix OR 2 ^ t)\<rparr>"
  have load: "load_line a s = Inr (t, c4)"
    unfolding load_line_def Let_def set_of_addr t_def [symmetric] f(1) bit_test_32
    by (simp add: c4_def c3_def c2_def)
  have cleared: "ic_tags c2 = ic_tags ?c \<and> ic_valid c2 = ic_valid ?c \<and> ic_data c2 = f
      \<and> way_from_valid c2 = way_from_valid ?c \<and> way_from_plru c2 = way_from_plru ?c
      \<and> (\<forall>b. cacheable b s \<longrightarrow> lookup_of_addr b c2 =
          (if line_of b mod 128 = ?ix \<and> lookup_of_addr b ?c = of_nat t then 0xff else lookup_of_addr b ?c))"
  proof (cases "bit (ic_valid ?c ?ix) t")
    case True
    then obtain d where d: "cacheable d s" "line_of d mod 128 = ?ix" "ic_tags ?c ?ix t = drop_bit 12 d"
      "lookup_of_addr d ?c = of_nat t"
      using coherent_line [OF coh _ t True] by auto
    have "?i = drop_bit 5 d AND 0x7f"
      using d(2) by (intro word_unat_eq_iff [THEN iffD2]) (simp only: set_of_addr)
    then have c2: "c2 = set_lookup_of_addr d 0xff (?c\<lparr>ic_data := f\<rparr>)"
      using True unfolding c2_def d(3) by (simp only: tag_line if_True)
    have "line_of b = line_of d" if "cacheable b s" "line_of b mod 128 = ?ix" "lookup_of_addr b ?c = of_nat t" for b
    proof -
      have "holds_line b t s"
        using coherent_hit [OF coh that(1,3) t] .
      then show ?thesis using that(2) d(2,3) same_line [of b d] by (simp add: holds_line_def)
    qed
    moreover have "lookup_of_addr b ?c = of_nat t" if "cacheable b s" "line_of b = line_of d" for b
      using lookup_line [OF that(1) d(1) that(2)] d(4) by simp
    ultimately have "line_of b = line_of d \<longleftrightarrow> line_of b mod 128 = ?ix \<and> lookup_of_addr b ?c = of_nat t"
      if "cacheable b s" for b using that d(2) by metis
    then show ?thesis unfolding c2 by (simp add: lookup_other [OF _ d(1)])
  next
    case False
    have "lookup_of_addr b ?c \<noteq> of_nat t" if "cacheable b s" "line_of b mod 128 = ?ix" for b
    proof
      assume l: "lookup_of_addr b ?c = of_nat t"
      have "holds_line b t s" using coherent_hit [OF coh that(1) l t] .
      then show False using False that(2) by (simp add: holds_line_def)
    qed
    then show ?thesis using False by (auto simp: c2_def)
  qed
  have "placed_line a t ?c c4"
    using cleared f(3) by (simp add: placed_line_def Let_def c4_def c3_def)
  moreover have "data_filled a t s c4"
    using cleared f(2) by (simp add: data_filled_def c4_def c3_def)
  moreover have look: "lookup_of_addr b c4 = (if line_of b = line_of a then of_nat t
       else if line_of b mod 128 = ?ix \<and> lookup_of_addr b ?c = of_nat t then 0xff else lookup_of_addr b ?c)"
    if "cacheable b s" for b
    using cleared that lookup_other [OF that a(1)] by (simp add: c4_def c3_def)
  ultimately have "icache_coherent (s\<lparr>iCache := c4\<rparr>)"
    using placed_line_coherent [OF coh a t] by blast
  then show ?thesis using load look [OF a(1)] t by auto
qed


lemma touch_coherent:
  assumes "icache_coherent (s\<lparr>iCache := c\<rparr>)" "cacheable a s" "4 dvd unat a" "lookup_of_addr a c = of_nat t" "t < 8"
  shows "\<exists>c'. touch_line a t c s = Inr (word_at a s, s\<lparr>iCache := c'\<rparr>) \<and> icache_coherent (s\<lparr>iCache := c'\<rparr>)"
proof -
  have h: "holds_line a t (s\<lparr>iCache := c\<rparr>)" using coherent_hit [OF assms(1)] assms(2,4,5) by simp
  have "unat (drop_bit 2 a AND 7) = unat a div 4 mod 8"
    unfolding unat_masks by (simp only: unat_drop_bit_eq drop_bit_eq_div [where 'a = nat]) simp
  then have d: "ic_data c (line_of a mod 128) t (unat (drop_bit 2 a AND 7)) = swap32 (word_at a s)"
    using h assms(3) by (simp add: holds_line_def)
  have "icache_coherent (s\<lparr>iCache := c\<lparr>ic_plru := p\<rparr>\<rparr>)" for p
    using assms(1) by (simp add: icache_coherent_def holds_line_def)
  then show ?thesis using d by (auto simp: touch_line_def Let_def set_of_addr)
qed

lemma fetch_coherent:
  assumes "icache_coherent s" "cacheable a s" "4 dvd unat a"
  shows "\<exists>c. ReadInstruction a s = Inr (word_at a s, s\<lparr>iCache := c\<rparr>) \<and> icache_coherent (s\<lparr>iCache := c\<rparr>)"
proof -
  have self: "\<exists>c. Inr (word_at a s, s) = Inr (word_at a s, s\<lparr>iCache := c\<rparr>) \<and> icache_coherent (s\<lparr>iCache := c\<rparr>)"
    using assms(1) by (intro exI [of _ "iCache s"]) simp
  show ?thesis
  proof (cases "lookup_of_addr a (iCache s) = 0xff")
    case True
    obtain t c where "load_line a s = Inr (t, c)" "icache_coherent (s\<lparr>iCache := c\<rparr>)" "lookup_of_addr a c = of_nat t" "t < 8"
      using miss_coherent [OF assms(1,2) True] by blast
    then show ?thesis
      using True self touch_coherent [of c s a t] assms(2,3) word_at_read [OF assms(2,3)]
      by (auto simp: ReadInstruction_def Let_def)
  next
    case False
    then have h: "holds_line a (unat (lookup_of_addr a (iCache s))) s"
      using assms(1,2) by (simp add: icache_coherent_def)
    then show ?thesis
      using False self touch_coherent [of "iCache s" s a "unat (lookup_of_addr a (iCache s))"] assms
        word_at_read [OF assms(2,3)]
      by (auto simp: ReadInstruction_def Let_def holds_line_def)
  qed
qed

section \<open>Invalidation\<close>

lemma invalidate_ways_fields [simp]:
  "ic_data (invalidate_ways n ix c) = ic_data c" "ic_tags (invalidate_ways n ix c) = ic_tags c"
  "ic_valid (invalidate_ways n ix c) = ic_valid c"
  "way_from_valid (invalidate_ways n ix c) = way_from_valid c" "way_from_plru (invalidate_ways n ix c) = way_from_plru c"
  by (induction n arbitrary: c) (simp_all add: Let_def set_lookup_of_tag_def)

lemma first_or_later: "m < k \<Longrightarrow> (\<exists>i\<ge>m. i < k \<and> P i) \<longleftrightarrow> P m \<or> (\<exists>i\<ge>Suc m. i < (k :: nat) \<and> P i)"
  by (metis Suc_leD Suc_leI le_neq_implies_less order_refl)

text \<open>\<open>f\<close> gives an address of the line in each valid way of the set.\<close>

lemma invalidate_ways_lookup:
  assumes "\<And>i. i < 8 \<Longrightarrow> bit (ic_valid c (unat ix)) i \<Longrightarrow>
      cacheable (f i) s \<and> drop_bit 5 (f i) AND 0x7f = ix \<and> ic_tags c (unat ix) i = drop_bit 12 (f i)"
    and "cacheable b s" "n \<le> 8"
  shows "lookup_of_addr b (invalidate_ways n ix c) =
    (if \<exists>i. 8 - n \<le> i \<and> i < 8 \<and> bit (ic_valid c (unat ix)) i \<and> line_of b = line_of (f i) then 0xff
     else lookup_of_addr b c)"
  using assms(1,3)
proof (induction n arbitrary: c)
  case (Suc n)
  let ?i = "8 - Suc n"
  define c1 where "c1 = (if bit (ic_valid c (unat ix)) ?i then set_lookup_of_tag (ic_tags c (unat ix) ?i) ix 0xff c else c)"
  have f: "ic_valid c1 = ic_valid c" "ic_tags c1 = ic_tags c"
    by (simp_all add: c1_def set_lookup_of_tag_def)
  have l: "lookup_of_addr b c1 = (if bit (ic_valid c (unat ix)) ?i \<and> line_of b = line_of (f ?i) then 0xff else lookup_of_addr b c)"
  proof (cases "bit (ic_valid c (unat ix)) ?i")
    case True
    have g: "cacheable (f ?i) s" "drop_bit 5 (f ?i) AND 0x7f = ix" "ic_tags c (unat ix) ?i = drop_bit 12 (f ?i)"
      using Suc.prems(1) [of ?i] True by auto
    have "c1 = set_lookup_of_addr (f ?i) 0xff c"
      using True g(3) tag_line [of "f ?i"] unfolding c1_def g(2) by simp
    then show ?thesis using True lookup_other [OF assms(2) g(1)] by simp
  qed (simp add: c1_def)
  have split: "(\<exists>i\<ge>8 - Suc n. i < 8 \<and> P i) \<longleftrightarrow> P ?i \<or> (\<exists>i\<ge>8 - n. i < 8 \<and> P i)" for P
  proof -
    have e: "8 - n = Suc ?i" "?i < 8" using Suc.prems(2) by simp_all
    show ?thesis unfolding e(1) by (rule first_or_later [OF e(2)])
  qed
  have "lookup_of_addr b (invalidate_ways (Suc n) ix c) = lookup_of_addr b (invalidate_ways n ix c1)"
    unfolding invalidate_ways.simps Let_def bit_test_32 c1_def by (rule refl)
  then show ?case
    using Suc.IH [of c1] Suc.prems unfolding f l split by (auto split: if_splits)
qed auto

text \<open>Memory that has changed in one line only.\<close>

lemma invalidate_coherent:
  assumes coh: "icache_coherent s" and on: "spr s SPR_HID0 AND HID0_ICE \<noteq> 0"
    and mem: "\<And>b. cacheable b s \<Longrightarrow> line_of b \<noteq> line_of a \<Longrightarrow> word_at b (s\<lparr>ram := m\<rparr>) = word_at b s"
  shows "icache_coherent (icache_Invalidate a (s\<lparr>ram := m\<rparr>))"
proof -
  let ?c = "iCache s" and ?i = "drop_bit 5 a AND 0x7f" and ?ix = "line_of a mod 128"
  define c1 where "c1 = invalidate_ways 8 ?i ?c"
  define s' where "s' = s\<lparr>ram := m, iCache := c1\<lparr>ic_valid := (ic_valid c1)(?ix := 0)\<rparr>\<rparr>"
  have inv: "icache_Invalidate a (s\<lparr>ram := m\<rparr>) = s'"
    using on by (simp add: icache_Invalidate_def Let_def set_of_addr s'_def c1_def)
  obtain f where f: "\<And>t. t < 8 \<Longrightarrow> bit (ic_valid ?c ?ix) t \<Longrightarrow> cacheable (f t) s \<and> line_of (f t) mod 128 = ?ix
      \<and> ic_tags ?c ?ix t = drop_bit 12 (f t) \<and> lookup_of_addr (f t) ?c = of_nat t"
    using coherent_line [OF coh, of ?ix] by (metis mod_less_divisor zero_less_numeral)
  have g: "cacheable (f t) s \<and> drop_bit 5 (f t) AND 0x7f = ?i \<and> ic_tags ?c (unat ?i) t = drop_bit 12 (f t)"
    if t: "t < 8" "bit (ic_valid ?c (unat ?i)) t" for t
  proof -
    have "drop_bit 5 (f t) AND 0x7f = ?i"
      using f [of t] t by (intro word_unat_eq_iff [THEN iffD2]) (simp add: set_of_addr)
    then show ?thesis using f [of t] t by (simp add: set_of_addr)
  qed
  have look: "lookup_of_addr b (iCache s') = (if line_of b mod 128 = ?ix then 0xff else lookup_of_addr b ?c)"
    if b: "cacheable b s" for b
  proof -
    have l: "lookup_of_addr b (iCache s') =
        (if \<exists>i<8. bit (ic_valid ?c ?ix) i \<and> line_of b = line_of (f i) then 0xff else lookup_of_addr b ?c)"
      using invalidate_ways_lookup [where f = f and n = 8 and c = ?c and ix = ?i, OF g b]
      by (simp add: s'_def c1_def set_of_addr)
    show ?thesis
    proof (cases "line_of b mod 128 = ?ix \<and> lookup_of_addr b ?c \<noteq> 0xff")
      case True
      then have "holds_line b (unat (lookup_of_addr b ?c)) s" using coh b by (simp add: icache_coherent_def)
      then have "\<exists>i<8. bit (ic_valid ?c ?ix) i \<and> line_of b = line_of (f i)"
        using f True same_line [of b] unfolding holds_line_def by metis
      then show ?thesis using True unfolding l by simp
    next
      case False
      then show ?thesis unfolding l using f by (metis (mono_tags, opaque_lifting))
    qed
  qed
  have "holds_line b t s'" if "holds_line b t s" "cacheable b s" "line_of b mod 128 \<noteq> ?ix" for b t
  proof -
    note h = that
    have "word_at d s' = word_at d s" if d: "line_of d = line_of b" for d
    proof -
      have "line_of d \<noteq> line_of a" using h(3) d by metis
      then show ?thesis using mem [of d] cacheable_line [OF h(2) d] by (simp add: s'_def word_at_def)
    qed
    then show ?thesis using h by (simp add: holds_line_def) (simp add: s'_def c1_def)
  qed
  moreover have "cacheable b s' = cacheable b s" for b by (simp add: s'_def cacheable_def)
  moreover have "\<exists>b. cacheable b s \<and> line_of b mod 128 = i \<and> ic_tags (iCache s') i t = drop_bit 12 b
      \<and> lookup_of_addr b (iCache s') = of_nat t" if v: "i < 128" "t < 8" "bit (ic_valid (iCache s') i) t" for i t
  proof -
    have "i \<noteq> ?ix" "bit (ic_valid ?c i) t" using v(3) by (auto simp: s'_def c1_def split: if_splits)
    then show ?thesis using coherent_line [OF coh v(1,2)] look by (fastforce simp: s'_def c1_def)
  qed
  moreover have "n < 8" if "bit (ic_valid (iCache s') i) n" for i n
  proof -
    have "bit (ic_valid ?c i) n" using that by (auto simp: s'_def c1_def split: if_splits)
    then show ?thesis using coh by (simp add: icache_coherent_def)
  qed
  moreover have "way_from_valid (iCache s') = way_from_valid ?c" "way_from_plru (iCache s') = way_from_plru ?c"
    by (simp_all add: s'_def c1_def)
  ultimately show ?thesis
    using coh look unfolding inv icache_coherent_def by auto
qed


section \<open>The property\<close>

lemma first_free_way_less: "bit (m :: u32) k = False \<Longrightarrow> w \<le> k \<Longrightarrow> k < w + n \<Longrightarrow> first_free_way n w m \<le> k"
proof (induction n arbitrary: w)
  case (Suc n)
  then show ?case
    unfolding first_free_way.simps bit_test_32 using Suc.IH [of "w + 1"] by (cases "w = k") auto
qed simp

lemma reset_coherent:
  "icache_coherent (s\<lparr>iCache := icache_Reset (new_icache c)\<rparr>)"
proof -
  have "first_free_way 8 0 (of_nat m) < 8" if m: "m < 255" for m
  proof -
    have "\<exists>k<8. \<not> bit m k"
    proof (rule ccontr)
      assume "\<not> (\<exists>k<8. \<not> bit m k)"
      then have "take_bit 8 m = mask 8" by (intro bit_eqI) (auto simp: bit_take_bit_iff bit_mask_iff)
      then show False using m by (simp add: take_bit_eq_mod mask_eq_exp_minus_1)
    qed
    then obtain k where "k < 8" "\<not> bit m k" by blast
    then show ?thesis using first_free_way_less [of "of_nat m" k 0 8] by (simp add: bit_of_nat_iff)
  qed
  then show ?thesis
    by (simp add: icache_coherent_def icache_Reset_def new_icache_def plru_way_def lookup_of_addr_def)
qed

text \<open>C12: the instruction cache is invisible.  While its lines agree with memory, a fetch of an aligned
  word from main or extra memory, hit or miss, returns what memory holds and keeps the agreement; and
  after a program has changed the memory of one line, invalidating that line makes the cache agree with
  the new memory again.\<close>

theorem icache_invisible:
  assumes "icache_coherent s" "spr s SPR_HID0 AND HID0_ICE \<noteq> 0" "cacheable a s" "4 dvd unat a"
  shows "Memory_Read_U32 a s = Inr (word_at a s)
    \<and> (\<exists>c. ReadInstruction a s = Inr (word_at a s, s\<lparr>iCache := c\<rparr>) \<and> icache_coherent (s\<lparr>iCache := c\<rparr>))
    \<and> (\<forall>m d. (\<forall>b. cacheable b s \<and> line_of b \<noteq> line_of d \<longrightarrow> word_at b (s\<lparr>ram := m\<rparr>) = word_at b s) \<longrightarrow>
         icache_coherent (icache_Invalidate d (s\<lparr>ram := m\<rparr>)))"
  using word_at_read [OF assms(3,4)] fetch_coherent [OF assms(1,3,4)] invalidate_coherent [OF assms(1,2)] by blast

theorem icache_invisible_witness:
  "\<exists>c. ReadInstruction 0x3100 (ppc_zero\<lparr>spr := (\<lambda>_. 0)(1008 := HID0_ICE),
     iCache := icache_Reset (new_icache icache_zero)\<rparr>) = Inr (0, ppc_zero\<lparr>spr := (\<lambda>_. 0)(1008 := HID0_ICE), iCache := c\<rparr>)"
proof -
  let ?s = "ppc_zero\<lparr>spr := (\<lambda>_. 0)(1008 := HID0_ICE)\<rparr>"
  have "word_at 0x3100 (?s\<lparr>iCache := icache_Reset (new_icache icache_zero)\<rparr>) = 0"
    by (simp add: word_at_def place_of_def ppc_zero_def read_be_def upt_conv_Cons)
  moreover have "icache_coherent (?s\<lparr>iCache := icache_Reset (new_icache icache_zero)\<rparr>)" by (rule reset_coherent)
  moreover have "spr (?s\<lparr>iCache := icache_Reset (new_icache icache_zero)\<rparr>) SPR_HID0 AND HID0_ICE \<noteq> 0"
    by (simp add: SPR_HID0_def HID0_ICE_def)
  ultimately show ?thesis
    using icache_invisible [of "?s\<lparr>iCache := icache_Reset (new_icache icache_zero)\<rparr>" "0x3100"]
    by (auto simp: cacheable_def)
qed

end
