(* ===== verification/PPC_BAT.thy ===== *)
theory PPC_BAT
  imports PPC_MMU
begin

text \<open>
  Block address translation.  The code expands the BAT registers into a table of 32768 entries of
  128 KB when they are written, and translates by one lookup.  The specification is the architecture's:
  compare the address with each register pair.
\<close>

section \<open>The registers, as the architecture reads them\<close>

definition bat_match :: "u32 \<times> u32 \<Rightarrow> u32 \<Rightarrow> bool" where
  "bat_match b a \<longleftrightarrow> (BAT_VS (fst b) \<noteq> 0 \<or> BAT_VP (fst b) \<noteq> 0)
     \<and> BAT_BEPI (fst b) AND BAT_BL (fst b) = 0
     \<and> drop_bit 17 a AND NOT (BAT_BL (fst b)) = BAT_BEPI (fst b)"

definition bat_physical :: "u32 \<times> u32 \<Rightarrow> u32 \<Rightarrow> u32" where
  "bat_physical b a =
     push_bit 17 (BAT_BRPN (snd b) OR (drop_bit 17 a AND BAT_BL (fst b))) OR (a AND 0x1FFFF)"

text \<open>The first pair of a list that matches translates the address.\<close>

fun bat_translation :: "(u32 \<times> u32) list \<Rightarrow> u32 \<Rightarrow> u32 option" where
  "bat_translation [] a = None"
| "bat_translation (b # bs) a = (if bat_match b a then Some (bat_physical b a) else bat_translation bs a)"

definition bat_pair :: "ppc \<Rightarrow> nat \<Rightarrow> u32 \<times> u32" where
  "bat_pair s r = (spr s r, spr s (r + 1))"

section \<open>Filling the table\<close>

lemma bit_bat_fields:
  "bit (BAT_BEPI u) n \<longleftrightarrow> n < 15 \<and> bit u (17 + n)"
  "bit (BAT_BRPN u) n \<longleftrightarrow> n < 15 \<and> bit u (17 + n)"
  "bit (BAT_BL u) n \<longleftrightarrow> n < 11 \<and> bit u (2 + n)"
  by (auto simp: BAT_BEPI_def BAT_BRPN_def BAT_BL_def ifield_def bit_simps dest: bit_imp_le_length)

definition page_entry :: "u32 \<Rightarrow> u32 \<Rightarrow> ppc \<Rightarrow> u32 \<Rightarrow> u32" where
  "page_entry u l s q =
     (let p = push_bit 17 (BAT_BRPN l OR (q AND BAT_BL u)) in p OR bat_valid_bits p (push_bit 17 q) s)"

lemma virtual_index:
  assumes "j AND BAT_BL u = j"
  shows "drop_bit 17 (push_bit 17 (BAT_BEPI u OR j)) = (BAT_BEPI u OR j :: u32)"
proof (rule bit_word_eqI)
  fix n assume "n < LENGTH(32)"
  have "bit j n \<Longrightarrow> bit (j AND BAT_BL u) n" using assms by simp
  then have "bit j n \<Longrightarrow> n < 11" by (simp add: bit_simps bit_bat_fields)
  then show "bit (drop_bit 17 (push_bit 17 (BAT_BEPI u OR j))) n \<longleftrightarrow> bit (BAT_BEPI u OR j) n"
    by (auto simp: bit_simps bit_bat_fields)
qed

lemma page_split:
  assumes "BAT_BEPI u AND BAT_BL u = 0" "j AND BAT_BL u = j"
  shows "BAT_BEPI u OR j = q \<longleftrightarrow> q AND NOT (BAT_BL u) = BAT_BEPI u \<and> q AND BAT_BL u = j"
proof
  assume q: "BAT_BEPI u OR j = q"
  have d: "bit (BAT_BEPI u) n \<Longrightarrow> bit (BAT_BL u) n \<Longrightarrow> False" for n
    using arg_cong [OF assms(1), of "\<lambda>w. bit w n"] by (simp add: bit_simps)
  have e: "bit j n \<Longrightarrow> bit (BAT_BL u) n" for n
    using arg_cong [OF assms(2), of "\<lambda>w. bit w n"] by (auto simp: bit_simps)
  have "q AND NOT (BAT_BL u) = BAT_BEPI u"
    using d e by (intro bit_word_eqI) (auto simp: q [symmetric] bit_simps)
  moreover have "q AND BAT_BL u = j"
    using d e by (intro bit_word_eqI) (auto simp: q [symmetric] bit_simps)
  ultimately show "q AND NOT (BAT_BL u) = BAT_BEPI u \<and> q AND BAT_BL u = j" by simp
next
  assume "q AND NOT (BAT_BL u) = BAT_BEPI u \<and> q AND BAT_BL u = j"
  then have "BAT_BEPI u OR j = (q AND NOT (BAT_BL u)) OR (q AND BAT_BL u)" by simp
  also have "\<dots> = q" by (rule bit_word_eqI) (auto simp: bit_simps)
  finally show "BAT_BEPI u OR j = q" .
qed

lemma fill_bat_nth:
  assumes "BAT_BEPI u AND BAT_BL u = 0"
  shows "unat j + n \<le> 4096 \<Longrightarrow> fill_bat n j u l s t (unat q) =
     (if q AND NOT (BAT_BL u) = BAT_BEPI u \<and> unat j \<le> unat (q AND BAT_BL u)
         \<and> unat (q AND BAT_BL u) < unat j + n
      then page_entry u l s q else t (unat q))"
proof (induction n arbitrary: j t)
  case (Suc n)
  have j1: "unat (j + 1) = unat j + 1"
    using Suc.prems by (simp add: unat_word_ariths)
  show ?case
  proof (cases "j AND BAT_BL u = j")
    case True
    let ?v = "BAT_BEPI u OR j"
    have v: "unat (drop_bit BAT_INDEX_SHIFT (push_bit BAT_INDEX_SHIFT ?v)) = unat ?v"
      using virtual_index [OF True] by (simp add: BAT_INDEX_SHIFT_def)
    have hit: "unat ?v = unat q \<longleftrightarrow> q AND NOT (BAT_BL u) = BAT_BEPI u \<and> unat (q AND BAT_BL u) = unat j"
      using page_split [OF assms True, of q] by (simp add: word_unat_eq_iff)
    have entry: "unat ?v = unat q \<Longrightarrow> push_bit BAT_INDEX_SHIFT (BAT_BRPN l OR j) OR
        bat_valid_bits (push_bit BAT_INDEX_SHIFT (BAT_BRPN l OR j)) (push_bit BAT_INDEX_SHIFT ?v) s = page_entry u l s q"
      using page_split [OF assms True, of q]
      by (simp only: page_entry_def BAT_INDEX_SHIFT_def word_unat_eq_iff [symmetric] Let_def) simp
    show ?thesis
    proof (cases "unat ?v = unat q")
      case True
      then have "unat (q AND BAT_BL u) = unat j" "q AND NOT (BAT_BL u) = BAT_BEPI u" using hit by simp_all
      then show ?thesis
        using Suc.prems entry [OF True] \<open>j AND BAT_BL u = j\<close>
        by (simp only: fill_bat.simps Suc.IH j1 Let_def v True fun_upd_same if_True simp_thms) simp
    next
      case False
      then have "q AND NOT (BAT_BL u) = BAT_BEPI u \<Longrightarrow> unat (q AND BAT_BL u) \<noteq> unat j" using hit by blast
      moreover have "fill_bat (Suc n) j u l s t (unat q) =
          (if q AND NOT (BAT_BL u) = BAT_BEPI u \<and> unat j + 1 \<le> unat (q AND BAT_BL u)
             \<and> unat (q AND BAT_BL u) < unat j + 1 + n then page_entry u l s q else t (unat q))"
        using Suc.prems False \<open>j AND BAT_BL u = j\<close>
        by (simp only: fill_bat.simps Suc.IH j1 Let_def v fun_upd_def if_True simp_thms) simp
      ultimately show ?thesis by auto
    qed
  next
    case False
    have "q AND BAT_BL u \<noteq> j"
      using False by (auto simp: bit_eq_iff bit_simps)
    then have "unat (q AND BAT_BL u) \<noteq> unat j"
      by (simp add: word_unat_eq_iff)
    moreover have "fill_bat (Suc n) j u l s t (unat q) =
        (if q AND NOT (BAT_BL u) = BAT_BEPI u \<and> unat j + 1 \<le> unat (q AND BAT_BL u)
           \<and> unat (q AND BAT_BL u) < unat j + 1 + n then page_entry u l s q else t (unat q))"
      using Suc.prems False by (simp add: Suc.IH j1)
    ultimately show ?thesis by auto
  qed
qed auto

lemma unat_BL: "unat (BAT_BL u) < 2048"
proof -
  have "BAT_BL u = take_bit 11 (BAT_BL u)"
    by (rule bit_word_eqI) (auto simp: bit_simps bit_bat_fields)
  then have "unat (BAT_BL u) = unat (take_bit 11 (BAT_BL u))" by simp
  also have "\<dots> < 2 ^ 11" by (simp only: unsigned_take_bit_eq take_bit_nat_less_exp)
  finally show ?thesis by simp
qed

lemma update_bat_nth:
  "update_bat u l s t (unat (drop_bit 17 a)) =
     (if bat_match (u, l) a then page_entry u l s (drop_bit 17 a) else t (unat (drop_bit 17 a)))"
proof -
  have "unat (drop_bit 17 a AND BAT_BL u) \<le> unat (BAT_BL u)"
    by (metis word_and_le1 word_le_nat_alt)
  then show ?thesis
    using unat_BL [of u]
    by (auto simp: update_bat_def bat_match_def fill_bat_nth simp del: fill_bat.simps)
qed

section \<open>The lookup\<close>

definition translate_entry :: "u32 \<Rightarrow> u32 \<Rightarrow> u32 option" where
  "translate_entry e a =
     (if e AND BAT_MAPPED_BIT = 0 then None else Some ((e AND BAT_RESULT_MASK) OR (a AND (BAT_PAGE_SIZE - 1))))"

lemma TranslateBatAddess_entry:
  "TranslateBatAddess t a = translate_entry (t (unat (drop_bit 17 a))) a"
  by (simp add: TranslateBatAddess_def translate_entry_def Let_def BAT_INDEX_SHIFT_def)

lemma bat_constants:
  "BAT_MAPPED_BIT = 1" "BAT_PHYSICAL_BIT = 2" "BAT_RESULT_MASK = NOT 3" "BAT_PAGE_SIZE - 1 = 0x1FFFF"
  by (simp_all add: BAT_MAPPED_BIT_def BAT_PHYSICAL_BIT_def BAT_RESULT_MASK_def BAT_PAGE_SIZE_def)

lemma bat_valid_bits_cases: "bat_valid_bits p v s = 1 \<or> bat_valid_bits p v s = 3"
  by (simp add: bat_valid_bits_def bat_constants Let_def)

lemma translate_entry_flags:
  assumes "f = 1 \<or> f = 3"
  shows "translate_entry (push_bit 17 w OR f) a = Some (push_bit 17 w OR (a AND 0x1FFFF))"
proof -
  have f: "bit f 0" "bit f n \<Longrightarrow> n < 2" for n
    using assms bit_mask_word [of 2 n, where 'a = 32] by (auto simp: mask_eq_exp_minus_1 bit_1_iff)
  have "bit ((push_bit 17 w OR f) AND 1) 0"
    using f(1) by (simp add: bit_and_iff bit_or_iff)
  then have "(push_bit 17 w OR f) AND 1 \<noteq> 0" by (rule contrapos_pn) simp
  moreover have "(push_bit 17 w OR f) AND NOT 3 = push_bit 17 w"
  proof (rule bit_word_eqI)
    fix n assume "n < LENGTH(32)"
    have "(3 :: u32) = mask 2" by (simp add: mask_eq_exp_minus_1)
    then show "bit ((push_bit 17 w OR f) AND NOT 3) n \<longleftrightarrow> bit (push_bit 17 w) n"
      using f(2) [of n] \<open>n < LENGTH(32)\<close> by (auto simp only: bit_simps)
  qed
  ultimately show ?thesis
    by (simp only: translate_entry_def bat_constants if_False)
qed

lemma translate_page_entry: "translate_entry (page_entry u l s (drop_bit 17 a)) a = Some (bat_physical (u, l) a)"
  unfolding page_entry_def bat_physical_def Let_def fst_conv snd_conv
  by (rule translate_entry_flags [OF bat_valid_bits_cases])

lemma translate_no_entry: "translate_entry 0 a = None"
  by (simp add: translate_entry_def)

text \<open>Later registers overwrite the entries of earlier ones.\<close>

lemma update_bats_from_translate:
  "TranslateBatAddess (update_bats_from n r s t) a =
     (case bat_translation (map (\<lambda>i. bat_pair s (r + 2 * i)) (rev [0..<n])) a of
        Some p \<Rightarrow> Some p | None \<Rightarrow> TranslateBatAddess t a)"
proof (induction n arbitrary: r t)
  case (Suc n)
  have shift: "map (\<lambda>i. bat_pair s (r + 2 * i)) (rev [0..<Suc n]) =
      map (\<lambda>i. bat_pair s (r + 2 + 2 * i)) (rev [0..<n]) @ [bat_pair s r]"
  proof -
    have "[0..<Suc n] = 0 # map Suc [0..<n]" by (simp only: map_Suc_upt upt_conv_Cons zero_less_Suc)
    then show ?thesis by (simp add: rev_map del: upt_Suc)
  qed
  have app: "bat_translation (bs @ [b]) a =
      (case bat_translation bs a of Some p \<Rightarrow> Some p | None \<Rightarrow> bat_translation [b] a)" for bs b
    by (induction bs) auto
  have one: "TranslateBatAddess (update_bat (spr s r) (spr s (r + 1)) s t) a =
      (case bat_translation [bat_pair s r] a of Some p \<Rightarrow> Some p | None \<Rightarrow> TranslateBatAddess t a)"
    by (simp add: TranslateBatAddess_entry update_bat_nth translate_page_entry bat_pair_def)
  show ?case
    by (simp only: shift app update_bats_from.simps Suc.IH one) (auto split: option.splits)
qed simp

section \<open>Fake virtual memory\<close>

definition fake_entry :: "u32 \<Rightarrow> u32 \<Rightarrow> ppc \<Rightarrow> u32" where
  "fake_entry k q s = (0x7E000000 OR (push_bit 17 k AND 0x01FFFFFF))
     OR (if OverlapsMemcheck s (push_bit 17 q) then 1 else 3)"

lemma fake_mmu_bat_from_nth:
  "unat i + n \<le> 2048 \<Longrightarrow> fake_mmu_bat_from n i st s t (unat q) =
     (if unat i \<le> unat (q - drop_bit 17 st) \<and> unat (q - drop_bit 17 st) < unat i + n
      then fake_entry (q - drop_bit 17 st) q s else t (unat q))"
proof (induction n arbitrary: i t)
  case (Suc n)
  let ?k = "q - drop_bit 17 st"
  have i1: "unat (i + 1) = unat i + 1"
    using Suc.prems by (simp add: unat_word_ariths)
  have hit: "unat q = unat (i + drop_bit 17 st) \<longleftrightarrow> unat ?k = unat i"
    by (auto simp: word_unat_eq_iff [symmetric] algebra_simps)
  have "fake_mmu_bat_from (Suc n) i st s t (unat q) =
      (if unat i + 1 \<le> unat ?k \<and> unat ?k < unat i + 1 + n then fake_entry ?k q s
       else if unat ?k = unat i then fake_entry i (i + drop_bit 17 st) s else t (unat q))"
    using Suc.prems
    by (simp only: fake_mmu_bat_from.simps Let_def Suc.IH i1 fun_upd_def hit fake_entry_def
        BAT_INDEX_SHIFT_def bat_constants) simp
  moreover have "unat ?k = unat i \<Longrightarrow> i = ?k \<and> i + drop_bit 17 st = q"
    by (auto simp: word_unat_eq_iff [symmetric])
  ultimately show ?case by auto
qed auto

text \<open>The addresses \<open>0x40000000\<close> to \<open>0x4FFFFFFF\<close> and \<open>0x70000000\<close> to \<open>0x7FFFFFFF\<close>.\<close>

definition fake_segment :: "u32 \<Rightarrow> bool" where
  "fake_segment a \<longleftrightarrow> drop_bit 28 a = 4 \<or> drop_bit 28 a = 7"

lemma low_byte_of_difference:
  assumes "take_bit 8 c = (0 :: u32)"
  shows "take_bit 8 (q - c) = take_bit 8 q"
proof -
  have c: "take_bit 8 (uint c) = 0"
    using arg_cong [OF assms, of uint] by (simp add: unsigned_take_bit_eq)
  have "uint (take_bit 8 (q - c)) = take_bit 8 (uint q - uint c)"
    by (simp add: unsigned_take_bit_eq uint_word_arith_bintrs(2))
  also have "\<dots> = take_bit 8 (take_bit 8 (uint q) - take_bit 8 (uint c))"
    by (simp only: take_bit_diff)
  also have "\<dots> = uint (take_bit 8 q)"
    by (simp add: c unsigned_take_bit_eq)
  finally show ?thesis by (simp only: word_uint_eq_iff)
qed

lemma translate_fake_entry:
  assumes "take_bit 8 c = (0 :: u32)"
  shows "translate_entry (fake_entry (drop_bit 17 a - c) q s) a = Some (0x7E000000 OR (a AND 0x01FFFFFF))"
proof -
  let ?k = "drop_bit 17 a - c" and ?f = "if OverlapsMemcheck s (push_bit 17 q) then 1 else 3 :: u32"
  have k: "bit ?k n \<longleftrightarrow> bit a (17 + n)" if "n < 8" for n
    using arg_cong [OF low_byte_of_difference [OF assms, of "drop_bit 17 a"], of "\<lambda>w. bit w n"] that
    by (simp add: bit_simps)
  have m25: "(0x01FFFFFF :: u32) = mask 25" "(0x1FFFF :: u32) = mask 17"
    by (simp_all add: mask_eq_exp_minus_1)
  have split: "0x7E000000 OR (push_bit 17 ?k AND 0x01FFFFFF) =
      push_bit 17 (0x3F00 OR take_bit 8 (drop_bit 17 a))"
  proof -
    have "(0x7E000000 :: u32) = push_bit 17 0x3F00" by simp
    moreover have "push_bit 17 ?k AND 0x01FFFFFF = push_bit 17 (take_bit 8 (drop_bit 17 a))"
      unfolding m25 by (rule bit_word_eqI) (auto simp: bit_simps k)
    ultimately show ?thesis by (simp only: push_bit_or)
  qed
  have "push_bit 17 (0x3F00 OR take_bit 8 (drop_bit 17 a)) OR (a AND 0x1FFFF) =
      push_bit 17 0x3F00 OR (a AND 0x01FFFFFF)"
    unfolding m25 push_bit_or by (rule bit_word_eqI) (auto simp only: bit_simps comp_apply le_add_diff_inverse)
  then have "Some (push_bit 17 (0x3F00 OR take_bit 8 (drop_bit 17 a)) OR (a AND 0x1FFFF)) =
      Some (0x7E000000 OR (a AND 0x01FFFFFF))" by simp
  moreover have "?f = 1 \<or> ?f = 3" by simp
  ultimately show ?thesis
    unfolding fake_entry_def split using translate_entry_flags by (simp only:)
qed

lemma fake_bat_translate:
  assumes "st = 0x40000000 \<or> st = 0x70000000"
  shows "TranslateBatAddess (UpdateFakeMMUBat st s t) a =
    (if drop_bit 28 a = drop_bit 28 st then Some (0x7E000000 OR (a AND 0x01FFFFFF))
     else TranslateBatAddess t a)"
proof -
  have c: "take_bit 8 (drop_bit 17 st) = 0" using assms by auto
  have "unat (drop_bit 17 a - drop_bit 17 st) < 2048 \<longleftrightarrow> drop_bit 28 a = drop_bit 28 st"
  proof -
    have a: "unat (drop_bit 17 a) < 32768" "unat (drop_bit 28 a) = unat (drop_bit 17 a) div 2048"
      using unsigned_less [of a, where 'a = nat]
      by (simp_all only: unat_drop_bit_eq drop_bit_eq_div [where 'a = nat]) (simp_all add: div_mult2_eq [symmetric] less_mult_imp_div_less)
    have "unat (drop_bit 17 a - drop_bit 17 st) < 2048 \<longleftrightarrow> unat (drop_bit 28 a) = unat (drop_bit 28 st)"
      using assms a(1) unfolding a(2) by (auto simp: unat_sub_if_size word_size)
    then show ?thesis by (simp only: word_unat_eq_iff)
  qed
  then show ?thesis
    by (simp add: UpdateFakeMMUBat_def TranslateBatAddess_entry fake_mmu_bat_from_nth
        translate_fake_entry [OF c])
qed

text \<open>C6: after \<open>DBATUpdated\<close> and \<open>IBATUpdated\<close> a lookup in the table is the architecture's block address
  translation: the last enabled register pair whose block holds the address gives the physical
  address, the extended pairs (with \<open>HID4[SBE]\<close> on the Wii) before the basic ones; with fake virtual
  memory the two segments it emulates come first.
\<close>

theorem bat_lookup:
  "TranslateBatAddess (updated_table base ext s) a =
    (if has_fakevmem s \<and> (drop_bit 28 a = 4 \<or> drop_bit 28 a = 7)
     then Some (0x7E000000 OR (a AND 0x01FFFFFF))
     else bat_translation
       (map (bat_pair s)
         ((if bWii s \<and> spr s SPR_HID4 AND HID4_SBE \<noteq> 0 then [ext + 6, ext + 4, ext + 2, ext] else [])
          @ [base + 6, base + 4, base + 2, base])) a)"
proof -
  have list: "map (\<lambda>i. bat_pair s (r + 2 * i)) (rev [0..<4]) =
      map (bat_pair s) [r + 6, r + 4, r + 2, r]" for r
    by (simp add: upt_rec)
  have none: "TranslateBatAddess (\<lambda>_. 0) a = None"
    by (simp add: TranslateBatAddess_entry translate_no_entry)
  have app: "bat_translation (bs @ cs) a =
      (case bat_translation bs a of Some p \<Rightarrow> Some p | None \<Rightarrow> bat_translation cs a)" for bs cs
    by (induction bs) auto
  have tables: "TranslateBatAddess (UpdateBATs r s t) a =
      (case bat_translation (map (bat_pair s) [r + 6, r + 4, r + 2, r]) a of
         Some p \<Rightarrow> Some p | None \<Rightarrow> TranslateBatAddess t a)" for r t
    by (simp only: UpdateBATs_def update_bats_from_translate list)
  show ?thesis
    by (simp add: updated_table_def Let_def fake_bat_translate tables none app
        split: option.split del: list.map(2) bat_translation.simps(2))
qed

end
