(* ===== verification/PPC_RAM.thy ===== *)
theory PPC_RAM
  imports PPC_Access PPC_Bytes
begin

text \<open>
  Data accesses to memory that block address translation maps.  Such memory behaves as one byte per
  address, whether an access crosses a page or not: a write sets the bytes it spans and nothing else,
  and a read returns them.
\<close>

section \<open>Where a byte is\<close>

definition byte_place :: "ppc \<Rightarrow> u32 \<Rightarrow> (bank \<times> nat) option" where
  "byte_place s a = (case TranslateBatAddess (dbat_table s) a of None \<Rightarrow> None | Some p \<Rightarrow> hw_bank p s)"

definition mem_byte :: "ppc \<Rightarrow> u32 \<Rightarrow> u8" where
  "mem_byte s a = (case byte_place s a of None \<Rightarrow> 0 | Some (b, off) \<Rightarrow> ram s b off)"

definition span :: "nat \<Rightarrow> u32 \<Rightarrow> u32 set" where
  "span n a = (\<lambda>i. a + of_nat i) ` {..<n}"

text \<open>The entries of a BAT table hold an address of a block, and the two flags.\<close>

definition bat_table_ok :: "u32 array \<Rightarrow> bool" where
  "bat_table_ok t \<longleftrightarrow> (\<forall>q. take_bit 17 (t q AND BAT_RESULT_MASK) = 0)"

text \<open>A set of addresses whose bytes are all in memory, at different places.\<close>

definition ram_region :: "u32 set \<Rightarrow> ppc \<Rightarrow> bool" where
  "ram_region R s \<longleftrightarrow> msr s AND MSR_DR \<noteq> 0 \<and> bat_table_ok (dbat_table s) \<and> (\<forall>address var w sz. \<not> memcheck_pause s address var w sz)
     \<and> (\<forall>a\<in>R. byte_place s a \<noteq> None) \<and> inj_on (byte_place s) R"

section \<open>Inside a page\<close>

definition page_room :: "u32 \<Rightarrow> nat \<Rightarrow> bool" where
  "page_room a i \<longleftrightarrow> unat a mod 4096 + i < 4096"

lemma page_arith:
  assumes "u mod 4096 + i < (4096 :: nat)"
  shows "(u + i) div 4096 = u div 4096" "(u + i) mod 4096 = u mod 4096 + i"
proof -
  have e: "u + i = (u mod 4096 + i) + 4096 * (u div 4096)" by simp
  have "(u + i) div 4096 = ((u mod 4096 + i) + 4096 * (u div 4096)) div 4096" using e by simp
  also have "\<dots> = u div 4096" using assms by (simp only: div_mult_self2)
  finally show "(u + i) div 4096 = u div 4096" .
  have "(u + i) mod 4096 = ((u mod 4096 + i) + 4096 * (u div 4096)) mod 4096" using e by simp
  also have "\<dots> = u mod 4096 + i" using assms by (simp only: mod_mult_self2 mod_less)
  finally show "(u + i) mod 4096 = u mod 4096 + i" .
qed

lemma unat_in_page:
  assumes "page_room a i"
  shows "unat (a + of_nat i) = unat a + i"
proof -
  have "unat a < 2 ^ 32" using unsigned_less [of a, where 'a = nat] by simp
  then have "unat a div 4096 < 1048576" by (simp add: less_mult_imp_div_less)
  then have "4096 * (unat a div 4096) + 4096 \<le> 4096 * 1048576" by linarith
  moreover have "unat a = 4096 * (unat a div 4096) + unat a mod 4096" by simp
  ultimately have "unat a + i < 4294967296" using assms unfolding page_room_def by linarith
  then show ?thesis by (simp add: unat_word_ariths unat_of_nat)
qed

lemma drop_bit_in_page:
  assumes "page_room a i" "12 \<le> k"
  shows "drop_bit k (a + of_nat i) = drop_bit k a"
proof -
  have d: "(unat a + i) div 4096 = unat a div 4096"
    using assms(1) unfolding page_room_def by (rule page_arith)
  have k: "(2 :: nat) ^ k = 4096 * 2 ^ (k - 12)"
    using assms(2) power_add [of "2 :: nat" 12 "k - 12"] by simp
  have "n div 2 ^ k = n div 4096 div 2 ^ (k - 12)" for n :: nat
    by (simp only: k div_mult2_eq)
  then have "(unat a + i) div 2 ^ k = unat a div 2 ^ k" by (simp only: d)
  then show ?thesis
    by (simp only: word_unat_eq_iff unat_drop_bit_eq drop_bit_eq_div [where 'a = nat] unat_in_page [OF assms(1)])
qed

lemma mod_in_page:
  assumes "page_room a i" "12 \<le> k"
  shows "(unat a + i) mod 2 ^ k = unat a mod 2 ^ k + i"
proof -
  have k: "(2 :: nat) ^ k = 4096 * 2 ^ (k - 12)"
    using assms(2) power_add [of "2 :: nat" 12 "k - 12"] by simp
  have "(unat a + i) div 4096 = unat a div 4096" "(unat a + i) mod 4096 = unat a mod 4096 + i"
    using page_arith [OF assms(1) [unfolded page_room_def]] by simp_all
  then show ?thesis by (simp only: k mod_mult2_eq)
qed

lemma low_in_page:
  assumes "page_room a i" "12 \<le> k" "k \<le> 32"
  shows "(a + of_nat i) AND mask k = (a AND mask k) + of_nat i"
proof -
  have m: "unat (a AND mask k) = unat a mod 2 ^ k" by (rule unat_and_mask)
  have "unat a mod 2 ^ k mod 4096 = unat a mod 4096"
    using assms(2) le_imp_power_dvd [of 12 k "2 :: nat"] by (simp add: mod_mod_cancel)
  then have "page_room (a AND mask k) i" using assms(1) by (simp add: page_room_def m)
  then show ?thesis
    by (simp add: word_unat_eq_iff unat_in_page unat_and_mask m mod_in_page [OF assms(1,2)] unat_in_page [OF assms(1)])
qed

section \<open>Translation and place inside a page\<close>

lemma bat_constants':
  "BAT_MAPPED_BIT = 1" "BAT_PAGE_SIZE - 1 = mask 17"
  by (simp_all add: BAT_MAPPED_BIT_def BAT_PAGE_SIZE_def mask_eq_exp_minus_1)

lemma or_low_eq_add: "take_bit 17 e = 0 \<Longrightarrow> e OR (a AND mask 17) = e + (a AND mask 17)" for e a :: u32
proof -
  assume e: "take_bit 17 e = 0"
  have "e AND (a AND mask 17) = (take_bit 17 e) AND a"
    by (simp add: take_bit_eq_mask ac_simps)
  then show ?thesis using e by (simp add: disjunctive_add_eq_or)
qed

lemma TranslateBat_in_page:
  assumes "bat_table_ok t" "page_room a i" "TranslateBatAddess t a = Some p"
  shows "TranslateBatAddess t (a + of_nat i) = Some (p + of_nat i)" "unat p mod 4096 = unat a mod 4096"
proof -
  let ?e = "t (unat (drop_bit 17 a)) AND BAT_RESULT_MASK"
  have e: "take_bit 17 ?e = 0" using assms(1) by (simp add: bat_table_ok_def)
  have p: "p = ?e + (a AND mask 17)"
    using assms(3) or_low_eq_add [OF e]
    by (simp add: TranslateBatAddess_def BAT_INDEX_SHIFT_def bat_constants' Let_def split: if_splits)
  show "TranslateBatAddess t (a + of_nat i) = Some (p + of_nat i)"
    using assms(3) drop_bit_in_page [OF assms(2), of 17] low_in_page [OF assms(2), of 17]
      or_low_eq_add [OF e, of "a + of_nat i"]
    by (simp add: TranslateBatAddess_def BAT_INDEX_SHIFT_def bat_constants' Let_def p split: if_splits)
  have "take_bit 12 p = take_bit 12 a"
  proof (rule bit_word_eqI)
    fix n
    have "\<not> bit ?e n" if "n < 17"
      using arg_cong [OF e, of "\<lambda>w. bit w n"] that by (simp add: bit_take_bit_iff del: take_bit_and)
    moreover have "p = ?e OR (a AND mask 17)" using p or_low_eq_add [OF e] by simp
    ultimately show "bit (take_bit 12 p) n = bit (take_bit 12 a) n"
      by (auto simp: bit_take_bit_iff bit_or_iff bit_and_iff bit_mask_iff)
  qed
  then have "unat (p AND mask 12) = unat (a AND mask 12)" by (simp add: take_bit_eq_mask)
  then show "unat p mod 4096 = unat a mod 4096" by (simp add: unat_and_mask)
qed

text \<open>\<open>hw_bank\<close> by the number of the page and the offset in it.\<close>

definition page_bank :: "nat \<Rightarrow> nat \<Rightarrow> ppc \<Rightarrow> (bank \<times> nat) option" where
  "page_bank q r s =
     (if q < 0x8000 then Some (Ram, 4096 * (q mod 0x2000) + r)
      else if has_exram s \<and> q div 0x10000 = 1 \<and> q mod 0x10000 < 0x4000
      then Some (Exram, 4096 * (q mod 0x10000) + r)
      else if q div 0x10000 = 0xE \<and> q < 0xE0040 then Some (L1Cache, 4096 * (q mod 0x10000) + r)
      else if has_fakevmem s \<and> q div 0x2000 = 0x3F then Some (FakeVMEM, 4096 * (q mod 0x2000) + r)
      else None)"

lemma unat_and_not_mask: "unat (a AND NOT (mask k)) = 2 ^ k * (unat a div 2 ^ k)" for a :: "'a::len word"
proof -
  have "a = (a AND NOT (mask k)) OR (a AND mask k)" by (rule bit_word_eqI) (auto simp: bit_simps)
  moreover have "(a AND NOT (mask k)) AND (a AND mask k) = 0" by (rule bit_word_eqI) (auto simp: bit_simps)
  ultimately have "a = (a AND NOT (mask k)) + (a AND mask k)" by (metis disjunctive_add_eq_or)
  then have "a AND NOT (mask k) = a - take_bit k a" by (simp add: take_bit_eq_mask algebra_simps)
  moreover have "take_bit k a \<le> a" by (simp add: take_bit_eq_mask word_and_le2)
  moreover have "unat (take_bit k a) = unat a mod 2 ^ k" by (simp only: take_bit_eq_mask unat_and_mask)
  ultimately show ?thesis by (simp add: unat_sub minus_mod_eq_mult_div)
qed

lemma high_masks:
  "(0xF8000000 :: u32) = NOT (mask 27)" "(0xFE000000 :: u32) = NOT (mask 25)"
  "(0x0FFFFFFF :: u32) = mask 28" "RAM_MASK = mask 25"
  by (simp_all add: mask_eq_exp_minus_1 RAM_MASK_def)

lemma hw_bank_page: "hw_bank a s = page_bank (unat a div 4096) (unat a mod 4096) s"
proof -
  let ?u = "unat a" and ?q = "unat a div 4096" and ?r = "unat a mod 4096"
  have d: "?u div 2 ^ (12 + k) = ?q div 2 ^ k" "?u mod 2 ^ (12 + k) = 4096 * (?q mod 2 ^ k) + ?r" for k
    by (simp_all add: power_add div_mult2_eq mod_mult2_eq)
  have ram: "a AND 0xF8000000 = 0 \<longleftrightarrow> ?q < 0x8000"
    using d(1) [of 15] by (simp add: word_unat_eq_iff high_masks unat_and_not_mask div_eq_0_iff)
  have fake: "a AND 0xFE000000 = 0x7E000000 \<longleftrightarrow> ?q div 0x2000 = 0x3F"
    using d(1) [of 13] by (simp add: word_unat_eq_iff high_masks unat_and_not_mask)
  have seg: "drop_bit 28 a = w \<longleftrightarrow> ?q div 0x10000 = unat w" for w
    using d(1) [of 16] by (simp only: word_unat_eq_iff unat_drop_bit_eq drop_bit_eq_div [where 'a = nat]) simp
  have off: "unat (a AND RAM_MASK) = 4096 * (?q mod 0x2000) + ?r"
    "unat (a AND 0x0FFFFFFF) = 4096 * (?q mod 0x10000) + ?r"
    using d(2) [of 13] d(2) [of 16] by (simp_all add: high_masks unat_and_mask)
  have ex: "4096 * (?q mod 0x10000) + ?r < EXRAM_SIZE \<longleftrightarrow> ?q mod 0x10000 < 0x4000"
    using mod_less_divisor [of "4096" ?u] unfolding EXRAM_SIZE_def by linarith
  have l1: "a < 0xE0000000 + of_nat L1_CACHE_SIZE \<longleftrightarrow> ?q < 0xE0040"
    by (simp add: word_less_nat_alt L1_CACHE_SIZE_def less_mult_imp_div_less div_less_iff_less_mult)
  show ?thesis
    by (simp only: hw_bank_def page_bank_def ram fake seg off ex l1) simp
qed

lemma hw_bank_in_page:
  assumes "unat p mod 4096 + i < 4096" "hw_bank p s = Some (b, off)"
  shows "hw_bank (p + of_nat i) s = Some (b, off + i)"
proof -
  have r: "page_room p i" using assms(1) by (simp add: page_room_def)
  show ?thesis
    using assms(2) unfolding hw_bank_page unat_in_page [OF r] page_arith [OF assms(1)] page_bank_def
    by (auto split: if_splits)
qed

lemma hw_bank_room:
  assumes "unat p mod 4096 + n \<le> 4096" "hw_bank p s = Some (b, off)"
  shows "off + n \<le> bank_size b"
proof -
  have "4096 * (q mod 0x2000) + n' \<le> 0x2000000" if "n' \<le> 4096" for q n' :: nat
    using mod_less_divisor [of "0x2000" q, simplified] that by linarith
  moreover have "4096 * (q mod 0x10000) + n' \<le> 0x40000" if "q < 0xE0040" "q div 0x10000 = 0xE" "n' \<le> 4096" for q n' :: nat
  proof -
    have "q = 0x10000 * 0xE + q mod 0x10000" using that(2) by (metis mult_div_mod_eq)
    then show ?thesis using that by linarith
  qed
  moreover have "4096 * m + n' \<le> 0x4000000" if "m < 0x4000" "n' \<le> 4096" for m n' :: nat
    using that by linarith
  ultimately show ?thesis
    using assms unfolding hw_bank_page page_bank_def
    by (auto simp: size_defs add.assoc split: if_splits)
qed

section \<open>Reads\<close>

text \<open>The physical address of a data access that a BAT maps to memory.\<close>

definition placed :: "ppc \<Rightarrow> u32 \<Rightarrow> u32 \<Rightarrow> bank \<Rightarrow> nat \<Rightarrow> bool" where
  "placed s a p b off \<longleftrightarrow> TranslateBatAddess (dbat_table s) a = Some p \<and> hw_bank p s = Some (b, off)"

lemma placed_iff: "byte_place s a = Some (b, off) \<longleftrightarrow> (\<exists>p. placed s a p b off)"
  by (auto simp: byte_place_def placed_def split: option.splits)

lemma placed_byte: "placed s a p b off \<Longrightarrow> mem_byte s a = ram s b off"
  by (simp add: mem_byte_def byte_place_def placed_def)

lemma placed_in_page:
  assumes "bat_table_ok (dbat_table s)" "placed s a p b off" "unat a mod 4096 + i < 4096"
  shows "placed s (a + of_nat i) (p + of_nat i) b (off + i)"
proof -
  have p: "TranslateBatAddess (dbat_table s) a = Some p" "hw_bank p s = Some (b, off)"
    using assms(2) by (simp_all add: placed_def)
  note t = TranslateBat_in_page [OF assms(1) _ p(1), of i, unfolded page_room_def, OF assms(3)]
  show ?thesis
    unfolding placed_def using t assms(3) p(2) by (simp add: hw_bank_in_page)
qed

lemma placed_room:
  assumes "bat_table_ok (dbat_table s)" "placed s a p b off" "unat a mod 4096 + n \<le> 4096"
  shows "off + n \<le> bank_size b"
proof -
  have "page_room a 0" by (simp add: page_room_def)
  with assms(1,2) have "unat p mod 4096 = unat a mod 4096"
    using TranslateBat_in_page(2) by (simp add: placed_def)
  then show ?thesis
    using assms(2,3) hw_bank_room [of p n s b off] by (simp add: placed_def)
qed

lemma TranslateAddress_placed:
  "\<not> IsOpcodeFlag flag \<Longrightarrow> placed s a p b off \<Longrightarrow> TranslateAddress flag a s = Inr ((BAT_TRANSLATED, p), s)"
  by (simp add: TranslateAddress_def placed_def)

lemma read_physical_placed:
  assumes "placed s a p b off" "off + n \<le> bank_size b"
  shows "read_physical flag n p s = Inr (read_be n (ram s b) off, s)"
  using assms by (simp add: read_physical_def placed_def load_bank_def)

text \<open>The bytes of an access, most significant first.\<close>

definition mem_value :: "ppc \<Rightarrow> nat \<Rightarrow> u32 \<Rightarrow> u64" where
  "mem_value s n a = read_be n (\<lambda>i. mem_byte s (a + of_nat i)) 0"

lemma mem_value_Suc: "mem_value s (Suc n) a = push_bit 8 (mem_value s n a) OR ucast (mem_byte s (a + of_nat n))"
  by (simp add: mem_value_def read_be_Suc)

lemma read_be_shift: "read_be n (\<lambda>i. m (off + i)) 0 = read_be n m off"
  by (simp add: read_be_def)

lemma mem_value_in_page:
  assumes "bat_table_ok (dbat_table s)" "placed s a p b off" "unat a mod 4096 + n \<le> 4096"
  shows "mem_value s n a = read_be n (ram s b) off"
proof -
  have "mem_byte s (a + of_nat i) = ram s b (off + i)" if "i < n" for i
    using placed_byte [OF placed_in_page [OF assms(1,2)]] assms(3) that by simp
  then have "mem_value s n a = read_be n (\<lambda>i. ram s b (off + i)) 0"
    unfolding mem_value_def by (intro read_be_cong) simp
  then show ?thesis by (simp only: read_be_shift)
qed

definition access_size :: "nat \<Rightarrow> bool" where
  "access_size n \<longleftrightarrow> n = 1 \<or> n = 2 \<or> n = 4 \<or> n = 8"

lemma unat_offset: "unat ((a :: u32) AND 0xFFF) = unat a mod 4096"
  using unat_and_mask [of a 12] by (simp add: mask_eq_exp_minus_1)

lemma next_page_value:
  assumes "0 < n" "n \<le> 8"
  shows "next_page n a = of_nat (4096 * ((unat a + n - 1) div 4096))"
proof -
  have u: "unat (ucast a + of_nat n - 1 :: u64) = unat a + n - 1"
  proof -
    have "ucast a + of_nat n - (1 :: u64) = of_nat (unat a + n - 1)"
      using assms(1) by (simp add: of_nat_diff)
    then show ?thesis
      using unsigned_less [of a, where 'a = nat] assms(2) by (simp only: unat_of_nat) simp
  qed
  have "(0xFFF :: u64) = mask 12" by (simp add: mask_eq_exp_minus_1)
  moreover have "unat (x AND NOT (mask 12)) = 4096 * (unat x div 4096)" for x :: u64
    using unat_and_not_mask [of x 12] by simp
  ultimately have "unat ((ucast a + of_nat n - 1 :: u64) AND NOT 0xFFF) = 4096 * ((unat a + n - 1) div 4096)"
    by (simp only: u)
  moreover have "next_page n a = of_nat (unat ((ucast a + of_nat n - 1 :: u64) AND NOT 0xFFF))"
    by (simp add: next_page_def)
  ultimately show ?thesis by (simp only:)
qed

lemma next_page_eq:
  assumes "unat a mod 4096 + n > 4096" "n \<le> 8"
  shows "next_page n a = a + of_nat (4096 - unat a mod 4096)"
proof -
  have e: "unat a + n - 1 = (unat a mod 4096 + n - 1 - 4096) + 4096 * (unat a div 4096 + 1)"
    using assms(1) by simp
  have "(unat a + n - 1) div 4096 = unat a div 4096 + 1"
    using assms mod_less_divisor [of "4096" "unat a"] by (subst e, subst div_mult_self2) auto
  moreover have "unat a = 4096 * (unat a div 4096) + unat a mod 4096" by simp
  ultimately have m: "4096 * ((unat a + n - 1) div 4096) = unat a + (4096 - unat a mod 4096)"
    using mod_less_divisor [of "4096" "unat a"] by linarith
  have "0 < n" using assms(1) mod_less_divisor [of "4096" "unat a"] by simp
  then show ?thesis by (simp only: next_page_value assms(2) m) simp
qed

text \<open>The loop over the bytes on both sides of a page boundary, at its \<open>j\<close>-th round.\<close>

lemma unat_limit:
  fixes a :: u32
  assumes "unat a + n < 2 ^ 32" "j \<le> n"
  shows "unat (ucast a + of_nat n :: u64) = unat a + n" "unat (a + of_nat j) = unat a + j"
    "unat (ucast (a + of_nat j) :: u64) = unat a + j"
proof -
  show "unat (a + of_nat j) = unat a + j"
    using assms by (simp add: unat_word_ariths unat_of_nat)
  then show "unat (ucast (a + of_nat j) :: u64) = unat a + j"
    using assms by (simp add: unsigned_ucast_eq take_bit_eq_mod)
  have "ucast a + of_nat n = (of_nat (unat a + n) :: u64)" by simp
  then show "unat (ucast a + of_nat n :: u64) = unat a + n"
    using assms(1) by (simp only: unat_of_nat) simp
qed

lemma mem_value_take: "n \<le> 8 \<Longrightarrow> j \<le> n \<Longrightarrow> take_bit (8 * n) (mem_value s j a) = mem_value s j a"
  by (rule bit_word_eqI) (auto simp: mem_value_def bit_take_bit_iff bit_read_be)

lemma read_bytes_placed:
  assumes "n \<le> 8" "j \<le> n" "unat a + n < 2 ^ 32" "k \<le> n" "page = a + of_nat k"
    and at: "\<And>i. i < n \<Longrightarrow> \<exists>b off. placed s (a + of_nat i) (Q i) b off"
    and Q: "Q k = page_address" "\<And>i. i + 1 < n \<Longrightarrow> i + 1 \<noteq> k \<Longrightarrow> Q (i + 1) = Q i + 1"
    and t: "j < n \<Longrightarrow> j \<noteq> k \<Longrightarrow> t = Q j"
    and bat: "bat_table_ok (dbat_table s)"
  shows "read_bytes flag n (ucast a + of_nat n) page page_address (a + of_nat j) t (mem_value s j a) s =
     Some (Inr (mem_value s n a, s))"
  using assms(2) t
proof (induction "n - j" arbitrary: j t)
  case 0
  then have j: "j = n" by simp
  have "\<not> ucast (a + of_nat n) < (ucast a + of_nat n :: u64)"
    using unat_limit [OF assms(3), of n] by (simp add: word_less_nat_alt)
  then show ?case by (simp add: j read_bytes.simps)
next
  case (Suc d)
  then have j: "j < n" by simp
  note u = unat_limit [OF assms(3), of j] unat_limit(2) [OF assms(3,4)]
  have lt: "ucast (a + of_nat j) < (ucast a + of_nat n :: u64)"
    using u j by (simp add: word_less_nat_alt)
  have page: "a + of_nat j = page \<longleftrightarrow> j = k"
    using u j unfolding assms(5) word_unat_eq_iff by simp
  obtain b off where p: "placed s (a + of_nat j) (Q j) b off" using at [OF j] by blast
  have "read_physical flag 1 (Q j) s = Inr (ucast (mem_byte s (a + of_nat j)), s)"
    using read_physical_placed [OF p, of 1 flag] placed_room [OF bat p, of 1] placed_byte [OF p]
    by (simp add: read_be_byte Suc_le_eq)
  moreover have "(if a + of_nat j = page then page_address else t) = Q j"
    using Suc.prems(2) j Q(1) by (auto simp: page)
  moreover have "take_bit (8 * n) (mem_value s (Suc j) a) = mem_value s (Suc j) a"
    using mem_value_take [OF assms(1)] j by simp
  moreover have "read_bytes flag n (ucast a + of_nat n) page page_address (a + of_nat j + 1) (Q j + 1)
      (mem_value s (Suc j) a) s = Some (Inr (mem_value s n a, s))"
  proof -
    have e: "a + of_nat j + 1 = a + of_nat (Suc j)" by simp
    show ?thesis unfolding e using Suc(2) j Q(2) [of j] by (intro Suc(1)) auto
  qed
  ultimately show ?case
    by (subst read_bytes.simps) (simp only: lt if_True mem_value_Suc sum.case prod.case)
qed

text \<open>Consecutive bytes are at consecutive physical addresses, but at the page boundary.\<close>

definition data_address :: "ppc \<Rightarrow> u32 \<Rightarrow> u32" where
  "data_address s a = the (TranslateBatAddess (dbat_table s) a)"

lemma placed_address: "byte_place s a \<noteq> None \<Longrightarrow> \<exists>b off. placed s a (data_address s a) b off"
  by (auto simp: byte_place_def placed_def data_address_def split: option.splits)

lemma data_address_Suc:
  fixes a :: u32
  assumes "bat_table_ok (dbat_table s)" "byte_place s (a + of_nat i) \<noteq> None" "unat a + n < 2 ^ 32"
    and "n \<le> 8" "i + 1 < n" "i + 1 \<noteq> 4096 - unat a mod 4096"
  shows "data_address s (a + of_nat (i + 1)) = data_address s (a + of_nat i) + 1"
proof -
  have u: "unat (a + of_nat i) = unat a + i" using unat_limit [OF assms(3), of i] assms(5) by simp
  have "(unat a + i) mod 4096 + 1 < 4096"
  proof (cases "unat a mod 4096 + i < 4096")
    case True
    then show ?thesis using page_arith(2) [OF True] assms(6) by linarith
  next
    case False
    have "unat a + i = (unat a mod 4096 + i - 4096) + 4096 * (unat a div 4096 + 1)" using False by simp
    then have "(unat a + i) mod 4096 = (unat a mod 4096 + i - 4096) mod 4096" by (metis mod_mult_self2)
    then show ?thesis using assms(4,5) mod_less_divisor [of "4096" "unat a"] by simp
  qed
  then have r: "page_room (a + of_nat i) 1" by (simp add: page_room_def u)
  obtain p where p: "TranslateBatAddess (dbat_table s) (a + of_nat i) = Some p"
    using assms(2) by (auto simp: byte_place_def split: option.splits)
  have "a + of_nat (i + 1) = (a + of_nat i) + of_nat 1" by simp
  then show ?thesis
    using TranslateBat_in_page(1) [OF assms(1) r p] p by (simp only: data_address_def option.sel of_nat_1)
qed

lemma no_wrap_at_end:
  "4096 < r + n \<Longrightarrow> 4096 * q + r + n \<le> 4294967296 \<Longrightarrow> r < 4096 \<Longrightarrow> n \<le> 8 \<Longrightarrow> 4096 * q + r + n < (4294967296 :: nat)"
proof -
  assume a: "4096 < r + n" "4096 * q + r + n \<le> 4294967296" "r < 4096" "n \<le> 8"
  then have "4096 * (q + 1) < 4096 * 1048576" by simp
  then have "q + 1 < 1048576" by simp
  then have "q + 2 \<le> 1048576" by simp
  then show ?thesis using a by linarith
qed

lemma ReadFromHardware_placed:
  fixes a :: u32
  assumes flag: "\<not> IsOpcodeFlag flag" and dr: "msr s AND MSR_DR \<noteq> 0" and bat: "bat_table_ok (dbat_table s)"
    and n: "0 < n" "n \<le> 8" and wrap: "unat a + n \<le> 2 ^ 32"
    and at: "\<And>i. i < n \<Longrightarrow> byte_place s (a + of_nat i) \<noteq> None"
  shows "ReadFromHardware flag n a s = Inr (mem_value s n a, s)"
proof -
  define k where "k = 4096 - unat a mod 4096"
  let ?Q = "\<lambda>i. data_address s (a + of_nat i)"
  obtain b off where p: "placed s a (?Q 0) b off" using placed_address at [of 0] n by fastforce
  note t = TranslateAddress_placed [OF flag p]
  show ?thesis
  proof (cases "unat a mod 4096 + n \<le> 4096")
    case True
    then have "\<not> unat (a AND 0xFFF) > 4096 - n" by (simp add: unat_offset)
    then show ?thesis
      using dr t read_physical_placed [OF p placed_room [OF bat p True]] mem_value_in_page [OF bat p True]
      by (simp add: ReadFromHardware_def Success_def)
  next
    case False
    then have cross: "unat (a AND 0xFFF) > 4096 - n" using n by (simp add: unat_offset)
    have lt: "unat a + n < 2 ^ 32"
      using no_wrap_at_end [of "unat a mod 4096" n "unat a div 4096"] False wrap n by simp
    have k: "k < n" using False n by (simp add: k_def)
    note np = next_page_eq [of a n, OF _ n(2), folded k_def]
    obtain b' off' where p': "placed s (a + of_nat k) (?Q k) b' off'" using placed_address at [OF k] by blast
    note t' = TranslateAddress_placed [OF flag p']
    have loop: "read_bytes flag n (ucast a + of_nat n) (a + of_nat k) (?Q k) (a + of_nat 0) (?Q 0) (mem_value s 0 a) s =
        Some (Inr (mem_value s n a, s))"
    proof (rule read_bytes_placed [where Q = ?Q and k = k])
      show "?Q (i + 1) = ?Q i + 1" if "i + 1 < n" "i + 1 \<noteq> k" for i
        using data_address_Suc [OF bat at lt n(2)] that unfolding k_def by simp
    qed (use n lt bat k placed_address at in auto)
    show ?thesis
      using dr t t' cross loop np False
      by (simp add: ReadFromHardware_def Success_def mem_value_def Let_def)
  qed
qed

section \<open>Writes\<close>

definition set_mem_byte :: "u32 \<Rightarrow> u8 \<Rightarrow> ppc \<Rightarrow> ppc" where
  "set_mem_byte a v s =
     (case byte_place s a of None \<Rightarrow> s | Some (b, off) \<Rightarrow> set_ram b ((ram s b)(off := v)) s)"

text \<open>The bytes \<open>i\<close>, \<open>i + 1\<close>, \<dots> of the \<open>n\<close> bytes of \<open>d\<close>, \<open>k\<close> of them.\<close>

definition value_byte :: "nat \<Rightarrow> u64 \<Rightarrow> nat \<Rightarrow> u8" where
  "value_byte n d i = ucast (drop_bit (8 * (n - 1 - i)) d)"

fun put_bytes :: "nat \<Rightarrow> u64 \<Rightarrow> u32 \<Rightarrow> nat \<Rightarrow> nat \<Rightarrow> ppc \<Rightarrow> ppc" where
  "put_bytes n d a 0 i s = s"
| "put_bytes n d a (Suc k) i s = put_bytes n d a k (i + 1) (set_mem_byte (a + of_nat i) (value_byte n d i) s)"

lemma set_mem_byte_frame [simp]:
  "byte_place (set_mem_byte a v s) = byte_place s"
  "msr (set_mem_byte a v s) = msr s" "dbat_table (set_mem_byte a v s) = dbat_table s"
  "memcheck_pause (set_mem_byte a v s) = memcheck_pause s" "placed (set_mem_byte a v s) = placed s"
  "data_address (set_mem_byte a v s) = data_address s"
  by (auto simp: set_mem_byte_def set_ram_def fun_eq_iff byte_place_def hw_bank_def placed_def data_address_def
      split: option.splits)

lemma put_bytes_frame [simp]:
  "byte_place (put_bytes n d a k i s) = byte_place s"
  "msr (put_bytes n d a k i s) = msr s" "dbat_table (put_bytes n d a k i s) = dbat_table s"
  "memcheck_pause (put_bytes n d a k i s) = memcheck_pause s"
  by (induction k arbitrary: i s) simp_all

lemma ram_set_mem_byte:
  "byte_place s a = Some (b, off) \<Longrightarrow> ram (set_mem_byte a v s) = (ram s)(b := (ram s b)(off := v))"
  by (simp add: set_mem_byte_def set_ram_def)

lemma mem_byte_set:
  "byte_place s a \<noteq> None \<Longrightarrow>
     mem_byte (set_mem_byte a v s) a' = (if byte_place s a' = byte_place s a then v else mem_byte s a')"
  by (auto simp: mem_byte_def ram_set_mem_byte split: option.splits)

lemma write_physical_byte:
  assumes "bat_table_ok (dbat_table s)" "placed s a p b off"
  shows "write_physical flag 1 p d s = Inr (set_mem_byte a (ucast d) s)"
proof -
  have "off + 1 \<le> bank_size b" using placed_room [OF assms, of 1] by (simp add: Suc_le_eq)
  moreover have "write_be 1 d off m = m(off := ucast d)" for m
    by (auto simp: write_be_def fun_eq_iff)
  ultimately show ?thesis
    using assms(2) by (auto simp: write_physical_def store_bank_def set_mem_byte_def placed_def byte_place_def)
qed

text \<open>Several bytes in a page at once.\<close>

lemma write_be_put:
  assumes "bat_table_ok (dbat_table s)" "placed s a p b off" "unat a mod 4096 + n \<le> 4096" "i + k = n"
  shows "put_bytes n d a k i s =
     set_ram b (\<lambda>j. if off + i \<le> j \<and> j < off + n then value_byte n d (j - off) else ram s b j) s"
  using assms
proof (induction k arbitrary: i s)
  case 0
  then have "(\<lambda>j. if off + i \<le> j \<and> j < off + n then value_byte n d (j - off) else ram s b j) = ram s b"
    by (intro ext) auto
  then show ?case by (simp add: set_ram_def)
next
  case (Suc k)
  have "placed s (a + of_nat i) (p + of_nat i) b (off + i)"
    using placed_in_page [OF Suc.prems(1,2), of i] Suc.prems(3,4) by simp
  then have "byte_place s (a + of_nat i) = Some (b, off + i)" using placed_iff by blast
  then have s1: "set_mem_byte (a + of_nat i) (value_byte n d i) s =
      set_ram b ((ram s b)(off + i := value_byte n d i)) s" (is "?s1 = _")
    by (simp add: set_mem_byte_def)
  have "put_bytes n d a k (i + 1) ?s1 =
      set_ram b (\<lambda>j. if off + (i + 1) \<le> j \<and> j < off + n then value_byte n d (j - off) else ram ?s1 b j) ?s1"
    using Suc.prems by (intro Suc.IH) simp_all
  also have "\<dots> = set_ram b (\<lambda>j. if off + i \<le> j \<and> j < off + n then value_byte n d (j - off) else ram s b j) s"
    using Suc.prems(4) by (auto simp: s1 set_ram_def fun_eq_iff intro!: arg_cong [of _ _ "\<lambda>f. s\<lparr>ram := (ram s)(b := f)\<rparr>"])
  finally show ?case by simp
qed

lemma write_physical_put:
  assumes "bat_table_ok (dbat_table s)" "placed s a p b off" "unat a mod 4096 + n \<le> 4096"
  shows "write_physical flag n p d s = Inr (put_bytes n d a n 0 s)"
proof -
  have "off + n \<le> bank_size b" by (rule placed_room [OF assms])
  moreover have "write_be n d off m = (\<lambda>j. if off + 0 \<le> j \<and> j < off + n then value_byte n d (j - off) else m j)" for m
    by (auto simp: write_be_def value_byte_def fun_eq_iff intro!: arg_cong [of _ _ "\<lambda>k. ucast (drop_bit (8 * k) d)"])
  ultimately show ?thesis
    using assms(2) write_be_put [OF assms, of 0 n d] by (auto simp: write_physical_def store_bank_def placed_def)
qed

text \<open>The loop over the bytes on both sides of a page boundary, from its \<open>i\<close>-th round on.\<close>

lemma write_bytes_placed:
  fixes a :: u32
  assumes "i + m = n" "unat a + n < 2 ^ 32" "k \<le> n" "page = a + of_nat k"
    and at: "\<And>i. i < n \<Longrightarrow> \<exists>b off. placed s (a + of_nat i) (Q i) b off"
    and Q: "Q k = page_address" "\<And>i. i + 1 < n \<Longrightarrow> i + 1 \<noteq> k \<Longrightarrow> Q (i + 1) = Q i + 1"
    and t: "i < n \<Longrightarrow> i \<noteq> k \<Longrightarrow> t = Q i"
    and bat: "bat_table_ok (dbat_table s)"
  shows "write_bytes flag n d a page page_address m i t s = Inr (put_bytes n d a m i s)"
  using assms(1) t at bat
proof (induction m arbitrary: i t s)
  case (Suc m)
  let ?v = "take_bit 8 (drop_bit (8 * (n - 1 - i)) d)"
  have i: "i < n" using Suc.prems(1) by simp
  note u = unat_limit [OF assms(2), of i] unat_limit(3) [OF assms(2,3)]
  have page: "(ucast a + of_nat i :: u64) = ucast page \<longleftrightarrow> i = k"
  proof -
    have "unat (ucast a + of_nat i :: u64) = unat a + i"
      using unat_limit(1) [of a i 0] assms(2) i by simp
    then show ?thesis unfolding word_unat_eq_iff assms(4) u(4) by simp
  qed
  obtain b off where p: "placed s (a + of_nat i) (Q i) b off" using Suc.prems(3) [OF i] by blast
  have w: "write_physical flag 1 (Q i) ?v s = Inr (set_mem_byte (a + of_nat i) (value_byte n d i) s)"
  proof -
    have "ucast ?v = value_byte n d i"
      unfolding value_byte_def by (rule bit_word_eqI) (simp add: bit_ucast_iff bit_take_bit_iff)
    then show ?thesis using write_physical_byte [OF Suc.prems(4) p, of flag ?v] by simp
  qed
  have q: "(if (ucast a + of_nat i :: u64) = ucast page then page_address else t) = Q i"
    using Suc.prems(2) i Q(1) by (auto simp: page)
  have "write_bytes flag n d a page page_address m (i + 1) (Q i + 1)
      (set_mem_byte (a + of_nat i) (value_byte n d i) s) =
    Inr (put_bytes n d a m (i + 1) (set_mem_byte (a + of_nat i) (value_byte n d i) s))"
    using Suc.prems i Q(2) [of i] by (intro Suc.IH) auto
  then show ?case
    by (simp only: write_bytes.simps Let_def q w bind_ppc_simps put_bytes.simps)
qed simp

lemma cross_unaligned:
  fixes a :: u32
  assumes "access_size n" "unat a mod 4096 + n > 4096"
  shows "ucast a AND (of_nat n - 1 :: u64) \<noteq> 0"
proof
  assume z: "ucast a AND (of_nat n - 1 :: u64) = 0"
  obtain e where e: "n = 2 ^ e" "e \<le> 3"
    using assms(1) by (auto simp: access_size_def intro: that [of 0] that [of 1] that [of 2] that [of 3])
  have "(of_nat n - 1 :: u64) = mask e" by (simp add: e mask_eq_exp_minus_1)
  then have "unat (ucast a AND mask e :: u64) = 0" using z by simp
  moreover have "unat a < 2 ^ 64" using unsigned_less [of a, where 'a = nat] by simp
  ultimately have "unat a mod 2 ^ e = 0" by (simp add: unat_and_mask unsigned_ucast_eq take_bit_eq_mod)
  moreover have "(2 :: nat) ^ e dvd 4096" using e(2) le_imp_power_dvd [of e 12 "2 :: nat"] by simp
  ultimately have "unat a mod 4096 mod n = 0" by (simp add: e(1) mod_mod_cancel)
  moreover have "n dvd 4096" using \<open>2 ^ e dvd 4096\<close> e(1) by simp
  ultimately obtain c c' where c: "unat a mod 4096 = n * c" "4096 = n * c'"
    by (metis dvdE dvd_eq_mod_eq_0)
  then have "n * c < n * c'" "n * c' < n * c + n"
    using assms(2) mod_less_divisor [of "4096" "unat a"] by simp_all
  then have "c < c'" "n * c' < n * (c + 1)" by simp_all
  then show False by (metis mult_less_cancel1 Suc_eq_plus1 not_less_eq)
qed

lemma WriteToHardware_placed:
  fixes a :: u32
  assumes flag: "\<not> IsOpcodeFlag flag" and dr: "msr s AND MSR_DR \<noteq> 0" and bat: "bat_table_ok (dbat_table s)"
    and n: "access_size n" and wrap: "unat a + n \<le> 2 ^ 32"
    and at: "\<And>i. i < n \<Longrightarrow> byte_place s (a + of_nat i) \<noteq> None"
  shows "WriteToHardware flag n a d s = Inr (put_bytes n d a n 0 s)"
proof -
  define k where "k = 4096 - unat a mod 4096"
  let ?Q = "\<lambda>i. data_address s (a + of_nat i)"
  have n8: "0 < n" "n \<le> 8" using n by (auto simp: access_size_def)
  obtain b off where p: "placed s a (?Q 0) b off" using placed_address at [of 0] n8 by fastforce
  note t = TranslateAddress_placed [OF flag p]
  show ?thesis
  proof (cases "unat a mod 4096 + n \<le> 4096")
    case True
    then have "\<not> unat (a AND 0xFFF) > 4096 - n" by (simp add: unat_offset)
    then show ?thesis
      using dr t write_physical_put [OF bat p True]
      by (simp add: WriteToHardware_def Success_def)
  next
    case False
    then have cross: "unat (a AND 0xFFF) > 4096 - n" using n8 by (simp add: unat_offset)
    have lt: "unat a + n < 2 ^ 32"
      using no_wrap_at_end [of "unat a mod 4096" n "unat a div 4096"] False wrap n8 by simp
    have k: "k < n" using False n8 by (simp add: k_def)
    note np = next_page_eq [of a n, OF _ n8(2), folded k_def]
    obtain b' off' where p': "placed s (a + of_nat k) (?Q k) b' off'" using placed_address at [OF k] by blast
    note t' = TranslateAddress_placed [OF flag p']
    have loop: "write_bytes flag n d a (a + of_nat k) (?Q k) n 0 (?Q 0) s = Inr (put_bytes n d a n 0 s)"
    proof (rule write_bytes_placed [where Q = ?Q and k = k])
      show "?Q (i + 1) = ?Q i + 1" if "i + 1 < n" "i + 1 \<noteq> k" for i
        using data_address_Suc [OF bat at lt n8(2)] that unfolding k_def by simp
    qed (use lt bat k placed_address at in auto)
    show ?thesis
      using dr t t' cross loop np False cross_unaligned [OF n, of a]
      by (simp add: WriteToHardware_def Success_def Let_def)
  qed
qed

section \<open>Memory as a map from addresses to bytes\<close>

lemma add_of_nat_eq:
  "n \<le> 2 ^ 32 \<Longrightarrow> i < n \<Longrightarrow> i' < n \<Longrightarrow> a + of_nat i = a + (of_nat i' :: u32) \<longleftrightarrow> i = i'"
  by (simp only: add_left_cancel) (simp add: word_unat_eq_iff unat_of_nat)

lemma in_span: "i < n \<Longrightarrow> a + of_nat i \<in> span n a"
  by (simp add: span_def)

lemma ram_region_frame [simp]:
  "ram_region R (set_mem_byte a v s) = ram_region R s"
  "ram_region R (put_bytes n d a k i s) = ram_region R s"
  by (simp_all add: ram_region_def)

lemma ram_region_place:
  "ram_region R s \<Longrightarrow> x \<in> R \<Longrightarrow> y \<in> R \<Longrightarrow> byte_place s x = byte_place s y \<longleftrightarrow> x = y"
  by (auto simp: ram_region_def inj_on_def)

lemma mem_byte_put:
  assumes "ram_region R s" "span n a \<subseteq> R" "x \<in> R" "i + k = n" "n \<le> 8"
  shows "j < n \<Longrightarrow> x = a + of_nat j \<Longrightarrow>
      mem_byte (put_bytes n d a k i s) x = (if i \<le> j then value_byte n d j else mem_byte s x)"
    and "x \<notin> span n a \<Longrightarrow> mem_byte (put_bytes n d a k i s) x = mem_byte s x"
  using assms(1,4)
proof (induction k arbitrary: i s)
  case (Suc k)
  {
    case 1
    have i: "i < n" using 1 by simp
    then have p: "a + of_nat i \<in> R" "byte_place s (a + of_nat i) \<noteq> None"
      using assms(2) in_span [OF i, of a] 1 by (auto simp: ram_region_def)
    have "mem_byte (set_mem_byte (a + of_nat i) (value_byte n d i) s) x =
        (if j = i then value_byte n d i else mem_byte s x)"
      using ram_region_place [OF 1(3) assms(3) p(1)] add_of_nat_eq [of n j i a] assms(5) 1(1,2) i
      by (simp add: mem_byte_set [OF p(2)])
    then show ?case using Suc.IH(1) [of "set_mem_byte (a + of_nat i) (value_byte n d i) s" "i + 1"] 1
      by (cases "j = i") auto
  next
    case 2
    have i: "i < n" using 2 by simp
    then have p: "a + of_nat i \<in> R" "byte_place s (a + of_nat i) \<noteq> None"
      using assms(2) in_span [OF i, of a] 2 by (auto simp: ram_region_def)
    have "mem_byte (set_mem_byte (a + of_nat i) (value_byte n d i) s) x = mem_byte s x"
      using ram_region_place [OF 2(2) assms(3) p(1)] 2(1) in_span [OF i, of a]
      by (auto simp: mem_byte_set [OF p(2)])
    then show ?case using Suc.IH(2) [of "set_mem_byte (a + of_nat i) (value_byte n d i) s" "i + 1"] 2 by auto
  }
qed simp_all

lemma mem_value_put:
  assumes "ram_region R s" "span n a \<subseteq> R" "n \<le> 8"
  shows "mem_value (put_bytes n d a n 0 s) n a = take_bit (8 * n) d"
proof -
  have "mem_byte (put_bytes n d a n 0 s) (a + of_nat j) = value_byte n d j" if "j < n" for j
    using mem_byte_put(1) [OF assms(1,2) _ _ assms(3), of "a + of_nat j" 0 n j] in_span [OF that, of a] assms(2) that
    by auto
  then have e: "mem_value (put_bytes n d a n 0 s) n a = read_be n (value_byte n d) 0"
    unfolding mem_value_def by (intro read_be_cong) simp
  have "8 * (n - Suc (n - Suc (i div 8))) + i mod 8 = i" if "i < 8 * n" for i
  proof -
    have "i div 8 < n" using that by linarith
    then show ?thesis by simp
  qed
  then show ?thesis
    unfolding e using assms(3)
    by (intro bit_word_eqI) (auto simp: bit_read_be bit_take_bit_iff value_byte_def bit_ucast_iff bit_drop_bit_eq)
qed

lemma mem_value_put_other:
  assumes "ram_region R s" "span n a \<subseteq> R" "n \<le> 8" "span m b \<subseteq> R" "span m b \<inter> span n a = {}"
  shows "mem_value (put_bytes n d a n 0 s) m b = mem_value s m b"
  unfolding mem_value_def
proof (rule read_be_cong)
  fix i assume "0 \<le> i" "i < 0 + m"
  then have "b + of_nat i \<in> span m b" by (simp add: in_span)
  then show "mem_byte (put_bytes n d a n 0 s) (b + of_nat i) = mem_byte s (b + of_nat i)"
    using mem_byte_put(2) [OF assms(1,2) _ _ assms(3), of "b + of_nat i" 0 n] assms(4,5) by auto
qed

lemma access_placed:
  assumes "ram_region R s" "span n a \<subseteq> R" "i < n"
  shows "byte_place s (a + of_nat i) \<noteq> None"
  using assms in_span [of i n a] by (auto simp: ram_region_def)

lemma region_read:
  assumes "ram_region R s" "span n a \<subseteq> R" "access_size n" "unat a + n \<le> 2 ^ 32" "\<not> IsOpcodeFlag flag"
  shows "ReadFromHardware flag n a s = Inr (mem_value s n a, s)"
  using assms access_placed [OF assms(1,2)]
  by (intro ReadFromHardware_placed) (auto simp: ram_region_def access_size_def)

lemma region_write:
  assumes "ram_region R s" "span n a \<subseteq> R" "access_size n" "unat a + n \<le> 2 ^ 32" "\<not> IsOpcodeFlag flag"
  shows "WriteToHardware flag n a d s = Inr (put_bytes n d a n 0 s)"
  using assms access_placed [OF assms(1,2)]
  by (intro WriteToHardware_placed) (auto simp: ram_region_def)

text \<open>C5: memory behind block address translation is memory.  A write of 1, 2, 4 or 8 bytes at any
  address, aligned or not, within a page or across two, completes; a read of the same bytes returns
  the value; and every access to other bytes reads what it read before.
\<close>

theorem memory_read_write:
  assumes "ram_region R s" "access_size n" "span n a \<subseteq> R" "unat a + n \<le> 2 ^ 32"
  shows "\<exists>s'. WriteToHardware Write n a d s = Inr s' \<and> ram_region R s'
    \<and> ReadFromHardware Read n a s' = Inr (take_bit (8 * n) d, s')
    \<and> (\<forall>m b. access_size m \<and> span m b \<subseteq> R \<and> unat b + m \<le> 2 ^ 32 \<and> span m b \<inter> span n a = {} \<longrightarrow>
         (\<exists>v. ReadFromHardware Read m b s = Inr (v, s) \<and> ReadFromHardware Read m b s' = Inr (v, s')))"
proof -
  let ?s = "put_bytes n d a n 0 s"
  have n: "n \<le> 8" using assms(2) by (auto simp: access_size_def)
  have r: "ram_region R ?s" using assms(1) by simp
  have op: "\<not> IsOpcodeFlag Write" "\<not> IsOpcodeFlag Read" by (simp_all add: IsOpcodeFlag_def)
  have "WriteToHardware Write n a d s = Inr ?s"
    by (rule region_write [OF assms(1,3,2,4) op(1)])
  moreover have "ReadFromHardware Read n a ?s = Inr (take_bit (8 * n) d, ?s)"
    by (simp only: region_read [OF r assms(3,2,4) op(2)] mem_value_put [OF assms(1,3) n])
  moreover have "ReadFromHardware Read m b s = Inr (mem_value s m b, s) \<and>
      ReadFromHardware Read m b ?s = Inr (mem_value s m b, ?s)"
    if "access_size m" "span m b \<subseteq> R" "unat b + m \<le> 2 ^ 32" "span m b \<inter> span n a = {}" for m b
    using region_read [OF assms(1) that(2,1,3) op(2)] region_read [OF r that(2,1,3) op(2)]
      mem_value_put_other [OF assms(1,3) n that(2,4)] by simp
  ultimately show ?thesis using r by blast
qed

text \<open>A state whose data BAT table maps \<open>0x80000000\<close> to the start of memory.\<close>

definition mapped_state :: ppc where
  "mapped_state = ppc_zero\<lparr>msr := MSR_DR, dbat_table := (\<lambda>_. 0)(0x4000 := 3)\<rparr>"

lemma mapped_table: "bat_table_ok (dbat_table mapped_state)"
  by (simp add: bat_table_ok_def mapped_state_def ppc_zero_def BAT_RESULT_MASK_def)

lemma mapped_place:
  assumes "i < 8192"
  shows "byte_place mapped_state (0x80000000 + of_nat i) = Some (Ram, i)"
proof -
  have p: "placed mapped_state 0x80000000 0 Ram 0" "placed mapped_state 0x80001000 0x1000 Ram 0x1000"
    by (simp_all add: placed_def TranslateBatAddess_def mapped_state_def ppc_zero_def BAT_INDEX_SHIFT_def
        BAT_MAPPED_BIT_def BAT_RESULT_MASK_def BAT_PAGE_SIZE_def hw_bank_def RAM_MASK_def)
  show ?thesis
  proof (cases "i < 4096")
    case True
    then show ?thesis using placed_in_page [OF mapped_table p(1), of i] placed_iff by fastforce
  next
    case False
    then obtain k where k: "i = 0x1000 + k" using le_Suc_ex [of "0x1000" i] by auto
    then have "(0x80000000 :: u32) + of_nat i = 0x80001000 + of_nat k" by simp
    then show ?thesis
      using placed_in_page [OF mapped_table p(2), of k] assms k placed_iff by fastforce
  qed
qed

lemma span_subset: "k + n \<le> m \<Longrightarrow> span n (a + of_nat k) \<subseteq> span m a"
  by (auto simp: span_def add.assoc intro!: image_eqI [of _ _ "k + _"])

lemma mapped_region: "ram_region (span 8192 0x80000000) mapped_state"
proof -
  have "inj_on (byte_place mapped_state) (span 8192 0x80000000)"
    by (rule inj_onI) (auto simp: span_def mapped_place)
  moreover have "msr mapped_state AND MSR_DR \<noteq> 0" "\<not> memcheck_pause mapped_state address var w sz" for address var w sz
    by (simp_all add: mapped_state_def ppc_zero_def MSR_DR_def)
  ultimately show ?thesis
    using mapped_table by (auto simp: ram_region_def span_def mapped_place)
qed

theorem memory_read_write_witness:
  "\<exists>s'. WriteToHardware Write 4 0x80000FFE 0xDEADBEEF mapped_state = Inr s'
    \<and> ReadFromHardware Read 4 0x80000FFE s' = Inr (0xDEADBEEF, s')"
proof -
  have "span 4 (0x80000000 + of_nat 0xFFE) \<subseteq> span 8192 0x80000000" by (rule span_subset) simp
  then have "span 4 0x80000FFE \<subseteq> span 8192 0x80000000" by simp
  moreover have "access_size 4" by (simp add: access_size_def)
  ultimately show ?thesis
    using memory_read_write [OF mapped_region, of 4 "0x80000FFE" "0xDEADBEEF"] by auto
qed

section \<open>Reads around the end of the address space\<close>

lemma read_physical_1: "\<exists>v s'. read_physical flag 1 p s = Inr (v, s')"
proof (cases "hw_bank p s")
  case (Some r)
  moreover have "unat p mod 4096 + 1 \<le> 4096" using mod_less_divisor [of "4096" "unat p"] by simp
  ultimately show ?thesis
    using hw_bank_room [of p 1 s] by (cases r) (auto simp: read_physical_def load_bank_def)
qed (simp add: read_physical_def Let_def split: prod.split)

lemma read_bytes_returns:
  assumes "read_bytes flag n limit page page_address addr t v s = Some r"
  shows "limit < 2 ^ 32"
proof (rule read_bytes.raw_induct [OF _ assms, of "\<lambda>_ _ limit _ _ _ _ _ _ _. limit < 2 ^ 32"])
  fix f flag n and limit :: u64 and page page_address addr t :: u32 and v s y
  assume IH: "\<And>flag n limit page page_address addr t v s y.
      f flag n limit page page_address addr t v s = Some y \<Longrightarrow> limit < 2 ^ 32"
    and r: "(if ucast addr < limit
       then case read_physical flag 1 (if addr = page then page_address else t) s of Inl e \<Rightarrow> Some (Inl e)
            | Inr (b, s) \<Rightarrow> f flag n limit page page_address (addr + 1)
                ((if addr = page then page_address else t) + 1) (take_bit (8 * n) (push_bit 8 v OR b)) s
       else Some (Inr (v, s))) = Some y"
  have "unat (ucast addr :: u64) < 2 ^ 32"
    using order.strict_trans1 [OF mod_less_eq_dividend unsigned_less [of addr, where 'a = nat], of "2 ^ 64"]
    by (simp add: unsigned_ucast_eq take_bit_eq_mod)
  then have "(ucast addr :: u64) < 2 ^ 32" by (simp add: word_less_nat_alt)
  then show "limit < 2 ^ 32"
    using r IH read_physical_1 [of flag "if addr = page then page_address else t" s]
    by (auto split: if_splits)
qed

text \<open>C33: a read that runs past the last address never returns.  When a translated access starts in the
  last bytes of the address space and both its pages translate, the loop of \<open>ReadFromHardware\<close> compares
  a 32-bit counter with a 64-bit end it cannot reach.
\<close>

theorem wrapping_read_hangs:
  assumes "msr s AND MSR_DR \<noteq> 0" "access_size n" "2 ^ 32 < unat a + n"
    and "TranslateAddress flag a s = Inr (r, s1)" "Success r"
    and "TranslateAddress flag 0 s1 = Inr (r', s2)" "Success r'"
  shows "ReadFromHardware flag n a s = Inl NoReturn"
proof -
  have n: "n \<le> 8" using assms(2) by (auto simp: access_size_def)
  have a: "unat a < 2 ^ 32" using unsigned_less [of a, where 'a = nat] by simp
  have sum: "unat (ucast a + of_nat n :: u64) = unat a + n"
  proof -
    have "ucast a + of_nat n = (of_nat (unat a + n) :: u64)" by simp
    then show ?thesis using a n by (simp only: unat_of_nat) simp
  qed
  then have "\<not> (ucast a + of_nat n :: u64) < 2 ^ 32"
    using assms(3) by (simp add: word_less_nat_alt)
  then have "read_bytes flag n (ucast a + of_nat n) page pa a t 0 s2 = None" for page pa t
    using read_bytes_returns by (metis not_None_eq)
  moreover have "next_page n a = 0"
  proof -
    have "(unat a + n - 1) div 4096 = 1048576"
      using a assms(3) n by (intro div_nat_eqI) simp_all
    moreover have "(4096 * of_nat 1048576 :: u32) = 0" by simp
    ultimately show ?thesis using next_page_value [of n a] n assms(2) by (auto simp: access_size_def)
  qed
  moreover have "unat (a AND 0xFFF) > 4096 - n"
  proof -
    have "unat a div 4096 = 1048575"
      using a assms(3) n by (intro div_nat_eqI) simp_all
    then have "unat a = 4294963200 + unat a mod 4096" using mult_div_mod_eq [of "4096" "unat a"] by simp
    moreover have "4294967296 < unat a + n" using assms(3) by simp
    moreover have "4096 - n < r'" if "u = 4294963200 + r'" "4294967296 < u + n" for u r' :: nat
      using that n by linarith
    ultimately show ?thesis unfolding unat_offset by blast
  qed
  ultimately show ?thesis
    using assms by (simp add: ReadFromHardware_def)
qed

text \<open>A state whose data BAT table maps the last and the first block of the address space.\<close>

theorem wrapping_read_hangs_witness:
  "ReadFromHardware Read 4 0xFFFFFFFE
     (ppc_zero\<lparr>msr := MSR_DR, dbat_table := (\<lambda>_. 0)(0x7FFF := 0x20003, 0 := 3)\<rparr>) = Inl NoReturn"
proof -
  let ?s = "ppc_zero\<lparr>msr := MSR_DR, dbat_table := (\<lambda>_. 0)(0x7FFF := 0x20003, 0 := 3)\<rparr>"
  have h: "msr ?s AND MSR_DR \<noteq> 0" "access_size 4" "(2 :: nat) ^ 32 < unat (0xFFFFFFFE :: u32) + 4"
    by (simp_all add: MSR_DR_def access_size_def)
  have t: "TranslateAddress Read 0xFFFFFFFE ?s = Inr ((BAT_TRANSLATED, 0x3FFFE), ?s)"
    "TranslateAddress Read 0 ?s = Inr ((BAT_TRANSLATED, 0), ?s)"
    by (simp_all add: TranslateAddress_def TranslateBatAddess_def IsOpcodeFlag_def BAT_INDEX_SHIFT_def
        BAT_MAPPED_BIT_def BAT_RESULT_MASK_def BAT_PAGE_SIZE_def)
  show ?thesis
    by (rule wrapping_read_hangs [OF h t(1) _ t(2)]) (simp_all add: Success_def)
qed

end
