(* ===== verification/PPC_LoadStore.thy ===== *)
theory PPC_LoadStore
  imports PPC_Access
begin

text \<open>
  The loads and stores of \<open>PowerPC/Interpreter/Interpreter_LoadStore.cpp\<close> and the conversions of
  single precision numbers to and from the 64-bit registers (\<open>Interpreter_FPUtils.h\<close>), which are
  bit operations.
\<close>

section \<open>Effective addresses\<close>

definition Helper_Get_EA :: "u32 \<Rightarrow> ppc \<Rightarrow> u32" where
  "Helper_Get_EA inst s =
     (if inst_RA inst \<noteq> 0 then gpr s (inst_RA inst) + inst_SIMM_16 inst else inst_SIMM_16 inst)"

definition Helper_Get_EA_U :: "u32 \<Rightarrow> ppc \<Rightarrow> u32" where
  "Helper_Get_EA_U inst s = gpr s (inst_RA inst) + inst_SIMM_16 inst"

definition Helper_Get_EA_X :: "u32 \<Rightarrow> ppc \<Rightarrow> u32" where
  "Helper_Get_EA_X inst s =
     (if inst_RA inst \<noteq> 0 then gpr s (inst_RA inst) + gpr s (inst_RB inst) else gpr s (inst_RB inst))"

definition Helper_Get_EA_UX :: "u32 \<Rightarrow> ppc \<Rightarrow> u32" where
  "Helper_Get_EA_UX inst s = gpr s (inst_RA inst) + gpr s (inst_RB inst)"

text \<open>\<open>PowerPC::ppcState.Exceptions & EXCEPTION_DSI\<close>.\<close>

definition dsi :: "ppc \<Rightarrow> bool" where
  "dsi s \<longleftrightarrow> Exceptions s AND EXCEPTION_DSI \<noteq> 0"

section \<open>Integer loads and stores\<close>

definition lbz :: "u32 \<Rightarrow> ppc \<Rightarrow> ppc_res" where
  "lbz inst s =
     (let address = Helper_Get_EA inst s
      in bind_ppc (Read_U8 address s)
           (\<lambda>(temp, s). Inr (if dsi s then s else set_gpr (inst_RD inst) (ucast temp) s)))"

definition lbzu :: "u32 \<Rightarrow> ppc \<Rightarrow> ppc_res" where
  "lbzu inst s =
     (let address = Helper_Get_EA_U inst s
      in bind_ppc (Read_U8 address s)
           (\<lambda>(temp, s). Inr (if dsi s then s else set_gpr (inst_RA inst) address (set_gpr (inst_RD inst) (ucast temp) s))))"

definition lbzux :: "u32 \<Rightarrow> ppc \<Rightarrow> ppc_res" where
  "lbzux inst s =
     (let address = Helper_Get_EA_UX inst s
      in bind_ppc (Read_U8 address s)
           (\<lambda>(temp, s). Inr (if dsi s then s else set_gpr (inst_RA inst) address (set_gpr (inst_RD inst) (ucast temp) s))))"

definition lbzx :: "u32 \<Rightarrow> ppc \<Rightarrow> ppc_res" where
  "lbzx inst s =
     (let address = Helper_Get_EA_X inst s
      in bind_ppc (Read_U8 address s)
           (\<lambda>(temp, s). Inr (if dsi s then s else set_gpr (inst_RD inst) (ucast temp) s)))"

definition lhz :: "u32 \<Rightarrow> ppc \<Rightarrow> ppc_res" where
  "lhz inst s =
     (let address = Helper_Get_EA inst s
      in bind_ppc (Read_U16 address s)
           (\<lambda>(temp, s). Inr (if dsi s then s else set_gpr (inst_RD inst) (ucast temp) s)))"

definition lhzu :: "u32 \<Rightarrow> ppc \<Rightarrow> ppc_res" where
  "lhzu inst s =
     (let address = Helper_Get_EA_U inst s
      in bind_ppc (Read_U16 address s)
           (\<lambda>(temp, s). Inr (if dsi s then s else set_gpr (inst_RA inst) address (set_gpr (inst_RD inst) (ucast temp) s))))"

definition lhzux :: "u32 \<Rightarrow> ppc \<Rightarrow> ppc_res" where
  "lhzux inst s =
     (let address = Helper_Get_EA_UX inst s
      in bind_ppc (Read_U16 address s)
           (\<lambda>(temp, s). Inr (if dsi s then s else set_gpr (inst_RA inst) address (set_gpr (inst_RD inst) (ucast temp) s))))"

definition lhzx :: "u32 \<Rightarrow> ppc \<Rightarrow> ppc_res" where
  "lhzx inst s =
     (let address = Helper_Get_EA_X inst s
      in bind_ppc (Read_U16 address s)
           (\<lambda>(temp, s). Inr (if dsi s then s else set_gpr (inst_RD inst) (ucast temp) s)))"

definition lha :: "u32 \<Rightarrow> ppc \<Rightarrow> ppc_res" where
  "lha inst s =
     (let address = Helper_Get_EA inst s
      in bind_ppc (Read_U16 address s)
           (\<lambda>(temp, s). Inr (if dsi s then s else set_gpr (inst_RD inst) (scast temp) s)))"

definition lhau :: "u32 \<Rightarrow> ppc \<Rightarrow> ppc_res" where
  "lhau inst s =
     (let address = Helper_Get_EA_U inst s
      in bind_ppc (Read_U16 address s)
           (\<lambda>(temp, s). Inr (if dsi s then s else set_gpr (inst_RA inst) address (set_gpr (inst_RD inst) (scast temp) s))))"

definition lhaux :: "u32 \<Rightarrow> ppc \<Rightarrow> ppc_res" where
  "lhaux inst s =
     (let address = Helper_Get_EA_UX inst s
      in bind_ppc (Read_U16 address s)
           (\<lambda>(temp, s). Inr (if dsi s then s else set_gpr (inst_RA inst) address (set_gpr (inst_RD inst) (scast temp) s))))"

definition lhax :: "u32 \<Rightarrow> ppc \<Rightarrow> ppc_res" where
  "lhax inst s =
     (let address = Helper_Get_EA_X inst s
      in bind_ppc (Read_U16 address s)
           (\<lambda>(temp, s). Inr (if dsi s then s else set_gpr (inst_RD inst) (scast temp) s)))"

definition lwz :: "u32 \<Rightarrow> ppc \<Rightarrow> ppc_res" where
  "lwz inst s =
     (let address = Helper_Get_EA inst s
      in bind_ppc (Read_U32 address s)
           (\<lambda>(temp, s). Inr (if dsi s then s else set_gpr (inst_RD inst) temp s)))"

definition lwzu :: "u32 \<Rightarrow> ppc \<Rightarrow> ppc_res" where
  "lwzu inst s =
     (let address = Helper_Get_EA_U inst s
      in bind_ppc (Read_U32 address s)
           (\<lambda>(temp, s). Inr (if dsi s then s else set_gpr (inst_RA inst) address (set_gpr (inst_RD inst) temp s))))"

definition lwzux :: "u32 \<Rightarrow> ppc \<Rightarrow> ppc_res" where
  "lwzux inst s =
     (let address = Helper_Get_EA_UX inst s
      in bind_ppc (Read_U32 address s)
           (\<lambda>(temp, s). Inr (if dsi s then s else set_gpr (inst_RA inst) address (set_gpr (inst_RD inst) temp s))))"

definition lwzx :: "u32 \<Rightarrow> ppc \<Rightarrow> ppc_res" where
  "lwzx inst s =
     (let address = Helper_Get_EA_X inst s
      in bind_ppc (Read_U32 address s)
           (\<lambda>(temp, s). Inr (if dsi s then s else set_gpr (inst_RD inst) temp s)))"

definition lhbrx :: "u32 \<Rightarrow> ppc \<Rightarrow> ppc_res" where
  "lhbrx inst s =
     (let address = Helper_Get_EA_X inst s
      in bind_ppc (Read_U16 address s)
           (\<lambda>(temp, s). Inr (if dsi s then s else set_gpr (inst_RD inst) (ucast (swap16 temp)) s)))"

definition lwbrx :: "u32 \<Rightarrow> ppc \<Rightarrow> ppc_res" where
  "lwbrx inst s =
     (let address = Helper_Get_EA_X inst s
      in bind_ppc (Read_U32 address s)
           (\<lambda>(temp, s). Inr (if dsi s then s else set_gpr (inst_RD inst) (swap32 temp) s)))"

definition stb :: "u32 \<Rightarrow> ppc \<Rightarrow> ppc_res" where
  "stb inst s = Write_U8 (ucast (gpr s (inst_RS inst))) (Helper_Get_EA inst s) s"

definition stbu :: "u32 \<Rightarrow> ppc \<Rightarrow> ppc_res" where
  "stbu inst s =
     (let address = Helper_Get_EA_U inst s
      in bind_ppc (Write_U8 (ucast (gpr s (inst_RS inst))) address s)
           (\<lambda>s. Inr (if dsi s then s else set_gpr (inst_RA inst) address s)))"

definition stbux :: "u32 \<Rightarrow> ppc \<Rightarrow> ppc_res" where
  "stbux inst s =
     (let address = Helper_Get_EA_UX inst s
      in bind_ppc (Write_U8 (ucast (gpr s (inst_RS inst))) address s)
           (\<lambda>s. Inr (if dsi s then s else set_gpr (inst_RA inst) address s)))"

definition stbx :: "u32 \<Rightarrow> ppc \<Rightarrow> ppc_res" where
  "stbx inst s = Write_U8 (ucast (gpr s (inst_RS inst))) (Helper_Get_EA_X inst s) s"

definition sth :: "u32 \<Rightarrow> ppc \<Rightarrow> ppc_res" where
  "sth inst s = Write_U16 (ucast (gpr s (inst_RS inst))) (Helper_Get_EA inst s) s"

definition sthu :: "u32 \<Rightarrow> ppc \<Rightarrow> ppc_res" where
  "sthu inst s =
     (let address = Helper_Get_EA_U inst s
      in bind_ppc (Write_U16 (ucast (gpr s (inst_RS inst))) address s)
           (\<lambda>s. Inr (if dsi s then s else set_gpr (inst_RA inst) address s)))"

definition sthux :: "u32 \<Rightarrow> ppc \<Rightarrow> ppc_res" where
  "sthux inst s =
     (let address = Helper_Get_EA_UX inst s
      in bind_ppc (Write_U16 (ucast (gpr s (inst_RS inst))) address s)
           (\<lambda>s. Inr (if dsi s then s else set_gpr (inst_RA inst) address s)))"

definition sthx :: "u32 \<Rightarrow> ppc \<Rightarrow> ppc_res" where
  "sthx inst s = Write_U16 (ucast (gpr s (inst_RS inst))) (Helper_Get_EA_X inst s) s"

definition stw :: "u32 \<Rightarrow> ppc \<Rightarrow> ppc_res" where
  "stw inst s = Write_U32 (gpr s (inst_RS inst)) (Helper_Get_EA inst s) s"

definition stwu :: "u32 \<Rightarrow> ppc \<Rightarrow> ppc_res" where
  "stwu inst s =
     (let address = Helper_Get_EA_U inst s
      in bind_ppc (Write_U32 (gpr s (inst_RS inst)) address s)
           (\<lambda>s. Inr (if dsi s then s else set_gpr (inst_RA inst) address s)))"

definition stwux :: "u32 \<Rightarrow> ppc \<Rightarrow> ppc_res" where
  "stwux inst s =
     (let address = Helper_Get_EA_UX inst s
      in bind_ppc (Write_U32 (gpr s (inst_RS inst)) address s)
           (\<lambda>s. Inr (if dsi s then s else set_gpr (inst_RA inst) address s)))"

definition stwx :: "u32 \<Rightarrow> ppc \<Rightarrow> ppc_res" where
  "stwx inst s = Write_U32 (gpr s (inst_RS inst)) (Helper_Get_EA_X inst s) s"

definition sthbrx :: "u32 \<Rightarrow> ppc \<Rightarrow> ppc_res" where
  "sthbrx inst s = Write_U16 (swap16 (ucast (gpr s (inst_RS inst)))) (Helper_Get_EA_X inst s) s"

definition stwbrx :: "u32 \<Rightarrow> ppc \<Rightarrow> ppc_res" where
  "stwbrx inst s = Write_U32 (swap32 (gpr s (inst_RS inst))) (Helper_Get_EA_X inst s) s"

section \<open>Several registers\<close>

text \<open>The loops of \<open>lmw\<close> and \<open>stmw\<close> from register \<open>i\<close> on, \<open>n\<close> registers left.\<close>

fun lmw_from :: "nat \<Rightarrow> nat \<Rightarrow> u32 \<Rightarrow> ppc \<Rightarrow> ppc_res" where
  "lmw_from 0 i address s = Inr s"
| "lmw_from (Suc n) i address s =
     bind_ppc (Read_U32 address s)
       (\<lambda>(temp_reg, s). if dsi s then Inr s else lmw_from n (i + 1) (address + 4) (set_gpr i temp_reg s))"

definition lmw :: "u32 \<Rightarrow> ppc \<Rightarrow> ppc_res" where
  "lmw inst s = lmw_from (32 - inst_RD inst) (inst_RD inst) (Helper_Get_EA inst s) s"

fun stmw_from :: "nat \<Rightarrow> nat \<Rightarrow> u32 \<Rightarrow> ppc \<Rightarrow> ppc_res" where
  "stmw_from 0 i address s = Inr s"
| "stmw_from (Suc n) i address s =
     bind_ppc (Write_U32 (gpr s i) address s)
       (\<lambda>s. if dsi s then Inr s else stmw_from n (i + 1) (address + 4) s)"

definition stmw :: "u32 \<Rightarrow> ppc \<Rightarrow> ppc_res" where
  "stmw inst s = stmw_from (32 - inst_RS inst) (inst_RS inst) (Helper_Get_EA inst s) s"

section \<open>Strings of bytes\<close>

text \<open>The loop of \<open>lswx\<close> from byte \<open>n\<close> on, \<open>k\<close> bytes left.\<close>

fun lswx_from :: "nat \<Rightarrow> nat \<Rightarrow> nat \<Rightarrow> u32 \<Rightarrow> ppc \<Rightarrow> ppc_res" where
  "lswx_from 0 n rd EA s = Inr s"
| "lswx_from (Suc k) n rd EA s =
     (let reg = (rd + n div 4) mod 32;
          s = (if n mod 4 = 0 then set_gpr reg 0 s else s)
      in bind_ppc (Read_U8 EA s)
           (\<lambda>(b, s). if dsi s then Inr s
              else lswx_from k (n + 1) rd (EA + 1)
                     (set_gpr reg (gpr s reg OR push_bit (24 - 8 * (n mod 4)) (ucast b)) s)))"

definition lswx :: "u32 \<Rightarrow> ppc \<Rightarrow> ppc_res" where
  "lswx inst s = lswx_from (unat (ucast (xer_stringctrl s) :: u8)) 0 (inst_RD inst) (Helper_Get_EA_X inst s) s"

definition string_address :: "u32 \<Rightarrow> ppc \<Rightarrow> u32" where
  "string_address inst s = (if inst_RA inst = 0 then 0 else gpr s (inst_RA inst))"

definition string_length :: "u32 \<Rightarrow> nat" where
  "string_length inst = (if inst_NB inst = 0 then 32 else inst_NB inst)"

text \<open>
  The loops of \<open>lswi\<close> and \<open>stswi\<close>, \<open>n\<close> bytes left: \<open>r\<close> is the register before the one of the next
  byte when \<open>i\<close> is 0.  The code starts with \<open>r\<close> one below the register, which may be -1, and
  masks it after the increment.
\<close>

fun lswi_from :: "nat \<Rightarrow> int \<Rightarrow> nat \<Rightarrow> u32 \<Rightarrow> ppc \<Rightarrow> ppc_res" where
  "lswi_from 0 r i EA s = Inr s"
| "lswi_from (Suc n) r i EA s =
     (let r = (if i = 0 then (r + 1) mod 32 else r);
          s = (if i = 0 then set_gpr (nat r) 0 s else s)
      in bind_ppc (Read_U8 EA s)
           (\<lambda>(b, s). if dsi s then Inr s
              else lswi_from n r (if i + 8 = 32 then 0 else i + 8) (EA + 1)
                     (set_gpr (nat r) (gpr s (nat r) OR push_bit (24 - i) (ucast b)) s)))"

definition lswi :: "u32 \<Rightarrow> ppc \<Rightarrow> ppc_res" where
  "lswi inst s = lswi_from (string_length inst) (int (inst_RD inst) - 1) 0 (string_address inst s) s"

fun stswi_from :: "nat \<Rightarrow> int \<Rightarrow> nat \<Rightarrow> u32 \<Rightarrow> ppc \<Rightarrow> ppc_res" where
  "stswi_from 0 r i EA s = Inr s"
| "stswi_from (Suc n) r i EA s =
     (let r = (if i = 0 then (r + 1) mod 32 else r)
      in bind_ppc (Write_U8 (ucast (drop_bit (24 - i) (gpr s (nat r)) AND 0xFF)) EA s)
           (\<lambda>s. if dsi s then Inr s
                else stswi_from n r (if i + 8 = 32 then 0 else i + 8) (EA + 1) s))"

definition stswi :: "u32 \<Rightarrow> ppc \<Rightarrow> ppc_res" where
  "stswi inst s = stswi_from (string_length inst) (int (inst_RS inst) - 1) 0 (string_address inst s) s"

fun stswx_from :: "nat \<Rightarrow> nat \<Rightarrow> nat \<Rightarrow> u32 \<Rightarrow> ppc \<Rightarrow> ppc_res" where
  "stswx_from 0 r i EA s = Inr s"
| "stswx_from (Suc n) r i EA s =
     bind_ppc (Write_U8 (ucast (drop_bit (24 - i) (gpr s r) AND 0xFF)) EA s)
       (\<lambda>s. stswx_from n (if i + 8 = 32 then (r + 1) mod 32 else r) (if i + 8 = 32 then 0 else i + 8) (EA + 1) s)"

definition stswx :: "u32 \<Rightarrow> ppc \<Rightarrow> ppc_res" where
  "stswx inst s =
     stswx_from (unat (ucast (xer_stringctrl s) :: u8)) (inst_RS inst) 0 (Helper_Get_EA_X inst s) s"

section \<open>Reservations, external control and caches\<close>

definition lwarx :: "u32 \<Rightarrow> ppc \<Rightarrow> ppc_res" where
  "lwarx inst s =
     (let address = Helper_Get_EA_X inst s
      in bind_ppc (Read_U32 address s)
           (\<lambda>(temp, s). Inr (if dsi s then s
              else (set_gpr (inst_RD inst) temp s)\<lparr>m_reserve := True, m_reserve_address := address\<rparr>)))"

definition stwcxd :: "u32 \<Rightarrow> ppc \<Rightarrow> ppc_res" where
  "stwcxd inst s =
     (let address = Helper_Get_EA_X inst s;
          fail = (\<lambda>s. Inr (SetCRField 0 (ucast (GetXER_SO s)) s))
      in if m_reserve s \<and> address = m_reserve_address s
         then bind_ppc (Write_U32 (gpr s (inst_RS inst)) address s)
                (\<lambda>s. if dsi s then fail s
                     else (let s = s\<lparr>m_reserve := False\<rparr>
                           in Inr (SetCRField 0 (2 OR ucast (GetXER_SO s)) s)))
         else fail s)"

definition SPR_EAR :: nat where "SPR_EAR = 282"

definition external_checks :: "u32 \<Rightarrow> ppc \<Rightarrow> ppc" where
  "external_checks EA s =
     (let s = (if spr s SPR_EAR AND 0x80000000 = 0 then s\<lparr>Exceptions := Exceptions s OR EXCEPTION_DSI\<rparr> else s)
      in if EA AND 3 \<noteq> 0 then s\<lparr>Exceptions := Exceptions s OR EXCEPTION_ALIGNMENT\<rparr> else s)"

definition eciwx :: "u32 \<Rightarrow> ppc \<Rightarrow> ppc_res" where
  "eciwx inst s =
     (let EA = Helper_Get_EA_X inst s
      in bind_ppc (Read_U32 EA (external_checks EA s)) (\<lambda>(v, s). Inr (set_gpr (inst_RD inst) v s)))"

definition ecowx :: "u32 \<Rightarrow> ppc \<Rightarrow> ppc_res" where
  "ecowx inst s =
     (let EA = Helper_Get_EA_X inst s
      in Write_U32 (gpr s (inst_RS inst)) EA (external_checks EA s))"

definition dcbz :: "u32 \<Rightarrow> ppc \<Rightarrow> ppc_res" where
  "dcbz inst s =
     (if bDCBZOFF s then Inr s
      else (let dcbz_addr = Helper_Get_EA_X inst s
            in if bLowDCBZHack s \<and> dcbz_addr < 0x80008000 \<and> dcbz_addr \<ge> 0x80000000 then Inr s
               else ClearCacheLine (dcbz_addr AND NOT 31) s))"

definition dcbz_l :: "u32 \<Rightarrow> ppc \<Rightarrow> ppc_res" where
  "dcbz_l inst s = ClearCacheLine (Helper_Get_EA_X inst s AND NOT 31) s"

definition icbi :: "u32 \<Rightarrow> ppc \<Rightarrow> ppc_res" where
  "icbi inst s = Inr (icache_Invalidate (Helper_Get_EA_X inst s) s)"

definition tlbie :: "u32 \<Rightarrow> ppc \<Rightarrow> ppc_res" where
  "tlbie inst s = Inr (InvalidateTLBEntry (gpr s (inst_RB inst)) s)"

text \<open>Instructions that only invalidate code of the recompilers, or do nothing.\<close>

definition dcba :: "u32 \<Rightarrow> ppc \<Rightarrow> ppc_res" where "dcba inst s = Inr s"
definition dcbf :: "u32 \<Rightarrow> ppc \<Rightarrow> ppc_res" where "dcbf inst s = Inr s"
definition dcbi :: "u32 \<Rightarrow> ppc \<Rightarrow> ppc_res" where "dcbi inst s = Inr s"
definition dcbst :: "u32 \<Rightarrow> ppc \<Rightarrow> ppc_res" where "dcbst inst s = Inr s"
definition dcbt :: "u32 \<Rightarrow> ppc \<Rightarrow> ppc_res" where "dcbt inst s = Inr s"
definition dcbtst :: "u32 \<Rightarrow> ppc \<Rightarrow> ppc_res" where "dcbtst inst s = Inr s"
definition eieio :: "u32 \<Rightarrow> ppc \<Rightarrow> ppc_res" where "eieio inst s = Inr s"
definition sync :: "u32 \<Rightarrow> ppc \<Rightarrow> ppc_res" where "sync inst s = Inr s"
definition tlbsync :: "u32 \<Rightarrow> ppc \<Rightarrow> ppc_res" where "tlbsync inst s = Inr s"

section \<open>Floating-point loads and stores\<close>

definition inst_FD :: "u32 \<Rightarrow> nat" where "inst_FD inst = unat (ifield inst 21 5)"
definition inst_FS :: "u32 \<Rightarrow> nat" where "inst_FS inst = unat (ifield inst 21 5)"

abbreviation set_ps0 :: "nat \<Rightarrow> u64 \<Rightarrow> ppc \<Rightarrow> ppc" where
  "set_ps0 i v s \<equiv> s\<lparr>ps := (ps s)(i := (ps s i)(0 := v))\<rparr>"
abbreviation set_ps1 :: "nat \<Rightarrow> u64 \<Rightarrow> ppc \<Rightarrow> ppc" where
  "set_ps1 i v s \<equiv> s\<lparr>ps := (ps s)(i := (ps s i)(1 := v))\<rparr>"

definition ConvertToSingle :: "u64 \<Rightarrow> u32" where
  "ConvertToSingle x =
     (let exp = ucast (drop_bit 52 x AND 0x7ff) :: u32;
          cut = ucast ((drop_bit 32 x AND 0xc0000000) OR (drop_bit 29 x AND 0x3fffffff)) :: u32
      in if exp > 896 \<or> x AND NOT 0x8000000000000000 = 0 then cut
         else if exp \<ge> 874 then
           (let t = ucast (0x80000000 OR drop_bit 21 (x AND 0x000FFFFFFFFFFFFF)) :: u32;
                t = drop_bit (unat (905 - exp)) t
            in t OR ucast (drop_bit 32 x AND 0x80000000))
         else cut)"

text \<open>The loop that normalises a subnormal fraction, below \<open>2 ^ 23\<close> and not 0.\<close>

fun normalize_from :: "nat \<Rightarrow> u64 \<Rightarrow> u64 \<Rightarrow> u64 \<times> u64" where
  "normalize_from 0 frac exp = (frac, exp)"
| "normalize_from (Suc n) frac exp =
     (let frac = push_bit 1 frac; exp = exp - 1
      in if frac AND 0x00800000 = 0 then normalize_from n frac exp else (frac, exp))"

definition ConvertToDouble :: "u32 \<Rightarrow> u64" where
  "ConvertToDouble value =
     (let x = ucast value :: u64;
          exp = drop_bit 23 x AND 0xff;
          frac = x AND 0x007fffff;
          wide = (\<lambda>y. push_bit 32 (x AND 0xc0000000)
            OR (push_bit 61 y OR push_bit 60 y OR push_bit 59 y) OR push_bit 29 (x AND 0x3fffffff))
      in if exp > 0 \<and> exp < 255 then wide (of_bool (drop_bit 7 exp = 0))
         else if exp = 0 \<and> frac \<noteq> 0 then
           (let (frac, exp) = normalize_from 23 frac (1023 - 126)
            in push_bit 32 (x AND 0x80000000) OR push_bit 52 exp OR push_bit 29 (frac AND 0x007fffff))
         else wide (drop_bit 7 exp))"

definition lfd :: "u32 \<Rightarrow> ppc \<Rightarrow> ppc_res" where
  "lfd inst s =
     (let address = Helper_Get_EA inst s
      in bind_ppc (Read_U64 address s)
           (\<lambda>(temp, s). Inr (if dsi s then s else set_ps0 (inst_FD inst) temp s)))"

definition lfdu :: "u32 \<Rightarrow> ppc \<Rightarrow> ppc_res" where
  "lfdu inst s =
     (let address = Helper_Get_EA_U inst s
      in bind_ppc (Read_U64 address s)
           (\<lambda>(temp, s). Inr (if dsi s then s else set_gpr (inst_RA inst) address (set_ps0 (inst_FD inst) temp s))))"

definition lfdux :: "u32 \<Rightarrow> ppc \<Rightarrow> ppc_res" where
  "lfdux inst s =
     (let address = Helper_Get_EA_UX inst s
      in bind_ppc (Read_U64 address s)
           (\<lambda>(temp, s). Inr (if dsi s then s else set_gpr (inst_RA inst) address (set_ps0 (inst_FD inst) temp s))))"

definition lfdx :: "u32 \<Rightarrow> ppc \<Rightarrow> ppc_res" where
  "lfdx inst s =
     (let address = Helper_Get_EA_X inst s
      in bind_ppc (Read_U64 address s)
           (\<lambda>(temp, s). Inr (if dsi s then s else set_ps0 (inst_FD inst) temp s)))"

definition lfs :: "u32 \<Rightarrow> ppc \<Rightarrow> ppc_res" where
  "lfs inst s =
     (let address = Helper_Get_EA inst s
      in bind_ppc (Read_U32 address s)
           (\<lambda>(temp, s). Inr (if dsi s then s else set_ps1 (inst_FD inst) (ConvertToDouble temp) (set_ps0 (inst_FD inst) (ConvertToDouble temp) s))))"

definition lfsu :: "u32 \<Rightarrow> ppc \<Rightarrow> ppc_res" where
  "lfsu inst s =
     (let address = Helper_Get_EA_U inst s
      in bind_ppc (Read_U32 address s)
           (\<lambda>(temp, s). Inr (if dsi s then s else set_gpr (inst_RA inst) address (set_ps1 (inst_FD inst) (ConvertToDouble temp) (set_ps0 (inst_FD inst) (ConvertToDouble temp) s)))))"

definition lfsux :: "u32 \<Rightarrow> ppc \<Rightarrow> ppc_res" where
  "lfsux inst s =
     (let address = Helper_Get_EA_UX inst s
      in bind_ppc (Read_U32 address s)
           (\<lambda>(temp, s). Inr (if dsi s then s else set_gpr (inst_RA inst) address (set_ps1 (inst_FD inst) (ConvertToDouble temp) (set_ps0 (inst_FD inst) (ConvertToDouble temp) s)))))"

definition lfsx :: "u32 \<Rightarrow> ppc \<Rightarrow> ppc_res" where
  "lfsx inst s =
     (let address = Helper_Get_EA_X inst s
      in bind_ppc (Read_U32 address s)
           (\<lambda>(temp, s). Inr (if dsi s then s else set_ps1 (inst_FD inst) (ConvertToDouble temp) (set_ps0 (inst_FD inst) (ConvertToDouble temp) s))))"

definition stfd :: "u32 \<Rightarrow> ppc \<Rightarrow> ppc_res" where
  "stfd inst s = Write_U64 (ps s (inst_FS inst) 0) (Helper_Get_EA inst s) s"

definition stfdu :: "u32 \<Rightarrow> ppc \<Rightarrow> ppc_res" where
  "stfdu inst s =
     (let address = Helper_Get_EA_U inst s
      in bind_ppc (Write_U64 (ps s (inst_FS inst) 0) address s)
           (\<lambda>s. Inr (if dsi s then s else set_gpr (inst_RA inst) address s)))"

definition stfdux :: "u32 \<Rightarrow> ppc \<Rightarrow> ppc_res" where
  "stfdux inst s =
     (let address = Helper_Get_EA_UX inst s
      in bind_ppc (Write_U64 (ps s (inst_FS inst) 0) address s)
           (\<lambda>s. Inr (if dsi s then s else set_gpr (inst_RA inst) address s)))"

definition stfdx :: "u32 \<Rightarrow> ppc \<Rightarrow> ppc_res" where
  "stfdx inst s = Write_U64 (ps s (inst_FS inst) 0) (Helper_Get_EA_X inst s) s"

definition stfs :: "u32 \<Rightarrow> ppc \<Rightarrow> ppc_res" where
  "stfs inst s = Write_U32 (ConvertToSingle (ps s (inst_FS inst) 0)) (Helper_Get_EA inst s) s"

definition stfsu :: "u32 \<Rightarrow> ppc \<Rightarrow> ppc_res" where
  "stfsu inst s =
     (let address = Helper_Get_EA_U inst s
      in bind_ppc (Write_U32 (ConvertToSingle (ps s (inst_FS inst) 0)) address s)
           (\<lambda>s. Inr (if dsi s then s else set_gpr (inst_RA inst) address s)))"

definition stfsux :: "u32 \<Rightarrow> ppc \<Rightarrow> ppc_res" where
  "stfsux inst s =
     (let address = Helper_Get_EA_UX inst s
      in bind_ppc (Write_U32 (ConvertToSingle (ps s (inst_FS inst) 0)) address s)
           (\<lambda>s. Inr (if dsi s then s else set_gpr (inst_RA inst) address s)))"

definition stfsx :: "u32 \<Rightarrow> ppc \<Rightarrow> ppc_res" where
  "stfsx inst s = Write_U32 (ConvertToSingle (ps s (inst_FS inst) 0)) (Helper_Get_EA_X inst s) s"

definition stfiwx :: "u32 \<Rightarrow> ppc \<Rightarrow> ppc_res" where
  "stfiwx inst s = Write_U32 (ucast (ps s (inst_FS inst) 0)) (Helper_Get_EA_X inst s) s"

end
