(* ===== verification/PPC_Multiple.thy ===== *)
theory PPC_Multiple
  imports PPC_RAM PPC_LoadStore PPC_CR
begin

text \<open>
  Instructions that make several accesses.  The interface they rely on is a memory of cells: reading
  and writing one cell completes, a write sets the cell it names and keeps the cells it does not
  overlap.  Memory behind block address translation provides it, by words and by bytes.
\<close>

section \<open>The interface: a memory of cells\<close>

locale cell_memory =
  fixes step :: nat
    and get :: "'s \<Rightarrow> u32 \<Rightarrow> 'v"
    and rd :: "u32 \<Rightarrow> 's \<Rightarrow> 'e + 'v \<times> 's"
    and wr :: "'v \<Rightarrow> u32 \<Rightarrow> 's \<Rightarrow> 'e + 's"
    and inv :: "'s \<Rightarrow> bool"
    and cells :: "u32 set"
  assumes rd: "inv s \<Longrightarrow> a \<in> cells \<Longrightarrow> rd a s = Inr (get s a, s)"
    and wr: "inv s \<Longrightarrow> a \<in> cells \<Longrightarrow> \<exists>s'. wr v a s = Inr s' \<and> inv s' \<and> get s' a = v
      \<and> (\<forall>b\<in>cells. span step b \<inter> span step a = {} \<longrightarrow> get s' b = get s b)"

text \<open>Cells stored one after the other, as the loops of the store instructions do.\<close>

fun write_cells :: "nat \<Rightarrow> ('v \<Rightarrow> u32 \<Rightarrow> 's \<Rightarrow> 'e + 's) \<Rightarrow> 'v list \<Rightarrow> u32 \<Rightarrow> 's \<Rightarrow> 'e + 's" where
  "write_cells k wr [] a s = Inr s"
| "write_cells k wr (v # vs) a s = (case wr v a s of Inl e \<Rightarrow> Inl e | Inr s \<Rightarrow> write_cells k wr vs (a + of_nat k) s)"

lemma span_disjoint:
  assumes "i + k \<le> j" "j + k \<le> 2 ^ 32"
  shows "span k (a + of_nat j) \<inter> span k (a + of_nat i) = {}"
proof -
  have False if "x < k" "y < k" "a + of_nat j + of_nat x = a + of_nat i + (of_nat y :: u32)" for x y
  proof -
    have "a + of_nat (j + x) = a + (of_nat (i + y) :: u32)" using that(3) by (simp add: add.assoc)
    then have "j + x = i + y" using assms that(1,2) add_of_nat_eq [of "2 ^ 32" "j + x" "i + y" a] by simp
    then show False using assms that by simp
  qed
  then show ?thesis by (auto simp: span_def)
qed

context cell_memory
begin

lemma write_cells_get:
  assumes "inv s" "\<And>j. j < length vs \<Longrightarrow> a + of_nat (step * j) \<in> cells" "step * length vs \<le> 2 ^ 32"
  shows "\<exists>s'. write_cells step wr vs a s = Inr s' \<and> inv s'
    \<and> (\<forall>j<length vs. get s' (a + of_nat (step * j)) = vs ! j)
    \<and> (\<forall>b\<in>cells. (\<forall>j<length vs. span step b \<inter> span step (a + of_nat (step * j)) = {}) \<longrightarrow> get s' b = get s b)"
  using assms
proof (induction vs arbitrary: a s)
  case (Cons v vs)
  have a: "a \<in> cells" using Cons.prems(2) [of 0] by simp
  obtain s1 where s1: "wr v a s = Inr s1" "inv s1" "get s1 a = v"
    "\<forall>b\<in>cells. span step b \<inter> span step a = {} \<longrightarrow> get s1 b = get s b"
    using wr [OF Cons.prems(1) a] by blast
  have cells: "a + of_nat step + of_nat (step * j) \<in> cells" if "j < length vs" for j
    using Cons.prems(2) [of "Suc j"] that by (simp add: add.assoc)
  have len: "step * length vs \<le> 2 ^ 32" using Cons.prems(3) by simp
  obtain s' where s': "write_cells step wr vs (a + of_nat step) s1 = Inr s'" "inv s'"
    "\<forall>j<length vs. get s' (a + of_nat step + of_nat (step * j)) = vs ! j"
    "\<forall>b\<in>cells. (\<forall>j<length vs. span step b \<inter> span step (a + of_nat step + of_nat (step * j)) = {}) \<longrightarrow> get s' b = get s1 b"
    using Cons.IH [OF s1(2) cells len] by blast
  have shift: "a + of_nat step + of_nat (step * j) = a + of_nat (step * Suc j)" for j
    by (simp add: add.assoc)
  have "span step a \<inter> span step (a + of_nat (step * Suc j)) = {}" if "j < length vs" for j
  proof -
    have "step * Suc j + step \<le> 2 ^ 32"
      using Cons.prems(3) mult_le_mono2 [of "Suc (Suc j)" "length (v # vs)" step] that by simp
    then show ?thesis using span_disjoint [of 0 step "step * Suc j" a] by auto
  qed
  then have "get s' a = v" using s'(4) a s1(3) unfolding shift by metis
  then have "get s' (a + of_nat (step * j)) = (v # vs) ! j" if "j < length (v # vs)" for j
    using s'(3) that unfolding shift by (cases j) simp_all
  moreover have "get s' b = get s b"
    if b: "b \<in> cells" "\<forall>j<length (v # vs). span step b \<inter> span step (a + of_nat (step * j)) = {}" for b
  proof -
    have "get s1 b = get s b" using s1(4) b(1) b(2) [rule_format, of 0] by simp
    moreover have "\<forall>j<length vs. span step b \<inter> span step (a + of_nat (step * Suc j)) = {}"
    proof (intro allI impI)
      fix j assume "j < length vs"
      then show "span step b \<inter> span step (a + of_nat (step * Suc j)) = {}"
        using b(2) [rule_format, of "Suc j"] by simp
    qed
    ultimately show ?thesis using s'(4) b(1) unfolding shift by metis
  qed
  ultimately show ?case using s1(1) s'(1,2) by (intro exI [of _ s']) simp
qed (simp add: rd)

end

section \<open>Memory behind block address translation provides it\<close>

text \<open>A region of a state, and what may change while it is written: the memories.\<close>

definition region_state :: "u32 set \<Rightarrow> ppc \<Rightarrow> ppc \<Rightarrow> bool" where
  "region_state R s0 s \<longleftrightarrow> ram_region R s \<and> (\<exists>m. s = s0\<lparr>ram := m\<rparr>)"

definition region_cells :: "u32 set \<Rightarrow> nat \<Rightarrow> u32 set" where
  "region_cells R n = {a. span n a \<subseteq> R \<and> unat a + n \<le> 2 ^ 32}"

definition get_word :: "ppc \<Rightarrow> u32 \<Rightarrow> u32" where "get_word s a = ucast (mem_value s 4 a)"
definition get_byte :: "ppc \<Rightarrow> u32 \<Rightarrow> u8" where "get_byte s a = ucast (mem_value s 1 a)"

lemma put_bytes_ram: "\<exists>m. put_bytes n d a k i s = s\<lparr>ram := m\<rparr>"
proof (induction k arbitrary: i s)
  case 0
  show ?case by (rule exI [of _ "ram s"]) simp
next
  case (Suc k)
  have "\<exists>m. set_mem_byte (a + of_nat i) (value_byte n d i) s = s\<lparr>ram := m\<rparr>"
    by (auto simp: set_mem_byte_def set_ram_def split: option.splits intro: exI [of _ "ram s"])
  then obtain m where m: "set_mem_byte (a + of_nat i) (value_byte n d i) s = s\<lparr>ram := m\<rparr>" ..
  then show ?case using Suc [of "i + 1" "s\<lparr>ram := m\<rparr>"] by auto
qed

lemma region_checked:
  assumes "region_state R s0 s" "a \<in> region_cells R n" "access_size n"
  shows "read_checked n a s = Inr (mem_value s n a, s)"
    and "\<exists>s'. write_checked n d a s = Inr s' \<and> region_state R s0 s' \<and> mem_value s' n a = take_bit (8 * n) d
      \<and> (\<forall>b\<in>region_cells R m. span m b \<inter> span n a = {} \<longrightarrow> mem_value s' m b = mem_value s m b)"
proof -
  have r: "ram_region R s" "span n a \<subseteq> R" "unat a + n \<le> 2 ^ 32" "n \<le> 8"
    using assms by (auto simp: region_state_def region_cells_def access_size_def)
  have mc: "Memcheck address var w sz s = s" for address var w sz
    using r(1) by (simp add: Memcheck_def ram_region_def)
  show "read_checked n a s = Inr (mem_value s n a, s)"
    using region_read [OF r(1,2) assms(3) r(3), of Read] by (simp add: read_checked_def mc IsOpcodeFlag_def)
  have "write_checked n d a s = Inr (put_bytes n d a n 0 s)"
    using region_write [OF r(1,2) assms(3) r(3), of Write] by (simp add: write_checked_def mc IsOpcodeFlag_def)
  moreover have "region_state R s0 (put_bytes n d a n 0 s)"
  proof -
    obtain m m' where "s = s0\<lparr>ram := m\<rparr>" "put_bytes n d a n 0 s = s\<lparr>ram := m'\<rparr>"
      using assms(1) put_bytes_ram by (metis region_state_def)
    then have "put_bytes n d a n 0 s = s0\<lparr>ram := m'\<rparr>" by simp
    moreover have "ram_region R (put_bytes n d a n 0 s)" using r(1) by simp
    ultimately show ?thesis unfolding region_state_def by blast
  qed
  moreover have "mem_value (put_bytes n d a n 0 s) n a = take_bit (8 * n) d"
    by (rule mem_value_put [OF r(1,2,4)])
  moreover have "mem_value (put_bytes n d a n 0 s) m b = mem_value s m b"
    if "b \<in> region_cells R m" "span m b \<inter> span n a = {}" for b
    using mem_value_put_other [OF r(1,2,4) _ that(2)] that(1) by (simp add: region_cells_def)
  ultimately show "\<exists>s'. write_checked n d a s = Inr s' \<and> region_state R s0 s' \<and> mem_value s' n a = take_bit (8 * n) d
      \<and> (\<forall>b\<in>region_cells R m. span m b \<inter> span n a = {} \<longrightarrow> mem_value s' m b = mem_value s m b)"
    by blast
qed

lemma ucast_round_trip: "ucast (take_bit 32 (ucast (v :: u32) :: u64)) = v" "ucast (take_bit 8 (ucast (w :: u8) :: u64)) = w"
  by (rule bit_word_eqI, simp add: bit_ucast_iff bit_take_bit_iff)+

interpretation words: cell_memory 4 get_word Read_U32 Write_U32 "region_state R s0" "region_cells R 4" for R s0
proof
  fix s a v
  assume s: "region_state R s0 s" and a: "a \<in> region_cells R 4"
  have n: "access_size 4" by (simp add: access_size_def)
  show "Read_U32 a s = Inr (get_word s a, s)"
    using region_checked(1) [OF s a n] by (simp add: Read_U32_def get_word_def)
  show "\<exists>s'. Write_U32 v a s = Inr s' \<and> region_state R s0 s' \<and> get_word s' a = v
      \<and> (\<forall>b\<in>region_cells R 4. span 4 b \<inter> span 4 a = {} \<longrightarrow> get_word s' b = get_word s b)"
    using region_checked(2) [OF s a n, of "ucast v" 4] ucast_round_trip(1) [of v]
    by (auto simp: Write_U32_def get_word_def)
qed

interpretation bytes: cell_memory 1 get_byte Read_U8 Write_U8 "region_state R s0" "region_cells R 1" for R s0
proof
  fix s a v
  assume s: "region_state R s0 s" and a: "a \<in> region_cells R 1"
  have n: "access_size 1" by (simp add: access_size_def)
  show "Read_U8 a s = Inr (get_byte s a, s)"
    using region_checked(1) [OF s a n] by (simp add: Read_U8_def get_byte_def)
  show "\<exists>s'. Write_U8 v a s = Inr s' \<and> region_state R s0 s' \<and> get_byte s' a = v
      \<and> (\<forall>b\<in>region_cells R 1. span 1 b \<inter> span 1 a = {} \<longrightarrow> get_byte s' b = get_byte s b)"
    using region_checked(2) [OF s a n, of "ucast v" 1] ucast_round_trip(2) [of v]
    by (auto simp: Write_U8_def get_byte_def)
qed

section \<open>Store multiple, load multiple\<close>

text \<open>The accesses depend on the memories and on the settings of the translation only.\<close>

lemma memory_frame:
  assumes "ram s' = ram s" "has_exram s' = has_exram s" "has_fakevmem s' = has_fakevmem s"
    "msr s' = msr s" "dbat_table s' = dbat_table s" "memcheck_pause s' = memcheck_pause s"
  shows "get_word s' = get_word s" "get_byte s' = get_byte s" "ram_region R s' = ram_region R s"
proof -
  have "byte_place s' a = byte_place s a" for a
    using assms by (simp add: byte_place_def hw_bank_def split: option.split)
  then have p: "byte_place s' = byte_place s" by (rule ext)
  then have "mem_byte s' a = mem_byte s a" for a
    using assms by (simp add: mem_byte_def split: option.split)
  then show "get_word s' = get_word s" "get_byte s' = get_byte s"
    by (simp_all add: fun_eq_iff get_word_def get_byte_def mem_value_def)
  show "ram_region R s' = ram_region R s" using assms by (simp add: ram_region_def p)
qed

lemma gpr_update_frame [simp]:
  "get_word (s\<lparr>gpr := g\<rparr>) = get_word s" "get_byte (s\<lparr>gpr := g\<rparr>) = get_byte s"
  "ram_region R (s\<lparr>gpr := g\<rparr>) = ram_region R s" "dsi (s\<lparr>gpr := g\<rparr>) = dsi s"
  by (rule memory_frame; simp)+ (simp add: dsi_def)

lemma region_state_refl: "ram_region R s \<Longrightarrow> region_state R s s"
  unfolding region_state_def by (metis ppc.surjective ppc.update_convs(1))

lemma region_state_frame:
  "region_state R s0 s \<Longrightarrow> gpr s = gpr s0 \<and> dsi s = dsi s0 \<and> ram_region R s"
  by (auto simp: region_state_def dsi_def)

lemma stmw_from_cells:
  assumes "region_state R s0 s" "\<not> dsi s0" "\<And>j. j < n \<Longrightarrow> a + of_nat (4 * j) \<in> region_cells R 4"
  shows "stmw_from n i a s = write_cells 4 Write_U32 (map (gpr s0) [i..<i + n]) a s"
  using assms
proof (induction n arbitrary: i a s)
  case (Suc n)
  have a: "a \<in> region_cells R 4" using Suc.prems(3) [of 0] by simp
  obtain s1 where s1: "Write_U32 (gpr s0 i) a s = Inr s1" "region_state R s0 s1"
    using words.wr [OF Suc.prems(1) a] by blast
  have cells: "a + 4 + of_nat (4 * j) \<in> region_cells R 4" if "j < n" for j
    using Suc.prems(3) [of "Suc j"] that by (simp add: add.assoc)
  have "stmw_from n (i + 1) (a + 4) s1 = write_cells 4 Write_U32 (map (gpr s0) [i + 1..<i + 1 + n]) (a + 4) s1"
    by (rule Suc.IH [OF s1(2) Suc.prems(2) cells])
  then show ?case
    using s1 Suc.prems(2) region_state_frame [OF Suc.prems(1)] region_state_frame [OF s1(2)]
    by (simp add: upt_conv_Cons del: upt_Suc)
qed simp

lemma lmw_from_cells:
  assumes "ram_region R s" "\<not> dsi s" "\<And>j. j < n \<Longrightarrow> a + of_nat (4 * j) \<in> region_cells R 4"
  shows "lmw_from n i a s = Inr (s\<lparr>gpr := \<lambda>r. if i \<le> r \<and> r < i + n then get_word s (a + of_nat (4 * (r - i))) else gpr s r\<rparr>)"
  using assms
proof (induction n arbitrary: i a s)
  case 0
  have "(\<lambda>r. if i \<le> r \<and> r < i + 0 then get_word s (a + of_nat (4 * (r - i))) else gpr s r) = gpr s"
    by (intro ext) auto
  then show ?case by simp
next
  case (Suc n)
  have a: "a \<in> region_cells R 4" using Suc.prems(3) [of 0] by simp
  have cells: "a + 4 + of_nat (4 * j) \<in> region_cells R 4" if "j < n" for j
    using Suc.prems(3) [of "Suc j"] that by (simp add: add.assoc)
  let ?s1 = "set_gpr i (get_word s a) s"
  have s1: "ram_region R ?s1" "\<not> dsi ?s1" using Suc.prems by simp_all
  have "lmw_from (Suc n) i a s = lmw_from n (i + 1) (a + 4) ?s1"
    using words.rd [OF region_state_refl [OF Suc.prems(1)] a] Suc.prems(2) by simp
  also have "\<dots> = Inr (?s1\<lparr>gpr := \<lambda>r. if i + 1 \<le> r \<and> r < i + 1 + n
      then get_word ?s1 (a + 4 + of_nat (4 * (r - (i + 1)))) else gpr ?s1 r\<rparr>)"
    by (rule Suc.IH [OF s1 cells])
  also have "(\<lambda>r. if i + 1 \<le> r \<and> r < i + 1 + n then get_word ?s1 (a + 4 + of_nat (4 * (r - (i + 1)))) else gpr ?s1 r) =
      (\<lambda>r. if i \<le> r \<and> r < i + Suc n then get_word s (a + of_nat (4 * (r - i))) else gpr s r)"
  proof
    fix r
    have "a + 4 + of_nat (4 * (r - (i + 1))) = a + of_nat (4 * (r - i))" if "i + 1 \<le> r"
    proof -
      have "4 * (r - i) = 4 + 4 * (r - (i + 1))" using that by simp
      then show ?thesis by (simp only: of_nat_add) (simp add: add.assoc)
    qed
    then show "(if i + 1 \<le> r \<and> r < i + 1 + n then get_word ?s1 (a + 4 + of_nat (4 * (r - (i + 1)))) else gpr ?s1 r) =
        (if i \<le> r \<and> r < i + Suc n then get_word s (a + of_nat (4 * (r - i))) else gpr s r)"
      by (cases "i = r") auto
  qed
  finally show ?case by simp
qed

lemma ifield_less: "unat (ifield inst lo w) < 2 ^ w"
  unfolding ifield_def unsigned_take_bit_eq by (rule take_bit_nat_less_exp)

lemma multiple_cells:
  assumes "span (4 * n) a \<subseteq> R" "unat a + 4 * n \<le> 2 ^ 32" "j < n"
  shows "a + of_nat (4 * j) \<in> region_cells R 4"
proof -
  have "span 4 (a + of_nat (4 * j)) \<subseteq> span (4 * n) a" using assms(3) by (intro span_subset) simp
  moreover have "unat (a + of_nat (4 * j)) = unat a + 4 * j"
    using unat_limit(2) [of a "4 * n - 1" "4 * j"] assms(2,3) by simp
  ultimately show ?thesis using assms by (auto simp: region_cells_def)
qed

text \<open>C7: \<open>stmw\<close> and \<open>lmw\<close> are inverse on plain memory: the words lie, without wrapping round the address space,
  in addresses that the BATs translate (with \<open>MSR[DR]\<close> on) to different bytes of memory and no memory check
  watches, and no \<open>DSI\<close> is pending.  There \<open>stmw\<close> writes the registers from \<open>rS\<close> to \<open>r31\<close> and changes nothing
  but memory; whatever happens to the registers in between (the base register kept), \<open>lmw\<close> with the
  same operands gives each of them the stored value back, even when it loads over its own base.
\<close>

theorem multiple_round_trip:
  assumes "ram_region R s" "\<not> dsi s" "span (4 * (32 - inst_RS inst)) (Helper_Get_EA inst s) \<subseteq> R"
    and "unat (Helper_Get_EA inst s) + 4 * (32 - inst_RS inst) \<le> 2 ^ 32"
  shows "\<exists>m. stmw inst s = Inr (s\<lparr>ram := m\<rparr>) \<and>
    (\<forall>g. g (inst_RA inst) = gpr s (inst_RA inst) \<longrightarrow>
      lmw inst (s\<lparr>ram := m, gpr := g\<rparr>) =
        Inr (s\<lparr>ram := m, gpr := \<lambda>r. if inst_RS inst \<le> r \<and> r < 32 then gpr s r else g r\<rparr>))"
proof -
  let ?i = "inst_RS inst" and ?a = "Helper_Get_EA inst s"
  let ?n = "32 - ?i" and ?vs = "map (gpr s) [?i..<?i + (32 - ?i)]"
  have rs: "inst_RD inst = ?i" "?i < 32"
    using ifield_less [of inst 21 5] by (simp_all add: inst_RD_def inst_RS_def)
  note cells = multiple_cells [OF assms(3,4)]
  have len: "4 * length ?vs \<le> 2 ^ 32" by simp
  obtain s1 where s1: "write_cells 4 Write_U32 ?vs ?a s = Inr s1" "region_state R s s1"
    "\<forall>j<length ?vs. get_word s1 (?a + of_nat (4 * j)) = ?vs ! j"
    using words.write_cells_get [OF region_state_refl [OF assms(1)], of ?vs ?a] cells len by auto
  obtain m where m: "s1 = s\<lparr>ram := m\<rparr>" using s1(2) by (auto simp: region_state_def)
  have st: "stmw inst s = Inr (s\<lparr>ram := m\<rparr>)"
    using stmw_from_cells [OF region_state_refl [OF assms(1)] assms(2) cells, of ?n ?i] s1(1) m
    by (simp add: stmw_def)
  have "lmw inst (s\<lparr>ram := m, gpr := g\<rparr>) =
      Inr (s\<lparr>ram := m, gpr := \<lambda>r. if ?i \<le> r \<and> r < 32 then gpr s r else g r\<rparr>)"
    if g: "g (inst_RA inst) = gpr s (inst_RA inst)" for g
  proof -
    have a: "Helper_Get_EA inst (s1\<lparr>gpr := g\<rparr>) = ?a" using g by (simp add: Helper_Get_EA_def m)
    have ok: "ram_region R (s1\<lparr>gpr := g\<rparr>)" "\<not> dsi (s1\<lparr>gpr := g\<rparr>)"
      using region_state_frame [OF s1(2)] assms(2) by simp_all
    have v: "(if ?i \<le> r \<and> r < ?i + ?n then get_word s1 (?a + of_nat (4 * (r - ?i))) else gpr (s1\<lparr>gpr := g\<rparr>) r) =
        (if ?i \<le> r \<and> r < 32 then gpr s r else g r)" for r
      using s1(3) [rule_format, of "r - ?i"] rs(2) by auto
    have "lmw inst (s1\<lparr>gpr := g\<rparr>) = Inr (s1\<lparr>gpr := g\<rparr>\<lparr>gpr := \<lambda>r. if ?i \<le> r \<and> r < ?i + ?n
        then get_word (s1\<lparr>gpr := g\<rparr>) (?a + of_nat (4 * (r - ?i))) else gpr (s1\<lparr>gpr := g\<rparr>) r\<rparr>)"
      unfolding lmw_def rs(1) a by (rule lmw_from_cells [OF ok cells])
    also have "(\<lambda>r. if ?i \<le> r \<and> r < ?i + ?n
        then get_word (s1\<lparr>gpr := g\<rparr>) (?a + of_nat (4 * (r - ?i))) else gpr (s1\<lparr>gpr := g\<rparr>) r) =
        (\<lambda>r. if ?i \<le> r \<and> r < 32 then gpr s r else g r)"
      by (intro ext) (simp only: gpr_update_frame v)
    finally have "lmw inst (s1\<lparr>gpr := g\<rparr>) = Inr (s1\<lparr>gpr := \<lambda>r. if ?i \<le> r \<and> r < 32 then gpr s r else g r\<rparr>)"
      by simp
    then show ?thesis by (simp add: m)
  qed
  with st show ?thesis by blast
qed

text \<open>Registers 20 to 31, stored across a page boundary.\<close>

theorem multiple_round_trip_witness:
  "\<exists>m. lmw 0x02810010 (mapped_state\<lparr>ram := m, gpr := (\<lambda>_. 0)(1 := 0x80000FD1)\<rparr>) =
     Inr (mapped_state\<lparr>ram := m, gpr := \<lambda>r. if 20 \<le> r \<and> r < 32 then 0x80000FD0 + of_nat r
       else ((\<lambda>_. 0)(1 := 0x80000FD1)) r\<rparr>)"
proof -
  let ?s = "mapped_state\<lparr>gpr := \<lambda>r. 0x80000FD0 + of_nat r\<rparr>" and ?i = "0x02810010 :: u32"
  have i: "inst_RS ?i = 20" "inst_RA ?i = 1" "inst_SIMM_16 ?i = 0x10"
    by (simp_all add: inst_RS_def inst_RA_def inst_SIMM_16_def ifield_def)
  have ea: "Helper_Get_EA ?i ?s = 0x80000000 + of_nat 0xFE1" by (simp add: Helper_Get_EA_def i)
  have "ram_region (span 8192 0x80000000) ?s" "\<not> dsi ?s"
    using mapped_region by simp_all (simp add: dsi_def mapped_state_def ppc_zero_def)
  moreover have "span (4 * (32 - inst_RS ?i)) (Helper_Get_EA ?i ?s) \<subseteq> span 8192 0x80000000"
    unfolding ea i by (rule span_subset) simp
  moreover have "unat (Helper_Get_EA ?i ?s) + 4 * (32 - inst_RS ?i) \<le> 2 ^ 32" by (simp add: ea i)
  ultimately have "\<exists>m. stmw ?i ?s = Inr (?s\<lparr>ram := m\<rparr>) \<and>
    (\<forall>g. g (inst_RA ?i) = gpr ?s (inst_RA ?i) \<longrightarrow> lmw ?i (?s\<lparr>ram := m, gpr := g\<rparr>) =
        Inr (?s\<lparr>ram := m, gpr := \<lambda>r. if inst_RS ?i \<le> r \<and> r < 32 then gpr ?s r else g r\<rparr>))"
    by (rule multiple_round_trip)
  then obtain m where "\<And>g. g 1 = 0x80000FD1 \<Longrightarrow> lmw ?i (?s\<lparr>ram := m, gpr := g\<rparr>) =
        Inr (?s\<lparr>ram := m, gpr := \<lambda>r. if 20 \<le> r \<and> r < 32 then gpr ?s r else g r\<rparr>)"
    unfolding i by auto
  from this [of "(\<lambda>_. 0)(1 := 0x80000FD1)"]
  have "lmw ?i (?s\<lparr>ram := m, gpr := (\<lambda>_. 0)(1 := 0x80000FD1)\<rparr>) =
        Inr (?s\<lparr>ram := m, gpr := \<lambda>r. if 20 \<le> r \<and> r < 32 then gpr ?s r else ((\<lambda>_. 0)(1 := 0x80000FD1)) r\<rparr>)"
    by simp
  then show ?thesis by (intro exI [of _ m]) (simp cong: if_cong)
qed

section \<open>Reservations\<close>

lemma reserved_store:
  assumes "ram_region R s" "\<not> dsi s" "Helper_Get_EA_X inst s \<in> region_cells R 4"
    and "m_reserve s" "m_reserve_address s = Helper_Get_EA_X inst s" "xer_so_ov s < 4"
  shows "\<exists>m. stwcxd inst s =
      Inr (SetCRField 0 (2 OR ucast (GetXER_SO s)) (s\<lparr>ram := m, m_reserve := False\<rparr>))
    \<and> get_word (s\<lparr>ram := m\<rparr>) (Helper_Get_EA_X inst s) = gpr s (inst_RS inst)"
proof -
  obtain s' where s': "Write_U32 (gpr s (inst_RS inst)) (Helper_Get_EA_X inst s) s = Inr s'"
    "region_state R s s'" "get_word s' (Helper_Get_EA_X inst s) = gpr s (inst_RS inst)"
    using words.wr [OF region_state_refl [OF assms(1)] assms(3)] by blast
  obtain m where m: "s' = s\<lparr>ram := m\<rparr>" using s'(2) by (auto simp: region_state_def)
  show ?thesis
    using s' assms(2,4,5) by (intro exI [of _ m]) (simp add: stwcxd_def m dsi_def GetXER_SO_def Let_def)
qed

lemma XER_SO_cases:
  assumes "xer_so_ov s < 4"
  shows "ucast (GetXER_SO s) = (0 :: u32) \<or> ucast (GetXER_SO s) = (1 :: u32)"
proof -
  have "unat (xer_so_ov s) < 4" using assms by (simp add: word_less_nat_alt)
  then have "unat (GetXER_SO s) < 2"
    unfolding GetXER_SO_def unat_drop_bit_eq drop_bit_eq_div [where 'a = nat] by simp
  then have "unat (GetXER_SO s) = 0 \<or> unat (GetXER_SO s) = 1" by linarith
  then have "GetXER_SO s = 0 \<or> GetXER_SO s = 1" by (auto simp: word_unat_eq_iff)
  then show ?thesis by auto
qed

text \<open>The reservation protocol.  \<open>lwarx\<close> loads the word and reserves its address; a \<open>stwcx.\<close> to that
  address stores its register, sets \<open>CR0[EQ]\<close> and spends the reservation, so that the same \<open>stwcx.\<close>
  executed again stores nothing and clears \<open>CR0[EQ]\<close>.
\<close>

theorem reservation:
  assumes "ram_region R s" "\<not> dsi s" "Helper_Get_EA_X inst s \<in> region_cells R 4" "xer_so_ov s < 4"
    and "inst_RD inst \<noteq> inst_RA inst'" "inst_RD inst \<noteq> inst_RB inst'" "inst_RD inst \<noteq> inst_RS inst'"
    and "Helper_Get_EA_X inst' s = Helper_Get_EA_X inst s"
  shows "\<exists>s1 s2 s3. lwarx inst s = Inr s1 \<and> gpr s1 (inst_RD inst) = get_word s (Helper_Get_EA_X inst s)
    \<and> stwcxd inst' s1 = Inr s2 \<and> get_word s2 (Helper_Get_EA_X inst s) = gpr s (inst_RS inst')
    \<and> GetCRField 0 s2 = 2 OR ucast (GetXER_SO s)
    \<and> stwcxd inst' s2 = Inr s3 \<and> ram s3 = ram s2 \<and> GetCRField 0 s3 = ucast (GetXER_SO s)"
proof -
  let ?a = "Helper_Get_EA_X inst s"
  let ?s1 = "(set_gpr (inst_RD inst) (get_word s ?a) s)\<lparr>m_reserve := True, m_reserve_address := ?a\<rparr>"
  have lw: "lwarx inst s = Inr ?s1"
    using words.rd [OF region_state_refl [OF assms(1)] assms(3)] assms(2) by (simp add: lwarx_def Let_def)
  have ea: "Helper_Get_EA_X inst' ?s1 = ?a"
    using assms(5,6,8) by (simp add: Helper_Get_EA_X_def split: if_splits)
  have r1: "ram_region R ?s1" "\<not> dsi ?s1"
    using assms(1,2) memory_frame(3) [of ?s1 s R] by (simp_all add: dsi_def)
  obtain m where m: "stwcxd inst' ?s1 = Inr (SetCRField 0 (2 OR ucast (GetXER_SO s)) (?s1\<lparr>ram := m, m_reserve := False\<rparr>))"
    "get_word (?s1\<lparr>ram := m\<rparr>) ?a = gpr s (inst_RS inst')"
    using reserved_store [OF r1, of inst'] assms(3,4,7) by (auto simp: ea GetXER_SO_def)
  let ?s2 = "SetCRField 0 (2 OR ucast (GetXER_SO s)) (?s1\<lparr>ram := m, m_reserve := False\<rparr>)"
  have w: "get_word ?s2 ?a = gpr s (inst_RS inst')"
    using m(2) memory_frame(1) [of ?s2 "?s1\<lparr>ram := m\<rparr>"] by (simp add: SetCRField_def)
  have st: "stwcxd inst' ?s2 = Inr (SetCRField 0 (ucast (GetXER_SO s)) ?s2)"
    by (simp add: stwcxd_def SetCRField_def GetXER_SO_def Let_def)
  have so: "ucast (GetXER_SO s) < (16 :: u32)" "2 OR ucast (GetXER_SO s) < (16 :: u32)"
    using XER_SO_cases [OF assms(4)] by auto
  let ?s3 = "SetCRField 0 (ucast (GetXER_SO s)) ?s2"
  have "gpr ?s1 (inst_RD inst) = get_word s ?a" "ram ?s3 = ram ?s2"
    by (simp_all add: SetCRField_def)
  moreover have "GetCRField 0 ?s2 = 2 OR ucast (GetXER_SO s)" "GetCRField 0 ?s3 = ucast (GetXER_SO s)"
    using so by (simp_all add: GetCRField_SetCRField)
  ultimately show ?thesis using lw m(1) w st by blast
qed

theorem reservation_witness:
  "\<exists>s1 s2. lwarx 0x00602000 (mapped_state\<lparr>gpr := (\<lambda>_. 7)(4 := 0x80000100)\<rparr>) = Inr s1
    \<and> stwcxd 0x00A02000 s1 = Inr s2 \<and> get_word s2 0x80000100 = 7 \<and> GetCRField 0 s2 = 2"
proof -
  let ?s = "mapped_state\<lparr>gpr := (\<lambda>_. 7)(4 := 0x80000100)\<rparr>"
  have i: "inst_RD 0x00602000 = 3" "inst_RA 0x00602000 = 0" "inst_RB 0x00602000 = 4" "inst_RS 0x00A02000 = 5"
    "inst_RA 0x00A02000 = 0" "inst_RB 0x00A02000 = 4"
    by (simp_all add: inst_RD_def inst_RS_def inst_RA_def inst_RB_def ifield_def)
  have ea: "Helper_Get_EA_X 0x00602000 ?s = 0x80000000 + of_nat 0x100" "Helper_Get_EA_X 0x00A02000 ?s = 0x80000000 + of_nat 0x100"
    by (simp_all add: Helper_Get_EA_X_def i)
  have "span 4 (0x80000000 + of_nat 0x100) \<subseteq> span 8192 0x80000000" by (rule span_subset) simp
  then have c: "Helper_Get_EA_X 0x00602000 ?s \<in> region_cells (span 8192 0x80000000) 4"
    unfolding ea by (simp add: region_cells_def)
  have "ram_region (span 8192 0x80000000) ?s" using mapped_region by simp
  moreover have "\<not> dsi ?s" "xer_so_ov ?s < 4" and so: "GetXER_SO ?s = 0"
    by (simp_all add: dsi_def mapped_state_def ppc_zero_def GetXER_SO_def)
  moreover have "inst_RD 0x00602000 \<noteq> inst_RA 0x00A02000" "inst_RD 0x00602000 \<noteq> inst_RB 0x00A02000"
    "inst_RD 0x00602000 \<noteq> inst_RS 0x00A02000" "Helper_Get_EA_X 0x00A02000 ?s = Helper_Get_EA_X 0x00602000 ?s"
    by (simp_all add: i ea)
  moreover have "gpr ?s (inst_RS 0x00A02000) = 7" "0x80000000 + of_nat 0x100 = (0x80000100 :: u32)"
    "2 OR ucast (0 :: u8) = (2 :: u32)" by (simp_all add: i)
  ultimately show ?thesis
    using reservation [of "span 8192 0x80000000" ?s "0x00602000" "0x00A02000"] c unfolding ea so by metis
qed

end
