(* ===== verification/PPC_Floats.thy ===== *)
theory PPC_Floats
  imports PPC_LoadStore
begin

text \<open>
  The conversions between the formats of the floating-point loads and stores: a single loaded into a
  register and stored again is the same word, subnormals and NaNs included.
\<close>

section \<open>Bits of the formats\<close>

lemma mask_literals:
  "(0x3fffffff :: u64) = mask 30" "(0x007fffff :: u64) = mask 23" "(0xff :: u64) = mask 8"
  "(0x7ff :: u64) = mask 11" "(0x000FFFFFFFFFFFFF :: u64) = mask 52"
  "(0xc0000000 :: u64) = push_bit 30 (mask 2)" "(0x80000000 :: u64) = push_bit 31 1"
  "(0x8000000000000000 :: u64) = push_bit 63 1"
  by (simp_all add: mask_eq_exp_minus_1 push_bit_eq_mult)

lemma bit_and_top_two: "bit ((x :: u64) AND 0xc0000000) n \<longleftrightarrow> (n = 30 \<or> n = 31) \<and> bit x n"
  unfolding mask_literals by (auto simp: bit_and_iff bit_push_bit_iff bit_mask_iff)

lemma bit_and_sign: "bit ((x :: u64) AND 0x80000000) n \<longleftrightarrow> n = 31 \<and> bit x n"
  unfolding mask_literals bit_and_iff bit_push_bit_iff bit_1_iff by auto

lemma bit_and_low:
  "bit ((x :: u64) AND 0x3fffffff) n \<longleftrightarrow> n < 30 \<and> bit x n"
  "bit (x AND 0x007fffff) n \<longleftrightarrow> n < 23 \<and> bit x n"
  "bit (x AND 0x000FFFFFFFFFFFFF) n \<longleftrightarrow> n < 52 \<and> bit x n"
  "bit (x AND 0x7ff) n \<longleftrightarrow> n < 11 \<and> bit x n"
  "bit (x AND 0xff) n \<longleftrightarrow> n < 8 \<and> bit x n"
  unfolding mask_literals by (auto simp: bit_and_iff bit_mask_iff)

lemmas format_bits = bit_and_top_two bit_and_sign bit_and_low bit_or_iff bit_push_bit_iff bit_drop_bit_eq
  bit_unsigned_iff

text \<open>The two parts \<open>ConvertToSingle\<close> takes of a double in the range of normal singles.\<close>

definition cut_single :: "u64 \<Rightarrow> u32" where
  "cut_single w = ucast ((drop_bit 32 w AND 0xc0000000) OR (drop_bit 29 w AND 0x3fffffff))"

lemma bit_cut_single: "n < 32 \<Longrightarrow> bit (cut_single w) n \<longleftrightarrow> bit w (if n < 30 then n + 29 else n + 32)"
  unfolding cut_single_def format_bits by (auto simp: add.commute)

text \<open>The double \<open>ConvertToDouble\<close> makes of a single with exponent bits 7 to 9 all equal to \<open>y\<close>.\<close>

definition widened :: "u32 \<Rightarrow> bool \<Rightarrow> u64" where
  "widened x y = push_bit 32 (ucast x AND 0xc0000000)
     OR (push_bit 61 (of_bool y) OR push_bit 60 (of_bool y) OR push_bit 59 (of_bool y))
     OR push_bit 29 (ucast x AND 0x3fffffff)"

lemma bit_widened:
  "bit (widened x y) n \<longleftrightarrow> (if n < 29 then False else if n < 59 then bit x (n - 29)
     else if n < 62 then y else n < 64 \<and> bit x (n - 32))"
  unfolding widened_def format_bits bit_of_bool_iff by (auto dest: bit_imp_le_length)

lemma cut_widened: "cut_single (widened x y) = x"
  by (rule bit_word_eqI) (auto simp: bit_cut_single bit_widened)


section \<open>Exponents\<close>

definition exponent :: "u64 \<Rightarrow> u32" where
  "exponent w = ucast (drop_bit 52 w AND 0x7ff)"

lemma bit_exponent: "bit (exponent w) n \<longleftrightarrow> n < 11 \<and> bit w (n + 52)"
  unfolding exponent_def format_bits by (auto simp: add.commute)

lemma three_low_bits: "odd (q div 4) \<Longrightarrow> odd (q div 2) \<Longrightarrow> odd q \<Longrightarrow> 7 \<le> (q :: nat)"
  by presburger

lemma large_exponent:
  assumes "bit w 62 \<or> bit w 61 \<and> bit w 60 \<and> bit w 59 \<and> (\<exists>n<7. bit w (n + 52))"
  shows "896 < exponent w"
proof -
  let ?e = "unat (exponent w)"
  have b: "odd (?e div 2 ^ n) \<longleftrightarrow> n < 11 \<and> bit w (n + 52)" for n
  proof -
    have "odd (?e div 2 ^ n) \<longleftrightarrow> bit ?e n" by (rule bit_iff_odd [symmetric])
    also have "\<dots> \<longleftrightarrow> bit (exponent w) n"
      using bit_unsigned_iff [of "exponent w" n, where 'a = nat] by simp
    also have "\<dots> \<longleftrightarrow> n < 11 \<and> bit w (n + 52)" by (rule bit_exponent)
    finally show ?thesis .
  qed
  have "896 < ?e"
  proof (cases "bit w 62")
    case True
    then have "odd (?e div 2 ^ 10)" unfolding b by simp
    then have "?e div 1024 \<noteq> 0" using odd_pos [of "?e div 2 ^ 10"] by simp
    then show ?thesis by (simp add: div_eq_0_iff)
  next
    case False
    then have "bit w (9 + 52)" "bit w (8 + 52)" "bit w (7 + 52)" using assms by simp_all
    then have "odd (?e div 2 ^ 9)" "odd (?e div 2 ^ 8)" "odd (?e div 2 ^ 7)" unfolding b by simp_all
    moreover obtain n where n: "n < 7" "bit w (n + 52)" using assms False by auto
    moreover have "odd (?e div 2 ^ n)" using n unfolding b by simp
    moreover have "896 \<le> e" if "odd (e div 2 ^ 9)" "odd (e div 2 ^ 8)" "odd (e div 2 ^ 7)" for e :: nat
    proof -
      have "e div 512 = e div 128 div 4" "e div 256 = e div 128 div 2" by (simp_all flip: div_mult2_eq)
      then have "odd (e div 128 div 4)" "odd (e div 128 div 2)" "odd (e div 128)" using that by simp_all
      then have "7 \<le> e div 128" by (rule three_low_bits)
      then show ?thesis by simp
    qed
    moreover have "even ((896 :: nat) div 2 ^ n)" if "n < 7" for n :: nat
    proof -
      have "n \<in> {0, 1, 2, 3, 4, 5, 6}" using that by auto
      then show ?thesis by auto
    qed
    ultimately have "896 \<le> ?e" "?e \<noteq> 896" by (blast, metis)
    then show ?thesis by simp
  qed
  then show ?thesis by (simp add: word_less_nat_alt)
qed

section \<open>Subnormal numbers\<close>

lemma bit_23_test: "(f :: u64) AND 0x00800000 = 0 \<longleftrightarrow> \<not> bit f 23"
proof -
  have "(0x00800000 :: u64) = 2 ^ 23" by simp
  then show ?thesis by (metis and_exp_eq_0_iff_not_bit)
qed

text \<open>The loop shifts until the top bit, at \<open>23 - k\<close>, has come to bit 23.\<close>

lemma normalize_top:
  assumes "bit f (23 - k)" "\<And>j. bit f j \<Longrightarrow> j \<le> 23 - k" "0 < k" "k \<le> n" "k \<le> 23"
  shows "normalize_from n f e = (push_bit k f, e - of_nat k)"
  using assms
proof (induction n arbitrary: k f e)
  case (Suc n)
  define g where "g = push_bit 1 f"
  have b: "bit g j \<longleftrightarrow> 0 < j \<and> j < 64 \<and> bit f (j - 1)" for j
    unfolding g_def bit_push_bit_iff by auto
  have step: "normalize_from (Suc n) f e =
      (if \<not> bit g 23 then normalize_from n g (e - 1) else (g, e - 1))"
    unfolding normalize_from.simps Let_def g_def bit_23_test by (rule refl)
  show ?case
  proof (cases "k = 1")
    case True
    then show ?thesis using Suc.prems(1) unfolding step by (simp add: b) (simp add: g_def)
  next
    case False
    then have "\<not> bit g 23" using Suc.prems(2) [of 22] Suc.prems(3) by (auto simp: b)
    moreover have "normalize_from n g (e - 1) = (push_bit (k - 1) g, e - 1 - of_nat (k - 1))"
    proof (rule Suc.IH)
      have "23 - (k - 1) - 1 = 23 - k" using Suc.prems(3) by simp
      then show "bit g (23 - (k - 1))"
        using Suc.prems(1,3,5) unfolding b by simp
      show "j \<le> 23 - (k - 1)" if "bit g j" for j
        using that Suc.prems(2) [of "j - 1"] Suc.prems(3,5) by (auto simp: b)
    qed (use Suc.prems(3-5) False in auto)
    moreover have "push_bit (k - 1) g = push_bit k f"
      using Suc.prems(3) unfolding g_def push_bit_push_bit by simp
    moreover have "e - 1 - of_nat (k - 1) = e - of_nat k"
      using Suc.prems(3) by (simp add: of_nat_diff)
    ultimately show ?thesis unfolding step by simp
  qed
qed simp


lemma ConvertToSingle_cut:
  assumes "896 < exponent w \<or> w AND NOT 0x8000000000000000 = 0"
  shows "ConvertToSingle w = cut_single w"
  using assms unfolding ConvertToSingle_def exponent_def cut_single_def Let_def by auto

text \<open>The double of a subnormal single with fraction \<open>f\<close> whose top bit is at \<open>23 - k\<close>.\<close>

definition normalized :: "u32 \<Rightarrow> u64 \<Rightarrow> nat \<Rightarrow> u64" where
  "normalized x f k = push_bit 32 (ucast x AND 0x80000000) OR push_bit 52 (897 - of_nat k)
     OR push_bit 29 (push_bit k f AND 0x007fffff)"

lemma exp_of_nat: "k \<le> 23 \<Longrightarrow> 897 - of_nat k = (of_nat (897 - k) :: 'a :: len word)"
  by (simp add: of_nat_diff)

lemma bit_exp_value:
  assumes "0 < k" "k \<le> 23"
  shows "bit (897 - of_nat k :: u64) n \<Longrightarrow> n < 10"
proof -
  have "897 - of_nat k = (of_nat (897 - k) :: u64)" using assms by (simp add: of_nat_diff)
  moreover have "bit (897 - k) n \<Longrightarrow> n < 10"
  proof (rule ccontr)
    assume b: "bit (897 - k) n" "\<not> n < 10"
    then have "(2 :: nat) ^ 10 \<le> 2 ^ n" by (intro power_increasing) simp_all
    then have "(897 - k) div 2 ^ n = 0" using assms by (intro div_less) simp
    then show False using b by (simp add: bit_iff_odd)
  qed
  ultimately show "bit (897 - of_nat k :: u64) n \<Longrightarrow> n < 10" by (simp add: bit_of_nat_iff)
qed

lemma bit_normalized:
  assumes "0 < k" "k \<le> 23"
  shows "bit (normalized x f k) n \<longleftrightarrow>
    (if n < 29 then False else if n < 52 then bit (push_bit k f) (n - 29)
     else if n < 62 then bit (897 - of_nat k :: u64) (n - 52) else n = 63 \<and> bit x 31)"
  unfolding normalized_def bit_or_iff bit_push_bit_iff [of 32] bit_push_bit_iff [of 52] bit_push_bit_iff [of 29]
    bit_and_sign bit_and_low
  using bit_exp_value [OF assms, of "n - 52"] by (auto simp: bit_unsigned_iff)

lemma exponent_normalized:
  assumes "0 < k" "k \<le> 23"
  shows "exponent (normalized x f k) = 897 - of_nat k"
proof (rule bit_word_eqI)
  fix n
  assume "n < LENGTH(32)"
  then have same: "bit (897 - of_nat k :: u32) n \<longleftrightarrow> bit (897 - of_nat k :: u64) n"
    unfolding exp_of_nat [OF assms(2)] by (simp add: bit_of_nat_iff)
  then show "bit (exponent (normalized x f k)) n = bit (897 - of_nat k :: u32) n"
    unfolding bit_exponent bit_normalized [OF assms] same
    using bit_exp_value [OF assms, of n] by auto
qed


lemma ConvertToSingle_normalized:
  assumes k: "0 < k" "k \<le> 23" and top: "bit f (23 - k)" "\<And>j. bit f j \<Longrightarrow> j \<le> 23 - k"
    and x: "\<And>j. j < 31 \<Longrightarrow> bit x j = bit f j"
  shows "ConvertToSingle (normalized x f k) = x"
proof -
  let ?w = "normalized x f k"
  have e: "exponent ?w = of_nat (897 - k)" using exponent_normalized [OF k] exp_of_nat [OF k(2)] by simp
  then have ue: "unat (exponent ?w) = 897 - k" unfolding e unat_of_nat using k by simp
  have lo: "\<not> 896 < exponent ?w" "874 \<le> exponent ?w" "unat (905 - exponent ?w) = 8 + k"
    using k ue by (simp_all add: word_less_nat_alt word_le_nat_alt unat_sub)
  have nz: "?w AND NOT 0x8000000000000000 \<noteq> 0"
  proof
    assume z: "?w AND NOT 0x8000000000000000 = 0"
    have "exponent ?w = exponent (?w AND NOT 0x8000000000000000)"
      unfolding mask_literals
    proof (rule bit_word_eqI)
      fix n
      show "bit (exponent ?w) n = bit (exponent (?w AND NOT (push_bit 63 1))) n"
        unfolding bit_exponent bit_and_iff bit_not_iff bit_push_bit_iff bit_1_iff by auto
    qed
    then show False using ue k unfolding z by (simp add: exponent_def)
  qed
  define t where "t = (ucast (0x80000000 OR drop_bit 21 (?w AND 0x000FFFFFFFFFFFFF)) :: u32)"
  have t: "bit t j \<longleftrightarrow> j < 32 \<and> (j = 31 \<or> 8 \<le> j \<and> bit (push_bit k f) (j - 8))" for j
    unfolding t_def bit_unsigned_iff bit_or_iff mask_literals(7) bit_drop_bit_eq bit_and_low
      bit_push_bit_iff [of 31] bit_1_iff bit_normalized [OF k]
    by (auto simp: bit_push_bit_iff)
  have hi: "k + j \<le> 23" if "bit f j" for j using top(2) [OF that] k by simp
  have low_end: "bit f j" if "k + j = 23" for j using top(1) that by (metis diff_add_inverse)
  have "ConvertToSingle ?w = drop_bit (8 + k) t OR ucast (drop_bit 32 ?w AND 0x80000000)"
    unfolding ConvertToSingle_def Let_def exponent_def [symmetric] t_def [symmetric] using lo nz by simp
  also have "\<dots> = x"
  proof (rule bit_word_eqI)
    fix n assume n: "n < LENGTH(32)"
    have "bit (drop_bit (8 + k) t) n \<longleftrightarrow> bit f n \<and> n < 31"
      unfolding bit_drop_bit_eq t bit_push_bit_iff using hi [of n] low_end [of n] by auto
    moreover have "bit (ucast (drop_bit 32 ?w AND 0x80000000) :: u32) n \<longleftrightarrow> n = 31 \<and> bit x 31"
      unfolding bit_unsigned_iff bit_and_sign bit_drop_bit_eq bit_normalized [OF k] using n by auto
    ultimately show "bit (drop_bit (8 + k) t OR ucast (drop_bit 32 ?w AND 0x80000000)) n = bit x n"
      unfolding bit_or_iff using n x by (cases "n = 31") auto
  qed
  finally show ?thesis .
qed


lemma top_bit:
  assumes "f \<noteq> (0 :: u64)" "\<And>j. bit f j \<Longrightarrow> j < 23"
  obtains k where "0 < k" "k \<le> 23" "bit f (23 - k)" "\<And>j. bit f j \<Longrightarrow> j \<le> 23 - k"
proof -
  obtain i where "bit f i" using assms(1) by (auto simp: bit_eq_iff)
  then have b: "bit f (Max {j. bit f j})" "\<And>j. bit f j \<Longrightarrow> j \<le> Max {j. bit f j}"
    using finite_subset [of "{j. bit f j}" "{..<23}"] assms(2) Max_in [of "{j. bit f j}"] Max_ge by auto
  then have "Max {j. bit f j} < 23" using assms(2) by blast
  then show ?thesis using b that [of "23 - Max {j. bit f j}"] by simp
qed

text \<open>C22: the formats of the floating-point loads and stores are inverse.  Every single, subnormals,
  infinities and NaNs included, is converted to a double that is converted back to the same word.\<close>

theorem single_round_trip:
  "ConvertToSingle (ConvertToDouble x) = x"
proof -
  define X where "X = (ucast x :: u64)"
  define e where "e = drop_bit 23 X AND 0xff"
  have e: "bit e j \<longleftrightarrow> j < 8 \<and> bit x (j + 23)" for j
    unfolding e_def X_def bit_and_low by (auto simp: bit_drop_bit_eq bit_unsigned_iff add.commute)
  have f: "bit (X AND 0x007fffff) j \<longleftrightarrow> j < 23 \<and> bit x j" for j
    unfolding X_def bit_and_low by (auto simp: bit_unsigned_iff)
  have wide: "ConvertToSingle (widened x y) = x"
    if "896 < exponent (widened x y) \<or> widened x y AND NOT 0x8000000000000000 = 0" for y
    using ConvertToSingle_cut [OF that] cut_widened by simp
  have e8: "drop_bit 7 e = of_bool (bit x 30)"
    unfolding bit_eq_iff [of "drop_bit 7 e"] by (auto simp: bit_drop_bit_eq e bit_of_bool_iff)
  have d: "ConvertToDouble x =
    (if e > 0 \<and> e < 255 then widened x (\<not> bit x 30)
     else if e = 0 \<and> X AND 0x007fffff \<noteq> 0 then
       (let (frac, exp) = normalize_from 23 (X AND 0x007fffff) (1023 - 126)
        in push_bit 32 (X AND 0x80000000) OR push_bit 52 exp OR push_bit 29 (frac AND 0x007fffff))
     else widened x (bit x 30))"
    unfolding ConvertToDouble_def Let_def X_def [symmetric] e_def [symmetric] e8 widened_def
    by (simp add: of_bool_def)
  consider (normal) "e > 0 \<and> e < 255" | (zero) "e = 0" "X AND 0x007fffff = 0"
    | (subnormal) "e = 0" "X AND 0x007fffff \<noteq> 0" | (special) "\<not> e < 255"
    using word_neq_0_conv [of e] by blast
  then show ?thesis
  proof cases
    case normal
    have "e \<noteq> 0" using normal by auto
    then obtain j where j: "bit e j" unfolding bit_eq_iff [of e 0] by auto
    then have "bit x 30 \<or> j < 7 \<and> bit x (j + 23)" using e [of j] by (cases "j = 7") auto
    then have "bit (widened x (\<not> bit x 30)) 62 \<or> \<not> bit x 30 \<and> j < 7 \<and> bit (widened x (\<not> bit x 30)) (j + 52)"
      unfolding bit_widened by (auto simp: add.commute)
    then have "896 < exponent (widened x (\<not> bit x 30))"
      by (intro large_exponent) (force simp: bit_widened [of x _ 59] bit_widened [of x _ 60] bit_widened [of x _ 61])
    then show ?thesis using normal wide unfolding d by simp
  next
    case zero
    then have no: "\<not> bit x j" if "j < 31" for j
      using that f [of j] e [of "j - 23"] by (cases "j < 23") auto
    have none: "\<not> bit (widened x False) n" if "n \<noteq> 63" for n
      using that no [of "n - 29"] no [of "n - 32"] by (auto simp: bit_widened)
    have "widened x False AND NOT (push_bit 63 1) = 0"
    proof (rule bit_word_eqI)
      fix n
      show "bit (widened x False AND NOT (push_bit 63 1)) n = bit 0 n"
        using none [of n] unfolding bit_and_iff bit_not_iff bit_push_bit_iff bit_1_iff by (cases "n = 63") auto
    qed
    then show ?thesis using zero wide [of False] no [of 30] unfolding d mask_literals by simp
  next
    case subnormal
    have low: "bit (X AND 0x007fffff) j \<Longrightarrow> j < 23" for j using f by blast
    obtain k where k: "0 < k" "k \<le> 23" "bit (X AND 0x007fffff) (23 - k)"
      "\<And>j. bit (X AND 0x007fffff) j \<Longrightarrow> j \<le> 23 - k"
      using top_bit [OF subnormal(2) low] by metis
    have "bit x j = bit (X AND 0x007fffff) j" if "j < 31" for j
      using that f [of j] e [of "j - 23"] subnormal(1) by (cases "j < 23") auto
    moreover have "ConvertToDouble x = normalized x (X AND 0x007fffff) k"
      using subnormal normalize_top [OF k(3,4,1,2,2), of 897] unfolding d by (simp add: normalized_def X_def)
    ultimately show ?thesis using ConvertToSingle_normalized [OF k] by simp
  next
    case special
    have "e \<le> 255"
      unfolding e_def by (simp add: word_and_le1)
    then have "e = mask 8" using special by (simp add: mask_eq_exp_minus_1)
    then have "bit e 7" by (simp add: bit_mask_iff)
    then have "bit x 30" by (simp add: e)
    then have "896 < exponent (widened x True)" by (intro large_exponent) (simp add: bit_widened)
    then show ?thesis using special wide [of True] \<open>bit x 30\<close> \<open>e = mask 8\<close> unfolding d
      by (simp add: mask_eq_exp_minus_1)
  qed
qed

end
