(* ===== verification/Common_Float.thy ===== *)
theory Common_Float
  imports DSP_Prelude
begin

text \<open>
  The binary floating-point arithmetic of C++ on a host that follows IEEE 754, on the bit patterns
  of \<open>double\<close> and \<open>float\<close>.  A finite value is a sign and a magnitude \<open>m * 2 ^ q\<close>; an operation computes
  the exact result as a fraction and rounds it once.  Rounding modes are numbered as in the field
  \<open>FPSCR.RN\<close>: to nearest even, to zero, up, down.  With \<open>ftz\<close> the host flushes subnormal results to
  zero (\<open>Common/x64FPURoundMode.cpp\<close>).
\<close>

section \<open>Formats\<close>

text \<open>A format is named by its precision: 53 for \<open>double\<close>, 24 for \<open>float\<close>.\<close>

definition emin :: "nat \<Rightarrow> int" where "emin p = (if p = 53 then - 1074 else - 149)"

definition inf_mag :: "nat \<Rightarrow> nat" where
  "inf_mag p = (if p = 53 then 0x7ff0000000000000 else 0x7f800000)"

text \<open>The magnitude a bit pattern without its sign stands for: \<open>(m, q)\<close> is \<open>m * 2 ^ q\<close>.\<close>

definition magnitude :: "nat \<Rightarrow> nat \<Rightarrow> nat \<times> int" where
  "magnitude p mag =
     (let e = mag div 2 ^ (p - 1); f = mag mod 2 ^ (p - 1)
      in if e = 0 then (f, emin p) else (f + 2 ^ (p - 1), emin p + int e - 1))"

section \<open>Rounding\<close>

fun bitlen :: "nat \<Rightarrow> nat" where
  "bitlen n = (if n = 0 then 0 else Suc (bitlen (n div 2)))"

declare bitlen.simps [simp del]

text \<open>The exponent of the leading bit of \<open>n / d\<close>.\<close>

definition log2_floor :: "nat \<Rightarrow> nat \<Rightarrow> int" where
  "log2_floor n d =
     (let l = int (bitlen n) - int (bitlen d)
      in if d * 2 ^ nat l \<le> n * 2 ^ nat (- l) then l else l - 1)"

definition round_up :: "nat \<Rightarrow> bool \<Rightarrow> nat \<Rightarrow> nat \<Rightarrow> nat \<Rightarrow> bool" where
  "round_up mode sign m r d =
     (if mode = 0 then d < 2 * r \<or> 2 * r = d \<and> odd m
      else if mode = 1 then False
      else if mode = 2 then 0 < r \<and> \<not> sign
      else 0 < r \<and> sign)"

text \<open>
  The bit pattern of \<open>n / d * 2 ^ q\<close> rounded: \<open>u\<close> is the exponent of the last bit kept.  A carry out of
  the fraction runs into the exponent field, as it should.
\<close>

definition round_mag :: "nat \<Rightarrow> nat \<Rightarrow> bool \<Rightarrow> bool \<Rightarrow> nat \<Rightarrow> nat \<Rightarrow> int \<Rightarrow> nat" where
  "round_mag p mode ftz sign n d q =
     (if n = 0 then 0
      else let u = max (log2_floor n d + q - int p + 1) (emin p);
               num = n * 2 ^ nat (q - u);
               den = d * 2 ^ nat (u - q);
               m = num div den;
               mag = nat (u - emin p) * 2 ^ (p - 1) + m + of_bool (round_up mode sign m (num mod den) den)
           in if inf_mag p \<le> mag
              then (if mode = 0 \<or> mode = 2 \<and> \<not> sign \<or> mode = 3 \<and> sign then inf_mag p else inf_mag p - 1)
              else if ftz \<and> mag < 2 ^ (p - 1) then 0 else mag)"

section \<open>Double precision\<close>

definition f64_neg :: "u64 \<Rightarrow> bool" where "f64_neg x \<longleftrightarrow> bit x 63"
definition f64_mag :: "u64 \<Rightarrow> nat" where "f64_mag x = unat (take_bit 63 x)"
definition f64_pack :: "bool \<Rightarrow> nat \<Rightarrow> u64" where
  "f64_pack s mag = of_nat mag OR push_bit 63 (of_bool s)"

definition f64_isnan :: "u64 \<Rightarrow> bool" where "f64_isnan x \<longleftrightarrow> inf_mag 53 < f64_mag x"
definition f64_isinf :: "u64 \<Rightarrow> bool" where "f64_isinf x \<longleftrightarrow> f64_mag x = inf_mag 53"

definition f64_quiet :: "u64 \<Rightarrow> u64" where "f64_quiet x = x OR 0x0008000000000000"

text \<open>The NaN of an invalid operation.\<close>

definition f64_invalid :: u64 where "f64_invalid = 0xFFF8000000000000"

definition f64_mul :: "nat \<Rightarrow> bool \<Rightarrow> u64 \<Rightarrow> u64 \<Rightarrow> u64" where
  "f64_mul mode ftz a b =
     (let s = (f64_neg a \<noteq> f64_neg b);
          (m, q) = magnitude 53 (f64_mag a);
          (n, r) = magnitude 53 (f64_mag b)
      in if f64_isnan a then f64_quiet a
         else if f64_isnan b then f64_quiet b
         else if f64_isinf a \<or> f64_isinf b
         then (if f64_mag a = 0 \<or> f64_mag b = 0 then f64_invalid else f64_pack s (inf_mag 53))
         else f64_pack s (round_mag 53 mode ftz s (m * n) 1 (q + r)))"

definition f64_div :: "nat \<Rightarrow> bool \<Rightarrow> u64 \<Rightarrow> u64 \<Rightarrow> u64" where
  "f64_div mode ftz a b =
     (let s = (f64_neg a \<noteq> f64_neg b);
          (m, q) = magnitude 53 (f64_mag a);
          (n, r) = magnitude 53 (f64_mag b)
      in if f64_isnan a then f64_quiet a
         else if f64_isnan b then f64_quiet b
         else if f64_isinf a then (if f64_isinf b then f64_invalid else f64_pack s (inf_mag 53))
         else if f64_isinf b then f64_pack s 0
         else if f64_mag b = 0
         then (if f64_mag a = 0 then f64_invalid else f64_pack s (inf_mag 53))
         else f64_pack s (round_mag 53 mode ftz s m n (q - r)))"

text \<open>The exact sum of two signed magnitudes, in units of the smaller of their last bits.\<close>

definition exact_sum :: "bool \<Rightarrow> nat \<times> int \<Rightarrow> bool \<Rightarrow> nat \<times> int \<Rightarrow> int \<times> int" where
  "exact_sum s x t y =
     (case (x, y) of ((m, q), (n, r)) \<Rightarrow>
        (let k = min q r
         in ((if s then - 1 else 1) * int (m * 2 ^ nat (q - k))
             + (if t then - 1 else 1) * int (n * 2 ^ nat (r - k)), k)))"

definition f64_add :: "nat \<Rightarrow> bool \<Rightarrow> u64 \<Rightarrow> u64 \<Rightarrow> u64" where
  "f64_add mode ftz a b =
     (let (z, k) = exact_sum (f64_neg a) (magnitude 53 (f64_mag a)) (f64_neg b) (magnitude 53 (f64_mag b))
      in if f64_isnan a then f64_quiet a
         else if f64_isnan b then f64_quiet b
         else if f64_isinf a \<and> f64_isinf b then (if f64_neg a = f64_neg b then a else f64_invalid)
         else if f64_isinf a then a
         else if f64_isinf b then b
         else if z = 0 then f64_pack (if f64_neg a = f64_neg b then f64_neg a else mode = 3) 0
         else f64_pack (z < 0) (round_mag 53 mode ftz (z < 0) (nat \<bar>z\<bar>) 1 k))"

definition f64_negate :: "u64 \<Rightarrow> u64" where "f64_negate x = x XOR push_bit 63 1"

definition f64_sub :: "nat \<Rightarrow> bool \<Rightarrow> u64 \<Rightarrow> u64 \<Rightarrow> u64" where
  "f64_sub mode ftz a b = f64_add mode ftz a (if f64_isnan b then b else f64_negate b)"

text \<open>The order of the values; a NaN stands in no order.\<close>

definition f64_key :: "u64 \<Rightarrow> int" where
  "f64_key x = (if f64_neg x then - int (f64_mag x) else int (f64_mag x))"

definition f64_less :: "u64 \<Rightarrow> u64 \<Rightarrow> bool" where
  "f64_less a b \<longleftrightarrow> \<not> f64_isnan a \<and> \<not> f64_isnan b \<and> f64_key a < f64_key b"

definition f64_eq :: "u64 \<Rightarrow> u64 \<Rightarrow> bool" where
  "f64_eq a b \<longleftrightarrow> \<not> f64_isnan a \<and> \<not> f64_isnan b \<and> f64_key a = f64_key b"

definition f64_abs :: "u64 \<Rightarrow> u64" where "f64_abs x = take_bit 63 x"

section \<open>Single precision and conversions\<close>

definition f32_neg :: "u32 \<Rightarrow> bool" where "f32_neg x \<longleftrightarrow> bit x 31"
definition f32_mag :: "u32 \<Rightarrow> nat" where "f32_mag x = unat (take_bit 31 x)"
definition f32_pack :: "bool \<Rightarrow> nat \<Rightarrow> u32" where
  "f32_pack s mag = of_nat mag OR push_bit 31 (of_bool s)"

definition f32_isnan :: "u32 \<Rightarrow> bool" where "f32_isnan x \<longleftrightarrow> inf_mag 24 < f32_mag x"
definition f32_isinf :: "u32 \<Rightarrow> bool" where "f32_isinf x \<longleftrightarrow> f32_mag x = inf_mag 24"
definition f32_invalid :: u32 where "f32_invalid = 0xFFC00000"

definition f32_mul :: "nat \<Rightarrow> bool \<Rightarrow> u32 \<Rightarrow> u32 \<Rightarrow> u32" where
  "f32_mul mode ftz a b =
     (let s = (f32_neg a \<noteq> f32_neg b);
          (m, q) = magnitude 24 (f32_mag a);
          (n, r) = magnitude 24 (f32_mag b)
      in if f32_isnan a then a OR 0x00400000
         else if f32_isnan b then b OR 0x00400000
         else if f32_isinf a \<or> f32_isinf b
         then (if f32_mag a = 0 \<or> f32_mag b = 0 then f32_invalid else f32_pack s (inf_mag 24))
         else f32_pack s (round_mag 24 mode ftz s (m * n) 1 (q + r)))"

definition f32_key :: "u32 \<Rightarrow> int" where
  "f32_key x = (if f32_neg x then - int (f32_mag x) else int (f32_mag x))"

definition f32_less :: "u32 \<Rightarrow> u32 \<Rightarrow> bool" where
  "f32_less a b \<longleftrightarrow> \<not> f32_isnan a \<and> \<not> f32_isnan b \<and> f32_key a < f32_key b"

text \<open>\<open>(float)x\<close> and \<open>(double)y\<close>: a NaN keeps what fits of its fraction and becomes quiet.\<close>

definition f64_to_f32 :: "nat \<Rightarrow> bool \<Rightarrow> u64 \<Rightarrow> u32" where
  "f64_to_f32 mode ftz x =
     (let s = f64_neg x; (m, q) = magnitude 53 (f64_mag x)
      in if f64_isnan x then f32_pack s 0x7fc00000 OR ucast (take_bit 22 (drop_bit 29 x))
         else if f64_isinf x then f32_pack s (inf_mag 24)
         else f32_pack s (round_mag 24 mode ftz s m 1 q))"

definition f32_to_f64 :: "u32 \<Rightarrow> u64" where
  "f32_to_f64 y =
     (let s = f32_neg y; (m, q) = magnitude 24 (f32_mag y)
      in if f32_isnan y then f64_pack s 0x7ff8000000000000 OR push_bit 29 (take_bit 22 (ucast y))
         else if f32_isinf y then f64_pack s (inf_mag 53)
         else f64_pack s (round_mag 53 0 False s m 1 q))"

definition f64_of_int :: "nat \<Rightarrow> int \<Rightarrow> u64" where
  "f64_of_int mode i = f64_pack (i < 0) (round_mag 53 mode False (i < 0) (nat \<bar>i\<bar>) 1 0)"

definition f32_of_int :: "nat \<Rightarrow> int \<Rightarrow> u32" where
  "f32_of_int mode i = f32_pack (i < 0) (round_mag 24 mode False (i < 0) (nat \<bar>i\<bar>) 1 0)"

text \<open>The value rounded to zero, of a finite number.\<close>

definition truncate :: "bool \<Rightarrow> nat \<times> int \<Rightarrow> int" where
  "truncate s x = (case x of (m, q) \<Rightarrow>
     (if s then - 1 else 1) * int (if 0 \<le> q then m * 2 ^ nat q else m div 2 ^ nat (- q)))"

definition f64_trunc :: "u64 \<Rightarrow> int" where
  "f64_trunc x = truncate (f64_neg x) (magnitude 53 (f64_mag x))"

definition f32_trunc :: "u32 \<Rightarrow> int" where
  "f32_trunc x = truncate (f32_neg x) (magnitude 24 (f32_mag x))"

text \<open>\<open>(s32)x\<close>: a number that does not fit, or a NaN, gives the host's indefinite integer.\<close>

definition f64_to_s32 :: "u64 \<Rightarrow> s32" where
  "f64_to_s32 x =
     (if f64_isnan x \<or> f64_isinf x \<or> f64_trunc x < - (2 ^ 31) \<or> 2 ^ 31 \<le> f64_trunc x then 0x80000000
      else word_of_int (f64_trunc x))"

end
