(* ===== verification/Float_Exact.thy ===== *)
theory Float_Exact
  imports Common_Float Complex_Main
begin

text \<open>
  Exactness of the host's arithmetic: a number is decoded into a multiple of the smallest subnormal,
  the decoding is monotone, and rounding a number that has a representation gives it back.
\<close>

section \<open>Decoding\<close>

definition scaled :: "nat \<Rightarrow> nat \<Rightarrow> nat" where
  "scaled p mag =
     (let e = mag div 2 ^ (p - 1); f = mag mod 2 ^ (p - 1)
      in if e = 0 then f else (f + 2 ^ (p - 1)) * 2 ^ (e - 1))"

lemma magnitude_scaled:
  assumes "magnitude p mag = (m, q)"
  shows "emin p \<le> q" "m * 2 ^ nat (q - emin p) = scaled p mag"
  using assms by (auto simp: magnitude_def scaled_def Let_def nat_diff_distrib split: if_splits)

lemma scaled_eq_0: "scaled p mag = 0 \<longleftrightarrow> mag = 0"
  by (auto simp: scaled_def Let_def div_eq_0_iff intro!: Nat.gr0I)

lemma scaled_less:
  assumes "a < b" shows "scaled p a < scaled p b"
proof -
  define P where "P = (2::nat) ^ (p - 1)"
  have P: "0 < P" by (simp add: P_def)
  obtain e f e' f' where ef: "a = e * P + f" "f < P" "b = e' * P + f'" "f' < P"
    using P by (metis div_mult_mod_eq mod_less_divisor)
  have dm: "a div P = e" "a mod P = f" "b div P = e'" "b mod P = f'"
    using ef P by auto
  have "e \<le> e'" using assms by (metis dm(1,3) div_le_mono less_imp_le)
  then consider "e = e'" "f < f'" | "e < e'" using assms ef by fastforce
  then show ?thesis
  proof cases
    case 1
    then show ?thesis unfolding scaled_def P_def[symmetric] dm Let_def by auto
  next
    case 2
    have top: "scaled p a < P * 2 ^ e"
    proof (cases e)
      case 0
      then show ?thesis using ef(2) unfolding scaled_def P_def[symmetric] dm Let_def by simp
    next
      case (Suc k)
      have "(f + P) * 2 ^ k < (2 * P) * 2 ^ k" using ef(2) by simp
      then show ?thesis using Suc unfolding scaled_def P_def[symmetric] dm Let_def by simp
    qed
    have "P * 2 ^ e \<le> (f' + P) * 2 ^ (e' - 1)"
      using 2 by (intro mult_le_mono power_increasing) auto
    then show ?thesis using top 2 unfolding scaled_def P_def[symmetric] dm Let_def by auto
  qed
qed

lemma scaled_less_iff: "scaled p a < scaled p b \<longleftrightarrow> a < b"
  by (metis scaled_less less_asym linorder_neqE_nat less_irrefl)

lemma scaled_inj: "scaled p a = scaled p b \<longleftrightarrow> a = b"
  by (metis scaled_less less_irrefl linorder_neqE_nat)

section \<open>Logarithms\<close>

lemma bitlen_bounds: "0 < n \<Longrightarrow> 2 ^ (bitlen n - 1) \<le> n \<and> n < 2 ^ bitlen n \<and> 0 < bitlen n"
proof (induction n rule: bitlen.induct)
  case (1 n)
  show ?case
  proof (cases "n div 2 = 0")
    case True
    then have "n = 1" using 1 by auto
    then show ?thesis by (simp add: bitlen.simps)
  next
    case False
    then have IH: "2 ^ (bitlen (n div 2) - 1) \<le> n div 2" "n div 2 < 2 ^ bitlen (n div 2)" "0 < bitlen (n div 2)"
      using 1 by auto
    obtain k where k: "bitlen (n div 2) = Suc k" using IH(3) by (cases "bitlen (n div 2)") auto
    have b: "bitlen n = Suc (Suc k)" using 1(2) k by (subst bitlen.simps) simp
    have "2 ^ k \<le> n div 2" "n div 2 < 2 * 2 ^ k" using IH k by auto
    then have "2 * 2 ^ k \<le> n" "n < 4 * 2 ^ k" by linarith+
    then show ?thesis using b by simp
  qed
qed

lemma bitlen_rat:
  assumes "0 < n"
  shows "(2 :: rat) powi (int (bitlen n) - 1) \<le> of_nat n \<and> (of_nat n :: rat) < 2 powi int (bitlen n)"
proof -
  have "(of_nat (2 ^ (bitlen n - 1)) :: rat) \<le> of_nat n" "(of_nat n :: rat) < of_nat (2 ^ bitlen n)"
    using bitlen_bounds [OF assms] by (simp_all only: of_nat_le_iff of_nat_less_iff)
  moreover have "int (bitlen n) - 1 = int (bitlen n - 1)" using bitlen_bounds [OF assms] by simp
  ultimately show ?thesis by (simp only: power_int_of_nat) simp
qed

lemma powi_add: "(2 :: rat) powi a * 2 powi b = 2 powi (a + b)"
  by (simp add: power_int_add)

lemma power_powi: "(2 :: rat) ^ k * 2 powi b = 2 powi (int k + b)"
  using powi_add [of "int k" b] by simp

lemma powi_nat_split: "(2 :: rat) powi l = 2 ^ nat l / 2 ^ nat (- l)"
  by (cases "0 \<le> l") (auto simp: power_int_def field_simps power_inverse)

lemma powi_le_div: "(0 :: nat) < d \<Longrightarrow> (2 :: rat) powi l \<le> of_nat n / of_nat d \<longleftrightarrow> d * 2 ^ nat l \<le> n * 2 ^ nat (- l)"
proof -
  assume d: "0 < d"
  have "(2 :: rat) powi l \<le> of_nat n / of_nat d \<longleftrightarrow> (of_nat (d * 2 ^ nat l) :: rat) \<le> of_nat (n * 2 ^ nat (- l))"
    unfolding powi_nat_split using d by (simp add: field_simps)
  then show ?thesis by (simp only: of_nat_le_iff)
qed

lemma powi_less_iff: "(2 :: rat) powi a < 2 powi b \<longleftrightarrow> a < b"
  by (meson linorder_not_less power_int_increasing power_int_strict_increasing one_less_numeral_iff
      one_le_numeral semiring_norm(76))

lemma log2_floor_eq:
  assumes n: "0 < n" and d: "0 < d"
    and lo: "(2 :: rat) powi L \<le> of_nat n / of_nat d" and hi: "of_nat n / of_nat d < (2 :: rat) powi (L + 1)"
  shows "log2_floor n d = L"
proof -
  define r :: rat where "r = of_nat n / of_nat d"
  define l where "l = int (bitlen n) - int (bitlen d)"
  have N: "(2 :: rat) powi (int (bitlen n) - 1) \<le> of_nat n" "(of_nat n :: rat) < 2 powi int (bitlen n)"
    and D: "(2 :: rat) powi (int (bitlen d) - 1) \<le> of_nat d" "(of_nat d :: rat) < 2 powi int (bitlen d)"
    using bitlen_rat n d by auto
  have dpos: "(0 :: rat) < of_nat d" using d by simp
  have "(2 :: rat) powi (l - 1) < r"
  proof -
    have "(2 :: rat) powi (l - 1) * of_nat d < 2 powi (l - 1) * 2 powi int (bitlen d)" using D by simp
    also have "\<dots> = 2 powi (int (bitlen n) - 1)" unfolding powi_add by (simp add: l_def)
    finally have "(2 :: rat) powi (l - 1) * of_nat d < of_nat n" using N by linarith
    then show ?thesis using dpos by (simp add: r_def pos_less_divide_eq)
  qed
  then have "(2 :: rat) powi (l - 1) < 2 powi (L + 1)" using hi by (simp add: r_def)
  then have ge: "l \<le> L + 1" by (simp add: powi_less_iff)
  have "r < (2 :: rat) powi (l + 1)"
  proof -
    have "(of_nat n :: rat) < 2 powi int (bitlen n)" by (rule N)
    also have "\<dots> = 2 powi (l + 1) * 2 powi (int (bitlen d) - 1)"
      unfolding powi_add by (simp add: l_def)
    also have "\<dots> \<le> 2 powi (l + 1) * of_nat d" using D by simp
    finally show ?thesis using dpos by (simp add: r_def pos_divide_less_eq)
  qed
  then have "(2 :: rat) powi L < 2 powi (l + 1)" using lo by (simp add: r_def)
  then have le: "L \<le> l" by (simp add: powi_less_iff)
  show ?thesis
  proof (cases "(2 :: rat) powi l \<le> r")
    case True
    then have "(2 :: rat) powi l < 2 powi (L + 1)" using hi by (simp add: r_def)
    then have "l = L" using le by (simp add: powi_less_iff)
    then show ?thesis using True d by (simp add: log2_floor_def l_def[symmetric] Let_def powi_le_div r_def)
  next
    case False
    then have "l \<noteq> L" using lo by (auto simp: r_def)
    then have "l = L + 1" using ge le by simp
    then show ?thesis using False d by (simp add: log2_floor_def l_def[symmetric] Let_def powi_le_div r_def)
  qed
qed

section \<open>Rounding a representable number\<close>

lemma round_up_exact: "0 < d \<Longrightarrow> \<not> round_up mode sign m 0 d"
  by (simp add: round_up_def)

lemma scaled_bounds:
  assumes "0 < p"
  shows "mag div 2 ^ (p - 1) = 0 \<Longrightarrow> scaled p mag < 2 ^ (p - 1)"
    and "mag div 2 ^ (p - 1) = Suc k \<Longrightarrow> 2 ^ (p - 1 + k) \<le> scaled p mag \<and> scaled p mag < 2 ^ (p + k)"
proof -
  have f: "mag mod 2 ^ (p - 1) < 2 ^ (p - 1)" by simp
  show "mag div 2 ^ (p - 1) = 0 \<Longrightarrow> scaled p mag < 2 ^ (p - 1)"
    using f by (simp add: scaled_def Let_def)
  assume e: "mag div 2 ^ (p - 1) = Suc k"
  have s: "scaled p mag = (mag mod 2 ^ (p - 1) + 2 ^ (p - 1)) * 2 ^ k" using e by (simp add: scaled_def Let_def)
  have "(mag mod 2 ^ (p - 1) + 2 ^ (p - 1)) * 2 ^ k < (2 * 2 ^ (p - 1)) * 2 ^ k"
    using f by (intro mult_strict_right_mono) auto
  also have "\<dots> = 2 ^ (p + k)" using assms by (cases p) (simp_all add: power_add)
  finally show "2 ^ (p - 1 + k) \<le> scaled p mag \<and> scaled p mag < 2 ^ (p + k)"
    by (simp add: s power_add)
qed

theorem round_mag_exact:
  assumes p: "0 < p" and n: "0 < n" and d: "0 < d" and fin: "mag < inf_mag p"
    and eq: "n * 2 ^ nat (q - emin p) = scaled p mag * d * 2 ^ nat (emin p - q)"
  shows "round_mag p mode ftz sign n d q = (if ftz \<and> mag < 2 ^ (p - 1) then 0 else mag)"
proof -
  define E where "E = emin p"
  define e where "e = mag div 2 ^ (p - 1)"
  define k where "k = e - 1"
  define S where "S = scaled p mag"
  have "0 < S" using eq n by (metis S_def mult_is_0 not_gr_zero power_not_zero zero_neq_numeral)
  have ratio: "(of_nat n :: rat) / of_nat d = of_nat S * 2 powi (E - q)"
  proof -
    have "(of_nat n :: rat) * 2 ^ nat (q - E) = of_nat S * of_nat d * 2 ^ nat (E - q)"
      using arg_cong [OF eq, of "of_nat :: nat \<Rightarrow> rat"] by (simp add: S_def E_def)
    then show ?thesis unfolding powi_nat_split [of "E - q"] using d by (simp add: field_simps)
  qed
  define u where "u = max (log2_floor n d + q - int p + 1) E"
  have u: "u = E + int k" and m: "(if e = 0 then mag mod 2 ^ (p - 1) else mag mod 2 ^ (p - 1) + 2 ^ (p - 1)) * 2 ^ k = S"
  proof -
    show "(if e = 0 then mag mod 2 ^ (p - 1) else mag mod 2 ^ (p - 1) + 2 ^ (p - 1)) * 2 ^ k = S"
      by (simp add: S_def scaled_def e_def k_def Let_def)
    show "u = E + int k"
    proof (cases e)
      case 0
      then have "S < 2 ^ (p - 1)" using scaled_bounds(1) [OF p] by (simp add: S_def e_def)
      define L where "L = log2_floor S 1"
      obtain L' where L': "S < 2 ^ Suc L'" "2 ^ L' \<le> S"
        using ex_power_ivl1 [of 2 S] \<open>0 < S\<close> by auto
      have "L' < p - 1" using L'(2) \<open>S < 2 ^ (p - 1)\<close> by (metis le_less_trans nat_power_less_imp_less zero_less_numeral)
      have "log2_floor n d = int L' + E - q"
      proof (rule log2_floor_eq [OF n d])
        have "(2 :: rat) ^ L' \<le> of_nat S" using L'(2) by (metis of_nat_le_iff of_nat_numeral of_nat_power)
        then show "(2 :: rat) powi (int L' + E - q) \<le> of_nat n / of_nat d"
          unfolding ratio by (simp add: add_diff_eq [symmetric] power_int_add)
        have "(of_nat S :: rat) < 2 ^ Suc L'" using L'(1) by (metis of_nat_less_iff of_nat_numeral of_nat_power)
        then have "(of_nat S :: rat) * 2 powi (E - q) < 2 ^ Suc L' * 2 powi (E - q)" by simp
        also have "\<dots> = 2 powi (int (Suc L') + (E - q))" by (rule power_powi)
        also have "int (Suc L') + (E - q) = int L' + E - q + 1" by simp
        finally show "of_nat n / of_nat d < (2 :: rat) powi (int L' + E - q + 1)" unfolding ratio .
      qed
      then show ?thesis using \<open>L' < p - 1\<close> 0 by (simp add: u_def k_def)
    next
      case (Suc j)
      then have b: "2 ^ (p - 1 + j) \<le> S" "S < 2 ^ (p + j)" using scaled_bounds(2) [OF p] by (auto simp: S_def e_def)
      have "log2_floor n d = int (p - 1 + j) + E - q"
      proof (rule log2_floor_eq [OF n d])
        have "(2 :: rat) ^ (p - 1 + j) \<le> of_nat S" using b(1) by (metis of_nat_le_iff of_nat_numeral of_nat_power)
        then have "(2 :: rat) ^ (p - 1 + j) * 2 powi (E - q) \<le> of_nat S * 2 powi (E - q)" by simp
        then show "(2 :: rat) powi (int (p - 1 + j) + E - q) \<le> of_nat n / of_nat d"
          unfolding ratio by (simp only: add_diff_eq [symmetric]) (simp add: power_int_add flip: power_int_of_nat)
        have "(of_nat S :: rat) < 2 ^ (p + j)" using b(2) by (metis of_nat_less_iff of_nat_numeral of_nat_power)
        then have "(of_nat S :: rat) * 2 powi (E - q) < 2 ^ (p + j) * 2 powi (E - q)" by simp
        also have "\<dots> = 2 powi (int (p + j) + (E - q))" by (rule power_powi)
        also have "int (p + j) + (E - q) = int (p - 1 + j) + E - q + 1" using p by simp
        finally show "of_nat n / of_nat d < (2 :: rat) powi (int (p - 1 + j) + E - q + 1)" unfolding ratio .
      qed
      then show ?thesis using p Suc by (simp add: u_def k_def of_nat_diff)
    qed
  qed
  define M where "M = (if e = 0 then mag mod 2 ^ (p - 1) else mag mod 2 ^ (p - 1) + 2 ^ (p - 1))"
  have num: "n * 2 ^ nat (q - u) = M * (d * 2 ^ nat (u - q))"
  proof -
    have "(of_nat n :: rat) * 2 ^ nat (q - u) = of_nat M * (of_nat d * 2 ^ nat (u - q))"
    proof -
      have "(of_nat S :: rat) = of_nat M * 2 ^ k"
        using arg_cong [OF m, of "of_nat :: nat \<Rightarrow> rat"] by (simp only: M_def of_nat_mult of_nat_power of_nat_numeral)
      then have "(of_nat n :: rat) = of_nat d * (of_nat M * 2 ^ k * 2 powi (E - q))"
        using ratio d by (simp add: field_simps)
      also have "\<dots> = of_nat d * (of_nat M * 2 powi (u - q))"
        by (simp add: u add_diff_eq [symmetric] power_int_add power_int_diff)
      finally show ?thesis unfolding powi_nat_split [of "u - q"] by (simp add: field_simps)
    qed
    then have "(of_nat (n * 2 ^ nat (q - u)) :: rat) = of_nat (M * (d * 2 ^ nat (u - q)))" by simp
    then show ?thesis by (simp only: of_nat_eq_iff)
  qed
  have den: "0 < d * 2 ^ nat (u - q)" using d by simp
  have q: "n * 2 ^ nat (q - u) div (d * 2 ^ nat (u - q)) = M" "n * 2 ^ nat (q - u) mod (d * 2 ^ nat (u - q)) = 0"
    unfolding num using d by simp_all
  have mag: "nat (u - E) * 2 ^ (p - 1) + M = mag"
  proof -
    have "mag = e * 2 ^ (p - 1) + mag mod 2 ^ (p - 1)" unfolding e_def by (rule div_mult_mod_eq [symmetric])
    moreover have "nat (u - E) = k" by (simp add: u)
    moreover have "e \<noteq> 0 \<Longrightarrow> e * 2 ^ (p - 1) = k * 2 ^ (p - 1) + 2 ^ (p - 1)" by (cases e) (simp_all add: k_def)
    ultimately show ?thesis by (cases "e = 0") (auto simp: M_def k_def)
  qed
  show ?thesis
    unfolding round_mag_def Let_def E_def[symmetric] u_def[symmetric] q
    using n fin mag round_up_exact [OF den] by auto
qed

end
