(* ===== verification/Float_Value.thy ===== *)
theory Float_Value
  imports Float_Exact
begin

text \<open>
  The rational number a bit pattern stands for, and what the operations of the host do to it when
  their result is representable.
\<close>

section \<open>Bit patterns\<close>

lemma mag_bounds: "f64_mag x < 2 ^ 63" "f32_mag y < 2 ^ 31"
  unfolding f64_mag_def f32_mag_def unsigned_take_bit_eq by (rule take_bit_nat_less_exp)+

lemma f64_pack_parts:
  assumes "mag < 2 ^ 63" shows "f64_neg (f64_pack s mag) = s" "f64_mag (f64_pack s mag) = mag"
proof -
  have b: "\<not> bit mag n" if "63 \<le> n" for n
  proof -
    have "mag < 2 ^ n" using assms that by (meson less_le_trans one_le_numeral power_increasing)
    then show ?thesis by (simp add: bit_iff_odd)
  qed
  show "f64_neg (f64_pack s mag) = s"
    by (simp add: f64_neg_def f64_pack_def bit_or_iff bit_push_bit_iff bit_of_nat_iff b)
  have "take_bit 63 (f64_pack s mag) = (of_nat mag :: u64)"
    by (rule bit_word_eqI) (use b in \<open>auto simp: f64_pack_def bit_take_bit_iff bit_or_iff bit_push_bit_iff
      bit_of_nat_iff bit_of_bool_iff not_less\<close>)
  then show "f64_mag (f64_pack s mag) = mag"
    using assms by (simp add: f64_mag_def unat_of_nat take_bit_eq_mod)
qed

lemma f32_pack_parts:
  assumes "mag < 2 ^ 31" shows "f32_neg (f32_pack s mag) = s" "f32_mag (f32_pack s mag) = mag"
proof -
  have b: "\<not> bit mag n" if "31 \<le> n" for n
  proof -
    have "mag < 2 ^ n" using assms that by (meson less_le_trans one_le_numeral power_increasing)
    then show ?thesis by (simp add: bit_iff_odd)
  qed
  show "f32_neg (f32_pack s mag) = s"
    by (simp add: f32_neg_def f32_pack_def bit_or_iff bit_push_bit_iff bit_of_nat_iff b)
  have "take_bit 31 (f32_pack s mag) = (of_nat mag :: u32)"
    by (rule bit_word_eqI) (use b in \<open>auto simp: f32_pack_def bit_take_bit_iff bit_or_iff bit_push_bit_iff
      bit_of_nat_iff bit_of_bool_iff not_less\<close>)
  then show "f32_mag (f32_pack s mag) = mag"
    using assms by (simp add: f32_mag_def unat_of_nat take_bit_eq_mod)
qed

lemma f64_pack_self: "f64_pack (f64_neg x) (f64_mag x) = x"
proof (rule bit_word_eqI)
  fix n :: nat
  assume "n < LENGTH(64)"
  then consider "n < 63" | "n = 63" by fastforce
  then show "bit (f64_pack (f64_neg x) (f64_mag x)) n = bit x n"
    by cases (auto simp: f64_pack_def f64_neg_def f64_mag_def bit_or_iff bit_push_bit_iff bit_take_bit_iff bit_of_bool_iff)
qed

lemma f32_pack_self: "f32_pack (f32_neg x) (f32_mag x) = x"
proof (rule bit_word_eqI)
  fix n :: nat
  assume "n < LENGTH(32)"
  then consider "n < 31" | "n = 31" by fastforce
  then show "bit (f32_pack (f32_neg x) (f32_mag x)) n = bit x n"
    by cases (auto simp: f32_pack_def f32_neg_def f32_mag_def bit_or_iff bit_push_bit_iff bit_take_bit_iff bit_of_bool_iff)
qed

lemma inf_mag_small: "inf_mag 53 < 2 ^ 63" "inf_mag 24 < 2 ^ 31"
  by (simp_all add: inf_mag_def)

section \<open>Values\<close>

definition mag_value :: "nat \<Rightarrow> nat \<Rightarrow> rat" where
  "mag_value p mag = of_nat (scaled p mag) * 2 powi emin p"

definition f64_value :: "u64 \<Rightarrow> rat" where
  "f64_value x = (if f64_neg x then - 1 else 1) * mag_value 53 (f64_mag x)"

definition f32_value :: "u32 \<Rightarrow> rat" where
  "f32_value x = (if f32_neg x then - 1 else 1) * mag_value 24 (f32_mag x)"

definition f64_finite :: "u64 \<Rightarrow> bool" where "f64_finite x \<longleftrightarrow> f64_mag x < inf_mag 53"
definition f32_finite :: "u32 \<Rightarrow> bool" where "f32_finite x \<longleftrightarrow> f32_mag x < inf_mag 24"

lemma mag_value_less_iff: "mag_value p a < mag_value p b \<longleftrightarrow> a < b"
  by (simp add: mag_value_def scaled_less_iff)

lemma mag_value_inj: "mag_value p a = mag_value p b \<longleftrightarrow> a = b"
  by (simp add: mag_value_def scaled_inj)

lemma mag_value_ge_0 [simp]: "0 \<le> mag_value p a"
  by (simp add: mag_value_def)

lemma mag_value_0 [simp]: "mag_value p 0 = 0" "mag_value p a = 0 \<longleftrightarrow> a = 0"
  using scaled_eq_0 [of p 0] scaled_eq_0 [of p a] by (simp_all add: mag_value_def)

lemma mag_value_pos [simp]: "0 < mag_value p a \<longleftrightarrow> 0 < a"
  using mag_value_0(2) [of p a] mag_value_ge_0 [of p a] by (metis less_le neq0_conv)

lemma magnitude_value:
  assumes "magnitude p mag = (m, q)" shows "of_nat m * 2 powi q = mag_value p mag"
proof -
  have "(2 :: rat) powi q = 2 ^ nat (q - emin p) * 2 powi emin p"
    using magnitude_scaled(1) [OF assms] by (simp add: power_powi)
  then show ?thesis
    using magnitude_scaled(2) [OF assms] 
    by (metis (no_types, lifting) mag_value_def mult.assoc of_nat_mult of_nat_numeral of_nat_power)
qed

lemma signed_key_less:
  "(if s then - int a else int a) < (if t then - int b else int b) \<longleftrightarrow>
   (if s then - 1 else 1) * mag_value p a < (if t then - 1 else 1) * mag_value p b"
proof -
  have "0 < b \<Longrightarrow> - mag_value p a < mag_value p b" for a b :: nat
    using mag_value_ge_0 [of p a] mag_value_pos [of p b] by linarith
  moreover have "- mag_value p a < mag_value p b \<longleftrightarrow> 0 < a \<or> 0 < b" for a b :: nat
  proof -
    have "(- x < y) = (x \<noteq> 0 \<or> y \<noteq> 0)" if "0 \<le> x" "0 \<le> y" for x y :: rat using that by linarith
    from this [OF mag_value_ge_0 mag_value_ge_0] show ?thesis by simp
  qed
  moreover have "\<not> mag_value p a < - mag_value p b" for a b :: nat
    using mag_value_ge_0 [of p a] mag_value_ge_0 [of p b] by linarith
  ultimately show ?thesis by (auto simp: mag_value_less_iff)
qed

lemma f64_less_value: "f64_less a b \<longleftrightarrow> \<not> f64_isnan a \<and> \<not> f64_isnan b \<and> f64_value a < f64_value b"
  unfolding f64_less_def f64_key_def f64_value_def signed_key_less [where p = 53] ..

lemma f32_less_value: "f32_less a b \<longleftrightarrow> \<not> f32_isnan a \<and> \<not> f32_isnan b \<and> f32_value a < f32_value b"
  unfolding f32_less_def f32_key_def f32_value_def signed_key_less [where p = 24] ..

lemma f64_eq_value: "f64_eq a b \<longleftrightarrow> \<not> f64_isnan a \<and> \<not> f64_isnan b \<and> f64_value a = f64_value b"
proof -
  have "f64_key a = f64_key b \<longleftrightarrow> \<not> f64_key a < f64_key b \<and> \<not> f64_key b < f64_key a" by auto
  also have "\<dots> \<longleftrightarrow> f64_value a = f64_value b"
    unfolding f64_key_def f64_value_def signed_key_less [where p = 53] by auto
  finally show ?thesis by (simp add: f64_eq_def)
qed

lemma finite_not_nan: "f64_finite x \<Longrightarrow> \<not> f64_isnan x \<and> \<not> f64_isinf x"
  "f32_finite y \<Longrightarrow> \<not> f32_isnan y \<and> \<not> f32_isinf y"
  by (auto simp: f64_finite_def f64_isnan_def f64_isinf_def f32_finite_def f32_isnan_def f32_isinf_def)

section \<open>Representable numbers\<close>

text \<open>A number has a representation when it is a multiple \<open>m * 2 ^ k\<close> with few enough bits.\<close>

lemma scaled_inf: "scaled 53 (inf_mag 53) = 2 ^ 2098" "scaled 24 (inf_mag 24) = 2 ^ 277"
proof -
  have "inf_mag 53 div 2 ^ (53 - 1) = 2047" "inf_mag 53 mod 2 ^ (53 - 1) = 0"
    "inf_mag 24 div 2 ^ (24 - 1) = 255" "inf_mag 24 mod 2 ^ (24 - 1) = 0"
    by (simp_all add: inf_mag_def)
  then show "scaled 53 (inf_mag 53) = 2 ^ 2098" "scaled 24 (inf_mag 24) = 2 ^ 277"
    unfolding scaled_def Let_def by (simp_all flip: power_add)
qed

lemma scaled_surj:
  assumes p: "0 < p" and m: "m < 2 ^ p" and fin: "m * 2 ^ k < scaled p (inf_mag p)"
  obtains mag where "mag < inf_mag p" "scaled p mag = m * 2 ^ k"
proof -
  define N where "N = m * 2 ^ k"
  have "\<exists>mag. scaled p mag = N"
  proof (cases "N < 2 ^ (p - 1)")
    case True
    then show ?thesis by (intro exI [of _ N]) (simp add: scaled_def)
  next
    case False
    then have "0 < N" by (metis gr0I zero_less_numeral zero_less_power)
    then obtain L where L: "2 ^ L \<le> N" "N < 2 ^ Suc L" using ex_power_ivl1 [of 2 N] by auto
    have "p - 1 \<le> L"
    proof (rule ccontr)
      assume "\<not> p - 1 \<le> L"
      then have "(2 :: nat) ^ Suc L \<le> 2 ^ (p - 1)" by (intro power_increasing) auto
      then show False using L False by simp
    qed
    then obtain j where j: "L = p - 1 + j" using le_Suc_ex by blast
    have "j \<le> k"
    proof (rule ccontr)
      assume "\<not> j \<le> k"
      then have "p + k \<le> L" using p j by simp
      then have "(2 :: nat) ^ (p + k) \<le> 2 ^ L" by (rule power_increasing) simp
      moreover have "N < 2 ^ (p + k)" using m by (simp add: N_def power_add)
      ultimately show False using L(1) by linarith
    qed
    then obtain i where i: "k = i + j" using le_Suc_ex add.commute by metis
    define M where "M = m * 2 ^ i"
    have NM: "N = M * 2 ^ j" by (simp add: N_def M_def i power_add)
    have M: "2 ^ (p - 1) \<le> M" using L(1) by (simp add: NM j power_add)
    have "M * 2 ^ j < 2 ^ p * 2 ^ j" using L(2) p by (cases p) (simp_all add: NM j power_add)
    then have "M < 2 ^ p" by simp
    define mag where "mag = Suc j * 2 ^ (p - 1) + (M - 2 ^ (p - 1))"
    have lt: "M - 2 ^ (p - 1) < 2 ^ (p - 1)" using \<open>M < 2 ^ p\<close> M p by (cases p) auto
    have "mag div 2 ^ (p - 1) = Suc j" "mag mod 2 ^ (p - 1) = M - 2 ^ (p - 1)"
      unfolding mag_def using lt by (simp_all add: div_mult_self3 del: mult_Suc)
    then have "scaled p mag = N" using M by (simp add: scaled_def Let_def NM)
    then show ?thesis ..
  qed
  then show ?thesis using that fin by (metis N_def scaled_less_iff)
qed

lemma round_value:
  assumes p: "0 < p" and d: "0 < d" and m: "m < 2 ^ p" and fin: "m * 2 ^ k < scaled p (inf_mag p)"
    and normal: "ftz \<Longrightarrow> m = 0 \<or> 2 ^ (p - 1) \<le> m * 2 ^ k"
    and v: "of_nat n / of_nat d * 2 powi q = (of_nat (m * 2 ^ k) :: rat) * 2 powi emin p"
  shows "round_mag p mode ftz sign n d q < inf_mag p"
    and "mag_value p (round_mag p mode ftz sign n d q) = of_nat n / of_nat d * 2 powi q"
proof -
  obtain mag where mag: "mag < inf_mag p" "scaled p mag = m * 2 ^ k" by (rule scaled_surj [OF p m fin])
  have r: "round_mag p mode ftz sign n d q = mag"
  proof (cases "n = 0")
    case True
    then have "m * 2 ^ k = 0" using v by (simp flip: of_nat_mult)
    then have "mag = 0" using mag(2) scaled_eq_0 by metis
    then show ?thesis using True by (simp add: round_mag_def)
  next
    case False
    have "(of_nat n :: rat) * 2 powi (q - emin p) = of_nat (m * 2 ^ k) * of_nat d"
    proof -
      have "(of_nat n :: rat) * 2 powi q = of_nat d * (of_nat (m * 2 ^ k) * 2 powi emin p)"
        using v d by (simp add: field_simps)
      then show ?thesis by (simp add: power_int_diff field_simps)
    qed
    then have "(of_nat (n * 2 ^ nat (q - emin p)) :: rat) = of_nat (scaled p mag * d * 2 ^ nat (emin p - q))"
      unfolding powi_nat_split [of "q - emin p"] mag(2) by (simp add: field_simps)
    then have eq: "n * 2 ^ nat (q - emin p) = scaled p mag * d * 2 ^ nat (emin p - q)" by (simp only: of_nat_eq_iff)
    have "\<not> (ftz \<and> mag < 2 ^ (p - 1))"
    proof
      assume a: "ftz \<and> mag < 2 ^ (p - 1)"
      then have "scaled p mag = mag" by (simp add: scaled_def)
      then have "m = 0" using a normal mag(2) by auto
      then show False using eq False mag(2) by simp
    qed
    then show ?thesis using round_mag_exact [OF p _ d mag(1) eq, of mode ftz sign] False
      by (metis neq0_conv)
  qed
  show "round_mag p mode ftz sign n d q < inf_mag p" using r mag by simp
  show "mag_value p (round_mag p mode ftz sign n d q) = of_nat n / of_nat d * 2 powi q"
    by (simp only: r mag_value_def mag(2) v)
qed

end
