(* ===== verification/Float_Ops.thy ===== *)
theory Float_Ops
  imports Float_Value
begin

text \<open>Conversions, sums and products whose result is representable are exact; the cast to an integer truncates.\<close>

lemma mag_value_inf: "mag_value 53 (inf_mag 53) = 2 powi 1024" "mag_value 24 (inf_mag 24) = 2 powi 128"
  unfolding mag_value_def scaled_inf of_nat_power of_nat_numeral power_powi by (simp_all add: emin_def)

lemma round_exact:
  assumes p: "0 < p" and d: "0 < d" and m: "m < 2 ^ p" and r: "emin p \<le> r"
    and v: "v = of_nat m * 2 powi r" and v': "v = of_nat n / of_nat d * 2 powi q"
    and fin: "v < mag_value p (inf_mag p)"
    and normal: "ftz \<Longrightarrow> v = 0 \<or> 2 powi (emin p + int p - 1) \<le> v"
  shows "round_mag p mode ftz sign n d q < inf_mag p"
    and "mag_value p (round_mag p mode ftz sign n d q) = v"
proof -
  define k where "k = nat (r - emin p)"
  have vk: "v = of_nat (m * 2 ^ k) * 2 powi emin p"
  proof -
    have "(2 :: rat) powi r = 2 ^ k * 2 powi emin p" unfolding power_powi using r by (simp add: k_def)
    then show ?thesis by (simp add: v)
  qed
  have "(of_nat (m * 2 ^ k) :: rat) < of_nat (scaled p (inf_mag p))"
    using fin unfolding vk mag_value_def by simp
  then have fin': "m * 2 ^ k < scaled p (inf_mag p)" by (simp only: of_nat_less_iff)
  have normal': "m = 0 \<or> 2 ^ (p - 1) \<le> m * 2 ^ k" if ftz
  proof (cases "v = 0")
    case True
    then show ?thesis by (simp add: v)
  next
    case False
    then have "2 powi (emin p + int p - 1) \<le> v" using normal that by blast
    moreover have "(2 :: rat) powi (emin p + int p - 1) = 2 ^ (p - 1) * 2 powi emin p"
      unfolding power_powi using p by (simp add: of_nat_diff algebra_simps)
    ultimately have "(2 ^ (p - 1) :: rat) \<le> of_nat (m * 2 ^ k)" unfolding vk by simp
    then have "(of_nat (2 ^ (p - 1)) :: rat) \<le> of_nat (m * 2 ^ k)" by simp
    then show ?thesis by (simp only: of_nat_le_iff simp_thms)
  qed
  have eq: "of_nat n / of_nat d * (2 :: rat) powi q = of_nat (m * 2 ^ k) * 2 powi emin p" using v' vk by simp
  show "round_mag p mode ftz sign n d q < inf_mag p"
    by (rule round_value(1) [OF p d m fin' normal' eq])
  show "mag_value p (round_mag p mode ftz sign n d q) = v"
    using round_value(2) [OF p d m fin' normal' eq] v' by simp
qed

lemma f64_pack_value:
  assumes "mag < inf_mag 53"
  shows "f64_finite (f64_pack s mag)" "f64_neg (f64_pack s mag) = s"
    "f64_value (f64_pack s mag) = (if s then - 1 else 1) * mag_value 53 mag"
  using f64_pack_parts [of mag s] assms inf_mag_small by (simp_all add: f64_finite_def f64_value_def)

lemma f32_pack_value:
  assumes "mag < inf_mag 24"
  shows "f32_finite (f32_pack s mag)" "f32_neg (f32_pack s mag) = s"
    "f32_value (f32_pack s mag) = (if s then - 1 else 1) * mag_value 24 mag"
  using f32_pack_parts [of mag s] assms inf_mag_small by (simp_all add: f32_finite_def f32_value_def)

lemma mag_value_bound:
  assumes "mag < inf_mag p" shows "mag_value p mag < mag_value p (inf_mag p)"
  using assms by (simp add: mag_value_less_iff)

lemma powi_mono: "a \<le> b \<Longrightarrow> (2 :: rat) powi a \<le> 2 powi b"
  using powi_less_iff [of b a] by linarith

section \<open>Integers\<close>

lemma abs_rat: "(if i < 0 then - 1 else 1) * of_nat (nat \<bar>i\<bar>) = (of_int i :: rat)"
  by (cases "i < 0") (simp_all add: of_nat_nat)

lemma f64_of_int_exact:
  assumes "\<bar>i\<bar> < 2 ^ 53"
  shows "f64_finite (f64_of_int mode i)" "f64_value (f64_of_int mode i) = of_int i"
    "f64_neg (f64_of_int mode i) = (i < 0)"
proof -
  define r where "r = round_mag 53 mode False (i < 0) (nat \<bar>i\<bar>) 1 0"
  have n: "nat \<bar>i\<bar> < 2 ^ 53" using assms by (simp add: nat_less_iff)
  then have "(of_nat (nat \<bar>i\<bar>) :: rat) < of_nat (2 ^ 53)" by (simp only: of_nat_less_iff)
  also have "\<dots> = 2 powi 53" by (simp only: of_nat_power of_nat_numeral flip: power_int_of_nat)
  also have "\<dots> \<le> 2 powi 1024" by (rule powi_mono) simp
  finally have b: "(of_nat (nat \<bar>i\<bar>) :: rat) < mag_value 53 (inf_mag 53)" by (simp only: mag_value_inf)
  have R: "r < inf_mag 53" "mag_value 53 r = of_nat (nat \<bar>i\<bar>)"
    unfolding r_def
    using round_exact [OF _ _ n, where r = 0 and d = 1 and q = 0 and ftz = False and n = "nat \<bar>i\<bar>"
      and v = "of_nat (nat \<bar>i\<bar>)"] b by (simp_all add: emin_def)
  have p: "f64_of_int mode i = f64_pack (i < 0) r" by (simp add: f64_of_int_def r_def)
  show "f64_finite (f64_of_int mode i)" "f64_neg (f64_of_int mode i) = (i < 0)"
    unfolding p by (rule f64_pack_value [OF R(1)])+
  show "f64_value (f64_of_int mode i) = of_int i"
    unfolding p f64_pack_value(3) [OF R(1)] R(2) by (rule abs_rat)
qed

lemma f32_of_int_exact:
  assumes "\<bar>i\<bar> < 2 ^ 24"
  shows "f32_finite (f32_of_int mode i)" "f32_value (f32_of_int mode i) = of_int i"
    "f32_neg (f32_of_int mode i) = (i < 0)"
proof -
  define r where "r = round_mag 24 mode False (i < 0) (nat \<bar>i\<bar>) 1 0"
  have n: "nat \<bar>i\<bar> < 2 ^ 24" using assms by (simp add: nat_less_iff)
  then have "(of_nat (nat \<bar>i\<bar>) :: rat) < of_nat (2 ^ 24)" by (simp only: of_nat_less_iff)
  also have "\<dots> = 2 powi 24" by (simp only: of_nat_power of_nat_numeral flip: power_int_of_nat)
  also have "\<dots> \<le> 2 powi 128" by (rule powi_mono) simp
  finally have b: "(of_nat (nat \<bar>i\<bar>) :: rat) < mag_value 24 (inf_mag 24)" by (simp only: mag_value_inf)
  have R: "r < inf_mag 24" "mag_value 24 r = of_nat (nat \<bar>i\<bar>)"
    unfolding r_def
    using round_exact [OF _ _ n, where r = 0 and d = 1 and q = 0 and ftz = False and n = "nat \<bar>i\<bar>"
      and v = "of_nat (nat \<bar>i\<bar>)"] b by (simp_all add: emin_def)
  have p: "f32_of_int mode i = f32_pack (i < 0) r" by (simp add: f32_of_int_def r_def)
  show "f32_finite (f32_of_int mode i)" "f32_neg (f32_of_int mode i) = (i < 0)"
    unfolding p by (rule f32_pack_value [OF R(1)])+
  show "f32_value (f32_of_int mode i) = of_int i"
    unfolding p f32_pack_value(3) [OF R(1)] R(2) by (rule abs_rat)
qed

text \<open>Truncation of the value.\<close>

definition trunc :: "rat \<Rightarrow> int" where "trunc v = (if v < 0 then - \<lfloor>- v\<rfloor> else \<lfloor>v\<rfloor>)"

lemma floor_mag:
  assumes "magnitude p mag = (m, q)"
  shows "\<lfloor>mag_value p mag\<rfloor> = int (if 0 \<le> q then m * 2 ^ nat q else m div 2 ^ nat (- q))"
proof (cases "0 \<le> q")
  case True
  then have "mag_value p mag = of_int (int (m * 2 ^ nat q))"
    unfolding magnitude_value [OF assms, symmetric] powi_nat_split by simp
  then show ?thesis using True by (simp only: floor_of_int if_True)
next
  case False
  then have "mag_value p mag = of_int (int m) / of_int (int (2 ^ nat (- q)))"
    unfolding magnitude_value [OF assms, symmetric] powi_nat_split by simp
  then show ?thesis using False by (simp only: floor_divide_of_int_eq if_False) (simp add: zdiv_int)
qed

lemma truncate_value: "truncate s (magnitude p mag) = trunc ((if s then - 1 else 1) * mag_value p mag)"
proof -
  obtain m q where mq: "magnitude p mag = (m, q)" by force
  have "truncate s (magnitude p mag) = (if s then - 1 else 1) * \<lfloor>mag_value p mag\<rfloor>"
    by (simp add: truncate_def mq floor_mag [OF mq])
  also have "\<dots> = trunc ((if s then - 1 else 1) * mag_value p mag)"
  proof -
    have "(if s then - 1 else 1) * \<lfloor>v\<rfloor> = trunc ((if s then - 1 else 1) * v)" if "0 \<le> v" for v :: rat
      using that by (cases "v = 0"; cases s) (simp_all add: trunc_def)
    then show ?thesis using mag_value_ge_0 by blast
  qed
  finally show ?thesis .
qed

lemma f64_trunc_value: "f64_trunc x = trunc (f64_value x)"
  by (simp add: f64_trunc_def f64_value_def truncate_value)

lemma f32_trunc_value: "f32_trunc x = trunc (f32_value x)"
  by (simp add: f32_trunc_def f32_value_def truncate_value)

lemma trunc_of_int [simp]: "trunc (of_int i) = i"
  by (simp add: trunc_def flip: of_int_minus)

section \<open>Conversions and products\<close>

lemma magnitude_less: "0 < p \<Longrightarrow> magnitude p mag = (m, q) \<Longrightarrow> m < 2 ^ p"
proof -
  assume p: "0 < p" and m: "magnitude p mag = (m, q)"
  have "mag mod 2 ^ (p - 1) < 2 ^ (p - 1)" by simp
  moreover have "(2 :: nat) ^ p = 2 * 2 ^ (p - 1)" using p by (cases p) simp_all
  moreover have "m = mag mod 2 ^ (p - 1) \<or> m = mag mod 2 ^ (p - 1) + 2 ^ (p - 1)"
    using m unfolding magnitude_def Let_def by (auto split: if_splits)
  ultimately show "m < 2 ^ p" by linarith
qed

lemma normal_iff: "2 powi (emin p + int p - 1) \<le> mag_value p mag \<longleftrightarrow> 2 ^ (p - 1) \<le> mag" if "0 < p"
proof -
  have "scaled p (2 ^ (p - 1)) = 2 ^ (p - 1)" by (simp add: scaled_def)
  then have "mag_value p (2 ^ (p - 1)) = 2 powi (emin p + int p - 1)"
    unfolding mag_value_def by (simp only: of_nat_power of_nat_numeral power_powi)
      (use that in \<open>simp add: of_nat_diff algebra_simps\<close>)
  then show ?thesis using mag_value_less_iff [of p mag "2 ^ (p - 1)"] by (metis not_less)
qed

lemma round_self:
  assumes p: "0 < p" and d: "0 < d" and fin: "mag < inf_mag p"
    and v: "of_nat n / of_nat d * 2 powi q = mag_value p mag"
    and normal: "ftz \<Longrightarrow> mag = 0 \<or> 2 ^ (p - 1) \<le> mag"
  shows "round_mag p mode ftz sign n d q = mag"
proof -
  obtain m r where mr: "magnitude p mag = (m, r)" by force
  have "mag_value p (round_mag p mode ftz sign n d q) = mag_value p mag"
  proof (rule round_exact(2) [OF p d magnitude_less [OF p mr] magnitude_scaled(1) [OF mr]])
    show "mag_value p mag = of_nat m * 2 powi r" by (rule magnitude_value [OF mr, symmetric])
    show "mag_value p mag = of_nat n / of_nat d * 2 powi q" by (rule v [symmetric])
    show "mag_value p mag < mag_value p (inf_mag p)" by (rule mag_value_bound [OF fin])
    show "ftz \<Longrightarrow> mag_value p mag = 0 \<or> 2 powi (emin p + int p - 1) \<le> mag_value p mag"
      using normal normal_iff [OF p, of mag] by auto
  qed
  then show ?thesis by (simp only: mag_value_inj)
qed

lemma float_exists:
  assumes "0 < p" "m < 2 ^ p" "emin p \<le> r" "of_nat m * 2 powi r < mag_value p (inf_mag p)"
  obtains mag where "mag < inf_mag p" "mag_value p mag = of_nat m * 2 powi r"
  using round_exact [OF assms(1) zero_less_one assms(2,3) refl, of m r False 0 False] assms(4) that by auto

lemma f32_to_f64_exact:
  assumes "f32_finite y"
  shows "f64_finite (f32_to_f64 y)" "f64_value (f32_to_f64 y) = f32_value y"
    "f64_neg (f32_to_f64 y) = f32_neg y"
proof -
  obtain m q where mq: "magnitude 24 (f32_mag y) = (m, q)" by force
  have v: "(of_nat m :: rat) * 2 powi q = mag_value 24 (f32_mag y)" by (rule magnitude_value [OF mq])
  have "m < 2 ^ 24" by (rule magnitude_less [OF _ mq]) simp
  moreover have "(2 :: nat) ^ 24 < 2 ^ 53" by (rule power_strict_increasing) simp_all
  ultimately have m: "m < 2 ^ 53" by (rule less_trans)
  have q: "emin 53 \<le> q" using magnitude_scaled(1) [OF mq] by (simp add: emin_def)
  have "mag_value 24 (f32_mag y) < 2 powi 128"
    using mag_value_bound [of "f32_mag y" 24] assms by (simp add: f32_finite_def mag_value_inf)
  also have "\<dots> < 2 powi 1024" by (simp only: powi_less_iff)
  finally have b: "(of_nat m :: rat) * 2 powi q < mag_value 53 (inf_mag 53)" by (simp only: v mag_value_inf)
  define r where "r = round_mag 53 0 False (f32_neg y) m 1 q"
  have R: "r < inf_mag 53" "mag_value 53 r = mag_value 24 (f32_mag y)"
  proof -
    have "(of_nat m :: rat) * 2 powi q = of_nat m / of_nat 1 * 2 powi q" by simp
    note R = round_exact [OF _ _ m q refl this b]
    show "r < inf_mag 53" unfolding r_def by (rule R(1)) (rule zero_less_numeral zero_less_one | simp only: not_True_eq_False simp_thms)+
    show "mag_value 53 r = mag_value 24 (f32_mag y)"
      unfolding r_def v [symmetric] by (rule R(2)) (rule zero_less_numeral zero_less_one | simp only: not_True_eq_False simp_thms)+
  qed
  have p: "f32_to_f64 y = f64_pack (f32_neg y) r"
    using finite_not_nan(2) [OF assms] by (simp add: f32_to_f64_def mq r_def Let_def)
  show "f64_finite (f32_to_f64 y)" "f64_neg (f32_to_f64 y) = f32_neg y"
    unfolding p by (rule f64_pack_value [OF R(1)])+
  show "f64_value (f32_to_f64 y) = f32_value y"
    unfolding p f64_pack_value(3) [OF R(1)] R(2) by (simp add: f32_value_def)
qed

lemma f64_to_f32_exact:
  assumes x: "f64_finite x" and y: "f32_finite y" and v: "f64_value x = f32_value y"
    and s: "f64_neg x = f32_neg y" and normal: "ftz \<Longrightarrow> f32_mag y = 0 \<or> 2 ^ 23 \<le> f32_mag y"
  shows "f64_to_f32 mode ftz x = y"
proof -
  obtain m q where mq: "magnitude 53 (f64_mag x) = (m, q)" by force
  have "(of_nat m :: rat) * 2 powi q = mag_value 24 (f32_mag y)"
    using v s by (simp add: magnitude_value [OF mq] f64_value_def f32_value_def split: if_splits)
  then have "round_mag 24 mode ftz (f64_neg x) m 1 q = f32_mag y"
    using y normal by (intro round_self) (auto simp: f32_finite_def)
  then show ?thesis
    using finite_not_nan(1) [OF x] s by (simp add: f64_to_f32_def mq f32_pack_self Let_def)
qed

lemma f32_mul_exact:
  assumes a: "f32_finite a" and b: "f32_finite b" and y: "f32_finite y"
    and v: "f32_value a * f32_value b = f32_value y" and s: "f32_neg y = (f32_neg a \<noteq> f32_neg b)"
    and normal: "ftz \<Longrightarrow> f32_mag y = 0 \<or> 2 ^ 23 \<le> f32_mag y"
  shows "f32_mul mode ftz a b = y"
proof -
  obtain m q n r where mq: "magnitude 24 (f32_mag a) = (m, q)" and nr: "magnitude 24 (f32_mag b) = (n, r)"
    by force
  have "(of_nat (m * n) :: rat) * 2 powi (q + r) = (of_nat m * 2 powi q) * (of_nat n * 2 powi r)"
    by (simp add: powi_add [symmetric])
  also have "\<dots> = mag_value 24 (f32_mag y)"
    using v s unfolding magnitude_value [OF mq] magnitude_value [OF nr]
    by (auto simp: f32_value_def split: if_splits)
  finally have "round_mag 24 mode ftz (f32_neg y) (m * n) 1 (q + r) = f32_mag y"
    using y normal by (intro round_self) (auto simp: f32_finite_def)
  then show ?thesis
    using finite_not_nan(2) [OF a] finite_not_nan(2) [OF b] s [symmetric]
    by (simp add: f32_mul_def mq nr f32_pack_self Let_def)
qed

text \<open>A number whose value is 0 or at least \<open>2 ^ - 126\<close> is not subnormal.\<close>

lemma f32_normal:
  assumes "\<bar>f32_value y\<bar> = 0 \<or> 2 powi (- 126) \<le> \<bar>f32_value y\<bar>"
  shows "f32_mag y = 0 \<or> 2 ^ 23 \<le> f32_mag y"
proof -
  have "\<bar>f32_value y\<bar> = mag_value 24 (f32_mag y)" by (simp add: f32_value_def)
  then show ?thesis
    using assms normal_iff [of 24 "f32_mag y"] by (auto simp: emin_def)
qed

section \<open>Sums\<close>

lemma exact_sum_value:
  assumes "magnitude p a = x" "magnitude p b = y" "exact_sum s x t y = (z, k)"
  shows "of_int z * 2 powi k = (if s then - 1 else 1) * mag_value p a + (if t then - 1 else 1) * mag_value p b"
proof -
  obtain m q n r where x: "x = (m, q)" and y: "y = (n, r)" by (metis surj_pair)
  have k: "k = min q r" and z: "z = (if s then - 1 else 1) * int (m * 2 ^ nat (q - k)) + (if t then - 1 else 1) * int (n * 2 ^ nat (r - k))"
    using assms(3) by (auto simp: exact_sum_def x y Let_def)
  have shift: "of_int (int (a * 2 ^ nat (c - k))) * (2 :: rat) powi k = of_nat a * 2 powi c" if "k \<le> c" for a c
  proof -
    have "(2 :: rat) ^ nat (c - k) * 2 powi k = 2 powi c" unfolding power_powi using that by simp
    then show ?thesis by (simp add: mult.assoc)
  qed
  have "of_int z * (2 :: rat) powi k = (if s then - 1 else 1) * (of_int (int (m * 2 ^ nat (q - k))) * 2 powi k)
      + (if t then - 1 else 1) * (of_int (int (n * 2 ^ nat (r - k))) * 2 powi k)"
    unfolding z by (simp add: distrib_right)
  then show ?thesis
    using shift [of q m] shift [of r n] k magnitude_value [OF assms(1) [unfolded x]] magnitude_value [OF assms(2) [unfolded y]]
    by simp
qed

lemma f64_add_exact:
  assumes a: "f64_finite a" and b: "f64_finite b" and y: "f64_finite y"
    and v: "f64_value a + f64_value b = f64_value y" and nz: "f64_value y \<noteq> 0"
    and normal: "ftz \<Longrightarrow> 2 ^ 52 \<le> f64_mag y"
  shows "f64_add mode ftz a b = y"
proof -
  obtain z k where zk: "exact_sum (f64_neg a) (magnitude 53 (f64_mag a)) (f64_neg b) (magnitude 53 (f64_mag b)) = (z, k)"
    by force
  have zv: "of_int z * 2 powi k = f64_value y"
    using exact_sum_value [OF refl refl zk] v by (simp add: f64_value_def)
  have y0: "0 < f64_mag y" using nz by (auto simp: f64_value_def)
  have neg: "z < 0 \<longleftrightarrow> f64_neg y" and z0: "z \<noteq> 0"
  proof -
    show "z \<noteq> 0" using zv nz by auto
    have "z < 0 \<longleftrightarrow> (of_int z :: rat) * 2 powi k < 0"
    proof -
      have "(0 :: rat) < 2 powi k" by simp
      from mult_less_cancel_right_pos [OF this, of "of_int z" 0] show ?thesis by simp
    qed
    also have "\<dots> \<longleftrightarrow> f64_neg y" unfolding zv f64_value_def using y0 mag_value_ge_0 [of 53 "f64_mag y"]
      by (simp add: not_less)
    finally show "z < 0 \<longleftrightarrow> f64_neg y" .
  qed
  have "of_nat (nat \<bar>z\<bar>) / of_nat 1 * 2 powi k = mag_value 53 (f64_mag y)"
  proof -
    have "of_nat (nat \<bar>z\<bar>) * (2 :: rat) powi k = \<bar>of_int z * 2 powi k\<bar>" by (simp add: abs_mult of_nat_nat)
    then show ?thesis unfolding zv by (simp add: f64_value_def)
  qed
  then have "round_mag 53 mode ftz (z < 0) (nat \<bar>z\<bar>) 1 k = f64_mag y"
    using y normal by (intro round_self) (auto simp: f64_finite_def)
  then show ?thesis
    using finite_not_nan(1) [OF a] finite_not_nan(1) [OF b] z0 neg
    by (simp add: f64_add_def zk f64_pack_self)
qed

lemma f64_add_zero:
  assumes a: "f64_finite a" and b: "f64_finite b" and v: "f64_value a + f64_value b = 0"
  shows "f64_mag (f64_add mode ftz a b) = 0"
proof -
  obtain z k where zk: "exact_sum (f64_neg a) (magnitude 53 (f64_mag a)) (f64_neg b) (magnitude 53 (f64_mag b)) = (z, k)"
    by force
  have "of_int z * (2 :: rat) powi k = 0"
    using exact_sum_value [OF refl refl zk] v by (simp add: f64_value_def)
  then have "z = 0" by simp
  then show ?thesis
    using finite_not_nan(1) [OF a] finite_not_nan(1) [OF b] by (simp add: f64_add_def zk f64_pack_parts)
qed

lemma f64_negate_value:
  "f64_value (f64_negate b) = - f64_value b" "f64_finite (f64_negate b) = f64_finite b" "f64_neg (f64_negate b) \<longleftrightarrow> \<not> f64_neg b"
  "f64_mag (f64_negate b) = f64_mag b"
proof -
  have "take_bit 63 (f64_negate b) = take_bit 63 b"
    by (rule bit_word_eqI) (auto simp: f64_negate_def bit_take_bit_iff bit_xor_iff bit_push_bit_iff)
  then show m: "f64_mag (f64_negate b) = f64_mag b" by (simp add: f64_mag_def)
  show n: "f64_neg (f64_negate b) \<longleftrightarrow> \<not> f64_neg b"
    by (simp add: f64_neg_def f64_negate_def bit_xor_iff bit_push_bit_iff)
  show "f64_value (f64_negate b) = - f64_value b" "f64_finite (f64_negate b) = f64_finite b"
    by (simp_all add: f64_value_def f64_finite_def m n)
qed

lemma f64_sub_exact:
  assumes "f64_finite a" "f64_finite b" "f64_finite y" "f64_value a - f64_value b = f64_value y" "f64_value y \<noteq> 0"
    "ftz \<Longrightarrow> 2 ^ 52 \<le> f64_mag y"
  shows "f64_sub mode ftz a b = y"
  using f64_add_exact [of a "f64_negate b" y ftz mode] assms finite_not_nan(1) [of b]
  by (simp add: f64_sub_def f64_negate_value)

lemma f64_sub_zero:
  assumes "f64_finite a" "f64_finite b" "f64_value a = f64_value b" shows "f64_mag (f64_sub mode ftz a b) = 0"
  using f64_add_zero [of a "f64_negate b" mode ftz] assms finite_not_nan(1) [of b]
  by (simp add: f64_sub_def f64_negate_value)

end
