(* ===== verification/PPC_FPUtils.thy ===== *)
theory PPC_FPUtils
  imports PPC_LoadStore Common_Float "HOL-Library.Signed_Division"
begin

text \<open>
  What the floating-point instructions of the interpreter share: the status register FPSCR
  (\<open>Gekko.h\<close>), the host's rounding mode (\<open>Common/x64FPURoundMode.cpp\<close>), classification of numbers and
  the estimates of reciprocals (\<open>Common/MathUtil.cpp\<close>), the arithmetic of \<open>Interpreter_FPUtils.h\<close>
  and the moves to and from FPSCR of \<open>Interpreter_SystemRegisters.cpp\<close>.  A \<open>double\<close> is its bit pattern.
\<close>

section \<open>FPSCR\<close>

definition FPSCR_FX :: u32 where "FPSCR_FX = push_bit 31 1"
definition FPSCR_FEX :: u32 where "FPSCR_FEX = push_bit 30 1"
definition FPSCR_VX :: u32 where "FPSCR_VX = push_bit 29 1"
definition FPSCR_OX :: u32 where "FPSCR_OX = push_bit 28 1"
definition FPSCR_UX :: u32 where "FPSCR_UX = push_bit 27 1"
definition FPSCR_ZX :: u32 where "FPSCR_ZX = push_bit 26 1"
definition FPSCR_XX :: u32 where "FPSCR_XX = push_bit 25 1"
definition FPSCR_VXSNAN :: u32 where "FPSCR_VXSNAN = push_bit 24 1"
definition FPSCR_VXISI :: u32 where "FPSCR_VXISI = push_bit 23 1"
definition FPSCR_VXIDI :: u32 where "FPSCR_VXIDI = push_bit 22 1"
definition FPSCR_VXZDZ :: u32 where "FPSCR_VXZDZ = push_bit 21 1"
definition FPSCR_VXIMZ :: u32 where "FPSCR_VXIMZ = push_bit 20 1"
definition FPSCR_VXVC :: u32 where "FPSCR_VXVC = push_bit 19 1"
definition FPSCR_VXSOFT :: u32 where "FPSCR_VXSOFT = push_bit 10 1"
definition FPSCR_VXSQRT :: u32 where "FPSCR_VXSQRT = push_bit 9 1"
definition FPSCR_VXCVI :: u32 where "FPSCR_VXCVI = push_bit 8 1"

definition FPSCR_VX_ANY :: u32 where
  "FPSCR_VX_ANY = FPSCR_VXSNAN OR FPSCR_VXISI OR FPSCR_VXIDI OR FPSCR_VXZDZ OR FPSCR_VXIMZ OR FPSCR_VXVC
     OR FPSCR_VXSOFT OR FPSCR_VXSQRT OR FPSCR_VXCVI"

definition FPSCR_ANY_X :: u32 where
  "FPSCR_ANY_X = FPSCR_OX OR FPSCR_UX OR FPSCR_ZX OR FPSCR_XX OR FPSCR_VX_ANY"

lemmas fpscr_defs = FPSCR_FX_def FPSCR_FEX_def FPSCR_VX_def FPSCR_OX_def FPSCR_UX_def FPSCR_ZX_def
  FPSCR_XX_def FPSCR_VXSNAN_def FPSCR_VXISI_def FPSCR_VXIDI_def FPSCR_VXZDZ_def FPSCR_VXIMZ_def
  FPSCR_VXVC_def FPSCR_VXSOFT_def FPSCR_VXSQRT_def FPSCR_VXCVI_def FPSCR_VX_ANY_def FPSCR_ANY_X_def

text \<open>The bit fields of \<open>UReg_FPSCR\<close>, \<open>width\<close> bits from \<open>lo\<close> on.\<close>

definition fpscr_field :: "nat \<Rightarrow> nat \<Rightarrow> ppc \<Rightarrow> u32" where
  "fpscr_field lo width s = take_bit width (drop_bit lo (fpscr s))"

definition set_fpscr_field :: "nat \<Rightarrow> nat \<Rightarrow> u32 \<Rightarrow> ppc \<Rightarrow> ppc" where
  "set_fpscr_field lo width v s =
     s\<lparr>fpscr := (fpscr s AND NOT (push_bit lo (mask width))) OR push_bit lo (take_bit width v)\<rparr>"

abbreviation FPSCR_RN :: "ppc \<Rightarrow> u32" where "FPSCR_RN \<equiv> fpscr_field 0 2"
abbreviation FPSCR_NI :: "ppc \<Rightarrow> u32" where "FPSCR_NI \<equiv> fpscr_field 2 1"
abbreviation FPSCR_VE :: "ppc \<Rightarrow> u32" where "FPSCR_VE \<equiv> fpscr_field 7 1"
abbreviation FPSCR_FPRF :: "ppc \<Rightarrow> u32" where "FPSCR_FPRF \<equiv> fpscr_field 12 5"
abbreviation set_FPRF :: "u32 \<Rightarrow> ppc \<Rightarrow> ppc" where "set_FPRF \<equiv> set_fpscr_field 12 5"
abbreviation set_FI :: "u32 \<Rightarrow> ppc \<Rightarrow> ppc" where "set_FI \<equiv> set_fpscr_field 17 1"
abbreviation set_FR :: "u32 \<Rightarrow> ppc \<Rightarrow> ppc" where "set_FR \<equiv> set_fpscr_field 18 1"

definition SetFPException :: "u32 \<Rightarrow> ppc \<Rightarrow> ppc" where
  "SetFPException m s =
     (let s = (if fpscr s AND m \<noteq> m then set_fpscr_field 31 1 1 s else s)
      in s\<lparr>fpscr := fpscr s OR m\<rparr>)"

definition SetFI :: "u32 \<Rightarrow> ppc \<Rightarrow> ppc" where
  "SetFI FI s = (let s = (if FI \<noteq> 0 then SetFPException FPSCR_XX s else s) in set_FI FI s)"

definition UpdateFPSCR :: "ppc \<Rightarrow> ppc" where
  "UpdateFPSCR s =
     (let s = set_fpscr_field 29 1 (of_bool (fpscr s AND FPSCR_VX_ANY \<noteq> 0)) s
      in set_fpscr_field 30 1 0 s)"

definition Helper_UpdateCR1 :: "ppc \<Rightarrow> ppc" where
  "Helper_UpdateCR1 s =
     SetCRField 1 (push_bit 3 (fpscr_field 31 1 s) OR push_bit 2 (fpscr_field 30 1 s)
       OR push_bit 1 (fpscr_field 29 1 s) OR fpscr_field 28 1 s) s"

text \<open>\<open>if (inst.Rc) Helper_UpdateCR1()\<close>, the end of most instructions.\<close>

definition record_CR1 :: "u32 \<Rightarrow> ppc \<Rightarrow> ppc" where
  "record_CR1 inst s = (if inst_Rc inst then Helper_UpdateCR1 s else s)"

section \<open>The rounding mode of the host\<close>

definition SetRoundMode :: "u32 \<Rightarrow> ppc \<Rightarrow> ppc" where
  "SetRoundMode mode s =
     s\<lparr>mxcsr := (mxcsr s AND NOT 0x6000) OR push_bit 13 ([0, 3, 2, 1] ! unat mode)\<rparr>"

definition simd_rounding_table :: "u32 list" where
  "simd_rounding_table =
     [push_bit 13 0 OR 0x1F80, push_bit 13 3 OR 0x1F80, push_bit 13 2 OR 0x1F80, push_bit 13 1 OR 0x1F80]"

definition SetSIMDMode :: "u32 \<Rightarrow> bool \<Rightarrow> ppc \<Rightarrow> ppc" where
  "SetSIMDMode rounding_mode non_ieee_mode s =
     (let csr = simd_rounding_table ! unat rounding_mode;
          csr = (if non_ieee_mode then csr OR 0x8000 else csr)
      in s\<lparr>mxcsr := csr\<rparr>)"

definition FPSCRtoFPUSettings :: "ppc \<Rightarrow> ppc" where
  "FPSCRtoFPUSettings s =
     (let s = SetRoundMode (FPSCR_RN s) s in SetSIMDMode (FPSCR_RN s) (FPSCR_NI s \<noteq> 0) s)"

text \<open>
  What the control register means to the host's arithmetic: the rounding mode in the numbering of
  \<open>FPSCR.RN\<close>, and whether subnormal results are flushed to zero.
\<close>

definition host_mode :: "ppc \<Rightarrow> nat" where
  "host_mode s = [0, 3, 2, 1] ! unat (take_bit 2 (drop_bit 13 (mxcsr s)))"

definition host_ftz :: "ppc \<Rightarrow> bool" where "host_ftz s \<longleftrightarrow> bit (mxcsr s) 15"

section \<open>Classification\<close>

definition DOUBLE_SIGN :: u64 where "DOUBLE_SIGN = 0x8000000000000000"
definition DOUBLE_EXP :: u64 where "DOUBLE_EXP = 0x7FF0000000000000"
definition DOUBLE_FRAC :: u64 where "DOUBLE_FRAC = 0x000FFFFFFFFFFFFF"
definition DOUBLE_ZERO :: u64 where "DOUBLE_ZERO = 0"
definition DOUBLE_QBIT :: u64 where "DOUBLE_QBIT = 0x0008000000000000"

lemmas double_defs = DOUBLE_SIGN_def DOUBLE_EXP_def DOUBLE_FRAC_def DOUBLE_ZERO_def DOUBLE_QBIT_def

definition FLOAT_SIGN :: u32 where "FLOAT_SIGN = 0x80000000"
definition FLOAT_EXP :: u32 where "FLOAT_EXP = 0x7F800000"
definition FLOAT_FRAC :: u32 where "FLOAT_FRAC = 0x007FFFFF"

definition PPC_FPCLASS_QNAN :: u32 where "PPC_FPCLASS_QNAN = 0x11"
definition PPC_FPCLASS_NINF :: u32 where "PPC_FPCLASS_NINF = 0x9"
definition PPC_FPCLASS_NN :: u32 where "PPC_FPCLASS_NN = 0x8"
definition PPC_FPCLASS_ND :: u32 where "PPC_FPCLASS_ND = 0x18"
definition PPC_FPCLASS_NZ :: u32 where "PPC_FPCLASS_NZ = 0x12"
definition PPC_FPCLASS_PZ :: u32 where "PPC_FPCLASS_PZ = 0x2"
definition PPC_FPCLASS_PD :: u32 where "PPC_FPCLASS_PD = 0x14"
definition PPC_FPCLASS_PN :: u32 where "PPC_FPCLASS_PN = 0x4"
definition PPC_FPCLASS_PINF :: u32 where "PPC_FPCLASS_PINF = 0x5"

lemmas fpclass_defs = PPC_FPCLASS_QNAN_def PPC_FPCLASS_NINF_def PPC_FPCLASS_NN_def PPC_FPCLASS_ND_def
  PPC_FPCLASS_NZ_def PPC_FPCLASS_PZ_def PPC_FPCLASS_PD_def PPC_FPCLASS_PN_def PPC_FPCLASS_PINF_def

definition ClassifyDouble :: "u64 \<Rightarrow> u32" where
  "ClassifyDouble dvalue =
     (let sign = dvalue AND DOUBLE_SIGN; exp = dvalue AND DOUBLE_EXP
      in if exp > DOUBLE_ZERO \<and> exp < DOUBLE_EXP then (if sign \<noteq> 0 then PPC_FPCLASS_NN else PPC_FPCLASS_PN)
         else (let mantissa = dvalue AND DOUBLE_FRAC
               in if mantissa \<noteq> 0 then
                    (if exp \<noteq> 0 then PPC_FPCLASS_QNAN
                     else if sign \<noteq> 0 then PPC_FPCLASS_ND else PPC_FPCLASS_PD)
                  else if exp \<noteq> 0 then (if sign \<noteq> 0 then PPC_FPCLASS_NINF else PPC_FPCLASS_PINF)
                  else if sign \<noteq> 0 then PPC_FPCLASS_NZ else PPC_FPCLASS_PZ))"

definition ClassifyFloat :: "u32 \<Rightarrow> u32" where
  "ClassifyFloat fvalue =
     (let sign = fvalue AND FLOAT_SIGN; exp = fvalue AND FLOAT_EXP
      in if exp > 0 \<and> exp < FLOAT_EXP then (if sign \<noteq> 0 then PPC_FPCLASS_NN else PPC_FPCLASS_PN)
         else (let mantissa = fvalue AND FLOAT_FRAC
               in if mantissa \<noteq> 0 then
                    (if exp \<noteq> 0 then PPC_FPCLASS_QNAN
                     else if sign \<noteq> 0 then PPC_FPCLASS_ND else PPC_FPCLASS_PD)
                  else if exp \<noteq> 0 then (if sign \<noteq> 0 then PPC_FPCLASS_NINF else PPC_FPCLASS_PINF)
                  else if sign \<noteq> 0 then PPC_FPCLASS_NZ else PPC_FPCLASS_PZ))"

definition IsQNAN :: "u64 \<Rightarrow> bool" where
  "IsQNAN d \<longleftrightarrow> d AND DOUBLE_EXP = DOUBLE_EXP \<and> d AND DOUBLE_QBIT = DOUBLE_QBIT"

definition IsSNAN :: "u64 \<Rightarrow> bool" where
  "IsSNAN d \<longleftrightarrow> d AND DOUBLE_EXP = DOUBLE_EXP \<and> d AND DOUBLE_FRAC \<noteq> DOUBLE_ZERO \<and> d AND DOUBLE_QBIT = DOUBLE_ZERO"

definition FlushToZero32 :: "u32 \<Rightarrow> u32" where
  "FlushToZero32 f = (if f AND FLOAT_EXP = 0 then f AND FLOAT_SIGN else f)"

definition FlushToZero64 :: "u64 \<Rightarrow> u64" where
  "FlushToZero64 d = (if d AND DOUBLE_EXP = 0 then d AND DOUBLE_SIGN else d)"

definition UpdateFPRF :: "u64 \<Rightarrow> ppc \<Rightarrow> ppc" where
  "UpdateFPRF dvalue s = set_FPRF (ClassifyDouble dvalue) s"

section \<open>Arithmetic\<close>

definition PPC_NAN :: u64 where "PPC_NAN = 0x7FF8000000000000"

definition ForceSingle :: "u64 \<Rightarrow> ppc \<Rightarrow> u64" where
  "ForceSingle value s =
     (let x = f64_to_f32 (host_mode s) (host_ftz s) value;
          x = (if \<not> bFlushToZero s \<and> FPSCR_NI s \<noteq> 0 then FlushToZero32 x else x)
      in f32_to_f64 x)"

definition ForceDouble :: "u64 \<Rightarrow> ppc \<Rightarrow> u64" where
  "ForceDouble d s = (if \<not> bFlushToZero s \<and> FPSCR_NI s \<noteq> 0 then FlushToZero64 d else d)"

definition Force25Bit :: "u64 \<Rightarrow> u64" where
  "Force25Bit d = (d AND 0xFFFFFFFFF8000000) + (d AND 0x8000000)"

definition MakeQuiet :: "u64 \<Rightarrow> u64" where "MakeQuiet d = d OR DOUBLE_QBIT"

definition NI_mul :: "u64 \<Rightarrow> u64 \<Rightarrow> ppc \<Rightarrow> u64 \<times> ppc" where
  "NI_mul a b s =
     (let t = f64_mul (host_mode s) (host_ftz s) a b
      in if f64_isnan t then
           (if f64_isnan a then (MakeQuiet a, s)
            else if f64_isnan b then (MakeQuiet b, s)
            else (PPC_NAN, SetFPException FPSCR_VXIMZ s))
         else (t, s))"

definition NI_div :: "u64 \<Rightarrow> u64 \<Rightarrow> ppc \<Rightarrow> u64 \<times> ppc" where
  "NI_div a b s =
     (let t = f64_div (host_mode s) (host_ftz s) a b
      in if f64_isnan t then
           (if f64_isnan a then (MakeQuiet a, s)
            else if f64_isnan b then (MakeQuiet b, s)
            else if f64_eq b 0 then
              (let s = SetFPException FPSCR_ZX s;
                   s = (if f64_eq a 0 then SetFPException FPSCR_VXZDZ s else s)
               in (PPC_NAN, s))
            else if f64_isinf a \<and> f64_isinf b then (PPC_NAN, SetFPException FPSCR_VXIDI s)
            else (PPC_NAN, s))
         else (t, s))"

definition NI_add :: "u64 \<Rightarrow> u64 \<Rightarrow> ppc \<Rightarrow> u64 \<times> ppc" where
  "NI_add a b s =
     (let t = f64_add (host_mode s) (host_ftz s) a b
      in if f64_isnan t then
           (if f64_isnan a then (MakeQuiet a, s)
            else if f64_isnan b then (MakeQuiet b, s)
            else (PPC_NAN, SetFPException FPSCR_VXISI s))
         else (t, s))"

definition NI_sub :: "u64 \<Rightarrow> u64 \<Rightarrow> ppc \<Rightarrow> u64 \<times> ppc" where
  "NI_sub a b s =
     (let t = f64_sub (host_mode s) (host_ftz s) a b
      in if f64_isnan t then
           (if f64_isnan a then (MakeQuiet a, s)
            else if f64_isnan b then (MakeQuiet b, s)
            else (PPC_NAN, SetFPException FPSCR_VXISI s))
         else (t, s))"

text \<open>The product is rounded before the sum, by the code as written.\<close>

definition NI_madd :: "u64 \<Rightarrow> u64 \<Rightarrow> u64 \<Rightarrow> ppc \<Rightarrow> u64 \<times> ppc" where
  "NI_madd a c b s =
     (let t = f64_mul (host_mode s) (host_ftz s) a c
      in if f64_isnan t then
           (if f64_isnan a then (MakeQuiet a, s)
            else if f64_isnan b then (MakeQuiet b, s)
            else if f64_isnan c then (MakeQuiet c, s)
            else (PPC_NAN, SetFPException FPSCR_VXIMZ s))
         else (let t = f64_add (host_mode s) (host_ftz s) t b
               in if f64_isnan t then
                    (if f64_isnan b then (MakeQuiet b, s)
                     else (PPC_NAN, SetFPException FPSCR_VXISI s))
                  else (t, s)))"

definition NI_msub :: "u64 \<Rightarrow> u64 \<Rightarrow> u64 \<Rightarrow> ppc \<Rightarrow> u64 \<times> ppc" where
  "NI_msub a c b s =
     (let t = f64_mul (host_mode s) (host_ftz s) a c
      in if f64_isnan t then
           (if f64_isnan a then (MakeQuiet a, s)
            else if f64_isnan b then (MakeQuiet b, s)
            else if f64_isnan c then (MakeQuiet c, s)
            else (PPC_NAN, SetFPException FPSCR_VXIMZ s))
         else (let t = f64_sub (host_mode s) (host_ftz s) t b
               in if f64_isnan t then
                    (if f64_isnan b then (MakeQuiet b, s)
                     else (PPC_NAN, SetFPException FPSCR_VXISI s))
                  else (t, s)))"

definition ConvertToSingleFTZ :: "u64 \<Rightarrow> u32" where
  "ConvertToSingleFTZ x =
     (let exp = ucast (drop_bit 52 x AND 0x7ff) :: u32
      in if exp > 896 \<or> x AND NOT DOUBLE_SIGN = 0
         then ucast ((drop_bit 32 x AND 0xc0000000) OR (drop_bit 29 x AND 0x3fffffff))
         else ucast (drop_bit 32 x AND 0x80000000))"

section \<open>Estimates\<close>

text \<open>The pairs \<open>(m_base, m_dec)\<close> of \<open>BaseAndDec\<close>.\<close>

definition frsqrte_expected :: "(int \<times> int) list" where
  "frsqrte_expected =
    [(0x3ffa000, 0x7a4), (0x3c29000, 0x700), (0x38aa000, 0x670), (0x3572000, 0x5f2),
     (0x3279000, 0x584), (0x2fb7000, 0x524), (0x2d26000, 0x4cc), (0x2ac0000, 0x47e),
     (0x2881000, 0x43a), (0x2665000, 0x3fa), (0x2468000, 0x3c2), (0x2287000, 0x38e),
     (0x20c1000, 0x35e), (0x1f12000, 0x332), (0x1d79000, 0x30a), (0x1bf4000, 0x2e6),
     (0x1a7e800, 0x568), (0x17cb800, 0x4f3), (0x1552800, 0x48d), (0x130c000, 0x435),
     (0x10f2000, 0x3e7), (0x0eff000, 0x3a2), (0x0d2e000, 0x365), (0x0b7c000, 0x32e),
     (0x09e5000, 0x2fc), (0x0867000, 0x2d0), (0x06ff000, 0x2a8), (0x05ab800, 0x283),
     (0x046a000, 0x261), (0x0339800, 0x243), (0x0218800, 0x226), (0x0105800, 0x20b)]"

definition fres_expected :: "(int \<times> int) list" where
  "fres_expected =
    [(0x7ff800, 0x3e1), (0x783800, 0x3a7), (0x70ea00, 0x371), (0x6a0800, 0x340),
     (0x638800, 0x313), (0x5d6200, 0x2ea), (0x579000, 0x2c4), (0x520800, 0x2a0),
     (0x4cc800, 0x27f), (0x47ca00, 0x261), (0x430800, 0x245), (0x3e8000, 0x22a),
     (0x3a2c00, 0x212), (0x360800, 0x1fb), (0x321400, 0x1e5), (0x2e4a00, 0x1d1),
     (0x2aa800, 0x1be), (0x272c00, 0x1ac), (0x23d600, 0x19b), (0x209e00, 0x18b),
     (0x1d8800, 0x17c), (0x1a9000, 0x16e), (0x17ae00, 0x15b), (0x14f800, 0x15b),
     (0x124400, 0x143), (0x0fbe00, 0x143), (0x0d3800, 0x12d), (0x0ade00, 0x12d),
     (0x088400, 0x11a), (0x065000, 0x11a), (0x041c00, 0x108), (0x020c00, 0x106)]"

text \<open>The loop that normalises a subnormal, which ends within 52 rounds when the fraction is not 0.\<close>

fun normalize_denormal :: "nat \<Rightarrow> s64 \<Rightarrow> s64 \<Rightarrow> s64 \<times> s64" where
  "normalize_denormal 0 mantissa exponent = (mantissa, exponent)"
| "normalize_denormal (Suc n) mantissa exponent =
     (let exponent = exponent - push_bit 52 1; mantissa = push_bit 1 mantissa
      in if mantissa AND push_bit 52 1 = 0 then normalize_denormal n mantissa exponent
         else (mantissa, exponent))"

text \<open>The index into the table and the interpolated fraction, from the top 15 bits \<open>i\<close> of the fraction.\<close>

definition frsqrte_index :: "bool \<Rightarrow> int \<Rightarrow> nat" where
  "frsqrte_index odd_exponent i = nat (i sdiv 2048 + (if odd_exponent then 16 else 0))"

definition frsqrte_fraction :: "bool \<Rightarrow> int \<Rightarrow> int" where
  "frsqrte_fraction odd_exponent i =
     (let (m_base, m_dec) = frsqrte_expected ! frsqrte_index odd_exponent i
      in m_base - m_dec * (i smod 2048))"

definition ApproximateReciprocalSquareRoot :: "u64 \<Rightarrow> u64" where
  "ApproximateReciprocalSquareRoot val =
     (let mantissa = val AND (push_bit 52 1 - 1) :: s64;
          sign = val AND push_bit 63 1;
          exponent = val AND push_bit 52 0x7FF
      in if mantissa = 0 \<and> exponent = 0 then (if sign \<noteq> 0 then 0xFFF0000000000000 else 0x7FF0000000000000)
         else if exponent = push_bit 52 0x7FF then
           (if mantissa = 0 then (if sign \<noteq> 0 then PPC_NAN else 0) else f64_add 0 False 0 val)
         else if sign \<noteq> 0 then PPC_NAN
         else
           (let (mantissa, exponent) =
                  (if exponent = 0 then
                     (let (m, e) = normalize_denormal 52 mantissa exponent
                      in (m AND (push_bit 52 1 - 1), e + push_bit 52 1))
                   else (mantissa, exponent));
                odd_exponent = (exponent AND push_bit 52 1 = 0);
                exponent = (push_bit 52 0x3FF - word_of_int (sint (exponent - push_bit 52 0x3FE) sdiv 2))
                  AND push_bit 52 0x7FF;
                i = sint (drop_bit 37 mantissa);
                vali = sign OR exponent
            in vali OR push_bit 26 (word_of_int (frsqrte_fraction odd_exponent i))))"

definition fres_fraction :: "int \<Rightarrow> int" where
  "fres_fraction i =
     (let (m_base, m_dec) = fres_expected ! nat (i sdiv 1024)
      in m_base - (m_dec * (i smod 1024) + 1) sdiv 2)"

text \<open>\<open>std::copysign\<close>.\<close>

definition copysign :: "u64 \<Rightarrow> u64 \<Rightarrow> u64" where
  "copysign x y = (x AND NOT DOUBLE_SIGN) OR (y AND DOUBLE_SIGN)"

definition ApproximateReciprocal :: "u64 \<Rightarrow> u64" where
  "ApproximateReciprocal val =
     (let mantissa = val AND (push_bit 52 1 - 1) :: s64;
          sign = val AND push_bit 63 1;
          exponent = val AND push_bit 52 0x7FF
      in if mantissa = 0 \<and> exponent = 0 then copysign 0x7FF0000000000000 val
         else if exponent = push_bit 52 0x7FF then
           (if mantissa = 0 then copysign 0 val else f64_add 0 False 0 val)
         else if sint exponent < sint (push_bit 52 895 :: s64) then copysign (f32_to_f64 0x7F7FFFFF) val
         else if sint exponent \<ge> sint (push_bit 52 1149 :: s64) then copysign 0 val
         else
           (let exponent = push_bit 52 0x7FD - exponent;
                i = sint (drop_bit 37 mantissa);
                vali = sign OR exponent
            in vali OR push_bit 29 (word_of_int (fres_fraction i))))"

section \<open>Moves to and from FPSCR\<close>

definition inst_FB :: "u32 \<Rightarrow> nat" where "inst_FB inst = unat (ifield inst 11 5)"
definition inst_FM :: "u32 \<Rightarrow> u32" where "inst_FM inst = ifield inst 17 8"

definition mtfsb0x :: "u32 \<Rightarrow> ppc \<Rightarrow> ppc" where
  "mtfsb0x inst s =
     (let b = drop_bit (inst_CRBD inst) 0x80000000;
          s = s\<lparr>fpscr := fpscr s AND NOT b\<rparr>;
          s = FPSCRtoFPUSettings s
      in record_CR1 inst s)"

definition mtfsb1x :: "u32 \<Rightarrow> ppc \<Rightarrow> ppc" where
  "mtfsb1x inst s =
     (let b = drop_bit (inst_CRBD inst) 0x80000000;
          s = (if b AND FPSCR_ANY_X \<noteq> 0 then SetFPException b s else s\<lparr>fpscr := fpscr s OR b\<rparr>);
          s = FPSCRtoFPUSettings s
      in record_CR1 inst s)"

definition mtfsfix :: "u32 \<Rightarrow> ppc \<Rightarrow> ppc" where
  "mtfsfix inst s =
     (let m = drop_bit (4 * inst_CRFD inst) 0xF0000000;
          imm = push_bit 16 inst AND 0xF0000000;
          s = s\<lparr>fpscr := (fpscr s AND NOT m) OR drop_bit (4 * inst_CRFD inst) imm\<rparr>;
          s = FPSCRtoFPUSettings s
      in record_CR1 inst s)"

text \<open>The loop over the bits of \<open>FM\<close>.\<close>

definition fm_mask :: "u32 \<Rightarrow> u32" where
  "fm_mask fm =
     fold (\<lambda>i m. if fm AND push_bit i 1 \<noteq> 0 then m OR push_bit (i * 4) 0xF else m) [0..<8] 0"

definition mtfsfx :: "u32 \<Rightarrow> ppc \<Rightarrow> ppc" where
  "mtfsfx inst s =
     (let m = fm_mask (inst_FM inst);
          s = s\<lparr>fpscr := (fpscr s AND NOT m) OR (ucast (ps s (inst_FB inst) 0) AND m)\<rparr>;
          s = FPSCRtoFPUSettings s
      in record_CR1 inst s)"

text \<open>The bits \<open>mcrfs\<close> clears in the field it copies.\<close>

definition mcrfs_cleared :: "nat \<Rightarrow> u32" where
  "mcrfs_cleared crfs =
     (if crfs = 0 then FPSCR_FX OR FPSCR_OX
      else if crfs = 1 then FPSCR_UX OR FPSCR_ZX OR FPSCR_XX OR FPSCR_VXSNAN
      else if crfs = 2 then FPSCR_VXISI OR FPSCR_VXIDI OR FPSCR_VXZDZ OR FPSCR_VXIMZ
      else if crfs = 3 then FPSCR_VXVC
      else if crfs = 5 then FPSCR_VXSOFT OR FPSCR_VXSQRT OR FPSCR_VXCVI
      else 0)"

definition mcrfs :: "u32 \<Rightarrow> ppc \<Rightarrow> ppc" where
  "mcrfs inst s =
     (let s = UpdateFPSCR s;
          fpflags = drop_bit (4 * (7 - inst_CRFS inst)) (fpscr s) AND 0xF;
          s = s\<lparr>fpscr := fpscr s AND NOT (mcrfs_cleared (inst_CRFS inst))\<rparr>
      in SetCRField (inst_CRFD inst) fpflags s)"

definition mffsx :: "u32 \<Rightarrow> ppc \<Rightarrow> ppc" where
  "mffsx inst s =
     (let s = UpdateFPSCR s;
          s = set_ps0 (inst_FD inst) (0xFFF8000000000000 OR ucast (fpscr s)) s
      in record_CR1 inst s)"

end
