(* ===== verification/PPC_FloatingPoint.thy ===== *)
theory PPC_FloatingPoint
  imports PPC_FPUtils
begin

text \<open>
  The scalar floating-point instructions of \<open>Interpreter_FloatingPoint.cpp\<close>.  \<open>rPS0\<close> and \<open>rPS1\<close> are the
  two halves of a paired register; a double is its bit pattern.
\<close>

definition inst_FA :: "u32 \<Rightarrow> nat" where "inst_FA inst = unat (ifield inst 16 5)"
definition inst_FC :: "u32 \<Rightarrow> nat" where "inst_FC inst = unat (ifield inst 6 5)"

abbreviation rPS0 :: "ppc \<Rightarrow> nat \<Rightarrow> u64" where "rPS0 s i \<equiv> ps s i 0"
abbreviation rPS1 :: "ppc \<Rightarrow> nat \<Rightarrow> u64" where "rPS1 s i \<equiv> ps s i 1"
abbreviation set_both :: "nat \<Rightarrow> u64 \<Rightarrow> ppc \<Rightarrow> ppc" where
  "set_both i v s \<equiv> set_ps0 i v (set_ps1 i v s)"

section \<open>Comparisons\<close>

definition FL :: u32 where "FL = 8"
definition FG :: u32 where "FG = 4"
definition FE :: u32 where "FE = 2"
definition FU :: u32 where "FU = 1"

lemmas fpcc_defs = FL_def FG_def FE_def FU_def

definition Helper_FloatCompareOrdered :: "u32 \<Rightarrow> u64 \<Rightarrow> u64 \<Rightarrow> ppc \<Rightarrow> ppc" where
  "Helper_FloatCompareOrdered inst fa fb s =
     (let (compareResult, s) =
            (if f64_isnan fa \<or> f64_isnan fb then
               (FU, if IsSNAN fa \<or> IsSNAN fb then
                      (let s = SetFPException FPSCR_VXSNAN s
                       in if FPSCR_VE s = 0 then SetFPException FPSCR_VXVC s else s)
                    else SetFPException FPSCR_VXVC s)
             else if f64_less fa fb then (FL, s)
             else if f64_less fb fa then (FG, s)
             else (FE, s));
          s = set_FPRF ((FPSCR_FPRF s AND NOT 0xF) OR compareResult) s
      in SetCRField (inst_CRFD inst) compareResult s)"

definition Helper_FloatCompareUnordered :: "u32 \<Rightarrow> u64 \<Rightarrow> u64 \<Rightarrow> ppc \<Rightarrow> ppc" where
  "Helper_FloatCompareUnordered inst fa fb s =
     (let (compareResult, s) =
            (if f64_isnan fa \<or> f64_isnan fb then
               (FU, if IsSNAN fa \<or> IsSNAN fb then SetFPException FPSCR_VXSNAN s else s)
             else if f64_less fa fb then (FL, s)
             else if f64_less fb fa then (FG, s)
             else (FE, s));
          s = set_FPRF ((FPSCR_FPRF s AND NOT 0xF) OR compareResult) s
      in SetCRField (inst_CRFD inst) compareResult s)"

definition fcmpo :: "u32 \<Rightarrow> ppc \<Rightarrow> ppc" where
  "fcmpo inst s = Helper_FloatCompareOrdered inst (rPS0 s (inst_FA inst)) (rPS0 s (inst_FB inst)) s"

definition fcmpu :: "u32 \<Rightarrow> ppc \<Rightarrow> ppc" where
  "fcmpu inst s = Helper_FloatCompareUnordered inst (rPS0 s (inst_FA inst)) (rPS0 s (inst_FB inst)) s"

section \<open>Conversions to integers\<close>

text \<open>The constants \<open>(double)0x7fffffff\<close> and \<open>-(double)0x80000000\<close>, and 0.5.\<close>

definition s32_max :: u64 where "s32_max = f64_of_int 0 0x7fffffff"
definition s32_min :: u64 where "s32_min = f64_negate (f64_of_int 0 0x80000000)"
definition half :: u64 where "half = 0x3FE0000000000000"

text \<open>The \<open>switch\<close> over the rounding mode.\<close>

definition round_s32 :: "u64 \<Rightarrow> ppc \<Rightarrow> s32" where
  "round_s32 b s =
     (let sub = f64_sub (host_mode s) (host_ftz s);
          dbl = (\<lambda>i. f64_of_int (host_mode s) (sint (i :: s32)))
      in if FPSCR_RN s = 0 then
           (let t = f64_add (host_mode s) (host_ftz s) b half;
                i = f64_to_s32 t
            in if f64_less (sub t (dbl i)) 0 \<or> f64_eq (sub t (dbl i)) 0 \<and> f64_less 0 b then i - 1 else i)
         else if FPSCR_RN s = 1 then f64_to_s32 b
         else if FPSCR_RN s = 2 then
           (let i = f64_to_s32 b in if f64_less 0 (sub b (dbl i)) then i + 1 else i)
         else
           (let i = f64_to_s32 b in if f64_less (sub b (dbl i)) 0 then i - 1 else i))"

text \<open>The flags of a conversion in range, which depend on whether it was exact.\<close>

definition convert_flags :: "u64 \<Rightarrow> s32 \<Rightarrow> ppc \<Rightarrow> ppc" where
  "convert_flags b i s =
     (let di = f64_of_int (host_mode s) (sint i)
      in if f64_eq di b then set_FR 0 (set_FI 0 s)
         else set_FR (of_bool (f64_less (f64_abs b) (f64_abs di))) (SetFI 1 s))"

text \<open>The result in its register; a negative number that became 0 is marked.\<close>

definition store_s32 :: "u32 \<Rightarrow> u64 \<Rightarrow> u32 \<Rightarrow> ppc \<Rightarrow> ppc" where
  "store_s32 inst b value s =
     (let s = set_ps0 (inst_FD inst) (0xfff8000000000000 OR ucast value) s;
          s = (if value = 0 \<and> f64_neg b
               then set_ps0 (inst_FD inst) (rPS0 s (inst_FD inst) OR 0x100000000) s else s)
      in record_CR1 inst s)"

definition fctiwx :: "u32 \<Rightarrow> ppc \<Rightarrow> ppc" where
  "fctiwx inst s =
     (let b = rPS0 s (inst_FB inst);
          (value, s) =
            (if f64_less s32_max b then (0x7fffffff, set_FR 0 (set_FI 0 (SetFPException FPSCR_VXCVI s)))
             else if f64_less b s32_min then (0x80000000, set_FR 0 (set_FI 0 (SetFPException FPSCR_VXCVI s)))
             else (let i = round_s32 b s in (i, convert_flags b i s)))
      in store_s32 inst b value s)"

definition fctiwzx :: "u32 \<Rightarrow> ppc \<Rightarrow> ppc" where
  "fctiwzx inst s =
     (let b = rPS0 s (inst_FB inst);
          (value, s) =
            (if f64_less s32_max b then (0x7fffffff, set_FR 0 (set_FI 0 (SetFPException FPSCR_VXCVI s)))
             else if f64_less b s32_min then (0x80000000, set_FR 0 (set_FI 0 (SetFPException FPSCR_VXCVI s)))
             else (let i = f64_to_s32 b in (i, convert_flags b i s)))
      in store_s32 inst b value s)"

section \<open>Moves\<close>

definition fmrx :: "u32 \<Rightarrow> ppc \<Rightarrow> ppc" where
  "fmrx inst s = record_CR1 inst (set_ps0 (inst_FD inst) (rPS0 s (inst_FB inst)) s)"

definition fabsx :: "u32 \<Rightarrow> ppc \<Rightarrow> ppc" where
  "fabsx inst s = record_CR1 inst (set_ps0 (inst_FD inst) (f64_abs (rPS0 s (inst_FB inst))) s)"

definition fnabsx :: "u32 \<Rightarrow> ppc \<Rightarrow> ppc" where
  "fnabsx inst s = record_CR1 inst (set_ps0 (inst_FD inst) (rPS0 s (inst_FB inst) OR push_bit 63 1) s)"

definition fnegx :: "u32 \<Rightarrow> ppc \<Rightarrow> ppc" where
  "fnegx inst s = record_CR1 inst (set_ps0 (inst_FD inst) (rPS0 s (inst_FB inst) XOR push_bit 63 1) s)"

text \<open>\<open>a >= -0.0\<close>.\<close>

definition at_least_zero :: "u64 \<Rightarrow> bool" where
  "at_least_zero a \<longleftrightarrow> f64_less 0x8000000000000000 a \<or> f64_eq a 0x8000000000000000"

definition fselx :: "u32 \<Rightarrow> ppc \<Rightarrow> ppc" where
  "fselx inst s =
     record_CR1 inst (set_ps0 (inst_FD inst)
       (if at_least_zero (rPS0 s (inst_FA inst)) then rPS0 s (inst_FC inst) else rPS0 s (inst_FB inst)) s)"

definition frspx :: "u32 \<Rightarrow> ppc \<Rightarrow> ppc" where
  "frspx inst s =
     (let b = rPS0 s (inst_FB inst);
          rounded = ForceSingle b s;
          s = SetFI (of_bool (\<not> f64_eq b rounded)) s;
          s = set_FR (of_bool (f64_less (f64_abs b) (f64_abs rounded))) s;
          s = UpdateFPRF rounded s;
          s = set_both (inst_FD inst) rounded s
      in record_CR1 inst s)"

section \<open>Arithmetic\<close>

text \<open>\<open>std::isnan(result) ? result : -result\<close>.\<close>

definition negate_number :: "u64 \<Rightarrow> u64" where
  "negate_number result = (if f64_isnan result then result else f64_negate result)"

definition fmulx :: "u32 \<Rightarrow> ppc \<Rightarrow> ppc" where
  "fmulx inst s =
     (let (d_value, s) = NI_mul (rPS0 s (inst_FA inst)) (rPS0 s (inst_FC inst)) s;
          s = set_ps0 (inst_FD inst) (ForceDouble d_value s) s;
          s = set_FI 0 s;
          s = set_FR 0 s;
          s = UpdateFPRF (rPS0 s (inst_FD inst)) s
      in record_CR1 inst s)"

definition fmulsx :: "u32 \<Rightarrow> ppc \<Rightarrow> ppc" where
  "fmulsx inst s =
     (let c_value = Force25Bit (rPS0 s (inst_FC inst));
          (d_value, s) = NI_mul (rPS0 s (inst_FA inst)) c_value s;
          s = set_both (inst_FD inst) (ForceSingle d_value s) s;
          s = set_FI 0 s;
          s = set_FR 0 s;
          s = UpdateFPRF (rPS0 s (inst_FD inst)) s
      in record_CR1 inst s)"

definition fmaddx :: "u32 \<Rightarrow> ppc \<Rightarrow> ppc" where
  "fmaddx inst s =
     (let (d_value, s) = NI_madd (rPS0 s (inst_FA inst)) (rPS0 s (inst_FC inst)) (rPS0 s (inst_FB inst)) s;
          result = ForceDouble d_value s;
          s = set_ps0 (inst_FD inst) (result) s;
          s = UpdateFPRF result s
      in record_CR1 inst s)"

definition fmaddsx :: "u32 \<Rightarrow> ppc \<Rightarrow> ppc" where
  "fmaddsx inst s =
     (let c_value = Force25Bit (rPS0 s (inst_FC inst));
          (d_value, s) = NI_madd (rPS0 s (inst_FA inst)) c_value (rPS0 s (inst_FB inst)) s;
          s = set_both (inst_FD inst) (ForceSingle d_value s) s;
          s = set_FI (of_bool (\<not> f64_eq d_value (rPS0 s (inst_FD inst)))) s;
          s = set_FR 0 s;
          s = UpdateFPRF (rPS0 s (inst_FD inst)) s
      in record_CR1 inst s)"

definition faddx :: "u32 \<Rightarrow> ppc \<Rightarrow> ppc" where
  "faddx inst s =
     (let (d_value, s) = NI_add (rPS0 s (inst_FA inst)) (rPS0 s (inst_FB inst)) s;
          s = set_ps0 (inst_FD inst) (ForceDouble d_value s) s;
          s = UpdateFPRF (rPS0 s (inst_FD inst)) s
      in record_CR1 inst s)"

definition faddsx :: "u32 \<Rightarrow> ppc \<Rightarrow> ppc" where
  "faddsx inst s =
     (let (d_value, s) = NI_add (rPS0 s (inst_FA inst)) (rPS0 s (inst_FB inst)) s;
          s = set_both (inst_FD inst) (ForceSingle d_value s) s;
          s = UpdateFPRF (rPS0 s (inst_FD inst)) s
      in record_CR1 inst s)"

definition fdivx :: "u32 \<Rightarrow> ppc \<Rightarrow> ppc" where
  "fdivx inst s =
     (let (d_value, s) = NI_div (rPS0 s (inst_FA inst)) (rPS0 s (inst_FB inst)) s;
          s = set_ps0 (inst_FD inst) (ForceDouble d_value s) s;
          s = UpdateFPRF (rPS0 s (inst_FD inst)) s
      in record_CR1 inst s)"

definition fdivsx :: "u32 \<Rightarrow> ppc \<Rightarrow> ppc" where
  "fdivsx inst s =
     (let (d_value, s) = NI_div (rPS0 s (inst_FA inst)) (rPS0 s (inst_FB inst)) s;
          s = set_both (inst_FD inst) (ForceSingle d_value s) s;
          s = UpdateFPRF (rPS0 s (inst_FD inst)) s
      in record_CR1 inst s)"

definition fresx :: "u32 \<Rightarrow> ppc \<Rightarrow> ppc" where
  "fresx inst s =
     (let b = rPS0 s (inst_FB inst);
          s = set_both (inst_FD inst) (ApproximateReciprocal b) s;
          s = (if f64_eq b 0 then SetFPException FPSCR_ZX s else s);
          s = UpdateFPRF (rPS0 s (inst_FD inst)) s
      in record_CR1 inst s)"

definition frsqrtex :: "u32 \<Rightarrow> ppc \<Rightarrow> ppc" where
  "frsqrtex inst s =
     (let b = rPS0 s (inst_FB inst);
          s = (if f64_less b 0 then SetFPException FPSCR_VXSQRT s
               else if f64_eq b 0 then SetFPException FPSCR_ZX s else s);
          s = set_ps0 (inst_FD inst) (ApproximateReciprocalSquareRoot b) s;
          s = UpdateFPRF (rPS0 s (inst_FD inst)) s
      in record_CR1 inst s)"

definition fmsubx :: "u32 \<Rightarrow> ppc \<Rightarrow> ppc" where
  "fmsubx inst s =
     (let (d_value, s) = NI_msub (rPS0 s (inst_FA inst)) (rPS0 s (inst_FC inst)) (rPS0 s (inst_FB inst)) s;
          s = set_ps0 (inst_FD inst) (ForceDouble d_value s) s;
          s = UpdateFPRF (rPS0 s (inst_FD inst)) s
      in record_CR1 inst s)"

definition fmsubsx :: "u32 \<Rightarrow> ppc \<Rightarrow> ppc" where
  "fmsubsx inst s =
     (let c_value = Force25Bit (rPS0 s (inst_FC inst));
          (d_value, s) = NI_msub (rPS0 s (inst_FA inst)) c_value (rPS0 s (inst_FB inst)) s;
          s = set_both (inst_FD inst) (ForceSingle d_value s) s;
          s = UpdateFPRF (rPS0 s (inst_FD inst)) s
      in record_CR1 inst s)"

definition fnmaddx :: "u32 \<Rightarrow> ppc \<Rightarrow> ppc" where
  "fnmaddx inst s =
     (let (d_value, s) = NI_madd (rPS0 s (inst_FA inst)) (rPS0 s (inst_FC inst)) (rPS0 s (inst_FB inst)) s;
          result = ForceDouble d_value s;
          s = set_ps0 (inst_FD inst) (negate_number result) s;
          s = UpdateFPRF (rPS0 s (inst_FD inst)) s
      in record_CR1 inst s)"

definition fnmaddsx :: "u32 \<Rightarrow> ppc \<Rightarrow> ppc" where
  "fnmaddsx inst s =
     (let c_value = Force25Bit (rPS0 s (inst_FC inst));
          (d_value, s) = NI_madd (rPS0 s (inst_FA inst)) c_value (rPS0 s (inst_FB inst)) s;
          result = ForceSingle d_value s;
          s = set_both (inst_FD inst) (negate_number result) s;
          s = UpdateFPRF (rPS0 s (inst_FD inst)) s
      in record_CR1 inst s)"

definition fnmsubx :: "u32 \<Rightarrow> ppc \<Rightarrow> ppc" where
  "fnmsubx inst s =
     (let (d_value, s) = NI_msub (rPS0 s (inst_FA inst)) (rPS0 s (inst_FC inst)) (rPS0 s (inst_FB inst)) s;
          result = ForceDouble d_value s;
          s = set_ps0 (inst_FD inst) (negate_number result) s;
          s = UpdateFPRF (rPS0 s (inst_FD inst)) s
      in record_CR1 inst s)"

definition fnmsubsx :: "u32 \<Rightarrow> ppc \<Rightarrow> ppc" where
  "fnmsubsx inst s =
     (let c_value = Force25Bit (rPS0 s (inst_FC inst));
          (d_value, s) = NI_msub (rPS0 s (inst_FA inst)) c_value (rPS0 s (inst_FB inst)) s;
          result = ForceSingle d_value s;
          s = set_both (inst_FD inst) (negate_number result) s;
          s = UpdateFPRF (rPS0 s (inst_FD inst)) s
      in record_CR1 inst s)"

definition fsubx :: "u32 \<Rightarrow> ppc \<Rightarrow> ppc" where
  "fsubx inst s =
     (let (d_value, s) = NI_sub (rPS0 s (inst_FA inst)) (rPS0 s (inst_FB inst)) s;
          s = set_ps0 (inst_FD inst) (ForceDouble d_value s) s;
          s = UpdateFPRF (rPS0 s (inst_FD inst)) s
      in record_CR1 inst s)"

definition fsubsx :: "u32 \<Rightarrow> ppc \<Rightarrow> ppc" where
  "fsubsx inst s =
     (let (d_value, s) = NI_sub (rPS0 s (inst_FA inst)) (rPS0 s (inst_FB inst)) s;
          s = set_both (inst_FD inst) (ForceSingle d_value s) s;
          s = UpdateFPRF (rPS0 s (inst_FD inst)) s
      in record_CR1 inst s)"

end
