(* ===== verification/PPC_Quantize.thy ===== *)
theory PPC_Quantize
  imports PPC_FloatingPoint
begin

text \<open>
  The quantised loads and stores of \<open>Interpreter_LoadStorePaired.cpp\<close>: pairs of scaled 8- and 16-bit
  integers, or of singles, under the registers GQR0 to GQR7 (\<open>UGQR\<close>, \<open>Gekko.h\<close>).
\<close>

section \<open>Fields\<close>

definition inst_SIMM_12 :: "u32 \<Rightarrow> u32" where "inst_SIMM_12 inst = scast (ucast inst :: 12 word)"
definition inst_I :: "u32 \<Rightarrow> u32" where "inst_I inst = ifield inst 12 3"
definition inst_W :: "u32 \<Rightarrow> bool" where "inst_W inst \<longleftrightarrow> ifield inst 15 1 \<noteq> 0"
definition inst_Ix :: "u32 \<Rightarrow> u32" where "inst_Ix inst = ifield inst 7 3"
definition inst_Wx :: "u32 \<Rightarrow> bool" where "inst_Wx inst \<longleftrightarrow> ifield inst 10 1 \<noteq> 0"

definition SPR_GQR0 :: nat where "SPR_GQR0 = 912"

datatype EQuantizeType =
    QUANTIZE_FLOAT | QUANTIZE_INVALID1 | QUANTIZE_INVALID2 | QUANTIZE_INVALID3
  | QUANTIZE_U8 | QUANTIZE_U16 | QUANTIZE_S8 | QUANTIZE_S16

definition quantize_types :: "EQuantizeType list" where
  "quantize_types =
     [QUANTIZE_FLOAT, QUANTIZE_INVALID1, QUANTIZE_INVALID2, QUANTIZE_INVALID3,
      QUANTIZE_U8, QUANTIZE_U16, QUANTIZE_S8, QUANTIZE_S16]"

definition gqr_st_type :: "u32 \<Rightarrow> EQuantizeType" where
  "gqr_st_type gqr = quantize_types ! unat (take_bit 3 gqr)"
definition gqr_st_scale :: "u32 \<Rightarrow> nat" where
  "gqr_st_scale gqr = unat (take_bit 6 (drop_bit 8 gqr))"
definition gqr_ld_type :: "u32 \<Rightarrow> EQuantizeType" where
  "gqr_ld_type gqr = quantize_types ! unat (take_bit 3 (drop_bit 16 gqr))"
definition gqr_ld_scale :: "u32 \<Rightarrow> nat" where
  "gqr_ld_scale gqr = unat (take_bit 6 (drop_bit 24 gqr))"

section \<open>The tables of powers of two\<close>

text \<open>The \<open>float\<close> \<open>2 ^ e\<close>: the tables list the exponents 0 to 31 and then 32 down to 1 of the other sign.\<close>

definition power_float :: "int \<Rightarrow> u32" where
  "power_float e = push_bit 23 (word_of_int (e + 127))"

definition m_dequantizeTable :: "u32 list" where
  "m_dequantizeTable =
     map (\<lambda>i. power_float (- int i)) [0..<32] @ map (\<lambda>i. power_float (32 - int i)) [0..<32]"

definition m_quantizeTable :: "u32 list" where
  "m_quantizeTable =
     map (\<lambda>i. power_float (int i)) [0..<32] @ map (\<lambda>i. power_float (int i - 32)) [0..<32]"

section \<open>Stores\<close>

text \<open>\<open>std::min\<close>, \<open>std::max\<close> and \<open>Clamp\<close>, which sends a NaN to the maximum.\<close>

definition float_min :: "u32 \<Rightarrow> u32 \<Rightarrow> u32" where "float_min a b = (if f32_less b a then b else a)"
definition float_max :: "u32 \<Rightarrow> u32 \<Rightarrow> u32" where "float_max a b = (if f32_less a b then b else a)"
definition Clamp :: "u32 \<Rightarrow> u32 \<Rightarrow> u32 \<Rightarrow> u32" where
  "Clamp val lo hi = float_max lo (float_min hi val)"

text \<open>\<open>std::numeric_limits\<close> of the integer type.\<close>

definition limits :: "EQuantizeType \<Rightarrow> int \<times> int" where
  "limits T =
     (case T of QUANTIZE_U8 \<Rightarrow> (0, 255) | QUANTIZE_U16 \<Rightarrow> (0, 65535)
      | QUANTIZE_S8 \<Rightarrow> (- 128, 127) | QUANTIZE_S16 \<Rightarrow> (- 32768, 32767) | _ \<Rightarrow> (0, 0))"

definition is_byte :: "EQuantizeType \<Rightarrow> bool" where
  "is_byte T \<longleftrightarrow> T = QUANTIZE_U8 \<or> T = QUANTIZE_S8"

definition ScaleAndClamp :: "EQuantizeType \<Rightarrow> u64 \<Rightarrow> nat \<Rightarrow> ppc \<Rightarrow> int" where
  "ScaleAndClamp T psv stScale s =
     (let convPS = f32_mul (host_mode s) (host_ftz s) (f64_to_f32 (host_mode s) (host_ftz s) psv)
            (m_quantizeTable ! stScale);
          lo = f32_of_int (host_mode s) (fst (limits T));
          hi = f32_of_int (host_mode s) (snd (limits T))
      in f32_trunc (Clamp convPS lo hi))"

definition WritePair_u8 :: "u8 \<Rightarrow> u8 \<Rightarrow> u32 \<Rightarrow> ppc \<Rightarrow> ppc_res" where
  "WritePair_u8 val1 val2 addr s = Write_U16 (push_bit 8 (ucast val1) OR ucast val2) addr s"
definition WritePair_u16 :: "u16 \<Rightarrow> u16 \<Rightarrow> u32 \<Rightarrow> ppc \<Rightarrow> ppc_res" where
  "WritePair_u16 val1 val2 addr s = Write_U32 (push_bit 16 (ucast val1) OR ucast val2) addr s"
definition WritePair_u32 :: "u32 \<Rightarrow> u32 \<Rightarrow> u32 \<Rightarrow> ppc \<Rightarrow> ppc_res" where
  "WritePair_u32 val1 val2 addr s = Write_U64 (push_bit 32 (ucast val1) OR ucast val2) addr s"

text \<open>The template for the four integer types.\<close>

definition QuantizeAndStore :: "EQuantizeType \<Rightarrow> u64 \<Rightarrow> u64 \<Rightarrow> u32 \<Rightarrow> bool \<Rightarrow> nat \<Rightarrow> ppc \<Rightarrow> ppc_res" where
  "QuantizeAndStore T ps0 ps1 addr instW stScale s =
     (let convPS0 = ScaleAndClamp T ps0 stScale s; convPS1 = ScaleAndClamp T ps1 stScale s
      in if is_byte T then
           (if instW then Write_U8 (word_of_int convPS0) addr s
            else WritePair_u8 (word_of_int convPS0) (word_of_int convPS1) addr s)
         else
           (if instW then Write_U16 (word_of_int convPS0) addr s
            else WritePair_u16 (word_of_int convPS0) (word_of_int convPS1) addr s))"

definition Helper_Quantize :: "u32 \<Rightarrow> u32 \<Rightarrow> nat \<Rightarrow> bool \<Rightarrow> ppc \<Rightarrow> ppc_res" where
  "Helper_Quantize addr instI instRS instW s =
     (let gqr = spr s (SPR_GQR0 + unat instI);
          stType = gqr_st_type gqr;
          stScale = gqr_st_scale gqr;
          ps0 = rPS0 s instRS;
          ps1 = rPS1 s instRS
      in case stType of
           QUANTIZE_FLOAT \<Rightarrow>
             (let convPS0 = ConvertToSingleFTZ ps0
              in if instW then Write_U32 convPS0 addr s
                 else WritePair_u32 convPS0 (ConvertToSingleFTZ ps1) addr s)
         | QUANTIZE_U8 \<Rightarrow> QuantizeAndStore QUANTIZE_U8 ps0 ps1 addr instW stScale s
         | QUANTIZE_U16 \<Rightarrow> QuantizeAndStore QUANTIZE_U16 ps0 ps1 addr instW stScale s
         | QUANTIZE_S8 \<Rightarrow> QuantizeAndStore QUANTIZE_S8 ps0 ps1 addr instW stScale s
         | QUANTIZE_S16 \<Rightarrow> QuantizeAndStore QUANTIZE_S16 ps0 ps1 addr instW stScale s
         | _ \<Rightarrow> Inr s)"

section \<open>Loads\<close>

definition ReadPair_u8 :: "u32 \<Rightarrow> ppc \<Rightarrow> (u8 \<times> u8) ppc_val" where
  "ReadPair_u8 addr s =
     bind_ppc (Read_U16 addr s) (\<lambda>(val, s). Inr ((ucast (drop_bit 8 val), ucast val), s))"
definition ReadPair_u16 :: "u32 \<Rightarrow> ppc \<Rightarrow> (u16 \<times> u16) ppc_val" where
  "ReadPair_u16 addr s =
     bind_ppc (Read_U32 addr s) (\<lambda>(val, s). Inr ((ucast (drop_bit 16 val), ucast val), s))"
definition ReadPair_u32 :: "u32 \<Rightarrow> ppc \<Rightarrow> (u32 \<times> u32) ppc_val" where
  "ReadPair_u32 addr s =
     bind_ppc (Read_U64 addr s) (\<lambda>(val, s). Inr ((ucast (drop_bit 32 val), ucast val), s))"

definition float_one :: u32 where "float_one = 0x3F800000"

text \<open>\<open>(float)(T)value * m_dequantizeTable[ldScale]\<close>, of the integer \<open>(T)value\<close>.\<close>

definition dequantize :: "int \<Rightarrow> nat \<Rightarrow> ppc \<Rightarrow> u32" where
  "dequantize v ldScale s =
     f32_mul (host_mode s) (host_ftz s) (f32_of_int (host_mode s) v) (m_dequantizeTable ! ldScale)"

definition LoadAndDequantize ::
  "EQuantizeType \<Rightarrow> u32 \<Rightarrow> bool \<Rightarrow> nat \<Rightarrow> ppc \<Rightarrow> (u32 \<times> u32) ppc_val" where
  "LoadAndDequantize T addr instW ldScale s =
     (let int8 = (\<lambda>v :: u8. if T = QUANTIZE_S8 then sint v else uint v);
          int16 = (\<lambda>v :: u16. if T = QUANTIZE_S16 then sint v else uint v)
      in if is_byte T then
           (if instW then
              bind_ppc (Read_U8 addr s) (\<lambda>(v, s). Inr ((dequantize (int8 v) ldScale s, float_one), s))
            else
              bind_ppc (ReadPair_u8 addr s)
                (\<lambda>((v, w), s). Inr ((dequantize (int8 v) ldScale s, dequantize (int8 w) ldScale s), s)))
         else
           (if instW then
              bind_ppc (Read_U16 addr s) (\<lambda>(v, s). Inr ((dequantize (int16 v) ldScale s, float_one), s))
            else
              bind_ppc (ReadPair_u16 addr s)
                (\<lambda>((v, w), s). Inr ((dequantize (int16 v) ldScale s, dequantize (int16 w) ldScale s), s))))"

definition Helper_Dequantize :: "u32 \<Rightarrow> u32 \<Rightarrow> nat \<Rightarrow> bool \<Rightarrow> ppc \<Rightarrow> ppc_res" where
  "Helper_Dequantize addr instI instRD instW s =
     (let gqr = spr s (SPR_GQR0 + unat instI);
          ldType = gqr_ld_type gqr;
          ldScale = gqr_ld_scale gqr;
          loaded =
            (case ldType of
               QUANTIZE_FLOAT \<Rightarrow>
                 (if instW then bind_ppc (Read_U32 addr s) (\<lambda>(v, s). Inr ((v, float_one), s))
                  else ReadPair_u32 addr s)
             | QUANTIZE_U8 \<Rightarrow> LoadAndDequantize QUANTIZE_U8 addr instW ldScale s
             | QUANTIZE_U16 \<Rightarrow> LoadAndDequantize QUANTIZE_U16 addr instW ldScale s
             | QUANTIZE_S8 \<Rightarrow> LoadAndDequantize QUANTIZE_S8 addr instW ldScale s
             | QUANTIZE_S16 \<Rightarrow> LoadAndDequantize QUANTIZE_S16 addr instW ldScale s
             | _ \<Rightarrow> Inr ((0, 0), s))
      in bind_ppc loaded
           (\<lambda>((ps0, ps1), s).
              Inr (if dsi s then s
                   else set_ps1 instRD (f32_to_f64 ps1) (set_ps0 instRD (f32_to_f64 ps0) s))))"

section \<open>The instructions\<close>

definition psq_l :: "u32 \<Rightarrow> ppc \<Rightarrow> ppc_res" where
  "psq_l inst s =
     (let EA = (if inst_RA inst \<noteq> 0 then gpr s (inst_RA inst) + inst_SIMM_12 inst else inst_SIMM_12 inst)
      in Helper_Dequantize EA (inst_I inst) (inst_RD inst) (inst_W inst) s)"

definition psq_lu :: "u32 \<Rightarrow> ppc \<Rightarrow> ppc_res" where
  "psq_lu inst s =
     (let EA = gpr s (inst_RA inst) + inst_SIMM_12 inst
      in bind_ppc (Helper_Dequantize EA (inst_I inst) (inst_RD inst) (inst_W inst) s)
           (\<lambda>s. Inr (if dsi s then s else set_gpr (inst_RA inst) EA s)))"

definition psq_st :: "u32 \<Rightarrow> ppc \<Rightarrow> ppc_res" where
  "psq_st inst s =
     (let EA = (if inst_RA inst \<noteq> 0 then gpr s (inst_RA inst) + inst_SIMM_12 inst else inst_SIMM_12 inst)
      in Helper_Quantize EA (inst_I inst) (inst_RS inst) (inst_W inst) s)"

definition psq_stu :: "u32 \<Rightarrow> ppc \<Rightarrow> ppc_res" where
  "psq_stu inst s =
     (let EA = gpr s (inst_RA inst) + inst_SIMM_12 inst
      in bind_ppc (Helper_Quantize EA (inst_I inst) (inst_RS inst) (inst_W inst) s)
           (\<lambda>s. Inr (if dsi s then s else set_gpr (inst_RA inst) EA s)))"

definition psq_lx :: "u32 \<Rightarrow> ppc \<Rightarrow> ppc_res" where
  "psq_lx inst s =
     (let EA = (if inst_RA inst \<noteq> 0 then gpr s (inst_RA inst) + gpr s (inst_RB inst) else gpr s (inst_RB inst))
      in Helper_Dequantize EA (inst_Ix inst) (inst_RD inst) (inst_Wx inst) s)"

definition psq_stx :: "u32 \<Rightarrow> ppc \<Rightarrow> ppc_res" where
  "psq_stx inst s =
     (let EA = (if inst_RA inst \<noteq> 0 then gpr s (inst_RA inst) + gpr s (inst_RB inst) else gpr s (inst_RB inst))
      in Helper_Quantize EA (inst_Ix inst) (inst_RS inst) (inst_Wx inst) s)"

definition psq_lux :: "u32 \<Rightarrow> ppc \<Rightarrow> ppc_res" where
  "psq_lux inst s =
     (let EA = gpr s (inst_RA inst) + gpr s (inst_RB inst)
      in bind_ppc (Helper_Dequantize EA (inst_Ix inst) (inst_RD inst) (inst_Wx inst) s)
           (\<lambda>s. Inr (if dsi s then s else set_gpr (inst_RA inst) EA s)))"

definition psq_stux :: "u32 \<Rightarrow> ppc \<Rightarrow> ppc_res" where
  "psq_stux inst s =
     (let EA = gpr s (inst_RA inst) + gpr s (inst_RB inst)
      in bind_ppc (Helper_Quantize EA (inst_Ix inst) (inst_RS inst) (inst_Wx inst) s)
           (\<lambda>s. Inr (if dsi s then s else set_gpr (inst_RA inst) EA s)))"

end
