(* ===== verification/PPC_Paired.thy ===== *)
theory PPC_Paired
  imports PPC_FloatingPoint
begin

text \<open>The paired-single instructions of \<open>Interpreter_Paired.cpp\<close>: each works on both halves of its registers.\<close>

section \<open>Moves\<close>

definition ps_sel :: "u32 \<Rightarrow> ppc \<Rightarrow> ppc" where
  "ps_sel inst s =
     (let s = set_ps0 (inst_FD inst) (if at_least_zero (rPS0 s (inst_FA inst)) then rPS0 s (inst_FC inst) else rPS0 s (inst_FB inst)) s;
          s = set_ps1 (inst_FD inst) (if at_least_zero (rPS1 s (inst_FA inst)) then rPS1 s (inst_FC inst) else rPS1 s (inst_FB inst)) s
      in record_CR1 inst s)"

definition ps_neg :: "u32 \<Rightarrow> ppc \<Rightarrow> ppc" where
  "ps_neg inst s =
     (let s = set_ps0 (inst_FD inst) (rPS0 s (inst_FB inst) XOR push_bit 63 1) s;
          s = set_ps1 (inst_FD inst) (rPS1 s (inst_FB inst) XOR push_bit 63 1) s
      in record_CR1 inst s)"

definition ps_mr :: "u32 \<Rightarrow> ppc \<Rightarrow> ppc" where
  "ps_mr inst s =
     (let s = set_ps0 (inst_FD inst) (rPS0 s (inst_FB inst)) s;
          s = set_ps1 (inst_FD inst) (rPS1 s (inst_FB inst)) s
      in record_CR1 inst s)"

definition ps_nabs :: "u32 \<Rightarrow> ppc \<Rightarrow> ppc" where
  "ps_nabs inst s =
     (let s = set_ps0 (inst_FD inst) (rPS0 s (inst_FB inst) OR push_bit 63 1) s;
          s = set_ps1 (inst_FD inst) (rPS1 s (inst_FB inst) OR push_bit 63 1) s
      in record_CR1 inst s)"

definition ps_abs :: "u32 \<Rightarrow> ppc \<Rightarrow> ppc" where
  "ps_abs inst s =
     (let s = set_ps0 (inst_FD inst) (rPS0 s (inst_FB inst) AND NOT (push_bit 63 1)) s;
          s = set_ps1 (inst_FD inst) (rPS1 s (inst_FB inst) AND NOT (push_bit 63 1)) s
      in record_CR1 inst s)"

definition ps_merge00 :: "u32 \<Rightarrow> ppc \<Rightarrow> ppc" where
  "ps_merge00 inst s =
     (let p0 = rPS0 s (inst_FA inst);
          p1 = rPS0 s (inst_FB inst);
          s = set_ps0 (inst_FD inst) (p0) s;
          s = set_ps1 (inst_FD inst) (p1) s
      in record_CR1 inst s)"

definition ps_merge01 :: "u32 \<Rightarrow> ppc \<Rightarrow> ppc" where
  "ps_merge01 inst s =
     (let p0 = rPS0 s (inst_FA inst);
          p1 = rPS1 s (inst_FB inst);
          s = set_ps0 (inst_FD inst) (p0) s;
          s = set_ps1 (inst_FD inst) (p1) s
      in record_CR1 inst s)"

definition ps_merge10 :: "u32 \<Rightarrow> ppc \<Rightarrow> ppc" where
  "ps_merge10 inst s =
     (let p0 = rPS1 s (inst_FA inst);
          p1 = rPS0 s (inst_FB inst);
          s = set_ps0 (inst_FD inst) (p0) s;
          s = set_ps1 (inst_FD inst) (p1) s
      in record_CR1 inst s)"

definition ps_merge11 :: "u32 \<Rightarrow> ppc \<Rightarrow> ppc" where
  "ps_merge11 inst s =
     (let p0 = rPS1 s (inst_FA inst);
          p1 = rPS1 s (inst_FB inst);
          s = set_ps0 (inst_FD inst) (p0) s;
          s = set_ps1 (inst_FD inst) (p1) s
      in record_CR1 inst s)"

section \<open>Arithmetic\<close>

definition ps_div :: "u32 \<Rightarrow> ppc \<Rightarrow> ppc" where
  "ps_div inst s =
     (let (d_value, s) = NI_div (rPS0 s (inst_FA inst)) (rPS0 s (inst_FB inst)) s;
          s = set_ps0 (inst_FD inst) (ForceSingle d_value s) s;
          (d_value, s) = NI_div (rPS1 s (inst_FA inst)) (rPS1 s (inst_FB inst)) s;
          s = set_ps1 (inst_FD inst) (ForceSingle d_value s) s;
          s = UpdateFPRF (rPS0 s (inst_FD inst)) s
      in record_CR1 inst s)"

definition ps_res :: "u32 \<Rightarrow> ppc \<Rightarrow> ppc" where
  "ps_res inst s =
     (let a = rPS0 s (inst_FB inst);
          b = rPS1 s (inst_FB inst);
          s = (if f64_eq a 0 \<or> f64_eq b 0 then SetFPException FPSCR_ZX s else s);
          s = set_ps0 (inst_FD inst) (ApproximateReciprocal a) s;
          s = set_ps1 (inst_FD inst) (ApproximateReciprocal b) s;
          s = UpdateFPRF (rPS0 s (inst_FD inst)) s
      in record_CR1 inst s)"

definition ps_rsqrte :: "u32 \<Rightarrow> ppc \<Rightarrow> ppc" where
  "ps_rsqrte inst s =
     (let s = (if f64_eq (rPS0 s (inst_FB inst)) 0 \<or> f64_eq (rPS1 s (inst_FB inst)) 0 then SetFPException FPSCR_ZX s else s);
          s = (if f64_less (rPS0 s (inst_FB inst)) 0 \<or> f64_less (rPS1 s (inst_FB inst)) 0 then SetFPException FPSCR_VXSQRT s else s);
          s = set_ps0 (inst_FD inst) (ForceSingle (ApproximateReciprocalSquareRoot (rPS0 s (inst_FB inst))) s) s;
          s = set_ps1 (inst_FD inst) (ForceSingle (ApproximateReciprocalSquareRoot (rPS1 s (inst_FB inst))) s) s;
          s = UpdateFPRF (rPS0 s (inst_FD inst)) s
      in record_CR1 inst s)"

definition ps_sub :: "u32 \<Rightarrow> ppc \<Rightarrow> ppc" where
  "ps_sub inst s =
     (let (d_value, s) = NI_sub (rPS0 s (inst_FA inst)) (rPS0 s (inst_FB inst)) s;
          s = set_ps0 (inst_FD inst) (ForceSingle d_value s) s;
          (d_value, s) = NI_sub (rPS1 s (inst_FA inst)) (rPS1 s (inst_FB inst)) s;
          s = set_ps1 (inst_FD inst) (ForceSingle d_value s) s;
          s = UpdateFPRF (rPS0 s (inst_FD inst)) s
      in record_CR1 inst s)"

definition ps_add :: "u32 \<Rightarrow> ppc \<Rightarrow> ppc" where
  "ps_add inst s =
     (let (d_value, s) = NI_add (rPS0 s (inst_FA inst)) (rPS0 s (inst_FB inst)) s;
          s = set_ps0 (inst_FD inst) (ForceSingle d_value s) s;
          (d_value, s) = NI_add (rPS1 s (inst_FA inst)) (rPS1 s (inst_FB inst)) s;
          s = set_ps1 (inst_FD inst) (ForceSingle d_value s) s;
          s = UpdateFPRF (rPS0 s (inst_FD inst)) s
      in record_CR1 inst s)"

definition ps_mul :: "u32 \<Rightarrow> ppc \<Rightarrow> ppc" where
  "ps_mul inst s =
     (let c0 = Force25Bit (rPS0 s (inst_FC inst));
          c1 = Force25Bit (rPS1 s (inst_FC inst));
          (d_value, s) = NI_mul (rPS0 s (inst_FA inst)) c0 s;
          s = set_ps0 (inst_FD inst) (ForceSingle d_value s) s;
          (d_value, s) = NI_mul (rPS1 s (inst_FA inst)) c1 s;
          s = set_ps1 (inst_FD inst) (ForceSingle d_value s) s;
          s = UpdateFPRF (rPS0 s (inst_FD inst)) s
      in record_CR1 inst s)"

definition ps_msub :: "u32 \<Rightarrow> ppc \<Rightarrow> ppc" where
  "ps_msub inst s =
     (let c0 = Force25Bit (rPS0 s (inst_FC inst));
          c1 = Force25Bit (rPS1 s (inst_FC inst));
          (d_value, s) = NI_msub (rPS0 s (inst_FA inst)) c0 (rPS0 s (inst_FB inst)) s;
          s = set_ps0 (inst_FD inst) (ForceSingle d_value s) s;
          (d_value, s) = NI_msub (rPS1 s (inst_FA inst)) c1 (rPS1 s (inst_FB inst)) s;
          s = set_ps1 (inst_FD inst) (ForceSingle d_value s) s;
          s = UpdateFPRF (rPS0 s (inst_FD inst)) s
      in record_CR1 inst s)"

definition ps_madd :: "u32 \<Rightarrow> ppc \<Rightarrow> ppc" where
  "ps_madd inst s =
     (let c0 = Force25Bit (rPS0 s (inst_FC inst));
          c1 = Force25Bit (rPS1 s (inst_FC inst));
          (d_value, s) = NI_madd (rPS0 s (inst_FA inst)) c0 (rPS0 s (inst_FB inst)) s;
          s = set_ps0 (inst_FD inst) (ForceSingle d_value s) s;
          (d_value, s) = NI_madd (rPS1 s (inst_FA inst)) c1 (rPS1 s (inst_FB inst)) s;
          s = set_ps1 (inst_FD inst) (ForceSingle d_value s) s;
          s = UpdateFPRF (rPS0 s (inst_FD inst)) s
      in record_CR1 inst s)"

definition ps_nmsub :: "u32 \<Rightarrow> ppc \<Rightarrow> ppc" where
  "ps_nmsub inst s =
     (let c0 = Force25Bit (rPS0 s (inst_FC inst));
          c1 = Force25Bit (rPS1 s (inst_FC inst));
          (d_value, s) = NI_msub (rPS0 s (inst_FA inst)) c0 (rPS0 s (inst_FB inst)) s;
          result0 = ForceSingle d_value s;
          (d_value, s) = NI_msub (rPS1 s (inst_FA inst)) c1 (rPS1 s (inst_FB inst)) s;
          result1 = ForceSingle d_value s;
          s = set_ps0 (inst_FD inst) (negate_number result0) s;
          s = set_ps1 (inst_FD inst) (negate_number result1) s;
          s = UpdateFPRF (rPS0 s (inst_FD inst)) s
      in record_CR1 inst s)"

definition ps_nmadd :: "u32 \<Rightarrow> ppc \<Rightarrow> ppc" where
  "ps_nmadd inst s =
     (let c0 = Force25Bit (rPS0 s (inst_FC inst));
          c1 = Force25Bit (rPS1 s (inst_FC inst));
          (d_value, s) = NI_madd (rPS0 s (inst_FA inst)) c0 (rPS0 s (inst_FB inst)) s;
          result0 = ForceSingle d_value s;
          (d_value, s) = NI_madd (rPS1 s (inst_FA inst)) c1 (rPS1 s (inst_FB inst)) s;
          result1 = ForceSingle d_value s;
          s = set_ps0 (inst_FD inst) (negate_number result0) s;
          s = set_ps1 (inst_FD inst) (negate_number result1) s;
          s = UpdateFPRF (rPS0 s (inst_FD inst)) s
      in record_CR1 inst s)"

definition ps_sum0 :: "u32 \<Rightarrow> ppc \<Rightarrow> ppc" where
  "ps_sum0 inst s =
     (let (d_value, s) = NI_add (rPS0 s (inst_FA inst)) (rPS1 s (inst_FB inst)) s;
          p0 = ForceSingle d_value s;
          p1 = ForceSingle (rPS1 s (inst_FC inst)) s;
          s = set_ps0 (inst_FD inst) (p0) s;
          s = set_ps1 (inst_FD inst) (p1) s;
          s = UpdateFPRF (rPS0 s (inst_FD inst)) s
      in record_CR1 inst s)"

definition ps_sum1 :: "u32 \<Rightarrow> ppc \<Rightarrow> ppc" where
  "ps_sum1 inst s =
     (let p0 = ForceSingle (rPS0 s (inst_FC inst)) s;
          (d_value, s) = NI_add (rPS0 s (inst_FA inst)) (rPS1 s (inst_FB inst)) s;
          p1 = ForceSingle d_value s;
          s = set_ps0 (inst_FD inst) (p0) s;
          s = set_ps1 (inst_FD inst) (p1) s;
          s = UpdateFPRF (rPS1 s (inst_FD inst)) s
      in record_CR1 inst s)"

definition ps_muls0 :: "u32 \<Rightarrow> ppc \<Rightarrow> ppc" where
  "ps_muls0 inst s =
     (let c0 = Force25Bit (rPS0 s (inst_FC inst));
          (d_value, s) = NI_mul (rPS0 s (inst_FA inst)) c0 s;
          p0 = ForceSingle d_value s;
          (d_value, s) = NI_mul (rPS1 s (inst_FA inst)) c0 s;
          p1 = ForceSingle d_value s;
          s = set_ps0 (inst_FD inst) (p0) s;
          s = set_ps1 (inst_FD inst) (p1) s;
          s = UpdateFPRF (rPS0 s (inst_FD inst)) s
      in record_CR1 inst s)"

definition ps_muls1 :: "u32 \<Rightarrow> ppc \<Rightarrow> ppc" where
  "ps_muls1 inst s =
     (let c1 = Force25Bit (rPS1 s (inst_FC inst));
          (d_value, s) = NI_mul (rPS0 s (inst_FA inst)) c1 s;
          p0 = ForceSingle d_value s;
          (d_value, s) = NI_mul (rPS1 s (inst_FA inst)) c1 s;
          p1 = ForceSingle d_value s;
          s = set_ps0 (inst_FD inst) (p0) s;
          s = set_ps1 (inst_FD inst) (p1) s;
          s = UpdateFPRF (rPS0 s (inst_FD inst)) s
      in record_CR1 inst s)"

definition ps_madds0 :: "u32 \<Rightarrow> ppc \<Rightarrow> ppc" where
  "ps_madds0 inst s =
     (let c0 = Force25Bit (rPS0 s (inst_FC inst));
          (d_value, s) = NI_madd (rPS0 s (inst_FA inst)) c0 (rPS0 s (inst_FB inst)) s;
          p0 = ForceSingle d_value s;
          (d_value, s) = NI_madd (rPS1 s (inst_FA inst)) c0 (rPS1 s (inst_FB inst)) s;
          p1 = ForceSingle d_value s;
          s = set_ps0 (inst_FD inst) (p0) s;
          s = set_ps1 (inst_FD inst) (p1) s;
          s = UpdateFPRF (rPS0 s (inst_FD inst)) s
      in record_CR1 inst s)"

definition ps_madds1 :: "u32 \<Rightarrow> ppc \<Rightarrow> ppc" where
  "ps_madds1 inst s =
     (let c1 = Force25Bit (rPS1 s (inst_FC inst));
          (d_value, s) = NI_madd (rPS0 s (inst_FA inst)) c1 (rPS0 s (inst_FB inst)) s;
          p0 = ForceSingle d_value s;
          (d_value, s) = NI_madd (rPS1 s (inst_FA inst)) c1 (rPS1 s (inst_FB inst)) s;
          p1 = ForceSingle d_value s;
          s = set_ps0 (inst_FD inst) (p0) s;
          s = set_ps1 (inst_FD inst) (p1) s;
          s = UpdateFPRF (rPS0 s (inst_FD inst)) s
      in record_CR1 inst s)"

section \<open>Comparisons\<close>

definition ps_cmpu0 :: "u32 \<Rightarrow> ppc \<Rightarrow> ppc" where
  "ps_cmpu0 inst s = Helper_FloatCompareUnordered inst (rPS0 s (inst_FA inst)) (rPS0 s (inst_FB inst)) s"

definition ps_cmpo0 :: "u32 \<Rightarrow> ppc \<Rightarrow> ppc" where
  "ps_cmpo0 inst s = Helper_FloatCompareOrdered inst (rPS0 s (inst_FA inst)) (rPS0 s (inst_FB inst)) s"

definition ps_cmpu1 :: "u32 \<Rightarrow> ppc \<Rightarrow> ppc" where
  "ps_cmpu1 inst s = Helper_FloatCompareUnordered inst (rPS1 s (inst_FA inst)) (rPS1 s (inst_FB inst)) s"

definition ps_cmpo1 :: "u32 \<Rightarrow> ppc \<Rightarrow> ppc" where
  "ps_cmpo1 inst s = Helper_FloatCompareOrdered inst (rPS1 s (inst_FA inst)) (rPS1 s (inst_FB inst)) s"

end
