(* ===== verification/PPC_FPStatus.thy ===== *)
theory PPC_FPStatus
  imports PPC_Quantize PPC_Paired Float_Ops
begin

text \<open>
  The status of the floating-point unit: what the arithmetic of \<open>Interpreter_FPUtils.h\<close> does with NaNs
  and invalid operations, which bits of FPSCR an instruction may change, and that the rounding mode of
  the host stays the one FPSCR asks for.
\<close>

section \<open>NaNs out of the host's operations\<close>

lemma round_mag_le_inf: "round_mag p mode ftz sign n d q \<le> inf_mag p"
proof -
  have "(if c then if b then i else i - 1 else if e then 0 else m) \<le> i" if "\<not> c \<Longrightarrow> m < i" for c b e and i m :: nat
    using that by auto
  then show ?thesis unfolding round_mag_def Let_def by simp
qed

lemma pack_number: "mag \<le> inf_mag 53 \<Longrightarrow> \<not> f64_isnan (f64_pack s mag)"
proof -
  assume a: "mag \<le> inf_mag 53"
  then have "mag < 2 ^ 63" by (simp add: inf_mag_def)
  then show ?thesis using a by (simp add: f64_isnan_def f64_pack_parts)
qed

lemma nat_or_ge: "m \<le> m OR (k :: nat)"
proof -
  have "int m \<le> int m OR int k" by (rule or_greater_eq) simp
  then show ?thesis by (simp flip: of_nat_or_eq)
qed

lemma quiet_nan [simp]: "f64_isnan a \<Longrightarrow> f64_isnan (f64_quiet a)"
proof -
  assume a: "f64_isnan a"
  have "f64_mag a \<le> f64_mag (f64_quiet a)"
    unfolding f64_mag_def f64_quiet_def take_bit_or unsigned_or_eq by (rule nat_or_ge)
  then show ?thesis using a by (simp add: f64_isnan_def)
qed

lemma invalid_nan [simp]: "f64_isnan f64_invalid"
  by (simp add: f64_isnan_def f64_invalid_def f64_mag_def inf_mag_def)

lemma round_number: "\<not> f64_isnan (f64_pack s (round_mag 53 mode ftz sign n d q))"
  by (rule pack_number [OF round_mag_le_inf])

lemma pack_small: "\<not> f64_isnan (f64_pack s (inf_mag 53))" "\<not> f64_isnan (f64_pack s 0)"
  by (rule pack_number, simp)+

text \<open>When the result of an operation on numbers is invalid.\<close>

definition invalid_product :: "u64 \<Rightarrow> u64 \<Rightarrow> bool" where
  "invalid_product a b \<longleftrightarrow> f64_isinf a \<and> f64_mag b = 0 \<or> f64_mag a = 0 \<and> f64_isinf b"

definition invalid_quotient :: "u64 \<Rightarrow> u64 \<Rightarrow> bool" where
  "invalid_quotient a b \<longleftrightarrow> f64_isinf a \<and> f64_isinf b \<or> f64_mag a = 0 \<and> f64_mag b = 0"

definition invalid_sum :: "u64 \<Rightarrow> u64 \<Rightarrow> bool" where
  "invalid_sum a b \<longleftrightarrow> f64_isinf a \<and> f64_isinf b \<and> f64_neg a \<noteq> f64_neg b"

lemma nan_mul: "f64_isnan (f64_mul mode ftz a b) \<longleftrightarrow> f64_isnan a \<or> f64_isnan b \<or> invalid_product a b"
proof -
  have "f64_isinf a \<Longrightarrow> f64_mag a \<noteq> 0 \<and> \<not> f64_isnan a" "f64_isinf b \<Longrightarrow> f64_mag b \<noteq> 0 \<and> \<not> f64_isnan b"
    by (simp_all add: f64_isinf_def f64_isnan_def inf_mag_def)
  then show ?thesis
    by (auto simp: f64_mul_def invalid_product_def Let_def round_number pack_small split: prod.splits if_splits)
qed

lemma nan_div: "f64_isnan (f64_div mode ftz a b) \<longleftrightarrow> f64_isnan a \<or> f64_isnan b \<or> invalid_quotient a b"
proof -
  have "f64_isinf a \<Longrightarrow> f64_mag a \<noteq> 0 \<and> \<not> f64_isnan a" "f64_isinf b \<Longrightarrow> f64_mag b \<noteq> 0 \<and> \<not> f64_isnan b"
    by (simp_all add: f64_isinf_def f64_isnan_def inf_mag_def)
  then show ?thesis
    by (auto simp: f64_div_def invalid_quotient_def Let_def round_number pack_small split: prod.splits if_splits)
qed

lemma nan_add: "f64_isnan (f64_add mode ftz a b) \<longleftrightarrow> f64_isnan a \<or> f64_isnan b \<or> invalid_sum a b"
proof -
  have "f64_isinf a \<Longrightarrow> \<not> f64_isnan a" "f64_isinf b \<Longrightarrow> \<not> f64_isnan b"
    by (simp_all add: f64_isnan_def f64_isinf_def)
  then show ?thesis
    by (auto simp: f64_add_def invalid_sum_def Let_def round_number pack_small split: prod.splits if_splits)
qed

lemmas negate_parts [simp] = f64_negate_value(3,4)

lemma nan_sub: "f64_isnan (f64_sub mode ftz a b) \<longleftrightarrow> f64_isnan a \<or> f64_isnan b \<or> invalid_sum a (f64_negate b)"
proof -
  have "f64_isnan (f64_negate b) = f64_isnan b" "f64_isinf (f64_negate b) = f64_isinf b"
    by (simp_all add: f64_isnan_def f64_isinf_def)
  then show ?thesis by (simp add: f64_sub_def nan_add)
qed

section \<open>Invalid operations\<close>

text \<open>The first NaN of the operands, made quiet, if there is one.\<close>

fun first_nan :: "u64 list \<Rightarrow> u64 option" where
  "first_nan [] = None"
| "first_nan (a # as) = (if f64_isnan a then Some (MakeQuiet a) else first_nan as)"

lemma f64_eq_0: "f64_eq b 0 \<longleftrightarrow> f64_mag b = 0"
proof -
  have "f64_mag b = 0 \<Longrightarrow> \<not> f64_isnan b" by (simp add: f64_isnan_def)
  moreover have "\<not> f64_isnan 0" "f64_key 0 = 0" by (simp_all add: f64_isnan_def f64_mag_def f64_key_def)
  ultimately show ?thesis by (auto simp: f64_eq_def f64_key_def)
qed

lemma NI_mul_cases: "NI_mul a b s = (case first_nan [a, b] of Some n \<Rightarrow> (n, s)
  | None \<Rightarrow> if invalid_product a b then (PPC_NAN, SetFPException FPSCR_VXIMZ s)
            else (f64_mul (host_mode s) (host_ftz s) a b, s))"
  by (simp add: NI_mul_def nan_mul)

lemma NI_add_cases: "NI_add a b s = (case first_nan [a, b] of Some n \<Rightarrow> (n, s)
  | None \<Rightarrow> if invalid_sum a b then (PPC_NAN, SetFPException FPSCR_VXISI s)
            else (f64_add (host_mode s) (host_ftz s) a b, s))"
  by (simp add: NI_add_def nan_add)

lemma NI_sub_cases: "NI_sub a b s = (case first_nan [a, b] of Some n \<Rightarrow> (n, s)
  | None \<Rightarrow> if invalid_sum a (f64_negate b) then (PPC_NAN, SetFPException FPSCR_VXISI s)
            else (f64_sub (host_mode s) (host_ftz s) a b, s))"
  by (simp add: NI_sub_def nan_sub)

lemma NI_div_cases: "NI_div a b s = (case first_nan [a, b] of Some n \<Rightarrow> (n, s)
  | None \<Rightarrow> if f64_isinf a \<and> f64_isinf b then (PPC_NAN, SetFPException FPSCR_VXIDI s)
            else if f64_mag a = 0 \<and> f64_mag b = 0
            then (PPC_NAN, SetFPException FPSCR_VXZDZ (SetFPException FPSCR_ZX s))
            else (f64_div (host_mode s) (host_ftz s) a b, s))"
proof -
  have "f64_isinf b \<Longrightarrow> f64_mag b \<noteq> 0" by (simp add: f64_isinf_def inf_mag_def)
  then show ?thesis by (auto simp: NI_div_def nan_div invalid_quotient_def f64_eq_0 Let_def)
qed

lemma NI_madd_cases: "NI_madd a c b s = (if first_nan [a, c] = None \<and> \<not> invalid_product a c then
    (let p = f64_mul (host_mode s) (host_ftz s) a c in NI_add p b s)
  else case first_nan [a, b, c] of Some n \<Rightarrow> (n, s) | None \<Rightarrow> (PPC_NAN, SetFPException FPSCR_VXIMZ s))"
  by (auto simp: NI_madd_def NI_add_def nan_mul nan_add Let_def)

lemma NI_msub_cases: "NI_msub a c b s = (if first_nan [a, c] = None \<and> \<not> invalid_product a c then
    (let p = f64_mul (host_mode s) (host_ftz s) a c in NI_sub p b s)
  else case first_nan [a, b, c] of Some n \<Rightarrow> (n, s) | None \<Rightarrow> (PPC_NAN, SetFPException FPSCR_VXIMZ s))"
  by (auto simp: NI_msub_def NI_sub_def nan_mul nan_sub Let_def)

section \<open>The fields of a double\<close>

lemma double_masks:
  "DOUBLE_EXP = push_bit 52 (mask 11)" "DOUBLE_FRAC = mask 52" "DOUBLE_SIGN = push_bit 63 1"
  "DOUBLE_QBIT = push_bit 51 1"
  by (simp_all add: double_defs mask_eq_exp_minus_1 push_bit_eq_mult)

definition f64_exp :: "u64 \<Rightarrow> nat" where "f64_exp d = f64_mag d div 2 ^ 52"
definition f64_frac :: "u64 \<Rightarrow> nat" where "f64_frac d = f64_mag d mod 2 ^ 52"

lemma and_exp: "d AND DOUBLE_EXP = push_bit 52 (take_bit 11 (drop_bit 52 d))"
  by (rule bit_word_eqI) (auto simp: double_masks bit_and_iff bit_push_bit_iff bit_mask_iff bit_take_bit_iff bit_drop_bit_eq)

lemma and_frac: "d AND DOUBLE_FRAC = take_bit 52 d"
  unfolding double_masks by (simp add: take_bit_eq_mask)

lemma exp_frac:
  "f64_exp d = unat (take_bit 11 (drop_bit 52 d))" "f64_frac d = unat (take_bit 52 d)" "f64_exp d < 2 ^ 11"
proof -
  have "take_bit 11 (drop_bit 52 d) = drop_bit 52 (take_bit 63 d)" by (simp add: take_bit_drop_bit)
  then have e: "unat (take_bit 11 (drop_bit 52 d)) = f64_exp d"
    unfolding f64_exp_def f64_mag_def by (simp only: unat_drop_bit_eq drop_bit_eq_div [where 'a = nat])
  then show "f64_exp d = unat (take_bit 11 (drop_bit 52 d))" ..
  then show "f64_exp d < 2 ^ 11" using take_bit_nat_less_exp [of 11 "unat (drop_bit 52 d)"]
    by (simp only: unsigned_take_bit_eq)
  have "take_bit 52 d = take_bit 52 (take_bit 63 d)" by simp
  then have "unat (take_bit 52 d) = take_bit 52 (f64_mag d)" unfolding f64_mag_def by (metis unsigned_take_bit_eq)
  then show "f64_frac d = unat (take_bit 52 d)" by (simp add: f64_frac_def take_bit_eq_mod)
qed

lemma mag_split: "f64_mag d = f64_exp d * 2 ^ 52 + f64_frac d" "f64_frac d < 2 ^ 52"
  by (simp_all add: f64_exp_def f64_frac_def)

lemma unat_push_bit_52: "unat (w :: u64) < 2 ^ 12 \<Longrightarrow> unat (push_bit 52 w) = unat w * 2 ^ 52"
proof -
  assume "unat w < 2 ^ 12"
  then have "unat w * 2 ^ 52 < 2 ^ 12 * 2 ^ 52" by (intro mult_strict_right_mono) auto
  then have "unat w * 2 ^ 52 < 2 ^ 64" by (simp only: power_add [symmetric]) simp
  then show ?thesis
    unfolding unsigned_push_bit_eq push_bit_eq_mult [where 'a = nat] by (simp add: take_bit_nat_eq_self)
qed

lemma unat_and_exp: "unat (d AND DOUBLE_EXP) = f64_exp d * 2 ^ 52"
proof -
  have "unat (take_bit 11 (drop_bit 52 d)) < 2 ^ 12" using exp_frac(1,3) [of d] by simp
  then show ?thesis unfolding and_exp exp_frac(1) by (rule unat_push_bit_52)
qed

lemma field_tests:
  "d AND DOUBLE_EXP = DOUBLE_EXP \<longleftrightarrow> f64_exp d = 2047" "d AND DOUBLE_EXP = 0 \<longleftrightarrow> f64_exp d = 0"
  "d AND DOUBLE_EXP < DOUBLE_EXP \<longleftrightarrow> f64_exp d \<noteq> 2047" "0 < d AND DOUBLE_EXP \<longleftrightarrow> f64_exp d \<noteq> 0"
  "d AND DOUBLE_FRAC = 0 \<longleftrightarrow> f64_frac d = 0" "d AND DOUBLE_SIGN \<noteq> 0 \<longleftrightarrow> f64_neg d"
proof -
  have E: "unat DOUBLE_EXP = 2047 * 2 ^ 52" by (simp add: double_defs)
  show "d AND DOUBLE_EXP = DOUBLE_EXP \<longleftrightarrow> f64_exp d = 2047"
    unfolding word_unat_eq_iff unat_and_exp E by simp
  show z: "d AND DOUBLE_EXP = 0 \<longleftrightarrow> f64_exp d = 0" unfolding word_unat_eq_iff unat_and_exp by simp
  show "d AND DOUBLE_EXP < DOUBLE_EXP \<longleftrightarrow> f64_exp d \<noteq> 2047"
    unfolding word_less_nat_alt unat_and_exp E using exp_frac(3) [of d] by auto
  show "0 < d AND DOUBLE_EXP \<longleftrightarrow> f64_exp d \<noteq> 0" using z by (metis word_gt_0)
  show "d AND DOUBLE_FRAC = 0 \<longleftrightarrow> f64_frac d = 0"
    unfolding and_frac exp_frac(2) by (simp add: unat_eq_zero)
  have "d AND DOUBLE_SIGN = push_bit 63 (of_bool (f64_neg d))"
    unfolding double_masks f64_neg_def
    by (rule bit_word_eqI, unfold bit_and_iff bit_push_bit_iff bit_of_bool_iff bit_1_iff) (auto dest: le_antisym)
  then show "d AND DOUBLE_SIGN \<noteq> 0 \<longleftrightarrow> f64_neg d" by (cases "f64_neg d") (simp_all add: push_bit_eq_mult)
qed

lemma isnan_fields: "f64_isnan d \<longleftrightarrow> f64_exp d = 2047 \<and> f64_frac d \<noteq> 0"
  "f64_isinf d \<longleftrightarrow> f64_exp d = 2047 \<and> f64_frac d = 0" "f64_mag d = 0 \<longleftrightarrow> f64_exp d = 0 \<and> f64_frac d = 0"
proof -
  have "(2047 * P < e * P + f) = (e = 2047 \<and> f \<noteq> 0)" "(e * P + f = 2047 * P) = (e = 2047 \<and> f = 0)"
    "(e * P + f = 0) = (e = 0 \<and> f = 0)" if "f < P" "e < 2048" for e f P :: nat
  proof -
    have e: "e < 2047 \<or> e = 2047" using that by auto
    moreover have "e * P + f < 2047 * P" if "e < 2047"
    proof -
      have "Suc e * P \<le> 2047 * P" by (rule mult_right_mono) (use that in auto)
      moreover have "Suc e * P = e * P + P" by simp
      ultimately show ?thesis using \<open>f < P\<close> by linarith
    qed
    ultimately show "(2047 * P < e * P + f) = (e = 2047 \<and> f \<noteq> 0)" "(e * P + f = 2047 * P) = (e = 2047 \<and> f = 0)"
      "(e * P + f = 0) = (e = 0 \<and> f = 0)" using that by auto
  qed
  from this [OF mag_split(2) [of d], of "f64_exp d"]
  show "f64_isnan d \<longleftrightarrow> f64_exp d = 2047 \<and> f64_frac d \<noteq> 0" "f64_isinf d \<longleftrightarrow> f64_exp d = 2047 \<and> f64_frac d = 0"
    "f64_mag d = 0 \<longleftrightarrow> f64_exp d = 0 \<and> f64_frac d = 0"
    using exp_frac(3) [of d] by (simp_all add: f64_isnan_def f64_isinf_def inf_mag_def mag_split(1) [of d])
qed

lemma IsSNAN_nan: "IsSNAN d \<Longrightarrow> f64_isnan d"
  by (simp add: IsSNAN_def isnan_fields field_tests DOUBLE_ZERO_def)

lemma quiet_not_signalling [simp]: "\<not> IsSNAN (MakeQuiet d)" "\<not> IsSNAN PPC_NAN"
proof -
  have "bit (MakeQuiet d AND DOUBLE_QBIT) 51"
    by (simp add: MakeQuiet_def double_masks bit_and_iff bit_or_iff bit_push_bit_iff)
  then have "MakeQuiet d AND DOUBLE_QBIT \<noteq> 0" by (metis bit_0_eq bot_apply bot_bool_def)
  then show "\<not> IsSNAN (MakeQuiet d)" by (simp add: IsSNAN_def DOUBLE_ZERO_def)
  show "\<not> IsSNAN PPC_NAN" by (simp add: IsSNAN_def PPC_NAN_def double_defs)
qed

text \<open>The class of a number, by its magnitude.\<close>

definition class_of :: "u64 \<Rightarrow> u32" where
  "class_of d =
     (if f64_isnan d then PPC_FPCLASS_QNAN
      else if f64_isinf d then (if f64_neg d then PPC_FPCLASS_NINF else PPC_FPCLASS_PINF)
      else if f64_mag d = 0 then (if f64_neg d then PPC_FPCLASS_NZ else PPC_FPCLASS_PZ)
      else if f64_mag d < 2 ^ 52 then (if f64_neg d then PPC_FPCLASS_ND else PPC_FPCLASS_PD)
      else (if f64_neg d then PPC_FPCLASS_NN else PPC_FPCLASS_PN))"

lemma ClassifyDouble_class: "ClassifyDouble d = class_of d"
proof -
  have "f64_mag d < 2 ^ 52 \<longleftrightarrow> f64_exp d = 0" by (auto simp: f64_exp_def div_eq_0_iff)
  then show ?thesis
    unfolding ClassifyDouble_def class_of_def Let_def isnan_fields DOUBLE_ZERO_def field_tests
    using field_tests [of d] by auto
qed

lemma not_signalling:
  "\<not> IsSNAN (fst (NI_mul a b s))" "\<not> IsSNAN (fst (NI_div a b s))" "\<not> IsSNAN (fst (NI_add a b s))"
  "\<not> IsSNAN (fst (NI_sub a b s))" "\<not> IsSNAN (fst (NI_madd a c b s))" "\<not> IsSNAN (fst (NI_msub a c b s))"
  by (auto simp: NI_mul_def NI_div_def NI_add_def NI_sub_def NI_madd_def NI_msub_def Let_def dest: IsSNAN_nan)

text \<open>C9: The six operations of the unit propagate the first NaN among their operands, made quiet (the
  addend before the second factor in a multiply-add); an operation on numbers that has no result, and no
  other, gives the default NaN and records its cause; otherwise the result is the rounded one of the host
  and FPSCR is untouched, also when a number is divided by zero.  No result is a signalling NaN.\<close>

theorem invalid_operations:
  "NI_mul a b s = (case first_nan [a, b] of Some n \<Rightarrow> (n, s)
     | None \<Rightarrow> if invalid_product a b then (PPC_NAN, SetFPException FPSCR_VXIMZ s)
               else (f64_mul (host_mode s) (host_ftz s) a b, s))
   \<and> NI_add a b s = (case first_nan [a, b] of Some n \<Rightarrow> (n, s)
     | None \<Rightarrow> if invalid_sum a b then (PPC_NAN, SetFPException FPSCR_VXISI s)
               else (f64_add (host_mode s) (host_ftz s) a b, s))
   \<and> NI_sub a b s = (case first_nan [a, b] of Some n \<Rightarrow> (n, s)
     | None \<Rightarrow> if invalid_sum a (f64_negate b) then (PPC_NAN, SetFPException FPSCR_VXISI s)
               else (f64_sub (host_mode s) (host_ftz s) a b, s))
   \<and> NI_div a b s = (case first_nan [a, b] of Some n \<Rightarrow> (n, s)
     | None \<Rightarrow> if f64_isinf a \<and> f64_isinf b then (PPC_NAN, SetFPException FPSCR_VXIDI s)
               else if f64_mag a = 0 \<and> f64_mag b = 0
               then (PPC_NAN, SetFPException FPSCR_VXZDZ (SetFPException FPSCR_ZX s))
               else (f64_div (host_mode s) (host_ftz s) a b, s))
   \<and> NI_madd a c b s = (case first_nan [a, b, c] of Some n \<Rightarrow> (n, s)
     | None \<Rightarrow> if invalid_product a c then (PPC_NAN, SetFPException FPSCR_VXIMZ s)
               else NI_add (f64_mul (host_mode s) (host_ftz s) a c) b s)
   \<and> NI_msub a c b s = (case first_nan [a, b, c] of Some n \<Rightarrow> (n, s)
     | None \<Rightarrow> if invalid_product a c then (PPC_NAN, SetFPException FPSCR_VXIMZ s)
               else NI_sub (f64_mul (host_mode s) (host_ftz s) a c) b s)
   \<and> \<not> IsSNAN (fst (NI_mul a b s)) \<and> \<not> IsSNAN (fst (NI_add a b s)) \<and> \<not> IsSNAN (fst (NI_sub a b s))
   \<and> \<not> IsSNAN (fst (NI_div a b s)) \<and> \<not> IsSNAN (fst (NI_madd a c b s)) \<and> \<not> IsSNAN (fst (NI_msub a c b s))"
proof -
  have p: "\<not> f64_isnan (f64_mul m f a c) \<longleftrightarrow> \<not> f64_isnan a \<and> \<not> f64_isnan c \<and> \<not> invalid_product a c" for m f
    by (simp add: nan_mul)
  have q: "NI_madd a c b s = (case first_nan [a, b, c] of Some n \<Rightarrow> (n, s)
     | None \<Rightarrow> if invalid_product a c then (PPC_NAN, SetFPException FPSCR_VXIMZ s)
               else NI_add (f64_mul (host_mode s) (host_ftz s) a c) b s)"
    by (auto simp: NI_madd_cases NI_add_def nan_add nan_mul Let_def)
  have r: "NI_msub a c b s = (case first_nan [a, b, c] of Some n \<Rightarrow> (n, s)
     | None \<Rightarrow> if invalid_product a c then (PPC_NAN, SetFPException FPSCR_VXIMZ s)
               else NI_sub (f64_mul (host_mode s) (host_ftz s) a c) b s)"
    by (auto simp: NI_msub_cases NI_sub_def nan_sub nan_mul Let_def)
  show ?thesis
    by (intro conjI NI_mul_cases NI_add_cases NI_sub_cases NI_div_cases q r not_signalling)
qed

section \<open>What an instruction may do to FPSCR\<close>

text \<open>
  Control bits stay, exception bits are only ever set, the result flags change.  The two summary bits
  FEX and VX stay too: the code computes them when they are read.
\<close>

definition evolves :: "u32 \<Rightarrow> u32 \<Rightarrow> bool" where
  "evolves x y \<longleftrightarrow> (\<forall>n<32. \<not> (12 \<le> n \<and> n \<le> 18) \<longrightarrow>
     (if bit (FPSCR_FX OR FPSCR_ANY_X) n then bit x n \<longrightarrow> bit y n else bit y n = bit x n))"

definition fp_evolves :: "ppc \<Rightarrow> ppc \<Rightarrow> bool" where
  "fp_evolves s s' \<longleftrightarrow> evolves (fpscr s) (fpscr s')
     \<and> s' = s\<lparr>ps := ps s', fpscr := fpscr s', cr_val := cr_val s'\<rparr>"

named_theorems fp_intros

lemma fp_evolves_refl [fp_intros]: "fp_evolves s s"
  by (simp add: fp_evolves_def evolves_def)

lemma evolves_trans: "evolves x y \<Longrightarrow> evolves y z \<Longrightarrow> evolves x z"
  by (auto simp: evolves_def split: if_splits)

lemma fp_evolves_fpscr:
  assumes "fp_evolves s0 s" "evolves (fpscr s) f" shows "fp_evolves s0 (s\<lparr>fpscr := f\<rparr>)"
proof -
  have "s = s0\<lparr>ps := ps s, fpscr := fpscr s, cr_val := cr_val s\<rparr>" using assms by (simp add: fp_evolves_def)
  then obtain p g c where s: "s = s0\<lparr>ps := p, fpscr := g, cr_val := c\<rparr>" by blast
  show ?thesis using assms evolves_trans unfolding s fp_evolves_def by auto
qed

lemma fp_evolves_ps [fp_intros]: "fp_evolves s0 s \<Longrightarrow> fp_evolves s0 (s\<lparr>ps := p\<rparr>)"
proof -
  assume a: "fp_evolves s0 s"
  then have "s = s0\<lparr>ps := ps s, fpscr := fpscr s, cr_val := cr_val s\<rparr>" by (simp add: fp_evolves_def)
  then obtain q g c where s: "s = s0\<lparr>ps := q, fpscr := g, cr_val := c\<rparr>" by blast
  show ?thesis using a unfolding s fp_evolves_def by auto
qed

lemma fp_evolves_cr: "fp_evolves s0 s \<Longrightarrow> fp_evolves s0 (s\<lparr>cr_val := p\<rparr>)"
proof -
  assume a: "fp_evolves s0 s"
  then have "s = s0\<lparr>ps := ps s, fpscr := fpscr s, cr_val := cr_val s\<rparr>" by (simp add: fp_evolves_def)
  then obtain q g c where s: "s = s0\<lparr>ps := q, fpscr := g, cr_val := c\<rparr>" by blast
  show ?thesis using a unfolding s fp_evolves_def by auto
qed

lemma fp_evolves_SetCRField [fp_intros]: "fp_evolves s0 s \<Longrightarrow> fp_evolves s0 (SetCRField i v s)"
  unfolding SetCRField_def by (rule fp_evolves_cr)

lemma fp_evolves_record [fp_intros]: "fp_evolves s0 s \<Longrightarrow> fp_evolves s0 (record_CR1 inst s)"
  by (simp add: record_CR1_def Helper_UpdateCR1_def fp_evolves_SetCRField)

lemma bit_set_field:
  "n < 32 \<Longrightarrow> bit ((x AND NOT (push_bit lo (mask w))) OR push_bit lo (take_bit w v) :: u32) n \<longleftrightarrow>
    (if lo \<le> n \<and> n < lo + w then bit v (n - lo) else bit x n)"
  by (auto simp: bit_or_iff bit_and_iff bit_not_iff bit_push_bit_iff bit_mask_iff bit_take_bit_iff)

lemma fp_evolves_field [fp_intros]:
  assumes "fp_evolves s0 s" "12 \<le> lo" "lo + w \<le> 19" shows "fp_evolves s0 (set_fpscr_field lo w v s)"
  unfolding set_fpscr_field_def
  by (rule fp_evolves_fpscr [OF assms(1)]) (use assms(2,3) in \<open>auto simp: evolves_def bit_set_field\<close>)

lemma bit_single: "bit (push_bit k (1 :: u32)) n \<longleftrightarrow> n = k \<and> k < 32"
  unfolding bit_push_bit_iff bit_1_iff by auto

lemma bit_FX: "bit (FPSCR_FX OR FPSCR_ANY_X) n \<longleftrightarrow>
    n \<in> {8, 9, 10, 19, 20, 21, 22, 23, 24, 25, 26, 27, 28, 31}"
  unfolding fpscr_defs bit_or_iff bit_single by simp blast

lemma fp_evolves_SetFPException:
  assumes "fp_evolves s0 s" "m AND NOT FPSCR_ANY_X = 0"
  shows "fp_evolves s0 (SetFPException m s)"
proof -
  have m: "bit (FPSCR_FX OR FPSCR_ANY_X) n" if "bit m n" for n
  proof -
    have "\<not> bit (m AND NOT FPSCR_ANY_X) n" using assms(2) by simp
    then show ?thesis
      using that bit_imp_le_length [OF that] unfolding bit_and_iff bit_or_iff bit_not_iff by auto
  qed
  have fx: "fp_evolves s0 (set_fpscr_field 31 1 1 s)"
    unfolding set_fpscr_field_def
  proof (rule fp_evolves_fpscr [OF assms(1)])
    have "evolves x ((x AND NOT (push_bit lo (mask w))) OR push_bit lo (take_bit w v))"
      if "\<And>k. k < w \<Longrightarrow> bit v k \<and> bit (FPSCR_FX OR FPSCR_ANY_X) (lo + k)" for x v :: u32 and lo w :: nat
    proof -
      have "lo \<le> n \<Longrightarrow> n < lo + w \<Longrightarrow> bit v (n - lo) \<and> bit (FPSCR_FX OR FPSCR_ANY_X) n" for n
        using that [of "n - lo"] by simp
      then show ?thesis by (auto simp: evolves_def bit_set_field)
    qed
    from this [of 1 1 31] show "evolves (fpscr s) ((fpscr s AND NOT (push_bit 31 (mask 1))) OR push_bit 31 (take_bit 1 1))"
      using bit_FX [of 31] by simp
  qed
  have "evolves x (x OR m)" for x using m by (auto simp: evolves_def bit_or_iff)
  then show ?thesis
    unfolding SetFPException_def Let_def by (intro fp_evolves_fpscr) (use assms(1) fx in \<open>auto split: if_splits\<close>)
qed

lemma exceptions_in_ANY_X:
  "FPSCR_XX AND NOT FPSCR_ANY_X = 0" "FPSCR_ZX AND NOT FPSCR_ANY_X = 0" "FPSCR_VXSNAN AND NOT FPSCR_ANY_X = 0"
  "FPSCR_VXISI AND NOT FPSCR_ANY_X = 0" "FPSCR_VXIDI AND NOT FPSCR_ANY_X = 0" "FPSCR_VXZDZ AND NOT FPSCR_ANY_X = 0"
  "FPSCR_VXIMZ AND NOT FPSCR_ANY_X = 0" "FPSCR_VXVC AND NOT FPSCR_ANY_X = 0" "FPSCR_VXSQRT AND NOT FPSCR_ANY_X = 0"
  "FPSCR_VXCVI AND NOT FPSCR_ANY_X = 0"
  by (simp_all add: fpscr_defs)

lemmas fp_evolves_exceptions [fp_intros] = exceptions_in_ANY_X [THEN [2] fp_evolves_SetFPException]

lemma fp_evolves_SetFI [fp_intros]: "fp_evolves s0 s \<Longrightarrow> fp_evolves s0 (SetFI v s)"
  by (auto simp: SetFI_def Let_def intro!: fp_intros)

lemma fp_evolves_UpdateFPRF [fp_intros]: "fp_evolves s0 s \<Longrightarrow> fp_evolves s0 (UpdateFPRF d s)"
  by (simp add: UpdateFPRF_def fp_evolves_field)

lemma fp_evolves_if [fp_intros]:
  "fp_evolves s0 s \<Longrightarrow> fp_evolves s0 s' \<Longrightarrow> fp_evolves s0 (if b then s else s')" by simp

lemma fp_evolves_Let [fp_intros]: "fp_evolves s0 (f e) \<Longrightarrow> fp_evolves s0 (Let e f)" by simp

lemma fp_evolves_case [fp_intros]:
  "fp_evolves s0 (snd t) \<Longrightarrow> (\<And>d s. fp_evolves s0 s \<Longrightarrow> fp_evolves s0 (f d s)) \<Longrightarrow>
   fp_evolves s0 (case t of (d, s) \<Rightarrow> f d s)"
  by (simp split: prod.splits) (metis snd_conv)

lemma fp_evolves_NI [fp_intros]:
  "fp_evolves s0 s \<Longrightarrow> fp_evolves s0 (snd (NI_mul a b s))" "fp_evolves s0 s \<Longrightarrow> fp_evolves s0 (snd (NI_div a b s))"
  "fp_evolves s0 s \<Longrightarrow> fp_evolves s0 (snd (NI_add a b s))" "fp_evolves s0 s \<Longrightarrow> fp_evolves s0 (snd (NI_sub a b s))"
  "fp_evolves s0 s \<Longrightarrow> fp_evolves s0 (snd (NI_madd a c b s))" "fp_evolves s0 s \<Longrightarrow> fp_evolves s0 (snd (NI_msub a c b s))"
  by (auto simp: NI_mul_def NI_div_def NI_add_def NI_sub_def NI_madd_def NI_msub_def Let_def
    intro!: fp_evolves_exceptions)

section \<open>The instructions\<close>

text \<open>The instructions that classify their result, and the others.\<close>

definition fp_results :: "(u32 \<Rightarrow> ppc \<Rightarrow> ppc) list" where
  "fp_results =
    [frspx, fmulx, fmulsx, fmaddx, fmaddsx, faddx, faddsx, fdivx, fdivsx, fresx, frsqrtex,
     fmsubx, fmsubsx, fnmaddx, fnmaddsx, fnmsubx, fnmsubsx, fsubx, fsubsx, ps_div, ps_res,
     ps_rsqrte, ps_sub, ps_add, ps_mul, ps_msub, ps_madd, ps_nmsub, ps_nmadd, ps_sum0,
     ps_muls0, ps_muls1, ps_madds0, ps_madds1]"

definition fp_others :: "(u32 \<Rightarrow> ppc \<Rightarrow> ppc) list" where
  "fp_others =
    [fcmpo, fcmpu, fctiwx, fctiwzx, fmrx, fabsx, fnabsx, fnegx, fselx, ps_sel, ps_neg,
     ps_mr, ps_nabs, ps_abs, ps_merge00, ps_merge01, ps_merge10, ps_merge11, ps_sum1,
     ps_cmpu0, ps_cmpo0, ps_cmpu1, ps_cmpo1]"

lemmas fp_result_defs = frspx_def fmulx_def fmulsx_def fmaddx_def fmaddsx_def faddx_def faddsx_def fdivx_def
  fdivsx_def fresx_def frsqrtex_def fmsubx_def fmsubsx_def fnmaddx_def fnmaddsx_def fnmsubx_def
  fnmsubsx_def fsubx_def fsubsx_def ps_div_def ps_res_def ps_rsqrte_def ps_sub_def ps_add_def
  ps_mul_def ps_msub_def ps_madd_def ps_nmsub_def ps_nmadd_def ps_sum0_def ps_muls0_def
  ps_muls1_def ps_madds0_def ps_madds1_def

lemmas fp_other_defs = fcmpo_def fcmpu_def fctiwx_def fctiwzx_def fmrx_def fabsx_def fnabsx_def fnegx_def fselx_def
  ps_sel_def ps_neg_def ps_mr_def ps_nabs_def ps_abs_def ps_merge00_def ps_merge01_def
  ps_merge10_def ps_merge11_def ps_sum1_def ps_cmpu0_def ps_cmpo0_def ps_cmpu1_def ps_cmpo1_def

lemma fp_evolves_compare [fp_intros]:
  "fp_evolves s0 s \<Longrightarrow> fp_evolves s0 (Helper_FloatCompareOrdered inst a b s)"
  "fp_evolves s0 s \<Longrightarrow> fp_evolves s0 (Helper_FloatCompareUnordered inst a b s)"
  unfolding Helper_FloatCompareOrdered_def Helper_FloatCompareUnordered_def Let_def
  by (auto intro!: fp_intros split: prod.splits if_splits)

lemma fp_evolves_integer [fp_intros]:
  "fp_evolves s0 s \<Longrightarrow> fp_evolves s0 (store_s32 inst b v s)" "fp_evolves s0 s \<Longrightarrow> fp_evolves s0 (convert_flags b i s)"
  unfolding store_s32_def convert_flags_def Let_def by (auto intro!: fp_intros)

lemma fp_evolves_snd_if [fp_intros]:
  "fp_evolves s0 (snd x) \<Longrightarrow> fp_evolves s0 (snd y) \<Longrightarrow> fp_evolves s0 (snd (if b then x else y))"
  "fp_evolves s0 s \<Longrightarrow> fp_evolves s0 (snd (v, s))" "fp_evolves s0 (snd (f e)) \<Longrightarrow> fp_evolves s0 (snd (Let e f))"
  by simp_all

lemma fp_instructions_evolve:
  assumes "f \<in> set (fp_results @ fp_others)" shows "fp_evolves s (f inst s)"
proof -
  have "list_all (\<lambda>f. \<forall>inst s. fp_evolves s (f inst s)) fp_results"
    unfolding fp_results_def list.pred_inject fp_result_defs
    by (intro conjI allI list.pred_inject(1); intro fp_intros; simp)
  moreover have "list_all (\<lambda>f. \<forall>inst s. fp_evolves s (f inst s)) fp_others"
    unfolding fp_others_def list.pred_inject fp_other_defs
    by (intro conjI allI list.pred_inject(1); intro fp_intros; simp)
  ultimately show ?thesis using assms by (auto simp: list_all_iff)
qed

section \<open>The class of the result\<close>

definition classified :: "nat \<Rightarrow> ppc \<Rightarrow> bool" where
  "classified r s \<longleftrightarrow> FPSCR_FPRF s = ClassifyDouble (ps s r 0)"

named_theorems class_intros

lemma ClassifyDouble_bound: "take_bit 5 (ClassifyDouble d) = ClassifyDouble d"
  unfolding ClassifyDouble_class by (simp add: class_of_def fpclass_defs)

lemma field_set: "lo + w \<le> 32 \<Longrightarrow> fpscr_field lo w (set_fpscr_field lo w v s) = take_bit w v"
  by (rule bit_word_eqI)
    (auto simp: fpscr_field_def set_fpscr_field_def bit_take_bit_iff bit_drop_bit_eq bit_or_iff bit_and_iff
      bit_not_iff bit_push_bit_iff bit_mask_iff)

lemma classified_record [class_intros]: "classified r s \<Longrightarrow> classified r (record_CR1 inst s)"
  by (simp add: classified_def record_CR1_def Helper_UpdateCR1_def SetCRField_def fpscr_field_def)

lemma classified_update [class_intros]:
  "classified r (UpdateFPRF (ps s r 0) s)" "classified r (UpdateFPRF v (set_ps0 r v s))"
  "classified r (set_both r v (UpdateFPRF v s))"
proof -
  have "FPSCR_FPRF (UpdateFPRF v s) = ClassifyDouble v" for v s
    unfolding UpdateFPRF_def using field_set [of 12 5 "ClassifyDouble v" s] ClassifyDouble_bound [of v] by simp
  moreover have "FPSCR_FPRF (s\<lparr>ps := p\<rparr>) = FPSCR_FPRF s" "ps (UpdateFPRF v s) = ps s" for s :: ppc and p v
    by (simp_all add: fpscr_field_def UpdateFPRF_def set_fpscr_field_def)
  ultimately show "classified r (UpdateFPRF (ps s r 0) s)" "classified r (UpdateFPRF v (set_ps0 r v s))"
    "classified r (set_both r v (UpdateFPRF v s))"
    by (simp_all add: classified_def)
qed

lemma classified_Let [class_intros]: "classified r (f e) \<Longrightarrow> classified r (Let e f)" by simp

lemma classified_case [class_intros]:
  "(\<And>d s. classified r (f d s)) \<Longrightarrow> classified r (case t of (d, s) \<Rightarrow> f d s)"
  by (cases t) simp

lemma fp_results_classified:
  assumes "f \<in> set fp_results" shows "classified (inst_FD inst) (f inst s)"
proof -
  have "list_all (\<lambda>f. \<forall>inst s. classified (inst_FD inst) (f inst s)) fp_results"
    unfolding fp_results_def list.pred_inject fp_result_defs
    by (intro conjI allI list.pred_inject(1); intro class_intros)
  then show ?thesis using assms by (auto simp: list_all_iff)
qed

section \<open>The rounding mode of the host\<close>

definition fpu_in_step :: "ppc \<Rightarrow> bool" where
  "fpu_in_step s \<longleftrightarrow> host_mode s = unat (FPSCR_RN s) \<and> host_ftz s = (FPSCR_NI s \<noteq> 0)"

lemma FPSCRtoFPUSettings_in_step: "fpu_in_step (FPSCRtoFPUSettings s)"
proof -
  have "unat (FPSCR_RN s) < 4"
    using take_bit_nat_less_exp [of 2 "unat (drop_bit 0 (fpscr s))"] by (simp add: fpscr_field_def unsigned_take_bit_eq)
  then consider "unat (FPSCR_RN s) = 0" | "unat (FPSCR_RN s) = 1" | "unat (FPSCR_RN s) = 2" | "unat (FPSCR_RN s) = 3"
    by linarith
  then have "FPSCR_RN s \<in> {0, 1, 2, 3}" by cases (simp_all add: word_unat_eq_iff)
  moreover have "host_mode (s\<lparr>mxcsr := c\<rparr>) = [0, 3, 2, 1] ! unat (take_bit 2 (drop_bit 13 c))"
    "host_ftz (s\<lparr>mxcsr := c\<rparr>) = bit c 15" for c
    by (simp_all add: host_mode_def host_ftz_def)
  ultimately show ?thesis
    by (auto simp: fpu_in_step_def FPSCRtoFPUSettings_def SetRoundMode_def SetSIMDMode_def simd_rounding_table_def
      host_mode_def host_ftz_def fpscr_field_def Let_def)
qed

lemma fpu_in_step_cong:
  assumes "\<And>n. n < 3 \<Longrightarrow> bit (fpscr s') n = bit (fpscr s) n" "mxcsr s' = mxcsr s"
  shows "fpu_in_step s' = fpu_in_step s"
proof -
  have "fpscr_field lo w s' = fpscr_field lo w s" if "lo + w \<le> 3" for lo w
    unfolding fpscr_field_def
    by (rule bit_word_eqI) (use assms(1) that in \<open>auto simp: bit_take_bit_iff bit_drop_bit_eq\<close>)
  from this [of 0 2] this [of 2 1] have "FPSCR_RN s' = FPSCR_RN s" "FPSCR_NI s' = FPSCR_NI s" by simp_all
  then show ?thesis using assms(2) by (simp add: fpu_in_step_def host_mode_def host_ftz_def)
qed

lemma fp_evolves_in_step: "fp_evolves s s' \<Longrightarrow> fpu_in_step s' = fpu_in_step s"
proof (rule fpu_in_step_cong)
  assume a: "fp_evolves s s'"
  then have "s' = s\<lparr>ps := ps s', fpscr := fpscr s', cr_val := cr_val s'\<rparr>" by (simp add: fp_evolves_def)
  then obtain p f c where "s' = s\<lparr>ps := p, fpscr := f, cr_val := c\<rparr>" by blast
  then show "mxcsr s' = mxcsr s" by simp
  fix n :: nat assume "n < 3"
  then show "bit (fpscr s') n = bit (fpscr s) n"
    using a unfolding fp_evolves_def evolves_def bit_FX by auto
qed

lemma record_in_step: "fpu_in_step (record_CR1 inst s) = fpu_in_step s"
  by (rule fpu_in_step_cong) (simp_all add: record_CR1_def Helper_UpdateCR1_def SetCRField_def)

lemma UpdateFPSCR_low: "n < 3 \<Longrightarrow> bit (fpscr (UpdateFPSCR s)) n = bit (fpscr s) n" "mxcsr (UpdateFPSCR s) = mxcsr s"
proof -
  have "bit (fpscr (set_fpscr_field lo w v s)) n = bit (fpscr s) n" if "n < lo" "n < 32" for lo w v n and s :: ppc
    unfolding set_fpscr_field_def using that by (simp add: bit_set_field)
  then show "n < 3 \<Longrightarrow> bit (fpscr (UpdateFPSCR s)) n = bit (fpscr s) n" by (simp add: UpdateFPSCR_def Let_def)
  show "mxcsr (UpdateFPSCR s) = mxcsr s" by (simp add: UpdateFPSCR_def Let_def set_fpscr_field_def)
qed

lemma mcrfs_cleared_low: "n < 3 \<Longrightarrow> \<not> bit (mcrfs_cleared c) n"
  unfolding mcrfs_cleared_def fpscr_defs if_distrib [of "\<lambda>x. bit x n"] bit_or_iff bit_single by auto

lemma status_moves_in_step:
  "fpu_in_step (mcrfs inst s) = fpu_in_step s" "fpu_in_step (mffsx inst s) = fpu_in_step s"
proof -
  show "fpu_in_step (mcrfs inst s) = fpu_in_step s"
    by (rule fpu_in_step_cong)
      (simp_all add: mcrfs_def Let_def SetCRField_def UpdateFPSCR_low mcrfs_cleared_low bit_and_iff bit_not_iff)
  have "fpu_in_step ((UpdateFPSCR s)\<lparr>ps := p\<rparr>) = fpu_in_step s" for p
    by (rule fpu_in_step_cong) (simp_all add: UpdateFPSCR_low)
  then show "fpu_in_step (mffsx inst s) = fpu_in_step s"
    by (simp add: mffsx_def Let_def record_in_step)
qed

section \<open>Properties\<close>

text \<open>C19: The host rounds as FPSCR says: \<open>mtfsb0\<close>, \<open>mtfsb1\<close>, \<open>mtfsfi\<close> and \<open>mtfsf\<close> set the host's rounding
  mode and flushing to the fields RN and NI they leave, whatever they were, and no other instruction of
  the unit brings them apart.\<close>

theorem rounding_mode_in_step:
  "fpu_in_step (mtfsb0x inst s) \<and> fpu_in_step (mtfsb1x inst s) \<and> fpu_in_step (mtfsfix inst s)
   \<and> fpu_in_step (mtfsfx inst s)
   \<and> (\<forall>f \<in> set (fp_results @ fp_others @ [mcrfs, mffsx]). fpu_in_step (f inst s) = fpu_in_step s)"
proof (intro conjI ballI)
  fix f assume "f \<in> set (fp_results @ fp_others @ [mcrfs, mffsx])"
  then consider "f \<in> set (fp_results @ fp_others)" | "f = mcrfs" | "f = mffsx" by auto
  then show "fpu_in_step (f inst s) = fpu_in_step s"
    by cases (simp_all only: status_moves_in_step fp_evolves_in_step [OF fp_instructions_evolve])
qed (simp_all add: mtfsb0x_def mtfsb1x_def mtfsfix_def mtfsfx_def Let_def record_in_step FPSCRtoFPUSettings_in_step)

theorem rounding_mode_in_step_witness:
  "fpu_in_step (faddx 0xFC22182A (mtfsfix 0xFF80210C ppc_zero)) \<and> host_mode (mtfsfix 0xFF80210C ppc_zero) = 2"
proof
  have "faddx \<in> set (fp_results @ fp_others @ [mcrfs, mffsx])" by (simp add: fp_results_def)
  then show "fpu_in_step (faddx 0xFC22182A (mtfsfix 0xFF80210C ppc_zero))"
    using rounding_mode_in_step by blast
  show "host_mode (mtfsfix 0xFF80210C ppc_zero) = 2"
    by (simp add: mtfsfix_def inst_CRFD_def ifield_def record_CR1_def inst_Rc_def FPSCRtoFPUSettings_def SetRoundMode_def
      SetSIMDMode_def simd_rounding_table_def host_mode_def fpscr_field_def ppc_zero_def)
qed

text \<open>C18: The arithmetic of the unit only accumulates exceptions: none of its 57 instructions clears an
  exception bit of FPSCR or touches its control bits, and besides FPSCR they change only floating-point
  and condition registers.\<close>

theorem exceptions_sticky:
  assumes "f \<in> set (fp_results @ fp_others)"
  shows "(\<forall>n \<in> {8, 9, 10, 19, 20, 21, 22, 23, 24, 25, 26, 27, 28, 31}.
            bit (fpscr s) n \<longrightarrow> bit (fpscr (f inst s)) n)
    \<and> (\<forall>n \<in> {0..7} \<union> {11, 29, 30}. bit (fpscr (f inst s)) n = bit (fpscr s) n)
    \<and> f inst s = s\<lparr>ps := ps (f inst s), fpscr := fpscr (f inst s), cr_val := cr_val (f inst s)\<rparr>"
  using fp_instructions_evolve [OF assms, of s inst]
  unfolding fp_evolves_def evolves_def bit_FX by auto

theorem exceptions_sticky_witness:
  "bit (fpscr (fdivx 0xFC221824 (ppc_zero\<lparr>fpscr := 0x02000000\<rparr>))) 25"
proof -
  have "fdivx \<in> set (fp_results @ fp_others)" by (simp add: fp_results_def)
  from exceptions_sticky [OF this, of "ppc_zero\<lparr>fpscr := 0x02000000\<rparr>" "0xFC221824"]
  show ?thesis by simp
qed

text \<open>C17: The result flags classify the result: after each of the 34 arithmetic instructions FPRF holds the
  class of the number in the destination register, one of the nine the architecture lists.\<close>

theorem result_class:
  assumes "f \<in> set fp_results"
  shows "FPSCR_FPRF (f inst s) =
    (let d = ps (f inst s) (inst_FD inst) 0
     in if f64_isnan d then PPC_FPCLASS_QNAN
        else if f64_isinf d then (if f64_neg d then PPC_FPCLASS_NINF else PPC_FPCLASS_PINF)
        else if f64_value d = 0 then (if f64_neg d then PPC_FPCLASS_NZ else PPC_FPCLASS_PZ)
        else if \<bar>f64_value d\<bar> < 2 powi (- 1022) then (if f64_neg d then PPC_FPCLASS_ND else PPC_FPCLASS_PD)
        else (if f64_neg d then PPC_FPCLASS_NN else PPC_FPCLASS_PN))"
proof -
  define d where "d = ps (f inst s) (inst_FD inst) 0"
  have "f64_value d = 0 \<longleftrightarrow> f64_mag d = 0" by (simp add: f64_value_def)
  moreover have "\<bar>f64_value d\<bar> < 2 powi (- 1022) \<longleftrightarrow> f64_mag d < 2 ^ 52"
  proof -
    have a: "\<bar>f64_value d\<bar> = mag_value 53 (f64_mag d)" by (simp add: f64_value_def)
    have e: "emin 53 + int 53 - 1 = - 1022" "(53 :: nat) - 1 = 52" by (simp_all add: emin_def)
    show ?thesis unfolding a using normal_iff [of 53 "f64_mag d", unfolded e] by (metis not_less zero_less_numeral)
  qed
  ultimately show ?thesis
    using fp_results_classified [OF assms, of inst s]
    unfolding classified_def d_def [symmetric] ClassifyDouble_class class_of_def Let_def by simp
qed

theorem result_class_witness:
  "FPSCR_FPRF (fsubx 0xFC221828 ppc_zero) = PPC_FPCLASS_PZ"
proof -
  have f: "fsubx \<in> set fp_results" by (simp add: fp_results_def)
  have r: "ps (fsubx 0xFC221828 ppc_zero) (inst_FD 0xFC221828) 0 = 0"
    by (simp add: fsubx_def NI_sub_def f64_sub_def f64_add_def f64_isnan_def f64_isinf_def f64_mag_def f64_neg_def
      f64_negate_def exact_sum_def magnitude_def inf_mag_def f64_pack_def ForceDouble_def record_CR1_def inst_Rc_def
      ifield_def UpdateFPRF_def set_fpscr_field_def ppc_zero_def host_mode_def)
  show ?thesis
    using result_class [OF f, of "0xFC221828" ppc_zero] unfolding r
    by (simp add: f64_isnan_def f64_isinf_def f64_mag_def f64_neg_def inf_mag_def f64_value_def)
qed

end
