(* ===== verification/PPC_Convert.thy ===== *)
theory PPC_Convert
  imports PPC_FloatingPoint PPC_FPStatus Float_Ops
begin

text \<open>
  The conversions of a double to a word, \<open>fctiwz\<close> and \<open>fctiw\<close>: the result as a function of the value, with
  saturation and flags, and the ties of the mode that rounds to nearest.
\<close>

section \<open>Constants\<close>

lemma s32_max_value: "\<not> f64_isnan s32_max" "f64_value s32_max = 2147483647"
  using f64_of_int_exact [of "2147483647" 0] by (simp_all add: s32_max_def finite_not_nan)

lemma s32_min_value: "\<not> f64_isnan s32_min" "f64_value s32_min = - 2147483648"
  using f64_of_int_exact [of "2147483648" 0]
  by (simp_all add: s32_min_def f64_negate_value finite_not_nan)

lemma above_max: "f64_less s32_max b \<longleftrightarrow> \<not> f64_isnan b \<and> 2147483647 < f64_value b"
  by (simp add: f64_less_value s32_max_value)

lemma below_min: "f64_less b s32_min \<longleftrightarrow> \<not> f64_isnan b \<and> f64_value b < - 2147483648"
  by (simp add: f64_less_value s32_min_value)

lemma value_zero [simp]: "f64_value 0 = 0" "\<not> f64_isnan 0"
  by (simp_all add: f64_value_def f64_mag_def f64_isnan_def)

lemma in_range_finite: "\<not> f64_isnan b \<Longrightarrow> \<bar>f64_value b\<bar> < 2 powi 1024 \<Longrightarrow> f64_finite b"
proof -
  assume "\<not> f64_isnan b" and v: "\<bar>f64_value b\<bar> < 2 powi 1024"
  have "\<bar>f64_value b\<bar> = mag_value 53 (f64_mag b)" by (simp add: f64_value_def)
  then have "mag_value 53 (f64_mag b) < mag_value 53 (inf_mag 53)" using v by (simp only: mag_value_inf)
  then show "f64_finite b" by (simp add: f64_finite_def mag_value_less_iff)
qed

lemma word_range_finite: "\<not> f64_isnan b \<Longrightarrow> - 2147483648 \<le> f64_value b \<Longrightarrow> f64_value b \<le> 2147483648 \<Longrightarrow> f64_finite b"
proof (rule in_range_finite, assumption)
  assume "- 2147483648 \<le> f64_value b" "f64_value b \<le> 2147483648"
  then have "\<bar>f64_value b\<bar> \<le> 2 powi 31" by simp
  also have "(2 :: rat) powi 31 < 2 powi 1024" by (simp only: powi_less_iff)
  finally show "\<bar>f64_value b\<bar> < 2 powi 1024" .
qed

section \<open>Casts\<close>

lemma trunc_bounds: "of_int l \<le> v \<Longrightarrow> v \<le> of_int h \<Longrightarrow> l \<le> trunc v \<and> trunc v \<le> h"
proof -
  assume a: "of_int l \<le> v" "v \<le> of_int h"
  show ?thesis
  proof (cases "v < 0")
    case True
    have "- v \<le> of_int (- l)" using a(1) by simp
    from floor_mono [OF this] have "\<lfloor>- v\<rfloor> \<le> - l" by (simp only: floor_of_int)
    moreover have "- h \<le> \<lfloor>- v\<rfloor>" using a(2) by (simp add: le_floor_iff)
    ultimately show ?thesis using True by (simp add: trunc_def)
  next
    case False
    then show ?thesis using a floor_mono [OF a(2)] by (simp add: trunc_def le_floor_iff)
  qed
qed

lemma f64_to_s32_value:
  assumes "f64_finite b" "- 2147483648 \<le> f64_value b" "f64_value b < 2147483648"
  shows "f64_to_s32 b = word_of_int (trunc (f64_value b))" "sint (f64_to_s32 b) = trunc (f64_value b)"
proof -
  have t: "- 2147483648 \<le> trunc (f64_value b)" "trunc (f64_value b) \<le> 2147483647"
  proof -
    show l: "- 2147483648 \<le> trunc (f64_value b)"
      using trunc_bounds [of "- 2147483648" "f64_value b" 2147483648] assms by simp
    show "trunc (f64_value b) \<le> 2147483647"
    proof (cases "f64_value b < 0")
      case True
      then show ?thesis using trunc_bounds [of "- 2147483648" "f64_value b" 0] assms by simp
    next
      case False
      then show ?thesis using assms(3) by (simp add: trunc_def floor_less_iff le_less_Suc_eq flip: zless_add1_eq)
    qed
  qed
  then show "f64_to_s32 b = word_of_int (trunc (f64_value b))"
    using finite_not_nan(1) [OF assms(1)] by (simp add: f64_to_s32_def f64_trunc_value)
  then show "sint (f64_to_s32 b) = trunc (f64_value b)"
    using t by (simp add: signed_of_int signed_take_bit_int_eq_self)
qed

section \<open>The fraction of a number is exact\<close>

lemma fraction_exact:
  assumes b: "f64_finite b" and frac: "f64_value b \<noteq> of_int (trunc (f64_value b))"
  obtains y where "f64_finite y" "f64_value y = f64_value b - of_int (trunc (f64_value b))"
    "\<bar>f64_value b\<bar> < 2 powi (- 1022) \<or> 2 ^ 52 \<le> f64_mag y"
proof -
  obtain m q where mq: "magnitude 53 (f64_mag b) = (m, q)" by force
  note v = magnitude_value [OF mq]
  have fl: "\<lfloor>mag_value 53 (f64_mag b)\<rfloor> = int (if 0 \<le> q then m * 2 ^ nat q else m div 2 ^ nat (- q))"
    by (rule floor_mag [OF mq])
  define s where "s = (if f64_neg b then - 1 else 1 :: rat)"
  have vb: "f64_value b = s * mag_value 53 (f64_mag b)" by (simp add: f64_value_def s_def)
  have tb: "of_int (trunc (f64_value b)) = s * of_int \<lfloor>mag_value 53 (f64_mag b)\<rfloor>"
  proof -
    have "trunc (f64_value b) = (if f64_neg b then - 1 else 1) * \<lfloor>mag_value 53 (f64_mag b)\<rfloor>"
      using truncate_value [of "f64_neg b" 53 "f64_mag b"] fl
      by (simp add: f64_value_def truncate_def mq)
    then show ?thesis by (simp add: s_def)
  qed
  have q: "q < 0"
  proof (rule ccontr)
    assume "\<not> q < 0"
    then have "mag_value 53 (f64_mag b) = of_int \<lfloor>mag_value 53 (f64_mag b)\<rfloor>"
      unfolding fl unfolding v [symmetric] powi_nat_split by simp
    then show False using frac vb tb by simp
  qed
  define P where "P = (2 :: nat) ^ nat (- q)"
  have fr: "mag_value 53 (f64_mag b) - of_int \<lfloor>mag_value 53 (f64_mag b)\<rfloor> = of_nat (m mod P) * 2 powi q"
  proof -
    have P: "(2 :: rat) powi q = 1 / of_nat P" unfolding powi_nat_split P_def using q by simp
    have "of_nat m = (of_nat (m div P) * of_nat P + of_nat (m mod P) :: rat)"
      by (metis div_mult_mod_eq of_nat_add of_nat_mult)
    moreover have "(of_nat P :: rat) \<noteq> 0" by (simp add: P_def)
    ultimately have "(of_nat m :: rat) * (1 / of_nat P) - of_nat (m div P) = of_nat (m mod P) * (1 / of_nat P)"
      by (simp add: field_simps)
    moreover have "\<lfloor>mag_value 53 (f64_mag b)\<rfloor> = int (m div P)" unfolding fl P_def using q by simp
    ultimately show ?thesis unfolding v [symmetric] P by simp
  qed
  have m53: "m mod P < 2 ^ 53"
    using magnitude_less [OF _ mq] by (meson le_less_trans mod_less_eq_dividend zero_less_numeral)
  have E: "emin 53 \<le> q" by (rule magnitude_scaled(1) [OF mq])
  have "of_nat (m mod P) * 2 powi q < (1 :: rat)"
    unfolding fr [symmetric] by linarith
  also have "(1 :: rat) = 2 powi 0" by simp
  also have "(2 :: rat) powi 0 < 2 powi 1024" by (simp only: powi_less_iff)
  finally have b1: "of_nat (m mod P) * (2 :: rat) powi q < mag_value 53 (inf_mag 53)" by (simp only: mag_value_inf)
  obtain mag where mag: "mag < inf_mag 53" "mag_value 53 mag = of_nat (m mod P) * 2 powi q"
    by (rule float_exists [OF zero_less_numeral m53 E b1])
  define y where "y = f64_pack (f64_neg b) mag"
  have y: "f64_finite y" "f64_value y = s * mag_value 53 mag" "f64_mag y = mag"
    using f64_pack_value [OF mag(1), of "f64_neg b"] f64_pack_parts(2) [of mag "f64_neg b"] mag(1) inf_mag_small
    by (simp_all add: y_def s_def)
  have yv: "f64_value y = f64_value b - of_int (trunc (f64_value b))"
    unfolding y(2) mag(2) fr [symmetric] right_diff_distrib vb [symmetric] tb [symmetric] ..
  have "\<bar>f64_value b\<bar> < 2 powi (- 1022) \<or> 2 ^ 52 \<le> f64_mag y"
  proof (cases "\<lfloor>mag_value 53 (f64_mag b)\<rfloor> = 0")
    case True
    then have "mag = f64_mag b" using fr mag(2) mag_value_inj by (metis diff_zero of_int_0)
    moreover have "\<bar>f64_value b\<bar> = mag_value 53 (f64_mag b)" by (simp add: f64_value_def)
    moreover have "emin 53 + int 53 - 1 = - 1022" "(53 :: nat) - 1 = 52" by (simp_all add: emin_def)
    ultimately show ?thesis using normal_iff [of 53 "f64_mag b"] y(3) by (metis not_less zero_less_numeral)
  next
    case False
    have "m mod P \<noteq> 0"
    proof
      assume "m mod P = 0"
      then have "f64_value y = 0" by (simp add: y(2) mag(2))
      then show False using yv frac by simp
    qed
    have "- 53 \<le> q"
    proof (rule ccontr)
      assume "\<not> - 53 \<le> q"
      then have "(2 :: nat) ^ 53 \<le> P" unfolding P_def by (intro power_increasing) auto
      moreover have "m < 2 ^ 53" by (rule magnitude_less [OF _ mq]) simp
      ultimately have "m div P = 0" by simp
      then show False using False q unfolding fl P_def by simp
    qed
    then have "(2 :: rat) powi (- 1022) \<le> 2 powi q" by (intro powi_mono) simp
    also have "\<dots> = 1 * 2 powi q" by simp
    also have "\<dots> \<le> of_nat (m mod P) * 2 powi q"
    proof (rule mult_right_mono)
      have "1 \<le> m mod P" using \<open>m mod P \<noteq> 0\<close> by simp
      then have "of_nat 1 \<le> (of_nat (m mod P) :: rat)" by (simp only: of_nat_le_iff)
      then show "1 \<le> (of_nat (m mod P) :: rat)" by simp
    qed simp
    finally have "(2 :: rat) powi (- 1022) \<le> mag_value 53 mag" using mag(2) by simp
    moreover have "emin 53 + int 53 - 1 = - 1022" "(53 :: nat) - 1 = 52" by (simp_all add: emin_def)
    ultimately show ?thesis using normal_iff [of 53 mag] y(3) by (metis zero_less_numeral)
  qed
  then show ?thesis using that [OF y(1) yv] by blast
qed

section \<open>The rounding modes\<close>

text \<open>The integer a finite number is rounded to, in the modes to zero, up and down.\<close>

definition directed :: "u32 \<Rightarrow> rat \<Rightarrow> int" where
  "directed rn v = (if rn = 1 then trunc v else if rn = 2 then \<lceil>v\<rceil> else \<lfloor>v\<rfloor>)"

lemma trunc_sign: "0 \<le> v \<Longrightarrow> 0 \<le> trunc v \<and> of_int (trunc v) \<le> v" "v \<le> 0 \<Longrightarrow> trunc v \<le> 0 \<and> v \<le> of_int (trunc v)"
proof -
  show "0 \<le> v \<Longrightarrow> 0 \<le> trunc v \<and> of_int (trunc v) \<le> v" by (simp add: trunc_def)
  have "v \<le> - of_int \<lfloor>- v\<rfloor>" using of_int_floor_le [of "- v"] by linarith
  then show "v \<le> 0 \<Longrightarrow> trunc v \<le> 0 \<and> v \<le> of_int (trunc v)"
    by (cases "v = 0") (simp_all add: trunc_def)
qed

lemma ceiling_trunc: "\<lceil>v\<rceil> = (if of_int (trunc v) < v then trunc v + 1 else trunc v)"
proof (cases "0 \<le> v")
  case True
  then have t: "trunc v = \<lfloor>v\<rfloor>" by (simp add: trunc_def)
  show ?thesis unfolding t ceiling_altdef using of_int_floor_le [of v] by (auto simp: less_le)
next
  case False
  then have t: "trunc v = \<lceil>v\<rceil>" by (simp add: trunc_def ceiling_def)
  show ?thesis unfolding t using le_of_int_ceiling [of v] by (simp add: not_less)
qed

lemma floor_trunc: "\<lfloor>v\<rfloor> = (if v < of_int (trunc v) then trunc v - 1 else trunc v)"
proof (cases "0 \<le> v")
  case True
  then have t: "trunc v = \<lfloor>v\<rfloor>" by (simp add: trunc_def)
  show ?thesis unfolding t using of_int_floor_le [of v] by (simp add: not_less)
next
  case False
  then have t: "trunc v = \<lceil>v\<rceil>" by (simp add: trunc_def ceiling_def)
  show ?thesis unfolding t ceiling_altdef using floor_correct [of v] by auto
qed

lemma fraction_sign:
  assumes b: "f64_finite b" and t: "\<bar>trunc (f64_value b)\<bar> \<le> 2147483648"
    and normal: "ftz \<Longrightarrow> f64_value b = 0 \<or> 2 powi (- 1022) \<le> \<bar>f64_value b\<bar>"
    and d_def: "d = f64_sub mode ftz b (f64_of_int mode' (trunc (f64_value b)))"
  shows "f64_less 0 d \<longleftrightarrow> of_int (trunc (f64_value b)) < f64_value b"
    "f64_less d 0 \<longleftrightarrow> f64_value b < of_int (trunc (f64_value b))"
proof -
  have i: "\<bar>trunc (f64_value b)\<bar> < 2 ^ 53" using t by simp
  note I = f64_of_int_exact [OF i, of mode']
  have "(f64_less 0 d \<longleftrightarrow> of_int (trunc (f64_value b)) < f64_value b) \<and>
    (f64_less d 0 \<longleftrightarrow> f64_value b < of_int (trunc (f64_value b)))"
  proof (cases "f64_value b = of_int (trunc (f64_value b))")
    case True
    then have "f64_mag d = 0" using f64_sub_zero [OF b I(1)] I(2) by (simp add: d_def)
    then have "f64_value d = 0" "\<not> f64_isnan d" by (simp_all add: f64_value_def f64_isnan_def)
    then show ?thesis using True by (auto simp: f64_less_value)
  next
    case False
    obtain y where y: "f64_finite y" "f64_value y = f64_value b - of_int (trunc (f64_value b))"
      "\<bar>f64_value b\<bar> < 2 powi (- 1022) \<or> 2 ^ 52 \<le> f64_mag y"
      by (rule fraction_exact [OF b False])
    have "f64_value b \<noteq> 0" using False by (metis of_int_0 trunc_of_int)
    then have "ftz \<Longrightarrow> 2 ^ 52 \<le> f64_mag y" using normal y(3) by linarith
    then have "d = y" unfolding d_def using f64_sub_exact [OF b I(1) y(1)] y(2) I(2) False by simp
    then show ?thesis using y(1,2) finite_not_nan(1) [OF y(1)] by (simp add: f64_less_value)
  qed
  then show "f64_less 0 d \<longleftrightarrow> of_int (trunc (f64_value b)) < f64_value b"
    "f64_less d 0 \<longleftrightarrow> f64_value b < of_int (trunc (f64_value b))" by blast+
qed

lemma round_s32_directed:
  assumes b: "f64_finite b" and r: "- 2147483648 \<le> f64_value b" "f64_value b \<le> 2147483647"
    and rn: "FPSCR_RN s \<in> {1, 2, 3}"
    and normal: "host_ftz s \<Longrightarrow> f64_value b = 0 \<or> 2 powi (- 1022) \<le> \<bar>f64_value b\<bar>"
  shows "round_s32 b s = word_of_int (directed (FPSCR_RN s) (f64_value b))"
proof -
  have c: "f64_to_s32 b = word_of_int (trunc (f64_value b))" "sint (f64_to_s32 b) = trunc (f64_value b)"
    using f64_to_s32_value [OF b] r by simp_all
  have "\<bar>trunc (f64_value b)\<bar> \<le> 2147483648"
    using trunc_bounds [of "- 2147483648" "f64_value b" 2147483647] r by simp linarith
  note F = fraction_sign [OF b this normal refl, where mode = "host_mode s" and mode' = "host_mode s"]
  have c3: "sint (word_of_int (trunc (f64_value b)) :: s32) = trunc (f64_value b)" using c by simp
  note D = round_s32_def Let_def c(1) c3 F directed_def simp_thms
  have n: "(1 :: u32) \<noteq> 0" "(2 :: u32) \<noteq> 0" "(3 :: u32) \<noteq> 0" "(2 :: u32) \<noteq> 1" "(3 :: u32) \<noteq> 1" "(3 :: u32) \<noteq> 2"
    by simp_all
  from rn consider "FPSCR_RN s = 1" | "FPSCR_RN s = 2" | "FPSCR_RN s = 3" by blast
  then show ?thesis
  proof cases
    case 1
    then show ?thesis by (simp only: D n if_True if_False)
  next
    case 2
    then show ?thesis
      by (simp only: D n if_True if_False ceiling_trunc [of "f64_value b"] if_distrib [of word_of_int] of_int_add of_int_1 wi_hom_syms)
  next
    case 3
    then show ?thesis
      by (simp only: D n if_True if_False floor_trunc [of "f64_value b"] if_distrib [of word_of_int] of_int_diff of_int_1 wi_hom_syms)
  qed
qed

section \<open>Results and flags\<close>

text \<open>The register a conversion writes, from the word.\<close>

definition int_result :: "u64 \<Rightarrow> u32 \<Rightarrow> u64" where
  "int_result b w = 0xfff8000000000000 OR ucast w OR (if w = 0 \<and> f64_neg b then 0x100000000 else 0)"

lemma store_s32_result:
  "ps (store_s32 inst b w s) (inst_FD inst) 0 = int_result b w" "fpscr (store_s32 inst b w s) = fpscr s"
  by (simp_all add: store_s32_def int_result_def record_CR1_def Helper_UpdateCR1_def SetCRField_def Let_def or.assoc)

text \<open>Saturation.\<close>

definition saturated :: "rat \<Rightarrow> bool" where "saturated v \<longleftrightarrow> v < - 2147483648 \<or> 2147483647 < v"

definition to_word :: "rat \<Rightarrow> int \<Rightarrow> u32" where
  "to_word v r = (if 2147483647 < v then 0x7fffffff else if v < - 2147483648 then 0x80000000 else word_of_int r)"

lemma bit_SetFPException:
  assumes "n < 31" shows "bit (fpscr (SetFPException m s)) n \<longleftrightarrow> bit (fpscr s) n \<or> bit m n"
proof -
  have "bit (fpscr (set_fpscr_field 31 w v s)) n = bit (fpscr s) n" for w v
    unfolding set_fpscr_field_def using assms by (simp add: bit_set_field)
  then show ?thesis by (simp add: SetFPException_def Let_def bit_or_iff)
qed

lemma bit_set_FI_FR:
  assumes "n < 31"
  shows "bit (fpscr (set_FI v s)) n \<longleftrightarrow> (if n = 17 then bit v 0 else bit (fpscr s) n)"
    "bit (fpscr (set_FR v s)) n \<longleftrightarrow> (if n = 18 then bit v 0 else bit (fpscr s) n)"
proof -
  have "lo \<le> n \<and> n < lo + 1 \<longleftrightarrow> n = lo" for lo :: nat by auto
  then show "bit (fpscr (set_FI v s)) n \<longleftrightarrow> (if n = 17 then bit v 0 else bit (fpscr s) n)"
    "bit (fpscr (set_FR v s)) n \<longleftrightarrow> (if n = 18 then bit v 0 else bit (fpscr s) n)"
    using assms bit_set_field [of n "fpscr s" 17 1 v] bit_set_field [of n "fpscr s" 18 1 v]
    unfolding set_fpscr_field_def by simp_all
qed

lemmas bit_flags = bit_set_FI_FR [unfolded One_nat_def]

lemma exception_bits: "n < 31 \<Longrightarrow> bit FPSCR_XX n \<longleftrightarrow> n = 25" "n < 31 \<Longrightarrow> bit FPSCR_VXCVI n \<longleftrightarrow> n = 8"
  unfolding fpscr_defs bit_single by auto

text \<open>The flags after a conversion of the value \<open>v\<close> to \<open>r\<close>.\<close>

definition conversion_flags :: "rat \<Rightarrow> int \<Rightarrow> u32 \<Rightarrow> u32 \<Rightarrow> bool" where
  "conversion_flags v r old new \<longleftrightarrow>
     bit new 17 = (\<not> saturated v \<and> of_int r \<noteq> v) \<and> bit new 18 = (\<not> saturated v \<and> \<bar>v\<bar> < \<bar>of_int r\<bar>)
     \<and> bit new 8 = (bit old 8 \<or> saturated v) \<and> bit new 25 = (bit old 25 \<or> \<not> saturated v \<and> of_int r \<noteq> v)"

lemma convert_flags_bits:
  assumes b: "\<not> f64_isnan b" and r: "sint i = r" "\<not> saturated (f64_value b)"
  shows "conversion_flags (f64_value b) r (fpscr s) (fpscr (convert_flags b i s))"
proof -
  have "\<bar>sint i\<bar> \<le> 2147483648" using sint_greater_eq [of i] sint_less [of i] by simp
  then have R: "\<bar>r\<bar> < 2 ^ 53" using r(1) by simp
  note I = f64_of_int_exact [OF R, of "host_mode s"]
  have eq: "f64_eq (f64_of_int (host_mode s) r) b \<longleftrightarrow> of_int r = f64_value b"
    unfolding f64_eq_value I(2) using b finite_not_nan(1) [OF I(1)] by simp
  have abs: "f64_value (f64_abs x) = \<bar>f64_value x\<bar>" "f64_isnan (f64_abs x) = f64_isnan x" for x
    by (simp_all add: f64_value_def f64_abs_def f64_neg_def f64_mag_def f64_isnan_def bit_take_bit_iff)
  have less: "f64_less (f64_abs b) (f64_abs (f64_of_int (host_mode s) r)) \<longleftrightarrow> \<bar>f64_value b\<bar> < \<bar>of_int r\<bar>"
    unfolding f64_less_value abs I(2) using b finite_not_nan(1) [OF I(1)] by simp
  show ?thesis
    unfolding conversion_flags_def convert_flags_def Let_def r(1) eq less SetFI_def
    using r(2) by (simp add: bit_flags bit_SetFPException exception_bits)
qed

lemma saturated_flags:
  assumes "saturated v"
  shows "conversion_flags v r (fpscr s) (fpscr (set_FR 0 (set_FI 0 (SetFPException FPSCR_VXCVI s))))"
  unfolding conversion_flags_def using assms
  by (simp add: bit_flags bit_SetFPException exception_bits)

text \<open>A conversion whose \<open>else\<close> branch gives the word of \<open>r\<close>.\<close>

lemma conversion:
  assumes b: "\<not> f64_isnan b" and r: "\<not> saturated (f64_value b) \<Longrightarrow> i = word_of_int r \<and> sint i = r"
    and s': "s' = (let (value, s) =
      (if f64_less s32_max b then (0x7fffffff, set_FR 0 (set_FI 0 (SetFPException FPSCR_VXCVI s)))
       else if f64_less b s32_min then (0x80000000, set_FR 0 (set_FI 0 (SetFPException FPSCR_VXCVI s)))
       else let i' = i in (i', convert_flags b i' s)) in store_s32 inst b value s)"
  shows "ps s' (inst_FD inst) 0 = int_result b (to_word (f64_value b) r)"
    "conversion_flags (f64_value b) r (fpscr s) (fpscr s')"
proof -
  have t: "f64_less s32_max b \<longleftrightarrow> 2147483647 < f64_value b" "f64_less b s32_min \<longleftrightarrow> f64_value b < - 2147483648"
    using b by (simp_all add: above_max below_min)
  show "ps s' (inst_FD inst) 0 = int_result b (to_word (f64_value b) r)"
    unfolding s' t Let_def using r by (auto simp: store_s32_result to_word_def saturated_def)
  show "conversion_flags (f64_value b) r (fpscr s) (fpscr s')"
    unfolding s' t Let_def using convert_flags_bits [OF b] saturated_flags r
    by (auto simp: store_s32_result saturated_def)
qed

text \<open>C10: \<open>fctiwz\<close> converts every number, infinities included, to the integer it truncates to, saturated to
  32 bits; \<open>fctiw\<close> does the same with the integer below, above or towards zero when FPSCR[RN] says so.
  FI and XX report an inexact result, FR one of greater magnitude, VXCVI a saturated one.  The claim on
  \<open>fctiw\<close> leaves out the subnormal numbers other than 0 while FPSCR[NI] makes the host flush: the
  difference the code looks at is then flushed to 0, and a positive one rounded up gives 0, not 1.\<close>

theorem integer_conversion:
  assumes num: "\<not> f64_isnan b" and b: "b = ps s (inst_FB inst) 0"
  shows "ps (fctiwzx inst s) (inst_FD inst) 0 = int_result b (to_word (f64_value b) (trunc (f64_value b)))
    \<and> conversion_flags (f64_value b) (trunc (f64_value b)) (fpscr s) (fpscr (fctiwzx inst s))
    \<and> (FPSCR_RN s \<noteq> 0 \<and> (host_ftz s \<longrightarrow> f64_value b = 0 \<or> 2 powi (- 1022) \<le> \<bar>f64_value b\<bar>) \<longrightarrow>
        ps (fctiwx inst s) (inst_FD inst) 0 =
          int_result b (to_word (f64_value b) (directed (FPSCR_RN s) (f64_value b)))
        \<and> conversion_flags (f64_value b) (directed (FPSCR_RN s) (f64_value b)) (fpscr s) (fpscr (fctiwx inst s)))"
proof -
  let ?v = "f64_value b"
  have fin: "f64_finite b" if "\<not> saturated ?v" using word_range_finite [OF num] that by (simp add: saturated_def)
  have z: "\<not> saturated ?v \<Longrightarrow> f64_to_s32 b = word_of_int (trunc ?v) \<and> sint (f64_to_s32 b) = trunc ?v"
    using f64_to_s32_value [OF fin] by (simp add: saturated_def)
  have rn: "FPSCR_RN s \<in> {0, 1, 2, 3}"
  proof -
    have "unat (FPSCR_RN s) < 4"
      using take_bit_nat_less_exp [of 2 "unat (drop_bit 0 (fpscr s))"] by (simp add: fpscr_field_def unsigned_take_bit_eq)
    then consider "unat (FPSCR_RN s) = 0" | "unat (FPSCR_RN s) = 1" | "unat (FPSCR_RN s) = 2" | "unat (FPSCR_RN s) = 3"
      by linarith
    then show ?thesis by cases (simp_all add: word_unat_eq_iff)
  qed
  have d: "round_s32 b s = word_of_int (directed (FPSCR_RN s) ?v) \<and> sint (round_s32 b s) = directed (FPSCR_RN s) ?v"
    if "\<not> saturated ?v" "FPSCR_RN s \<noteq> 0" "host_ftz s \<longrightarrow> ?v = 0 \<or> 2 powi (- 1022) \<le> \<bar>?v\<bar>"
  proof
    have r: "- 2147483648 \<le> ?v" "?v \<le> 2147483647" using that(1) by (simp_all add: saturated_def)
    show w: "round_s32 b s = word_of_int (directed (FPSCR_RN s) ?v)"
      using round_s32_directed [OF fin [OF that(1)] r] rn that(2,3) by blast
    have lo: "- 2147483648 \<le> \<lfloor>?v\<rfloor>" and hi: "\<lceil>?v\<rceil> \<le> 2147483647"
      using r by (simp_all add: le_floor_iff ceiling_le_iff)
    have "\<lfloor>?v\<rfloor> \<le> \<lceil>?v\<rceil>" by (rule floor_le_ceiling)
    moreover have "\<lfloor>?v\<rfloor> \<le> trunc ?v" "trunc ?v \<le> \<lceil>?v\<rceil>" by (simp_all add: floor_trunc [of ?v] ceiling_trunc [of ?v])
    ultimately have "directed (FPSCR_RN s) ?v \<in> {\<lfloor>?v\<rfloor>..\<lceil>?v\<rceil>}" by (simp add: directed_def)
    then have "- 2147483648 \<le> directed (FPSCR_RN s) ?v" "directed (FPSCR_RN s) ?v \<le> 2147483647"
      using lo hi unfolding atLeastAtMost_iff by linarith+
    then show "sint (round_s32 b s) = directed (FPSCR_RN s) ?v"
      unfolding w by (simp add: signed_of_int signed_take_bit_int_eq_self)
  qed
  show ?thesis
    using conversion [OF num z fctiwzx_def [of inst s, folded b, unfolded Let_def [of b]]]
      conversion [OF num d fctiwx_def [of inst s, folded b, unfolded Let_def [of b]]]
    by blast
qed

text \<open>-1.5 up, in an inexact conversion, and 3e9 saturated.\<close>

lemma f64_value_sample:
  "f64_value 0xBFF8000000000000 = - 3 / 2" "f64_value 0x41E65A0BC0000000 = 3000000000"
proof -
  have "f64_value x = (if f64_neg x then - 1 else 1) * (of_nat (fst (magnitude 53 (f64_mag x))) * 2 powi snd (magnitude 53 (f64_mag x)))" for x
    using magnitude_value [of 53 "f64_mag x"] by (simp add: f64_value_def)
  then show "f64_value 0xBFF8000000000000 = - 3 / 2" "f64_value 0x41E65A0BC0000000 = 3000000000"
    by (simp_all add: magnitude_def f64_mag_def f64_neg_def emin_def)
qed

theorem integer_conversion_witness:
  "ps (fctiwx 0xFC20101C (ppc_zero\<lparr>fpscr := 2, ps := (\<lambda>_ _. 0)(2 := (\<lambda>_. 0)(0 := 0xBFF8000000000000))\<rparr>)) 1 0
     = 0xfff80000ffffffff"
proof -
  let ?s = "ppc_zero\<lparr>fpscr := 2, ps := (\<lambda>_ _. 0)(2 := (\<lambda>_. 0)(0 := 0xBFF8000000000000))\<rparr>"
  have i: "inst_FB 0xFC20101C = 2" "inst_FD 0xFC20101C = 1" by (simp_all add: inst_FB_def inst_FD_def ifield_def)
  have n: "\<not> f64_isnan 0xBFF8000000000000" by (simp add: f64_isnan_def f64_mag_def inf_mag_def)
  have rn: "FPSCR_RN ?s = 2" "\<not> host_ftz ?s" by (simp_all add: fpscr_field_def host_ftz_def ppc_zero_def)
  have w: "to_word (- 3 / 2) (directed 2 (- 3 / 2)) = 0xffffffff"
  proof -
    have "\<lceil>- 3 / 2 :: rat\<rceil> = - 1" by (simp add: ceiling_eq_iff)
    then show ?thesis by (simp add: to_word_def directed_def)
  qed
  have "ps (fctiwx 0xFC20101C ?s) 1 0 = int_result 0xBFF8000000000000 (to_word (- 3 / 2) (directed 2 (- 3 / 2)))"
    using integer_conversion [OF n, of ?s "0xFC20101C"] rn unfolding i f64_value_sample by simp
  then show ?thesis unfolding w by (simp add: int_result_def)
qed

section \<open>Ties\<close>

lemma half_value: "f64_finite half" "f64_value half = 1 / 2"
proof -
  have "f64_value half = of_nat (fst (magnitude 53 (f64_mag half))) * 2 powi snd (magnitude 53 (f64_mag half))"
    using magnitude_value [of 53 "f64_mag half"] by (simp add: f64_value_def f64_neg_def half_def)
  then show "f64_value half = 1 / 2" by (simp add: magnitude_def f64_mag_def half_def emin_def)
  show "f64_finite half" by (simp add: f64_finite_def f64_mag_def half_def inf_mag_def)
qed

lemma round_s32_tie:
  assumes b: "\<not> f64_isnan b" and v: "f64_value b = of_int n + 1 / 2" and n: "0 \<le> n" "n < 2147483647"
    and rn: "FPSCR_RN s = 0"
  shows "round_s32 b s = word_of_int n \<and> sint (round_s32 b s) = n"
proof -
  have fin: "f64_finite b" using word_range_finite [OF b] v n by simp
  have N: "\<bar>n + 1\<bar> < 2 ^ 53" using n by simp
  define y where "y = f64_of_int (host_mode s) (n + 1)"
  note Y = f64_of_int_exact [OF N, of "host_mode s", folded y_def]
  have y53: "2 ^ 52 \<le> f64_mag y"
  proof -
    have "(2 :: rat) powi (- 1022) \<le> 2 powi 0" by (rule powi_mono) simp
    also have "(2 :: rat) powi 0 \<le> of_int (n + 1)" using n by simp
    also have "\<dots> = mag_value 53 (f64_mag y)" using Y(2,3) n by (simp add: f64_value_def)
    finally have "(2 :: rat) powi (- 1022) \<le> mag_value 53 (f64_mag y)" .
    moreover have "emin 53 + int 53 - 1 = - 1022" "(53 :: nat) - 1 = 52" by (simp_all add: emin_def)
    ultimately show ?thesis using normal_iff [of 53 "f64_mag y"] by (metis zero_less_numeral)
  qed
  have t: "f64_add (host_mode s) (host_ftz s) b half = y"
    by (rule f64_add_exact [OF fin half_value(1) Y(1)]) (use v half_value(2) Y(2) n y53 in \<open>simp_all add: add.commute\<close>)
  have ty: "trunc (f64_value y) = n + 1" unfolding Y(2) by (rule trunc_of_int)
  have c: "f64_to_s32 y = word_of_int (n + 1)" "sint (f64_to_s32 y) = n + 1"
    using f64_to_s32_value [OF Y(1)] Y(2) n unfolding ty by simp_all
  have z: "f64_mag (f64_sub (host_mode s) (host_ftz s) y (f64_of_int (host_mode s) (n + 1))) = 0"
    unfolding y_def [symmetric] by (rule f64_sub_zero [OF Y(1) Y(1) refl])
  have "f64_less 0 b" using b v n by (simp add: f64_less_value)
  then have "round_s32 b s = f64_to_s32 y - 1"
    unfolding round_s32_def Let_def t c(2) f64_eq_0 using rn z by simp
  then have w: "round_s32 b s = word_of_int n" unfolding c(1) by (simp add: wi_hom_syms)
  then show ?thesis using n by (simp add: signed_of_int signed_take_bit_int_eq_self)
qed

text \<open>C34: In the mode that rounds to nearest, \<open>fctiw\<close> converts \<open>n + 1/2\<close> to \<open>n\<close> for every \<open>n\<close> from 0 up: a
  tie goes towards zero, also when \<open>n\<close> is odd and the nearest even integer is \<open>n + 1\<close>.\<close>

theorem nearest_tie:
  assumes num: "\<not> f64_isnan b" and b: "b = ps s (inst_FB inst) 0" and v: "f64_value b = of_int n + 1 / 2"
    and n: "0 \<le> n" "n < 2147483647" and rn: "FPSCR_RN s = 0"
  shows "ps (fctiwx inst s) (inst_FD inst) 0 = 0xfff8000000000000 OR ucast (word_of_int n :: u32)
    \<and> conversion_flags (f64_value b) n (fpscr s) (fpscr (fctiwx inst s))"
proof -
  have "\<not> f64_neg b"
  proof
    assume "f64_neg b"
    then have "f64_value b \<le> 0" by (simp add: f64_value_def)
    then show False using v n by simp
  qed
  moreover have "to_word (f64_value b) n = word_of_int n" using v n by (simp add: to_word_def)
  ultimately show ?thesis
    using conversion [OF num round_s32_tie [OF num v n rn] fctiwx_def [of inst s, folded b, unfolded Let_def [of b]]]
    by (simp add: int_result_def)
qed

theorem nearest_tie_witness:
  "ps (fctiwx 0xFC20101C (ppc_zero\<lparr>ps := (\<lambda>_ _. 0)(2 := (\<lambda>_. 0)(0 := 0x3FF8000000000000))\<rparr>)) 1 0
     = 0xfff8000000000001"
proof -
  let ?s = "ppc_zero\<lparr>ps := (\<lambda>_ _. 0)(2 := (\<lambda>_. 0)(0 := 0x3FF8000000000000))\<rparr>"
  have i: "inst_FB 0xFC20101C = 2" "inst_FD 0xFC20101C = 1" by (simp_all add: inst_FB_def inst_FD_def ifield_def)
  have n: "\<not> f64_isnan 0x3FF8000000000000" by (simp add: f64_isnan_def f64_mag_def inf_mag_def)
  have "f64_value 0x3FF8000000000000 = of_nat (fst (magnitude 53 0x3FF8000000000000)) * 2 powi snd (magnitude 53 0x3FF8000000000000)"
    using magnitude_value [of 53 "0x3FF8000000000000"] by (simp add: f64_value_def f64_neg_def f64_mag_def)
  then have v: "f64_value 0x3FF8000000000000 = of_int 1 + 1 / 2" by (simp add: magnitude_def emin_def)
  have rn: "FPSCR_RN ?s = 0" by (simp add: fpscr_field_def ppc_zero_def)
  show ?thesis using nearest_tie [OF n _ v _ _ rn, of "0xFC20101C"] by (simp add: i)
qed

end
