(* ===== verification/PPC_Estimate.thy ===== *)
theory PPC_Estimate
  imports PPC_FPStatus
begin

text \<open>
  The estimate of a reciprocal, \<open>ApproximateReciprocal\<close>: its accuracy, from a check of the 32 segments of
  the table, and the special cases.
\<close>

section \<open>The table\<close>

text \<open>
  In segment \<open>j\<close> the significand of the argument is \<open>c + k\<close> in units of \<open>2 ^ -15\<close>, and twice that of the
  estimate about \<open>a - d k\<close> in units of \<open>2 ^ -23\<close>: the product is a concave function of \<open>k\<close>.
\<close>

lemma concave_lower:
  fixes a c d k K :: int
  assumes k: "0 \<le> k" "k \<le> K" "0 < K" and d: "0 \<le> d"
    and lo: "L \<le> a * c" "L \<le> (a - d * K) * (c + K)"
  shows "L \<le> (a - d * k) * (c + k)"
proof -
  have "K * ((a - d * k) * (c + k)) = (K - k) * (a * c) + k * ((a - d * K) * (c + K)) + K * (d * (k * (K - k)))"
    by (simp add: algebra_simps)
  moreover have "0 \<le> K * (d * (k * (K - k)))" using k d by simp
  moreover have "(K - k) * L \<le> (K - k) * (a * c)" "k * L \<le> k * ((a - d * K) * (c + K))"
    using k lo by (simp_all add: mult_left_mono)
  moreover have "(K - k) * L + k * L = K * L" by (simp add: algebra_simps)
  ultimately have "K * L \<le> K * ((a - d * k) * (c + k))" by linarith
  then show ?thesis using k(3) by simp
qed

lemma concave_upper:
  fixes a c d k :: int
  assumes d: "0 < d" and hi: "(a + d * c) ^ 2 \<le> 4 * d * H"
  shows "(a - d * k) * (c + k) \<le> H"
proof -
  have "4 * d * ((a - d * k) * (c + k)) = (a + d * c) ^ 2 - (a - d * c - 2 * (d * k)) ^ 2"
    by (simp add: power2_eq_square algebra_simps)
  then have "4 * d * ((a - d * k) * (c + k)) \<le> (a + d * c) ^ 2" by simp
  then have "4 * d * ((a - d * k) * (c + k)) \<le> 4 * d * H" using hi by linarith
  then show ?thesis using d by simp
qed

text \<open>The check of one segment, with an error of at most 1 in 4096.\<close>

definition segment_ok :: "nat \<Rightarrow> bool" where
  "segment_ok j =
     (let (A, D) = fres_expected ! j; a = 2 * (2 ^ 23 + A); c = 2 ^ 15 + 1024 * int j
      in 0 < D \<and> A < 2 ^ 23 \<and> D * 1023 + 2 \<le> 2 * A
         \<and> 2 ^ 28 * 4095 \<le> (a - 1) * c \<and> 2 ^ 28 * 4095 \<le> ((a - 1) - D * 1023) * (c + 1023)
         \<and> (a + D * (c + 1)) ^ 2 \<le> 4 * D * (2 ^ 28 * 4097))"

lemma segments_ok: "j < 32 \<Longrightarrow> segment_ok j"
proof -
  have "\<forall>j \<in> set [0..<32]. segment_ok j"
    by (simp add: segment_ok_def fres_expected_def upt_rec)
  then show "j < 32 \<Longrightarrow> segment_ok j" by simp
qed

lemma half_le:
  fixes X Y C :: int
  shows "2 ^ 37 * (2 ^ 28 * C) \<le> 2 * X * Y \<Longrightarrow> 2 ^ 64 * C \<le> X * Y" "2 * X * Y \<le> 2 ^ 37 * (2 ^ 28 * C) \<Longrightarrow> X * Y \<le> 2 ^ 64 * C"
  unfolding mult.assoc by simp_all

text \<open>The fraction of the estimate and its product with any argument it is used for.\<close>

lemma fres_fraction_bounds:
  fixes f :: int
  assumes f: "0 \<le> f" "f < 2 ^ 52"
  defines "F \<equiv> fres_fraction (f div 2 ^ 37)"
  shows "0 \<le> F" "F < 2 ^ 23" "2 ^ 64 * 4095 \<le> (2 ^ 23 + F) * (2 ^ 52 + f)" "(2 ^ 23 + F) * (2 ^ 52 + f) \<le> 2 ^ 64 * 4097"
proof -
  define i where "i = f div 2 ^ 37"
  have i: "0 \<le> i" "i < 2 ^ 15" using f by (simp_all add: i_def)
  define j where "j = nat (i div 1024)"
  define k where "k = i mod 1024"
  have j: "j < 32" "i = 1024 * int j + k" using i by (auto simp: j_def k_def)
  have k: "0 \<le> k" "k \<le> 1023" using pos_mod_bound [of 1024 i] by (simp_all add: k_def)
  obtain A D where AD: "fres_expected ! j = (A, D)" by force
  define a where "a = 2 * (2 ^ 23 + A)"
  define c where "c = 2 ^ 15 + 1024 * int j"
  have ok: "0 < D" "A < 2 ^ 23" "D * 1023 + 2 \<le> 2 * A"
    "2 ^ 28 * 4095 \<le> (a - 1) * c" "2 ^ 28 * 4095 \<le> ((a - 1) - D * 1023) * (c + 1023)"
    "(a + D * (c + 1)) ^ 2 \<le> 4 * D * (2 ^ 28 * 4097)"
    using segments_ok [OF j(1)] unfolding segment_ok_def AD Let_def a_def c_def by simp_all
  have dk: "0 \<le> D * k" "D * k \<le> D * 1023" using ok(1) k by simp_all
  have F: "F = A - (D * k + 1) div 2"
  proof -
    have "i sdiv 1024 = i div 1024" "i smod 1024 = i mod 1024"
      using i by (simp_all add: signed_divide_int_def signed_modulo_int_def sgn_if)
    moreover have "(D * k + 1) sdiv 2 = (D * k + 1) div 2" using dk by (simp add: signed_divide_int_def sgn_if)
    moreover have "fres_expected ! nat (i div 1024) = (A, D)" using AD by (simp only: j_def)
    moreover have "F = fres_fraction i" by (simp only: F_def i_def)
    ultimately show ?thesis
      by (simp add: fres_fraction_def k_def)
  qed
  have h: "2 * ((D * k + 1) div 2) \<le> D * k + 1" "D * k \<le> 2 * ((D * k + 1) div 2)" by presburger+
  have F2: "2 * F \<le> 2 * A - D * k" "2 * A - D * k - 1 \<le> 2 * F" using F h by linarith+
  show F0: "0 \<le> F" and "F < 2 ^ 23" using F2 dk ok(2,3) by linarith+
  have m: "2 ^ 37 * (c + k) \<le> 2 ^ 52 + f" "2 ^ 52 + f \<le> 2 ^ 37 * (c + k + 1)"
  proof -
    have "f = 2 ^ 37 * i + f mod 2 ^ 37" by (simp add: i_def)
    moreover have "0 \<le> f mod 2 ^ 37" "f mod 2 ^ 37 < 2 ^ 37" by simp_all
    ultimately show "2 ^ 37 * (c + k) \<le> 2 ^ 52 + f" "2 ^ 52 + f \<le> 2 ^ 37 * (c + k + 1)"
      unfolding c_def j(2) by simp_all
  qed
  have c0: "0 < c + k" using k by (simp add: c_def)
  have "2 ^ 28 * 4095 \<le> ((a - 1) - D * k) * (c + k)"
    by (rule concave_lower [OF k _ _ ok(4,5)]) (use ok(1) in simp_all)
  also have "\<dots> \<le> (2 * (2 ^ 23 + F)) * (c + k)"
    by (rule mult_right_mono) (use F2(2) c0 in \<open>simp_all add: a_def\<close>)
  finally have "2 ^ 37 * (2 ^ 28 * 4095) \<le> 2 ^ 37 * ((2 * (2 ^ 23 + F)) * (c + k))" by (rule mult_left_mono) simp
  also have "\<dots> = (2 * (2 ^ 23 + F)) * (2 ^ 37 * (c + k))" by simp
  also have "\<dots> \<le> (2 * (2 ^ 23 + F)) * (2 ^ 52 + f)" by (rule mult_left_mono [OF m(1)]) (use F0 in simp)
  finally show "2 ^ 64 * 4095 \<le> (2 ^ 23 + F) * (2 ^ 52 + f)" by (rule half_le)
  have "(2 * (2 ^ 23 + F)) * (2 ^ 52 + f) \<le> (2 * (2 ^ 23 + F)) * (2 ^ 37 * (c + k + 1))"
    by (rule mult_left_mono [OF m(2)]) (use F0 in simp)
  also have "\<dots> = 2 ^ 37 * ((2 * (2 ^ 23 + F)) * (c + k + 1))" by simp
  also have "\<dots> \<le> 2 ^ 37 * ((a - D * k) * (c + k + 1))"
    by (intro mult_left_mono mult_right_mono) (use F2(1) c0 in \<open>simp_all add: a_def\<close>)
  also have "\<dots> \<le> 2 ^ 37 * (2 ^ 28 * 4097)"
    using concave_upper [OF ok(1,6), of k] by (intro mult_left_mono) (simp_all add: algebra_simps)
  finally show "(2 ^ 23 + F) * (2 ^ 52 + f) \<le> 2 ^ 64 * 4097" by (rule half_le)
qed

section \<open>The estimate\<close>

lemma unat_word: "unat (w :: u64) = n \<Longrightarrow> w = of_nat n"
  by auto

lemma field_words:
  "val AND push_bit 63 1 = (push_bit 63 (of_bool (f64_neg val)) :: u64)"
  "val AND push_bit 52 0x7FF = (of_nat (f64_exp val * 2 ^ 52) :: u64)"
  "val AND (push_bit 52 1 - 1) = (of_nat (f64_frac val) :: u64)"
proof -
  show "val AND push_bit 63 1 = (push_bit 63 (of_bool (f64_neg val)) :: u64)"
    unfolding f64_neg_def
    by (rule bit_word_eqI, unfold bit_and_iff bit_push_bit_iff bit_of_bool_iff bit_1_iff) (auto dest: le_antisym)
  have "unat (val AND push_bit 52 0x7FF) = f64_exp val * 2 ^ 52" using unat_and_exp [of val] by (simp add: double_defs)
  then show "val AND push_bit 52 0x7FF = (of_nat (f64_exp val * 2 ^ 52) :: u64)" by (rule unat_word)
  have "unat (val AND (push_bit 52 1 - 1)) = f64_frac val"
    using exp_frac(2) [of val] unfolding and_frac [symmetric] by (simp add: double_defs)
  then show "val AND (push_bit 52 1 - 1) = (of_nat (f64_frac val) :: u64)" by (rule unat_word)
qed

lemma or_fields:
  assumes "g < 2 ^ 52"
  shows "of_nat (e * 2 ^ 52) OR of_nat g = (of_nat (e * 2 ^ 52 + g) :: u64)"
proof -
  have "e * 2 ^ 52 + g = push_bit 52 e OR g"
    unfolding push_bit_eq_mult [symmetric]
  proof (rule disjunctive_add)
    fix n
    show "\<not> bit (push_bit 52 e) n \<or> \<not> bit g n"
    proof (cases "n < 52")
      case True
      then show ?thesis by (simp add: bit_push_bit_iff)
    next
      case False
      then have "\<not> bit (take_bit 52 g) n" by (simp add: bit_take_bit_iff)
      then show ?thesis using assms by (simp add: take_bit_nat_eq_self)
    qed
  qed
  then show ?thesis unfolding push_bit_eq_mult [symmetric] by (simp only: of_nat_or_eq)
qed

lemma sint_nat: "n < 2 ^ 63 \<Longrightarrow> sint (of_nat n :: 64 word) = int n"
proof -
  assume "n < 2 ^ 63"
  then have "- (2 ^ 63) \<le> int n" "int n < 2 ^ 63" by simp_all
  then have "signed_take_bit 63 (int n) = int n" by (rule signed_take_bit_int_eq_self)
  then show ?thesis by (simp only: signed_of_nat) simp
qed

lemma exponent_order:
  assumes "E < 2048" "k < 2048"
  shows "sint (of_nat (E * 2 ^ 52) :: 64 word) < sint (of_nat (k * 2 ^ 52) :: 64 word) \<longleftrightarrow> E < k"
    "(of_nat (E * 2 ^ 52) :: 64 word) = of_nat (k * 2 ^ 52) \<longleftrightarrow> E = k"
proof -
  have b: "E * 2 ^ 52 < 2 ^ 63" "k * 2 ^ 52 < 2 ^ 63" using assms by simp_all
  show "sint (of_nat (E * 2 ^ 52) :: 64 word) < sint (of_nat (k * 2 ^ 52) :: 64 word) \<longleftrightarrow> E < k"
    unfolding sint_nat [OF b(1)] sint_nat [OF b(2)] by simp
  have "(of_nat (E * 2 ^ 52) :: 64 word) = of_nat (k * 2 ^ 52) \<Longrightarrow> int (E * 2 ^ 52) = int (k * 2 ^ 52)"
    using sint_nat [OF b(1)] sint_nat [OF b(2)] by metis
  then show "(of_nat (E * 2 ^ 52) :: 64 word) = of_nat (k * 2 ^ 52) \<longleftrightarrow> E = k" by auto
qed

lemma push_fields:
  "push_bit 52 0x7FF = (of_nat (2047 * 2 ^ 52) :: u64)" "push_bit 52 895 = (of_nat (895 * 2 ^ 52) :: u64)"
  "push_bit 52 1149 = (of_nat (1149 * 2 ^ 52) :: u64)" "push_bit 52 0x7FD = (of_nat (2045 * 2 ^ 52) :: u64)"
  by (simp_all add: push_bit_eq_mult)

lemma reciprocal_cases:
  "ApproximateReciprocal val =
     (if f64_mag val = 0 then copysign 0x7FF0000000000000 val
      else if f64_exp val = 2047 then (if f64_frac val = 0 then copysign 0 val else f64_add 0 False 0 val)
      else if f64_exp val < 895 then copysign (f32_to_f64 0x7F7FFFFF) val
      else if 1149 \<le> f64_exp val then copysign 0 val
      else f64_pack (f64_neg val)
             ((2045 - f64_exp val) * 2 ^ 52 + nat (fres_fraction (int (f64_frac val) div 2 ^ 37)) * 2 ^ 29))"
proof -
  define E f where "E = f64_exp val" and "f = f64_frac val"
  have b: "E < 2048" "f < 2 ^ 52" using exp_frac(3) [of val] mag_split(2) [of val] by (simp_all add: E_def f_def)
  have fu: "unat (of_nat f :: u64) = f" 
    using b(2) unfolding unsigned_of_nat of_nat_id by (intro take_bit_nat_eq_self) simp
  have f0: "(of_nat f :: u64) = 0 \<longleftrightarrow> f = 0"
  proof -
    have "unat (0 :: u64) = 0" by (rule unat_0)
    with fu show ?thesis by (simp only: word_unat_eq_iff)
  qed
  have e0: "(of_nat (E * 2 ^ 52) :: u64) = 0 \<longleftrightarrow> E = 0" using exponent_order(2) [of E 0] b(1) by simp
  have z: "f64_mag val = 0 \<longleftrightarrow> f = 0 \<and> E = 0" using isnan_fields(3) [of val] by (auto simp: E_def f_def)
  define F where "F = fres_fraction (int f div 2 ^ 37)"
  have F: "0 \<le> F" "F < 2 ^ 23" using fres_fraction_bounds [of "int f"] b(2) by (simp_all add: F_def)
  have i: "sint (drop_bit 37 (of_nat f :: u64)) = int f div 2 ^ 37"
  proof -
    have "unat (drop_bit 37 (of_nat f :: u64)) = f div 2 ^ 37"
      unfolding unat_drop_bit_eq drop_bit_eq_div [where 'a = nat] fu ..
    then have "drop_bit 37 (of_nat f :: u64) = of_nat (f div 2 ^ 37)" by (rule unat_word)
    moreover have "f div 2 ^ 37 < 2 ^ 63" using b(2) by (simp add: div_less_iff_less_mult)
    ultimately show ?thesis using sint_nat by (simp add: zdiv_int)
  qed
  have result: "(push_bit 63 (of_bool (f64_neg val)) OR (push_bit 52 0x7FD - of_nat (E * 2 ^ 52)))
      OR push_bit 29 (word_of_int F) = f64_pack (f64_neg val) ((2045 - E) * 2 ^ 52 + nat F * 2 ^ 29)" if "E < 1149"
  proof -
    have "int 2045 - int E = int (2045 - E)" using that by simp
    then have sub: "(of_nat (2045 * 2 ^ 52) :: u64) - of_nat (E * 2 ^ 52) = of_nat ((2045 - E) * 2 ^ 52)"
      using that by (simp only: diff_mult_distrib of_nat_diff mult_right_mono)
    have fr: "push_bit 29 (word_of_int F) = (of_nat (nat F * 2 ^ 29) :: u64)"
      using F(1) by (simp add: push_bit_eq_mult)
    have lt: "nat F * 2 ^ 29 < 2 ^ 52" using F by simp
    show ?thesis
      unfolding f64_pack_def push_fields sub fr or_fields [OF lt, symmetric]
      by (simp only: or.assoc or.commute or.left_commute)
  qed
  have tests: "(of_nat (E * 2 ^ 52) :: u64) = of_nat (2047 * 2 ^ 52) \<longleftrightarrow> E = 2047"
    "sint (of_nat (E * 2 ^ 52) :: u64) < sint (of_nat (895 * 2 ^ 52) :: u64) \<longleftrightarrow> E < 895"
    "sint (of_nat (1149 * 2 ^ 52) :: u64) \<le> sint (of_nat (E * 2 ^ 52) :: u64) \<longleftrightarrow> 1149 \<le> E"
  proof -
    have k: "(2047 :: nat) < 2048" "(895 :: nat) < 2048" "(1149 :: nat) < 2048" by simp_all
    note o = exponent_order [OF b(1) k(1)] exponent_order [OF b(1) k(2)] exponent_order [OF b(1) k(3)]
    show "(of_nat (E * 2 ^ 52) :: u64) = of_nat (2047 * 2 ^ 52) \<longleftrightarrow> E = 2047" by (rule o)
    show "sint (of_nat (E * 2 ^ 52) :: u64) < sint (of_nat (895 * 2 ^ 52) :: u64) \<longleftrightarrow> E < 895" by (rule o)
    show "sint (of_nat (1149 * 2 ^ 52) :: u64) \<le> sint (of_nat (E * 2 ^ 52) :: u64) \<longleftrightarrow> 1149 \<le> E"
      by (simp only: linorder_not_less [symmetric] o)
  qed
  show ?thesis
    unfolding ApproximateReciprocal_def Let_def field_words E_def [symmetric] f_def [symmetric]
    unfolding f0 e0 z [symmetric] push_fields(1-3) tests i F_def [symmetric]
    by (intro if_cong refl result) linarith
qed

text \<open>The value of a normal number.\<close>

lemma normal_value:
  assumes "0 < e" "g < 2 ^ 52" "e < 2047"
  shows "mag_value 53 (e * 2 ^ 52 + g) = of_nat (2 ^ 52 + g) * 2 powi (int e - 1075)"
proof -
  have "(e * 2 ^ 52 + g) div 2 ^ 52 = e" "(e * 2 ^ 52 + g) mod 2 ^ 52 = g" using assms(2) by simp_all
  then have "scaled 53 (e * 2 ^ 52 + g) = (g + 2 ^ 52) * 2 ^ (e - 1)"
    using assms(1) by (simp add: scaled_def Let_def)
  then have "mag_value 53 (e * 2 ^ 52 + g) = of_nat (2 ^ 52 + g) * (2 powi int (e - 1) * 2 powi (- 1074))"
    by (simp add: mag_value_def emin_def)
  also have "(2 :: rat) powi int (e - 1) * 2 powi (- 1074) = 2 powi (int (e - 1) + - 1074)"
    by (rule power_int_add [symmetric]) simp
  also have "int (e - 1) + - 1074 = int e - 1075" using assms(1) by simp
  finally show ?thesis .
qed

lemma copysign_pack: "copysign x y = f64_pack (f64_neg y) (f64_mag x)"
proof -
  have "x AND NOT DOUBLE_SIGN = take_bit 63 x"
    unfolding double_masks
    by (rule bit_word_eqI, unfold bit_and_iff bit_not_iff bit_push_bit_iff bit_take_bit_iff bit_1_iff) (auto simp: not_le)
  also have "\<dots> = of_nat (f64_mag x)" by (rule unat_word) (simp add: f64_mag_def)
  finally show ?thesis unfolding copysign_def f64_pack_def double_masks(3) field_words(1) by (rule arg_cong)
qed

text \<open>C11: \<open>ApproximateReciprocal\<close>, of which \<open>fres\<close> and \<open>ps_res\<close> are made, gives for a number of magnitude
  from \<open>2\<^sup>-\<^sup>1\<^sup>2\<^sup>8\<close> up to, but not including, \<open>2\<^sup>1\<^sup>2\<^sup>6\<close> (exponent field 895 to 1148) a finite number of the same sign whose
  product with the argument is 1 up to 1 part in 4096.  Zero gives an infinity, an infinity and a number from \<open>2\<^sup>1\<^sup>2\<^sup>6\<close>
  on zero, so that the largest normal singles have the estimate 0, a smaller number the largest number of single
  precision, each with the sign of the argument; and a NaN gives that NaN, quiet.
\<close>

theorem reciprocal_estimate:
  "(895 \<le> f64_exp val \<and> f64_exp val < 1149 \<longrightarrow>
      f64_neg (ApproximateReciprocal val) = f64_neg val \<and> f64_finite (ApproximateReciprocal val)
      \<and> \<bar>f64_value (ApproximateReciprocal val) * f64_value val - 1\<bar> \<le> 1 / 4096)
   \<and> (f64_mag val = 0 \<longrightarrow> ApproximateReciprocal val = f64_pack (f64_neg val) (inf_mag 53))
   \<and> (0 < f64_mag val \<and> f64_exp val < 895 \<longrightarrow>
      ApproximateReciprocal val = f64_pack (f64_neg val) (f64_mag (f32_to_f64 0x7F7FFFFF)))
   \<and> (1149 \<le> f64_exp val \<and> \<not> f64_isnan val \<longrightarrow> ApproximateReciprocal val = f64_pack (f64_neg val) 0)
   \<and> (f64_isnan val \<longrightarrow> ApproximateReciprocal val = f64_quiet val)"
proof (intro conjI impI)
  define E f where "E = f64_exp val" and "f = f64_frac val"
  define F where "F = nat (fres_fraction (int f div 2 ^ 37))"
  define R where "R = ApproximateReciprocal val"
  have f: "f < 2 ^ 52" using mag_split(2) [of val] by (simp add: f_def)
  have Fb: "0 \<le> fres_fraction (int f div 2 ^ 37)" "fres_fraction (int f div 2 ^ 37) < 2 ^ 23"
    "2 ^ 64 * 4095 \<le> (2 ^ 23 + int F) * (2 ^ 52 + int f)" "(2 ^ 23 + int F) * (2 ^ 52 + int f) \<le> 2 ^ 64 * 4097"
    using fres_fraction_bounds [of "int f"] f by (simp_all add: F_def)
  have F: "F * 2 ^ 29 < 2 ^ 52" using Fb(1,2) by (simp add: F_def)
  assume r: "895 \<le> f64_exp val \<and> f64_exp val < 1149"
  then have R: "R = f64_pack (f64_neg val) ((2045 - E) * 2 ^ 52 + F * 2 ^ 29)"
    using mag_split(1) [of val] by (simp add: R_def reciprocal_cases E_def f_def F_def)
  have e: "0 < 2045 - E" "2045 - E < 2047" "0 < E" "E < 2047" using r by (simp_all add: E_def)
  have m: "(2045 - E) * 2 ^ 52 + F * 2 ^ 29 < inf_mag 53"
  proof -
    have "Suc (2045 - E) * 2 ^ 52 \<le> 2047 * 2 ^ 52" by (rule mult_right_mono) (use e in simp_all)
    then show ?thesis using F by (simp add: inf_mag_def)
  qed
  have parts: "f64_neg R = f64_neg val" "f64_mag R = (2045 - E) * 2 ^ 52 + F * 2 ^ 29"
    unfolding R by (rule f64_pack_parts, use m inf_mag_small(1) in linarith)+
  show "f64_neg (ApproximateReciprocal val) = f64_neg val" using parts(1) by (simp only: R_def)
  show "f64_finite (ApproximateReciprocal val)" using parts(2) m by (simp only: R_def f64_finite_def)
  have v: "f64_value R * f64_value val
     = mag_value 53 ((2045 - E) * 2 ^ 52 + F * 2 ^ 29) * mag_value 53 (E * 2 ^ 52 + f)"
    unfolding f64_value_def parts mag_split(1) [of val] E_def [symmetric] f_def [symmetric] by simp
  define X where "X = (2 ^ 23 + int F) * (2 ^ 52 + int f)"
  have "f64_value R * f64_value val
     = (of_nat (2 ^ 52 + F * 2 ^ 29) * of_nat (2 ^ 52 + f)) * (2 powi (int (2045 - E) - 1075) * 2 powi (int E - 1075))"
    unfolding v normal_value [OF e(1) F e(2)] normal_value [OF e(3) f e(4)] by (simp only: mult_ac)
  also have "(2 :: rat) powi (int (2045 - E) - 1075) * 2 powi (int E - 1075) = 2 powi (- 105)"
    using e by (simp flip: power_int_add)
  also have "of_nat (2 ^ 52 + F * 2 ^ 29) * of_nat (2 ^ 52 + f) = (of_int (2 ^ 29 * X) :: rat)"
    unfolding X_def by (simp add: algebra_simps)
  also have "of_int (2 ^ 29 * X) * 2 powi (- 105) = (of_int X / 2 ^ 76 :: rat)"
    by (simp add: power_int_minus field_simps)
  finally have p: "f64_value R * f64_value val = of_int X / 2 ^ 76" .
  have "2 ^ 64 * 4095 \<le> (of_int X :: rat)" "(of_int X :: rat) \<le> 2 ^ 64 * 4097"
    using Fb(3,4) unfolding X_def [symmetric] by (metis of_int_le_iff of_int_mult of_int_numeral of_int_power)+
  then show "\<bar>f64_value (ApproximateReciprocal val) * f64_value val - 1\<bar> \<le> 1 / 4096"
    unfolding R_def [symmetric] p by (simp add: abs_le_iff field_simps)
next
  have special: "f64_mag 0x7FF0000000000000 = inf_mag 53" "f64_mag 0 = 0" "\<not> f64_isnan 0"
    by (simp_all add: f64_mag_def inf_mag_def f64_isnan_def)
  have nan: "f64_isnan val \<longleftrightarrow> f64_exp val = 2047 \<and> f64_frac val \<noteq> 0" by (rule isnan_fields)
  have zero: "f64_mag val = 0 \<longleftrightarrow> f64_exp val = 0 \<and> f64_frac val = 0" by (rule isnan_fields)
  note cases = reciprocal_cases [of val] copysign_pack special
  show "ApproximateReciprocal val = f64_pack (f64_neg val) (inf_mag 53)" if "f64_mag val = 0"
    using that by (simp add: cases)
  show "ApproximateReciprocal val = f64_pack (f64_neg val) (f64_mag (f32_to_f64 0x7F7FFFFF))"
    if "0 < f64_mag val \<and> f64_exp val < 895"
    using that by (simp add: cases)
  show "ApproximateReciprocal val = f64_pack (f64_neg val) 0" if "1149 \<le> f64_exp val \<and> \<not> f64_isnan val"
    using that nan zero by (simp add: cases)
  show "ApproximateReciprocal val = f64_quiet val" if "f64_isnan val"
    using that nan zero by (simp add: cases f64_add_def Let_def split: prod.split)
qed

text \<open>The reciprocal of 3.\<close>

theorem reciprocal_estimate_witness:
  "\<bar>f64_value (ApproximateReciprocal 0x4008000000000000) * f64_value 0x4008000000000000 - 1\<bar> \<le> 1 / 4096"
proof -
  have "f64_exp 0x4008000000000000 = 1024" by (simp add: f64_exp_def f64_mag_def)
  then show ?thesis using reciprocal_estimate [of "0x4008000000000000"] by simp
qed

end
