(* ===== verification/PPC_Quantized.thy ===== *)
theory PPC_Quantized
  imports PPC_Quantize Float_Ops
begin

text \<open>
  Quantised loads and stores are inverse to each other: an integer that a load has scaled down is
  scaled back to itself by a store with the same type and scale, in every rounding mode.
\<close>

section \<open>The tables\<close>

text \<open>The exponent a scale stands for: 0 to 31, then -32 to -1.\<close>

definition scale_exp :: "nat \<Rightarrow> int" where "scale_exp sc = (if sc < 32 then int sc else int sc - 64)"

lemma table_entries:
  assumes "sc < 64"
  shows "m_quantizeTable ! sc = power_float (scale_exp sc)"
    "m_dequantizeTable ! sc = power_float (- scale_exp sc)"
proof -
  have "[0..<32] ! (sc - 32) = sc - 32" using assms by (subst nth_upt) auto
  then show "m_quantizeTable ! sc = power_float (scale_exp sc)"
    "m_dequantizeTable ! sc = power_float (- scale_exp sc)"
    using assms by (auto simp: m_quantizeTable_def m_dequantizeTable_def scale_exp_def nth_append of_nat_diff
      intro!: arg_cong [of _ _ power_float])
qed

lemma power_float_exact:
  assumes "\<bar>e\<bar> \<le> 32"
  shows "f32_finite (power_float e)" "f32_value (power_float e) = 2 powi e" "\<not> f32_neg (power_float e)"
proof -
  define n where "n = nat (e + 127)"
  have n: "e + 127 = int n" "0 < n" "n < 255" using assms by (simp_all add: n_def)
  define mag where "mag = n * 2 ^ 23"
  have small: "mag < 2 ^ 31" "mag < inf_mag 24" using n by (simp_all add: mag_def inf_mag_def)
  have p: "power_float e = f32_pack False mag"
    by (simp add: power_float_def n f32_pack_def mag_def push_bit_eq_mult)
  have "mag div 2 ^ (24 - 1) = n" "mag mod 2 ^ (24 - 1) = 0" by (simp_all add: mag_def)
  then have "scaled 24 mag = 2 ^ 23 * 2 ^ (n - 1)" unfolding scaled_def Let_def using n by simp
  then have "mag_value 24 mag = 2 powi (int 23 + (int (n - 1) + emin 24))"
    unfolding mag_value_def by (simp only: of_nat_mult of_nat_power of_nat_numeral mult.assoc power_powi)
  also have "int 23 + (int (n - 1) + emin 24) = e" using n by (simp add: emin_def of_nat_diff)
  finally have v: "mag_value 24 mag = 2 powi e" .
  show "f32_finite (power_float e)" "f32_value (power_float e) = 2 powi e" "\<not> f32_neg (power_float e)"
    unfolding p using f32_pack_value [OF small(2), of False] v by simp_all
qed

section \<open>Integers and their scaled values\<close>

lemma int_normal:
  assumes "\<bar>e\<bar> \<le> 32" "v = (of_int i :: rat) * 2 powi e"
  shows "\<bar>v\<bar> = 0 \<or> 2 powi (- 126) \<le> \<bar>v\<bar>"
proof (cases "i = 0")
  case False
  then have "(1 :: rat) \<le> \<bar>of_int i\<bar>" by (metis of_int_1_le_iff of_int_abs zero_less_abs_iff int_one_le_iff_zero_less)
  then have "1 * 2 powi e \<le> \<bar>of_int i :: rat\<bar> * 2 powi e" by (intro mult_right_mono) auto
  moreover have "(2 :: rat) powi (- 126) \<le> 2 powi e" using assms(1) by (intro powi_mono) auto
  ultimately have "(2 :: rat) powi (- 126) \<le> \<bar>of_int i\<bar> * 2 powi e" by linarith
  then show ?thesis unfolding assms(2) abs_mult by simp
qed (simp add: assms)

lemma dequantize_exact:
  assumes i: "\<bar>i\<bar> < 2 ^ 24" and sc: "sc < 64"
  shows "f32_finite (dequantize i sc s)" "f32_value (dequantize i sc s) = of_int i * 2 powi (- scale_exp sc)"
    "f32_neg (dequantize i sc s) = (i < 0)"
proof -
  define e where "e = - scale_exp sc"
  have e: "\<bar>e\<bar> \<le> 32" using sc by (auto simp: e_def scale_exp_def)
  define n where "n = nat \<bar>i\<bar>"
  have n: "n < 2 ^ 24" using i by (simp add: n_def nat_less_iff)
  have "(of_nat n :: rat) < of_nat (2 ^ 24)" using n by (simp only: of_nat_less_iff)
  then have "(of_nat n :: rat) * 2 powi e < of_nat (2 ^ 24) * 2 powi e" by simp
  also have "\<dots> = 2 powi (int 24 + e)" by (simp only: of_nat_power of_nat_numeral power_powi)
  also have "\<dots> \<le> 2 powi 128" using e by (intro powi_mono) simp
  finally have b: "(of_nat n :: rat) * 2 powi e < mag_value 24 (inf_mag 24)" unfolding mag_value_inf .
  have "emin 24 \<le> e" using e by (simp add: emin_def)
  from float_exists [OF zero_less_numeral n this b]
  obtain mag where mag: "mag < inf_mag 24" "mag_value 24 mag = of_nat n * 2 powi e" .
  define y where "y = f32_pack (i < 0) mag"
  have y: "f32_finite y" "f32_neg y = (i < 0)" "f32_value y = of_int i * 2 powi e"
  proof -
    show "f32_finite y" "f32_neg y = (i < 0)" unfolding y_def by (rule f32_pack_value [OF mag(1)])+
    have "f32_value y = (if i < 0 then - 1 else 1) * of_nat n * 2 powi e"
      unfolding y_def f32_pack_value(3) [OF mag(1)] mag(2) by simp
    then show "f32_value y = of_int i * 2 powi e" unfolding n_def abs_rat .
  qed
  have "f32_mag y = 0 \<or> 2 ^ 23 \<le> f32_mag y" by (rule f32_normal) (rule int_normal [OF e y(3)])
  then have "dequantize i sc s = y"
    unfolding dequantize_def table_entries [OF sc] e_def [symmetric]
    using f32_of_int_exact [OF i, of "host_mode s"] power_float_exact [OF e] y
    by (intro f32_mul_exact) auto
  then show "f32_finite (dequantize i sc s)" "f32_value (dequantize i sc s) = of_int i * 2 powi (- scale_exp sc)"
    "f32_neg (dequantize i sc s) = (i < 0)"
    using y by (simp_all add: e_def)
qed

lemma limits_small: "fst (limits T) \<le> i \<Longrightarrow> i \<le> snd (limits T) \<Longrightarrow> \<bar>i\<bar> < 2 ^ 24"
  by (cases T) (simp_all add: limits_def)

lemma Clamp_id:
  assumes "\<bar>i\<bar> < 2 ^ 24" "\<bar>a\<bar> < 2 ^ 24" "\<bar>b\<bar> < 2 ^ 24" "a \<le> i" "i \<le> b"
  shows "Clamp (f32_of_int mode i) (f32_of_int mode a) (f32_of_int mode b) = f32_of_int mode i"
proof -
  have less: "f32_less (f32_of_int mode x) (f32_of_int mode y) \<longleftrightarrow> x < y" if "\<bar>x\<bar> < 2 ^ 24" "\<bar>y\<bar> < 2 ^ 24" for x y
    unfolding f32_less_value using f32_of_int_exact [OF that(1), of mode] f32_of_int_exact [OF that(2), of mode]
    by (simp add: finite_not_nan)
  show ?thesis
    unfolding Clamp_def float_min_def float_max_def using less assms by (auto simp: not_less)
qed

theorem scale_dequantized:
  assumes lo: "fst (limits T) \<le> i" and hi: "i \<le> snd (limits T)" and sc: "sc < 64"
  shows "ScaleAndClamp T (f32_to_f64 (dequantize i sc s)) sc s' = i"
proof -
  note i = limits_small [OF lo hi]
  define y where "y = dequantize i sc s"
  note y = dequantize_exact [OF i sc, of s, folded y_def]
  have e: "\<bar>scale_exp sc\<bar> \<le> 32" "\<bar>- scale_exp sc\<bar> \<le> 32" using sc by (auto simp: scale_exp_def)
  have "f64_to_f32 (host_mode s') (host_ftz s') (f32_to_f64 y) = y"
    by (rule f64_to_f32_exact [OF f32_to_f64_exact(1) [OF y(1)] y(1) f32_to_f64_exact(2,3) [OF y(1)]])
      (rule f32_normal, rule int_normal [OF e(2) y(2)])
  moreover have "f32_mul (host_mode s') (host_ftz s') y (m_quantizeTable ! sc) = f32_of_int (host_mode s') i"
  proof (unfold table_entries [OF sc], rule f32_mul_exact)
    show "f32_value y * f32_value (power_float (scale_exp sc)) = f32_value (f32_of_int (host_mode s') i)"
      using y(2) power_float_exact(2) [OF e(1)] f32_of_int_exact(2) [OF i]
      by (simp add: mult.assoc powi_add)
    show "f32_mag (f32_of_int (host_mode s') i) = 0 \<or> 2 ^ 23 \<le> f32_mag (f32_of_int (host_mode s') i)"
      by (rule f32_normal) (rule int_normal [of 0], simp_all add: f32_of_int_exact(2) [OF i])
  qed (use y power_float_exact [OF e(1)] f32_of_int_exact [OF i] in auto)
  moreover have "Clamp (f32_of_int (host_mode s') i) (f32_of_int (host_mode s') (fst (limits T)))
      (f32_of_int (host_mode s') (snd (limits T))) = f32_of_int (host_mode s') i"
    using i limits_small [of T "fst (limits T)"] limits_small [of T "snd (limits T)"] lo hi
    by (intro Clamp_id) auto
  ultimately show ?thesis
    by (simp add: ScaleAndClamp_def y_def [symmetric] f32_trunc_value f32_of_int_exact(2) [OF i])
qed

section \<open>The instructions\<close>

text \<open>The words in memory behind a load and a store of a pair, or of one number.\<close>

definition raw_read :: "EQuantizeType \<Rightarrow> bool \<Rightarrow> u32 \<Rightarrow> ppc \<Rightarrow> u32 ppc_val" where
  "raw_read T one addr s =
     (if is_byte T \<and> one then bind_ppc (Read_U8 addr s) (\<lambda>(v, s). Inr (ucast v, s))
      else if is_byte T \<or> one then bind_ppc (Read_U16 addr s) (\<lambda>(v, s). Inr (ucast v, s))
      else Read_U32 addr s)"

definition raw_write :: "EQuantizeType \<Rightarrow> bool \<Rightarrow> u32 \<Rightarrow> u32 \<Rightarrow> ppc \<Rightarrow> ppc_res" where
  "raw_write T one w addr s =
     (if is_byte T \<and> one then Write_U8 (ucast w) addr s
      else if is_byte T \<or> one then Write_U16 (ucast w) addr s
      else Write_U32 w addr s)"

definition psq_EA :: "u32 \<Rightarrow> ppc \<Rightarrow> u32" where
  "psq_EA inst s = (if inst_RA inst \<noteq> 0 then gpr s (inst_RA inst) + inst_SIMM_12 inst else inst_SIMM_12 inst)"

lemma psq_l_EA: "psq_l inst s = Helper_Dequantize (psq_EA inst s) (inst_I inst) (inst_RD inst) (inst_W inst) s"
  by (simp add: psq_l_def psq_EA_def)

lemma psq_st_EA: "psq_st inst s = Helper_Quantize (psq_EA inst s) (inst_I inst) (inst_RS inst) (inst_W inst) s"
  by (simp add: psq_st_def psq_EA_def)

definition integer_type :: "EQuantizeType \<Rightarrow> bool" where
  "integer_type T \<longleftrightarrow> T \<in> {QUANTIZE_U8, QUANTIZE_U16, QUANTIZE_S8, QUANTIZE_S16}"

text \<open>The integer a byte or a halfword stands for in type \<open>T\<close>.\<close>

definition int8_of :: "EQuantizeType \<Rightarrow> u8 \<Rightarrow> int" where
  "int8_of T v = (if T = QUANTIZE_S8 then sint v else uint v)"
definition int16_of :: "EQuantizeType \<Rightarrow> u16 \<Rightarrow> int" where
  "int16_of T v = (if T = QUANTIZE_S16 then sint v else uint v)"

lemma sint_ranges: "- 128 \<le> sint (v :: u8) \<and> sint v \<le> 127" "- 32768 \<le> sint (w :: u16) \<and> sint w \<le> 32767"
  using sint_greater_eq [of v] sint_less [of v] sint_greater_eq [of w] sint_less [of w] by simp_all

lemma uint_ranges: "uint (v :: u8) \<le> 255" "uint (w :: u16) \<le> 65535"
  using uint_lt2p [of v] uint_lt2p [of w] by simp_all

lemma int8_of_limits:
  assumes "integer_type T" "is_byte T"
  shows "fst (limits T) \<le> int8_of T v" "int8_of T v \<le> snd (limits T)" "word_of_int (int8_of T v) = v"
  using assms sint_ranges(1) [of v] uint_ranges(1) [of v]
  by (auto simp: integer_type_def is_byte_def limits_def int8_of_def)

lemma int16_of_limits:
  assumes "integer_type T" "\<not> is_byte T"
  shows "fst (limits T) \<le> int16_of T v" "int16_of T v \<le> snd (limits T)" "word_of_int (int16_of T v) = v"
  using assms sint_ranges(2) [of v] uint_ranges(2) [of v]
  by (auto simp: integer_type_def is_byte_def limits_def int16_of_def)

lemma gqr_scales: "gqr_st_scale g < 64" "gqr_ld_scale g < 64"
  unfolding gqr_st_scale_def gqr_ld_scale_def unsigned_take_bit_eq
  by (rule less_le_trans [OF take_bit_nat_less_exp], simp)+

lemma halves_join:
  "push_bit 8 (ucast (ucast (drop_bit 8 w) :: u8)) OR ucast (ucast w :: u8) = (w :: u16)"
  "push_bit 16 (ucast (ucast (drop_bit 16 x) :: u16)) OR ucast (ucast x :: u16) = (x :: u32)"
  by (rule bit_word_eqI, auto simp: bit_or_iff bit_push_bit_iff bit_ucast_iff bit_drop_bit_eq)+

lemma widen_narrow: "ucast (ucast (v :: u8) :: u32) = v" "ucast (ucast (x :: u16) :: u32) = x"
  by (rule bit_word_eqI, simp add: bit_ucast_iff)+

lemma Helper_Dequantize_integer:
  assumes "integer_type T" "gqr_ld_type (spr s (SPR_GQR0 + unat i)) = T"
  shows "Helper_Dequantize addr i r one s =
    bind_ppc (LoadAndDequantize T addr one (gqr_ld_scale (spr s (SPR_GQR0 + unat i))) s)
      (\<lambda>((ps0, ps1), s). Inr (if dsi s then s else set_ps1 r (f32_to_f64 ps1) (set_ps0 r (f32_to_f64 ps0) s)))"
  using assms by (auto simp: Helper_Dequantize_def integer_type_def Let_def)

lemma Helper_Quantize_integer:
  assumes "integer_type T" "gqr_st_type (spr s (SPR_GQR0 + unat i)) = T"
  shows "Helper_Quantize addr i r one s =
    QuantizeAndStore T (rPS0 s r) (rPS1 s r) addr one (gqr_st_scale (spr s (SPR_GQR0 + unat i))) s"
  using assms by (auto simp: Helper_Quantize_def integer_type_def Let_def)

text \<open>
  What \<open>LoadAndDequantize\<close> makes of the word it reads, \<open>QuantizeAndStore\<close> turns back into that word.
\<close>

lemma load_store_integers:
  assumes T: "integer_type T" and sc: "sc < 64" and read: "raw_read T one addr s = Inr (w, s1)"
  shows "\<exists>p q. LoadAndDequantize T addr one sc s = Inr ((p, q), s1)
    \<and> (\<forall>addr' s'. QuantizeAndStore T (f32_to_f64 p) (f32_to_f64 q) addr' one sc s' = raw_write T one w addr' s')"
proof (cases "is_byte T")
  case True
  then have i8: "(\<lambda>v :: u8. if T = QUANTIZE_S8 then sint v else uint v) = int8_of T" by (simp add: int8_of_def fun_eq_iff)
  have S: "ScaleAndClamp T (f32_to_f64 (dequantize (int8_of T v) sc s0)) sc s' = int8_of T v" for v s0 s'
    by (rule scale_dequantized [OF int8_of_limits(1,2) [OF T True] sc])
  note defs = raw_read_def raw_write_def LoadAndDequantize_def QuantizeAndStore_def i8 Let_def widen_narrow \<open>is_byte T\<close>
  show ?thesis
  proof (cases one)
    case True
    then obtain v where v: "Read_U8 addr s = Inr (v, s1)" "w = ucast v"
      using read by (auto simp: defs bind_ppc_Inr)
    have L: "LoadAndDequantize T addr one sc s = Inr ((dequantize (int8_of T v) sc s1, float_one), s1)"
      using True v by (simp add: defs)
    show ?thesis unfolding L
      by (rule exI, rule exI, rule conjI, rule refl) (simp add: defs True v S int8_of_limits(3) [OF T \<open>is_byte T\<close>])
  next
    case False
    then obtain x where x: "Read_U16 addr s = Inr (x, s1)" "w = ucast x"
      using read by (auto simp: defs bind_ppc_Inr)
    have L: "LoadAndDequantize T addr one sc s =
        Inr ((dequantize (int8_of T (ucast (drop_bit 8 x))) sc s1, dequantize (int8_of T (ucast x)) sc s1), s1)"
      using False x by (simp add: defs ReadPair_u8_def)
    show ?thesis unfolding L
      by (rule exI, rule exI, rule conjI, rule refl)
        (simp add: defs False x S int8_of_limits(3) [OF T \<open>is_byte T\<close>] WritePair_u8_def halves_join)
  qed
next
  case False
  then have i16: "(\<lambda>v :: u16. if T = QUANTIZE_S16 then sint v else uint v) = int16_of T"
    by (simp add: int16_of_def fun_eq_iff)
  have S: "ScaleAndClamp T (f32_to_f64 (dequantize (int16_of T v) sc s0)) sc s' = int16_of T v" for v s0 s'
    by (rule scale_dequantized [OF int16_of_limits(1,2) [OF T False] sc])
  note defs = raw_read_def raw_write_def LoadAndDequantize_def QuantizeAndStore_def i16 Let_def widen_narrow \<open>\<not> is_byte T\<close>
  show ?thesis
  proof (cases one)
    case True
    then obtain v where v: "Read_U16 addr s = Inr (v, s1)" "w = ucast v"
      using read by (auto simp: defs bind_ppc_Inr)
    have L: "LoadAndDequantize T addr one sc s = Inr ((dequantize (int16_of T v) sc s1, float_one), s1)"
      using True v by (simp add: defs)
    show ?thesis unfolding L
      by (rule exI, rule exI, rule conjI, rule refl) (simp add: defs True v S int16_of_limits(3) [OF T \<open>\<not> is_byte T\<close>])
  next
    case False
    then obtain x where x: "Read_U32 addr s = Inr (x, s1)" "w = x"
      using read by (auto simp: defs bind_ppc_Inr)
    have L: "LoadAndDequantize T addr one sc s =
        Inr ((dequantize (int16_of T (ucast (drop_bit 16 x))) sc s1, dequantize (int16_of T (ucast x)) sc s1), s1)"
      using False x by (simp add: defs ReadPair_u16_def)
    show ?thesis unfolding L
      by (rule exI, rule exI, rule conjI, rule refl)
        (simp add: defs False x S int16_of_limits(3) [OF T \<open>\<not> is_byte T\<close>] WritePair_u16_def halves_join)
  qed
qed

text \<open>C8: A quantised store undoes a quantised load: if \<open>psq_l\<close> with an integer type reads a word without a
  fault, then \<open>psq_st\<close> from the same register, with the same type and scale, writes that very word, in
  every rounding mode and for all 64 scales; the load changes nothing but its register.\<close>

theorem quantized_round_trip:
  assumes T: "integer_type T" and ld_type: "gqr_ld_type (spr s (SPR_GQR0 + unat (inst_I ld))) = T"
    and read: "raw_read T (inst_W ld) (psq_EA ld s) s = Inr (w, s1)" and ok: "\<not> dsi s1"
    and type: "gqr_st_type (spr s1 (SPR_GQR0 + unat (inst_I st))) = T"
    and scale: "gqr_st_scale (spr s1 (SPR_GQR0 + unat (inst_I st))) = gqr_ld_scale (spr s (SPR_GQR0 + unat (inst_I ld)))"
    and operands: "inst_RS st = inst_RD ld" "inst_W st = inst_W ld"
  shows "\<exists>f. psq_l ld s = Inr (s1\<lparr>ps := (ps s1)(inst_RD ld := f)\<rparr>)
    \<and> psq_st st (s1\<lparr>ps := (ps s1)(inst_RD ld := f)\<rparr>) =
      raw_write T (inst_W ld) w (psq_EA st s1) (s1\<lparr>ps := (ps s1)(inst_RD ld := f)\<rparr>)"
proof -
  define sc where "sc = gqr_ld_scale (spr s (SPR_GQR0 + unat (inst_I ld)))"
  have sc: "sc < 64" by (simp add: sc_def gqr_scales)
  obtain p q where L: "LoadAndDequantize T (psq_EA ld s) (inst_W ld) sc s = Inr ((p, q), s1)"
    and Q: "QuantizeAndStore T (f32_to_f64 p) (f32_to_f64 q) addr' (inst_W ld) sc s' =
      raw_write T (inst_W ld) w addr' s'" for addr' s'
    using load_store_integers [OF T sc read] by blast
  define f where "f = (ps s1 (inst_RD ld))(0 := f32_to_f64 p, 1 := f32_to_f64 q)"
  have "psq_l ld s = Inr (s1\<lparr>ps := (ps s1)(inst_RD ld := f)\<rparr>)"
    by (simp add: psq_l_EA Helper_Dequantize_integer [OF T ld_type] sc_def [symmetric] L ok f_def)
  moreover have "psq_st st (s1\<lparr>ps := (ps s1)(inst_RD ld := f)\<rparr>) =
      raw_write T (inst_W ld) w (psq_EA st s1) (s1\<lparr>ps := (ps s1)(inst_RD ld := f)\<rparr>)"
    using type scale [folded sc_def] operands
    by (simp add: psq_st_EA Helper_Quantize_integer [OF T] Q psq_EA_def f_def)
  ultimately show ?thesis by blast
qed

text \<open>Two signed bytes with the scale 4, loaded from address 0 in real mode and stored again.\<close>

definition sample :: ppc where
  "sample = ppc_zero\<lparr>ram := \<lambda>_ i. if i = 0 then 0x80 else if i = 1 then 0x7F else 0,
     spr := (\<lambda>_. 0)(912 := 0x04060406)\<rparr>"

lemma sample_bytes: "read_be 2 (\<lambda>i. if i = 0 then 0x80 else if i = 1 then 0x7F else 0) 0 = 0x807F"
  by (simp add: read_be_def upt_rec)

lemma sample_read: "raw_read QUANTIZE_S8 False 0 sample = Inr (0x807F, sample)"
  by (simp add: raw_read_def is_byte_def Read_U16_def read_checked_def ReadFromHardware_def read_physical_def
    hw_bank_def load_bank_def sample_def ppc_zero_def Memcheck_def RAM_SIZE_def sample_bytes)

theorem quantized_round_trip_witness:
  "\<exists>f. psq_l 0xE0200000 sample = Inr (sample\<lparr>ps := (ps sample)(1 := f)\<rparr>)
    \<and> psq_st 0xF0200000 (sample\<lparr>ps := (ps sample)(1 := f)\<rparr>) =
      raw_write QUANTIZE_S8 False 0x807F 0 (sample\<lparr>ps := (ps sample)(1 := f)\<rparr>)"
proof -
  have i: "inst_I 0xE0200000 = 0" "inst_I 0xF0200000 = 0" "\<not> inst_W 0xE0200000" "\<not> inst_W 0xF0200000"
    "inst_RD 0xE0200000 = 1" "inst_RS 0xF0200000 = 1" "psq_EA 0xE0200000 sample = 0" "psq_EA 0xF0200000 sample = 0"
    by (simp_all add: inst_I_def inst_W_def inst_RD_def inst_RS_def inst_RA_def inst_SIMM_12_def psq_EA_def ifield_def)
  have g: "spr sample (SPR_GQR0 + unat (0 :: u32)) = 0x04060406" by (simp add: sample_def SPR_GQR0_def)
  have t: "gqr_ld_type 0x04060406 = QUANTIZE_S8" "gqr_st_type 0x04060406 = QUANTIZE_S8"
    "gqr_st_scale 0x04060406 = gqr_ld_scale 0x04060406"
    by (simp_all add: gqr_ld_type_def gqr_st_type_def gqr_st_scale_def gqr_ld_scale_def quantize_types_def)
  have d: "integer_type QUANTIZE_S8" "\<not> dsi sample"
    by (simp_all add: integer_type_def dsi_def) (simp add: sample_def ppc_zero_def)
  show ?thesis
    using quantized_round_trip [OF d(1), of sample "0xE0200000" "0x807F" sample "0xF0200000"] d(2)
    by (simp only: i g t sample_read if_False if_True simp_thms refl HOL.not_False_eq_True not_True_eq_False)
qed

end
