(* ===== verification/PPC_SPR.thy ===== *)
theory PPC_SPR
  imports PPC_Control
begin

text \<open>
  \<open>mfspr\<close>, \<open>mtspr\<close> and \<open>mftb\<close> of \<open>Interpreter_SystemRegisters.cpp\<close>: the special registers with the
  actions that follow a write.  The timers of \<open>SystemTimers.cpp\<close> and the gather pipe are devices.
\<close>

definition SPR_XER :: nat where "SPR_XER = 1"
definition SPR_DEC :: nat where "SPR_DEC = 22"
definition SPR_TL :: nat where "SPR_TL = 268"
definition SPR_TU :: nat where "SPR_TU = 269"
definition SPR_TL_W :: nat where "SPR_TL_W = 284"
definition SPR_TU_W :: nat where "SPR_TU_W = 285"
definition SPR_WPAR :: nat where "SPR_WPAR = 921"
definition SPR_DMAU :: nat where "SPR_DMAU = 922"
definition SPR_DMAL :: nat where "SPR_DMAL = 923"

definition inst_SPR :: "u32 \<Rightarrow> u32" where "inst_SPR inst = ifield inst 11 10"
definition inst_SPRU :: "u32 \<Rightarrow> u32" where "inst_SPRU inst = ifield inst 11 5"
definition inst_SPRL :: "u32 \<Rightarrow> u32" where "inst_SPRL inst = ifield inst 16 5"

section \<open>Reading\<close>

text \<open>The \<open>switch\<close> of \<open>mfspr\<close>, which brings the register up to date.\<close>

definition refresh_spr :: "nat \<Rightarrow> ppc \<Rightarrow> ppc" where
  "refresh_spr i s =
     (if i = SPR_DEC then
        (if spr s i AND 0x80000000 = 0
         then (let (v, s) = dev_call GetFakeDecrementer s in set_spr i (ucast v) s) else s)
      else if i = SPR_TL \<or> i = SPR_TU then
        (let (time_base, s) = dev_call GetFakeTimeBase s
         in set_spr SPR_TU (ucast (drop_bit 32 time_base)) (set_spr SPR_TL (ucast time_base) s))
      else if i = SPR_WPAR then set_spr i (spr s i AND NOT 1) s
      else if i = SPR_XER then set_spr i (GetXER s) s
      else s)"

definition mfspr :: "u32 \<Rightarrow> ppc \<Rightarrow> ppc" where
  "mfspr inst s =
     (let i = unat (push_bit 5 (inst_SPR inst AND 0x1F) + (drop_bit 5 (inst_SPR inst) AND 0x1F));
          s = refresh_spr i s
      in set_gpr (inst_RD inst) (spr s i) s)"

definition mftb :: "u32 \<Rightarrow> ppc \<Rightarrow> ppc" where
  "mftb inst s = mfspr inst s"

section \<open>Writing\<close>

definition write_HID0 :: "ppc \<Rightarrow> ppc" where
  "write_HID0 s =
     (if spr s SPR_HID0 AND HID0_ICFI \<noteq> 0
      then (set_spr SPR_HID0 (spr s SPR_HID0 AND NOT HID0_ICFI) s)\<lparr>iCache := icache_Reset (iCache s)\<rparr>
      else s)"

definition write_DMAL :: "ppc \<Rightarrow> ppc_res" where
  "write_DMAL s =
     (let dmau = spr s SPR_DMAU;
          dmal = spr s SPR_DMAL
      in bind_ppc
           (if ifield dmal 1 1 \<noteq> 0 then
              (let dwMemAddress = push_bit 5 (ifield dmau 5 27);
                   dwCacheAddress = push_bit 5 (ifield dmal 5 27);
                   iLength = push_bit 2 (ifield dmau 0 5) OR ifield dmal 2 2;
                   iLength = (if iLength = 0 then 128 else iLength)
               in if ifield dmal 4 1 \<noteq> 0 then DMA_MemoryToLC dwCacheAddress dwMemAddress iLength s
                  else DMA_LCToMemory dwMemAddress dwCacheAddress iLength s)
            else Inr s)
           (\<lambda>s. Inr (set_spr SPR_DMAL (spr s SPR_DMAL AND NOT 2) s)))"

definition write_DEC :: "u32 \<Rightarrow> u32 \<Rightarrow> ppc \<Rightarrow> ppc" where
  "write_DEC oldValue value s =
     (let s = (if drop_bit 31 oldValue = 0 \<and> drop_bit 31 value \<noteq> 0
               then s\<lparr>Exceptions := Exceptions s OR EXCEPTION_DECREMENTER\<rparr> else s)
      in snd (dev_call DecrementerSet s))"

text \<open>The registers of the two groups of \<open>case\<close> labels: eight registers from each base.\<close>

definition is_dbat :: "nat \<Rightarrow> bool" where
  "is_dbat i \<longleftrightarrow> SPR_DBAT0U \<le> i \<and> i < SPR_DBAT0U + 8 \<or> SPR_DBAT4U \<le> i \<and> i < SPR_DBAT4U + 8"

definition is_ibat :: "nat \<Rightarrow> bool" where
  "is_ibat i \<longleftrightarrow> SPR_IBAT0U \<le> i \<and> i < SPR_IBAT0U + 8 \<or> SPR_IBAT4U \<le> i \<and> i < SPR_IBAT4U + 8"

definition mtspr :: "u32 \<Rightarrow> ppc \<Rightarrow> ppc_res" where
  "mtspr inst s =
     (let i = unat (push_bit 5 (inst_SPRU inst) OR (inst_SPRL inst AND 0x1F));
          oldValue = spr s i;
          value = gpr s (inst_RD inst);
          s = set_spr i value s
      in if i = SPR_TL_W then Inr (snd (dev_call TimeBaseSet (set_spr SPR_TL value s)))
         else if i = SPR_TU_W then Inr (snd (dev_call TimeBaseSet (set_spr SPR_TU value s)))
         else if i = SPR_HID0 then Inr (write_HID0 s)
         else if i = SPR_HID4 then
           Inr (if oldValue \<noteq> spr s i then DBATUpdated (IBATUpdated s) else s)
         else if i = SPR_WPAR then Inr (snd (dev_call ResetGatherPipe s))
         else if i = SPR_DMAL then write_DMAL s
         else if i = SPR_DEC then Inr (write_DEC oldValue value s)
         else if i = SPR_SDR then Inr (SDRUpdated s)
         else if i = SPR_XER then Inr (SetXER (spr s i) s)
         else if is_dbat i then Inr (if oldValue \<noteq> spr s i then DBATUpdated s else s)
         else if is_ibat i then Inr (if oldValue \<noteq> spr s i then IBATUpdated s else s)
         else Inr s)"

end
