(* ===== verification/PPC_Tables.thy ===== *)
theory PPC_Tables
  imports PPC_State
begin

text \<open>
  The instruction tables of \<open>PowerPC/Interpreter/Interpreter_Tables.cpp\<close>, row by row, the arrays
  \<open>InitializeInstructionTables\<close> fills from them, and the queries of \<open>PPCTables.cpp\<close>.  The function
  pointer of a row is the name of the function; the run and compile counters are left out.
\<close>

section \<open>Flags and rows\<close>

definition FL_SET_CR0 :: u32 where "FL_SET_CR0 = push_bit 0 1"
definition FL_SET_CR1 :: u32 where "FL_SET_CR1 = push_bit 1 1"
definition FL_SET_CRn :: u32 where "FL_SET_CRn = push_bit 2 1"
definition FL_SET_CA :: u32 where "FL_SET_CA = push_bit 3 1"
definition FL_READ_CA :: u32 where "FL_READ_CA = push_bit 4 1"
definition FL_RC_BIT :: u32 where "FL_RC_BIT = push_bit 5 1"
definition FL_RC_BIT_F :: u32 where "FL_RC_BIT_F = push_bit 6 1"
definition FL_ENDBLOCK :: u32 where "FL_ENDBLOCK = push_bit 7 1"
definition FL_IN_A :: u32 where "FL_IN_A = push_bit 8 1"
definition FL_IN_A0 :: u32 where "FL_IN_A0 = push_bit 9 1"
definition FL_IN_B :: u32 where "FL_IN_B = push_bit 10 1"
definition FL_IN_C :: u32 where "FL_IN_C = push_bit 11 1"
definition FL_IN_S :: u32 where "FL_IN_S = push_bit 12 1"
definition FL_OUT_D :: u32 where "FL_OUT_D = push_bit 13 1"
definition FL_OUT_A :: u32 where "FL_OUT_A = push_bit 14 1"
definition FL_TIMER :: u32 where "FL_TIMER = push_bit 15 1"
definition FL_CHECKEXCEPTIONS :: u32 where "FL_CHECKEXCEPTIONS = push_bit 16 1"
definition FL_EVIL :: u32 where "FL_EVIL = push_bit 17 1"
definition FL_USE_FPU :: u32 where "FL_USE_FPU = push_bit 18 1"
definition FL_LOADSTORE :: u32 where "FL_LOADSTORE = push_bit 19 1"
definition FL_SET_FPRF :: u32 where "FL_SET_FPRF = push_bit 20 1"
definition FL_READ_FPRF :: u32 where "FL_READ_FPRF = push_bit 21 1"
definition FL_SET_OE :: u32 where "FL_SET_OE = push_bit 22 1"
definition FL_IN_FLOAT_A :: u32 where "FL_IN_FLOAT_A = push_bit 23 1"
definition FL_IN_FLOAT_B :: u32 where "FL_IN_FLOAT_B = push_bit 24 1"
definition FL_IN_FLOAT_C :: u32 where "FL_IN_FLOAT_C = push_bit 25 1"
definition FL_IN_FLOAT_S :: u32 where "FL_IN_FLOAT_S = push_bit 26 1"
definition FL_IN_FLOAT_D :: u32 where "FL_IN_FLOAT_D = push_bit 27 1"
definition FL_OUT_FLOAT_D :: u32 where "FL_OUT_FLOAT_D = push_bit 28 1"
definition FL_IN_AB :: u32 where "FL_IN_AB = FL_IN_A OR FL_IN_B"
definition FL_IN_SB :: u32 where "FL_IN_SB = FL_IN_S OR FL_IN_B"
definition FL_IN_A0B :: u32 where "FL_IN_A0B = FL_IN_A0 OR FL_IN_B"
definition FL_IN_FLOAT_AB :: u32 where "FL_IN_FLOAT_AB = FL_IN_FLOAT_A OR FL_IN_FLOAT_B"
definition FL_IN_FLOAT_AC :: u32 where "FL_IN_FLOAT_AC = FL_IN_FLOAT_A OR FL_IN_FLOAT_C"
definition FL_IN_FLOAT_ABC :: u32 where "FL_IN_FLOAT_ABC = FL_IN_FLOAT_A OR FL_IN_FLOAT_B OR FL_IN_FLOAT_C"
definition FL_INOUT_FLOAT_D :: u32 where "FL_INOUT_FLOAT_D = FL_IN_FLOAT_D OR FL_OUT_FLOAT_D"

lemmas flag_defs = FL_SET_CR0_def FL_SET_CR1_def FL_SET_CRn_def FL_SET_CA_def FL_READ_CA_def
  FL_RC_BIT_def FL_RC_BIT_F_def FL_ENDBLOCK_def FL_IN_A_def FL_IN_A0_def FL_IN_B_def FL_IN_C_def
  FL_IN_S_def FL_OUT_D_def FL_OUT_A_def FL_TIMER_def FL_CHECKEXCEPTIONS_def FL_EVIL_def
  FL_USE_FPU_def FL_LOADSTORE_def FL_SET_FPRF_def FL_READ_FPRF_def FL_SET_OE_def
  FL_IN_FLOAT_A_def FL_IN_FLOAT_B_def FL_IN_FLOAT_C_def FL_IN_FLOAT_S_def FL_IN_FLOAT_D_def
  FL_OUT_FLOAT_D_def   FL_IN_AB_def FL_IN_SB_def FL_IN_A0B_def FL_IN_FLOAT_AB_def
  FL_IN_FLOAT_AC_def FL_IN_FLOAT_ABC_def FL_INOUT_FLOAT_D_def

datatype OpType = InvalidOp | Subtable | Integer | CR | SPR | System | SystemFP | Load | Store | LoadFP
  | StoreFP | DoubleFP | SingleFP | LoadPS | StorePS | PS | DataCache | InstructionCacheOp | Branch | Unknown

record GekkoOPInfo =
  opname :: string
  op_type :: OpType
  op_flags :: u32
  numCycles :: nat

record GekkoOPTemplate =
  row_opcode :: nat
  row_inst :: string
  row_info :: GekkoOPInfo

definition row :: "nat \<Rightarrow> string \<Rightarrow> string \<Rightarrow> OpType \<Rightarrow> u32 \<Rightarrow> nat \<Rightarrow> GekkoOPTemplate" where
  "row opc f n ty fl cyc = \<lparr>row_opcode = opc, row_inst = f,
     row_info = \<lparr>opname = n, op_type = ty, op_flags = fl, numCycles = cyc\<rparr>\<rparr>"

definition unknownopinfo :: GekkoOPInfo where
  "unknownopinfo = \<lparr>opname = ''unknown_instruction'', op_type = Unknown, op_flags = FL_ENDBLOCK, numCycles = 0\<rparr>"

section \<open>The tables\<close>

definition primarytable :: "GekkoOPTemplate list" where
  "primarytable =
    [row 4 ''RunTable4'' ''RunTable4'' Subtable 0 0,
     row 19 ''RunTable19'' ''RunTable19'' Subtable 0 0,
     row 31 ''RunTable31'' ''RunTable31'' Subtable 0 0,
     row 59 ''RunTable59'' ''RunTable59'' Subtable 0 0,
     row 63 ''RunTable63'' ''RunTable63'' Subtable 0 0,
     row 16 ''bcx'' ''bcx'' System FL_ENDBLOCK 1,
     row 18 ''bx'' ''bx'' System FL_ENDBLOCK 1,
     row 3 ''twi'' ''twi'' System FL_ENDBLOCK 1,
     row 17 ''sc'' ''sc'' System FL_ENDBLOCK 2,
     row 7 ''mulli'' ''mulli'' Integer (FL_OUT_D OR FL_IN_A) 3,
     row 8 ''subfic'' ''subfic'' Integer (FL_OUT_D OR FL_IN_A OR FL_SET_CA) 1,
     row 10 ''cmpli'' ''cmpli'' Integer (FL_IN_A OR FL_SET_CRn) 1,
     row 11 ''cmpi'' ''cmpi'' Integer (FL_IN_A OR FL_SET_CRn) 1,
     row 12 ''addic'' ''addic'' Integer (FL_OUT_D OR FL_IN_A OR FL_SET_CA) 1,
     row 13 ''addic_rc'' ''addic_rc'' Integer (FL_OUT_D OR FL_IN_A OR FL_SET_CA OR FL_SET_CR0) 1,
     row 14 ''addi'' ''addi'' Integer (FL_OUT_D OR FL_IN_A0) 1,
     row 15 ''addis'' ''addis'' Integer (FL_OUT_D OR FL_IN_A0) 1,
     row 20 ''rlwimix'' ''rlwimix'' Integer (FL_OUT_A OR FL_IN_A OR FL_IN_S OR FL_RC_BIT) 1,
     row 21 ''rlwinmx'' ''rlwinmx'' Integer (FL_OUT_A OR FL_IN_S OR FL_RC_BIT) 1,
     row 23 ''rlwnmx'' ''rlwnmx'' Integer (FL_OUT_A OR FL_IN_SB OR FL_RC_BIT) 1,
     row 24 ''ori'' ''ori'' Integer (FL_OUT_A OR FL_IN_S) 1,
     row 25 ''oris'' ''oris'' Integer (FL_OUT_A OR FL_IN_S) 1,
     row 26 ''xori'' ''xori'' Integer (FL_OUT_A OR FL_IN_S) 1,
     row 27 ''xoris'' ''xoris'' Integer (FL_OUT_A OR FL_IN_S) 1,
     row 28 ''andi_rc'' ''andi_rc'' Integer (FL_OUT_A OR FL_IN_S OR FL_SET_CR0) 1,
     row 29 ''andis_rc'' ''andis_rc'' Integer (FL_OUT_A OR FL_IN_S OR FL_SET_CR0) 1,
     row 32 ''lwz'' ''lwz'' Load (FL_OUT_D OR FL_IN_A0 OR FL_LOADSTORE) 1,
     row 33 ''lwzu'' ''lwzu'' Load (FL_OUT_D OR FL_OUT_A OR FL_IN_A OR FL_LOADSTORE) 1,
     row 34 ''lbz'' ''lbz'' Load (FL_OUT_D OR FL_IN_A0 OR FL_LOADSTORE) 1,
     row 35 ''lbzu'' ''lbzu'' Load (FL_OUT_D OR FL_OUT_A OR FL_IN_A OR FL_LOADSTORE) 1,
     row 40 ''lhz'' ''lhz'' Load (FL_OUT_D OR FL_IN_A0 OR FL_LOADSTORE) 1,
     row 41 ''lhzu'' ''lhzu'' Load (FL_OUT_D OR FL_OUT_A OR FL_IN_A OR FL_LOADSTORE) 1,
     row 42 ''lha'' ''lha'' Load (FL_OUT_D OR FL_IN_A0 OR FL_LOADSTORE) 1,
     row 43 ''lhau'' ''lhau'' Load (FL_OUT_D OR FL_OUT_A OR FL_IN_A OR FL_LOADSTORE) 1,
     row 44 ''sth'' ''sth'' Store (FL_IN_A0 OR FL_IN_S OR FL_LOADSTORE) 1,
     row 45 ''sthu'' ''sthu'' Store (FL_OUT_A OR FL_IN_A OR FL_IN_S OR FL_LOADSTORE) 1,
     row 36 ''stw'' ''stw'' Store (FL_IN_A0 OR FL_IN_S OR FL_LOADSTORE) 1,
     row 37 ''stwu'' ''stwu'' Store (FL_OUT_A OR FL_IN_A OR FL_IN_S OR FL_LOADSTORE) 1,
     row 38 ''stb'' ''stb'' Store (FL_IN_A0 OR FL_IN_S OR FL_LOADSTORE) 1,
     row 39 ''stbu'' ''stbu'' Store (FL_OUT_A OR FL_IN_A OR FL_IN_S OR FL_LOADSTORE) 1,
     row 46 ''lmw'' ''lmw'' System (FL_EVIL OR FL_IN_A0 OR FL_LOADSTORE) 11,
     row 47 ''stmw'' ''stmw'' System (FL_EVIL OR FL_IN_A0 OR FL_LOADSTORE) 11,
     row 48 ''lfs'' ''lfs'' LoadFP (FL_OUT_FLOAT_D OR FL_IN_A OR FL_USE_FPU OR FL_LOADSTORE) 1,
     row 49 ''lfsu'' ''lfsu'' LoadFP (FL_OUT_FLOAT_D OR FL_OUT_A OR FL_IN_A OR FL_USE_FPU OR FL_LOADSTORE) 1,
     row 50 ''lfd'' ''lfd'' LoadFP (FL_INOUT_FLOAT_D OR FL_IN_A OR FL_USE_FPU OR FL_LOADSTORE) 1,
     row 51 ''lfdu'' ''lfdu'' LoadFP (FL_INOUT_FLOAT_D OR FL_OUT_A OR FL_IN_A OR FL_USE_FPU OR FL_LOADSTORE) 1,
     row 52 ''stfs'' ''stfs'' StoreFP (FL_IN_FLOAT_S OR FL_IN_A0 OR FL_USE_FPU OR FL_LOADSTORE) 1,
     row 53 ''stfsu'' ''stfsu'' StoreFP (FL_IN_FLOAT_S OR FL_OUT_A OR FL_IN_A OR FL_USE_FPU OR FL_LOADSTORE) 1,
     row 54 ''stfd'' ''stfd'' StoreFP (FL_IN_FLOAT_S OR FL_IN_A0 OR FL_USE_FPU OR FL_LOADSTORE) 1,
     row 55 ''stfdu'' ''stfdu'' StoreFP (FL_IN_FLOAT_S OR FL_OUT_A OR FL_IN_A OR FL_USE_FPU OR FL_LOADSTORE) 1,
     row 56 ''psq_l'' ''psq_l'' LoadPS (FL_OUT_FLOAT_D OR FL_IN_A0 OR FL_USE_FPU OR FL_LOADSTORE) 1,
     row 57 ''psq_lu'' ''psq_lu'' LoadPS (FL_OUT_FLOAT_D OR FL_OUT_A OR FL_IN_A OR FL_USE_FPU OR FL_LOADSTORE) 1,
     row 60 ''psq_st'' ''psq_st'' StorePS (FL_IN_FLOAT_S OR FL_IN_A0 OR FL_USE_FPU OR FL_LOADSTORE) 1,
     row 61 ''psq_stu'' ''psq_stu'' StorePS (FL_IN_FLOAT_S OR FL_OUT_A OR FL_IN_A OR FL_USE_FPU OR FL_LOADSTORE) 1]"

definition table4 :: "GekkoOPTemplate list" where
  "table4 =
    [row 0 ''ps_cmpu0'' ''ps_cmpu0'' PS (FL_IN_FLOAT_AB OR FL_SET_CRn OR FL_USE_FPU OR FL_READ_FPRF OR FL_SET_FPRF) 1,
     row 32 ''ps_cmpo0'' ''ps_cmpo0'' PS (FL_IN_FLOAT_AB OR FL_SET_CRn OR FL_USE_FPU OR FL_READ_FPRF OR FL_SET_FPRF) 1,
     row 40 ''ps_neg'' ''ps_neg'' PS (FL_OUT_FLOAT_D OR FL_IN_FLOAT_B OR FL_RC_BIT_F OR FL_USE_FPU) 1,
     row 136 ''ps_nabs'' ''ps_nabs'' PS (FL_OUT_FLOAT_D OR FL_IN_FLOAT_B OR FL_RC_BIT_F OR FL_USE_FPU) 1,
     row 264 ''ps_abs'' ''ps_abs'' PS (FL_OUT_FLOAT_D OR FL_IN_FLOAT_B OR FL_RC_BIT_F OR FL_USE_FPU) 1,
     row 64 ''ps_cmpu1'' ''ps_cmpu1'' PS (FL_IN_FLOAT_AB OR FL_SET_CRn OR FL_USE_FPU OR FL_READ_FPRF OR FL_SET_FPRF) 1,
     row 72 ''ps_mr'' ''ps_mr'' PS (FL_OUT_FLOAT_D OR FL_IN_FLOAT_B OR FL_RC_BIT_F OR FL_USE_FPU) 1,
     row 96 ''ps_cmpo1'' ''ps_cmpo1'' PS (FL_IN_FLOAT_AB OR FL_SET_CRn OR FL_USE_FPU OR FL_READ_FPRF OR FL_SET_FPRF) 1,
     row 528 ''ps_merge00'' ''ps_merge00'' PS (FL_OUT_FLOAT_D OR FL_IN_FLOAT_AB OR FL_RC_BIT_F OR FL_USE_FPU) 1,
     row 560 ''ps_merge01'' ''ps_merge01'' PS (FL_OUT_FLOAT_D OR FL_IN_FLOAT_AB OR FL_RC_BIT_F OR FL_USE_FPU) 1,
     row 592 ''ps_merge10'' ''ps_merge10'' PS (FL_OUT_FLOAT_D OR FL_IN_FLOAT_AB OR FL_RC_BIT_F OR FL_USE_FPU) 1,
     row 624 ''ps_merge11'' ''ps_merge11'' PS (FL_OUT_FLOAT_D OR FL_IN_FLOAT_AB OR FL_RC_BIT_F OR FL_USE_FPU) 1,
     row 1014 ''dcbz_l'' ''dcbz_l'' System (FL_IN_A0B OR FL_LOADSTORE) 1]"

definition table4_2 :: "GekkoOPTemplate list" where
  "table4_2 =
    [row 10 ''ps_sum0'' ''ps_sum0'' PS (FL_OUT_FLOAT_D OR FL_IN_FLOAT_ABC OR FL_RC_BIT_F OR FL_USE_FPU OR FL_SET_FPRF) 1,
     row 11 ''ps_sum1'' ''ps_sum1'' PS (FL_OUT_FLOAT_D OR FL_IN_FLOAT_ABC OR FL_RC_BIT_F OR FL_USE_FPU OR FL_SET_FPRF) 1,
     row 12 ''ps_muls0'' ''ps_muls0'' PS (FL_OUT_FLOAT_D OR FL_IN_FLOAT_AC OR FL_RC_BIT_F OR FL_USE_FPU OR FL_SET_FPRF) 1,
     row 13 ''ps_muls1'' ''ps_muls1'' PS (FL_OUT_FLOAT_D OR FL_IN_FLOAT_AC OR FL_RC_BIT_F OR FL_USE_FPU OR FL_SET_FPRF) 1,
     row 14 ''ps_madds0'' ''ps_madds0'' PS (FL_OUT_FLOAT_D OR FL_IN_FLOAT_ABC OR FL_RC_BIT_F OR FL_USE_FPU OR FL_SET_FPRF) 1,
     row 15 ''ps_madds1'' ''ps_madds1'' PS (FL_OUT_FLOAT_D OR FL_IN_FLOAT_ABC OR FL_RC_BIT_F OR FL_USE_FPU OR FL_SET_FPRF) 1,
     row 18 ''ps_div'' ''ps_div'' PS (FL_OUT_FLOAT_D OR FL_IN_FLOAT_AB OR FL_RC_BIT_F OR FL_USE_FPU OR FL_SET_FPRF) 17,
     row 20 ''ps_sub'' ''ps_sub'' PS (FL_OUT_FLOAT_D OR FL_IN_FLOAT_AB OR FL_RC_BIT_F OR FL_USE_FPU OR FL_SET_FPRF) 1,
     row 21 ''ps_add'' ''ps_add'' PS (FL_OUT_FLOAT_D OR FL_IN_FLOAT_AB OR FL_RC_BIT_F OR FL_USE_FPU OR FL_SET_FPRF) 1,
     row 23 ''ps_sel'' ''ps_sel'' PS (FL_OUT_FLOAT_D OR FL_IN_FLOAT_ABC OR FL_RC_BIT_F OR FL_USE_FPU) 1,
     row 24 ''ps_res'' ''ps_res'' PS (FL_OUT_FLOAT_D OR FL_IN_FLOAT_B OR FL_RC_BIT_F OR FL_USE_FPU OR FL_SET_FPRF) 1,
     row 25 ''ps_mul'' ''ps_mul'' PS (FL_OUT_FLOAT_D OR FL_IN_FLOAT_AC OR FL_RC_BIT_F OR FL_USE_FPU OR FL_SET_FPRF) 1,
     row 26 ''ps_rsqrte'' ''ps_rsqrte'' PS (FL_OUT_FLOAT_D OR FL_IN_FLOAT_B OR FL_RC_BIT_F OR FL_USE_FPU OR FL_SET_FPRF) 2,
     row 28 ''ps_msub'' ''ps_msub'' PS (FL_OUT_FLOAT_D OR FL_IN_FLOAT_ABC OR FL_RC_BIT_F OR FL_USE_FPU OR FL_SET_FPRF) 1,
     row 29 ''ps_madd'' ''ps_madd'' PS (FL_OUT_FLOAT_D OR FL_IN_FLOAT_ABC OR FL_RC_BIT_F OR FL_USE_FPU OR FL_SET_FPRF) 1,
     row 30 ''ps_nmsub'' ''ps_nmsub'' PS (FL_OUT_FLOAT_D OR FL_IN_FLOAT_ABC OR FL_RC_BIT_F OR FL_USE_FPU OR FL_SET_FPRF) 1,
     row 31 ''ps_nmadd'' ''ps_nmadd'' PS (FL_OUT_FLOAT_D OR FL_IN_FLOAT_ABC OR FL_RC_BIT_F OR FL_USE_FPU OR FL_SET_FPRF) 1]"

definition table4_3 :: "GekkoOPTemplate list" where
  "table4_3 =
    [row 6 ''psq_lx'' ''psq_lx'' LoadPS (FL_OUT_FLOAT_D OR FL_IN_A0B OR FL_USE_FPU OR FL_LOADSTORE) 1,
     row 7 ''psq_stx'' ''psq_stx'' StorePS (FL_IN_FLOAT_S OR FL_IN_A0B OR FL_USE_FPU OR FL_LOADSTORE) 1,
     row 38 ''psq_lux'' ''psq_lux'' LoadPS (FL_OUT_FLOAT_D OR FL_OUT_A OR FL_IN_AB OR FL_USE_FPU OR FL_LOADSTORE) 1,
     row 39 ''psq_stux'' ''psq_stux'' StorePS (FL_IN_FLOAT_S OR FL_OUT_A OR FL_IN_AB OR FL_USE_FPU OR FL_LOADSTORE) 1]"

definition table19 :: "GekkoOPTemplate list" where
  "table19 =
    [row 528 ''bcctrx'' ''bcctrx'' Branch FL_ENDBLOCK 1,
     row 16 ''bclrx'' ''bclrx'' Branch FL_ENDBLOCK 1,
     row 257 ''crand'' ''crand'' CR FL_EVIL 1,
     row 129 ''crandc'' ''crandc'' CR FL_EVIL 1,
     row 289 ''creqv'' ''creqv'' CR FL_EVIL 1,
     row 225 ''crnand'' ''crnand'' CR FL_EVIL 1,
     row 33 ''crnor'' ''crnor'' CR FL_EVIL 1,
     row 449 ''cror'' ''cror'' CR FL_EVIL 1,
     row 417 ''crorc'' ''crorc'' CR FL_EVIL 1,
     row 193 ''crxor'' ''crxor'' CR FL_EVIL 1,
     row 150 ''isync'' ''isync'' InstructionCacheOp FL_EVIL 1,
     row 0 ''mcrf'' ''mcrf'' System (FL_EVIL OR FL_SET_CRn) 1,
     row 50 ''rfi'' ''rfi'' System (FL_ENDBLOCK OR FL_CHECKEXCEPTIONS) 2,
     row 51 ''vmcall'' ''vmcall'' System FL_ENDBLOCK 1]"

definition table31_integer :: "GekkoOPTemplate list" where
  "table31_integer =
    [row 266 ''addx'' ''addx'' Integer (FL_OUT_D OR FL_IN_AB OR FL_RC_BIT) 1,
     row 778 ''addx'' ''addox'' Integer (FL_OUT_D OR FL_IN_AB OR FL_RC_BIT OR FL_SET_OE) 1,
     row 10 ''addcx'' ''addcx'' Integer (FL_OUT_D OR FL_IN_AB OR FL_SET_CA OR FL_RC_BIT) 1,
     row 522 ''addcx'' ''addcox'' Integer (FL_OUT_D OR FL_IN_AB OR FL_SET_CA OR FL_RC_BIT OR FL_SET_OE) 1,
     row 138 ''addex'' ''addex'' Integer (FL_OUT_D OR FL_IN_AB OR FL_READ_CA OR FL_SET_CA OR FL_RC_BIT) 1,
     row 650 ''addex'' ''addeox'' Integer (FL_OUT_D OR FL_IN_AB OR FL_READ_CA OR FL_SET_CA OR FL_RC_BIT OR FL_SET_OE) 1,
     row 234 ''addmex'' ''addmex'' Integer (FL_OUT_D OR FL_IN_A OR FL_READ_CA OR FL_SET_CA OR FL_RC_BIT) 1,
     row 746 ''addmex'' ''addmeox'' Integer (FL_OUT_D OR FL_IN_A OR FL_READ_CA OR FL_SET_CA OR FL_RC_BIT OR FL_SET_OE) 1,
     row 202 ''addzex'' ''addzex'' Integer (FL_OUT_D OR FL_IN_A OR FL_READ_CA OR FL_SET_CA OR FL_RC_BIT) 1,
     row 714 ''addzex'' ''addzeox'' Integer (FL_OUT_D OR FL_IN_A OR FL_READ_CA OR FL_SET_CA OR FL_RC_BIT OR FL_SET_OE) 1,
     row 491 ''divwx'' ''divwx'' Integer (FL_OUT_D OR FL_IN_AB OR FL_RC_BIT) 40,
     row 1003 ''divwx'' ''divwox'' Integer (FL_OUT_D OR FL_IN_AB OR FL_RC_BIT OR FL_SET_OE) 40,
     row 459 ''divwux'' ''divwux'' Integer (FL_OUT_D OR FL_IN_AB OR FL_RC_BIT) 40,
     row 971 ''divwux'' ''divwuox'' Integer (FL_OUT_D OR FL_IN_AB OR FL_RC_BIT OR FL_SET_OE) 40,
     row 75 ''mulhwx'' ''mulhwx'' Integer (FL_OUT_D OR FL_IN_AB OR FL_RC_BIT) 5,
     row 11 ''mulhwux'' ''mulhwux'' Integer (FL_OUT_D OR FL_IN_AB OR FL_RC_BIT) 5,
     row 235 ''mullwx'' ''mullwx'' Integer (FL_OUT_D OR FL_IN_AB OR FL_RC_BIT) 5,
     row 747 ''mullwx'' ''mullwox'' Integer (FL_OUT_D OR FL_IN_AB OR FL_RC_BIT OR FL_SET_OE) 5,
     row 104 ''negx'' ''negx'' Integer (FL_OUT_D OR FL_IN_A OR FL_RC_BIT) 1,
     row 616 ''negx'' ''negox'' Integer (FL_OUT_D OR FL_IN_A OR FL_RC_BIT OR FL_SET_OE) 1,
     row 40 ''subfx'' ''subfx'' Integer (FL_OUT_D OR FL_IN_AB OR FL_RC_BIT) 1,
     row 552 ''subfx'' ''subfox'' Integer (FL_OUT_D OR FL_IN_AB OR FL_RC_BIT OR FL_SET_OE) 1,
     row 8 ''subfcx'' ''subfcx'' Integer (FL_OUT_D OR FL_IN_AB OR FL_SET_CA OR FL_RC_BIT) 1,
     row 520 ''subfcx'' ''subfcox'' Integer (FL_OUT_D OR FL_IN_AB OR FL_SET_CA OR FL_RC_BIT OR FL_SET_OE) 1,
     row 136 ''subfex'' ''subfex'' Integer (FL_OUT_D OR FL_IN_AB OR FL_READ_CA OR FL_SET_CA OR FL_RC_BIT) 1,
     row 648 ''subfex'' ''subfeox'' Integer (FL_OUT_D OR FL_IN_AB OR FL_READ_CA OR FL_SET_CA OR FL_RC_BIT OR FL_SET_OE) 1,
     row 232 ''subfmex'' ''subfmex'' Integer (FL_OUT_D OR FL_IN_A OR FL_READ_CA OR FL_SET_CA OR FL_RC_BIT) 1,
     row 744 ''subfmex'' ''subfmeox'' Integer (FL_OUT_D OR FL_IN_A OR FL_READ_CA OR FL_SET_CA OR FL_RC_BIT OR FL_SET_OE) 1,
     row 200 ''subfzex'' ''subfzex'' Integer (FL_OUT_D OR FL_IN_A OR FL_READ_CA OR FL_SET_CA OR FL_RC_BIT) 1,
     row 712 ''subfzex'' ''subfzeox'' Integer (FL_OUT_D OR FL_IN_A OR FL_READ_CA OR FL_SET_CA OR FL_RC_BIT OR FL_SET_OE) 1,
     row 28 ''andx'' ''andx'' Integer (FL_OUT_A OR FL_IN_SB OR FL_RC_BIT) 1,
     row 60 ''andcx'' ''andcx'' Integer (FL_OUT_A OR FL_IN_SB OR FL_RC_BIT) 1,
     row 444 ''orx'' ''orx'' Integer (FL_OUT_A OR FL_IN_SB OR FL_RC_BIT) 1,
     row 124 ''norx'' ''norx'' Integer (FL_OUT_A OR FL_IN_SB OR FL_RC_BIT) 1,
     row 316 ''xorx'' ''xorx'' Integer (FL_OUT_A OR FL_IN_SB OR FL_RC_BIT) 1,
     row 412 ''orcx'' ''orcx'' Integer (FL_OUT_A OR FL_IN_SB OR FL_RC_BIT) 1,
     row 476 ''nandx'' ''nandx'' Integer (FL_OUT_A OR FL_IN_SB OR FL_RC_BIT) 1,
     row 284 ''eqvx'' ''eqvx'' Integer (FL_OUT_A OR FL_IN_SB OR FL_RC_BIT) 1,
     row 0 ''cmp'' ''cmp'' Integer (FL_IN_AB OR FL_SET_CRn) 1,
     row 32 ''cmpl'' ''cmpl'' Integer (FL_IN_AB OR FL_SET_CRn) 1,
     row 26 ''cntlzwx'' ''cntlzwx'' Integer (FL_OUT_A OR FL_IN_S OR FL_RC_BIT) 1,
     row 922 ''extshx'' ''extshx'' Integer (FL_OUT_A OR FL_IN_S OR FL_RC_BIT) 1,
     row 954 ''extsbx'' ''extsbx'' Integer (FL_OUT_A OR FL_IN_S OR FL_RC_BIT) 1,
     row 536 ''srwx'' ''srwx'' Integer (FL_OUT_A OR FL_IN_SB OR FL_RC_BIT) 1,
     row 792 ''srawx'' ''srawx'' Integer (FL_OUT_A OR FL_IN_SB OR FL_SET_CA OR FL_RC_BIT) 1,
     row 824 ''srawix'' ''srawix'' Integer (FL_OUT_A OR FL_IN_S OR FL_SET_CA OR FL_RC_BIT) 1,
     row 24 ''slwx'' ''slwx'' Integer (FL_OUT_A OR FL_IN_SB OR FL_RC_BIT) 1]"

definition table31_memory :: "GekkoOPTemplate list" where
  "table31_memory =
    [row 54 ''dcbst'' ''dcbst'' DataCache (FL_IN_A0B OR FL_LOADSTORE) 5,
     row 86 ''dcbf'' ''dcbf'' DataCache (FL_IN_A0B OR FL_LOADSTORE) 5,
     row 246 ''dcbtst'' ''dcbtst'' DataCache 0 2,
     row 278 ''dcbt'' ''dcbt'' DataCache 0 2,
     row 470 ''dcbi'' ''dcbi'' DataCache (FL_IN_A0B OR FL_LOADSTORE) 5,
     row 758 ''dcba'' ''dcba'' DataCache 0 5,
     row 1014 ''dcbz'' ''dcbz'' DataCache (FL_IN_A0B OR FL_LOADSTORE) 5,
     row 23 ''lwzx'' ''lwzx'' Load (FL_OUT_D OR FL_IN_A0B OR FL_LOADSTORE) 1,
     row 55 ''lwzux'' ''lwzux'' Load (FL_OUT_D OR FL_OUT_A OR FL_IN_AB OR FL_LOADSTORE) 1,
     row 279 ''lhzx'' ''lhzx'' Load (FL_OUT_D OR FL_IN_A0B OR FL_LOADSTORE) 1,
     row 311 ''lhzux'' ''lhzux'' Load (FL_OUT_D OR FL_OUT_A OR FL_IN_AB OR FL_LOADSTORE) 1,
     row 343 ''lhax'' ''lhax'' Load (FL_OUT_D OR FL_IN_A0B OR FL_LOADSTORE) 1,
     row 375 ''lhaux'' ''lhaux'' Load (FL_OUT_D OR FL_OUT_A OR FL_IN_AB OR FL_LOADSTORE) 1,
     row 87 ''lbzx'' ''lbzx'' Load (FL_OUT_D OR FL_IN_A0B OR FL_LOADSTORE) 1,
     row 119 ''lbzux'' ''lbzux'' Load (FL_OUT_D OR FL_OUT_A OR FL_IN_AB OR FL_LOADSTORE) 1,
     row 534 ''lwbrx'' ''lwbrx'' Load (FL_OUT_D OR FL_IN_A0B OR FL_LOADSTORE) 1,
     row 790 ''lhbrx'' ''lhbrx'' Load (FL_OUT_D OR FL_IN_A0B OR FL_LOADSTORE) 1,
     row 150 ''stwcxd'' ''stwcxd'' Store (FL_EVIL OR FL_IN_S OR FL_IN_A0B OR FL_SET_CR0 OR FL_LOADSTORE) 1,
     row 20 ''lwarx'' ''lwarx'' Load (FL_EVIL OR FL_OUT_D OR FL_IN_A0B OR FL_SET_CR0 OR FL_LOADSTORE) 1,
     row 533 ''lswx'' ''lswx'' Load (FL_EVIL OR FL_IN_A0B OR FL_OUT_D OR FL_LOADSTORE) 1,
     row 597 ''lswi'' ''lswi'' Load (FL_EVIL OR FL_IN_A0 OR FL_OUT_D OR FL_LOADSTORE) 1,
     row 151 ''stwx'' ''stwx'' Store (FL_IN_S OR FL_IN_A0B OR FL_LOADSTORE) 1,
     row 183 ''stwux'' ''stwux'' Store (FL_IN_S OR FL_OUT_A OR FL_IN_AB OR FL_LOADSTORE) 1,
     row 407 ''sthx'' ''sthx'' Store (FL_IN_S OR FL_IN_A0B OR FL_LOADSTORE) 1,
     row 439 ''sthux'' ''sthux'' Store (FL_IN_S OR FL_OUT_A OR FL_IN_AB OR FL_LOADSTORE) 1,
     row 215 ''stbx'' ''stbx'' Store (FL_IN_S OR FL_IN_A0B OR FL_LOADSTORE) 1,
     row 247 ''stbux'' ''stbux'' Store (FL_IN_S OR FL_OUT_A OR FL_IN_AB OR FL_LOADSTORE) 1,
     row 662 ''stwbrx'' ''stwbrx'' Store (FL_IN_S OR FL_IN_A0B OR FL_LOADSTORE) 1,
     row 918 ''sthbrx'' ''sthbrx'' Store (FL_IN_S OR FL_IN_A0B OR FL_LOADSTORE) 1,
     row 661 ''stswx'' ''stswx'' Store (FL_EVIL OR FL_IN_A0B OR FL_LOADSTORE) 1,
     row 725 ''stswi'' ''stswi'' Store (FL_EVIL OR FL_IN_A0 OR FL_LOADSTORE) 1]"

definition table31_system :: "GekkoOPTemplate list" where
  "table31_system =
    [row 535 ''lfsx'' ''lfsx'' LoadFP (FL_OUT_FLOAT_D OR FL_IN_A0B OR FL_USE_FPU OR FL_LOADSTORE) 1,
     row 567 ''lfsux'' ''lfsux'' LoadFP (FL_OUT_FLOAT_D OR FL_IN_AB OR FL_OUT_A OR FL_USE_FPU OR FL_LOADSTORE) 1,
     row 599 ''lfdx'' ''lfdx'' LoadFP (FL_INOUT_FLOAT_D OR FL_IN_A0B OR FL_USE_FPU OR FL_LOADSTORE) 1,
     row 631 ''lfdux'' ''lfdux'' LoadFP (FL_INOUT_FLOAT_D OR FL_IN_AB OR FL_OUT_A OR FL_USE_FPU OR FL_LOADSTORE) 1,
     row 663 ''stfsx'' ''stfsx'' StoreFP (FL_IN_FLOAT_S OR FL_IN_A0B OR FL_USE_FPU OR FL_LOADSTORE) 1,
     row 695 ''stfsux'' ''stfsux'' StoreFP (FL_IN_FLOAT_S OR FL_IN_AB OR FL_OUT_A OR FL_USE_FPU OR FL_LOADSTORE) 1,
     row 727 ''stfdx'' ''stfdx'' StoreFP (FL_IN_FLOAT_S OR FL_IN_A0B OR FL_USE_FPU OR FL_LOADSTORE) 1,
     row 759 ''stfdux'' ''stfdux'' StoreFP (FL_IN_FLOAT_S OR FL_IN_AB OR FL_OUT_A OR FL_USE_FPU OR FL_LOADSTORE) 1,
     row 983 ''stfiwx'' ''stfiwx'' StoreFP (FL_IN_FLOAT_S OR FL_IN_A0B OR FL_USE_FPU OR FL_LOADSTORE) 1,
     row 19 ''mfcr'' ''mfcr'' System FL_OUT_D 1,
     row 83 ''mfmsr'' ''mfmsr'' System FL_OUT_D 1,
     row 144 ''mtcrf'' ''mtcrf'' System (FL_IN_S OR FL_SET_CRn) 1,
     row 146 ''mtmsr'' ''mtmsr'' System (FL_IN_S OR FL_ENDBLOCK) 1,
     row 210 ''mtsr'' ''mtsr'' System FL_IN_S 1,
     row 242 ''mtsrin'' ''mtsrin'' System FL_IN_SB 1,
     row 339 ''mfspr'' ''mfspr'' SPR FL_OUT_D 1,
     row 467 ''mtspr'' ''mtspr'' SPR FL_IN_S 2,
     row 371 ''mftb'' ''mftb'' System (FL_OUT_D OR FL_TIMER) 1,
     row 512 ''mcrxr'' ''mcrxr'' System (FL_SET_CRn OR FL_READ_CA OR FL_SET_CA) 1,
     row 595 ''mfsr'' ''mfsr'' System FL_OUT_D 3,
     row 659 ''mfsrin'' ''mfsrin'' System (FL_OUT_D OR FL_IN_B) 3,
     row 4 ''tw'' ''tw'' System (FL_IN_AB OR FL_ENDBLOCK) 2,
     row 598 ''sync'' ''sync'' System 0 3,
     row 982 ''icbi'' ''icbi'' System (FL_IN_A0B OR FL_ENDBLOCK OR FL_LOADSTORE) 4,
     row 310 ''eciwx'' ''eciwx'' System (FL_IN_A0B OR FL_OUT_D OR FL_LOADSTORE) 1,
     row 438 ''ecowx'' ''ecowx'' System (FL_IN_A0B OR FL_IN_S OR FL_LOADSTORE) 1,
     row 854 ''eieio'' ''eieio'' System 0 1,
     row 306 ''tlbie'' ''tlbie'' System FL_IN_B 1,
     row 566 ''tlbsync'' ''tlbsync'' System 0 1]"

definition table31 :: "GekkoOPTemplate list" where
  "table31 = table31_integer @ table31_memory @ table31_system"

definition table59 :: "GekkoOPTemplate list" where
  "table59 =
    [row 18 ''fdivsx'' ''fdivsx'' SingleFP (FL_OUT_FLOAT_D OR FL_IN_FLOAT_AB OR FL_RC_BIT_F OR FL_USE_FPU OR FL_SET_FPRF) 17,
     row 20 ''fsubsx'' ''fsubsx'' SingleFP (FL_OUT_FLOAT_D OR FL_IN_FLOAT_AB OR FL_RC_BIT_F OR FL_USE_FPU OR FL_SET_FPRF) 1,
     row 21 ''faddsx'' ''faddsx'' SingleFP (FL_OUT_FLOAT_D OR FL_IN_FLOAT_AB OR FL_RC_BIT_F OR FL_USE_FPU OR FL_SET_FPRF) 1,
     row 24 ''fresx'' ''fresx'' SingleFP (FL_OUT_FLOAT_D OR FL_IN_FLOAT_B OR FL_RC_BIT_F OR FL_USE_FPU OR FL_SET_FPRF) 1,
     row 25 ''fmulsx'' ''fmulsx'' SingleFP (FL_OUT_FLOAT_D OR FL_IN_FLOAT_AC OR FL_RC_BIT_F OR FL_USE_FPU OR FL_SET_FPRF) 1,
     row 28 ''fmsubsx'' ''fmsubsx'' SingleFP (FL_OUT_FLOAT_D OR FL_IN_FLOAT_ABC OR FL_RC_BIT_F OR FL_USE_FPU OR FL_SET_FPRF) 1,
     row 29 ''fmaddsx'' ''fmaddsx'' SingleFP (FL_OUT_FLOAT_D OR FL_IN_FLOAT_ABC OR FL_RC_BIT_F OR FL_USE_FPU OR FL_SET_FPRF) 1,
     row 30 ''fnmsubsx'' ''fnmsubsx'' SingleFP (FL_OUT_FLOAT_D OR FL_IN_FLOAT_ABC OR FL_RC_BIT_F OR FL_USE_FPU OR FL_SET_FPRF) 1,
     row 31 ''fnmaddsx'' ''fnmaddsx'' SingleFP (FL_OUT_FLOAT_D OR FL_IN_FLOAT_ABC OR FL_RC_BIT_F OR FL_USE_FPU OR FL_SET_FPRF) 1]"

definition table63 :: "GekkoOPTemplate list" where
  "table63 =
    [row 264 ''fabsx'' ''fabsx'' DoubleFP (FL_INOUT_FLOAT_D OR FL_IN_FLOAT_B OR FL_RC_BIT_F OR FL_USE_FPU) 1,
     row 32 ''fcmpo'' ''fcmpo'' DoubleFP (FL_IN_FLOAT_AB OR FL_SET_CRn OR FL_USE_FPU OR FL_READ_FPRF OR FL_SET_FPRF) 1,
     row 0 ''fcmpu'' ''fcmpu'' DoubleFP (FL_IN_FLOAT_AB OR FL_SET_CRn OR FL_USE_FPU OR FL_READ_FPRF OR FL_SET_FPRF) 1,
     row 14 ''fctiwx'' ''fctiwx'' DoubleFP (FL_INOUT_FLOAT_D OR FL_IN_FLOAT_B OR FL_RC_BIT_F OR FL_USE_FPU) 1,
     row 15 ''fctiwzx'' ''fctiwzx'' DoubleFP (FL_INOUT_FLOAT_D OR FL_IN_FLOAT_B OR FL_RC_BIT_F OR FL_USE_FPU) 1,
     row 72 ''fmrx'' ''fmrx'' DoubleFP (FL_INOUT_FLOAT_D OR FL_IN_FLOAT_B OR FL_RC_BIT_F OR FL_USE_FPU) 1,
     row 136 ''fnabsx'' ''fnabsx'' DoubleFP (FL_INOUT_FLOAT_D OR FL_IN_FLOAT_B OR FL_RC_BIT_F OR FL_USE_FPU) 1,
     row 40 ''fnegx'' ''fnegx'' DoubleFP (FL_INOUT_FLOAT_D OR FL_IN_FLOAT_B OR FL_RC_BIT_F OR FL_USE_FPU) 1,
     row 12 ''frspx'' ''frspx'' DoubleFP (FL_OUT_FLOAT_D OR FL_IN_FLOAT_B OR FL_RC_BIT_F OR FL_USE_FPU OR FL_SET_FPRF) 1,
     row 64 ''mcrfs'' ''mcrfs'' SystemFP (FL_SET_CRn OR FL_USE_FPU OR FL_READ_FPRF) 1,
     row 583 ''mffsx'' ''mffsx'' SystemFP (FL_RC_BIT_F OR FL_INOUT_FLOAT_D OR FL_USE_FPU OR FL_READ_FPRF) 1,
     row 70 ''mtfsb0x'' ''mtfsb0x'' SystemFP (FL_RC_BIT_F OR FL_USE_FPU OR FL_READ_FPRF OR FL_SET_FPRF) 3,
     row 38 ''mtfsb1x'' ''mtfsb1x'' SystemFP (FL_RC_BIT_F OR FL_USE_FPU OR FL_READ_FPRF OR FL_SET_FPRF) 3,
     row 134 ''mtfsfix'' ''mtfsfix'' SystemFP (FL_RC_BIT_F OR FL_USE_FPU OR FL_READ_FPRF OR FL_SET_FPRF) 3,
     row 711 ''mtfsfx'' ''mtfsfx'' SystemFP (FL_RC_BIT_F OR FL_IN_FLOAT_B OR FL_USE_FPU OR FL_READ_FPRF OR FL_SET_FPRF) 3]"

definition table63_2 :: "GekkoOPTemplate list" where
  "table63_2 =
    [row 18 ''fdivx'' ''fdivx'' DoubleFP (FL_INOUT_FLOAT_D OR FL_IN_FLOAT_AB OR FL_RC_BIT_F OR FL_USE_FPU OR FL_SET_FPRF) 31,
     row 20 ''fsubx'' ''fsubx'' DoubleFP (FL_INOUT_FLOAT_D OR FL_IN_FLOAT_AB OR FL_RC_BIT_F OR FL_USE_FPU OR FL_SET_FPRF) 1,
     row 21 ''faddx'' ''faddx'' DoubleFP (FL_INOUT_FLOAT_D OR FL_IN_FLOAT_AB OR FL_RC_BIT_F OR FL_USE_FPU OR FL_SET_FPRF) 1,
     row 23 ''fselx'' ''fselx'' DoubleFP (FL_INOUT_FLOAT_D OR FL_IN_FLOAT_ABC OR FL_RC_BIT_F OR FL_USE_FPU) 1,
     row 25 ''fmulx'' ''fmulx'' DoubleFP (FL_INOUT_FLOAT_D OR FL_IN_FLOAT_AC OR FL_RC_BIT_F OR FL_USE_FPU OR FL_SET_FPRF) 1,
     row 26 ''frsqrtex'' ''frsqrtex'' DoubleFP (FL_INOUT_FLOAT_D OR FL_IN_FLOAT_B OR FL_RC_BIT_F OR FL_USE_FPU OR FL_SET_FPRF) 1,
     row 28 ''fmsubx'' ''fmsubx'' DoubleFP (FL_INOUT_FLOAT_D OR FL_IN_FLOAT_ABC OR FL_RC_BIT_F OR FL_USE_FPU OR FL_SET_FPRF) 1,
     row 29 ''fmaddx'' ''fmaddx'' DoubleFP (FL_INOUT_FLOAT_D OR FL_IN_FLOAT_ABC OR FL_RC_BIT_F OR FL_USE_FPU OR FL_SET_FPRF) 1,
     row 30 ''fnmsubx'' ''fnmsubx'' DoubleFP (FL_INOUT_FLOAT_D OR FL_IN_FLOAT_ABC OR FL_RC_BIT_F OR FL_USE_FPU OR FL_SET_FPRF) 1,
     row 31 ''fnmaddx'' ''fnmaddx'' DoubleFP (FL_INOUT_FLOAT_D OR FL_IN_FLOAT_ABC OR FL_RC_BIT_F OR FL_USE_FPU OR FL_SET_FPRF) 1]"

section \<open>The arrays\<close>

text \<open>
  An entry of the arrays \<open>m_op_table\<close> and \<open>m_infoTable\<close> at the same index, and a loop that writes
  the rows of a table at their opcodes plus \<open>fill\<close>.
\<close>

type_synonym op_slot = "string \<times> GekkoOPInfo"

definition unknown_slot :: op_slot where
  "unknown_slot = (''unknown_instruction'', unknownopinfo)"

fun write_rows :: "nat \<Rightarrow> GekkoOPTemplate list \<Rightarrow> op_slot array \<Rightarrow> op_slot array" where
  "write_rows fill [] t = t"
| "write_rows fill (r # rs) t = write_rows fill rs (t(fill + row_opcode r := (row_inst r, row_info r)))"

text \<open>The loop over \<open>i\<close> with \<open>fill = i << sh\<close>, from \<open>i\<close> on, \<open>n\<close> rounds left.\<close>

fun write_filled :: "nat \<Rightarrow> nat \<Rightarrow> nat \<Rightarrow> GekkoOPTemplate list \<Rightarrow> op_slot array \<Rightarrow> op_slot array" where
  "write_filled 0 i sh rs t = t"
| "write_filled (Suc n) i sh rs t = write_filled n (i + 1) sh rs (write_rows (i * 2 ^ sh) rs t)"

definition m_op_table :: "op_slot array" where
  "m_op_table = write_rows 0 primarytable (\<lambda>_. unknown_slot)"
definition m_op_table4 :: "op_slot array" where
  "m_op_table4 = write_rows 0 table4 (write_filled 16 0 6 table4_3 (write_filled 32 0 5 table4_2 (\<lambda>_. unknown_slot)))"
definition m_op_table19 :: "op_slot array" where
  "m_op_table19 = write_rows 0 table19 (\<lambda>_. unknown_slot)"
definition m_op_table31 :: "op_slot array" where
  "m_op_table31 = write_rows 0 table31 (\<lambda>_. unknown_slot)"
definition m_op_table59 :: "op_slot array" where
  "m_op_table59 = write_rows 0 table59 (\<lambda>_. unknown_slot)"
definition m_op_table63 :: "op_slot array" where
  "m_op_table63 = write_filled 32 0 5 table63_2 (write_rows 0 table63 (\<lambda>_. unknown_slot))"

section \<open>Decoding\<close>

definition inst_OPCD :: "u32 \<Rightarrow> nat" where "inst_OPCD inst = unat (ifield inst 26 6)"
definition inst_SUBOP10 :: "u32 \<Rightarrow> nat" where "inst_SUBOP10 inst = unat (ifield inst 1 10)"
definition inst_SUBOP5 :: "u32 \<Rightarrow> nat" where "inst_SUBOP5 inst = unat (ifield inst 1 5)"

text \<open>The slot an instruction word selects: the \<open>switch\<close> that \<open>GetOpInfo\<close> and \<open>GetInterpreterOp\<close> share.\<close>

definition select_slot :: "u32 \<Rightarrow> op_slot option" where
  "select_slot inst =
     (let info = snd (m_op_table (inst_OPCD inst))
      in if op_type info = Subtable then
           (if inst_OPCD inst = 4 then Some (m_op_table4 (inst_SUBOP10 inst))
            else if inst_OPCD inst = 19 then Some (m_op_table19 (inst_SUBOP10 inst))
            else if inst_OPCD inst = 31 then Some (m_op_table31 (inst_SUBOP10 inst))
            else if inst_OPCD inst = 59 then Some (m_op_table59 (inst_SUBOP5 inst))
            else if inst_OPCD inst = 63 then Some (m_op_table63 (inst_SUBOP10 inst))
            else None)
         else if op_type info = InvalidOp then None
         else Some (m_op_table (inst_OPCD inst)))"

definition GetOpInfo :: "u32 \<Rightarrow> GekkoOPInfo option" where
  "GetOpInfo inst = map_option snd (select_slot inst)"

definition GetInterpreterOp :: "u32 \<Rightarrow> string option" where
  "GetInterpreterOp inst = map_option fst (select_slot inst)"

definition UsesFPU :: "u32 \<Rightarrow> bool" where
  "UsesFPU inst \<longleftrightarrow> (case GetOpInfo inst of Some info \<Rightarrow> op_flags info AND FL_USE_FPU \<noteq> 0 | None \<Rightarrow> False)"

definition GetInstructionName :: "u32 \<Rightarrow> string option" where
  "GetInstructionName inst = map_option opname (GetOpInfo inst)"

definition IsValidInstruction :: "u32 \<Rightarrow> bool" where
  "IsValidInstruction inst \<longleftrightarrow> (case GetOpInfo inst of Some info \<Rightarrow> op_type info \<noteq> Unknown | None \<Rightarrow> False)"

end
