(* ===== verification/PPC_Interpreter.thy ===== *)
theory PPC_Interpreter
  imports PPC_SPR PPC_LoadStore PPC_Tables PPC_Paired PPC_Quantize
begin

text \<open>
  The interpreter of \<open>PowerPC/Interpreter/Interpreter.cpp\<close>: dispatch through the instruction tables, a
  single step, and the loops of \<open>Run\<close>.  \<open>host\<close> stands for the functions that are not modelled, by
  name: \<open>vmcall\<close>, which calls a table of host functions, and \<open>HLE::Execute\<close>.  \<open>hle\<close> gives the hook at an
  address: its type, whether it is enabled, and its index.
\<close>

section \<open>Dispatch\<close>

definition ok_ppc :: "(u32 \<Rightarrow> ppc \<Rightarrow> ppc) \<Rightarrow> u32 \<Rightarrow> ppc \<Rightarrow> ppc_res" where
  "ok_ppc f inst s = Inr (f inst s)"

definition ppc_instructions :: "(string \<times> (u32 \<Rightarrow> ppc \<Rightarrow> ppc_res)) list" where
  "ppc_instructions =
   [(''bcx'', bcx), (''bx'', ok_ppc bx), (''twi'', ok_ppc twi), (''sc'', ok_ppc sc),
    (''mulli'', ok_ppc mulli), (''subfic'', ok_ppc subfic), (''cmpli'', ok_ppc cmpli),
    (''cmpi'', ok_ppc cmpi), (''addic'', ok_ppc addic), (''addic_rc'', ok_ppc addic_rc),
    (''addi'', ok_ppc addi), (''addis'', ok_ppc addis), (''rlwimix'', ok_ppc rlwimix),
    (''rlwinmx'', ok_ppc rlwinmx), (''rlwnmx'', ok_ppc rlwnmx), (''ori'', ok_ppc ori),
    (''oris'', ok_ppc oris), (''xori'', ok_ppc xori), (''xoris'', ok_ppc xoris),
    (''andi_rc'', ok_ppc andi_rc), (''andis_rc'', ok_ppc andis_rc), (''lwz'', lwz),
    (''lwzu'', lwzu), (''lbz'', lbz), (''lbzu'', lbzu), (''lhz'', lhz), (''lhzu'', lhzu),
    (''lha'', lha), (''lhau'', lhau), (''sth'', sth), (''sthu'', sthu), (''stw'', stw),
    (''stwu'', stwu), (''stb'', stb), (''stbu'', stbu), (''lmw'', lmw), (''stmw'', stmw),
    (''lfs'', lfs), (''lfsu'', lfsu), (''lfd'', lfd), (''lfdu'', lfdu), (''stfs'', stfs),
    (''stfsu'', stfsu), (''stfd'', stfd), (''stfdu'', stfdu), (''dcbz_l'', dcbz_l),
    (''bcctrx'', ok_ppc bcctrx), (''bclrx'', ok_ppc bclrx), (''crand'', ok_ppc crand),
    (''crandc'', ok_ppc crandc), (''creqv'', ok_ppc creqv), (''crnand'', ok_ppc crnand),
    (''crnor'', ok_ppc crnor), (''cror'', ok_ppc cror), (''crorc'', ok_ppc crorc),
    (''crxor'', ok_ppc crxor), (''isync'', ok_ppc isync), (''mcrf'', ok_ppc mcrf),
    (''rfi'', ok_ppc rfi), (''addx'', ok_ppc addx), (''addcx'', ok_ppc addcx),
    (''addex'', ok_ppc addex), (''addmex'', ok_ppc addmex), (''addzex'', ok_ppc addzex),
    (''divwx'', ok_ppc divwx), (''divwux'', ok_ppc divwux), (''mulhwx'', ok_ppc mulhwx),
    (''mulhwux'', ok_ppc mulhwux), (''mullwx'', ok_ppc mullwx), (''negx'', ok_ppc negx),
    (''subfx'', ok_ppc subfx), (''subfcx'', ok_ppc subfcx), (''subfex'', ok_ppc subfex),
    (''subfmex'', ok_ppc subfmex), (''subfzex'', ok_ppc subfzex), (''andx'', ok_ppc andx),
    (''andcx'', ok_ppc andcx), (''orx'', ok_ppc orx), (''norx'', ok_ppc norx),
    (''xorx'', ok_ppc xorx), (''orcx'', ok_ppc orcx), (''nandx'', ok_ppc nandx),
    (''eqvx'', ok_ppc eqvx), (''cmp'', ok_ppc cmp), (''cmpl'', ok_ppc cmpl),
    (''cntlzwx'', ok_ppc cntlzwx), (''extshx'', ok_ppc extshx), (''extsbx'', ok_ppc extsbx),
    (''srwx'', ok_ppc srwx), (''srawx'', ok_ppc srawx), (''srawix'', ok_ppc srawix),
    (''slwx'', ok_ppc slwx), (''dcbst'', dcbst), (''dcbf'', dcbf), (''dcbtst'', dcbtst),
    (''dcbt'', dcbt), (''dcbi'', dcbi), (''dcba'', dcba), (''dcbz'', dcbz), (''lwzx'', lwzx),
    (''lwzux'', lwzux), (''lhzx'', lhzx), (''lhzux'', lhzux), (''lhax'', lhax),
    (''lhaux'', lhaux), (''lbzx'', lbzx), (''lbzux'', lbzux), (''lwbrx'', lwbrx),
    (''lhbrx'', lhbrx), (''stwcxd'', stwcxd), (''lwarx'', lwarx), (''lswx'', lswx),
    (''lswi'', lswi), (''stwx'', stwx), (''stwux'', stwux), (''sthx'', sthx), (''sthux'', sthux),
    (''stbx'', stbx), (''stbux'', stbux), (''stwbrx'', stwbrx), (''sthbrx'', sthbrx),
    (''stswx'', stswx), (''stswi'', stswi), (''lfsx'', lfsx), (''lfsux'', lfsux),
    (''lfdx'', lfdx), (''lfdux'', lfdux), (''stfsx'', stfsx), (''stfsux'', stfsux),
    (''stfdx'', stfdx), (''stfdux'', stfdux), (''stfiwx'', stfiwx), (''mfcr'', ok_ppc mfcr),
    (''mfmsr'', ok_ppc mfmsr), (''mtcrf'', ok_ppc mtcrf), (''mtmsr'', ok_ppc mtmsr),
    (''mtsr'', ok_ppc mtsr), (''mtsrin'', ok_ppc mtsrin), (''mfspr'', ok_ppc mfspr),
    (''mtspr'', mtspr), (''mftb'', ok_ppc mftb), (''mcrxr'', ok_ppc mcrxr),
    (''mfsr'', ok_ppc mfsr), (''mfsrin'', ok_ppc mfsrin), (''tw'', ok_ppc tw), (''sync'', sync),
    (''icbi'', icbi), (''eciwx'', eciwx), (''ecowx'', ecowx), (''eieio'', eieio),
    (''tlbie'', tlbie), (''tlbsync'', tlbsync),
    (''psq_l'', psq_l), (''psq_lu'', psq_lu), (''psq_st'', psq_st), (''psq_stu'', psq_stu),
    (''ps_cmpu0'', ok_ppc ps_cmpu0), (''ps_cmpo0'', ok_ppc ps_cmpo0),
    (''ps_neg'', ok_ppc ps_neg), (''ps_nabs'', ok_ppc ps_nabs), (''ps_abs'', ok_ppc ps_abs),
    (''ps_cmpu1'', ok_ppc ps_cmpu1), (''ps_mr'', ok_ppc ps_mr), (''ps_cmpo1'', ok_ppc ps_cmpo1),
    (''ps_merge00'', ok_ppc ps_merge00), (''ps_merge01'', ok_ppc ps_merge01),
    (''ps_merge10'', ok_ppc ps_merge10), (''ps_merge11'', ok_ppc ps_merge11),
    (''ps_sum0'', ok_ppc ps_sum0), (''ps_sum1'', ok_ppc ps_sum1),
    (''ps_muls0'', ok_ppc ps_muls0), (''ps_muls1'', ok_ppc ps_muls1),
    (''ps_madds0'', ok_ppc ps_madds0), (''ps_madds1'', ok_ppc ps_madds1),
    (''ps_div'', ok_ppc ps_div), (''ps_sub'', ok_ppc ps_sub), (''ps_add'', ok_ppc ps_add),
    (''ps_sel'', ok_ppc ps_sel), (''ps_res'', ok_ppc ps_res), (''ps_mul'', ok_ppc ps_mul),
    (''ps_rsqrte'', ok_ppc ps_rsqrte), (''ps_msub'', ok_ppc ps_msub),
    (''ps_madd'', ok_ppc ps_madd), (''ps_nmsub'', ok_ppc ps_nmsub),
    (''ps_nmadd'', ok_ppc ps_nmadd), (''psq_lx'', psq_lx), (''psq_stx'', psq_stx),
    (''psq_lux'', psq_lux), (''psq_stux'', psq_stux), (''fdivsx'', ok_ppc fdivsx),
    (''fsubsx'', ok_ppc fsubsx), (''faddsx'', ok_ppc faddsx), (''fresx'', ok_ppc fresx),
    (''fmulsx'', ok_ppc fmulsx), (''fmsubsx'', ok_ppc fmsubsx), (''fmaddsx'', ok_ppc fmaddsx),
    (''fnmsubsx'', ok_ppc fnmsubsx), (''fnmaddsx'', ok_ppc fnmaddsx), (''fabsx'', ok_ppc fabsx),
    (''fcmpo'', ok_ppc fcmpo), (''fcmpu'', ok_ppc fcmpu), (''fctiwx'', ok_ppc fctiwx),
    (''fctiwzx'', ok_ppc fctiwzx), (''fmrx'', ok_ppc fmrx), (''fnabsx'', ok_ppc fnabsx),
    (''fnegx'', ok_ppc fnegx), (''frspx'', ok_ppc frspx), (''mcrfs'', ok_ppc mcrfs),
    (''mffsx'', ok_ppc mffsx), (''mtfsb0x'', ok_ppc mtfsb0x), (''mtfsb1x'', ok_ppc mtfsb1x),
    (''mtfsfix'', ok_ppc mtfsfix), (''mtfsfx'', ok_ppc mtfsfx), (''fdivx'', ok_ppc fdivx),
    (''fsubx'', ok_ppc fsubx), (''faddx'', ok_ppc faddx), (''fselx'', ok_ppc fselx),
    (''fmulx'', ok_ppc fmulx), (''frsqrtex'', ok_ppc frsqrtex), (''fmsubx'', ok_ppc fmsubx),
    (''fmaddx'', ok_ppc fmaddx), (''fnmsubx'', ok_ppc fnmsubx), (''fnmaddx'', ok_ppc fnmaddx)]"

type_synonym host_functions = "string \<Rightarrow> u32 \<Rightarrow> ppc \<Rightarrow> ppc_res"

definition call_instruction :: "host_functions \<Rightarrow> string \<Rightarrow> u32 \<Rightarrow> ppc \<Rightarrow> ppc_res" where
  "call_instruction host f inst s =
     (case map_of ppc_instructions f of
        Some g \<Rightarrow> g inst s
      | None \<Rightarrow> if f = ''unknown_instruction'' then Inr s else host f inst s)"

text \<open>\<open>m_op_table[inst.OPCD](inst)\<close>, with the five functions \<open>RunTable\<close>.\<close>

definition run_instruction :: "host_functions \<Rightarrow> u32 \<Rightarrow> ppc \<Rightarrow> ppc_res" where
  "run_instruction host inst s =
     (let f = fst (m_op_table (inst_OPCD inst))
      in if f = ''RunTable4'' then call_instruction host (fst (m_op_table4 (inst_SUBOP10 inst))) inst s
         else if f = ''RunTable19'' then call_instruction host (fst (m_op_table19 (inst_SUBOP10 inst))) inst s
         else if f = ''RunTable31'' then call_instruction host (fst (m_op_table31 (inst_SUBOP10 inst))) inst s
         else if f = ''RunTable59'' then call_instruction host (fst (m_op_table59 (inst_SUBOP5 inst))) inst s
         else if f = ''RunTable63'' then call_instruction host (fst (m_op_table63 (inst_SUBOP10 inst))) inst s
         else call_instruction host f inst s)"

section \<open>A single step\<close>

datatype HookType = HookStart | HookReplace | HookNone

type_synonym hle_hooks = "u32 \<Rightarrow> (HookType \<times> bool \<times> u32) option"

definition MSR_FP :: u32 where "MSR_FP = 0x2000"

definition HLEFunction :: "host_functions \<Rightarrow> u32 \<Rightarrow> ppc \<Rightarrow> ppc_res" where
  "HLEFunction host inst s = host ''HLE::Execute'' inst (s\<lparr>m_end_block := True\<rparr>)"

text \<open>The block for the hooks: whether \<open>function\<close> is 0 behind it.\<close>

definition hook_step :: "host_functions \<Rightarrow> hle_hooks \<Rightarrow> ppc \<Rightarrow> bool ppc_val" where
  "hook_step host hle s =
     (case hle (pc s) of
        None \<Rightarrow> Inr (True, s)
      | Some (ty, enabled, function) \<Rightarrow>
          if ty = HookStart \<or> ty = HookReplace then
            (if enabled then bind_ppc (HLEFunction host function s) (\<lambda>s. Inr (ty = HookStart, s))
             else Inr (True, s))
          else Inr (False, s))"

definition check_and_end :: "ppc \<Rightarrow> ppc" where
  "check_and_end s = (CheckExceptions s)\<lparr>m_end_block := True\<rparr>"

text \<open>The block under \<open>if (function == 0)\<close>.\<close>

definition instruction_step :: "host_functions \<Rightarrow> ppc \<Rightarrow> ppc_res" where
  "instruction_step host s =
     (let s = s\<lparr>npc := pc s + 4\<rparr>
      in bind_ppc (Read_Opcode (pc s) s)
           (\<lambda>(hex, s). let s = s\<lparr>m_prev_inst := hex\<rparr>
              in if hex = 0 then Inr (check_and_end s)
                 else if msr s AND MSR_FP \<noteq> 0 \<or> \<not> UsesFPU hex then
                   bind_ppc (run_instruction host hex s)
                     (\<lambda>s. Inr (if Exceptions s AND EXCEPTION_DSI \<noteq> 0 then check_and_end s else s))
                 else Inr (check_and_end (s\<lparr>Exceptions := Exceptions s OR EXCEPTION_FPU_UNAVAILABLE\<rparr>))))"

definition SingleStepInner :: "host_functions \<Rightarrow> hle_hooks \<Rightarrow> ppc \<Rightarrow> nat ppc_val" where
  "SingleStepInner host hle s =
     bind_ppc (hook_step host hle s)
       (\<lambda>(zero, s). bind_ppc (if zero then instruction_step host s else Inr s)
          (\<lambda>s. let s = s\<lparr>last_pc := pc s, pc := npc s\<rparr>
               in case GetOpInfo (m_prev_inst s) of
                    None \<Rightarrow> Inl Unmapped
                  | Some opinfo \<Rightarrow> Inr (numCycles opinfo, s)))"

definition SingleStep :: "host_functions \<Rightarrow> hle_hooks \<Rightarrow> callbacks \<Rightarrow> ppc \<Rightarrow> ppc_res" where
  "SingleStep host hle callback s =
     (case Advance callback s of
        None \<Rightarrow> Inl NoReturn
      | Some s \<Rightarrow>
          bind_ppc (SingleStepInner host hle s)
            (\<lambda>(_, s). let s = s\<lparr>slice_length := 1, downcount := 0\<rparr>
               in Inr (if Exceptions s \<noteq> 0 then (let s = CheckExceptions s in s\<lparr>pc := npc s\<rparr>) else s)))"

section \<open>The loops of \<open>Run\<close>\<close>

text \<open>\<open>while (!m_end_block) cycles += SingleStepInner()\<close>: \<open>None\<close> when it does not end.\<close>

partial_function (option) run_block ::
  "host_functions \<Rightarrow> hle_hooks \<Rightarrow> nat \<Rightarrow> ppc \<Rightarrow> nat ppc_val option" where
  "run_block host hle cycles s =
     (if m_end_block s then Some (Inr (cycles, s))
      else (case SingleStepInner host hle s of
              Inl e \<Rightarrow> Some (Inl e)
            | Inr (n, s) \<Rightarrow> run_block host hle (cycles + n) s))"

partial_function (option) run_slice ::
  "host_functions \<Rightarrow> hle_hooks \<Rightarrow> ppc \<Rightarrow> ppc_res option" where
  "run_slice host hle s =
     (if sint (downcount s) > 0 then
        (case run_block host hle 0 (s\<lparr>m_end_block := False\<rparr>) of
           None \<Rightarrow> None
         | Some r \<Rightarrow> (case r of
             Inl e \<Rightarrow> Some (Inl e)
           | Inr (cycles, s) \<Rightarrow> run_slice host hle (s\<lparr>downcount := downcount s - of_nat cycles\<rparr>)))
      else Some (Inr s))"

text \<open>The same under the debugger: \<open>bp\<close> are the breakpoints; \<open>True\<close> when one was hit.\<close>

partial_function (option) run_block_debug ::
  "(u32 \<Rightarrow> bool) \<Rightarrow> host_functions \<Rightarrow> hle_hooks \<Rightarrow> nat \<Rightarrow> ppc \<Rightarrow> (bool \<times> nat) ppc_val option" where
  "run_block_debug bp host hle i s =
     (if m_end_block s then Some (Inr ((False, i), s))
      else if bp (pc s) then Some (Inr ((True, i), s))
      else (case SingleStepInner host hle s of
              Inl e \<Rightarrow> Some (Inl e)
            | Inr (n, s) \<Rightarrow> run_block_debug bp host hle (i + 1) s))"

partial_function (option) run_slice_debug ::
  "(u32 \<Rightarrow> bool) \<Rightarrow> host_functions \<Rightarrow> hle_hooks \<Rightarrow> ppc \<Rightarrow> bool ppc_val option" where
  "run_slice_debug bp host hle s =
     (if sint (downcount s) > 0 then
        (case run_block_debug bp host hle 0 (s\<lparr>m_end_block := False\<rparr>) of
           None \<Rightarrow> None
         | Some r \<Rightarrow> (case r of
             Inl e \<Rightarrow> Some (Inl e)
           | Inr ((hit, i), s) \<Rightarrow>
               if hit then Some (Inr (True, s))
               else run_slice_debug bp host hle (s\<lparr>downcount := downcount s - of_nat i\<rparr>)))
      else Some (Inr (False, s)))"

text \<open>\<open>Run\<close> without the debugger; \<open>running\<close> is the test of the state of the emulator.\<close>

partial_function (option) Interpreter_Run ::
  "(ppc \<Rightarrow> bool) \<Rightarrow> host_functions \<Rightarrow> hle_hooks \<Rightarrow> callbacks \<Rightarrow> ppc \<Rightarrow> ppc_res option" where
  "Interpreter_Run running host hle callback s =
     (if running s then
        (case Advance callback s of
           None \<Rightarrow> None
         | Some s \<Rightarrow>
             (case run_slice host hle s of
                None \<Rightarrow> None
              | Some r \<Rightarrow> (case r of
                  Inl e \<Rightarrow> Some (Inl e)
                | Inr s \<Rightarrow> Interpreter_Run running host hle callback s)))
      else Some (Inr s))"

end
