(* ===== verification/PPC_Decode.thy ===== *)
theory PPC_Decode
  imports PPC_Interpreter
begin

text \<open>
  The instruction tables of the PowerPC decode without ambiguity: no row overwrites another, and
  both ways of looking an instruction up, the switch of \<open>PPCTables\<close> and the functions \<open>RunTable\<close> of the
  interpreter, find the row.
\<close>

section \<open>Arrays filled from tables\<close>

abbreviation slot_of :: "GekkoOPTemplate \<Rightarrow> op_slot" where
  "slot_of r \<equiv> (row_inst r, row_info r)"

lemma write_rows_other:
  "(\<And>r. r \<in> set rs \<Longrightarrow> fill + row_opcode r \<noteq> k) \<Longrightarrow> write_rows fill rs t k = t k"
  by (induction rs arbitrary: t) auto

lemma write_rows_at:
  "distinct (map row_opcode rs) \<Longrightarrow> r \<in> set rs \<Longrightarrow> write_rows fill rs t (fill + row_opcode r) = slot_of r"
proof (induction rs arbitrary: t)
  case (Cons q rs)
  show ?case
  proof (cases "r \<in> set rs")
    case False
    then have "write_rows fill rs (t(fill + row_opcode q := slot_of q)) (fill + row_opcode r) =
        (t(fill + row_opcode q := slot_of q)) (fill + row_opcode r)"
      using Cons.prems by (intro write_rows_other) (metis add_left_cancel distinct_map inj_onD list.set_intros(1,2) list.simps(9))
    then show ?thesis using False Cons.prems by simp
  qed (use Cons in simp)
qed simp

lemma write_filled_other:
  "(\<And>j r. r \<in> set rs \<Longrightarrow> i \<le> j \<Longrightarrow> j < i + n \<Longrightarrow> j * 2 ^ sh + row_opcode r \<noteq> k) \<Longrightarrow> write_filled n i sh rs t k = t k"
proof (induction n arbitrary: i t)
  case (Suc n)
  have "write_filled n (i + 1) sh rs (write_rows (i * 2 ^ sh) rs t) k = write_rows (i * 2 ^ sh) rs t k"
    by (rule Suc.IH) (use Suc.prems in auto)
  also have "\<dots> = t k" by (rule write_rows_other) (use Suc.prems [of _ i] in auto)
  finally show ?case by simp
qed simp

lemma write_filled_at:
  assumes "distinct (map row_opcode rs)" "\<forall>r \<in> set rs. row_opcode r < 2 ^ sh" "r \<in> set rs"
  shows "i \<le> j \<Longrightarrow> j < i + n \<Longrightarrow> write_filled n i sh rs t (j * 2 ^ sh + row_opcode r) = slot_of r"
proof (induction n arbitrary: i t)
  case (Suc n)
  show ?case
  proof (cases "j = i")
    case True
    have "j' * 2 ^ sh + row_opcode q \<noteq> i * 2 ^ sh + row_opcode r" if "q \<in> set rs" "i + 1 \<le> j'" for j' q
    proof
      assume e: "j' * 2 ^ sh + row_opcode q = i * 2 ^ sh + row_opcode r"
      have "(j' * 2 ^ sh + row_opcode q) div 2 ^ sh = j'" "(i * 2 ^ sh + row_opcode r) div 2 ^ sh = i"
        using assms(2,3) that(1) by simp_all
      then show False using e that(2) by simp
    qed
    then have "write_filled n (i + 1) sh rs (write_rows (i * 2 ^ sh) rs t) (i * 2 ^ sh + row_opcode r)
        = write_rows (i * 2 ^ sh) rs t (i * 2 ^ sh + row_opcode r)"
      by (intro write_filled_other) auto
    then show ?thesis using True write_rows_at [OF assms(1,3)] by simp
  next
    case False
    then show ?thesis using Suc.prems Suc.IH [of "i + 1"] by simp
  qed
qed simp

lemma filled_at:
  assumes "distinct (map row_opcode rs)" "\<forall>r \<in> set rs. row_opcode r < 2 ^ sh" "r \<in> set rs"
    and "k < n * 2 ^ sh" "k mod 2 ^ sh = row_opcode r"
  shows "write_filled n 0 sh rs t k = slot_of r"
proof -
  have "k = k div 2 ^ sh * 2 ^ sh + row_opcode r" using assms(5) by (metis div_mult_mod_eq)
  moreover have "k div 2 ^ sh < n" using assms(4) by (simp add: div_less_iff_less_mult)
  ultimately show ?thesis using write_filled_at [OF assms(1-3), of 0 "k div 2 ^ sh" n t] by simp
qed

section \<open>The tables\<close>

lemma distinct_rows:
  "distinct (map row_opcode primarytable)" "distinct (map row_opcode table4)" "distinct (map row_opcode table4_2)"
  "distinct (map row_opcode table4_3)" "distinct (map row_opcode table19)" "distinct (map row_opcode table31)"
  "distinct (map row_opcode table59)" "distinct (map row_opcode table63)" "distinct (map row_opcode table63_2)"
  by (simp_all add: primarytable_def table4_def table4_2_def table4_3_def table19_def table31_def
      table31_integer_def table31_memory_def table31_system_def       table59_def table63_def table63_2_def row_def)

lemma row_ranges:
  "\<forall>r \<in> set table4_2. row_opcode r < 2 ^ 5" "\<forall>r \<in> set table4_3. row_opcode r < 2 ^ 6"
  "\<forall>r \<in> set table63_2. row_opcode r < 2 ^ 5" "\<forall>r \<in> set table59. row_opcode r < 2 ^ 5"
  by (simp_all add: table4_2_def table4_3_def table59_def table63_2_def row_def)

lemma no_collision:
  "\<forall>r \<in> set table4. \<forall>q \<in> set table4_2. row_opcode r mod 32 \<noteq> row_opcode q"
  "\<forall>r \<in> set table4. \<forall>q \<in> set table4_3. row_opcode r mod 64 \<noteq> row_opcode q"
  "\<forall>r \<in> set table4_3. \<forall>q \<in> set table4_2. row_opcode r mod 32 \<noteq> row_opcode q"
  "\<forall>r \<in> set table63. \<forall>q \<in> set table63_2. row_opcode r mod 32 \<noteq> row_opcode q"
  by (simp_all add: table4_def table4_2_def table4_3_def table63_def table63_2_def row_def)


section \<open>The row of an instruction\<close>

text \<open>
  A row of the tables stands for an instruction word: its opcode is the primary opcode, or the primary
  opcode names a subtable and its opcode is the last ten bits but one, or the last five or six of
  them for the arithmetic rows that leave the others to operands.
\<close>

definition stands_for :: "GekkoOPTemplate \<Rightarrow> u32 \<Rightarrow> bool" where
  "stands_for r inst \<longleftrightarrow>
     (let opcd = inst_OPCD inst; sub = inst_SUBOP10 inst
      in r \<in> set primarytable \<and> row_opcode r = opcd \<and> op_type (row_info r) \<noteq> Subtable
       \<or> opcd = 4 \<and> (r \<in> set table4 \<and> row_opcode r = sub \<or> r \<in> set table4_2 \<and> row_opcode r = sub mod 32
            \<or> r \<in> set table4_3 \<and> row_opcode r = sub mod 64)
       \<or> opcd = 19 \<and> r \<in> set table19 \<and> row_opcode r = sub
       \<or> opcd = 31 \<and> r \<in> set table31 \<and> row_opcode r = sub
       \<or> opcd = 59 \<and> r \<in> set table59 \<and> row_opcode r = sub mod 32
       \<or> opcd = 63 \<and> (r \<in> set table63 \<and> row_opcode r = sub \<or> r \<in> set table63_2 \<and> row_opcode r = sub mod 32))"

lemma sub_fields: "inst_SUBOP10 inst < 1024" "inst_SUBOP5 inst = inst_SUBOP10 inst mod 32"
proof -
  show "inst_SUBOP10 inst < 1024"
    using take_bit_nat_less_exp [of 10] by (simp add: inst_SUBOP10_def ifield_def unsigned_take_bit_eq)
  have "take_bit 5 (take_bit 10 (unat (drop_bit 1 inst))) = take_bit 5 (unat (drop_bit 1 inst))"
    by simp
  then show "inst_SUBOP5 inst = inst_SUBOP10 inst mod 32"
    by (simp add: inst_SUBOP5_def inst_SUBOP10_def ifield_def unsigned_take_bit_eq take_bit_eq_mod [where 'a = nat])
qed

lemma primary_at: "r \<in> set primarytable \<Longrightarrow> m_op_table (row_opcode r) = slot_of r"
  using write_rows_at [OF distinct_rows(1), of r 0] by (simp add: m_op_table_def)

lemma subtable_rows:
  "m_op_table 4 = (''RunTable4'', \<lparr>opname = ''RunTable4'', op_type = Subtable, op_flags = 0, numCycles = 0\<rparr>)"
  "m_op_table 19 = (''RunTable19'', \<lparr>opname = ''RunTable19'', op_type = Subtable, op_flags = 0, numCycles = 0\<rparr>)"
  "m_op_table 31 = (''RunTable31'', \<lparr>opname = ''RunTable31'', op_type = Subtable, op_flags = 0, numCycles = 0\<rparr>)"
  "m_op_table 59 = (''RunTable59'', \<lparr>opname = ''RunTable59'', op_type = Subtable, op_flags = 0, numCycles = 0\<rparr>)"
  "m_op_table 63 = (''RunTable63'', \<lparr>opname = ''RunTable63'', op_type = Subtable, op_flags = 0, numCycles = 0\<rparr>)"
  using primary_at [of "row 4 ''RunTable4'' ''RunTable4'' Subtable 0 0"]
    primary_at [of "row 19 ''RunTable19'' ''RunTable19'' Subtable 0 0"]
    primary_at [of "row 31 ''RunTable31'' ''RunTable31'' Subtable 0 0"]
    primary_at [of "row 59 ''RunTable59'' ''RunTable59'' Subtable 0 0"]
    primary_at [of "row 63 ''RunTable63'' ''RunTable63'' Subtable 0 0"]
  by (simp_all add: primarytable_def) (simp_all add: row_def)

lemma table4_at:
  "r \<in> set table4 \<Longrightarrow> m_op_table4 (row_opcode r) = slot_of r"
  "k < 1024 \<Longrightarrow> r \<in> set table4_2 \<Longrightarrow> row_opcode r = k mod 32 \<Longrightarrow> m_op_table4 k = slot_of r"
  "k < 1024 \<Longrightarrow> r \<in> set table4_3 \<Longrightarrow> row_opcode r = k mod 64 \<Longrightarrow> m_op_table4 k = slot_of r"
proof -
  show "r \<in> set table4 \<Longrightarrow> m_op_table4 (row_opcode r) = slot_of r"
    using write_rows_at [OF distinct_rows(2), of r 0] by (simp add: m_op_table4_def)
  show "m_op_table4 k = slot_of r" if k: "k < 1024" "r \<in> set table4_3" "row_opcode r = k mod 64"
  proof -
    have "m_op_table4 k = write_filled 16 0 6 table4_3 (write_filled 32 0 5 table4_2 (\<lambda>_. unknown_slot)) k"
      unfolding m_op_table4_def using no_collision(2) k by (intro write_rows_other) (metis add_0)
    then show ?thesis using filled_at [OF distinct_rows(4) row_ranges(2) k(2), of k 16] k by simp
  qed
  show "m_op_table4 k = slot_of r" if k: "k < 1024" "r \<in> set table4_2" "row_opcode r = k mod 32"
  proof -
    have "m_op_table4 k = write_filled 16 0 6 table4_3 (write_filled 32 0 5 table4_2 (\<lambda>_. unknown_slot)) k"
      unfolding m_op_table4_def using no_collision(1) k by (intro write_rows_other) (metis add_0)
    also have "\<dots> = write_filled 32 0 5 table4_2 (\<lambda>_. unknown_slot) k"
    proof (rule write_filled_other)
      fix j q assume q: "q \<in> set table4_3"
      have "j * 2 ^ 6 + row_opcode q = 2 * j * 32 + row_opcode q" by simp
      then have "(j * 2 ^ 6 + row_opcode q) mod 32 = row_opcode q mod 32" by (metis mod_mult_self3)
      then show "j * 2 ^ 6 + row_opcode q \<noteq> k" using no_collision(3) q k(2,3) by metis
    qed
    finally show ?thesis using filled_at [OF distinct_rows(3) row_ranges(1) k(2), of k 32] k by simp
  qed
qed

lemma table63_at:
  "k < 1024 \<Longrightarrow> r \<in> set table63_2 \<Longrightarrow> row_opcode r = k mod 32 \<Longrightarrow> m_op_table63 k = slot_of r"
  "r \<in> set table63 \<Longrightarrow> m_op_table63 (row_opcode r) = slot_of r"
proof -
  show "m_op_table63 k = slot_of r" if "k < 1024" "r \<in> set table63_2" "row_opcode r = k mod 32"
    using filled_at [OF distinct_rows(9) row_ranges(3) that(2), of k 32] that by (simp add: m_op_table63_def)
  show "m_op_table63 (row_opcode r) = slot_of r" if r: "r \<in> set table63"
  proof -
    have "m_op_table63 (row_opcode r) = write_rows 0 table63 (\<lambda>_. unknown_slot) (row_opcode r)"
      unfolding m_op_table63_def
    proof (rule write_filled_other)
      fix j q assume q: "q \<in> set table63_2"
      then have "(j * 2 ^ 5 + row_opcode q) mod 32 = row_opcode q" using row_ranges(3) by simp
      then show "j * 2 ^ 5 + row_opcode q \<noteq> row_opcode r" using no_collision(4) q r by metis
    qed
    then show ?thesis using write_rows_at [OF distinct_rows(8) r, of 0] by simp
  qed
qed

lemma simple_tables_at:
  "r \<in> set table19 \<Longrightarrow> m_op_table19 (row_opcode r) = slot_of r"
  "r \<in> set table31 \<Longrightarrow> m_op_table31 (row_opcode r) = slot_of r"
  "r \<in> set table59 \<Longrightarrow> m_op_table59 (row_opcode r) = slot_of r"
  using write_rows_at [OF distinct_rows(5), of r 0] write_rows_at [OF distinct_rows(6), of r 0]
    write_rows_at [OF distinct_rows(7), of r 0]
  by (simp_all add: m_op_table19_def m_op_table31_def m_op_table59_def)


definition run_tables :: "string list" where
  "run_tables = [''RunTable4'', ''RunTable19'', ''RunTable31'', ''RunTable59'', ''RunTable63'']"

lemma primary_rows:
  "\<forall>r \<in> set primarytable. op_type (row_info r) \<noteq> InvalidOp
     \<and> (row_inst r \<in> set run_tables \<longleftrightarrow> op_type (row_info r) = Subtable)"
  unfolding run_tables_def by (simp add: primarytable_def row_def)

lemma row_found:
  assumes "stands_for r inst"
  obtains (primary) "r \<in> set primarytable" "row_opcode r = inst_OPCD inst" "op_type (row_info r) \<noteq> Subtable"
    | (sub4) "inst_OPCD inst = 4" "m_op_table4 (inst_SUBOP10 inst) = slot_of r"
    | (sub19) "inst_OPCD inst = 19" "m_op_table19 (inst_SUBOP10 inst) = slot_of r"
    | (sub31) "inst_OPCD inst = 31" "m_op_table31 (inst_SUBOP10 inst) = slot_of r"
    | (sub59) "inst_OPCD inst = 59" "m_op_table59 (inst_SUBOP5 inst) = slot_of r"
    | (sub63) "inst_OPCD inst = 63" "m_op_table63 (inst_SUBOP10 inst) = slot_of r"
proof -
  have k: "inst_SUBOP10 inst < 1024" by (rule sub_fields)
  show ?thesis
    using assms that unfolding stands_for_def Let_def sub_fields(2)
    using table4_at table4_at(2,3) [OF k] table63_at(1) [OF k] table63_at(2) simple_tables_at by metis
qed

text \<open>C15: decoding is unambiguous.  If a row of the instruction tables stands for an instruction word, no
  other row does, and it is the row that \<open>GetOpInfo\<close> and \<open>GetInterpreterOp\<close> find and the function the
  interpreter runs, through the functions \<open>RunTable\<close> and their arrays.\<close>

theorem instruction_tables:
  assumes "stands_for r inst"
  shows "GetOpInfo inst = Some (row_info r) \<and> GetInterpreterOp inst = Some (row_inst r)
    \<and> run_instruction host inst s = call_instruction host (row_inst r) inst s
    \<and> (\<forall>r'. stands_for r' inst \<longrightarrow> row_inst r' = row_inst r \<and> row_info r' = row_info r)"
proof -
  have sel: "select_slot inst = Some (slot_of q)" if "stands_for q inst" for q
    using that
  proof (cases rule: row_found)
    case primary
    then show ?thesis using primary_at [OF primary(1)] primary_rows by (simp add: select_slot_def)
  qed (simp_all add: select_slot_def subtable_rows)
  have "run_instruction host inst s = call_instruction host (row_inst r) inst s"
    using assms
  proof (cases rule: row_found)
    case primary
    then show ?thesis
      using primary_at [OF primary(1)] primary_rows [THEN bspec, OF primary(1)]
      by (auto simp: run_instruction_def Let_def run_tables_def)
  qed (simp_all add: run_instruction_def subtable_rows Let_def)
  then show ?thesis using sel [OF assms] sel by (simp add: GetOpInfo_def GetInterpreterOp_def)
qed

theorem instruction_tables_witness:
  "GetInterpreterOp 0x7C632214 = Some ''addx''"
proof -
  have "stands_for (row 266 ''addx'' ''addx'' Integer (FL_OUT_D OR FL_IN_AB OR FL_RC_BIT) 1) 0x7C632214"
    by (simp add: stands_for_def table31_def table31_integer_def inst_OPCD_def inst_SUBOP10_def ifield_def)
      (simp add: row_def)
  then show ?thesis using instruction_tables by (fastforce simp: row_def)
qed

end
