(* ===== verification/Prime_State.thy ===== *)
theory Prime_State
  imports PPC_Timing PPC_Access
begin

text \<open>
  The data of PrimeHack (\<open>Core/PrimeHack\<close>): games and regions, patches of the game's code, the state
  of a mod, the address data base, and the whole state the hack works on, with the emulated processor
  inside.  Floating-point values are their bit patterns.  Settings, the controls of the player and the
  state of the core are fields of \<open>prime_config\<close>; messages on the screen and the developer's output
  are left out.
\<close>

section \<open>Games, regions and mods\<close>

datatype Game = INVALID_GAME | MENU | MENU_PRIME_1 | MENU_PRIME_2 | PRIME_1 | PRIME_2 | PRIME_3
  | PRIME_3_STANDALONE | PRIME_1_GCN | PRIME_2_GCN

datatype Region = INVALID_REGION | NTSC_U | PAL | NTSC_J

datatype ModState = DISABLED | CODE_DISABLED | ENABLED

record CodeChange =
  cc_address :: u32
  cc_var :: u32

text \<open>The classes derived from \<open>PrimeMod\<close>.\<close>

datatype mod_class = AutoEFB | CutBeamFxMP1 | DisableBloom | FpsControls | Invulnerability | Noclip
  | SkipCutscene | RestoreDashing | SpringballButton | ViewModifier | ElfModLoader
  | ContextSensitiveControls | PortalSkipMP2 | FriendVouchers | DisableHudMemoPopup | EntityGenerator
  | HudAdjuster | InfoTracker | DynSettings

record PortalControl =
  scan_eid :: u32
  seq_timer_eid :: u32
  rip_fx_gen_eid :: u32

text \<open>The members of \<open>ElfModLoader\<close>.\<close>

datatype CVarType = INT8 | INT16 | INT32 | INT64 | FLOAT32 | FLOAT64 | BOOLEAN

datatype LoadState = NOT_LOADED | ACTIVE | SUSPENDED

record elf_loader =
  callgate_fn_table :: u32
  callgate_dispatch_fn :: u32
  dispatch_table :: u32
  trampoline_restore_table :: u32
  callgate_count :: u32
  trampoline_count :: u32
  release_fn :: u32
  shutdown_signal :: u32
  cleanup_blhook_point :: u32
  shutting_down :: bool
  cvar_map :: "string \<rightharpoonup> u32 \<times> CVarType"
  debug_output_addr :: u32
  load_state :: LoadState

definition no_elf :: elf_loader where
  "no_elf = \<lparr>callgate_fn_table = 0, callgate_dispatch_fn = 0, dispatch_table = 0, trampoline_restore_table = 0,
     callgate_count = 0, trampoline_count = 0, release_fn = 0, shutdown_signal = 0, cleanup_blhook_point = 0,
     shutting_down = False, cvar_map = Map.empty, debug_output_addr = 0, load_state = NOT_LOADED\<rparr>"

text \<open>
  An object of a class: the members of \<open>PrimeMod\<close>, and those of the derived classes.  \<open>player_tf\<close> has
  the twelve numbers of a \<open>Transform\<close>, \<open>player_vec\<close> the three of a \<open>vec3\<close>.
\<close>

record prime_mod =
  mod_class_of :: mod_class
  initialized :: bool
  original_instructions :: "CodeChange list"
  code_changes :: "CodeChange list"
  pending_change_backups :: "u32 list"
  code_groups :: "string \<rightharpoonup> nat list \<times> ModState"
  mod_state :: ModState
  current_active_changes :: "CodeChange list"
  portal_control_map :: "u32 \<rightharpoonup> PortalControl list"
  extras_arr_addr :: u32
  player_tf :: "nat \<Rightarrow> u32"
  player_vec :: "u32 \<times> u32 \<times> u32"
  old_matexclude_list :: u64
  had_control :: bool
  original_colours :: "(u32 \<times> u32) list"
  current_colour :: u32
  zoom_factor :: s32
  minimal_mode :: bool
  has_beams :: bool
  pitch :: u32
  yaw :: u32
  start_pitch :: u32
  pitch_delta :: nat
  grapple_button_state :: bool
  grapple_swap_axis :: bool
  grapple_hand_pos :: u32
  grapple_force :: u32
  beam_scroll_timeout :: int
  menu_open :: bool
  loader :: elf_loader

text \<open>The object a constructor makes; members it leaves uninitialised are 0.\<close>

definition new_mod :: "mod_class \<Rightarrow> prime_mod" where
  "new_mod c = \<lparr>mod_class_of = c, initialized = False, original_instructions = [], code_changes = [],
     pending_change_backups = [], code_groups = Map.empty, mod_state = DISABLED, current_active_changes = [],
     portal_control_map = Map.empty, extras_arr_addr = 0, player_tf = \<lambda>_. 0, player_vec = (0, 0, 0),
     old_matexclude_list = 0, had_control = True, original_colours = [], current_colour = - 1, zoom_factor = - 1,
     minimal_mode = False, has_beams = False, pitch = 0, yaw = 0, start_pitch = 0, pitch_delta = 0,
     grapple_button_state = False, grapple_swap_axis = False, grapple_hand_pos = 0, grapple_force = 0,
     beam_scroll_timeout = 0, menu_open = True, loader = no_elf\<rparr>"

section \<open>The address data base\<close>

type_synonym region_triple = "u32 \<times> u32 \<times> u32"

record DynamicVariable =
  source_var :: string
  source_var_dynamic :: bool
  offset_list :: "region_triple list"

record AddressDB =
  addr_mapping :: "Game \<rightharpoonup> (string \<rightharpoonup> region_triple)"
  dyn_addr_mapping :: "Game \<rightharpoonup> (string \<rightharpoonup> DynamicVariable)"

section \<open>The state of the hack\<close>

text \<open>The settings and the controls, as the functions of \<open>HackConfig.cpp\<close> and \<open>SConfig\<close> return them.\<close>

record prime_config =
  core_running :: bool
  cpu_running :: bool
  invalidate_event :: nat
  UseMPAutoEFB :: bool
  GetEFBTexture :: bool
  GetEnableSecondaryGunFX :: bool
  bEnableCheats :: bool
  bEnablePrimeHack :: bool
  GetNoclip :: bool
  GetInvulnerability :: bool
  GetSkipCutscene :: bool
  GetRestoreDashing :: bool
  bPrimeFriendVouchers :: bool
  bPrimePortalSkip :: bool
  bDisableHudMemoPopup :: bool
  ImprovedMotionControls :: bool
  GetBloom :: bool
  GetReduceBloom :: bool
  GetCulling :: bool
  GetToggleArmAdjust :: bool
  GetAutoArmAdjust :: bool
  GetArmXYZ :: "u32 \<times> u32 \<times> u32"
  GetFov :: u32
  GFX_DISABLE_FOG :: bool
  LockCameraInPuzzles :: bool
  CheckBeamCtl :: "nat \<Rightarrow> bool"
  CheckVisorCtl :: "nat \<Rightarrow> bool"
  CheckBeamScrollCtl :: "bool \<Rightarrow> bool"
  CheckVisorScrollCtl :: "bool \<Rightarrow> bool"
  CheckSpringBallCtl :: bool
  CheckForward :: bool
  CheckBack :: bool
  CheckLeft :: bool
  CheckRight :: bool
  CheckJump :: bool
  m_mpr_primary_hudcolour :: u32
  m_mpr_minimal_mode :: bool
  m_mpr_hud_zoom_factor :: s32
  GetSensitivity :: u32
  GetCursorSensitivity :: u32
  InvertedX :: bool
  InvertedY :: bool
  ScaleCursorSensitivity :: bool
  GetHorizontalAxis :: u64
  GetVerticalAxis :: u64
  HandleReticleLockOn :: bool
  GetMenuOptions :: "bool \<times> bool"
  CheckGrappleCtl :: bool
  GrappleTappingMode :: bool
  GrappleCtlBound :: bool
  GetShowGCCrosshair :: bool
  GetGCCrosshairColor :: u32
  GetCannonHolster :: bool
  clock_now :: int
  ModPending :: bool
  ModSuspended :: bool

datatype CameraLock = Centre | Angle45 | Unlocked

text \<open>
  The host functions \<open>RegisterVmcall\<close> enters into the table of the processor; the other entries are
  \<open>vmcall_noop\<close>.
\<close>

datatype vm_call = vmcall_noop | fix_layer_bits | hudmemo_overlay_adjust_mp1_102
  | hudmemo_overlay_adjust_mp1_100 | restart_streamed_audio_mp3

text \<open>The managers of \<open>HackConfig.cpp\<close>, the statics of \<open>PrimeUtils.cpp\<close> and of the mods, and the processor.\<close>

record prime =
  cpu :: ppc
  config :: prime_config
  addr_db :: AddressDB
  variables_list :: "(string \<times> u32) list"
  active_game :: Game
  active_region :: Region
  last_game :: Game
  last_region :: Region
  mods :: "(string \<times> prime_mod) list"
  mod_state_backup :: "string \<rightharpoonup> ModState"
  vmcall_table :: "vm_call list"
  lock_camera :: CameraLock
  current_beam :: nat
  current_visor :: nat
  beam_owned :: "nat \<Rightarrow> bool"
  visor_owned :: "nat \<Rightarrow> bool"
  pressing_beam :: bool
  pressing_visor :: bool
  restart_audio_timer :: u32
  restart_audio_signal :: bool
  cursor_x :: u32
  cursor_y :: u32

section \<open>Actions\<close>

text \<open>
  An action changes the state and gives a value, or fails: an access the emulator cannot make, an
  index behind the end of a \<open>std::vector\<close>, which is undefined in C++, or a loop that does not return.
\<close>

datatype prime_fault = Cpu ppc_fault | OutOfRange | Endless

type_synonym 'a act = "prime \<Rightarrow> prime_fault + 'a \<times> prime"

definition done_with :: "'a \<Rightarrow> 'a act" where "done_with v s = Inr (v, s)"

definition andthen :: "'a act \<Rightarrow> ('a \<Rightarrow> 'b act) \<Rightarrow> 'b act" where
  "andthen m f s = (case m s of Inl e \<Rightarrow> Inl e | Inr (v, s) \<Rightarrow> f v s)"

lemma andthen_simps [simp]:
  "m s = Inl e \<Longrightarrow> andthen m f s = Inl e"
  "m s = Inr (v, t) \<Longrightarrow> andthen m f s = f v t"
  "andthen (done_with v) f = f v"
  by (simp_all add: andthen_def done_with_def fun_eq_iff)

lemma done_with_apply [simp]: "done_with v s = Inr (v, s)"
  by (simp add: done_with_def)

lemma andthen_Inr:
  "andthen m f s = Inr r \<longleftrightarrow> (\<exists>v t. m s = Inr (v, t) \<and> f v t = Inr r)"
  by (auto simp: andthen_def split: sum.splits)

text \<open>A function of the state, and a change of it.\<close>

definition asks :: "(prime \<Rightarrow> 'a) \<Rightarrow> 'a act" where "asks f s = Inr (f s, s)"
definition change :: "(prime \<Rightarrow> prime) \<Rightarrow> unit act" where "change f s = Inr ((), f s)"

lemma asks_change [simp]:
  "asks f s = Inr (f s, s)" "change g s = Inr ((), g s)"
  "andthen (asks f) h s = h (f s) s" "andthen (change g) k s = k () (g s)"
  by (simp_all add: asks_def change_def)

text \<open>The mod an action works on beside the state: \<open>this\<close> of a member function.\<close>

type_synonym mod_act = "prime_mod \<Rightarrow> prime_mod act"

text \<open>A loop over a list.\<close>

fun for_each :: "('a \<Rightarrow> unit act) \<Rightarrow> 'a list \<Rightarrow> unit act" where
  "for_each f [] = done_with ()"
| "for_each f (x # xs) = andthen (f x) (\<lambda>_. for_each f xs)"

end
