(* ===== verification/Prime_Utils.thy ===== *)
theory Prime_Utils
  imports Prime_State
begin

text \<open>
  \<open>PrimeUtils.h\<close>, \<open>PrimeUtils.cpp\<close> and \<open>EmuVariableManager.cpp\<close>: access to the memory of the game, the instructions the hack
  generates, and the switches of beams and visors; the table of host functions of \<open>PowerPC.cpp\<close>.
\<close>

section \<open>Memory of the game\<close>

definition on_cpu :: "(ppc \<Rightarrow> 'a ppc_val) \<Rightarrow> 'a act" where
  "on_cpu f s = (case f (cpu s) of Inl e \<Rightarrow> Inl (Cpu e) | Inr (v, c) \<Rightarrow> Inr (v, s\<lparr>cpu := c\<rparr>))"

definition on_cpu_unit :: "(ppc \<Rightarrow> ppc_res) \<Rightarrow> unit act" where
  "on_cpu_unit f s = (case f (cpu s) of Inl e \<Rightarrow> Inl (Cpu e) | Inr c \<Rightarrow> Inr ((), s\<lparr>cpu := c\<rparr>))"

definition HostRead_Instruction :: "u32 \<Rightarrow> ppc \<Rightarrow> u32 ppc_val" where
  "HostRead_Instruction address s = HostRead_U32 address s"

definition HostWrite_F32 :: "u32 \<Rightarrow> u32 \<Rightarrow> ppc \<Rightarrow> ppc_res" where
  "HostWrite_F32 var address s = HostWrite_U32 var address s"

definition read8 :: "u32 \<Rightarrow> u8 act" where "read8 addr = on_cpu (HostRead_U8 addr)"
definition read16 :: "u32 \<Rightarrow> u16 act" where "read16 addr = on_cpu (HostRead_U16 addr)"
definition read32 :: "u32 \<Rightarrow> u32 act" where "read32 addr = on_cpu (HostRead_U32 addr)"
definition readi :: "u32 \<Rightarrow> u32 act" where "readi addr = on_cpu (HostRead_Instruction addr)"
definition read64 :: "u32 \<Rightarrow> u64 act" where "read64 addr = on_cpu (HostRead_U64 addr)"
definition readf32 :: "u32 \<Rightarrow> u32 act" where "readf32 addr = read32 addr"
definition write8 :: "u8 \<Rightarrow> u32 \<Rightarrow> unit act" where "write8 var addr = on_cpu_unit (HostWrite_U8 var addr)"
definition write16 :: "u16 \<Rightarrow> u32 \<Rightarrow> unit act" where "write16 var addr = on_cpu_unit (HostWrite_U16 var addr)"
definition write32 :: "u32 \<Rightarrow> u32 \<Rightarrow> unit act" where "write32 var addr = on_cpu_unit (HostWrite_U32 var addr)"
definition write64 :: "u64 \<Rightarrow> u32 \<Rightarrow> unit act" where "write64 var addr = on_cpu_unit (HostWrite_U64 var addr)"
definition writef32 :: "u32 \<Rightarrow> u32 \<Rightarrow> unit act" where "writef32 var addr = on_cpu_unit (HostWrite_F32 var addr)"

text \<open>
  \<open>ScheduleInvalidateCacheThreadSafe\<close> schedules the event that invalidates the line, or invalidates it
  at once when the processor is stopped.
\<close>

definition ScheduleInvalidateCacheThreadSafe :: "u32 \<Rightarrow> unit act" where
  "ScheduleInvalidateCacheThreadSafe address =
     change (\<lambda>s. if cpu_running (config s)
       then s\<lparr>cpu := ScheduleEvent 0 (invalidate_event (config s)) (ucast address) False (cpu s)\<rparr>
       else s\<lparr>cpu := icache_Invalidate address (cpu s)\<rparr>)"

definition write_invalidate :: "u32 \<Rightarrow> u32 \<Rightarrow> unit act" where
  "write_invalidate address value =
     andthen (write32 value address) (\<lambda>_. ScheduleInvalidateCacheThreadSafe address)"

definition mem_check :: "u32 \<Rightarrow> bool" where
  "mem_check address \<longleftrightarrow> address \<ge> 0x80000000 \<and> address < 0x81800000"

section \<open>Generated instructions\<close>

definition kBranchOffsetMask :: u32 where "kBranchOffsetMask = 0x3fffffc"

definition gen_branch :: "u32 \<Rightarrow> u32 \<Rightarrow> u32" where
  "gen_branch src dst = 0x48000000 OR ((dst - src) AND kBranchOffsetMask)"

definition gen_branch_link :: "u32 \<Rightarrow> u32 \<Rightarrow> u32" where
  "gen_branch_link src dst = gen_branch src dst OR 1"

definition gen_lis :: "u32 \<Rightarrow> u16 \<Rightarrow> u32" where
  "gen_lis dst_gpr val = push_bit 26 0b001111 OR push_bit 21 dst_gpr OR push_bit 16 0 OR ucast val"

definition gen_ori :: "u32 \<Rightarrow> u32 \<Rightarrow> u16 \<Rightarrow> u32" where
  "gen_ori dst_gpr src_gpr val =
     push_bit 26 0b011000 OR push_bit 21 dst_gpr OR push_bit 16 src_gpr OR ucast val"

definition get_branch_offset :: "u32 \<Rightarrow> u32" where
  "get_branch_offset instr =
     (let offset_masked = instr AND kBranchOffsetMask
      in if offset_masked AND 0x2000000 \<noteq> 0 then offset_masked OR 0xfc000000 else offset_masked)"

definition gen_vmcall :: "u32 \<Rightarrow> u32 \<Rightarrow> u32" where
  "gen_vmcall call_idx param =
     push_bit 26 0b010011 OR push_bit 16 (call_idx AND 0x3ff) OR push_bit 11 (param AND 0x1f)
       OR push_bit 1 0b0000110011 OR 0"

section \<open>Host functions\<close>

fun free_entry :: "vm_call list \<Rightarrow> nat option" where
  "free_entry [] = None"
| "free_entry (f # fs) = (if f = vmcall_noop then Some 0 else map_option Suc (free_entry fs))"

text \<open>The index, or -1 when the table is full.\<close>

definition RegisterVmcall :: "vm_call \<Rightarrow> int act" where
  "RegisterVmcall pfn s =
     (case free_entry (vmcall_table s) of
        Some i \<Rightarrow> Inr (int i, s\<lparr>vmcall_table := (vmcall_table s)[i := pfn]\<rparr>)
      | None \<Rightarrow> Inr (- 1, s))"

section \<open>Beams and visors\<close>

definition set_beam_owned :: "nat \<Rightarrow> bool \<Rightarrow> prime \<Rightarrow> prime" where
  "set_beam_owned index owned s = s\<lparr>beam_owned := (beam_owned s)(index := owned)\<rparr>"

definition set_visor_owned :: "nat \<Rightarrow> bool \<Rightarrow> prime \<Rightarrow> prime" where
  "set_visor_owned index owned s = s\<lparr>visor_owned := (visor_owned s)(index := owned)\<rparr>"

text \<open>The loop over the four slots that stops at one that is owned.\<close>

fun scroll :: "nat \<Rightarrow> nat \<Rightarrow> (nat \<Rightarrow> bool) \<Rightarrow> nat \<Rightarrow> nat" where
  "scroll 0 k owned c = c"
| "scroll (Suc n) k owned c = (let c = (c + k) mod 4 in if owned c then c else scroll n k owned c)"

definition scroll_visor :: "nat \<Rightarrow> prime \<Rightarrow> prime" where
  "scroll_visor k s = s\<lparr>current_visor := scroll 4 k (visor_owned s) (current_visor s)\<rparr>"

definition scroll_beam :: "nat \<Rightarrow> prime \<Rightarrow> prime" where
  "scroll_beam k s = s\<lparr>current_beam := scroll 4 k (beam_owned s) (current_beam s)\<rparr>"

definition get_visor_switch :: "(int \<times> int) list \<Rightarrow> bool \<Rightarrow> prime \<Rightarrow> (int \<times> int) \<times> prime" where
  "get_visor_switch visors combat_visor s =
     (if CheckVisorCtl (config s) 0 \<and> \<not> combat_visor then
        (if \<not> pressing_visor s then (visors ! 0, s\<lparr>pressing_visor := True\<rparr>) else ((- 1, 0), s))
      else if CheckVisorCtl (config s) 1 then
        (if \<not> pressing_visor s then (visors ! 1, s\<lparr>pressing_visor := True\<rparr>) else ((- 1, 0), s))
      else if CheckVisorCtl (config s) 2 then
        (if \<not> pressing_visor s then (visors ! 2, s\<lparr>pressing_visor := True\<rparr>) else ((- 1, 0), s))
      else if CheckVisorCtl (config s) 3 then
        (if \<not> pressing_visor s then (visors ! 3, s\<lparr>pressing_visor := True\<rparr>) else ((- 1, 0), s))
      else if CheckVisorScrollCtl (config s) True then
        (if \<not> pressing_visor s
         then (let s = scroll_visor 1 (s\<lparr>pressing_visor := True\<rparr>) in (visors ! current_visor s, s))
         else ((- 1, 0), s))
      else if CheckVisorScrollCtl (config s) False then
        (if \<not> pressing_visor s
         then (let s = scroll_visor 3 (s\<lparr>pressing_visor := True\<rparr>) in (visors ! current_visor s, s))
         else ((- 1, 0), s))
      else ((- 1, 0), s\<lparr>pressing_visor := False\<rparr>))"

text \<open>The branch of the button of slot \<open>i\<close>.\<close>

definition press_beam :: "nat \<Rightarrow> nat list \<Rightarrow> prime \<Rightarrow> int \<times> prime" where
  "press_beam i beams s =
     (if \<not> pressing_beam s
      then (let s = s\<lparr>pressing_beam := True\<rparr>
            in if beam_owned s (beams ! i) then (int (beams ! i), s\<lparr>current_beam := beams ! i\<rparr>) else (- 1, s))
      else (- 1, s))"

definition get_beam_switch :: "nat list \<Rightarrow> prime \<Rightarrow> int \<times> prime" where
  "get_beam_switch beams s =
     (if CheckBeamCtl (config s) 0 then press_beam 0 beams s
      else if CheckBeamCtl (config s) 1 then press_beam 1 beams s
      else if CheckBeamCtl (config s) 2 then press_beam 2 beams s
      else if CheckBeamCtl (config s) 3 then press_beam 3 beams s
      else if CheckBeamScrollCtl (config s) True then
        (if \<not> pressing_beam s
         then (let s = scroll_beam 1 (s\<lparr>pressing_beam := True\<rparr>) in (int (beams ! current_beam s), s))
         else (- 1, s))
      else if CheckBeamScrollCtl (config s) False then
        (if \<not> pressing_beam s
         then (let s = scroll_beam 3 (s\<lparr>pressing_beam := True\<rparr>) in (int (beams ! current_beam s), s))
         else (- 1, s))
      else (- 1, s\<lparr>pressing_beam := False\<rparr>))"

section \<open>Shared variables\<close>

text \<open>
  \<open>EmuVariableManager.cpp\<close>: named words in the memory of the game that the hack shares with the code it
  patches in.  The \<open>std::map\<close> of names is a list without repeated names, in the order of registration;
  only lookups and its size are used.  The assertion on a nonempty string never fails.
\<close>

definition base_address :: u32 where "base_address = 0x80004164"
definition max_variables :: nat where "max_variables = 50"

definition set_variable_u8 :: "string \<Rightarrow> u8 \<Rightarrow> unit act" where
  "set_variable_u8 variable value s =
     (case map_of (variables_list s) variable of None \<Rightarrow> Inr ((), s) | Some a \<Rightarrow> write8 value a s)"

definition set_variable_u32 :: "string \<Rightarrow> u32 \<Rightarrow> unit act" where
  "set_variable_u32 variable value s =
     (case map_of (variables_list s) variable of None \<Rightarrow> Inr ((), s) | Some a \<Rightarrow> write32 value a s)"

definition set_variable_float :: "string \<Rightarrow> u32 \<Rightarrow> unit act" where
  "set_variable_float variable value s =
     (case map_of (variables_list s) variable of None \<Rightarrow> Inr ((), s) | Some a \<Rightarrow> writef32 value a s)"

definition get_uint :: "string \<Rightarrow> u32 act" where
  "get_uint variable s =
     (case map_of (variables_list s) variable of None \<Rightarrow> Inr (0, s) | Some a \<Rightarrow> read32 a s)"

definition get_float :: "string \<Rightarrow> u32 act" where
  "get_float variable s =
     (case map_of (variables_list s) variable of None \<Rightarrow> Inr (0, s) | Some a \<Rightarrow> readf32 a s)"

definition get_address :: "string \<Rightarrow> prime \<Rightarrow> u32" where
  "get_address variable s =
     (case map_of (variables_list s) variable of None \<Rightarrow> 0 | Some a \<Rightarrow> a)"

definition register_variable :: "string \<Rightarrow> prime \<Rightarrow> prime" where
  "register_variable name s =
     (if length (variables_list s) > max_variables then s
      else if map_of (variables_list s) name \<noteq> None then s
      else s\<lparr>variables_list := variables_list s
             @ [(name, base_address + of_nat (length (variables_list s)) * 4)]\<rparr>)"

definition make_lis_ori :: "u32 \<Rightarrow> string \<Rightarrow> prime \<Rightarrow> u32 \<times> u32" where
  "make_lis_ori gpr_num name s =
     (let address = get_address name s;
          lis = push_bit 26 0b001111 OR push_bit 21 gpr_num OR push_bit 16 0 OR (drop_bit 16 address AND 0xffff);
          ori = push_bit 26 0b011000 OR push_bit 21 gpr_num OR push_bit 16 gpr_num OR (address AND 0xffff)
      in (lis, ori))"

definition reset_variables :: "prime \<Rightarrow> prime" where
  "reset_variables s = s\<lparr>variables_list := []\<rparr>"

end
