(* ===== verification/Prime_AddressDB.thy ===== *)
theory Prime_AddressDB
  imports Prime_Utils
begin

text \<open>
  The address data base of \<open>AddressDB.cpp\<close>: the addresses of the variables of a game, static ones by
  region, dynamic ones by a chain of offsets from another variable.  \<open>lookup_dynamic_address\<close> remembers
  in \<open>source_var_dynamic\<close> that the source of a variable is dynamic itself; its recursion is not bounded by
  the code, so it is a partial function, and \<open>Endless\<close> stands for a lookup that does not return.
\<close>

definition AddressDB_games :: "Game list" where
  "AddressDB_games = [PRIME_1, PRIME_2, PRIME_3, PRIME_1_GCN, PRIME_2_GCN, PRIME_3_STANDALONE]"

definition AddressDB_new :: AddressDB where
  "AddressDB_new = \<lparr>addr_mapping = (\<lambda>g. if g \<in> set AddressDB_games then Some Map.empty else None),
     dyn_addr_mapping = (\<lambda>g. if g \<in> set AddressDB_games then Some Map.empty else None)\<rparr>"

definition register_address :: "Game \<Rightarrow> string \<Rightarrow> u32 \<Rightarrow> u32 \<Rightarrow> u32 \<Rightarrow> AddressDB \<Rightarrow> AddressDB" where
  "register_address game name addr_ntsc_u addr_pal addr_ntsc_j db =
     (case addr_mapping db game of
        None \<Rightarrow> db
      | Some vars \<Rightarrow> db\<lparr>addr_mapping := (addr_mapping db)(game \<mapsto>
          vars(name \<mapsto> (addr_ntsc_u, addr_pal, addr_ntsc_j)))\<rparr>)"

text \<open>A name that is registered already keeps its offsets.\<close>

definition register_dynamic_address ::
  "Game \<Rightarrow> string \<Rightarrow> string \<Rightarrow> region_triple list \<Rightarrow> AddressDB \<Rightarrow> AddressDB" where
  "register_dynamic_address game name source offsets db =
     (case dyn_addr_mapping db game of
        None \<Rightarrow> db
      | Some vars \<Rightarrow>
          if vars name = None then db\<lparr>dyn_addr_mapping := (dyn_addr_mapping db)(game \<mapsto>
            vars(name \<mapsto> \<lparr>source_var = source, source_var_dynamic = False, offset_list = offsets\<rparr>))\<rparr>
          else db)"

text \<open>The \<open>switch\<close> over the region; the default returns 0 from the caller.\<close>

definition of_region :: "Region \<Rightarrow> region_triple \<Rightarrow> u32 option" where
  "of_region region t =
     (case t of (u, p, j) \<Rightarrow>
        (case region of NTSC_U \<Rightarrow> Some u | PAL \<Rightarrow> Some p | NTSC_J \<Rightarrow> Some j | INVALID_REGION \<Rightarrow> None))"

definition AddressDB_lookup_address :: "Game \<Rightarrow> Region \<Rightarrow> string \<Rightarrow> AddressDB \<Rightarrow> u32" where
  "AddressDB_lookup_address game region name db =
     (case addr_mapping db game of
        None \<Rightarrow> 0
      | Some vars \<Rightarrow>
          (case vars name of
             None \<Rightarrow> 0
           | Some t \<Rightarrow> (case of_region region t of None \<Rightarrow> 0 | Some a \<Rightarrow> a)))"

text \<open>
  The walk along the offsets: all but the last are followed by a read.  The bound \<open>size() - 1\<close> of the
  loop wraps when there are no offsets, and the first index is out of range.
\<close>

fun walk :: "Region \<Rightarrow> region_triple list \<Rightarrow> u32 \<Rightarrow> u32 act" where
  "walk region [] a = (\<lambda>s. if region = INVALID_REGION then Inr (0, s) else Inl OutOfRange)"
| "walk region [t] a =
     (case of_region region t of None \<Rightarrow> done_with 0 | Some offset \<Rightarrow> done_with (a + offset))"
| "walk region (t # u # ts) a =
     (case of_region region t of
        None \<Rightarrow> done_with 0
      | Some offset \<Rightarrow> andthen (read32 (a + offset))
          (\<lambda>a. if \<not> mem_check a then done_with 0 else walk region (u # ts) a))"

definition source_is_dynamic :: "Game \<Rightarrow> string \<Rightarrow> prime \<Rightarrow> prime" where
  "source_is_dynamic game name s =
     s\<lparr>addr_db := (addr_db s)\<lparr>dyn_addr_mapping := (dyn_addr_mapping (addr_db s))(game :=
        map_option (\<lambda>vars. vars(name := map_option (\<lambda>v. v\<lparr>source_var_dynamic := True\<rparr>) (vars name)))
          (dyn_addr_mapping (addr_db s) game))\<rparr>\<rparr>"

partial_function (option) lookup_dynamic ::
  "Game \<Rightarrow> Region \<Rightarrow> string \<Rightarrow> prime \<Rightarrow> (prime_fault + u32 \<times> prime) option" where
  "lookup_dynamic game region name s =
     (case dyn_addr_mapping (addr_db s) game of
        None \<Rightarrow> Some (Inr (0, s))
      | Some vars \<Rightarrow>
          (case vars name of
             None \<Rightarrow> Some (Inr (0, s))
           | Some v \<Rightarrow>
               if source_var_dynamic v then
                 Option.bind (lookup_dynamic game region (source_var v) s)
                   (\<lambda>r. Some (andthen (\<lambda>_. r)
                      (\<lambda>a. if a = 0 then done_with 0 else walk region (offset_list v) a) s))
               else if AddressDB_lookup_address game region (source_var v) (addr_db s) \<noteq> 0 then
                 Some (walk region (offset_list v)
                   (AddressDB_lookup_address game region (source_var v) (addr_db s)) s)
               else
                 Option.bind (lookup_dynamic game region (source_var v) s)
                   (\<lambda>r. Some (andthen (\<lambda>_. r)
                      (\<lambda>a. if a = 0 then done_with 0
                           else andthen (change (source_is_dynamic game name))
                             (\<lambda>_. walk region (offset_list v) a)) s))))"

definition AddressDB_lookup_dynamic_address :: "Game \<Rightarrow> Region \<Rightarrow> string \<Rightarrow> u32 act" where
  "AddressDB_lookup_dynamic_address game region name s =
     (case lookup_dynamic game region name s of None \<Rightarrow> Inl Endless | Some r \<Rightarrow> r)"

section \<open>The lookups of the mods\<close>

text \<open>\<open>PrimeMod::lookup_address\<close> and \<open>PrimeMod::lookup_dynamic_address\<close>, in the game that runs.\<close>

definition lookup_address :: "string \<Rightarrow> u32 act" where
  "lookup_address name = asks (\<lambda>s. AddressDB_lookup_address (active_game s) (active_region s) name (addr_db s))"

definition lookup_dynamic_address :: "string \<Rightarrow> u32 act" where
  "lookup_dynamic_address name s =
     AddressDB_lookup_dynamic_address (active_game s) (active_region s) name s"

section \<open>The contents\<close>

text \<open>The calls of \<open>init_db\<close>, in their order.\<close>

datatype db_call = Static Game string u32 u32 u32 | Dynamic Game string string "region_triple list"

fun make_call :: "db_call \<Rightarrow> AddressDB \<Rightarrow> AddressDB" where
  "make_call (Static g n u p j) db = register_address g n u p j db"
| "make_call (Dynamic g n v os) db = register_dynamic_address g n v os db"

definition rt0 :: region_triple where "rt0 = (0, 0, 0)"
definition mrt1 :: "u32 \<Rightarrow> region_triple" where "mrt1 offset_all = (offset_all, offset_all, offset_all)"

definition init_prime_1 :: "db_call list" where
  "init_prime_1 =
   [Static PRIME_1 ''tweak_gui_colors'' 0x804dd4d8 0x804e1418 0,
    Static PRIME_1 ''tweak_gui'' 0x804dd758 0x804e1698 0,
    Static PRIME_1 ''arm_cannon_matrix'' 0x804c10ec 0x804c502c 0x804c136c,
    Static PRIME_1 ''state_manager'' 0x804bf420 0x804c3360 0x804bf6a0,
    Static PRIME_1 ''static_fov_fp'' 0x805c0e38 0x805c5178 0x80641138,
    Static PRIME_1 ''static_fov_tp'' 0x805c0e3c 0x805c517c 0x8064113c,
    Static PRIME_1 ''gun_pos'' 0x804ddae4 0x804e1a24 0x804d398c,
    Static PRIME_1 ''control_flag'' 0x8052e9b8 0x80532b38 0x805aecb8,
    Static PRIME_1 ''tweakplayer'' 0x804ddff8 0x804e1f38 0x804de278,
    Static PRIME_1 ''beamvisor_menu_base'' 0x805c28b0 0x805c6c34 0x80642b98,
    Static PRIME_1 ''cursor_base'' 0x805c28a8 0x805c6c2c 0x80642b90,
    Static PRIME_1 ''powerups_array_base'' 0x804bfcd4 0x804c3c14 0x804bff54,
    Static PRIME_1 ''powerups_size'' 8 8 8,
    Static PRIME_1 ''powerups_offset'' 0x30 0x30 0x30,
    Static PRIME_1 ''holster_timer_offset'' 0x4 0x4 0x4,
    Dynamic PRIME_1 ''object_list'' ''state_manager'' [mrt1 0x810, rt0],
    Dynamic PRIME_1 ''player'' ''state_manager'' [mrt1 0x84c, rt0],
    Dynamic PRIME_1 ''firstperson_pitch'' ''player'' [mrt1 0x3dc],
    Dynamic PRIME_1 ''angular_momentum'' ''player'' [mrt1 0x118],
    Dynamic PRIME_1 ''angular_vel'' ''player'' [mrt1 0x154],
    Dynamic PRIME_1 ''ball_state'' ''player'' [mrt1 0x2f4],
    Dynamic PRIME_1 ''orbit_state'' ''player'' [mrt1 0x300],
    Dynamic PRIME_1 ''lockon_state'' ''state_manager'' [mrt1 0xc93],
    Dynamic PRIME_1 ''powerups_list'' ''state_manager'' [mrt1 0x8b4, rt0],
    Dynamic PRIME_1 ''camera_manager'' ''state_manager'' [mrt1 0x868, rt0],
    Dynamic PRIME_1 ''cursor'' ''cursor_base'' [rt0, (0xc54, 0xd04, 0xc54), rt0],
    Dynamic PRIME_1 ''beamvisor_menu_state'' ''beamvisor_menu_base'' [rt0, (0x32c, 0x32c, 0x338)],
    Dynamic PRIME_1 ''beamvisor_menu_mode'' ''beamvisor_menu_base'' [rt0, (0x334, 0x334, 0x340)],
    Dynamic PRIME_1 ''powerups_array'' ''powerups_array_base'' [rt0, rt0],
    Dynamic PRIME_1 ''active_visor'' ''powerups_array'' [mrt1 0x1c],
    Dynamic PRIME_1 ''gun_holster_state'' ''player'' [mrt1 0x488]]"

definition init_prime_1_gcn :: "db_call list" where
  "init_prime_1_gcn =
   [Static PRIME_1_GCN ''tweak_gui_colors'' 0x8045b6e0 0x803e360c 0,
    Static PRIME_1_GCN ''tweak_gui'' 0x8045b934 0x803e3860 0,
    Static PRIME_1_GCN ''state_manager'' 0x8045a1a8 0x803e2088 0,
    Static PRIME_1_GCN ''fov_fp_offset'' (- 0x7ff0) (- 0x7fe8) 0,
    Static PRIME_1_GCN ''fov_tp_offset'' (- 0x7fec) (- 0x7fe4) 0,
    Static PRIME_1_GCN ''gun_pos'' 0x8045bce8 0x803e3c14 0,
    Static PRIME_1_GCN ''tweak_player'' 0x8045c208 0x803e4134 0,
    Static PRIME_1_GCN ''crosshair_color'' 0x8045b678 0x803e35a4 0,
    Dynamic PRIME_1_GCN ''world'' ''state_manager'' [mrt1 0x850, rt0],
    Dynamic PRIME_1_GCN ''player'' ''state_manager'' [mrt1 0x84c, rt0],
    Dynamic PRIME_1_GCN ''camera_manager'' ''state_manager'' [mrt1 0x86c, rt0],
    Dynamic PRIME_1_GCN ''object_list'' ''state_manager'' [mrt1 0x810, rt0],
    Dynamic PRIME_1_GCN ''player_xf'' ''player'' [mrt1 0x34],
    Dynamic PRIME_1_GCN ''orbit_state'' ''player'' [(0x304, 0x314, 0)],
    Dynamic PRIME_1_GCN ''angular_vel'' ''player'' [(0x14c, 0x15c, 0)],
    Dynamic PRIME_1_GCN ''firstperson_pitch'' ''player'' [(0x3ec, 0x3fc, 0)],
    Dynamic PRIME_1_GCN ''ball_state'' ''player'' [(0x2f4, 0x304, 0)],
    Dynamic PRIME_1_GCN ''freelook_rotation_speed'' ''tweak_player'' [mrt1 0x280],
    Dynamic PRIME_1_GCN ''air_transitional_friction'' ''tweak_player'' [mrt1 0x180],
    Dynamic PRIME_1_GCN ''powerups_array'' ''state_manager'' [mrt1 0x8b8, rt0, rt0],
    Static PRIME_1_GCN ''powerups_size'' 8 8 8,
    Static PRIME_1_GCN ''powerups_offset'' 0x24 0x24 0x24]"

definition init_prime_2 :: "db_call list" where
  "init_prime_2 =
   [Static PRIME_2 ''state_manager'' 0x804e72e8 0x804ee738 0x804e94a0,
    Static PRIME_2 ''tweakgun'' 0x805cb274 0x805d2cdc 0x805cba54,
    Static PRIME_2 ''world_id_ptr'' 0x805081cc 0x8050f76c 0,
    Static PRIME_2 ''control_flag'' 0x805373f8 0x8053ebf8 0x80537bb8,
    Static PRIME_2 ''beamvisor_menu_base'' 0x805cb314 0x805d2d80 0x805cbaec,
    Static PRIME_2 ''cursor_base'' 0x805cb2c8 0x805d2d30 0x805cbaa0,
    Static PRIME_2 ''tweak_player_offset'' (- 0x6410) (- 0x6368) (- 0x63f8),
    Static PRIME_2 ''powerups_size'' 12 12 12,
    Static PRIME_2 ''powerups_offset'' 0x5c 0x5c 0x5c,
    Static PRIME_2 ''conn_vec_offset'' 0x10 0x10 0x10,
    Static PRIME_2 ''seq_timer_vec_offset'' 0x34 0x34 0x34,
    Static PRIME_2 ''seq_timer_fire_size'' 0x14 0x14 0x14,
    Static PRIME_2 ''seq_timer_time_offset'' 0xc 0xc 0xc,
    Static PRIME_2 ''holster_timer_offset'' (- 0x20) (- 0x20) (- 0x20),
    Dynamic PRIME_2 ''player'' ''state_manager'' [mrt1 0x14f4, rt0],
    Dynamic PRIME_2 ''object_list'' ''state_manager'' [mrt1 0x810, rt0],
    Dynamic PRIME_2 ''camera_manager'' ''state_manager'' [mrt1 0x1514, mrt1 0x10],
    Dynamic PRIME_2 ''load_state'' ''state_manager'' [mrt1 0x153c],
    Dynamic PRIME_2 ''beamvisor_menu_state'' ''beamvisor_menu_base'' [rt0, mrt1 0x340],
    Dynamic PRIME_2 ''beamvisor_menu_mode'' ''beamvisor_menu_base'' [rt0, mrt1 0x34c],
    Dynamic PRIME_2 ''orbit_state'' ''player'' [mrt1 0x390],
    Dynamic PRIME_2 ''lockon_state'' ''state_manager'' [mrt1 0x1667],
    Dynamic PRIME_2 ''cursor'' ''cursor_base'' [rt0, (0xc54, 0xd04, 0xc54), rt0],
    Dynamic PRIME_2 ''angular_momentum'' ''player'' [mrt1 0x178],
    Dynamic PRIME_2 ''firstperson_pitch'' ''player'' [mrt1 0x5f0],
    Dynamic PRIME_2 ''armcannon_matrix'' ''player'' [mrt1 0xea8, mrt1 0x3b0],
    Dynamic PRIME_2 ''ball_state'' ''player'' [mrt1 0x374],
    Dynamic PRIME_2 ''powerups_array'' ''player'' [mrt1 0x12ec, rt0],
    Dynamic PRIME_2 ''active_visor'' ''powerups_array'' [mrt1 0x34],
    Dynamic PRIME_2 ''world_id'' ''world_id_ptr'' [rt0, rt0],
    Dynamic PRIME_2 ''area_id'' ''state_manager'' [mrt1 0x1e44],
    Dynamic PRIME_2 ''area_layers_vector'' ''state_manager'' [mrt1 0x1e38, mrt1 0x8, rt0],
    Dynamic PRIME_2 ''gun_holster_state'' ''player'' [mrt1 0xea8, mrt1 0x3a4]]"

definition init_prime_2_gcn :: "db_call list" where
  "init_prime_2_gcn =
   [Static PRIME_2_GCN ''state_manager'' 0x803db6e0 0x803dc900 0,
    Static PRIME_2_GCN ''tweakgun_offset'' (- 0x6e1c) (- 0x6e14) 0,
    Static PRIME_2_GCN ''tweak_player_offset'' (- 0x6e3c) (- 0x6e34) 0,
    Static PRIME_2_GCN ''tweakgui_offset'' (- 0x6e20) (- 0x6e18) 0,
    Static PRIME_2_GCN ''conn_vec_offset'' 0x14 0x14 0,
    Static PRIME_2_GCN ''seq_timer_vec_offset'' 0x3c 0x3c 0,
    Static PRIME_2_GCN ''seq_timer_fire_size'' 0x18 0x18 0,
    Static PRIME_2_GCN ''seq_timer_time_offset'' 0x10 0x10 0,
    Static PRIME_2_GCN ''state_manager'' 0x803db6e0 0x803dc900 0x803de690,
    Static PRIME_2_GCN ''tweakgun_offset'' (- 0x6e1c) (- 0x6e14) (- 0x6ddc),
    Static PRIME_2_GCN ''tweak_player_offset'' (- 0x6e3c) (- 0x6e34) (- 0x6dfc),
    Static PRIME_2_GCN ''tweakgui_offset'' (- 0x6e20) (- 0x6e18) (- 0x6de0),
    Static PRIME_2_GCN ''conn_vec_offset'' 0x14 0x14 0x14,
    Static PRIME_2_GCN ''seq_timer_vec_offset'' 0x3c 0x3c 0x3c,
    Static PRIME_2_GCN ''seq_timer_fire_size'' 0x18 0x18 0x18,
    Static PRIME_2_GCN ''seq_timer_time_offset'' 0x10 0x10 0x10,
    Dynamic PRIME_2_GCN ''camera_manager'' ''state_manager'' [mrt1 0x151c, mrt1 0x14],
    Dynamic PRIME_2_GCN ''object_list'' ''state_manager'' [mrt1 0x810, rt0],
    Dynamic PRIME_2_GCN ''world'' ''state_manager'' [mrt1 0x1604, rt0],
    Dynamic PRIME_2_GCN ''player'' ''state_manager'' [mrt1 0x14fc, rt0],
    Dynamic PRIME_2_GCN ''orbit_state'' ''player'' [mrt1 0x3a4],
    Dynamic PRIME_2_GCN ''firstperson_pitch'' ''player'' [mrt1 0x604],
    Dynamic PRIME_2_GCN ''ball_state'' ''player'' [mrt1 0x38c],
    Dynamic PRIME_2_GCN ''angular_vel'' ''player'' [mrt1 0x1bc],
    Dynamic PRIME_2_GCN ''player_xf'' ''player'' [mrt1 0x24],
    Dynamic PRIME_2_GCN ''world_id'' ''world'' [mrt1 0x8],
    Dynamic PRIME_2_GCN ''area_id'' ''state_manager'' [mrt1 0x16a0],
    Dynamic PRIME_2_GCN ''area_layers_vector'' ''state_manager'' [mrt1 0x1694, mrt1 0xc, rt0]]"

definition init_prime_3 :: "db_call list" where
  "init_prime_3 =
   [Static PRIME_3 ''state_manager'' 0x805c6c68 0x805ca0e8 0,
    Static PRIME_3 ''tweakgun'' 0x8066f87c 0x806730fc 0,
    Static PRIME_3 ''motion_vf'' 0x802e0dac 0x802e0a88 0,
    Static PRIME_3 ''dna_scanner_vftable'' 0x8059b700 0x8059e160 0,
    Static PRIME_3 ''cursor_base'' 0x8066fd08 0x80673588 0,
    Static PRIME_3 ''cursor_dlg_enabled'' 0x805c8d77 0x805cc1d7 0,
    Static PRIME_3 ''boss_info_base'' 0x8066e1ec 0x80671a6c 0,
    Static PRIME_3 ''beamvisor_menu_base'' 0x8066fcfc 0x8067357c 0,
    Static PRIME_3 ''lockon_state'' 0x805c6db7 0x805ca237 0,
    Static PRIME_3 ''gun_lag_toc_offset'' (- 0x5ff0) (- 0x6000) 0,
    Static PRIME_3 ''powerups_size'' 12 12 12,
    Static PRIME_3 ''powerups_offset'' 0x58 0x58 0x58,
    Static PRIME_3 ''bloom_offset'' 0x8058b018 0x8058da58 0,
    Dynamic PRIME_3 ''camera_manager'' ''state_manager'' [mrt1 0x10, mrt1 0xc, mrt1 0x16],
    Dynamic PRIME_3 ''perspective_info'' ''camera_manager'' [mrt1 0x2, mrt1 0x14, rt0],
    Dynamic PRIME_3 ''object_list'' ''state_manager'' [rt0, mrt1 0x1010, rt0],
    Dynamic PRIME_3 ''player'' ''state_manager'' [rt0, mrt1 0x2184, rt0],
    Dynamic PRIME_3 ''cursor'' ''cursor_base'' [rt0, (0xc54, 0xd04, 0xc54), rt0],
    Dynamic PRIME_3 ''powerups_array'' ''player'' [mrt1 0x35a8, rt0],
    Dynamic PRIME_3 ''boss_name'' ''boss_info_base'' [rt0, mrt1 0x6e0, mrt1 0x24, mrt1 0x150, rt0],
    Dynamic PRIME_3 ''boss_status'' ''boss_info_base'' [rt0, mrt1 0x6e0, mrt1 0x24, mrt1 0xb3],
    Dynamic PRIME_3 ''firstperson_pitch'' ''player'' [mrt1 0x784],
    Dynamic PRIME_3 ''active_visor'' ''powerups_array'' [mrt1 0x34],
    Dynamic PRIME_3 ''beamvisor_menu_state'' ''beamvisor_menu_base'' [rt0, mrt1 0x300],
    Dynamic PRIME_3 ''angular_momentum'' ''player'' [mrt1 0x174],
    Dynamic PRIME_3 ''ball_state'' ''player'' [mrt1 0x358],
    Dynamic PRIME_3 ''lockon_type'' ''player'' [mrt1 0x370],
    Dynamic PRIME_3 ''audio_manager'' ''state_manager'' [mrt1 0x250, rt0],
    Dynamic PRIME_3 ''audio_fadein_time'' ''audio_manager'' [mrt1 0x308],
    Dynamic PRIME_3 ''audio_fade_mode'' ''audio_manager'' [mrt1 0x310]]"

definition init_prime_3_standalone :: "db_call list" where
  "init_prime_3_standalone =
   [Static PRIME_3_STANDALONE ''state_manager'' 0x805c4f98 0x805c7598 0x805caa58,
    Static PRIME_3_STANDALONE ''tweakgun'' 0x8067d78c 0x8067fdb4 0x806835fc,
    Static PRIME_3_STANDALONE ''motion_vf'' 0x802e2508 0x802e3be4 0x802e5ed8,
    Static PRIME_3_STANDALONE ''dna_scanner_vftable'' 0x80599b50 0x8059c140 0x8059f580,
    Static PRIME_3_STANDALONE ''cursor_base'' 0x8067dc18 0x80680240 0x80683a88,
    Static PRIME_3_STANDALONE ''cursor_dlg_enabled'' 0x805c70c7 0x805c96df 0x805ccbd7,
    Static PRIME_3_STANDALONE ''boss_info_base'' 0x8067c0e4 0x8067e70c 0x80681f54,
    Static PRIME_3_STANDALONE ''beamvisor_menu_base'' 0x8067dc0c 0x80680234 0x80683a7c,
    Static PRIME_3_STANDALONE ''lockon_state'' 0x805c50e7 0x805c76e7 0x805caba7,
    Static PRIME_3_STANDALONE ''gun_lag_toc_offset'' (- 0x5fb0) (- 0x5f98) (- 0x5f68),
    Static PRIME_3_STANDALONE ''powerups_size'' 12 12 12,
    Static PRIME_3_STANDALONE ''powerups_offset'' 0x58 0x58 0x58,
    Static PRIME_3_STANDALONE ''bloom_offset'' 0x80589410 0x8058b9d8 0x8058edd8,
    Dynamic PRIME_3_STANDALONE ''camera_manager'' ''state_manager'' [mrt1 0x10, mrt1 0xc, mrt1 0x16],
    Dynamic PRIME_3_STANDALONE ''perspective_info'' ''camera_manager'' [mrt1 0x2, mrt1 0x14, rt0],
    Dynamic PRIME_3_STANDALONE ''object_list'' ''state_manager'' [rt0, mrt1 0x1010, rt0],
    Dynamic PRIME_3_STANDALONE ''player'' ''state_manager'' [rt0, mrt1 0x2184, rt0],
    Dynamic PRIME_3_STANDALONE ''cursor'' ''cursor_base'' [rt0, mrt1 0xc54, rt0],
    Dynamic PRIME_3_STANDALONE ''powerups_array'' ''player'' [(0x35a0, 0x35a0, 0x35a8), rt0],
    Dynamic PRIME_3_STANDALONE ''boss_name'' ''boss_info_base'' [rt0, mrt1 0x6e0, mrt1 0x24, mrt1 0x150, rt0],
    Dynamic PRIME_3_STANDALONE ''boss_status'' ''boss_info_base'' [rt0, mrt1 0x6e0, mrt1 0x24, mrt1 0xb3],
    Dynamic PRIME_3_STANDALONE ''firstperson_pitch'' ''player'' [(0x77c, 0x77c, 0x784)],
    Dynamic PRIME_3_STANDALONE ''beamvisor_menu_state'' ''beamvisor_menu_base'' [rt0, mrt1 0x1708],
    Dynamic PRIME_3_STANDALONE ''active_visor'' ''powerups_array'' [mrt1 0x34],
    Dynamic PRIME_3_STANDALONE ''angular_momentum'' ''player'' [mrt1 0x174],
    Dynamic PRIME_3_STANDALONE ''ball_state'' ''player'' [mrt1 0x358],
    Dynamic PRIME_3_STANDALONE ''lockon_type'' ''player'' [mrt1 0x370],
    Dynamic PRIME_3_STANDALONE ''audio_manager'' ''state_manager'' [mrt1 0x250, rt0],
    Dynamic PRIME_3_STANDALONE ''audio_fadein_time'' ''audio_manager'' [mrt1 0x308],
    Dynamic PRIME_3_STANDALONE ''audio_fade_mode'' ''audio_manager'' [mrt1 0x310]]"

definition init_calls :: "db_call list" where
  "init_calls = init_prime_1 @ init_prime_1_gcn @ init_prime_2 @ init_prime_2_gcn @ init_prime_3 @ init_prime_3_standalone"

definition init_db :: "AddressDB \<Rightarrow> AddressDB" where "init_db db = fold make_call init_calls db"

end
