(* ===== verification/Prime_Mod.thy ===== *)
theory Prime_Mod
  imports Prime_AddressDB
begin

text \<open>
  The base class of the mods, \<open>PrimeMod.cpp\<close>, and their manager, \<open>HackManager.cpp\<close>.  A member function takes the object \<open>m\<close> and gives it
  changed.  The functions the classes override are a parameter here, the record \<open>virtuals\<close>.
\<close>

record virtuals =
  v_run_mod :: "Game \<Rightarrow> Region \<Rightarrow> mod_act"
  v_init_mod :: "Game \<Rightarrow> Region \<Rightarrow> prime_mod \<Rightarrow> (bool \<times> prime_mod) act"
  v_on_state_change :: "ModState \<Rightarrow> mod_act"
  v_on_reset :: "prime_mod \<Rightarrow> prime_mod"

section \<open>Code changes\<close>

text \<open>With a group other than the empty string, the change joins the group, which is enabled again.\<close>

definition add_code_change :: "u32 \<Rightarrow> u32 \<Rightarrow> string \<Rightarrow> prime_mod \<Rightarrow> prime_mod" where
  "add_code_change addr code grp m =
     (let m = (if grp \<noteq> [] then
                 m\<lparr>code_groups := (code_groups m)(grp \<mapsto>
                   ((case code_groups m grp of None \<Rightarrow> [] | Some (idxs, _) \<Rightarrow> idxs) @ [length (code_changes m)],
                    ENABLED))\<rparr>
               else m);
          m = m\<lparr>pending_change_backups := pending_change_backups m @ [addr]\<rparr>;
          m = m\<lparr>code_changes := code_changes m @ [\<lparr>cc_address = addr, cc_var = code\<rparr>]\<rparr>
      in m\<lparr>current_active_changes := current_active_changes m @ [\<lparr>cc_address = addr, cc_var = code\<rparr>]\<rparr>)"

definition set_code_change :: "u32 \<Rightarrow> u32 \<Rightarrow> prime_mod \<Rightarrow> prime_fault + prime_mod" where
  "set_code_change address var m =
     (let i = unat address
      in if i < length (code_changes m) \<and> i < length (current_active_changes m) then
           Inr (m\<lparr>code_changes := (code_changes m)[i := (code_changes m ! i)\<lparr>cc_var := var\<rparr>],
                  current_active_changes :=
                    (current_active_changes m)[i := (current_active_changes m ! i)\<lparr>cc_var := var\<rparr>]\<rparr>)
         else Inl OutOfRange)"

definition clear_code_changes :: "prime_mod \<Rightarrow> prime_mod" where
  "clear_code_changes m = m\<lparr>code_changes := [], current_active_changes := [], pending_change_backups := []\<rparr>"

definition get_changes_to_apply :: "prime_mod \<Rightarrow> CodeChange list" where
  "get_changes_to_apply m =
     (if mod_state m = CODE_DISABLED \<or> mod_state m = DISABLED then original_instructions m
      else current_active_changes m)"

fun any_differs :: "CodeChange list \<Rightarrow> bool act" where
  "any_differs [] = done_with False"
| "any_differs (cc # cs) = andthen (read32 (cc_address cc))
     (\<lambda>v. if v \<noteq> cc_var cc then done_with True else any_differs cs)"

definition should_apply_changes :: "prime_mod \<Rightarrow> bool act" where
  "should_apply_changes m = any_differs (get_changes_to_apply m)"

definition apply_change :: "bool \<Rightarrow> CodeChange \<Rightarrow> unit act" where
  "apply_change invalidate cc =
     andthen (write32 (cc_var cc) (cc_address cc))
       (\<lambda>_. if invalidate then ScheduleInvalidateCacheThreadSafe (cc_address cc) else done_with ())"

definition apply_instruction_changes :: "bool \<Rightarrow> prime_mod \<Rightarrow> unit act" where
  "apply_instruction_changes invalidate m = for_each (apply_change invalidate) (get_changes_to_apply m)"

fun read_originals :: "u32 list \<Rightarrow> CodeChange list act" where
  "read_originals [] = done_with []"
| "read_originals (addr # as) = andthen (readi addr)
     (\<lambda>v. andthen (read_originals as) (\<lambda>cs. done_with (\<lparr>cc_address = addr, cc_var = v\<rparr> # cs)))"

definition update_original_instructions :: mod_act where
  "update_original_instructions m =
     andthen (read_originals (pending_change_backups m))
       (\<lambda>cs. done_with (m\<lparr>original_instructions := original_instructions m @ cs, pending_change_backups := []\<rparr>))"

section \<open>Groups\<close>

text \<open>The loop over the indices of the group; an index that is out of range is undefined in C++.\<close>

fun copy_changes ::
  "nat list \<Rightarrow> CodeChange list \<Rightarrow> CodeChange list \<Rightarrow> prime_fault + CodeChange list" where
  "copy_changes [] from_vec active = Inr active"
| "copy_changes (i # is) from_vec active =
     (if i < length from_vec \<and> i < length active
      then copy_changes is from_vec (active[i := from_vec ! i]) else Inl OutOfRange)"

definition set_code_group_state :: "string \<Rightarrow> ModState \<Rightarrow> prime_mod \<Rightarrow> prime_fault + prime_mod" where
  "set_code_group_state group_name new_state m =
     (case code_groups m group_name of
        None \<Rightarrow> Inr m
      | Some (idxs, st) \<Rightarrow>
          if st = new_state then Inr m
          else (case copy_changes idxs
                       (if new_state = ENABLED then code_changes m else original_instructions m)
                       (current_active_changes m) of
                  Inl e \<Rightarrow> Inl e
                | Inr active \<Rightarrow> Inr (m\<lparr>code_groups := (code_groups m)(group_name \<mapsto> (idxs, new_state)),
                                   current_active_changes := active\<rparr>)))"

section \<open>States\<close>

definition has_saved_instructions :: "prime_mod \<Rightarrow> bool" where
  "has_saved_instructions m \<longleftrightarrow> original_instructions m \<noteq> []"

definition mark_initialized :: "prime_mod \<Rightarrow> prime_mod" where
  "mark_initialized m = m\<lparr>initialized := True\<rparr>"

text \<open>\<open>reset_mod\<close> keeps the groups.\<close>

definition reset_mod :: "(prime_mod \<Rightarrow> prime_mod) \<Rightarrow> prime_mod \<Rightarrow> prime_mod" where
  "reset_mod on_reset m = on_reset (m\<lparr>code_changes := [], original_instructions := [],
     pending_change_backups := [], current_active_changes := [], initialized := False\<rparr>)"

definition set_state :: "(ModState \<Rightarrow> mod_act) \<Rightarrow> ModState \<Rightarrow> mod_act" where
  "set_state on_state_change new_state m = on_state_change (mod_state m) (m\<lparr>mod_state := new_state\<rparr>)"

text \<open>A change of a mod alone, as an action.\<close>

definition lift_mod :: "prime_fault + prime_mod \<Rightarrow> prime_mod act" where
  "lift_mod r s = (case r of Inl e \<Rightarrow> Inl e | Inr m \<Rightarrow> Inr (m, s))"

section \<open>The manager\<close>

text \<open>
  \<open>HackManager.cpp\<close>: the mods by name, in the order of the \<open>std::map\<close>, which game runs, and the frame.
  The virtual functions of the mods are the argument \<open>V\<close>; none of them touches the map of the mods.
\<close>

section \<open>The map of the mods\<close>

text \<open>The order of \<open>std::string\<close>.\<close>

fun string_less :: "string \<Rightarrow> string \<Rightarrow> bool" where
  "string_less xs [] = False"
| "string_less [] (y # ys) = True"
| "string_less (x # xs) (y # ys) = ((of_char x :: nat) < of_char y \<or> x = y \<and> string_less xs ys)"

fun map_insert :: "string \<Rightarrow> 'a \<Rightarrow> (string \<times> 'a) list \<Rightarrow> (string \<times> 'a) list" where
  "map_insert k v [] = [(k, v)]"
| "map_insert k v ((k', v') # kvs) =
     (if k = k' then (k, v) # kvs
      else if string_less k k' then (k, v) # (k', v') # kvs else (k', v') # map_insert k v kvs)"

definition add_mod :: "string \<Rightarrow> prime_mod \<Rightarrow> prime \<Rightarrow> prime" where
  "add_mod name m s = s\<lparr>mods := map_insert name m (mods s)\<rparr>"

definition get_mod :: "string \<Rightarrow> prime \<Rightarrow> prime_mod option" where
  "get_mod name s = map_of (mods s) name"

text \<open>The change of the object under a name, if there is one.\<close>

fun at_name :: "string \<Rightarrow> mod_act \<Rightarrow> (string \<times> prime_mod) list \<Rightarrow> (string \<times> prime_mod) list act" where
  "at_name name f [] = done_with []"
| "at_name name f ((n, m) # ms) =
     (if n = name then andthen (f m) (\<lambda>m. done_with ((n, m) # ms))
      else andthen (at_name name f ms) (\<lambda>ms. done_with ((n, m) # ms)))"

definition with_mod :: "string \<Rightarrow> mod_act \<Rightarrow> unit act" where
  "with_mod name f s =
     andthen (at_name name f (mods s)) (\<lambda>ms. change (\<lambda>s. s\<lparr>mods := ms\<rparr>)) s"

text \<open>The loop over all mods.\<close>

fun all_mods :: "mod_act \<Rightarrow> (string \<times> prime_mod) list \<Rightarrow> (string \<times> prime_mod) list act" where
  "all_mods f [] = done_with []"
| "all_mods f ((n, m) # ms) =
     andthen (f m) (\<lambda>m. andthen (all_mods f ms) (\<lambda>ms. done_with ((n, m) # ms)))"

definition for_mods :: "mod_act \<Rightarrow> unit act" where
  "for_mods f s = andthen (all_mods f (mods s)) (\<lambda>ms. change (\<lambda>s. s\<lparr>mods := ms\<rparr>)) s"

section \<open>Enabling and disabling\<close>

definition disable_mod :: "virtuals \<Rightarrow> string \<Rightarrow> unit act" where
  "disable_mod V name = with_mod name (set_state (v_on_state_change V) DISABLED)"

definition enable_mod :: "virtuals \<Rightarrow> string \<Rightarrow> unit act" where
  "enable_mod V name = with_mod name (set_state (v_on_state_change V) ENABLED)"

definition set_mod_enabled :: "virtuals \<Rightarrow> string \<Rightarrow> bool \<Rightarrow> unit act" where
  "set_mod_enabled V name enabled = (if enabled then enable_mod V name else disable_mod V name)"

definition is_mod_active :: "string \<Rightarrow> prime \<Rightarrow> bool" where
  "is_mod_active name s =
     (case map_of (mods s) name of None \<Rightarrow> False | Some m \<Rightarrow> mod_state m \<noteq> DISABLED)"

definition HackManager_reset_mod :: "virtuals \<Rightarrow> string \<Rightarrow> unit act" where
  "HackManager_reset_mod V name = with_mod name (\<lambda>m. done_with (reset_mod (v_on_reset V) m))"

definition update_mod_states :: "virtuals \<Rightarrow> unit act" where
  "update_mod_states V s =
     (let c = config s;
          cheats =
            (if bEnableCheats c then
               [set_mod_enabled V ''noclip'' (GetNoclip c),
                set_mod_enabled V ''invulnerability'' (GetInvulnerability c),
                set_mod_enabled V ''skip_cutscene'' (GetSkipCutscene c),
                set_mod_enabled V ''restore_dashing'' (GetRestoreDashing c),
                set_mod_enabled V ''friend_vouchers_cheat'' (bPrimeFriendVouchers c),
                set_mod_enabled V ''portal_skip_mp2'' (bPrimePortalSkip c),
                set_mod_enabled V ''disable_hudmemo_popup'' (bDisableHudMemoPopup c)]
             else
               [disable_mod V ''noclip'', disable_mod V ''invulnerability'', disable_mod V ''skip_cutscene'',
                disable_mod V ''restore_dashing'', disable_mod V ''friend_vouchers_cheat'',
                disable_mod V ''portal_skip_mp2'']);
          controls =
            (if \<not> bEnablePrimeHack c then
               [disable_mod V ''fps_controls'', disable_mod V ''springball_button'',
                disable_mod V ''context_sensitive_controls'']
             else
               [enable_mod V ''fps_controls'', enable_mod V ''springball_button'',
                if ImprovedMotionControls c then enable_mod V ''context_sensitive_controls''
                else with_mod ''context_sensitive_controls'' (set_state (v_on_state_change V) CODE_DISABLED)])
      in for_each (\<lambda>f. f)
           ([set_mod_enabled V ''auto_efb'' (UseMPAutoEFB c),
             set_mod_enabled V ''cut_beam_fx_mp1'' (GetEnableSecondaryGunFX c)] @ cheats @ controls) s)"

section \<open>Saving and restoring\<close>

definition save_mod_states :: "prime \<Rightarrow> prime" where
  "save_mod_states s =
     s\<lparr>mod_state_backup := fold (\<lambda>(n, m) b. b(n \<mapsto> mod_state m)) (mods s) (mod_state_backup s)\<rparr>"

fun restore_states :: "virtuals \<Rightarrow> (string \<rightharpoonup> ModState) \<Rightarrow> (string \<times> prime_mod) list
    \<Rightarrow> (string \<times> prime_mod) list act" where
  "restore_states V backup [] = done_with []"
| "restore_states V backup ((n, m) # ms) =
     andthen (case backup n of
                None \<Rightarrow> done_with m
              | Some st \<Rightarrow> if initialized m then set_state (v_on_state_change V) st m else done_with m)
       (\<lambda>m. andthen (restore_states V backup ms) (\<lambda>ms. done_with ((n, m) # ms)))"

definition restore_mod_states :: "virtuals \<Rightarrow> unit act" where
  "restore_mod_states V s =
     andthen (restore_states V (mod_state_backup s) (mods s)) (\<lambda>ms. change (\<lambda>s. s\<lparr>mods := ms\<rparr>)) s"

definition revert_mod :: "virtuals \<Rightarrow> mod_act" where
  "revert_mod V m =
     (if initialized m then
        andthen (set_state (v_on_state_change V) DISABLED m)
          (\<lambda>m. andthen (apply_instruction_changes True m) (\<lambda>_. done_with m))
      else done_with m)"

definition revert_all_code_changes :: "virtuals \<Rightarrow> unit act" where
  "revert_all_code_changes V = for_mods (revert_mod V)"

definition shutdown :: "virtuals \<Rightarrow> unit act" where
  "shutdown V =
     andthen (for_mods (\<lambda>m. done_with (reset_mod (v_on_reset V) m)))
       (\<lambda>_. change (\<lambda>s. s\<lparr>last_game := INVALID_GAME, last_region := INVALID_REGION\<rparr>))"

section \<open>The game that runs\<close>

definition FOURCC :: "char \<Rightarrow> char \<Rightarrow> char \<Rightarrow> char \<Rightarrow> u32" where
  "FOURCC a b c d =
     (push_bit 24 (of_char a) AND 0xff000000) OR (push_bit 16 (of_char b) AND 0x00ff0000)
       OR (push_bit 8 (of_char c) AND 0x0000ff00) OR (of_char d AND 0x000000ff)"

definition detect_disc :: "(Game \<times> Region) act" where
  "detect_disc =
     andthen (read32 0x80000000)
       (\<lambda>region_code.
          andthen (if region_code = FOURCC CHR ''G'' CHR ''M'' CHR ''8'' CHR ''E''
                   then andthen (read8 0x80000007) (\<lambda>v. done_with (v = 0)) else done_with False)
            (\<lambda>gm8e0. done_with
              (if gm8e0 then (PRIME_1_GCN, NTSC_U)
               else if region_code = FOURCC CHR ''G'' CHR ''M'' CHR ''8'' CHR ''P'' then (PRIME_1_GCN, PAL)
               else if region_code = FOURCC CHR ''G'' CHR ''2'' CHR ''M'' CHR ''E'' then (PRIME_2_GCN, NTSC_U)
               else if region_code = FOURCC CHR ''R'' CHR ''M'' CHR ''3'' CHR ''J'' then (PRIME_3_STANDALONE, NTSC_J)
               else if region_code = FOURCC CHR ''G'' CHR ''2'' CHR ''M'' CHR ''J'' then (PRIME_2_GCN, NTSC_J)
               else if region_code = FOURCC CHR ''G'' CHR ''2'' CHR ''M'' CHR ''P'' then (PRIME_2_GCN, PAL)
               else if region_code = FOURCC CHR ''R'' CHR ''M'' CHR ''3'' CHR ''E'' then (PRIME_3_STANDALONE, NTSC_U)
               else if region_code = FOURCC CHR ''R'' CHR ''M'' CHR ''3'' CHR ''P'' then (PRIME_3_STANDALONE, PAL)
               else (INVALID_GAME, INVALID_REGION))))"

definition detect_game :: "(Game \<times> Region) act" where
  "detect_game =
     andthen (readi 0x8046d340)
       (\<lambda>game_sig.
          if game_sig = 0x38000018 then done_with (MENU, NTSC_U)
          else if game_sig = 0x806ddaec then done_with (MENU_PRIME_1, NTSC_J)
          else if game_sig = 0x801e0000 then done_with (MENU_PRIME_2, NTSC_J)
          else if game_sig = 0x7c0000d0 then done_with (MENU, PAL)
          else if game_sig = 0x4e800020 then done_with (PRIME_1, NTSC_U)
          else if game_sig = 0x53687566 then done_with (PRIME_1, NTSC_J)
          else if game_sig = 0x7c962378 then done_with (PRIME_1, PAL)
          else if game_sig = 0x4bff64e1 then done_with (PRIME_2, NTSC_U)
          else if game_sig = 0x936daabc then done_with (PRIME_2, NTSC_J)
          else if game_sig = 0x80830000 then done_with (PRIME_2, PAL)
          else if game_sig = 0x80010070 then
            andthen (read32 0x80576ae8)
              (\<lambda>v. done_with (if v = 0x7d415378 then (PRIME_3, NTSC_U) else (INVALID_GAME, INVALID_REGION)))
          else if game_sig = 0x3a800000 then
            andthen (read32 0x805795a4)
              (\<lambda>v. done_with (if v = 0x7d415378 then (PRIME_3, PAL) else (INVALID_GAME, INVALID_REGION)))
          else detect_disc)"

section \<open>The frame\<close>

text \<open>One mod in the first loop of a frame: it is initialised if need be, and its code is written.\<close>

definition prepare_mod :: "virtuals \<Rightarrow> Game \<Rightarrow> Region \<Rightarrow> mod_act" where
  "prepare_mod V game region m =
     andthen (if \<not> initialized m then
                andthen (v_init_mod V game region m)
                  (\<lambda>(was_init, m). done_with (if was_init then mark_initialized m else m))
              else done_with m)
       (\<lambda>m. andthen (should_apply_changes m)
          (\<lambda>apply. if apply then
                     andthen (update_original_instructions m)
                       (\<lambda>m. andthen (apply_instruction_changes True m) (\<lambda>_. done_with m))
                   else done_with m))"

definition run_mod_if_enabled :: "virtuals \<Rightarrow> Game \<Rightarrow> Region \<Rightarrow> mod_act" where
  "run_mod_if_enabled V game region m =
     (if mod_state m = ENABLED \<or> mod_state m = CODE_DISABLED then v_run_mod V game region m else done_with m)"

text \<open>The mouse deltas that are reset at the end are not part of the state.\<close>

definition run_active_mods :: "virtuals \<Rightarrow> unit act" where
  "run_active_mods V s =
     (if \<not> core_running (config s) then Inr ((), s)
      else
        andthen detect_game
          (\<lambda>(game, region).
             andthen (change (\<lambda>s. s\<lparr>active_game := game, active_region := region\<rparr>))
               (\<lambda>_. andthen (\<lambda>s. if active_game s \<noteq> last_game s \<or> active_region s \<noteq> last_region s then
                                   andthen (for_mods (\<lambda>m. done_with (reset_mod (v_on_reset V) m)))
                                     (\<lambda>_. change reset_variables) s
                                 else Inr ((), s))
                 (\<lambda>_. andthen (update_mod_states V)
                   (\<lambda>_. if game \<noteq> INVALID_GAME \<and> region \<noteq> INVALID_REGION then
                          andthen (for_mods (prepare_mod V game region))
                            (\<lambda>_. andthen (change (\<lambda>s. s\<lparr>last_game := game, last_region := region\<rparr>))
                               (\<lambda>_. for_mods (run_mod_if_enabled V game region)))
                        else done_with ())))) s)"

section \<open>Starting up\<close>

text \<open>The mods of \<open>InitializeHack\<close>, and those it enables.\<close>

definition hack_mods :: "(string \<times> mod_class) list" where
  "hack_mods =
   [(''auto_efb'', AutoEFB), (''cut_beam_fx_mp1'', CutBeamFxMP1), (''bloom_modifier'', DisableBloom),
    (''fps_controls'', FpsControls), (''invulnerability'', Invulnerability), (''noclip'', Noclip),
    (''skip_cutscene'', SkipCutscene), (''restore_dashing'', RestoreDashing),
    (''springball_button'', SpringballButton), (''fov_modifier'', ViewModifier),
    (''elf_mod_loader'', ElfModLoader), (''context_sensitive_controls'', ContextSensitiveControls),
    (''portal_skip_mp2'', PortalSkipMP2), (''friend_vouchers_cheat'', FriendVouchers),
    (''disable_hudmemo_popup'', DisableHudMemoPopup), (''entity_generator'', EntityGenerator),
    (''hud_tweaker'', HudAdjuster), (''infotracker'', InfoTracker), (''dynsettings'', DynSettings)]"

definition InitializeHack :: "virtuals \<Rightarrow> unit act" where
  "InitializeHack V =
     andthen (change (\<lambda>s. s\<lparr>addr_db := init_db (addr_db s)\<rparr>))
       (\<lambda>_. andthen (change (fold (\<lambda>(n, c). add_mod n (new_mod c)) hack_mods))
         (\<lambda>_ s. for_each (enable_mod V)
            ([''fov_modifier'', ''skip_cutscene'', ''bloom_modifier'', ''entity_generator'', ''infotracker'',
              ''hud_tweaker'', ''dynsettings'']
             @ (if \<not> bEnablePrimeHack (config s) then []
                else [''fps_controls'', ''springball_button'', ''context_sensitive_controls'', ''elf_mod_loader'']))
            s))"

end
