(* ===== verification/Prime_Patches.thy ===== *)
theory Prime_Patches
  imports Prime_Mod
begin

text \<open>
  The code the mods write into the game, as lists of patches: the calls of \<open>add_code_change\<close> of a
  function in their order.  Those of \<open>FpsControls.cpp\<close> come first.  The calls that load the address
  of a variable take the state, for the addresses given out so far.
\<close>

section \<open>Patches\<close>

type_synonym patch = "u32 \<times> u32 \<times> string"

definition plain :: "(u32 \<times> u32) list \<Rightarrow> patch list" where
  "plain = map (\<lambda>(addr, code). (addr, code, []))"

definition in_group :: "string \<Rightarrow> (u32 \<times> u32) list \<Rightarrow> patch list" where
  "in_group grp = map (\<lambda>(addr, code). (addr, code, grp))"

definition add_code_changes :: "patch list \<Rightarrow> prime_mod \<Rightarrow> prime_mod" where
  "add_code_changes = fold (\<lambda>(addr, code, grp). add_code_change addr code grp)"

section \<open>\<open>FpsControls\<close>\<close>

definition add_beam_change_code_mp1 :: "prime \<Rightarrow> u32 \<Rightarrow> patch list" where
  "add_beam_change_code_mp1 s start_point =
     (let (bcf_lis, bcf_ori) = make_lis_ori 4 ''beamchange_flag'' s
      in (let (nb_lis, nb_ori) = make_lis_ori 5 ''new_beam'' s
        in in_group ''beam_change'' [(start_point + 0, bcf_lis), (start_point + 4, bcf_ori), (start_point + 8, 0x80640000),
            (start_point + 0x0c, 0x2c030000), (start_point + 0x10, 0x41820058),
            (start_point + 0x14, nb_lis), (start_point + 0x18, nb_ori), (start_point + 0x1c, 0x83450000),
            (start_point + 0x20, 0x7f59d378), (start_point + 0x24, 0x38600000),
            (start_point + 0x28, 0x90640000), (start_point + 0x2c, 0x4800003c)]))"

definition add_beam_change_code_mp2 :: "prime \<Rightarrow> u32 \<Rightarrow> patch list" where
  "add_beam_change_code_mp2 s start_point =
     (let (bcf_lis, bcf_ori) = make_lis_ori 4 ''beamchange_flag'' s
      in (let (nb_lis, nb_ori) = make_lis_ori 5 ''new_beam'' s
        in in_group ''beam_change'' [(start_point + 0, bcf_lis), (start_point + 4, bcf_ori), (start_point + 8, 0x80640000),
            (start_point + 0x0c, 0x2c030000), (start_point + 0x10, 0x4182005c),
            (start_point + 0x14, nb_lis), (start_point + 0x18, nb_ori), (start_point + 0x1c, 0x83e50000),
            (start_point + 0x20, 0x7ffefb78), (start_point + 0x24, 0x38600000),
            (start_point + 0x28, 0x90640000), (start_point + 0x2c, 0x48000040)]))"

definition add_grapple_slide_code_mp3 :: "u32 \<Rightarrow> patch list" where
  "add_grapple_slide_code_mp3 start_point =
     plain [(start_point + 0, 0x60000000), (start_point + 4, 0x60000000), (start_point + 8, 0x60000000),
        (start_point + 0x0c, 0xc0010240), (start_point + 0x10, 0xd01f0048),
        (start_point + 0x14, 0xc0010244), (start_point + 0x18, 0xd01f0058),
        (start_point + 0x1c, 0xc0010248), (start_point + 0x20, 0xd01f0068),
        (start_point + 0x28, 0x389f003c)]"

definition add_grapple_lasso_code_mp3 :: "prime \<Rightarrow> u32 \<Rightarrow> u32 \<Rightarrow> u32 \<Rightarrow> patch list" where
  "add_grapple_lasso_code_mp3 s func1 func2 func3 =
     (let (lis_x, ori_x) = make_lis_ori 11 ''grapple_hand_x'' s
      in (let (lis_y, ori_y) = make_lis_ori 11 ''grapple_hand_y'' s
        in in_group ''grapple_lasso'' [(func1, lis_x), (func1 + 4, ori_x), (func1 + 0xc, 0xc04b0000), (func1 + 8, 0x40800158),
            (func1 + 0x18, 0x40810148), (func1 + 0x54, 0x4800010c)] @
         in_group ''grapple_lasso_animation'' [(func2, lis_x), (func2 + 4, ori_x), (func2 + 8, 0xc00b0000), (func2 + 0xc, lis_y),
            (func2 + 0x10, ori_y), (func2 + 0x14, 0xc04b0000), (func2 + 0x18, 0xd05701c8)] @
         (let (lis, ori) = make_lis_ori 30 ''grapple_lasso_state'' s
          in in_group ''grapple_lasso'' [(func1 + 0x160, lis), (func1 + 0x164, ori), (func1 + 0x168, 0x83de0000)] @
           (let (lis, ori) = make_lis_ori 3 ''trigger_grapple'' s
            in in_group ''grapple_lasso'' [(func3 + 0, lis), (func3 + 4, ori), (func3 + 8, 0x80630000), (func3 + 0xc, 0x4e800020)]))))"

definition add_control_state_hook_mp3 :: "Game \<Rightarrow> u32 \<Rightarrow> Region \<Rightarrow> patch list" where
  "add_control_state_hook_mp3 game start_point region =
     (if region = NTSC_U then (if game = PRIME_3 then plain [(start_point + 0, 0x3c60805c), (start_point + 4, 0x38636c40)]
         else plain [(start_point + 0, 0x3c60805c), (start_point + 4, 0x38634f6c)])
      else if region = NTSC_J then (if game = PRIME_3_STANDALONE then plain [(start_point + 0, 0x3c60805d), (start_point + 4, 0x3863aa30)]
         else [])
      else if region = PAL then (if game = PRIME_3 then plain [(start_point + 0, 0x3c60805d), (start_point + 4, 0x3863a0c0)]
         else plain [(start_point + 0, 0x3c60805c), (start_point + 4, 0x38637570)])
      else []) @
     plain [(start_point + 8, 0x8063002c)] @
     (if game = PRIME_3_STANDALONE \<and> region = NTSC_U then plain [(start_point + 0x0c, 0x60000000)]
      else plain [(start_point + 0x0c, 0x80630004)]) @
     plain [(start_point + 0x10, 0x80632184), (start_point + 0x14, 0x7c03f800),
        (start_point + 0x18, 0x4d820020), (start_point + 0x1c, 0x7fe3fb78),
        (start_point + 0x20, 0x90c30078), (start_point + 0x24, 0x4e800020)]"

definition add_strafe_code_mp1_ntsc :: "patch list" where
  "add_strafe_code_mp1_ntsc =
     plain [(0x805afc00, 0x94210018), (0x805afc04, 0x7c0802a6), (0x805afc08, 0x9001001c),
        (0x805afc0c, 0x80ada118), (0x805afc10, 0x809d02b0), (0x805afc14, 0x2c040002),
        (0x805afc18, 0x38800004), (0x805afc1c, 0x40820008), (0x805afc20, 0x809d02ac),
        (0x805afc24, 0x5484103a), (0x805afc28, 0x7c642a14), (0x805afc2c, 0xc0230044),
        (0x805afc30, 0xc0430004), (0x805afc34, 0xec6206f2), (0x805afc38, 0xc01d00e8),
        (0x805afc3c, 0xec210032), (0x805afc40, 0xec211824), (0x805afc44, 0xc00300a4),
        (0x805afc48, 0xd0010010), (0x805afc4c, 0xec210032), (0x805afc50, 0xc002bda0),
        (0x805afc54, 0xfc1e0040), (0x805afc58, 0xc002bdc8), (0x805afc5c, 0x40810008),
        (0x805afc60, 0xc002bd80), (0x805afc64, 0xec000072), (0x805afc68, 0xc0610010),
        (0x805afc6c, 0xec630828), (0x805afc70, 0xec6307b2), (0x805afc74, 0xec00182a),
        (0x805afc78, 0xd0010018), (0x805afc7c, 0xd0410014), (0x805afc80, 0x38610004),
        (0x805afc84, 0x389d0034), (0x805afc88, 0x38bd0138), (0x805afc8c, 0x4bd62d99),
        (0x805afc90, 0xc0010018), (0x805afc94, 0xc0210004), (0x805afc98, 0xec000828),
        (0x805afc9c, 0xc0210010), (0x805afca0, 0xec000824), (0x805afca4, 0xc022bdc8),
        (0x805afca8, 0xfc000840), (0x805afcac, 0x4080000c), (0x805afcb0, 0xfc000890),
        (0x805afcb4, 0x48000014), (0x805afcb8, 0xc022bd80), (0x805afcbc, 0xfc000840),
        (0x805afcc0, 0x40810008), (0x805afcc4, 0xfc000890), (0x805afcc8, 0xc0210014),
        (0x805afccc, 0xec200072), (0x805afcd0, 0x8001001c), (0x805afcd4, 0x7c0803a6),
        (0x805afcd8, 0x3821ffe8), (0x805afcdc, 0x4e800020), (0x802875c4, 0xc022bda0),
        (0x802875c8, 0xc002be44), (0x802875cc, 0xec3e0828), (0x802875d0, 0xfc200a10),
        (0x802875d4, 0xfc010040), (0x802875d8, 0x4081002c), (0x802875dc, 0x48328625),
        (0x802875e0, 0x4bd93f55), (0x802875e4, 0x7c651b78), (0x802875e8, 0x7fa3eb78),
        (0x802875ec, 0xc002bda0), (0x802875f0, 0xd0210010), (0x802875f4, 0xd0010014),
        (0x802875f8, 0xd0010018), (0x802875fc, 0x38810010), (0x80286fe0, 0x4bfffc71),
        (0x80286c88, 0x4800000c), (0x8028739c, 0x60000000), (0x802873e0, 0x60000000),
        (0x8028707c, 0x60000000), (0x802871bc, 0x60000000), (0x80287288, 0x60000000),
        (0x802872a4, 0xc0228140), (0x802872a8, 0xec1e07b2), (0x802872ac, 0xfc000840),
        (0x802872b0, 0x40810134), (0x802872b4, 0xec1f07f2), (0x802872b8, 0xfc000840),
        (0x802872bc, 0x40810128), (0x802872c0, 0xc01d0138), (0x802872c4, 0xc03d013c),
        (0x802872c8, 0xec000032), (0x802872cc, 0xec21007a), (0x802872d0, 0xfc200834),
        (0x802872d4, 0xec200830), (0x802872d8, 0x3862dfc0), (0x802872dc, 0x5400103a),
        (0x802872e0, 0x7c601a14), (0x802872e4, 0xc0030000), (0x802872e8, 0xfc010040),
        (0x802872ec, 0x408100f8), (0x802872f0, 0xc07d00e8), (0x802872f4, 0xc05d0138),
        (0x802872f8, 0xec420824), (0x802872fc, 0xec4000b2), (0x80287300, 0xd05d0138),
        (0x80287304, 0xec4300b2), (0x80287308, 0xd05d00fc), (0x8028730c, 0xc05d013c),
        (0x80287310, 0xec420824), (0x80287314, 0xec4000b2), (0x80287318, 0xd05d013c),
        (0x8028731c, 0xec4300b2), (0x80287320, 0xd05d0100), (0x80287324, 0x480000c0),
        (0x805afce0, 0x41480000), (0x805afce4, 0x41480000), (0x805afce8, 0x41480000),
        (0x805afcec, 0x41480000), (0x805afcf0, 0x41480000), (0x805afcf4, 0x41480000),
        (0x805afcf8, 0x41480000), (0x805afcfc, 0x41480000)]"

definition add_strafe_code_mp1_pal :: "patch list" where
  "add_strafe_code_mp1_pal =
     plain [(0x80471c00, 0x94210018), (0x80471c04, 0x7c0802a6), (0x80471c08, 0x9001001c),
        (0x80471c0c, 0x80ada190), (0x80471c10, 0x809d02c0), (0x80471c14, 0x2c040002),
        (0x80471c18, 0x38800004), (0x80471c1c, 0x40820008), (0x80471c20, 0x809d02bc),
        (0x80471c24, 0x5484103a), (0x80471c28, 0x7c642a14), (0x80471c2c, 0xc0230044),
        (0x80471c30, 0xc0430004), (0x80471c34, 0xec6206f2), (0x80471c38, 0xc01d00f8),
        (0x80471c3c, 0xec210032), (0x80471c40, 0xec211824), (0x80471c44, 0xc00300a4),
        (0x80471c48, 0xd0010010), (0x80471c4c, 0xec210032), (0x80471c50, 0xc002be80),
        (0x80471c54, 0xfc1e0040), (0x80471c58, 0xc002bea8), (0x80471c5c, 0x40810008),
        (0x80471c60, 0xc002be60), (0x80471c64, 0xec000072), (0x80471c68, 0xc0610010),
        (0x80471c6c, 0xec630828), (0x80471c70, 0xec6307b2), (0x80471c74, 0xec00182a),
        (0x80471c78, 0xd0010018), (0x80471c7c, 0xd0410014), (0x80471c80, 0x38610004),
        (0x80471c84, 0x389d0034), (0x80471c88, 0x38bd0148), (0x80471c8c, 0x4be89b69),
        (0x80471c90, 0xc0010018), (0x80471c94, 0xc0210004), (0x80471c98, 0xec000828),
        (0x80471c9c, 0xc0210010), (0x80471ca0, 0xec000824), (0x80471ca4, 0xc022bea8),
        (0x80471ca8, 0xfc000840), (0x80471cac, 0x4080000c), (0x80471cb0, 0xfc000890),
        (0x80471cb4, 0x48000014), (0x80471cb8, 0xc022be60), (0x80471cbc, 0xfc000840),
        (0x80471cc0, 0x40810008), (0x80471cc4, 0xfc000890), (0x80471cc8, 0xc0210014),
        (0x80471ccc, 0xec200072), (0x80471cd0, 0x8001001c), (0x80471cd4, 0x7c0803a6),
        (0x80471cd8, 0x3821ffe8), (0x80471cdc, 0x4e800020), (0x802749a8, 0xc022be80),
        (0x802749ac, 0xc002bf24), (0x802749b0, 0xec3e0828), (0x802749b4, 0xfc200a10),
        (0x802749b8, 0xfc010040), (0x802749bc, 0x4081002c), (0x802749c0, 0x481fd241),
        (0x802749c4, 0x4bda74e1), (0x802749c8, 0x7c651b78), (0x802749cc, 0x7fa3eb78),
        (0x802749d0, 0xc002be80), (0x802749d4, 0xd0210010), (0x802749d8, 0xd0010014),
        (0x802749dc, 0xd0010018), (0x802749e0, 0x38810010), (0x802743c4, 0x4bfffc71),
        (0x8027406c, 0x4800000c), (0x80274780, 0x60000000), (0x802747c4, 0x60000000),
        (0x80274460, 0x60000000), (0x802745a0, 0x60000000), (0x8027466c, 0x60000000),
        (0x80274688, 0xc0228140), (0x8027468c, 0xec1e07b2), (0x80274690, 0xfc000840),
        (0x80274694, 0x40810134), (0x80274698, 0xec1f07f2), (0x8027469c, 0xfc000840),
        (0x802746a0, 0x40810128), (0x802746a4, 0xc01d0148), (0x802746a8, 0xc03d014c),
        (0x802746ac, 0xec000032), (0x802746b0, 0xec21007a), (0x802746b4, 0xfc200834),
        (0x802746b8, 0xec200830), (0x802746bc, 0x3862de80), (0x802746c0, 0x5400103a),
        (0x802746c4, 0x7c601a14), (0x802746c8, 0xc0030000), (0x802746cc, 0xfc010040),
        (0x802746d0, 0x408100f8), (0x802746d4, 0xc07d00f8), (0x802746d8, 0xc05d0148),
        (0x802746dc, 0xec420824), (0x802746e0, 0xec4000b2), (0x802746e4, 0xd05d0148),
        (0x802746e8, 0xec4300b2), (0x802746ec, 0xd05d010c), (0x802746f0, 0xc05d014c),
        (0x802746f4, 0xec420824), (0x802746f8, 0xec4000b2), (0x802746fc, 0xd05d014c),
        (0x80274700, 0xec4300b2), (0x80274704, 0xd05d0110), (0x80274708, 0x480000c0),
        (0x80471ce0, 0x41480000), (0x80471ce4, 0x41480000), (0x80471ce8, 0x41480000),
        (0x80471cec, 0x41480000), (0x80471cf0, 0x41480000), (0x80471cf4, 0x41480000),
        (0x80471cf8, 0x41480000), (0x80471cfc, 0x41480000)]"

definition FpsControls_patches_menu :: "Game \<Rightarrow> Region \<Rightarrow> patch list" where
  "FpsControls_patches_menu game region =
     (if region = NTSC_J then (if game = MENU_PRIME_1 then plain [(0x80487160, 0x60000000), (0x80487164, 0x60000000), (0x80487098, 0x60000000)]
         else []) @
        (if game = MENU_PRIME_2 then plain [(0x80486fe8, 0x60000000), (0x80486fec, 0x60000000), (0x80486f18, 0x60000000),
              (0x80486f20, 0x60000000)]
         else [])
      else [])"

definition FpsControls_patches_mp1 :: "Region \<Rightarrow> prime \<Rightarrow> patch list" where
  "FpsControls_patches_mp1 region s =
     (if region = NTSC_U then plain [(0x80098ee4, 0xec010072), (0x80099138, 0x60000000), (0x80183a8c, 0x60000000),
           (0x80183a64, 0x60000000), (0x8017661c, 0x60000000), (0x802fb5b4, 0xd23f009c),
           (0x8019fbcc, 0x60000000)] @
        in_group ''beam_menu'' [(0x80075f24, 0x60000000)] @
        in_group ''visor_menu'' [(0x80075f0c, 0x60000000)] @
        add_beam_change_code_mp1 s 0x8018e544 @
        plain [(0x80015164, 0x4800010c)]
      else if region = PAL then plain [(0x80099068, 0xec010072), (0x800992c4, 0x60000000), (0x80183cfc, 0x60000000),
           (0x80183d24, 0x60000000), (0x801768b4, 0x60000000), (0x802fb84c, 0xd23f009c),
           (0x8019fe64, 0x60000000)] @
        in_group ''beam_menu'' [(0x80075f74, 0x60000000)] @
        in_group ''visor_menu'' [(0x80075f8c, 0x60000000)] @
        add_beam_change_code_mp1 s 0x8018e7dc @
        plain [(0x80015164, 0x4800010c)]
      else plain [(0x80099060, 0xec010072), (0x800992b4, 0x60000000), (0x8018460c, 0x60000000),
           (0x801835e4, 0x60000000), (0x80176ff0, 0x60000000), (0x802fb234, 0xd23f009c),
           (0x801a074c, 0x60000000)] @
        in_group ''beam_menu'' [(0x800760a4, 0x60000000)] @
        in_group ''visor_menu'' [(0x8007608c, 0x60000000)] @
        add_beam_change_code_mp1 s 0x8018f0c4)"

definition FpsControls_patches_mp1_gc :: "Region \<Rightarrow> u8 \<Rightarrow> patch list" where
  "FpsControls_patches_mp1_gc region version =
     (if region = NTSC_U then (if version = 0 then plain [(0x8000f63c, 0x48000048), (0x8000e538, 0x60000000), (0x80014820, 0x4e800020),
              (0x8000e73c, 0x60000000), (0x8000f810, 0x48000244), (0x8017a18c, 0x7fa3eb78),
              (0x8017a190, 0x3881006c), (0x8017a194, 0x4bed8cf9)] @
           in_group ''show_crosshair'' [(0x80016ee4, 0x3b000001), (0x80016ee8, 0x8afd09c4), (0x80016eec, 0x53173672),
              (0x80016ef0, 0x9afd09c4), (0x80016ef4, 0x4e800020)] @
           add_strafe_code_mp1_ntsc
         else [])
      else if region = PAL then plain [(0x8000fb4c, 0x48000048), (0x8000ea60, 0x60000000), (0x80015258, 0x4e800020),
           (0x8000ec64, 0x60000000), (0x8000fd20, 0x4800022c), (0x8016fc54, 0x7fa3eb78),
           (0x8016fc58, 0x38810064), (0x8016fc5c, 0x4bee4345)] @
        in_group ''show_crosshair'' [(0x80017878, 0x3b000001), (0x8001787c, 0x8afd09d4), (0x80017880, 0x53173672),
           (0x80017884, 0x9afd09d4), (0x80017888, 0x4e800020)] @
        add_strafe_code_mp1_pal
      else [])"

definition FpsControls_patches_mp2 :: "Region \<Rightarrow> prime \<Rightarrow> patch list" where
  "FpsControls_patches_mp2 region s =
     (if region = NTSC_U then plain [(0x8008ccc8, 0xc0430184), (0x8008cd1c, 0x60000000), (0x80147f70, 0x60000000),
           (0x80147f98, 0x60000000), (0x80135b20, 0x60000000), (0x8008bb48, 0x60000000),
           (0x8008bb18, 0x60000000), (0x803054a0, 0xd23f009c), (0x80169dbc, 0x60000000),
           (0x80143d00, 0x48000050)] @
        in_group ''beam_menu'' [(0x8006fde0, 0x60000000)] @
        in_group ''visor_menu'' [(0x8006fdc4, 0x60000000)] @
        add_beam_change_code_mp2 s 0x8018cc88 @
        plain [(0x80018528, 0x48000144)]
      else if region = PAL then plain [(0x8008e30c, 0xc0430184), (0x8008e360, 0x60000000), (0x801496e4, 0x60000000),
           (0x8014970c, 0x60000000), (0x80137240, 0x60000000), (0x8008d18c, 0x60000000),
           (0x8008d15c, 0x60000000), (0x80307d2c, 0xd23f009c), (0x8016b534, 0x60000000),
           (0x80145474, 0x48000050)] @
        in_group ''beam_menu'' [(0x80071358, 0x60000000)] @
        in_group ''visor_menu'' [(0x8007133c, 0x60000000)] @
        add_beam_change_code_mp2 s 0x8018e41c @
        plain [(0x80018528, 0x48000144)]
      else if region = NTSC_J then plain [(0x8008c944, 0xc0430184), (0x8008c998, 0x60000000), (0x80147578, 0x60000000),
           (0x801475a0, 0x60000000), (0x8013511c, 0x60000000), (0x8008b7c4, 0x60000000),
           (0x8008b794, 0x60000000), (0x80303ec8, 0xd23f009c), (0x80169388, 0x60000000),
           (0x8014331c, 0x48000050)] @
        in_group ''beam_menu'' [(0x8006fbb0, 0x60000000)] @
        in_group ''visor_menu'' [(0x8006fb94, 0x60000000)] @
        add_beam_change_code_mp2 s 0x8018c0d4
      else [])"

definition FpsControls_patches_mp2_gc :: "Region \<Rightarrow> patch list" where
  "FpsControls_patches_mp2_gc region =
     (if region = NTSC_U then plain [(0x801b00b4, 0x48000050), (0x801aef58, 0x60000000), (0x800129c8, 0x4e800020),
           (0x801af160, 0x60000000), (0x801b0248, 0x48000078), (0x801af450, 0x48000a34),
           (0x8018846c, 0xc022a5b0), (0x80188104, 0x4800000c), (0x8011d9c4, 0x389d0054),
           (0x8011d9c8, 0x4bf2d1fd)] @
        in_group ''show_crosshair'' [(0x80015ed8, 0x3aa00001), (0x80015edc, 0x8add1268), (0x80015ee0, 0x52b63672),
           (0x80015ee4, 0x9add1268), (0x80015ee8, 0x4e800020)]
      else if region = NTSC_J then plain [(0x801b1e6c, 0x48000050), (0x801b0d10, 0x60000000), (0x80013414, 0x4e800020),
           (0x801b0f18, 0x60000000), (0x801b2000, 0x48000078), (0x801b1208, 0x48000a34),
           (0x80189f70, 0xc022a5c8), (0x80189c08, 0x4800000c), (0x8011e918, 0x389d0054),
           (0x8011e91c, 0x4bf2cd91)] @
        in_group ''show_crosshair'' [(0x8001695c, 0x3aa00001), (0x80016960, 0x8add1268), (0x80016964, 0x52b63672),
           (0x80016968, 0x9add1268), (0x8001696c, 0x4e800020)] @
        plain [(0x80061fc0, 0xc022d400)]
      else if region = PAL then plain [(0x801b03c0, 0x48000050), (0x801af264, 0x60000000), (0x80012a2c, 0x4e800020),
           (0x801af46c, 0x60000000), (0x801b0554, 0x48000078), (0x801af75c, 0x48000a34),
           (0x80188754, 0xc022d16c), (0x80188754, 0xc022a5a0), (0x801883ec, 0x4800000c),
           (0x8011dbf8, 0x389d0054), (0x8011dbfc, 0x4bf2d145)] @
        in_group ''show_crosshair'' [(0x80015f74, 0x3aa00001), (0x80015f78, 0x8add1268), (0x80015f7c, 0x52b63672),
           (0x80015f80, 0x9add1268), (0x80015f84, 0x4e800020)] @
        plain [(0x800615f8, 0xc022d3c0)]
      else [])"

definition FpsControls_patches_mp3 :: "Region \<Rightarrow> prime \<Rightarrow> patch list" where
  "FpsControls_patches_mp3 region s =
     (if region = NTSC_U then plain [(0x80080ac0, 0xec010072), (0x8014e094, 0x60000000), (0x8014e06c, 0x60000000),
           (0x80134328, 0x60000000), (0x80133970, 0x60000000), (0x8000ab58, 0x4bffad29),
           (0x80080d44, 0x60000000), (0x8007fdc8, 0x480000e4), (0x8017f88c, 0x60000000)] @
        add_grapple_lasso_code_mp3 s 0x800dde64 0x80170cf0 0x80171ad8 @
        add_control_state_hook_mp3 (active_game s) 0x80005880 NTSC_U @
        add_grapple_slide_code_mp3 0x8017f2a0 @
        plain [(0x80016f48, 0x48000120)]
      else if region = PAL then plain [(0x80080ab8, 0xec010072), (0x8014d9e0, 0x60000000), (0x8014d9b8, 0x60000000),
           (0x80133c74, 0x60000000), (0x801332bc, 0x60000000), (0x8000ab58, 0x4bffad29),
           (0x80080d44, 0x60000000), (0x8007fdc8, 0x480000e4), (0x8017f1d8, 0x60000000)] @
        add_grapple_lasso_code_mp3 s 0x800dde44 0x8017063c 0x80171424 @
        add_control_state_hook_mp3 (active_game s) 0x80005880 PAL @
        add_grapple_slide_code_mp3 0x8017ebec @
        plain [(0x80016f48, 0x48000120)]
      else []) @
     in_group ''visor_menu'' [(0x800614d0, 0x60000000)]"

definition FpsControls_patches_mp3_standalone :: "Region \<Rightarrow> prime \<Rightarrow> patch list" where
  "FpsControls_patches_mp3_standalone region s =
     (if region = NTSC_U then plain [(0x80080be8, 0xec010072), (0x801521f0, 0x60000000), (0x801521c8, 0x60000000),
           (0x80139108, 0x60000000), (0x80138750, 0x60000000), (0x8000ae44, 0x4bffaa3d),
           (0x80080e6c, 0x60000000), (0x8007fef0, 0x480000e4), (0x80183288, 0x60000000)] @
        in_group ''visor_menu'' [(0x800617c8, 0x60000000)] @
        add_grapple_lasso_code_mp3 s 0x800df790 0x80174d70 0x80175b54 @
        add_control_state_hook_mp3 (active_game s) 0x80005880 NTSC_U @
        add_grapple_slide_code_mp3 0x80182c9c @
        plain [(0x80017290, 0x48000120)]
      else if region = NTSC_J then plain [(0x80081018, 0xec010072), (0x80153ed4, 0x60000000), (0x80153eac, 0x60000000),
           (0x8013a054, 0x60000000), (0x8013969c, 0x60000000), (0x8000ae44, 0x4bffaa3d),
           (0x8008129c, 0x60000000), (0x80080320, 0x480000e4), (0x80184fd4, 0x60000000)] @
        in_group ''visor_menu'' [(0x80075f0c, 0x80061958)] @
        add_grapple_lasso_code_mp3 s 0x800e003c 0x80176b20 0x80177908 @
        add_control_state_hook_mp3 (active_game s) 0x80005880 NTSC_J @
        add_grapple_slide_code_mp3 0x801849e8 @
        plain [(0x80017258, 0x48000120)]
      else if region = PAL then plain [(0x80080e84, 0xec010072), (0x80152d50, 0x60000000), (0x80152d28, 0x60000000),
           (0x80139860, 0x60000000), (0x80138ea8, 0x60000000), (0x8000ae44, 0x4bffaa3d),
           (0x80081108, 0x60000000), (0x8008018c, 0x480000e4), (0x80183dc8, 0x60000000)] @
        in_group ''visor_menu'' [(0x80061a88, 0x60000000)] @
        add_grapple_lasso_code_mp3 s 0x800dfc4c 0x80175914 0x801766fc @
        add_control_state_hook_mp3 (active_game s) 0x80005880 PAL @
        add_grapple_slide_code_mp3 0x801837dc @
        plain [(0x80017258, 0x48000120)]
      else [])"

text \<open>
  The other mods, in the same way.  \<open>version\<close> is the byte of the disc header at 0x80000007.
\<close>

section \<open>\<open>Noclip\<close>\<close>

definition noclip_code_mp1 :: "u32 \<Rightarrow> u32 \<Rightarrow> u32 \<Rightarrow> patch list" where
  "noclip_code_mp1 cplayer_address start_point return_location =
     (let return_delta = return_location - (start_point + 0x14)
      in (let start_delta = start_point - (return_location - 4)
        in plain [(start_point + 0, 0x3ca00000 OR ((drop_bit 16 cplayer_address) AND 0xffff)),
            (start_point + 4, 0x60a50000 OR (cplayer_address AND 0xffff)), (start_point + 8, 0x7c032800),
            (start_point + 0x0c, 0x4d820020), (start_point + 0x10, 0x800300e8),
            (start_point + 0x14, 0x48000000 OR (return_delta AND 0x3fffffc)),
            (return_location - 4, 0x48000000 OR (start_delta AND 0x3fffffc))]))"

definition noclip_code_mp1_gc :: "u32 \<Rightarrow> u32 \<Rightarrow> u32 \<Rightarrow> patch list" where
  "noclip_code_mp1_gc cplayer_address start_point return_location =
     (let return_delta = return_location - (start_point + 0x14)
      in (let start_delta = start_point - (return_location - 4)
        in plain [(start_point + 0, 0x3ca00000 OR ((drop_bit 16 cplayer_address) AND 0xffff)),
            (start_point + 4, 0x60a50000 OR (cplayer_address AND 0xffff)), (start_point + 8, 0x7c032800),
            (start_point + 0x0c, 0x4d820020), (start_point + 0x10, 0xc0040000),
            (start_point + 0x14, 0x48000000 OR (return_delta AND 0x3fffffc)),
            (return_location - 4, 0x48000000 OR (start_delta AND 0x3fffffc))]))"

definition noclip_code_mp2 :: "u32 \<Rightarrow> u32 \<Rightarrow> u32 \<Rightarrow> patch list" where
  "noclip_code_mp2 cplayer_address start_point return_location =
     (let return_delta = return_location - (start_point + 0x18)
      in (let start_delta = start_point - (return_location - 4)
        in plain [(start_point + 0, 0x3ca00000 OR ((drop_bit 16 cplayer_address) AND 0xffff)),
            (start_point + 4, 0x60a50000 OR (cplayer_address AND 0xffff)), (start_point + 8, 0x80a50000),
            (start_point + 0x0c, 0x7c032800), (start_point + 0x10, 0x4d820020),
            (start_point + 0x14, 0xc0040000),
            (start_point + 0x18, 0x48000000 OR (return_delta AND 0x3fffffc)),
            (return_location - 4, 0x48000000 OR (start_delta AND 0x3fffffc))]))"

definition noclip_code_mp2_gc :: "u32 \<Rightarrow> u32 \<Rightarrow> u32 \<Rightarrow> patch list" where
  "noclip_code_mp2_gc cplayer_address start_point return_location =
     (let return_delta = return_location - (start_point + 0x18)
      in (let start_delta = start_point - (return_location - 4)
        in plain [(start_point + 0, 0x3ca00000 OR ((drop_bit 16 cplayer_address) AND 0xffff)),
            (start_point + 4, 0x60a50000 OR (cplayer_address AND 0xffff)), (start_point + 8, 0x80a50000),
            (start_point + 0x0c, 0x7c032800), (start_point + 0x10, 0x4d820020),
            (start_point + 0x14, 0x9421fff0),
            (start_point + 0x18, 0x48000000 OR (return_delta AND 0x3fffffc)),
            (return_location - 4, 0x48000000 OR (start_delta AND 0x3fffffc))]))"

definition noclip_code_mp3 :: "u32 \<Rightarrow> u32 \<Rightarrow> u32 \<Rightarrow> patch list" where
  "noclip_code_mp3 cplayer_address start_point return_location =
     (let return_delta = return_location - (start_point + 0x1c)
      in (let start_delta = start_point - (return_location - 4)
        in plain [(start_point + 0, 0x3ca00000 OR ((drop_bit 16 cplayer_address) AND 0xffff)),
            (start_point + 4, 0x60a50000 OR (cplayer_address AND 0xffff)), (start_point + 8, 0x80a50028),
            (start_point + 0x0c, 0x80a52184), (start_point + 0x10, 0x7c032800),
            (start_point + 0x14, 0x4d820020), (start_point + 0x18, 0xc0040000),
            (start_point + 0x1c, 0x48000000 OR (return_delta AND 0x3fffffc)),
            (return_location - 4, 0x48000000 OR (start_delta AND 0x3fffffc))]))"

definition Noclip_patches :: "Game \<Rightarrow> Region \<Rightarrow> u8 \<Rightarrow> patch list" where
  "Noclip_patches game region version =
     (case game of
        PRIME_1 \<Rightarrow> (if region = NTSC_U then noclip_code_mp1 0x804d3c20 0x800053a4 0x8000bb80 @
             plain [(0x80196ab4, 0x60000000), (0x80196abc, 0x60000000), (0x80196ac4, 0x60000000),
                (0x80196ad8, 0xd0410084), (0x80196adc, 0xd0210094), (0x80196ae0, 0xd00100a4),
                (0x80196ae4, 0x481b227d)]
           else if region = PAL then noclip_code_mp1 0x804d7b60 0x800053a4 0x8000bb80 @
             plain [(0x80196d4c, 0x60000000), (0x80196d54, 0x60000000), (0x80196d5c, 0x60000000),
                (0x80196d70, 0xd0410084), (0x80196d74, 0xd0210094), (0x80196d78, 0xd00100a4),
                (0x80196d7c, 0x481b1f39)]
           else if region = NTSC_J then noclip_code_mp1 0x804de278 0x800053a4 0x8000bb80 @
             plain [(0x80197634, 0x60000000), (0x8019763c, 0x60000000), (0x80197644, 0x60000000),
                (0x80197658, 0xd0410084), (0x8019765c, 0xd0210094), (0x80197660, 0xd00100a4),
                (0x80197664, 0x481b11c1)]
           else [])
      | PRIME_1_GCN \<Rightarrow> (if region = NTSC_U then (if version = 0 then noclip_code_mp1_gc 0x8046b97c 0x805afd00 0x80052e90 @
                plain [(0x80285128, 0x60000000), (0x80285138, 0x60000000), (0x80285140, 0x60000000),
                   (0x80285168, 0xd0010078), (0x8028516c, 0xd0210088), (0x80285170, 0xd0410098),
                   (0x80285174, 0x4808d9cd)]
              else [])
           else if region = PAL then noclip_code_mp1_gc 0x803f38a4 0x80471d00 0x80053fa4 @
             plain [(0x802724ac, 0x60000000), (0x802724bc, 0x60000000), (0x802724c4, 0x60000000),
                (0x802724ec, 0xd0010078), (0x802724f0, 0xd0210088), (0x802724f4, 0xd0410098),
                (0x802724f8, 0x48089419)]
           else [])
      | PRIME_2 \<Rightarrow> (if region = NTSC_U then noclip_code_mp2 0x804e87dc 0x800053a4 0x8000d694 @
             plain [(0x80160d68, 0x60000000), (0x80160d70, 0x60000000), (0x80160d78, 0x60000000),
                (0x80160d80, 0xd0410084), (0x80160d84, 0xd0210094), (0x80160d88, 0xd00100a4),
                (0x80160d8c, 0x4bead525)]
           else if region = PAL then noclip_code_mp2 0x804efc2c 0x800053a4 0x8000d694 @
             plain [(0x801624e0, 0x60000000), (0x801624e8, 0x60000000), (0x801624f0, 0x60000000),
                (0x801624f8, 0xd0410084), (0x801624fc, 0xd0210094), (0x80162500, 0xd00100a4),
                (0x80162504, 0x4beabdad)]
           else if region = NTSC_J then noclip_code_mp2 0x804e8fcc 0x800053a4 0x8000d694 @
             plain [(0x80160330, 0x60000000), (0x80160338, 0x60000000), (0x80160340, 0x60000000),
                (0x80160348, 0xd0410084), (0x8016034c, 0xd0210094), (0x80160350, 0xd00100a4),
                (0x80160354, 0x4bead525)]
           else [])
      | PRIME_2_GCN \<Rightarrow> (if region = NTSC_U then noclip_code_mp2_gc 0x803dcbdc 0x80420000 0x8004abc8 @
             plain [(0x801865d8, 0x60000000), (0x801865e0, 0x60000000), (0x801865e8, 0x60000000),
                (0x801865f0, 0xd0410098), (0x801865f4, 0xd0210088), (0x801865f8, 0xd0010078),
                (0x801865fc, 0x4bec395d)]
           else if region = NTSC_J then noclip_code_mp2_gc 0x803dfb7c 0x80420000 0x8004b6ac @
             plain [(0x801880d8, 0x60000000), (0x801880e0, 0x60000000), (0x801880e8, 0x60000000),
                (0x801880f0, 0xd0410098), (0x801880f4, 0xd0210088), (0x801880f8, 0xd0010078),
                (0x801880fc, 0x4bec2939)]
           else if region = PAL then noclip_code_mp2_gc 0x803dddfc 0x80420000 0x8004ad44 @
             plain [(0x801868bc, 0x60000000), (0x801868c4, 0x60000000), (0x801868cc, 0x60000000),
                (0x801868d4, 0xd0410098), (0x801868d8, 0xd0210088), (0x801868dc, 0xd0010078),
                (0x801868e0, 0x4bec37e9)]
           else [])
      | PRIME_3 \<Rightarrow> (if region = NTSC_U then noclip_code_mp3 0x805c6c40 0x80004380 0x8000bbfc @
             plain [(0x801784ac, 0x60000000), (0x801784b4, 0x60000000), (0x801784bc, 0x60000000),
                (0x801784c4, 0xd0410084), (0x801784c8, 0xd0210094), (0x801784cc, 0xd00100a4),
                (0x801784d0, 0x4be938a1)]
           else if region = PAL then noclip_code_mp3 0x805ca0c0 0x80004380 0x8000bbfc @
             plain [(0x80177df8, 0x60000000), (0x80177e00, 0x60000000), (0x80177e08, 0x60000000),
                (0x80177e10, 0xd0410084), (0x80177e14, 0xd0210094), (0x80177e18, 0xd00100a4),
                (0x80177e1c, 0x4be93f55)]
           else [])
      | PRIME_3_STANDALONE \<Rightarrow> (if region = NTSC_U then noclip_code_mp3 0x805c4f70 0x80004380 0x8000bee8 @
             plain [(0x8017c054, 0x60000000), (0x8017c05c, 0x60000000), (0x8017c064, 0x60000000),
                (0x8017c06c, 0xd0410084), (0x8017c070, 0xd0210094), (0x8017c074, 0xd00100a4),
                (0x8017c078, 0x4be938a1)]
           else if region = PAL then noclip_code_mp3 0x805c7570 0x80004380 0x8000bee8 @
             plain [(0x8017cb48, 0x60000000), (0x8017cb50, 0x60000000), (0x8017cb58, 0x60000000),
                (0x8017cb60, 0xd0410084), (0x8017cb74, 0xd0210094), (0x8017cb78, 0xd00100a4),
                (0x8017cb7c, 0x4be938a1)]
           else if region = NTSC_J then noclip_code_mp3 0x805caa30 0x80004380 0x8000bee8 @
             plain [(0x8017dd54, 0x60000000), (0x8017dd5c, 0x60000000), (0x8017dd64, 0x60000000),
                (0x8017dd6c, 0xd0410084), (0x8017dd70, 0xd0210094), (0x8017dd74, 0xd00100a4),
                (0x8017dd78, 0x4be938a1)]
           else [])
      | _ \<Rightarrow> [])"

section \<open>The cheats\<close>

definition Invulnerability_patches :: "Game \<Rightarrow> Region \<Rightarrow> u8 \<Rightarrow> patch list" where
  "Invulnerability_patches game region version =
     (case game of
        PRIME_1 \<Rightarrow> (if region = NTSC_U then plain [(0x80186408, 0x3863b6d8), (0x80186414, 0x3863b6d8)]
           else if region = PAL then plain [(0x801866a0, 0x3863f618), (0x801866ac, 0x3863f618)]
           else plain [(0x80186f88, 0x3863b958), (0x80186f94, 0x3863b958)])
      | PRIME_1_GCN \<Rightarrow> (if region = NTSC_U then (if version = 0 then plain [(0x80011d3c, 0x3863d780), (0x80011d48, 0x3863d780)]
              else [])
           else if region = PAL then plain [(0x80012670, 0x3863f820), (0x8001267c, 0x3863f820)]
           else [])
      | PRIME_2 \<Rightarrow> (if region = NTSC_U then plain [(0x8014bacc, 0x4800000c), (0x8014bae4, 0x60000000)]
           else if region = PAL then plain [(0x8014d240, 0x4800000c), (0x8014d258, 0x60000000)]
           else plain [(0x8014b0d4, 0x4800000c), (0x8014b0ec, 0x60000000)])
      | PRIME_2_GCN \<Rightarrow> (if region = NTSC_U then plain [(0x8000ec08, 0x3c60803d), (0x8000ec0c, 0x6063aa28), (0x8000ec10, 0x4e800020)]
           else if region = NTSC_J then plain [(0x8000f624, 0x3c60803d), (0x8000f628, 0x6063d9d8), (0x8000f62c, 0x4e800020)]
           else if region = PAL then plain [(0x8000ec4c, 0x3c60803d), (0x8000ec50, 0x6063bc48), (0x8000ec54, 0x4e800020)]
           else [])
      | _ \<Rightarrow> [])"

definition RestoreDashing_patches :: "Game \<Rightarrow> Region \<Rightarrow> u8 \<Rightarrow> patch list" where
  "RestoreDashing_patches game region version =
     (case game of
        PRIME_1 \<Rightarrow> (if region = NTSC_U then plain [(0x80193334, 0x48000018), (0x80194b60, 0x4800001c), (0x80192cc0, 0x881f037c)]
           else if region = PAL then plain [(0x801935cc, 0x48000018), (0x80194df8, 0x4800001c), (0x80192f58, 0x881f037c)]
           else plain [(0x80193eb4, 0x48000018), (0x801956e0, 0x4800001c), (0x80193840, 0x881f037c)])
      | PRIME_1_GCN \<Rightarrow> (if region = NTSC_U \<and> version = 2 then plain [(0x802888d0, 0x48000018)]
           else if region = PAL then plain [(0x80275328, 0x48000018)]
           else if region = NTSC_J then plain [(0x802770e4, 0x48000018)]
           else [])
      | PRIME_2 \<Rightarrow> (if region = NTSC_U then plain [(0x8015d690, 0x60000000), (0x8015cd1c, 0x881e0574)]
           else if region = NTSC_J then plain [(0x8015cc58, 0x60000000), (0x8015c2e4, 0x881e0574)]
           else if region = PAL then plain [(0x8015ee08, 0x60000000), (0x8015e494, 0x881e0574)]
           else [])
      | PRIME_2_GCN \<Rightarrow> (if region = NTSC_U then plain [(0x8018961c, 0x60000000), (0x80189d6c, 0x881e0588)]
           else if region = NTSC_J then plain [(0x8018b130, 0x60000000), (0x8018b884, 0x881e0588)]
           else if region = PAL then plain [(0x80189914, 0x60000000), (0x8018a068, 0x881e0588)]
           else [])
      | PRIME_3 \<Rightarrow> (if region = NTSC_U then plain [(0x80174c60, 0x60000000), (0x8017432c, 0x881e06d0)]
           else if region = PAL then plain [(0x801745ac, 0x60000000), (0x80173c78, 0x881e06d0)]
           else [])
      | PRIME_3_STANDALONE \<Rightarrow> (if region = NTSC_U then plain [(0x80178d90, 0x60000000), (0x8017845c, 0x881e06cc)]
           else if region = NTSC_J then plain [(0x8017aa90, 0x60000000), (0x8017a15c, 0x881e06d0)]
           else if region = PAL then plain [(0x80179884, 0x60000000), (0x80178f50, 0x881e06d0)]
           else [])
      | _ \<Rightarrow> [])"

definition add_return_one :: "u32 \<Rightarrow> patch list" where
  "add_return_one start_point =
     plain [(start_point + 0, 0x38600001), (start_point + 4, 0x4e800020)]"

definition SkipCutscene_patches :: "Game \<Rightarrow> Region \<Rightarrow> u8 \<Rightarrow> patch list" where
  "SkipCutscene_patches game region version =
     (case game of
        PRIME_1 \<Rightarrow> (if region = NTSC_U then add_return_one 0x800cf054
           else if region = PAL then add_return_one 0x800cf174
           else if region = NTSC_J then add_return_one 0x800cf3e4
           else [])
      | PRIME_1_GCN \<Rightarrow> (if region = NTSC_U then (if version = 0 then add_return_one 0x801d5528
              else if version = 2 then add_return_one 0x8015204c
              else [])
           else if region = PAL then add_return_one 0x801c6640
           else [])
      | PRIME_2 \<Rightarrow> (if region = NTSC_U then add_return_one 0x800bc4d0
           else if region = PAL then add_return_one 0x800bdb9c
           else if region = NTSC_J then add_return_one 0x800bbb68
           else [])
      | PRIME_2_GCN \<Rightarrow> (if region = NTSC_U then add_return_one 0x80142340
           else if region = NTSC_J then add_return_one 0x80143330
           else if region = PAL then add_return_one 0x8014257c
           else [])
      | PRIME_3 \<Rightarrow> (if region = NTSC_U then add_return_one 0x800b9f30
           else if region = PAL then add_return_one 0x800b9f30
           else [])
      | PRIME_3_STANDALONE \<Rightarrow> (if region = NTSC_U then add_return_one 0x800bb930
           else if region = PAL then add_return_one 0x800bbd24
           else if region = NTSC_J then add_return_one 0x800bc10c
           else [])
      | _ \<Rightarrow> [])"

section \<open>Graphics\<close>

definition DisableBloom_patches :: "Game \<Rightarrow> Region \<Rightarrow> patch list" where
  "DisableBloom_patches game region =
     (case game of
        PRIME_1 \<Rightarrow> (if region = NTSC_U then in_group ''bloom_disable'' [(0x80290edc, 0x4e800020)]
           else if region = PAL then in_group ''bloom_disable'' [(0x80291258, 0x4e800020)]
           else in_group ''bloom_disable'' [(0x802919bc, 0x4e800020)])
      | PRIME_2 \<Rightarrow> (if region = NTSC_U then in_group ''bloom_disable'' [(0x80292204, 0x4e800020)]
           else if region = PAL then in_group ''bloom_disable'' [(0x80294a40, 0x4e800020)]
           else in_group ''bloom_disable'' [(0x8029137c, 0x4e800020)])
      | PRIME_3 \<Rightarrow> (if region = NTSC_U then in_group ''bloom_disable'' [(0x804852cc, 0x4e800020)]
           else if region = PAL then in_group ''bloom_disable'' [(0x804849e8, 0x4e800020)]
           else [])
      | PRIME_3_STANDALONE \<Rightarrow> (if region = NTSC_U then in_group ''bloom_disable'' [(0x80486880, 0x4e800020)]
           else if region = PAL then in_group ''bloom_disable'' [(0x804885a4, 0x4e800020)]
           else in_group ''bloom_disable'' [(0x8048b34c, 0x4e800020)])
      | _ \<Rightarrow> [])"

definition ViewModifier_patches_mp1 :: "Region \<Rightarrow> patch list" where
  "ViewModifier_patches_mp1 region =
     (if region = NTSC_U then in_group ''culling'' [(0x802c7dbc, 0x38600001), (0x802c7dbc + 4, 0x4e800020)]
      else if region = PAL then in_group ''culling'' [(0x802c8024, 0x38600001), (0x802c8024 + 4, 0x4e800020)]
      else if region = NTSC_J then in_group ''culling'' [(0x802c7a3c, 0x38600001), (0x802c7a3c + 4, 0x4e800020)]
      else [])"

definition ViewModifier_patches_mp1_gc :: "Region \<Rightarrow> u8 \<Rightarrow> patch list" where
  "ViewModifier_patches_mp1_gc region version =
     (if region = NTSC_U then (if version = 0 then in_group ''culling'' [(0x80337a24, 0x38600001), (0x80337a24 + 4, 0x4e800020)]
         else [])
      else if region = PAL then in_group ''culling'' [(0x80320424, 0x38600001), (0x80320424 + 4, 0x4e800020)]
      else [])"

definition ViewModifier_patches_mp2 :: "Region \<Rightarrow> patch list" where
  "ViewModifier_patches_mp2 region =
     (if region = NTSC_U then in_group ''culling'' [(0x802c8114, 0x38600001), (0x802c8114 + 4, 0x4e800020)]
      else if region = NTSC_J then in_group ''culling'' [(0x802c6a28, 0x38600001), (0x802c6a28 + 4, 0x4e800020)]
      else if region = PAL then in_group ''culling'' [(0x802ca730, 0x38600001), (0x802ca730 + 4, 0x4e800020)]
      else [])"

definition ViewModifier_patches_mp2_gc :: "Region \<Rightarrow> patch list" where
  "ViewModifier_patches_mp2_gc region =
     (if region = NTSC_U then plain [(0x801b0b38, 0x60000000)] @
        in_group ''culling'' [(0x802f84c0, 0x38600001), (0x802f84c0 + 4, 0x4e800020)]
      else if region = NTSC_J then plain [(0x801b28f0, 0x60000000)] @
        in_group ''culling'' [(0x802faa28, 0x38600001), (0x802faa28 + 4, 0x4e800020)]
      else if region = PAL then plain [(0x801b0e44, 0x60000000)] @
        in_group ''culling'' [(0x802f8818, 0x38600001), (0x802f8818 + 4, 0x4e800020)]
      else [])"

definition ViewModifier_patches_mp3 :: "Region \<Rightarrow> patch list" where
  "ViewModifier_patches_mp3 region =
     (if region = NTSC_U then plain [(0x8007f3dc, 0x60000000), (0x8009d058, 0x60000000)] @
        in_group ''culling'' [(0x8031490c, 0x38600001), (0x8031490c + 4, 0x4e800020)]
      else if region = PAL then plain [(0x8007f3dc, 0x60000000), (0x8009d058, 0x60000000)] @
        in_group ''culling'' [(0x80314038, 0x38600001), (0x80314038 + 4, 0x4e800020)]
      else [])"

definition ViewModifier_patches_mp3_standalone :: "Region \<Rightarrow> patch list" where
  "ViewModifier_patches_mp3_standalone region =
     (if region = NTSC_U then plain [(0x8007f504, 0x60000000), (0x8009cfc4, 0x60000000)] @
        in_group ''culling'' [(0x80316a1c, 0x38600001), (0x80316a1c + 4, 0x4e800020)]
      else if region = PAL then plain [(0x8007f7a0, 0x60000000), (0x8009d41c, 0x60000000)] @
        in_group ''culling'' [(0x80318170, 0x38600001), (0x80318170 + 4, 0x4e800020)]
      else if region = NTSC_J then plain [(0x8007f934, 0x60000000), (0x8009d5b0, 0x60000000)] @
        in_group ''culling'' [(0x8031a4b4, 0x38600001), (0x8031a4b4 + 4, 0x4e800020)]
      else [])"

section \<open>Controls\<close>

definition springball_code :: "prime \<Rightarrow> u32 \<Rightarrow> patch list" where
  "springball_code s start_point =
     (let (lis, ori) = make_lis_ori 4 ''springball_trigger'' s
      in plain [(start_point + 0, lis), (start_point + 4, ori), (start_point + 8, 0x88640000),
          (start_point + 0x0c, 0x38a00000), (start_point + 0x10, 0x98a40000),
          (start_point + 0x14, 0x2c030000)])"

definition SpringballButton_patches :: "Game \<Rightarrow> Region \<Rightarrow> prime \<Rightarrow> patch list" where
  "SpringballButton_patches game region s =
     (case game of
        PRIME_1 \<Rightarrow> (if region = NTSC_U then springball_code s 0x801476d0
           else if region = PAL then springball_code s 0x80147820
           else if region = NTSC_J then springball_code s 0x80147cd0
           else [])
      | PRIME_2 \<Rightarrow> (if region = NTSC_U then springball_code s 0x8010bd98
           else if region = PAL then springball_code s 0x8010d440
           else if region = NTSC_J then springball_code s 0x8010b368
           else [])
      | PRIME_3 \<Rightarrow> (if region = NTSC_U then springball_code s 0x801077d4
           else if region = PAL then springball_code s 0x80107120
           else [])
      | PRIME_3_STANDALONE \<Rightarrow> (if region = NTSC_U then springball_code s 0x8010c984
           else if region = PAL then springball_code s 0x8010ced4
           else if region = NTSC_J then springball_code s 0x8010d49c
           else [])
      | _ \<Rightarrow> [])"

definition ContextSensitiveControls_patches :: "Game \<Rightarrow> Region \<Rightarrow> prime \<Rightarrow> patch list" where
  "ContextSensitiveControls_patches game region s =
     (let (lis, ori) = make_lis_ori 12 ''rotary_velocity'' s
      in (let lfs = 0xc02c0000
        in (case game of
            PRIME_3 \<Rightarrow> (if region = NTSC_U then plain [(0x801f806c, lis), (0x801f8074, ori), (0x801f807c, lfs), (0x801fa28c, lis),
                    (0x801fa290, ori), (0x801fa294, lfs)]
               else if region = PAL then plain [(0x801f7b4c, lis), (0x801f7b54, ori), (0x801f7b5c, lfs), (0x801f9d6c, lis),
                    (0x801f9d70, ori), (0x801f9d74, lfs)]
               else [])
          | PRIME_3_STANDALONE \<Rightarrow> (if region = NTSC_U then plain [(0x801fb544, lis), (0x801fb54c, ori), (0x801fb554, lfs), (0x801fd764, lis),
                    (0x801fd768, ori), (0x801fd76c, lfs)]
               else if region = NTSC_J then plain [(0x801fdb5c, lis), (0x801fdb64, ori), (0x801fdb6c, lfs), (0x801ffd7c, lis),
                    (0x801ffd80, ori), (0x801ffd84, lfs)]
               else if region = PAL then plain [(0x801fc5a8, lis), (0x801fc5b0, ori), (0x801fc5b8, lfs), (0x801fe7c8, lis),
                    (0x801fe7cc, ori), (0x801fe7d0, lfs)]
               else [])
          | _ \<Rightarrow> [])))"

end
