(* ===== verification/Prime_Mods.thy ===== *)
theory Prime_Mods
  imports Prime_Patches PPC_FPUtils
begin

text \<open>
  The smaller mods, after what they compute with: arithmetic of the host on \<open>float\<close>, in the rounding mode the emulated processor has set, and the
  vectors and matrices of \<open>Transform.h\<close>.
\<close>

section \<open>Single precision on the host\<close>

definition f32_add :: "nat \<Rightarrow> bool \<Rightarrow> u32 \<Rightarrow> u32 \<Rightarrow> u32" where
  "f32_add mode ftz a b =
     (let (z, k) = exact_sum (f32_neg a) (magnitude 24 (f32_mag a)) (f32_neg b) (magnitude 24 (f32_mag b))
      in if f32_isnan a then a OR 0x00400000
         else if f32_isnan b then b OR 0x00400000
         else if f32_isinf a \<and> f32_isinf b then (if f32_neg a = f32_neg b then a else f32_invalid)
         else if f32_isinf a then a
         else if f32_isinf b then b
         else if z = 0 then f32_pack (if f32_neg a = f32_neg b then f32_neg a else mode = 3) 0
         else f32_pack (z < 0) (round_mag 24 mode ftz (z < 0) (nat \<bar>z\<bar>) 1 k))"

definition f32_negate :: "u32 \<Rightarrow> u32" where "f32_negate x = x XOR 0x80000000"

definition f32_sub :: "nat \<Rightarrow> bool \<Rightarrow> u32 \<Rightarrow> u32 \<Rightarrow> u32" where
  "f32_sub mode ftz a b = f32_add mode ftz a (if f32_isnan b then b else f32_negate b)"

definition f32_div :: "nat \<Rightarrow> bool \<Rightarrow> u32 \<Rightarrow> u32 \<Rightarrow> u32" where
  "f32_div mode ftz a b =
     (let s = (f32_neg a \<noteq> f32_neg b);
          (m, q) = magnitude 24 (f32_mag a);
          (n, r) = magnitude 24 (f32_mag b)
      in if f32_isnan a then a OR 0x00400000
         else if f32_isnan b then b OR 0x00400000
         else if f32_isinf a then (if f32_isinf b then f32_invalid else f32_pack s (inf_mag 24))
         else if f32_isinf b then f32_pack s 0
         else if f32_mag b = 0 then (if f32_mag a = 0 then f32_invalid else f32_pack s (inf_mag 24))
         else f32_pack s (round_mag 24 mode ftz s m n (q - r)))"

definition f32_le :: "u32 \<Rightarrow> u32 \<Rightarrow> bool" where
  "f32_le a b \<longleftrightarrow> \<not> f32_isnan a \<and> \<not> f32_isnan b \<and> f32_key a \<le> f32_key b"

definition f32_equal :: "u32 \<Rightarrow> u32 \<Rightarrow> bool" where
  "f32_equal a b \<longleftrightarrow> \<not> f32_isnan a \<and> \<not> f32_isnan b \<and> f32_key a = f32_key b"

text \<open>\<open>std::min\<close>, \<open>std::max\<close> and \<open>std::clamp\<close>.\<close>

definition f32_min :: "u32 \<Rightarrow> u32 \<Rightarrow> u32" where "f32_min a b = (if f32_less b a then b else a)"
definition f32_max :: "u32 \<Rightarrow> u32 \<Rightarrow> u32" where "f32_max a b = (if f32_less a b then b else a)"
definition f32_clamp :: "u32 \<Rightarrow> u32 \<Rightarrow> u32 \<Rightarrow> u32" where
  "f32_clamp v lo hi = (if f32_less v lo then lo else if f32_less hi v then hi else v)"

text \<open>The operations in the modes of the state.\<close>

definition fadd :: "prime \<Rightarrow> u32 \<Rightarrow> u32 \<Rightarrow> u32" where "fadd s = f32_add (host_mode (cpu s)) (host_ftz (cpu s))"
definition fsub :: "prime \<Rightarrow> u32 \<Rightarrow> u32 \<Rightarrow> u32" where "fsub s = f32_sub (host_mode (cpu s)) (host_ftz (cpu s))"
definition fmul :: "prime \<Rightarrow> u32 \<Rightarrow> u32 \<Rightarrow> u32" where "fmul s = f32_mul (host_mode (cpu s)) (host_ftz (cpu s))"
definition fdiv :: "prime \<Rightarrow> u32 \<Rightarrow> u32 \<Rightarrow> u32" where "fdiv s = f32_div (host_mode (cpu s)) (host_ftz (cpu s))"

definition Lerp :: "prime \<Rightarrow> u32 \<Rightarrow> u32 \<Rightarrow> u32 \<Rightarrow> u32" where
  "Lerp s x y a = fadd s x (fmul s (fsub s y x) a)"

section \<open>Vectors and matrices\<close>

type_synonym vec3 = "u32 \<times> u32 \<times> u32"
type_synonym Transform = "nat \<Rightarrow> u32"

text \<open>\<open>m[i][j]\<close> is entry \<open>4 * i + j\<close>.\<close>

definition vec3_scale :: "prime \<Rightarrow> vec3 \<Rightarrow> u32 \<Rightarrow> vec3" where
  "vec3_scale s v k = (case v of (x, y, z) \<Rightarrow> (fmul s x k, fmul s y k, fmul s z k))"

definition vec3_add :: "prime \<Rightarrow> vec3 \<Rightarrow> vec3 \<Rightarrow> vec3" where
  "vec3_add s v w = (case (v, w) of ((x, y, z), (x', y', z')) \<Rightarrow> (fadd s x x', fadd s y y', fadd s z z'))"

definition vec3_neg :: "vec3 \<Rightarrow> vec3" where
  "vec3_neg v = (case v of (x, y, z) \<Rightarrow> (f32_negate x, f32_negate y, f32_negate z))"

definition tf_right :: "Transform \<Rightarrow> vec3" where "tf_right m = (m 0, m 4, m 8)"
definition tf_fwd :: "Transform \<Rightarrow> vec3" where "tf_fwd m = (m 1, m 5, m 9)"
definition tf_loc :: "Transform \<Rightarrow> vec3" where "tf_loc m = (m 3, m 7, m 11)"

definition tf_set_loc :: "vec3 \<Rightarrow> Transform \<Rightarrow> Transform" where
  "tf_set_loc l m = (case l of (x, y, z) \<Rightarrow> m(3 := x, 7 := y, 11 := z))"

fun read_floats :: "nat \<Rightarrow> u32 \<Rightarrow> u32 list act" where
  "read_floats 0 address = done_with []"
| "read_floats (Suc n) address =
     andthen (readf32 address) (\<lambda>v. andthen (read_floats n (address + 4)) (\<lambda>vs. done_with (v # vs)))"

definition vec3_read_from :: "u32 \<Rightarrow> vec3 act" where
  "vec3_read_from address = andthen (read_floats 3 address) (\<lambda>vs. done_with (vs ! 0, vs ! 1, vs ! 2))"

definition vec3_write_to :: "vec3 \<Rightarrow> u32 \<Rightarrow> unit act" where
  "vec3_write_to v address =
     (case v of (x, y, z) \<Rightarrow>
        andthen (writef32 x address) (\<lambda>_. andthen (writef32 y (address + 4)) (\<lambda>_. writef32 z (address + 8))))"

definition tf_read_from :: "u32 \<Rightarrow> Transform act" where
  "tf_read_from address =
     andthen (read_floats 12 address) (\<lambda>vs. done_with (\<lambda>i. if i < 12 then vs ! i else 0))"

section \<open>The mods\<close>

text \<open>
  What the mods do: \<open>init_mod\<close>, \<open>run_mod\<close> and \<open>on_state_change\<close> of the classes.  Lookups come in the order of
  the source, which matters because a dynamic lookup may remember that its source is dynamic.
\<close>

section \<open>Automatic EFB copies\<close>

definition SetEFBToTexture :: "bool \<Rightarrow> unit act" where
  "SetEFBToTexture toggle = change (\<lambda>s. s\<lparr>config := (config s)\<lparr>GetEFBTexture := toggle\<rparr>\<rparr>)"

definition use_efb :: "bool \<Rightarrow> unit act" where
  "use_efb should_use =
     andthen (asks (GetEFBTexture \<circ> config))
       (\<lambda>now. if now \<noteq> should_use then SetEFBToTexture should_use else done_with ())"

definition AutoEFB_run_mod :: "Game \<Rightarrow> Region \<Rightarrow> mod_act" where
  "AutoEFB_run_mod game region m =
     (if game = PRIME_2 then
        andthen (lookup_dynamic_address ''active_visor'')
          (\<lambda>active_visor. andthen (read32 active_visor)
             (\<lambda>v. andthen (use_efb (v \<noteq> 2)) (\<lambda>_. done_with m)))
      else if game = PRIME_3 \<or> game = PRIME_3_STANDALONE then
        andthen (lookup_dynamic_address ''active_visor'')
          (\<lambda>active_visor. andthen (read32 active_visor)
             (\<lambda>v. andthen (use_efb (v \<noteq> 1)) (\<lambda>_. done_with m)))
      else if game = PRIME_2_GCN then
        andthen (lookup_dynamic_address ''player'')
          (\<lambda>player. andthen (read32 (player + 0x3d0))
             (\<lambda>v. andthen (use_efb (v = 0)) (\<lambda>_. done_with m)))
      else done_with m)"

section \<open>Secondary beam effects\<close>

definition CutBeamFxMP1_offsets :: "Region \<Rightarrow> (u32 \<times> u32 \<times> u32) option" where
  "CutBeamFxMP1_offsets region =
     (case region of
        NTSC_U \<Rightarrow> Some (0xfffffd68, 0xac, 0xfffffeb0)
      | PAL \<Rightarrow> Some (0, 0, 0)
      | NTSC_J \<Rightarrow> Some (0x8e8, 0xfffffb70, 0x4b0)
      | INVALID_REGION \<Rightarrow> None)"

definition CutBeamFxMP1_patches :: "Game \<Rightarrow> Region \<Rightarrow> patch list" where
  "CutBeamFxMP1_patches game region =
     (if game \<noteq> PRIME_1 then []
      else (case CutBeamFxMP1_offsets region of
         None \<Rightarrow> []
       | Some (gunfx_offset, transform_ctor_offset, advance_particles_offset) \<Rightarrow>
         (let address1 = 0x80004a68; address2 = 0x80004968
          in plain [(address1, 0x9421ffa8), (address1 + 4, 0x7c0802a6), (address1 + 8, 0x9001001c),
               (address1 + 0xc, 0x93a10010), (address1 + 0x10, 0x93c10018), (address1 + 0x14, 0x93e10014),
               (address1 + 0x18, 0xd3e1000c), (address1 + 0x1c, 0x7c7f1b78), (address1 + 0x20, 0x7c9e2378),
               (address1 + 0x24, 0x7cbd2b78), (address1 + 0x28, 0xffe00890), (address1 + 0x2c, 0x38610020),
               (address1 + 0x30, 0x389f04b0), (address1 + 0x34, 0x483441e5 + transform_ctor_offset),
               (address1 + 0x38, 0x7fa3eb78), (address1 + 0x3c, 0x38810020), (address1 + 0x40, 0x7fe5fb78),
               (address1 + 0x44, 0x48134f15 + advance_particles_offset), (address1 + 0x48, 0xc03f0384),
               (address1 + 0x4c, 0x38800000), (address1 + 0x50, 0xc002cdf8), (address1 + 0x54, 0x807f0734),
               (address1 + 0x58, 0xfc010040), (address1 + 0x5c, 0x40810018), (address1 + 0x60, 0xc03f037c),
               (address1 + 0x64, 0xc002d078), (address1 + 0x68, 0xfc010040), (address1 + 0x6c, 0x40810008),
               (address1 + 0x70, 0x38800001), (address1 + 0x74, 0x81830000), (address1 + 0x78, 0x7fc5f378),
               (address1 + 0x7c, 0x38df0510), (address1 + 0x80, 0xfc20f890), (address1 + 0x84, 0x818c001c),
               (address1 + 0x88, 0x7d8903a6), (address1 + 0x8c, 0x4e800421), (address1 + 0x90, 0x83a10010),
               (address1 + 0x94, 0x83c10018), (address1 + 0x98, 0x83e10014), (address1 + 0x9c, 0x8001001c),
               (address1 + 0xa0, 0xc3e1000c), (address1 + 0xa4, 0x7c0803a6), (address1 + 0xa8, 0x38210058),
               (address1 + 0xac, 0x4e800020),
               (address2, 0x7f03c378), (address2 + 4, 0x7f24cb78), (address2 + 8, 0x7f65db78),
               (address2 + 0xc, 0xfc20f890), (address2 + 0x10, 0x480000f1), (address2 + 0x14, 0x386100b0),
               (address2 + 0x18, 0x48187d2c + gunfx_offset),
               (0x8018c6a8 + gunfx_offset, 0x4be782c0 - gunfx_offset)])))"

section \<open>Bloom\<close>

definition reduced_offsets :: "u32 list" where
  "reduced_offsets = [0xBFC00000, 0xBF800000, 0xBF000000, 0x3F000000, 0x3F800000, 0x3FC00000]"

definition normal_offsets :: "u32 list" where
  "normal_offsets = [0xC0B00000, 0xC0600000, 0xBFC00000, 0x3FC00000, 0x40600000, 0x40B00000]"

definition set_group :: "string \<Rightarrow> ModState \<Rightarrow> mod_act" where
  "set_group grp st m = lift_mod (set_code_group_state grp st m)"

definition DisableBloom_run_mod :: "Game \<Rightarrow> Region \<Rightarrow> mod_act" where
  "DisableBloom_run_mod game region m =
     andthen
       (if game = PRIME_3 \<or> game = PRIME_3_STANDALONE then
          andthen (lookup_address ''bloom_offset'')
            (\<lambda>bloom_offset.
               if bloom_offset \<noteq> 0 then
                 for_each (\<lambda>i. andthen (asks (GetReduceBloom \<circ> config))
                     (\<lambda>reduce. writef32 ((if reduce then reduced_offsets else normal_offsets) ! i)
                                 (bloom_offset + of_nat i * 4)))
                   [0..<6]
               else done_with ())
        else done_with ())
       (\<lambda>_. andthen (asks (GetBloom \<circ> config))
          (\<lambda>bloom. set_group ''bloom_disable'' (if bloom then ENABLED else DISABLED) m))"

section \<open>Fog\<close>

definition DynSettings_run_mod :: "Game \<Rightarrow> Region \<Rightarrow> mod_act" where
  "DynSettings_run_mod game region m =
     andthen (lookup_address ''state_manager'')
       (\<lambda>state_manager. andthen (read32 (state_manager + 0x850))
          (\<lambda>world. andthen (read32 (world + 0x14))
             (\<lambda>world_id. andthen (change (\<lambda>s. if world_id = 0x158EFE17 \<and> \<not> GFX_DISABLE_FOG (config s)
                  then s\<lparr>config := (config s)\<lparr>GFX_DISABLE_FOG := True\<rparr>\<rparr> else s))
                (\<lambda>_. done_with m))))"

section \<open>Friend vouchers\<close>

definition FriendVouchers_init_mod :: "Game \<Rightarrow> Region \<Rightarrow> prime_mod \<Rightarrow> (bool \<times> prime_mod) act" where
  "FriendVouchers_init_mod game region m =
     done_with (True,
       if region = NTSC_U then m\<lparr>extras_arr_addr := 0x8052DBB0\<rparr>
       else if region = PAL then m\<lparr>extras_arr_addr := 0x805320A0\<rparr> else m)"

definition free_voucher :: "u32 \<Rightarrow> nat \<Rightarrow> unit act" where
  "free_voucher arr i =
     (let vouchers_cost_addr = arr + of_nat i * 0xC + 0x4
      in andthen (read8 vouchers_cost_addr)
           (\<lambda>v. if v \<noteq> 0 then andthen (read32 vouchers_cost_addr)
                    (\<lambda>w. write32 (w AND NOT 0x000000FF) vouchers_cost_addr)
                else done_with ()))"

definition FriendVouchers_run_mod :: "Game \<Rightarrow> Region \<Rightarrow> mod_act" where
  "FriendVouchers_run_mod game region m =
     (if game \<noteq> MENU then done_with m
      else andthen (for_each (free_voucher (extras_arr_addr m)) [0..<105])
        (\<lambda>_. andthen (write32 0x03000102 (extras_arr_addr m + 0x430))
           (\<lambda>_. andthen (write32 0x00000002 (extras_arr_addr m + 0x434)) (\<lambda>_. done_with m))))"

section \<open>Spring ball\<close>

definition springball_check :: "u32 \<Rightarrow> u32 \<Rightarrow> unit act" where
  "springball_check ball_address movement_address =
     andthen (asks (CheckSpringBallCtl \<circ> config))
       (\<lambda>pressed. if pressed then
            andthen (read32 ball_address)
              (\<lambda>ball_state. andthen (read32 movement_address)
                 (\<lambda>movement_state. if (ball_state = 1 \<or> ball_state = 2) \<and> movement_state = 0
                    then set_variable_u8 ''springball_trigger'' 1 else done_with ()))
          else done_with ())"

definition SpringballButton_run_mod :: "Game \<Rightarrow> Region \<Rightarrow> mod_act" where
  "SpringballButton_run_mod game region m =
     andthen (lookup_dynamic_address ''player'')
       (\<lambda>player. andthen
          (if player = 0 then done_with ()
           else (case game of
               PRIME_1 \<Rightarrow> springball_check (player + 0x2f4) (player + 0x25c)
             | PRIME_2 \<Rightarrow> springball_check (player + 0x374) (player + 0x2c4)
             | PRIME_3 \<Rightarrow> springball_check (player + 0x358) (player + 0x29c)
             | PRIME_3_STANDALONE \<Rightarrow> springball_check (player + 0x358) (player + 0x29c)
             | _ \<Rightarrow> done_with ()))
          (\<lambda>_. done_with m))"

section \<open>Portals\<close>

definition kAgonWorldId :: u32 where "kAgonWorldId = 0x42b935e4"
definition kTorvusWorldId :: u32 where "kTorvusWorldId = 0x3dfd2249"
definition kSanctuaryWorldId :: u32 where "kSanctuaryWorldId = 0x1baa96c2"

definition fix_portal_terminal_layer_bits :: "unit act" where
  "fix_portal_terminal_layer_bits =
     andthen (lookup_dynamic_address ''world_id'')
       (\<lambda>world_id. andthen (lookup_dynamic_address ''area_id'')
          (\<lambda>area_id. andthen (lookup_dynamic_address ''area_layers_vector'')
             (\<lambda>area_layers_vector. andthen (read32 world_id)
                (\<lambda>w. if w \<noteq> kAgonWorldId then done_with ()
                     else andthen (read32 area_id)
                       (\<lambda>a. if a \<noteq> 0x12 then done_with ()
                            else let layer_bits_addr = 0x10 * 0x12 + area_layers_vector + 0x8
                                 in andthen (read64 layer_bits_addr)
                                      (\<lambda>layer_bits. if layer_bits AND 0x6008 = 0
                                         then write64 ((layer_bits OR 0x8008) AND NOT 0x40) layer_bits_addr
                                         else done_with ()))))))"

definition gpr_set :: "nat \<Rightarrow> u32 \<Rightarrow> unit act" where
  "gpr_set r v = change (\<lambda>s. s\<lparr>cpu := (cpu s)\<lparr>gpr := (gpr (cpu s))(r := v)\<rparr>\<rparr>)"

definition gpr_get :: "nat \<Rightarrow> u32 act" where "gpr_get r = asks (\<lambda>s. gpr (cpu s) r)"

definition has_mod :: "string \<Rightarrow> prime \<Rightarrow> bool" where
  "has_mod name s \<longleftrightarrow> map_of (mods s) name \<noteq> None"

definition call_fix_layer_bits :: "u32 \<Rightarrow> unit act" where
  "call_fix_layer_bits param =
     andthen (asks (has_mod ''portal_skip_mp2''))
       (\<lambda>found. andthen (if found then fix_portal_terminal_layer_bits else done_with ())
          (\<lambda>_. andthen (gpr_get 30) (gpr_set 3)))"

text \<open>The object with an editor id, of the 1024 of the list; 0 when there is none.\<close>

fun find_object :: "u32 \<Rightarrow> u32 \<Rightarrow> nat list \<Rightarrow> u32 act" where
  "find_object object_list editor_id [] = done_with 0"
| "find_object object_list editor_id (i # is) =
     andthen (read32 (object_list + of_nat i * 8 + 4))
       (\<lambda>object_ptr. andthen (if object_ptr \<noteq> 0 then andthen (read32 (object_ptr + 0xc)) (\<lambda>e. done_with (e = editor_id))
                                else done_with False)
          (\<lambda>found. if found then done_with object_ptr else find_object object_list editor_id is))"

text \<open>
  The three loops over the elements of a vector in the game; \<open>n\<close> counts the elements left, so that the
  loop of the code over a size it has read is structural here.
\<close>

fun remap_start :: "u32 \<Rightarrow> u32 \<Rightarrow> nat \<Rightarrow> u32 \<Rightarrow> unit act" where
  "remap_start vec eid 0 i = done_with ()"
| "remap_start vec eid (Suc n) i =
     andthen (read32 (vec + i * 0xc + 4))
       (\<lambda>fcc. if fcc = 0x53545254 then write32 eid (vec + i * 0xc + 8) else remap_start vec eid n (i + 1))"

fun remove_fx :: "u32 \<Rightarrow> u32 \<Rightarrow> nat \<Rightarrow> u32 \<Rightarrow> unit act" where
  "remove_fx vec eid 0 i = done_with ()"
| "remove_fx vec eid (Suc n) i =
     andthen (read32 (vec + i * 0xc + 8))
       (\<lambda>conn_eid. if conn_eid = eid then write32 0 (vec + i * 0xc + 4) else remove_fx vec eid n (i + 1))"

fun shorten_timers :: "u32 \<Rightarrow> u32 \<Rightarrow> u32 \<Rightarrow> nat \<Rightarrow> u32 \<Rightarrow> unit act" where
  "shorten_timers vec fire_size time_offset 0 i = done_with ()"
| "shorten_timers vec fire_size time_offset (Suc n) i =
     andthen (read32 (vec + i * fire_size + time_offset))
       (\<lambda>table. andthen
          (if table \<noteq> 0 then andthen (readf32 table)
               (\<lambda>time. if f32_less time 0x41000000 then writef32 0 table else done_with ())
           else done_with ())
          (\<lambda>_. shorten_timers vec fire_size time_offset n (i + 1)))"

definition skip_portal :: "u32 \<Rightarrow> u32 \<Rightarrow> u32 \<Rightarrow> u32 \<Rightarrow> u32 \<Rightarrow> u32 \<Rightarrow> PortalControl \<Rightarrow> unit act" where
  "skip_portal object_list area_id conn_vec_offset seq_timer_vec_offset seq_timer_fire_size seq_timer_time_offset
      ctl =
     (if drop_bit 16 (scan_eid ctl) AND 0x3ff \<noteq> area_id then done_with ()
     else andthen (find_object object_list (scan_eid ctl) [0..<1024]) (\<lambda>scan_obj.
     if scan_obj = 0 then done_with ()
     else andthen (find_object object_list (seq_timer_eid ctl) [0..<1024]) (\<lambda>seq_timer_obj.
     if seq_timer_obj = 0 then done_with ()
     else andthen (find_object object_list (rip_fx_gen_eid ctl) [0..<1024]) (\<lambda>rip_fx_gen_obj.
     if rip_fx_gen_obj = 0 then done_with ()
     else
       andthen (read32 (scan_obj + conn_vec_offset)) (\<lambda>scan_conn_vec_size.
       andthen (read32 (scan_obj + conn_vec_offset + 0x8)) (\<lambda>scan_conn_vec.
       andthen (if scan_conn_vec_size \<noteq> 0 \<and> scan_conn_vec \<noteq> 0
                then remap_start scan_conn_vec (seq_timer_eid ctl) (unat scan_conn_vec_size) 0 else done_with ()) (\<lambda>_.
       andthen (read32 (seq_timer_obj + conn_vec_offset)) (\<lambda>timer_conn_vec_size.
       andthen (read32 (seq_timer_obj + conn_vec_offset + 0x8)) (\<lambda>timer_conn_vec.
       andthen (if timer_conn_vec_size \<noteq> 0 \<and> timer_conn_vec \<noteq> 0
                then remove_fx timer_conn_vec (rip_fx_gen_eid ctl) (unat timer_conn_vec_size) 0 else done_with ()) (\<lambda>_.
       andthen (read32 (seq_timer_obj + seq_timer_vec_offset)) (\<lambda>size.
       andthen (read32 (seq_timer_obj + seq_timer_vec_offset + 0x8)) (\<lambda>vec.
       if size \<noteq> 0 \<and> vec \<noteq> 0
       then shorten_timers vec seq_timer_fire_size seq_timer_time_offset (unat size) 0
       else done_with ()))))))))))))"

definition PortalSkipMP2_run_mod :: "Game \<Rightarrow> Region \<Rightarrow> mod_act" where
  "PortalSkipMP2_run_mod game region m =
     (if game \<noteq> PRIME_2 \<and> game \<noteq> PRIME_2_GCN then done_with m
      else
        andthen (lookup_dynamic_address ''world_id'') (\<lambda>world_id.
        andthen (lookup_dynamic_address ''object_list'') (\<lambda>object_list.
        if object_list = 0 then done_with m
        else
          andthen (read32 world_id) (\<lambda>mlvl_id.
          case portal_control_map m mlvl_id of
            None \<Rightarrow> done_with m
          | Some pcs \<Rightarrow>
              andthen (lookup_dynamic_address ''player'') (\<lambda>player.
              if player = 0 then done_with m
              else andthen (read32 (player + 4)) (\<lambda>area_id.
                andthen (lookup_address ''conn_vec_offset'') (\<lambda>conn_vec_offset.
                andthen (lookup_address ''seq_timer_vec_offset'') (\<lambda>seq_timer_vec_offset.
                andthen (lookup_address ''seq_timer_fire_size'') (\<lambda>seq_timer_fire_size.
                andthen (lookup_address ''seq_timer_time_offset'') (\<lambda>seq_timer_time_offset.
                andthen (for_each (skip_portal object_list area_id conn_vec_offset seq_timer_vec_offset
                    seq_timer_fire_size seq_timer_time_offset) pcs) (\<lambda>_. done_with m)))))))))))"

definition portal_controls :: "u32 \<rightharpoonup> PortalControl list" where
  "portal_controls =
     [kAgonWorldId \<mapsto>
        [\<lparr>scan_eid = 0x0012011e, seq_timer_eid = 0x00120290, rip_fx_gen_eid = 0x0012023c\<rparr>,
         \<lparr>scan_eid = 0x001c0113, seq_timer_eid = 0x001c0189, rip_fx_gen_eid = 0x001c0186\<rparr>],
      kTorvusWorldId \<mapsto>
        [\<lparr>scan_eid = 0x00240087, seq_timer_eid = 0x00240092, rip_fx_gen_eid = 0x0024007b\<rparr>,
         \<lparr>scan_eid = 0x001f0055, seq_timer_eid = 0x001f00c5, rip_fx_gen_eid = 0x001f0061\<rparr>],
      kSanctuaryWorldId \<mapsto>
        [\<lparr>scan_eid = 0x000a0185, seq_timer_eid = 0x000a018b, rip_fx_gen_eid = 0x000a0194\<rparr>,
         \<lparr>scan_eid = 0x000f0052, seq_timer_eid = 0x000f006d, rip_fx_gen_eid = 0x000f0062\<rparr>,
         \<lparr>scan_eid = 0x002c02e7, seq_timer_eid = 0x002c02e6, rip_fx_gen_eid = 0x002c02e8\<rparr>,
         \<lparr>scan_eid = 0x00340015, seq_timer_eid = 0x0034012e, rip_fx_gen_eid = 0x00340126\<rparr>]]"

definition PortalSkipMP2_patches :: "Game \<Rightarrow> Region \<Rightarrow> u32 \<Rightarrow> patch list" where
  "PortalSkipMP2_patches game region fix_vmc =
     (if game = PRIME_2 then
        (if region = NTSC_U then
           in_group ''disable_portal_cutscene'' [(0x801e6948, fix_vmc), (0x801e695c, 0x48000114)]
         else if region = PAL then
           in_group ''disable_portal_cutscene'' [(0x801e8e60, fix_vmc), (0x801e8e74, 0x48000114)]
         else in_group ''disable_portal_cutscene'' [(0x801e5948, fix_vmc), (0x801e5950, 0x48000114)])
      else
        (if region = NTSC_U then
           in_group ''disable_portal_cutscene'' [(0x800b7194, fix_vmc), (0x800b71ac, 0x48000120)]
         else if region = PAL then
           in_group ''disable_portal_cutscene'' [(0x800b7228, fix_vmc), (0x800b7240, 0x48000120)]
         else []))"

definition PortalSkipMP2_init_mod :: "Game \<Rightarrow> Region \<Rightarrow> prime_mod \<Rightarrow> (bool \<times> prime_mod) act" where
  "PortalSkipMP2_init_mod game region m =
     (if game \<noteq> PRIME_2 \<and> game \<noteq> PRIME_2_GCN then done_with (True, m)
      else andthen (RegisterVmcall fix_layer_bits)
        (\<lambda>idx. done_with (True,
           (let m = add_code_changes (PortalSkipMP2_patches game region (gen_vmcall (word_of_int idx) 0)) m
            in m\<lparr>portal_control_map := portal_control_map m ++ portal_controls\<rparr>))))"

end
