(* ===== verification/Prime_View.thy ===== *)
theory Prime_View
  imports Prime_Mods
begin

text \<open>
  The mods around the player and the display.  \<open>Noclip.cpp\<close>: the player moves with the camera, and the collision of the game is off.  The mod turns its
  patches off while the player has no control, and keeps the list of excluded materials it overwrites.
\<close>

definition lookups :: "string \<Rightarrow> (u32 \<Rightarrow> 'a act) \<Rightarrow> 'a act" where
  "lookups name k = andthen (lookup_address name) k"

definition lookups_dyn :: "string \<Rightarrow> (u32 \<Rightarrow> 'a act) \<Rightarrow> 'a act" where
  "lookups_dyn name k = andthen (lookup_dynamic_address name) k"

section \<open>The state changes\<close>

definition matexclude_offset :: "Game \<Rightarrow> u32 option" where
  "matexclude_offset game =
     (case game of PRIME_1 \<Rightarrow> Some 0x70 | PRIME_1_GCN \<Rightarrow> Some 0x78 | PRIME_2 \<Rightarrow> Some 0x70
      | PRIME_2_GCN \<Rightarrow> Some 0x74 | PRIME_3 \<Rightarrow> Some 0x88 | PRIME_3_STANDALONE \<Rightarrow> Some 0x88 | _ \<Rightarrow> None)"

definition read_player_tf :: "u32 \<Rightarrow> mod_act" where
  "read_player_tf address m = andthen (tf_read_from address) (\<lambda>t. done_with (m\<lparr>player_tf := t\<rparr>))"

definition read_player_vec :: "u32 \<Rightarrow> mod_act" where
  "read_player_vec address m = andthen (vec3_read_from address) (\<lambda>v. done_with (m\<lparr>player_vec := v\<rparr>))"

definition read_position :: "Game \<Rightarrow> u32 \<Rightarrow> mod_act" where
  "read_position game player m =
     (case game of
        PRIME_1 \<Rightarrow> read_player_tf (player + 0x2c) m
      | PRIME_1_GCN \<Rightarrow> read_player_tf (player + 0x34) m
      | PRIME_2 \<Rightarrow> read_player_vec (player + 0x50) m
      | PRIME_2_GCN \<Rightarrow> read_player_vec (player + 0x54) m
      | PRIME_3 \<Rightarrow> read_player_vec (player + 0x6c) m
      | PRIME_3_STANDALONE \<Rightarrow> read_player_vec (player + 0x6c) m
      | _ \<Rightarrow> done_with m)"

definition Noclip_on_state_change :: "ModState \<Rightarrow> mod_act" where
  "Noclip_on_state_change old_state m =
     lookups_dyn ''player'' (\<lambda>player.
     if player = 0 then done_with m
     else if mod_state m = ENABLED \<and> old_state \<noteq> ENABLED then
       andthen (asks active_game) (\<lambda>game.
       case matexclude_offset game of
         None \<Rightarrow> done_with m
       | Some offset \<Rightarrow>
           andthen (read_position game player m) (\<lambda>m.
           andthen (read64 (player + offset)) (\<lambda>v.
           andthen (write64 0xffffffffffffffff (player + offset)) (\<lambda>_.
           done_with (m\<lparr>old_matexclude_list := v\<rparr>)))))
     else if (mod_state m = DISABLED \<or> mod_state m = CODE_DISABLED) \<and> old_state = ENABLED then
       andthen (asks active_game) (\<lambda>game.
       case matexclude_offset game of
         None \<Rightarrow> done_with m
       | Some offset \<Rightarrow> andthen (write64 (old_matexclude_list m) (player + offset)) (\<lambda>_. done_with m))
     else done_with m)"

section \<open>Control of the player\<close>

definition has_control_mp1_gc :: "bool act" where
  "has_control_mp1_gc =
     lookups ''state_manager'' (\<lambda>state_manager.
     andthen (read8 0x80000007) (\<lambda>version.
     if version \<noteq> 0 then done_with False
     else lookups_dyn ''world'' (\<lambda>world.
     if world = 0 then done_with False
     else lookups_dyn ''player'' (\<lambda>player.
       andthen (read32 (world + 0x4)) (\<lambda>world_load_state.
       andthen (read32 (player + 0x2f4)) (\<lambda>camera_state.
       andthen (read8 (state_manager + 0xf94)) (\<lambda>statemgr_flags.
       done_with (world_load_state = 5 \<and> camera_state \<noteq> 4 \<and> statemgr_flags AND 0x80 \<noteq> 0))))))))"

definition has_control_mp2 :: "bool act" where
  "has_control_mp2 =
     lookups ''state_manager'' (\<lambda>state_manager.
     lookups ''control_flag'' (\<lambda>control_flag.
     lookups_dyn ''player'' (\<lambda>player.
     if player = 0 then done_with False
     else andthen (read32 control_flag) (\<lambda>a.
       if a \<noteq> 1 then done_with False
       else andthen (read32 (state_manager + 0x153c)) (\<lambda>b.
       if b \<noteq> 1 then done_with False
       else andthen (read32 (player + 0x374)) (\<lambda>c. done_with (c \<noteq> 5)))))))"

definition has_control_mp2_gc :: "bool act" where
  "has_control_mp2_gc =
     lookups ''state_manager'' (\<lambda>state_manager.
     lookups_dyn ''world'' (\<lambda>world.
     if world = 0 then done_with False
     else andthen (read32 (world + 0x4)) (\<lambda>phase.
     if phase \<noteq> 4 then done_with False
     else lookups_dyn ''player'' (\<lambda>player.
     if player = 0 then done_with False
     else lookups_dyn ''camera_manager'' (\<lambda>camera_manager.
     if camera_manager = 0 then done_with False
     else andthen (read16 camera_manager) (\<lambda>uid. done_with (uid \<noteq> 0xffff)))))))"

definition has_control_mp3 :: "bool act" where
  "has_control_mp3 = lookups_dyn ''object_list'' (\<lambda>object_list. done_with (object_list \<noteq> 0))"

section \<open>Movement\<close>

definition movement :: "bool \<Rightarrow> vec3 \<Rightarrow> prime \<Rightarrow> vec3 \<Rightarrow> vec3" where
  "movement pressed v s w = (if pressed then vec3_add s w v else w)"

definition get_movement_vec :: "u32 \<Rightarrow> vec3 act" where
  "get_movement_vec camera_tf_addr =
     andthen (tf_read_from camera_tf_addr) (\<lambda>t. asks (\<lambda>s.
       let c = config s; w = (0, 0, 0);
           w = movement (CheckForward c) (tf_fwd t) s w;
           w = movement (CheckBack c) (vec3_neg (tf_fwd t)) s w;
           w = movement (CheckLeft c) (vec3_neg (tf_right t)) s w;
           w = movement (CheckRight c) (tf_right t) s w
       in movement (CheckJump c) (0, 0, 0x3F800000) s w))"

text \<open>The two ways out at the beginning of each \<open>run_mod_\<close> function; \<open>save\<close> reads the position.\<close>

definition with_control :: "mod_act \<Rightarrow> bool \<Rightarrow> mod_act \<Rightarrow> mod_act" where
  "with_control save has_control k m =
     (if \<not> has_control then
        andthen (save m) (\<lambda>m.
        andthen (set_state Noclip_on_state_change CODE_DISABLED m) (\<lambda>m.
        andthen (apply_instruction_changes True m) (\<lambda>_. done_with (m\<lparr>had_control := False\<rparr>))))
      else if \<not> had_control m then
        andthen (set_state Noclip_on_state_change ENABLED m) (\<lambda>m. done_with (m\<lparr>had_control := True\<rparr>))
      else k m)"

text \<open>The camera, when its object list, manager and id are there.\<close>

definition with_camera :: "bool \<Rightarrow> u32 \<Rightarrow> (u32 \<Rightarrow> mod_act) \<Rightarrow> mod_act" where
  "with_camera check_id id_mask k m =
     lookups_dyn ''object_list'' (\<lambda>object_list.
     if object_list = 0 then done_with m
     else lookups_dyn ''camera_manager'' (\<lambda>camera_manager.
     if camera_manager = 0 then done_with m
     else andthen (read16 camera_manager) (\<lambda>camera_id.
     if check_id \<and> camera_id = 0xffff then done_with m
     else andthen (read32 (object_list + push_bit 3 (ucast camera_id AND id_mask) + 4)) (\<lambda>camera. k camera m))))"

definition move_tf :: "u32 \<Rightarrow> u32 \<Rightarrow> mod_act" where
  "move_tf camera_tf_addr player_tf_addr m =
     andthen (get_movement_vec camera_tf_addr) (\<lambda>w.
     andthen (asks (\<lambda>s. vec3_add s (vec3_scale s w 0x3F000000) (tf_loc (player_tf m)))) (\<lambda>v.
     case v of (x, y, z) \<Rightarrow>
       andthen (writef32 x (player_tf_addr + 0x0c)) (\<lambda>_.
       andthen (writef32 y (player_tf_addr + 0x1c)) (\<lambda>_.
       andthen (writef32 z (player_tf_addr + 0x2c)) (\<lambda>_.
       done_with (m\<lparr>player_tf := tf_set_loc v (player_tf m)\<rparr>))))))"

definition move_vec :: "u32 \<Rightarrow> u32 \<Rightarrow> mod_act" where
  "move_vec camera_tf_addr player_addr m =
     andthen (get_movement_vec camera_tf_addr) (\<lambda>w.
     andthen (asks (\<lambda>s. vec3_add s (vec3_scale s w 0x3F000000) (player_vec m))) (\<lambda>v.
     andthen (vec3_write_to v player_addr) (\<lambda>_. done_with (m\<lparr>player_vec := v\<rparr>))))"

definition with_player :: "(u32 \<Rightarrow> mod_act) \<Rightarrow> mod_act" where
  "with_player k m = lookups_dyn ''player'' (\<lambda>player. if player = 0 then done_with m else k player m)"

definition Noclip_run_mod_mp1 :: "bool \<Rightarrow> mod_act" where
  "Noclip_run_mod_mp1 has_control =
     with_player (\<lambda>player.
     with_control (read_player_tf (player + 0x2c)) has_control
       (with_camera False 0x3ff (\<lambda>camera. move_tf (camera + 0x2c) (player + 0x2c))))"

definition Noclip_run_mod_mp1_gc :: "bool \<Rightarrow> mod_act" where
  "Noclip_run_mod_mp1_gc has_control m =
     andthen (read8 0x80000007) (\<lambda>version.
     if version \<noteq> 0 then done_with m
     else with_player (\<lambda>player.
       with_control (read_player_tf (player + 0x34)) has_control
         (with_camera True 0x3ff (\<lambda>camera m.
            andthen (move_tf (camera + 0x34) (player + 0x34) m) (\<lambda>m.
            andthen (asks active_region) (\<lambda>region.
            andthen (write32 0 (player + 0x258 + (if region = PAL then 0x10 else 0))) (\<lambda>_. done_with m)))))) m)"

definition Noclip_run_mod_mp2 :: "bool \<Rightarrow> mod_act" where
  "Noclip_run_mod_mp2 has_control =
     with_player (\<lambda>player.
     with_control (read_player_vec (player + 0x50)) has_control
       (with_camera True 0x3ff (\<lambda>camera. move_vec (camera + 0x20) (player + 0x50))))"

definition Noclip_run_mod_mp2_gc :: "bool \<Rightarrow> mod_act" where
  "Noclip_run_mod_mp2_gc has_control =
     with_player (\<lambda>player m.
     if \<not> mem_check player then done_with m
     else with_control (read_player_vec (player + 0x54)) has_control
       (with_camera True 0x3ff (\<lambda>camera. move_vec (camera + 0x24) (player + 0x54))) m)"

definition Noclip_run_mod_mp3 :: "bool \<Rightarrow> mod_act" where
  "Noclip_run_mod_mp3 has_control =
     with_player (\<lambda>player.
     with_control (read_player_vec (player + 0x6c)) has_control
       (with_camera True 0x7ff (\<lambda>camera. move_vec (camera + 0x3c) (player + 0x6c))))"

definition Noclip_run_mod :: "Game \<Rightarrow> Region \<Rightarrow> mod_act" where
  "Noclip_run_mod game region m =
     (case game of
        PRIME_1 \<Rightarrow> lookups ''control_flag'' (\<lambda>control_flag.
          andthen (read32 control_flag) (\<lambda>v. Noclip_run_mod_mp1 (v = 1) m))
      | PRIME_1_GCN \<Rightarrow> andthen has_control_mp1_gc (\<lambda>c. Noclip_run_mod_mp1_gc c m)
      | PRIME_2 \<Rightarrow> andthen has_control_mp2 (\<lambda>c. Noclip_run_mod_mp2 c m)
      | PRIME_2_GCN \<Rightarrow> andthen has_control_mp2_gc (\<lambda>c. Noclip_run_mod_mp2_gc c m)
      | PRIME_3 \<Rightarrow> andthen has_control_mp3 (\<lambda>c. Noclip_run_mod_mp3 c m)
      | PRIME_3_STANDALONE \<Rightarrow> andthen has_control_mp3 (\<lambda>c. Noclip_run_mod_mp3 c m)
      | _ \<Rightarrow> done_with m)"

section \<open>The display\<close>

text \<open>
  The field of view, the colours of the display, the messages in the display, and the controls of
  puzzles: \<open>ViewModifier\<close>, \<open>HudAdjuster\<close>, \<open>DisableHudMemoPopup\<close> and \<open>ContextSensitiveControls\<close>.
\<close>

section \<open>Field of view\<close>

text \<open>The position of the arm, and whether the near plane is written.\<close>

definition arm_position :: "prime \<Rightarrow> u32 \<Rightarrow> (u32 \<times> u32 \<times> u32) \<times> bool" where
  "arm_position s fov =
     (let left = 0x3E800000; forward = 0x3E99999A; up = 0xBEB33333
      in if \<not> GetToggleArmAdjust (config s) then ((left, forward, up), False)
         else if GetAutoArmAdjust (config s) then
           (if f32_less 0x42FA0000 fov then ((0x3E6147AE, 0xBCA3D70A, up), True)
            else if f32_le 0x42960000 fov then
              (let factor = fdiv s (fsub s fov 0x42960000) 0x42480000
               in ((Lerp s left 0x3E6147AE factor, Lerp s forward 0xBCA3D70A factor, up), True))
            else ((left, forward, up), False))
         else (GetArmXYZ (config s), True))"

definition adjust_viewmodel :: "u32 \<Rightarrow> u32 \<Rightarrow> u32 \<Rightarrow> u32 \<Rightarrow> unit act" where
  "adjust_viewmodel fov arm_address znear_address znear_value =
     andthen (asks (\<lambda>s. arm_position s fov)) (\<lambda>((left, forward, up), apply_znear).
     andthen (if apply_znear then write32 znear_value znear_address else done_with ()) (\<lambda>_.
     andthen (writef32 left arm_address) (\<lambda>_.
     andthen (writef32 forward (arm_address + 0x4)) (\<lambda>_.
     writef32 up (arm_address + 0x8)))))"

definition clamped_fov :: "prime \<Rightarrow> u32" where
  "clamped_fov s = f32_min (GetFov (config s)) 0x432A0000"

definition set_culling :: "u32 \<Rightarrow> mod_act" where
  "set_culling limit m =
     andthen (asks config) (\<lambda>c.
     set_group ''culling'' (if GetCulling c \<or> f32_less limit (GetFov c) then ENABLED else DISABLED) m)"

definition camera_slot :: "u32 \<Rightarrow> u16 \<Rightarrow> u32 \<Rightarrow> u32" where
  "camera_slot object_list camera_id id_mask = object_list + push_bit 3 (ucast camera_id AND id_mask) + 4"

definition ViewModifier_run_mod_mp1 :: mod_act where
  "ViewModifier_run_mod_mp1 m =
     lookups ''static_fov_fp'' (\<lambda>static_fov_fp.
     lookups ''static_fov_tp'' (\<lambda>static_fov_tp.
     lookups ''gun_pos'' (\<lambda>gun_pos.
     lookups_dyn ''object_list'' (\<lambda>object_list.
     if object_list = 0 then done_with m
     else lookups_dyn ''camera_manager'' (\<lambda>camera_manager.
     if camera_manager = 0 then done_with m
     else andthen (read16 camera_manager) (\<lambda>camera_id.
     if camera_id = 0xffff then done_with m
     else andthen (read32 (camera_slot object_list camera_id 0x3ff)) (\<lambda>camera.
     if \<not> mem_check camera then done_with m
     else andthen (asks clamped_fov) (\<lambda>fov.
       andthen (writef32 fov (camera + 0x164)) (\<lambda>_.
       andthen (writef32 fov static_fov_fp) (\<lambda>_.
       andthen (writef32 fov static_fov_tp) (\<lambda>_.
       andthen (adjust_viewmodel fov gun_pos (camera + 0x168) 0x3d200000) (\<lambda>_.
       set_culling 0x42CA0000 m))))))))))))"

definition ViewModifier_run_mod_mp1_gc :: mod_act where
  "ViewModifier_run_mod_mp1_gc m =
     andthen (read8 0x80000007) (\<lambda>version.
     if version \<noteq> 0 then done_with m
     else lookups ''fov_fp_offset'' (\<lambda>fov_fp_offset.
     lookups ''fov_tp_offset'' (\<lambda>fov_tp_offset.
     lookups ''gun_pos'' (\<lambda>gun_pos.
     lookups_dyn ''object_list'' (\<lambda>object_list.
     if object_list = 0 then done_with m
     else lookups_dyn ''camera_manager'' (\<lambda>camera_manager.
     if camera_manager = 0 then done_with m
     else andthen (read16 camera_manager) (\<lambda>camera_uid.
     if camera_uid = 0xffff then done_with m
     else andthen (read32 (camera_slot object_list camera_uid 0x3ff)) (\<lambda>camera.
     if \<not> mem_check camera then done_with m
     else andthen (asks active_region) (\<lambda>region.
       let pal_offset = (if region = PAL then 0x10 else 0)
       in andthen (gpr_get 13) (\<lambda>r13.
       andthen (asks clamped_fov) (\<lambda>fov.
       andthen (writef32 fov (camera + 0x15c + pal_offset)) (\<lambda>_.
       andthen (writef32 fov (r13 + fov_fp_offset)) (\<lambda>_.
       andthen (writef32 fov (r13 + fov_tp_offset)) (\<lambda>_.
       andthen (adjust_viewmodel fov gun_pos (camera + 0x160 + pal_offset) 0x3d200000) (\<lambda>_.
       set_culling 0x42CA0000 m)))))))))))))))"

definition ViewModifier_run_mod_mp2 :: mod_act where
  "ViewModifier_run_mod_mp2 m =
     lookups ''state_manager'' (\<lambda>state_manager.
     lookups ''tweakgun'' (\<lambda>tweakgun.
     lookups_dyn ''object_list'' (\<lambda>object_list.
     if object_list = 0 then done_with m
     else lookups_dyn ''camera_manager'' (\<lambda>camera_manager.
     if camera_manager = 0 then done_with m
     else andthen (read32 (state_manager + 0x153c)) (\<lambda>load.
     if load \<noteq> 1 then done_with m
     else andthen (read16 camera_manager) (\<lambda>camera_id.
     if camera_id = 0xffff then done_with m
     else andthen (read32 (camera_slot object_list camera_id 0x3ff)) (\<lambda>camera.
     andthen (asks clamped_fov) (\<lambda>fov.
     andthen (writef32 fov (camera + 0x1e8)) (\<lambda>_.
     andthen (read32 tweakgun) (\<lambda>t.
     andthen (read32 t) (\<lambda>gun.
     andthen (adjust_viewmodel fov (gun + 0x4c) (camera + 0x1c4) 0x3d200000) (\<lambda>_.
     set_culling 0x42CA0000 m))))))))))))"

definition ViewModifier_run_mod_mp2_gc :: mod_act where
  "ViewModifier_run_mod_mp2_gc m =
     lookups ''state_manager'' (\<lambda>state_manager.
     lookups ''tweakgun_offset'' (\<lambda>tweakgun_offset.
     lookups_dyn ''world'' (\<lambda>world.
     if world = 0 then done_with m
     else andthen (read32 (world + 0x4)) (\<lambda>phase.
     if phase \<noteq> 4 then done_with m
     else lookups_dyn ''camera_manager'' (\<lambda>camera_manager.
     if camera_manager = 0 then done_with m
     else lookups_dyn ''object_list'' (\<lambda>object_list.
     if object_list = 0 then done_with m
     else andthen (read16 camera_manager) (\<lambda>camera_id.
     if camera_id = 0xffff then done_with m
     else andthen (read32 (camera_slot object_list camera_id 0x3ff)) (\<lambda>camera.
     andthen (asks clamped_fov) (\<lambda>fov.
     andthen (writef32 fov (camera + 0x1f0)) (\<lambda>_.
     andthen (gpr_get 13) (\<lambda>r13.
     andthen (read32 (r13 + tweakgun_offset)) (\<lambda>t.
     andthen (read32 t) (\<lambda>gun.
     andthen (adjust_viewmodel fov (gun + 0x50) (camera + 0x1cc) 0x3d200000) (\<lambda>_.
     set_culling 0x42CA0000 m))))))))))))))"

text \<open>The cameras with the known ids; False when one is not there, which ends the function.\<close>

fun write_cameras :: "u32 \<Rightarrow> u32 \<Rightarrow> u16 list \<Rightarrow> bool act" where
  "write_cameras object_list fov [] = done_with True"
| "write_cameras object_list fov (uid # uids) =
     andthen (read32 (camera_slot object_list uid 0x7ff)) (\<lambda>camera.
     if \<not> mem_check camera then done_with False
     else andthen (read32 (camera + 0x178)) (\<lambda>camera_params.
       andthen (writef32 fov (camera_params + 0x1c)) (\<lambda>_.
       andthen (writef32 fov (camera_params + 0x18)) (\<lambda>_. write_cameras object_list fov uids))))"

definition ViewModifier_run_mod_mp3 :: mod_act where
  "ViewModifier_run_mod_mp3 m =
     lookups ''state_manager'' (\<lambda>state_manager.
     lookups ''tweakgun'' (\<lambda>tweakgun.
     lookups_dyn ''camera_manager'' (\<lambda>camera_manager.
     if camera_manager = 0 then done_with m
     else lookups_dyn ''object_list'' (\<lambda>object_list.
     if object_list = 0 then done_with m
     else andthen (read16 camera_manager) (\<lambda>camera_id.
     if camera_id = 0xffff then done_with m
     else andthen (asks clamped_fov) (\<lambda>fov.
     andthen (write_cameras object_list fov [3, 4, 6]) (\<lambda>found.
     if \<not> found then done_with m
     else lookups_dyn ''perspective_info'' (\<lambda>perspective_info.
       andthen (read32 tweakgun) (\<lambda>t.
       andthen (read32 t) (\<lambda>gun.
       andthen (adjust_viewmodel fov (gun + 0xe0) (perspective_info + 0x8c) 0x3dcccccd) (\<lambda>_.
       andthen (set_culling 0x42C00000 m) (\<lambda>m.
       andthen (read32 (camera_slot object_list camera_id 0x7ff)) (\<lambda>_. done_with m)))))))))))))"

definition ViewModifier_run_mod :: "Game \<Rightarrow> Region \<Rightarrow> mod_act" where
  "ViewModifier_run_mod game region m =
     (case game of
        PRIME_1 \<Rightarrow> ViewModifier_run_mod_mp1 m
      | PRIME_1_GCN \<Rightarrow> ViewModifier_run_mod_mp1_gc m
      | PRIME_2 \<Rightarrow> ViewModifier_run_mod_mp2 m
      | PRIME_2_GCN \<Rightarrow> ViewModifier_run_mod_mp2_gc m
      | PRIME_3 \<Rightarrow> ViewModifier_run_mod_mp3 m
      | PRIME_3_STANDALONE \<Rightarrow> ViewModifier_run_mod_mp3 m
      | _ \<Rightarrow> done_with m)"

section \<open>Colours of the display\<close>

text \<open>\<open>(u32)x\<close> of a number that is not negative and fits.\<close>

definition colour_part :: "prime \<Rightarrow> u32 \<Rightarrow> u32 \<Rightarrow> u32" where
  "colour_part s c value =
     min (word_of_int (f32_trunc (fmul s (f32_of_int (host_mode (cpu s)) (uint c)) value))) 0xFF"

definition multiply_rgb :: "prime \<Rightarrow> u32 \<Rightarrow> u32 \<Rightarrow> u32" where
  "multiply_rgb s original value =
     (let r1 = drop_bit 24 (original AND 0xFF000000);
          g1 = drop_bit 16 (original AND 0x00FF0000);
          b1 = drop_bit 8 (original AND 0x0000FF00);
          a1 = original AND 0x000000FF
      in push_bit 24 (colour_part s r1 value) OR push_bit 16 (colour_part s g1 value)
           OR push_bit 8 (colour_part s b1 value) OR colour_part s a1 value)"

definition hud_colours :: "bool \<Rightarrow> u32 \<Rightarrow> u32 \<Rightarrow> u32 \<Rightarrow> u32 \<Rightarrow> (u32 \<times> u32) list" where
  "hud_colours minimal cur faint shadow highlight =
    [(if minimal then 0 else cur, 0x1c), (if minimal then 0 else shadow, 0x88),
     (if minimal then 0 else cur, 0x8), (if minimal then 0 else 0x4b7ea366, 0xc),
     (if minimal then 0 else 0xff6705c8, 0x10), (cur, 0x8c), (cur, 0x1c8), (faint, 0x1cc), (shadow, 0x1d0),
     (cur, 0x1d4), (faint, 0x1d8), (cur, 0x1dc), (shadow, 0x1e0), (cur, 0x68), (shadow, 0x6c),
     (faint, 0x70), (shadow, 0x90), (cur, 0x80), (cur, 0x28), (shadow, 0x94), (highlight, 0x98),
     (highlight, 0x9c), (faint, 0xa0), (cur, 0x74), (shadow, 0x78), (faint, 0x7c), (cur, 0x1a4),
     (shadow, 0x1a8), (highlight, 0x2c), (shadow, 0x30), (shadow, 0xb0), (cur, 0x148), (faint, 0x14c),
     (shadow, 0x158), (shadow, 0x15c), (cur, 0x238), (faint, 0x23c), (shadow, 0x240), (cur, 0x244),
     (faint, 0x248), (cur, 0x24c), (shadow, 0x250), (cur, 0x1e4), (faint, 0x1e8), (shadow, 0x1ec),
     (cur, 0x1f0), (faint, 0x1f4), (cur, 0x1f8), (shadow, 0x1fc), (shadow, 0xc8), (cur, 0xcc),
     (faint, 0xd0)]"

definition original_offsets :: "u32 list" where
  "original_offsets =
    [0x8c, 0x88, 0x1c, 0x1c8, 0x1cc, 0x1d0, 0x1d4, 0x1d8, 0x1dc, 0x1e0, 0x8, 0xc, 0x10, 0x28, 0x94, 0x98,
     0x9c, 0xa0, 0x74, 0x78, 0x7c, 0x1a4, 0x1a8, 0x68, 0x6c, 0x70, 0x90, 0x80, 0xb0, 0x30, 0x2c, 0x148,
     0x14c, 0x158, 0x15c, 0x238, 0x23c, 0x240, 0x244, 0x248, 0x24c, 0x250, 0x1e4, 0x1e8, 0x1ec, 0x1f0,
     0x1f4, 0x1f8, 0x1fc, 0xc8, 0xcc, 0xd0]"

definition write_colours :: "u32 \<Rightarrow> (u32 \<times> u32) list \<Rightarrow> unit act" where
  "write_colours base = for_each (\<lambda>(colour, offset). write32 colour (base + offset))"

definition HudAdjuster_run_mod :: "Game \<Rightarrow> Region \<Rightarrow> mod_act" where
  "HudAdjuster_run_mod game region m =
     (if (game \<noteq> PRIME_1 \<and> game \<noteq> PRIME_1_GCN) \<or> (region \<noteq> NTSC_U \<and> region \<noteq> PAL) then done_with m
      else lookups_dyn ''player'' (\<lambda>player.
        if player = 0 then done_with m
        else andthen (asks config) (\<lambda>c.
          if current_colour m = m_mpr_primary_hudcolour c \<and> minimal_mode m = m_mpr_minimal_mode c
             \<and> zoom_factor m = m_mpr_hud_zoom_factor c
          then done_with m
          else
            let cur = m_mpr_primary_hudcolour c; minimal = m_mpr_minimal_mode c; zoom = m_mpr_hud_zoom_factor c;
                m = m\<lparr>current_colour := cur, minimal_mode := minimal, zoom_factor := zoom\<rparr>
            in lookups ''tweak_gui_colors'' (\<lambda>tweak_gui_colors.
               lookups ''tweak_gui'' (\<lambda>tweak_gui.
               andthen (asks (\<lambda>s. (multiply_rgb s cur 0x3F000000, multiply_rgb s cur 0x3F4CCCCD,
                    multiply_rgb s cur 0x3F99999A))) (\<lambda>(faint, shadow, highlight).
               if cur = 0x5EABDFFF then
                 andthen (for_each (\<lambda>(address, var). write32 var address) (original_colours m)) (\<lambda>_.
                 andthen (write_colours tweak_gui_colors (take 5 (hud_colours minimal cur faint shadow highlight))) (\<lambda>_.
                 andthen (write32 0x28 (tweak_gui + 0xac)) (\<lambda>_. done_with m)))
               else
                 andthen (write32 (0x28 - zoom) (tweak_gui + 0xac)) (\<lambda>_.
                 andthen (write_colours tweak_gui_colors (hud_colours minimal cur faint shadow highlight)) (\<lambda>_.
                 done_with m))))))))"

definition add_original_colour :: "u32 \<Rightarrow> mod_act" where
  "add_original_colour address m =
     andthen (read32 address) (\<lambda>v. done_with (m\<lparr>original_colours := original_colours m @ [(address, v)]\<rparr>))"

fun add_original_colours :: "u32 list \<Rightarrow> mod_act" where
  "add_original_colours [] m = done_with m"
| "add_original_colours (a # as) m = andthen (add_original_colour a m) (add_original_colours as)"

definition HudAdjuster_init_mod :: "Game \<Rightarrow> Region \<Rightarrow> prime_mod \<Rightarrow> (bool \<times> prime_mod) act" where
  "HudAdjuster_init_mod game region m =
     (if (game \<noteq> PRIME_1 \<and> game \<noteq> PRIME_1_GCN) \<or> (region \<noteq> NTSC_U \<and> region \<noteq> PAL) then done_with (False, m)
      else lookups_dyn ''player'' (\<lambda>player.
        if player = 0 then done_with (False, m)
        else lookups ''tweak_gui_colors'' (\<lambda>tweak_gui_colors.
          andthen (add_original_colours (map (\<lambda>offset. tweak_gui_colors + offset) original_offsets) m) (\<lambda>m.
          done_with (True, m)))))"

definition HudAdjuster_on_state_change :: "ModState \<Rightarrow> mod_act" where
  "HudAdjuster_on_state_change old_state m = done_with (m\<lparr>current_colour := 0\<rparr>)"

section \<open>Messages in the display\<close>

text \<open>The host functions the patched game calls; \<open>time_offset\<close> is 0x30 in version 1.02 and 0x34 in 1.00.\<close>

definition hudmemo_overlay_adjust :: "u32 \<Rightarrow> u32 \<Rightarrow> unit act" where
  "hudmemo_overlay_adjust time_offset job =
     (if job = 0 then
        andthen (gpr_get 28) (\<lambda>r28.
        andthen (readf32 (r28 + time_offset)) (\<lambda>t.
        andthen (writef32 (f32_max t 0x40400000) (r28 + time_offset)) (\<lambda>_. gpr_set 4 0)))
      else if job = 1 then
        andthen (gpr_get 3) (\<lambda>r3.
        andthen (write32 1 (r3 + 0xd4 + 0x18)) (\<lambda>_.
        andthen (gpr_get 3) (\<lambda>r3. gpr_set 3 (r3 + 0xd4))))
      else done_with ())"

definition call_restart_streamed_audio :: "u32 \<Rightarrow> unit act" where
  "call_restart_streamed_audio param =
     andthen (gpr_get 0) (\<lambda>r0.
     if r0 = 1 then change (\<lambda>s. s\<lparr>restart_audio_timer := 0x40400000, restart_audio_signal := True\<rparr>)
     else done_with ())"

definition DisableHudMemoPopup_run_mod :: "Game \<Rightarrow> Region \<Rightarrow> mod_act" where
  "DisableHudMemoPopup_run_mod game region m =
     (if game \<noteq> PRIME_3 \<and> game \<noteq> PRIME_3_STANDALONE then done_with m
      else andthen (asks restart_audio_signal) (\<lambda>signal.
        if \<not> signal then done_with m
        else
          andthen (change (\<lambda>s. s\<lparr>restart_audio_timer := fsub s (restart_audio_timer s) 0x3C888889\<rparr>)) (\<lambda>_.
          andthen (asks restart_audio_timer) (\<lambda>timer.
          if f32_le timer 0 then
            andthen (change (\<lambda>s. s\<lparr>restart_audio_signal := False\<rparr>)) (\<lambda>_.
            lookups_dyn ''audio_fadein_time'' (\<lambda>audio_fadein_time.
            lookups_dyn ''audio_fade_mode'' (\<lambda>audio_fade_mode.
            if audio_fadein_time \<noteq> 0 \<and> audio_fade_mode \<noteq> 0 then
              andthen (writef32 0x40000000 audio_fadein_time) (\<lambda>_.
              andthen (write32 2 audio_fade_mode) (\<lambda>_. done_with m))
            else done_with m)))
          else done_with m))))"

definition hudmemo_patches_mp1 :: "Region \<Rightarrow> u32 \<Rightarrow> u32 \<Rightarrow> patch list" where
  "hudmemo_patches_mp1 region vmc_fix_time vmc_fix_justification =
     (if region = NTSC_U then
        plain [(0x801ed3e0, 0x48000018), (0x801ed408, vmc_fix_time), (0x801cc668, vmc_fix_justification)]
      else if region = PAL then
        plain [(0x801ed734, 0x48000018), (0x801ed75c, vmc_fix_time), (0x801cc964, vmc_fix_justification)]
      else plain [(0x801ee014, 0x48000018), (0x801ee03c, vmc_fix_time), (0x801cd208, vmc_fix_justification)])"

definition hudmemo_patches_mp1gc :: "Region \<Rightarrow> u32 \<Rightarrow> u32 \<Rightarrow> patch list" where
  "hudmemo_patches_mp1gc region vmc_fix_time vmc_fix_justification =
     (if region = NTSC_U then
        plain [(0x800e83bc, 0x48000018), (0x800e83e4, vmc_fix_time), (0x80064928, vmc_fix_justification)]
      else if region = PAL then
        plain [(0x800e03c8, 0x48000018), (0x800e03f0, vmc_fix_time), (0x800657c4, vmc_fix_justification)]
      else [])"

definition hudmemo_patches_mp3 :: "Game \<Rightarrow> Region \<Rightarrow> u32 \<Rightarrow> patch list" where
  "hudmemo_patches_mp3 game region vmc_restart_audio =
     (if game = PRIME_3 then
        (if region = NTSC_U then plain [(0x8021c9c4, vmc_restart_audio)]
         else if region = PAL then plain [(0x8021c4a4, vmc_restart_audio)] else [])
      else if game = PRIME_3_STANDALONE then
        (if region = NTSC_U then plain [(0x8021fe80, vmc_restart_audio)]
         else if region = PAL then plain [(0x80220f10, vmc_restart_audio)]
         else plain [(0x8022251c, vmc_restart_audio)])
      else [])"

definition hudmemo_patches_mp2 :: "Game \<Rightarrow> Region \<Rightarrow> patch list" where
  "hudmemo_patches_mp2 game region =
     (if game = PRIME_2 then
        (if region = NTSC_U then plain [(0x801f3354, 0x48000018)]
         else if region = PAL then plain [(0x801f586c, 0x48000018)] else plain [(0x801f2368, 0x48000018)])
      else if game = PRIME_2_GCN then
        (if region = NTSC_U then plain [(0x800bb10c, 0x48000018)]
         else if region = PAL then plain [(0x800bb1a0, 0x48000018)] else plain [(0x800bbe9c, 0x48000018)])
      else [])"

text \<open>With a full table the functions for the first game give up; the one for the third patches in index -1.\<close>

definition DisableHudMemoPopup_init_mod :: "Game \<Rightarrow> Region \<Rightarrow> prime_mod \<Rightarrow> (bool \<times> prime_mod) act" where
  "DisableHudMemoPopup_init_mod game region m =
     (let fix = (\<lambda>f patches. andthen (RegisterVmcall f) (\<lambda>i.
            done_with (True, if i = - 1 then m else
              add_code_changes (patches region (gen_vmcall (word_of_int i) 0) (gen_vmcall (word_of_int i) 1)) m)))
      in case game of
           PRIME_1 \<Rightarrow> fix hudmemo_overlay_adjust_mp1_102 hudmemo_patches_mp1
         | PRIME_1_GCN \<Rightarrow> fix (if region = NTSC_U then hudmemo_overlay_adjust_mp1_100
                              else hudmemo_overlay_adjust_mp1_102) hudmemo_patches_mp1gc
         | PRIME_3 \<Rightarrow> andthen (RegisterVmcall restart_streamed_audio_mp3) (\<lambda>i.
             done_with (True, add_code_changes (hudmemo_patches_mp3 game region (gen_vmcall (word_of_int i) 0)) m))
         | PRIME_3_STANDALONE \<Rightarrow> andthen (RegisterVmcall restart_streamed_audio_mp3) (\<lambda>i.
             done_with (True, add_code_changes (hudmemo_patches_mp3 game region (gen_vmcall (word_of_int i) 0)) m))
         | _ \<Rightarrow> done_with (True, add_code_changes (hudmemo_patches_mp2 game region) m))"

section \<open>Puzzles\<close>

definition SetLockCamera :: "CameraLock \<Rightarrow> unit act" where
  "SetLockCamera l = change (\<lambda>s. s\<lparr>lock_camera := l\<rparr>)"

definition blacklisted_editor_ids :: "u32 set" where
  "blacklisted_editor_ids = set [0x180263, 0x0D0853, 0x1003F0, 0x02072F, 0x0202AB, 0x2105F8, 0x020428, 0x02027E,
     0x1202E7, 0x020208, 0x1C0004, 0x02029C, 0x0202AF, 0x080305, 0x0202F7]"

definition motion_puzzle :: "u32 \<Rightarrow> unit act" where
  "motion_puzzle entity =
     andthen (read32 (entity + 0x14c)) (\<lambda>puzzle_state.
     andthen (asks config) (\<lambda>c.
     andthen
       (if ImprovedMotionControls c \<and> puzzle_state = 3 then
          andthen (readf32 (entity + 0x154)) (\<lambda>step.
          andthen (asks (\<lambda>s.
            let step = (if CheckForward c then fadd s step 0x3D4CCCCD else step);
                step = (if CheckBack c then fsub s step 0x3D4CCCCD else step)
            in f32_clamp step 0 0x3F800000)) (\<lambda>v. writef32 v (entity + 0x154)))
        else done_with ()) (\<lambda>_.
     if LockCameraInPuzzles c \<and> puzzle_state > 0 then
       andthen (read32 (entity + 0xC)) (\<lambda>w.
       SetLockCamera (if w AND 0x00FFFFFF \<notin> blacklisted_editor_ids then Centre else Angle45))
     else done_with ())))"

definition turn_lock :: "unit act" where
  "turn_lock =
     andthen (asks (\<lambda>s.
       let velocity = (if CheckRight (config s) then 0x3D23D70A else 0)
       in if CheckLeft (config s) then fsub s velocity 0x3D23D70A else velocity)) (\<lambda>velocity.
     set_variable_float ''rotary_velocity'' velocity)"

definition process_entity :: "u32 \<Rightarrow> u32 \<Rightarrow> u32 \<Rightarrow> unit act" where
  "process_entity motion_vf dna_scanner_vftable entity =
     andthen (read32 (entity + 0x38)) (\<lambda>entity_flags.
     if (entity_flags AND 0x20000000 \<noteq> 0 \<and> drop_bit 8 entity_flags AND 0x2000 = 0)
        \<or> drop_bit 8 entity_flags AND 0x1000 \<noteq> 0
     then
       andthen (read32 entity) (\<lambda>vf_table.
       andthen (read32 (vf_table + 0xc)) (\<lambda>vft_func.
       if vft_func = motion_vf then motion_puzzle entity
       else if vft_func = motion_vf + 0x38 \<or> vf_table = dna_scanner_vftable then turn_lock
       else done_with ()))
     else done_with ())"

fun walk_objects :: "u32 \<Rightarrow> u32 \<Rightarrow> u32 \<Rightarrow> nat \<Rightarrow> u32 \<Rightarrow> unit act" where
  "walk_objects object_list motion_vf dna_scanner_vftable 0 it = done_with ()"
| "walk_objects object_list motion_vf dna_scanner_vftable (Suc n) it =
     andthen (read32 it) (\<lambda>entity.
     andthen (process_entity motion_vf dna_scanner_vftable entity) (\<lambda>_.
     andthen (read16 (it + 6)) (\<lambda>next_id.
     if next_id = 0xffff then done_with ()
     else walk_objects object_list motion_vf dna_scanner_vftable n (object_list + 4 + ucast next_id * 8))))"

definition ContextSensitiveControls_run_mod :: "Game \<Rightarrow> Region \<Rightarrow> mod_act" where
  "ContextSensitiveControls_run_mod game region m =
     andthen (SetLockCamera Unlocked) (\<lambda>_.
     if game \<noteq> PRIME_3 \<and> game \<noteq> PRIME_3_STANDALONE then done_with m
     else lookups_dyn ''object_list'' (\<lambda>object_list.
       lookups ''motion_vf'' (\<lambda>motion_vf.
       lookups ''dna_scanner_vftable'' (\<lambda>dna_scanner_vftable.
       andthen (walk_objects object_list motion_vf dna_scanner_vftable 2048 (object_list + 4)) (\<lambda>_. done_with m)))))"

end
