(* ===== verification/Prime_FpsControls.thy ===== *)
theory Prime_FpsControls
  imports Prime_View
begin

text \<open>
  \<open>FpsControls.cpp\<close>: the view follows the mouse, and keys select beams and visors.  The cursor on the
  screen and the functions of \<open>libm\<close> are an argument \<open>L\<close>, the record \<open>fps_env\<close>; \<open>asin\<close> and the others take and
  give the bits of a \<open>float\<close>.  The beam's texture is left out.
\<close>

record fps_env =
  libm_asin :: "u32 \<Rightarrow> u32"
  libm_atan2 :: "u32 \<Rightarrow> u32 \<Rightarrow> u32"
  libm_sin :: "u32 \<Rightarrow> u32"
  libm_cos :: "u32 \<Rightarrow> u32"
  handle_cursor :: "u32 \<Rightarrow> u32 \<Rightarrow> Region \<Rightarrow> unit act"
  handle_reticle :: "u32 \<Rightarrow> u32 \<Rightarrow> Region \<Rightarrow> u32 \<Rightarrow> unit act"

section \<open>Tables\<close>

definition prime_one_beams :: "nat list" where "prime_one_beams = [0, 2, 1, 3]"
definition prime_two_beams :: "nat list" where "prime_two_beams = [0, 1, 2, 3]"

definition prime_one_visors :: "(int \<times> int) list" where
  "prime_one_visors = [(0, 0x11), (2, 0x05), (3, 0x09), (1, 0x0d)]"
definition prime_two_visors :: "(int \<times> int) list" where
  "prime_two_visors = [(0, 0x08), (2, 0x09), (3, 0x0a), (1, 0x0b)]"
definition prime_three_visors :: "(int \<times> int) list" where
  "prime_three_visors = [(0, 0x0b), (1, 0x0c), (2, 0x0d), (3, 0x0e)]"

definition ORBIT_STATE_GRAPPLE :: u32 where "ORBIT_STATE_GRAPPLE = 5"

text \<open>The wide string with its terminator, and the length the code compares.\<close>

definition RIDLEY_STR :: "Region \<Rightarrow> u16 list" where
  "RIDLEY_STR r =
     (if r = NTSC_J then [0x30e1, 0x30bf, 0x30ea, 0x30c9, 0x30fc, 0]
      else map of_char ''Meta Ridley'' @ [0])"

definition RIDLEY_STR_LEN :: "Region \<Rightarrow> nat" where
  "RIDLEY_STR_LEN r = (if r = NTSC_J then 6 else 11)"

text \<open>
  The comparison from index \<open>i\<close> on; \<open>n\<close> is \<open>str_len - i\<close>.  The result is \<open>None\<close> at a character that
  differs, and otherwise the index and the address where the loop stops.
\<close>

fun compare_name :: "u16 list \<Rightarrow> nat \<Rightarrow> nat \<Rightarrow> u32 \<Rightarrow> (nat \<times> u32) option act" where
  "compare_name str i 0 string_base =
     andthen (read16 string_base) (\<lambda>_. done_with (Some (i, string_base)))"
| "compare_name str i (Suc n) string_base =
     andthen (read16 string_base) (\<lambda>c.
     if c = 0 then done_with (Some (i, string_base))
     else andthen (read16 string_base) (\<lambda>c.
       if c \<noteq> str ! i then done_with None else compare_name str (i + 1) n (string_base + 2)))"

definition is_string_ridley :: "Region \<Rightarrow> u32 \<Rightarrow> bool act" where
  "is_string_ridley region string_base =
     (if string_base = 0 then done_with False
      else andthen (compare_name (RIDLEY_STR region) 0 (RIDLEY_STR_LEN region) string_base) (\<lambda>r.
        case r of
          None \<Rightarrow> done_with False
        | Some (str_idx, string_base) \<Rightarrow>
            if str_idx = RIDLEY_STR_LEN region
            then andthen (read16 string_base) (\<lambda>c. done_with (c = 0)) else done_with False))"

section \<open>Angles\<close>

definition kTurnrateRatio :: u32 where "kTurnrateRatio = 0x3BA36718"

definition compensated_sens :: "prime \<Rightarrow> u32" where
  "compensated_sens s = fdiv s (fmul s (GetSensitivity (config s)) kTurnrateRatio) 0x42700000"

definition axis_float :: "prime \<Rightarrow> u64 \<Rightarrow> u32" where
  "axis_float s x = f64_to_f32 (host_mode (cpu s)) (host_ftz (cpu s)) x"

definition clamp_pitch :: "u32 \<Rightarrow> u32" where "clamp_pitch p = f32_clamp p 0xBFC28F5C 0x3FC28F5C"

text \<open>\<open>angle + (float)axis * sens * (inverted ? 1 : -1)\<close>.\<close>

definition turned :: "prime \<Rightarrow> u32 \<Rightarrow> u64 \<Rightarrow> bool \<Rightarrow> u32" where
  "turned s angle axis inverted =
     fadd s angle (fmul s (fmul s (axis_float s axis) (compensated_sens s))
       (if inverted then 0x3F800000 else 0xBF800000))"

definition new_pitch :: "prime_mod \<Rightarrow> prime \<Rightarrow> u32" where
  "new_pitch m s = clamp_pitch (turned s (pitch m) (GetVerticalAxis (config s)) (InvertedY (config s)))"

definition calculate_pitch_delta :: mod_act where
  "calculate_pitch_delta m = asks (\<lambda>s. m\<lparr>pitch := new_pitch m s\<rparr>)"

definition yaw_clamp :: "prime \<Rightarrow> u32 \<Rightarrow> u32" where
  "yaw_clamp s t =
     (if f32_less 0x40490FDB t then fsub s t 0x40C90FDB
      else if f32_less t 0xC0490FDB then fadd s t 0x40C90FDB else t)"

definition calculate_pitchyaw_delta :: mod_act where
  "calculate_pitchyaw_delta m = asks (\<lambda>s. m\<lparr>pitch := new_pitch m s,
     yaw := yaw_clamp s (turned s (yaw m) (GetHorizontalAxis (config s)) (InvertedX (config s)))\<rparr>)"

definition camera_xf_offset :: "Game \<Rightarrow> u32" where
  "camera_xf_offset game =
     (case game of PRIME_1 \<Rightarrow> 0x2c | PRIME_1_GCN \<Rightarrow> 0x34 | PRIME_2 \<Rightarrow> 0x20 | PRIME_2_GCN \<Rightarrow> 0x24
      | PRIME_3 \<Rightarrow> 0x3c | PRIME_3_STANDALONE \<Rightarrow> 0x3c | _ \<Rightarrow> 0)"

definition calculate_pitch_locked :: "fps_env \<Rightarrow> Game \<Rightarrow> mod_act" where
  "calculate_pitch_locked L game m =
     lookups_dyn ''object_list'' (\<lambda>object_list.
     lookups_dyn ''camera_manager'' (\<lambda>camera_manager.
     andthen (read16 camera_manager) (\<lambda>camera_uid.
     if camera_uid = 0xffff then done_with m
     else andthen (read32 (camera_slot object_list camera_uid 0x3ff)) (\<lambda>camera.
       andthen (tf_read_from (camera + camera_xf_offset game)) (\<lambda>t.
       case tf_fwd t of (x, y, z) \<Rightarrow> done_with (m\<lparr>pitch := clamp_pitch (libm_asin L z)\<rparr>))))))"

definition calculate_pitch_to_target :: "u32 \<Rightarrow> mod_act" where
  "calculate_pitch_to_target target_pitch m = asks (\<lambda>s.
     if f32_less (fsub s target_pitch 0x3D4CCCCD) (pitch m) \<and> f32_less (pitch m) (fadd s target_pitch 0x3D4CCCCD)
     then m\<lparr>pitch_delta := 0, pitch := target_pitch\<rparr>
     else
       (let m = (if pitch_delta m = 0 then m\<lparr>start_pitch := pitch m\<rparr> else m)
        in m\<lparr>pitch := clamp_pitch (Lerp s (start_pitch m) target_pitch
               (fdiv s (f32_of_int (host_mode (cpu s)) (int (pitch_delta m))) 0x41700000)),
             pitch_delta := pitch_delta m + 1\<rparr>))"

definition calculate_yaw_vel :: "prime \<Rightarrow> u64" where
  "calculate_yaw_vel s =
     f64_mul (host_mode (cpu s)) (host_ftz (cpu s))
       (f64_mul (host_mode (cpu s)) (host_ftz (cpu s)) (GetHorizontalAxis (config s))
         (f32_to_f64 (GetSensitivity (config s))))
       (if InvertedX (config s) then 0x3FF0000000000000 else 0xBFF0000000000000)"

definition yaw_vel :: "prime \<Rightarrow> u32" where "yaw_vel s = axis_float s (calculate_yaw_vel s)"

section \<open>Beams and visors\<close>

definition power_up :: "u32 \<Rightarrow> u32 \<Rightarrow> u32 \<Rightarrow> int \<Rightarrow> u32 act" where
  "power_up powerups_array powerups_size powerups_offset i =
     read32 (powerups_array + word_of_int i * powerups_size + powerups_offset)"

text \<open>One round of the loop that copies what the player owns.\<close>

definition copy_owned :: "u32 \<Rightarrow> u32 \<Rightarrow> u32 \<Rightarrow> bool \<Rightarrow> nat list \<Rightarrow> (int \<times> int) list \<Rightarrow> nat \<Rightarrow> unit act" where
  "copy_owned arr sz off beams_too beams visors i =
     andthen (power_up arr sz off (snd (visors ! i))) (\<lambda>v.
     andthen (change (set_visor_owned i (v \<noteq> 0))) (\<lambda>_.
     if beams_too then
       andthen (power_up arr sz off (int (beams ! i))) (\<lambda>b. change (set_beam_owned i (b \<noteq> 0)))
     else done_with ()))"

definition switch_beam :: "nat list \<Rightarrow> mod_act" where
  "switch_beam beams m s =
     (case get_beam_switch beams s of
        (beam_id, s) \<Rightarrow>
          if beam_id = - 1 then Inr (m, s)
          else if 800000000 < clock_now (config s) - beam_scroll_timeout m then
            andthen (set_variable_u32 ''new_beam'' (word_of_int beam_id)) (\<lambda>_.
            andthen (set_variable_u32 ''beamchange_flag'' 1) (\<lambda>_.
            asks (\<lambda>s. m\<lparr>beam_scroll_timeout := clock_now (config s)\<rparr>))) s
          else Inr (m, s))"

definition holster :: "u32 \<Rightarrow> unit act" where
  "holster timer =
     andthen (asks active_game) (\<lambda>game.
     if game = PRIME_1 \<or> game = PRIME_2 then
       lookups_dyn ''gun_holster_state'' (\<lambda>gun_holster_state.
       lookups ''holster_timer_offset'' (\<lambda>holster_timer_offset.
       andthen (write32 3 gun_holster_state) (\<lambda>_. writef32 timer (gun_holster_state + holster_timer_offset))))
     else done_with ())"

definition visor_switch :: "(int \<times> int) list \<Rightarrow> bool \<Rightarrow> (int \<times> int) act" where
  "visor_switch visors combat_visor s = Inr (get_visor_switch visors combat_visor s)"

definition handle_beam_visor_switch :: "nat list \<Rightarrow> (int \<times> int) list \<Rightarrow> mod_act" where
  "handle_beam_visor_switch beams visors m =
     lookups_dyn ''powerups_array'' (\<lambda>powerups_array.
     lookups ''powerups_size'' (\<lambda>powerups_size.
     lookups ''powerups_offset'' (\<lambda>powerups_offset.
     andthen (for_each (copy_owned powerups_array powerups_size powerups_offset (has_beams m) beams visors) [0..<4]) (\<lambda>_.
     andthen (if has_beams m then switch_beam beams m else done_with m) (\<lambda>m.
     lookups_dyn ''active_visor'' (\<lambda>active_visor.
     andthen (read32 active_visor) (\<lambda>v.
     andthen (visor_switch visors (v = 0)) (\<lambda>(visor_id, visor_off).
     andthen (asks (GetCannonHolster \<circ> config)) (\<lambda>holstered.
     andthen
       (if holstered then holster 0
        else if visor_id \<noteq> - 1 then
          andthen (power_up powerups_array powerups_size powerups_offset visor_off) (\<lambda>owned.
          if owned \<noteq> 0 then
            andthen (write32 (word_of_int visor_id) active_visor) (\<lambda>_.
            if visor_id = 2 then holster 0x3E4CCCCD else done_with ())
          else done_with ())
        else done_with ()) (\<lambda>_. done_with m))))))))))"

definition CheckBeamVisorSetting :: "Game \<Rightarrow> mod_act" where
  "CheckBeamVisorSetting game m =
     andthen (asks (GetMenuOptions \<circ> config)) (\<lambda>(beam, visor).
     andthen (if game = PRIME_1 \<or> game = PRIME_2 then set_group ''beam_menu'' (if beam then DISABLED else ENABLED) m
              else done_with m) (\<lambda>m.
     if game = PRIME_1 \<or> game = PRIME_2 \<or> game = PRIME_3 \<or> game = PRIME_3_STANDALONE
     then set_group ''visor_menu'' (if visor then DISABLED else ENABLED) m else done_with m))"

section \<open>The games\<close>

definition run_mod_menu :: "fps_env \<Rightarrow> Game \<Rightarrow> Region \<Rightarrow> unit act" where
  "run_mod_menu L game region =
     (case region of
        NTSC_U \<Rightarrow> handle_cursor L 0x80913c9c 0x80913d5c region
      | NTSC_J \<Rightarrow>
          andthen (if game = MENU_PRIME_1 then handle_cursor L 0x805a7da8 0x805a7dac region else done_with ()) (\<lambda>_.
          if game = MENU_PRIME_2 then handle_cursor L 0x805a7ba8 0x805a7bac region else done_with ())
      | PAL \<Rightarrow> andthen (read32 0x80621ffc) (\<lambda>cursor_address.
          handle_cursor L (cursor_address + 0xdc) (cursor_address + 0x19c) region)
      | INVALID_REGION \<Rightarrow> done_with ())"

definition set_cursor_pos :: "u32 \<Rightarrow> u32 \<Rightarrow> unit act" where
  "set_cursor_pos x y = change (\<lambda>s. s\<lparr>cursor_x := x, cursor_y := y\<rparr>)"

definition reticle :: "fps_env \<Rightarrow> u32 \<Rightarrow> Region \<Rightarrow> unit act" where
  "reticle L cursor region =
     andthen (asks (GetFov \<circ> config)) (\<lambda>fov. handle_reticle L (cursor + 0x9c) (cursor + 0x15c) region fov)"

text \<open>What the functions for the first two games do while a menu or a lock holds the view.\<close>

definition reticle_in_menu :: "fps_env \<Rightarrow> u32 \<Rightarrow> Region \<Rightarrow> bool \<Rightarrow> mod_act" where
  "reticle_in_menu L cursor region menu m =
     (if menu then
        lookups_dyn ''beamvisor_menu_mode'' (\<lambda>beamvisor_menu_mode.
        andthen (read32 beamvisor_menu_mode) (\<lambda>mode.
        if mode \<noteq> 0xFFFFFFFF then
          andthen (if \<not> menu_open m then set_group ''beam_change'' DISABLED m else done_with m) (\<lambda>m.
          andthen (reticle L cursor region) (\<lambda>_. done_with (m\<lparr>menu_open := True\<rparr>)))
        else done_with m))
      else andthen (asks (HandleReticleLockOn \<circ> config)) (\<lambda>lock.
        if lock then andthen (reticle L cursor region) (\<lambda>_. done_with m) else done_with m))"

definition leave_menu :: mod_act where
  "leave_menu m =
     (if menu_open m then
        andthen (set_group ''beam_change'' ENABLED m) (\<lambda>m. done_with (m\<lparr>menu_open := False\<rparr>))
      else done_with m)"

definition view_locked :: "u32 \<Rightarrow> u32 \<Rightarrow> bool \<Rightarrow> bool act" where
  "view_locked orbit_state lockon_state menu =
     andthen (read32 orbit_state) (\<lambda>o_state.
     if o_state \<noteq> ORBIT_STATE_GRAPPLE then andthen (read8 lockon_state) (\<lambda>l. done_with (l \<noteq> 0 \<or> menu))
     else done_with menu)"

definition write_yaw :: "u32 \<Rightarrow> unit act" where
  "write_yaw angular_momentum =
     lookups_dyn ''ball_state'' (\<lambda>ball_state.
     andthen (read32 ball_state) (\<lambda>v.
     if v = 0 then andthen (asks yaw_vel) (\<lambda>w. writef32 w angular_momentum) else done_with ()))"

definition FpsControls_run_mod_mp1 :: "fps_env \<Rightarrow> Region \<Rightarrow> mod_act" where
  "FpsControls_run_mod_mp1 L region =
     with_player (\<lambda>player m.
     andthen (handle_beam_visor_switch prime_one_beams prime_one_visors m) (\<lambda>m.
     andthen (CheckBeamVisorSetting PRIME_1 m) (\<lambda>m.
     lookups_dyn ''beamvisor_menu_state'' (\<lambda>beamvisor_menu_state.
     andthen (read32 beamvisor_menu_state) (\<lambda>v.
     let menu = (v = 1)
     in lookups_dyn ''orbit_state'' (\<lambda>orbit_state.
        lookups_dyn ''lockon_state'' (\<lambda>lockon_state.
        andthen (view_locked orbit_state lockon_state menu) (\<lambda>locked.
        lookups_dyn ''cursor'' (\<lambda>cursor.
        lookups_dyn ''angular_vel'' (\<lambda>angular_vel.
        lookups_dyn ''angular_momentum'' (\<lambda>angular_momentum.
        lookups_dyn ''firstperson_pitch'' (\<lambda>firstperson_pitch.
        lookups ''arm_cannon_matrix'' (\<lambda>arm_cannon_matrix.
        if locked then
          andthen (write32 0 angular_momentum) (\<lambda>_.
          andthen (write32 0 angular_vel) (\<lambda>_.
          andthen (calculate_pitch_locked L PRIME_1 m) (\<lambda>m.
          andthen (writef32 (pitch m) firstperson_pitch) (\<lambda>_.
          andthen (writef32 (pitch m) arm_cannon_matrix) (\<lambda>_.
          reticle_in_menu L cursor region menu m)))))
        else
          andthen (leave_menu m) (\<lambda>m.
          andthen (set_cursor_pos 0 0) (\<lambda>_.
          andthen (write32 0 (cursor + 0x9c)) (\<lambda>_.
          andthen (write32 0 (cursor + 0x15c)) (\<lambda>_.
          andthen (calculate_pitch_delta m) (\<lambda>m.
          andthen (writef32 (pitch m) firstperson_pitch) (\<lambda>_.
          andthen (writef32 (pitch m) arm_cannon_matrix) (\<lambda>_.
          lookups ''tweakplayer'' (\<lambda>tweakplayer.
          andthen (writef32 0x3FC28F5C (tweakplayer + 0x134)) (\<lambda>_.
          andthen (write32 0 angular_vel) (\<lambda>_.
          andthen (write_yaw angular_momentum) (\<lambda>_. done_with m))))))))))))))))))))))))"

text \<open>\<open>build_rotation\<close> takes the angle a quarter turn back and fills the first three columns.\<close>

definition build_rotation :: "fps_env \<Rightarrow> prime \<Rightarrow> u32 \<Rightarrow> Transform \<Rightarrow> Transform" where
  "build_rotation L s yaw_angle t =
     (let a = fsub s yaw_angle 0x3FC90FDB; sy = libm_sin L a; cy = libm_cos L a
      in t(0 := cy, 4 := sy, 8 := 0, 1 := f32_negate sy, 5 := cy, 9 := 0, 2 := 0, 6 := 0, 10 := 0x3F800000))"

definition tf_write_to :: "Transform \<Rightarrow> u32 \<Rightarrow> unit act" where
  "tf_write_to t address = for_each (\<lambda>i. writef32 (t i) (address + of_nat i * 4)) [0..<12]"

definition yaw_of :: "fps_env \<Rightarrow> Transform \<Rightarrow> u32" where
  "yaw_of L t = (case tf_fwd t of (x, y, z) \<Rightarrow> libm_atan2 L y x)"

definition crosshair :: "mod_act" where
  "crosshair m =
     andthen (asks (GetShowGCCrosshair \<circ> config)) (\<lambda>show.
     set_group ''show_crosshair'' (if show then ENABLED else DISABLED) m)"

definition write_crosshair :: "u32 \<Rightarrow> unit act" where
  "write_crosshair address =
     andthen (asks config) (\<lambda>c.
     if GetShowGCCrosshair c then write32 (GetGCCrosshairColor c) address else done_with ())"

definition FpsControls_run_mod_mp1_gc :: "fps_env \<Rightarrow> Region \<Rightarrow> mod_act" where
  "FpsControls_run_mod_mp1_gc L region m =
     andthen (read8 0x80000007) (\<lambda>version.
     if version \<noteq> 0 then done_with m
     else andthen (crosshair m) (\<lambda>m.
     lookups ''crosshair_color'' (\<lambda>crosshair_color.
     andthen (write_crosshair crosshair_color) (\<lambda>_.
     with_player (\<lambda>player m.
     lookups_dyn ''player_xf'' (\<lambda>player_xf.
     andthen (tf_read_from player_xf) (\<lambda>cplayer_xf.
     lookups_dyn ''orbit_state'' (\<lambda>orbit_state.
     andthen (read32 orbit_state) (\<lambda>orbit_state_val.
     if orbit_state_val \<noteq> ORBIT_STATE_GRAPPLE \<and> orbit_state_val \<noteq> 0 then
       andthen (calculate_pitch_locked L PRIME_1_GCN m) (\<lambda>m.
       lookups_dyn ''firstperson_pitch'' (\<lambda>firstperson_pitch.
       andthen (writef32 (pitch m) firstperson_pitch) (\<lambda>_. done_with (m\<lparr>yaw := yaw_of L cplayer_xf\<rparr>))))
     else lookups_dyn ''ball_state'' (\<lambda>ball_state.
       andthen (read32 ball_state) (\<lambda>v.
       if v \<noteq> 0 then done_with (m\<lparr>yaw := yaw_of L cplayer_xf\<rparr>)
       else
         andthen (calculate_pitchyaw_delta m) (\<lambda>m.
         lookups ''tweak_player'' (\<lambda>tweak_player.
         lookups_dyn ''firstperson_pitch'' (\<lambda>firstperson_pitch.
         lookups_dyn ''angular_vel'' (\<lambda>angular_vel.
         andthen (writef32 (pitch m) firstperson_pitch) (\<lambda>_.
         andthen (writef32 0x3FC28F5C (tweak_player + 0x134)) (\<lambda>_.
         andthen (writef32 0 angular_vel) (\<lambda>_.
         andthen (asks (\<lambda>s. build_rotation L s (yaw m) cplayer_xf)) (\<lambda>t.
         andthen (tf_write_to t player_xf) (\<lambda>_.
         andthen (for_each (\<lambda>i. andthen (writef32 0 (tweak_player + 0x84 + of_nat i * 4)) (\<lambda>_.
             writef32 0 (tweak_player + 0x84 + of_nat i * 4 - 32))) [0..<8]) (\<lambda>_.
         lookups_dyn ''freelook_rotation_speed'' (\<lambda>freelook_rotation_speed.
         lookups_dyn ''air_transitional_friction'' (\<lambda>air_transitional_friction.
         andthen (write32 0x4f800000 freelook_rotation_speed) (\<lambda>_.
         andthen (writef32 0x3E800000 air_transitional_friction) (\<lambda>_. done_with m))))))))))))))))))))) m))))"

definition FpsControls_run_mod_mp2 :: "fps_env \<Rightarrow> Region \<Rightarrow> mod_act" where
  "FpsControls_run_mod_mp2 L region m =
     andthen (CheckBeamVisorSetting PRIME_2 m) (
     with_player (\<lambda>player m.
     lookups_dyn ''load_state'' (\<lambda>load_addr.
     andthen (read32 load_addr) (\<lambda>v.
     if v \<noteq> 1 then done_with m
     else
     andthen (handle_beam_visor_switch prime_two_beams prime_two_visors m) (\<lambda>m.
     lookups_dyn ''beamvisor_menu_state'' (\<lambda>beamvisor_menu_state.
     andthen (read32 beamvisor_menu_state) (\<lambda>v.
     let menu = (v = 1)
     in lookups_dyn ''orbit_state'' (\<lambda>orbit_state.
        lookups_dyn ''lockon_state'' (\<lambda>lockon_state.
        andthen (view_locked orbit_state lockon_state menu) (\<lambda>locked.
        lookups_dyn ''cursor'' (\<lambda>cursor.
        lookups_dyn ''angular_momentum'' (\<lambda>angular_momentum.
        if locked then
          lookups_dyn ''firstperson_pitch'' (\<lambda>firstperson_pitch.
          andthen (write32 0 angular_momentum) (\<lambda>_.
          andthen (calculate_pitch_locked L PRIME_2 m) (\<lambda>m.
          andthen (writef32 (pitch m) firstperson_pitch) (\<lambda>_.
          reticle_in_menu L cursor region menu m))))
        else
          andthen (leave_menu m) (\<lambda>m.
          andthen (set_cursor_pos 0 0) (\<lambda>_.
          andthen (write32 0 (cursor + 0x9c)) (\<lambda>_.
          andthen (write32 0 (cursor + 0x15c)) (\<lambda>_.
          andthen (calculate_pitch_delta m) (\<lambda>m.
          lookups_dyn ''firstperson_pitch'' (\<lambda>firstperson_pitch.
          andthen (writef32 (pitch m) firstperson_pitch) (\<lambda>_.
          lookups_dyn ''armcannon_matrix'' (\<lambda>armcannon_matrix.
          andthen (writef32 (pitch m) (armcannon_matrix + 0x24)) (\<lambda>_.
          lookups ''tweak_player_offset'' (\<lambda>tweak_player_offset.
          andthen (gpr_get 13) (\<lambda>r13.
          andthen (read32 (r13 + tweak_player_offset)) (\<lambda>t.
          andthen (read32 t) (\<lambda>tweak_player_address.
          andthen (if mem_check tweak_player_address
                   then writef32 0x42AE2DE0 (tweak_player_address + 0x180) else done_with ()) (\<lambda>_.
          andthen (write_yaw angular_momentum) (\<lambda>_.
          andthen (write32 0 (angular_momentum + 0x18)) (\<lambda>_. done_with m))))))))))))))))))))))))))))"

definition FpsControls_run_mod_mp2_gc :: "fps_env \<Rightarrow> mod_act" where
  "FpsControls_run_mod_mp2_gc L m =
     lookups_dyn ''world'' (\<lambda>world.
     if world = 0 then done_with m
     else andthen (read32 (world + 0x4)) (\<lambda>phase.
     if phase \<noteq> 4 then done_with m
     else with_player (\<lambda>player m.
     andthen (crosshair m) (\<lambda>m.
     lookups ''tweakgui_offset'' (\<lambda>tweakgui_offset.
     andthen (gpr_get 13) (\<lambda>r13.
     andthen (read32 (r13 + tweakgui_offset)) (\<lambda>t.
     andthen (read32 t) (\<lambda>gui.
     andthen (write_crosshair (gui + 0x268)) (\<lambda>_.
     lookups_dyn ''orbit_state'' (\<lambda>orbit_state.
     lookups_dyn ''firstperson_pitch'' (\<lambda>firstperson_pitch.
     andthen (read32 orbit_state) (\<lambda>a.
     andthen (if a \<noteq> ORBIT_STATE_GRAPPLE then andthen (read32 orbit_state) (\<lambda>b. done_with (b \<noteq> 0))
              else done_with False) (\<lambda>locked.
     if locked then
       andthen (calculate_pitch_locked L PRIME_2_GCN m) (\<lambda>m.
       andthen (writef32 (pitch m) firstperson_pitch) (\<lambda>_. done_with m))
     else
       lookups ''tweak_player_offset'' (\<lambda>tweak_player_offset.
       andthen (read32 (r13 + tweak_player_offset)) (\<lambda>t.
       andthen (read32 t) (\<lambda>tweak_player_address.
       andthen
         (if mem_check tweak_player_address then
            andthen (write32 0x4f800000 (tweak_player_address + 0x188)) (\<lambda>_.
            andthen (writef32 0x42AE2DE0 (tweak_player_address + 0x184)) (\<lambda>_.
            andthen (writef32 0x3E800000 (tweak_player_address + 0x88)) (\<lambda>_.
            for_each (\<lambda>i. andthen (writef32 0x4CBEBC20 (tweak_player_address + 0xc4 + of_nat i * 4)) (\<lambda>_.
                writef32 0x3F800000 (tweak_player_address + 0xa4 + of_nat i * 4))) [0..<8])))
          else done_with ()) (\<lambda>_.
       andthen (calculate_pitch_delta m) (\<lambda>m.
       andthen (writef32 (pitch m) firstperson_pitch) (\<lambda>_.
       lookups_dyn ''ball_state'' (\<lambda>ball_state.
       andthen (read32 ball_state) (\<lambda>v.
       if v = 0 then
         lookups_dyn ''angular_vel'' (\<lambda>angular_vel.
         andthen (asks (\<lambda>s. fdiv s (yaw_vel s) 0x43480000)) (\<lambda>w.
         andthen (writef32 w angular_vel) (\<lambda>_. done_with m)))
       else done_with m))))))))))))))))))) m))"

section \<open>The third game\<close>

definition lasso_groups :: mod_act where
  "lasso_groups m =
     andthen (asks config) (\<lambda>c.
     if GrappleCtlBound c then
       andthen (set_group ''grapple_lasso'' ENABLED m) (\<lambda>m.
       set_group ''grapple_lasso_animation'' (if CheckForward c \<or> CheckBack c then DISABLED else ENABLED) m)
     else
       andthen (set_group ''grapple_lasso'' DISABLED m) (\<lambda>m.
       set_group ''grapple_lasso_animation'' DISABLED m))"

text \<open>The force of the lasso in a frame that holds a target.\<close>

definition pull_lasso :: "prime_mod \<Rightarrow> prime \<Rightarrow> prime_mod" where
  "pull_lasso m s =
     (let c = config s;
          m = (if CheckGrappleCtl c \<and> \<not> grapple_button_state m then
                 m\<lparr>grapple_button_state := True, grapple_swap_axis := \<not> grapple_swap_axis m,
                   grapple_force := (if GrappleTappingMode c then fadd s (grapple_force m) 0x3ECCCCCD
                                     else grapple_force m)\<rparr>
               else if \<not> CheckGrappleCtl c then
                 m\<lparr>grapple_button_state := False,
                   grapple_force := (if \<not> GrappleTappingMode c then fadd s (grapple_force m) 0x3F800000
                                     else grapple_force m)\<rparr>
               else m);
          m = (if f32_less 0 (grapple_force m) then
                 m\<lparr>grapple_hand_pos := fadd s (grapple_hand_pos m) 0x3D3851EC,
                   grapple_force := fsub s (grapple_force m) 0x3D3851EC\<rparr>
               else m\<lparr>grapple_hand_pos := fsub s (grapple_hand_pos m) 0x3D3851EC, grapple_force := 0\<rparr>)
      in m\<lparr>grapple_hand_pos := f32_clamp (grapple_hand_pos m) 0 0x3F800000\<rparr>)"

definition mp3_handle_lasso :: "u32 \<Rightarrow> mod_act" where
  "mp3_handle_lasso grapple_state_addr m =
     andthen (lasso_groups m) (\<lambda>m.
     andthen (read32 grapple_state_addr) (\<lambda>g.
     if g = 2 then
       andthen (asks (pull_lasso m)) (\<lambda>m.
       andthen (set_variable_float ''grapple_hand_x'' (grapple_hand_pos m)) (\<lambda>_.
       andthen (asks (\<lambda>s. fdiv s (grapple_hand_pos m) 0x40800000)) (\<lambda>y.
       andthen (set_variable_float ''grapple_hand_y'' y) (\<lambda>_.
       andthen (set_variable_u32 ''grapple_lasso_state''
           (if f32_le 0x3F800000 (grapple_hand_pos m) then 4 else 2)) (\<lambda>_. done_with m)))))
     else
       andthen (set_variable_float ''grapple_hand_x'' 0) (\<lambda>_.
       andthen (set_variable_float ''grapple_hand_y'' 0) (\<lambda>_.
       andthen (set_variable_u32 ''grapple_lasso_state'' 0) (\<lambda>_.
       done_with (m\<lparr>grapple_hand_pos := 0, grapple_force := 0, grapple_button_state := False\<rparr>))))))"

definition mp3_handle_cursor :: "fps_env \<Rightarrow> u32 \<Rightarrow> Region \<Rightarrow> bool \<Rightarrow> bool \<Rightarrow> unit act" where
  "mp3_handle_cursor L cursor region locked for_reticle =
     (if locked then andthen (write32 0 (cursor + 0x9c)) (\<lambda>_. write32 0 (cursor + 0x15c))
      else if for_reticle then reticle L cursor region
      else handle_cursor L (cursor + 0x9c) (cursor + 0x15c) region)"

text \<open>The part of \<open>run_mod_mp3\<close> after the lasso; \<open>writef32(target_pitch, pitch)\<close> takes the angle as the address.\<close>

definition mp3_view :: "fps_env \<Rightarrow> u32 \<Rightarrow> Region \<Rightarrow> u32 \<Rightarrow> u32 \<Rightarrow> mod_act" where
  "mp3_view L cursor region firstperson_pitch angular_momentum m =
     andthen (asks lock_camera) (\<lambda>lock.
     if lock \<noteq> Unlocked then
       (let target_pitch = (if lock = Centre then 0 else 0x3E6B851F)
        in if f32_equal (pitch m) target_pitch then
             andthen (writef32 target_pitch (word_of_int (f32_trunc (pitch m)))) (\<lambda>_.
             andthen (mp3_handle_cursor L cursor region False False) (\<lambda>_. done_with m))
           else
             andthen (calculate_pitch_to_target target_pitch m) (\<lambda>m.
             andthen (writef32 (pitch m) firstperson_pitch) (\<lambda>_. done_with m)))
     else
       andthen (mp3_handle_cursor L cursor region True True) (\<lambda>_.
       andthen (set_cursor_pos 0 0) (\<lambda>_.
       andthen (calculate_pitch_delta m) (\<lambda>m.
       lookups ''gun_lag_toc_offset'' (\<lambda>gun_lag_toc_offset.
       andthen (gpr_get 2) (\<lambda>r2.
       andthen (write32 0 (r2 + gun_lag_toc_offset)) (\<lambda>_.
       andthen (writef32 (pitch m) firstperson_pitch) (\<lambda>_.
       andthen (write_yaw angular_momentum) (\<lambda>_.
       andthen (write32 0 (angular_momentum + 0x18)) (\<lambda>_. done_with m))))))))))"

definition FpsControls_on_state_change :: "ModState \<Rightarrow> mod_act" where
  "FpsControls_on_state_change old_state m = done_with m"

text \<open>The fight with the boss; False when it ends the function.\<close>

definition mp3_boss :: "fps_env \<Rightarrow> u32 \<Rightarrow> Region \<Rightarrow> prime_mod \<Rightarrow> (bool \<times> prime_mod) act" where
  "mp3_boss L cursor region m =
     lookups_dyn ''boss_name'' (\<lambda>boss_name.
     lookups_dyn ''boss_status'' (\<lambda>boss_status.
     andthen (is_string_ridley region boss_name) (\<lambda>ridley.
     if ridley then
       andthen (read8 boss_status) (\<lambda>status.
       if status = 8 then
         andthen (set_state FpsControls_on_state_change ENABLED m) (\<lambda>m.
         andthen (mp3_handle_cursor L cursor region True True) (\<lambda>_. done_with (True, m)))
       else
         andthen (set_state FpsControls_on_state_change CODE_DISABLED m) (\<lambda>m.
         andthen (mp3_handle_cursor L cursor region False True) (\<lambda>_. done_with (False, m))))
     else done_with (True, m))))"

definition mp3_locked_on :: "u32 \<Rightarrow> u32 \<Rightarrow> bool \<Rightarrow> bool act" where
  "mp3_locked_on lockon_type lockon_state menu =
     andthen (read32 lockon_type) (\<lambda>a.
     andthen (if a = 0 then andthen (read8 lockon_state) (\<lambda>b. done_with (b \<noteq> 0)) else done_with False) (\<lambda>x.
     if x then done_with True
     else andthen (read32 lockon_type) (\<lambda>c. done_with (c = 1 \<or> menu))))"

definition FpsControls_run_mod_mp3 :: "fps_env \<Rightarrow> Game \<Rightarrow> Region \<Rightarrow> mod_act" where
  "FpsControls_run_mod_mp3 L game region m =
     andthen (CheckBeamVisorSetting game m) (\<lambda>m.
     andthen (lasso_groups m) (\<lambda>m.
     lookups_dyn ''cursor'' (\<lambda>cursor.
     lookups ''cursor_dlg_enabled'' (\<lambda>cursor_dlg_enabled.
     andthen (read8 cursor_dlg_enabled) (\<lambda>dlg.
     if dlg \<noteq> 0 then andthen (mp3_handle_cursor L cursor region False False) (\<lambda>_. done_with m)
     else lookups ''state_manager'' (\<lambda>state_manager.
     andthen (if region = NTSC_J then andthen (read32 (state_manager + 0x29C)) (\<lambda>q. done_with (q = 0xffffffff))
              else done_with False) (\<lambda>quiz.
     if quiz then andthen (mp3_handle_cursor L cursor region False False) (\<lambda>_. done_with m)
     else with_player (\<lambda>player m.
     andthen (handle_beam_visor_switch [] prime_three_visors m) (\<lambda>m.
     andthen (mp3_boss L cursor region m) (\<lambda>(go_on, m).
     if \<not> go_on then done_with m
     else
     andthen (asks (CheckGrappleCtl \<circ> config)) (\<lambda>grapple.
     andthen (set_variable_u32 ''trigger_grapple'' (if grapple then 1 else 0)) (\<lambda>_.
     lookups_dyn ''firstperson_pitch'' (\<lambda>firstperson_pitch.
     lookups_dyn ''angular_momentum'' (\<lambda>angular_momentum.
     lookups_dyn ''beamvisor_menu_state'' (\<lambda>beamvisor_menu_state.
     lookups_dyn ''lockon_type'' (\<lambda>lockon_type.
     lookups ''lockon_state'' (\<lambda>lockon_state.
     andthen (read32 beamvisor_menu_state) (\<lambda>v.
     let menu = (v = 3)
     in andthen (mp3_locked_on lockon_type lockon_state menu) (\<lambda>locked.
        if locked then
          andthen (write32 0 angular_momentum) (\<lambda>_.
          andthen (calculate_pitch_locked L game m) (\<lambda>m.
          andthen (asks (HandleReticleLockOn \<circ> config)) (\<lambda>lock.
          andthen (if lock \<or> menu then mp3_handle_cursor L cursor region False True else done_with ()) (\<lambda>_.
          andthen (writef32 (pitch m) firstperson_pitch) (\<lambda>_. done_with m)))))
        else
          andthen (mp3_handle_lasso lockon_type m) (\<lambda>m.
          mp3_view L cursor region firstperson_pitch angular_momentum m))))))))))))) m)))))))"

definition FpsControls_run_mod :: "fps_env \<Rightarrow> Game \<Rightarrow> Region \<Rightarrow> mod_act" where
  "FpsControls_run_mod L game region m =
     (case game of
        MENU \<Rightarrow> andthen (run_mod_menu L game region) (\<lambda>_. done_with m)
      | MENU_PRIME_1 \<Rightarrow> andthen (run_mod_menu L game region) (\<lambda>_. done_with m)
      | MENU_PRIME_2 \<Rightarrow> andthen (run_mod_menu L game region) (\<lambda>_. done_with m)
      | PRIME_1 \<Rightarrow> FpsControls_run_mod_mp1 L region m
      | PRIME_2 \<Rightarrow> FpsControls_run_mod_mp2 L region m
      | PRIME_3 \<Rightarrow> FpsControls_run_mod_mp3 L game region m
      | PRIME_3_STANDALONE \<Rightarrow> FpsControls_run_mod_mp3 L game region m
      | PRIME_1_GCN \<Rightarrow> FpsControls_run_mod_mp1_gc L region m
      | PRIME_2_GCN \<Rightarrow> FpsControls_run_mod_mp2_gc L m
      | INVALID_GAME \<Rightarrow> done_with m)"

end
