(* ===== verification/Prime_ElfLoader.thy ===== *)
theory Prime_ElfLoader
  imports Prime_View
begin

text \<open>
  \<open>ElfModLoader.cpp\<close>: game code from outside.  Reading the mod file and the ELF file is an argument,
  \<open>read_modfile\<close>, which gives what they define with the symbols resolved; what the loader makes of it, the
  hooks and their call gates, and its states are modelled.
\<close>

section \<open>Variables of a mod\<close>

definition get_type_size :: "CVarType \<Rightarrow> nat" where
  "get_type_size t =
     (case t of BOOLEAN \<Rightarrow> 1 | INT8 \<Rightarrow> 1 | INT16 \<Rightarrow> 2 | FLOAT32 \<Rightarrow> 4 | INT32 \<Rightarrow> 4 | INT64 \<Rightarrow> 8 | FLOAT64 \<Rightarrow> 8)"

definition write_type :: "u64 \<Rightarrow> u32 \<Rightarrow> CVarType \<Rightarrow> unit act" where
  "write_type val addr t =
     (case t of
        INT8 \<Rightarrow> write8 (ucast val) addr
      | INT16 \<Rightarrow> write16 (ucast val) addr
      | INT32 \<Rightarrow> write32 (ucast val) addr
      | INT64 \<Rightarrow> write64 val addr
      | FLOAT32 \<Rightarrow> write32 (ucast val) addr
      | FLOAT64 \<Rightarrow> write64 val addr
      | BOOLEAN \<Rightarrow> write8 (of_bool (val \<noteq> 0)) addr)"

definition read_type :: "u32 \<Rightarrow> CVarType \<Rightarrow> u64 act" where
  "read_type addr t =
     (case t of
        INT8 \<Rightarrow> andthen (read8 addr) (\<lambda>v. done_with (ucast v))
      | INT16 \<Rightarrow> andthen (read16 addr) (\<lambda>v. done_with (ucast v))
      | INT32 \<Rightarrow> andthen (read32 addr) (\<lambda>v. done_with (ucast v))
      | INT64 \<Rightarrow> read64 addr
      | FLOAT32 \<Rightarrow> andthen (read32 addr) (\<lambda>v. done_with (ucast v))
      | FLOAT64 \<Rightarrow> read64 addr
      | BOOLEAN \<Rightarrow> andthen (read8 addr) (\<lambda>v. done_with (ucast v)))"

text \<open>The buffers of the callers are eight bytes, least significant first; only the bytes of the type are copied.\<close>

definition write_cvar :: "string \<Rightarrow> u64 \<Rightarrow> prime_mod \<Rightarrow> bool act" where
  "write_cvar name data m =
     (case cvar_map (loader m) name of
        None \<Rightarrow> done_with False
      | Some (addr, t) \<Rightarrow>
          andthen (write_type (take_bit (8 * get_type_size t) data) addr t) (\<lambda>_. done_with True))"

definition get_cvar_val :: "string \<Rightarrow> nat \<Rightarrow> prime_mod \<Rightarrow> u64 option act" where
  "get_cvar_val name out_sz m =
     (case cvar_map (loader m) name of
        None \<Rightarrow> done_with None
      | Some (addr, t) \<Rightarrow>
          andthen (read_type addr t) (\<lambda>data.
          done_with (Some (take_bit (8 * min (get_type_size t) out_sz) data))))"

section \<open>Hooks\<close>

text \<open>
  A call gate loads the address of its pair of targets into r11 and jumps to the dispatcher; a trampoline
  is the first instruction of a function and a branch behind it.
\<close>

definition add_callgate_entry :: "u32 \<Rightarrow> u32 \<Rightarrow> prime_mod \<Rightarrow> u32 \<times> prime_mod" where
  "add_callgate_entry hook_target original_target m =
     (let l = loader m;
          dispatch_loc = 8 * callgate_count l + dispatch_table l;
          callgate_fn_table_loc = 12 * callgate_count l + callgate_fn_table l;
          m = add_code_change (dispatch_loc + 0) original_target [] m;
          m = add_code_change (dispatch_loc + 4) hook_target [] m;
          r11_dispatch_lis = gen_lis 11 (ucast (drop_bit 16 dispatch_loc));
          r11_dispatch_ori = gen_ori 11 11 (ucast dispatch_loc);
          branch_to_cg_dispatch = gen_branch (callgate_fn_table_loc + 8) (callgate_dispatch_fn l);
          m = add_code_change (callgate_fn_table_loc + 0) r11_dispatch_lis [] m;
          m = add_code_change (callgate_fn_table_loc + 4) r11_dispatch_ori [] m;
          m = add_code_change (callgate_fn_table_loc + 8) branch_to_cg_dispatch [] m
      in (callgate_fn_table_loc, m\<lparr>loader := l\<lparr>callgate_count := callgate_count l + 1\<rparr>\<rparr>))"

definition add_trampoline_restore_entry :: "u32 \<Rightarrow> prime_mod \<Rightarrow> (u32 \<times> prime_mod) act" where
  "add_trampoline_restore_entry func_start m =
     (let l = loader m;
          trampoline_restore_loc = 8 * trampoline_count l + trampoline_restore_table l
      in andthen (readi func_start) (\<lambda>original_instruction.
         let branch_to_after_trampoline = gen_branch (trampoline_restore_loc + 4) (func_start + 4);
             m = add_code_change (trampoline_restore_loc + 0) original_instruction [] m;
             m = add_code_change (trampoline_restore_loc + 4) branch_to_after_trampoline [] m
         in done_with (trampoline_restore_loc, m\<lparr>loader := l\<lparr>trampoline_count := trampoline_count l + 1\<rparr>\<rparr>)))"

definition create_vthook_callgated :: "u32 \<Rightarrow> u32 \<Rightarrow> mod_act" where
  "create_vthook_callgated hook_target vfte_addr m =
     andthen (read32 vfte_addr) (\<lambda>original.
     let (callgate_fn_table_loc, m) = add_callgate_entry hook_target original m
     in done_with (add_code_change vfte_addr callgate_fn_table_loc [] m))"

definition create_blhook_callgated :: "u32 \<Rightarrow> u32 \<Rightarrow> mod_act" where
  "create_blhook_callgated hook_target bl_addr m =
     andthen (readi bl_addr) (\<lambda>instr.
     let bl_target = bl_addr + get_branch_offset instr;
         (callgate_fn_table_loc, m) = add_callgate_entry hook_target bl_target m
     in done_with (add_code_change bl_addr (gen_branch_link bl_addr callgate_fn_table_loc) [] m))"

definition create_trampoline_callgated :: "u32 \<Rightarrow> u32 \<Rightarrow> mod_act" where
  "create_trampoline_callgated hook_target func_start m =
     andthen (add_trampoline_restore_entry func_start m) (\<lambda>(trampoline_restore_loc, m).
     let (callgate_fn_table_loc, m) = add_callgate_entry hook_target trampoline_restore_loc m
     in done_with (add_code_change func_start (gen_branch func_start callgate_fn_table_loc) [] m))"

section \<open>Loading\<close>

text \<open>What a mod file defines, after its symbols are resolved; those that are not found are left out.\<close>

record mod_file =
  mf_callgate_fn_table :: u32
  mf_dispatch_table :: u32
  mf_callgate_dispatch_fn :: u32
  mf_trampoline_restore_table :: u32
  mf_release_fn :: u32
  mf_shutdown_signal :: u32
  mf_cleanup_blhook_point :: u32
  mf_changes :: "CodeChange list"
  mf_cvars :: "(string \<times> u32 \<times> CVarType) list"
  mf_vthooks :: "(u32 \<times> u32) list"
  mf_blhooks :: "(u32 \<times> u32) list"
  mf_trampolines :: "(u32 \<times> u32) list"
  mf_debug_output :: "u32 option"

fun create_hooks :: "(u32 \<Rightarrow> u32 \<Rightarrow> mod_act) \<Rightarrow> (u32 \<times> u32) list \<Rightarrow> mod_act" where
  "create_hooks f [] m = done_with m"
| "create_hooks f ((hook_fn, hook_addr) # hs) m = andthen (f hook_fn hook_addr m) (create_hooks f hs)"

definition resolve_modfile :: "mod_file \<Rightarrow> prime_mod \<Rightarrow> prime_mod" where
  "resolve_modfile mf m =
     m\<lparr>loader := (loader m)\<lparr>callgate_fn_table := mf_callgate_fn_table mf, dispatch_table := mf_dispatch_table mf,
        callgate_dispatch_fn := mf_callgate_dispatch_fn mf,
        trampoline_restore_table := mf_trampoline_restore_table mf, release_fn := mf_release_fn mf,
        shutdown_signal := mf_shutdown_signal mf, cleanup_blhook_point := mf_cleanup_blhook_point mf\<rparr>\<rparr>"

definition load_modfile :: "mod_file \<Rightarrow> mod_act" where
  "load_modfile mf m =
     (let m = resolve_modfile mf m;
          point = cleanup_blhook_point (loader m);
          m = add_code_change point (gen_branch_link point (release_fn (loader m))) [] m;
          m = fold (\<lambda>cc. add_code_change (cc_address cc) (cc_var cc) []) (mf_changes mf) m;
          m = m\<lparr>loader := (loader m)\<lparr>cvar_map := cvar_map (loader m) ++ map_of (rev (mf_cvars mf))\<rparr>\<rparr>
      in andthen (create_hooks create_vthook_callgated (mf_vthooks mf) m) (\<lambda>m.
         andthen (create_hooks create_blhook_callgated (mf_blhooks mf) m) (\<lambda>m.
         andthen (create_hooks create_trampoline_callgated (mf_trampolines mf) m) (\<lambda>m.
         done_with (m\<lparr>loader := (loader m)\<lparr>debug_output_addr :=
            (case mf_debug_output mf of None \<Rightarrow> 0 | Some a \<Rightarrow> a)\<rparr>\<rparr>)))))"

definition clear_active_mod :: "prime_mod \<Rightarrow> prime_mod" where
  "clear_active_mod m = m\<lparr>loader := no_elf\<rparr>"

section \<open>The frame\<close>

definition SPR_DBAT2U :: nat where "SPR_DBAT2U = 540"
definition SPR_IBAT2U :: nat where "SPR_IBAT2U = 532"

definition update_bat_regs :: "ppc \<Rightarrow> ppc" where
  "update_bat_regs c =
     (if \<not> (spr c SPR_DBAT2U AND 0x100 \<noteq> 0 \<or> spr c SPR_IBAT2U AND 0x100 \<noteq> 0) then
        IBATUpdated (DBATUpdated (c\<lparr>spr := (spr c)(SPR_DBAT2U := spr c SPR_DBAT2U OR 0x100,
           SPR_IBAT2U := spr c SPR_IBAT2U OR 0x100)\<rparr>))
      else c)"

definition on_loader :: "(elf_loader \<Rightarrow> elf_loader) \<Rightarrow> prime_mod \<Rightarrow> prime_mod" where
  "on_loader f m = m\<lparr>loader := f (loader m)\<rparr>"

definition ElfModLoader_on_state_change :: "ModState \<Rightarrow> mod_act" where
  "ElfModLoader_on_state_change old_state m = done_with m"

text \<open>The file that is pending is taken even when it cannot be read.\<close>

definition load_mod :: "mod_file option \<Rightarrow> mod_act" where
  "load_mod file m =
     andthen (change (\<lambda>s. s\<lparr>config := (config s)\<lparr>ModPending := False\<rparr>\<rparr>)) (\<lambda>_.
     andthen (case file of None \<Rightarrow> done_with m | Some mf \<Rightarrow> load_modfile mf m) (\<lambda>m.
     done_with (on_loader (\<lambda>l. l\<lparr>load_state := ACTIVE\<rparr>) m)))"

definition shut_down_mod :: mod_act where
  "shut_down_mod m =
     andthen (write32 1 (shutdown_signal (loader m))) (\<lambda>_.
     done_with (on_loader (\<lambda>l. l\<lparr>shutting_down := True\<rparr>) m))"

definition loader_step :: "mod_file option \<Rightarrow> mod_act" where
  "loader_step file m =
     andthen (asks config) (\<lambda>c.
     if shutting_down (loader m) then
       andthen (read32 (shutdown_signal (loader m))) (\<lambda>v.
       if v = 2 then
         andthen (set_state ElfModLoader_on_state_change DISABLED m) (\<lambda>m.
         andthen (apply_instruction_changes True m) (\<lambda>_.
         andthen (set_state ElfModLoader_on_state_change ENABLED m) (\<lambda>m.
         done_with (on_loader (\<lambda>l. l\<lparr>shutting_down := False\<rparr>) (reset_mod clear_active_mod m)))))
       else done_with m)
     else
       (case load_state (loader m) of
          NOT_LOADED \<Rightarrow> if ModPending c then load_mod file m else done_with m
        | ACTIVE \<Rightarrow>
            if ModPending c then shut_down_mod m
            else if ModSuspended c then
              andthen (write32 3 (shutdown_signal (loader m))) (\<lambda>_.
              done_with (on_loader (\<lambda>l. l\<lparr>load_state := SUSPENDED\<rparr>) m))
            else done_with m
        | SUSPENDED \<Rightarrow>
            if ModPending c then shut_down_mod m
            else if \<not> ModSuspended c then
              andthen (write32 0 (shutdown_signal (loader m))) (\<lambda>_.
              done_with (on_loader (\<lambda>l. l\<lparr>load_state := ACTIVE\<rparr>) m))
            else done_with m))"

text \<open>\<open>file\<close> is what the pending file defines, if it can be read.\<close>

definition ElfModLoader_run_mod :: "mod_file option \<Rightarrow> Game \<Rightarrow> Region \<Rightarrow> mod_act" where
  "ElfModLoader_run_mod file game region m =
     (if game = PRIME_1_GCN \<or> game = PRIME_2_GCN then
        andthen (change (\<lambda>s. s\<lparr>cpu := update_bat_regs (cpu s)\<rparr>)) (\<lambda>_.
        if region \<noteq> NTSC_U then done_with m else loader_step file m)
      else done_with m)"

definition ElfModLoader_init_mod :: "Game \<Rightarrow> Region \<Rightarrow> prime_mod \<Rightarrow> (bool \<times> prime_mod) act" where
  "ElfModLoader_init_mod game region m =
     andthen (change (\<lambda>s. if (game = PRIME_1_GCN \<or> game = PRIME_2_GCN) \<and> region = NTSC_U
        then s\<lparr>cpu := update_bat_regs (cpu s)\<rparr> else s)) (\<lambda>_. done_with (True, m))"

end
