(* ===== verification/Prime_Hack.thy ===== *)
theory Prime_Hack
  imports Prime_FpsControls Prime_ElfLoader Prime_Mod
begin

text \<open>
  The mods put together: \<open>init_mod\<close> of each class, the calls of the patched game into the host, and the
  table of virtual functions.  \<open>EntityGenerator\<close> and \<open>InfoTracker\<close> are an argument.
\<close>

section \<open>Initialising\<close>

definition patched :: "(prime \<Rightarrow> patch list) \<Rightarrow> prime_mod \<Rightarrow> (bool \<times> prime_mod) act" where
  "patched patches m = asks (\<lambda>s. (True, add_code_changes (patches s) m))"

definition with_version :: "(u8 \<Rightarrow> patch list) \<Rightarrow> prime_mod \<Rightarrow> (bool \<times> prime_mod) act" where
  "with_version patches m = andthen (read8 0x80000007) (\<lambda>version. patched (\<lambda>_. patches version) m)"

definition registering :: "string list \<Rightarrow> unit act" where
  "registering names = change (fold register_variable names)"

definition FpsControls_init_mod :: "Game \<Rightarrow> Region \<Rightarrow> prime_mod \<Rightarrow> (bool \<times> prime_mod) act" where
  "FpsControls_init_mod game region m =
     (let beams = [''new_beam'', ''beamchange_flag''];
          lasso = [''grapple_lasso_state'', ''grapple_hand_x'', ''grapple_hand_y'', ''trigger_grapple'']
      in case game of
           MENU_PRIME_1 \<Rightarrow> patched (\<lambda>_. FpsControls_patches_menu game region) m
         | MENU_PRIME_2 \<Rightarrow> patched (\<lambda>_. FpsControls_patches_menu game region) m
         | PRIME_1 \<Rightarrow> andthen (registering beams) (\<lambda>_.
             patched (FpsControls_patches_mp1 region) (m\<lparr>has_beams := True\<rparr>))
         | PRIME_1_GCN \<Rightarrow> with_version (FpsControls_patches_mp1_gc region) m
         | PRIME_2 \<Rightarrow> andthen (registering beams) (\<lambda>_.
             patched (FpsControls_patches_mp2 region) (m\<lparr>has_beams := True\<rparr>))
         | PRIME_2_GCN \<Rightarrow> patched (\<lambda>_. FpsControls_patches_mp2_gc region) m
         | PRIME_3 \<Rightarrow> andthen (registering (lasso @ beams)) (\<lambda>_.
             patched (FpsControls_patches_mp3 region) (m\<lparr>has_beams := False\<rparr>))
         | PRIME_3_STANDALONE \<Rightarrow> andthen (registering (lasso @ beams)) (\<lambda>_.
             patched (FpsControls_patches_mp3_standalone region) (m\<lparr>has_beams := False\<rparr>))
         | _ \<Rightarrow> done_with (True, m))"

definition ViewModifier_init_mod :: "Game \<Rightarrow> Region \<Rightarrow> prime_mod \<Rightarrow> (bool \<times> prime_mod) act" where
  "ViewModifier_init_mod game region m =
     (case game of
        PRIME_1 \<Rightarrow> patched (\<lambda>_. ViewModifier_patches_mp1 region) m
      | PRIME_1_GCN \<Rightarrow> with_version (ViewModifier_patches_mp1_gc region) m
      | PRIME_2 \<Rightarrow> patched (\<lambda>_. ViewModifier_patches_mp2 region) m
      | PRIME_2_GCN \<Rightarrow> patched (\<lambda>_. ViewModifier_patches_mp2_gc region) m
      | PRIME_3 \<Rightarrow> patched (\<lambda>_. ViewModifier_patches_mp3 region) m
      | PRIME_3_STANDALONE \<Rightarrow> patched (\<lambda>_. ViewModifier_patches_mp3_standalone region) m
      | _ \<Rightarrow> done_with (True, m))"

text \<open>The classes outside the model: \<open>o_run\<close> and \<open>o_init\<close> of the argument.\<close>

record other_mods =
  o_run :: "Game \<Rightarrow> Region \<Rightarrow> mod_act"
  o_init :: "Game \<Rightarrow> Region \<Rightarrow> prime_mod \<Rightarrow> (bool \<times> prime_mod) act"

definition init_mod :: "other_mods \<Rightarrow> Game \<Rightarrow> Region \<Rightarrow> prime_mod \<Rightarrow> (bool \<times> prime_mod) act" where
  "init_mod others game region m =
     (case mod_class_of m of
        AutoEFB \<Rightarrow> done_with (True, m)
      | CutBeamFxMP1 \<Rightarrow> patched (\<lambda>_. CutBeamFxMP1_patches game region) m
      | DisableBloom \<Rightarrow> patched (\<lambda>_. DisableBloom_patches game region) m
      | FpsControls \<Rightarrow> FpsControls_init_mod game region m
      | Invulnerability \<Rightarrow> with_version (Invulnerability_patches game region) m
      | Noclip \<Rightarrow> with_version (Noclip_patches game region) m
      | SkipCutscene \<Rightarrow> with_version (SkipCutscene_patches game region) m
      | RestoreDashing \<Rightarrow> with_version (RestoreDashing_patches game region) m
      | SpringballButton \<Rightarrow> andthen (registering [''springball_trigger'']) (\<lambda>_.
          patched (SpringballButton_patches game region) m)
      | ViewModifier \<Rightarrow> ViewModifier_init_mod game region m
      | ElfModLoader \<Rightarrow> ElfModLoader_init_mod game region m
      | ContextSensitiveControls \<Rightarrow> andthen (registering [''rotary_velocity'']) (\<lambda>_.
          patched (ContextSensitiveControls_patches game region) m)
      | PortalSkipMP2 \<Rightarrow> PortalSkipMP2_init_mod game region m
      | FriendVouchers \<Rightarrow> FriendVouchers_init_mod game region m
      | DisableHudMemoPopup \<Rightarrow> DisableHudMemoPopup_init_mod game region m
      | HudAdjuster \<Rightarrow> HudAdjuster_init_mod game region m
      | DynSettings \<Rightarrow> done_with (True, m)
      | EntityGenerator \<Rightarrow> o_init others game region m
      | InfoTracker \<Rightarrow> o_init others game region m)"

section \<open>Running\<close>

definition run_mod :: "fps_env \<Rightarrow> mod_file option \<Rightarrow> other_mods \<Rightarrow> Game \<Rightarrow> Region \<Rightarrow> mod_act" where
  "run_mod L file others game region m =
     (case mod_class_of m of
        AutoEFB \<Rightarrow> AutoEFB_run_mod game region m
      | DisableBloom \<Rightarrow> DisableBloom_run_mod game region m
      | FpsControls \<Rightarrow> FpsControls_run_mod L game region m
      | Noclip \<Rightarrow> Noclip_run_mod game region m
      | SpringballButton \<Rightarrow> SpringballButton_run_mod game region m
      | ViewModifier \<Rightarrow> ViewModifier_run_mod game region m
      | ElfModLoader \<Rightarrow> ElfModLoader_run_mod file game region m
      | ContextSensitiveControls \<Rightarrow> ContextSensitiveControls_run_mod game region m
      | PortalSkipMP2 \<Rightarrow> PortalSkipMP2_run_mod game region m
      | FriendVouchers \<Rightarrow> FriendVouchers_run_mod game region m
      | DisableHudMemoPopup \<Rightarrow> DisableHudMemoPopup_run_mod game region m
      | HudAdjuster \<Rightarrow> HudAdjuster_run_mod game region m
      | DynSettings \<Rightarrow> DynSettings_run_mod game region m
      | EntityGenerator \<Rightarrow> o_run others game region m
      | InfoTracker \<Rightarrow> o_run others game region m
      | _ \<Rightarrow> done_with m)"

definition on_state_change :: "ModState \<Rightarrow> mod_act" where
  "on_state_change old_state m =
     (case mod_class_of m of
        Noclip \<Rightarrow> Noclip_on_state_change old_state m
      | HudAdjuster \<Rightarrow> HudAdjuster_on_state_change old_state m
      | _ \<Rightarrow> done_with m)"

definition on_reset :: "prime_mod \<Rightarrow> prime_mod" where
  "on_reset m = (if mod_class_of m = ElfModLoader then clear_active_mod m else m)"

definition mod_virtuals :: "fps_env \<Rightarrow> mod_file option \<Rightarrow> other_mods \<Rightarrow> virtuals" where
  "mod_virtuals L file others =
     \<lparr>v_run_mod = run_mod L file others, v_init_mod = init_mod others, v_on_state_change = on_state_change,
      v_on_reset = on_reset\<rparr>"

section \<open>Calls from the game\<close>

definition call_host :: "vm_call \<Rightarrow> u32 \<Rightarrow> unit act" where
  "call_host f param =
     (case f of
        vmcall_noop \<Rightarrow> done_with ()
      | fix_layer_bits \<Rightarrow> call_fix_layer_bits param
      | hudmemo_overlay_adjust_mp1_102 \<Rightarrow> hudmemo_overlay_adjust 0x30 param
      | hudmemo_overlay_adjust_mp1_100 \<Rightarrow> hudmemo_overlay_adjust 0x34 param
      | restart_streamed_audio_mp3 \<Rightarrow> call_restart_streamed_audio param)"

text \<open>\<open>Interpreter::vmcall\<close>; the table has 1024 entries, one for each value of the field.\<close>

definition vmcall :: "u32 \<Rightarrow> unit act" where
  "vmcall inst s =
     (let VMFI = unat (drop_bit 16 inst AND 0x3ff); VMFP = drop_bit 11 inst AND 0x1f
      in if VMFI < length (vmcall_table s) then call_host (vmcall_table s ! VMFI) VMFP s else Inl OutOfRange)"

end
