(* ===== verification/Prime_Game.thy ===== *)
theory Prime_Game
  imports Prime_Hack PPC_Multiple
begin

text \<open>
  The memory of the game as PrimeHack sees it, the cells of the locale \<open>cell_memory\<close>, and a game in
  memory on which the properties are tried.
\<close>

section \<open>The memory of the game\<close>

text \<open>The hack sees the memory of the game as cells; all it changes besides are the processor's queues.\<close>

definition game_state :: "u32 set \<Rightarrow> prime \<Rightarrow> prime \<Rightarrow> bool" where
  "game_state R s0 s \<longleftrightarrow> ram_region R (cpu s) \<and> (\<exists>c. s = s0\<lparr>cpu := c\<rparr>)"

definition game_word :: "prime \<Rightarrow> u32 \<Rightarrow> u32" where "game_word s a = get_word (cpu s) a"

definition unit_act :: "unit act \<Rightarrow> prime \<Rightarrow> prime_fault + prime" where
  "unit_act f s = (case f s of Inl e \<Rightarrow> Inl e | Inr (_, s) \<Rightarrow> Inr s)"

lemma unit_act_Inr: "unit_act f s = Inr t \<longleftrightarrow> f s = Inr ((), t)"
  by (auto simp: unit_act_def split: sum.split)

lemma game_state_refl: "ram_region R (cpu s) \<Longrightarrow> game_state R s s"
  unfolding game_state_def by (metis prime.surjective prime.update_convs(1))

lemma game_state_trans: "game_state R s0 s \<Longrightarrow> game_state R s t \<Longrightarrow> game_state R s0 t"
  by (auto simp: game_state_def)

lemma read32_region:
  assumes "ram_region R (cpu s)" "a \<in> region_cells R 4"
  shows "read32 a s = Inr (game_word s a, s)" "readi a s = Inr (game_word s a, s)"
proof -
  have "ReadFromHardware NoException 4 a (cpu s) = Inr (mem_value (cpu s) 4 a, cpu s)"
    using assms by (intro region_read [of R]) (auto simp: region_cells_def access_size_def IsOpcodeFlag_def)
  then show "read32 a s = Inr (game_word s a, s)" "readi a s = Inr (game_word s a, s)"
    by (simp_all add: read32_def readi_def on_cpu_def HostRead_U32_def HostRead_Instruction_def game_word_def get_word_def)
qed

lemma write32_region:
  assumes "game_state R s0 s" "a \<in> region_cells R 4"
  shows "\<exists>s'. write32 v a s = Inr ((), s') \<and> game_state R s0 s' \<and> game_word s' a = v
      \<and> (\<forall>b\<in>region_cells R 4. span 4 b \<inter> span 4 a = {} \<longrightarrow> game_word s' b = game_word s b)"
proof -
  let ?c = "put_bytes 4 (ucast v) a 4 0 (cpu s)"
  have r: "ram_region R (cpu s)" using assms(1) by (simp add: game_state_def)
  have a: "span 4 a \<subseteq> R" "unat a + 4 \<le> 2 ^ 32" using assms(2) by (auto simp: region_cells_def)
  have "WriteToHardware NoException 4 a (ucast v) (cpu s) = Inr ?c"
    using r a by (intro region_write [of R]) (auto simp: access_size_def IsOpcodeFlag_def)
  then have "write32 v a s = Inr ((), s\<lparr>cpu := ?c\<rparr>)"
    by (simp add: write32_def on_cpu_unit_def HostWrite_U32_def)
  moreover have "game_state R s0 (s\<lparr>cpu := ?c\<rparr>)"
    using assms(1) r by (auto simp: game_state_def)
  moreover have "game_word (s\<lparr>cpu := ?c\<rparr>) a = v"
    using mem_value_put [OF r a(1), of "ucast v"] ucast_round_trip(1) [of v] by (simp add: game_word_def get_word_def)
  moreover have "game_word (s\<lparr>cpu := ?c\<rparr>) b = game_word s b"
    if "b \<in> region_cells R 4" "span 4 b \<inter> span 4 a = {}" for b
    using mem_value_put_other [OF r a(1) _ _ that(2), of "ucast v"] that(1)
    by (simp add: game_word_def get_word_def region_cells_def)
  ultimately show ?thesis by blast
qed

lemma invalidate_frame:
  "\<exists>c. ScheduleInvalidateCacheThreadSafe a s = Inr ((), s\<lparr>cpu := c\<rparr>) \<and> get_word c = get_word (cpu s)
     \<and> get_byte c = get_byte (cpu s) \<and> ram_region R c = ram_region R (cpu s)"
proof -
  have q: "get_word (c\<lparr>s_ts_queue := q\<rparr>) = get_word c" "get_byte (c\<lparr>s_ts_queue := q\<rparr>) = get_byte c"
    "ram_region R (c\<lparr>s_ts_queue := q\<rparr>) = ram_region R c" for c q
    by (rule memory_frame; simp)+
  have i: "get_word (c\<lparr>iCache := q\<rparr>) = get_word c" "get_byte (c\<lparr>iCache := q\<rparr>) = get_byte c"
    "ram_region R (c\<lparr>iCache := q\<rparr>) = ram_region R c" for c q
    by (rule memory_frame; simp)+
  show ?thesis
    by (auto simp: ScheduleInvalidateCacheThreadSafe_def ScheduleEvent_def icache_Invalidate_def q i Let_def
        intro: exI [of _ "cpu s"])
qed

lemma apply_change_region:
  assumes "game_state R s0 s" "a \<in> region_cells R 4"
  shows "\<exists>s'. apply_change True \<lparr>cc_address = a, cc_var = v\<rparr> s = Inr ((), s') \<and> game_state R s0 s' \<and> game_word s' a = v
      \<and> (\<forall>b\<in>region_cells R 4. span 4 b \<inter> span 4 a = {} \<longrightarrow> game_word s' b = game_word s b)"
proof -
  obtain s1 where s1: "write32 v a s = Inr ((), s1)" "game_state R s0 s1" "game_word s1 a = v"
      "\<forall>b\<in>region_cells R 4. span 4 b \<inter> span 4 a = {} \<longrightarrow> game_word s1 b = game_word s b"
    using write32_region [OF assms] by blast
  obtain c where c: "ScheduleInvalidateCacheThreadSafe a s1 = Inr ((), s1\<lparr>cpu := c\<rparr>)" "get_word c = get_word (cpu s1)"
      "ram_region R c = ram_region R (cpu s1)"
    using invalidate_frame [of a s1 R] by blast
  have "game_state R s0 (s1\<lparr>cpu := c\<rparr>)" using s1(2) c(3) by (auto simp: game_state_def)
  then show ?thesis using s1 c by (auto simp: apply_change_def game_word_def)
qed

interpretation game: cell_memory 4 game_word read32 "\<lambda>v a. unit_act (write32 v a)" "game_state R s0" "region_cells R 4" for R s0
proof
  fix s a v
  assume s: "game_state R s0 s" and a: "a \<in> region_cells R 4"
  show "read32 a s = Inr (game_word s a, s)"
    using read32_region(1) [OF _ a] s by (simp add: game_state_def)
  show "\<exists>s'. unit_act (write32 v a) s = Inr s' \<and> game_state R s0 s' \<and> game_word s' a = v
      \<and> (\<forall>b\<in>region_cells R 4. span 4 b \<inter> span 4 a = {} \<longrightarrow> game_word s' b = game_word s b)"
    using write32_region [OF s a] by (simp add: unit_act_Inr)
qed

interpretation patching: cell_memory 4 game_word read32 "\<lambda>v a. unit_act (apply_change True \<lparr>cc_address = a, cc_var = v\<rparr>)"
    "game_state R s0" "region_cells R 4" for R s0
proof
  fix s a v
  assume s: "game_state R s0 s" and a: "a \<in> region_cells R 4"
  show "read32 a s = Inr (game_word s a, s)" by (rule game.rd [OF s a])
  show "\<exists>s'. unit_act (apply_change True \<lparr>cc_address = a, cc_var = v\<rparr>) s = Inr s' \<and> game_state R s0 s' \<and> game_word s' a = v
      \<and> (\<forall>b\<in>region_cells R 4. span 4 b \<inter> span 4 a = {} \<longrightarrow> game_word s' b = game_word s b)"
    using apply_change_region [OF s a] by (simp add: unit_act_Inr)
qed

section \<open>Cells written one by one\<close>

text \<open>Cells that do not overlap, written in any order.\<close>

definition apart :: "nat \<Rightarrow> u32 list \<Rightarrow> bool" where
  "apart k as \<longleftrightarrow> sorted_wrt (\<lambda>a b. span k b \<inter> span k a = {}) as"

fun write_at :: "('v \<Rightarrow> u32 \<Rightarrow> 's \<Rightarrow> 'e + 's) \<Rightarrow> (u32 \<times> 'v) list \<Rightarrow> 's \<Rightarrow> 'e + 's" where
  "write_at wr [] s = Inr s"
| "write_at wr ((a, v) # avs) s = (case wr v a s of Inl e \<Rightarrow> Inl e | Inr s \<Rightarrow> write_at wr avs s)"

context cell_memory
begin

lemma write_at_get:
  assumes "inv s" "fst ` set avs \<subseteq> cells" "apart step (map fst avs)"
  shows "\<exists>s'. write_at wr avs s = Inr s' \<and> inv s' \<and> (\<forall>(a, v)\<in>set avs. get s' a = v)
    \<and> (\<forall>b\<in>cells. (\<forall>a\<in>fst ` set avs. span step b \<inter> span step a = {}) \<longrightarrow> get s' b = get s b)"
  using assms
proof (induction avs arbitrary: s)
  case (Cons av avs)
  obtain a v where av: "av = (a, v)" by (cases av)
  have a: "a \<in> cells" using Cons.prems(2) av by simp
  obtain s1 where s1: "wr v a s = Inr s1" "inv s1" "get s1 a = v"
    "\<forall>b\<in>cells. span step b \<inter> span step a = {} \<longrightarrow> get s1 b = get s b"
    using wr [OF Cons.prems(1) a] by blast
  have sub: "fst ` set avs \<subseteq> cells" and ap: "apart step (map fst avs)"
    and later: "\<forall>b\<in>fst ` set avs. span step a \<inter> span step b = {}"
    using Cons.prems av by (auto simp: apart_def)
  obtain s' where s': "write_at wr avs s1 = Inr s'" "inv s'" "\<forall>(a, v)\<in>set avs. get s' a = v"
    "\<forall>b\<in>cells. (\<forall>a\<in>fst ` set avs. span step b \<inter> span step a = {}) \<longrightarrow> get s' b = get s1 b"
    using Cons.IH [OF s1(2) sub ap] by blast
  have "get s' a = v" using s'(4) a later s1(3) by simp
  then show ?case using s1 s' av by auto
qed simp

end

section \<open>A game in memory\<close>

text \<open>A processor with 16 megabytes of main memory mapped at 0x80000000, and a hack around it.\<close>

definition game_ppc :: ppc where
  "game_ppc = ppc_zero\<lparr>msr := MSR_DR, dbat_table := (\<lambda>q. if 0x4000 \<le> q \<and> q < 0x4080
     then push_bit 17 (of_nat (q - 0x4000)) OR 3 else 0)\<rparr>"

definition game_config :: prime_config where
  "game_config = \<lparr>core_running = False, cpu_running = False, invalidate_event = 0, UseMPAutoEFB =
     False, GetEFBTexture = False, GetEnableSecondaryGunFX = False, bEnableCheats = False,
     bEnablePrimeHack = False, GetNoclip = False, GetInvulnerability = False, GetSkipCutscene =
     False, GetRestoreDashing = False, bPrimeFriendVouchers = False, bPrimePortalSkip = False,
     bDisableHudMemoPopup = False, ImprovedMotionControls = False, GetBloom = False, GetReduceBloom
     = False, GetCulling = False, GetToggleArmAdjust = False, GetAutoArmAdjust = False, GetArmXYZ =
     (0, 0, 0), GetFov = 0, GFX_DISABLE_FOG = False, LockCameraInPuzzles = False, CheckBeamCtl =
     \<lambda>_. False, CheckVisorCtl = \<lambda>_. False, CheckBeamScrollCtl = \<lambda>_. False,
     CheckVisorScrollCtl = \<lambda>_. False, CheckSpringBallCtl = False, CheckForward = False,
     CheckBack = False, CheckLeft = False, CheckRight = False, CheckJump = False,
     m_mpr_primary_hudcolour = 0, m_mpr_minimal_mode = False, m_mpr_hud_zoom_factor = 0,
     GetSensitivity = 0, GetCursorSensitivity = 0, InvertedX = False, InvertedY = False,
     ScaleCursorSensitivity = False, GetHorizontalAxis = 0, GetVerticalAxis = 0, HandleReticleLockOn
     = False, GetMenuOptions = (False, False), CheckGrappleCtl = False, GrappleTappingMode = False,
     GrappleCtlBound = False, GetShowGCCrosshair = False, GetGCCrosshairColor = 0, GetCannonHolster
     = False, clock_now = 0, ModPending = False, ModSuspended = False\<rparr>"

definition game_start :: prime where
  "game_start = \<lparr>cpu = game_ppc, config = game_config, addr_db = init_db AddressDB_new,
     variables_list = [], active_game = INVALID_GAME, active_region = INVALID_REGION, last_game =
     INVALID_GAME, last_region = INVALID_REGION, mods = [], mod_state_backup = Map.empty,
     vmcall_table = replicate 1024 vmcall_noop, lock_camera = Unlocked, current_beam = 0,
     current_visor = 0, beam_owned = \<lambda>_. False, visor_owned = \<lambda>_. False,
     pressing_beam = False, pressing_visor = False, restart_audio_timer = 0, restart_audio_signal =
     False, cursor_x = 0, cursor_y = 0\<rparr>"

lemma three_mask: "(3 :: u32) = mask 2" by (simp add: mask_eq_exp_minus_1)

lemma game_entry:
  "(push_bit 17 w OR 3) AND BAT_RESULT_MASK = push_bit 17 w" "(push_bit 17 w OR 3) AND 1 = 1" for w :: u32
  unfolding BAT_RESULT_MASK_def three_mask
  by (rule bit_word_eqI, unfold bit_and_iff bit_or_iff bit_push_bit_iff bit_not_iff bit_mask_iff bit_1_iff, auto)+

lemma game_table: "bat_table_ok (dbat_table game_ppc)"
proof -
  have "dbat_table game_ppc q AND BAT_RESULT_MASK = (if 0x4000 \<le> q \<and> q < 0x4080
      then push_bit 17 (of_nat (q - 0x4000)) else 0)" for q
    by (simp add: game_ppc_def game_entry)
  then show ?thesis unfolding bat_table_ok_def by (simp add: take_bit_push_bit)
qed

lemma game_place:
  assumes "i < 2 ^ 24"
  shows "byte_place game_ppc (0x80000000 + of_nat i) = Some (Ram, i)"
proof -
  let ?a = "0x80000000 + of_nat i :: u32" and ?q = "i div 2 ^ 17"
  have ua: "unat ?a = 0x80000000 + i" using assms by (simp add: unat_word_ariths unat_of_nat)
  have q: "?q < 128" using assms by (simp add: less_mult_imp_div_less)
  have u: "unat (drop_bit 17 ?a) = 0x4000 + ?q"
    unfolding unat_drop_bit_eq ua drop_bit_eq_div [where 'a = nat] by simp
  have t: "dbat_table game_ppc (unat (drop_bit 17 ?a)) = push_bit 17 (of_nat ?q) OR 3"
    unfolding u using q by (simp add: game_ppc_def)
  have low: "?a AND mask 17 = of_nat (i mod 2 ^ 17)"
  proof (rule word_unat_eq_iff [THEN iffD2])
    have "(2147483648 + i) mod 131072 = i mod 131072"
      using mod_mult_self2 [of i 131072 16384] by (subst add.commute) simp
    then show "unat (?a AND mask 17) = unat (of_nat (i mod 2 ^ 17) :: u32)"
      by (simp add: unat_and_mask ua unat_of_nat)
  qed
  have "TranslateBatAddess (dbat_table game_ppc) ?a = Some (push_bit 17 (of_nat ?q) OR (?a AND mask 17))"
    unfolding TranslateBatAddess_def BAT_INDEX_SHIFT_def t Let_def game_entry bat_constants' by simp
  also have "push_bit 17 (of_nat ?q) OR (?a AND mask 17) = push_bit 17 (of_nat ?q) + (?a AND mask 17)"
    by (rule or_low_eq_add) (simp add: take_bit_push_bit)
  also have "\<dots> = of_nat (2 ^ 17 * ?q + i mod 2 ^ 17)"
    unfolding low push_bit_eq_mult of_nat_add of_nat_mult by simp
  also have "\<dots> = of_nat i" by simp
  finally have "byte_place game_ppc ?a = hw_bank (of_nat i) game_ppc" by (simp add: byte_place_def)
  moreover have "of_nat i AND (0xF8000000 :: u32) = 0" "of_nat i AND RAM_MASK = (of_nat i :: u32)"
  proof -
    have m: "of_nat i = of_nat i AND (mask 24 :: u32)"
      using assms by (intro word_unat_eq_iff [THEN iffD2]) (simp add: unat_and_mask unat_of_nat)
    have c: "mask 24 AND (0xF8000000 :: u32) = 0" "mask 24 AND RAM_MASK = mask 24"
      by (simp_all add: mask_eq_exp_minus_1 RAM_MASK_def)
    show "of_nat i AND (0xF8000000 :: u32) = 0"
      by (subst m) (simp only: and.assoc c(1) and_zero_eq)
    show "of_nat i AND RAM_MASK = (of_nat i :: u32)"
      by (subst m, subst and.assoc, subst c(2)) (rule m [symmetric])
  qed
  moreover have "unat (of_nat i :: u32) = i" using assms by (simp add: unat_of_nat)
  ultimately show ?thesis by (simp add: hw_bank_def)
qed

definition game_memory :: "u32 set" where "game_memory = span (2 ^ 24) 0x80000000"

lemma game_region: "ram_region game_memory game_ppc"
proof -
  have "inj_on (byte_place game_ppc) game_memory"
    unfolding game_memory_def by (rule inj_onI) (auto simp: span_def game_place)
  moreover have "byte_place game_ppc a \<noteq> None" if "a \<in> game_memory" for a
    using that by (auto simp: game_memory_def span_def game_place)
  moreover have "msr game_ppc AND MSR_DR \<noteq> 0" "\<not> memcheck_pause game_ppc address var w sz" for address var w sz
    by (simp_all add: game_ppc_def ppc_zero_def MSR_DR_def)
  ultimately show ?thesis using game_table unfolding ram_region_def by blast
qed

lemma game_cell: "n + k \<le> 2 ^ 24 \<Longrightarrow> 0x80000000 + of_nat k \<in> region_cells game_memory n"
  using span_subset [of k n "2 ^ 24" "0x80000000"] by (simp add: region_cells_def game_memory_def unat_word_ariths unat_of_nat)

end
