(* ===== verification/Prime_Code.thy ===== *)
theory Prime_Code
  imports Prime_Game PPC_Bits PPC_Interpreter
begin

text \<open>
  The code PrimeHack writes into a game, run by the interpreter: branches, loads of the address of a
  variable, the change of the beam and the trigger of the spring ball.
\<close>

section \<open>Running a piece of code\<close>

text \<open>\<open>n\<close> instructions from the program counter on, of the words of \<open>code\<close>.\<close>

fun exec_code :: "host_functions \<Rightarrow> (u32 \<Rightarrow> u32 option) \<Rightarrow> nat \<Rightarrow> ppc \<Rightarrow> ppc_res" where
  "exec_code host code 0 s = Inr s"
| "exec_code host code (Suc n) s =
     (case code (pc s) of
        None \<Rightarrow> Inl Unmapped
      | Some inst \<Rightarrow>
          (case run_instruction host inst (s\<lparr>npc := pc s + 4\<rparr>) of
             Inl e \<Rightarrow> Inl e
           | Inr s \<Rightarrow> exec_code host code n (s\<lparr>pc := npc s\<rparr>)))"

definition code_of :: "patch list \<Rightarrow> u32 \<Rightarrow> u32 option" where
  "code_of qs = map_of (map (\<lambda>(a, v, g). (a, v)) qs)"

section \<open>Dispatch\<close>

lemma primary_ops:
  "fst (m_op_table 11) = ''cmpi''" "fst (m_op_table 14) = ''addi''" "fst (m_op_table 15) = ''addis''"
  "fst (m_op_table 16) = ''bcx''" "fst (m_op_table 18) = ''bx''" "fst (m_op_table 24) = ''ori''"
  "fst (m_op_table 31) = ''RunTable31''" "fst (m_op_table 32) = ''lwz''" "fst (m_op_table 34) = ''lbz''"
  "fst (m_op_table 36) = ''stw''" "fst (m_op_table 38) = ''stb''"
  by (simp_all add: m_op_table_def primarytable_def row_def)

lemma orx_op: "fst (m_op_table31 444) = ''orx''"
  by (simp add: m_op_table31_def table31_def table31_integer_def table31_memory_def table31_system_def row_def)

lemma calls:
  "call_instruction host ''cmpi'' = ok_ppc cmpi" "call_instruction host ''addi'' = ok_ppc addi"
  "call_instruction host ''addis'' = ok_ppc addis" "call_instruction host ''bcx'' = bcx"
  "call_instruction host ''bx'' = ok_ppc bx" "call_instruction host ''ori'' = ok_ppc ori"
  "call_instruction host ''lwz'' = lwz" "call_instruction host ''lbz'' = lbz"
  "call_instruction host ''stw'' = stw" "call_instruction host ''stb'' = stb"
  "call_instruction host ''orx'' = ok_ppc orx"
  by (simp_all add: call_instruction_def ppc_instructions_def fun_eq_iff)

lemma run_primary:
  "inst_OPCD inst = 11 \<Longrightarrow> run_instruction host inst s = Inr (cmpi inst s)"
  "inst_OPCD inst = 14 \<Longrightarrow> run_instruction host inst s = Inr (addi inst s)"
  "inst_OPCD inst = 15 \<Longrightarrow> run_instruction host inst s = Inr (addis inst s)"
  "inst_OPCD inst = 16 \<Longrightarrow> run_instruction host inst s = bcx inst s"
  "inst_OPCD inst = 18 \<Longrightarrow> run_instruction host inst s = Inr (bx inst s)"
  "inst_OPCD inst = 24 \<Longrightarrow> run_instruction host inst s = Inr (ori inst s)"
  "inst_OPCD inst = 31 \<Longrightarrow> inst_SUBOP10 inst = 444 \<Longrightarrow> run_instruction host inst s = Inr (orx inst s)"
  "inst_OPCD inst = 32 \<Longrightarrow> run_instruction host inst s = lwz inst s"
  "inst_OPCD inst = 34 \<Longrightarrow> run_instruction host inst s = lbz inst s"
  "inst_OPCD inst = 36 \<Longrightarrow> run_instruction host inst s = stw inst s"
  "inst_OPCD inst = 38 \<Longrightarrow> run_instruction host inst s = stb inst s"
  by (simp_all add: run_instruction_def primary_ops orx_op calls ok_ppc_def)

section \<open>Branches\<close>

lemma branch_constants:
  "(0x48000000 :: u32) = push_bit 30 1 OR push_bit 27 1" "(0x3fffffc :: u32) = push_bit 2 (mask 24)"
  "(0xFC000000 :: u32) = push_bit 26 (mask 6)" "(0x2000000 :: u32) = 2 ^ 25"
  by (simp_all add: mask_eq_exp_minus_1)

lemma bit_gen_branch:
  "bit (gen_branch src dst) n \<longleftrightarrow> n = 30 \<or> n = 27 \<or> 2 \<le> n \<and> n < 26 \<and> bit (dst - src) n"
  unfolding gen_branch_def kBranchOffsetMask_def branch_constants
    bit_or_iff bit_and_iff bit_push_bit_iff bit_mask_iff bit_1_iff
  by auto

text \<open>The distance of a branch: a multiple of 4 with 26 bits and sign.\<close>

definition branch_reach :: "u32 \<Rightarrow> u32 \<Rightarrow> bool" where
  "branch_reach src dst \<longleftrightarrow> (dst - src) AND 3 = 0 \<and> - (2 ^ 25) \<le> sint (dst - src) \<and> sint (dst - src) < 2 ^ 25"

lemma branch_reach_bits:
  assumes "branch_reach src dst"
  shows "n < 2 \<Longrightarrow> \<not> bit (dst - src) n" "25 \<le> n \<Longrightarrow> n < 32 \<Longrightarrow> bit (dst - src) n = bit (dst - src) 25"
proof -
  let ?d = "dst - src"
  have low: "?d AND mask 2 = 0" using assms by (simp add: branch_reach_def mask_eq_exp_minus_1)
  show "\<not> bit ?d n" if "n < 2"
  proof -
    have "\<not> bit (?d AND mask 2) n" unfolding low by simp
    then show ?thesis using that unfolding bit_and_iff bit_mask_iff by simp
  qed
  show "bit ?d n = bit ?d 25" if "25 \<le> n" "n < 32"
  proof -
    have "signed_take_bit 25 (sint ?d) = sint ?d"
      using assms by (intro signed_take_bit_int_eq_self) (simp_all add: branch_reach_def)
    then have "bit (sint ?d) n = bit (signed_take_bit 25 (sint ?d)) n" by simp
    also have "\<dots> = bit (sint ?d) 25" using that by (simp add: bit_signed_take_bit_iff)
    finally show ?thesis using that by (simp add: bit_sint_iff)
  qed
qed

lemma offset_of_branch:
  assumes "branch_reach src dst"
    and "\<And>n. bit w n \<longleftrightarrow> 2 \<le> n \<and> n < 26 \<and> bit (dst - src) n"
  shows "(if w AND 0x2000000 \<noteq> 0 then w OR 0xFC000000 else w) = dst - src"
proof (rule bit_word_eqI)
  fix n assume n: "n < LENGTH(32)"
  have c: "w AND 0x2000000 \<noteq> 0 \<longleftrightarrow> bit (dst - src) 25"
    unfolding branch_constants and_exp_eq_0_iff_not_bit using assms(2) by simp
  show "bit (if w AND 0x2000000 \<noteq> 0 then w OR 0xFC000000 else w) n = bit (dst - src) n"
    unfolding c branch_constants(3)
    using branch_reach_bits [OF assms(1), of n] n assms(2) [of n]
    by (cases "n < 2"; cases "25 \<le> n") (auto simp: bit_or_iff bit_push_bit_iff bit_mask_iff)
qed

lemma gen_branch_offset:
  assumes "branch_reach src dst"
  shows "get_branch_offset (gen_branch src dst) = dst - src" "get_branch_offset (gen_branch_link src dst) = dst - src"
    "SignExt26 (push_bit 2 (inst_LI (gen_branch src dst))) = dst - src"
    "SignExt26 (push_bit 2 (inst_LI (gen_branch_link src dst))) = dst - src"
proof -
  have s: "Suc (Suc (n - 2)) = n" if "2 \<le> n" for n using that by arith
  let ?P = "\<lambda>w. \<forall>n. bit w n \<longleftrightarrow> 2 \<le> n \<and> n < 26 \<and> bit (dst - src) n"
  have "?P (gen_branch src dst AND kBranchOffsetMask)" "?P (gen_branch_link src dst AND kBranchOffsetMask)"
    unfolding gen_branch_link_def kBranchOffsetMask_def branch_constants
      bit_or_iff bit_and_iff bit_push_bit_iff bit_mask_iff bit_gen_branch bit_1_iff by auto
  then show "get_branch_offset (gen_branch src dst) = dst - src" "get_branch_offset (gen_branch_link src dst) = dst - src"
    unfolding get_branch_offset_def Let_def by (simp_all only: offset_of_branch [OF assms])
  have "?P (push_bit 2 (inst_LI (gen_branch src dst)))" "?P (push_bit 2 (inst_LI (gen_branch_link src dst)))"
    unfolding gen_branch_link_def inst_LI_def ifield_def
      bit_or_iff bit_push_bit_iff bit_take_bit_iff bit_drop_bit_eq comp_apply bit_gen_branch bit_1_iff
    by (auto simp: s)
  then show "SignExt26 (push_bit 2 (inst_LI (gen_branch src dst))) = dst - src"
    "SignExt26 (push_bit 2 (inst_LI (gen_branch_link src dst))) = dst - src"
    unfolding SignExt26_def by (simp_all only: offset_of_branch [OF assms])
qed

lemma gen_branch_fields:
  "inst_OPCD (gen_branch src dst) = 18" "inst_OPCD (gen_branch_link src dst) = 18"
  "\<not> inst_AA (gen_branch src dst)" "\<not> inst_AA (gen_branch_link src dst)"
  "\<not> inst_LK (gen_branch src dst)" "inst_LK (gen_branch_link src dst)"
proof -
  have c: "(18 :: u32) = push_bit 4 1 OR push_bit 1 1" by simp
  have "ifield (gen_branch src dst) 26 6 = 18" "ifield (gen_branch_link src dst) 26 6 = 18"
    unfolding c
    by (rule bit_word_eqI, unfold gen_branch_link_def ifield_def bit_or_iff bit_push_bit_iff bit_take_bit_iff
        bit_drop_bit_eq comp_apply bit_gen_branch bit_1_iff, (auto)[1])+
  then show "inst_OPCD (gen_branch src dst) = 18" "inst_OPCD (gen_branch_link src dst) = 18"
    by (simp_all add: inst_OPCD_def)
  have "ifield (gen_branch src dst) 1 1 = 0" "ifield (gen_branch_link src dst) 1 1 = 0"
    "ifield (gen_branch src dst) 0 1 = 0" "ifield (gen_branch_link src dst) 0 1 = 1"
    by (rule bit_word_eqI, unfold gen_branch_link_def ifield_def bit_or_iff bit_push_bit_iff bit_take_bit_iff
        bit_drop_bit_eq comp_apply bit_gen_branch bit_1_iff bit_0_eq, (auto)[1])+
  then show "\<not> inst_AA (gen_branch src dst)" "\<not> inst_AA (gen_branch_link src dst)"
    "\<not> inst_LK (gen_branch src dst)" "inst_LK (gen_branch_link src dst)"
    by (simp_all add: inst_AA_def inst_LK_def)
qed

text \<open>C40: a branch made by the hack goes where it was asked to.  For a destination within reach, the
  interpreter's branch on the word of \<open>gen_branch\<close> continues at the destination and leaves the link
  register; on that of \<open>gen_branch_link\<close> it also saves the address of the next instruction; and
  \<open>get_branch_offset\<close> finds in both words the distance that was put in, so that a hook on a call
  finds the function it replaces.
\<close>

theorem generated_branches:
  assumes "branch_reach (pc s) dst"
  shows "(\<exists>t. run_instruction host (gen_branch (pc s) dst) s = Inr t \<and> npc t = dst \<and> spr t = spr s
      \<and> gpr t = gpr s \<and> ram t = ram s)
    \<and> (\<exists>t. run_instruction host (gen_branch_link (pc s) dst) s = Inr t \<and> npc t = dst
      \<and> spr t = (spr s)(SPR_LR := pc s + 4) \<and> gpr t = gpr s \<and> ram t = ram s)
    \<and> pc s + get_branch_offset (gen_branch (pc s) dst) = dst
    \<and> pc s + get_branch_offset (gen_branch_link (pc s) dst) = dst"
  using gen_branch_offset [OF assms]
  by (simp add: run_primary(5) gen_branch_fields bx_def Idle_def Let_def)

theorem generated_branches_witness:
  "\<forall>host. \<exists>t. run_instruction host (gen_branch_link 0x80004000 0x80003000) (ppc_zero\<lparr>pc := 0x80004000\<rparr>) = Inr t
      \<and> npc t = 0x80003000 \<and> spr t SPR_LR = 0x80004004"
proof
  fix host
  have "branch_reach (pc (ppc_zero\<lparr>pc := 0x80004000\<rparr>)) 0x80003000" by (simp add: branch_reach_def)
  from generated_branches [OF this, of host]
  show "\<exists>t. run_instruction host (gen_branch_link 0x80004000 0x80003000) (ppc_zero\<lparr>pc := 0x80004000\<rparr>) = Inr t
      \<and> npc t = 0x80003000 \<and> spr t SPR_LR = 0x80004004" by (auto simp: ppc_zero_def)
qed

section \<open>Loading an address\<close>

text \<open>The instructions with a 16-bit operand.\<close>

definition d_form :: "u32 \<Rightarrow> u32 \<Rightarrow> u32 \<Rightarrow> u32 \<Rightarrow> u32" where
  "d_form op d a imm = push_bit 26 op OR push_bit 21 d OR push_bit 16 a OR imm"

lemma d_form_fields:
  assumes "take_bit 6 op = op" "take_bit 5 d = d" "take_bit 5 a = a" "take_bit 16 imm = imm"
  shows "ifield (d_form op d a imm) 26 6 = op" "ifield (d_form op d a imm) 21 5 = d"
    "ifield (d_form op d a imm) 16 5 = a" "ifield (d_form op d a imm) 0 16 = imm"
proof -
  have b: "6 \<le> n \<Longrightarrow> \<not> bit op n" "5 \<le> n \<Longrightarrow> \<not> bit d n" "5 \<le> n \<Longrightarrow> \<not> bit a n" "16 \<le> n \<Longrightarrow> \<not> bit imm n" for n
    using assms by (metis bit_take_bit_iff not_less)+
  then have b': "bit op n \<Longrightarrow> n < 6" "bit d n \<Longrightarrow> n < 5" "bit a n \<Longrightarrow> n < 5" "bit imm n \<Longrightarrow> n < 16" for n
    by (meson not_less)+
  note r = d_form_def ifield_def bit_or_iff bit_push_bit_iff bit_take_bit_iff bit_drop_bit_eq comp_apply
  show "ifield (d_form op d a imm) 26 6 = op"
    by (rule bit_word_eqI, unfold r) (auto simp: b dest: b')
  show "ifield (d_form op d a imm) 21 5 = d"
    by (rule bit_word_eqI, unfold r) (auto simp: b dest: b')
  show "ifield (d_form op d a imm) 16 5 = a"
    by (rule bit_word_eqI, unfold r) (auto simp: b dest: b')
  show "ifield (d_form op d a imm) 0 16 = imm"
    by (rule bit_word_eqI, unfold r) (auto simp: b dest: b')
qed

lemma load_address_fields:
  fixes g a :: u32
  assumes "take_bit 5 g = g"
  defines "lis \<equiv> push_bit 26 0b001111 OR push_bit 21 g OR push_bit 16 0 OR (drop_bit 16 a AND 0xffff)"
    and "ori' \<equiv> push_bit 26 0b011000 OR push_bit 21 g OR push_bit 16 g OR (a AND 0xffff)"
  shows "run_instruction host lis s = Inr (set_gpr (unat g) (push_bit 16 (drop_bit 16 a)) s)"
    and "run_instruction host ori' s = Inr (set_gpr (unat g) (gpr s (unat g) OR (a AND 0xffff)) s)"
proof -
  have m: "x AND 0xffff = take_bit 16 x" for x :: u32 by (simp add: take_bit_eq_mask mask_eq_exp_minus_1)
  have l: "lis = d_form 0b001111 g 0 (take_bit 16 (drop_bit 16 a))" and o: "ori' = d_form 0b011000 g g (take_bit 16 a)"
    by (simp_all only: lis_def ori'_def d_form_def m)
  have fl: "ifield lis 26 6 = 15" "ifield lis 21 5 = g" "ifield lis 16 5 = 0" "ifield lis 0 16 = take_bit 16 (drop_bit 16 a)"
    unfolding l using assms(1) by (simp_all add: d_form_fields)
  have fo: "ifield ori' 26 6 = 24" "ifield ori' 21 5 = g" "ifield ori' 16 5 = g" "ifield ori' 0 16 = take_bit 16 a"
    unfolding o using assms(1) by (simp_all add: d_form_fields)
  have imm: "push_bit 16 (inst_SIMM_16 lis) = push_bit 16 (drop_bit 16 a)"
  proof (rule bit_word_eqI)
    fix n assume "n < LENGTH(32)"
    moreover have "bit (take_bit 16 lis) k = bit (take_bit 16 (drop_bit 16 a)) k" for k
      using fl(4) by (simp add: ifield_def)
    then have "k < 16 \<Longrightarrow> bit lis k = bit (drop_bit 16 a) k" for k
      unfolding bit_take_bit_iff by blast
    ultimately show "bit (push_bit 16 (inst_SIMM_16 lis)) n = bit (push_bit 16 (drop_bit 16 a)) n"
      unfolding inst_SIMM_16_def bit_push_bit_iff
      by (auto simp: bit_simps)
  qed
  show "run_instruction host lis s = Inr (set_gpr (unat g) (push_bit 16 (drop_bit 16 a)) s)"
    using fl imm by (simp add: run_primary inst_OPCD_def addis_def inst_RA_def inst_RD_def)
  show "run_instruction host ori' s = Inr (set_gpr (unat g) (gpr s (unat g) OR (a AND 0xffff)) s)"
    using fo by (simp add: run_primary inst_OPCD_def ori_def inst_RA_def inst_RS_def inst_UIMM_def m)
qed

lemma address_halves: "push_bit 16 (drop_bit 16 a) OR (a AND 0xffff) = a" for a :: u32
proof -
  have m: "a AND 0xffff = take_bit 16 a" by (simp add: take_bit_eq_mask mask_eq_exp_minus_1)
  show ?thesis unfolding m
    by (rule bit_word_eqI, unfold bit_or_iff bit_push_bit_iff bit_drop_bit_eq bit_take_bit_iff) auto
qed

section \<open>The instructions of the patches\<close>

lemmas field_defs = ifield_def inst_RD_def inst_RS_def inst_RA_def inst_RB_def inst_SIMM_16_def inst_Rc_def
  inst_CRFD_def inst_BO_def inst_BI_def inst_BD_def inst_LI_def inst_LK_def inst_AA_def

lemma run_load_store:
  "run_instruction host 0x80640000 s = bind_ppc (Read_U32 (gpr s 4) s) (\<lambda>(v, s). Inr (if dsi s then s else set_gpr 3 v s))"
  "run_instruction host 0x83450000 s = bind_ppc (Read_U32 (gpr s 5) s) (\<lambda>(v, s). Inr (if dsi s then s else set_gpr 26 v s))"
  "run_instruction host 0x83e50000 s = bind_ppc (Read_U32 (gpr s 5) s) (\<lambda>(v, s). Inr (if dsi s then s else set_gpr 31 v s))"
  "run_instruction host 0x90640000 s = Write_U32 (gpr s 3) (gpr s 4) s"
  "run_instruction host 0x88640000 s = bind_ppc (Read_U8 (gpr s 4) s) (\<lambda>(v, s). Inr (if dsi s then s else set_gpr 3 (ucast v) s))"
  "run_instruction host 0x98a40000 s = Write_U8 (ucast (gpr s 5)) (gpr s 4) s"
  by (simp_all add: run_primary inst_OPCD_def lwz_def lbz_def stw_def stb_def Helper_Get_EA_def field_defs
      cong: if_cong)

lemma run_integer:
  "run_instruction host 0x38600000 s = Inr (set_gpr 3 0 s)"
  "run_instruction host 0x38a00000 s = Inr (set_gpr 5 0 s)"
  "run_instruction host 0x7f59d378 s = Inr (set_gpr 25 (gpr s 26) s)"
  "run_instruction host 0x7ffefb78 s = Inr (set_gpr 30 (gpr s 31) s)"
  "run_instruction host 0x2c030000 s = Inr (SetCRField 0 (compare_flags (sint (gpr s 3) < 0) (0 < sint (gpr s 3)) s) s)"
  by (simp_all add: run_primary inst_OPCD_def inst_SUBOP10_def addi_def orx_def record_if_def cmpi_def Let_def field_defs)

lemma run_branch:
  "run_instruction host 0x41820058 s = Inr (s\<lparr>npc := if GetCRBit 2 s = 1 then pc s + 0x58 else npc s, m_end_block := True\<rparr>)"
  "run_instruction host 0x4182005c s = Inr (s\<lparr>npc := if GetCRBit 2 s = 1 then pc s + 0x5c else npc s, m_end_block := True\<rparr>)"
  "run_instruction host 0x4800003c s = Inr (s\<lparr>npc := pc s + 0x3c, m_end_block := True\<rparr>)"
  "run_instruction host 0x48000040 s = Inr (s\<lparr>npc := pc s + 0x40, m_end_block := True\<rparr>)"
  by (simp_all add: run_primary inst_OPCD_def bcx_def bcx_idle_def decrement_ctr_def ctr_ok_def cond_ok_def bx_def
      SignExt16_def SignExt26_def Let_def field_defs)

lemma equal_bit: "GetCRBit 2 (SetCRField 0 (compare_flags (x < y) (x > y) s) s) = of_bool (x = y)" for x y :: int
  unfolding GetCRBit_def using compare_field [of 0 0 x y s] by (auto simp: ordering_field_def)

section \<open>Phases\<close>

lemma control_frame [simp]:
  "get_word (s\<lparr>pc := a\<rparr>) = get_word s" "get_word (s\<lparr>npc := a\<rparr>) = get_word s"
  "get_word (s\<lparr>cr_val := c\<rparr>) = get_word s" "get_word (s\<lparr>m_end_block := e\<rparr>) = get_word s"
  "get_byte (s\<lparr>pc := a\<rparr>) = get_byte s" "get_byte (s\<lparr>npc := a\<rparr>) = get_byte s"
  "get_byte (s\<lparr>cr_val := c\<rparr>) = get_byte s" "get_byte (s\<lparr>m_end_block := e\<rparr>) = get_byte s"
  "ram_region R (s\<lparr>pc := a\<rparr>) = ram_region R s" "ram_region R (s\<lparr>npc := a\<rparr>) = ram_region R s"
  "ram_region R (s\<lparr>cr_val := c\<rparr>) = ram_region R s" "ram_region R (s\<lparr>m_end_block := e\<rparr>) = ram_region R s"
  by (rule memory_frame; simp)+

lemma dsi_frame [simp]:
  "dsi (s\<lparr>pc := a\<rparr>) = dsi s" "dsi (s\<lparr>npc := a\<rparr>) = dsi s" "dsi (s\<lparr>cr_val := c\<rparr>) = dsi s"
  "dsi (s\<lparr>m_end_block := e\<rparr>) = dsi s" "dsi (s\<lparr>ram := m\<rparr>) = dsi s"
  by (simp_all add: dsi_def)

lemma read_word: "ram_region R s \<Longrightarrow> a \<in> region_cells R 4 \<Longrightarrow> Read_U32 a s = Inr (get_word s a, s)"
  by (rule words.rd [OF region_state_refl])

lemma read_byte: "ram_region R s \<Longrightarrow> a \<in> region_cells R 1 \<Longrightarrow> Read_U8 a s = Inr (get_byte s a, s)"
  by (rule bytes.rd [OF region_state_refl])

definition lis_of :: "u32 \<Rightarrow> u32 \<Rightarrow> u32" where
  "lis_of g a = push_bit 26 0b001111 OR push_bit 21 g OR push_bit 16 0 OR (drop_bit 16 a AND 0xffff)"

definition ori_of :: "u32 \<Rightarrow> u32 \<Rightarrow> u32" where
  "ori_of g a = push_bit 26 0b011000 OR push_bit 21 g OR push_bit 16 g OR (a AND 0xffff)"

lemma run_lis_ori:
  assumes "take_bit 5 g = g"
  shows "run_instruction host (lis_of g a) s = Inr (set_gpr (unat g) (push_bit 16 (drop_bit 16 a)) s)"
    and "run_instruction host (ori_of g a) s = Inr (set_gpr (unat g) (gpr s (unat g) OR (a AND 0xffff)) s)"
  unfolding lis_of_def ori_of_def by (rule load_address_fields [OF assms])+

section \<open>Steps\<close>

text \<open>A state in the middle of a piece of code: what the instructions of the patches change.\<close>

definition at :: "ppc \<Rightarrow> (nat \<Rightarrow> u32) \<Rightarrow> (nat \<Rightarrow> u64) \<Rightarrow> (bank \<Rightarrow> nat \<Rightarrow> u8) \<Rightarrow> bool \<Rightarrow> u32 \<Rightarrow> ppc" where
  "at s g c m e a = s\<lparr>gpr := g, cr_val := c, ram := m, m_end_block := e, npc := a, pc := a\<rparr>"

lemma at_fields [simp]:
  "gpr (at s g c m e a) = g" "pc (at s g c m e a) = a" "npc (at s g c m e a) = a" "spr (at s g c m e a) = spr s"
  "cr_val (at s g c m e a) = c" "ram (at s g c m e a) = m" "dsi (at s g c m e a) = dsi s"
  by (simp_all add: at_def dsi_def)

lemma at_memory:
  "get_word (at s g c m e a) = get_word (s\<lparr>ram := m\<rparr>)" "get_byte (at s g c m e a) = get_byte (s\<lparr>ram := m\<rparr>)"
  "ram_region R (at s g c m e a) = ram_region R (s\<lparr>ram := m\<rparr>)"
  by (rule memory_frame; simp add: at_def)+

lemma at_self: "exec_code host code (Suc n) s = exec_code host code (Suc n) (at s (gpr s) (cr_val s) (ram s) (m_end_block s) (pc s))"
proof -
  have "s\<lparr>npc := b\<rparr> = (at s (gpr s) (cr_val s) (ram s) (m_end_block s) (pc s))\<lparr>npc := b\<rparr>" for b
    by (rule ppc.equality) (simp_all add: at_def)
  from this [of "pc s + 4"] show ?thesis by (cases "code (pc s)") simp_all
qed

lemma at_updates:
  "(at s g c m e a)\<lparr>npc := b, gpr := g', pc := b\<rparr> = at s g' c m e b"
  "(at s g c m e a)\<lparr>npc := b, cr_val := c', pc := b\<rparr> = at s g c' m e b"
  "(at s g c m e a)\<lparr>npc := b, ram := m', pc := b\<rparr> = at s g c m' e b"
  "(at s g c m e a)\<lparr>npc := b, m_end_block := e', pc := b\<rparr> = at s g c m e' b"
  "(at s g c m e a)\<lparr>npc := d, npc := b, m_end_block := e', pc := b\<rparr> = at s g c m e' b"
  by (rule ppc.equality; simp add: at_def)+

lemma exec_register:
  assumes "code a = Some i" "\<And>t. run_instruction host i t = Inr (set_gpr r (f (gpr t)) t)"
  shows "exec_code host code (Suc n) (at s g c m e a) = exec_code host code n (at s (g(r := f g)) c m e (a + 4))"
  using assms by (simp add: at_updates)

lemma exec_address:
  assumes "code a = Some (lis_of g' w)" "code (a + 4) = Some (ori_of g' w)" "take_bit 5 g' = g'" "unat g' = r"
  shows "exec_code host code (Suc (Suc n)) (at s g c m e a) = exec_code host code n (at s (g(r := w)) c m e (a + 8))"
proof -
  have "exec_code host code (Suc (Suc n)) (at s g c m e a) =
      exec_code host code (Suc n) (at s (g(r := push_bit 16 (drop_bit 16 w))) c m e (a + 4))"
    by (rule exec_register [where code = code and a = a and i = "lis_of g' w" and f = "\<lambda>_. push_bit 16 (drop_bit 16 w)"])
      (simp_all add: assms(1) run_lis_ori [OF assms(3)] assms(4))
  also have "\<dots> = exec_code host code n
      (at s (g(r := push_bit 16 (drop_bit 16 w), r := push_bit 16 (drop_bit 16 w) OR (w AND 0xffff))) c m e (a + 4 + 4))"
    by (subst exec_register [where code = code and a = "a + 4" and i = "ori_of g' w" and r = r and f = "\<lambda>g. g r OR (w AND 0xffff)"])
      (simp_all add: assms(2) run_lis_ori [OF assms(3)] assms(4) del: exec_code.simps)
  finally show ?thesis by (simp only: address_halves fun_upd_upd add.assoc) simp
qed

lemma exec_load:
  assumes "code a = Some i"
    and "\<And>t. run_instruction host i t = bind_ppc (Read_U32 (gpr t b) t) (\<lambda>(v, t). Inr (if dsi t then t else set_gpr r v t))"
    and "ram_region R (s\<lparr>ram := m\<rparr>)" "\<not> dsi s" "g b \<in> region_cells R 4"
  shows "exec_code host code (Suc n) (at s g c m e a) =
    exec_code host code n (at s (g(r := get_word (s\<lparr>ram := m\<rparr>) (g b))) c m e (a + 4))"
  using assms by (simp add: read_word at_memory bind_ppc_def at_updates)

lemma exec_load_byte:
  assumes "code a = Some i"
    and "\<And>t. run_instruction host i t = bind_ppc (Read_U8 (gpr t b) t) (\<lambda>(v, t). Inr (if dsi t then t else set_gpr r (ucast v) t))"
    and "ram_region R (s\<lparr>ram := m\<rparr>)" "\<not> dsi s" "g b \<in> region_cells R 1"
  shows "exec_code host code (Suc n) (at s g c m e a) =
    exec_code host code n (at s (g(r := ucast (get_byte (s\<lparr>ram := m\<rparr>) (g b)))) c m e (a + 4))"
  using assms by (simp add: read_byte at_memory bind_ppc_def at_updates)

lemma GetCRBit_cong: "cr_val t = cr_val s \<Longrightarrow> GetCRBit b t = GetCRBit b s"
  by (simp add: GetCRBit_def GetCRField_def)

lemma zero_test:
  "\<exists>c. SetCRField 0 (compare_flags (sint (w :: u32) < 0) (0 < sint w) s) s = s\<lparr>cr_val := c\<rparr>
    \<and> (\<forall>t. cr_val t = c \<longrightarrow> GetCRBit 2 t = of_bool (w = 0))"
proof -
  let ?t = "SetCRField 0 (compare_flags (sint w < 0) (0 < sint w) s) s"
  have w: "sint w = 0 \<longleftrightarrow> w = 0" using signed_eq_0_iff [of w] by blast
  have "?t = s\<lparr>cr_val := cr_val ?t\<rparr>" by (simp add: SetCRField_def)
  moreover have "GetCRBit 2 t = of_bool (w = 0)" if "cr_val t = cr_val ?t" for t
    unfolding GetCRBit_cong [OF that] using equal_bit [of "sint w" 0 s] unfolding w .
  ultimately show ?thesis by blast
qed

lemma exec_test:
  assumes "code a = Some 0x2c030000"
  shows "\<exists>c'. (\<forall>n. exec_code host code (Suc n) (at s g c m e a) = exec_code host code n (at s g c' m e (a + 4)))
    \<and> (\<forall>t. cr_val t = c' \<longrightarrow> GetCRBit 2 t = of_bool (g 3 = 0))"
proof -
  let ?t = "(at s g c m e a)\<lparr>npc := a + 4\<rparr>"
  obtain c' where c': "SetCRField 0 (compare_flags (sint (g 3) < 0) (0 < sint (g 3)) ?t) ?t = ?t\<lparr>cr_val := c'\<rparr>"
    "\<forall>t. cr_val t = c' \<longrightarrow> GetCRBit 2 t = of_bool (g 3 = 0)"
    using zero_test by blast
  have "exec_code host code (Suc n) (at s g c m e a) = exec_code host code n (at s g c' m e (a + 4))" for n
    using assms c'(1) by (simp add: run_integer at_updates)
  then show ?thesis using c'(2) by blast
qed

lemma exec_branch_zero:
  assumes "code a = Some i" "\<forall>t. cr_val t = c \<longrightarrow> GetCRBit 2 t = of_bool z"
    and "\<And>t. run_instruction host i t = Inr (t\<lparr>npc := if GetCRBit 2 t = 1 then pc t + d else npc t, m_end_block := True\<rparr>)"
  shows "exec_code host code (Suc n) (at s g c m e a) = exec_code host code n (at s g c m True (if z then a + d else a + 4))"
  using assms(2) [rule_format, of "(at s g c m e a)\<lparr>npc := a + 4\<rparr>"] assms(1,3) by (simp add: at_updates)

lemma exec_branch:
  assumes "code a = Some i" "\<And>t. run_instruction host i t = Inr (t\<lparr>npc := pc t + d, m_end_block := True\<rparr>)"
  shows "exec_code host code (Suc n) (at s g c m e a) = exec_code host code n (at s g c m True (a + d))"
  using assms by (simp add: at_updates)

lemma exec_store_word:
  assumes "code a = Some 0x90640000" "ram_region R (s\<lparr>ram := m\<rparr>)" "g 4 \<in> region_cells R 4"
  shows "\<exists>m'. (\<forall>n. exec_code host code (Suc n) (at s g c m e a) = exec_code host code n (at s g c m' e (a + 4)))
    \<and> get_word (s\<lparr>ram := m'\<rparr>) (g 4) = g 3
    \<and> (\<forall>b\<in>region_cells R 4. span 4 b \<inter> span 4 (g 4) = {} \<longrightarrow> get_word (s\<lparr>ram := m'\<rparr>) b = get_word (s\<lparr>ram := m\<rparr>) b)"
proof -
  let ?t = "(at s g c m e a)\<lparr>npc := a + 4\<rparr>"
  have "ram_region R ?t" using assms(2) by (simp add: at_memory)
  then obtain t' where t': "Write_U32 (g 3) (g 4) ?t = Inr t'" "region_state R ?t t'" "get_word t' (g 4) = g 3"
    "\<forall>b\<in>region_cells R 4. span 4 b \<inter> span 4 (g 4) = {} \<longrightarrow> get_word t' b = get_word ?t b"
    using words.wr [OF region_state_refl assms(3)] by blast
  obtain m' where m': "t' = ?t\<lparr>ram := m'\<rparr>" using t'(2) by (auto simp: region_state_def)
  have w: "get_word t' = get_word (s\<lparr>ram := m'\<rparr>)" "get_word ?t = get_word (s\<lparr>ram := m\<rparr>)"
    unfolding m' by (rule memory_frame; simp add: at_def)+
  have "exec_code host code (Suc n) (at s g c m e a) = exec_code host code n (at s g c m' e (a + 4))" for n
    using assms(1) t'(1) by (simp add: run_load_store m' at_updates)
  then show ?thesis using t'(3,4) unfolding w by blast
qed

lemma exec_store_byte:
  assumes "code a = Some 0x98a40000" "ram_region R (s\<lparr>ram := m\<rparr>)" "g 4 \<in> region_cells R 1"
  shows "\<exists>m'. (\<forall>n. exec_code host code (Suc n) (at s g c m e a) = exec_code host code n (at s g c m' e (a + 4)))
    \<and> get_byte (s\<lparr>ram := m'\<rparr>) (g 4) = ucast (g 5)
    \<and> (\<forall>b\<in>region_cells R 1. b \<noteq> g 4 \<longrightarrow> get_byte (s\<lparr>ram := m'\<rparr>) b = get_byte (s\<lparr>ram := m\<rparr>) b)"
proof -
  let ?t = "(at s g c m e a)\<lparr>npc := a + 4\<rparr>"
  have "ram_region R ?t" using assms(2) by (simp add: at_memory)
  then obtain t' where t': "Write_U8 (ucast (g 5)) (g 4) ?t = Inr t'" "region_state R ?t t'" "get_byte t' (g 4) = ucast (g 5)"
    "\<forall>b\<in>region_cells R 1. span 1 b \<inter> span 1 (g 4) = {} \<longrightarrow> get_byte t' b = get_byte ?t b"
    using bytes.wr [OF region_state_refl assms(3)] by blast
  obtain m' where m': "t' = ?t\<lparr>ram := m'\<rparr>" using t'(2) by (auto simp: region_state_def)
  have w: "get_byte t' = get_byte (s\<lparr>ram := m'\<rparr>)" "get_byte ?t = get_byte (s\<lparr>ram := m\<rparr>)"
    unfolding m' by (rule memory_frame; simp add: at_def)+
  have "exec_code host code (Suc n) (at s g c m e a) = exec_code host code n (at s g c m' e (a + 4))" for n
    using assms(1) t'(1) by (simp add: run_load_store m' at_updates)
  moreover have "span 1 b \<inter> span 1 (g 4) = {}" if "b \<noteq> g 4" for b
    using that by (simp add: span_def lessThan_Suc)
  ultimately show ?thesis using t'(3,4) unfolding w by blast
qed

section \<open>The change of the beam\<close>

declare exec_code.simps(2) [simp del]

text \<open>The code of Metroid Prime and of Metroid Prime 2, with their registers, jumps and exits.\<close>

definition takes_beam :: "host_functions \<Rightarrow> (u32 \<Rightarrow> u32 option) \<Rightarrow> u32 set \<Rightarrow> u32 \<Rightarrow> u32 \<Rightarrow> nat \<Rightarrow> nat \<Rightarrow> u32 \<Rightarrow> ppc \<Rightarrow> bool" where
  "takes_beam host code R flag beam x y exit s \<longleftrightarrow>
     (if get_word s flag = 0 then
        \<exists>t. exec_code host code 5 s = Inr t \<and> pc t = exit \<and> ram t = ram s \<and> spr t = spr s
          \<and> gpr t = (gpr s)(4 := flag, 3 := 0)
      else
        \<exists>t. exec_code host code 12 s = Inr t \<and> pc t = exit \<and> get_word t flag = 0 \<and> spr t = spr s
          \<and> gpr t = (gpr s)(4 := flag, 5 := beam, x := get_word s beam, y := get_word s beam, 3 := 0)
          \<and> (\<forall>b\<in>region_cells R 4. span 4 b \<inter> span 4 flag = {} \<longrightarrow> get_word t b = get_word s b))"

lemma takes_beam_code:
  assumes s: "ram_region R s" "\<not> dsi s" "flag \<in> region_cells R 4" "beam \<in> region_cells R 4"
    and code: "code (pc s) = Some (lis_of 4 flag)" "code (pc s + 4) = Some (ori_of 4 flag)"
      "code (pc s + 8) = Some 0x80640000" "code (pc s + 0xc) = Some 0x2c030000" "code (pc s + 0x10) = Some beq"
      "code (pc s + 0x14) = Some (lis_of 5 beam)" "code (pc s + 0x18) = Some (ori_of 5 beam)"
      "code (pc s + 0x1c) = Some ld" "code (pc s + 0x20) = Some mr" "code (pc s + 0x24) = Some 0x38600000"
      "code (pc s + 0x28) = Some 0x90640000" "code (pc s + 0x2c) = Some br"
    and beq: "\<And>t. run_instruction host beq t = Inr (t\<lparr>npc := if GetCRBit 2 t = 1 then pc t + d else npc t, m_end_block := True\<rparr>)"
    and ld: "\<And>t. run_instruction host ld t = bind_ppc (Read_U32 (gpr t 5) t) (\<lambda>(v, t). Inr (if dsi t then t else set_gpr x v t))"
    and mr: "\<And>t. run_instruction host mr t = Inr (set_gpr y (gpr t x) t)"
    and br: "\<And>t. run_instruction host br t = Inr (t\<lparr>npc := pc t + (d - 0x1c), m_end_block := True\<rparr>)"
    and regs: "x \<noteq> 3" "y \<noteq> 3" "x \<noteq> 4" "y \<noteq> 4" "x \<noteq> 5" "y \<noteq> 5" "x \<noteq> y"
  shows "takes_beam host code R flag beam x y (pc s + 0x10 + d) s"
proof -
  let ?g = "(gpr s)(4 := flag)" and ?a = "pc s"
  let ?h = "?g(3 := get_word s flag)" and ?z = "get_word s flag = 0"
  have r: "ram_region R (s\<lparr>ram := ram s\<rparr>)" using s(1) by simp
  have start: "exec_code host code (Suc (Suc (Suc (Suc n)))) s =
      exec_code host code (Suc n) (at s ?h (cr_val s) (ram s) (m_end_block s) (?a + 12))" for n
  proof -
    have "exec_code host code (Suc (Suc (Suc (Suc n)))) s = exec_code host code (Suc (Suc n))
        (at s ?g (cr_val s) (ram s) (m_end_block s) (?a + 8))"
      by (subst at_self) (rule exec_address [where code = code and a = ?a, OF code(1,2)], simp_all)
    also have "\<dots> = exec_code host code (Suc n) (at s ?h (cr_val s) (ram s) (m_end_block s) (?a + 8 + 4))"
      using exec_load [where code = code and a = "?a + 8" and s = s and m = "ram s" and g = ?g and b = 4 and r = 3, OF code(3) run_load_store(1) r s(2)] s(3) by simp
    finally show ?thesis by (simp only: add.assoc) simp
  qed
  obtain c where c: "\<And>n. exec_code host code (Suc n) (at s ?h (cr_val s) (ram s) (m_end_block s) (?a + 12)) =
      exec_code host code n (at s ?h c (ram s) (m_end_block s) (?a + 12 + 4))"
    "\<forall>t. cr_val t = c \<longrightarrow> GetCRBit 2 t = of_bool ?z"
    using exec_test [where code = code and a = "?a + 12" and s = s and g = ?h and m = "ram s", OF code(4)] by fastforce
  have test: "exec_code host code (Suc (Suc (Suc (Suc (Suc n))))) s =
      exec_code host code n (at s ?h c (ram s) True (if ?z then ?a + 0x10 + d else ?a + 0x14))" for n
  proof -
    have "exec_code host code (Suc (Suc (Suc (Suc (Suc n))))) s =
        exec_code host code (Suc n) (at s ?h c (ram s) (m_end_block s) (?a + 0x10))"
      unfolding start c(1) by (simp only: add.assoc) simp
    also have "\<dots> = exec_code host code n (at s ?h c (ram s) True (if ?z then ?a + 0x10 + d else ?a + 0x10 + 4))"
      by (rule exec_branch_zero [where code = code and a = "?a + 0x10", OF code(5) c(2) beq])
    finally show ?thesis by (simp only: add.assoc) simp
  qed
  show ?thesis
  proof (cases ?z)
    case True
    have "exec_code host code 5 s = Inr (at s ?h c (ram s) True (?a + 0x10 + d))"
    proof -
      have five: "(5 :: nat) = Suc (Suc (Suc (Suc (Suc 0))))" by simp
      show ?thesis unfolding five test using True by simp
    qed
    then show ?thesis using True by (simp add: takes_beam_def)
  next
    case False
    let ?w = "get_word s beam"
    let ?g1 = "?h(5 := beam)"
    let ?g2 = "?g1(x := ?w)"
    let ?g3 = "?g2(y := ?w)"
    let ?g4 = "?g3(3 := 0)"
    have "exec_code host code (Suc (Suc n)) (at s ?h c (ram s) True (?a + 0x14)) =
        exec_code host code n (at s ?g1 c (ram s) True (?a + 0x1c))" for n
      using exec_address [of code "?a + 0x14" 5 beam 5 host n s ?h] code(6,7) by (simp add: add.assoc)
    moreover have "exec_code host code (Suc n) (at s ?g1 c (ram s) True (?a + 0x1c)) =
        exec_code host code n (at s ?g2 c (ram s) True (?a + 0x20))" for n
      using exec_load [where code = code and a = "?a + 0x1c" and s = s and m = "ram s" and g = ?g1 and n = n, OF code(8) ld r s(2)] s(4) by (simp add: add.assoc)
    moreover have "exec_code host code (Suc n) (at s ?g2 c (ram s) True (?a + 0x20)) =
        exec_code host code n (at s ?g3 c (ram s) True (?a + 0x24))" for n
      using exec_register [where g = ?g2 and f = "\<lambda>g. g x" and code = code and a = "?a + 0x20" and n = n, OF code(9) mr]
      by (simp add: add.assoc)
    moreover have "exec_code host code (Suc n) (at s ?g3 c (ram s) True (?a + 0x24)) =
        exec_code host code n (at s ?g4 c (ram s) True (?a + 0x28))" for n
      using exec_register [where g = ?g3 and f = "\<lambda>_. 0" and code = code and a = "?a + 0x24" and n = n, OF code(10) run_integer(1)]
      by (simp add: add.assoc)
    moreover obtain m where m: "\<And>n. exec_code host code (Suc n) (at s ?g4 c (ram s) True (?a + 0x28)) =
        exec_code host code n (at s ?g4 c m True (?a + 0x2c))" "get_word (s\<lparr>ram := m\<rparr>) flag = 0"
      "\<forall>b\<in>region_cells R 4. span 4 b \<inter> span 4 flag = {} \<longrightarrow> get_word (s\<lparr>ram := m\<rparr>) b = get_word s b"
    proof -
      have "?g4 4 = flag" "?g4 3 = 0" using regs by simp_all
      then show ?thesis
        using that exec_store_word [where code = code and a = "?a + 0x28" and s = s and m = "ram s" and g = ?g4 and e = True and host = host and c = c, OF code(11) r] s(3)
        by (auto simp: add.assoc)
    qed
    moreover have "exec_code host code (Suc n) (at s ?g4 c m True (?a + 0x2c)) =
        exec_code host code n (at s ?g4 c m True (?a + 0x10 + d))" for n
      using exec_branch [where g = ?g4 and code = code and a = "?a + 0x2c" and n = n, OF code(12) br] by (simp add: algebra_simps)
    ultimately have "exec_code host code 12 s = Inr (at s ?g4 c m True (?a + 0x10 + d))"
      using test [of 7] False by (simp add: numeral_eq_Suc)
    moreover have "?g4 = (gpr s)(4 := flag, 5 := beam, x := ?w, y := ?w, 3 := 0)" using regs by auto
    ultimately show ?thesis using False m(2,3) by (simp add: takes_beam_def at_memory)
  qed
qed

lemma code_of_mp1:
  fixes p :: prime and a :: u32
  defines "code \<equiv> code_of (add_beam_change_code_mp1 p a)"
    and "flag \<equiv> get_address ''beamchange_flag'' p" and "beam \<equiv> get_address ''new_beam'' p"
  shows "code a = Some (lis_of 4 flag)" "code (a + 4) = Some (ori_of 4 flag)"
    "code (a + 8) = Some 0x80640000" "code (a + 0xc) = Some 0x2c030000" "code (a + 0x10) = Some 0x41820058"
    "code (a + 0x14) = Some (lis_of 5 beam)" "code (a + 0x18) = Some (ori_of 5 beam)"
    "code (a + 0x1c) = Some 0x83450000" "code (a + 0x20) = Some 0x7f59d378" "code (a + 0x24) = Some 0x38600000"
    "code (a + 0x28) = Some 0x90640000" "code (a + 0x2c) = Some 0x4800003c"
  by (simp_all add: code_def flag_def beam_def code_of_def add_beam_change_code_mp1_def make_lis_ori_def in_group_def
      Let_def lis_of_def ori_of_def)

lemma code_of_mp2:
  fixes p :: prime and a :: u32
  defines "code \<equiv> code_of (add_beam_change_code_mp2 p a)"
    and "flag \<equiv> get_address ''beamchange_flag'' p" and "beam \<equiv> get_address ''new_beam'' p"
  shows "code a = Some (lis_of 4 flag)" "code (a + 4) = Some (ori_of 4 flag)"
    "code (a + 8) = Some 0x80640000" "code (a + 0xc) = Some 0x2c030000" "code (a + 0x10) = Some 0x4182005c"
    "code (a + 0x14) = Some (lis_of 5 beam)" "code (a + 0x18) = Some (ori_of 5 beam)"
    "code (a + 0x1c) = Some 0x83e50000" "code (a + 0x20) = Some 0x7ffefb78" "code (a + 0x24) = Some 0x38600000"
    "code (a + 0x28) = Some 0x90640000" "code (a + 0x2c) = Some 0x48000040"
  by (simp_all add: code_def flag_def beam_def code_of_def add_beam_change_code_mp2_def make_lis_ori_def in_group_def
      Let_def lis_of_def ori_of_def)

text \<open>C39: the code for the change of the beam does what the hack asks of it.  It finds the two shared
  variables at the addresses the hack gave them; without a request (the flag is 0) it only passes to its
  exit; with one it loads the new beam into both registers the game takes it from, clears the flag, so
  that a request counts once, and goes to the same exit.  It disturbs no other memory and, besides the
  two, only the registers 3, 4 and 5.
\<close>

theorem beam_change_code:
  assumes "ram_region R s" "\<not> dsi s"
    and "get_address ''beamchange_flag'' p \<in> region_cells R 4" "get_address ''new_beam'' p \<in> region_cells R 4"
  shows "takes_beam host (code_of (add_beam_change_code_mp1 p (pc s))) R
      (get_address ''beamchange_flag'' p) (get_address ''new_beam'' p) 26 25 (pc s + 0x68) s
    \<and> takes_beam host (code_of (add_beam_change_code_mp2 p (pc s))) R
      (get_address ''beamchange_flag'' p) (get_address ''new_beam'' p) 31 30 (pc s + 0x6c) s"
proof
  show "takes_beam host (code_of (add_beam_change_code_mp1 p (pc s))) R
      (get_address ''beamchange_flag'' p) (get_address ''new_beam'' p) 26 25 (pc s + 0x68) s"
    using takes_beam_code [OF assms code_of_mp1 run_branch(1) run_load_store(2) run_integer(3), of host]
    by (simp add: run_branch add.assoc)
  show "takes_beam host (code_of (add_beam_change_code_mp2 p (pc s))) R
      (get_address ''beamchange_flag'' p) (get_address ''new_beam'' p) 31 30 (pc s + 0x6c) s"
    using takes_beam_code [OF assms code_of_mp2 run_branch(2) run_load_store(3) run_integer(4), of host]
    by (simp add: run_branch add.assoc)
qed

lemma game_ram_region: "ram_region game_memory (game_ppc\<lparr>ram := m, pc := a\<rparr>)"
proof -
  have "byte_place (game_ppc\<lparr>ram := m, pc := a\<rparr>) b = byte_place game_ppc b" for b
    by (simp add: byte_place_def hw_bank_def split: option.split)
  then have "byte_place (game_ppc\<lparr>ram := m, pc := a\<rparr>) = byte_place game_ppc" by (rule ext)
  then show ?thesis using game_region by (simp add: ram_region_def)
qed

lemma game_get:
  "k + 4 \<le> 2 ^ 24 \<Longrightarrow> get_word (game_ppc\<lparr>ram := m, pc := a\<rparr>) (0x80000000 + of_nat k) = ucast (read_be 4 (m Ram) k)"
  "k < 2 ^ 24 \<Longrightarrow> get_byte (game_ppc\<lparr>ram := m, pc := a\<rparr>) (0x80000000 + of_nat k) = m Ram k"
proof -
  let ?s = "game_ppc\<lparr>ram := m, pc := a\<rparr>"
  have b: "mem_byte ?s (0x80000000 + of_nat j) = m Ram j" if "j < 2 ^ 24" for j
  proof -
    have "byte_place ?s (0x80000000 + of_nat j) = byte_place game_ppc (0x80000000 + of_nat j)"
      by (simp add: byte_place_def hw_bank_def split: option.split)
    then show ?thesis using game_place [OF that] by (simp add: mem_byte_def)
  qed
  show "get_word ?s (0x80000000 + of_nat k) = ucast (read_be 4 (m Ram) k)" if "k + 4 \<le> 2 ^ 24"
  proof -
    have "mem_value ?s 4 (0x80000000 + of_nat k) = read_be 4 (\<lambda>i. m Ram (k + i)) 0"
      unfolding mem_value_def using that b [of "k + _"] by (intro read_be_cong) (simp add: add.assoc)
    then show ?thesis unfolding get_word_def by (simp only: read_be_shift)
  qed
  show "get_byte ?s (0x80000000 + of_nat k) = m Ram k" if "k < 2 ^ 24"
  proof -
    have "get_byte ?s (0x80000000 + of_nat k) = ucast (ucast (mem_byte ?s (0x80000000 + of_nat k)) :: u64)"
      unfolding get_byte_def mem_value_def One_nat_def read_be_byte by simp
    also have "\<dots> = ucast (ucast (m Ram k) :: u64)" unfolding b [OF that] ..
    also have "\<dots> = m Ram k" by (rule bit_word_eqI) (simp add: bit_ucast_iff)
    finally show ?thesis .
  qed
qed

lemma read_word_at: "read_be 4 m i =
    push_bit 8 (push_bit 8 (push_bit 8 (ucast (m i)) OR ucast (m (i + 1))) OR ucast (m (i + 2))) OR ucast (m (i + 3))"
proof -
  have four: "(4 :: nat) = Suc (Suc (Suc (Suc 0)))" by simp
  have numbers: "Suc 0 = 1" "Suc 1 = 2" "Suc 2 = 3" by simp_all
  show ?thesis
    unfolding four read_be_Suc read_be_0
    by (simp only: numbers push_bit_of_0 or.left_neutral add_0_right)
qed

text \<open>A request for beam 2 in Metroid Prime.\<close>

definition beam_request :: ppc where
  "beam_request = game_ppc\<lparr>ram := \<lambda>_. (\<lambda>_. 0)(0x4167 := 2, 0x416b := 1), pc := 0x8018e544\<rparr>"

theorem beam_change_code_witness:
  "\<forall>host. \<exists>t. exec_code host (code_of (add_beam_change_code_mp1
        (fold register_variable [''new_beam'', ''beamchange_flag''] game_start) 0x8018e544)) 12 beam_request = Inr t
    \<and> pc t = 0x8018e5ac \<and> gpr t 25 = 2 \<and> gpr t 26 = 2 \<and> get_word t 0x80004168 = 0 \<and> get_word t 0x80004164 = 2"
proof
  fix host
  let ?p = "fold register_variable [''new_beam'', ''beamchange_flag''] game_start"
  have "variables_list game_start = []" by (simp add: game_start_def)
  then have a: "get_address ''beamchange_flag'' ?p = 0x80004168" "get_address ''new_beam'' ?p = 0x80004164"
    by (simp_all add: get_address_def register_variable_def base_address_def max_variables_def)
  have w: "get_word beam_request 0x80004168 = 1" "get_word beam_request 0x80004164 = 2"
    using game_get(1) [of "0x4168"] game_get(1) [of "0x4164"]
    by (simp_all add: beam_request_def read_word_at)
  have c: "0x80004168 \<in> region_cells game_memory 4" "0x80004164 \<in> region_cells game_memory 4"
    using game_cell [of 4 "0x4168"] game_cell [of 4 "0x4164"] by simp_all
  have s: "ram_region game_memory beam_request" "\<not> dsi beam_request" "pc beam_request = 0x8018e544"
    unfolding beam_request_def by (rule game_ram_region) (simp_all add: dsi_def game_ppc_def ppc_zero_def)
  have d: "span 4 0x80004164 \<inter> span 4 (0x80004168 :: u32) = {}"
    by (simp add: span_def lessThan_nat_numeral lessThan_Suc)
  show "\<exists>t. exec_code host (code_of (add_beam_change_code_mp1 ?p 0x8018e544)) 12 beam_request = Inr t
    \<and> pc t = 0x8018e5ac \<and> gpr t 25 = 2 \<and> gpr t 26 = 2 \<and> get_word t 0x80004168 = 0 \<and> get_word t 0x80004164 = 2"
    using beam_change_code [OF s(1,2), of ?p host] c d unfolding a s(3) takes_beam_def w by (auto simp: w)
qed

text \<open>The trigger of the spring ball is consumed.  The code put into the game's test leaves the trigger
  byte in register 3, with the condition for the branch that follows, and clears the byte, so that one
  press makes one jump; no other byte of memory changes and, besides it, registers 4 and 5 only.
\<close>

theorem springball_consumed:
  assumes "ram_region R s" "\<not> dsi s" "get_address ''springball_trigger'' p \<in> region_cells R 1"
  shows "\<exists>t. exec_code host (code_of (springball_code p (pc s))) 6 s = Inr t \<and> pc t = pc s + 0x18
    \<and> gpr t = (gpr s)(4 := get_address ''springball_trigger'' p, 5 := 0,
         3 := ucast (get_byte s (get_address ''springball_trigger'' p)))
    \<and> GetCRBit 2 t = of_bool (get_byte s (get_address ''springball_trigger'' p) = 0)
    \<and> get_byte t (get_address ''springball_trigger'' p) = 0 \<and> spr t = spr s
    \<and> (\<forall>b\<in>region_cells R 1. b \<noteq> get_address ''springball_trigger'' p \<longrightarrow> get_byte t b = get_byte s b)"
proof -
  let ?ball = "get_address ''springball_trigger'' p" and ?a = "pc s" and ?code = "code_of (springball_code p (pc s))"
  let ?v = "get_byte s ?ball" and ?c = "cr_val s" and ?m = "ram s" and ?e = "m_end_block s"
  let ?g1 = "(gpr s)(4 := ?ball)"
  let ?g2 = "?g1(3 := ucast ?v)"
  let ?g3 = "?g2(5 := 0)"
  have r: "ram_region R (s\<lparr>ram := ram s\<rparr>)" using assms(1) by simp
  have code: "?code ?a = Some (lis_of 4 ?ball)" "?code (?a + 4) = Some (ori_of 4 ?ball)"
    "?code (?a + 8) = Some 0x88640000" "?code (?a + 0xc) = Some 0x38a00000" "?code (?a + 0x10) = Some 0x98a40000"
    "?code (?a + 0x14) = Some 0x2c030000"
    by (simp_all add: code_of_def springball_code_def make_lis_ori_def plain_def Let_def lis_of_def ori_of_def)
  have "exec_code host ?code (Suc (Suc n)) s = exec_code host ?code n (at s ?g1 ?c ?m ?e (?a + 8))" for n
    by (subst at_self) (rule exec_address [where code = ?code and a = ?a, OF code(1,2)], simp_all)
  moreover have "exec_code host ?code (Suc n) (at s ?g1 ?c ?m ?e (?a + 8)) =
      exec_code host ?code n (at s ?g2 ?c ?m ?e (?a + 0xc))" for n
    using exec_load_byte [where code = ?code and a = "?a + 8" and s = s and m = ?m and g = ?g1 and n = n,
        OF code(3) run_load_store(5) r assms(2)] assms(3) by (simp add: add.assoc)
  moreover have "exec_code host ?code (Suc n) (at s ?g2 ?c ?m ?e (?a + 0xc)) =
      exec_code host ?code n (at s ?g3 ?c ?m ?e (?a + 0x10))" for n
    using exec_register [where code = ?code and a = "?a + 0xc" and g = ?g2 and f = "\<lambda>_. 0" and n = n,
        OF code(4) run_integer(2)] by (simp add: add.assoc)
  moreover obtain m where m: "\<And>n. exec_code host ?code (Suc n) (at s ?g3 ?c ?m ?e (?a + 0x10)) =
      exec_code host ?code n (at s ?g3 ?c m ?e (?a + 0x14))" "get_byte (s\<lparr>ram := m\<rparr>) ?ball = 0"
    "\<forall>b\<in>region_cells R 1. b \<noteq> ?ball \<longrightarrow> get_byte (s\<lparr>ram := m\<rparr>) b = get_byte s b"
    using exec_store_byte [where code = ?code and a = "?a + 0x10" and s = s and m = ?m and g = ?g3 and e = ?e
        and host = host and c = ?c, OF code(5) r] assms(3) by (auto simp: add.assoc)
  moreover obtain c' where c': "\<And>n. exec_code host ?code (Suc n) (at s ?g3 ?c m ?e (?a + 0x14)) =
      exec_code host ?code n (at s ?g3 c' m ?e (?a + 0x18))" "\<forall>t. cr_val t = c' \<longrightarrow> GetCRBit 2 t = of_bool (?g3 3 = 0)"
    using exec_test [where code = ?code and a = "?a + 0x14" and s = s and g = ?g3 and m = m and c = ?c and e = ?e,
        OF code(6)] by (fastforce simp: add.assoc)
  ultimately have "exec_code host ?code 6 s = Inr (at s ?g3 c' m ?e (?a + 0x18))"
    by (simp add: numeral_eq_Suc)
  moreover have "unat ?v < 2 ^ 32" using unsigned_less [of ?v, where 'a = nat] by simp
  then have "(ucast ?v :: u32) = 0 \<longleftrightarrow> ?v = 0"
    by (simp add: word_unat_eq_iff unsigned_ucast_eq take_bit_nat_eq_self)
  then have "GetCRBit 2 (at s ?g3 c' m ?e (?a + 0x18)) = of_bool (?v = 0)" using c'(2) by simp
  moreover have "?g3 = (gpr s)(4 := ?ball, 5 := 0, 3 := ucast ?v)" by auto
  ultimately show ?thesis using m(2,3) by (simp add: at_memory)
qed

definition ball_request :: ppc where
  "ball_request = game_ppc\<lparr>ram := \<lambda>_. (\<lambda>_. 0)(0x4164 := 1), pc := 0x801476d0\<rparr>"

theorem springball_consumed_witness:
  "\<forall>host. \<exists>t. exec_code host (code_of (springball_code (register_variable ''springball_trigger'' game_start)
        0x801476d0)) 6 ball_request = Inr t
    \<and> pc t = 0x801476e8 \<and> gpr t 3 = 1 \<and> GetCRBit 2 t = 0 \<and> get_byte t 0x80004164 = 0"
proof
  fix host
  let ?p = "register_variable ''springball_trigger'' game_start"
  have "variables_list game_start = []" by (simp add: game_start_def)
  then have a: "get_address ''springball_trigger'' ?p = 0x80004164"
    by (simp add: get_address_def register_variable_def base_address_def max_variables_def)
  have w: "get_byte ball_request 0x80004164 = 1"
    using game_get(2) [of "0x4164"] by (simp add: ball_request_def)
  have c: "0x80004164 \<in> region_cells game_memory 1" using game_cell [of 1 "0x4164"] by simp
  have s: "ram_region game_memory ball_request" "\<not> dsi ball_request" "pc ball_request = 0x801476d0"
    unfolding ball_request_def by (rule game_ram_region) (simp_all add: dsi_def game_ppc_def ppc_zero_def)
  show "\<exists>t. exec_code host (code_of (springball_code ?p 0x801476d0)) 6 ball_request = Inr t
    \<and> pc t = 0x801476e8 \<and> gpr t 3 = 1 \<and> GetCRBit 2 t = 0 \<and> get_byte t 0x80004164 = 0"
    using springball_consumed [OF s(1,2), of ?p host] c unfolding a s(3) w by auto
qed

end
