(* ===== verification/Prime_Patching.thy ===== *)
theory Prime_Patching
  imports Prime_Game
begin

text \<open>
  The patches of a mod while the game runs: the groups of patches that are switched on and off, the
  writing of the patches into the memory of the game, and their removal.
\<close>

section \<open>Groups of patches\<close>

definition patch_change :: "patch \<Rightarrow> CodeChange" where
  "patch_change p = \<lparr>cc_address = fst p, cc_var = fst (snd p)\<rparr>"

definition patch_group :: "patch \<Rightarrow> string" where "patch_group p = snd (snd p)"

text \<open>The indices of the patches of a group.\<close>

definition group_indices :: "patch list \<Rightarrow> string \<Rightarrow> nat list" where
  "group_indices qs g = (if g = [] then [] else filter (\<lambda>i. patch_group (qs ! i) = g) [0..<length qs])"

lemma group_indices_snoc:
  "group_indices (qs @ [p]) g = group_indices qs g @ (if g \<noteq> [] \<and> patch_group p = g then [length qs] else [])"
  unfolding group_indices_def by (auto simp: nth_append intro!: filter_cong)

lemma group_indices_iff:
  "i \<in> set (group_indices qs g) \<longleftrightarrow> g \<noteq> [] \<and> i < length qs \<and> patch_group (qs ! i) = g"
  by (simp add: group_indices_def)

text \<open>A mod to which the patches \<open>qs\<close> were added after its construction.\<close>

definition fresh_patches :: "patch list \<Rightarrow> prime_mod \<Rightarrow> bool" where
  "fresh_patches qs m \<longleftrightarrow> code_changes m = map patch_change qs \<and> current_active_changes m = map patch_change qs
     \<and> pending_change_backups m = map fst qs \<and> original_instructions m = []
     \<and> (\<forall>g. code_groups m g = (if group_indices qs g = [] then None else Some (group_indices qs g, ENABLED)))"

lemma fresh_new_mod: "fresh_patches [] (new_mod c)"
  by (simp add: fresh_patches_def new_mod_def group_indices_def)

lemma fresh_add_code_change:
  assumes "fresh_patches qs m"
  shows "fresh_patches (qs @ [(addr, code, grp)]) (add_code_change addr code grp m)"
  using assms
  by (auto simp: fresh_patches_def add_code_change_def Let_def group_indices_snoc patch_change_def patch_group_def)

lemma add_code_changes_frame:
  "mod_class_of (add_code_changes qs m) = mod_class_of m" "mod_state (add_code_changes qs m) = mod_state m"
  by (induction qs arbitrary: m) (auto simp: add_code_changes_def add_code_change_def Let_def)

lemma fresh_add_code_changes:
  "fresh_patches rs m \<Longrightarrow> fresh_patches (rs @ qs) (add_code_changes qs m)"
proof (induction qs arbitrary: rs m)
  case (Cons p qs)
  obtain addr code grp where p: "p = (addr, code, grp)" by (cases p)
  have "fresh_patches ((rs @ [p]) @ qs) (add_code_changes qs (add_code_change addr code grp m))"
    unfolding p by (rule Cons.IH [OF fresh_add_code_change [OF Cons.prems]])
  then show ?case by (simp add: add_code_changes_def p)
qed (simp add: add_code_changes_def)

section \<open>Switching groups\<close>

lemma copy_changes_simps:
  assumes "\<forall>i\<in>set is. i < length xs" "length xs = length ys"
  shows "copy_changes is xs ys = Inr (map (\<lambda>i. if i \<in> set is then xs ! i else ys ! i) [0..<length ys])"
  using assms
proof (induction "is" arbitrary: ys)
  case Nil
  then show ?case by (simp add: map_nth)
next
  case (Cons i "is")
  then show ?case by (auto simp: nth_list_update)
qed

text \<open>The state a group was last given.\<close>

definition group_state :: "(string \<times> ModState) list \<Rightarrow> string \<Rightarrow> ModState" where
  "group_state ts g = (case map_of (rev ts) g of None \<Rightarrow> ENABLED | Some st \<Rightarrow> st)"

fun switch_groups :: "(string \<times> ModState) list \<Rightarrow> prime_mod \<Rightarrow> prime_fault + prime_mod" where
  "switch_groups [] m = Inr m"
| "switch_groups ((g, st) # ts) m =
     (case set_code_group_state g st m of Inl e \<Rightarrow> Inl e | Inr m \<Rightarrow> switch_groups ts m)"

text \<open>What is active: of each patch the code, or what was there before when its group is off.\<close>

definition active_patch :: "(string \<times> ModState) list \<Rightarrow> patch list \<Rightarrow> CodeChange list \<Rightarrow> nat \<Rightarrow> CodeChange" where
  "active_patch ts qs originals i =
     (if patch_group (qs ! i) = [] \<or> group_state ts (patch_group (qs ! i)) = ENABLED
      then patch_change (qs ! i) else originals ! i)"

definition groups_inv :: "patch list \<Rightarrow> CodeChange list \<Rightarrow> (string \<times> ModState) list \<Rightarrow> prime_mod \<Rightarrow> bool" where
  "groups_inv qs originals ts m \<longleftrightarrow> length originals = length qs \<and> code_changes m = map patch_change qs
     \<and> original_instructions m = originals
     \<and> current_active_changes m = map (active_patch ts qs originals) [0..<length qs]
     \<and> (\<forall>g. code_groups m g = (if group_indices qs g = [] then None else Some (group_indices qs g, group_state ts g)))"

lemma group_state_snoc: "group_state (ts @ [(g, st)]) h = (if h = g then st else group_state ts h)"
  by (simp add: group_state_def)

lemma set_code_group_state_inv:
  assumes "groups_inv qs originals ts m"
  shows "\<exists>m'. set_code_group_state g st m = Inr m' \<and> groups_inv qs originals (ts @ [(g, st)]) m'"
proof (cases "group_indices qs g = []")
  case True
  have "group_state (ts @ [(g, st)]) (patch_group (qs ! i)) = group_state ts (patch_group (qs ! i))"
    if "i < length qs" "patch_group (qs ! i) \<noteq> []" for i
  proof -
    have "i \<notin> set (group_indices qs g)" using True by simp
    then show ?thesis using that by (auto simp: group_state_snoc group_indices_iff)
  qed
  then have "active_patch (ts @ [(g, st)]) qs originals i = active_patch ts qs originals i" if "i < length qs" for i
    using that by (auto simp: active_patch_def)
  moreover have "(if group_indices qs h = [] then None else Some (group_indices qs h, group_state ts h)) =
      (if group_indices qs h = [] then None else Some (group_indices qs h, group_state (ts @ [(g, st)]) h))" for h
    using True by (auto simp: group_state_snoc)
  ultimately show ?thesis
    using assms True by (auto simp: set_code_group_state_def groups_inv_def)
next
  case False
  then have g: "g \<noteq> []" by (auto simp: group_indices_def)
  have cg: "code_groups m g = Some (group_indices qs g, group_state ts g)"
    using assms False by (simp add: groups_inv_def)
  show ?thesis
  proof (cases "group_state ts g = st")
    case True
    then have "group_state (ts @ [(g, st)]) = group_state ts" by (auto simp: group_state_snoc)
    then show ?thesis
      using assms cg True by (auto simp: set_code_group_state_def groups_inv_def active_patch_def)
  next
    case st: False
    let ?from = "if st = ENABLED then code_changes m else original_instructions m"
    let ?active = "current_active_changes m"
    have len: "length ?from = length qs" "length ?active = length qs" using assms by (auto simp: groups_inv_def)
    have "copy_changes (group_indices qs g) ?from ?active =
        Inr (map (\<lambda>i. if i \<in> set (group_indices qs g) then ?from ! i else ?active ! i) [0..<length ?active])"
      by (rule copy_changes_simps) (auto simp: len group_indices_iff)
    also have "map (\<lambda>i. if i \<in> set (group_indices qs g) then ?from ! i else ?active ! i) [0..<length ?active] =
        map (active_patch (ts @ [(g, st)]) qs originals) [0..<length qs]"
      unfolding len using assms g
      by (intro map_cong refl) (auto simp: group_indices_iff active_patch_def group_state_snoc groups_inv_def)
    finally have "set_code_group_state g st m = Inr (m\<lparr>code_groups := (code_groups m)(g \<mapsto> (group_indices qs g, st)),
        current_active_changes := map (active_patch (ts @ [(g, st)]) qs originals) [0..<length qs]\<rparr>)"
      using cg st by (simp add: set_code_group_state_def)
    then show ?thesis
      using assms False by (auto simp: groups_inv_def group_state_snoc)
  qed
qed

lemma switch_groups_inv:
  assumes "groups_inv qs originals ts m"
  shows "\<exists>m'. switch_groups us m = Inr m' \<and> groups_inv qs originals (ts @ us) m'"
  using assms
proof (induction us arbitrary: ts m)
  case (Cons u us)
  obtain g st where u: "u = (g, st)" by (cases u)
  obtain m1 where m1: "set_code_group_state g st m = Inr m1" "groups_inv qs originals (ts @ [(g, st)]) m1"
    using set_code_group_state_inv [OF Cons.prems] by blast
  then show ?case using Cons.IH [OF m1(2)] by (simp add: u)
qed simp

section \<open>Patches written and taken back\<close>

definition change_pair :: "CodeChange \<Rightarrow> u32 \<times> u32" where "change_pair c = (cc_address c, cc_var c)"

lemma unit_act_andthen:
  "unit_act (andthen f (\<lambda>_. g)) s = (case unit_act f s of Inl e \<Rightarrow> Inl e | Inr s \<Rightarrow> unit_act g s)"
  by (auto simp: unit_act_def andthen_def split: sum.split)

lemma for_each_apply:
  "unit_act (for_each (apply_change True) cs) s =
     write_at (\<lambda>v a. unit_act (apply_change True \<lparr>cc_address = a, cc_var = v\<rparr>)) (map change_pair cs) s"
proof (induction cs arbitrary: s)
  case (Cons c cs)
  obtain a v where "c = \<lparr>cc_address = a, cc_var = v\<rparr>" by (cases c)
  then show ?case using Cons by (simp add: unit_act_andthen change_pair_def split: sum.split)
qed (simp add: unit_act_def)

lemma read_originals_region:
  assumes "ram_region R (cpu s)" "set as \<subseteq> region_cells R 4"
  shows "read_originals as s = Inr (map (\<lambda>a. \<lparr>cc_address = a, cc_var = game_word s a\<rparr>) as, s)"
  using assms(2) by (induction as) (simp_all add: read32_region [OF assms(1)])

lemma any_differs_region:
  assumes "ram_region R (cpu s)" "cc_address ` set cs \<subseteq> region_cells R 4"
  shows "any_differs cs s = Inr (\<exists>c\<in>set cs. game_word s (cc_address c) \<noteq> cc_var c, s)"
  using assms(2) by (induction cs) (simp_all add: read32_region [OF assms(1)])

text \<open>The addresses of patches that can be written: words in memory that do not overlap.\<close>

definition writable :: "u32 set \<Rightarrow> u32 list \<Rightarrow> bool" where
  "writable R as \<longleftrightarrow> set as \<subseteq> region_cells R 4 \<and> apart 4 as"

definition same_but :: "u32 set \<Rightarrow> u32 list \<Rightarrow> prime \<Rightarrow> prime \<Rightarrow> bool" where
  "same_but R as s t \<longleftrightarrow> game_state R s t \<and>
     (\<forall>b\<in>region_cells R 4. (\<forall>a\<in>set as. span 4 b \<inter> span 4 a = {}) \<longrightarrow> game_word t b = game_word s b)"

lemma apply_changes_region:
  assumes "ram_region R (cpu s)" "writable R (map cc_address (get_changes_to_apply m))"
  shows "\<exists>t. apply_instruction_changes True m s = Inr ((), t) \<and> same_but R (map cc_address (get_changes_to_apply m)) s t
    \<and> (\<forall>c\<in>set (get_changes_to_apply m). game_word t (cc_address c) = cc_var c)"
proof -
  let ?cs = "get_changes_to_apply m" and ?wr = "\<lambda>v a. unit_act (apply_change True \<lparr>cc_address = a, cc_var = v\<rparr>)"
  have fst: "map fst (map change_pair ?cs) = map cc_address ?cs" by (simp add: change_pair_def)
  have "fst ` set (map change_pair ?cs) \<subseteq> region_cells R 4" "apart 4 (map fst (map change_pair ?cs))"
    using assms(2) unfolding fst by (auto simp: writable_def change_pair_def)
  then obtain t where t: "write_at ?wr (map change_pair ?cs) s = Inr t" "game_state R s t"
    "\<forall>(a, v)\<in>set (map change_pair ?cs). game_word t a = v"
    "\<forall>b\<in>region_cells R 4. (\<forall>a\<in>fst ` set (map change_pair ?cs). span 4 b \<inter> span 4 a = {}) \<longrightarrow> game_word t b = game_word s b"
    using patching.write_at_get [OF game_state_refl [OF assms(1)]] by blast
  have "apply_instruction_changes True m s = Inr ((), t)"
    using t(1) unfolding for_each_apply [symmetric] unit_act_Inr by (simp add: apply_instruction_changes_def)
  moreover have "same_but R (map cc_address ?cs) s t"
    using t(2,4) by (auto simp: same_but_def change_pair_def)
  moreover have "\<forall>c\<in>set ?cs. game_word t (cc_address c) = cc_var c"
    using t(3) by (auto simp: change_pair_def)
  ultimately show ?thesis by blast
qed

lemma frame_map_addresses: "map (cc_address \<circ> patch_change) qs = map fst qs"
  by (simp add: patch_change_def comp_def)

lemma default_on_state_change:
  "mod_class_of m \<notin> {Noclip, HudAdjuster} \<Longrightarrow> on_state_change st m = done_with m"
  by (cases "mod_class_of m") (auto simp: on_state_change_def)

text \<open>C37: PrimeHack leaves no trace.  A mod that is not initialised, enabled, and whose initialisation leaves the
  processor alone and adds the patches \<open>qs\<close>, in groups that were empty before, is prepared for a frame; the
  patches are words that do not overlap, in memory that the BATs translate, not all in place already; and
  the mod is not one of the two (noclip and the adjuster of the head-up display) that act when their state
  changes.  Then every patch is written, no word beside them changes, and no patch is due in the next frame.
  Whatever the game does to its memory afterwards, reverting the code changes puts back at each patch the
  word the game had there before, and changes no word beside them.
\<close>

theorem patches_reverted:
  assumes "ram_region R (cpu s)" "\<not> initialized m"
    and "init_mod others gm region m s = Inr ((True, m1), s1)" "cpu s1 = cpu s"
    and "fresh_patches qs m1" "mod_state m1 = ENABLED" "mod_class_of m1 \<notin> {Noclip, HudAdjuster}"
    and "writable R (map fst qs)" "\<exists>(a, v, g)\<in>set qs. game_word s a \<noteq> v"
  shows "\<exists>m2 s2. prepare_mod (mod_virtuals L file others) gm region m s = Inr (m2, s2)
    \<and> same_but R (map fst qs) s1 s2 \<and> (\<forall>(a, v, g)\<in>set qs. game_word s2 a = v)
    \<and> should_apply_changes m2 s2 = Inr (False, s2)
    \<and> (\<forall>t. ram_region R (cpu t) \<longrightarrow> (\<exists>m3 t'. revert_mod (mod_virtuals L file others) m2 t = Inr (m3, t')
         \<and> same_but R (map fst qs) t t' \<and> (\<forall>a\<in>fst ` set qs. game_word t' a = game_word s a)))"
proof -
  let ?V = "mod_virtuals L file others"
  let ?os = "map (\<lambda>a. \<lparr>cc_address = a, cc_var = game_word s1 a\<rparr>) (map fst qs)"
  let ?m = "mark_initialized m1"
  let ?m2 = "?m\<lparr>original_instructions := ?os, pending_change_backups := []\<rparr>"
  have r1: "ram_region R (cpu s1)" and w1: "game_word s1 = game_word s"
    using assms(1,4) by (simp_all add: game_word_def fun_eq_iff)
  have active: "get_changes_to_apply ?m = map patch_change qs" "get_changes_to_apply ?m2 = map patch_change qs"
    using assms(5,6) by (simp_all add: get_changes_to_apply_def mark_initialized_def fresh_patches_def)
  have addrs: "cc_address ` set (map patch_change qs) \<subseteq> region_cells R 4"
    using assms(8) by (auto simp: writable_def patch_change_def)
  have due: "should_apply_changes ?m s1 = Inr (True, s1)"
    unfolding should_apply_changes_def active any_differs_region [OF r1 addrs]
    using assms(9) w1 by (force simp: patch_change_def)
  have upd: "update_original_instructions ?m s1 = Inr (?m2, s1)"
    using read_originals_region [OF r1, of "map fst qs"] assms(5,8)
    by (simp add: update_original_instructions_def mark_initialized_def fresh_patches_def writable_def)
  obtain s2 where s2: "apply_instruction_changes True ?m2 s1 = Inr ((), s2)" "same_but R (map fst qs) s1 s2"
    "\<forall>c\<in>set (map patch_change qs). game_word s2 (cc_address c) = cc_var c"
  proof -
    have addr: "map cc_address (get_changes_to_apply ?m2) = map fst qs"
      unfolding active(2) by (simp only: map_map frame_map_addresses)
    then have "writable R (map cc_address (get_changes_to_apply ?m2))" using assms(8) by (simp only: addr)
    from apply_changes_region [OF r1 this] show ?thesis
      using that unfolding addr unfolding active(2) by blast
  qed
  have prep: "prepare_mod ?V gm region m s = Inr (?m2, s2)"
    using assms(2,3) due upd s2(1) by (simp add: prepare_mod_def mod_virtuals_def)
  have r2: "ram_region R (cpu s2)" using s2(2) by (simp add: same_but_def game_state_def)
  have calm: "should_apply_changes ?m2 s2 = Inr (False, s2)"
    unfolding should_apply_changes_def active any_differs_region [OF r2 addrs] using s2(3) by auto
  have "\<exists>m3 t'. revert_mod ?V ?m2 t = Inr (m3, t') \<and> same_but R (map fst qs) t t'
      \<and> (\<forall>a\<in>fst ` set qs. game_word t' a = game_word s a)" if t: "ram_region R (cpu t)" for t
  proof -
    let ?m3 = "?m2\<lparr>mod_state := DISABLED\<rparr>"
    have os: "get_changes_to_apply ?m3 = ?os" by (simp add: get_changes_to_apply_def)
    have addr: "map cc_address (get_changes_to_apply ?m3) = map fst qs" unfolding os by (simp add: comp_def)
    then have w: "writable R (map cc_address (get_changes_to_apply ?m3))" using assms(8) by (simp only: addr)
    obtain t' where t': "apply_instruction_changes True ?m3 t = Inr ((), t')" "same_but R (map fst qs) t t'"
      "\<forall>c\<in>set ?os. game_word t' (cc_address c) = cc_var c"
      using apply_changes_region [OF t w] unfolding addr unfolding os by blast
    have i: "initialized ?m2" by (simp add: mark_initialized_def)
    have cls: "mod_class_of ?m3 \<notin> {Noclip, HudAdjuster}" using assms(7) by (simp add: mark_initialized_def)
    have st: "set_state (v_on_state_change ?V) DISABLED ?m2 t = Inr (?m3, t)"
      unfolding set_state_def mod_virtuals_def virtuals.simps default_on_state_change [OF cls] done_with_def ..
    have "revert_mod ?V ?m2 t = Inr (?m3, t')"
      by (simp only: revert_mod_def i if_True andthen_def st t'(1) sum.case prod.case done_with_def)
    then show ?thesis using t'(2,3) w1 by auto
  qed
  then show ?thesis using prep s2(2,3) calm by (auto simp: patch_change_def)
qed

lemma game_start_word: "game_word game_start a = 0"
proof -
  have "mem_byte game_ppc b = 0" for b
    by (simp add: mem_byte_def game_ppc_def ppc_zero_def split: option.split)
  then show ?thesis
    by (simp add: game_word_def game_start_def get_word_def mem_value_def read_be_def numeral_eq_Suc)
qed

lemma words_apart: "apart 4 (map fst (ViewModifier_patches_mp2_gc NTSC_U))"
  by (simp add: ViewModifier_patches_mp2_gc_def plain_def in_group_def apart_def span_def
      lessThan_nat_numeral lessThan_Suc)

text \<open>The view modifier of Metroid Prime 2.\<close>

theorem patches_reverted_witness:
  "\<forall>L others. \<exists>m2 s2. prepare_mod (mod_virtuals L None others) PRIME_2_GCN NTSC_U ((new_mod ViewModifier)\<lparr>mod_state := ENABLED\<rparr>) game_start
      = Inr (m2, s2)
    \<and> game_word s2 0x801b0b38 = 0x60000000 \<and> should_apply_changes m2 s2 = Inr (False, s2)
    \<and> (\<exists>m3 t'. revert_mod (mod_virtuals L None others) m2 s2 = Inr (m3, t') \<and> game_word t' 0x801b0b38 = 0)"
proof (intro allI)
  fix L others
  let ?m = "(new_mod ViewModifier)\<lparr>mod_state := ENABLED\<rparr>" and ?qs = "ViewModifier_patches_mp2_gc NTSC_U"
  let ?R = game_memory and ?V = "mod_virtuals L None others"
  have qs: "?qs = [(0x801b0b38, 0x60000000, ''''), (0x802f84c0, 0x38600001, ''culling''), (0x802f84c4, 0x4e800020, ''culling'')]"
    by (simp add: ViewModifier_patches_mp2_gc_def plain_def in_group_def)
  have cells: "set (map fst ?qs) \<subseteq> region_cells ?R 4"
    using game_cell [of 4 "0x1b0b38"] game_cell [of 4 "0x2f84c0"] game_cell [of 4 "0x2f84c4"] unfolding qs by simp
  have fresh: "fresh_patches ?qs (add_code_changes ?qs ?m)"
    using fresh_add_code_changes [of "[]" ?m ?qs] by (simp add: fresh_patches_def new_mod_def group_indices_def)
  have ini: "init_mod others PRIME_2_GCN NTSC_U ?m game_start = Inr ((True, add_code_changes ?qs ?m), game_start)"
    by (simp add: init_mod_def new_mod_def ViewModifier_init_mod_def patched_def)
  have "\<exists>m2 s2. prepare_mod ?V PRIME_2_GCN NTSC_U ?m game_start = Inr (m2, s2)
    \<and> same_but ?R (map fst ?qs) game_start s2 \<and> (\<forall>(a, v, g)\<in>set ?qs. game_word s2 a = v)
    \<and> should_apply_changes m2 s2 = Inr (False, s2)
    \<and> (\<forall>t. ram_region ?R (cpu t) \<longrightarrow> (\<exists>m3 t'. revert_mod ?V m2 t = Inr (m3, t')
         \<and> same_but ?R (map fst ?qs) t t' \<and> (\<forall>a\<in>fst ` set ?qs. game_word t' a = game_word game_start a)))"
  proof (rule patches_reverted [OF _ _ ini _ fresh])
    show "ram_region ?R (cpu game_start)" by (simp add: game_start_def game_region)
    show "writable ?R (map fst ?qs)" using cells words_apart by (simp add: writable_def)
    show "\<exists>(a, v, g)\<in>set ?qs. game_word game_start a \<noteq> v" by (simp add: qs game_start_word)
  qed (simp_all add: add_code_changes_frame new_mod_def)
  then obtain m2 s2 where m2: "prepare_mod ?V PRIME_2_GCN NTSC_U ?m game_start = Inr (m2, s2)"
    "ram_region ?R (cpu s2)" "game_word s2 0x801b0b38 = 0x60000000" "should_apply_changes m2 s2 = Inr (False, s2)"
    "\<forall>t. ram_region ?R (cpu t) \<longrightarrow> (\<exists>m3 t'. revert_mod ?V m2 t = Inr (m3, t') \<and> game_word t' 0x801b0b38 = 0)"
    unfolding qs by (fastforce simp: same_but_def game_state_def game_start_word)
  then show "\<exists>m2 s2. prepare_mod ?V PRIME_2_GCN NTSC_U ?m game_start = Inr (m2, s2)
    \<and> game_word s2 0x801b0b38 = 0x60000000 \<and> should_apply_changes m2 s2 = Inr (False, s2)
    \<and> (\<exists>m3 t'. revert_mod ?V m2 s2 = Inr (m3, t') \<and> game_word t' 0x801b0b38 = 0)"
    by blast
qed

text \<open>C38: switching groups of patches is safe and does what it says.  After the patches \<open>qs\<close> have been added
  to a new mod and the words under them saved, any sequence of switches of groups succeeds (no index
  is out of range), and then a patch is active exactly if its group, if it has one, was last switched on
  or never switched; in the place of any other patch stands the word the game had there.
\<close>

theorem groups_follow_state:
  assumes "ram_region R (cpu s)" "set (map fst qs) \<subseteq> region_cells R 4"
  shows "\<exists>m. update_original_instructions (add_code_changes qs (new_mod c)) s = Inr (m, s) \<and>
    (\<forall>ts. \<exists>m'. switch_groups ts m = Inr m' \<and> current_active_changes m' =
       map (\<lambda>(a, v, g). if g = [] \<or> group_state ts g = ENABLED then \<lparr>cc_address = a, cc_var = v\<rparr>
                        else \<lparr>cc_address = a, cc_var = game_word s a\<rparr>) qs)"
proof -
  let ?new = "add_code_changes qs (new_mod c)" and ?os = "map (\<lambda>a. \<lparr>cc_address = a, cc_var = game_word s a\<rparr>) (map fst qs)"
  let ?m = "?new\<lparr>original_instructions := ?os, pending_change_backups := []\<rparr>"
  have f: "fresh_patches qs ?new" using fresh_add_code_changes [OF fresh_new_mod, of qs c] by simp
  have upd: "update_original_instructions ?new s = Inr (?m, s)"
    using read_originals_region [OF assms] f by (simp add: update_original_instructions_def fresh_patches_def)
  have "groups_inv qs ?os [] ?m"
    using f by (auto simp: groups_inv_def fresh_patches_def active_patch_def group_state_def
        intro!: nth_equalityI)
  then have inv: "\<exists>m'. switch_groups ts ?m = Inr m' \<and> groups_inv qs ?os ts m'" for ts
    using switch_groups_inv [of qs ?os "[]" ?m ts] by simp
  have eq: "map (active_patch ts qs ?os) [0..<length qs] =
       map (\<lambda>(a, v, g). if g = [] \<or> group_state ts g = ENABLED then \<lparr>cc_address = a, cc_var = v\<rparr>
                        else \<lparr>cc_address = a, cc_var = game_word s a\<rparr>) qs" for ts
    by (rule nth_equalityI) (auto simp: active_patch_def patch_change_def patch_group_def split: prod.split)
  show ?thesis
  proof (rule exI [of _ ?m], intro conjI allI)
    show "update_original_instructions ?new s = Inr (?m, s)" by (rule upd)
    fix ts
    obtain m' where m': "switch_groups ts ?m = Inr m'" "groups_inv qs ?os ts m'" using inv by blast
    then show "\<exists>m'. switch_groups ts ?m = Inr m' \<and> current_active_changes m' =
       map (\<lambda>(a, v, g). if g = [] \<or> group_state ts g = ENABLED then \<lparr>cc_address = a, cc_var = v\<rparr>
                        else \<lparr>cc_address = a, cc_var = game_word s a\<rparr>) qs"
      unfolding groups_inv_def eq by blast
  qed
qed

text \<open>One group off, on again, and another off.\<close>

theorem groups_follow_state_witness:
  "\<exists>m m'. update_original_instructions (add_code_changes [(0x80001000, 1, ''a''), (0x80001004, 2, ''b'')] (new_mod FpsControls)) game_start
      = Inr (m, game_start)
    \<and> switch_groups [(''a'', DISABLED), (''b'', CODE_DISABLED), (''a'', ENABLED)] m = Inr m'
    \<and> current_active_changes m' = [\<lparr>cc_address = 0x80001000, cc_var = 1\<rparr>, \<lparr>cc_address = 0x80001004, cc_var = 0\<rparr>]"
proof -
  let ?qs = "[(0x80001000, 1, ''a''), (0x80001004, 2, ''b'')] :: patch list"
  let ?ts = "[(''a'', DISABLED), (''b'', CODE_DISABLED), (''a'', ENABLED)]"
  have r: "ram_region game_memory (cpu game_start)" by (simp add: game_start_def game_region)
  have c: "set (map fst ?qs) \<subseteq> region_cells game_memory 4"
    using game_cell [of 4 "0x1000"] game_cell [of 4 "0x1004"] by simp
  obtain m m' where m: "update_original_instructions (add_code_changes ?qs (new_mod FpsControls)) game_start = Inr (m, game_start)"
    "switch_groups ?ts m = Inr m'" "current_active_changes m' =
       map (\<lambda>(a, v, g). if g = [] \<or> group_state ?ts g = ENABLED then \<lparr>cc_address = a, cc_var = v\<rparr>
                        else \<lparr>cc_address = a, cc_var = game_word game_start a\<rparr>) ?qs"
    using groups_follow_state [OF r c, of FpsControls] by blast
  have "current_active_changes m' = [\<lparr>cc_address = 0x80001000, cc_var = 1\<rparr>, \<lparr>cc_address = 0x80001004, cc_var = 0\<rparr>]"
    unfolding m(3) by (simp add: group_state_def game_start_word)
  then show ?thesis using m(1,2) by blast
qed

end
